(* ===== verification/Prelude.thy ===== *)
theory Prelude
  imports Main "HOL-Library.Word"
begin

text \<open>
  What the component theories share: the machine integers of the C code (\<open>cell\<close>, \<open>addr\<close>,
  \<open>byte\<close>, C's \<open>int\<close>), the result type of a C function (\<open>outcome\<close>), little-endian byte
  lists of words, and the lemma collections the component proofs draw on.
\<close>

unbundle bit_operations_syntax

named_theorems outcome_simps \<open>evaluation of sequenced C calls\<close>
named_theorems stack_simps \<open>reading the data stack after writes, drops and pushes\<close>
named_theorems rstack_simps \<open>reading the return stack after writes, drops and pushes\<close>
named_theorems kernel_defs \<open>the definitions of the kernel words\<close>
named_theorems engine_defs \<open>the definitions of the run-time words\<close>

section \<open>Machine integers\<close>

type_synonym byte = "8 word"
type_synonym cell = "64 word"   \<comment> \<open>\<open>int64_t\<close>; \<open>ucell\<close> is the same word read unsigned\<close>
type_synonym addr = "64 word"   \<comment> \<open>\<open>uintptr_t\<close> on the 64-bit hosts\<close>
type_synonym cint = "32 word"   \<comment> \<open>C's \<open>int\<close>\<close>

text \<open>Conversions C inserts silently: narrowing a cell to \<open>int\<close>, and widening an \<open>int\<close> to a
  cell, which sign-extends.\<close>

definition int_of_cell :: "cell \<Rightarrow> cint" where
  "int_of_cell v = ucast v"

definition cell_of_int :: "cint \<Rightarrow> cell" where
  "cell_of_int i = scast i"

lemma int_of_cell_of_nat [simp]: "int_of_cell (of_nat n) = of_nat n"
  unfolding int_of_cell_def by transfer simp

lemma sint_of_nat_32: "n < 2 ^ 31 \<Longrightarrow> sint (of_nat n :: cint) = int n"
proof -
  assume n: "n < 2 ^ 31"
  have "sint (of_nat n :: cint) = signed_take_bit 31 (int n)"
    by transfer simp
  also have "\<dots> = int n"
    using n by (intro signed_take_bit_int_eq_self) simp_all
  finally show ?thesis .
qed

lemma sint_of_nat_64: "n < 2 ^ 63 \<Longrightarrow> sint (of_nat n :: cell) = int n"
proof -
  assume n: "n < 2 ^ 63"
  have "sint (of_nat n :: cell) = signed_take_bit 63 (int n)"
    by transfer simp
  also have "\<dots> = int n"
    using n by (intro signed_take_bit_int_eq_self) simp_all
  finally show ?thesis .
qed

lemma cell_of_int_of_nat: "n < 2 ^ 31 \<Longrightarrow> cell_of_int (of_nat n) = of_nat n"
proof -
  assume n: "n < 2 ^ 31"
  have "cell_of_int (of_nat n) = word_of_int (sint (of_nat n :: cint))"
    by (simp add: cell_of_int_def)
  also have "\<dots> = of_nat n"
    unfolding sint_of_nat_32 [OF n] by simp
  finally show ?thesis .
qed

text \<open>The Forth truth values: 0 and -1 (all ones).\<close>

definition flag :: "bool \<Rightarrow> cell" where
  "flag b = (if b then -1 else 0)"

lemma flag_simps [simp]: "flag True = -1" "flag False = 0" "flag b = 0 \<longleftrightarrow> \<not> b" "flag b = -1 \<longleftrightarrow> b"
  by (auto simp: flag_def)

section \<open>What a C function does\<close>

text \<open>
  A C function returns (\<open>Ret\<close>), performs an operation whose result C leaves undefined or that
  traps (\<open>Undef\<close>: an access outside every mapped segment, a write to a read-only one, a
  division trap), ends the process (\<open>Exit\<close> with the status and what it wrote to standard
  error), waits for an answer of the operating system that the run does not contain
  (\<open>Blocked\<close>), or is still running when the fuel of the inner interpreter is used up
  (\<open>Timeout\<close>).
\<close>

datatype 'a outcome = Ret 'a | Undef | Exit int string | Blocked | Timeout

fun bindo :: "'a outcome \<Rightarrow> ('a \<Rightarrow> 'b outcome) \<Rightarrow> 'b outcome" where
  "bindo (Ret x) f = f x"
| "bindo Undef f = Undef"
| "bindo (Exit n z) f = Exit n z"
| "bindo Blocked f = Blocked"
| "bindo Timeout f = Timeout"

lemma bindo_Ret_right [outcome_simps, simp]: "bindo m Ret = m"
  by (cases m) auto

lemma bindo_assoc [outcome_simps]: "bindo (bindo m f) g = bindo m (\<lambda>x. bindo (f x) g)"
  by (cases m) auto

lemma bindo_eq_Ret: "bindo m f = Ret y \<longleftrightarrow> (\<exists>x. m = Ret x \<and> f x = Ret y)"
  by (cases m) auto

lemma bindo_neq_Timeout: "bindo m f \<noteq> Timeout \<Longrightarrow> m \<noteq> Timeout"
  by (cases m) auto

lemma bindo_cong [fundef_cong]:
  "m = m' \<Longrightarrow> (\<And>x. m' = Ret x \<Longrightarrow> f x = g x) \<Longrightarrow> bindo m f = bindo m' g"
  by (cases m) auto

lemma bindo_if [outcome_simps]:
  "bindo (if P then m else m') f = (if P then bindo m f else bindo m' f)"
  by simp

text \<open>The flat order: an unfinished run is below every result it may still have.\<close>

instantiation outcome :: (type) order_bot
begin

definition bot_outcome :: "'a outcome" where "bot_outcome = Timeout"

definition less_eq_outcome :: "'a outcome \<Rightarrow> 'a outcome \<Rightarrow> bool" where
  "less_eq_outcome m m' \<longleftrightarrow> (m \<noteq> Timeout \<longrightarrow> m' = m)"

definition less_outcome :: "'a outcome \<Rightarrow> 'a outcome \<Rightarrow> bool" where
  "less_outcome m m' \<longleftrightarrow> m = Timeout \<and> m' \<noteq> Timeout"

instance
  by standard (auto simp: bot_outcome_def less_eq_outcome_def less_outcome_def)

end

lemma bindo_mono:
  "m \<le> m' \<Longrightarrow> (\<And>x. k x \<le> k' x) \<Longrightarrow> bindo m k \<le> bindo m' k'"
  by (cases m) (auto simp: less_eq_outcome_def)

section \<open>Words as little-endian byte lists\<close>

fun le_word :: "byte list \<Rightarrow> 'a::len word" where
  "le_word [] = 0"
| "le_word (b # bs) = ucast b OR push_bit 8 (le_word bs)"

fun le_bytes :: "nat \<Rightarrow> 'a::len word \<Rightarrow> byte list" where
  "le_bytes 0 w = []"
| "le_bytes (Suc n) w = ucast w # le_bytes n (drop_bit 8 w)"

lemma length_le_bytes [simp]: "length (le_bytes n w) = n"
  by (induction n arbitrary: w) auto

lemma le_word_le_bytes: "le_word (le_bytes n w) = take_bit (8 * n) w"
proof (induction n arbitrary: w)
  case 0
  then show ?case by simp
next
  case (Suc n)
  show ?case
    by (rule bit_word_eqI) (auto simp: Suc bit_simps not_less)
qed

lemma byte_bit_high [simp]: "8 \<le> n \<Longrightarrow> \<not> bit (b :: byte) n"
  using bit_imp_le_length [of b n] by auto

lemma le_bytes_take_bit: "le_bytes n (take_bit (8 * n) w) = le_bytes n (w :: 'a::len word)"
proof (induction n arbitrary: w)
  case (Suc n)
  have "drop_bit 8 (take_bit (8 * Suc n) w) = take_bit (8 * n) (drop_bit 8 w)"
    by (simp add: drop_bit_take_bit)
  moreover have "(ucast (take_bit (8 * Suc n) w) :: byte) = ucast w"
    by (intro bit_word_eqI) (auto simp: bit_simps)
  ultimately show ?case using Suc by simp
qed simp

lemma le_word_zeroes [simp]: "le_word (replicate n 0) = 0"
  by (induction n) auto

lemma le_bytes_le_word:
  "8 * length bs \<le> LENGTH('a) \<Longrightarrow> le_bytes (length bs) (le_word bs :: 'a::len word) = bs"
proof (induction bs)
  case Nil
  then show ?case by simp
next
  case (Cons b bs)
  let ?w = "ucast b OR push_bit 8 (le_word bs) :: 'a word"
  have hd: "ucast ?w = b"
    using Cons.prems by (intro bit_word_eqI) (auto simp: bit_simps)
  have "take_bit (8 * length bs) (drop_bit 8 ?w) = take_bit (8 * length bs) (le_word bs)"
    using Cons.prems by (intro bit_word_eqI) (auto simp: bit_simps)
  then have "le_bytes (length bs) (drop_bit 8 ?w) = le_bytes (length bs) (le_word bs :: 'a word)"
    using le_bytes_take_bit by metis
  with hd Cons show ?case by simp
qed

text \<open>Simplification writes a shift by one as a multiplication.\<close>

lemma bit_word_double: "bit ((c :: 'a::len word) * 2) n \<longleftrightarrow> 0 < n \<and> n < LENGTH('a) \<and> bit c (n - 1)"
proof -
  have "bit (push_bit 1 c) n \<longleftrightarrow> 1 \<le> n \<and> n < LENGTH('a) \<and> bit c (n - 1)"
    by (simp only: bit_push_bit_iff possible_bit_word)
  then show ?thesis by (simp add: Suc_le_eq)
qed

section \<open>Distances between addresses\<close>

lemma unat_less_64: "unat (a :: addr) < 2 ^ 64"
proof -
  have "unat a < 2 ^ LENGTH(64)" by (rule unsigned_less)
  then show ?thesis by simp
qed

lemma unat_minus_swap: "(a::addr) \<noteq> b \<Longrightarrow> unat (b - a) + unat (a - b) = 2 ^ 64"
  using unat_less_64 [of a] unat_less_64 [of b]
  by (auto simp: unat_sub_if_size word_size word_unat_eq_iff)

lemma unat_add_no_wrap:
  fixes a b :: addr
  assumes "unat a + unat b < 2 ^ 64"
  shows "unat (a + b) = unat a + unat b"
  using assms by (simp add: unat_add_lem [THEN iffD1])

lemma unat_diff_no_wrap: "unat (b :: addr) \<le> unat a \<Longrightarrow> unat (a - b) = unat a - unat b"
  by (simp add: unat_sub word_le_nat_alt)

lemma unat_add_small:
  assumes "unat (a :: addr) + i < 2 ^ 64"
  shows "unat (a + of_nat i) = unat a + i"
proof -
  have "unat (of_nat i :: addr) = i"
    using assms by (simp add: unat_of_nat)
  with assms show ?thesis by (simp add: unat_add_lem [THEN iffD1])
qed

end
