(* ===== verification/Memory.thy ===== *)
theory Memory
  imports Prelude
begin

text \<open>
  The byte-addressed memory of the process: reading and writing byte strings, 64-bit cells
  (little-endian, as on the hosts the program is configured for), segments of mapped
  addresses, and the interface \<open>cell_store\<close> through which the stacks use it.
\<close>

section \<open>Bytes\<close>

type_synonym memory = "addr \<Rightarrow> byte"

definition rd_bytes :: "memory \<Rightarrow> addr \<Rightarrow> nat \<Rightarrow> byte list" where
  "rd_bytes m a n = map (\<lambda>i. m (a + of_nat i)) [0..<n]"

definition wr_bytes :: "memory \<Rightarrow> addr \<Rightarrow> byte list \<Rightarrow> memory" where
  "wr_bytes m a bs = (\<lambda>x. if unat (x - a) < length bs then bs ! unat (x - a) else m x)"

definition disj :: "addr \<Rightarrow> nat \<Rightarrow> addr \<Rightarrow> nat \<Rightarrow> bool" where
  "disj a n b k \<longleftrightarrow> n \<le> unat (b - a) \<and> k \<le> unat (a - b)"

lemma length_rd_bytes [simp]: "length (rd_bytes m a n) = n"
  by (simp add: rd_bytes_def)

lemma nth_rd_bytes [simp]: "i < n \<Longrightarrow> rd_bytes m a n ! i = m (a + of_nat i)"
  by (simp add: rd_bytes_def)

lemma rd_bytes_0 [simp]: "rd_bytes m a 0 = []"
  by (simp add: rd_bytes_def)

lemma wr_bytes_Nil [simp]: "wr_bytes m a [] = m"
  by (simp add: wr_bytes_def)

lemma rd_wr_bytes_same:
  "length bs \<le> 2 ^ 64 \<Longrightarrow> rd_bytes (wr_bytes m a bs) a (length bs) = bs"
  by (rule nth_equalityI) (auto simp: wr_bytes_def unat_of_nat)

lemma disj_sym: "disj a n b k \<longleftrightarrow> disj b k a n"
  by (auto simp: disj_def)

lemma disj_mono: "disj a n b k \<Longrightarrow> n' \<le> n \<Longrightarrow> k' \<le> k \<Longrightarrow> disj a n' b k'"
  by (auto simp: disj_def)

lemma disj_above:
  assumes "unat b + k \<le> unat a" "unat a + n \<le> 2 ^ 64" "0 < k"
  shows "disj a n b k"
proof -
  have "a \<noteq> b" using assms by auto
  then have "unat (b - a) + unat (a - b) = 2 ^ 64" by (rule unat_minus_swap)
  moreover have "unat (a - b) = unat a - unat b"
    using assms by (intro unat_diff_no_wrap) simp
  ultimately show ?thesis using assms unfolding disj_def by (intro conjI) linarith+
qed

lemma disj_offset:
  assumes "disj a n b k" and "i < k"
  shows "unat (b + of_nat i - a) = unat (b - a) + i"
proof (cases "a = b")
  case True
  with assms show ?thesis by (simp add: disj_def)
next
  case False
  then have "unat (b - a) + i < 2 ^ 64"
    using unat_minus_swap [of a b] assms by (auto simp: disj_def)
  from unat_add_small [OF this] show ?thesis by (simp add: algebra_simps)
qed

lemma wr_bytes_outside:
  "disj a (length bs) b k \<Longrightarrow> i < k \<Longrightarrow> wr_bytes m a bs (b + of_nat i) = m (b + of_nat i)"
  by (simp add: wr_bytes_def disj_offset) (simp add: disj_def)

lemma rd_wr_bytes_disj:
  "disj a (length bs) b k \<Longrightarrow> rd_bytes (wr_bytes m a bs) b k = rd_bytes m b k"
  by (rule nth_equalityI) (auto simp: wr_bytes_outside)

section \<open>Cells\<close>

definition rd64 :: "memory \<Rightarrow> addr \<Rightarrow> cell" where
  "rd64 m a = le_word (rd_bytes m a 8)"

definition wr64 :: "memory \<Rightarrow> addr \<Rightarrow> cell \<Rightarrow> memory" where
  "wr64 m a v = wr_bytes m a (le_bytes 8 v)"

definition sep :: "addr \<Rightarrow> addr \<Rightarrow> bool" where
  "sep a b \<longleftrightarrow> disj a 8 b 8"

lemma rd64_wr64_same: "rd64 (wr64 m a v) a = v"
proof -
  have "rd_bytes (wr_bytes m a (le_bytes 8 v)) a (length (le_bytes 8 v)) = le_bytes 8 v"
    by (rule rd_wr_bytes_same) simp
  then show ?thesis
    by (simp add: rd64_def wr64_def le_word_le_bytes take_bit_length_eq [where 'a = 64, simplified])
qed

lemma rd64_wr64_sep: "sep a b \<Longrightarrow> rd64 (wr64 m a v) b = rd64 m b"
  by (simp add: rd64_def wr64_def sep_def rd_wr_bytes_disj)

lemma rd_bytes_wr64: "disj a 8 b k \<Longrightarrow> rd_bytes (wr64 m a v) b k = rd_bytes m b k"
  by (simp add: wr64_def rd_wr_bytes_disj)

lemma rd64_wr_bytes: "disj a (length bs) b 8 \<Longrightarrow> rd64 (wr_bytes m a bs) b = rd64 m b"
  by (simp add: rd64_def rd_wr_bytes_disj)

section \<open>The interface of a store of cells\<close>

text \<open>Cells that lie at whole-cell distances from each other, as the cells of a stack do, do
  not overlap.\<close>

lemma sep_slots:
  assumes "i \<noteq> j" "i < 2 ^ 60" "j < 2 ^ 60"
  shows "sep (p + of_nat i * 8) (p + of_nat j * 8)"
proof -
  have gen: "8 \<le> unat (p + of_nat b * 8 - (p + of_nat a * 8)) \<and>
      8 \<le> unat (p + of_nat a * 8 - (p + of_nat b * 8))"
    if "a < b" "b < 2 ^ 60" for a b :: nat
  proof -
    let ?d = "of_nat (8 * (b - a)) :: addr"
    let ?x = "p + of_nat a * 8" and ?y = "p + of_nat b * 8"
    have d: "?y - ?x = ?d"
      using that by (simp add: algebra_simps)
    have u: "unat ?d = 8 * (b - a)"
      unfolding unat_of_nat using that by simp
    have "8 * (b - a) \<noteq> 0" using that by simp
    then have "?x \<noteq> ?y"
      using d u by (metis diff_self unat_0)
    from unat_minus_swap [OF this] have "8 * (b - a) + unat (?x - ?y) = 2 ^ 64"
      unfolding d u .
    moreover have "8 \<le> 8 * (b - a)" and "8 * (b - a) + 8 \<le> 2 ^ 64"
      using that by simp_all
    ultimately show ?thesis unfolding d u by (intro conjI; linarith)
  qed
  show ?thesis
    using assms gen [of i j] gen [of j i] by (cases "i < j") (auto simp: sep_def disj_def)
qed

locale cell_store =
  fixes rd :: "'m \<Rightarrow> addr \<Rightarrow> cell"
    and wr :: "'m \<Rightarrow> addr \<Rightarrow> cell \<Rightarrow> 'm"
  assumes rd_wr_same: "rd (wr m a v) a = v"
    and rd_wr_sep: "sep a b \<Longrightarrow> rd (wr m a v) b = rd m b"
begin

lemma slot:
  "i < 2 ^ 60 \<Longrightarrow> j < 2 ^ 60 \<Longrightarrow>
    rd (wr m (p + of_nat j * 8) v) (p + of_nat i * 8) = (if i = j then v else rd m (p + of_nat i * 8))"
  by (simp add: rd_wr_same rd_wr_sep sep_slots)

lemma slot_same: "rd (wr m a v) a = v"
  by (rule rd_wr_same)

end

interpretation mem64: cell_store rd64 wr64
  by unfold_locales (rule rd64_wr64_same, erule rd64_wr64_sep)

section \<open>Mapped segments\<close>

record seg =
  seg_base :: addr
  seg_len :: nat
  seg_wr :: bool

definition in_seg :: "seg \<Rightarrow> addr \<Rightarrow> nat \<Rightarrow> bool" where
  "in_seg g a n \<longleftrightarrow> unat (a - seg_base g) + n \<le> seg_len g"

definition racc :: "seg list \<Rightarrow> addr \<Rightarrow> nat \<Rightarrow> bool" where
  "racc gs a n \<longleftrightarrow> n = 0 \<or> list_ex (\<lambda>g. in_seg g a n) gs"

definition wacc :: "seg list \<Rightarrow> addr \<Rightarrow> nat \<Rightarrow> bool" where
  "wacc gs a n \<longleftrightarrow> n = 0 \<or> list_ex (\<lambda>g. seg_wr g \<and> in_seg g a n) gs"

definition segs_disj :: "seg \<Rightarrow> seg \<Rightarrow> bool" where
  "segs_disj g h \<longleftrightarrow> disj (seg_base g) (seg_len g) (seg_base h) (seg_len h)"

lemma wacc_racc: "wacc gs a n \<Longrightarrow> racc gs a n"
  by (auto simp: wacc_def racc_def list_ex_iff)

lemma racc_0 [simp]: "racc gs a 0"
  by (simp add: racc_def)

lemma wacc_0 [simp]: "wacc gs a 0"
  by (simp add: wacc_def)

lemma in_seg_mono: "in_seg g a n \<Longrightarrow> k \<le> n \<Longrightarrow> in_seg g a k"
  by (simp add: in_seg_def)

lemma in_seg_disj:
  assumes d: "segs_disj g h" and a: "in_seg g a n" and b: "in_seg h b k" and pos: "0 < n" "0 < k"
  shows "disj a n b k"
proof -
  let ?G = "seg_base g" and ?H = "seg_base h"
  let ?x = "a - ?G" and ?y = "b - ?H"
  have x: "unat ?x + n \<le> seg_len g" and y: "unat ?y + k \<le> seg_len h"
    using a b by (auto simp: in_seg_def)
  have gh: "seg_len g \<le> unat (?H - ?G)" "seg_len h \<le> unat (?G - ?H)"
    using d by (auto simp: segs_disj_def disj_def)
  have "?G \<noteq> ?H" using gh x pos by auto
  note sum = unat_minus_swap [OF this]
  have u1: "unat ((?H - ?G) + ?y) = unat (?H - ?G) + unat ?y"
    by (rule unat_add_no_wrap) (use gh sum y pos in linarith)
  have u2: "unat ((?G - ?H) + ?x) = unat (?G - ?H) + unat ?x"
    by (rule unat_add_no_wrap) (use gh sum x pos in linarith)
  have e: "(?H - ?G) + ?y - ?x = b - a" "(?G - ?H) + ?x - ?y = a - b"
    by simp_all
  have "unat ((?H - ?G) + ?y - ?x) = unat (?H - ?G) + unat ?y - unat ?x"
    using gh x u1 by (subst unat_diff_no_wrap) auto
  moreover have "unat ((?G - ?H) + ?x - ?y) = unat (?G - ?H) + unat ?x - unat ?y"
    using gh y u2 by (subst unat_diff_no_wrap) auto
  ultimately show ?thesis using gh x y unfolding disj_def e by (intro conjI; linarith)
qed

section \<open>Memories that agree on a segment\<close>

definition same_on :: "seg \<Rightarrow> memory \<Rightarrow> memory \<Rightarrow> bool" where
  "same_on g m m' \<longleftrightarrow> (\<forall>a. in_seg g a 1 \<longrightarrow> m' a = m a)"

lemma same_on_refl [simp]: "same_on g m m"
  by (simp add: same_on_def)

lemma same_on_trans: "same_on g m m' \<Longrightarrow> same_on g m' m'' \<Longrightarrow> same_on g m m''"
  by (simp add: same_on_def)

lemma in_seg_byte:
  assumes "in_seg g a n" "i < n" "seg_len g \<le> 2 ^ 63"
  shows "in_seg g (a + of_nat i) 1"
proof -
  have "unat (a - seg_base g + of_nat i) = unat (a - seg_base g) + i"
    by (rule unat_add_small) (use assms in \<open>auto simp: in_seg_def\<close>)
  then show ?thesis
    using assms by (simp add: in_seg_def algebra_simps)
qed

lemma rd_bytes_same_on:
  "same_on g m m' \<Longrightarrow> in_seg g a n \<Longrightarrow> seg_len g \<le> 2 ^ 63 \<Longrightarrow> rd_bytes m' a n = rd_bytes m a n"
  using in_seg_byte [of g a n] by (auto simp: rd_bytes_def same_on_def)

lemma rd64_same_on:
  "same_on g m m' \<Longrightarrow> in_seg g a 8 \<Longrightarrow> seg_len g \<le> 2 ^ 63 \<Longrightarrow> rd64 m' a = rd64 m a"
  by (simp add: rd64_def rd_bytes_same_on)

lemma same_on_wr_bytes:
  assumes "segs_disj h g" "in_seg h a (length bs)"
  shows "same_on g m (wr_bytes m a bs)"
proof (cases "bs = []")
  case False
  have "wr_bytes m a bs b = m b" if "in_seg g b 1" for b
    using wr_bytes_outside [of a bs b 1 0 m] in_seg_disj [OF assms that] False by simp
  then show ?thesis by (simp add: same_on_def)
qed simp

lemma same_on_wr64: "segs_disj h g \<Longrightarrow> in_seg h a 8 \<Longrightarrow> same_on g m (wr64 m a v)"
  by (simp add: wr64_def same_on_wr_bytes)

section \<open>C strings\<close>

text \<open>\<open>strlen\<close>: the distance to the first null byte, if there is one before the end of the
  segment the string lies in.\<close>

fun find0 :: "memory \<Rightarrow> addr \<Rightarrow> nat \<Rightarrow> nat option" where
  "find0 m a 0 = None"
| "find0 m a (Suc n) = (if m a = 0 then Some 0 else map_option Suc (find0 m (a + 1) n))"

definition seg_room :: "seg list \<Rightarrow> addr \<Rightarrow> nat" where
  "seg_room gs a = fold max (map (\<lambda>g. seg_len g - unat (a - seg_base g)) gs) 0"

definition cstrlen :: "seg list \<Rightarrow> memory \<Rightarrow> addr \<Rightarrow> nat option" where
  "cstrlen gs m a = find0 m a (seg_room gs a)"

lemma find0_Some:
  "find0 m a n = Some k \<longleftrightarrow> k < n \<and> m (a + of_nat k) = 0 \<and> (\<forall>i < k. m (a + of_nat i) \<noteq> 0)"
proof (induction n arbitrary: a k)
  case 0
  then show ?case by simp
next
  case (Suc n)
  show ?case
  proof (cases k)
    case 0
    then show ?thesis by auto
  next
    case (Suc j)
    have "(\<forall>i < Suc j. m (a + of_nat i) \<noteq> 0) \<longleftrightarrow> m a \<noteq> 0 \<and> (\<forall>i < j. m (a + 1 + of_nat i) \<noteq> 0)"
      by (auto simp: less_Suc_eq_0_disj add.assoc)
    then show ?thesis
      using Suc Suc.IH [of "a + 1" j] by (auto simp: add.assoc)
  qed
qed

lemma fold_max_ge: "x \<in> set xs \<Longrightarrow> (x::nat) \<le> fold max xs b" "b \<le> fold max xs b"
  by (induction xs arbitrary: b) (auto intro: le_trans [OF max.cobounded1] le_trans [OF max.cobounded2])

lemma fold_max_in: "fold max xs b = b \<or> fold max xs b \<in> set (xs :: nat list)"
proof (induction xs arbitrary: b)
  case (Cons x xs)
  from Cons [of "max x b"] show ?case by (auto simp: max_def)
qed simp

lemma seg_room_racc: "n \<le> seg_room gs a \<Longrightarrow> racc gs a n"
  using fold_max_in [of "map (\<lambda>g. seg_len g - unat (a - seg_base g)) gs" 0]
  by (force simp: seg_room_def racc_def list_ex_iff in_seg_def)

lemma racc_seg_room: "racc gs a n \<Longrightarrow> n \<le> seg_room gs a"
proof (cases "n = 0")
  case False
  assume "racc gs a n"
  with False obtain g where g: "g \<in> set gs" "in_seg g a n"
    by (auto simp: racc_def list_ex_iff)
  then have "n \<le> seg_len g - unat (a - seg_base g)"
    by (simp add: in_seg_def)
  also have "\<dots> \<le> seg_room gs a"
    unfolding seg_room_def by (rule fold_max_ge(1)) (use g in auto)
  finally show ?thesis .
qed simp

lemma racc_mono: "racc gs a n \<Longrightarrow> k \<le> n \<Longrightarrow> racc gs a k"
  by (force simp: racc_def list_ex_iff in_seg_def)

lemma wacc_mono: "wacc gs a n \<Longrightarrow> k \<le> n \<Longrightarrow> wacc gs a k"
  by (force simp: wacc_def list_ex_iff in_seg_def)

lemma cstrlen_Some:
  "cstrlen gs m a = Some k \<longleftrightarrow>
     racc gs a (Suc k) \<and> m (a + of_nat k) = 0 \<and> (\<forall>i < k. m (a + of_nat i) \<noteq> 0)"
  using seg_room_racc [of "Suc k" gs a] racc_seg_room [of gs a "Suc k"]
  by (auto simp: cstrlen_def find0_Some)

section \<open>Overwriting part of what was written\<close>

lemma wr_bytes_inside:
  assumes "i + length cs \<le> length bs" "length bs < 2 ^ 64"
  shows "wr_bytes (wr_bytes m a bs) (a + of_nat i) cs = wr_bytes m a (take i bs @ cs @ drop (i + length cs) bs)"
proof
  fix b
  let ?d = "unat (b - a)"
  have i: "unat (of_nat i :: addr) = i" using assms by (simp add: unat_of_nat)
  show "wr_bytes (wr_bytes m a bs) (a + of_nat i) cs b =
      wr_bytes m a (take i bs @ cs @ drop (i + length cs) bs) b"
  proof (cases "i \<le> ?d")
    case True
    have "unat (b - (a + of_nat i)) = ?d - i"
      using unat_diff_no_wrap [of "of_nat i" "b - a"] True i by (simp add: diff_diff_add)
    with True assms show ?thesis by (auto simp: wr_bytes_def nth_append min_def)
  next
    case False
    have ne: "b - a \<noteq> of_nat i" using False i by auto
    have "unat (b - a - of_nat i) + unat (of_nat i - (b - a)) = 2 ^ 64"
      using unat_minus_swap [of "of_nat i" "b - a"] ne by simp
    moreover have "unat (of_nat i - (b - a)) = i - ?d"
      using unat_diff_no_wrap [of "b - a" "of_nat i"] False i by simp
    ultimately have "length cs \<le> unat (b - (a + of_nat i))"
      using False assms by (simp add: diff_diff_add)
    with False assms show ?thesis by (auto simp: wr_bytes_def nth_append min_def)
  qed
qed

lemma rd_bytes_inside:
  assumes "i + n \<le> length bs" "length bs < 2 ^ 64"
  shows "rd_bytes (wr_bytes m a bs) (a + of_nat i) n = take n (drop i bs)"
proof (rule nth_equalityI)
  fix j assume "j < length (rd_bytes (wr_bytes m a bs) (a + of_nat i) n)"
  then have j: "j < n" by simp
  have "unat (a + of_nat i + of_nat j - a) = i + j"
    using assms j by (simp add: unat_of_nat flip: of_nat_add)
  with j assms show "rd_bytes (wr_bytes m a bs) (a + of_nat i) n ! j = take n (drop i bs) ! j"
    by (simp add: wr_bytes_def add.assoc)
qed (use assms in simp)

section \<open>Parts of regions\<close>

lemma unat_plus_le: "unat (x + of_nat i :: addr) \<le> unat x + i"
  by (simp add: unat_word_ariths unat_of_nat)

lemma wacc_part: "wacc gs a n \<Longrightarrow> i + j \<le> n \<Longrightarrow> wacc gs (a + of_nat i) j"
proof (cases "j = 0")
  case False
  assume "wacc gs a n" "i + j \<le> n"
  with False obtain g where g: "g \<in> set gs" "seg_wr g" "in_seg g a n"
    by (auto simp: wacc_def list_ex_iff)
  have "unat (a + of_nat i - seg_base g) \<le> unat (a - seg_base g) + i"
    using unat_plus_le [of "a - seg_base g" i] by (simp add: algebra_simps)
  with g \<open>i + j \<le> n\<close> have "in_seg g (a + of_nat i) j" by (simp add: in_seg_def)
  with g show ?thesis by (auto simp: wacc_def list_ex_iff)
qed simp

lemma racc_part: "racc gs a n \<Longrightarrow> i + j \<le> n \<Longrightarrow> racc gs (a + of_nat i) j"
proof (cases "j = 0")
  case False
  assume "racc gs a n" "i + j \<le> n"
  with False obtain g where g: "g \<in> set gs" "in_seg g a n"
    by (auto simp: racc_def list_ex_iff)
  have "unat (a + of_nat i - seg_base g) \<le> unat (a - seg_base g) + i"
    using unat_plus_le [of "a - seg_base g" i] by (simp add: algebra_simps)
  with g \<open>i + j \<le> n\<close> have "in_seg g (a + of_nat i) j" by (simp add: in_seg_def)
  with g show ?thesis by (auto simp: racc_def list_ex_iff)
qed simp

lemma disj_part:
  assumes "disj a n b k" "i + j \<le> n" "0 < k" "0 < j"
  shows "disj (a + of_nat i) j b k"
proof -
  have "unat (a - b) + i = unat (a + of_nat i - b)"
    using disj_offset [of b k a n i] assms by (simp add: disj_sym)
  moreover have "unat (b - (a + of_nat i)) = unat (b - a) - i"
  proof -
    have "i < 2 ^ 64" using assms unat_less_64 [of "b - a"] by (simp add: disj_def)
    then have i: "unat (of_nat i :: addr) = i" by (simp add: unat_of_nat)
    show ?thesis
      using unat_diff_no_wrap [of "of_nat i" "b - a"] assms i by (simp add: disj_def diff_diff_add)
  qed
  moreover have "n \<le> unat (b - a)" "k \<le> unat (a - b)" using assms by (simp_all add: disj_def)
  ultimately show ?thesis using assms(2) unfolding disj_def by linarith
qed

lemma disj_sub:
  assumes "disj a n b k" "i + j \<le> k" "0 < n" "0 < j"
  shows "disj a n (b + of_nat i) j"
  using disj_part [of b k a n i j] assms by (simp add: disj_sym)

end
