(* ===== verification/Machine.thy ===== *)
theory Machine
  imports Memory
begin

text \<open>
  The virtual machine of \<open>muforth.h\<close> and \<open>muforth.c\<close>: the registers SP, RP, IP and W, the
  two stack arrays, and the macros that push, pop, drop and index them. Both stacks live in
  the byte memory, growing downwards, so that code that takes the address of a stack cell
  sees the same bytes. The invariants \<open>drep\<close> and \<open>rrep\<close> relate a machine to the lists of
  cells on its stacks; the locale \<open>cell_stack\<close> is the interface the words rely on.
\<close>

section \<open>Registers and stacks\<close>

record vm =
  mem :: memory
  segs :: "seg list"
  SP :: addr
  RP :: addr
  IP :: addr
  W :: addr
  dstack :: addr
  rstack :: addr

definition STACK_SIZE :: nat where "STACK_SIZE = 4096"
definition STACK_SAFETY :: nat where "STACK_SAFETY = 32"

definition SP0 :: "'a vm_scheme \<Rightarrow> addr" where
  "SP0 s = dstack s + of_nat (STACK_SIZE - STACK_SAFETY) * 8"

definition RP0 :: "'a vm_scheme \<Rightarrow> addr" where
  "RP0 s = rstack s + of_nat (STACK_SIZE - STACK_SAFETY) * 8"

definition ALIGNED :: "cell \<Rightarrow> cell" where
  "ALIGNED x = (x + 8 - 1) AND - 8"

text \<open>The data stack: \<open>ST i\<close> is \<open>SP[i]\<close>.\<close>

definition ST :: "nat \<Rightarrow> 'a vm_scheme \<Rightarrow> cell" where
  "ST i s = rd64 (mem s) (SP s + of_nat i * 8)"

definition set_ST :: "nat \<Rightarrow> cell \<Rightarrow> 'a vm_scheme \<Rightarrow> 'a vm_scheme" where
  "set_ST i v s = s\<lparr>mem := wr64 (mem s) (SP s + of_nat i * 8) v\<rparr>"

definition DROP :: "cell \<Rightarrow> 'a vm_scheme \<Rightarrow> 'a vm_scheme" where
  "DROP n s = s\<lparr>SP := SP s + n * 8\<rparr>"

definition PUSH :: "cell \<Rightarrow> 'a vm_scheme \<Rightarrow> 'a vm_scheme" where
  "PUSH v s = set_ST 0 v (DROP (- 1) s)"

text \<open>The return stack: \<open>RT i\<close> is \<open>RP[i]\<close>.\<close>

definition RT :: "nat \<Rightarrow> 'a vm_scheme \<Rightarrow> cell" where
  "RT i s = rd64 (mem s) (RP s + of_nat i * 8)"

definition set_RT :: "nat \<Rightarrow> cell \<Rightarrow> 'a vm_scheme \<Rightarrow> 'a vm_scheme" where
  "set_RT i v s = s\<lparr>mem := wr64 (mem s) (RP s + of_nat i * 8) v\<rparr>"

definition RDROP :: "cell \<Rightarrow> 'a vm_scheme \<Rightarrow> 'a vm_scheme" where
  "RDROP n s = s\<lparr>RP := RP s + n * 8\<rparr>"

definition RPUSH :: "cell \<Rightarrow> 'a vm_scheme \<Rightarrow> 'a vm_scheme" where
  "RPUSH v s = set_RT 0 v (RDROP (- 1) s)"

text \<open>
  The accesses the macros make are defined where the cells are mapped and writable:
  \<open>stk k\<close> for the cells \<open>ST0 .. ST(k-1)\<close>, \<open>room k\<close> for the cells the next \<open>k\<close> pushes write.
\<close>

definition stk :: "nat \<Rightarrow> 'a vm_scheme \<Rightarrow> bool" where
  "stk k s \<longleftrightarrow> list_all (\<lambda>i. wacc (segs s) (SP s + of_nat i * 8) 8) [0..<k]"

definition room :: "nat \<Rightarrow> 'a vm_scheme \<Rightarrow> bool" where
  "room k s \<longleftrightarrow> stk k (DROP (- of_nat k) s)"

definition rstk :: "nat \<Rightarrow> 'a vm_scheme \<Rightarrow> bool" where
  "rstk k s \<longleftrightarrow> list_all (\<lambda>i. wacc (segs s) (RP s + of_nat i * 8) 8) [0..<k]"

definition rroom :: "nat \<Rightarrow> 'a vm_scheme \<Rightarrow> bool" where
  "rroom k s \<longleftrightarrow> rstk k (RDROP (- of_nat k) s)"

section \<open>Reading the stacks\<close>

lemma ST_set_ST [stack_simps]:
  "i < 2 ^ 60 \<Longrightarrow> j < 2 ^ 60 \<Longrightarrow> ST i (set_ST j v s) = (if i = j then v else ST i s)"
  by (simp add: ST_def set_ST_def mem64.slot)

lemma ST_DROP_of_nat [stack_simps]: "ST i (DROP (of_nat k) s) = ST (i + k) s"
  by (simp add: ST_def DROP_def algebra_simps)

lemma ST_DROP_num [stack_simps]:
  "ST i (DROP 1 s) = ST (Suc i) s"
  "ST i (DROP (numeral n) s) = ST (i + numeral n) s"
  using ST_DROP_of_nat [of i 1 s] ST_DROP_of_nat [of i "numeral n" s] by simp_all

lemma ST_PUSH_0 [stack_simps]: "ST 0 (PUSH v s) = v"
  by (simp add: PUSH_def ST_set_ST)

lemma ST_PUSH_Suc [stack_simps]: "Suc i < 2 ^ 60 \<Longrightarrow> ST (Suc i) (PUSH v s) = ST i s"
  by (simp add: PUSH_def ST_set_ST) (simp add: ST_def DROP_def algebra_simps)

lemma ST_PUSH_numeral [stack_simps]:
  "numeral n < (2 ^ 60 :: nat) \<Longrightarrow> ST (numeral n) (PUSH v s) = ST (pred_numeral n) s"
  using ST_PUSH_Suc [of "pred_numeral n" v s]
  unfolding numeral_eq_Suc [of n, symmetric] .

lemma RT_set_RT [rstack_simps]:
  "i < 2 ^ 60 \<Longrightarrow> j < 2 ^ 60 \<Longrightarrow> RT i (set_RT j v s) = (if i = j then v else RT i s)"
  by (simp add: RT_def set_RT_def mem64.slot)

lemma RT_RDROP_of_nat [rstack_simps]: "RT i (RDROP (of_nat k) s) = RT (i + k) s"
  by (simp add: RT_def RDROP_def algebra_simps)

lemma RT_RDROP_num [rstack_simps]:
  "RT i (RDROP 1 s) = RT (Suc i) s"
  "RT i (RDROP (numeral n) s) = RT (i + numeral n) s"
  using RT_RDROP_of_nat [of i 1 s] RT_RDROP_of_nat [of i "numeral n" s] by simp_all

lemma RT_RPUSH_0 [rstack_simps]: "RT 0 (RPUSH v s) = v"
  by (simp add: RPUSH_def RT_set_RT)

lemma RT_RPUSH_Suc [rstack_simps]: "Suc i < 2 ^ 60 \<Longrightarrow> RT (Suc i) (RPUSH v s) = RT i s"
  by (simp add: RPUSH_def RT_set_RT) (simp add: RT_def RDROP_def algebra_simps)

text \<open>What the stack macros leave alone.\<close>

lemma DROP_frame [simp]:
  "mem (DROP n s) = mem s" "segs (DROP n s) = segs s" "SP (DROP n s) = SP s + n * 8"
  "RP (DROP n s) = RP s" "IP (DROP n s) = IP s" "W (DROP n s) = W s"
  "dstack (DROP n s) = dstack s" "rstack (DROP n s) = rstack s"
  by (simp_all add: DROP_def)

lemma set_ST_frame [simp]:
  "segs (set_ST i v s) = segs s" "SP (set_ST i v s) = SP s"
  "RP (set_ST i v s) = RP s" "IP (set_ST i v s) = IP s" "W (set_ST i v s) = W s"
  "dstack (set_ST i v s) = dstack s" "rstack (set_ST i v s) = rstack s"
  by (simp_all add: set_ST_def)

lemma PUSH_frame [simp]:
  "segs (PUSH v s) = segs s" "SP (PUSH v s) = SP s - 8"
  "RP (PUSH v s) = RP s" "IP (PUSH v s) = IP s" "W (PUSH v s) = W s"
  "dstack (PUSH v s) = dstack s" "rstack (PUSH v s) = rstack s"
  by (simp_all add: PUSH_def)

lemma RDROP_frame [simp]:
  "mem (RDROP n s) = mem s" "segs (RDROP n s) = segs s" "RP (RDROP n s) = RP s + n * 8"
  "SP (RDROP n s) = SP s" "IP (RDROP n s) = IP s" "W (RDROP n s) = W s"
  "dstack (RDROP n s) = dstack s" "rstack (RDROP n s) = rstack s"
  by (simp_all add: RDROP_def)

lemma set_RT_frame [simp]:
  "segs (set_RT i v s) = segs s" "SP (set_RT i v s) = SP s"
  "RP (set_RT i v s) = RP s" "IP (set_RT i v s) = IP s" "W (set_RT i v s) = W s"
  "dstack (set_RT i v s) = dstack s" "rstack (set_RT i v s) = rstack s"
  by (simp_all add: set_RT_def)

lemma RPUSH_frame [simp]:
  "segs (RPUSH v s) = segs s" "RP (RPUSH v s) = RP s - 8"
  "SP (RPUSH v s) = SP s" "IP (RPUSH v s) = IP s" "W (RPUSH v s) = W s"
  "dstack (RPUSH v s) = dstack s" "rstack (RPUSH v s) = rstack s"
  by (simp_all add: RPUSH_def)

section \<open>The contents of a stack\<close>

definition stack_seg :: "addr \<Rightarrow> seg" where
  "stack_seg base = \<lparr>seg_base = base, seg_len = 32768, seg_wr = True\<rparr>"

definition stack_at :: "memory \<Rightarrow> seg list \<Rightarrow> addr \<Rightarrow> addr \<Rightarrow> cell list \<Rightarrow> bool" where
  "stack_at m gs base p xs \<longleftrightarrow>
     stack_seg base \<in> set gs \<and> length xs \<le> 4064 \<and> p = base + 32512 - of_nat (length xs) * 8 \<and>
     (\<forall>i < length xs. rd64 m (p + of_nat i * 8) = xs ! i)"

definition drep :: "'a vm_scheme \<Rightarrow> cell list \<Rightarrow> bool" where
  "drep s xs \<longleftrightarrow> stack_at (mem s) (segs s) (dstack s) (SP s) xs"

definition rrep :: "'a vm_scheme \<Rightarrow> cell list \<Rightarrow> bool" where
  "rrep s xs \<longleftrightarrow> stack_at (mem s) (segs s) (rstack s) (RP s) xs"

lemma stack_seg_simps [simp]:
  "seg_base (stack_seg b) = b" "seg_len (stack_seg b) = 32768" "seg_wr (stack_seg b)"
  by (simp_all add: stack_seg_def)

lemma slot_in_stack_seg:
  assumes "k < 4096"
  shows "in_seg (stack_seg base) (base + of_nat k * 8) 8"
proof -
  have "unat (of_nat (k * 8) :: addr) = k * 8"
    unfolding unat_of_nat using assms by simp
  then show ?thesis using assms by (simp add: in_seg_def)
qed

lemma stack_at_get: "stack_at m gs base p xs \<Longrightarrow> i < length xs \<Longrightarrow> rd64 m (p + of_nat i * 8) = xs ! i"
  unfolding stack_at_def by blast

lemma stack_atI:
  "stack_seg base \<in> set gs \<Longrightarrow> length xs \<le> 4064 \<Longrightarrow>
   p = base + 32512 - of_nat (length xs) * 8 \<Longrightarrow>
   (\<And>i. i < length xs \<Longrightarrow> rd64 m (p + of_nat i * 8) = xs ! i) \<Longrightarrow> stack_at m gs base p xs"
  unfolding stack_at_def by blast

lemma stack_at_seg: "stack_at m gs base p xs \<Longrightarrow> stack_seg base \<in> set gs"
  by (simp add: stack_at_def)

lemma stack_at_slot:
  assumes "stack_at m gs base p xs" "i < length xs + 32"
  shows "in_seg (stack_seg base) (p + of_nat i * 8) 8"
proof -
  have p: "p + of_nat i * 8 = base + of_nat (4064 - length xs + i) * 8"
    using assms by (simp add: stack_at_def algebra_simps)
  show ?thesis
    unfolding p by (rule slot_in_stack_seg) (use assms in \<open>auto simp: stack_at_def\<close>)
qed

lemma stack_at_below:
  assumes "stack_at m gs base p xs" "length xs < 4064"
  shows "in_seg (stack_seg base) (p - 8) 8"
proof -
  have p: "p - 8 = base + of_nat (4064 - Suc (length xs)) * 8"
    using assms by (simp add: stack_at_def algebra_simps)
  show ?thesis
    unfolding p by (rule slot_in_stack_seg) simp
qed

lemma stack_at_wacc:
  "stack_at m gs base p xs \<Longrightarrow> i < length xs \<Longrightarrow> wacc gs (p + of_nat i * 8) 8"
  using stack_at_slot [of m gs base p xs i]
  by (auto simp: wacc_def list_ex_iff stack_at_def intro!: bexI [of _ "stack_seg base"])

lemma stack_at_wacc_room:
  assumes at: "stack_at m gs base p xs" and k: "length xs + k \<le> 4064" and i: "i < k"
  shows "wacc gs (p + - of_nat k * 8 + of_nat i * 8) 8"
proof -
  have p: "p + - of_nat k * 8 + of_nat i * 8 = base + of_nat (4064 - (length xs + k) + i) * 8"
    using at k by (simp add: stack_at_def algebra_simps)
  have "in_seg (stack_seg base) (p + - of_nat k * 8 + of_nat i * 8) 8"
    unfolding p by (rule slot_in_stack_seg) (use k i in simp)
  then show ?thesis
    using stack_at_seg [OF at] by (auto simp: wacc_def list_ex_iff intro!: bexI [of _ "stack_seg base"])
qed

lemma stack_at_frame:
  assumes "stack_at m gs base p xs" "same_on (stack_seg base) m m'"
  shows "stack_at m' gs base p xs"
  using assms rd64_same_on [OF assms(2) stack_at_slot [OF assms(1)]]
  by (auto simp: stack_at_def)

lemma stack_at_set:
  assumes "stack_at m gs base p xs" "i < length xs"
  shows "stack_at (wr64 m (p + of_nat i * 8) v) gs base p (xs[i := v])"
  using assms by (auto simp: stack_at_def mem64.slot nth_list_update)

lemma stack_at_drop:
  assumes "stack_at m gs base p xs" "k \<le> length xs"
  shows "stack_at m gs base (p + of_nat k * 8) (drop k xs)"
proof (rule stack_atI)
  show "stack_seg base \<in> set gs" "length (drop k xs) \<le> 4064"
    using assms by (auto simp: stack_at_def)
  show "p + of_nat k * 8 = base + 32512 - of_nat (length (drop k xs)) * 8"
    using assms by (simp add: stack_at_def algebra_simps)
  show "rd64 m (p + of_nat k * 8 + of_nat i * 8) = drop k xs ! i" if "i < length (drop k xs)" for i
  proof -
    have "rd64 m (p + of_nat (k + i) * 8) = xs ! (k + i)"
      by (rule stack_at_get [OF assms(1)]) (use that in simp)
    moreover have "p + of_nat (k + i) * 8 = p + of_nat k * 8 + of_nat i * 8"
      by (simp add: algebra_simps)
    ultimately show ?thesis using assms that by (simp add: add.assoc)
  qed
qed

lemma stack_at_push:
  assumes "stack_at m gs base p xs" "length xs < 4064"
  shows "stack_at (wr64 m (p - 8) v) gs base (p - 8) (v # xs)"
proof (rule stack_atI)
  show "stack_seg base \<in> set gs" "length (v # xs) \<le> 4064"
    using assms by (auto simp: stack_at_def)
  show "p - 8 = base + 32512 - of_nat (length (v # xs)) * 8"
    using assms by (simp add: stack_at_def algebra_simps)
  show "rd64 (wr64 m (p - 8) v) (p - 8 + of_nat i * 8) = (v # xs) ! i" if i: "i < length (v # xs)" for i
  proof (cases i)
    case 0
    then show ?thesis by (simp add: mem64.slot_same)
  next
    case (Suc j)
    have "rd64 (wr64 m (p - 8 + of_nat 0 * 8) v) (p - 8 + of_nat i * 8) = rd64 m (p - 8 + of_nat i * 8)"
      by (subst mem64.slot) (use Suc i assms in auto)
    also have "p - 8 + of_nat i * 8 = p + of_nat j * 8"
      using Suc by (simp add: algebra_simps)
    finally show ?thesis using stack_at_get [OF assms(1), of j] Suc i by simp
  qed
qed

section \<open>The interface of a stack\<close>

text \<open>
  \<open>rep s xs\<close> says that the stack of \<open>s\<close> holds the cells \<open>xs\<close>, the top first. A word's stack
  effect is proved from these laws alone, for whichever of the two stacks it uses.
\<close>

locale cell_stack =
  fixes rep :: "'s \<Rightarrow> cell list \<Rightarrow> bool"
    and get :: "nat \<Rightarrow> 's \<Rightarrow> cell"
    and put :: "nat \<Rightarrow> cell \<Rightarrow> 's \<Rightarrow> 's"
    and pop :: "cell \<Rightarrow> 's \<Rightarrow> 's"
    and push :: "cell \<Rightarrow> 's \<Rightarrow> 's"
    and have_cells :: "nat \<Rightarrow> 's \<Rightarrow> bool"
    and have_room :: "nat \<Rightarrow> 's \<Rightarrow> bool"
  assumes get_rep: "rep s xs \<Longrightarrow> i < length xs \<Longrightarrow> get i s = xs ! i"
    and put_rep: "rep s xs \<Longrightarrow> i < length xs \<Longrightarrow> rep (put i v s) (xs[i := v])"
    and pop_rep: "rep s xs \<Longrightarrow> k \<le> length xs \<Longrightarrow> rep (pop (of_nat k) s) (drop k xs)"
    and push_rep: "rep s xs \<Longrightarrow> length xs < 4064 \<Longrightarrow> rep (push v s) (v # xs)"
    and cells_rep: "rep s xs \<Longrightarrow> k \<le> length xs \<Longrightarrow> have_cells k s"
    and rooms_rep: "rep s xs \<Longrightarrow> length xs + k \<le> 4064 \<Longrightarrow> have_room k s"
    and depth_rep: "rep s xs \<Longrightarrow> length xs \<le> 4064"
begin

lemma get_0: "rep s (x # xs) \<Longrightarrow> get 0 s = x"
  by (simp add: get_rep)

lemma get_1: "rep s (x # y # xs) \<Longrightarrow> get (Suc 0) s = y"
  by (simp add: get_rep)

lemma get_2: "rep s (x # y # z # xs) \<Longrightarrow> get 2 s = z"
  by (simp add: get_rep)

lemma put_0: "rep s (x # xs) \<Longrightarrow> rep (put 0 v s) (v # xs)"
  using put_rep [of s "x # xs" 0 v] by simp

lemma put_1: "rep s (x # y # xs) \<Longrightarrow> rep (put (Suc 0) v s) (x # v # xs)"
  using put_rep [of s "x # y # xs" "Suc 0" v] by simp

lemma put_2: "rep s (x # y # z # xs) \<Longrightarrow> rep (put 2 v s) (x # y # v # xs)"
  using put_rep [of s "x # y # z # xs" 2 v] by (simp add: numeral_2_eq_2)

lemma pop_1: "rep s (x # xs) \<Longrightarrow> rep (pop 1 s) xs"
  using pop_rep [of s "x # xs" 1] by simp

lemma pop_2: "rep s (x # y # xs) \<Longrightarrow> rep (pop 2 s) xs"
  using pop_rep [of s "x # y # xs" 2] by simp

lemma pop_3: "rep s (x # y # z # xs) \<Longrightarrow> rep (pop 3 s) xs"
  using pop_rep [of s "x # y # z # xs" 3] by simp

lemma room_rep: "rep s xs \<Longrightarrow> length xs < 4064 \<Longrightarrow> have_room (Suc 0) s"
  using rooms_rep [of s xs "Suc 0"] by simp

lemma pop_push: "rep s xs \<Longrightarrow> length xs < 4064 \<Longrightarrow> rep (pop 1 (push v s)) xs"
  by (rule pop_1, rule push_rep)

text \<open>The pattern of the two-operand words: the result replaces the second cell, and the top
  is dropped.\<close>

lemma binary:
  "rep s (b # a # xs) \<Longrightarrow> rep (pop 1 (put (Suc 0) v s)) (v # xs)"
  by (rule pop_1, erule put_1)

lemmas effects = get_0 get_1 get_2 put_0 put_1 put_2 pop_1 pop_2 pop_3 push_rep

end

lemma stkI: "stack_at (mem s) (segs s) b (SP s) xs \<Longrightarrow> k \<le> length xs \<Longrightarrow> stk k s"
  by (auto simp: stk_def list_all_iff stack_at_wacc)

lemma rstkI: "stack_at (mem s) (segs s) b (RP s) xs \<Longrightarrow> k \<le> length xs \<Longrightarrow> rstk k s"
  by (auto simp: rstk_def list_all_iff stack_at_wacc)

interpretation ds: cell_stack drep ST set_ST DROP PUSH stk room
proof unfold_locales
  fix s :: "'a vm_scheme" and xs :: "cell list" and i k :: nat and v :: cell
  assume rep: "drep s xs"
  then have at: "stack_at (mem s) (segs s) (dstack s) (SP s) xs" by (simp add: drep_def)
  show "i < length xs \<Longrightarrow> ST i s = xs ! i"
    using stack_at_get [OF at] by (simp add: ST_def)
  show "i < length xs \<Longrightarrow> drep (set_ST i v s) (xs[i := v])"
    using stack_at_set [OF at] by (simp add: drep_def set_ST_def)
  show "k \<le> length xs \<Longrightarrow> drep (DROP (of_nat k) s) (drop k xs)"
    using stack_at_drop [OF at] by (simp add: drep_def DROP_def)
  show "length xs < 4064 \<Longrightarrow> drep (PUSH v s) (v # xs)"
    using stack_at_push [OF at] by (simp add: drep_def PUSH_def set_ST_def DROP_def)
  show "k \<le> length xs \<Longrightarrow> stk k s"
    by (rule stkI [OF at])
  show "length xs + k \<le> 4064 \<Longrightarrow> room k s"
    using stack_at_wacc_room [OF at, of k] by (simp add: room_def stk_def list_all_iff)
  show "length xs \<le> 4064"
    using at by (simp add: stack_at_def)
qed

interpretation rs: cell_stack rrep RT set_RT RDROP RPUSH rstk rroom
proof unfold_locales
  fix s :: "'a vm_scheme" and xs :: "cell list" and i k :: nat and v :: cell
  assume rep: "rrep s xs"
  then have at: "stack_at (mem s) (segs s) (rstack s) (RP s) xs" by (simp add: rrep_def)
  show "i < length xs \<Longrightarrow> RT i s = xs ! i"
    using stack_at_get [OF at] by (simp add: RT_def)
  show "i < length xs \<Longrightarrow> rrep (set_RT i v s) (xs[i := v])"
    using stack_at_set [OF at] by (simp add: rrep_def set_RT_def)
  show "k \<le> length xs \<Longrightarrow> rrep (RDROP (of_nat k) s) (drop k xs)"
    using stack_at_drop [OF at] by (simp add: rrep_def RDROP_def)
  show "length xs < 4064 \<Longrightarrow> rrep (RPUSH v s) (v # xs)"
    using stack_at_push [OF at] by (simp add: rrep_def RPUSH_def set_RT_def RDROP_def)
  show "k \<le> length xs \<Longrightarrow> rstk k s"
    by (rule rstkI [OF at])
  show "length xs + k \<le> 4064 \<Longrightarrow> rroom k s"
    using stack_at_wacc_room [OF at, of k] by (simp add: rroom_def rstk_def list_all_iff)
  show "length xs \<le> 4064"
    using at by (simp add: stack_at_def)
qed

section \<open>What a word of the data stack may change\<close>

text \<open>\<open>dframe s s'\<close>: from \<open>s\<close> to \<open>s'\<close> only SP and the bytes of the data stack changed.\<close>

definition dframe :: "'a vm_scheme \<Rightarrow> 'a vm_scheme \<Rightarrow> bool" where
  "dframe s s' \<longleftrightarrow>
     segs s' = segs s \<and> dstack s' = dstack s \<and> rstack s' = rstack s \<and>
     RP s' = RP s \<and> IP s' = IP s \<and> W s' = W s \<and> vm.more s' = vm.more s \<and>
     (\<forall>g. segs_disj (stack_seg (dstack s)) g \<longrightarrow> same_on g (mem s) (mem s'))"

lemma dframe_refl [simp]: "dframe s s"
  by (simp add: dframe_def)

lemma dframe_trans: "dframe s s' \<Longrightarrow> dframe s' s'' \<Longrightarrow> dframe s s''"
  by (auto simp: dframe_def intro: same_on_trans)

lemma dframe_DROP [simp]: "dframe s (DROP k s)"
  by (simp add: dframe_def DROP_def)

lemma dframe_DROP_iff [simp]: "dframe s (DROP k s') \<longleftrightarrow> dframe s s'"
  by (simp add: dframe_def DROP_def)

lemma dframe_set_ST: "drep s xs \<Longrightarrow> i < length xs \<Longrightarrow> dframe s (set_ST i v s)"
  using stack_at_slot [of "mem s" "segs s" "dstack s" "SP s" xs i]
  by (auto simp: dframe_def set_ST_def drep_def intro: same_on_wr64)

lemma dframe_PUSH: "drep s xs \<Longrightarrow> length xs < 4064 \<Longrightarrow> dframe s (PUSH v s)"
  using stack_at_below [of "mem s" "segs s" "dstack s" "SP s" xs]
  by (auto simp: dframe_def PUSH_def DROP_def set_ST_def drep_def intro: same_on_wr64)

lemma dframe_rrep:
  "dframe s s' \<Longrightarrow> rrep s xs \<Longrightarrow> segs_disj (stack_seg (dstack s)) (stack_seg (rstack s)) \<Longrightarrow> rrep s' xs"
  unfolding rrep_def by (metis dframe_def stack_at_frame)

lemma dframe_rd64:
  "dframe s s' \<Longrightarrow> segs_disj (stack_seg (dstack s)) g \<Longrightarrow> in_seg g a 8 \<Longrightarrow> seg_len g \<le> 2 ^ 63 \<Longrightarrow>
    rd64 (mem s') a = rd64 (mem s) a"
  by (rule rd64_same_on) (auto simp: dframe_def)

section \<open>Data away from the stacks\<close>

text \<open>\<open>data_at s a n\<close>: the \<open>n\<close> bytes at \<open>a\<close> lie in one writable segment (the heap, a buffer)
  that overlaps neither stack.\<close>

definition data_seg :: "'a vm_scheme \<Rightarrow> seg \<Rightarrow> bool" where
  "data_seg s g \<longleftrightarrow> g \<in> set (segs s) \<and> seg_len g \<le> 2 ^ 63 \<and>
     segs_disj (stack_seg (dstack s)) g \<and> segs_disj (stack_seg (rstack s)) g"

definition data_at :: "'a vm_scheme \<Rightarrow> addr \<Rightarrow> nat \<Rightarrow> bool" where
  "data_at s a n \<longleftrightarrow> list_ex (\<lambda>g. seg_wr g \<and> data_seg s g \<and> in_seg g a n) (segs s)"

lemma segs_disj_sym: "segs_disj g h \<longleftrightarrow> segs_disj h g"
  by (auto simp: segs_disj_def disj_sym)

lemma data_at_wacc: "data_at s a n \<Longrightarrow> wacc (segs s) a n"
  by (auto simp: data_at_def wacc_def list_ex_iff)

lemma data_at_racc: "data_at s a n \<Longrightarrow> racc (segs s) a n"
  by (simp add: data_at_wacc wacc_racc)

lemma data_at_mono: "data_at s a n \<Longrightarrow> k \<le> n \<Longrightarrow> data_at s a k"
  by (auto simp: data_at_def list_ex_iff intro: in_seg_mono)

lemma data_at_size: "data_at s a n \<Longrightarrow> n \<le> 2 ^ 63"
  by (auto simp: data_at_def data_seg_def in_seg_def list_ex_iff)

lemma data_seg_cong:
  "segs s' = segs s \<Longrightarrow> dstack s' = dstack s \<Longrightarrow> rstack s' = rstack s \<Longrightarrow> data_seg s' g = data_seg s g"
  by (simp add: data_seg_def)

lemma data_at_cong:
  "segs s' = segs s \<Longrightarrow> dstack s' = dstack s \<Longrightarrow> rstack s' = rstack s \<Longrightarrow> data_at s' a n = data_at s a n"
  by (simp add: data_at_def data_seg_def)

lemma data_at_dframe: "dframe s s' \<Longrightarrow> data_at s' a n = data_at s a n"
  by (rule data_at_cong) (simp_all add: dframe_def)

lemma rd_bytes_dframe: "dframe s s' \<Longrightarrow> data_at s a n \<Longrightarrow> rd_bytes (mem s') a n = rd_bytes (mem s) a n"
  by (auto simp: data_at_def data_seg_def dframe_def list_ex_iff intro: rd_bytes_same_on)

lemma rd64_data_dframe: "dframe s s' \<Longrightarrow> data_at s a 8 \<Longrightarrow> rd64 (mem s') a = rd64 (mem s) a"
  by (simp add: rd64_def rd_bytes_dframe)

lemma drep_write:
  "drep s xs \<Longrightarrow> data_at s a (length bs) \<Longrightarrow> drep (s\<lparr>mem := wr_bytes (mem s) a bs\<rparr>) xs"
  by (auto simp: drep_def data_at_def data_seg_def list_ex_iff segs_disj_sym [of "stack_seg _"]
      intro: stack_at_frame same_on_wr_bytes)

lemma rrep_write:
  "rrep s xs \<Longrightarrow> data_at s a (length bs) \<Longrightarrow> rrep (s\<lparr>mem := wr_bytes (mem s) a bs\<rparr>) xs"
  by (auto simp: rrep_def data_at_def data_seg_def list_ex_iff segs_disj_sym [of "stack_seg _"]
      intro: stack_at_frame same_on_wr_bytes)

lemma drep_write64: "drep s xs \<Longrightarrow> data_at s a 8 \<Longrightarrow> drep (s\<lparr>mem := wr64 (mem s) a v\<rparr>) xs"
  by (simp add: wr64_def drep_write)

lemma rrep_write64: "rrep s xs \<Longrightarrow> data_at s a 8 \<Longrightarrow> rrep (s\<lparr>mem := wr64 (mem s) a v\<rparr>) xs"
  by (simp add: wr64_def rrep_write)

end
