(* ===== verification/Kernel.thy ===== *)
theory Kernel
  imports Machine "HOL-Library.Signed_Division"
begin

text \<open>
  \<open>kernel.c\<close>: arithmetic and logic, shifts, comparisons, stack manipulation, memory access,
  multiplication and floored division, strings. Every word is a definition under its C name.
  Signed arithmetic wraps in two's complement, as the generated instructions do.
\<close>

section \<open>The two shapes most words have\<close>

definition binop :: "(cell \<Rightarrow> cell \<Rightarrow> cell) \<Rightarrow> 'a vm_scheme \<Rightarrow> 'a vm_scheme outcome" where
  "binop f s = (if stk 2 s then Ret (DROP 1 (set_ST 1 (f (ST 1 s) (ST 0 s)) s)) else Undef)"

definition unop :: "(cell \<Rightarrow> cell) \<Rightarrow> 'a vm_scheme \<Rightarrow> 'a vm_scheme outcome" where
  "unop f s = (if stk 1 s then Ret (set_ST 0 (f (ST 0 s)) s) else Undef)"

section \<open>The words\<close>

definition mu_nope :: "'a vm_scheme \<Rightarrow> 'a vm_scheme outcome" where
  "mu_nope s = Ret s"

definition mu_zzz :: "'a vm_scheme \<Rightarrow> 'a vm_scheme outcome" where
  "mu_zzz s = Ret s"

definition mu_plus :: "'a vm_scheme \<Rightarrow> 'a vm_scheme outcome" where
  [kernel_defs]: "mu_plus = binop (\<lambda>a b. a + b)"

definition mu_and :: "'a vm_scheme \<Rightarrow> 'a vm_scheme outcome" where
  [kernel_defs]: "mu_and = binop (\<lambda>a b. a AND b)"

definition mu_or :: "'a vm_scheme \<Rightarrow> 'a vm_scheme outcome" where
  [kernel_defs]: "mu_or = binop (\<lambda>a b. a OR b)"

definition mu_xor :: "'a vm_scheme \<Rightarrow> 'a vm_scheme outcome" where
  [kernel_defs]: "mu_xor = binop (\<lambda>a b. a XOR b)"

definition mu_negate :: "'a vm_scheme \<Rightarrow> 'a vm_scheme outcome" where
  [kernel_defs]: "mu_negate = unop (\<lambda>t. - t)"

definition mu_invert :: "'a vm_scheme \<Rightarrow> 'a vm_scheme outcome" where
  [kernel_defs]: "mu_invert = unop (\<lambda>t. NOT t)"

definition mu_2star :: "'a vm_scheme \<Rightarrow> 'a vm_scheme outcome" where
  [kernel_defs]: "mu_2star = unop (push_bit 1)"

definition mu_2slash :: "'a vm_scheme \<Rightarrow> 'a vm_scheme outcome" where
  [kernel_defs]: "mu_2slash = unop (signed_drop_bit 1)"

definition mu_u2slash :: "'a vm_scheme \<Rightarrow> 'a vm_scheme outcome" where
  [kernel_defs]: "mu_u2slash = unop (drop_bit 1)"

text \<open>\<open>BIGSHIFT\<close> compares the signed top with the unsigned \<open>sizeof(cell) * 8\<close>, so the
  comparison is unsigned: a negative shift amount is big.\<close>

definition BIGSHIFT :: "cell \<Rightarrow> bool" where
  "BIGSHIFT t \<longleftrightarrow> 8 * 8 \<le> t"

definition SIGN :: "cell \<Rightarrow> cell" where
  "SIGN x = - (if x <s 0 then 1 else 0)"

definition mu_shift_left :: "'a vm_scheme \<Rightarrow> 'a vm_scheme outcome" where
  [kernel_defs]: "mu_shift_left = binop (\<lambda>s t. if BIGSHIFT t then 0 else push_bit (unat t) s)"

definition mu_ushift_right :: "'a vm_scheme \<Rightarrow> 'a vm_scheme outcome" where
  [kernel_defs]: "mu_ushift_right = binop (\<lambda>s t. if BIGSHIFT t then 0 else drop_bit (unat t) s)"

definition mu_shift_right :: "'a vm_scheme \<Rightarrow> 'a vm_scheme outcome" where
  [kernel_defs]: "mu_shift_right = binop (\<lambda>s t. if BIGSHIFT t then SIGN s else signed_drop_bit (unat t) s)"

definition mu_cells :: "'a vm_scheme \<Rightarrow> 'a vm_scheme outcome" where
  [kernel_defs]: "mu_cells = unop (push_bit 3)"

definition mu_cell_slash :: "'a vm_scheme \<Rightarrow> 'a vm_scheme outcome" where
  [kernel_defs]: "mu_cell_slash = unop (signed_drop_bit 3)"

definition mu_cfetch :: "'a vm_scheme \<Rightarrow> 'a vm_scheme outcome" where
  "mu_cfetch s =
     (if stk 1 s \<and> racc (segs s) (ST 0 s) 1 then Ret (set_ST 0 (ucast (mem s (ST 0 s))) s) else Undef)"

definition mu_cstore :: "'a vm_scheme \<Rightarrow> 'a vm_scheme outcome" where
  "mu_cstore s =
     (if stk 2 s \<and> wacc (segs s) (ST 0 s) 1
      then Ret (DROP 2 (s\<lparr>mem := wr_bytes (mem s) (ST 0 s) [ucast (ST 1 s)]\<rparr>)) else Undef)"

definition mu_fetch :: "'a vm_scheme \<Rightarrow> 'a vm_scheme outcome" where
  "mu_fetch s =
     (if stk 1 s \<and> racc (segs s) (ST 0 s) 8 then Ret (set_ST 0 (rd64 (mem s) (ST 0 s)) s) else Undef)"

definition mu_store :: "'a vm_scheme \<Rightarrow> 'a vm_scheme outcome" where
  "mu_store s =
     (if stk 2 s \<and> wacc (segs s) (ST 0 s) 8
      then Ret (DROP 2 (s\<lparr>mem := wr64 (mem s) (ST 0 s) (ST 1 s)\<rparr>)) else Undef)"

definition mu_plus_store :: "'a vm_scheme \<Rightarrow> 'a vm_scheme outcome" where
  "mu_plus_store s =
     (if stk 2 s \<and> wacc (segs s) (ST 0 s) 8
      then Ret (DROP 2 (s\<lparr>mem := wr64 (mem s) (ST 0 s) (rd64 (mem s) (ST 0 s) + ST 1 s)\<rparr>)) else Undef)"

definition mu_nth :: "'a vm_scheme \<Rightarrow> 'a vm_scheme outcome" where
  "mu_nth s =
     (if stk 1 s \<and> racc (segs s) (SP s + (ST 0 s + 1) * 8) 8
      then Ret (set_ST 0 (rd64 (mem s) (SP s + (ST 0 s + 1) * 8)) s) else Undef)"

definition mu_dup :: "'a vm_scheme \<Rightarrow> 'a vm_scheme outcome" where
  "mu_dup s = (if stk 1 s \<and> room 1 s then Ret (PUSH (ST 0 s) s) else Undef)"

definition mu_over :: "'a vm_scheme \<Rightarrow> 'a vm_scheme outcome" where
  "mu_over s = (if stk 2 s \<and> room 1 s then Ret (PUSH (ST 1 s) s) else Undef)"

definition mu_swap :: "'a vm_scheme \<Rightarrow> 'a vm_scheme outcome" where
  "mu_swap s =
     (if stk 2 s then (let t = ST 0 s in Ret (set_ST 1 t (set_ST 0 (ST 1 s) s))) else Undef)"

definition mu_drop :: "'a vm_scheme \<Rightarrow> 'a vm_scheme outcome" where
  "mu_drop s = Ret (DROP 1 s)"

definition mu_2drop :: "'a vm_scheme \<Rightarrow> 'a vm_scheme outcome" where
  "mu_2drop s = Ret (DROP 2 s)"

definition mu_drops :: "'a vm_scheme \<Rightarrow> 'a vm_scheme outcome" where
  "mu_drops s = (if stk 1 s then Ret (DROP (ST 0 s + 1) s) else Undef)"

definition mu_uless :: "'a vm_scheme \<Rightarrow> 'a vm_scheme outcome" where
  [kernel_defs]: "mu_uless = binop (\<lambda>a b. flag (a < b))"

definition mu_less :: "'a vm_scheme \<Rightarrow> 'a vm_scheme outcome" where
  [kernel_defs]: "mu_less = binop (\<lambda>a b. flag (a <s b))"

definition mu_0less :: "'a vm_scheme \<Rightarrow> 'a vm_scheme outcome" where
  [kernel_defs]: "mu_0less = unop (\<lambda>t. flag (t <s 0))"

definition mu_0equal :: "'a vm_scheme \<Rightarrow> 'a vm_scheme outcome" where
  [kernel_defs]: "mu_0equal = unop (\<lambda>t. flag (t = 0))"

text \<open>\<open>SP0 - SP\<close> is a difference of pointers to cells, kept in an \<open>int\<close>.\<close>

definition mu_depth :: "'a vm_scheme \<Rightarrow> 'a vm_scheme outcome" where
  "mu_depth s =
     (if room 1 s
      then Ret (PUSH (cell_of_int (int_of_cell (signed_drop_bit 3 (SP0 s - SP s)))) s) else Undef)"

definition mu_sp_reset :: "'a vm_scheme \<Rightarrow> 'a vm_scheme outcome" where
  "mu_sp_reset s =
     (if wacc (segs s) (SP0 s) 8 then Ret (set_ST 0 0xdecafbad (s\<lparr>SP := SP0 s\<rparr>)) else Undef)"

text \<open>The words of the optional \<open>WITH_SP_OPERATORS\<close>. Unlike the others that take an operand,
  \<open>mu_sp_store\<close> does not drop it.\<close>

definition mu_push_s0 :: "'a vm_scheme \<Rightarrow> 'a vm_scheme outcome" where
  "mu_push_s0 s = (if room 1 s then Ret (PUSH (SP0 s) s) else Undef)"

definition mu_sp_fetch :: "'a vm_scheme \<Rightarrow> 'a vm_scheme outcome" where
  "mu_sp_fetch s = (if room 1 s then Ret (PUSH (SP s) s) else Undef)"

definition mu_sp_store :: "'a vm_scheme \<Rightarrow> 'a vm_scheme outcome" where
  "mu_sp_store s = (if stk 1 s then Ret (s\<lparr>SP := ST 0 s\<rparr>) else Undef)"

definition mu_runtime_rp_fetch :: "'a vm_scheme \<Rightarrow> 'a vm_scheme outcome" where
  "mu_runtime_rp_fetch s = (if room 1 s then Ret (PUSH (RP s) s) else Undef)"

definition mu_runtime_rp_store :: "'a vm_scheme \<Rightarrow> 'a vm_scheme outcome" where
  "mu_runtime_rp_store s = (if stk 1 s then Ret (DROP 1 (s\<lparr>RP := ST 0 s\<rparr>)) else Undef)"

definition mu_runtime_rp_plus_store :: "'a vm_scheme \<Rightarrow> 'a vm_scheme outcome" where
  "mu_runtime_rp_plus_store s = (if stk 1 s then Ret (DROP 1 (RDROP (ST 0 s) s)) else Undef)"

definition mu_star :: "'a vm_scheme \<Rightarrow> 'a vm_scheme outcome" where
  [kernel_defs]: "mu_star = binop (\<lambda>a b. a * b)"

definition mu_uslash_mod :: "'a vm_scheme \<Rightarrow> 'a vm_scheme outcome" where
  "mu_uslash_mod s =
     (if stk 2 s \<and> ST 0 s \<noteq> 0
      then (let uquot = ST 1 s div ST 0 s; umod = ST 1 s mod ST 0 s
            in Ret (set_ST 0 uquot (set_ST 1 umod s))) else Undef)"

text \<open>
  C's \<open>/\<close> and \<open>%\<close> on cells: truncation towards zero. Both trap when the divisor is 0 and
  when the quotient does not fit, which is \<open>INT64_MIN / -1\<close>.
\<close>

definition c_div :: "cell \<Rightarrow> cell \<Rightarrow> cell" where
  "c_div a b = word_of_int (sint a sdiv sint b)"

definition c_mod :: "cell \<Rightarrow> cell \<Rightarrow> cell" where
  "c_mod a b = word_of_int (sint a smod sint b)"

definition div_traps :: "cell \<Rightarrow> cell \<Rightarrow> bool" where
  "div_traps a b \<longleftrightarrow> b = 0 \<or> a = 0x8000000000000000 \<and> b = - 1"

text \<open>
  \<open>envtest.c\<close> runs C's division on -7 and 4 and writes the macro that selects the code of
  \<open>/mod\<close>. C's \<open>/\<close> truncates, so the macro is always the symmetric one.
\<close>

datatype division = MU_DIVISION_FLOORS | MU_DIVISION_IS_SYMMETRIC | MU_DIVISION_broken

definition envtest_main :: division where
  "envtest_main =
     (let quot = (- 7 :: int) sdiv 4; rem = (- 7 :: int) smod 4
      in if quot = - 2 \<and> rem = 1 then MU_DIVISION_FLOORS
         else if quot = - 1 \<and> rem = - 3 then MU_DIVISION_IS_SYMMETRIC
         else MU_DIVISION_broken)"

definition slash_mod :: "cell \<Rightarrow> cell \<Rightarrow> cell \<times> cell" where
  "slash_mod a b =
     (let quot = c_div a b; m = c_mod a b
      in if envtest_main = MU_DIVISION_IS_SYMMETRIC \<and> m \<noteq> 0 \<and> (a XOR b) <s 0
         then (m + b, quot - 1) else (m, quot))"

definition mu_slash_mod :: "'a vm_scheme \<Rightarrow> 'a vm_scheme outcome" where
  "mu_slash_mod s =
     (if stk 2 s \<and> \<not> div_traps (ST 1 s) (ST 0 s)
      then (let (m, quot) = slash_mod (ST 1 s) (ST 0 s) in Ret (set_ST 0 quot (set_ST 1 m s)))
      else Undef)"

definition mu_string_equal :: "'a vm_scheme \<Rightarrow> 'a vm_scheme outcome" where
  "mu_string_equal s =
     (if \<not> stk 4 s then Undef
      else if ST 2 s \<noteq> ST 0 s then Ret (DROP 3 (set_ST 3 0 s))
      else let n = unat (ST 0 s) in
        if racc (segs s) (ST 3 s) n \<and> racc (segs s) (ST 1 s) n
        then Ret (DROP 3 (set_ST 3
               (if rd_bytes (mem s) (ST 3 s) n = rd_bytes (mem s) (ST 1 s) n then - 1 else 0) s))
        else Undef)"

definition mu_cmove :: "'a vm_scheme \<Rightarrow> 'a vm_scheme outcome" where
  "mu_cmove s =
     (let src = ST 2 s; dest = ST 1 s; count = unat (ST 0 s) in
      if stk 3 s \<and> racc (segs s) src count \<and> wacc (segs s) dest count
      then Ret (DROP 3 (s\<lparr>mem := wr_bytes (mem s) dest (rd_bytes (mem s) src count)\<rparr>)) else Undef)"

definition mu_fill :: "'a vm_scheme \<Rightarrow> 'a vm_scheme outcome" where
  "mu_fill s =
     (let dest = ST 2 s; count = unat (ST 1 s); value = int_of_cell (ST 0 s) in
      if stk 3 s \<and> wacc (segs s) dest count
      then Ret (DROP 3 (s\<lparr>mem := wr_bytes (mem s) dest (replicate count (ucast value))\<rparr>)) else Undef)"

definition mu_zcount :: "'a vm_scheme \<Rightarrow> 'a vm_scheme outcome" where
  "mu_zcount s =
     (if stk 1 s \<and> room 1 s
      then (case cstrlen (segs s) (mem s) (ST 0 s) of
              None \<Rightarrow> Undef
            | Some n \<Rightarrow> Ret (PUSH (cell_of_int (of_nat n)) s))
      else Undef)"

end
