(* ===== verification/KernelSpec.thy ===== *)
theory KernelSpec
  imports Kernel
begin

text \<open>
  What the kernel words mean as operations on a list of integers, and the proof that the
  words implement it. The specification is arithmetic on the signed or unsigned values of the
  cells: it has no shift amounts that are special, no truncating division and no stack
  pointer.
\<close>

section \<open>The abstract stack machine\<close>

datatype uword =
    Negate | Invert | TwoStar | TwoSlash | UTwoSlash | Cells | CellSlash | ZeroLess | ZeroEqual

datatype bword =
    Plus | Conj | Disj | Xor | ShiftLeft | UShiftRight | ShiftRight | ULess | Less | Star

datatype kword =
    Unary uword | Binary bword
  | Dup | Over | Swap | Drop | TwoDrop | Nth | Drops | USlashMod | SlashMod | Nope

fun uspec :: "uword \<Rightarrow> cell \<Rightarrow> cell" where
  "uspec Negate a = word_of_int (- sint a)"
| "uspec Invert a = word_of_int (- sint a - 1)"
| "uspec TwoStar a = word_of_int (sint a * 2)"
| "uspec TwoSlash a = word_of_int (sint a div 2)"
| "uspec UTwoSlash a = word_of_int (uint a div 2)"
| "uspec Cells a = word_of_int (sint a * 8)"
| "uspec CellSlash a = word_of_int (sint a div 8)"
| "uspec ZeroLess a = flag (sint a < 0)"
| "uspec ZeroEqual a = flag (sint a = 0)"

fun bspec :: "bword \<Rightarrow> cell \<Rightarrow> cell \<Rightarrow> cell" where
  "bspec Plus a b = word_of_int (sint a + sint b)"
| "bspec Conj a b = a AND b"
| "bspec Disj a b = a OR b"
| "bspec Xor a b = a XOR b"
| "bspec ShiftLeft a n = word_of_int (uint a * 2 ^ unat n)"
| "bspec UShiftRight a n = word_of_int (uint a div 2 ^ unat n)"
| "bspec ShiftRight a n = word_of_int (sint a div 2 ^ unat n)"
| "bspec ULess a b = flag (uint a < uint b)"
| "bspec Less a b = flag (sint a < sint b)"
| "bspec Star a b = word_of_int (sint a * sint b)"

fun kspec :: "kword \<Rightarrow> cell list \<Rightarrow> cell list option" where
  "kspec (Unary w) (a # xs) = Some (uspec w a # xs)"
| "kspec (Binary w) (b # a # xs) = Some (bspec w a b # xs)"
| "kspec Dup (a # xs) = Some (a # a # xs)"
| "kspec Over (b # a # xs) = Some (a # b # a # xs)"
| "kspec Swap (b # a # xs) = Some (a # b # xs)"
| "kspec Drop (a # xs) = Some xs"
| "kspec TwoDrop (b # a # xs) = Some xs"
| "kspec Nth (n # xs) = (if unat n < length xs then Some (xs ! unat n # xs) else None)"
| "kspec Drops (n # xs) = (if unat n \<le> length xs then Some (drop (unat n) xs) else None)"
| "kspec USlashMod (b # a # xs) =
     (if uint b = 0 then None
      else Some (word_of_int (uint a div uint b) # word_of_int (uint a mod uint b) # xs))"
| "kspec SlashMod (b # a # xs) =
     (if sint b = 0 \<or> sint a = - (2 ^ 63) \<and> sint b = - 1 then None
      else Some (word_of_int (sint a div sint b) # word_of_int (sint a mod sint b) # xs))"
| "kspec Nope xs = Some xs"
| "kspec _ _ = None"

fun uimpl :: "uword \<Rightarrow> 'a vm_scheme \<Rightarrow> 'a vm_scheme outcome" where
  "uimpl Negate = mu_negate"
| "uimpl Invert = mu_invert"
| "uimpl TwoStar = mu_2star"
| "uimpl TwoSlash = mu_2slash"
| "uimpl UTwoSlash = mu_u2slash"
| "uimpl Cells = mu_cells"
| "uimpl CellSlash = mu_cell_slash"
| "uimpl ZeroLess = mu_0less"
| "uimpl ZeroEqual = mu_0equal"

fun bimpl :: "bword \<Rightarrow> 'a vm_scheme \<Rightarrow> 'a vm_scheme outcome" where
  "bimpl Plus = mu_plus"
| "bimpl Conj = mu_and"
| "bimpl Disj = mu_or"
| "bimpl Xor = mu_xor"
| "bimpl ShiftLeft = mu_shift_left"
| "bimpl UShiftRight = mu_ushift_right"
| "bimpl ShiftRight = mu_shift_right"
| "bimpl ULess = mu_uless"
| "bimpl Less = mu_less"
| "bimpl Star = mu_star"

fun kimpl :: "kword \<Rightarrow> 'a vm_scheme \<Rightarrow> 'a vm_scheme outcome" where
  "kimpl (Unary w) = uimpl w"
| "kimpl (Binary w) = bimpl w"
| "kimpl Dup = mu_dup"
| "kimpl Over = mu_over"
| "kimpl Swap = mu_swap"
| "kimpl Drop = mu_drop"
| "kimpl TwoDrop = mu_2drop"
| "kimpl Nth = mu_nth"
| "kimpl Drops = mu_drops"
| "kimpl USlashMod = mu_uslash_mod"
| "kimpl SlashMod = mu_slash_mod"
| "kimpl Nope = mu_nope"

section \<open>The arithmetic of one cell\<close>

lemma shift_right_cell: "signed_drop_bit n (a :: cell) = word_of_int (sint a div 2 ^ n)"
proof -
  have "signed_drop_bit n a = word_of_int (sint (signed_drop_bit n a))"
    by (simp only: of_int_sint scast_id)
  also have "\<dots> = word_of_int (sint a div 2 ^ n)"
    by (simp only: sint_signed_drop_bit_eq drop_bit_eq_div)
  finally show ?thesis .
qed

lemma shift_left_cell: "push_bit n (a :: cell) = word_of_int (uint a * 2 ^ n)"
  by (simp add: push_bit_eq_mult)

lemma ushift_right_cell: "drop_bit n (a :: cell) = word_of_int (uint a div 2 ^ n)"
  unfolding drop_bit_eq_div [symmetric, where ?'a = int]
  by (rule bit_word_eqI) (simp add: bit_simps)

lemma not_cell: "NOT (a :: cell) = word_of_int (- sint a - 1)"
  by (simp add: not_eq_complement)

lemma div_big_shift: "64 \<le> n \<Longrightarrow> - (2 ^ 63) \<le> k \<Longrightarrow> k < 2 ^ 63 \<Longrightarrow> k div 2 ^ n = (if k < 0 then - 1 else (0::int))"
proof -
  assume n: "64 \<le> n" and k: "- (2 ^ 63) \<le> k" "k < 2 ^ 63"
  have le: "(2::int) ^ 64 \<le> 2 ^ n" using n by (rule power_increasing) simp
  show ?thesis
  proof (cases "k < 0")
    case True
    have "k div 2 ^ n = - 1"
      using True k le by (intro int_div_pos_eq [where r = "k + 2 ^ n"]) auto
    with True show ?thesis by simp
  next
    case False
    with k le show ?thesis by (simp add: div_pos_pos_trivial)
  qed
qed

lemma sint_range: "- (2 ^ 63) \<le> sint (a :: cell)" "sint (a :: cell) < 2 ^ 63"
  using sint_ge [of a] sint_lt [of a] by simp_all

lemma BIGSHIFT_iff: "BIGSHIFT t \<longleftrightarrow> 64 \<le> unat t"
  by (simp add: BIGSHIFT_def word_le_nat_alt)

lemma SIGN_eq: "SIGN a = word_of_int (if sint a < 0 then - 1 else 0)"
  by (simp add: SIGN_def word_sless_alt)

lemma push_bit_big: "64 \<le> n \<Longrightarrow> push_bit n (a :: cell) = 0"
  by (rule bit_word_eqI) (simp add: bit_simps)

lemma drop_bit_big: "64 \<le> n \<Longrightarrow> drop_bit n (a :: cell) = 0"
  by (rule bit_word_eqI) (auto simp: bit_simps dest: bit_imp_le_length)

lemma shift_left_spec:
  "(if BIGSHIFT t then 0 else push_bit (unat t) (a :: cell)) = word_of_int (uint a * 2 ^ unat t)"
  using push_bit_big [of "unat t" a] by (simp add: BIGSHIFT_iff shift_left_cell)

lemma ushift_right_spec:
  "(if BIGSHIFT t then 0 else drop_bit (unat t) (a :: cell)) = word_of_int (uint a div 2 ^ unat t)"
  using drop_bit_big [of "unat t" a] by (simp add: BIGSHIFT_iff ushift_right_cell)

lemma shift_right_spec:
  "(if BIGSHIFT t then SIGN a else signed_drop_bit (unat t) (a :: cell)) = word_of_int (sint a div 2 ^ unat t)"
  using div_big_shift [OF _ sint_range, of "unat t" a]
  by (simp add: BIGSHIFT_iff SIGN_eq shift_right_cell)

lemma bimpl_spec: "bimpl w s = binop (bspec w) s"
proof (cases w)
  case ShiftLeft
  then show ?thesis by (simp only: bimpl.simps mu_shift_left_def shift_left_spec bspec.simps binop_def)
next
  case UShiftRight
  then show ?thesis by (simp only: bimpl.simps mu_ushift_right_def ushift_right_spec bspec.simps binop_def)
next
  case ShiftRight
  then show ?thesis by (simp only: bimpl.simps mu_shift_right_def shift_right_spec bspec.simps binop_def)
qed (simp_all add: kernel_defs binop_def word_less_def word_sless_alt)

lemma sint_eq_0: "sint (a :: cell) = 0 \<longleftrightarrow> a = 0"
  by (metis of_int_sint scast_id signed_0 of_int_0)

lemma uimpl_spec: "uimpl w s = unop (uspec w) s"
  by (cases w) (simp_all add: kernel_defs unop_def word_sless_alt not_cell shift_right_cell
      shift_left_cell ushift_right_cell sint_eq_0)

section \<open>Division\<close>

text \<open>C's division truncates, so the code of \<open>/mod\<close> is the one that corrects it.\<close>

lemma division_is_symmetric [simp]: "envtest_main = MU_DIVISION_IS_SYMMETRIC"
  by (simp add: envtest_main_def signed_divide_int_def signed_modulo_int_def)

lemma floor_from_trunc_pos:
  fixes a b :: int
  assumes "0 < b"
  shows "(if a smod b \<noteq> 0 \<and> a < 0 then (a smod b + b, a sdiv b - 1) else (a smod b, a sdiv b))
    = (a mod b, a div b)"
proof (cases "0 \<le> a")
  case True
  with assms show ?thesis by (simp add: signed_divide_int_def signed_modulo_int_def sgn_if)
next
  case False
  then obtain c where "a = - c" "0 < c" by (metis neg_less_0_iff_less minus_minus not_le)
  with assms show ?thesis
    by (auto simp: signed_divide_int_def signed_modulo_int_def zdiv_zminus1_eq_if zmod_zminus1_eq_if)
qed

lemma floor_from_trunc:
  fixes a b :: int
  assumes "b \<noteq> 0"
  shows "(if a smod b \<noteq> 0 \<and> (a < 0) \<noteq> (b < 0) then (a smod b + b, a sdiv b - 1) else (a smod b, a sdiv b))
    = (a mod b, a div b)"
proof (cases "0 < b")
  case True
  with floor_from_trunc_pos [OF this, of a] show ?thesis by simp
next
  case False
  define c where "c = - b"
  have c: "b = - c" "0 < c" using False assms by (auto simp: c_def)
  have neg: "a sdiv - c = (- a) sdiv c" "(- a) smod c = - (a smod c)" "a smod - c = a smod c"
    by (simp_all add: signed_divide_int_def signed_modulo_int_def sgn_minus)
  have nz: "a = 0 \<Longrightarrow> a smod c = 0" by (simp add: signed_modulo_int_def)
  from floor_from_trunc_pos [OF c(2), of "- a"] c nz show ?thesis
    by (auto simp: neg div_minus_right mod_minus_right split: if_splits)
qed

lemma sint_word_of_int:
  "- (2 ^ 63) \<le> k \<Longrightarrow> k < 2 ^ 63 \<Longrightarrow> sint (word_of_int k :: cell) = k"
proof -
  assume "- (2 ^ 63) \<le> k" "k < 2 ^ 63"
  then have "signed_take_bit 63 k = k"
    by (intro signed_take_bit_int_eq_self) simp_all
  moreover have "sint (word_of_int k :: cell) = signed_take_bit 63 k"
    by transfer simp
  ultimately show ?thesis by simp
qed

lemma smod_range: "- (2 ^ 63) \<le> sint (a :: cell) smod b" "sint a smod b < 2 ^ 63"
proof -
  define r where "r = \<bar>sint a\<bar> mod \<bar>b\<bar>"
  have r: "0 \<le> r" "r \<le> \<bar>sint a\<bar>"
    by (cases "b = 0"; simp add: zmod_le_nonneg_dividend r_def)+
  have "sint a smod b = sgn (sint a) * r"
    by (simp add: signed_modulo_int_def r_def)
  then have "sint a smod b = (if sint a < 0 then - r else if sint a = 0 then 0 else r)"
    by (simp add: sgn_if)
  then show "- (2 ^ 63) \<le> sint a smod b" "sint a smod b < 2 ^ 63"
    using r sint_range [of a] by (auto simp: abs_if split: if_splits)
qed

lemma xor_sign: "(a XOR b :: cell) <s 0 \<longleftrightarrow> (sint a < 0) \<noteq> (sint b < 0)"
  by (simp add: word_sless_alt signed_xor_eq xor_negative_int_iff)

lemma slash_mod_floor:
  assumes "\<not> div_traps a b"
  shows "slash_mod a b = (word_of_int (sint a mod sint b), word_of_int (sint a div sint b))"
proof -
  have b: "sint b \<noteq> 0" using assms by (simp add: div_traps_def sint_eq_0)
  have m: "c_mod a b \<noteq> 0 \<longleftrightarrow> sint a smod sint b \<noteq> 0"
    unfolding c_mod_def sint_eq_0 [symmetric] sint_word_of_int [OF smod_range] ..
  have "slash_mod a b =
    (if sint a smod sint b \<noteq> 0 \<and> (sint a < 0) \<noteq> (sint b < 0)
     then (word_of_int (sint a smod sint b + sint b), word_of_int (sint a sdiv sint b - 1))
     else (word_of_int (sint a smod sint b), word_of_int (sint a sdiv sint b)))"
    by (simp add: slash_mod_def m xor_sign Let_def) (simp add: c_mod_def c_div_def)
  also have "\<dots> = map_prod word_of_int word_of_int
    (if sint a smod sint b \<noteq> 0 \<and> (sint a < 0) \<noteq> (sint b < 0)
     then (sint a smod sint b + sint b, sint a sdiv sint b - 1)
     else (sint a smod sint b, sint a sdiv sint b))"
    by simp
  finally show ?thesis unfolding floor_from_trunc [OF b] by simp
qed

lemma div_range_pos:
  fixes x c :: int
  assumes "0 < c"
  shows "x < 0 \<Longrightarrow> x \<le> x div c \<and> x div c < 0" and "0 \<le> x \<Longrightarrow> 0 \<le> x div c \<and> x div c \<le> x"
  using assms zdiv_mono2 [of x 1 c] zdiv_mono2_neg [of x 1 c]
  by (auto simp: div_neg_pos_less0 pos_imp_zdiv_nonneg_iff)

text \<open>Unless the division traps, the floored quotient and remainder are cells.\<close>

lemma div_range:
  fixes a b :: int
  assumes "- (2 ^ 63) \<le> a" "a < 2 ^ 63" "b \<noteq> 0" "\<not> (a = - (2 ^ 63) \<and> b = - 1)"
  shows "- (2 ^ 63) \<le> a div b \<and> a div b < 2 ^ 63"
proof (cases "0 < b")
  case True
  with div_range_pos [of b a] assms show ?thesis by (cases "a < 0") auto
next
  case False
  then have b: "0 < - b" using assms by simp
  have q: "a div b = (- a) div (- b)" by simp
  show ?thesis
  proof (cases "a = - (2 ^ 63)")
    case True
    then have "1 < - b" using b assms by auto
    then have "(- a) div (- b) < - a" using True int_div_less_self [of "- a" "- b"] by simp
    with True b div_range_pos(2) [of "- b" "- a"] show ?thesis unfolding q by auto
  next
    case False
    with assms b div_range_pos [of "- b" "- a"] show ?thesis unfolding q by (cases "- a < 0") auto
  qed
qed

lemma mod_range:
  fixes a b :: int
  assumes "- (2 ^ 63) \<le> b" "b < 2 ^ 63" "b \<noteq> 0"
  shows "- (2 ^ 63) \<le> a mod b \<and> a mod b < 2 ^ 63"
proof (cases "0 < b")
  case True
  then have "0 \<le> a mod b \<and> a mod b < b" by simp
  then show ?thesis using assms by linarith
next
  case False
  then have "b < a mod b \<and> a mod b \<le> 0" using assms by simp
  then show ?thesis using assms by linarith
qed

lemma div_traps_iff: "div_traps a b \<longleftrightarrow> sint b = 0 \<or> sint a = - (2 ^ 63) \<and> sint b = - 1"
proof -
  have "sint (a :: cell) = - (2 ^ 63) \<longleftrightarrow> a = 0x8000000000000000" for a
    using signed_word_eqI [of a "0x8000000000000000"] by auto
  moreover have "sint (b :: cell) = - 1 \<longleftrightarrow> b = - 1"
    using signed_word_eqI [of b "- 1"] by auto
  ultimately show ?thesis by (simp add: div_traps_def sint_eq_0)
qed

section \<open>The words implement the specification\<close>

lemma kspec_cases:
  assumes "kspec w xs = Some ys"
  obtains (unary) u a zs where "w = Unary u" "xs = a # zs" "ys = uspec u a # zs"
  | (binary) f a b zs where "w = Binary f" "xs = b # a # zs" "ys = bspec f a b # zs"
  | (dup) a zs where "w = Dup" "xs = a # zs" "ys = a # a # zs"
  | (over) a b zs where "w = Over" "xs = b # a # zs" "ys = a # b # a # zs"
  | (swap) a b zs where "w = Swap" "xs = b # a # zs" "ys = a # b # zs"
  | (drop) a where "w = Drop" "xs = a # ys"
  | (twodrop) a b where "w = TwoDrop" "xs = b # a # ys"
  | (nth) n zs where "w = Nth" "xs = n # zs" "unat n < length zs" "ys = zs ! unat n # zs"
  | (drops) n zs where "w = Drops" "xs = n # zs" "unat n \<le> length zs" "ys = List.drop (unat n) zs"
  | (uslashmod) a b zs where "w = USlashMod" "xs = b # a # zs" "uint b \<noteq> 0"
      "ys = word_of_int (uint a div uint b) # word_of_int (uint a mod uint b) # zs"
  | (slashmod) a b zs where "w = SlashMod" "xs = b # a # zs" "\<not> div_traps a b"
      "ys = word_of_int (sint a div sint b) # word_of_int (sint a mod sint b) # zs"
  | (nope) "w = Nope" "ys = xs"
  using assms
  by (cases "(w, xs)" rule: kspec.cases) (auto simp: div_traps_iff split: if_splits)

lemma refine_unop:
  "drep s (a # xs) \<Longrightarrow> \<exists>s'. unop f s = Ret s' \<and> drep s' (f a # xs) \<and> dframe s s'"
  by (auto simp: unop_def ds.cells_rep ds.get_0 intro: ds.put_0 dframe_set_ST)

lemma refine_binop:
  "drep s (b # a # xs) \<Longrightarrow> \<exists>s'. binop f s = Ret s' \<and> drep s' (f a b # xs) \<and> dframe s s'"
  by (auto simp: binop_def ds.cells_rep ds.get_0 ds.get_1 intro: ds.binary dframe_set_ST)

lemma refine_put2:
  assumes "drep s (b # a # xs)"
  shows "drep (set_ST 0 u (set_ST (Suc 0) v s)) (u # v # xs)"
    and "drep (set_ST (Suc 0) v (set_ST 0 u s)) (u # v # xs)"
    and "dframe s (set_ST 0 u (set_ST (Suc 0) v s))"
    and "dframe s (set_ST (Suc 0) v (set_ST 0 u s))"
proof -
  have 1: "drep (set_ST (Suc 0) v s) (b # v # xs)" and 2: "drep (set_ST 0 u s) (u # a # xs)"
    using assms by (blast intro: ds.put_0 ds.put_1)+
  then show "drep (set_ST 0 u (set_ST (Suc 0) v s)) (u # v # xs)"
    and "drep (set_ST (Suc 0) v (set_ST 0 u s)) (u # v # xs)"
    by (blast intro: ds.put_0 ds.put_1)+
  show "dframe s (set_ST 0 u (set_ST (Suc 0) v s))"
    by (rule dframe_trans [OF dframe_set_ST [OF assms] dframe_set_ST [OF 1]]) simp_all
  show "dframe s (set_ST (Suc 0) v (set_ST 0 u s))"
    by (rule dframe_trans [OF dframe_set_ST [OF assms] dframe_set_ST [OF 2]]) simp_all
qed

lemma refine_nth:
  assumes rep: "drep s (n # xs)" and n: "unat n < length xs"
  shows "racc (segs s) (SP s + (n + 1) * 8) 8" "rd64 (mem s) (SP s + (n + 1) * 8) = xs ! unat n"
proof -
  have at: "stack_at (mem s) (segs s) (dstack s) (SP s) (n # xs)"
    using rep by (simp add: drep_def)
  have eq: "of_nat (Suc (unat n)) = n + 1" by simp
  show "racc (segs s) (SP s + (n + 1) * 8) 8"
    using stack_at_wacc [OF at, of "Suc (unat n)", unfolded eq] n by (simp add: wacc_racc)
  show "rd64 (mem s) (SP s + (n + 1) * 8) = xs ! unat n"
    using stack_at_get [OF at, of "Suc (unat n)", unfolded eq] n by simp
qed

lemma refine_drops:
  assumes "drep s (n # xs)" "unat n \<le> length xs"
  shows "drep (DROP (n + 1) s) (List.drop (unat n) xs)"
  using ds.pop_rep [of s "n # xs" "Suc (unat n)"] assms by (simp add: add.commute)

theorem kimpl_refines:
  assumes rep: "drep s xs" and spec: "kspec w xs = Some ys" and fits: "length ys \<le> 4064"
  shows "\<exists>s'. kimpl w s = Ret s' \<and> drep s' ys \<and> dframe s s'"
  using spec
proof (cases rule: kspec_cases)
  case unary
  with rep refine_unop show ?thesis by (simp add: uimpl_spec)
next
  case binary
  with rep refine_binop show ?thesis by (simp add: bimpl_spec)
next
  case dup
  with rep fits show ?thesis
    by (auto simp: mu_dup_def ds.cells_rep ds.room_rep ds.get_0 intro: ds.push_rep dframe_PUSH)
next
  case over
  with rep fits show ?thesis
    by (auto simp: mu_over_def ds.cells_rep ds.room_rep ds.get_1 intro: ds.push_rep dframe_PUSH)
next
  case swap
  with rep show ?thesis
    by (auto simp: mu_swap_def ds.cells_rep ds.get_0 ds.get_1 intro: refine_put2)
next
  case drop
  with rep show ?thesis by (auto simp: mu_drop_def intro: ds.pop_1)
next
  case twodrop
  with rep show ?thesis by (auto simp: mu_2drop_def intro: ds.pop_2)
next
  case (nth n zs)
  with rep refine_nth [of s n zs] show ?thesis
    by (auto simp: mu_nth_def ds.cells_rep ds.get_0 intro: ds.put_0 dframe_set_ST)
next
  case (drops n zs)
  with rep refine_drops [of s n zs] show ?thesis
    by (auto simp: mu_drops_def ds.cells_rep ds.get_0)
next
  case uslashmod
  with rep show ?thesis
    by (auto simp: mu_uslash_mod_def ds.cells_rep ds.get_0 ds.get_1 word_div_def word_mod_def
        intro: refine_put2)
next
  case slashmod
  with rep show ?thesis
    by (auto simp: mu_slash_mod_def ds.cells_rep ds.get_0 ds.get_1 slash_mod_floor intro: refine_put2)
next
  case nope
  with rep show ?thesis by (simp add: mu_nope_def)
qed

text \<open>
  What the kernel words that touch memory do: store and fetch, block moves that may overlap,
  fills, comparison of strings, and the words that read or reset the stack pointer.
\<close>

lemma mu_store_rep:
  assumes "drep s (a # v # xs)" "data_at s a 8"
  shows "mu_store s = Ret (DROP 2 (s\<lparr>mem := wr64 (mem s) a v\<rparr>))"
    and "drep (DROP 2 (s\<lparr>mem := wr64 (mem s) a v\<rparr>)) xs"
  using assms drep_write64 [OF assms, of v]
  by (auto simp: mu_store_def ds.cells_rep ds.get_0 ds.get_1 data_at_wacc intro: ds.pop_2)

lemma mu_fetch_rep:
  assumes "drep s (a # xs)" "racc (segs s) a 8"
  shows "mu_fetch s = Ret (set_ST 0 (rd64 (mem s) a) s)"
    and "drep (set_ST 0 (rd64 (mem s) a) s) (rd64 (mem s) a # xs)"
    and "dframe s (set_ST 0 (rd64 (mem s) a) s)"
  using assms by (auto simp: mu_fetch_def ds.cells_rep ds.get_0 intro: ds.put_0 dframe_set_ST)

lemma store_then_fetch:
  assumes rep: "drep s (a # v # xs)" and a: "data_at s a 8"
  shows "\<exists>s1 s2. mu_store s = Ret s1 \<and> mu_fetch (PUSH a s1) = Ret s2 \<and> drep s2 (v # xs)"
proof -
  let ?s1 = "DROP 2 (s\<lparr>mem := wr64 (mem s) a v\<rparr>)"
  note st = mu_store_rep [OF rep a]
  have len: "length xs < 4064"
    using ds.depth_rep [OF rep] by simp
  have rep1: "drep (PUSH a ?s1) (a # xs)" and fr: "dframe ?s1 (PUSH a ?s1)"
    using st(2) len by (auto intro: ds.push_rep dframe_PUSH)
  have a1: "data_at ?s1 a 8"
    using a by (subst data_at_cong [of _ s]) auto
  then have acc: "racc (segs (PUSH a ?s1)) a 8"
    using data_at_racc by fastforce
  have "rd64 (mem (PUSH a ?s1)) a = rd64 (mem ?s1) a"
    by (rule rd64_data_dframe [OF fr a1])
  then have "rd64 (mem (PUSH a ?s1)) a = v"
    by (simp add: mem64.slot_same)
  with mu_fetch_rep [OF rep1 acc] st show ?thesis by auto
qed

lemma cmove_moves:
  assumes rep: "drep s (n # dest # src # xs)" and acc: "racc (segs s) src (unat n)" "data_at s dest (unat n)"
  shows "\<exists>s'. mu_cmove s = Ret s' \<and> drep s' xs \<and>
    rd_bytes (mem s') dest (unat n) = rd_bytes (mem s) src (unat n) \<and>
    (\<forall>a. unat n \<le> unat (a - dest) \<longrightarrow> mem s' a = mem s a)"
proof -
  let ?m = "wr_bytes (mem s) dest (rd_bytes (mem s) src (unat n))"
  have "drep (s\<lparr>mem := ?m\<rparr>) (n # dest # src # xs)"
    using rep acc by (intro drep_write) auto
  then have "drep (DROP 3 (s\<lparr>mem := ?m\<rparr>)) xs" by (rule ds.pop_3)
  moreover have "rd_bytes ?m dest (unat n) = rd_bytes (mem s) src (unat n)"
    using rd_wr_bytes_same [of "rd_bytes (mem s) src (unat n)" "mem s" dest] unat_less_64 [of n]
    by (simp add: less_imp_le)
  moreover have "mu_cmove s = Ret (DROP 3 (s\<lparr>mem := ?m\<rparr>))"
    using rep acc by (simp add: mu_cmove_def ds.cells_rep ds.get_0 ds.get_1 ds.get_2 data_at_wacc)
  moreover have "\<forall>a. unat n \<le> unat (a - dest) \<longrightarrow> ?m a = mem s a"
    by (simp add: wr_bytes_def)
  ultimately show ?thesis by auto
qed

lemma fill_fills:
  assumes rep: "drep s (v # n # dest # xs)" and acc: "data_at s dest (unat n)"
  shows "\<exists>s'. mu_fill s = Ret s' \<and> drep s' xs \<and>
    rd_bytes (mem s') dest (unat n) = replicate (unat n) (ucast v) \<and>
    (\<forall>a. unat n \<le> unat (a - dest) \<longrightarrow> mem s' a = mem s a)"
proof -
  let ?m = "wr_bytes (mem s) dest (replicate (unat n) (ucast v))"
  have low: "(ucast (int_of_cell v) :: byte) = ucast v"
    by (rule bit_word_eqI) (auto simp: int_of_cell_def bit_simps)
  have "drep (s\<lparr>mem := ?m\<rparr>) (v # n # dest # xs)"
    using rep acc by (intro drep_write) auto
  then have "drep (DROP 3 (s\<lparr>mem := ?m\<rparr>)) xs" by (rule ds.pop_3)
  moreover have "rd_bytes ?m dest (unat n) = replicate (unat n) (ucast v)"
    using rd_wr_bytes_same [of "replicate (unat n) (ucast v)" "mem s" dest] unat_less_64 [of n]
    by (simp add: less_imp_le)
  moreover have "mu_fill s = Ret (DROP 3 (s\<lparr>mem := ?m\<rparr>))"
    using rep acc
    by (simp add: mu_fill_def Let_def ds.cells_rep ds.get_0 ds.get_1 ds.get_2 data_at_wacc low)
  moreover have "\<forall>a. unat n \<le> unat (a - dest) \<longrightarrow> ?m a = mem s a"
    by (simp add: wr_bytes_def)
  ultimately show ?thesis by auto
qed

lemma string_equal_decides:
  assumes rep: "drep s (n2 # a2 # n1 # a1 # xs)"
    and acc: "racc (segs s) a1 (unat n1)" "racc (segs s) a2 (unat n2)"
  shows "\<exists>s'. mu_string_equal s = Ret s' \<and> dframe s s' \<and>
    drep s' (flag (rd_bytes (mem s) a1 (unat n1) = rd_bytes (mem s) a2 (unat n2)) # xs)"
proof -
  have get: "ST 0 s = n2" "ST (Suc 0) s = a2" "ST 2 s = n1" "ST 3 s = a1" "stk 4 s"
    using rep by (auto simp: ds.get_rep ds.cells_rep)
  have put: "drep (DROP 3 (set_ST 3 v s)) (v # xs)" "dframe s (set_ST 3 v s)" for v
    using rep ds.pop_3 [OF ds.put_rep [OF rep, of 3 v, simplified numeral_3_eq_3, simplified]]
    by (auto simp: numeral_3_eq_3 intro!: dframe_set_ST)
  show ?thesis
  proof (cases "n1 = n2")
    case True
    with get acc put show ?thesis by (auto simp: mu_string_equal_def flag_def)
  next
    case False
    then have "rd_bytes (mem s) a1 (unat n1) \<noteq> rd_bytes (mem s) a2 (unat n2)"
      by (metis length_rd_bytes word_unat_eq_iff)
    with False get put [of 0] show ?thesis by (auto simp: mu_string_equal_def flag_def)
  qed
qed

lemma depth_counts:
  assumes rep: "drep s xs" and len: "length xs < 4064"
  shows "\<exists>s'. mu_depth s = Ret s' \<and> dframe s s' \<and> drep s' (of_nat (length xs) # xs)"
proof -
  have d: "SP0 s - SP s = of_nat (8 * length xs)"
    using rep by (simp add: drep_def stack_at_def SP0_def STACK_SIZE_def STACK_SAFETY_def)
  have "signed_drop_bit 3 (SP0 s - SP s) = word_of_int (sint (of_nat (8 * length xs) :: cell) div 2 ^ 3)"
    unfolding d by (rule shift_right_cell)
  also have "\<dots> = of_nat (length xs)"
    by (subst sint_of_nat_64) (use len in simp_all)
  finally have v: "cell_of_int (int_of_cell (signed_drop_bit 3 (SP0 s - SP s))) = of_nat (length xs)"
    using len by (simp add: cell_of_int_of_nat)
  show ?thesis
    using rep len by (auto simp: mu_depth_def v ds.room_rep intro: ds.push_rep dframe_PUSH)
qed

lemma zcount_counts:
  assumes rep: "drep s (a # xs)" and len: "length xs < 4063"
    and z: "cstrlen (segs s) (mem s) a = Some n" and n: "n < 2 ^ 31"
  shows "\<exists>s'. mu_zcount s = Ret s' \<and> dframe s s' \<and> drep s' (of_nat n # a # xs)"
  using assms
  by (auto simp: mu_zcount_def ds.cells_rep ds.room_rep ds.get_0 cell_of_int_of_nat
      intro: ds.push_rep dframe_PUSH)

lemma sp_reset_resets:
  assumes "stack_seg (dstack s) \<in> set (segs s)"
  shows "\<exists>s'. mu_sp_reset s = Ret s' \<and> drep s' [] \<and> ST 0 s' = 0xdecafbad"
proof -
  have at: "stack_at (mem s) (segs s) (dstack s) (SP0 s) []"
    using assms by (simp add: stack_at_def SP0_def STACK_SIZE_def STACK_SAFETY_def)
  have "wacc (segs s) (SP0 s) 8"
    using stack_at_slot [OF at, of 0] assms
    by (auto simp: wacc_def list_ex_iff intro!: bexI [of _ "stack_seg (dstack s)"])
  moreover have "drep (set_ST 0 0xdecafbad (s\<lparr>SP := SP0 s\<rparr>)) []"
    using assms by (simp add: drep_def stack_at_def set_ST_def SP0_def STACK_SIZE_def STACK_SAFETY_def)
  ultimately show ?thesis by (simp add: mu_sp_reset_def ST_set_ST)
qed

end
