(* ===== verification/Engine.thy ===== *)
theory Engine
  imports Machine
begin

text \<open>
  \<open>engine-itc.c\<close>: the inner interpreter \<open>mu_execute\<close> and the run-time words of control
  structures and of the return stack. The C functions a code field can point to are a
  parameter \<open>code\<close> of the interpreter: it takes the interpreter itself, for the words that
  run it again, and the contents of a code field.
\<close>

section \<open>Calling a word\<close>

type_synonym 's action = "'s \<Rightarrow> 's outcome"

text \<open>\<open>CALL(xt)\<close>: W goes to the parameter field, and control to the code field's function.\<close>

definition CALL :: "(cell \<Rightarrow> 'a vm_scheme action) \<Rightarrow> cell \<Rightarrow> 'a vm_scheme action" where
  "CALL fn xt s =
     (if racc (segs s) xt 8 then fn (rd64 (mem s) xt) (s\<lparr>W := xt + 8\<rparr>) else Undef)"

text \<open>
  \<open>mu_execute\<close> pops an execution token, calls it, and then does NEXT while RP is strictly
  below the saved RP. The first argument after \<open>code\<close> is fuel: each call of NEXT and each
  nested \<open>mu_execute\<close> uses one unit.
\<close>

fun mu_execute :: "('a vm_scheme action \<Rightarrow> cell \<Rightarrow> 'a vm_scheme action) \<Rightarrow> nat \<Rightarrow> 'a vm_scheme action"
  and next_loop :: "('a vm_scheme action \<Rightarrow> cell \<Rightarrow> 'a vm_scheme action) \<Rightarrow> nat \<Rightarrow> addr \<Rightarrow> 'a vm_scheme action"
where
  "mu_execute code 0 s = Timeout"
| "mu_execute code (Suc n) s =
     (if stk 1 s
      then bindo (CALL (code (mu_execute code n)) (ST 0 s) (DROP 1 s)) (next_loop code n (RP s))
      else Undef)"
| "next_loop code 0 rp_saved s = (if RP s < rp_saved then Timeout else Ret s)"
| "next_loop code (Suc n) rp_saved s =
     (if RP s < rp_saved
      then if racc (segs s) (IP s) 8
           then bindo (CALL (code (mu_execute code n)) (rd64 (mem s) (IP s)) (s\<lparr>IP := IP s + 8\<rparr>))
                  (next_loop code n rp_saved)
           else Undef
      else Ret s)"

section \<open>Entering and leaving words\<close>

definition mu_do_colon :: "'a vm_scheme action" where
  "mu_do_colon s = (if rroom 1 s then Ret ((RPUSH (IP s) s)\<lparr>IP := W s\<rparr>) else Undef)"

definition mu_do_does :: "'a vm_scheme action" where
  "mu_do_does s =
     (if rroom 1 s \<and> racc (segs s) (W s) 8 \<and> room 1 s
      then (let s1 = RPUSH (IP s) s;
                s2 = s1\<lparr>IP := rd64 (mem s1) (W s1), W := W s1 + 8\<rparr>
            in Ret (PUSH (W s2) s2))
      else Undef)"

definition mu_runtime_exit :: "'a vm_scheme action" where
  "mu_runtime_exit s = (if rstk 1 s then Ret (RDROP 1 (s\<lparr>IP := RT 0 s\<rparr>)) else Undef)"

definition mu_runtime_lit' :: "'a vm_scheme action" where
  "mu_runtime_lit' s =
     (if racc (segs s) (IP s) 8 \<and> room 1 s
      then Ret (PUSH (rd64 (mem s) (IP s)) (s\<lparr>IP := IP s + 8\<rparr>)) else Undef)"

section \<open>Control structures\<close>

definition BRANCH :: "'a vm_scheme action" where
  "BRANCH s = (if racc (segs s) (IP s) 8 then Ret (s\<lparr>IP := rd64 (mem s) (IP s)\<rparr>) else Undef)"

definition SKIP :: "'a vm_scheme action" where
  "SKIP s = Ret (s\<lparr>IP := IP s + 8\<rparr>)"

definition mu_runtime_branch' :: "'a vm_scheme action" where
  [engine_defs]: "mu_runtime_branch' s = BRANCH s"

definition mu_runtime_equal_0branch' :: "'a vm_scheme action" where
  [engine_defs]: "mu_runtime_equal_0branch' s =
     (if stk 1 s then if ST 0 s = 0 then BRANCH s else SKIP s else Undef)"

definition mu_runtime_0branch' :: "'a vm_scheme action" where
  [engine_defs]: "mu_runtime_0branch' s = bindo (mu_runtime_equal_0branch' s) (\<lambda>s. Ret (DROP 1 s))"

definition mu_runtime_q0branch' :: "'a vm_scheme action" where
  [engine_defs]: "mu_runtime_q0branch' s =
     (if stk 1 s then if ST 0 s = 0 then bindo (BRANCH s) (\<lambda>s. Ret (DROP 1 s)) else SKIP s else Undef)"

definition mu_runtime_next' :: "'a vm_scheme action" where
  [engine_defs]: "mu_runtime_next' s =
     (if rstk 1 s
      then (let s1 = set_RT 0 (RT 0 s - 1) s
            in if RT 0 s1 = 0 then bindo (SKIP s1) (\<lambda>s. Ret (RDROP 1 s)) else BRANCH s1)
      else Undef)"

definition mu_runtime_do' :: "'a vm_scheme action" where
  [engine_defs]: "mu_runtime_do' s =
     (if racc (segs s) (IP s) 8 \<and> stk 2 s \<and> rroom 3 s
      then (let s1 = RPUSH (rd64 (mem s) (IP s)) (s\<lparr>IP := IP s + 8\<rparr>);
                s2 = RPUSH (ST 1 s1) s1;
                s3 = RPUSH (ST 0 s2 - ST 1 s2) s2
            in Ret (DROP 2 s3))
      else Undef)"

definition mu_runtime_loop' :: "'a vm_scheme action" where
  [engine_defs]: "mu_runtime_loop' s =
     (if rstk 1 s
      then (let s1 = set_RT 0 (RT 0 s + 1) s
            in if RT 0 s1 = 0 then bindo (SKIP s1) (\<lambda>s. Ret (RDROP 3 s)) else BRANCH s1)
      else Undef)"

definition mu_runtime_plus_loop' :: "'a vm_scheme action" where
  [engine_defs]: "mu_runtime_plus_loop' s =
     (if rstk 1 s \<and> stk 1 s
      then (let prev = RT 0 s;
                s1 = set_RT 0 (RT 0 s + ST 0 s) s
            in bindo (if (RT 0 s1 XOR prev) <s 0 then bindo (SKIP s1) (\<lambda>s. Ret (RDROP 3 s)) else BRANCH s1)
                 (\<lambda>s. Ret (DROP 1 s)))
      else Undef)"

definition mu_runtime_leave :: "'a vm_scheme action" where
  [engine_defs]: "mu_runtime_leave s = (if rstk 3 s then Ret (RDROP 3 (s\<lparr>IP := RT 2 s\<rparr>)) else Undef)"

definition mu_runtime_qleave :: "'a vm_scheme action" where
  [engine_defs]: "mu_runtime_qleave s =
     (if stk 1 s then if ST 0 s \<noteq> 0 then mu_runtime_leave (DROP 1 s) else Ret (DROP 1 s) else Undef)"

definition mu_runtime_i :: "'a vm_scheme action" where
  [engine_defs]: "mu_runtime_i s = (if rstk 2 s \<and> room 1 s then Ret (PUSH (RT 0 s + RT 1 s) s) else Undef)"

definition mu_runtime_j :: "'a vm_scheme action" where
  [engine_defs]: "mu_runtime_j s = (if rstk 5 s \<and> room 1 s then Ret (PUSH (RT 3 s + RT 4 s) s) else Undef)"

definition mu_runtime_k :: "'a vm_scheme action" where
  [engine_defs]: "mu_runtime_k s = (if rstk 8 s \<and> room 1 s then Ret (PUSH (RT 6 s + RT 7 s) s) else Undef)"

section \<open>The return stack\<close>

definition mu_runtime_rfetch :: "'a vm_scheme action" where
  [engine_defs]: "mu_runtime_rfetch s = (if rstk 1 s \<and> room 1 s then Ret (PUSH (RT 0 s) s) else Undef)"

definition mu_runtime_to_r :: "'a vm_scheme action" where
  [engine_defs]: "mu_runtime_to_r s = (if stk 1 s \<and> rroom 1 s then Ret (RPUSH (ST 0 s) (DROP 1 s)) else Undef)"

definition mu_runtime_r_from :: "'a vm_scheme action" where
  [engine_defs]: "mu_runtime_r_from s = (if rstk 1 s \<and> room 1 s then Ret (PUSH (RT 0 s) (RDROP 1 s)) else Undef)"

definition mu_runtime_2rfetch :: "'a vm_scheme action" where
  [engine_defs]: "mu_runtime_2rfetch s =
     (if rstk 2 s \<and> room 2 s then (let s1 = PUSH (RT 1 s) s in Ret (PUSH (RT 0 s1) s1)) else Undef)"

definition mu_runtime_2to_r :: "'a vm_scheme action" where
  [engine_defs]: "mu_runtime_2to_r s =
     (if stk 2 s \<and> rroom 2 s
      then (let s1 = RPUSH (ST 1 s) s; s2 = RPUSH (ST 0 s1) s1 in Ret (DROP 2 s2)) else Undef)"

definition mu_runtime_2r_from :: "'a vm_scheme action" where
  [engine_defs]: "mu_runtime_2r_from s = bindo (mu_runtime_2rfetch s) (\<lambda>s. Ret (RDROP 2 s))"

definition mu_runtime_push :: "'a vm_scheme action" where
  [engine_defs]: "mu_runtime_push s = mu_runtime_to_r s"

definition mu_runtime_pop :: "'a vm_scheme action" where
  [engine_defs]: "mu_runtime_pop s = mu_runtime_r_from s"

definition mu_runtime_2push :: "'a vm_scheme action" where
  [engine_defs]: "mu_runtime_2push s = mu_runtime_2to_r s"

definition mu_runtime_2pop :: "'a vm_scheme action" where
  [engine_defs]: "mu_runtime_2pop s = mu_runtime_2r_from s"

definition mu_runtime_rdrop :: "'a vm_scheme action" where
  [engine_defs]: "mu_runtime_rdrop s = Ret (RDROP 1 s)"

definition mu_runtime_2rdrop :: "'a vm_scheme action" where
  [engine_defs]: "mu_runtime_2rdrop s = Ret (RDROP 2 s)"

definition mu_runtime_shunt :: "'a vm_scheme action" where
  [engine_defs]: "mu_runtime_shunt s = mu_runtime_rdrop s"

section \<open>Fuel\<close>

text \<open>
  A table of code is monotone when a word that finishes with a given interpreter does the same
  with every interpreter that finishes wherever the first does. Then more fuel changes no
  result, and the result does not depend on how much there was.
\<close>

definition less_defined :: "'s action \<Rightarrow> 's action \<Rightarrow> bool" where
  "less_defined f g \<longleftrightarrow> (\<forall>s. f s \<noteq> Timeout \<longrightarrow> g s = f s)"

lemma less_defined_le: "less_defined f g \<longleftrightarrow> f \<le> g"
  by (simp add: less_defined_def le_fun_def less_eq_outcome_def)

lemma less_definedD: "less_defined f g \<Longrightarrow> f s \<noteq> Timeout \<Longrightarrow> g s = f s"
  by (simp add: less_defined_def)

lemma less_defined_refl [simp]: "less_defined f f"
  by (simp add: less_defined_def)

lemma bindo_less_defined:
  "(m \<noteq> Timeout \<Longrightarrow> m' = m) \<Longrightarrow> less_defined f g \<Longrightarrow> bindo m f \<noteq> Timeout \<Longrightarrow> bindo m' g = bindo m f"
  by (cases m) (auto simp: less_defined_def)

locale code_table =
  fixes code :: "'a vm_scheme action \<Rightarrow> cell \<Rightarrow> 'a vm_scheme action"
  assumes code_mono: "less_defined f g \<Longrightarrow> less_defined (code f c) (code g c)"
begin

lemma CALL_mono: "less_defined f g \<Longrightarrow> less_defined (CALL (code f) xt) (CALL (code g) xt)"
  using code_mono [of f g] by (auto simp: less_defined_def CALL_def)

lemma fuel_mono_both:
  "less_defined (mu_execute code n) (mu_execute code (Suc n)) \<and>
    (\<forall>r. less_defined (next_loop code n r) (next_loop code (Suc n) r))"
proof (induction n)
  case 0
  show ?case by (simp add: less_defined_def)
next
  case (Suc n)
  have calls: "less_defined (CALL (code (mu_execute code n)) xt) (CALL (code (mu_execute code (Suc n))) xt)" for xt
    by (rule CALL_mono [OF Suc.IH [THEN conjunct1]])
  have loops: "less_defined (next_loop code n r) (next_loop code (Suc n) r)" for r
    using Suc.IH by blast
  have seq: "bindo (CALL (code (mu_execute code n)) xt s) (next_loop code n r) \<noteq> Timeout \<Longrightarrow>
      bindo (CALL (code (mu_execute code (Suc n))) xt s) (next_loop code (Suc n) r) =
      bindo (CALL (code (mu_execute code n)) xt s) (next_loop code n r)" for xt s r
    by (rule bindo_less_defined [OF less_definedD [OF calls] loops])
  have "less_defined (mu_execute code (Suc n)) (mu_execute code (Suc (Suc n)))"
    unfolding less_defined_def
    by (intro allI impI, subst mu_execute.simps(2), subst mu_execute.simps(2) [of code n],
        subst (asm) mu_execute.simps(2)) (simp only: seq simp_thms if_True if_False split: if_splits)
  moreover have "less_defined (next_loop code (Suc n) r) (next_loop code (Suc (Suc n)) r)" for r
    unfolding less_defined_def
    by (intro allI impI, subst next_loop.simps(2), subst next_loop.simps(2) [of code n],
        subst (asm) next_loop.simps(2)) (simp only: seq simp_thms if_True if_False split: if_splits)
  ultimately show ?case by blast
qed

lemmas fuel_mono_Suc = fuel_mono_both [THEN conjunct1] fuel_mono_both [THEN conjunct2, rule_format]

lemma fuel_mono:
  assumes "n \<le> m"
  shows "mu_execute code n s \<noteq> Timeout \<Longrightarrow> mu_execute code m s = mu_execute code n s"
    and "next_loop code n r s \<noteq> Timeout \<Longrightarrow> next_loop code m r s = next_loop code n r s"
proof -
  have "(mu_execute code n s \<noteq> Timeout \<longrightarrow> mu_execute code m s = mu_execute code n s) \<and>
      (next_loop code n r s \<noteq> Timeout \<longrightarrow> next_loop code m r s = next_loop code n r s)"
    using assms
  proof (induction rule: dec_induct)
    case (step k)
    then show ?case
      using fuel_mono_Suc(1) [of k, THEN less_definedD, of s]
        fuel_mono_Suc(2) [of k r, THEN less_definedD, of s] by metis
  qed simp
  then show "mu_execute code n s \<noteq> Timeout \<Longrightarrow> mu_execute code m s = mu_execute code n s"
    and "next_loop code n r s \<noteq> Timeout \<Longrightarrow> next_loop code m r s = next_loop code n r s"
    by blast+
qed

lemma fuel_unique:
  assumes "mu_execute code n s \<noteq> Timeout" "mu_execute code m s \<noteq> Timeout"
  shows "mu_execute code n s = mu_execute code m s"
  using assms fuel_mono(1) by (metis linear)

lemma less_defined_fuel: "n \<le> m \<Longrightarrow> less_defined (mu_execute code n) (mu_execute code m)"
  using fuel_mono(1) by (simp add: less_defined_def)

lemma CALL_more_fuel:
  "n \<le> m \<Longrightarrow> CALL (code (mu_execute code n)) xt s \<noteq> Timeout \<Longrightarrow>
    CALL (code (mu_execute code m)) xt s = CALL (code (mu_execute code n)) xt s"
  by (rule less_definedD [OF CALL_mono [OF less_defined_fuel]])

end

end
