(* ===== verification/Threads.thy ===== *)
theory Threads
  imports EngineSpec KernelSpec
begin

text \<open>
  The threaded code that the inner interpreter runs, as an abstract machine. A configuration is
  an instruction address and the two stacks as lists; a thread is a map from addresses to
  instructions. Each run-time word refines one instruction, and running a colon word with
  \<open>mu_execute\<close> refines running the abstract machine until its return stack is back to where
  it was. The loops are then proved on the abstract machine.
\<close>

section \<open>Instructions\<close>

datatype instr =
    IPrim kword | ILit cell
  | IBranch addr | IEq0Branch addr | I0Branch addr | IQ0Branch addr
  | INext addr | IDo addr | ILoop addr | IPlusLoop addr | ILeave | IQLeave | II | IJ | IK
  | IToR | IRFrom | IRFetch | I2ToR | I2RFrom | I2RFetch | IRDrop | I2RDrop
  | ICall addr | ICreated addr addr | IExit

text \<open>A branch target or a literal follows the execution token inline.\<close>

fun operand :: "instr \<Rightarrow> cell option" where
  "operand (ILit v) = Some v"
| "operand (IBranch t) = Some t"
| "operand (IEq0Branch t) = Some t"
| "operand (I0Branch t) = Some t"
| "operand (IQ0Branch t) = Some t"
| "operand (INext t) = Some t"
| "operand (IDo t) = Some t"
| "operand (ILoop t) = Some t"
| "operand (IPlusLoop t) = Some t"
| "operand _ = None"

fun iimpl :: "instr \<Rightarrow> 'a vm_scheme action" where
  "iimpl (IPrim w) = kimpl w"
| "iimpl (ILit _) = mu_runtime_lit'"
| "iimpl (IBranch _) = mu_runtime_branch'"
| "iimpl (IEq0Branch _) = mu_runtime_equal_0branch'"
| "iimpl (I0Branch _) = mu_runtime_0branch'"
| "iimpl (IQ0Branch _) = mu_runtime_q0branch'"
| "iimpl (INext _) = mu_runtime_next'"
| "iimpl (IDo _) = mu_runtime_do'"
| "iimpl (ILoop _) = mu_runtime_loop'"
| "iimpl (IPlusLoop _) = mu_runtime_plus_loop'"
| "iimpl ILeave = mu_runtime_leave"
| "iimpl IQLeave = mu_runtime_qleave"
| "iimpl II = mu_runtime_i"
| "iimpl IJ = mu_runtime_j"
| "iimpl IK = mu_runtime_k"
| "iimpl IToR = mu_runtime_to_r"
| "iimpl IRFrom = mu_runtime_r_from"
| "iimpl IRFetch = mu_runtime_rfetch"
| "iimpl I2ToR = mu_runtime_2to_r"
| "iimpl I2RFrom = mu_runtime_2r_from"
| "iimpl I2RFetch = mu_runtime_2rfetch"
| "iimpl IRDrop = mu_runtime_rdrop"
| "iimpl I2RDrop = mu_runtime_2rdrop"
| "iimpl (ICall _) = mu_do_colon"
| "iimpl (ICreated _ _) = mu_do_does"
| "iimpl IExit = mu_runtime_exit"

type_synonym config = "addr \<times> cell list \<times> cell list"

text \<open>What an instruction does, \<open>p\<close> being the address after its execution token.\<close>

fun exec1 :: "instr \<Rightarrow> config \<Rightarrow> config option" where
  "exec1 (IPrim w) (p, ds, rs) = map_option (\<lambda>ds'. (p, ds', rs)) (kspec w ds)"
| "exec1 (ILit v) (p, ds, rs) = Some (p + 8, v # ds, rs)"
| "exec1 (IBranch t) (p, ds, rs) = Some (t, ds, rs)"
| "exec1 (IEq0Branch t) (p, x # ds, rs) = Some (if x = 0 then t else p + 8, x # ds, rs)"
| "exec1 (I0Branch t) (p, x # ds, rs) = Some (if x = 0 then t else p + 8, ds, rs)"
| "exec1 (IQ0Branch t) (p, x # ds, rs) = Some (if x = 0 then (t, ds, rs) else (p + 8, x # ds, rs))"
| "exec1 (INext t) (p, ds, c # rs) =
     Some (if c - 1 = 0 then (p + 8, ds, rs) else (t, ds, (c - 1) # rs))"
| "exec1 (IDo e) (p, start # limit # ds, rs) = Some (p + 8, ds, (start - limit) # limit # e # rs)"
| "exec1 (ILoop t) (p, ds, c # l # e # rs) =
     Some (if c + 1 = 0 then (p + 8, ds, rs) else (t, ds, (c + 1) # l # e # rs))"
| "exec1 (IPlusLoop t) (p, inc # ds, c # l # e # rs) =
     Some (if (sint (c + inc) < 0) \<noteq> (sint c < 0) then (p + 8, ds, rs) else (t, ds, (c + inc) # l # e # rs))"
| "exec1 ILeave (p, ds, c # l # e # rs) = Some (e, ds, rs)"
| "exec1 IQLeave (p, f # ds, c # l # e # rs) =
     Some (if f \<noteq> 0 then (e, ds, rs) else (p, ds, c # l # e # rs))"
| "exec1 II (p, ds, c # l # rs) = Some (p, (c + l) # ds, c # l # rs)"
| "exec1 IJ (p, ds, a # b # d # c # l # rs) = Some (p, (c + l) # ds, a # b # d # c # l # rs)"
| "exec1 IK (p, ds, a # b # d # a' # b' # d' # c # l # rs) =
     Some (p, (c + l) # ds, a # b # d # a' # b' # d' # c # l # rs)"
| "exec1 IToR (p, x # ds, rs) = Some (p, ds, x # rs)"
| "exec1 IRFrom (p, ds, x # rs) = Some (p, x # ds, rs)"
| "exec1 IRFetch (p, ds, x # rs) = Some (p, x # ds, x # rs)"
| "exec1 I2ToR (p, x # y # ds, rs) = Some (p, ds, x # y # rs)"
| "exec1 I2RFrom (p, ds, x # y # rs) = Some (p, x # y # ds, rs)"
| "exec1 I2RFetch (p, ds, x # y # rs) = Some (p, x # y # ds, x # y # rs)"
| "exec1 IRDrop (p, ds, x # rs) = Some (p, ds, rs)"
| "exec1 I2RDrop (p, ds, x # y # rs) = Some (p, ds, rs)"
| "exec1 (ICall b) (p, ds, rs) = Some (b, ds, p # rs)"
| "exec1 (ICreated q d) (p, ds, rs) = Some (q, d # ds, p # rs)"
| "exec1 IExit (p, ds, r # rs) = Some (r, ds, rs)"
| "exec1 _ _ = None"

text \<open>An instruction that has a result found the cells it needs.\<close>

fun_cases exec1_Eq0BranchE: "exec1 (IEq0Branch t) (p, ds, rs) = Some c'"
fun_cases exec1_0BranchE: "exec1 (I0Branch t) (p, ds, rs) = Some c'"
fun_cases exec1_Q0BranchE: "exec1 (IQ0Branch t) (p, ds, rs) = Some c'"
fun_cases exec1_NextE: "exec1 (INext t) (p, ds, rs) = Some c'"
fun_cases exec1_DoE: "exec1 (IDo e) (p, ds, rs) = Some c'"
fun_cases exec1_LoopE: "exec1 (ILoop t) (p, ds, rs) = Some c'"
fun_cases exec1_PlusLoopE: "exec1 (IPlusLoop t) (p, ds, rs) = Some c'"
fun_cases exec1_LeaveE: "exec1 ILeave (p, ds, rs) = Some c'"
fun_cases exec1_QLeaveE: "exec1 IQLeave (p, ds, rs) = Some c'"
fun_cases exec1_IE: "exec1 II (p, ds, rs) = Some c'"
fun_cases exec1_JE: "exec1 IJ (p, ds, rs) = Some c'"
fun_cases exec1_KE: "exec1 IK (p, ds, rs) = Some c'"
fun_cases exec1_ToRE: "exec1 IToR (p, ds, rs) = Some c'"
fun_cases exec1_RFromE: "exec1 IRFrom (p, ds, rs) = Some c'"
fun_cases exec1_RFetchE: "exec1 IRFetch (p, ds, rs) = Some c'"
fun_cases exec1_2ToRE: "exec1 I2ToR (p, ds, rs) = Some c'"
fun_cases exec1_2RFromE: "exec1 I2RFrom (p, ds, rs) = Some c'"
fun_cases exec1_2RFetchE: "exec1 I2RFetch (p, ds, rs) = Some c'"
fun_cases exec1_RDropE: "exec1 IRDrop (p, ds, rs) = Some c'"
fun_cases exec1_2RDropE: "exec1 I2RDrop (p, ds, rs) = Some c'"
fun_cases exec1_ExitE: "exec1 IExit (p, ds, rs) = Some c'"

text \<open>\<open>fits\<close>: neither stack grows beyond the cells it has.\<close>

fun fits :: "config \<Rightarrow> bool" where
  "fits (p, ds, rs) \<longleftrightarrow> length ds \<le> 4064 \<and> length rs \<le> 4064"

type_synonym thread = "addr \<Rightarrow> instr option"

definition astep :: "thread \<Rightarrow> config \<Rightarrow> config option" where
  "astep P c = (case c of (ip, ds, rs) \<Rightarrow>
     (case P ip of None \<Rightarrow> None
      | Some i \<Rightarrow> (case exec1 i (ip + 8, ds, rs) of None \<Rightarrow> None
                  | Some c' \<Rightarrow> if fits c' then Some c' else None)))"

fun depth :: "config \<Rightarrow> nat" where
  "depth (ip, ds, rs) = length rs"

text \<open>\<open>aruns P d c c'\<close>: steps that all start with more than \<open>d\<close> cells on the return stack.\<close>

inductive aruns :: "thread \<Rightarrow> nat \<Rightarrow> config \<Rightarrow> config \<Rightarrow> bool" for P d where
  here: "aruns P d c c"
| more: "d < depth c \<Longrightarrow> astep P c = Some c1 \<Longrightarrow> aruns P d c1 c' \<Longrightarrow> aruns P d c c'"

lemma aruns_trans: "aruns P d c c1 \<Longrightarrow> aruns P d c1 c2 \<Longrightarrow> aruns P d c c2"
  by (induction rule: aruns.induct) (auto intro: aruns.more)

lemma aruns_step: "d < depth c \<Longrightarrow> astep P c = Some c1 \<Longrightarrow> aruns P d c c1"
  by (auto intro: aruns.intros)

end
