(* ===== verification/ThreadRefine.thy ===== *)
theory ThreadRefine
  imports Threads
begin

text \<open>
  The run-time words refine the instructions of the abstract machine, and \<open>mu_execute\<close> refines
  its runs.
\<close>

section \<open>A machine and what it holds\<close>

definition vm_ok :: "'a vm_scheme \<Rightarrow> bool" where
  "vm_ok s \<longleftrightarrow> segs_disj (stack_seg (dstack s)) (stack_seg (rstack s)) \<and> unat (rstack s) + 32768 \<le> 2 ^ 64"

text \<open>\<open>holds s0 s ds rs\<close>: the stacks of \<open>s\<close> hold \<open>ds\<close> and \<open>rs\<close>, and away from the stacks and
  the registers \<open>s\<close> is still \<open>s0\<close>.\<close>

definition sframe :: "'a vm_scheme \<Rightarrow> 'a vm_scheme \<Rightarrow> bool" where
  "sframe s s' \<longleftrightarrow>
     segs s' = segs s \<and> dstack s' = dstack s \<and> rstack s' = rstack s \<and> vm.more s' = vm.more s \<and>
     (\<forall>g. segs_disj (stack_seg (dstack s)) g \<longrightarrow> segs_disj (stack_seg (rstack s)) g \<longrightarrow>
        same_on g (mem s) (mem s'))"

definition holds :: "'a vm_scheme \<Rightarrow> 'a vm_scheme \<Rightarrow> cell list \<Rightarrow> cell list \<Rightarrow> bool" where
  "holds s0 s ds rs \<longleftrightarrow> vm_ok s \<and> drep s ds \<and> rrep s rs \<and> sframe s0 s"

lemma sframe_refl [simp]: "sframe s s"
  by (simp add: sframe_def)

lemma sframe_trans: "sframe s s' \<Longrightarrow> sframe s' s'' \<Longrightarrow> sframe s s''"
  by (auto simp: sframe_def intro: same_on_trans)

lemma sframe_dframe: "dframe s s' \<Longrightarrow> sframe s s'"
  by (simp add: sframe_def dframe_def)

lemma vm_ok_sframe: "sframe s s' \<Longrightarrow> vm_ok s' = vm_ok s"
  by (simp add: vm_ok_def sframe_def)

lemma data_at_sframe: "sframe s s' \<Longrightarrow> data_at s' a n = data_at s a n"
  by (rule data_at_cong) (simp_all add: sframe_def)

lemma rd_bytes_sframe: "sframe s s' \<Longrightarrow> data_at s a n \<Longrightarrow> rd_bytes (mem s') a n = rd_bytes (mem s) a n"
  by (auto simp: data_at_def data_seg_def sframe_def list_ex_iff intro: rd_bytes_same_on)

lemma drep_regs [simp]:
  "drep (s\<lparr>IP := p\<rparr>) ds = drep s ds" "drep (s\<lparr>W := w\<rparr>) ds = drep s ds"
  "rrep (s\<lparr>IP := p\<rparr>) ds = rrep s ds" "rrep (s\<lparr>W := w\<rparr>) ds = rrep s ds"
  "sframe s0 (s\<lparr>IP := p\<rparr>) = sframe s0 s" "sframe s0 (s\<lparr>W := w\<rparr>) = sframe s0 s"
  "vm_ok (s\<lparr>IP := p\<rparr>) = vm_ok s" "vm_ok (s\<lparr>W := w\<rparr>) = vm_ok s"
  by (simp_all add: drep_def rrep_def sframe_def vm_ok_def)

lemma holds_regs [simp]:
  "holds s0 (s\<lparr>IP := p\<rparr>) ds rs = holds s0 s ds rs" "holds s0 (s\<lparr>W := w\<rparr>) ds rs = holds s0 s ds rs"
  by (simp_all add: holds_def)

lemma holds_refl: "vm_ok s \<Longrightarrow> drep s ds \<Longrightarrow> rrep s rs \<Longrightarrow> holds s s ds rs"
  by (simp add: holds_def)

lemma holds_trans: "holds s0 s ds rs \<Longrightarrow> holds s s' ds' rs' \<Longrightarrow> holds s0 s' ds' rs'"
  by (auto simp: holds_def intro: sframe_trans)

lemma holds_rrep: "holds s0 s ds rs \<Longrightarrow> rrep s rs" and holds_drep: "holds s0 s ds rs \<Longrightarrow> drep s ds"
  by (simp_all add: holds_def)

lemma holds_data:
  assumes "holds s0 s ds rs" "drep s' ds'" "dframe s s'"
  shows "holds s0 s' ds' rs"
  using assms dframe_rrep [OF assms(3), of rs] vm_ok_sframe [OF sframe_dframe [OF assms(3)]]
    sframe_trans [OF _ sframe_dframe [OF assms(3)], of s0]
  by (simp add: holds_def vm_ok_def)

lemma holds_set_ST: "holds s0 s ds rs \<Longrightarrow> i < length ds \<Longrightarrow> holds s0 (set_ST i v s) (ds[i := v]) rs"
  by (rule holds_data [of s0 s ds rs]) (auto simp: holds_def intro: ds.put_rep dframe_set_ST)

lemma holds_PUSH: "holds s0 s ds rs \<Longrightarrow> length ds < 4064 \<Longrightarrow> holds s0 (PUSH v s) (v # ds) rs"
  by (rule holds_data [of s0 s ds rs]) (auto simp: holds_def intro: ds.push_rep dframe_PUSH)

lemma holds_DROP:
  "holds s0 s (x # ds) rs \<Longrightarrow> holds s0 (DROP 1 s) ds rs"
  "holds s0 s (x # y # ds) rs \<Longrightarrow> holds s0 (DROP 2 s) ds rs"
  by (blast intro: holds_data [OF _ _ dframe_DROP] ds.pop_1 ds.pop_2 holds_drep)+

text \<open>The same for the return stack.\<close>

definition rframe :: "'a vm_scheme \<Rightarrow> 'a vm_scheme \<Rightarrow> bool" where
  "rframe s s' \<longleftrightarrow>
     segs s' = segs s \<and> dstack s' = dstack s \<and> rstack s' = rstack s \<and> SP s' = SP s \<and>
     vm.more s' = vm.more s \<and>
     (\<forall>g. segs_disj (stack_seg (rstack s)) g \<longrightarrow> same_on g (mem s) (mem s'))"

lemma rframe_RDROP: "rframe s (RDROP k s)"
  by (simp add: rframe_def RDROP_def)

lemma rframe_wr64: "in_seg (stack_seg (rstack s)) a 8 \<Longrightarrow> rframe s (s\<lparr>mem := wr64 (mem s) a v, RP := p\<rparr>)"
  by (auto simp: rframe_def intro: same_on_wr64)

lemma rframe_set_RT: "rrep s xs \<Longrightarrow> i < length xs \<Longrightarrow> rframe s (set_RT i v s)"
  using rframe_wr64 [OF stack_at_slot [of "mem s" "segs s" "rstack s" "RP s" xs i], of "RP s" v]
  by (simp add: rrep_def set_RT_def rframe_def)

lemma rframe_RPUSH: "rrep s xs \<Longrightarrow> length xs < 4064 \<Longrightarrow> rframe s (RPUSH v s)"
  using rframe_wr64 [OF stack_at_below [of "mem s" "segs s" "rstack s" "RP s" xs], of "RP s - 8" v]
  by (simp add: rrep_def RPUSH_def RDROP_def set_RT_def rframe_def)

lemma holds_return:
  assumes h: "holds s0 s ds rs" and r: "rrep s' rs'" and fr: "rframe s s'"
  shows "holds s0 s' ds rs'"
proof -
  have "same_on (stack_seg (dstack s)) (mem s) (mem s')"
    using h fr by (simp add: holds_def vm_ok_def rframe_def segs_disj_sym)
  then have "drep s' ds"
    using h fr stack_at_frame by (fastforce simp: holds_def drep_def rframe_def)
  moreover have "sframe s s'" using fr by (simp add: sframe_def rframe_def)
  ultimately show ?thesis
    using h r vm_ok_sframe [of s s'] sframe_trans [of s0 s s'] by (auto simp: holds_def)
qed

lemma holds_set_RT: "holds s0 s ds (x # rs) \<Longrightarrow> holds s0 (set_RT 0 v s) ds (v # rs)"
  by (frule holds_rrep, erule holds_return) (auto intro: rframe_set_RT rs.put_0)

lemma holds_RPUSH: "holds s0 s ds rs \<Longrightarrow> length rs < 4064 \<Longrightarrow> holds s0 (RPUSH v s) ds (v # rs)"
  by (frule holds_rrep, erule holds_return) (auto intro: rframe_RPUSH rs.push_rep)

lemma holds_RDROP:
  "holds s0 s ds (x # rs) \<Longrightarrow> holds s0 (RDROP 1 s) ds rs"
  "holds s0 s ds (x # y # rs) \<Longrightarrow> holds s0 (RDROP 2 s) ds rs"
  "holds s0 s ds (x # y # z # rs) \<Longrightarrow> holds s0 (RDROP 3 s) ds rs"
  by (frule holds_rrep, erule holds_return, auto intro: rframe_RDROP rs.pop_1 rs.pop_2 rs.pop_3)+


section \<open>Reading the stacks of a machine that holds them\<close>

lemma holds_get [stack_simps]:
  "holds s0 s (x # ds) rs \<Longrightarrow> ST 0 s = x"
  "holds s0 s (x # y # ds) rs \<Longrightarrow> ST (Suc 0) s = y"
  "holds s0 s ds (x # rs) \<Longrightarrow> RT 0 s = x"
  "holds s0 s ds (x # y # rs) \<Longrightarrow> RT (Suc 0) s = y"
  by (auto simp: holds_def ds.get_0 ds.get_1 rs.get_0 rs.get_1)

lemma holds_RT:
  assumes "holds s0 s ds rs" "i < length rs"
  shows "RT i s = rs ! i"
  using assms by (simp add: holds_def rs.get_rep)

lemma holds_guards:
  "holds s0 s ds rs \<Longrightarrow> k \<le> length ds \<Longrightarrow> stk k s"
  "holds s0 s ds rs \<Longrightarrow> length ds + k \<le> 4064 \<Longrightarrow> room k s"
  "holds s0 s ds rs \<Longrightarrow> k \<le> length rs \<Longrightarrow> rstk k s"
  "holds s0 s ds rs \<Longrightarrow> length rs + k \<le> 4064 \<Longrightarrow> rroom k s"
  by (auto simp: holds_def ds.cells_rep ds.rooms_rep rs.cells_rep rs.rooms_rep)

lemmas holds_intros = holds_PUSH holds_DROP holds_RPUSH holds_RDROP holds_set_RT

section \<open>Code in memory\<close>

definition cell_at :: "'a vm_scheme \<Rightarrow> addr \<Rightarrow> cell \<Rightarrow> bool" where
  "cell_at s a v \<longleftrightarrow> data_at s a 8 \<and> rd64 (mem s) a = v"

lemma cell_at_sframe: "sframe s s' \<Longrightarrow> cell_at s a v \<Longrightarrow> cell_at s' a v"
  by (simp add: cell_at_def data_at_sframe rd64_def rd_bytes_sframe)

lemma cell_at_racc: "cell_at s a v \<Longrightarrow> racc (segs s) a 8" and cell_at_rd: "cell_at s a v \<Longrightarrow> rd64 (mem s) a = v"
  by (simp_all add: cell_at_def data_at_racc)

text \<open>Colon words and created words have a body after the code field.\<close>

fun body_at :: "'a vm_scheme \<Rightarrow> addr \<Rightarrow> instr \<Rightarrow> bool" where
  "body_at s xt (ICall b) \<longleftrightarrow> b = xt + 8"
| "body_at s xt (ICreated q d) \<longleftrightarrow> d = xt + 16 \<and> cell_at s (xt + 8) q"
| "body_at s xt _ \<longleftrightarrow> True"

lemma body_at_sframe: "sframe s s' \<Longrightarrow> body_at s xt i \<Longrightarrow> body_at s' xt i"
  by (cases i) (simp_all add: cell_at_sframe)

text \<open>An instruction at \<open>a\<close>: the execution token of a word whose code field leads to the C
  function, and the operand after it.\<close>

definition instr_at :: "('a vm_scheme action \<Rightarrow> cell \<Rightarrow> 'a vm_scheme action) \<Rightarrow> 'a vm_scheme
    \<Rightarrow> addr \<Rightarrow> instr \<Rightarrow> bool" where
  "instr_at code s a i \<longleftrightarrow>
     (\<exists>xt c. cell_at s a xt \<and> cell_at s xt c \<and> (\<forall>ex. code ex c = iimpl i) \<and>
        (case operand i of None \<Rightarrow> True | Some v \<Rightarrow> cell_at s (a + 8) v) \<and>
        body_at s xt i)"

definition loaded :: "('a vm_scheme action \<Rightarrow> cell \<Rightarrow> 'a vm_scheme action) \<Rightarrow> 'a vm_scheme \<Rightarrow> thread \<Rightarrow> bool" where
  "loaded code s P \<longleftrightarrow> (\<forall>a i. P a = Some i \<longrightarrow> instr_at code s a i)"

lemma instr_at_sframe: "sframe s s' \<Longrightarrow> instr_at code s a i \<Longrightarrow> instr_at code s' a i"
  unfolding instr_at_def by (cases "operand i") (auto intro: cell_at_sframe body_at_sframe)

lemma loaded_sframe: "sframe s s' \<Longrightarrow> loaded code s P \<Longrightarrow> loaded code s' P"
  unfolding loaded_def using instr_at_sframe by blast

fun crep :: "'a vm_scheme \<Rightarrow> 'a vm_scheme \<Rightarrow> config \<Rightarrow> bool" where
  "crep s0 s (ip, ds, rs) \<longleftrightarrow> IP s = ip \<and> holds s0 s ds rs"


section \<open>The run-time words refine the instructions\<close>

text \<open>\<open>s\<close> is the machine as the word finds it: IP is past the execution token, W past the
  code field.\<close>

lemma refine_lit:
  assumes "holds s0 s ds rs" "length ds < 4064" "cell_at s (IP s) v"
  shows "\<exists>s'. mu_runtime_lit' s = Ret s' \<and> crep s0 s' (IP s + 8, v # ds, rs)"
  using assms by (auto simp: mu_runtime_lit'_def holds_guards cell_at_racc cell_at_rd intro: holds_PUSH)

lemma BRANCH_cell: "cell_at s (IP s) t \<Longrightarrow> BRANCH s = Ret (s\<lparr>IP := t\<rparr>)"
  by (simp add: BRANCH_def cell_at_racc cell_at_rd)

lemma BRANCH_RT: "cell_at s (IP s) t \<Longrightarrow> cell_at (set_RT 0 v s) (IP s) t \<Longrightarrow>
   BRANCH (set_RT 0 v s) = Ret ((set_RT 0 v s)\<lparr>IP := t\<rparr>)"
  by (rule BRANCH_cell) simp

lemma refine_branches:
  assumes h: "holds s0 s (x # ds) rs" and t: "cell_at s (IP s) t"
  shows "mu_runtime_equal_0branch' s = Ret (s\<lparr>IP := if x = 0 then t else IP s + 8\<rparr>)"
    and "mu_runtime_0branch' s = Ret (DROP 1 (s\<lparr>IP := if x = 0 then t else IP s + 8\<rparr>))"
    and "mu_runtime_q0branch' s =
      Ret (if x = 0 then DROP 1 (s\<lparr>IP := t\<rparr>) else s\<lparr>IP := IP s + 8\<rparr>)"
  using h by (simp_all add: engine_defs BRANCH_cell [OF t] SKIP_def holds_guards [OF h] holds_get(1) [OF h])

lemma holds_cell_at: "holds s s' ds rs \<Longrightarrow> cell_at s a v \<Longrightarrow> cell_at s' a v"
  by (auto simp: holds_def intro: cell_at_sframe)

lemma holds_self: "holds s0 s ds rs \<Longrightarrow> holds s s ds rs"
  by (simp add: holds_def)

lemma cell_at_set_RT:
  "holds s0 s ds (c # rs) \<Longrightarrow> cell_at s a t \<Longrightarrow> cell_at (set_RT 0 v s) a t"
  using holds_cell_at [OF holds_set_RT [OF holds_self]] .

lemma move_IP [simp]:
  "RDROP n (s\<lparr>IP := p\<rparr>) = (RDROP n s)\<lparr>IP := p\<rparr>" "DROP n (s\<lparr>IP := p\<rparr>) = (DROP n s)\<lparr>IP := p\<rparr>"
  by (simp_all add: RDROP_def DROP_def)

lemma refine_next:
  assumes h: "holds s0 s ds (c # rs)" and t: "cell_at s (IP s) t"
  shows "\<exists>s'. mu_runtime_next' s = Ret s' \<and>
    crep s0 s' (if c - 1 = 0 then (IP s + 8, ds, rs) else (t, ds, (c - 1) # rs))"
proof -
  have h1: "holds s0 (set_RT 0 (c - 1) s) ds ((c - 1) # rs)"
    using h by (rule holds_set_RT)
  note b = BRANCH_cell [of "set_RT 0 (c - 1) s" t] cell_at_set_RT [OF h t]
  show ?thesis
    using holds_RDROP(1) [OF h1] h1
    by (cases "c = 1")
      (simp_all add: engine_defs Let_def holds_guards [OF h] holds_get(3) [OF h] RT_set_RT b SKIP_def)
qed


lemma refine_loop:
  assumes h: "holds s0 s ds (c # l # e # rs)" and t: "cell_at s (IP s) t"
  shows "\<exists>s'. mu_runtime_loop' s = Ret s' \<and>
    crep s0 s' (if c + 1 = 0 then (IP s + 8, ds, rs) else (t, ds, (c + 1) # l # e # rs))"
proof -
  have h1: "holds s0 (set_RT 0 (c + 1) s) ds ((c + 1) # l # e # rs)"
    using h by (rule holds_set_RT)
  note b = BRANCH_cell [of "set_RT 0 (c + 1) s" t] cell_at_set_RT [OF h t]
  show ?thesis
    using holds_RDROP(3) [OF h1] h1
    by (cases "c + 1 = 0")
      (simp_all add: engine_defs Let_def holds_guards [OF h] holds_get(3) [OF h] RT_set_RT b SKIP_def)
qed

lemma refine_plus_loop:
  assumes h: "holds s0 s (inc # ds) (c # l # e # rs)" and t: "cell_at s (IP s) t"
  shows "\<exists>s'. mu_runtime_plus_loop' s = Ret s' \<and>
    crep s0 s' (if (sint (c + inc) < 0) \<noteq> (sint c < 0) then (IP s + 8, ds, rs)
                else (t, ds, (c + inc) # l # e # rs))"
proof -
  have h1: "holds s0 (set_RT 0 (c + inc) s) (inc # ds) ((c + inc) # l # e # rs)"
    using h by (rule holds_set_RT)
  note b = BRANCH_cell [of "set_RT 0 (c + inc) s" t] cell_at_set_RT [OF h t]
  show ?thesis
    using holds_DROP(1) [OF holds_RDROP(3) [OF h1]] holds_DROP(1) [OF h1]
    by (simp add: engine_defs Let_def xor_sign holds_guards [OF h] holds_get(1,3) [OF h]
        holds_get(3) [OF h1] b SKIP_def)
qed

lemma refine_do:
  assumes h: "holds s0 s (start # limit # ds) rs" and t: "cell_at s (IP s) e" and r: "length rs + 3 \<le> 4064"
  shows "\<exists>s'. mu_runtime_do' s = Ret s' \<and>
    crep s0 s' (IP s + 8, ds, (start - limit) # limit # e # rs)"
proof -
  let ?s1 = "RPUSH e (s\<lparr>IP := IP s + 8\<rparr>)"
  let ?s2 = "RPUSH limit ?s1"
  let ?s3 = "RPUSH (start - limit) ?s2"
  have h1: "holds s0 ?s1 (start # limit # ds) (e # rs)"
    by (rule holds_RPUSH) (use h r in auto)
  have h2: "holds s0 ?s2 (start # limit # ds) (limit # e # rs)"
    by (rule holds_RPUSH) (use h1 r in auto)
  have h3: "holds s0 ?s3 (start # limit # ds) ((start - limit) # limit # e # rs)"
    by (rule holds_RPUSH) (use h2 r in auto)
  have "mu_runtime_do' s = Ret (DROP 2 ?s3)"
    using holds_guards(4) [OF h r]
    by (simp add: mu_runtime_do'_def Let_def holds_guards [OF h] cell_at_racc [OF t] cell_at_rd [OF t]
        holds_get(2) [OF h1] holds_get(1,2) [OF h2])
  then show ?thesis using holds_DROP(2) [OF h3] by simp
qed

lemma refine_leave:
  assumes h: "holds s0 s ds (c # l # e # rs)"
  shows "\<exists>s'. mu_runtime_leave s = Ret s' \<and> crep s0 s' (e, ds, rs)"
  using holds_RDROP(3) [OF h] holds_RT [OF h, of 2]
  by (simp add: mu_runtime_leave_def holds_guards [OF h])

lemma refine_qleave:
  assumes h: "holds s0 s (f # ds) (c # l # e # rs)"
  shows "\<exists>s'. mu_runtime_qleave s = Ret s' \<and>
    crep s0 s' (if f \<noteq> 0 then (e, ds, rs) else (IP s, ds, c # l # e # rs))"
  using holds_DROP(1) [OF h] refine_leave [OF holds_DROP(1) [OF h]]
  by (simp add: mu_runtime_qleave_def holds_guards [OF h] holds_get(1) [OF h])

lemma refine_index:
  assumes h: "holds s0 s ds rs" and r: "length ds < 4064"
  shows "rs = a # b # rs' \<Longrightarrow> \<exists>s'. mu_runtime_i s = Ret s' \<and> crep s0 s' (IP s, (a + b) # ds, rs)"
    and "5 \<le> length rs \<Longrightarrow> \<exists>s'. mu_runtime_j s = Ret s' \<and> crep s0 s' (IP s, (rs ! 3 + rs ! 4) # ds, rs)"
    and "8 \<le> length rs \<Longrightarrow> \<exists>s'. mu_runtime_k s = Ret s' \<and> crep s0 s' (IP s, (rs ! 6 + rs ! 7) # ds, rs)"
    and "rs = a # rs' \<Longrightarrow> \<exists>s'. mu_runtime_rfetch s = Ret s' \<and> crep s0 s' (IP s, a # ds, rs)"
  using holds_PUSH [OF h r] r h
  by (simp_all add: engine_defs holds_guards [OF h] holds_RT [OF h] holds_get(3,4))

lemma refine_to_r:
  assumes h: "holds s0 s (x # ds) rs" and r: "length rs < 4064"
  shows "\<exists>s'. mu_runtime_to_r s = Ret s' \<and> crep s0 s' (IP s, ds, x # rs)"
  using holds_RPUSH [OF holds_DROP(1) [OF h] r] r
  by (simp add: mu_runtime_to_r_def holds_guards [OF h] holds_get(1) [OF h])

lemma refine_r_from:
  assumes h: "holds s0 s ds (x # rs)" and r: "length ds < 4064"
  shows "\<exists>s'. mu_runtime_r_from s = Ret s' \<and> crep s0 s' (IP s, x # ds, rs)"
  using holds_PUSH [OF holds_RDROP(1) [OF h] r] r
  by (simp add: mu_runtime_r_from_def holds_guards [OF h] holds_get(3) [OF h])

lemma refine_2rfetch:
  assumes h: "holds s0 s ds (x # y # rs)" and r: "length ds + 2 \<le> 4064"
  shows "\<exists>s'. mu_runtime_2rfetch s = Ret s' \<and> crep s0 s' (IP s, x # y # ds, x # y # rs)"
proof -
  have h1: "holds s0 (PUSH y s) (y # ds) (x # y # rs)"
    by (rule holds_PUSH) (use h r in auto)
  have h2: "holds s0 (PUSH x (PUSH y s)) (x # y # ds) (x # y # rs)"
    by (rule holds_PUSH) (use h1 r in auto)
  with r show ?thesis
    by (simp add: mu_runtime_2rfetch_def Let_def holds_guards [OF h] holds_get(3,4) [OF h] holds_get(3) [OF h1])
qed

lemma refine_2to_r:
  assumes h: "holds s0 s (x # y # ds) rs" and r: "length rs + 2 \<le> 4064"
  shows "\<exists>s'. mu_runtime_2to_r s = Ret s' \<and> crep s0 s' (IP s, ds, x # y # rs)"
proof -
  have h1: "holds s0 (RPUSH y s) (x # y # ds) (y # rs)"
    by (rule holds_RPUSH) (use h r in auto)
  have h2: "holds s0 (RPUSH x (RPUSH y s)) (x # y # ds) (x # y # rs)"
    by (rule holds_RPUSH) (use h1 r in auto)
  with r show ?thesis using holds_DROP(2) [OF h2]
    by (simp add: mu_runtime_2to_r_def Let_def holds_guards [OF h] holds_get(1,2) [OF h] holds_get(1) [OF h1])
qed

lemma refine_2r_from:
  assumes h: "holds s0 s ds (x # y # rs)" and r: "length ds + 2 \<le> 4064"
  shows "\<exists>s'. mu_runtime_2r_from s = Ret s' \<and> crep s0 s' (IP s, x # y # ds, rs)"
proof -
  from refine_2rfetch [OF assms] obtain s1
    where s1: "mu_runtime_2rfetch s = Ret s1" "IP s1 = IP s" and h1: "holds s0 s1 (x # y # ds) (x # y # rs)"
    by auto
  from s1 holds_RDROP(2) [OF h1] show ?thesis by (simp add: mu_runtime_2r_from_def)
qed

lemma refine_rdrop:
  "holds s0 s ds (x # rs) \<Longrightarrow> \<exists>s'. mu_runtime_rdrop s = Ret s' \<and> crep s0 s' (IP s, ds, rs)"
  "holds s0 s ds (x # y # rs) \<Longrightarrow> \<exists>s'. mu_runtime_2rdrop s = Ret s' \<and> crep s0 s' (IP s, ds, rs)"
  by (simp_all add: engine_defs holds_RDROP)

lemma refine_colon:
  assumes h: "holds s0 s ds rs" and r: "length rs < 4064"
  shows "\<exists>s'. mu_do_colon s = Ret s' \<and> crep s0 s' (W s, ds, IP s # rs)"
  using holds_RPUSH [OF h r] r by (simp add: mu_do_colon_def holds_guards [OF h])

lemma refine_does:
  assumes h: "holds s0 s ds rs" and r: "length rs < 4064" "length ds < 4064" and q: "cell_at s (W s) q"
  shows "\<exists>s'. mu_do_does s = Ret s' \<and> crep s0 s' (q, (W s + 8) # ds, IP s # rs)"
proof -
  let ?s1 = "RPUSH (IP s) s"
  have h1: "holds s0 ?s1 ds (IP s # rs)" using h r by (intro holds_RPUSH)
  have "cell_at ?s1 (W s) q"
    using holds_cell_at [OF holds_RPUSH [OF holds_self [OF h] r(1)] q] .
  then have "rd64 (mem ?s1) (W s) = q" by (rule cell_at_rd)
  with h1 r q show ?thesis
    using holds_PUSH [of s0 "?s1\<lparr>IP := q, W := W s + 8\<rparr>" ds "IP s # rs" "W s + 8"]
    by (simp add: mu_do_does_def Let_def holds_guards [OF h] cell_at_racc)
qed

lemma refine_exit:
  assumes h: "holds s0 s ds (r # rs)"
  shows "\<exists>s'. mu_runtime_exit s = Ret s' \<and> crep s0 s' (r, ds, rs)"
  using holds_RDROP(1) [of s0 "s\<lparr>IP := r\<rparr>"] h
  by (simp add: mu_runtime_exit_def holds_guards [OF h] holds_get(3) [OF h])


lemma refine_prim:
  assumes h: "holds s0 s ds rs" and w: "kspec w ds = Some ds'" and l: "length ds' \<le> 4064"
  shows "\<exists>s'. kimpl w s = Ret s' \<and> crep s0 s' (IP s, ds', rs)"
proof -
  from kimpl_refines [OF holds_drep [OF h] w l] obtain s'
    where s': "kimpl w s = Ret s'" "drep s' ds'" "dframe s s'" by blast
  have "IP s' = IP s" using s'(3) by (simp add: dframe_def)
  with s' holds_data [OF h s'(2,3)] show ?thesis by auto
qed

lemma instr_refines:
  assumes h: "holds s0 s ds rs" and op: "\<And>v. operand i = Some v \<Longrightarrow> cell_at s (IP s) v"
    and body: "body_at s xt i" and W: "W s = xt + 8"
    and exec: "exec1 i (IP s, ds, rs) = Some c'" and fits: "fits c'"
  shows "\<exists>s'. iimpl i s = Ret s' \<and> crep s0 s' c'"
proof (cases i)
  case (IPrim w)
  with exec fits refine_prim [OF h, of w] show ?thesis by auto
next
  case (ILit v)
  with exec fits refine_lit [OF h] op show ?thesis by auto
next
  case (IBranch t)
  with exec h BRANCH_cell [of s t] op show ?thesis by (auto simp: mu_runtime_branch'_def)
next
  case (IEq0Branch t)
  with exec h op show ?thesis by (auto simp: refine_branches elim!: exec1_Eq0BranchE)
next
  case (I0Branch t)
  with exec h op show ?thesis by (auto simp: refine_branches intro: holds_DROP elim!: exec1_0BranchE)
next
  case (IQ0Branch t)
  with exec h op show ?thesis by (auto simp: refine_branches intro: holds_DROP elim!: exec1_Q0BranchE)
next
  case (INext t)
  with exec h op show ?thesis by (auto dest: refine_next elim!: exec1_NextE)
next
  case (IDo e)
  with exec h op fits show ?thesis by (auto dest: refine_do elim!: exec1_DoE)
next
  case (ILoop t)
  with exec h op show ?thesis by (auto dest: refine_loop elim!: exec1_LoopE)
next
  case (IPlusLoop t)
  with exec h op show ?thesis by (auto dest: refine_plus_loop elim!: exec1_PlusLoopE)
next
  case ILeave
  with exec h show ?thesis by (auto dest: refine_leave elim!: exec1_LeaveE)
next
  case IQLeave
  with exec h show ?thesis by (auto dest: refine_qleave elim!: exec1_QLeaveE)
next
  case II
  with exec h fits show ?thesis by (auto dest: refine_index(1) elim!: exec1_IE)
next
  case IJ
  with exec h fits refine_index(2) [OF h] show ?thesis by (auto elim!: exec1_JE)
next
  case IK
  with exec h fits refine_index(3) [OF h] show ?thesis by (auto elim!: exec1_KE)
next
  case IToR
  with exec h fits show ?thesis by (auto dest: refine_to_r elim!: exec1_ToRE)
next
  case IRFrom
  with exec h fits show ?thesis by (auto dest: refine_r_from elim!: exec1_RFromE)
next
  case IRFetch
  with exec h fits show ?thesis by (auto dest: refine_index(4) elim!: exec1_RFetchE)
next
  case I2ToR
  with exec h fits show ?thesis by (auto dest: refine_2to_r elim!: exec1_2ToRE)
next
  case I2RFrom
  with exec h fits show ?thesis by (auto dest: refine_2r_from elim!: exec1_2RFromE)
next
  case I2RFetch
  with exec h fits show ?thesis by (auto dest: refine_2rfetch elim!: exec1_2RFetchE)
next
  case IRDrop
  with exec h show ?thesis by (auto dest: refine_rdrop(1) elim!: exec1_RDropE)
next
  case I2RDrop
  with exec h show ?thesis by (auto dest: refine_rdrop(2) elim!: exec1_2RDropE)
next
  case (ICall b)
  with exec h fits body W refine_colon [OF h] show ?thesis by auto
next
  case (ICreated q d)
  with exec h fits body W refine_does [OF h] show ?thesis by (auto simp: add.commute)
next
  case IExit
  with exec h show ?thesis by (auto dest: refine_exit elim!: exec1_ExitE)
qed


section \<open>The inner interpreter refines the abstract machine\<close>

lemma NEXT_refines:
  assumes c: "crep s0 s c" and P: "loaded code s P" and step: "astep P c = Some c'"
  shows "\<exists>s'. NEXT code n s = Ret s' \<and> crep s0 s' c' \<and> loaded code s' P"
proof -
  obtain ip ds rs where [simp]: "c = (ip, ds, rs)" by (cases c)
  from step obtain i where i: "P ip = Some i" "exec1 i (ip + 8, ds, rs) = Some c'" "fits c'"
    by (auto simp: astep_def split: option.splits if_splits)
  from c have ip: "IP s = ip" and h: "holds s0 s ds rs" by auto
  from P i(1) have "instr_at code s ip i" by (simp add: loaded_def)
  then obtain xt k where xt: "cell_at s ip xt" and k: "cell_at s xt k" "\<forall>ex. code ex k = iimpl i"
    and op: "\<forall>v. operand i = Some v \<longrightarrow> cell_at s (ip + 8) v" and body: "body_at s xt i"
    by (auto simp: instr_at_def split: option.splits)
  let ?s = "s\<lparr>IP := ip + 8, W := xt + 8\<rparr>"
  have NEXT: "NEXT code n s = iimpl i ?s"
    using xt k ip by (simp add: NEXT_def CALL_def cell_at_racc cell_at_rd)
  have fr: "sframe s ?s" by simp
  have h': "holds s ?s ds rs" using h by (simp add: holds_self)
  have "\<exists>s'. iimpl i ?s = Ret s' \<and> crep s s' c'"
  proof (rule instr_refines [OF h', where xt = xt])
    show "cell_at ?s (IP ?s) v" if "operand i = Some v" for v
      using op that cell_at_sframe [OF fr] by simp
    show "body_at ?s xt i" using body_at_sframe [OF fr body] .
  qed (use i in simp_all)
  then obtain s' where s': "iimpl i ?s = Ret s'" "crep s s' c'" by blast
  obtain ip' ds' rs' where [simp]: "c' = (ip', ds', rs')" by (cases c')
  have hs': "holds s s' ds' rs'" using s'(2) by simp
  then have "loaded code s' P" using P loaded_sframe by (auto simp: holds_def)
  with NEXT s' holds_trans [OF h hs'] show ?thesis by auto
qed

text \<open>RP is below the saved RP exactly when the return stack is deeper than it was.\<close>

lemma RP_less_iff:
  assumes "holds s0 s ds rs" "holds s0 t ds' rs'"
  shows "RP t < RP s \<longleftrightarrow> length rs < length rs'"
proof -
  have rp: "unat (RP u) + 8 * length xs = unat (rstack s0) + 32512 \<and> length xs \<le> 4064"
    if "holds s0 u ys xs" for u ys xs
  proof -
    have u: "vm_ok u" "rstack u = rstack s0" and at: "stack_at (mem u) (segs u) (rstack u) (RP u) xs"
      using that by (auto simp: holds_def rrep_def sframe_def)
    have len: "length xs \<le> 4064" using at by (simp add: stack_at_def)
    have "RP u = rstack s0 + of_nat (32512 - 8 * length xs)"
      using at u len by (simp add: stack_at_def algebra_simps)
    also have "unat \<dots> = unat (rstack s0) + (32512 - 8 * length xs)"
      by (rule unat_add_small) (use u in \<open>simp add: vm_ok_def; linarith\<close>)
    finally show ?thesis using len by simp
  qed
  from rp [OF assms(1)] rp [OF assms(2)] show ?thesis
    by (simp add: word_less_nat_alt) linarith
qed

lemma steps_refine:
  assumes "aruns P d c c'"
    and "crep s0 s c" "loaded code s P" and r: "holds s0 t ts us" "length us = d"
  shows "\<exists>s'. steps code (RP t) s s' \<and> crep s0 s' c' \<and> loaded code s' P"
  using assms(1-3)
proof (induction arbitrary: s rule: aruns.induct)
  case (here c)
  then show ?case by (auto intro: steps.stop)
next
  case (more c c1 c')
  obtain s1 where s1: "NEXT code 0 s = Ret s1" "crep s0 s1 c1" "loaded code s1 P"
    using NEXT_refines [OF more.prems(1,2) more.hyps(2)] by blast
  obtain s' where s': "steps code (RP t) s1 s'" "crep s0 s' c'" "loaded code s' P"
    using more.IH [OF s1(2,3)] by blast
  have "RP s < RP t"
    using more.prems(1) more.hyps(1) r RP_less_iff [OF r(1)] by (cases c) auto
  with s1 s' show ?case by (auto intro: steps.step)
qed

context code_table begin

text \<open>Executing a colon word: \<open>b\<close> is its parameter field, and the run of the abstract machine
  that starts there with the caller's IP on the return stack ends at the caller.\<close>

lemma execute_colon:
  assumes ok: "vm_ok s" and ds: "drep s (xt # ds)" and rs: "rrep s rs" and len: "length rs < 4064"
    and c: "cell_at s xt c" "\<forall>ex. code ex c = mu_do_colon" and P: "loaded code s P"
    and run: "aruns P (length rs) (xt + 8, ds, IP s # rs) (ip', ds', rs')" and done1: "length rs' \<le> length rs"
  shows "\<exists>n s'. mu_execute code n s = Ret s' \<and> crep s s' (ip', ds', rs')"
proof -
  let ?s = "(DROP 1 s)\<lparr>W := xt + 8\<rparr>"
  have h0: "holds s s (xt # ds) rs" using ok ds rs by (rule holds_refl)
  have h: "holds s ?s ds rs" using holds_DROP(1) [OF h0] by simp
  from refine_colon [OF h len] obtain s1
    where s1: "mu_do_colon ?s = Ret s1" "crep s s1 (xt + 8, ds, IP s # rs)" by auto
  have call: "CALL (code (mu_execute code n)) (ST 0 s) (DROP 1 s) = Ret s1" for n
    using c s1 by (simp add: CALL_def holds_get(1) [OF h0] cell_at_racc cell_at_rd)
  have "sframe s s1" using s1(2) by (simp add: holds_def)
  then have "loaded code s1 P" using P loaded_sframe by blast
  from steps_refine [OF run s1(2) this h0 refl] obtain s'
    where s': "steps code (RP s) s1 s'" "crep s s' (ip', ds', rs')" by blast
  have "holds s s' ds' rs'" using s'(2) by simp
  from RP_less_iff [OF h0 this] done1 have "\<not> RP s' < RP s" by simp
  with call s' execute_iff_steps [of s s'] holds_guards(1) [OF h0, of 1] show ?thesis by auto
qed

end

end
