(* ===== verification/State.thy ===== *)
theory State
  imports Engine
begin

text \<open>
  The process: the virtual machine, the static variables of every C file, and the operating
  system. The static variables that Forth code reads and writes through their addresses
  (\<open>lineno\<close>, \<open>being_loaded\<close>, \<open>xt_abort\<close>) are cells of memory; the others are fields.
  The addresses the linker chooses (of string literals, of those cells, of locals whose
  address is taken) are fields that nothing writes.
\<close>

section \<open>Data types\<close>

text \<open>\<open>struct string\<close>\<close>

record cstring =
  data :: addr
  len :: cell

text \<open>The values of the function pointers \<open>state\<close>, \<open>match\<close> and \<open>crc16_byte\<close>.\<close>

datatype consumer = Interpret_Token | Compile_Token
datatype matcher = Strncmp | Strncasecmp
datatype crc_function = Thierry | Xmodem

text \<open>
  What the operating system and the C library answer to one call: the value returned, the
  \<open>errno\<close> left when that is -1, the bytes written through the pointers passed, and the memory
  mapped by the call.
\<close>

record answer =
  ret :: cell
  err :: cint
  out :: "(addr \<times> byte list) list"
  maps :: "seg list"

text \<open>A call: its name, its arguments, and the bytes passed to it by reference.\<close>

datatype os_call = Call string "cell list" "byte list"

section \<open>The process\<close>

record mu = vm +
  heap :: addr
  hp :: addr
  match :: matcher
  last_name :: cell
  last_chain :: addr
  forth_chain :: addr
  compiler_chain :: addr
  runtime_chain :: addr
  lex_chain :: addr
  state :: consumer
  first :: addr
  endp :: addr
  parsed_lineno :: cint
  parsed :: cstring
  skipped :: cstring
  trailing :: cstring
  crc16_byte :: crc_function
  cmd_line :: cstring
  errno :: cint
  script :: "answer list"
  oslog :: "os_call list"
  lit :: "string \<Rightarrow> addr"
  local_at :: "string \<Rightarrow> addr"
  lineno_at :: addr
  being_loaded_at :: addr
  xt_abort_at :: addr
  strerror_at :: "cint \<Rightarrow> addr"

text \<open>The stack macros leave the rest of the process alone.\<close>

lemma DROP_rest [simp]:
  "heap (DROP n s) = heap s" "hp (DROP n s) = hp s" "match (DROP n s) = match s"
  "last_name (DROP n s) = last_name s" "last_chain (DROP n s) = last_chain s"
  "forth_chain (DROP n s) = forth_chain s" "compiler_chain (DROP n s) = compiler_chain s"
  "runtime_chain (DROP n s) = runtime_chain s" "lex_chain (DROP n s) = lex_chain s"
  "state (DROP n s) = state s" "first (DROP n s) = first s" "endp (DROP n s) = endp s"
  "parsed_lineno (DROP n s) = parsed_lineno s" "parsed (DROP n s) = parsed s"
  "skipped (DROP n s) = skipped s" "trailing (DROP n s) = trailing s"
  "crc16_byte (DROP n s) = crc16_byte s" "cmd_line (DROP n s) = cmd_line s"
  "errno (DROP n s) = errno s" "script (DROP n s) = script s" "oslog (DROP n s) = oslog s"
  "lit (DROP n s) = lit s" "local_at (DROP n s) = local_at s" "lineno_at (DROP n s) = lineno_at s"
  "being_loaded_at (DROP n s) = being_loaded_at s" "xt_abort_at (DROP n s) = xt_abort_at s"
  "strerror_at (DROP n s) = strerror_at s"
  by (simp_all add: DROP_def)

lemma set_ST_rest [simp]:
  "heap (set_ST n v s) = heap s" "hp (set_ST n v s) = hp s" "match (set_ST n v s) = match s"
  "last_name (set_ST n v s) = last_name s" "last_chain (set_ST n v s) = last_chain s"
  "forth_chain (set_ST n v s) = forth_chain s" "compiler_chain (set_ST n v s) = compiler_chain s"
  "runtime_chain (set_ST n v s) = runtime_chain s" "lex_chain (set_ST n v s) = lex_chain s"
  "state (set_ST n v s) = state s" "first (set_ST n v s) = first s" "endp (set_ST n v s) = endp s"
  "parsed_lineno (set_ST n v s) = parsed_lineno s" "parsed (set_ST n v s) = parsed s"
  "skipped (set_ST n v s) = skipped s" "trailing (set_ST n v s) = trailing s"
  "crc16_byte (set_ST n v s) = crc16_byte s" "cmd_line (set_ST n v s) = cmd_line s"
  "errno (set_ST n v s) = errno s" "script (set_ST n v s) = script s"
  "oslog (set_ST n v s) = oslog s" "lit (set_ST n v s) = lit s"
  "local_at (set_ST n v s) = local_at s" "lineno_at (set_ST n v s) = lineno_at s"
  "being_loaded_at (set_ST n v s) = being_loaded_at s"
  "xt_abort_at (set_ST n v s) = xt_abort_at s" "strerror_at (set_ST n v s) = strerror_at s"
  by (simp_all add: set_ST_def)

lemma PUSH_rest [simp]:
  "heap (PUSH v s) = heap s" "hp (PUSH v s) = hp s" "match (PUSH v s) = match s"
  "last_name (PUSH v s) = last_name s" "last_chain (PUSH v s) = last_chain s"
  "forth_chain (PUSH v s) = forth_chain s" "compiler_chain (PUSH v s) = compiler_chain s"
  "runtime_chain (PUSH v s) = runtime_chain s" "lex_chain (PUSH v s) = lex_chain s"
  "state (PUSH v s) = state s" "first (PUSH v s) = first s" "endp (PUSH v s) = endp s"
  "parsed_lineno (PUSH v s) = parsed_lineno s" "parsed (PUSH v s) = parsed s"
  "skipped (PUSH v s) = skipped s" "trailing (PUSH v s) = trailing s"
  "crc16_byte (PUSH v s) = crc16_byte s" "cmd_line (PUSH v s) = cmd_line s"
  "errno (PUSH v s) = errno s" "script (PUSH v s) = script s" "oslog (PUSH v s) = oslog s"
  "lit (PUSH v s) = lit s" "local_at (PUSH v s) = local_at s" "lineno_at (PUSH v s) = lineno_at s"
  "being_loaded_at (PUSH v s) = being_loaded_at s" "xt_abort_at (PUSH v s) = xt_abort_at s"
  "strerror_at (PUSH v s) = strerror_at s"
  by (simp_all add: PUSH_def DROP_def set_ST_def)

lemma RDROP_rest [simp]:
  "heap (RDROP n s) = heap s" "hp (RDROP n s) = hp s" "match (RDROP n s) = match s"
  "last_name (RDROP n s) = last_name s" "last_chain (RDROP n s) = last_chain s"
  "forth_chain (RDROP n s) = forth_chain s" "compiler_chain (RDROP n s) = compiler_chain s"
  "runtime_chain (RDROP n s) = runtime_chain s" "lex_chain (RDROP n s) = lex_chain s"
  "state (RDROP n s) = state s" "first (RDROP n s) = first s" "endp (RDROP n s) = endp s"
  "parsed_lineno (RDROP n s) = parsed_lineno s" "parsed (RDROP n s) = parsed s"
  "skipped (RDROP n s) = skipped s" "trailing (RDROP n s) = trailing s"
  "crc16_byte (RDROP n s) = crc16_byte s" "cmd_line (RDROP n s) = cmd_line s"
  "errno (RDROP n s) = errno s" "script (RDROP n s) = script s" "oslog (RDROP n s) = oslog s"
  "lit (RDROP n s) = lit s" "local_at (RDROP n s) = local_at s"
  "lineno_at (RDROP n s) = lineno_at s" "being_loaded_at (RDROP n s) = being_loaded_at s"
  "xt_abort_at (RDROP n s) = xt_abort_at s" "strerror_at (RDROP n s) = strerror_at s"
  by (simp_all add: RDROP_def)

lemma set_RT_rest [simp]:
  "heap (set_RT n v s) = heap s" "hp (set_RT n v s) = hp s" "match (set_RT n v s) = match s"
  "last_name (set_RT n v s) = last_name s" "last_chain (set_RT n v s) = last_chain s"
  "forth_chain (set_RT n v s) = forth_chain s" "compiler_chain (set_RT n v s) = compiler_chain s"
  "runtime_chain (set_RT n v s) = runtime_chain s" "lex_chain (set_RT n v s) = lex_chain s"
  "state (set_RT n v s) = state s" "first (set_RT n v s) = first s" "endp (set_RT n v s) = endp s"
  "parsed_lineno (set_RT n v s) = parsed_lineno s" "parsed (set_RT n v s) = parsed s"
  "skipped (set_RT n v s) = skipped s" "trailing (set_RT n v s) = trailing s"
  "crc16_byte (set_RT n v s) = crc16_byte s" "cmd_line (set_RT n v s) = cmd_line s"
  "errno (set_RT n v s) = errno s" "script (set_RT n v s) = script s"
  "oslog (set_RT n v s) = oslog s" "lit (set_RT n v s) = lit s"
  "local_at (set_RT n v s) = local_at s" "lineno_at (set_RT n v s) = lineno_at s"
  "being_loaded_at (set_RT n v s) = being_loaded_at s"
  "xt_abort_at (set_RT n v s) = xt_abort_at s" "strerror_at (set_RT n v s) = strerror_at s"
  by (simp_all add: set_RT_def)

lemma RPUSH_rest [simp]:
  "heap (RPUSH v s) = heap s" "hp (RPUSH v s) = hp s" "match (RPUSH v s) = match s"
  "last_name (RPUSH v s) = last_name s" "last_chain (RPUSH v s) = last_chain s"
  "forth_chain (RPUSH v s) = forth_chain s" "compiler_chain (RPUSH v s) = compiler_chain s"
  "runtime_chain (RPUSH v s) = runtime_chain s" "lex_chain (RPUSH v s) = lex_chain s"
  "state (RPUSH v s) = state s" "first (RPUSH v s) = first s" "endp (RPUSH v s) = endp s"
  "parsed_lineno (RPUSH v s) = parsed_lineno s" "parsed (RPUSH v s) = parsed s"
  "skipped (RPUSH v s) = skipped s" "trailing (RPUSH v s) = trailing s"
  "crc16_byte (RPUSH v s) = crc16_byte s" "cmd_line (RPUSH v s) = cmd_line s"
  "errno (RPUSH v s) = errno s" "script (RPUSH v s) = script s" "oslog (RPUSH v s) = oslog s"
  "lit (RPUSH v s) = lit s" "local_at (RPUSH v s) = local_at s"
  "lineno_at (RPUSH v s) = lineno_at s" "being_loaded_at (RPUSH v s) = being_loaded_at s"
  "xt_abort_at (RPUSH v s) = xt_abort_at s" "strerror_at (RPUSH v s) = strerror_at s"
  by (simp_all add: RPUSH_def RDROP_def set_RT_def)

lemma dframe_rest:
  assumes "dframe s s'"
  shows "heap s' = heap s" and "hp s' = hp s" and "match s' = match s" and "last_name s' = last_name s"
    and "last_chain s' = last_chain s" and "forth_chain s' = forth_chain s"
    and "compiler_chain s' = compiler_chain s" and "runtime_chain s' = runtime_chain s"
    and "lex_chain s' = lex_chain s" and "state s' = state s" and "first s' = first s" and "endp s' = endp s"
    and "parsed_lineno s' = parsed_lineno s" and "parsed s' = parsed s" and "skipped s' = skipped s"
    and "trailing s' = trailing s" and "crc16_byte s' = crc16_byte s" and "cmd_line s' = cmd_line s"
    and "errno s' = errno s" and "script s' = script s" and "oslog s' = oslog s" and "lit s' = lit s"
    and "local_at s' = local_at s" and "lineno_at s' = lineno_at s" and "being_loaded_at s' = being_loaded_at s"
    and "xt_abort_at s' = xt_abort_at s" and "strerror_at s' = strerror_at s"
  using assms by (cases s; cases s'; simp add: dframe_def)+

type_synonym exec = "mu action"

text \<open>\<open>PUSH\<close> as a statement.\<close>

definition push :: "cell \<Rightarrow> 'a vm_scheme \<Rightarrow> 'a vm_scheme outcome" where
  "push v s = (if room 1 s then Ret (PUSH v s) else Undef)"

text \<open>Reading a cell at an address, and writing one.\<close>

definition load :: "addr \<Rightarrow> 'a vm_scheme \<Rightarrow> cell outcome" where
  "load a s = (if racc (segs s) a 8 then Ret (rd64 (mem s) a) else Undef)"

definition store :: "addr \<Rightarrow> cell \<Rightarrow> 'a vm_scheme \<Rightarrow> 'a vm_scheme outcome" where
  "store a v s = (if wacc (segs s) a 8 then Ret (s\<lparr>mem := wr64 (mem s) a v\<rparr>) else Undef)"

section \<open>Calling the operating system\<close>

definition put_bytes :: "(addr \<times> byte list) list \<Rightarrow> memory \<Rightarrow> memory" where
  "put_bytes ws m = fold (\<lambda>(a, bs) m. wr_bytes m a bs) ws m"

text \<open>One call takes one answer of the script; without an answer the process waits.\<close>

definition syscall :: "os_call \<Rightarrow> mu \<Rightarrow> (cell \<times> mu) outcome" where
  "syscall c s =
     (case script s of
        [] \<Rightarrow> Blocked
      | a # as \<Rightarrow> Ret (ret a,
          s\<lparr>script := as, oslog := oslog s @ [c], segs := maps a @ segs s,
            mem := put_bytes (out a) (mem s),
            errno := if ret a = - 1 then err a else errno s\<rparr>))"

definition EINTR :: cint where "EINTR = 4"

end
