(* ===== verification/Example.thy ===== *)
theory Example
  imports ThreadRefine State
begin

text \<open>
  A concrete process, on which the properties with hypotheses are applied: the two stacks, and
  one writable segment for the heap, the static variables and the buffers.
\<close>

definition example_segs :: "seg list" where
  "example_segs = [stack_seg 0x10000, stack_seg 0x20000, \<lparr>seg_base = 0x100000, seg_len = 0x800000, seg_wr = True\<rparr>]"

definition example :: "memory \<Rightarrow> mu" where
  "example m =
     \<lparr>mem = m,
      segs = example_segs,
      SP = 0x10000 + 32512, RP = 0x20000 + 32512, IP = 0, W = 0, dstack = 0x10000, rstack = 0x20000,
      heap = 0x100000, hp = 0x100000, match = Strncmp, last_name = 0, last_chain = 0,
      forth_chain = 0x400000, compiler_chain = 0x400008, runtime_chain = 0x400010, lex_chain = 0x400018,
      state = Interpret_Token, first = 0x500000, endp = 0x500000, parsed_lineno = 1,
      parsed = \<lparr>data = 0x500000, len = 0\<rparr>, skipped = \<lparr>data = 0x500000, len = 0\<rparr>,
      trailing = \<lparr>data = 0x500000, len = 0\<rparr>,
      crc16_byte = Thierry, cmd_line = \<lparr>data = 0x500000, len = 0\<rparr>, errno = 0, script = [], oslog = [],
      lit = (\<lambda>_. 0x600000), local_at = (\<lambda>_. 0x610000), lineno_at = 0x620000,
      being_loaded_at = 0x620008, xt_abort_at = 0x620010, strerror_at = (\<lambda>_. 0x630000)\<rparr>"

lemma example_simps [simp]:
  "mem (example m) = m"
  "segs (example m) = example_segs"
  "SP (example m) = 0x10000 + 32512" "RP (example m) = 0x20000 + 32512" "IP (example m) = 0"
  "W (example m) = 0" "dstack (example m) = 0x10000" "rstack (example m) = 0x20000"
  "heap (example m) = 0x100000" "hp (example m) = 0x100000" "match (example m) = Strncmp"
  "last_name (example m) = 0" "last_chain (example m) = 0" "forth_chain (example m) = 0x400000"
  "compiler_chain (example m) = 0x400008" "runtime_chain (example m) = 0x400010"
  "lex_chain (example m) = 0x400018" "state (example m) = Interpret_Token"
  "first (example m) = 0x500000" "endp (example m) = 0x500000" "parsed_lineno (example m) = 1"
  "parsed (example m) = \<lparr>data = 0x500000, len = 0\<rparr>"
  "skipped (example m) = \<lparr>data = 0x500000, len = 0\<rparr>"
  "trailing (example m) = \<lparr>data = 0x500000, len = 0\<rparr>"
  "crc16_byte (example m) = Thierry"
  "cmd_line (example m) = \<lparr>data = 0x500000, len = 0\<rparr>" "errno (example m) = 0"
  "script (example m) = []" "oslog (example m) = []" "lit (example m) = (\<lambda>_. 0x600000)"
  "local_at (example m) = (\<lambda>_. 0x610000)" "lineno_at (example m) = 0x620000"
  "being_loaded_at (example m) = 0x620008" "xt_abort_at (example m) = 0x620010"
  "strerror_at (example m) = (\<lambda>_. 0x630000)"
  by (simp_all add: example_def)

text \<open>The process with the cells \<open>xs\<close> pushed.\<close>

definition stacked :: "cell list \<Rightarrow> mu \<Rightarrow> mu" where
  "stacked xs s = foldr PUSH xs s"

lemma stacked_simps: "stacked [] s = s" "stacked (x # xs) s = PUSH x (stacked xs s)"
  by (simp_all add: stacked_def)

lemma stacked_rest [simp]:
  "heap (stacked xs s) = heap s" "hp (stacked xs s) = hp s" "match (stacked xs s) = match s"
  "last_name (stacked xs s) = last_name s" "last_chain (stacked xs s) = last_chain s"
  "forth_chain (stacked xs s) = forth_chain s" "compiler_chain (stacked xs s) = compiler_chain s"
  "runtime_chain (stacked xs s) = runtime_chain s" "lex_chain (stacked xs s) = lex_chain s"
  "state (stacked xs s) = state s" "first (stacked xs s) = first s" "endp (stacked xs s) = endp s"
  "parsed_lineno (stacked xs s) = parsed_lineno s" "parsed (stacked xs s) = parsed s"
  "skipped (stacked xs s) = skipped s" "trailing (stacked xs s) = trailing s"
  "crc16_byte (stacked xs s) = crc16_byte s" "cmd_line (stacked xs s) = cmd_line s"
  "errno (stacked xs s) = errno s" "script (stacked xs s) = script s"
  "oslog (stacked xs s) = oslog s" "lit (stacked xs s) = lit s"
  "local_at (stacked xs s) = local_at s" "lineno_at (stacked xs s) = lineno_at s"
  "being_loaded_at (stacked xs s) = being_loaded_at s"
  "xt_abort_at (stacked xs s) = xt_abort_at s" "strerror_at (stacked xs s) = strerror_at s"
  "segs (stacked xs s) = segs s" "dstack (stacked xs s) = dstack s"
  "rstack (stacked xs s) = rstack s" "RP (stacked xs s) = RP s" "IP (stacked xs s) = IP s"
  "W (stacked xs s) = W s"
  by (induction xs) (simp_all add: stacked_simps)

lemma example_drep: "drep (example m) []" and example_rrep: "rrep (example m) []"
  by (simp_all add: drep_def rrep_def stack_at_def example_segs_def)

lemma stacked_drep:
  assumes "drep s []" "length xs \<le> 4064"
  shows "drep (stacked xs s) xs" and "dframe s (stacked xs s)"
proof -
  have "drep (stacked xs s) xs \<and> dframe s (stacked xs s)"
    using assms(2)
  proof (induction xs)
    case (Cons x xs)
    then show ?case
      by (auto simp: stacked_simps intro: ds.push_rep dframe_trans [OF _ dframe_PUSH])
  qed (simp add: assms(1) stacked_simps)
  then show "drep (stacked xs s) xs" and "dframe s (stacked xs s)" by blast+
qed

lemma example_stacked:
  assumes "length xs \<le> 4064"
  shows "drep (stacked xs (example m)) xs" and "dframe (example m) (stacked xs (example m))"
  using stacked_drep [OF example_drep assms] by blast+

lemma example_vm_ok: "vm_ok (example m)"
  by (simp add: vm_ok_def example_def segs_disj_def disj_def)

lemma example_data_at:
  assumes "0x100000 \<le> a" "unat a + n \<le> 0x900000"
  shows "data_at (example m) a n"
proof -
  have "unat (a - 0x100000) = unat a - 0x100000"
    using assms(1) by (subst unat_diff_no_wrap) (simp_all add: word_le_nat_alt)
  then show ?thesis using assms
    by (simp add: data_at_def data_seg_def example_segs_def segs_disj_def disj_def in_seg_def word_le_nat_alt)
qed

lemma stacked_data_at:
  "length xs \<le> 4064 \<Longrightarrow> 0x100000 \<le> a \<Longrightarrow> unat a + n \<le> 0x900000 \<Longrightarrow> data_at (stacked xs (example m)) a n"
  using data_at_dframe [OF example_stacked(2)] example_data_at by blast

lemma stacked_rd_bytes:
  "length xs \<le> 4064 \<Longrightarrow> 0x100000 \<le> a \<Longrightarrow> unat a + n \<le> 0x900000 \<Longrightarrow>
    rd_bytes (mem (stacked xs (example m))) a n = rd_bytes m a n"
  using rd_bytes_dframe [OF example_stacked(2) example_data_at, of xs a n m] by (simp add: example_def)

lemma dframe_more: "dframe s t \<Longrightarrow> vm.more t = vm.more s" and dframe_segs: "dframe s t \<Longrightarrow> segs t = segs s"
  by (simp_all add: dframe_def)

text \<open>A cell of a memory of zeroes, away from what was written.\<close>

lemma rd64_zeroes: "rd64 (\<lambda>_. 0) a = 0"
proof -
  have "rd_bytes (\<lambda>_. 0) a 8 = replicate 8 0" by (rule nth_equalityI) simp_all
  then show ?thesis by (simp add: rd64_def)
qed

lemma stacked_rd64:
  "length xs \<le> 4064 \<Longrightarrow> 0x100000 \<le> a \<Longrightarrow> unat a + 8 \<le> 0x900000 \<Longrightarrow>
    rd64 (mem (stacked xs (example m))) a = rd64 m a"
  by (simp add: rd64_def stacked_rd_bytes)

lemma example_acc [simp]:
  "0x100000 \<le> a \<Longrightarrow> unat a + n \<le> 0x900000 \<Longrightarrow> racc example_segs a n"
  "0x100000 \<le> a \<Longrightarrow> unat a + n \<le> 0x900000 \<Longrightarrow> wacc example_segs a n"
  using data_at_racc [OF example_data_at [of a n]] data_at_wacc [OF example_data_at [of a n]] by simp_all

end
