(* ===== verification/KernelClaims.thy ===== *)
theory KernelClaims
  imports KernelSpec Example
begin

text \<open>The properties of the kernel words, each applied to a concrete process.\<close>

text \<open>C2: The kernel words implement integer arithmetic on the stack. Whenever the specification
  \<open>kspec\<close> gives a stack for a word (arithmetic and logic, shifts by any amount, comparisons,
  multiplication, floored division, stack manipulation), the C word returns with exactly that
  stack and changes nothing but SP and the data stack.\<close>

theorem kernel_refines:
  assumes "drep s xs" and "kspec w xs = Some ys" and "length ys \<le> 4064"
  shows "\<exists>s'. kimpl w s = Ret s' \<and> drep s' ys \<and> dframe s s'"
  using assms by (rule kimpl_refines)

theorem kernel_refines_witness:
  "\<exists>s'. kimpl SlashMod (stacked [- 4, 7] (example (\<lambda>_. 0))) = Ret s' \<and> drep s' [- 2, - 1]"
  using kernel_refines [of "stacked [- 4, 7] (example (\<lambda>_. 0))" "[- 4, 7]" SlashMod "[- 2, - 1]"]
    example_stacked(1) [of "[- 4, 7]" "\<lambda>_. 0"]
  by auto

text \<open>\<open>/mod\<close> divides with floor although C truncates: the quotient and remainder satisfy the
  division equation exactly, the remainder has the divisor's sign, and the only inputs it does
  not return on are the two on which the processor traps.\<close>

theorem slash_mod_floors:
  assumes "drep s (b # a # xs)"
  shows "if b = 0 \<or> a = 0x8000000000000000 \<and> b = - 1 then mu_slash_mod s = Undef
    else \<exists>s' q m. mu_slash_mod s = Ret s' \<and> drep s' (q # m # xs) \<and>
      sint a = sint q * sint b + sint m \<and>
      (if 0 < sint b then 0 \<le> sint m \<and> sint m < sint b else sint b < sint m \<and> sint m \<le> 0)"
proof -
  have get: "ST 0 s = b" "ST (Suc 0) s = a" "stk 2 s"
    using assms by (auto simp: ds.get_rep ds.cells_rep)
  show ?thesis
  proof (cases "b = 0 \<or> a = 0x8000000000000000 \<and> b = - 1")
    case True
    with get show ?thesis by (auto simp: mu_slash_mod_def div_traps_def)
  next
    case False
    let ?q = "word_of_int (sint a div sint b) :: cell" and ?m = "word_of_int (sint a mod sint b) :: cell"
    have nt: "sint b \<noteq> 0" "\<not> (sint a = - (2 ^ 63) \<and> sint b = - 1)"
      using False div_traps_iff [of a b] by (auto simp: div_traps_def)
    then have "kspec SlashMod (b # a # xs) = Some (?q # ?m # xs)" by simp
    from kimpl_refines [OF assms this] ds.depth_rep [OF assms]
    obtain s' where s': "mu_slash_mod s = Ret s'" "drep s' (?q # ?m # xs)" by auto
    have q: "sint ?q = sint a div sint b"
      by (rule sint_word_of_int) (use div_range [OF sint_range nt] in blast)+
    have m: "sint ?m = sint a mod sint b"
      by (rule sint_word_of_int) (use mod_range [OF sint_range nt(1)] in blast)+
    have "sint a = sint ?q * sint b + sint ?m" unfolding q m by simp
    moreover have "if 0 < sint b then 0 \<le> sint ?m \<and> sint ?m < sint b else sint b < sint ?m \<and> sint ?m \<le> 0"
      unfolding m using nt(1) by simp
    ultimately show ?thesis unfolding if_not_P [OF False] using s' by blast
  qed
qed

theorem slash_mod_floors_witness:
  "\<exists>s' q m. mu_slash_mod (stacked [- 4, 7] (example (\<lambda>_. 0))) = Ret s' \<and> drep s' [q, m] \<and>
    7 = sint q * sint (- 4 :: cell) + sint m"
  using slash_mod_floors [of "stacked [- 4, 7] (example (\<lambda>_. 0))" "- 4" 7 "[]"]
    example_stacked(1) [of "[- 4, 7]" "\<lambda>_. 0"]
  by auto

text \<open>\<open>!\<close> followed by \<open>@\<close> at the same address gives the cell back, for an address of
  eight mapped bytes that no stack overlaps.\<close>

theorem store_fetch:
  assumes "drep s (a # v # xs)" and "data_at s a 8"
  shows "\<exists>s1 s2. mu_store s = Ret s1 \<and> mu_fetch (PUSH a s1) = Ret s2 \<and> drep s2 (v # xs)"
  using assms by (rule store_then_fetch)

theorem store_fetch_witness:
  "\<exists>s1 s2. mu_store (stacked [0x500000, 42] (example (\<lambda>_. 0))) = Ret s1 \<and>
    mu_fetch (PUSH 0x500000 s1) = Ret s2 \<and> drep s2 [42]"
  by (rule store_fetch) (simp_all add: example_stacked stacked_data_at)

text \<open>\<open>cmove\<close> gives the destination the bytes the source had before, also when the two
  overlap, and changes no byte outside the destination.\<close>

theorem cmove_moves_bytes:
  assumes "drep s (n # dest # src # xs)" and "racc (segs s) src (unat n)" and "data_at s dest (unat n)"
  shows "\<exists>s'. mu_cmove s = Ret s' \<and> drep s' xs \<and>
    rd_bytes (mem s') dest (unat n) = rd_bytes (mem s) src (unat n) \<and>
    (\<forall>a. unat n \<le> unat (a - dest) \<longrightarrow> mem s' a = mem s a)"
  using assms by (rule cmove_moves)

theorem cmove_moves_bytes_witness:
  "\<exists>s'. mu_cmove (stacked [3, 0x500001, 0x500000] (example (wr_bytes (\<lambda>_. 0) 0x500000 [1, 2, 3]))) = Ret s' \<and>
    drep s' [] \<and> rd_bytes (mem s') 0x500001 3 = [1, 2, 3]"
proof -
  let ?m = "wr_bytes (\<lambda>_. 0) 0x500000 [1, 2, 3]" and ?xs = "[3, 0x500001, 0x500000] :: cell list"
  have "rd_bytes (mem (stacked ?xs (example ?m))) 0x500000 3 = [1, 2, 3]"
    using rd_wr_bytes_same [of "[1, 2, 3]" "\<lambda>_. 0" "0x500000"] by (simp add: stacked_rd_bytes numeral_3_eq_3)
  then show ?thesis
    using cmove_moves_bytes [of "stacked ?xs (example ?m)" 3 "0x500001" "0x500000" "[]"]
      example_stacked(1) [of ?xs ?m] stacked_data_at [of ?xs "0x500001" 3 ?m]
    by auto
qed

text \<open>\<open>string=\<close> decides whether two strings have the same length and the same bytes.\<close>

theorem string_equal_spec:
  assumes "drep s (n2 # a2 # n1 # a1 # xs)"
    and "racc (segs s) a1 (unat n1)" and "racc (segs s) a2 (unat n2)"
  shows "\<exists>s'. mu_string_equal s = Ret s' \<and> dframe s s' \<and>
    drep s' (flag (rd_bytes (mem s) a1 (unat n1) = rd_bytes (mem s) a2 (unat n2)) # xs)"
  using assms by (rule string_equal_decides)

theorem string_equal_spec_witness:
  "\<exists>s'. mu_string_equal (stacked [2, 0x500000, 3, 0x500000] (example (\<lambda>_. 0))) = Ret s' \<and> drep s' [0]"
proof -
  let ?s = "stacked [2, 0x500000, 3, 0x500000] (example (\<lambda>_. 0))"
  have "rd_bytes (mem ?s) 0x500000 3 \<noteq> rd_bytes (mem ?s) 0x500000 2"
    by (metis length_rd_bytes numeral_eq_iff semiring_norm(88))
  then show ?thesis
    using string_equal_spec [of ?s 2 "0x500000" 3 "0x500000" "[]"]
    by (auto simp: example_stacked)
qed

end
