(* ===== verification/Errors.thy ===== *)
theory Errors
  imports State
begin

text \<open>
  \<open>error.c\<close>: dying with a message, aborting through the deferred word \<open>xt_abort\<close>, and the
  variants that start from a C string or from \<open>errno\<close>. Every other component reports its
  errors through these. \<open>ex\<close> is \<open>mu_execute\<close>.
\<close>

section \<open>C strings as text\<close>

text \<open>The bytes \<open>printf\<close> writes for \<open>%s\<close> and for \<open>%.*s\<close>: up to a null byte, and in the
  second case at most as many as the precision, which counts only if it is not negative.\<close>

fun bytes_upto :: "seg list \<Rightarrow> memory \<Rightarrow> addr \<Rightarrow> nat \<Rightarrow> byte list option" where
  "bytes_upto gs m a 0 = Some []"
| "bytes_upto gs m a (Suc n) =
     (if racc gs a 1
      then if m a = 0 then Some [] else map_option ((#) (m a)) (bytes_upto gs m (a + 1) n)
      else None)"

definition cstr :: "seg list \<Rightarrow> memory \<Rightarrow> addr \<Rightarrow> byte list option" where
  "cstr gs m a = map_option (rd_bytes m a) (cstrlen gs m a)"

definition printf_s :: "seg list \<Rightarrow> memory \<Rightarrow> cint \<Rightarrow> addr \<Rightarrow> byte list option" where
  "printf_s gs m prec a = (if prec <s 0 then cstr gs m a else bytes_upto gs m a (unat prec))"

definition char_of_byte :: "byte \<Rightarrow> char" where
  "char_of_byte b = char_of (unat b)"

definition byte_of_char :: "char \<Rightarrow> byte" where
  "byte_of_char c = of_nat (of_char c)"

definition text_of :: "byte list \<Rightarrow> string" where
  "text_of = map char_of_byte"

definition bytes_of :: "string \<Rightarrow> byte list" where
  "bytes_of = map byte_of_char"

fun digits :: "nat \<Rightarrow> string" where
  "digits n = (if n < 10 then [char_of (48 + n)] else digits (n div 10) @ [char_of (48 + n mod 10)])"

declare digits.simps [simp del]

definition decimal :: "int \<Rightarrow> string" where
  "decimal k = (if k < 0 then ''-'' @ digits (nat (- k)) else digits (nat k))"

section \<open>Dying\<close>

definition die :: "addr \<Rightarrow> mu \<Rightarrow> 'b outcome" where
  "die zmsg s = bindo (load (being_loaded_at s) s) (\<lambda>being_loaded.
     case (if being_loaded \<noteq> 0 then cstr (segs s) (mem s) being_loaded
           else Some (bytes_of ''startup.mu4''),
           printf_s (segs s) (mem s) (int_of_cell (len (parsed s))) (data (parsed s)),
           cstr (segs s) (mem s) zmsg) of
       (Some file, Some token, Some msg) \<Rightarrow>
         Exit 1 (text_of file @ '', line '' @ decimal (sint (parsed_lineno s)) @ '': '' @
           text_of token @ '' '' @ text_of msg @ [CHR 0x0A])
     | _ \<Rightarrow> Undef)"

section \<open>Aborting\<close>

definition mu_push_being_loaded :: exec where
  "mu_push_being_loaded s = push (being_loaded_at s) s"

definition mu_push_tick_abort :: exec where
  "mu_push_tick_abort s = push (xt_abort_at s) s"

definition mu_abort :: "exec \<Rightarrow> exec" where
  "mu_abort ex s = bindo (load (xt_abort_at s) s) (\<lambda>xt_abort.
     if xt_abort \<noteq> 0 then bindo (push xt_abort s) ex
     else if stk 1 s then die (ST 0 s) s else Undef)"

definition mu_q_abort :: "exec \<Rightarrow> exec" where
  "mu_q_abort ex s =
     (if stk 1 s then if ST 0 s = 0 then mu_abort ex (DROP 1 s) else Ret (DROP 1 s) else Undef)"

definition abort_zmsg :: "exec \<Rightarrow> addr \<Rightarrow> exec" where
  "abort_zmsg ex zmsg s = bindo (push zmsg s) (mu_abort ex)"

definition assert :: "exec \<Rightarrow> bool \<Rightarrow> addr \<Rightarrow> exec" where
  "assert ex cond zmsg s = (if \<not> cond then abort_zmsg ex zmsg s else Ret s)"

definition abort_strerror :: "exec \<Rightarrow> exec" where
  "abort_strerror ex s = abort_zmsg ex (strerror_at s (errno s)) s"

section \<open>Monotone in the interpreter\<close>

text \<open>A word that runs the interpreter finishes the same way with an interpreter that
  finishes more often.\<close>

named_theorems mono_intros \<open>words are monotone in the interpreter they run\<close>

declare bindo_mono [mono_intros] order_refl [where 'a = "'b outcome", mono_intros]

lemma mono_ap: "less_defined f g \<Longrightarrow> f s \<le> g s"
  by (simp add: less_defined_le le_fun_def)

lemma mono_if [mono_intros]:
  "a \<le> a' \<Longrightarrow> b \<le> b' \<Longrightarrow> (if P then a else b :: 'b outcome) \<le> (if P then a' else b')"
  by simp

lemma mono_mu_abort [mono_intros]: "less_defined f g \<Longrightarrow> mu_abort f s \<le> mu_abort g s"
  unfolding mu_abort_def by (intro mono_intros mono_ap)

lemma mono_q_abort [mono_intros]: "less_defined f g \<Longrightarrow> mu_q_abort f s \<le> mu_q_abort g s"
  unfolding mu_q_abort_def by (intro mono_intros)

lemma mono_abort_zmsg [mono_intros]: "less_defined f g \<Longrightarrow> abort_zmsg f z s \<le> abort_zmsg g z s"
  unfolding abort_zmsg_def by (intro mono_intros)

lemma mono_assert [mono_intros]: "less_defined f g \<Longrightarrow> assert f c z s \<le> assert g c z s"
  unfolding assert_def by (intro mono_intros)

lemma mono_abort_strerror [mono_intros]:
  "less_defined f g \<Longrightarrow> abort_strerror f s \<le> abort_strerror g s"
  unfolding abort_strerror_def by (intro mono_intros)

text \<open>What the words that report an error do: the deferred abort runs if there is one, and
  otherwise the process ends with status 1.\<close>

lemma mu_abort_deferred:
  "load (xt_abort_at s) s = Ret xt \<Longrightarrow> xt \<noteq> 0 \<Longrightarrow> mu_abort ex s = bindo (push xt s) ex"
  by (simp add: mu_abort_def)

lemma mu_abort_dies:
  assumes "load (xt_abort_at s) s = Ret 0" "drep s (z # xs)"
  shows "mu_abort ex s = die z s"
  using assms by (simp add: mu_abort_def ds.cells_rep ds.get_0)

end
