(* ===== verification/Dict.thy ===== *)
theory Dict
  imports Errors
begin

text \<open>
  \<open>dict.c\<close>: the heap pointer, dictionary entries and chains. An entry is, from its start: zero
  padding, the characters of the name, the length byte, the link cell (cell-aligned) and the
  code field. Links point to links; 0 ends a chain.
\<close>

section \<open>The heap pointer\<close>

definition HEAP_CELLS :: cell where "HEAP_CELLS = 8 * 1024 * 1024 div 8"

definition mu_at_heap :: exec where "mu_at_heap s = push (heap s) s"

definition mu_size_heap :: exec where "mu_size_heap s = push (HEAP_CELLS * 8) s"

definition mu_here :: exec where "mu_here s = push (hp s) s"

text \<open>\<open>*hp++ = v\<close>\<close>

definition hp_put :: "cell \<Rightarrow> exec" where
  "hp_put v s = bindo (store (hp s) v s) (\<lambda>s. Ret (s\<lparr>hp := hp s + 8\<rparr>))"

definition mu_comma :: exec where
  "mu_comma s = (if stk 1 s then hp_put (ST 0 s) (DROP 1 s) else Undef)"

definition mu_allot :: exec where
  "mu_allot s = (if stk 1 s then Ret (DROP 1 (s\<lparr>hp := hp s + ALIGNED (ST 0 s) div 8 * 8\<rparr>)) else Undef)"

definition mu_aligned :: exec where
  "mu_aligned s = (if stk 1 s then Ret (set_ST 0 (ALIGNED (ST 0 s)) s) else Undef)"

text \<open>The words of \<open>engine-itc.c\<close> that lay down cells.\<close>

definition mu_compile_comma :: exec where "mu_compile_comma = mu_comma"

definition mu_set_colon_code :: "cell \<Rightarrow> exec" where
  "mu_set_colon_code do_colon s = bindo (push do_colon s) mu_compile_comma"

definition mu_set_does_code :: "cell \<Rightarrow> exec" where
  "mu_set_does_code do_does s = bindo (push do_does s) mu_compile_comma"

definition mu_runtime_compile :: exec where
  "mu_runtime_compile s = bindo (mu_runtime_lit' s) mu_compile_comma"

section \<open>Comparing names\<close>

definition mu_plus_case :: exec where "mu_plus_case s = Ret (s\<lparr>match := Strncmp\<rparr>)"

definition mu_minus_case :: exec where "mu_minus_case s = Ret (s\<lparr>match := Strncasecmp\<rparr>)"

definition tolower :: "byte \<Rightarrow> byte" where
  "tolower c = (if 65 \<le> c \<and> c \<le> 90 then c + 32 else c)"

fun fold_case :: "matcher \<Rightarrow> byte \<Rightarrow> byte" where
  "fold_case Strncmp c = c"
| "fold_case Strncasecmp c = tolower c"

text \<open>Whether \<open>strncmp\<close> or \<open>strncasecmp\<close> returns 0: the bytes are compared up to the first
  difference, to a null in both, or to the given count.\<close>

fun strn_equal :: "matcher \<Rightarrow> seg list \<Rightarrow> memory \<Rightarrow> addr \<Rightarrow> addr \<Rightarrow> nat \<Rightarrow> bool option" where
  "strn_equal f gs m p q 0 = Some True"
| "strn_equal f gs m p q (Suc n) =
     (if racc gs p 1 \<and> racc gs q 1
      then if fold_case f (m p) \<noteq> fold_case f (m q) then Some False
           else if m p = 0 then Some True
           else strn_equal f gs m (p + 1) (q + 1) n
      else None)"

section \<open>Searching a chain\<close>

definition SUFFIX_LEN :: cell where "SUFFIX_LEN = 8 - 1"

text \<open>The fields of the entry whose link is at \<open>l\<close>.\<close>

definition suffix_at :: "addr \<Rightarrow> addr" where "suffix_at l = l - 8"
definition length_at :: "addr \<Rightarrow> addr" where "length_at l = l - 1"
definition code_at :: "addr \<Rightarrow> addr" where "code_at l = l + 8"

text \<open>The loop of \<open>mu_find\<close>. It follows the links from \<open>plink\<close>; it may not end, when a chain
  has been made circular. The result is the link of the entry found, or none.\<close>

partial_function (option) find_loop ::
  "matcher \<Rightarrow> seg list \<Rightarrow> memory \<Rightarrow> addr \<Rightarrow> cint \<Rightarrow> addr \<Rightarrow> addr option outcome option" where
  "find_loop f gs m token sz plink =
     (if \<not> racc gs plink 8 then Some Undef
      else let plink = rd64 m plink in
        if plink = 0 then Some (Ret None)
        else if \<not> racc gs (length_at plink) 1 then Some Undef
        else if ucast (m (length_at plink)) \<noteq> sz then find_loop f gs m token sz plink
        else let eq = strn_equal f gs m (suffix_at plink + SUFFIX_LEN - cell_of_int sz) token (unat sz) in
          if eq = None then Some Undef
          else if eq = Some False then find_loop f gs m token sz plink
          else Some (Ret (Some plink)))"

definition mu_find :: exec where
  "mu_find s =
     (if \<not> stk 3 s then Undef
      else let token = ST 2 s; sz = int_of_cell (ST 1 s); plink = ST 0 s in
        if 0 <s sz \<and> sz <s 256
        then case find_loop (match s) (segs s) (mem s) token sz plink of
               None \<Rightarrow> Timeout
             | Some r \<Rightarrow> bindo r (\<lambda>found. case found of
                   Some plink \<Rightarrow> Ret (let s = DROP 1 s in set_ST 0 (- 1) (set_ST 1 (code_at plink) s))
                 | None \<Rightarrow> Ret (set_ST 0 0 s))
        else Ret (set_ST 0 0 s))"

section \<open>Creating names\<close>

text \<open>\<open>memset\<close> and \<open>memcpy\<close>; the regions of \<open>memcpy\<close> must not overlap.\<close>

definition memset0 :: "addr \<Rightarrow> cell \<Rightarrow> exec" where
  "memset0 a n s = (if wacc (segs s) a (unat n)
     then Ret (s\<lparr>mem := wr_bytes (mem s) a (replicate (unat n) 0)\<rparr>) else Undef)"

definition memcpy :: "addr \<Rightarrow> addr \<Rightarrow> cell \<Rightarrow> exec" where
  "memcpy dest src n s =
     (if wacc (segs s) dest (unat n) \<and> racc (segs s) src (unat n) \<and>
         (n = 0 \<or> disj dest (unat n) src (unat n))
      then Ret (s\<lparr>mem := wr_bytes (mem s) dest (rd_bytes (mem s) src (unat n))\<rparr>) else Undef)"

definition store_byte :: "addr \<Rightarrow> byte \<Rightarrow> exec" where
  "store_byte a b s = (if wacc (segs s) a 1 then Ret (s\<lparr>mem := wr_bytes (mem s) a [b]\<rparr>) else Undef)"

definition name_length :: "cint \<Rightarrow> cint" where
  "name_length sz = (if sz <s 255 then sz else 255)"

definition prefix_bytes :: "cint \<Rightarrow> cint" where
  "prefix_bytes sz = int_of_cell (ALIGNED (cell_of_int sz - SUFFIX_LEN))"

definition new_name :: "addr \<Rightarrow> addr \<Rightarrow> cint \<Rightarrow> bool \<Rightarrow> mu \<Rightarrow> (addr \<times> mu) outcome" where
  "new_name plink name sz hidden s =
     (let sz = name_length sz;
          prefix = cell_of_int (prefix_bytes sz);
          pnm = hp s + prefix
      in bindo (memset0 (hp s) (prefix + 24) s) (\<lambda>s.
         bindo (memcpy (pnm + SUFFIX_LEN - cell_of_int sz) name (cell_of_int sz) s) (\<lambda>s.
         bindo (store_byte (pnm + 7) (if hidden then 0 else ucast sz) s) (\<lambda>s.
         bindo (store (pnm + 8) plink s) (\<lambda>s.
         Ret (pnm + 8, s\<lparr>hp := pnm + 16\<rparr>))))))"

definition new_linked_name :: "addr \<Rightarrow> addr \<Rightarrow> cint \<Rightarrow> exec" where
  "new_linked_name plink name sz s =
     bindo (load plink s) (\<lambda>link.
     bindo (new_name link name sz False s) (\<lambda>(new, s). store plink new s))"

definition mu_unlinked_name' :: exec where
  "mu_unlinked_name' s =
     (if \<not> stk 3 s then Undef
      else let plink = ST 0 s; name = ST 2 s; sz = int_of_cell (ST 1 s) in
        bindo (load plink s) (\<lambda>link.
        bindo (new_name link name sz False s) (\<lambda>(new, s).
        Ret (DROP 3 (s\<lparr>last_name := new, last_chain := plink\<rparr>)))))"

definition mu_show :: exec where
  "mu_show s = store (last_chain s) (last_name s) s"

section \<open>Chains\<close>

definition mu_do_chain :: exec where
  "mu_do_chain s = push (W s + 8) s"

text \<open>\<open>strlen\<close>, kept in an \<open>int\<close> as its callers here do.\<close>

definition strlen :: "addr \<Rightarrow> mu \<Rightarrow> cint outcome" where
  "strlen a s = (case cstrlen (segs s) (mem s) a of None \<Rightarrow> Undef | Some n \<Rightarrow> Ret (of_nat n))"

text \<open>\<open>CODE(mu_do_chain)\<close> is the address \<open>do_chain\<close>.\<close>

definition new_chain :: "cell \<Rightarrow> addr \<Rightarrow> addr \<Rightarrow> mu \<Rightarrow> (addr \<times> mu) outcome" where
  "new_chain do_chain plink name s =
     bindo (strlen name s) (\<lambda>n.
     bindo (new_linked_name plink name n s) (\<lambda>s.
     bindo (hp_put do_chain s) (\<lambda>s.
     new_name 0 (lit s ''muchain'') 7 True s)))"

text \<open>A table of initial names: the addresses of the names and of the C functions.\<close>

record inm =
  inm_name :: addr
  inm_code :: cell

fun init_names :: "addr \<Rightarrow> inm list \<Rightarrow> exec" where
  "init_names plink [] s = Ret s"
| "init_names plink (p # ps) s =
     bindo (strlen (inm_name p) s) (\<lambda>n.
     bindo (new_linked_name plink (inm_name p) n s) (\<lambda>s.
     bindo (hp_put (inm_code p) s) (init_names plink ps)))"

definition init_chain :: "addr \<Rightarrow> addr \<Rightarrow> inm list \<Rightarrow> exec" where
  "init_chain plink anchor_link pinm s = bindo (store plink anchor_link s) (init_names plink pinm)"

definition allocate :: exec where
  "allocate s =
     bindo (syscall (Call ''calloc'' [HEAP_CELLS, 8] []) s) (\<lambda>(p, s).
     if p = 0 then die (lit s ''couldn't allocate memory'') (s\<lparr>heap := p\<rparr>)
     else Ret (s\<lparr>heap := p, hp := p\<rparr>))"

definition muboot_push_forth_chain :: exec where
  "muboot_push_forth_chain s = push (forth_chain s) s"

definition muboot_push_compiler_chain :: exec where
  "muboot_push_compiler_chain s = push (compiler_chain s) s"

definition muboot_push_runtime_chain :: exec where
  "muboot_push_runtime_chain s = push (runtime_chain s) s"

text \<open>The tables the build generates: \<open>forth_chain.h\<close>, \<open>compiler_chain.h\<close> and
  \<open>runtime_chain.h\<close>.\<close>

record name_tables =
  initial_forth :: "inm list"
  initial_compiler :: "inm list"
  initial_runtime :: "inm list"

definition init_dict :: "cell \<Rightarrow> name_tables \<Rightarrow> exec" where
  "init_dict do_chain tables s =
     (let boot = local_at s ''forth_bootstrap'' in
      bindo (store boot 0 s) (\<lambda>s.
      bindo (allocate s) (\<lambda>s.
      bindo (new_chain do_chain boot (lit s ''.lex.'') s) (\<lambda>(lex, s).
      bindo (load boot s) (\<lambda>entry.
      bindo (store entry lex (s\<lparr>lex_chain := lex\<rparr>)) (\<lambda>s.
      bindo (new_chain do_chain boot (lit s ''.forth.'') s) (\<lambda>(forth, s).
      bindo (new_chain do_chain boot (lit s ''.compiler.'') (s\<lparr>forth_chain := forth\<rparr>)) (\<lambda>(compiler, s).
      bindo (new_chain do_chain boot (lit s ''.runtime.'') (s\<lparr>compiler_chain := compiler\<rparr>)) (\<lambda>(runtime, s).
      bindo (load boot s) (\<lambda>anchor.
      bindo (init_chain (forth_chain s) anchor (initial_forth tables) (s\<lparr>runtime_chain := runtime\<rparr>)) (\<lambda>s.
      bindo (init_chain (compiler_chain s) (lex_chain s) (initial_compiler tables) s) (\<lambda>s.
      init_chain (runtime_chain s) (forth_chain s) (initial_runtime tables) s))))))))))))"

end
