(* ===== verification/DictSearch.thy ===== *)
theory DictSearch
  imports Dict KernelSpec
begin

text \<open>
  A chain as a list of entries, and \<open>mu_find\<close> as a search of that list: the first entry from
  the head whose name matches, whatever chains the links run through.
\<close>

section \<open>The list of entries of a chain\<close>

definition name_len :: "memory \<Rightarrow> addr \<Rightarrow> nat" where
  "name_len m l = unat (m (length_at l))"

definition entry_name :: "memory \<Rightarrow> addr \<Rightarrow> byte list" where
  "entry_name m l = rd_bytes m (length_at l - of_nat (name_len m l)) (name_len m l)"

definition entry_ok :: "seg list \<Rightarrow> memory \<Rightarrow> addr \<Rightarrow> bool" where
  "entry_ok gs m l \<longleftrightarrow> racc gs (length_at l) 1 \<and>
     (\<forall>i < name_len m l. racc gs (length_at l - of_nat (name_len m l) + of_nat i) 1)"

text \<open>\<open>chain_at gs m p ls\<close>: following the links from the cell at \<open>p\<close> passes through the link
  fields \<open>ls\<close> and ends with a null link.\<close>

fun chain_at :: "seg list \<Rightarrow> memory \<Rightarrow> addr \<Rightarrow> addr list \<Rightarrow> bool" where
  "chain_at gs m p [] \<longleftrightarrow> racc gs p 8 \<and> rd64 m p = 0"
| "chain_at gs m p (l # ls) \<longleftrightarrow>
     racc gs p 8 \<and> rd64 m p = l \<and> l \<noteq> 0 \<and> entry_ok gs m l \<and> chain_at gs m l ls"

lemma chain_at_link: "chain_at gs m p ls \<Longrightarrow> racc gs p 8 \<and> rd64 m p = (case ls of [] \<Rightarrow> 0 | l # _ \<Rightarrow> l)"
  by (cases ls) auto

section \<open>Matching names\<close>

fun bytes_match :: "matcher \<Rightarrow> byte list \<Rightarrow> byte list \<Rightarrow> bool" where
  "bytes_match f (a # as) (b # bs) \<longleftrightarrow> fold_case f a = fold_case f b \<and> (a = 0 \<or> bytes_match f as bs)"
| "bytes_match f as bs \<longleftrightarrow> True"

lemma rd_bytes_Suc: "rd_bytes m a (Suc n) = m a # rd_bytes m (a + 1) n"
proof -
  have "[0..<Suc n] = 0 # map Suc [0..<n]" by (simp add: map_Suc_upt upt_conv_Cons del: upt_Suc)
  then show ?thesis by (simp add: rd_bytes_def add.assoc del: upt_Suc)
qed

lemma strn_equal_match:
  assumes "\<And>i. i < n \<Longrightarrow> racc gs (p + of_nat i) 1" "\<And>i. i < n \<Longrightarrow> racc gs (q + of_nat i) 1"
  shows "strn_equal f gs m p q n = Some (bytes_match f (rd_bytes m p n) (rd_bytes m q n))"
  using assms
proof (induction n arbitrary: p q)
  case 0
  then show ?case by simp
next
  case (Suc n)
  have "racc gs (p + 1 + of_nat i) 1 \<and> racc gs (q + 1 + of_nat i) 1" if "i < n" for i
    using Suc.prems [of "Suc i"] that by (simp add: add.assoc)
  with Suc.IH [of "p + 1" "q + 1"] Suc.prems [of 0] show ?case by (auto simp: rd_bytes_Suc)
qed

text \<open>Without null bytes the names match when they are the same, up to case.\<close>

lemma bytes_match_eq:
  "length as = length bs \<Longrightarrow> 0 \<notin> set as \<Longrightarrow>
   bytes_match f as bs \<longleftrightarrow> map (fold_case f) as = map (fold_case f) bs"
  by (induction as bs rule: list_induct2) auto

lemma bytes_match_refl: "bytes_match f as as"
  by (induction as) auto

definition matches :: "matcher \<Rightarrow> memory \<Rightarrow> byte list \<Rightarrow> addr \<Rightarrow> bool" where
  "matches f m tok l \<longleftrightarrow> length (entry_name m l) = length tok \<and> bytes_match f (entry_name m l) tok"

lemma length_entry_name [simp]: "length (entry_name m l) = name_len m l"
  by (simp add: entry_name_def)

lemma matches_iff:
  "matches f m (rd_bytes m token n) l \<longleftrightarrow>
    name_len m l = n \<and> bytes_match f (rd_bytes m (length_at l - of_nat n) n) (rd_bytes m token n)"
  by (auto simp: matches_def entry_name_def)

section \<open>The search\<close>

lemma unat_less_8: "unat (b :: byte) < 256"
proof -
  have "unat b < 2 ^ LENGTH(8)" by (rule unsigned_less)
  then show ?thesis by simp
qed

lemma length_cmp:
  assumes "n < 256"
  shows "(ucast (b :: byte) :: cint) \<noteq> of_nat n \<longleftrightarrow> unat b \<noteq> n"
proof -
  have "(ucast b :: cint) = of_nat n \<longleftrightarrow> unat (ucast b :: cint) = unat (of_nat n :: cint)"
    by (simp add: word_unat_eq_iff)
  also have "unat (ucast b :: cint) = unat b"
    using unat_less_8 [of b] by (simp add: unsigned_ucast_eq take_bit_nat_eq_self)
  also have "unat (of_nat n :: cint) = n"
    using assms by (simp add: unat_of_nat)
  finally show ?thesis by simp
qed

lemma find_loop_chain:
  assumes "chain_at gs m p ls" and "n < 256" and "\<And>i. i < n \<Longrightarrow> racc gs (token + of_nat i) 1"
  shows "find_loop f gs m token (of_nat n) p =
    Some (Ret (List.find (matches f m (rd_bytes m token n)) ls))"
  using assms(1)
proof (induction ls arbitrary: p)
  case Nil
  then show ?case by (simp add: find_loop.simps)
next
  case (Cons l ls)
  let ?n = "of_nat n :: cint"
  have name: "suffix_at l + SUFFIX_LEN - cell_of_int ?n = length_at l - of_nat n"
    using assms(2) by (simp add: suffix_at_def length_at_def SUFFIX_LEN_def cell_of_int_of_nat)
  have un: "unat ?n = n" using assms(2) by (simp add: unat_of_nat)
  show ?case
  proof (cases "name_len m l = n")
    case True
    have "strn_equal f gs m (length_at l - of_nat n) token n =
        Some (bytes_match f (rd_bytes m (length_at l - of_nat n) n) (rd_bytes m token n))"
      using Cons.prems True assms(3) by (intro strn_equal_match) (auto simp: entry_ok_def)
    with Cons True assms(2) show ?thesis
      by (subst find_loop.simps)
        (simp add: Let_def name un length_cmp matches_iff [of _ _ _ _ l], simp add: name_len_def entry_ok_def)
  next
    case False
    with Cons assms(2) show ?thesis
      by (subst find_loop.simps) (simp add: Let_def length_cmp matches_iff [of _ _ _ _ l], simp add: name_len_def entry_ok_def)
  qed
qed

text \<open>What \<open>find\<close> leaves for a token \<open>a u\<close> and a chain.\<close>

definition find_result :: "addr option \<Rightarrow> cell \<Rightarrow> addr \<Rightarrow> cell list" where
  "find_result r u a = (case r of Some l \<Rightarrow> [- 1, code_at l] | None \<Rightarrow> [0, u, a])"

lemma mu_find_searches:
  fixes s :: mu
  assumes rep: "drep s (p # of_nat n # a # xs)" and n: "0 < n" "n < 256"
    and tok: "\<And>i. i < n \<Longrightarrow> racc (segs s) (a + of_nat i) 1"
    and chain: "chain_at (segs s) (mem s) p ls"
  shows "\<exists>s'. mu_find s = Ret s' \<and> dframe s s' \<and>
    drep s' (find_result (List.find (matches (match s) (mem s) (rd_bytes (mem s) a n)) ls) (of_nat n) a @ xs)"
proof -
  have get: "ST 0 s = p" "ST (Suc 0) s = of_nat n" "ST 2 s = a" "stk 3 s"
    using rep by (auto simp: ds.get_rep ds.cells_rep)
  have bounds: "0 <s (of_nat n :: cint)" "(of_nat n :: cint) <s 256"
    using n by (simp_all add: word_sless_alt sint_of_nat_32)
  note loop = find_loop_chain [OF chain n(2) tok, of "match s"]
  show ?thesis
  proof (cases "List.find (matches (match s) (mem s) (rd_bytes (mem s) a n)) ls")
    case None
    have "mu_find s = Ret (set_ST 0 0 s)"
      using get bounds loop None by (simp add: mu_find_def)
    with rep None show ?thesis
      by (auto simp: find_result_def intro: ds.put_0 dframe_set_ST)
  next
    case (Some l)
    let ?s' = "set_ST 0 (- 1) (set_ST 1 (code_at l) (DROP 1 s))"
    have "mu_find s = Ret ?s'"
      using get bounds loop Some by (simp add: mu_find_def Let_def)
    moreover have r1: "drep (DROP 1 s) (of_nat n # a # xs)" using rep by (rule ds.pop_1)
    moreover have r2: "drep (set_ST 1 (code_at l) (DROP 1 s)) (of_nat n # code_at l # xs)"
      using ds.put_1 [OF r1] by simp
    moreover have "drep ?s' (- 1 # code_at l # xs)" using r2 by (rule ds.put_0)
    moreover have "dframe s ?s'"
      using dframe_trans [OF dframe_trans [OF dframe_DROP dframe_set_ST [OF r1, of 1]] dframe_set_ST [OF r2, of 0]]
      by simp
    ultimately show ?thesis using Some by (auto simp: find_result_def)
  qed
qed

lemma mu_find_length:
  fixes s :: mu
  assumes rep: "drep s (p # u # a # xs)" and u: "\<not> (0 < sint (int_of_cell u) \<and> sint (int_of_cell u) < 256)"
  shows "\<exists>s'. mu_find s = Ret s' \<and> dframe s s' \<and> drep s' (0 # u # a # xs)"
proof -
  have get: "ST (Suc 0) s = u" "stk 3 s"
    using rep by (auto simp: ds.get_rep ds.cells_rep)
  have "mu_find s = Ret (set_ST 0 0 s)"
    using get u by (auto simp: mu_find_def word_sless_alt Let_def)
  with rep show ?thesis by (auto intro: ds.put_0 dframe_set_ST)
qed

text \<open>A hidden entry has length 0, so no search finds it.\<close>

lemma hidden_not_matched: "name_len m l = 0 \<Longrightarrow> 0 < length tok \<Longrightarrow> \<not> matches f m tok l"
  by (simp add: matches_def)

text \<open>What the search means for a token without null bytes.\<close>

definition same_name :: "matcher \<Rightarrow> memory \<Rightarrow> byte list \<Rightarrow> addr \<Rightarrow> bool" where
  "same_name f m tok l \<longleftrightarrow> entry_name m l \<noteq> [] \<and> map (fold_case f) (entry_name m l) = map (fold_case f) tok"

lemma fold_case_0 [simp]: "fold_case f 0 = 0" "0 = fold_case f c \<longleftrightarrow> c = 0"
proof -
  have "fold_case f c = 0 \<longleftrightarrow> c = 0" for c
    by (cases f) (auto simp: tolower_def eq_neg_iff_add_eq_0 [symmetric] split: if_splits)
  then show "fold_case f 0 = 0" "0 = fold_case f c \<longleftrightarrow> c = 0" by metis+
qed

lemma bytes_match_token:
  "length as = length bs \<Longrightarrow> 0 \<notin> set bs \<Longrightarrow>
   bytes_match f as bs \<longleftrightarrow> map (fold_case f) as = map (fold_case f) bs"
  by (induction as bs rule: list_induct2) auto

lemma matches_same_name:
  assumes "0 \<notin> set tok" "tok \<noteq> []"
  shows "matches f m tok = same_name f m tok"
proof
  fix l
  show "matches f m tok l = same_name f m tok l"
    using assms bytes_match_token [of "entry_name m l" tok f] map_eq_imp_length_eq [of "fold_case f" "entry_name m l" _ tok]
    by (auto simp: matches_def same_name_def simp del: length_entry_name)
qed

lemma same_name_length: "same_name f m tok l \<Longrightarrow> 0 < length tok \<and> length tok < 256"
proof -
  assume s: "same_name f m tok l"
  then have "length (entry_name m l) = length tok" by (auto simp: same_name_def dest: map_eq_imp_length_eq)
  moreover have "length (entry_name m l) < 256" using unat_less_8 by (simp add: name_len_def)
  ultimately show ?thesis using s by (auto simp: same_name_def simp del: length_entry_name)
qed

lemma mu_find_same_name:
  fixes s :: mu
  assumes "drep s (p # of_nat n # a # xs)" and "n < 2 ^ 31" and "chain_at (segs s) (mem s) p ls"
    and "\<forall>i < min n 255. racc (segs s) (a + of_nat i) 1" and "0 \<notin> set (rd_bytes (mem s) a n)"
  shows "\<exists>s'. mu_find s = Ret s' \<and> dframe s s' \<and>
    drep s' ((case List.find (same_name (match s) (mem s) (rd_bytes (mem s) a n)) ls of
        Some l \<Rightarrow> [- 1, code_at l] | None \<Rightarrow> [0, of_nat n, a]) @ xs)"
proof (cases "0 < n \<and> n < 256")
  case True
  then have "rd_bytes (mem s) a n \<noteq> []" by (metis length_rd_bytes list.size(3) less_numeral_extra(3))
  from matches_same_name [OF assms(5) this] show ?thesis
    using mu_find_searches [OF assms(1) _ _ _ assms(3)] True assms(4) by (simp add: find_result_def)
next
  case False
  then have "\<not> same_name (match s) (mem s) (rd_bytes (mem s) a n) l" for l
    using same_name_length [of "match s" "mem s" "rd_bytes (mem s) a n" l] by auto
  then have none: "List.find (same_name (match s) (mem s) (rd_bytes (mem s) a n)) ls = None"
    by (simp add: find_None_iff)
  have "int_of_cell (of_nat n) = (of_nat n :: cint)" by (simp add: int_of_cell_of_nat)
  then have "sint (int_of_cell (of_nat n)) = int n" using assms(2) by (simp add: sint_of_nat_32)
  with mu_find_length [OF assms(1)] False none show ?thesis by auto
qed

section \<open>Chains away from the stacks\<close>

text \<open>The cells and the names of a chain are not in the stacks, so that pushes and pops keep it.\<close>

fun chain_data :: "'a vm_scheme \<Rightarrow> addr \<Rightarrow> addr list \<Rightarrow> bool" where
  "chain_data s p [] \<longleftrightarrow> data_at s p 8"
| "chain_data s p (l # ls) \<longleftrightarrow> data_at s p 8 \<and>
     data_at s (length_at l - of_nat (name_len (mem s) l)) (Suc (name_len (mem s) l)) \<and> chain_data s l ls"

lemma entry_dframe:
  assumes "dframe s s'" "data_at s (length_at l - of_nat (name_len (mem s) l)) (Suc (name_len (mem s) l))"
  shows "mem s' (length_at l) = mem s (length_at l)" "name_len (mem s') l = name_len (mem s) l"
    "entry_name (mem s') l = entry_name (mem s) l"
proof -
  let ?n = "name_len (mem s) l" and ?a = "length_at l - of_nat (name_len (mem s) l)"
  have same: "rd_bytes (mem s') ?a (Suc ?n) = rd_bytes (mem s) ?a (Suc ?n)"
    by (rule rd_bytes_dframe [OF assms])
  have at: "mem s' (?a + of_nat i) = mem s (?a + of_nat i)" if "i < Suc ?n" for i
    using arg_cong [OF same, of "\<lambda>bs. bs ! i"] that by (simp only: nth_rd_bytes)
  from at [of ?n] show len: "mem s' (length_at l) = mem s (length_at l)" by simp
  then show n: "name_len (mem s') l = ?n" by (simp add: name_len_def)
  show "entry_name (mem s') l = entry_name (mem s) l"
    unfolding entry_name_def n by (rule nth_equalityI) (simp_all add: at)
qed

lemma chain_dframe:
  assumes "dframe s s'"
  shows "chain_data s p ls \<Longrightarrow> chain_at (segs s) (mem s) p ls \<Longrightarrow> chain_at (segs s') (mem s') p ls"
    and "chain_data s p ls \<Longrightarrow> l \<in> set ls \<Longrightarrow> same_name f (mem s') tok l = same_name f (mem s) tok l"
proof -
  show "chain_data s p ls \<Longrightarrow> chain_at (segs s) (mem s) p ls \<Longrightarrow> chain_at (segs s') (mem s') p ls"
  proof (induction ls arbitrary: p)
    case Nil
    then show ?case using assms rd64_data_dframe [OF assms] by (simp add: dframe_def)
  next
    case (Cons l ls)
    then show ?case
      using assms rd64_data_dframe [OF assms] entry_dframe [OF assms] by (simp add: dframe_def entry_ok_def)
  qed
  show "chain_data s p ls \<Longrightarrow> l \<in> set ls \<Longrightarrow> same_name f (mem s') tok l = same_name f (mem s) tok l"
    by (induction ls arbitrary: p) (auto simp: same_name_def entry_dframe [OF assms])
qed

end
