(* ===== verification/DictCreate.thy ===== *)
theory DictCreate
  imports DictSearch
begin

text \<open>
  What a new dictionary entry looks like in memory, byte by byte, and that defining a word and
  showing it makes the search find it, and makes no other word disappear or appear.
\<close>

section \<open>The image of an entry\<close>

text \<open>The cells the name needs before its suffix cell, and the whole entry with its code
  field.\<close>

definition prefix_size :: "nat \<Rightarrow> nat" where "prefix_size k = 8 * (k div 8)"

definition entry_image :: "byte list \<Rightarrow> bool \<Rightarrow> addr \<Rightarrow> byte list" where
  "entry_image name hidden link =
     replicate (prefix_size (length name) + 7 - length name) 0 @ name @
     [if hidden then 0 else of_nat (length name)] @ le_bytes 8 link @ replicate 8 0"

lemma prefix_size_bounds: "k \<le> prefix_size k + 7" "prefix_size k \<le> k"
  unfolding prefix_size_def by presburger+

lemma length_entry_image [simp]: "length (entry_image name hidden link) = prefix_size (length name) + 24"
  using prefix_size_bounds(1) [of "length name"] by (simp add: entry_image_def)

lemma and_minus_8:
  assumes "k < 2 ^ 63"
  shows "(of_nat k :: cell) AND - 8 = of_nat (8 * (k div 8))"
proof -
  have "x AND NOT (mask 3) = push_bit 3 (drop_bit 3 x)" for x :: cell
    by (rule bit_word_eqI) (auto simp: bit_simps)
  moreover have "(- 8 :: cell) = NOT (mask 3)" by (simp add: minus_exp_eq_not_mask [symmetric])
  ultimately have "(of_nat k :: cell) AND - 8 = push_bit 3 (drop_bit 3 (of_nat k))" by metis
  also have "drop_bit 3 (of_nat k :: cell) = of_nat (k div 8)"
  proof (rule word_unat_eq_iff [THEN iffD2])
    have u: "unat (of_nat j :: cell) = j" if "j \<le> k" for j
      using that assms by (simp add: unat_of_nat)
    have "unat (drop_bit 3 (of_nat k :: cell)) = k div 8"
      using u [of k] by (simp add: drop_bit_eq_div unat_div)
    then show "unat (drop_bit 3 (of_nat k :: cell)) = unat (of_nat (k div 8) :: cell)"
      using u [of "k div 8"] by simp
  qed
  finally show ?thesis by (simp add: push_bit_eq_mult)
qed

lemma prefix_bytes_of_nat:
  assumes "k < 2 ^ 31"
  shows "prefix_bytes (of_nat k) = of_nat (prefix_size k)"
proof -
  have "cell_of_int (of_nat k) - SUFFIX_LEN + 8 - 1 = of_nat k"
    using assms by (simp add: cell_of_int_of_nat SUFFIX_LEN_def)
  then have "ALIGNED (cell_of_int (of_nat k) - SUFFIX_LEN) = of_nat (prefix_size k)"
    using assms and_minus_8 [of k] by (simp add: ALIGNED_def prefix_size_def)
  then show ?thesis by (simp add: prefix_bytes_def)
qed

lemma name_length_of_nat: "n < 2 ^ 31 \<Longrightarrow> name_length (of_nat n) = of_nat (min n 255)"
  using sint_of_nat_32 [of n] by (simp add: name_length_def word_sless_alt min_def)

lemma ucast_of_nat_byte: "(ucast (of_nat k :: cint) :: byte) = of_nat k"
  by transfer (simp add: take_bit_eq_mod mod_mod_cancel)

section \<open>Creating a name\<close>

lemma new_name_writes:
  fixes s :: mu
  assumes n: "n < 2 ^ 31" and k: "k = min n 255"
    and src: "racc (segs s) name k" "k = 0 \<or> disj (hp s) (prefix_size k + 24) name k"
    and dst: "wacc (segs s) (hp s) (prefix_size k + 24)"
  shows "new_name plink name (of_nat n) hidden s =
    Ret (hp s + of_nat (prefix_size k + 8),
      s\<lparr>mem := wr_bytes (mem s) (hp s) (entry_image (rd_bytes (mem s) name k) hidden plink),
        hp := hp s + of_nat (prefix_size k + 16)\<rparr>)"
proof -
  let ?p = "prefix_size k" and ?nm = "rd_bytes (mem s) name k"
  let ?b = "if hidden then 0 else of_nat k :: byte"
  have k255: "k \<le> 255" and k31: "k < 2 ^ 31" using k by auto
  have p: "k \<le> ?p + 7" "?p \<le> k" by (rule prefix_size_bounds)+
  have len: "name_length (of_nat n) = of_nat k" using name_length_of_nat [OF n] k by simp
  have pre: "cell_of_int (prefix_bytes (of_nat k)) = of_nat ?p"
    using k31 p(2) by (simp add: prefix_bytes_of_nat cell_of_int_of_nat)
  have ck: "cell_of_int (of_nat k) = of_nat k" using k31 by (rule cell_of_int_of_nat)
  have uk: "unat (of_nat k :: cell) = k" and up: "unat (of_nat ?p + 24 :: cell) = ?p + 24"
    using k255 p(2) unat_of_nat [of "?p + 24", where 'a = 64] by (simp_all add: unat_of_nat)
  let ?m1 = "wr_bytes (mem s) (hp s) (replicate (?p + 24) 0)"
  let ?m2 = "wr_bytes (mem s) (hp s) (replicate (?p + 7 - k) 0 @ ?nm @ replicate 17 0)"
  let ?m3 = "wr_bytes (mem s) (hp s) (replicate (?p + 7 - k) 0 @ ?nm @ [?b] @ replicate 16 0)"
  let ?m4 = "wr_bytes (mem s) (hp s) (entry_image ?nm hidden plink)"
  define A2 A3 A4 A5 where A: "A2 = hp s + of_nat (?p + 7 - k)" "A3 = hp s + of_nat (?p + 7)"
    "A4 = hp s + of_nat (?p + 8)" "A5 = hp s + of_nat (?p + 16)"
  have to_A: "hp s + of_nat ?p + SUFFIX_LEN - of_nat k = A2" "hp s + of_nat ?p + 7 = A3"
    "hp s + of_nat ?p + 8 = A4" "hp s + of_nat ?p + 16 = A5"
    using p(1) by (simp_all add: SUFFIX_LEN_def of_nat_diff A)
  have src1: "rd_bytes ?m1 name k = ?nm"
    using src(2) by (auto simp: rd_wr_bytes_disj)
  have m2: "wr_bytes ?m1 (hp s + of_nat (?p + 7 - k)) ?nm = ?m2"
  proof -
    have "drop (?p + 7 - k + k) (replicate (?p + 24) (0::byte)) = replicate 17 0" using p(1) by simp
    then show ?thesis using p k255 by (subst wr_bytes_inside) (auto simp: min_def)
  qed
  have m3: "wr_bytes ?m2 (hp s + of_nat (?p + 7)) [?b] = ?m3"
  proof -
    let ?l = "replicate (?p + 7 - k) 0 @ ?nm @ replicate 17 0"
    have "take (?p + 7) ?l = replicate (?p + 7 - k) 0 @ ?nm" "drop (?p + 7 + 1) ?l = replicate 16 0"
      using p(1) by simp_all
    then show ?thesis using p k255 by (subst wr_bytes_inside) simp_all
  qed
  have m4: "wr_bytes ?m3 (hp s + of_nat (?p + 8)) (le_bytes 8 plink) = ?m4"
  proof -
    let ?l = "replicate (?p + 7 - k) 0 @ ?nm @ [?b] @ replicate 16 0"
    have "take (?p + 8) ?l = replicate (?p + 7 - k) 0 @ ?nm @ [?b]" "drop (?p + 8 + 8) ?l = replicate 8 0"
      using p(1) by simp_all
    then show ?thesis using p k255 by (subst wr_bytes_inside) (simp_all add: entry_image_def)
  qed
  have cpy: "k = 0 \<or> disj (hp s + of_nat (?p + 7 - k)) k name k"
    using src(2) p disj_part [of "hp s" "?p + 24" name k "?p + 7 - k" k] by auto
  have acc: "wacc (segs s) (hp s + of_nat (?p + 7 - k)) k" "wacc (segs s) (hp s + of_nat (?p + 7)) 1"
    "wacc (segs s) (hp s + of_nat (?p + 8)) 8"
    using p by (intro wacc_part [OF dst]; linarith)+
  show ?thesis
    unfolding new_name_def len Let_def pre ck memset0_def memcpy_def store_byte_def store_def up uk
    using dst src(1) acc cpy src1 m2 m3 m4 unfolding A [symmetric] to_A
    by (auto simp: ucast_of_nat_byte wr64_def)
qed

section \<open>Reading the entry back\<close>

lemma entry_image_reads:
  fixes h :: addr and hidden plink m
  assumes nm: "length nm \<le> 255"
  defines "m' \<equiv> wr_bytes m h (entry_image nm hidden plink)" and "l \<equiv> h + of_nat (prefix_size (length nm) + 8)"
  shows "name_len m' l = (if hidden then 0 else length nm)"
    and "\<not> hidden \<Longrightarrow> entry_name m' l = nm" and "rd64 m' l = plink"
proof -
  let ?k = "length nm" and ?im = "entry_image nm hidden plink"
  let ?p = "prefix_size (length nm)"
  let ?b = "if hidden then 0 else of_nat ?k :: byte"
  have p: "?k \<le> ?p + 7" "?p \<le> ?k" by (rule prefix_size_bounds)+
  have im: "length ?im = ?p + 24" "length ?im < 2 ^ 64" using p nm by simp_all
  have pad: "length (replicate (?p + 7 - ?k) (0::byte)) = ?p + 7 - ?k" by simp
  have at: "length_at l = h + of_nat (?p + 7)" by (simp add: length_at_def l_def)
  have "rd_bytes m' (h + of_nat (?p + 7)) 1 = take 1 (drop (?p + 7) ?im)"
    unfolding m'_def by (rule rd_bytes_inside) (use im in simp_all)
  also have "\<dots> = [?b]" using p by (simp add: entry_image_def)
  finally have "m' (length_at l) = ?b" unfolding at by (simp add: rd_bytes_def)
  then show len: "name_len m' l = (if hidden then 0 else ?k)"
    using nm by (simp add: name_len_def unat_of_nat)
  show "entry_name m' l = nm" if "\<not> hidden"
  proof -
    have "length_at l - of_nat ?k = h + of_nat (?p + 7 - ?k)"
      unfolding at using p by (simp add: of_nat_diff)
    moreover have "rd_bytes m' (h + of_nat (?p + 7 - ?k)) ?k = take ?k (drop (?p + 7 - ?k) ?im)"
      unfolding m'_def by (rule rd_bytes_inside) (use im p in simp_all)
    moreover have "take ?k (drop (?p + 7 - ?k) ?im) = nm" by (simp add: entry_image_def)
    ultimately show ?thesis using len that by (simp add: entry_name_def)
  qed
  have "rd_bytes m' l 8 = take 8 (drop (?p + 8) ?im)"
    unfolding m'_def l_def by (rule rd_bytes_inside) (use im in simp_all)
  also have "\<dots> = le_bytes 8 plink" using p by (simp add: entry_image_def)
  finally show "rd64 m' l = plink"
    using rd64_wr64_same [of m l plink] rd_wr_bytes_same [of "le_bytes 8 plink" m l]
    by (simp add: rd64_def wr64_def)
qed

section \<open>Chains keep their entries\<close>

text \<open>\<open>clear a n p ls\<close>: the \<open>n\<close> bytes at \<open>a\<close> overlap neither the cell at \<open>p\<close> nor an entry of
  \<open>ls\<close>, from the earliest byte its name can start at to its link.\<close>

definition clear :: "addr \<Rightarrow> nat \<Rightarrow> addr \<Rightarrow> addr list \<Rightarrow> bool" where
  "clear a n p ls \<longleftrightarrow> disj a n p 8 \<and> (\<forall>l \<in> set ls. disj a n (l - 256) 264)"

lemma disj_link: "disj a n (l - 256) 264 \<Longrightarrow> 0 < n \<Longrightarrow> disj a n l 8"
  using disj_sub [of a n "l - 256" 264 256 8] by simp

lemma clear_entry:
  assumes "disj a (length bs) (l - 256) 264"
  shows "rd64 (wr_bytes m a bs) l = rd64 m l" and "name_len (wr_bytes m a bs) l = name_len m l"
    and "entry_name (wr_bytes m a bs) l = entry_name m l"
proof -
  have byte: "wr_bytes m a bs (l - of_nat i) = m (l - of_nat i)" if "0 < i" "i \<le> 256" for i
    using wr_bytes_outside [OF assms, of "256 - i" m] that by (simp add: of_nat_diff algebra_simps)
  show "rd64 (wr_bytes m a bs) l = rd64 m l"
    using disj_link [OF assms] by (cases "bs = []") (simp_all add: rd64_wr_bytes)
  show len: "name_len (wr_bytes m a bs) l = name_len m l"
    using byte [of 1] by (simp add: name_len_def length_at_def)
  let ?n = "name_len m l"
  have n: "?n < 256" unfolding name_len_def by (rule unat_less_8)
  show "entry_name (wr_bytes m a bs) l = entry_name m l"
    unfolding entry_name_def len
  proof (rule nth_equalityI)
    fix i assume "i < length (rd_bytes (wr_bytes m a bs) (length_at l - of_nat ?n) ?n)"
    then have i: "i < ?n" by simp
    have at: "length_at l - of_nat ?n + of_nat i = l - of_nat (?n + 1 - i)"
      using i by (simp add: length_at_def of_nat_diff)
    show "rd_bytes (wr_bytes m a bs) (length_at l - of_nat ?n) ?n ! i =
        rd_bytes m (length_at l - of_nat ?n) ?n ! i"
      using byte [of "?n + 1 - i"] i n by (simp only: nth_rd_bytes at)
  qed simp
qed

lemma chain_at_clear:
  assumes "bs \<noteq> []"
  shows "chain_at gs m p ls \<Longrightarrow> clear a (length bs) p ls \<Longrightarrow> chain_at gs (wr_bytes m a bs) p ls"
proof (induction ls arbitrary: p)
  case Nil
  then show ?case by (simp add: clear_def rd64_wr_bytes)
next
  case (Cons l ls)
  then have d: "disj a (length bs) (l - 256) 264" by (simp add: clear_def)
  then have "clear a (length bs) l ls"
    using Cons.prems(2) disj_link [OF d] assms by (simp add: clear_def)
  with Cons clear_entry [OF d, of m] show ?case
    by (auto simp: clear_def rd64_wr_bytes entry_ok_def)
qed

lemma matches_clear: "disj a (length bs) (l - 256) 264 \<Longrightarrow> matches f (wr_bytes m a bs) tok l = matches f m tok l"
  by (simp add: matches_def clear_entry)

section \<open>Defining a word, and showing it\<close>

definition new_link :: "mu \<Rightarrow> nat \<Rightarrow> addr" where
  "new_link s k = hp s + of_nat (prefix_size k + 8)"

text \<open>Where the new entry goes, and what the definition relies on: the region of the heap is
  writable data that overlaps neither the token nor the chain.\<close>

definition can_define :: "mu \<Rightarrow> addr \<Rightarrow> nat \<Rightarrow> addr \<Rightarrow> addr list \<Rightarrow> bool" where
  "can_define s a k p ls \<longleftrightarrow>
     data_at s (hp s) (prefix_size k + 24) \<and> data_at s p 8 \<and> data_at s a k \<and>
     disj (hp s) (prefix_size k + 24) a k \<and> clear (hp s) (prefix_size k + 24) p ls \<and>
     disj p 8 (new_link s k - 256) 264 \<and> (\<forall>l \<in> set ls. disj p 8 (l - 256) 264) \<and>
     disj p 8 a k \<and> new_link s k \<noteq> 0"

definition name_written :: "mu \<Rightarrow> addr \<Rightarrow> nat \<Rightarrow> addr \<Rightarrow> mu" where
  "name_written s a k link =
     s\<lparr>mem := wr_bytes (mem s) (hp s) (entry_image (rd_bytes (mem s) a k) False link),
       hp := hp s + of_nat (prefix_size k + 16)\<rparr>"

lemma unlinked_name_writes:
  fixes s :: mu
  assumes rep: "drep s (p # of_nat n # a # xs)" and n: "n < 2 ^ 31" "k = min n 255" and def: "can_define s a k p ls"
    and chain: "chain_at (segs s) (mem s) p ls"
  shows "mu_unlinked_name' s =
    Ret (DROP 3 ((name_written s a k (rd64 (mem s) p))\<lparr>last_name := new_link s k, last_chain := p\<rparr>))"
proof -
  have get: "ST 0 s = p" "ST (Suc 0) s = of_nat n" "ST 2 s = a" "stk 3 s"
    using rep by (auto simp: ds.get_rep ds.cells_rep)
  have ld: "load p s = Ret (rd64 (mem s) p)"
    using chain_at_link [OF chain] by (simp add: load_def)
  have "new_name link a (of_nat n) False s = Ret (new_link s k, name_written s a k link)" for link
    unfolding name_written_def new_link_def
    by (rule new_name_writes [OF n]) (use def in \<open>auto simp: can_define_def data_at_racc data_at_wacc\<close>)
  with get ld show ?thesis by (simp add: mu_unlinked_name'_def)
qed

lemma name_written_frame [simp]:
  "segs (name_written s a k link) = segs s" "dstack (name_written s a k link) = dstack s"
  "rstack (name_written s a k link) = rstack s" "SP (name_written s a k link) = SP s"
  "match (name_written s a k link) = match s"
  by (simp_all add: name_written_def)

lemma entry_image_not_Nil: "entry_image nm hidden link \<noteq> []"
  by (simp add: entry_image_def)

lemma define_drep: "can_define s a k p ls \<Longrightarrow> drep s xs \<Longrightarrow> drep (name_written s a k link) xs"
  using drep_write [of s xs "hp s" "entry_image (rd_bytes (mem s) a k) False link"]
  by (simp add: can_define_def name_written_def drep_def)

text \<open>Before \<open>show\<close> the chain still has the entries it had.\<close>

lemma define_keeps_chain:
  assumes "can_define s a k p ls" "chain_at (segs s) (mem s) p ls"
  shows "chain_at (segs s) (mem (name_written s a k link)) p ls"
  unfolding name_written_def
  using assms by (simp, intro chain_at_clear entry_image_not_Nil) (simp_all add: can_define_def)

lemma define_keeps_matches:
  assumes "can_define s a k p ls" "x \<in> set ls"
  shows "matches f (mem (name_written s a k link)) tok x = matches f (mem s) tok x"
  using matches_clear [of "hp s" "entry_image (rd_bytes (mem s) a k) False link" x f "mem s"] assms
  by (simp add: can_define_def name_written_def clear_def)

lemma define_entry:
  assumes "k \<le> 255"
  shows "name_len (mem (name_written s a k link)) (new_link s k) = k"
    and "entry_name (mem (name_written s a k link)) (new_link s k) = rd_bytes (mem s) a k"
    and "rd64 (mem (name_written s a k link)) (new_link s k) = link"
  using entry_image_reads [where nm = "rd_bytes (mem s) a k" and m = "mem s" and h = "hp s" and hidden = False and plink = link] assms
  by (simp_all add: name_written_def new_link_def)

lemma le_bytes_8_not_Nil: "le_bytes 8 v \<noteq> []"
  by (simp add: numeral_eq_Suc)

text \<open>\<open>show\<close> writes the head of the chain, which is no part of an entry.\<close>

definition shown :: "mu \<Rightarrow> addr \<Rightarrow> nat \<Rightarrow> addr \<Rightarrow> memory" where
  "shown s a k p = wr64 (mem (name_written s a k (rd64 (mem s) p))) p (new_link s k)"

lemma shown_keeps:
  assumes "can_define s a k p ls"
  shows "x \<in> set ls \<Longrightarrow> matches f (shown s a k p) tok x = matches f (mem s) tok x"
    and "k \<le> 255 \<Longrightarrow> entry_name (shown s a k p) (new_link s k) = rd_bytes (mem s) a k"
  using assms matches_clear [of p "le_bytes 8 (new_link s k)"] define_keeps_matches [OF assms]
    clear_entry(3) [of p "le_bytes 8 (new_link s k)"] define_entry(2)
  by (auto simp: shown_def wr64_def can_define_def)

lemma chain_shown:
  assumes def: "can_define s a k p ls" and k: "k \<le> 255" and chain: "chain_at (segs s) (mem s) p ls"
  shows "chain_at (segs s) (shown s a k p) p (new_link s k # ls)"
proof -
  let ?l = "new_link s k" and ?m = "mem (name_written s a k (rd64 (mem s) p))"
  let ?w = "le_bytes 8 ?l"
  have d: "disj p (length ?w) (?l - 256) 264" and pos: "(0::nat) < length ?w"
    using def by (simp_all add: can_define_def)
  have keep: "chain_at (segs s) ?m p ls"
    using define_keeps_chain [OF def chain] .
  have racc: "racc (segs s) (hp s + of_nat i) j" if "i + j \<le> prefix_size k + 24" for i j
    using wacc_racc [OF wacc_part [OF _ that, of "segs s" "hp s"]] def data_at_wacc
    by (auto simp: can_define_def)
  have link: "rd64 ?m ?l = rd64 ?m p"
    using define_entry(3) [OF k, of s a "rd64 (mem s) p"] chain_at_link [OF keep] chain_at_link [OF chain] by simp
  have "chain_at (segs s) ?m ?l ls"
    using keep link racc [of "prefix_size k + 8" 8] by (cases ls) (auto simp: new_link_def)
  moreover have "clear p (length ?w) ?l ls"
    using def disj_link [OF d pos] by (simp add: can_define_def clear_def)
  ultimately have rest: "chain_at (segs s) (shown s a k p) ?l ls"
    unfolding shown_def wr64_def by (rule chain_at_clear [OF le_bytes_8_not_Nil])
  have p: "k \<le> prefix_size k + 7" by (rule prefix_size_bounds)
  have at: "length_at ?l = hp s + of_nat (prefix_size k + 7)"
    by (simp add: length_at_def new_link_def)
  have len: "name_len (shown s a k p) ?l = k"
    using clear_entry(2) [OF d] define_entry(1) [OF k] by (simp add: shown_def wr64_def)
  have nm: "length_at ?l - of_nat k + of_nat i = hp s + of_nat (prefix_size k + 7 - k + i)" for i
    unfolding at using p by (simp add: of_nat_diff)
  have "entry_ok (segs s) (shown s a k p) ?l"
    unfolding entry_ok_def len nm unfolding at
    by (intro conjI allI impI racc) (use p in linarith)+
  moreover have "racc (segs s) p 8" using chain_at_link [OF chain] by blast
  ultimately show ?thesis
    using rest def by (simp add: shown_def rd64_wr64_same can_define_def)
qed

lemma show_links:
  assumes "can_define s a k p ls"
  shows "mu_show (DROP 3 ((name_written s a k (rd64 (mem s) p))\<lparr>last_name := new_link s k, last_chain := p\<rparr>)) =
    Ret ((DROP 3 ((name_written s a k (rd64 (mem s) p))\<lparr>last_name := new_link s k, last_chain := p\<rparr>))
      \<lparr>mem := shown s a k p\<rparr>)"
  using assms by (simp add: mu_show_def store_def shown_def can_define_def data_at_wacc)

lemma shown_drep:
  assumes "can_define s a k p ls" "drep s (x # y # z # xs)"
  shows "drep (DROP 3 ((name_written s a k link)\<lparr>last_name := l, last_chain := q\<rparr>)) xs"
    and "drep ((DROP 3 ((name_written s a k (rd64 (mem s) p))\<lparr>last_name := l, last_chain := q\<rparr>))
      \<lparr>mem := shown s a k p\<rparr>) xs"
proof -
  let ?w = "name_written s a k"
  have w: "drep (?w link) (x # y # z # xs)" for link
    using define_drep [OF assms] .
  have upd: "drep (t\<lparr>last_name := l, last_chain := q\<rparr>) us \<longleftrightarrow> drep t us" for t :: mu and us
    by (simp add: drep_def)
  show "drep (DROP 3 ((?w link)\<lparr>last_name := l, last_chain := q\<rparr>)) xs"
    using w upd by (intro ds.pop_3) blast
  have at: "data_at (?w link) p 8" for link
    using assms(1) data_at_cong [of "?w link" s] by (simp add: can_define_def)
  have "drep ((?w (rd64 (mem s) p))\<lparr>mem := shown s a k p\<rparr>) (x # y # z # xs)"
    unfolding shown_def using drep_write64 [OF w at] .
  then have "drep (((?w (rd64 (mem s) p))\<lparr>last_name := l, last_chain := q\<rparr>)\<lparr>mem := shown s a k p\<rparr>) (x # y # z # xs)"
    by (simp add: drep_def)
  then show "drep ((DROP 3 ((?w (rd64 (mem s) p))\<lparr>last_name := l, last_chain := q\<rparr>))\<lparr>mem := shown s a k p\<rparr>) xs"
    by (drule_tac ds.pop_3) (simp add: DROP_def drep_def)
qed

lemma find_shown:
  assumes def: "can_define s a k p ls" and k: "k \<le> 255"
  shows "List.find (matches f (shown s a k p) tok) (new_link s k # ls) =
    (if k = length tok \<and> bytes_match f (rd_bytes (mem s) a k) tok then Some (new_link s k)
     else List.find (matches f (mem s) tok) ls)"
proof -
  have "List.find (matches f (shown s a k p) tok) ls = List.find (matches f (mem s) tok) ls"
    using shown_keeps(1) [OF def] by (intro find_cong) auto
  moreover have "matches f (shown s a k p) tok (new_link s k) \<longleftrightarrow>
      k = length tok \<and> bytes_match f (rd_bytes (mem s) a k) tok"
    using shown_keeps(2) [OF def k] by (metis length_entry_name length_rd_bytes matches_def)
  ultimately show ?thesis by (simp del: length_rd_bytes) metis
qed

end
