(* ===== verification/DictClaims.thy ===== *)
theory DictClaims
  imports DictCreate Example
begin

text \<open>The properties of the dictionary, each with an application to a concrete process.\<close>

text \<open>C7: Defining a word and showing it makes the search find it. \<open>(unlinked-name)\<close> takes the
  token and the chain from the stack and writes an entry at the heap pointer; until \<open>show\<close> the
  chain keeps exactly the entries it had; after \<open>show\<close> the new entry heads the chain, a search
  for a token that matches its name (cut at 255 bytes) finds it, at the address the heap pointer
  had after the name, and every other search has the result it had before.\<close>

theorem define_show_find:
  fixes s :: mu
  assumes "drep s (p # of_nat n # a # xs)" and "n < 2 ^ 31" and "can_define s a (min n 255) p ls"
    and "chain_at (segs s) (mem s) p ls"
  shows "\<exists>s1 s2. mu_unlinked_name' s = Ret s1 \<and> drep s1 xs \<and> chain_at (segs s1) (mem s1) p ls \<and>
    mu_show s1 = Ret s2 \<and> drep s2 xs \<and> chain_at (segs s2) (mem s2) p (new_link s (min n 255) # ls) \<and>
    hp s2 = code_at (new_link s (min n 255)) \<and>
    (\<forall>f tok. List.find (matches f (mem s2) tok) (new_link s (min n 255) # ls) =
       (if min n 255 = length tok \<and> bytes_match f (rd_bytes (mem s) a (min n 255)) tok
        then Some (new_link s (min n 255)) else List.find (matches f (mem s) tok) ls))"
proof -
  let ?k = "min n 255"
  let ?w = "(name_written s a ?k (rd64 (mem s) p))\<lparr>last_name := new_link s ?k, last_chain := p\<rparr>"
  have "hp (DROP 3 ?w) = code_at (new_link s ?k)"
    by (simp add: name_written_def code_at_def new_link_def)
  then show ?thesis
    using unlinked_name_writes [OF assms(1,2) refl assms(3,4)] show_links [OF assms(3)]
      shown_drep [OF assms(3,1)] define_keeps_chain [OF assms(3,4)] chain_shown [OF assms(3) _ assms(4)]
      find_shown [OF assms(3)]
    by (intro exI [of _ "DROP 3 ?w"] exI [of _ "(DROP 3 ?w)\<lparr>mem := shown s a ?k p\<rparr>"]) simp
qed

definition dict_mem :: memory where
  "dict_mem = wr_bytes (\<lambda>_. 0) 0x500000 (bytes_of ''dup'')"

lemma example_can_define:
  "length xs \<le> 4064 \<Longrightarrow> can_define (stacked xs (example m)) 0x500000 3 0x400000 []"
  by (simp add: can_define_def stacked_data_at prefix_size_def new_link_def clear_def disj_def)

lemma example_chain:
  "length xs \<le> 4064 \<Longrightarrow>
    chain_at (segs (stacked xs (example dict_mem))) (mem (stacked xs (example dict_mem))) 0x400000 []"
  by (simp add: stacked_rd64 dict_mem_def rd64_wr_bytes rd64_zeroes disj_def bytes_of_def)

theorem define_show_find_witness:
  "\<exists>s1 s2. mu_unlinked_name' (stacked [0x400000, 3, 0x500000] (example dict_mem)) = Ret s1 \<and>
    mu_show s1 = Ret s2 \<and> chain_at (segs s2) (mem s2) 0x400000 [0x100008]"
  using define_show_find [of "stacked [0x400000, 3, 0x500000] (example dict_mem)" "0x400000" 3 "0x500000" "[]" "[]"]
    example_stacked(1) [of "[0x400000, 3, 0x500000]" dict_mem] example_can_define [of "[0x400000, 3, 0x500000]" dict_mem]
    example_chain [of "[0x400000, 3, 0x500000]"]
  by (force simp: new_link_def prefix_size_def)

text \<open>C8: \<open>find\<close> returns the first entry of the chain whose name is that of the token, letter case
  counting or not as \<open>match\<close> says, whatever chains the links run through. It leaves true and the
  address of the entry's code, or, when there is none, false and the token. Entries hidden by a
  length of 0 are never found, nor is anything by a token of no bytes or of more than 255.\<close>

theorem find_first:
  fixes s :: mu
  assumes "drep s (p # of_nat n # a # xs)" and "n < 2 ^ 31" and "chain_at (segs s) (mem s) p ls"
    and "\<forall>i < min n 255. racc (segs s) (a + of_nat i) 1" and "0 \<notin> set (rd_bytes (mem s) a n)"
  shows "\<exists>s'. mu_find s = Ret s' \<and> dframe s s' \<and>
    drep s' ((case List.find (same_name (match s) (mem s) (rd_bytes (mem s) a n)) ls of
        Some l \<Rightarrow> [- 1, code_at l] | None \<Rightarrow> [0, of_nat n, a]) @ xs)"
  by (rule mu_find_same_name [OF assms])

text \<open>A chain with one entry, \<open>dup\<close>, and the token \<open>dup\<close>.\<close>

definition dup_mem :: memory where
  "dup_mem = wr_bytes (wr_bytes dict_mem 0x100004 [100, 117, 112, 3]) 0x400000 [8, 0, 16]"

lemma dup_cells: "rd64 dup_mem 0x400000 = 0x100008" "rd64 dup_mem 0x100008 = 0"
  "dup_mem 0x100007 = 3" "rd_bytes dup_mem 0x100004 3 = [100, 117, 112]"
  "rd_bytes dup_mem 0x500000 3 = [100, 117, 112]"
  by (simp_all add: dup_mem_def dict_mem_def rd64_def rd_bytes_def wr_bytes_def bytes_of_def byte_of_char_def upt_rec)

lemma dup_chain:
  assumes "length xs \<le> 4064"
  shows "chain_at (segs (stacked xs (example dup_mem))) (mem (stacked xs (example dup_mem))) 0x400000 [0x100008]"
    and "entry_name (mem (stacked xs (example dup_mem))) 0x100008 = [100, 117, 112]"
    and "rd_bytes (mem (stacked xs (example dup_mem))) 0x500000 3 = [100, 117, 112]"
proof -
  let ?m = "mem (stacked xs (example dup_mem))"
  have "rd_bytes ?m 0x100007 1 = rd_bytes dup_mem 0x100007 1" by (rule stacked_rd_bytes [OF assms]) simp_all
  then have "?m 0x100007 = 3" by (simp add: rd_bytes_def dup_cells)
  then have n: "name_len ?m 0x100008 = 3" by (simp add: name_len_def length_at_def)
  then show "entry_name ?m 0x100008 = [100, 117, 112]"
    by (simp add: entry_name_def length_at_def stacked_rd_bytes [OF assms] dup_cells)
  have small: "unat (0x100004 + of_nat i :: addr) = 0x100004 + i" if "i < 3" for i
    using that by (subst unat_add_small) simp_all
  show "chain_at (segs (stacked xs (example dup_mem))) ?m 0x400000 [0x100008]"
    using n small by (simp add: entry_ok_def length_at_def stacked_rd64 [OF assms] dup_cells word_le_nat_alt)
  show "rd_bytes ?m 0x500000 3 = [100, 117, 112]"
    by (simp add: stacked_rd_bytes [OF assms] dup_cells)
qed

theorem find_first_witness:
  "\<exists>s'. mu_find (stacked [0x400000, 3, 0x500000] (example dup_mem)) = Ret s' \<and> drep s' [- 1, 0x100010]"
proof -
  let ?s = "stacked [0x400000, 3, 0x500000] (example dup_mem)"
  have rep: "drep ?s [0x400000, of_nat 3, 0x500000]" using example_stacked(1) [of "[0x400000, 3, 0x500000]"] by simp
  have "\<forall>i < min 3 255. racc (segs ?s) (0x500000 + of_nat i) 1" by (auto simp: less_Suc_eq numeral_3_eq_3)
  with find_first [OF rep _ dup_chain(1)] dup_chain(2,3) [of "[0x400000, 3, 0x500000]"] show ?thesis
    by (force simp: same_name_def code_at_def)
qed

end
