(* ===== verification/Syscalls.thy ===== *)
theory Syscalls
  imports Dict
begin

text \<open>
  What the files that call the operating system share: narrower loads and stores, C strings
  passed by reference, and the loop around a call that a signal may interrupt. The constants of
  the system headers are those of Linux on a 64-bit host.
\<close>

section \<open>Narrow loads and stores\<close>

definition load_bytes :: "addr \<Rightarrow> nat \<Rightarrow> 'a vm_scheme \<Rightarrow> byte list outcome" where
  "load_bytes a n s = (if racc (segs s) a n then Ret (rd_bytes (mem s) a n) else Undef)"

definition store_bytes :: "addr \<Rightarrow> byte list \<Rightarrow> 'a vm_scheme \<Rightarrow> 'a vm_scheme outcome" where
  "store_bytes a bs s = (if wacc (segs s) a (length bs) then Ret (s\<lparr>mem := wr_bytes (mem s) a bs\<rparr>) else Undef)"

definition load_byte :: "addr \<Rightarrow> 'a vm_scheme \<Rightarrow> byte outcome" where
  "load_byte a s = (if racc (segs s) a 1 then Ret (mem s a) else Undef)"

definition load16 :: "addr \<Rightarrow> 'a vm_scheme \<Rightarrow> 16 word outcome" where
  "load16 a s = bindo (load_bytes a 2 s) (\<lambda>bs. Ret (le_word bs))"

definition load32 :: "addr \<Rightarrow> 'a vm_scheme \<Rightarrow> cint outcome" where
  "load32 a s = bindo (load_bytes a 4 s) (\<lambda>bs. Ret (le_word bs))"

definition store32 :: "addr \<Rightarrow> cint \<Rightarrow> 'a vm_scheme \<Rightarrow> 'a vm_scheme outcome" where
  "store32 a v = store_bytes a (le_bytes 4 v)"

lemma data_at_part:
  assumes "data_at s a n" "i + j \<le> n"
  shows "data_at s (a + of_nat i) j"
proof -
  obtain g where g: "g \<in> set (segs s)" "seg_wr g" "data_seg s g" "in_seg g a n"
    using assms(1) by (auto simp: data_at_def list_ex_iff)
  have "unat (a + of_nat i - seg_base g) \<le> unat (a - seg_base g) + i"
    using unat_plus_le [of "a - seg_base g" i] by (simp add: algebra_simps)
  with g assms(2) have "in_seg g (a + of_nat i) j" by (simp add: in_seg_def)
  with g show ?thesis by (auto simp: data_at_def list_ex_iff)
qed

lemma load_byte_Ret: "load_byte a s = Ret b \<longleftrightarrow> racc (segs s) a 1 \<and> b = mem s a"
  by (auto simp: load_byte_def)

text \<open>A cell passed as an \<open>int\<close>, as a call sees it.\<close>

definition as_int :: "cell \<Rightarrow> cell" where
  "as_int v = cell_of_int (int_of_cell v)"

text \<open>A C string passed to a call.\<close>

definition cstring_arg :: "addr \<Rightarrow> (byte list \<Rightarrow> mu \<Rightarrow> 'b outcome) \<Rightarrow> mu \<Rightarrow> 'b outcome" where
  "cstring_arg a f s = (case cstr (segs s) (mem s) a of None \<Rightarrow> Undef | Some bs \<Rightarrow> f bs s)"

lemma mono_cstring_arg [mono_intros]:
  "(\<And>p s. F p s \<le> G p s) \<Longrightarrow> cstring_arg a F s \<le> cstring_arg a G s"
  by (auto simp: cstring_arg_def split: option.splits)

lemma mono_split [mono_intros]:
  "(\<And>x y. f x y \<le> g x y) \<Longrightarrow> (case p of (x, y) \<Rightarrow> f x y) \<le> (case p of (x, y) \<Rightarrow> (g x y :: 'b outcome))"
  by (cases p) simp

section \<open>Interrupted calls\<close>

definition EAGAIN :: cint where "EAGAIN = 11"
definition ENOENT :: cint where "ENOENT = 2"
definition ETIMEDOUT :: cint where "ETIMEDOUT = 110"

lemma syscall_shorter: "syscall c s = Ret (r, s') \<Longrightarrow> length (script s') < length (script s)"
  by (auto simp: syscall_def split: list.splits)

text \<open>\<open>while ((r = call()) == -1) { if (errno is one of again) continue; ... leave }\<close>: the
  value with which the loop is left, -1 or not. Every turn takes an answer, so the loop ends, or
  waits.\<close>

function retry :: "(mu \<Rightarrow> os_call) \<Rightarrow> cint list \<Rightarrow> mu \<Rightarrow> (cell \<times> mu) outcome" where
  "retry c again s = bindo (syscall (c s) s) (\<lambda>(r, s).
     if r = - 1 \<and> errno s \<in> set again then retry c again s else Ret (r, s))"
  by auto
termination
  by (relation "measure (\<lambda>(c, again, s). length (script s))") (auto dest: syscall_shorter)

declare retry.simps [simp del]

text \<open>An answer that changes no memory.\<close>

definition quiet :: "answer \<Rightarrow> bool" where
  "quiet a \<longleftrightarrow> out a = [] \<and> maps a = []"

definition interrupted :: "cint list \<Rightarrow> answer \<Rightarrow> bool" where
  "interrupted again a \<longleftrightarrow> quiet a \<and> ret a = - 1 \<and> err a \<in> set again"

lemma put_bytes_Nil [simp]: "put_bytes [] m = m"
  by (simp add: put_bytes_def)

lemma syscall_quiet:
  "script s = a # as \<Longrightarrow> quiet a \<Longrightarrow>
    syscall c s = Ret (ret a, s\<lparr>script := as, oslog := oslog s @ [c], errno := if ret a = - 1 then err a else errno s\<rparr>)"
  by (simp add: syscall_def quiet_def)

text \<open>After any number of interruptions, the loop returns the first other answer, having made
  the same call every time.\<close>

lemma retry_interrupted:
  assumes "script s = as @ b # rest" "list_all (interrupted again) as"
    and "ret b = - 1 \<Longrightarrow> err b \<notin> set again"
    and "\<And>t. mem t = mem s \<Longrightarrow> segs t = segs s \<Longrightarrow> c t = call"
  shows "retry c again s = Ret (ret b, s\<lparr>script := rest, oslog := oslog s @ replicate (Suc (length as)) call,
    segs := maps b @ segs s, mem := put_bytes (out b) (mem s),
    errno := if ret b = - 1 then err b else errno (s\<lparr>errno := if as = [] then errno s else err (last as)\<rparr>)\<rparr>)"
  using assms
proof (induction as arbitrary: s)
  case Nil
  have "c s = call" using Nil by simp
  then show ?case
    using Nil.prems(1,3) by (subst retry.simps) (auto simp: syscall_def)
next
  case (Cons a as)
  have a: "quiet a" "ret a = - 1" "err a \<in> set again" using Cons.prems(2) by (auto simp: interrupted_def)
  have c: "c s = call" using Cons.prems(4) by simp
  let ?t = "s\<lparr>script := as @ b # rest, oslog := oslog s @ [call], errno := err a\<rparr>"
  have step: "retry c again s = retry c again ?t"
    using Cons.prems(1) a c by (subst retry.simps) (simp add: syscall_quiet)
  show ?case
    unfolding step using Cons.prems by (subst Cons.IH [of ?t]) (simp_all add: replicate_append_same)
qed

end
