(* ===== verification/File.thy ===== *)
theory File
  imports Syscalls
begin

text \<open>
  \<open>file.c\<close>: paths, opening and closing files, mapping a file into memory, and reading and writing
  with retries. \<open>MU_DIR\<close> is a string constant that the build generates; local buffers are at
  addresses the compiler chooses (\<open>local_at\<close>). \<open>ex\<close> is \<open>mu_execute\<close>, for the error paths.
\<close>

section \<open>Constants of the system\<close>

definition PATH_MAX :: cell where "PATH_MAX = 4096"

definition O_RDONLY :: cell where "O_RDONLY = 0"
definition O_WRONLY :: cell where "O_WRONLY = 1"
definition O_RDWR :: cell where "O_RDWR = 2"
definition O_CREAT :: cell where "O_CREAT = 0x40"
definition O_TRUNC :: cell where "O_TRUNC = 0x200"
definition O_NONBLOCK :: cell where "O_NONBLOCK = 0x800"
definition FILE_MODE :: cell where "FILE_MODE = 438"   \<comment> \<open>octal 666\<close>
definition PROT_READ :: cell where "PROT_READ = 1"
definition MAP_PRIVATE :: cell where "MAP_PRIVATE = 2"
definition MAP_FAILED :: cell where "MAP_FAILED = - 1"

section \<open>Paths\<close>

definition string_copy :: "addr \<Rightarrow> addr \<Rightarrow> mu \<Rightarrow> (addr \<times> mu) outcome" where
  "string_copy dest src s = (case cstrlen (segs s) (mem s) src of
     None \<Rightarrow> Undef
   | Some n \<Rightarrow> bindo (memcpy dest src (of_nat n) s) (\<lambda>s.
       let dest = dest + of_nat n in bindo (store_byte dest 0 s) (\<lambda>s. Ret (dest, s))))"

definition concat_paths :: "addr \<Rightarrow> cell \<Rightarrow> addr \<Rightarrow> addr \<Rightarrow> mu \<Rightarrow> (addr \<times> mu) outcome" where
  "concat_paths dest destsize p1 p2 s =
     (case (cstrlen (segs s) (mem s) p1, cstrlen (segs s) (mem s) p2) of
        (Some n1, Some n2) \<Rightarrow>
          if destsize < of_nat n1 + of_nat n2 + 2 then Ret (0, s)
          else bindo (string_copy dest p1 s) (\<lambda>(d, s).
               bindo (string_copy d (lit s ''/'') s) (\<lambda>(d, s).
               bindo (string_copy d p2 s) (\<lambda>(_, s). Ret (dest, s))))
      | _ \<Rightarrow> Undef)"

definition abs_path :: "addr \<Rightarrow> cell \<Rightarrow> addr \<Rightarrow> mu \<Rightarrow> (addr \<times> mu) outcome" where
  "abs_path dest destsize path s =
     bindo (load_byte path s) (\<lambda>c0.
     if c0 = byte_of_char CHR ''/'' then Ret (path, s)
     else bindo (if c0 = byte_of_char CHR ''.'' then load_byte (path + 1) s else Ret 0) (\<lambda>c1.
       if c0 = byte_of_char CHR ''.'' \<and> c1 = byte_of_char CHR ''/''
       then let pwd = local_at s ''pwd'' in
         bindo (syscall (Call ''getcwd'' [pwd, PATH_MAX] []) s) (\<lambda>(r, s).
         if r = 0 then Ret (0, s) else concat_paths dest destsize pwd (path + 2) s)
       else concat_paths dest destsize (lit s ''MU_DIR'') path s))"

section \<open>Opening, closing, mapping\<close>

definition mu_stat_file :: "exec \<Rightarrow> exec" where
  "mu_stat_file ex s =
     (if \<not> stk 1 s then Undef
      else bindo (abs_path (local_at s ''pathbuf'') PATH_MAX (ST 0 s) s) (\<lambda>(path, s).
        if path = 0 then abort_zmsg ex (lit s ''path too long'') s
        else if \<not> room 1 s then Undef
        else let s = DROP (- 1) s in
          cstring_arg path (\<lambda>p s.
            bindo (syscall (Call ''stat'' [path, local_at s ''s''] p) s) (\<lambda>(r, s).
            if r = - 1 then Ret (set_ST 0 0 (set_ST 1 (strerror_at s (errno s)) s))
            else bindo (load32 (local_at s ''s.st_mode'') s) (\<lambda>mode.
              Ret (set_ST 0 (- 1) (set_ST 1 (ucast mode) s))))) s))"

definition mu_create_file :: "exec \<Rightarrow> exec" where
  "mu_create_file ex s =
     (if \<not> stk 1 s then Undef
      else bindo (abs_path (local_at s ''pathbuf'') PATH_MAX (ST 0 s) s) (\<lambda>(path, s).
        if path = 0 then abort_zmsg ex (lit s ''path too long'') s
        else cstring_arg path (\<lambda>p s.
          bindo (syscall (Call ''open'' [path, O_CREAT OR O_TRUNC OR O_WRONLY, FILE_MODE] p) s) (\<lambda>(fd, s).
          if fd = - 1 then abort_strerror ex s else Ret (set_ST 0 fd s))) s))"

definition error_zmsg :: "addr \<Rightarrow> exec" where
  "error_zmsg err_string s = (if stk 2 s then Ret (set_ST 0 0 (set_ST 1 err_string s)) else Undef)"

definition mu_open_file_q :: exec where
  "mu_open_file_q s =
     (if \<not> stk 2 s then Undef
      else bindo (abs_path (local_at s ''pathbuf'') PATH_MAX (ST 1 s) s) (\<lambda>(path, s).
        if path = 0 then error_zmsg (lit s ''path too long'') s
        else cstring_arg path (\<lambda>p s.
          bindo (syscall (Call ''open'' [path, as_int (ST 0 s)] p) s) (\<lambda>(fd, s).
          if fd = - 1 then error_zmsg (strerror_at s (errno s)) s
          else Ret (set_ST 0 (- 1) (set_ST 1 fd s)))) s))"

definition mu_r_slash_o :: exec where "mu_r_slash_o s = push O_RDONLY s"
definition mu_w_slash_o :: exec where "mu_w_slash_o s = push O_WRONLY s"
definition mu_r_slash_w :: exec where "mu_r_slash_w s = push O_RDWR s"
definition mu_nonblock :: exec where "mu_nonblock s = push O_NONBLOCK s"

definition mu_close_file :: "exec \<Rightarrow> exec" where
  "mu_close_file ex s =
     (if \<not> stk 1 s then Undef
      else bindo (retry (\<lambda>s. Call ''close'' [as_int (ST 0 s)] []) [EINTR] s) (\<lambda>(r, s).
        if r = - 1 then abort_strerror ex s else Ret (DROP 1 s)))"

text \<open>How \<open>mu_read_file\<close> gives up, and how it pushes the string.\<close>

definition read_file_fail :: "exec \<Rightarrow> cell \<Rightarrow> exec" where
  "read_file_fail ex fd s = bindo (syscall (Call ''close'' [fd] []) s) (\<lambda>(_, s). abort_strerror ex s)"

definition read_file_push :: "addr \<Rightarrow> exec" where
  "read_file_push p s =
     (if \<not> room 1 s then Undef
      else let s = set_ST 1 p (DROP (- 1) s) in
        bindo (load (local_at s ''s.st_size'') s) (\<lambda>st_size. Ret (set_ST 0 st_size s)))"

definition mu_read_file :: "exec \<Rightarrow> exec" where
  "mu_read_file ex s =
     (if \<not> stk 1 s then Undef
      else let fd = as_int (ST 0 s) in
        bindo (syscall (Call ''fstat'' [fd, local_at s ''s''] []) s) (\<lambda>(r, s).
        if r = - 1 then read_file_fail ex fd s
        else bindo (load (local_at s ''s.st_size'') s) (\<lambda>st_size.
          if st_size \<noteq> 0
          then bindo (syscall (Call ''mmap'' [0, st_size, PROT_READ, MAP_PRIVATE, fd, 0] []) s) (\<lambda>(p, s).
               if p = MAP_FAILED then read_file_fail ex fd s else read_file_push p s)
          else read_file_push 0 s)))"

section \<open>Reading and writing\<close>

definition read_carefully :: "exec \<Rightarrow> cell \<Rightarrow> addr \<Rightarrow> cell \<Rightarrow> mu \<Rightarrow> (cell \<times> mu) outcome" where
  "read_carefully ex fd buffer n s =
     bindo (retry (\<lambda>_. Call ''read'' [fd, buffer, n] []) [EINTR, EAGAIN] s) (\<lambda>(count, s).
     if count = - 1 then bindo (abort_strerror ex s) (\<lambda>s. Ret (0, s)) else Ret (count, s))"

function write_carefully :: "exec \<Rightarrow> cell \<Rightarrow> addr \<Rightarrow> cell \<Rightarrow> exec" where
  "write_carefully ex fd buffer n s =
     (if n = 0 then Ret s
      else bindo (load_bytes buffer (unat n) s) (\<lambda>bs.
        bindo (syscall (Call ''write'' [fd, buffer, n] bs) s) (\<lambda>(written, s).
        if written = - 1
        then if errno s = EINTR \<or> errno s = EAGAIN then write_carefully ex fd buffer n s
             else abort_strerror ex s
        else write_carefully ex fd (buffer + written) (n - written) s)))"
  by auto
termination
  by (relation "measure (\<lambda>(ex, fd, buffer, n, s). length (script s))") (auto dest: syscall_shorter)

declare write_carefully.simps [simp del]

definition mu_read :: "exec \<Rightarrow> exec" where
  "mu_read ex s =
     (if \<not> stk 3 s then Undef
      else let fd = as_int (ST 2 s); buffer = ST 1 s; n = ST 0 s in
        bindo (read_carefully ex fd buffer n (DROP 2 s)) (\<lambda>(count, s).
        if stk 1 s then Ret (set_ST 0 count s) else Undef))"

definition mu_write :: "exec \<Rightarrow> exec" where
  "mu_write ex s =
     (if \<not> stk 3 s then Undef
      else let fd = as_int (ST 2 s); buffer = ST 1 s; n = ST 0 s in
        write_carefully ex fd buffer n (DROP 3 s))"

section \<open>Monotone in the interpreter\<close>

lemma mono_stat_file [mono_intros]: "less_defined f g \<Longrightarrow> mu_stat_file f s \<le> mu_stat_file g s"
  unfolding mu_stat_file_def Let_def by (intro mono_intros)

lemma mono_create_file [mono_intros]: "less_defined f g \<Longrightarrow> mu_create_file f s \<le> mu_create_file g s"
  unfolding mu_create_file_def by (intro mono_intros)

lemma mono_close_file [mono_intros]: "less_defined f g \<Longrightarrow> mu_close_file f s \<le> mu_close_file g s"
  unfolding mu_close_file_def by (intro mono_intros)

lemma mono_read_file_fail [mono_intros]:
  "less_defined f g \<Longrightarrow> read_file_fail f fd s \<le> read_file_fail g fd s"
  unfolding read_file_fail_def by (intro mono_intros)

lemma mono_read_file [mono_intros]: "less_defined f g \<Longrightarrow> mu_read_file f s \<le> mu_read_file g s"
  unfolding mu_read_file_def Let_def by (intro mono_intros)

lemma mono_read_carefully [mono_intros]:
  "less_defined f g \<Longrightarrow> read_carefully f fd b n s \<le> read_carefully g fd b n s"
  unfolding read_carefully_def
  by (intro bindo_mono order_refl mono_split mono_if mono_abort_strerror)

lemma mono_write_carefully [mono_intros]:
  "less_defined f g \<Longrightarrow> write_carefully f fd b n s \<le> write_carefully g fd b n s"
proof (induction g fd b n s rule: write_carefully.induct)
  case (1 g fd b n s)
  show ?case
  proof (cases "n = 0")
    case False
    show ?thesis
    proof (cases "script s")
      case Nil
      then show ?thesis by (simp add: write_carefully.simps [of _ _ _ n] syscall_def load_bytes_def)
    next
      case (Cons a as)
      then show ?thesis
        using False "1.prems" "1.IH" [OF False _ _ refl] mono_abort_strerror [OF "1.prems"]
        by (simp add: write_carefully.simps [of _ _ _ n s] syscall_def load_bytes_def)
    qed
  qed (simp add: write_carefully.simps)
qed

lemma mono_read [mono_intros]: "less_defined f g \<Longrightarrow> mu_read f s \<le> mu_read g s"
  unfolding mu_read_def Let_def by (intro mono_intros)

lemma mono_write [mono_intros]: "less_defined f g \<Longrightarrow> mu_write f s \<le> mu_write g s"
  unfolding mu_write_def Let_def by (intro mono_intros)

end
