(* ===== verification/FileSpec.thy ===== *)
theory FileSpec
  imports File
begin

text \<open>
  What \<open>file.c\<close> does with C strings and with a stream of answers of the system: the strings are
  byte lists in memory, ended by a null byte, and a write is what the answers accept of it.
\<close>

section \<open>Strings in memory\<close>

definition cstring_at :: "'a vm_scheme \<Rightarrow> addr \<Rightarrow> byte list \<Rightarrow> bool" where
  "cstring_at s a bs \<longleftrightarrow>
     racc (segs s) a (Suc (length bs)) \<and> rd_bytes (mem s) a (Suc (length bs)) = bs @ [0] \<and> 0 \<notin> set bs"

lemma cstring_at_byte: "cstring_at s a bs \<Longrightarrow> i \<le> length bs \<Longrightarrow> mem s (a + of_nat i) = (bs @ [0]) ! i"
  unfolding cstring_at_def using nth_rd_bytes [of i "Suc (length bs)" "mem s" a] by simp

lemma cstrlen_cstring: "cstring_at s a bs \<Longrightarrow> cstrlen (segs s) (mem s) a = Some (length bs)"
proof -
  assume c: "cstring_at s a bs"
  have "mem s (a + of_nat i) \<noteq> 0" if "i < length bs" for i
    using cstring_at_byte [OF c, of i] that c by (auto simp: nth_append cstring_at_def in_set_conv_nth)
  then show ?thesis
    using c cstring_at_byte [OF c, of "length bs"] by (simp add: cstrlen_Some cstring_at_def nth_append)
qed

lemma rd_cstring:
  assumes "cstring_at s a bs"
  shows "rd_bytes (mem s) a (length bs) = bs"
  by (rule nth_equalityI) (simp_all add: cstring_at_byte [OF assms] nth_append)

lemma cstr_cstring: "cstring_at s a bs \<Longrightarrow> cstr (segs s) (mem s) a = Some bs"
  by (simp add: cstr_def cstrlen_cstring rd_cstring)

lemma cstring_at_write:
  "cstring_at s a bs \<Longrightarrow> disj b (length cs) a (Suc (length bs)) \<Longrightarrow>
    cstring_at (s\<lparr>mem := wr_bytes (mem s) b cs\<rparr>) a bs"
  by (simp add: cstring_at_def rd_wr_bytes_disj)

lemma wr_bytes_append:
  assumes "length bs + length cs < 2 ^ 64"
  shows "wr_bytes (wr_bytes m a bs) (a + of_nat (length bs)) cs = wr_bytes m a (bs @ cs)"
proof
  fix b
  let ?d = "unat (b - a)" and ?n = "length bs"
  have n: "unat (of_nat ?n :: addr) = ?n" using assms by (simp add: unat_of_nat)
  show "wr_bytes (wr_bytes m a bs) (a + of_nat ?n) cs b = wr_bytes m a (bs @ cs) b"
  proof (cases "?n \<le> ?d")
    case True
    have "unat (b - (a + of_nat ?n)) = ?d - ?n"
      using unat_diff_no_wrap [of "of_nat ?n" "b - a"] True n by (simp add: diff_diff_add)
    with True show ?thesis by (auto simp: wr_bytes_def nth_append)
  next
    case False
    have ne: "b - a \<noteq> of_nat ?n" using False n by auto
    have "unat (b - a - of_nat ?n) + unat (of_nat ?n - (b - a)) = 2 ^ 64"
      using unat_minus_swap [of "of_nat ?n" "b - a"] ne by simp
    moreover have "unat (of_nat ?n - (b - a)) = ?n - ?d"
      using unat_diff_no_wrap [of "b - a" "of_nat ?n"] False n by simp
    ultimately have "length cs \<le> unat (b - (a + of_nat ?n))"
      using False assms by (simp add: diff_diff_add)
    with False show ?thesis by (auto simp: wr_bytes_def nth_append)
  qed
qed

section \<open>Copying strings\<close>

lemma string_copy_copies:
  assumes src: "cstring_at s src bs" and dest: "wacc (segs s) dest (Suc (length bs))"
    and d: "disj dest (Suc (length bs)) src (Suc (length bs))" and len: "length bs < 2 ^ 63"
  shows "string_copy dest src s = Ret (dest + of_nat (length bs), s\<lparr>mem := wr_bytes (mem s) dest (bs @ [0])\<rparr>)"
proof -
  have n: "unat (of_nat (length bs) :: cell) = length bs" using len by (simp add: unat_of_nat)
  have "racc (segs s) src (length bs)" using src racc_mono [of "segs s" src "Suc (length bs)"] by (simp add: cstring_at_def)
  moreover have "wacc (segs s) dest (length bs)" using dest by (rule wacc_mono) simp
  moreover have "wacc (segs s) (dest + of_nat (length bs)) 1" using dest by (rule wacc_part) simp
  moreover have "disj dest (length bs) src (length bs)" using d by (rule disj_mono) simp_all
  ultimately show ?thesis
    using len by (simp add: string_copy_def cstrlen_cstring [OF src] memcpy_def n rd_cstring [OF src]
      store_byte_def wr_bytes_append)
qed

text \<open>Copying over the null byte of the last copy appends.\<close>

lemma string_copy_appends:
  assumes src: "cstring_at s src bs" and dest: "wacc (segs s) dest (length as + length bs + 1)"
    and d: "disj dest (length as + length bs + 1) src (Suc (length bs))" and len: "length as + length bs < 2 ^ 63"
  shows "string_copy (dest + of_nat (length as)) src (s\<lparr>mem := wr_bytes (mem s) dest (as @ [0])\<rparr>) =
    Ret (dest + of_nat (length as) + of_nat (length bs), s\<lparr>mem := wr_bytes (mem s) dest (as @ bs @ [0])\<rparr>)"
proof -
  let ?s = "s\<lparr>mem := wr_bytes (mem s) dest (as @ [0])\<rparr>" and ?d = "dest + of_nat (length as)"
  have "disj dest (length (as @ [0])) src (Suc (length bs))" using d by (rule disj_mono) simp_all
  with src have "cstring_at ?s src bs" by (rule cstring_at_write)
  moreover have "wacc (segs ?s) ?d (Suc (length bs))" using dest wacc_part [of "segs s" dest _ "length as"] by simp
  moreover have "disj ?d (Suc (length bs)) src (Suc (length bs))" using d by (rule disj_part) simp_all
  ultimately have copy: "string_copy ?d src ?s = Ret (?d + of_nat (length bs), ?s\<lparr>mem := wr_bytes (mem ?s) ?d (bs @ [0])\<rparr>)"
    using len by (intro string_copy_copies) simp_all
  have "wr_bytes (wr_bytes (mem s) dest (as @ [0])) ?d (bs @ [0]) = wr_bytes (mem s) dest (as @ bs @ [0])"
  proof -
    have "wr_bytes (wr_bytes (mem s) dest (as @ [0])) ?d (bs @ [0]) =
        wr_bytes (wr_bytes (wr_bytes (mem s) dest as) ?d [0]) ?d (bs @ [0])"
      using len by (simp add: wr_bytes_append)
    also have "\<dots> = wr_bytes (wr_bytes (mem s) dest as) ?d (bs @ [0])"
      by (auto simp: wr_bytes_def)
    also have "\<dots> = wr_bytes (mem s) dest (as @ bs @ [0])" using len by (simp add: wr_bytes_append)
    finally show ?thesis .
  qed
  with copy show ?thesis by simp
qed

section \<open>Joining paths\<close>

definition joined :: "byte list \<Rightarrow> byte list \<Rightarrow> byte list" where
  "joined as bs = as @ 47 # bs"

definition can_join :: "mu \<Rightarrow> addr \<Rightarrow> addr \<Rightarrow> byte list \<Rightarrow> addr \<Rightarrow> byte list \<Rightarrow> bool" where
  "can_join s dest p1 as p2 bs \<longleftrightarrow>
     cstring_at s p1 as \<and> cstring_at s p2 bs \<and> cstring_at s (lit s ''/'') [47] \<and> length as + length bs < 2 ^ 62 \<and>
     (let n = length as + length bs + 2 in
        wacc (segs s) dest n \<and> disj dest n p1 (Suc (length as)) \<and> disj dest n p2 (Suc (length bs)) \<and>
        disj dest n (lit s ''/'') 2)"

lemma unat_of_nat_64: "k < 2 ^ 64 \<Longrightarrow> unat (of_nat k :: cell) = k"
  by (simp add: unat_of_nat)

lemma unat_path_size: "a + b < 2 ^ 62 \<Longrightarrow> unat (of_nat a + of_nat b + 2 :: cell) = a + b + 2"
proof -
  assume ab: "a + b < 2 ^ 62"
  have "(of_nat a + of_nat b + 2 :: cell) = of_nat (a + b + 2)" by simp
  moreover have "a + b + 2 < 2 ^ 64" using ab by simp
  ultimately show ?thesis by (simp only: unat_of_nat_64)
qed

lemma concat_paths_short:
  assumes "cstring_at s p1 as" "cstring_at s p2 bs" "length as + length bs < 2 ^ 62"
    "unat destsize < length as + length bs + 2"
  shows "concat_paths dest destsize p1 p2 s = Ret (0, s)"
proof -
  show ?thesis
    using assms(4) unat_path_size [OF assms(3)] by (simp add: concat_paths_def cstrlen_cstring [OF assms(1)] cstrlen_cstring [OF assms(2)] word_less_nat_alt)
qed

lemma concat_paths_fits:
  assumes j: "can_join s dest p1 as p2 bs" and fit: "length as + length bs + 2 \<le> unat destsize"
  shows "concat_paths dest destsize p1 p2 s = Ret (dest, s\<lparr>mem := wr_bytes (mem s) dest (joined as bs @ [0])\<rparr>)"
proof -
  let ?n = "length as + length bs + 2"
  have c: "cstring_at s p1 as" "cstring_at s p2 bs" "cstring_at s (lit s ''/'') [47]" "length as + length bs < 2 ^ 62"
    and w: "wacc (segs s) dest ?n" and d: "disj dest ?n p1 (Suc (length as))" "disj dest ?n p2 (Suc (length bs))"
    "disj dest ?n (lit s ''/'') 2"
    using j by (simp_all add: can_join_def Let_def)
  have size: "\<not> destsize < of_nat (length as) + of_nat (length bs) + 2"
    using fit unat_path_size [OF c(4)] by (simp add: word_less_nat_alt)
  have w1: "wacc (segs s) dest (Suc (length as))" using w by (rule wacc_mono) simp
  have d1: "disj dest (Suc (length as)) p1 (Suc (length as))" using d(1) by (rule disj_mono) simp_all
  have 1: "string_copy dest p1 s = Ret (dest + of_nat (length as), s\<lparr>mem := wr_bytes (mem s) dest (as @ [0])\<rparr>)"
    by (rule string_copy_copies [OF c(1) w1 d1]) (use c(4) in simp)
  have w2: "wacc (segs s) dest (length as + length [47 :: byte] + 1)" using w by (rule wacc_mono) simp
  have d2: "disj dest (length as + length [47 :: byte] + 1) (lit s ''/'') (Suc (length [47 :: byte]))"
    using d(3) by (rule disj_mono) simp_all
  have 2: "string_copy (dest + of_nat (length as)) (lit s ''/'') (s\<lparr>mem := wr_bytes (mem s) dest (as @ [0])\<rparr>) =
      Ret (dest + of_nat (length as) + 1, s\<lparr>mem := wr_bytes (mem s) dest ((as @ [47]) @ [0])\<rparr>)"
    using string_copy_appends [OF c(3) w2 d2] c(4) by simp
  have w3: "wacc (segs s) dest (length (as @ [47]) + length bs + 1)" using w by (rule wacc_mono) simp
  have d3: "disj dest (length (as @ [47]) + length bs + 1) p2 (Suc (length bs))" using d(2) by (rule disj_mono) simp_all
  have 3: "string_copy (dest + of_nat (length as) + 1) p2 (s\<lparr>mem := wr_bytes (mem s) dest ((as @ [47]) @ [0])\<rparr>) =
      Ret (dest + of_nat (length as) + 1 + of_nat (length bs), s\<lparr>mem := wr_bytes (mem s) dest ((as @ [47]) @ bs @ [0])\<rparr>)"
    using string_copy_appends [OF c(2) w3 d3] c(4) by (simp add: ac_simps)
  from 1 2 3 size show ?thesis
    by (simp add: concat_paths_def cstrlen_cstring [OF c(1)] cstrlen_cstring [OF c(2)] joined_def)
qed

section \<open>Writing everything\<close>

text \<open>The answers to the calls of \<open>write\<close> for \<open>n\<close> bytes, if they accept them all; the rest of the
  script.\<close>

fun accepts_all :: "answer list \<Rightarrow> nat \<Rightarrow> answer list option" where
  "accepts_all as 0 = Some as"
| "accepts_all [] (Suc n) = None"
| "accepts_all (a # as) (Suc n) =
     (if interrupted [EINTR, EAGAIN] a then accepts_all as (Suc n)
      else if quiet a \<and> ret a \<noteq> - 1 \<and> unat (ret a) \<le> Suc n then accepts_all as (Suc n - unat (ret a))
      else None)"

text \<open>What reached the file: of the data of each call as much as the answer says.\<close>

fun delivered :: "os_call list \<Rightarrow> answer list \<Rightarrow> byte list" where
  "delivered (Call f args bs # cs) (a # as) = (if ret a = - 1 then [] else take (unat (ret a)) bs) @ delivered cs as"
| "delivered _ _ = []"

lemma rd_bytes_split: "k \<le> n \<Longrightarrow> rd_bytes m a n = rd_bytes m a k @ rd_bytes m (a + of_nat k) (n - k)"
  by (rule nth_equalityI) (auto simp: nth_append add.assoc simp flip: of_nat_add)

lemma write_carefully_sends:
  assumes "accepts_all (script s) (unat n) = Some rest" "racc (segs s) buffer (unat n)"
  shows "\<exists>cs e used. write_carefully ex fd buffer n s = Ret (s\<lparr>script := rest, oslog := oslog s @ cs, errno := e\<rparr>) \<and>
    script s = used @ rest \<and> length cs = length used \<and> delivered cs used = rd_bytes (mem s) buffer (unat n)"
  using assms
proof (induction ex fd buffer n s rule: write_carefully.induct)
  case (1 ex fd buffer n s)
  show ?case
  proof (cases "n = 0")
    case True
    with "1.prems"(1) show ?thesis by (intro exI [of _ "[]"] exI [of _ "errno s"]) (simp add: write_carefully.simps)
  next
    case False
    then obtain k where k: "unat n = Suc k" by (metis not0_implies_Suc unat_eq_zero)
    then obtain a as where sc: "script s = a # as" using "1.prems"(1) by (cases "script s") auto
    let ?bs = "rd_bytes (mem s) buffer (unat n)" let ?c = "Call ''write'' [fd, buffer, n] ?bs"
    let ?s = "s\<lparr>script := as, oslog := oslog s @ [?c], errno := if ret a = - 1 then err a else errno s\<rparr>"
    have q: "quiet a" using "1.prems"(1) k sc by (auto simp: interrupted_def split: if_splits)
    have call: "syscall ?c s = Ret (ret a, ?s)" by (rule syscall_quiet [OF sc q])
    have load: "load_bytes buffer (unat n) s = Ret ?bs" using "1.prems"(2) by (simp add: load_bytes_def)
    note IH = "1.IH" [OF False load call refl]
    show ?thesis
    proof (cases "interrupted [EINTR, EAGAIN] a")
      case True
      then have r: "ret a = - 1" "err a = EINTR \<or> err a = EAGAIN" by (auto simp: interrupted_def)
      have "accepts_all as (unat n) = Some rest" using "1.prems"(1) k sc True by simp
      then obtain cs e used where IH': "write_carefully ex fd buffer n ?s =
          Ret (?s\<lparr>script := rest, oslog := oslog ?s @ cs, errno := e\<rparr>)" "as = used @ rest" "length cs = length used"
        "delivered cs used = rd_bytes (mem s) buffer (unat n)"
        using IH(1) [OF r(1)] r "1.prems"(2) by auto
      then show ?thesis
        using False load call r by (intro exI [of _ "?c # cs"] exI [of _ e] exI [of _ "a # used"])
          (simp add: write_carefully.simps [of ex fd buffer n s] sc)
    next
      case ok: False
      then have r: "ret a \<noteq> - 1" "unat (ret a) \<le> unat n" "accepts_all as (unat n - unat (ret a)) = Some rest"
        using "1.prems"(1) k sc by (auto split: if_splits)
      have m: "unat (n - ret a) = unat n - unat (ret a)" by (rule unat_diff_no_wrap [OF r(2)])
      have "racc (segs s) (buffer + ret a) (unat (n - ret a))"
        using racc_part [OF "1.prems"(2), of "unat (ret a)" "unat (n - ret a)"] r(2) m by simp
      then obtain cs e used where IH': "write_carefully ex fd (buffer + ret a) (n - ret a) ?s =
          Ret (?s\<lparr>script := rest, oslog := oslog ?s @ cs, errno := e\<rparr>)" "as = used @ rest" "length cs = length used"
        "delivered cs used = rd_bytes (mem s) (buffer + ret a) (unat (n - ret a))"
        using IH(2) [OF r(1)] r(3) m by auto
      have "delivered (?c # cs) (a # used) = ?bs"
        using r IH'(4) m rd_bytes_split [OF r(2), of "mem s" buffer] by simp
      then show ?thesis
        using False load call r IH' by (intro exI [of _ "?c # cs"] exI [of _ e] exI [of _ "a # used"])
          (simp add: write_carefully.simps [of ex fd buffer n s] sc)
    qed
  qed
qed

end
