(* ===== verification/Interpret.thy ===== *)
theory Interpret
  imports Dict
begin

text \<open>
  \<open>interpret.c\<close>: the input source, the tokeniser, and the consumers of a token: the
  interpreter, which executes it, and the compiler, which executes or compiles it. The line
  counter is a cell of memory, since Forth reads and writes it. \<open>char\<close> is signed.
\<close>

section \<open>The input source\<close>

definition mu_source_fetch :: exec where
  "mu_source_fetch s = bindo (push (endp s) s) (\<lambda>s. push (first s) s)"

definition mu_source_store :: exec where
  "mu_source_store s =
     (if stk 2 s then Ret (DROP 2 (s\<lparr>first := ST 0 s, endp := ST 1 s\<rparr>)) else Undef)"

definition mu_push_line :: exec where "mu_push_line s = push (lineno_at s) s"

definition mu_at_line :: exec where "mu_at_line s = push (cell_of_int (parsed_lineno s)) s"

definition push_string :: "cstring \<Rightarrow> exec" where
  "push_string z s = bindo (push (data z) s) (push (len z))"

definition mu_push_parsed :: exec where "mu_push_parsed s = push_string (parsed s) s"

definition mu_empty_parsed :: exec where
  "mu_empty_parsed s = Ret (s\<lparr>parsed := (parsed s)\<lparr>len := 0\<rparr>\<rparr>)"

definition mu_push_skipped :: exec where "mu_push_skipped s = push_string (skipped s) s"

definition mu_push_trailing :: exec where "mu_push_trailing s = push_string (trailing s) s"

section \<open>Tokens\<close>

definition is_space :: "byte \<Rightarrow> bool" where
  "is_space c \<longleftrightarrow> c = 32 \<or> 9 \<le> c \<and> c \<le> 13"

text \<open>\<open>lineno++\<close> when the character is a newline.\<close>

definition count_line :: "byte \<Rightarrow> exec" where
  "count_line c s =
     (if c = 10 then bindo (load (lineno_at s) s) (\<lambda>n. store (lineno_at s) (n + 1) s) else Ret s)"

definition capture_token :: "addr \<Rightarrow> cell \<Rightarrow> exec" where
  "capture_token p ate_trailing s =
     Ret (s\<lparr>parsed := \<lparr>data = first s, len = p - first s\<rparr>,
            trailing := \<lparr>data = p, len = ate_trailing\<rparr>,
            first := p + ate_trailing\<rparr>)"

lemma count_line_frame:
  "count_line c s = Ret s' \<Longrightarrow> first s' = first s \<and> endp s' = endp s"
  by (auto simp: count_line_def load_def store_def split: if_splits)

lemma pointer_progress: "p < (q :: addr) \<Longrightarrow> unat (q - (p + 1)) < unat (q - p)"
proof -
  assume "p < q"
  then have pq: "unat p < unat q" by (simp add: word_less_nat_alt)
  then have "unat (p + 1) = unat p + 1"
    using unat_add_small [of p 1] unat_less_64 [of q] by simp
  with pq show ?thesis by (simp add: unat_diff_no_wrap)
qed

function skip_loop :: exec where
  "skip_loop s =
     (if first s < endp s then
        if racc (segs s) (first s) 1 then
          if is_space (mem s (first s))
          then bindo (count_line (mem s (first s)) s) (\<lambda>s. skip_loop (s\<lparr>first := first s + 1\<rparr>))
          else Ret s
        else Undef
      else Ret s)"
  by pat_completeness auto

termination
  by (relation "measure (\<lambda>s. unat (endp s - first s))")
    (auto dest!: count_line_frame intro: pointer_progress)

definition skip :: exec where
  "skip s = bindo (skip_loop (s\<lparr>skipped := (skipped s)\<lparr>data := first s\<rparr>\<rparr>))
     (\<lambda>s. Ret (s\<lparr>skipped := (skipped s)\<lparr>len := first s - data (skipped s)\<rparr>\<rparr>))"

definition is_delim :: "cint \<Rightarrow> byte \<Rightarrow> bool" where
  "is_delim delim c \<longleftrightarrow> delim = scast c \<or> delim = 32 \<and> is_space c"

function scan_loop :: "cint \<Rightarrow> addr \<Rightarrow> exec" where
  "scan_loop delim p s =
     (if p < endp s then
        if racc (segs s) p 1 then
          (let c = mem s p in
           bindo (count_line c s) (\<lambda>s.
             if is_delim delim c then capture_token p 1 s else scan_loop delim (p + 1) s))
        else Undef
      else capture_token p 0 s)"
  by pat_completeness auto

termination
  by (relation "measure (\<lambda>(delim, p, s). unat (endp s - p))")
    (auto dest!: count_line_frame intro: pointer_progress)

declare skip_loop.simps [simp del] scan_loop.simps [simp del]

definition scan :: "cint \<Rightarrow> exec" where
  "scan delim s = bindo (load (lineno_at s) s) (\<lambda>n.
     scan_loop delim (first s) (s\<lparr>parsed_lineno := int_of_cell n\<rparr>))"

definition mu_token :: exec where
  "mu_token s = bindo (skip s) (\<lambda>s. bindo (scan 32 s) mu_push_parsed)"

definition mu_parse :: exec where
  "mu_parse s = (if stk 1 s then bindo (scan (int_of_cell (ST 0 s)) (DROP 1 s)) mu_push_parsed else Undef)"

section \<open>Consuming a token\<close>

definition mu_complain :: "exec \<Rightarrow> exec" where
  "mu_complain ex s = abort_zmsg ex (lit s ''isn't defined'') (DROP 2 s)"

definition mu_huh_q :: "exec \<Rightarrow> exec" where
  "mu_huh_q ex s =
     (if stk 1 s then if ST 0 s \<noteq> 0 then Ret (DROP 1 s) else mu_complain ex (DROP 1 s) else Undef)"

text \<open>\<open>if (POP) ...\<close>\<close>

definition if_popped :: "exec \<Rightarrow> exec \<Rightarrow> exec" where
  "if_popped yes no s =
     (if stk 1 s then if ST 0 s \<noteq> 0 then yes (DROP 1 s) else no (DROP 1 s) else Undef)"

definition muboot_interpret_token :: "exec \<Rightarrow> exec" where
  "muboot_interpret_token ex s =
     bindo (muboot_push_forth_chain s) (\<lambda>s. bindo (mu_find s) (if_popped ex (mu_complain ex)))"

definition muboot_compile_token :: "exec \<Rightarrow> exec" where
  "muboot_compile_token ex s =
     bindo (muboot_push_compiler_chain s) (\<lambda>s. bindo (mu_find s) (if_popped ex
       (\<lambda>s. bindo (muboot_push_runtime_chain s) (\<lambda>s. bindo (mu_find s)
         (if_popped mu_compile_comma (mu_complain ex))))))"

definition mu_compiler_lbracket :: exec where
  "mu_compiler_lbracket s = Ret (s\<lparr>state := Interpret_Token\<rparr>)"

definition mu_rbracket :: exec where
  "mu_rbracket s = Ret (s\<lparr>state := Compile_Token\<rparr>)"

text \<open>\<open>(*state)()\<close>\<close>

fun consume :: "exec \<Rightarrow> consumer \<Rightarrow> exec" where
  "consume ex Interpret_Token = muboot_interpret_token ex"
| "consume ex Compile_Token = muboot_compile_token ex"

text \<open>The loop over the tokens of the source. The source may be endless, so there is fuel.\<close>

fun interpret_loop :: "exec \<Rightarrow> nat \<Rightarrow> exec" where
  "interpret_loop ex 0 s = Timeout"
| "interpret_loop ex (Suc n) s =
     bindo (mu_token s) (\<lambda>s.
       if \<not> stk 1 s then Undef
       else if ST 0 s = 0 then Ret s
       else bindo (consume ex (state s) s) (interpret_loop ex n))"

definition muboot_interpret :: "exec \<Rightarrow> nat \<Rightarrow> exec" where
  "muboot_interpret ex n s = bindo (interpret_loop ex n s) (\<lambda>s. Ret (DROP 2 s))"

lemma mono_complain [mono_intros]: "less_defined f g \<Longrightarrow> mu_complain f s \<le> mu_complain g s"
  unfolding mu_complain_def by (intro mono_intros)

lemma mono_huh_q [mono_intros]: "less_defined f g \<Longrightarrow> mu_huh_q f s \<le> mu_huh_q g s"
  unfolding mu_huh_q_def by (intro mono_intros)

end
