(* ===== verification/Tokens.thy ===== *)
theory Tokens
  imports Interpret
begin

text \<open>
  The tokeniser as a function on the text: what is skipped, the token, the delimiter that is
  eaten, and what is left; and that \<open>mu_token\<close> and \<open>mu_parse\<close> compute it, count the lines, and
  leave the addresses of the three parts.
\<close>

section \<open>Splitting a text\<close>

definition newlines :: "byte list \<Rightarrow> nat" where
  "newlines bs = length (filter (\<lambda>c. c = 10) bs)"

definition word_of :: "cint \<Rightarrow> byte list \<Rightarrow> byte list" where
  "word_of delim bs = takeWhile (\<lambda>c. \<not> is_delim delim c) bs"

definition eaten :: "cint \<Rightarrow> byte list \<Rightarrow> byte list" where
  "eaten delim bs = take 1 (dropWhile (\<lambda>c. \<not> is_delim delim c) bs)"

definition rest_of :: "cint \<Rightarrow> byte list \<Rightarrow> byte list" where
  "rest_of delim bs = drop 1 (dropWhile (\<lambda>c. \<not> is_delim delim c) bs)"

lemma split_text: "word_of delim bs @ eaten delim bs @ rest_of delim bs = bs"
  by (simp add: word_of_def eaten_def rest_of_def)

lemma newlines_append [simp]: "newlines (as @ bs) = newlines as + newlines bs"
  by (simp add: newlines_def)

lemma newlines_Cons [simp]: "newlines (c # bs) = (if c = 10 then Suc (newlines bs) else newlines bs)"
  by (simp add: newlines_def)

lemma newlines_Nil [simp]: "newlines [] = 0"
  by (simp add: newlines_def)

lemma word_of_simps [simp]:
  "word_of d [] = []" "eaten d [] = []"
  "word_of d (c # bs) = (if is_delim d c then [] else c # word_of d bs)"
  "eaten d (c # bs) = (if is_delim d c then [c] else eaten d bs)"
  by (simp_all add: word_of_def eaten_def)

section \<open>Text in memory, and the line counter\<close>

definition read_only_at :: "'a vm_scheme \<Rightarrow> addr \<Rightarrow> bool" where
  "read_only_at s a \<longleftrightarrow> list_ex (\<lambda>g. data_seg s g \<and> in_seg g a 1) (segs s)"

lemma read_only_racc: "read_only_at s a \<Longrightarrow> racc (segs s) a 1"
  by (auto simp: read_only_at_def racc_def list_ex_iff)

lemma read_only_cong:
  "segs s' = segs s \<Longrightarrow> dstack s' = dstack s \<Longrightarrow> rstack s' = rstack s \<Longrightarrow> read_only_at s' a = read_only_at s a"
  by (simp add: read_only_at_def data_seg_def)

lemma read_only_dframe: "dframe s s' \<Longrightarrow> read_only_at s a \<Longrightarrow> mem s' a = mem s a"
  by (auto simp: read_only_at_def dframe_def data_seg_def list_ex_iff same_on_def)

definition text_at :: "mu \<Rightarrow> addr \<Rightarrow> byte list \<Rightarrow> bool" where
  "text_at s p bs \<longleftrightarrow>
     unat p + length bs < 2 ^ 64 \<and> endp s = p + of_nat (length bs) \<and>
     (\<forall>i < length bs. read_only_at s (p + of_nat i) \<and> mem s (p + of_nat i) = bs ! i \<and>
        disj (lineno_at s) 8 (p + of_nat i) 1) \<and>
     data_at s (lineno_at s) 8"

definition bump :: "nat \<Rightarrow> mu \<Rightarrow> mu" where
  "bump k s = s\<lparr>mem := wr64 (mem s) (lineno_at s) (rd64 (mem s) (lineno_at s) + of_nat k)\<rparr>"

lemma wr_bytes_twice: "length as = length bs \<Longrightarrow> wr_bytes (wr_bytes m a as) a bs = wr_bytes m a bs"
  by (auto simp: wr_bytes_def)

lemma wr_rd_bytes: "n < 2 ^ 64 \<Longrightarrow> wr_bytes m a (rd_bytes m a n) = m"
  by (auto simp: wr_bytes_def)

lemma wr64_rd64 [simp]: "wr64 m a (rd64 m a) = m"
proof -
  have "le_bytes 8 (le_word (rd_bytes m a 8) :: cell) = rd_bytes m a 8"
    using le_bytes_le_word [of "rd_bytes m a 8", where 'a = 64] by simp
  then show ?thesis by (simp add: wr64_def rd64_def wr_rd_bytes)
qed

lemma wr64_wr64 [simp]: "wr64 (wr64 m a v) a w = wr64 m a w"
  by (simp add: wr64_def wr_bytes_twice)

lemma bump_0 [simp]: "bump 0 s = s"
  by (simp add: bump_def)

lemma bump_bump [simp]: "bump k (bump n s) = bump (n + k) s"
  by (simp add: bump_def rd64_wr64_same add.assoc)

lemma bump_frame [simp]:
  "segs (bump k s) = segs s" "endp (bump k s) = endp s" "first (bump k s) = first s"
  "lineno_at (bump k s) = lineno_at s" "skipped (bump k s) = skipped s" "parsed (bump k s) = parsed s"
  "trailing (bump k s) = trailing s" "parsed_lineno (bump k s) = parsed_lineno s"
  "SP (bump k s) = SP s" "dstack (bump k s) = dstack s" "rstack (bump k s) = rstack s"
  "bump k (s\<lparr>first := p\<rparr>) = (bump k s)\<lparr>first := p\<rparr>"
  by (simp_all add: bump_def)

lemma text_at_bump [simp]:
  assumes "text_at s p bs"
  shows "text_at (bump k s) p bs"
proof -
  have "mem (bump k s) (p + of_nat i) = mem s (p + of_nat i)" if "i < length bs" for i
    using wr_bytes_outside [of "lineno_at s" "le_bytes 8 w" "p + of_nat i" 1 0 "mem s" for w] assms that
    by (simp add: bump_def wr64_def text_at_def)
  moreover have "data_at (bump k s) a n = data_at s a n" for a n
    by (rule data_at_cong) simp_all
  moreover have "read_only_at (bump k s) a = read_only_at s a" for a
    by (rule read_only_cong) simp_all
  ultimately show ?thesis using assms by (simp add: text_at_def)
qed

lemma text_at_fields [simp]:
  "text_at (s\<lparr>first := q\<rparr>) p bs = text_at s p bs"
  "text_at (s\<lparr>skipped := z\<rparr>) p bs = text_at s p bs"
  "text_at (s\<lparr>parsed_lineno := k\<rparr>) p bs = text_at s p bs"
  by (simp_all add: text_at_def read_only_at_def data_at_def data_seg_def)

lemma text_at_Cons:
  assumes "text_at s p (c # bs)"
  shows "p < endp s" "racc (segs s) p 1" "mem s p = c" "text_at s (p + 1) bs"
proof -
  have "unat (p + of_nat (Suc (length bs))) = unat p + Suc (length bs)"
    by (rule unat_add_small) (use assms in \<open>simp add: text_at_def\<close>)
  then show "p < endp s" using assms by (simp add: text_at_def word_less_nat_alt)
  have "unat (p + of_nat 1) = unat p + 1"
    by (rule unat_add_small) (use assms in \<open>simp add: text_at_def\<close>)
  then have "unat (p + 1) + length bs < 2 ^ 64" using assms by (simp add: text_at_def)
  moreover have "\<forall>i < length bs. read_only_at s (p + 1 + of_nat i) \<and> mem s (p + 1 + of_nat i) = bs ! i \<and>
        disj (lineno_at s) 8 (p + 1 + of_nat i) 1"
    using assms by (force simp: text_at_def add.assoc dest: spec [of _ "Suc _"])
  ultimately show "text_at s (p + 1) bs" using assms by (simp add: text_at_def add.assoc)
  have "read_only_at s p \<and> mem s p = c" using assms by (force simp: text_at_def)
  then show "racc (segs s) p 1" "mem s p = c" using read_only_racc by auto
qed

lemma count_line_bump:
  "text_at s p bs \<Longrightarrow> count_line c s = Ret (bump (if c = 10 then 1 else 0) s)"
  by (simp add: count_line_def load_def store_def text_at_def data_at_racc data_at_wacc bump_def)

section \<open>Skipping and scanning\<close>

lemma skip_loop_spec:
  "text_at s (first s) bs \<Longrightarrow> skip_loop s =
    Ret (bump (newlines (takeWhile is_space bs))
      (s\<lparr>first := first s + of_nat (length (takeWhile is_space bs))\<rparr>))"
proof (induction bs arbitrary: s)
  case Nil
  then show ?case by (subst skip_loop.simps) (simp add: text_at_def)
next
  case (Cons c bs)
  note t = text_at_Cons [OF Cons.prems]
  show ?case
  proof (cases "is_space c")
    case True
    let ?s = "(bump (if c = 10 then 1 else 0) s)\<lparr>first := first s + 1\<rparr>"
    have "text_at ?s (first ?s) bs" using t(4) by simp
    from Cons.IH [OF this] True t(1-3) show ?thesis
      by (subst skip_loop.simps) (simp add: count_line_bump [OF t(4)] algebra_simps)
  next
    case False
    with t(1-3) show ?thesis by (subst skip_loop.simps) simp
  qed
qed

lemma scan_loop_spec:
  "text_at s p bs \<Longrightarrow> scan_loop d p s =
    capture_token (p + of_nat (length (word_of d bs))) (of_nat (length (eaten d bs)))
      (bump (newlines (word_of d bs @ eaten d bs)) s)"
proof (induction bs arbitrary: s p)
  case Nil
  then show ?case by (subst scan_loop.simps) (simp add: text_at_def)
next
  case (Cons c bs)
  note t = text_at_Cons [OF Cons.prems]
  have "text_at (bump (if c = 10 then 1 else 0) s) (p + 1) bs" using t(4) by simp
  from Cons.IH [OF this] t(1-3) show ?case
    by (subst scan_loop.simps) (simp add: count_line_bump [OF t(4)] algebra_simps)
qed

lemma text_at_drop:
  "text_at s p (as @ bs) \<Longrightarrow> text_at s (p + of_nat (length as)) bs"
proof (induction as arbitrary: p)
  case (Cons c as)
  from Cons.IH [OF text_at_Cons(4), of p c] Cons.prems show ?case by (simp add: algebra_simps)
qed simp

lemma text_at_dframe:
  assumes "dframe s s'" "text_at s p bs"
  shows "text_at s' p bs"
  using assms read_only_dframe [OF assms(1)] read_only_cong [of s' s] data_at_dframe [OF assms(1)]
  by (cases s; cases s') (auto simp: text_at_def dframe_def)

lemma drep_bump: "drep s xs \<Longrightarrow> data_at s (lineno_at s) 8 \<Longrightarrow> drep (bump k s) xs"
  by (simp add: bump_def drep_write64)

lemma drep_fields [simp]:
  "drep (s\<lparr>first := q\<rparr>) xs = drep s xs" "drep (s\<lparr>skipped := z\<rparr>) xs = drep s xs"
  "drep (s\<lparr>parsed := z\<rparr>) xs = drep s xs" "drep (s\<lparr>trailing := z\<rparr>) xs = drep s xs"
  "drep (s\<lparr>parsed_lineno := k\<rparr>) xs = drep s xs"
  by (simp_all add: drep_def)

section \<open>The words\<close>

text \<open>The state in which a scan for \<open>d\<close> leaves the process, the text ahead being \<open>bs\<close>.\<close>

definition scanned :: "cint \<Rightarrow> byte list \<Rightarrow> mu \<Rightarrow> mu" where
  "scanned d bs s =
     (let w = of_nat (length (word_of d bs)); e = of_nat (length (eaten d bs)) in
      (bump (newlines (word_of d bs @ eaten d bs)) s)
        \<lparr>parsed_lineno := int_of_cell (rd64 (mem s) (lineno_at s)),
         parsed := \<lparr>data = first s, len = w\<rparr>, trailing := \<lparr>data = first s + w, len = e\<rparr>,
         first := first s + w + e\<rparr>)"

lemma scan_spec:
  assumes "text_at s (first s) bs"
  shows "scan d s = Ret (scanned d bs s)"
proof -
  have "load (lineno_at s) s = Ret (rd64 (mem s) (lineno_at s))"
    using assms by (simp add: load_def text_at_def data_at_racc)
  moreover have "text_at (s\<lparr>parsed_lineno := k\<rparr>) (first s) bs" for k using assms by simp
  ultimately show ?thesis
    by (simp add: scan_def scan_loop_spec capture_token_def scanned_def Let_def) (simp add: bump_def)
qed

definition skipped_space :: "byte list \<Rightarrow> mu \<Rightarrow> mu" where
  "skipped_space bs s =
     (let n = of_nat (length (takeWhile is_space bs)) in
      (bump (newlines (takeWhile is_space bs)) s)
        \<lparr>skipped := \<lparr>data = first s, len = n\<rparr>, first := first s + n\<rparr>)"

lemma skip_spec:
  assumes "text_at s (first s) bs"
  shows "skip s = Ret (skipped_space bs s)"
proof -
  have "text_at (s\<lparr>skipped := z\<rparr>) (first s) bs" for z using assms by simp
  then show ?thesis
    by (simp add: skip_def skip_loop_spec skipped_space_def Let_def) (simp add: bump_def)
qed

lemma text_skipped:
  assumes "text_at s (first s) bs"
  shows "text_at (skipped_space bs s) (first (skipped_space bs s)) (dropWhile is_space bs)"
proof -
  have "text_at s (first s + of_nat (length (takeWhile is_space bs))) (dropWhile is_space bs)"
    by (rule text_at_drop) (simp add: assms)
  then show ?thesis by (simp add: skipped_space_def Let_def)
qed

lemma text_scanned:
  assumes "text_at s (first s) bs"
  shows "text_at (scanned d bs s) (first (scanned d bs s)) (rest_of d bs)"
proof -
  have "text_at s (first s + of_nat (length (word_of d bs @ eaten d bs))) (rest_of d bs)"
    by (rule text_at_drop) (simp add: assms split_text)
  then have "text_at (bump k s) (first s + of_nat (length (word_of d bs)) + of_nat (length (eaten d bs)))
      (rest_of d bs)" for k
    by (simp add: add.assoc)
  then show ?thesis
    by (simp add: scanned_def Let_def text_at_def read_only_at_def data_at_def data_seg_def)
qed

lemma push_string_spec:
  assumes "drep s xs" "length xs + 2 \<le> 4064"
  shows "push_string z s = Ret (PUSH (len z) (PUSH (data z) s))"
    and "drep (PUSH (len z) (PUSH (data z) s)) (len z # data z # xs)"
    and "dframe s (PUSH (len z) (PUSH (data z) s))"
proof -
  have r1: "drep (PUSH (data z) s) (data z # xs)" using assms by (intro ds.push_rep) auto
  with assms show "push_string z s = Ret (PUSH (len z) (PUSH (data z) s))"
    by (simp add: push_string_def push_def ds.room_rep ds.room_rep [OF r1])
  show "drep (PUSH (len z) (PUSH (data z) s)) (len z # data z # xs)"
    using r1 assms by (intro ds.push_rep) auto
  show "dframe s (PUSH (len z) (PUSH (data z) s))"
    using dframe_trans [OF dframe_PUSH [OF assms(1)] dframe_PUSH [OF r1]] assms by simp
qed

lemma drep_scanned: "text_at s (first s) bs \<Longrightarrow> drep s xs \<Longrightarrow> drep (scanned d bs s) xs"
  by (simp add: scanned_def Let_def drep_bump text_at_def)

lemma drep_skipped: "text_at s (first s) bs \<Longrightarrow> drep s xs \<Longrightarrow> drep (skipped_space bs s) xs"
  by (simp add: skipped_space_def Let_def drep_bump text_at_def)

lemma scanned_parts [simp]:
  "parsed (scanned d bs s) = \<lparr>data = first s, len = of_nat (length (word_of d bs))\<rparr>"
  "first (scanned d bs s) = first s + of_nat (length (word_of d bs)) + of_nat (length (eaten d bs))"
  "trailing (scanned d bs s) =
    \<lparr>data = first s + of_nat (length (word_of d bs)), len = of_nat (length (eaten d bs))\<rparr>"
  "skipped (scanned d bs s) = skipped s"
  "first (skipped_space bs s) = first s + of_nat (length (takeWhile is_space bs))"
  "skipped (skipped_space bs s) = \<lparr>data = first s, len = of_nat (length (takeWhile is_space bs))\<rparr>"
  by (simp_all add: scanned_def skipped_space_def Let_def)

text \<open>The process after a token: \<open>s'\<close> is \<open>t\<close> with the token's address and length pushed.\<close>

lemma push_parsed_spec:
  assumes "drep t xs" "length xs + 2 \<le> 4064" "text_at t (first t) bs"
  shows "\<exists>s'. mu_push_parsed t = Ret s' \<and> dframe t s' \<and>
    drep s' (len (parsed t) # data (parsed t) # xs) \<and> text_at s' (first s') bs"
proof -
  note p = push_string_spec [OF assms(1,2), of "parsed t"]
  show ?thesis
    using p text_at_dframe [OF p(3) assms(3)] by (simp add: mu_push_parsed_def)
qed

lemma mu_parse_spec:
  assumes t: "text_at s (first s) bs" and r: "drep s (d # xs)" and l: "length xs + 2 \<le> 4064"
  shows "\<exists>s'. mu_parse s = Ret s' \<and> dframe (scanned (int_of_cell d) bs (DROP 1 s)) s' \<and>
    drep s' (of_nat (length (word_of (int_of_cell d) bs)) # first s # xs) \<and>
    text_at s' (first s') (rest_of (int_of_cell d) bs)"
proof -
  let ?d = "int_of_cell d" and ?s = "DROP 1 s"
  have t1: "text_at ?s (first ?s) bs" using text_at_dframe [of s ?s] t by simp
  have r1: "drep ?s xs" using r by (rule ds.pop_1)
  from push_parsed_spec [OF drep_scanned [OF t1 r1] l text_scanned [OF t1], of ?d]
  show ?thesis using r
    by (simp add: mu_parse_def scan_spec [OF t1] ds.cells_rep ds.get_0)
qed

lemma mu_token_spec:
  assumes t: "text_at s (first s) bs" and r: "drep s xs" and l: "length xs + 2 \<le> 4064"
  shows "\<exists>s'. mu_token s = Ret s' \<and>
    dframe (scanned 32 (dropWhile is_space bs) (skipped_space bs s)) s' \<and>
    drep s' (of_nat (length (word_of 32 (dropWhile is_space bs))) #
      (first s + of_nat (length (takeWhile is_space bs))) # xs) \<and>
    text_at s' (first s') (rest_of 32 (dropWhile is_space bs))"
proof -
  note t1 = text_skipped [OF t] and r1 = drep_skipped [OF t r]
  from push_parsed_spec [OF drep_scanned [OF t1 r1] l text_scanned [OF t1], of 32]
  show ?thesis
    using scan_spec [OF t1] by (simp add: mu_token_def skip_spec [OF t])
qed

text \<open>The line counter.\<close>

lemma lineno_skipped:
  "text_at s (first s) bs \<Longrightarrow>
    rd64 (mem (skipped_space bs s)) (lineno_at s) = rd64 (mem s) (lineno_at s) + of_nat (newlines (takeWhile is_space bs))"
  by (simp add: skipped_space_def Let_def bump_def rd64_wr64_same)

lemma lineno_scanned:
  "lineno_at s = a \<Longrightarrow> rd64 (mem (scanned d bs s)) a =
      rd64 (mem s) a + of_nat (newlines (word_of d bs @ eaten d bs))"
  "parsed_lineno (scanned d bs s) = int_of_cell (rd64 (mem s) (lineno_at s))"
  "lineno_at (scanned d bs s) = lineno_at s" "lineno_at (skipped_space bs s) = lineno_at s"
  by (auto simp add: scanned_def skipped_space_def Let_def bump_def rd64_wr64_same)

lemma lineno_dframe:
  "dframe s s' \<Longrightarrow> text_at s p bs \<Longrightarrow> rd64 (mem s') (lineno_at s) = rd64 (mem s) (lineno_at s)"
  by (rule rd64_data_dframe) (simp_all add: text_at_def)

lemma eaten_delim: "c \<in> set (eaten d bs) \<Longrightarrow> is_delim d c"
  using hd_dropWhile [of "\<lambda>c. \<not> is_delim d c" bs]
  by (cases "dropWhile (\<lambda>c. \<not> is_delim d c) bs") (auto simp: eaten_def)

section \<open>The words of a text\<close>

text \<open>A delimiter of 32 stands for every white space.\<close>

lemma is_delim_space [simp]: "is_delim 32 c \<longleftrightarrow> is_space c"
proof -
  have "(32 :: cint) = scast c \<longleftrightarrow> c = 32"
  proof
    assume "(32 :: cint) = scast c"
    then have "(ucast (32 :: cint) :: byte) = ucast (scast c :: cint)" by simp
    also have "(ucast (scast c :: cint) :: byte) = c"
      by (rule bit_word_eqI) (auto simp: bit_simps)
    finally show "c = 32" by simp
  qed simp
  then show ?thesis by (auto simp: is_delim_def is_space_def)
qed

function words :: "byte list \<Rightarrow> byte list list" where
  "words bs = (let r = dropWhile is_space bs in
     if r = [] then [] else takeWhile (\<lambda>c. \<not> is_space c) r # words (dropWhile (\<lambda>c. \<not> is_space c) r))"
  by pat_completeness auto

termination
proof (relation "measure length")
  fix bs r :: "byte list"
  assume r: "r = dropWhile is_space bs" "r \<noteq> []"
  then have "\<not> is_space (hd r)" using hd_dropWhile by metis
  with r(2) have "length (dropWhile (\<lambda>c. \<not> is_space c) r) < length r"
    by (cases r) (simp_all add: le_imp_less_Suc length_dropWhile_le)
  also have "length r \<le> length bs" using r(1) by (simp add: length_dropWhile_le)
  finally show "(dropWhile (\<lambda>c. \<not> is_space c) r, bs) \<in> measure length" by simp
qed simp

declare words.simps [simp del]

lemma words_space: "is_space c \<Longrightarrow> words (c # bs) = words bs"
  by (subst (1 2) words.simps) simp

lemma words_drop_space: "words (dropWhile is_space bs) = words bs"
  by (induction bs) (simp_all add: words_space)

lemma words_next:
  assumes "dropWhile is_space bs \<noteq> []"
  shows "words bs = word_of 32 (dropWhile is_space bs) # words (rest_of 32 (dropWhile is_space bs))"
proof -
  let ?r = "dropWhile is_space bs"
  let ?t = "dropWhile (\<lambda>c. \<not> is_space c) ?r"
  have "words ?t = words (drop 1 ?t)"
  proof (cases ?t)
    case (Cons c cs)
    then have "is_space c" by (metis dropWhile_eq_Cons_conv)
    with Cons show ?thesis by (simp add: words_space)
  next
    case Nil
    then show ?thesis by (simp only: drop_Nil)
  qed
  with assms show ?thesis
    by (subst words.simps) (simp add: Let_def word_of_def rest_of_def)
qed

lemma words_end: "dropWhile is_space bs = [] \<Longrightarrow> words bs = []"
  by (subst words.simps) simp

lemma word_not_empty:
  assumes "dropWhile is_space bs \<noteq> []"
  shows "word_of 32 (dropWhile is_space bs) \<noteq> []"
  using hd_dropWhile [OF assms] assms by (cases "dropWhile is_space bs") (simp_all add: word_of_def)

lemma word_empty: "word_of 32 (dropWhile is_space bs) = [] \<Longrightarrow> bs = takeWhile is_space bs"
  using word_not_empty [of bs] takeWhile_dropWhile_id [of is_space bs] by (metis append_Nil2)

lemma eaten_empty:
  assumes "eaten d bs = []"
  shows "rest_of d bs = []"
proof (cases "dropWhile (\<lambda>c. \<not> is_delim d c) bs")
  case Nil
  then show ?thesis by (simp only: rest_of_def drop_Nil)
next
  case (Cons c cs)
  with assms show ?thesis by (simp add: eaten_def)
qed

section \<open>One turn of the interpreter\<close>

text \<open>The bytes of a text, wherever the cursor is.\<close>

lemma text_at_bytes:
  assumes "text_at s p (as @ w @ bs)"
  shows "rd_bytes (mem s) (p + of_nat (length as)) (length w) = w"
proof (rule nth_equalityI)
  fix i assume "i < length (rd_bytes (mem s) (p + of_nat (length as)) (length w))"
  then have i: "i < length w" by simp
  then have "length as + i < length (as @ w @ bs)" by simp
  with assms have "mem s (p + of_nat (length as + i)) = (as @ w @ bs) ! (length as + i)"
    unfolding text_at_def by blast
  with i show "rd_bytes (mem s) (p + of_nat (length as)) (length w) ! i = w ! i"
    by (simp add: nth_append add.assoc)
qed simp

lemma text_at_short: "text_at s p bs \<Longrightarrow> length bs < 2 ^ 64"
  by (simp add: text_at_def)

lemma text_stays:
  "text_at s p bs \<Longrightarrow> text_at (scanned d cs s) p bs" "text_at s p bs \<Longrightarrow> text_at (skipped_space cs s) p bs"
  using text_at_bump [of s p bs]
  by (simp_all add: scanned_def skipped_space_def Let_def text_at_def read_only_at_def data_at_def data_seg_def)

lemma token_bytes:
  assumes "text_at s (first s) bs" and "dframe (scanned 32 (dropWhile is_space bs) (skipped_space bs s)) s'"
  shows "rd_bytes (mem s') (first s + of_nat (length (takeWhile is_space bs)))
      (length (word_of 32 (dropWhile is_space bs))) = word_of 32 (dropWhile is_space bs)"
proof -
  let ?r = "dropWhile is_space bs"
  have "text_at s (first s) (takeWhile is_space bs @ word_of 32 ?r @ eaten 32 ?r @ rest_of 32 ?r)"
    using assms(1) by (simp add: split_text)
  from text_at_bytes [OF text_at_dframe [OF assms(2) text_stays(1) [OF text_stays(2) [OF this]]]]
  show ?thesis .
qed

lemma state_turn [simp]:
  "state (scanned d bs s) = state s" "state (skipped_space bs s) = state s"
  by (simp_all add: scanned_def skipped_space_def bump_def Let_def)

lemma interpret_turn:
  "muboot_interpret ex (Suc n) s = bindo (mu_token s) (\<lambda>s.
     if \<not> stk 1 s then Undef else if ST 0 s = 0 then Ret (DROP 2 s)
     else bindo (consume ex (state s) s) (muboot_interpret ex n))"
  unfolding muboot_interpret_def [abs_def] interpret_loop.simps bindo_assoc
  by (rule bindo_cong) (auto simp: bindo_assoc)

end
