(* ===== verification/Consumers.thy ===== *)
theory Consumers
  imports FileSpec DictSearch Tokens
begin

text \<open>
  What the process says when it dies: the message of \<open>die\<close> as a text, made of the file being
  loaded, the line, the token parsed last and the reason.
\<close>

section \<open>Strings that the stacks do not hold\<close>

definition string_data :: "'a vm_scheme \<Rightarrow> addr \<Rightarrow> byte list \<Rightarrow> bool" where
  "string_data s a bs \<longleftrightarrow> cstring_at s a bs \<and> data_at s a (Suc (length bs))"

lemma string_data_dframe: "dframe s s' \<Longrightarrow> string_data s a bs \<Longrightarrow> string_data s' a bs"
  using rd_bytes_dframe [of s s' a "Suc (length bs)"]
  by (auto simp: string_data_def cstring_at_def data_at_dframe intro: data_at_racc)

lemma bytes_upto_all:
  "racc gs a n \<Longrightarrow> 0 \<notin> set (rd_bytes m a n) \<Longrightarrow> bytes_upto gs m a n = Some (rd_bytes m a n)"
proof (induction n arbitrary: a)
  case (Suc n)
  have "racc gs a 1" "racc gs (a + 1) n"
    using racc_part [OF Suc.prems(1), of 0 1] racc_part [OF Suc.prems(1), of 1 n] by simp_all
  with Suc.IH [of "a + 1"] Suc.prems(2) show ?case by (simp add: rd_bytes_Suc)
qed (simp add: rd_bytes_0)

lemma text_of_bytes_of [simp]: "text_of (bytes_of cs) = cs"
proof -
  have "char_of_byte (byte_of_char c) = c" for c
  proof -
    have "of_char c < (256 :: nat)" by (rule nat_of_char_less_256)
    then show ?thesis by (simp add: char_of_byte_def byte_of_char_def unat_of_nat)
  qed
  then show ?thesis by (induction cs) (simp_all add: text_of_def bytes_of_def)
qed

section \<open>The message\<close>

definition loading :: "mu \<Rightarrow> byte list \<Rightarrow> bool" where
  "loading s f \<longleftrightarrow> data_at s (being_loaded_at s) 8 \<and>
     (if rd64 (mem s) (being_loaded_at s) = 0 then f = bytes_of ''startup.mu4''
      else string_data s (rd64 (mem s) (being_loaded_at s)) f)"

definition parsed_token :: "mu \<Rightarrow> byte list \<Rightarrow> bool" where
  "parsed_token s tok \<longleftrightarrow> length tok < 2 ^ 31 \<and> len (parsed s) = of_nat (length tok) \<and>
     data_at s (data (parsed s)) (length tok) \<and> rd_bytes (mem s) (data (parsed s)) (length tok) = tok \<and> 0 \<notin> set tok"

definition report :: "byte list \<Rightarrow> cint \<Rightarrow> byte list \<Rightarrow> byte list \<Rightarrow> string" where
  "report src_file line tok msg =
     text_of src_file @ '', line '' @ decimal (sint line) @ '': '' @ text_of tok @ '' '' @ text_of msg @ [CHR 0x0A]"

lemma loading_dframe: "dframe s s' \<Longrightarrow> loading s f \<Longrightarrow> loading s' f"
  by (auto simp: loading_def data_at_dframe dframe_rest(25) rd64_data_dframe intro: string_data_dframe split: if_splits)

lemma parsed_token_dframe: "dframe s s' \<Longrightarrow> parsed_token s tok \<Longrightarrow> parsed_token s' tok"
  by (auto simp: parsed_token_def data_at_dframe dframe_rest(14) rd_bytes_dframe)

lemma die_reports:
  assumes "loading s f" "parsed_token s tok" "cstring_at s z msg"
  shows "die z s = Exit 1 (report f (parsed_lineno s) tok msg)"
proof -
  have loaded: "(if rd64 (mem s) (being_loaded_at s) \<noteq> 0 then cstr (segs s) (mem s) (rd64 (mem s) (being_loaded_at s))
      else Some (bytes_of ''startup.mu4'')) = Some f"
    using assms(1) by (auto simp: loading_def string_data_def cstr_cstring split: if_splits)
  have "\<not> (of_nat (length tok) :: cint) <s 0" "unat (of_nat (length tok) :: cint) = length tok"
    using assms(2) by (simp_all add: parsed_token_def word_sless_alt sint_of_nat_32 unat_of_nat)
  moreover have "bytes_upto (segs s) (mem s) (data (parsed s)) (length tok) = Some tok"
    using assms(2) bytes_upto_all [of "segs s" "data (parsed s)" "length tok" "mem s"]
    by (simp add: parsed_token_def data_at_racc)
  ultimately have "printf_s (segs s) (mem s) (int_of_cell (len (parsed s))) (data (parsed s)) = Some tok"
    using assms(2) by (simp add: printf_s_def parsed_token_def)
  moreover have "load (being_loaded_at s) s = Ret (rd64 (mem s) (being_loaded_at s))"
    using assms(1) by (simp add: load_def loading_def data_at_racc)
  ultimately show ?thesis using loaded cstr_cstring [OF assms(3)] by (simp add: die_def report_def)
qed

text \<open>Without a deferred abort, the words that report an error end the process with the message.\<close>

definition no_handler :: "mu \<Rightarrow> bool" where
  "no_handler s \<longleftrightarrow> data_at s (xt_abort_at s) 8 \<and> rd64 (mem s) (xt_abort_at s) = 0"

lemma no_handler_dframe: "dframe s s' \<Longrightarrow> no_handler s \<Longrightarrow> no_handler s'"
  by (auto simp: no_handler_def data_at_dframe dframe_rest(26) rd64_data_dframe)

lemma abort_zmsg_reports:
  assumes "drep s xs" "length xs < 4064" "no_handler s" "loading s f" "parsed_token s tok" "string_data s z msg"
  shows "abort_zmsg ex z s = Exit 1 (report f (parsed_lineno s) tok msg)"
proof -
  note pushed = dframe_PUSH [OF assms(1,2), of z]
  have "load (xt_abort_at (PUSH z s)) (PUSH z s) = Ret 0"
    using no_handler_dframe [OF pushed assms(3)] data_at_racc [of "PUSH z s" "xt_abort_at s" 8]
    by (simp add: no_handler_def load_def)
  from mu_abort_dies [OF this ds.push_rep [OF assms(1,2)]]
  have "mu_abort ex (PUSH z s) = die z (PUSH z s)" .
  moreover have "cstring_at (PUSH z s) z msg"
    using string_data_dframe [OF pushed assms(6)] by (simp add: string_data_def)
  ultimately show ?thesis
    using die_reports [OF loading_dframe [OF pushed assms(4)] parsed_token_dframe [OF pushed assms(5)]]
      ds.room_rep [OF assms(1,2)]
    by (simp add: abort_zmsg_def push_def)
qed

text \<open>
  What the two consumers do with a token, in terms of the search of a chain: the token is an entry
  of the chain, or the consumer goes on to the next chain, and at the end complains.
\<close>

section \<open>A token on a chain\<close>

text \<open>A token \<open>a n\<close> whose bytes lie in data, none of them null.\<close>

definition token_ok :: "mu \<Rightarrow> addr \<Rightarrow> nat \<Rightarrow> bool" where
  "token_ok s a n \<longleftrightarrow> n < 2 ^ 31 \<and> data_at s a n \<and> 0 \<notin> set (rd_bytes (mem s) a n)"

definition chain_ok :: "mu \<Rightarrow> addr \<Rightarrow> addr list \<Rightarrow> bool" where
  "chain_ok s p ls \<longleftrightarrow> chain_at (segs s) (mem s) p ls \<and> chain_data s p ls"

definition lookup :: "mu \<Rightarrow> addr list \<Rightarrow> addr \<Rightarrow> nat \<Rightarrow> addr option" where
  "lookup s ls a n = List.find (same_name (match s) (mem s) (rd_bytes (mem s) a n)) ls"

lemma token_ok_dframe: "dframe s t \<Longrightarrow> token_ok s a n \<Longrightarrow> token_ok t a n"
  by (auto simp: token_ok_def data_at_dframe rd_bytes_dframe)

lemma chain_data_dframe: "dframe s t \<Longrightarrow> chain_data s p ls \<Longrightarrow> chain_data t p ls"
  by (induction ls arbitrary: p) (auto simp: data_at_dframe entry_dframe(2))

lemma chain_ok_dframe: "dframe s t \<Longrightarrow> chain_ok s p ls \<Longrightarrow> chain_ok t p ls"
  by (auto simp: chain_ok_def intro: chain_dframe chain_data_dframe)

lemma find_cong_set: "(\<And>l. l \<in> set ls \<Longrightarrow> P l = Q l) \<Longrightarrow> List.find P ls = List.find Q ls"
  by (induction ls) auto

lemma lookup_dframe:
  assumes "dframe s t" "token_ok s a n" "chain_ok s p ls"
  shows "lookup t ls a n = lookup s ls a n"
  unfolding lookup_def using assms chain_dframe(2) [OF assms(1)]
  by (intro find_cong_set) (auto simp: token_ok_def chain_ok_def rd_bytes_dframe dframe_rest(3))

text \<open>The pattern of both consumers: push a chain, search it, and branch on the flag.\<close>

lemma find_branch:
  fixes s :: mu
  assumes rep: "drep s (of_nat n # a # xs)" and room: "length xs + 3 \<le> 4064"
    and tok: "token_ok s a n" and chain: "chain_ok s p ls"
  shows "\<exists>t. dframe s t \<and> drep t ((case lookup s ls a n of Some l \<Rightarrow> [code_at l] | None \<Rightarrow> [of_nat n, a]) @ xs) \<and>
    bindo (push p s) (\<lambda>s. bindo (mu_find s) (if_popped yes no)) = (case lookup s ls a n of Some _ \<Rightarrow> yes t | None \<Rightarrow> no t)"
proof -
  let ?s = "PUSH p s"
  have len: "length (of_nat n # a # xs) < 4064" using room by simp
  note pushed = dframe_PUSH [OF rep len, of p]
  have here: "List.find (same_name (match s) (mem ?s) (rd_bytes (mem ?s) a n)) ls = lookup s ls a n"
    using lookup_dframe [OF pushed tok chain] by (simp add: lookup_def)
  have "chain_at (segs ?s) (mem ?s) p ls" "n < 2 ^ 31" "0 \<notin> set (rd_bytes (mem ?s) a n)" "data_at ?s a n"
    using chain_ok_dframe [OF pushed chain] token_ok_dframe [OF pushed tok] by (simp_all add: chain_ok_def token_ok_def)
  moreover from this(4) have "\<forall>i < min n 255. racc (segs ?s) (a + of_nat i) 1"
    using racc_part [OF data_at_racc, of ?s a n _ 1] by simp
  ultimately obtain t where t: "mu_find ?s = Ret t" "dframe ?s t"
    "drep t ((case lookup s ls a n of Some l \<Rightarrow> [- 1, code_at l] | None \<Rightarrow> [0, of_nat n, a]) @ xs)"
    using mu_find_same_name [OF ds.push_rep [OF rep len, of p], where ls = ls] by (auto simp: here)
  have top: "stk 1 t" "ST 0 t \<noteq> 0 \<longleftrightarrow> lookup s ls a n \<noteq> None"
    "drep (DROP 1 t) ((case lookup s ls a n of Some l \<Rightarrow> [code_at l] | None \<Rightarrow> [of_nat n, a]) @ xs)"
    using t(3) ds.get_0 ds.cells_rep [OF t(3), of 1] ds.pop_1 by (auto split: option.splits)
  have "bindo (push p s) (\<lambda>s. bindo (mu_find s) (if_popped yes no)) = if_popped yes no t"
    using ds.room_rep [OF rep len] t(1) by (simp add: push_def)
  moreover have "dframe s (DROP 1 t)" using dframe_trans [OF pushed t(2)] by simp
  ultimately show ?thesis
    using top by (intro exI [of _ "DROP 1 t"]) (auto simp: if_popped_def split: option.splits)
qed

section \<open>Complaining\<close>

text \<open>With a handler, the complaint runs it on the message; without, the process ends.\<close>

lemma complain_reports:
  assumes "drep t (u # a # xs)" "length xs < 4064" "no_handler t" "loading t f" "parsed_token t tok"
    "string_data t (lit t ''isn't defined'') (bytes_of ''isn't defined'')"
  shows "mu_complain ex t = Exit 1 (report f (parsed_lineno t) tok (bytes_of ''isn't defined''))"
proof -
  have "dframe t (DROP 2 t)" by simp
  from abort_zmsg_reports [OF ds.pop_2 [OF assms(1)] assms(2) no_handler_dframe [OF this assms(3)]
      loading_dframe [OF this assms(4)] parsed_token_dframe [OF this assms(5)] string_data_dframe [OF this assms(6)]]
  show ?thesis by (simp add: mu_complain_def)
qed

lemma complain_handled:
  assumes "drep t (u # a # xs)" "length xs + 2 \<le> 4064" "data_at t (xt_abort_at t) 8" "rd64 (mem t) (xt_abort_at t) \<noteq> 0"
  shows "\<exists>v. mu_complain ex t = ex v \<and> dframe t v \<and> drep v (rd64 (mem t) (xt_abort_at t) # lit t ''isn't defined'' # xs)"
proof -
  let ?z = "lit t ''isn't defined''" and ?h = "rd64 (mem t) (xt_abort_at t)"
  let ?p = "PUSH ?z (DROP 2 t)"
  have len: "length xs < 4064" "length (?z # xs) < 4064" using assms(2) by simp_all
  note pop = ds.pop_2 [OF assms(1)]
  note pushed = dframe_PUSH [OF pop len(1), of ?z] and rep = ds.push_rep [OF pop len(1), of ?z]
  have frame: "dframe t ?p" using dframe_trans [OF _ pushed, of t] by simp
  have "load (xt_abort_at ?p) ?p = Ret ?h"
    using data_at_racc [of ?p "xt_abort_at t" 8] data_at_dframe [OF frame] assms(3) rd64_data_dframe [OF frame assms(3)]
    by (simp add: load_def dframe_rest(26) [OF frame])
  from mu_abort_deferred [OF this assms(4)] have "mu_abort ex ?p = ex (PUSH ?h ?p)"
    using ds.room_rep [OF rep len(2)] by (simp add: push_def)
  then have "mu_complain ex t = ex (PUSH ?h ?p)"
    using ds.room_rep [OF pop len(1)] by (simp add: mu_complain_def abort_zmsg_def push_def)
  then show ?thesis
    using dframe_trans [OF frame dframe_PUSH [OF rep len(2), of ?h]] ds.push_rep [OF rep len(2), of ?h] by blast
qed

section \<open>Compiling\<close>

lemma compile_comma_appends:
  assumes "drep s (x # xs)" "data_at s (hp s) 8"
  shows "\<exists>t. mu_compile_comma s = Ret t \<and> drep t xs \<and> hp t = hp s + 8 \<and> rd64 (mem t) (hp s) = x"
  using assms ds.pop_1 [OF assms(1)] drep_write64 [OF ds.pop_1 [OF assms(1)], of "hp s" x] data_at_cong [of "DROP 1 s" s "hp s" 8]
  by (auto simp: mu_compile_comma_def mu_comma_def hp_put_def ds.get_0 ds.cells_rep store_def data_at_wacc
      rd64_wr64_same drep_def)

end
