(* ===== verification/InterpretClaims.thy ===== *)
theory InterpretClaims
  imports Consumers DictClaims
begin

text \<open>The properties of the tokeniser, each applied to a concrete process.\<close>

text \<open>C21: \<open>token\<close> splits the text ahead into white space, a token, one delimiter and the rest.
  It pushes the address and length of the token, which has no white space in it and is empty only
  if nothing but white space was ahead; the three parts recorded (skipped, parsed, trailing) are
  adjacent and cover exactly what was consumed; and the line counter grows by the newlines in
  them, the line of the token being taken after the leading white space.\<close>

theorem token_splits_text:
  assumes "text_at s (first s) bs" and "drep s xs" and "length xs + 2 \<le> 4064"
  shows "\<exists>s' sp w e bs'. mu_token s = Ret s' \<and> bs = sp @ w @ e @ bs' \<and>
    (\<forall>c \<in> set sp. is_space c) \<and> (\<forall>c \<in> set w. \<not> is_space c) \<and> (\<forall>c \<in> set e. is_space c) \<and>
    (w = [] \<longrightarrow> bs = sp) \<and> (e = [] \<longrightarrow> bs' = []) \<and>
    drep s' (of_nat (length w) # (first s + of_nat (length sp)) # xs) \<and>
    skipped s' = \<lparr>data = first s, len = of_nat (length sp)\<rparr> \<and>
    parsed s' = \<lparr>data = first s + of_nat (length sp), len = of_nat (length w)\<rparr> \<and>
    trailing s' = \<lparr>data = first s + of_nat (length sp) + of_nat (length w), len = of_nat (length e)\<rparr> \<and>
    text_at s' (first s') bs' \<and>
    rd64 (mem s') (lineno_at s) = rd64 (mem s) (lineno_at s) + of_nat (newlines (sp @ w @ e)) \<and>
    parsed_lineno s' = int_of_cell (rd64 (mem s) (lineno_at s) + of_nat (newlines sp))"
proof -
  let ?sp = "takeWhile is_space bs" and ?r = "dropWhile is_space bs"
  let ?t = "scanned 32 ?r (skipped_space bs s)"
  obtain s' where s': "mu_token s = Ret s'" "dframe ?t s'"
    "drep s' (of_nat (length (word_of 32 ?r)) # (first s + of_nat (length ?sp)) # xs)"
    "text_at s' (first s') (rest_of 32 ?r)"
    using mu_token_spec [OF assms] by blast
  have split: "bs = ?sp @ word_of 32 ?r @ eaten 32 ?r @ rest_of 32 ?r" by (simp add: split_text)
  have chars: "(\<forall>c \<in> set ?sp. is_space c) \<and> (\<forall>c \<in> set (word_of 32 ?r). \<not> is_space c) \<and>
      (\<forall>c \<in> set (eaten 32 ?r). is_space c)"
    by (auto dest: set_takeWhileD eaten_delim simp: word_of_def)
  have ends: "(word_of 32 ?r = [] \<longrightarrow> bs = ?sp) \<and> (eaten 32 ?r = [] \<longrightarrow> rest_of 32 ?r = [])"
    by (auto dest: word_empty eaten_empty)
  have line: "rd64 (mem s') (lineno_at s) = rd64 (mem s) (lineno_at s) +
      of_nat (newlines (?sp @ word_of 32 ?r @ eaten 32 ?r)) \<and>
      parsed_lineno s' = int_of_cell (rd64 (mem s) (lineno_at s) + of_nat (newlines ?sp))"
    using lineno_dframe [OF s'(2) text_scanned [OF text_skipped [OF assms(1)]]]
    by (simp add: lineno_scanned lineno_skipped [OF assms(1)] dframe_rest(13) [OF s'(2)])
  have parts: "skipped s' = \<lparr>data = first s, len = of_nat (length ?sp)\<rparr> \<and>
      parsed s' = \<lparr>data = first s + of_nat (length ?sp), len = of_nat (length (word_of 32 ?r))\<rparr> \<and>
      trailing s' = \<lparr>data = first s + of_nat (length ?sp) + of_nat (length (word_of 32 ?r)),
        len = of_nat (length (eaten 32 ?r))\<rparr>"
    by (simp add: dframe_rest(14-16) [OF s'(2)])
  from s'(1) split chars ends s'(3) parts s'(4) line show ?thesis by blast
qed

definition reading :: "byte list \<Rightarrow> mu" where
  "reading bs = (example (wr_bytes (\<lambda>_. 0) 0x500000 bs))\<lparr>endp := 0x500000 + of_nat (length bs)\<rparr>"

lemma reading_text:
  assumes "length bs \<le> 0x10000"
  shows "text_at (reading bs) 0x500000 bs"
proof -
  let ?m = "wr_bytes (\<lambda>_. 0) 0x500000 bs"
  have at: "read_only_at (reading bs) (0x500000 + of_nat i) \<and> ?m (0x500000 + of_nat i) = bs ! i \<and>
      disj 0x620000 8 (0x500000 + of_nat i) 1" if "i < length bs" for i
  proof -
    have i: "i < 0x10000" using that assms by simp
    then have u: "unat (0x500000 + of_nat i :: addr) = 0x500000 + i"
      by (subst unat_add_small) simp_all
    have "data_at (example ?m) (0x500000 + of_nat i) 1"
      by (rule example_data_at) (use u i in \<open>simp_all add: word_le_nat_alt\<close>)
    then have "read_only_at (reading bs) (0x500000 + of_nat i)"
      by (auto simp: read_only_at_def data_at_def reading_def list_ex_iff data_seg_def)
    moreover have "?m (0x500000 + of_nat i) = bs ! i"
      using that i by (simp add: wr_bytes_def unat_of_nat)
    moreover have "disj 0x620000 8 (0x500000 + of_nat i) 1"
      by (rule disj_above) (use u i in simp_all)
    ultimately show ?thesis by blast
  qed
  have "data_at (example ?m) 0x620000 8" by (rule example_data_at) simp_all
  then have "data_at (reading bs) 0x620000 8"
    by (subst data_at_cong [of _ "example ?m"]) (simp_all add: reading_def)
  with at assms show ?thesis by (simp add: text_at_def) (simp add: reading_def)
qed

theorem token_splits_text_witness:
  "\<exists>s' sp w e bs'. mu_token (reading [32, 100, 117, 112]) = Ret s' \<and> [32, 100, 117, 112 :: byte] = sp @ w @ e @ bs' \<and>
    parsed s' = \<lparr>data = 0x500000 + of_nat (length sp), len = of_nat (length w)\<rparr>"
proof -
  let ?s = "reading [32, 100, 117, 112]"
  have first: "first ?s = 0x500000" by (simp add: reading_def)
  have tx: "text_at ?s (first ?s) [32, 100, 117, 112]"
    using reading_text [of "[32, 100, 117, 112]"] by (simp add: first)
  have rep: "drep ?s []" using example_drep by (simp add: drep_def reading_def)
  have "length ([] :: cell list) + 2 \<le> 4064" by simp
  from token_splits_text [OF tx rep this] show ?thesis unfolding first by blast
qed

text \<open>C16: \<open>muboot_interpret\<close> feeds the words of the text ahead to the consumer, in order. If the
  text has no word left it returns, with the stack as it was. Otherwise it runs the consumer that
  \<open>state\<close> names on the address and length of the first word, with the cursor after it, and goes on
  from whatever process the consumer leaves, so that a consumer can move the cursor, change
  \<open>state\<close> or leave cells on the stack.\<close>

theorem interpret_next_word:
  assumes "text_at s (first s) bs" and "drep s xs" and "length xs + 2 \<le> 4064"
  shows "case words bs of
      [] \<Rightarrow> \<exists>s'. muboot_interpret ex (Suc n) s = Ret s' \<and> drep s' xs \<and> text_at s' (first s') []
    | w # ws \<Rightarrow> \<exists>s' a bs'. muboot_interpret ex (Suc n) s = bindo (consume ex (state s) s') (muboot_interpret ex n) \<and>
        drep s' (of_nat (length w) # a # xs) \<and> rd_bytes (mem s') a (length w) = w \<and>
        text_at s' (first s') bs' \<and> words bs' = ws"
proof -
  let ?r = "dropWhile is_space bs"
  let ?t = "scanned 32 ?r (skipped_space bs s)" and ?w = "word_of 32 ?r"
  obtain s' where s': "mu_token s = Ret s'" "dframe ?t s'"
    "drep s' (of_nat (length ?w) # (first s + of_nat (length (takeWhile is_space bs))) # xs)"
    "text_at s' (first s') (rest_of 32 ?r)"
    using mu_token_spec [OF assms] by blast
  have "length bs = length (takeWhile is_space bs @ ?w @ eaten 32 ?r @ rest_of 32 ?r)" by (simp add: split_text)
  then have "length ?w < 2 ^ 64" using text_at_short [OF assms(1)] by simp
  then have zero: "(of_nat (length ?w) :: cell) = 0 \<longleftrightarrow> length ?w = 0"
    by (simp add: word_unat_eq_iff unat_of_nat)
  have turn: "muboot_interpret ex (Suc n) s = (if length ?w = 0 then Ret (DROP 2 s')
      else bindo (consume ex (state s) s') (muboot_interpret ex n))"
    using s' ds.get_0 [OF s'(3)] ds.cells_rep [OF s'(3), of 1] dframe_rest(10) [OF s'(2)] zero
    by (simp add: interpret_turn)
  show ?thesis
  proof (cases "?r = []")
    case True
    then have "drep (DROP 2 s') xs" using ds.pop_2 [OF s'(3)] by simp
    moreover have "text_at (DROP 2 s') (first (DROP 2 s')) []"
      using text_at_dframe [OF _ s'(4), of "DROP 2 s'"] True by (simp add: rest_of_def)
    moreover have "?w = []" by (simp only: True word_of_simps)
    ultimately show ?thesis using turn words_end [OF True] by simp
  next
    case False
    with turn s'(3,4) token_bytes [OF assms(1) s'(2)] words_next [OF False] word_not_empty [OF False]
    show ?thesis by auto
  qed
qed

theorem interpret_next_word_witness:
  "\<exists>s' a bs'. muboot_interpret mu_do_colon 3 (reading [32, 100, 117, 112, 10, 46]) =
    bindo (consume mu_do_colon Interpret_Token s') (muboot_interpret mu_do_colon 2) \<and>
    drep s' [3, a] \<and> rd_bytes (mem s') a 3 = [100, 117, 112] \<and> text_at s' (first s') bs' \<and> words bs' = [[46]]"
proof -
  let ?bs = "[32, 100, 117, 112, 10, 46] :: byte list"
  let ?s = "reading ?bs"
  have first: "first ?s = 0x500000" and st: "state ?s = Interpret_Token" by (simp_all add: reading_def)
  have tx: "text_at ?s (first ?s) ?bs" using reading_text [of ?bs] by (simp add: first)
  have rep: "drep ?s []" using example_drep by (simp add: drep_def reading_def)
  have w: "words ?bs = [[100, 117, 112], [46]]" by (simp add: words.simps is_space_def)
  have "length ([] :: cell list) + 2 \<le> 4064" by simp
  from interpret_next_word [OF tx rep this, of mu_do_colon 2] show ?thesis
    unfolding w st by (simp add: numeral_3_eq_3)
qed

text \<open>What the two consumers do with a token.\<close>

lemma consumers_search:
  fixes s :: mu
  assumes "drep s (of_nat n # a # xs)" and "length xs + 3 \<le> 4064" and "token_ok s a n"
    and "chain_ok s (forth_chain s) fs" and "chain_ok s (compiler_chain s) cs" and "chain_ok s (runtime_chain s) rs"
    and "data_at s (hp s) 8"
  shows "(case lookup s fs a n of
      Some l \<Rightarrow> \<exists>t. consume ex Interpret_Token s = ex t \<and> dframe s t \<and> drep t (code_at l # xs)
    | None \<Rightarrow> \<exists>t. consume ex Interpret_Token s = mu_complain ex t \<and> dframe s t \<and> drep t (of_nat n # a # xs)) \<and>
    (case lookup s cs a n of
      Some l \<Rightarrow> \<exists>t. consume ex Compile_Token s = ex t \<and> dframe s t \<and> drep t (code_at l # xs)
    | None \<Rightarrow> (case lookup s rs a n of
        Some l \<Rightarrow> \<exists>t. consume ex Compile_Token s = Ret t \<and> drep t xs \<and> hp t = hp s + 8 \<and> rd64 (mem t) (hp s) = code_at l
      | None \<Rightarrow> \<exists>t. consume ex Compile_Token s = mu_complain ex t \<and> dframe s t \<and> drep t (of_nat n # a # xs)))"
proof (intro conjI)
  note chains = muboot_push_forth_chain_def muboot_push_compiler_chain_def muboot_push_runtime_chain_def
  show "case lookup s fs a n of
      Some l \<Rightarrow> \<exists>t. consume ex Interpret_Token s = ex t \<and> dframe s t \<and> drep t (code_at l # xs)
    | None \<Rightarrow> \<exists>t. consume ex Interpret_Token s = mu_complain ex t \<and> dframe s t \<and> drep t (of_nat n # a # xs)"
    using find_branch [OF assms(1-4), of ex "mu_complain ex"]
    by (force simp: muboot_interpret_token_def chains split: option.splits)
  let ?no = "\<lambda>s. bindo (muboot_push_runtime_chain s) (\<lambda>s. bindo (mu_find s) (if_popped mu_compile_comma (mu_complain ex)))"
  obtain t where t: "dframe s t" "drep t ((case lookup s cs a n of Some l \<Rightarrow> [code_at l] | None \<Rightarrow> [of_nat n, a]) @ xs)"
    "muboot_compile_token ex s = (case lookup s cs a n of Some _ \<Rightarrow> ex t | None \<Rightarrow> ?no t)"
    using find_branch [OF assms(1-3,5), of ex ?no] by (auto simp: muboot_compile_token_def chains)
  show "case lookup s cs a n of
      Some l \<Rightarrow> \<exists>t. consume ex Compile_Token s = ex t \<and> dframe s t \<and> drep t (code_at l # xs)
    | None \<Rightarrow> (case lookup s rs a n of
        Some l \<Rightarrow> \<exists>t. consume ex Compile_Token s = Ret t \<and> drep t xs \<and> hp t = hp s + 8 \<and> rd64 (mem t) (hp s) = code_at l
      | None \<Rightarrow> \<exists>t. consume ex Compile_Token s = mu_complain ex t \<and> dframe s t \<and> drep t (of_nat n # a # xs))"
  proof (cases "lookup s cs a n")
    case None
    with t have rep: "drep t (of_nat n # a # xs)" by simp
    have chain: "chain_ok t (runtime_chain t) rs"
      using chain_ok_dframe [OF t(1) assms(6)] dframe_rest(8) [OF t(1)] by simp
    obtain u where u: "dframe t u" "drep u ((case lookup s rs a n of Some l \<Rightarrow> [code_at l] | None \<Rightarrow> [of_nat n, a]) @ xs)"
      "?no t = (case lookup s rs a n of Some _ \<Rightarrow> mu_compile_comma u | None \<Rightarrow> mu_complain ex u)"
      using find_branch [OF rep assms(2) token_ok_dframe [OF t(1) assms(3)] chain, of mu_compile_comma "mu_complain ex"]
        lookup_dframe [OF t(1) assms(3,6)] by (auto simp: chains)
    note su = dframe_trans [OF t(1) u(1)]
    show ?thesis
    proof (cases "lookup s rs a n")
      case None
      with \<open>lookup s cs a n = None\<close> t(3) u su show ?thesis by auto
    next
      case (Some l)
      with u(2) have "drep u (code_at l # xs)" by simp
      moreover have "hp u = hp s" "data_at u (hp s) 8"
        using assms(7) dframe_rest(2) [OF su] data_at_dframe [OF su] by simp_all
      ultimately obtain v where "mu_compile_comma u = Ret v" "drep v xs" "hp v = hp s + 8" "rd64 (mem v) (hp s) = code_at l"
        using compile_comma_appends [of u "code_at l" xs] by auto
      with Some \<open>lookup s cs a n = None\<close> t(3) u(3) show ?thesis by simp
    qed
  qed (use t in auto)
qed

text \<open>C17: The two consumers. The interpreter executes the first entry of \<open>.forth.\<close> that has the token's
  name. The compiler executes the first such entry of \<open>.compiler.\<close>; if there is none it compiles
  the first such entry of \<open>.runtime.\<close>, that is, it appends the address of its code to the heap.
  When the last of its chains has no such entry, a consumer complains, with the token on the stack.\<close>

theorem consume_by_chains:
  fixes s :: mu
  assumes "drep s (of_nat n # a # xs)" and "length xs + 3 \<le> 4064" and "token_ok s a n"
    and "chain_ok s (forth_chain s) fs" and "chain_ok s (compiler_chain s) cs" and "chain_ok s (runtime_chain s) rs"
    and "data_at s (hp s) 8"
  shows "(case lookup s fs a n of
      Some l \<Rightarrow> \<exists>t. consume ex Interpret_Token s = ex t \<and> dframe s t \<and> drep t (code_at l # xs)
    | None \<Rightarrow> \<exists>t. consume ex Interpret_Token s = mu_complain ex t \<and> dframe s t \<and> drep t (of_nat n # a # xs)) \<and>
    (case lookup s cs a n of
      Some l \<Rightarrow> \<exists>t. consume ex Compile_Token s = ex t \<and> dframe s t \<and> drep t (code_at l # xs)
    | None \<Rightarrow> (case lookup s rs a n of
        Some l \<Rightarrow> \<exists>t. consume ex Compile_Token s = Ret t \<and> drep t xs \<and> hp t = hp s + 8 \<and> rd64 (mem t) (hp s) = code_at l
      | None \<Rightarrow> \<exists>t. consume ex Compile_Token s = mu_complain ex t \<and> dframe s t \<and> drep t (of_nat n # a # xs)))"
  by (rule consumers_search [OF assms])

text \<open>Compiling the token \<open>dup\<close>, which is an entry of \<open>.runtime.\<close>.\<close>

definition compiling :: mu where
  "compiling = (stacked [3, 0x500000] (example dup_mem))\<lparr>runtime_chain := 0x400000, hp := 0x200000\<rparr>"

lemma compiling_data: "0x100000 \<le> a \<Longrightarrow> unat a + n \<le> 0x900000 \<Longrightarrow> data_at compiling a n"
  using stacked_data_at [of "[3, 0x500000]" a n dup_mem] data_at_cong [of compiling "stacked [3, 0x500000] (example dup_mem)" a n]
  by (simp add: compiling_def)

lemma compiling_chains: "chain_ok compiling 0x400000 [0x100008]" "chain_ok compiling 0x400008 []"
proof -
  note d = dup_chain [of "[3, 0x500000]"]
  have m: "mem compiling = mem (stacked [3, 0x500000] (example dup_mem))" "segs compiling = example_segs"
    by (simp_all add: compiling_def)
  have "length (entry_name (mem compiling) 0x100008) = 3" using d(2) by (simp add: m del: length_entry_name)
  then have "name_len (mem compiling) 0x100008 = 3" by simp
  then show "chain_ok compiling 0x400000 [0x100008]"
    using d(1) by (simp add: chain_ok_def m compiling_data length_at_def)
  have "rd64 dup_mem 0x400008 = 0"
    by (simp add: dup_mem_def dict_mem_def rd64_def rd_bytes_def wr_bytes_def bytes_of_def byte_of_char_def upt_rec)
  then show "chain_ok compiling 0x400008 []"
    by (simp add: chain_ok_def m compiling_data stacked_rd64)
qed

theorem consume_by_chains_witness:
  "\<exists>t. consume mu_do_colon Compile_Token compiling = Ret t \<and> drep t [] \<and> hp t = 0x200008 \<and> rd64 (mem t) 0x200000 = 0x100010"
proof -
  have parts: "forth_chain compiling = 0x400000" "compiler_chain compiling = 0x400008" "runtime_chain compiling = 0x400000"
    "hp compiling = 0x200000" "match compiling = Strncmp"
    by (simp_all add: compiling_def)
  have rep: "drep compiling [of_nat 3, 0x500000]"
    using example_stacked(1) [of "[3, 0x500000]" dup_mem] by (simp add: compiling_def drep_def)
  have name: "rd_bytes (mem compiling) 0x500000 3 = [100, 117, 112]" "entry_name (mem compiling) 0x100008 = [100, 117, 112]"
    using dup_chain(2,3) [of "[3, 0x500000]"] by (simp_all add: compiling_def)
  then have "token_ok compiling 0x500000 3" "lookup compiling [] 0x500000 3 = None"
    "lookup compiling [0x100008] 0x500000 3 = Some 0x100008"
    by (simp_all add: token_ok_def compiling_data lookup_def parts same_name_def)
  with consume_by_chains [OF rep, of "[0x100008]" "[]" "[0x100008]" mu_do_colon] show ?thesis
    by (simp add: parts compiling_chains compiling_data code_at_def)
qed

text \<open>C18: A word that is not defined, that is, one that none of the chains of the consumer has, while either consumer is
  at work: if no handler is installed for \<open>abort\<close>, the process ends, with status 1 and a message that names the
  file being loaded, the line of the word, the word, and says that it isn't defined; if one is installed, it is
  executed, with the address of the text \<open>isn't defined\<close> in the place of the word on the stack.\<close>

theorem undefined_word_reported:
  fixes s :: mu
  assumes "drep s (of_nat n # a # xs)" and "length xs + 3 \<le> 4064" and "token_ok s a n"
    and "chain_ok s (forth_chain s) fs" and "chain_ok s (compiler_chain s) cs" and "chain_ok s (runtime_chain s) rs"
    and "case k of Interpret_Token \<Rightarrow> lookup s fs a n = None | Compile_Token \<Rightarrow> lookup s cs a n = None \<and> lookup s rs a n = None"
    and "parsed s = \<lparr>data = a, len = of_nat n\<rparr>" and "loading s f" and "data_at s (xt_abort_at s) 8" and "data_at s (hp s) 8"
    and "string_data s (lit s ''isn't defined'') (bytes_of ''isn't defined'')"
  defines "h \<equiv> rd64 (mem s) (xt_abort_at s)"
  shows "if h = 0
    then consume ex k s = Exit 1 (report f (parsed_lineno s) (rd_bytes (mem s) a n) (bytes_of ''isn't defined''))
    else \<exists>t. consume ex k s = ex t \<and> dframe s t \<and> drep t (h # lit s ''isn't defined'' # xs)"
proof -
  have "\<exists>t. consume ex k s = mu_complain ex t \<and> dframe s t \<and> drep t (of_nat n # a # xs)"
    using consumers_search [OF assms(1-6,11), of ex] assms(7) by (cases k) simp_all
  then obtain t where t: "dframe s t" "drep t (of_nat n # a # xs)" "consume ex k s = mu_complain ex t" by blast
  have abort: "data_at t (xt_abort_at t) 8" "rd64 (mem t) (xt_abort_at t) = h"
    using assms(10) data_at_dframe [OF t(1)] rd64_data_dframe [OF t(1) assms(10)] by (simp_all add: h_def dframe_rest(26) [OF t(1)])
  show ?thesis
  proof (cases "h = 0")
    case True
    then have "no_handler s" using assms(10) by (simp add: no_handler_def h_def)
    moreover have "parsed_token s (rd_bytes (mem s) a n)" using assms(3,8) by (simp add: parsed_token_def token_ok_def)
    moreover have "length xs < 4064" using assms(2) by simp
    ultimately show ?thesis
      using True complain_reports [OF t(2) _ no_handler_dframe [OF t(1)] loading_dframe [OF t(1) assms(9)]
          parsed_token_dframe [OF t(1)]] string_data_dframe [OF t(1) assms(12)] dframe_rest(13,22) [OF t(1)]
      by (simp add: t(3))
  next
    case False
    have "length xs + 2 \<le> 4064" using assms(2) by simp
    with complain_handled [OF t(2), of ex] abort False obtain v where
      "mu_complain ex t = ex v" "dframe t v" "drep v (h # lit t ''isn't defined'' # xs)" by metis
    then show ?thesis using False t(3) dframe_trans [OF t(1)] dframe_rest(22) [OF t(1)] by auto
  qed
qed

text \<open>The token \<open>foo\<close> on line 1, with an empty dictionary and the handler \<open>h\<close>.\<close>

definition foo_mem :: "addr \<Rightarrow> memory" where
  "foo_mem h = wr_bytes (wr_bytes (wr64 (\<lambda>_. 0) 0x620010 h) 0x500000 [102, 111, 111]) 0x600000 (bytes_of ''isn't defined'')"

definition foo :: "addr \<Rightarrow> mu" where
  "foo h = (stacked [3, 0x500000] (example (foo_mem h)))\<lparr>parsed := \<lparr>data = 0x500000, len = 3\<rparr>\<rparr>"

lemma foo_bytes: "rd_bytes (mem (foo h)) 0x500000 3 = [102, 111, 111]"
  "rd_bytes (mem (foo h)) 0x600000 14 = bytes_of ''isn't defined'' @ [0]"
proof -
  have "rd_bytes (foo_mem h) 0x500000 3 = [102, 111, 111]" "rd_bytes (foo_mem h) 0x600000 14 = bytes_of ''isn't defined'' @ [0]"
    by (simp_all add: foo_mem_def wr64_def rd_bytes_def wr_bytes_def bytes_of_def byte_of_char_def upt_rec)
  then show "rd_bytes (mem (foo h)) 0x500000 3 = [102, 111, 111]"
    "rd_bytes (mem (foo h)) 0x600000 14 = bytes_of ''isn't defined'' @ [0]"
    by (simp_all add: foo_def stacked_rd_bytes)
qed

lemma foo_cells: "rd64 (mem (foo h)) a = (if a = 0x620010 then h else 0)"
  if "a \<in> {0x400000, 0x400008, 0x400010, 0x620008, 0x620010}"
proof -
  have "rd64 (foo_mem h) a = (if a = 0x620010 then h else 0)"
    using that by (auto simp: foo_mem_def rd64_wr_bytes rd64_wr64_same rd64_wr64_sep sep_def rd64_zeroes disj_def bytes_of_def)
  with that show ?thesis by (auto simp: foo_def stacked_rd64)
qed

lemma foo_data: "0x100000 \<le> a \<Longrightarrow> unat a + n \<le> 0x900000 \<Longrightarrow> data_at (foo h) a n"
  using stacked_data_at [of "[3, 0x500000]" a n "foo_mem h"] data_at_cong [of "foo h" "stacked [3, 0x500000] (example (foo_mem h))" a n]
  by (simp add: foo_def)

theorem undefined_word_reported_witness:
  "consume mu_do_colon Interpret_Token (foo 0) = Exit 1 (''startup.mu4, line 1: foo isn't defined'' @ [CHR 0x0A]) \<and>
   (\<exists>t. consume mu_do_colon Compile_Token (foo 0x100018) = mu_do_colon t \<and> drep t [0x100018, 0x600000])"
proof -
  have parts: "segs (foo h) = example_segs" "forth_chain (foo h) = 0x400000" "compiler_chain (foo h) = 0x400008"
    "runtime_chain (foo h) = 0x400010" "match (foo h) = Strncmp" "lit (foo h) = (\<lambda>_. 0x600000)"
    "parsed (foo h) = \<lparr>data = 0x500000, len = 3\<rparr>" "xt_abort_at (foo h) = 0x620010" "being_loaded_at (foo h) = 0x620008"
    "parsed_lineno (foo h) = 1" "hp (foo h) = 0x100000" for h
    by (simp_all add: foo_def)
  have rep: "drep (foo h) [of_nat 3, 0x500000]" for h
    using example_stacked(1) [of "[3, 0x500000]" "foo_mem h"] by (simp add: foo_def)
  have len: "Suc (length (bytes_of ''isn't defined'')) = 14" and "0 \<notin> set (bytes_of ''isn't defined'')"
    by (simp_all add: bytes_of_def byte_of_char_def)
  then have "string_data (foo h) 0x600000 (bytes_of ''isn't defined'')" for h
    unfolding string_data_def cstring_at_def len using foo_bytes(2) foo_data [of "0x600000" 14] by (simp add: parts)
  then have msg: "string_data (foo h) (lit (foo h) ''isn't defined'') (bytes_of ''isn't defined'')" for h by (simp add: parts)
  have ok: "token_ok (foo h) 0x500000 3" "chain_ok (foo h) (forth_chain (foo h)) []" "chain_ok (foo h) (compiler_chain (foo h)) []"
    "chain_ok (foo h) (runtime_chain (foo h)) []" "loading (foo h) (bytes_of ''startup.mu4'')"
    "data_at (foo h) (xt_abort_at (foo h)) 8" "data_at (foo h) (hp (foo h)) 8"
    "parsed (foo h) = \<lparr>data = 0x500000, len = of_nat 3\<rparr>" "length ([] :: cell list) + 3 \<le> 4064" for h
    using foo_bytes(1) [of h] by (simp_all add: token_ok_def chain_ok_def loading_def parts foo_data foo_cells)
  have none: "case k of Interpret_Token \<Rightarrow> lookup (foo h) [] 0x500000 3 = None
      | Compile_Token \<Rightarrow> lookup (foo h) [] 0x500000 3 = None \<and> lookup (foo h) [] 0x500000 3 = None" for k h
    by (simp add: lookup_def split: consumer.splits)
  have undefined: "if h = 0
      then consume mu_do_colon k (foo h) = Exit 1 (report (bytes_of ''startup.mu4'') 1 [102, 111, 111] (bytes_of ''isn't defined''))
      else \<exists>t. consume mu_do_colon k (foo h) = mu_do_colon t \<and> dframe (foo h) t \<and> drep t [h, 0x600000]" for k h
    using undefined_word_reported [where s = "foo h" and ex = mu_do_colon and k = k, OF rep ok(9,1-4) none ok(8,5-7) msg] foo_bytes(1) [of h] foo_cells [of "0x620010" h]
    by (cases "h = 0") (simp_all add: parts del: consume.simps)
  have "[102, 111, 111] = bytes_of ''foo''" by (simp add: bytes_of_def byte_of_char_def)
  moreover have "digits 1 = ''1''" by code_simp
  ultimately show ?thesis
    using undefined [of 0 Interpret_Token] undefined [of "0x100018" Compile_Token] by (auto simp: foo_cells report_def decimal_def)
qed

end
