(* ===== verification/Crc16.thy ===== *)
theory Crc16
  imports State
begin

text \<open>
  \<open>crc16.c\<close>: two implementations of the CRC16-CCITT of a byte, the pointer that selects one,
  and the words that apply it to a byte and to a buffer. The two compute the same function.
\<close>

section \<open>The code\<close>

definition crc16_byte_thierry :: "16 word \<Rightarrow> byte \<Rightarrow> 16 word" where
  "crc16_byte_thierry crc b =
     (let x = (drop_bit 8 crc XOR ucast b) AND 0xff;
          x = x XOR drop_bit 4 x
      in push_bit 8 crc XOR push_bit 12 x XOR push_bit 5 x XOR x)"

definition xmodem_step :: "16 word \<Rightarrow> 16 word" where
  "xmodem_step crc = (if crc AND 0x8000 \<noteq> 0 then push_bit 1 crc XOR 0x1021 else push_bit 1 crc)"

definition crc16_byte_xmodem :: "16 word \<Rightarrow> byte \<Rightarrow> 16 word" where
  "crc16_byte_xmodem crc b = (xmodem_step ^^ 8) (crc XOR push_bit 8 (ucast b))"

text \<open>\<open>(*crc16_byte)(crc, b)\<close>\<close>

fun crc16_call :: "crc_function \<Rightarrow> 16 word \<Rightarrow> byte \<Rightarrow> 16 word" where
  "crc16_call Thierry = crc16_byte_thierry"
| "crc16_call Xmodem = crc16_byte_xmodem"

definition mu_c_crc16_thierry :: exec where
  "mu_c_crc16_thierry s = Ret (s\<lparr>crc16_byte := Thierry\<rparr>)"

definition mu_c_crc16_xmodem :: exec where
  "mu_c_crc16_xmodem s = Ret (s\<lparr>crc16_byte := Xmodem\<rparr>)"

definition mu_c_crc16_byte :: exec where
  "mu_c_crc16_byte s =
     (if stk 2 s
      then Ret (DROP 1 (set_ST 1 (ucast (crc16_call (crc16_byte s) (ucast (ST 1 s)) (ucast (ST 0 s)))) s))
      else Undef)"

fun crc16_buf :: "crc_function \<Rightarrow> 16 word \<Rightarrow> byte list \<Rightarrow> 16 word" where
  "crc16_buf f crc [] = crc"
| "crc16_buf f crc (p # ps) = crc16_buf f (crc16_call f crc p) ps"

definition mu_c_crc16_buf :: exec where
  "mu_c_crc16_buf s =
     (if stk 3 s \<and> racc (segs s) (ST 1 s) (unat (ST 0 s))
      then Ret (DROP 2 (set_ST 2 (ucast (crc16_buf (crc16_byte s) (ucast (ST 2 s))
             (rd_bytes (mem s) (ST 1 s) (unat (ST 0 s))))) s))
      else Undef)"

section \<open>The two implementations agree\<close>

lemma less_16: "n < 16 \<Longrightarrow> n = 0 \<or> n = 1 \<or> n = 2 \<or> n = 3 \<or> n = 4 \<or> n = 5 \<or> n = 6 \<or> n = 7 \<or>
    n = 8 \<or> n = 9 \<or> n = 10 \<or> n = 11 \<or> n = 12 \<or> n = 13 \<or> n = 14 \<or> n = (15 :: nat)"
  by presburger

lemma bits_of_masks:
  "n < 16 \<Longrightarrow> bit (0x1021 :: int) n \<longleftrightarrow> n = 0 \<or> n = 5 \<or> n = 12"
  "n < 16 \<Longrightarrow> bit (0xff :: int) n \<longleftrightarrow> n < 8"
  by (drule less_16; elim disjE; simp)+

lemma top_bit: "crc AND 0x8000 \<noteq> 0 \<longleftrightarrow> bit (crc :: 16 word) 15"
  using and_exp_eq_0_iff_not_bit [of crc 15] by simp

lemma xmodem_step_bit:
  "n < 16 \<Longrightarrow> bit (xmodem_step c) n \<longleftrightarrow>
    (0 < n \<and> bit c (n - 1)) \<noteq> (bit c 15 \<and> (n = 0 \<or> n = 5 \<or> n = 12))"
  by (auto simp: xmodem_step_def top_bit bit_word_double bit_simps bits_of_masks)

lemma xmodem_step_bits:
  "bit (xmodem_step c) 0 = bit c 15" "bit (xmodem_step c) (Suc 0) = bit c 0"
  "bit (xmodem_step c) 2 = bit c 1" "bit (xmodem_step c) 3 = bit c 2" "bit (xmodem_step c) 4 = bit c 3"
  "bit (xmodem_step c) 5 = (bit c 4 \<noteq> bit c 15)" "bit (xmodem_step c) 6 = bit c 5"
  "bit (xmodem_step c) 7 = bit c 6" "bit (xmodem_step c) 8 = bit c 7" "bit (xmodem_step c) 9 = bit c 8"
  "bit (xmodem_step c) 10 = bit c 9" "bit (xmodem_step c) 11 = bit c 10"
  "bit (xmodem_step c) 12 = (bit c 11 \<noteq> bit c 15)" "bit (xmodem_step c) 13 = bit c 12"
  "bit (xmodem_step c) 14 = bit c 13" "bit (xmodem_step c) 15 = bit c 14"
  by (simp_all add: xmodem_step_bit)

lemma eight_steps:
  "(f ^^ 8) c = f (f (f (f (f (f (f (f c)))))))"
  by (simp add: numeral_eq_Suc)

lemma thierry_is_xmodem: "crc16_byte_thierry = crc16_byte_xmodem"
proof (intro ext bit_word_eqI)
  fix crc :: "16 word" and b :: byte and n
  assume "n < LENGTH(16)"
  then have "n < 16" by simp
  from less_16 [OF this] show "bit (crc16_byte_thierry crc b) n \<longleftrightarrow> bit (crc16_byte_xmodem crc b) n"
    by (elim disjE; simp add: crc16_byte_thierry_def crc16_byte_xmodem_def Let_def eight_steps
        xmodem_step_bits bit_simps bits_of_masks; argo)
qed

section \<open>Buffers\<close>

lemma crc16_buf_append: "crc16_buf f crc (as @ bs) = crc16_buf f (crc16_buf f crc as) bs"
  by (induction as arbitrary: crc) auto

lemma crc16_buf_fold: "crc16_buf f crc bs = fold (\<lambda>b c. crc16_call f c b) bs crc"
  by (induction bs arbitrary: crc) auto

lemma crc16_buf_same: "crc16_buf Xmodem crc bs = crc16_buf Thierry crc bs"
  by (simp add: crc16_buf_fold thierry_is_xmodem)

text \<open>The bytes of the checksum, appended to the data, bring it to 0.\<close>

lemma thierry_high: "crc16_byte_thierry crc (ucast (drop_bit 8 crc)) = push_bit 8 crc"
proof -
  have "(drop_bit 8 crc XOR ucast (ucast (drop_bit 8 crc) :: byte)) AND 0xff = (0 :: 16 word)"
    by (rule bit_word_eqI) (auto simp: bit_simps bits_of_masks)
  then show ?thesis by (simp add: crc16_byte_thierry_def)
qed

lemma crc16_residue:
  "crc16_buf f crc (bs @ [ucast (drop_bit 8 (crc16_buf f crc bs)), ucast (crc16_buf f crc bs)]) = 0"
proof -
  have "crc16_buf Thierry crc (bs @ [ucast (drop_bit 8 (crc16_buf Thierry crc bs)), ucast (crc16_buf Thierry crc bs)]) = 0"
  proof -
    let ?c = "crc16_buf Thierry crc bs"
    have "ucast (drop_bit 8 (push_bit 8 ?c)) = (ucast ?c :: byte)"
      by (rule bit_word_eqI) (auto simp: bit_simps)
    with thierry_high [of "push_bit 8 ?c"] thierry_high [of ?c]
    have "crc16_byte_thierry (crc16_byte_thierry ?c (ucast (drop_bit 8 ?c))) (ucast ?c) = push_bit 8 (push_bit 8 ?c)"
      by simp
    also have "\<dots> = 0" by (rule bit_word_eqI) (auto simp: bit_simps)
    finally show ?thesis by (simp add: crc16_buf_append)
  qed
  then show ?thesis by (cases f) (simp_all add: crc16_buf_same)
qed

end
