(* ===== verification/Lfsr.thy ===== *)
theory Lfsr
  imports State "HOL-Library.While_Combinator"
begin

text \<open>
  \<open>lfsr.c\<close>: Galois and Fibonacci shift registers, run for a given number of steps or until they
  are back at all ones. Each step is a permutation of the register, so every register does come
  back and the loops that measure the period end, at the least number of steps.
\<close>

section \<open>The code\<close>

definition gal_step :: "'a::len word \<Rightarrow> 'a word \<Rightarrow> 'a word" where
  "gal_step taps bits = drop_bit 1 bits XOR (- (bits AND 1) AND taps)"

definition gal_mask :: "32 word" where
  "gal_mask = push_bit 31 1 OR push_bit 21 1 OR 3"

definition gal_two_mask :: "32 word" where
  "gal_two_mask = push_bit 31 1 OR push_bit 29 1 OR push_bit 25 1 OR push_bit 24 1"

definition gal64_mask :: "64 word" where
  "gal64_mask = push_bit 63 1 OR push_bit 62 1 OR push_bit 60 1 OR push_bit 59 1"

definition fib_step :: "32 word \<Rightarrow> 32 word" where
  "fib_step bits =
     (let b = (drop_bit 31 bits XOR drop_bit 21 bits XOR drop_bit 1 bits XOR bits) AND 1
      in push_bit 1 bits + b)"

text \<open>\<open>while (count-- > 0)\<close>, the loop body being one step.\<close>

fun lfsr_run :: "('w \<Rightarrow> 'w) \<Rightarrow> nat \<Rightarrow> 'w \<Rightarrow> 'w" where
  "lfsr_run step 0 bits = bits"
| "lfsr_run step (Suc count) bits = lfsr_run step count (step bits)"

definition lfsr_word :: "('a::len word \<Rightarrow> 'a word) \<Rightarrow> 'b vm_scheme \<Rightarrow> 'b vm_scheme outcome" where
  "lfsr_word step s =
     (if stk 2 s
      then (let count = unat (ST 0 s); bits = ucast (ST 1 s)
            in Ret (set_ST 0 (ucast (lfsr_run step count bits)) (DROP 1 s)))
      else Undef)"

text \<open>\<open>do ... while (bits != 0xffffffff)\<close>, counting the steps.\<close>

definition lfsr_period :: "('a::len word \<Rightarrow> 'a word) \<Rightarrow> (64 word \<times> 'a word) option" where
  "lfsr_period step =
     while_option (\<lambda>(count, bits). bits \<noteq> - 1) (\<lambda>(count, bits). (count + 1, step bits)) (1, step (- 1))"

definition lfsr_length_word :: "('a::len word \<Rightarrow> 'a word) \<Rightarrow> 'b vm_scheme \<Rightarrow> 'b vm_scheme outcome" where
  "lfsr_length_word step s = (case lfsr_period step of None \<Rightarrow> Timeout | Some (count, bits) \<Rightarrow> push count s)"

definition mu_lfsr_gal_length :: "'b vm_scheme action" where
  "mu_lfsr_gal_length = lfsr_length_word (gal_step gal_mask)"

definition mu_lfsr_gal :: "'b vm_scheme action" where
  "mu_lfsr_gal = lfsr_word (gal_step gal_mask)"

definition mu_lfsr_fib_length :: "'b vm_scheme action" where
  "mu_lfsr_fib_length = lfsr_length_word fib_step"

definition mu_lfsr_fib :: "'b vm_scheme action" where
  "mu_lfsr_fib = lfsr_word fib_step"

definition mu_lfsr_gal_two_length :: "'b vm_scheme action" where
  "mu_lfsr_gal_two_length = lfsr_length_word (gal_step gal_two_mask)"

definition mu_lfsr_gal_two :: "'b vm_scheme action" where
  "mu_lfsr_gal_two = lfsr_word (gal_step gal_two_mask)"

definition mu_lfsr_gal64 :: "'b vm_scheme action" where
  "mu_lfsr_gal64 = lfsr_word (gal_step gal64_mask)"

section \<open>Shift registers\<close>

lemma lfsr_run_funpow: "lfsr_run step n bits = (step ^^ n) bits"
  by (induction n arbitrary: bits) (simp_all add: funpow_swap1)

text \<open>The least number of steps after which \<open>x\<close> is back.\<close>

definition orbit_length :: "('w \<Rightarrow> 'w) \<Rightarrow> 'w \<Rightarrow> nat" where
  "orbit_length step x = (LEAST n. 0 < n \<and> (step ^^ n) x = x)"

text \<open>The interface: a step that can be undone, and that keeps 0.\<close>

locale shift_register =
  fixes step unstep :: "'a::len word \<Rightarrow> 'a word"
  assumes undo: "unstep (step bits) = bits"
    and zero: "step 0 = 0"
begin

lemma step_inj: "step x = step y \<Longrightarrow> x = y"
  using undo by metis

lemma funpow_inj: "(step ^^ n) x = (step ^^ n) y \<Longrightarrow> x = y"
  by (induction n) (auto dest: step_inj)

lemma never_zero: "x \<noteq> 0 \<Longrightarrow> (step ^^ n) x \<noteq> 0"
  by (induction n) (use step_inj zero in auto)

lemma comes_back: "\<exists>n. 0 < n \<and> n \<le> 2 ^ LENGTH('a) \<and> (step ^^ n) x = x"
proof -
  have "\<not> inj_on (\<lambda>n. (step ^^ n) x) {0..2 ^ LENGTH('a)}"
  proof
    assume "inj_on (\<lambda>n. (step ^^ n) x) {0..2 ^ LENGTH('a)}"
    then have "card {0..2 ^ LENGTH('a) :: nat} \<le> card (UNIV :: 'a word set)"
      by (rule card_inj_on_le) auto
    then show False by (simp add: card_word)
  qed
  then obtain i j :: nat where ij: "i < j" "j \<le> 2 ^ LENGTH('a)" "(step ^^ i) x = (step ^^ j) x"
    by (auto simp: inj_on_def) (metis linorder_neqE_nat)
  have "(step ^^ j) x = (step ^^ i) ((step ^^ (j - i)) x)"
    using ij(1) funpow_add [of i "j - i" step] by simp
  with ij(3) have "x = (step ^^ (j - i)) x" using funpow_inj by metis
  with ij show ?thesis by (intro exI [of _ "j - i"]) auto
qed

lemma orbit:
  "0 < orbit_length step x" "orbit_length step x \<le> 2 ^ LENGTH('a)" "(step ^^ orbit_length step x) x = x"
  "0 < k \<Longrightarrow> k < orbit_length step x \<Longrightarrow> (step ^^ k) x \<noteq> x"
proof -
  from comes_back [of x] obtain n where n: "0 < n \<and> (step ^^ n) x = x" "n \<le> 2 ^ LENGTH('a)" by blast
  from LeastI [of "\<lambda>n. 0 < n \<and> (step ^^ n) x = x", OF n(1)]
  show "0 < orbit_length step x" "(step ^^ orbit_length step x) x = x"
    by (simp_all add: orbit_length_def)
  show "orbit_length step x \<le> 2 ^ LENGTH('a)"
    using Least_le [of "\<lambda>n. 0 < n \<and> (step ^^ n) x = x", OF n(1)] n(2) by (simp add: orbit_length_def)
  show "(step ^^ k) x \<noteq> x" if "0 < k" "k < orbit_length step x"
    using not_less_Least [of k "\<lambda>n. 0 < n \<and> (step ^^ n) x = x"] that by (auto simp: orbit_length_def)
qed

text \<open>The period is a multiple of nothing shorter: every return is after a whole number of turns.\<close>

lemma loop_from:
  "k + Suc j = orbit_length step (- 1) \<Longrightarrow>
    while_option (\<lambda>(count :: 64 word, bits). bits \<noteq> - 1) (\<lambda>(count, bits). (count + 1, step bits))
      (of_nat (Suc k), (step ^^ Suc k) (- 1)) = Some (of_nat (orbit_length step (- 1)), - 1)"
proof (induction j arbitrary: k)
  case 0
  then have k: "Suc k = orbit_length step (- 1)" by simp
  have "(step ^^ Suc k) (- 1) = - 1" unfolding k by (rule orbit(3))
  then show ?case by (subst while_option_unfold) (simp del: funpow.simps add: k [symmetric])
next
  case (Suc j)
  have "(step ^^ Suc k) (- 1) \<noteq> - 1"
    by (rule orbit(4)) (use Suc.prems in simp_all)
  then show ?case
    using Suc.IH [of "Suc k"] Suc.prems by (subst while_option_unfold) (simp add: add.commute)
qed

lemma period_terminates: "lfsr_period step = Some (of_nat (orbit_length step (- 1)), - 1)"
  using loop_from [of 0 "orbit_length step (- 1) - 1"] orbit(1) [of "- 1"] by (simp add: lfsr_period_def)

end

section \<open>The registers of the program\<close>

text \<open>A Galois step is undone if the taps include the top bit, which then shows the bit that was
  shifted out.\<close>

definition gal_unstep :: "'a::len word \<Rightarrow> 'a word \<Rightarrow> 'a word" where
  "gal_unstep taps y =
     (if bit y (LENGTH('a) - 1) then push_bit 1 (y XOR taps) OR 1 else push_bit 1 y)"

lemma bit_lowest: "- (x AND 1) = (if bit x 0 then - 1 else (0 :: 'a::len word))"
  by (simp add: and_one_eq mod2_eq_if bit_0)

lemma bit_gal_step:
  "n < LENGTH('a) \<Longrightarrow> bit (gal_step taps x) n \<longleftrightarrow> bit x (Suc n) \<noteq> (bit x 0 \<and> bit (taps :: 'a::len word) n)"
  unfolding gal_step_def bit_lowest by (auto simp: bit_simps)

lemma gal_undo:
  assumes "bit (taps :: 'a::len word) (LENGTH('a) - 1)"
  shows "gal_unstep taps (gal_step taps x) = x"
proof (rule bit_word_eqI)
  fix n assume n: "n < LENGTH('a)"
  have pos: "LENGTH('a) - 1 < LENGTH('a)" by simp
  have "\<not> bit x (Suc (LENGTH('a) - 1))" using bit_imp_le_length [of x "LENGTH('a)"] by auto
  then have top: "bit (gal_step taps x) (LENGTH('a) - 1) \<longleftrightarrow> bit x 0"
    using assms bit_gal_step [OF pos, of taps x] by metis
  show "bit (gal_unstep taps (gal_step taps x)) n \<longleftrightarrow> bit x n"
    unfolding gal_unstep_def top using n
    by (cases n) (auto simp: bit_simps bit_gal_step bit_word_double)
qed

lemma gal_zero: "gal_step taps 0 = 0"
  by (simp add: gal_step_def)

interpretation gal: shift_register "gal_step gal_mask" "gal_unstep gal_mask"
  by unfold_locales (simp_all add: gal_undo gal_zero gal_mask_def bit_simps)

interpretation gal_two: shift_register "gal_step gal_two_mask" "gal_unstep gal_two_mask"
  by unfold_locales (simp_all add: gal_undo gal_zero gal_two_mask_def bit_simps)

interpretation gal64: shift_register "gal_step gal64_mask" "gal_unstep gal64_mask"
  by unfold_locales (simp_all add: gal_undo gal_zero gal64_mask_def bit_simps)

definition fib_unstep :: "32 word \<Rightarrow> 32 word" where
  "fib_unstep y = drop_bit 1 y OR
     (if (bit y 0 \<noteq> bit y 22) \<noteq> (bit y 2 \<noteq> bit y 1) then push_bit 31 1 else 0)"

lemma bit_fib_step:
  "n < 32 \<Longrightarrow> bit (fib_step x) n \<longleftrightarrow>
    (if n = 0 then (bit x 31 \<noteq> bit x 21) \<noteq> (bit x 1 \<noteq> bit x 0) else bit x (n - 1))"
proof -
  let ?b = "(drop_bit 31 x XOR drop_bit 21 x XOR drop_bit 1 x XOR x) AND 1"
  have "push_bit 1 x + ?b = push_bit 1 x OR ?b"
    by (rule disjunctive_add_eq_or) (rule bit_word_eqI, auto simp: bit_simps bit_1_iff bit_word_double)
  then show "n < 32 \<Longrightarrow> ?thesis"
    by (auto simp: fib_step_def Let_def bit_simps bit_1_iff bit_word_double)
qed

lemma bit_31: "bit (0x80000000 :: int) n \<longleftrightarrow> n = 31"
  using bit_exp_iff [of 31 n, where ?'a = int] by simp

lemma fib_undo: "fib_unstep (fib_step x) = x"
proof (rule bit_word_eqI)
  fix n assume "n < LENGTH(32)"
  then have n: "n < 32" by simp
  show "bit (fib_unstep (fib_step x)) n \<longleftrightarrow> bit x n"
    using n bit_imp_le_length [of "fib_step x" 32]
    by (cases "n = 31") (auto simp: fib_unstep_def bit_simps bit_fib_step bit_31)
qed

interpretation fib: shift_register fib_step fib_unstep
  by unfold_locales (simp_all add: fib_undo, simp add: fib_step_def)

end
