(* ===== verification/Tty.thy ===== *)
theory Tty
  imports Syscalls
begin

text \<open>
  \<open>tty.c\<close>: terminal settings, modem lines, and draining. The layout of \<open>struct termios\<close> and the
  constants are those of Linux; \<open>cfmakeraw\<close> and \<open>cfsetspeed\<close> do what their manual page says.
\<close>

section \<open>\<open>struct termios\<close>\<close>

definition sizeof_termios :: cell where "sizeof_termios = 60"

definition c_iflag :: "addr \<Rightarrow> addr" where "c_iflag pti = pti"
definition c_oflag :: "addr \<Rightarrow> addr" where "c_oflag pti = pti + 4"
definition c_cflag :: "addr \<Rightarrow> addr" where "c_cflag pti = pti + 8"
definition c_lflag :: "addr \<Rightarrow> addr" where "c_lflag pti = pti + 12"
definition c_cc :: "addr \<Rightarrow> addr \<Rightarrow> addr" where "c_cc pti i = pti + 17 + i"
definition c_ispeed :: "addr \<Rightarrow> addr" where "c_ispeed pti = pti + 52"
definition c_ospeed :: "addr \<Rightarrow> addr" where "c_ospeed pti = pti + 56"

definition VTIME :: addr where "VTIME = 5"
definition VMIN :: addr where "VMIN = 6"

definition OPOST :: cint where "OPOST = 0x1"
definition ISIG :: cint where "ISIG = 0x1"
definition ICANON :: cint where "ICANON = 0x2"
definition ECHO :: cint where "ECHO = 0x8"
definition ECHONL :: cint where "ECHONL = 0x40"
definition IEXTEN :: cint where "IEXTEN = 0x8000"
definition CSIZE :: cint where "CSIZE = 0x30"
definition CS8 :: cint where "CS8 = 0x30"
definition PARENB :: cint where "PARENB = 0x100"
definition PARODD :: cint where "PARODD = 0x200"
definition CLOCAL :: cint where "CLOCAL = 0x800"
definition CRTSCTS :: cint where "CRTSCTS = 0x80000000"
definition IGNPAR :: cint where "IGNPAR = 0x4"
definition CBAUD :: cint where "CBAUD = 0x100F"
text \<open>\<open>IGNBRK | BRKINT | PARMRK | ISTRIP | INLCR | IGNCR | ICRNL | IXON\<close>\<close>
definition raw_iflags :: cint where "raw_iflags = 0x5EB"

definition TCSANOW :: cell where "TCSANOW = 0"
definition TCIFLUSH :: cell where "TCIFLUSH = 0"
definition TIOCMGET :: cell where "TIOCMGET = 0x5415"
definition TIOCMSET :: cell where "TIOCMSET = 0x5418"
definition TIOCM_DTR :: cell where "TIOCM_DTR = 2"
definition TIOCM_RTS :: cell where "TIOCM_RTS = 4"
definition TIOCGWINSZ :: cell where "TIOCGWINSZ = 0x5413"
definition FIONREAD :: cell where "FIONREAD = 0x541B"

text \<open>\<open>*a = f(*a)\<close> for an \<open>unsigned int\<close>\<close>

definition modify32 :: "addr \<Rightarrow> (cint \<Rightarrow> cint) \<Rightarrow> exec" where
  "modify32 a f s = bindo (load32 a s) (\<lambda>v. store32 a (f v) s)"

definition set_bits :: "addr \<Rightarrow> cint \<Rightarrow> exec" where
  "set_bits a b = modify32 a (\<lambda>v. v OR b)"

definition clear_bits :: "addr \<Rightarrow> cint \<Rightarrow> exec" where
  "clear_bits a b = modify32 a (\<lambda>v. v AND NOT b)"

definition cfmakeraw :: "addr \<Rightarrow> exec" where
  "cfmakeraw pti s =
     bindo (clear_bits (c_iflag pti) raw_iflags s) (\<lambda>s.
     bindo (clear_bits (c_oflag pti) OPOST s) (\<lambda>s.
     bindo (clear_bits (c_lflag pti) (ECHO OR ECHONL OR ICANON OR ISIG OR IEXTEN) s) (\<lambda>s.
     bindo (modify32 (c_cflag pti) (\<lambda>v. v AND NOT (CSIZE OR PARENB) OR CS8) s) (\<lambda>s.
     bindo (store_byte (c_cc pti VMIN) 1 s) (\<lambda>s.
     store_byte (c_cc pti VTIME) 0 s)))))"

definition cfsetspeed :: "addr \<Rightarrow> cint \<Rightarrow> exec" where
  "cfsetspeed pti speed s =
     bindo (modify32 (c_cflag pti) (\<lambda>v. v AND NOT CBAUD OR speed) s) (\<lambda>s.
     bindo (store32 (c_ispeed pti) speed s) (\<lambda>s. store32 (c_ospeed pti) speed s))"

section \<open>Terminals\<close>

definition mu_isatty_q :: exec where
  "mu_isatty_q s =
     (if \<not> stk 1 s then Undef
      else bindo (syscall (Call ''isatty'' [as_int (ST 0 s)] []) s) (\<lambda>(r, s). Ret (set_ST 0 (- r) s)))"

definition mu_get_termios :: "exec \<Rightarrow> exec" where
  "mu_get_termios ex s =
     (if \<not> stk 2 s then Undef
      else bindo (syscall (Call ''tcgetattr'' [as_int (ST 1 s), ST 0 s] []) s) (\<lambda>(r, s).
        if r = - 1 then abort_strerror ex s else Ret (set_ST 0 sizeof_termios (DROP 1 s))))"

definition mu_set_termios :: "exec \<Rightarrow> exec" where
  "mu_set_termios ex s =
     (if \<not> stk 2 s then Undef
      else bindo (load_bytes (ST 0 s) (unat sizeof_termios) s) (\<lambda>bs.
        bindo (syscall (Call ''tcsetattr'' [as_int (ST 1 s), TCSANOW, ST 0 s] bs) s) (\<lambda>(r, s).
        if r = - 1 then abort_strerror ex s else Ret (DROP 2 s))))"

definition mu_tty_width :: "exec \<Rightarrow> exec" where
  "mu_tty_width ex s =
     (if \<not> stk 1 s then Undef
      else let fd = as_int (ST 0 s) in
        bindo (syscall (Call ''isatty'' [fd] []) s) (\<lambda>(r, s).
        if r = 0 then Ret (set_ST 0 80 s)
        else bindo (syscall (Call ''ioctl'' [fd, TIOCGWINSZ, local_at s ''tty_size''] []) s) (\<lambda>(r, s).
          if r = - 1 then abort_strerror ex s
          else bindo (load16 (local_at s ''tty_size.ws_col'') s) (\<lambda>w. Ret (set_ST 0 (ucast w) s)))))"

section \<open>Changing settings\<close>

definition set_termios_raw :: "addr \<Rightarrow> exec" where
  "set_termios_raw pti s = cfmakeraw pti s"

definition mu_set_termios_user_raw :: exec where
  "mu_set_termios_user_raw s =
     (if \<not> stk 1 s then Undef
      else let pti = ST 0 s in
        bindo (set_termios_raw pti s) (\<lambda>s.
        bindo (set_bits (c_oflag pti) OPOST s) (\<lambda>s.
        bindo (set_bits (c_lflag pti) ISIG s) (\<lambda>s.
        bindo (store_byte (c_cc pti VMIN) 1 s) (\<lambda>s.
        bindo (store_byte (c_cc pti VTIME) 0 s) (\<lambda>s. Ret (DROP 1 s)))))))"

definition mu_set_termios_target_raw :: exec where
  "mu_set_termios_target_raw s =
     (if \<not> stk 1 s then Undef
      else let pti = ST 0 s in
        bindo (set_termios_raw pti s) (\<lambda>s.
        bindo (clear_bits (c_cflag pti) CRTSCTS s) (\<lambda>s.
        bindo (set_bits (c_cflag pti) CLOCAL s) (\<lambda>s.
        bindo (store_byte (c_cc pti VMIN) 1 s) (\<lambda>s.
        bindo (store_byte (c_cc pti VTIME) 0 s) (\<lambda>s. Ret (DROP 1 s)))))))"

definition mu_set_termios_polling :: exec where
  "mu_set_termios_polling s =
     (if \<not> stk 1 s then Undef
      else let pti = ST 0 s in bindo (store_byte (c_cc pti VMIN) 0 s) (\<lambda>s. Ret (DROP 1 s)))"

text \<open>The \<open>switch\<close> on the speed.\<close>

definition bps :: "(cell \<times> cell) list" where
  "bps = [(4800, 0xC), (9600, 0xD), (19200, 0xE), (38400, 0xF), (57600, 0x1001), (115200, 0x1002), (230400, 0x1003)]"

definition mu_set_termios_speed :: "exec \<Rightarrow> exec" where
  "mu_set_termios_speed ex s =
     (if \<not> stk 2 s then Undef
      else let pti = ST 0 s in
        case map_of bps (ST 1 s) of
          None \<Rightarrow> abort_zmsg ex (lit s ''Unsupported speed'') s
        | Some b \<Rightarrow> let s = set_ST 1 b s in
            bindo (cfsetspeed pti (int_of_cell (ST 1 s)) s) (\<lambda>s. Ret (DROP 2 s)))"

definition mu_set_termios_ignore_parity :: exec where
  "mu_set_termios_ignore_parity s =
     (if \<not> stk 1 s then Undef
      else let pti = ST 0 s in bindo (set_bits (c_iflag pti) IGNPAR s) (\<lambda>s. Ret (DROP 1 s)))"

definition mu_set_termios_even_parity :: exec where
  "mu_set_termios_even_parity s =
     (if \<not> stk 1 s then Undef
      else let pti = ST 0 s in
        bindo (set_bits (c_cflag pti) PARENB s) (\<lambda>s.
        bindo (clear_bits (c_cflag pti) PARODD s) (\<lambda>s. Ret (DROP 1 s))))"

definition mu_set_termios_odd_parity :: exec where
  "mu_set_termios_odd_parity s =
     (if \<not> stk 1 s then Undef
      else let pti = ST 0 s in bindo (set_bits (c_cflag pti) (PARENB OR PARODD) s) (\<lambda>s. Ret (DROP 1 s)))"

section \<open>Modem lines and the rest\<close>

definition mu_modem_get :: "exec \<Rightarrow> exec" where
  "mu_modem_get ex s =
     (if \<not> stk 1 s then Undef
      else bindo (store32 (local_at s ''state'') 0 s) (\<lambda>s.
        bindo (syscall (Call ''ioctl'' [as_int (ST 0 s), TIOCMGET, local_at s ''state''] []) s) (\<lambda>(r, s).
        if r = - 1 then abort_strerror ex s
        else bindo (load32 (local_at s ''state'') s) (\<lambda>v. Ret (set_ST 0 (cell_of_int v) s)))))"

definition mu_modem_set :: "exec \<Rightarrow> exec" where
  "mu_modem_set ex s =
     (if \<not> stk 2 s then Undef
      else let state = int_of_cell (ST 1 s) in
        bindo (store32 (local_at s ''state'') state s) (\<lambda>s.
        bindo (syscall (Call ''ioctl'' [as_int (ST 0 s), TIOCMSET, local_at s ''state''] (le_bytes 4 state)) s) (\<lambda>(r, s).
        if r = - 1 then abort_strerror ex s else Ret (DROP 2 s))))"

definition mu_modem_dtr :: exec where "mu_modem_dtr s = push TIOCM_DTR s"
definition mu_modem_rts :: exec where "mu_modem_rts s = push TIOCM_RTS s"

text \<open>A call whose result is ignored, and \<open>DROP(1)\<close>.\<close>

definition call_and_drop :: "(cell \<Rightarrow> os_call) \<Rightarrow> exec" where
  "call_and_drop c s =
     (if \<not> stk 1 s then Undef else bindo (syscall (c (as_int (ST 0 s))) s) (\<lambda>(_, s). Ret (DROP 1 s)))"

definition mu_tty_send_break :: exec where
  "mu_tty_send_break = call_and_drop (\<lambda>fd. Call ''tcsendbreak'' [fd, 0] [])"

definition mu_tty_drain :: exec where
  "mu_tty_drain = call_and_drop (\<lambda>fd. Call ''tcdrain'' [fd] [])"

definition mu_tty_iflush :: exec where
  "mu_tty_iflush = call_and_drop (\<lambda>fd. Call ''tcflush'' [fd, TCIFLUSH] [])"

definition mu_tty_icount :: "exec \<Rightarrow> exec" where
  "mu_tty_icount ex s =
     (if \<not> stk 1 s then Undef
      else bindo (syscall (Call ''ioctl'' [as_int (ST 0 s), FIONREAD, SP s] []) s) (\<lambda>(r, s).
        if r = - 1 then abort_strerror ex s else Ret s))"

definition mu_ioctl :: "exec \<Rightarrow> exec" where
  "mu_ioctl ex s =
     (if \<not> stk 3 s then Undef
      else bindo (syscall (Call ''ioctl'' [as_int (ST 2 s), ST 1 s, ST 0 s] []) s) (\<lambda>(r, s).
        if r = - 1 then abort_strerror ex s else Ret (DROP 3 s)))"

section \<open>Monotone in the interpreter\<close>

lemma mono_get_termios [mono_intros]: "less_defined f g \<Longrightarrow> mu_get_termios f s \<le> mu_get_termios g s"
  unfolding mu_get_termios_def by (intro mono_intros)

lemma mono_set_termios [mono_intros]: "less_defined f g \<Longrightarrow> mu_set_termios f s \<le> mu_set_termios g s"
  unfolding mu_set_termios_def by (intro mono_intros)

lemma mono_tty_width [mono_intros]: "less_defined f g \<Longrightarrow> mu_tty_width f s \<le> mu_tty_width g s"
  unfolding mu_tty_width_def Let_def by (intro mono_intros)

lemma mono_set_termios_speed [mono_intros]:
  "less_defined f g \<Longrightarrow> mu_set_termios_speed f s \<le> mu_set_termios_speed g s"
  unfolding mu_set_termios_speed_def Let_def by (auto split: option.split intro!: mono_abort_zmsg)

lemma mono_modem_get [mono_intros]: "less_defined f g \<Longrightarrow> mu_modem_get f s \<le> mu_modem_get g s"
  unfolding mu_modem_get_def by (intro mono_intros)

lemma mono_modem_set [mono_intros]: "less_defined f g \<Longrightarrow> mu_modem_set f s \<le> mu_modem_set g s"
  unfolding mu_modem_set_def Let_def by (intro mono_intros)

lemma mono_tty_icount [mono_intros]: "less_defined f g \<Longrightarrow> mu_tty_icount f s \<le> mu_tty_icount g s"
  unfolding mu_tty_icount_def by (intro mono_intros)

lemma mono_ioctl [mono_intros]: "less_defined f g \<Longrightarrow> mu_ioctl f s \<le> mu_ioctl g s"
  unfolding mu_ioctl_def by (intro mono_intros)

text \<open>\<open>pty.c\<close>: opening a pseudo-terminal.\<close>

definition mu_open_pty :: "exec \<Rightarrow> exec" where
  "mu_open_pty ex s =
     bindo (syscall (Call ''posix_openpt'' [2] []) s) (\<lambda>(fd, s).
     if fd = - 1 then abort_strerror ex s
     else bindo (syscall (Call ''grantpt'' [fd] []) s) (\<lambda>(r, s).
     if r = - 1 then abort_strerror ex s
     else bindo (syscall (Call ''unlockpt'' [fd] []) s) (\<lambda>(r, s).
     if r = - 1 then abort_strerror ex s
     else bindo (syscall (Call ''ptsname'' [fd] []) s) (\<lambda>(slave, s).
     if slave = 0 then abort_strerror ex s
     else bindo (push fd s) (push slave)))))"

lemma mono_open_pty [mono_intros]: "less_defined f g \<Longrightarrow> mu_open_pty f s \<le> mu_open_pty g s"
  unfolding mu_open_pty_def by (intro mono_intros)

end
