(* ===== verification/Select.thy ===== *)
theory Select
  imports Syscalls
begin

text \<open>
  \<open>select.c\<close>: sets of file descriptors as bit vectors in memory, and waiting on them. An
  \<open>fd_set\<close> is 16 cells, and \<open>FD_SET\<close> on a descriptor outside 0..1023 is undefined.
\<close>

definition FD_SETSIZE :: nat where "FD_SETSIZE = 1024"

definition sizeof_fd_set :: cell where "sizeof_fd_set = 128"

text \<open>The cell and the bit of a descriptor.\<close>

definition fd_cell :: "addr \<Rightarrow> nat \<Rightarrow> addr" where
  "fd_cell p fd = p + of_nat (fd div 64) * 8"

definition fd_mask :: "nat \<Rightarrow> cell" where
  "fd_mask fd = push_bit (fd mod 64) 1"

definition fd_ok :: "cell \<Rightarrow> bool" where
  "fd_ok fd \<longleftrightarrow> unat fd < FD_SETSIZE"

definition FD_SET :: "nat \<Rightarrow> addr \<Rightarrow> exec" where
  "FD_SET fd p s = bindo (load (fd_cell p fd) s) (\<lambda>v. store (fd_cell p fd) (v OR fd_mask fd) s)"

definition FD_CLR :: "nat \<Rightarrow> addr \<Rightarrow> exec" where
  "FD_CLR fd p s = bindo (load (fd_cell p fd) s) (\<lambda>v. store (fd_cell p fd) (v AND NOT (fd_mask fd)) s)"

definition FD_ISSET :: "nat \<Rightarrow> addr \<Rightarrow> mu \<Rightarrow> bool outcome" where
  "FD_ISSET fd p s = bindo (load (fd_cell p fd) s) (\<lambda>v. Ret (v AND fd_mask fd \<noteq> 0))"

section \<open>The words\<close>

definition mu_fd_reset :: exec where
  "mu_fd_reset s =
     (if \<not> stk 1 s then Undef
      else bindo (memset0 (ST 0 s) sizeof_fd_set s) (\<lambda>s. Ret (set_ST 0 sizeof_fd_set s)))"

definition mu_fd_set :: exec where
  "mu_fd_set s =
     (if \<not> (stk 2 s \<and> fd_ok (ST 0 s)) then Undef
      else bindo (FD_SET (unat (ST 0 s)) (ST 1 s) s) (\<lambda>s. Ret (DROP 2 s)))"

definition mu_fd_clr :: exec where
  "mu_fd_clr s =
     (if \<not> (stk 2 s \<and> fd_ok (ST 0 s)) then Undef
      else bindo (FD_CLR (unat (ST 0 s)) (ST 1 s) s) (\<lambda>s. Ret (DROP 2 s)))"

definition mu_fd_in_set_q :: exec where
  "mu_fd_in_set_q s =
     (if \<not> (stk 2 s \<and> fd_ok (ST 0 s)) then Undef
      else bindo (FD_ISSET (unat (ST 0 s)) (ST 1 s) s) (\<lambda>b. Ret (DROP 1 (set_ST 1 (flag b) s))))"

definition mu_select :: "exec \<Rightarrow> exec" where
  "mu_select ex s =
     (if \<not> stk 5 s then Undef
      else let nfds = as_int (ST 4 s); readfds = ST 3 s; writefds = ST 2 s; exceptfds = ST 1 s; timeout = ST 0 s in
        bindo (retry (\<lambda>_. Call ''select'' [nfds, readfds, writefds, exceptfds, timeout] []) [EINTR] (DROP 4 s))
          (\<lambda>(count, s).
          if count = - 1 then abort_strerror ex s
          else if stk 1 s then Ret (set_ST 0 count s) else Undef))"

lemma mono_select [mono_intros]: "less_defined f g \<Longrightarrow> mu_select f s \<le> mu_select g s"
  unfolding mu_select_def Let_def by (intro mono_intros)

section \<open>A set of descriptors\<close>

text \<open>What the macros promise: the bits are a set of numbers.\<close>

locale fd_sets =
  fixes member :: "nat \<Rightarrow> 'm \<Rightarrow> bool"
    and insert_fd :: "nat \<Rightarrow> 'm \<Rightarrow> 'm"
    and remove_fd :: "nat \<Rightarrow> 'm \<Rightarrow> 'm"
    and size_fd :: nat
  assumes member_insert: "i < size_fd \<Longrightarrow> j < size_fd \<Longrightarrow> member i (insert_fd j m) \<longleftrightarrow> i = j \<or> member i m"
    and member_remove: "i < size_fd \<Longrightarrow> j < size_fd \<Longrightarrow> member i (remove_fd j m) \<longleftrightarrow> i \<noteq> j \<and> member i m"
begin

definition fds :: "'m \<Rightarrow> nat set" where
  "fds m = {i. i < size_fd \<and> member i m}"

lemma fds_insert: "j < size_fd \<Longrightarrow> fds (insert_fd j m) = insert j (fds m)"
  by (auto simp: fds_def member_insert)

lemma fds_remove: "j < size_fd \<Longrightarrow> fds (remove_fd j m) = fds m - {j}"
  by (auto simp: fds_def member_remove)

lemma fds_insert_remove: "j < size_fd \<Longrightarrow> j \<notin> fds m \<Longrightarrow> fds (remove_fd j (insert_fd j m)) = fds m"
  by (simp add: fds_insert fds_remove)

lemma fds_fold_insert: "\<forall>j \<in> set js. j < size_fd \<Longrightarrow> fds (fold insert_fd js m) = fds m \<union> set js"
  by (induction js arbitrary: m) (auto simp: fds_insert)

end

definition bit_member :: "addr \<Rightarrow> nat \<Rightarrow> memory \<Rightarrow> bool" where
  "bit_member p fd m \<longleftrightarrow> rd64 m (fd_cell p fd) AND fd_mask fd \<noteq> 0"

definition bit_insert :: "addr \<Rightarrow> nat \<Rightarrow> memory \<Rightarrow> memory" where
  "bit_insert p fd m = wr64 m (fd_cell p fd) (rd64 m (fd_cell p fd) OR fd_mask fd)"

definition bit_remove :: "addr \<Rightarrow> nat \<Rightarrow> memory \<Rightarrow> memory" where
  "bit_remove p fd m = wr64 m (fd_cell p fd) (rd64 m (fd_cell p fd) AND NOT (fd_mask fd))"

lemma bit_fd_mask: "bit (fd_mask fd) n \<longleftrightarrow> n = fd mod 64"
proof -
  have "fd mod 64 < 64" by simp
  then show ?thesis unfolding fd_mask_def by (auto simp: bit_simps)
qed

lemma and_fd_mask: "v AND fd_mask fd \<noteq> 0 \<longleftrightarrow> bit v (fd mod 64)"
proof
  assume "v AND fd_mask fd \<noteq> 0"
  then obtain n where "bit (v AND fd_mask fd) n" by (metis bit_eqI bit_0_eq bot_apply bot_bool_def)
  then show "bit v (fd mod 64)" by (auto simp: bit_and_iff bit_fd_mask)
next
  assume "bit v (fd mod 64)"
  then have "bit (v AND fd_mask fd) (fd mod 64)" by (simp add: bit_and_iff bit_fd_mask)
  then show "v AND fd_mask fd \<noteq> 0" by (metis bit_0_eq bot_apply bot_bool_def)
qed

lemma fd_cell_slot:
  assumes "i < FD_SETSIZE" "j < FD_SETSIZE"
  shows "rd64 (wr64 m (fd_cell p j) v) (fd_cell p i) = (if i div 64 = j div 64 then v else rd64 m (fd_cell p i))"
  using mem64.slot [of "i div 64" "j div 64" m p v] assms by (simp add: fd_cell_def FD_SETSIZE_def)

lemma same_bit: "i div 64 = j div 64 \<Longrightarrow> i mod 64 = j mod 64 \<longleftrightarrow> i = (j :: nat)"
  by (metis div_mult_mod_eq)

interpretation fdset: fd_sets "bit_member p" "bit_insert p" "bit_remove p" FD_SETSIZE for p
proof
  fix i j m
  assume ij: "i < FD_SETSIZE" "j < FD_SETSIZE"
  have mod: "i mod 64 < 64" by simp
  show "bit_member p i (bit_insert p j m) \<longleftrightarrow> i = j \<or> bit_member p i m"
    using same_bit [of i j] mod
    by (auto simp: bit_member_def bit_insert_def fd_cell_slot [OF ij] and_fd_mask bit_or_iff bit_fd_mask)
      (auto simp: fd_cell_def)
  show "bit_member p i (bit_remove p j m) \<longleftrightarrow> i \<noteq> j \<and> bit_member p i m"
    using same_bit [of i j] mod
    by (auto simp: bit_member_def bit_remove_def fd_cell_slot [OF ij] and_fd_mask bit_and_iff bit_not_iff bit_fd_mask)
      (auto simp: fd_cell_def)
qed

section \<open>The words are the operations of the set\<close>

lemma fd_cell_acc:
  assumes "data_at s p 128" "fd < FD_SETSIZE"
  shows "data_at s (fd_cell p fd) 8"
  unfolding fd_cell_def
  using data_at_part [of s p 128 "fd div 64 * 8" 8] assms by (simp add: FD_SETSIZE_def)

definition fd_members :: "addr \<Rightarrow> memory \<Rightarrow> nat set" where
  "fd_members p m = {fd. fd < FD_SETSIZE \<and> bit_member p fd m}"

lemma fd_members_fds: "fd_members p m = fdset.fds p m"
  by (simp add: fd_members_def fdset.fds_def)

lemma fd_members_dframe:
  assumes "dframe s t" "data_at s p 128"
  shows "fd_members p (mem t) = fd_members p (mem s)"
  using rd64_data_dframe [OF assms(1) fd_cell_acc [OF assms(2)]] by (auto simp: fd_members_def bit_member_def)

text \<open>The words that change a bit of the set.\<close>

lemma fd_change:
  assumes "drep s (of_nat fd # p # xs)" "data_at s p 128" "fd < FD_SETSIZE"
  shows "mu_fd_set s = Ret (DROP 2 (s\<lparr>mem := bit_insert p fd (mem s)\<rparr>))"
    and "mu_fd_clr s = Ret (DROP 2 (s\<lparr>mem := bit_remove p fd (mem s)\<rparr>))"
    and "drep (DROP 2 (s\<lparr>mem := bit_insert p fd (mem s)\<rparr>)) xs"
    and "drep (DROP 2 (s\<lparr>mem := bit_remove p fd (mem s)\<rparr>)) xs"
proof -
  note acc = fd_cell_acc [OF assms(2,3)]
  have fd: "unat (of_nat fd :: cell) = fd" using assms(3) by (simp add: unat_of_nat FD_SETSIZE_def)
  have args: "ST 0 s = of_nat fd" "ST (Suc 0) s = p" "stk 2 s" "fd_ok (of_nat fd)"
    using assms by (simp_all add: ds.get_rep ds.cells_rep fd_ok_def fd)
  show "mu_fd_set s = Ret (DROP 2 (s\<lparr>mem := bit_insert p fd (mem s)\<rparr>))"
    "mu_fd_clr s = Ret (DROP 2 (s\<lparr>mem := bit_remove p fd (mem s)\<rparr>))"
    using args acc by (simp_all add: mu_fd_set_def mu_fd_clr_def FD_SET_def FD_CLR_def load_def store_def
        data_at_racc data_at_wacc fd bit_insert_def bit_remove_def)
  show "drep (DROP 2 (s\<lparr>mem := bit_insert p fd (mem s)\<rparr>)) xs"
    "drep (DROP 2 (s\<lparr>mem := bit_remove p fd (mem s)\<rparr>)) xs"
    unfolding bit_insert_def bit_remove_def by (rule ds.pop_2, rule drep_write64 [OF assms(1) acc])+
qed

lemma fd_query:
  assumes "drep s (of_nat fd # p # xs)" "data_at s p 128" "fd < FD_SETSIZE"
  shows "\<exists>t. mu_fd_in_set_q s = Ret t \<and> dframe s t \<and> drep t (flag (fd \<in> fd_members p (mem s)) # xs)"
proof -
  note acc = fd_cell_acc [OF assms(2,3)]
  have fd: "unat (of_nat fd :: cell) = fd" using assms(3) by (simp add: unat_of_nat FD_SETSIZE_def)
  have args: "ST 0 s = of_nat fd" "ST (Suc 0) s = p" "stk 2 s" "fd_ok (of_nat fd)"
    using assms by (simp_all add: ds.get_rep ds.cells_rep fd_ok_def fd)
  let ?t = "DROP 1 (set_ST 1 (flag (fd \<in> fd_members p (mem s))) s)"
  have "mu_fd_in_set_q s = Ret ?t"
    using args acc assms(3)
    by (simp add: mu_fd_in_set_q_def FD_ISSET_def load_def data_at_racc fd fd_members_def bit_member_def)
  moreover have "drep ?t (flag (fd \<in> fd_members p (mem s)) # xs)"
    using ds.binary [OF assms(1)] by simp
  moreover have "dframe s ?t" using dframe_set_ST [OF assms(1), of 1] by simp
  ultimately show ?thesis by blast
qed

lemma fd_reset:
  assumes "drep s (p # xs)" "data_at s p 128"
  shows "\<exists>t. mu_fd_reset s = Ret t \<and> drep t (sizeof_fd_set # xs) \<and> fd_members p (mem t) = {}"
proof -
  let ?z = "s\<lparr>mem := wr_bytes (mem s) p (replicate 128 0)\<rparr>" and ?t = "set_ST 0 sizeof_fd_set"
  have z: "drep ?z (p # xs)" by (rule drep_write) (use assms in simp_all)
  have "mu_fd_reset s = Ret (?t ?z)"
    using assms by (simp add: mu_fd_reset_def memset0_def ds.get_0 ds.cells_rep data_at_wacc sizeof_fd_set_def)
  moreover have "drep (?t ?z) (sizeof_fd_set # xs)" using z by (rule ds.put_0)
  moreover have "fd_members p (mem (?t ?z)) = fd_members p (mem ?z)"
    by (rule fd_members_dframe [OF dframe_set_ST [OF z]]) (use data_at_cong [of ?z s p 128] assms(2) in simp_all)
  moreover have zero: "rd64 (mem ?z) (fd_cell p fd) = 0" if "fd < FD_SETSIZE" for fd
  proof -
    have b: "mem ?z (fd_cell p fd + of_nat i) = 0" if "i < 8" for i
    proof -
      have "fd div 64 < 16" using \<open>fd < FD_SETSIZE\<close> by (simp add: FD_SETSIZE_def less_mult_imp_div_less)
      with that have "fd div 64 * 8 + i < 128" by linarith
      then have "unat (of_nat (fd div 64 * 8 + i) :: addr) < 128"
        by (simp add: unat_of_nat del: of_nat_add of_nat_mult)
      moreover have "fd_cell p fd + of_nat i - p = of_nat (fd div 64 * 8 + i)" by (simp add: fd_cell_def)
      ultimately show ?thesis by (simp add: wr_bytes_def Let_def del: of_nat_add of_nat_mult)
    qed
    have "rd_bytes (mem ?z) (fd_cell p fd) 8 = replicate 8 0"
      by (rule nth_equalityI) (simp_all only: length_rd_bytes length_replicate nth_rd_bytes nth_replicate b)
    then show ?thesis by (simp add: rd64_def le_word_zeroes)
  qed
  from zero have "fd_members p (mem ?z) = {}" by (auto simp: fd_members_def bit_member_def)
  ultimately show ?thesis by auto
qed

text \<open>
  \<open>time.c\<close>: broken-down time, the clock, and sleeping. The C library fills the \<open>struct tm\<close>.
\<close>

definition tm_field :: "string \<Rightarrow> mu \<Rightarrow> cell outcome" where
  "tm_field f s = bindo (load32 (local_at s f) s) (\<lambda>v. Ret (cell_of_int v))"

text \<open>The nine cells, over the clock.\<close>

definition push_forth_time_from_libc_time :: "addr \<Rightarrow> exec" where
  "push_forth_time_from_libc_time tz s =
     (if \<not> (room 8 s \<and> stk 1 s) then Undef
      else let s = DROP (- 8) s in
        case cstrlen (segs s) (mem s) tz of None \<Rightarrow> Undef | Some n \<Rightarrow>
          let s = set_ST 1 tz (set_ST 0 (of_nat n) s) in
          bindo (tm_field ''tm.tm_sec'' s) (\<lambda>v. let s = set_ST 2 v s in
          bindo (tm_field ''tm.tm_min'' s) (\<lambda>v. let s = set_ST 3 v s in
          bindo (tm_field ''tm.tm_hour'' s) (\<lambda>v. let s = set_ST 4 v s in
          bindo (tm_field ''tm.tm_yday'' s) (\<lambda>v. let s = set_ST 5 v s in
          bindo (tm_field ''tm.tm_mday'' s) (\<lambda>v. let s = set_ST 6 v s in
          bindo (tm_field ''tm.tm_mon'' s) (\<lambda>v. let s = set_ST 7 v s in
          bindo (load32 (local_at s ''tm.tm_year'') s) (\<lambda>v.
            Ret (set_ST 8 (cell_of_int (v + 1900)) s)))))))))"

definition mu_local_time :: exec where
  "mu_local_time s =
     (if \<not> stk 1 s then Undef
      else let clock = ST 0 s in
        bindo (syscall (Call ''tzset'' [] []) s) (\<lambda>(_, s).
        bindo (syscall (Call ''localtime_r'' [clock, local_at s ''tm''] []) s) (\<lambda>(_, s).
        bindo (tm_field ''tm.tm_isdst'' s) (\<lambda>isdst.
        bindo (load (local_at s ''tzname'' + isdst * 8) s) (\<lambda>tz.
        push_forth_time_from_libc_time tz s)))))"

definition mu_utc :: exec where
  "mu_utc s =
     (if \<not> stk 1 s then Undef
      else let clock = ST 0 s in
        bindo (syscall (Call ''gmtime_r'' [clock, local_at s ''tm''] []) s) (\<lambda>(_, s).
        push_forth_time_from_libc_time (lit s ''UTC'') s))"

definition mu_push_clock :: exec where
  "mu_push_clock s = bindo (syscall (Call ''time'' [0] []) s) (\<lambda>(r, s). push r s)"

text \<open>The remaining time comes back in \<open>ts\<close>, so an interrupted sleep goes on with it.\<close>

definition timespec_bytes :: "mu \<Rightarrow> byte list" where
  "timespec_bytes s = rd_bytes (mem s) (local_at s ''ts'') 16"

definition mu_nanosleep :: "exec \<Rightarrow> exec" where
  "mu_nanosleep ex s =
     (if \<not> stk 2 s then Undef
      else bindo (store (local_at s ''ts'') (ST 1 s) s) (\<lambda>s.
        bindo (store (local_at s ''ts'' + 8) (ST 0 s) s) (\<lambda>s.
        bindo (retry (\<lambda>s. Call ''nanosleep'' [local_at s ''ts'', local_at s ''ts''] (timespec_bytes s)) [EINTR] s)
          (\<lambda>(r, s). if r = - 1 then abort_strerror ex s else Ret (DROP 2 s)))))"

lemma mono_nanosleep [mono_intros]: "less_defined f g \<Longrightarrow> mu_nanosleep f s \<le> mu_nanosleep g s"
  unfolding mu_nanosleep_def by (intro mono_intros)

end
