(* ===== verification/Boot.thy ===== *)
theory Boot
  imports File Interpret Kernel
begin

text \<open>
  Starting up: the part of \<open>interpret.c\<close> that loads a file, \<open>muforth.c\<close> and \<open>main.c\<close>. The fuel
  of the interpreter loop is an argument (\<open>fuel\<close>), and so are the run-time \<open>ex\<close> of the words, the
  address of \<open>mu_do_chain\<close> and the name tables the build generates.
\<close>

section \<open>Loading a file\<close>

definition muboot_load_file :: "exec \<Rightarrow> nat \<Rightarrow> exec" where
  "muboot_load_file ex fuel s =
     bindo (mu_r_slash_o s) (\<lambda>s.
     bindo (mu_open_file_q s) (\<lambda>s.
     bindo (mu_q_abort ex s) (\<lambda>s.
     if \<not> stk 1 s then Undef
     else let fd = as_int (ST 0 s) in
       bindo (mu_read_file ex s) (\<lambda>s.
       if \<not> stk 2 s then Undef
       else let s = s\<lparr>first := ST 1 s\<rparr>; s = s\<lparr>endp := first s + ST 0 s\<rparr> in
         bindo (store (lineno_at s) 1 s) (\<lambda>s.
         bindo (muboot_interpret ex fuel (DROP 2 s)) (\<lambda>s.
         bindo (push fd s) (mu_close_file ex)))))))"

lemma mono_muboot_load_file:
  assumes "less_defined f g" "\<And>s. muboot_interpret f n s \<le> muboot_interpret g m s"
  shows "muboot_load_file f n s \<le> muboot_load_file g m s"
  unfolding muboot_load_file_def Let_def by (intro mono_intros assms)

section \<open>\<open>muforth.c\<close>\<close>

definition init_stacks :: exec where
  "init_stacks s = bindo (mu_sp_reset s) (\<lambda>s. Ret (s\<lparr>RP := RP0 s\<rparr>))"

definition mu_push_build_time :: "cell \<Rightarrow> exec" where
  "mu_push_build_time build_time s = push build_time s"

definition mu_push_build_date :: exec where
  "mu_push_build_date s =
     bindo (push (lit s ''BUILD_DATE'') s) (\<lambda>s.
     case cstrlen (segs s) (mem s) (lit s ''BUILD_DATE'') of None \<Rightarrow> Undef | Some n \<Rightarrow> push (of_nat n) s)"

definition muforth_init :: "cell \<Rightarrow> name_tables \<Rightarrow> exec" where
  "muforth_init do_chain tables s = bindo (init_stacks s) (init_dict do_chain tables)"

definition muforth_start :: "exec \<Rightarrow> nat \<Rightarrow> exec" where
  "muforth_start ex fuel s =
     bindo (push (lit s ''startup.mu4'') s) (\<lambda>s.
     bindo (muboot_load_file ex fuel s) (\<lambda>s.
     bindo (push (lit s ''warm'') s) (\<lambda>s.
     bindo (push 4 s) (muboot_interpret_token ex))))"

section \<open>\<open>main.c\<close>\<close>

text \<open>\<open>while (argc--) { copied = string_copy(copied, *argv++); *copied++ = ' '; }\<close>\<close>

fun copy_args :: "nat \<Rightarrow> addr \<Rightarrow> addr \<Rightarrow> mu \<Rightarrow> (addr \<times> mu) outcome" where
  "copy_args 0 argv copied s = Ret (copied, s)"
| "copy_args (Suc argc) argv copied s =
     bindo (load argv s) (\<lambda>arg.
     bindo (string_copy copied arg s) (\<lambda>(copied, s).
     bindo (store_byte copied 32 s) (\<lambda>s. copy_args argc (argv + 8) (copied + 1) s)))"

definition convert_command_line :: "cint \<Rightarrow> addr \<Rightarrow> exec" where
  "convert_command_line argc argv s =
     bindo (mu_here s) (\<lambda>s.
     if \<not> stk 1 s then Undef
     else let copied = ST 0 s; s = DROP 1 (s\<lparr>cmd_line := (cmd_line s)\<lparr>data := copied\<rparr>\<rparr>) in
       bindo (copy_args (unat (argc - 1)) (argv + 8) copied s) (\<lambda>(copied, s).
       let s = s\<lparr>cmd_line := (cmd_line s)\<lparr>len := copied - data (cmd_line s)\<rparr>\<rparr> in
       bindo (push (len (cmd_line s)) s) mu_allot))"

definition mu_push_command_line :: exec where
  "mu_push_command_line s =
     bindo (push (data (cmd_line s)) s) (\<lambda>s. push (len (cmd_line s)) s)"

definition mu_bye :: exec where
  "mu_bye s = Exit 0 ''''"

text \<open>\<open>main\<close>; returning 0 from it exits.\<close>

definition main :: "exec \<Rightarrow> nat \<Rightarrow> cell \<Rightarrow> name_tables \<Rightarrow> cint \<Rightarrow> addr \<Rightarrow> exec" where
  "main ex fuel do_chain tables argc argv s =
     bindo (muforth_init do_chain tables s) (\<lambda>s.
     bindo (convert_command_line argc argv s) (\<lambda>s.
     bindo (muforth_start ex fuel s) (\<lambda>s. Exit 0 '''')))"

end
