(* ===== verification/UsbLinux.thy ===== *)
theory UsbLinux
  imports File
begin

text \<open>
  \<open>usb-linux.c\<close>: finding USB devices and HIDs by their vendor and product ids, and transfers. The
  structures have the layout of the Linux headers. The two nested searches of directories have
  their path buffers at different addresses, chosen by a name.
\<close>

section \<open>Structures passed to the kernel\<close>

fun store_fields :: "addr \<Rightarrow> (addr \<times> byte list) list \<Rightarrow> exec" where
  "store_fields a [] s = Ret s"
| "store_fields a ((i, bs) # fs) s = bindo (store_bytes (a + i) bs s) (store_fields a fs)"

text \<open>A call that gets the \<open>n\<close> bytes of a structure.\<close>

definition struct_call :: "string \<Rightarrow> cell list \<Rightarrow> addr \<Rightarrow> nat \<Rightarrow> mu \<Rightarrow> (cell \<times> mu) outcome" where
  "struct_call f args a n s = bindo (load_bytes a n s) (\<lambda>bs. syscall (Call f args bs) s)"

text \<open>A call that takes a path, as an \<open>int\<close> function.\<close>

definition path_call :: "string \<Rightarrow> addr \<Rightarrow> cell list \<Rightarrow> mu \<Rightarrow> (cell \<times> mu) outcome" where
  "path_call f path args = cstring_arg path (\<lambda>p. syscall (Call f (path # args) p))"

text \<open>A call whose result is ignored.\<close>

definition void_call :: "os_call \<Rightarrow> exec" where
  "void_call c s = bindo (syscall c s) (\<lambda>(_, s). Ret s)"

section \<open>Searching directories\<close>

definition USB_ROOT1 :: "mu \<Rightarrow> addr" where "USB_ROOT1 s = lit s ''/dev/bus/usb''"
definition USB_ROOT2 :: "mu \<Rightarrow> addr" where "USB_ROOT2 s = lit s ''/proc/bus/usb''"

definition USB_PATH_MAX :: cell where
  "USB_PATH_MAX = of_nat (length ''/proc/bus/usb'') + 16"

text \<open>\<open>pde->d_name\<close>\<close>

definition d_name :: "addr \<Rightarrow> addr" where "d_name pde = pde + 19"

type_synonym usb_match_fn = "addr \<Rightarrow> cint \<Rightarrow> cint \<Rightarrow> mu \<Rightarrow> (cint \<times> mu) outcome"
type_synonym path_ok_fn = "addr \<Rightarrow> mu \<Rightarrow> bool outcome"

definition dir_exists :: "addr \<Rightarrow> mu \<Rightarrow> (bool \<times> mu) outcome" where
  "dir_exists path s =
     bindo (path_call ''opendir'' path [] s) (\<lambda>(pdir, s).
     if pdir = 0 then Ret (False, s)
     else bindo (void_call (Call ''closedir'' [pdir] []) s) (\<lambda>s. Ret (True, s)))"

text \<open>The loop over the entries. Every turn takes an answer of the system, so that fuel greater
  than the number of answers is enough.\<close>

fun dirent_loop :: "nat \<Rightarrow> addr \<Rightarrow> addr \<Rightarrow> addr \<Rightarrow> path_ok_fn \<Rightarrow> usb_match_fn \<Rightarrow> cint \<Rightarrow> cint \<Rightarrow> mu \<Rightarrow> (cint \<times> mu) outcome" where
  "dirent_loop 0 pathbuf pdir path try_path fn vid pid s = Timeout"
| "dirent_loop (Suc n) pathbuf pdir path try_path fn vid pid s =
     bindo (syscall (Call ''readdir'' [pdir] []) s) (\<lambda>(pde, s).
     if pde = 0
     then bindo (void_call (Call ''closedir'' [pdir] []) s) (\<lambda>s. Ret (0, s))
     else bindo (try_path pde s) (\<lambda>ok.
       if \<not> ok then dirent_loop n pathbuf pdir path try_path fn vid pid s
       else bindo (concat_paths pathbuf USB_PATH_MAX path (d_name pde) s) (\<lambda>(_, s).
         bindo (fn pathbuf vid pid s) (\<lambda>(matched, s).
         if matched \<noteq> 0
         then bindo (void_call (Call ''closedir'' [pdir] []) s) (\<lambda>s. Ret (matched, s))
         else dirent_loop n pathbuf pdir path try_path fn vid pid s))))"

definition foreach_dirent :: "string \<Rightarrow> addr \<Rightarrow> path_ok_fn \<Rightarrow> usb_match_fn \<Rightarrow> cint \<Rightarrow> cint \<Rightarrow> mu \<Rightarrow> (cint \<times> mu) outcome" where
  "foreach_dirent frame path try_path fn vid pid s =
     bindo (path_call ''opendir'' path [] s) (\<lambda>(pdir, s).
     if pdir = 0 then Ret (- 1, s)
     else dirent_loop (Suc (length (script s))) (local_at s frame) pdir path try_path fn vid pid s)"

section \<open>Devices\<close>

definition USB_DT_DEVICE_SIZE :: cell where "USB_DT_DEVICE_SIZE = 18"

text \<open>\<open>__le16_to_cpu(dev_desc.idVendor) == vid && __le16_to_cpu(dev_desc.idProduct) == pid\<close>\<close>

definition ids_match :: "cint \<Rightarrow> cint \<Rightarrow> mu \<Rightarrow> bool outcome" where
  "ids_match vid pid s =
     (let dev_desc = local_at s ''dev_desc'' in
      bindo (load16 (dev_desc + 8) s) (\<lambda>idVendor.
      bindo (load16 (dev_desc + 10) s) (\<lambda>idProduct.
      Ret (ucast idVendor = vid \<and> ucast idProduct = pid))))"

definition match_device :: usb_match_fn where
  "match_device dev vid pid s =
     bindo (path_call ''open'' dev [O_RDONLY] s) (\<lambda>(fd, s).
     if fd = - 1 then Ret (0, s)
     else bindo (syscall (Call ''read'' [fd, local_at s ''dev_desc'', USB_DT_DEVICE_SIZE] []) s) (\<lambda>(count, s).
       if count \<noteq> USB_DT_DEVICE_SIZE then Ret (0, s)
       else bindo (void_call (Call ''close'' [fd] []) s) (\<lambda>s.
         bindo (ids_match vid pid s) (\<lambda>same.
         if same then bindo (path_call ''open'' dev [O_RDWR] s) (\<lambda>(fd, s). Ret (int_of_cell fd, s))
         else Ret (0, s)))))"

definition is_bus_or_dev :: path_ok_fn where
  "is_bus_or_dev pde s = bindo (load_byte (d_name pde) s) (\<lambda>c. Ret (48 \<le> c \<and> c \<le> 57))"

definition enumerate_devices :: usb_match_fn where
  "enumerate_devices bus vid pid = foreach_dirent ''pathbuf of a bus'' bus is_bus_or_dev match_device vid pid"

text \<open>What both searches do with their result.\<close>

definition push_matched :: "exec \<Rightarrow> cint \<Rightarrow> exec" where
  "push_matched ex matched s =
     (if matched <s 0 then abort_strerror ex s
      else if \<not> stk 2 s then Undef
      else if matched = 0 then Ret (set_ST 0 0 (DROP 1 s))
      else Ret (set_ST 0 (- 1) (set_ST 1 (cell_of_int matched) s)))"

definition mu_usb_find_device :: "exec \<Rightarrow> exec" where
  "mu_usb_find_device ex s =
     (if \<not> stk 2 s then Undef
      else let vid = int_of_cell (ST 1 s); pid = int_of_cell (ST 0 s);
               search = (\<lambda>root. foreach_dirent ''pathbuf'' root is_bus_or_dev enumerate_devices vid pid) in
        bindo (bindo (dir_exists (USB_ROOT1 s) s) (\<lambda>(found, s).
          if found then search (USB_ROOT1 s) s
          else bindo (dir_exists (USB_ROOT2 s) s) (\<lambda>(found, s).
            if found then search (USB_ROOT2 s) s else Ret (0, s))))
        (\<lambda>(matched, s). push_matched ex matched s))"

section \<open>Transfers\<close>

definition USBDEVFS_CONTROL :: cell where "USBDEVFS_CONTROL = 0xC0185500"
definition USBDEVFS_BULK :: cell where "USBDEVFS_BULK = 0xC0185502"
definition USBDEVFS_CLAIMINTERFACE :: cell where "USBDEVFS_CLAIMINTERFACE = 0x8004550F"
definition USBDEVFS_RELEASEINTERFACE :: cell where "USBDEVFS_RELEASEINTERFACE = 0x80045510"

text \<open>\<open>ioctl(TOP, request, &intf)\<close>\<close>

definition interface_ioctl :: "cell \<Rightarrow> exec \<Rightarrow> exec" where
  "interface_ioctl request ex s =
     (if \<not> stk 2 s then Undef
      else let intf = local_at s ''intf'' in
        bindo (store32 intf (int_of_cell (ST 1 s)) s) (\<lambda>s.
        bindo (struct_call ''ioctl'' [as_int (ST 0 s), request, intf] intf 4 s) (\<lambda>(r, s).
        if r = - 1 then abort_strerror ex s else Ret (DROP 2 s))))"

definition mu_usb_claim_interface :: "exec \<Rightarrow> exec" where
  "mu_usb_claim_interface = interface_ioctl USBDEVFS_CLAIMINTERFACE"

definition mu_usb_release_interface :: "exec \<Rightarrow> exec" where
  "mu_usb_release_interface = interface_ioctl USBDEVFS_RELEASEINTERFACE"

definition mu_usb_close :: "exec \<Rightarrow> exec" where
  "mu_usb_close ex s = mu_close_file ex s"

text \<open>The \<open>ioctl\<close> of a transfer that leaves a count, or 0 and an error.\<close>

definition transfer_count :: "cell \<Rightarrow> cell \<Rightarrow> addr \<Rightarrow> exec \<Rightarrow> exec" where
  "transfer_count fd request tr ex s =
     bindo (struct_call ''ioctl'' [fd, request, tr] tr 24 s) (\<lambda>(count, s).
     if \<not> stk 1 s then Undef
     else if count = - 1 then abort_strerror ex (set_ST 0 0 s)
     else Ret (set_ST 0 count s))"

definition mu_usb_control :: "exec \<Rightarrow> exec" where
  "mu_usb_control ex s =
     (if \<not> stk 7 s then Undef
      else let tr = local_at s ''tr''; fd = as_int (ST 0 s) in
        bindo (store_fields tr
          [(0, le_bytes 1 (ST 6 s)), (1, le_bytes 1 (ST 5 s)), (2, le_bytes 2 (ST 4 s)),
           (4, le_bytes 2 (ST 3 s)), (6, le_bytes 2 (ST 2 s)), (8, le_bytes 4 (4000 :: cell)),
           (16, le_bytes 8 (ST 1 s))] s) (\<lambda>s.
        transfer_count fd USBDEVFS_CONTROL tr ex (DROP 6 s)))"

definition bulk_fields :: "byte \<Rightarrow> mu \<Rightarrow> (addr \<times> byte list) list" where
  "bulk_fields ep s =
     [(0, le_bytes 4 (ucast ep :: cell)), (4, le_bytes 4 (ST 2 s)), (8, le_bytes 4 (4000 :: cell)),
      (16, le_bytes 8 (ST 3 s))]"

definition mu_usb_read_pipe :: "exec \<Rightarrow> exec" where
  "mu_usb_read_pipe ex s =
     (if \<not> stk 4 s then Undef
      else let tr = local_at s ''tr''; fd = as_int (ST 0 s); ep = ucast (ST 1 s) in
        bindo (store_fields tr (bulk_fields (ep OR 0x80) s) s) (\<lambda>s.
        transfer_count fd USBDEVFS_BULK tr ex (DROP 3 s)))"

definition mu_usb_write_pipe :: "exec \<Rightarrow> exec" where
  "mu_usb_write_pipe ex s =
     (if \<not> stk 4 s then Undef
      else let tr = local_at s ''tr''; fd = as_int (ST 0 s); ep = ucast (ST 1 s) in
        bindo (store_fields tr (bulk_fields (ep AND 0x7F) s) s) (\<lambda>s.
        bindo (struct_call ''ioctl'' [fd, USBDEVFS_BULK, tr] tr 24 (DROP 4 s)) (\<lambda>(r, s).
        if r = - 1 then abort_strerror ex s else Ret s)))"

section \<open>HIDs\<close>

definition HIDIOCGRAWINFO :: cell where "HIDIOCGRAWINFO = 0x80084803"
definition BUS_USB :: cint where "BUS_USB = 3"

text \<open>The ids of a \<open>struct hidraw_devinfo\<close> are signed.\<close>

definition hid_ids_match :: "cint \<Rightarrow> cint \<Rightarrow> mu \<Rightarrow> bool outcome" where
  "hid_ids_match vid pid s =
     (let hid = local_at s ''hid'' in
      bindo (load32 hid s) (\<lambda>bustype.
      bindo (load16 (hid + 4) s) (\<lambda>vendor.
      bindo (load16 (hid + 6) s) (\<lambda>product.
      Ret (bustype = BUS_USB \<and> scast vendor = vid \<and> scast product = pid)))))"

definition match_hid :: usb_match_fn where
  "match_hid dev vid pid s =
     bindo (path_call ''open'' dev [O_RDONLY] s) (\<lambda>(fd, s).
     if fd = - 1 then Ret (0, s)
     else bindo (syscall (Call ''ioctl'' [fd, HIDIOCGRAWINFO, local_at s ''hid''] []) s) (\<lambda>(r, s).
       if r = - 1 then Ret (0, s)
       else bindo (void_call (Call ''close'' [fd] []) s) (\<lambda>s.
         bindo (hid_ids_match vid pid s) (\<lambda>same.
         if same then bindo (path_call ''open'' dev [O_RDWR] s) (\<lambda>(fd, s). Ret (int_of_cell fd, s))
         else Ret (0, s)))))"

text \<open>The loop over \<open>devnum\<close>, \<open>matched\<close> being the result of the last turn.\<close>

fun hidraw_loop :: "addr \<Rightarrow> byte list \<Rightarrow> cint \<Rightarrow> cint \<Rightarrow> cint \<Rightarrow> mu \<Rightarrow> (cint \<times> mu) outcome" where
  "hidraw_loop dev [] matched vid pid s = Ret (matched, s)"
| "hidraw_loop dev (devnum # ds) matched vid pid s =
     bindo (store_byte (dev + 11) devnum s) (\<lambda>s.
     bindo (match_hid dev vid pid s) (\<lambda>(matched, s).
     if matched \<noteq> 0 then Ret (matched, s) else hidraw_loop dev ds matched vid pid s))"

definition mu_hid_find_device :: "exec \<Rightarrow> exec" where
  "mu_hid_find_device ex s =
     (if \<not> stk 2 s then Undef
      else let dev_hidraw = local_at s ''dev_hidraw''; vid = int_of_cell (ST 1 s); pid = int_of_cell (ST 0 s) in
        bindo (store_bytes dev_hidraw (bytes_of ''/dev/hidrawX'' @ [0]) s) (\<lambda>s.
        bindo (hidraw_loop dev_hidraw [48, 49, 50, 51, 52, 53, 54, 55, 56, 57] 0 vid pid s) (\<lambda>(matched, s).
        push_matched ex matched s)))"

definition mu_hid_read :: "exec \<Rightarrow> exec" where
  "mu_hid_read ex s =
     (if \<not> stk 3 s then Undef
      else let buffer = ST 2 s; n = ST 1 s; fd = as_int (ST 0 s) in
        bindo (read_carefully ex fd buffer n (DROP 2 s)) (\<lambda>(count, s).
        if stk 1 s then Ret (set_ST 0 count s) else Undef))"

definition mu_hid_write :: "exec \<Rightarrow> exec" where
  "mu_hid_write ex s =
     (if \<not> stk 3 s then Undef
      else let buffer = ST 2 s; n = ST 1 s; fd = as_int (ST 0 s) in
        write_carefully ex fd buffer n (DROP 3 s))"

section \<open>Monotone in the interpreter\<close>

lemma mono_push_matched [mono_intros]: "less_defined f g \<Longrightarrow> push_matched f m s \<le> push_matched g m s"
  unfolding push_matched_def by (intro mono_intros)

lemma mono_usb_find_device [mono_intros]:
  "less_defined f g \<Longrightarrow> mu_usb_find_device f s \<le> mu_usb_find_device g s"
  unfolding mu_usb_find_device_def Let_def by (intro mono_intros)

lemma mono_interface_ioctl [mono_intros]:
  "less_defined f g \<Longrightarrow> interface_ioctl r f s \<le> interface_ioctl r g s"
  unfolding interface_ioctl_def Let_def by (intro mono_intros)

lemma mono_usb_claim_interface [mono_intros]:
  "less_defined f g \<Longrightarrow> mu_usb_claim_interface f s \<le> mu_usb_claim_interface g s"
  unfolding mu_usb_claim_interface_def by (intro mono_intros)

lemma mono_usb_release_interface [mono_intros]:
  "less_defined f g \<Longrightarrow> mu_usb_release_interface f s \<le> mu_usb_release_interface g s"
  unfolding mu_usb_release_interface_def by (intro mono_intros)

lemma mono_usb_close [mono_intros]: "less_defined f g \<Longrightarrow> mu_usb_close f s \<le> mu_usb_close g s"
  unfolding mu_usb_close_def by (intro mono_intros)

lemma mono_transfer_count [mono_intros]:
  "less_defined f g \<Longrightarrow> transfer_count fd r tr f s \<le> transfer_count fd r tr g s"
  unfolding transfer_count_def by (intro mono_intros)

lemma mono_usb_control [mono_intros]: "less_defined f g \<Longrightarrow> mu_usb_control f s \<le> mu_usb_control g s"
  unfolding mu_usb_control_def Let_def by (intro mono_intros)

lemma mono_usb_read_pipe [mono_intros]:
  "less_defined f g \<Longrightarrow> mu_usb_read_pipe f s \<le> mu_usb_read_pipe g s"
  unfolding mu_usb_read_pipe_def Let_def by (intro mono_intros)

lemma mono_usb_write_pipe [mono_intros]:
  "less_defined f g \<Longrightarrow> mu_usb_write_pipe f s \<le> mu_usb_write_pipe g s"
  unfolding mu_usb_write_pipe_def Let_def by (intro mono_intros)

lemma mono_hid_find_device [mono_intros]:
  "less_defined f g \<Longrightarrow> mu_hid_find_device f s \<le> mu_hid_find_device g s"
  unfolding mu_hid_find_device_def Let_def by (intro mono_intros)

lemma mono_hid_read [mono_intros]: "less_defined f g \<Longrightarrow> mu_hid_read f s \<le> mu_hid_read g s"
  unfolding mu_hid_read_def Let_def by (intro mono_intros)

lemma mono_hid_write [mono_intros]: "less_defined f g \<Longrightarrow> mu_hid_write f s \<le> mu_hid_write g s"
  unfolding mu_hid_write_def Let_def by (intro mono_intros)

end
