(* ===== verification/Words.thy ===== *)
theory Words
  imports ThreadRefine Crc16 Lfsr Tty Select Boot UsbLinux
begin

text \<open>
  The C functions that words can execute, as the build for Linux collects them into the name
  tables: a code field holds the address of one of them, which the linker chooses (\<open>symbol\<close>).
  This table is the code that the inner interpreter runs, so that everything \<open>EngineSpec\<close> proves
  of a monotone table holds of the program.
\<close>

section \<open>The functions\<close>

definition plain_words :: "(string \<times> exec) list" where
  "plain_words =
     [(''mu_nope'', mu_nope), (''mu_zzz'', mu_zzz), (''mu_plus'', mu_plus), (''mu_and'', mu_and),
      (''mu_or'', mu_or), (''mu_xor'', mu_xor), (''mu_negate'', mu_negate), (''mu_invert'', mu_invert),
      (''mu_2star'', mu_2star), (''mu_2slash'', mu_2slash), (''mu_u2slash'', mu_u2slash),
      (''mu_shift_left'', mu_shift_left), (''mu_ushift_right'', mu_ushift_right),
      (''mu_shift_right'', mu_shift_right), (''mu_cells'', mu_cells), (''mu_cell_slash'', mu_cell_slash),
      (''mu_cfetch'', mu_cfetch), (''mu_cstore'', mu_cstore), (''mu_fetch'', mu_fetch), (''mu_store'', mu_store),
      (''mu_plus_store'', mu_plus_store), (''mu_nth'', mu_nth), (''mu_dup'', mu_dup), (''mu_over'', mu_over),
      (''mu_swap'', mu_swap), (''mu_drop'', mu_drop), (''mu_2drop'', mu_2drop), (''mu_drops'', mu_drops),
      (''mu_uless'', mu_uless), (''mu_less'', mu_less), (''mu_0less'', mu_0less), (''mu_0equal'', mu_0equal),
      (''mu_depth'', mu_depth), (''mu_sp_reset'', mu_sp_reset), (''mu_push_s0'', mu_push_s0),
      (''mu_sp_fetch'', mu_sp_fetch), (''mu_sp_store'', mu_sp_store),
      (''mu_runtime_rp_fetch'', mu_runtime_rp_fetch), (''mu_runtime_rp_store'', mu_runtime_rp_store),
      (''mu_runtime_rp_plus_store'', mu_runtime_rp_plus_store), (''mu_star'', mu_star),
      (''mu_uslash_mod'', mu_uslash_mod), (''mu_slash_mod'', mu_slash_mod),
      (''mu_string_equal'', mu_string_equal), (''mu_cmove'', mu_cmove), (''mu_fill'', mu_fill),
      (''mu_zcount'', mu_zcount), (''mu_do_colon'', mu_do_colon), (''mu_do_does'', mu_do_does),
      (''mu_runtime_exit'', mu_runtime_exit), (''mu_runtime_lit_'', mu_runtime_lit'),
      (''mu_runtime_branch_'', mu_runtime_branch'), (''mu_runtime_equal_0branch_'', mu_runtime_equal_0branch'),
      (''mu_runtime_0branch_'', mu_runtime_0branch'), (''mu_runtime_q0branch_'', mu_runtime_q0branch'),
      (''mu_runtime_next_'', mu_runtime_next'), (''mu_runtime_do_'', mu_runtime_do'),
      (''mu_runtime_loop_'', mu_runtime_loop'), (''mu_runtime_plus_loop_'', mu_runtime_plus_loop'),
      (''mu_runtime_leave'', mu_runtime_leave), (''mu_runtime_qleave'', mu_runtime_qleave),
      (''mu_runtime_i'', mu_runtime_i), (''mu_runtime_j'', mu_runtime_j), (''mu_runtime_k'', mu_runtime_k),
      (''mu_runtime_rfetch'', mu_runtime_rfetch), (''mu_runtime_to_r'', mu_runtime_to_r),
      (''mu_runtime_r_from'', mu_runtime_r_from), (''mu_runtime_2rfetch'', mu_runtime_2rfetch),
      (''mu_runtime_2to_r'', mu_runtime_2to_r), (''mu_runtime_2r_from'', mu_runtime_2r_from),
      (''mu_runtime_push'', mu_runtime_push), (''mu_runtime_pop'', mu_runtime_pop),
      (''mu_runtime_2push'', mu_runtime_2push), (''mu_runtime_2pop'', mu_runtime_2pop),
      (''mu_runtime_rdrop'', mu_runtime_rdrop), (''mu_runtime_2rdrop'', mu_runtime_2rdrop),
      (''mu_runtime_shunt'', mu_runtime_shunt), (''mu_push_being_loaded'', mu_push_being_loaded),
      (''mu_push_tick_abort'', mu_push_tick_abort), (''mu_at_heap'', mu_at_heap),
      (''mu_size_heap'', mu_size_heap), (''mu_here'', mu_here), (''mu_comma'', mu_comma),
      (''mu_allot'', mu_allot), (''mu_aligned'', mu_aligned), (''mu_compile_comma'', mu_compile_comma),
      (''mu_runtime_compile'', mu_runtime_compile), (''mu_plus_case'', mu_plus_case),
      (''mu_minus_case'', mu_minus_case), (''mu_find'', mu_find), (''mu_unlinked_name_'', mu_unlinked_name'),
      (''mu_show'', mu_show), (''mu_do_chain'', mu_do_chain), (''mu_source_fetch'', mu_source_fetch),
      (''mu_source_store'', mu_source_store), (''mu_push_line'', mu_push_line), (''mu_at_line'', mu_at_line),
      (''mu_push_parsed'', mu_push_parsed), (''mu_empty_parsed'', mu_empty_parsed),
      (''mu_push_skipped'', mu_push_skipped), (''mu_push_trailing'', mu_push_trailing), (''mu_token'', mu_token),
      (''mu_parse'', mu_parse), (''mu_compiler_lbracket'', mu_compiler_lbracket), (''mu_rbracket'', mu_rbracket),
      (''mu_c_crc16_thierry'', mu_c_crc16_thierry), (''mu_c_crc16_xmodem'', mu_c_crc16_xmodem),
      (''mu_c_crc16_byte'', mu_c_crc16_byte), (''mu_c_crc16_buf'', mu_c_crc16_buf),
      (''mu_lfsr_gal_length'', mu_lfsr_gal_length), (''mu_lfsr_gal'', mu_lfsr_gal),
      (''mu_lfsr_fib_length'', mu_lfsr_fib_length), (''mu_lfsr_fib'', mu_lfsr_fib),
      (''mu_lfsr_gal_two_length'', mu_lfsr_gal_two_length), (''mu_lfsr_gal_two'', mu_lfsr_gal_two),
      (''mu_lfsr_gal64'', mu_lfsr_gal64), (''mu_open_file_q'', mu_open_file_q), (''mu_r_slash_o'', mu_r_slash_o),
      (''mu_w_slash_o'', mu_w_slash_o), (''mu_r_slash_w'', mu_r_slash_w), (''mu_nonblock'', mu_nonblock),
      (''mu_isatty_q'', mu_isatty_q), (''mu_set_termios_user_raw'', mu_set_termios_user_raw),
      (''mu_set_termios_target_raw'', mu_set_termios_target_raw),
      (''mu_set_termios_polling'', mu_set_termios_polling),
      (''mu_set_termios_ignore_parity'', mu_set_termios_ignore_parity),
      (''mu_set_termios_even_parity'', mu_set_termios_even_parity),
      (''mu_set_termios_odd_parity'', mu_set_termios_odd_parity), (''mu_modem_dtr'', mu_modem_dtr),
      (''mu_modem_rts'', mu_modem_rts), (''mu_tty_send_break'', mu_tty_send_break),
      (''mu_tty_drain'', mu_tty_drain), (''mu_tty_iflush'', mu_tty_iflush), (''mu_fd_reset'', mu_fd_reset),
      (''mu_fd_set'', mu_fd_set), (''mu_fd_clr'', mu_fd_clr), (''mu_fd_in_set_q'', mu_fd_in_set_q),
      (''mu_local_time'', mu_local_time), (''mu_utc'', mu_utc), (''mu_push_clock'', mu_push_clock),
      (''mu_push_build_date'', mu_push_build_date), (''mu_push_command_line'', mu_push_command_line),
      (''mu_bye'', mu_bye)]"

text \<open>Those that need an address or a constant of the build.\<close>

definition linked_words :: "(string \<Rightarrow> cell) \<Rightarrow> cell \<Rightarrow> (string \<times> exec) list" where
  "linked_words at build_time =
     [(''mu_set_colon_code'', mu_set_colon_code (at ''mu_do_colon'')),
      (''mu_set_does_code'', mu_set_does_code (at ''mu_do_does'')),
      (''mu_push_build_time'', mu_push_build_time build_time)]"

text \<open>Those that run the inner interpreter, to execute a word or to abort.\<close>

definition exec_words :: "exec \<Rightarrow> (string \<times> exec) list" where
  "exec_words ex =
     [(''mu_execute'', ex),
      (''mu_abort'', mu_abort ex), (''mu_q_abort'', mu_q_abort ex), (''mu_complain'', mu_complain ex),
      (''mu_huh_q'', mu_huh_q ex), (''mu_stat_file'', mu_stat_file ex), (''mu_create_file'', mu_create_file ex),
      (''mu_close_file'', mu_close_file ex), (''mu_read_file'', mu_read_file ex), (''mu_read'', mu_read ex),
      (''mu_write'', mu_write ex), (''mu_get_termios'', mu_get_termios ex),
      (''mu_set_termios'', mu_set_termios ex), (''mu_tty_width'', mu_tty_width ex),
      (''mu_set_termios_speed'', mu_set_termios_speed ex), (''mu_modem_get'', mu_modem_get ex),
      (''mu_modem_set'', mu_modem_set ex), (''mu_tty_icount'', mu_tty_icount ex), (''mu_ioctl'', mu_ioctl ex),
      (''mu_select'', mu_select ex), (''mu_nanosleep'', mu_nanosleep ex), (''mu_open_pty'', mu_open_pty ex),
      (''mu_usb_find_device'', mu_usb_find_device ex), (''mu_usb_claim_interface'', mu_usb_claim_interface ex),
      (''mu_usb_release_interface'', mu_usb_release_interface ex), (''mu_usb_close'', mu_usb_close ex),
      (''mu_usb_control'', mu_usb_control ex), (''mu_usb_read_pipe'', mu_usb_read_pipe ex),
      (''mu_usb_write_pipe'', mu_usb_write_pipe ex), (''mu_hid_find_device'', mu_hid_find_device ex),
      (''mu_hid_read'', mu_hid_read ex), (''mu_hid_write'', mu_hid_write ex)]"

text \<open>What the linker and the build decide: which function is at an address, and where one is.\<close>

record linked =
  symbol :: "cell \<Rightarrow> string option"
  at :: "string \<Rightarrow> cell"
  build_time :: cell

definition word_named :: "linked \<Rightarrow> exec \<Rightarrow> string \<Rightarrow> exec option" where
  "word_named l ex n =
     (case map_of (exec_words ex) n of
        Some a \<Rightarrow> Some a
      | None \<Rightarrow> (case map_of (linked_words (at l) (build_time l)) n of
          Some a \<Rightarrow> Some a
        | None \<Rightarrow> map_of plain_words n))"

definition code_at_address :: "linked \<Rightarrow> exec \<Rightarrow> cell \<Rightarrow> exec" where
  "code_at_address l ex c =
     (case symbol l c of
        None \<Rightarrow> (\<lambda>_. Undef)
      | Some n \<Rightarrow> (case word_named l ex n of None \<Rightarrow> (\<lambda>_. Undef) | Some a \<Rightarrow> a))"

text \<open>\<open>mu_execute\<close> on this code, with fuel.\<close>

definition execute :: "linked \<Rightarrow> nat \<Rightarrow> exec" where
  "execute l = mu_execute (code_at_address l)"

section \<open>The table is monotone\<close>

lemma exec_words_mono:
  assumes "less_defined f g"
  shows "list_all2 (rel_prod (=) less_defined) (exec_words f) (exec_words g)"
  unfolding exec_words_def
  by (simp add: less_defined_le le_fun_def) (use assms in \<open>auto simp: less_defined_le le_fun_def
    intro!: mono_intros [unfolded less_defined_le le_fun_def]\<close>)

lemma map_of_all2:
  assumes "list_all2 (rel_prod (=) R) xs ys"
  shows "rel_option R (map_of xs n) (map_of ys n)"
  using assms by (induction rule: list_all2_induct) auto

lemma word_named_mono:
  assumes "less_defined f g"
  shows "rel_option less_defined (word_named l f n) (word_named l g n)"
  using map_of_all2 [OF exec_words_mono [OF assms], of n]
  by (auto simp: word_named_def rel_option_iff option.rel_refl split: option.splits)

lemma code_at_address_mono:
  assumes "less_defined f g"
  shows "less_defined (code_at_address l f c) (code_at_address l g c)"
proof (cases "symbol l c")
  case (Some n)
  have "rel_option less_defined (word_named l f n) (word_named l g n)"
    by (rule word_named_mono [OF assms])
  then show ?thesis
    by (cases "word_named l f n"; cases "word_named l g n") (simp_all add: code_at_address_def Some)
qed (simp add: code_at_address_def)

interpretation words: code_table "code_at_address l" for l
  by unfold_locales (rule code_at_address_mono)

end
