(* ===== verification/ThreadLoops.thy ===== *)
theory ThreadLoops
  imports ThreadRefine
begin

text \<open>
  The loops that the compiler lays down around a body: for/next and do/loop, on the abstract
  machine of \<open>Threads\<close>.
\<close>

section \<open>Counting down\<close>

lemma of_nat_cell_nonzero: "0 < n \<Longrightarrow> n < 2 ^ 64 \<Longrightarrow> (of_nat n :: cell) \<noteq> 0"
proof -
  assume n: "0 < n" "n < 2 ^ 64"
  have "unat (of_nat n :: cell) = n" using n(2) by (simp add: unat_of_nat)
  with n(1) show ?thesis by (metis unat_0 less_irrefl)
qed

text \<open>\<open>next\<close> at address \<open>a\<close> branches back to \<open>t\<close>. The body, which runs from \<open>t\<close> to \<open>a\<close>, does
  \<open>f k\<close> to the data stack while the count on the return stack is \<open>k\<close>, and leaves the count.\<close>

lemma next_counts:
  assumes next_at: "P a = Some (INext t)"
    and body: "\<And>k ds. Q ds \<Longrightarrow> aruns P d (t, ds, k # rs) (a, f k ds, k # rs) \<and> Q (f k ds)"
    and Q: "\<And>ds. Q ds \<Longrightarrow> length ds \<le> 4064" and depth: "d \<le> length rs" "length rs < 4064"
  shows "n < 2 ^ 64 \<Longrightarrow> 0 < n \<Longrightarrow> Q ds \<Longrightarrow>
    aruns P d (t, ds, of_nat n # rs) (a + 16, fold f (map of_nat (rev [1..<Suc n])) ds, rs)"
proof (induction n arbitrary: ds)
  case 0
  then show ?case by simp
next
  case (Suc n)
  let ?k = "of_nat (Suc n) :: cell"
  have run: "aruns P d (t, ds, ?k # rs) (a, f ?k ds, ?k # rs)" and Q': "Q (f ?k ds)"
    using body [of ds ?k] Suc.prems by blast+
  have k: "?k - 1 = of_nat n" by simp
  show ?case
  proof (cases "n = 0")
    case True
    have "astep P (a, f ?k ds, ?k # rs) = Some (a + 16, f ?k ds, rs)"
      using True depth Q [OF Q'] next_at by (simp add: astep_def k)
    from aruns_trans [OF run aruns_step [OF _ this]] True depth show ?thesis by simp
  next
    case False
    have n: "(of_nat n :: cell) \<noteq> 0"
      by (rule of_nat_cell_nonzero) (use Suc.prems False in simp_all)
    have "astep P (a, f ?k ds, ?k # rs) = Some (t, f ?k ds, of_nat n # rs)"
      using n depth Q [OF Q'] next_at by (simp add: astep_def k)
    from aruns_trans [OF run aruns_step [OF _ this]] depth
    have one: "aruns P d (t, ds, ?k # rs) (t, f ?k ds, of_nat n # rs)" by simp
    have rest: "aruns P d (t, f ?k ds, of_nat n # rs)
        (a + 16, fold f (map of_nat (rev [1..<Suc n])) (f ?k ds), rs)"
      by (rule Suc.IH) (use Suc.prems False Q' in simp_all)
    have "fold f (map of_nat (rev [1..<Suc (Suc n)])) ds =
        fold f (map of_nat (rev [1..<Suc n])) (f ?k ds)"
      by simp
    then show ?thesis using aruns_trans [OF one rest] by (simp only:)
  qed
qed

section \<open>do ... loop\<close>

lemma loop_counts:
  assumes loop_at: "P a = Some (ILoop t)"
    and body: "\<And>c ds. Q ds \<Longrightarrow>
      aruns P d (t, ds, c # limit # e # rs) (a, f (c + limit) ds, c # limit # e # rs) \<and> Q (f (c + limit) ds)"
    and Q: "\<And>ds. Q ds \<Longrightarrow> length ds \<le> 4064" and depth: "d \<le> length rs" "length rs + 3 \<le> 4064"
  shows "n < 2 ^ 64 \<Longrightarrow> Q ds \<Longrightarrow>
    aruns P d (t, ds, (- of_nat (Suc n)) # limit # e # rs)
      (a + 16, fold f (map (\<lambda>j. limit - of_nat (Suc n) + of_nat j) [0..<Suc n]) ds, rs)"
proof (induction n arbitrary: ds)
  case 0
  let ?c = "- of_nat (Suc 0) :: cell"
  have run: "aruns P d (t, ds, ?c # limit # e # rs) (a, f (?c + limit) ds, ?c # limit # e # rs)"
    and Q': "Q (f (?c + limit) ds)"
    using body [of ds ?c] 0 by blast+
  have "astep P (a, f (?c + limit) ds, ?c # limit # e # rs) = Some (a + 16, f (?c + limit) ds, rs)"
    using depth Q [OF Q'] loop_at by (simp add: astep_def)
  from aruns_trans [OF run aruns_step [OF _ this]] depth show ?case by simp
next
  case (Suc n)
  let ?c = "- of_nat (Suc (Suc n)) :: cell"
  have run: "aruns P d (t, ds, ?c # limit # e # rs) (a, f (?c + limit) ds, ?c # limit # e # rs)"
    and Q': "Q (f (?c + limit) ds)"
    using body [of ds ?c] Suc.prems by blast+
  have c: "?c + 1 = - of_nat (Suc n)" by simp
  have n: "- (of_nat (Suc n) :: cell) \<noteq> 0"
    unfolding neg_equal_0_iff_equal by (rule of_nat_cell_nonzero) (use Suc.prems in simp_all)
  have "astep P (a, f (?c + limit) ds, ?c # limit # e # rs) =
      Some (t, f (?c + limit) ds, (- of_nat (Suc n)) # limit # e # rs)"
    using n c depth Q [OF Q'] loop_at by (simp add: astep_def)
  from aruns_trans [OF run aruns_step [OF _ this]] depth
  have one: "aruns P d (t, ds, ?c # limit # e # rs) (t, f (?c + limit) ds, (- of_nat (Suc n)) # limit # e # rs)"
    by simp
  have rest: "aruns P d (t, f (?c + limit) ds, (- of_nat (Suc n)) # limit # e # rs)
      (a + 16, fold f (map (\<lambda>j. limit - of_nat (Suc n) + of_nat j) [0..<Suc n]) (f (?c + limit) ds), rs)"
    by (rule Suc.IH) (use Suc.prems Q' in simp_all)
  have "map (\<lambda>j. limit - of_nat (Suc (Suc n)) + of_nat j) [0..<Suc (Suc n)] =
      (?c + limit) # map (\<lambda>j. limit - of_nat (Suc n) + of_nat j) [0..<Suc n]"
    by (subst upt_conv_Cons) (auto simp: map_Suc_upt [symmetric] simp del: upt_Suc)
  then show ?case using aruns_trans [OF one rest] by (simp only: fold_simps)
qed

section \<open>The whole constructs\<close>

text \<open>\<open>for\<close> compiles \<open>(?0branch)\<close> to the end of the loop and \<open>push\<close>; \<open>next\<close> compiles
  \<open>(next)\<close> back to the body.\<close>

definition for_next_at :: "thread \<Rightarrow> addr \<Rightarrow> addr \<Rightarrow> bool" where
  "for_next_at P a z \<longleftrightarrow>
     P a = Some (IQ0Branch (z + 16)) \<and> P (a + 16) = Some IToR \<and> P z = Some (INext (a + 24))"

text \<open>\<open>do\<close> compiles \<open>(do)\<close> and the address after the loop, for \<open>leave\<close>; \<open>loop\<close> compiles
  \<open>(loop)\<close> back to the body.\<close>

definition do_loop_at :: "thread \<Rightarrow> addr \<Rightarrow> addr \<Rightarrow> bool" where
  "do_loop_at P a z \<longleftrightarrow> P a = Some (IDo (z + 16)) \<and> P z = Some (ILoop (a + 16))"

definition body_effect :: "thread \<Rightarrow> nat \<Rightarrow> addr \<Rightarrow> addr \<Rightarrow> (cell list \<Rightarrow> bool) \<Rightarrow> cell list
    \<Rightarrow> (cell list \<Rightarrow> cell list) \<Rightarrow> bool" where
  "body_effect P d t z Q rs g \<longleftrightarrow>
     (\<forall>ds. Q ds \<longrightarrow> aruns P d (t, ds, rs) (z, g ds, rs) \<and> Q (g ds))"

lemma body_effectD:
  "body_effect P d t z Q rs g \<Longrightarrow> Q ds \<Longrightarrow> aruns P d (t, ds, rs) (z, g ds, rs) \<and> Q (g ds)"
  by (simp add: body_effect_def)

lemma for_next_runs:
  assumes code: "for_next_at P a z" and body: "\<And>k. body_effect P d (a + 24) z Q (k # rs) (f k)"
    and Q: "\<And>ds. Q ds \<Longrightarrow> length ds < 4064" and depth: "d < length rs" "length rs < 4064" and ds: "Q ds"
  shows "aruns P d (a, n # ds, rs) (z + 16, fold f (map of_nat (rev [1..<Suc (unat n)])) ds, rs)"
proof (cases "n = 0")
  case True
  have "astep P (a, n # ds, rs) = Some (z + 16, ds, rs)"
    using code True Q [OF ds] depth by (simp add: astep_def for_next_at_def)
  with True depth show ?thesis by (auto intro: aruns_step)
next
  case False
  have 1: "astep P (a, n # ds, rs) = Some (a + 16, n # ds, rs)"
    using code False Q [OF ds] depth by (simp add: astep_def for_next_at_def)
  have 2: "astep P (a + 16, n # ds, rs) = Some (a + 24, ds, n # rs)"
    using code Q [OF ds] depth by (simp add: astep_def for_next_at_def)
  have "aruns P d (a + 24, ds, of_nat (unat n) # rs)
      (z + 16, fold f (map of_nat (rev [1..<Suc (unat n)])) ds, rs)"
  proof (rule next_counts [of P z "a + 24" Q])
    show "P z = Some (INext (a + 24))" using code by (simp add: for_next_at_def)
    show "aruns P d (a + 24, xs, k # rs) (z, f k xs, k # rs) \<and> Q (f k xs)" if "Q xs" for k xs
      by (rule body_effectD [OF body that])
  qed (use Q ds depth False unat_less_64 [of n] in \<open>simp_all add: less_imp_le unat_gt_0\<close>)
  then have "aruns P d (a + 24, ds, n # rs)
      (z + 16, fold f (map of_nat (rev [1..<Suc (unat n)])) ds, rs)"
    by (simp del: upt_Suc)
  from aruns_trans [OF aruns_step [OF _ 2] this] depth
  have "aruns P d (a + 16, n # ds, rs) (z + 16, fold f (map of_nat (rev [1..<Suc (unat n)])) ds, rs)"
    by simp
  from aruns.more [OF _ 1 this] depth show ?thesis by simp
qed

definition loop_count :: "cell \<Rightarrow> cell \<Rightarrow> nat" where
  "loop_count start limit = (if start = limit then 2 ^ 64 else unat (limit - start))"

lemma loop_count_Suc:
  obtains n where "loop_count start limit = Suc n" "n < 2 ^ 64"
    "- of_nat (Suc n) = start - (limit :: cell)" "limit - of_nat (Suc n) = start"
proof -
  let ?n = "loop_count start limit - 1"
  have pos: "0 < loop_count start limit" and le: "loop_count start limit \<le> 2 ^ 64"
    using unat_less_64 [of "limit - start"] by (auto simp: loop_count_def unat_gt_0)
  have "(of_nat (2 ^ 64) :: cell) = 0" by (simp add: word_of_nat_eq_0_iff)
  then have val: "(of_nat (loop_count start limit) :: cell) = limit - start"
    by (auto simp: loop_count_def)
  have n: "Suc ?n = loop_count start limit" using pos by simp
  show ?thesis
    by (rule that [of ?n]) (use n le val in \<open>auto simp del: of_nat_Suc\<close>)
qed

lemma do_loop_runs:
  assumes code: "do_loop_at P a z"
    and body: "\<And>c. body_effect P d (a + 16) z Q (c # limit # (z + 16) # rs) (f (c + limit))"
    and Q: "\<And>ds. Q ds \<Longrightarrow> length ds \<le> 4064" and depth: "d < length rs" "length rs + 3 \<le> 4064" and ds: "Q ds"
  shows "aruns P d (a, start # limit # ds, rs)
    (z + 16, fold f (map (\<lambda>j. start + of_nat j) [0..<loop_count start limit]) ds, rs)"
proof -
  obtain n where n: "loop_count start limit = Suc n" "n < 2 ^ 64"
    "- of_nat (Suc n) = start - limit" "limit - of_nat (Suc n) = start"
    by (rule loop_count_Suc [of start limit])
  have 1: "astep P (a, start # limit # ds, rs) = Some (a + 16, ds, (start - limit) # limit # (z + 16) # rs)"
    using code Q [OF ds] depth by (simp add: astep_def do_loop_at_def)
  have "aruns P d (a + 16, ds, (- of_nat (Suc n)) # limit # (z + 16) # rs)
      (z + 16, fold f (map (\<lambda>j. limit - of_nat (Suc n) + of_nat j) [0..<Suc n]) ds, rs)"
    by (rule loop_counts [of P z "a + 16" Q])
      (use code body_effectD [OF body] Q ds depth n(2) in \<open>auto simp: do_loop_at_def\<close>)
  then have "aruns P d (a + 16, ds, (start - limit) # limit # (z + 16) # rs)
      (z + 16, fold f (map (\<lambda>j. start + of_nat j) [0..<Suc n]) ds, rs)"
    unfolding n(3,4) .
  with 1 depth show ?thesis unfolding n(1) by (auto intro: aruns.more)
qed

end
