(* ===== verification/EngineClaims.thy ===== *)
theory EngineClaims
  imports Words ThreadLoops Example
begin

text \<open>The properties of the inner interpreter, on the table of the program's own functions.\<close>

section \<open>Looking functions up\<close>

lemma code_at_symbol:
  "symbol l c = Some n \<Longrightarrow> word_named l ex n = Some a \<Longrightarrow> code_at_address l ex c = a"
  by (simp add: code_at_address_def)

lemma named_words:
  "word_named l ex ''mu_do_colon'' = Some mu_do_colon"
  "word_named l ex ''mu_runtime_exit'' = Some mu_runtime_exit"
  "word_named l ex ''mu_runtime_lit_'' = Some mu_runtime_lit'"
  "word_named l ex ''mu_runtime_next_'' = Some mu_runtime_next'"
  "word_named l ex ''mu_runtime_q0branch_'' = Some mu_runtime_q0branch'"
  "word_named l ex ''mu_runtime_to_r'' = Some mu_runtime_to_r"
  "word_named l ex ''mu_runtime_do_'' = Some mu_runtime_do'"
  "word_named l ex ''mu_runtime_loop_'' = Some mu_runtime_loop'"
  "word_named l ex ''mu_runtime_i'' = Some mu_runtime_i"
  "word_named l ex ''mu_dup'' = Some mu_dup"
  "word_named l ex ''mu_plus'' = Some mu_plus"
  "word_named l ex ''mu_execute'' = Some ex"
  by (simp_all add: word_named_def exec_words_def linked_words_def plain_words_def)

section \<open>A program in memory\<close>

text \<open>Five C functions at small addresses, their execution tokens at \<open>0x100200\<close> and after, the colon
  word \<open>: double dup + ;\<close> at \<open>0x100100\<close>, \<open>: add5 for 5 + next ;\<close> at \<open>0x100140\<close>,
  and \<open>do i + loop\<close> at \<open>0x100300\<close>.\<close>

definition example_linked :: linked where
  "example_linked = \<lparr>symbol = map_of
     [(1, ''mu_do_colon''), (2, ''mu_dup''), (3, ''mu_plus''), (4, ''mu_runtime_exit''), (5, ''mu_runtime_lit_''),
      (6, ''mu_runtime_next_''), (7, ''mu_runtime_q0branch_''), (8, ''mu_runtime_to_r''),
      (9, ''mu_runtime_do_''), (10, ''mu_runtime_loop_''), (11, ''mu_runtime_i'')],
     at = (\<lambda>_. 0), build_time = 0\<rparr>"

definition code_cells :: "(addr \<times> cell) list" where
  "code_cells =
     [(0x100100, 1), (0x100108, 0x100200), (0x100110, 0x100208), (0x100118, 0x100210),
      (0x100140, 1), (0x100148, 0x100228), (0x100150, 0x100188), (0x100158, 0x100230),
      (0x100160, 0x100218), (0x100168, 5), (0x100170, 0x100208), (0x100178, 0x100220), (0x100180, 0x100160),
      (0x100188, 0x100210),
      (0x100200, 2), (0x100208, 3), (0x100210, 4), (0x100218, 5), (0x100220, 6), (0x100228, 7), (0x100230, 8),
      (0x100238, 9), (0x100240, 10), (0x100248, 11),
      (0x100300, 0x100238), (0x100308, 0x100330), (0x100310, 0x100248), (0x100318, 0x100208),
      (0x100320, 0x100240), (0x100328, 0x100310)]"

definition code_mem :: memory where
  "code_mem = fold (\<lambda>(a, v) m. wr64 m a v) code_cells (\<lambda>_. 0)"

definition double_thread :: thread where
  "double_thread = [0x100108 \<mapsto> IPrim Dup, 0x100110 \<mapsto> IPrim (Binary Plus), 0x100118 \<mapsto> IExit]"

definition add5_thread :: thread where
  "add5_thread = [0x100148 \<mapsto> IQ0Branch 0x100188, 0x100158 \<mapsto> IToR, 0x100160 \<mapsto> ILit 5,
     0x100170 \<mapsto> IPrim (Binary Plus), 0x100178 \<mapsto> INext 0x100160, 0x100188 \<mapsto> IExit]"

definition sum_thread :: thread where
  "sum_thread = [0x100300 \<mapsto> IDo 0x100330, 0x100310 \<mapsto> II, 0x100318 \<mapsto> IPrim (Binary Plus), 0x100320 \<mapsto> ILoop 0x100310]"

lemma code_mem_cells: "list_all (\<lambda>(a, v). rd64 code_mem a = v) code_cells"
  by (simp add: code_mem_def code_cells_def rd64_wr64_same rd64_wr64_sep sep_def disj_def)

lemma code_cell:
  assumes "length xs \<le> 4064" "(a, v) \<in> set code_cells"
  shows "cell_at (stacked xs (example code_mem)) a v"
proof -
  have "0x100000 \<le> a \<and> unat a + 8 \<le> 0x900000" using assms(2) by (auto simp: code_cells_def)
  moreover have "rd64 code_mem a = v" using code_mem_cells assms(2) by (auto simp: list_all_iff)
  ultimately show ?thesis using assms(1) by (simp add: cell_at_def stacked_data_at stacked_rd64)
qed

lemmas example_code = code_at_symbol [where l = example_linked, OF _ named_words(1)]
  code_at_symbol [where l = example_linked, OF _ named_words(2)]
  code_at_symbol [where l = example_linked, OF _ named_words(3)]
  code_at_symbol [where l = example_linked, OF _ named_words(4)]
  code_at_symbol [where l = example_linked, OF _ named_words(5)]
  code_at_symbol [where l = example_linked, OF _ named_words(6)]
  code_at_symbol [where l = example_linked, OF _ named_words(7)]
  code_at_symbol [where l = example_linked, OF _ named_words(8)]
  code_at_symbol [where l = example_linked, OF _ named_words(9)]
  code_at_symbol [where l = example_linked, OF _ named_words(10)]
  code_at_symbol [where l = example_linked, OF _ named_words(11)]

lemma example_functions:
  "code_at_address example_linked ex 1 = mu_do_colon"
  "code_at_address example_linked ex 2 = mu_dup"
  "code_at_address example_linked ex 3 = mu_plus"
  "code_at_address example_linked ex 4 = mu_runtime_exit"
  "code_at_address example_linked ex 5 = mu_runtime_lit'"
  "code_at_address example_linked ex 6 = mu_runtime_next'"
  "code_at_address example_linked ex 7 = mu_runtime_q0branch'"
  "code_at_address example_linked ex 8 = mu_runtime_to_r"
  "code_at_address example_linked ex 9 = mu_runtime_do'"
  "code_at_address example_linked ex 10 = mu_runtime_loop'"
  "code_at_address example_linked ex 11 = mu_runtime_i"
  by (rule example_code; simp add: example_linked_def)+

lemma instr_atI:
  assumes "length xs \<le> 4064" "(a, xt) \<in> set code_cells" "(xt, c) \<in> set code_cells"
    "\<And>ex. code_at_address example_linked ex c = iimpl i" "\<And>v. operand i = Some v \<Longrightarrow> (a + 8, v) \<in> set code_cells"
    "\<And>s :: mu. body_at s xt i"
  shows "instr_at (code_at_address example_linked) (stacked xs (example code_mem)) a i"
  unfolding instr_at_def
  using code_cell [OF assms(1,2)] code_cell [OF assms(1,3)] code_cell [OF assms(1) assms(5)] assms(4,6)
  by (cases "operand i") auto

lemma loaded_double:
  "length xs \<le> 4064 \<Longrightarrow> loaded (code_at_address example_linked) (stacked xs (example code_mem)) double_thread"
  unfolding loaded_def double_thread_def
  by (auto simp: example_functions code_cells_def split: if_splits
    intro: instr_atI [of xs _ "0x100200" 2] instr_atI [of xs _ "0x100208" 3] instr_atI [of xs _ "0x100210" 4])

lemma loaded_add5:
  "length xs \<le> 4064 \<Longrightarrow> loaded (code_at_address example_linked) (stacked xs (example code_mem)) add5_thread"
  unfolding loaded_def add5_thread_def
  by (auto simp: example_functions code_cells_def split: if_splits
    intro: instr_atI [of xs _ "0x100208" 3] instr_atI [of xs _ "0x100210" 4] instr_atI [of xs _ "0x100218" 5]
      instr_atI [of xs _ "0x100220" 6] instr_atI [of xs _ "0x100228" 7] instr_atI [of xs _ "0x100230" 8])

lemma loaded_sum:
  "length xs \<le> 4064 \<Longrightarrow> loaded (code_at_address example_linked) (stacked xs (example code_mem)) sum_thread"
  unfolding loaded_def sum_thread_def
  by (auto simp: example_functions code_cells_def split: if_splits
    intro: instr_atI [of xs _ "0x100208" 3] instr_atI [of xs _ "0x100238" 9] instr_atI [of xs _ "0x100240" 10]
      instr_atI [of xs _ "0x100248" 11])

lemma example_holds: "length xs \<le> 4064 \<Longrightarrow> rrep (stacked xs (example m)) []" "length xs \<le> 4064 \<Longrightarrow> vm_ok (stacked xs (example m))"
  using dframe_rrep [OF example_stacked(2)] example_rrep vm_ok_sframe [OF sframe_dframe [OF example_stacked(2)]] example_vm_ok
  by (auto simp: vm_ok_def segs_disj_sym)

section \<open>The properties\<close>

text \<open>How much fuel \<open>mu_execute\<close> is given does not matter, once it is enough: two runs from the
  same state that both finish (return, exit, fail or wait) finish the same way. This holds of the
  whole table of the program's functions, which may run the interpreter again and abort.\<close>

theorem execute_fuel_irrelevant:
  assumes "execute l n s \<noteq> Timeout" and "execute l m s \<noteq> Timeout"
  shows "execute l n s = execute l m s"
  using assms unfolding execute_def by (rule words.fuel_unique)

theorem execute_fuel_irrelevant_witness:
  "execute example_linked 1 (example (\<lambda>_. 0)) = execute example_linked 2 (example (\<lambda>_. 0))"
proof (rule execute_fuel_irrelevant)
  have st: "stk 1 (example (\<lambda>_. 0))" by (simp add: stk_def example_segs_def wacc_def in_seg_def)
  have top: "ST 0 (example (\<lambda>_. 0)) = 0" by (simp add: ST_def rd64_zeroes)
  have no: "\<not> racc example_segs 0 8" by (simp add: racc_def example_segs_def in_seg_def)
  show "execute example_linked 1 (example (\<lambda>_. 0)) \<noteq> Timeout" "execute example_linked 2 (example (\<lambda>_. 0)) \<noteq> Timeout"
    using st top no by (simp_all add: execute_def numeral_2_eq_2 mu_execute.simps(2) CALL_def)
qed

text \<open>C22: \<open>mu_execute\<close> is the threaded machine. It returns a state, given some amount of fuel, exactly
  if the word it pops returns one from which finitely many NEXTs, all with RP below the RP it saved,
  lead there with RP no longer below.\<close>

theorem execute_is_next_steps:
  assumes "stk 1 s"
  shows "(\<exists>n. execute l n s = Ret s') \<longleftrightarrow>
    (\<exists>n s1. CALL (code_at_address l (execute l n)) (ST 0 s) (DROP 1 s) = Ret s1 \<and>
       steps (code_at_address l) (RP s) s1 s' \<and> \<not> RP s' < RP s)"
  using words.execute_iff_steps [OF assms] unfolding execute_def .

theorem execute_is_next_steps_witness:
  "\<forall>s'. (\<exists>n. execute example_linked n (stacked [0] (example (\<lambda>_. 0))) = Ret s') \<longleftrightarrow>
    (\<exists>n s1. CALL (code_at_address example_linked (execute example_linked n)) (ST 0 (stacked [0] (example (\<lambda>_. 0))))
         (DROP 1 (stacked [0] (example (\<lambda>_. 0)))) = Ret s1 \<and>
       steps (code_at_address example_linked) (RP (stacked [0] (example (\<lambda>_. 0)))) s1 s' \<and>
       \<not> RP s' < RP (stacked [0] (example (\<lambda>_. 0))))"
proof
  fix s'
  show "(\<exists>n. execute example_linked n (stacked [0] (example (\<lambda>_. 0))) = Ret s') \<longleftrightarrow>
    (\<exists>n s1. CALL (code_at_address example_linked (execute example_linked n)) (ST 0 (stacked [0] (example (\<lambda>_. 0))))
         (DROP 1 (stacked [0] (example (\<lambda>_. 0)))) = Ret s1 \<and>
       steps (code_at_address example_linked) (RP (stacked [0] (example (\<lambda>_. 0)))) s1 s' \<and>
       \<not> RP s' < RP (stacked [0] (example (\<lambda>_. 0))))"
    by (rule execute_is_next_steps) (use ds.cells_rep [OF example_stacked(1), of "[0]" 1] in simp)
qed

text \<open>C1: Executing a colon word refines its threaded code. The word's code field leads to
  \<open>mu_do_colon\<close>, and the thread \<open>P\<close> is in memory as cells that lead to the C functions of its
  instructions. If the abstract machine runs from the word's body, with the caller's IP on the
  return stack, until that is popped, then \<open>mu_execute\<close> returns, with the stacks, IP and RP that
  the machine has, and the rest of memory as it was.\<close>

theorem execute_colon_word:
  assumes "vm_ok s" and "drep s (xt # ds)" and "rrep s rs" and "length rs < 4064"
    and "cell_at s xt c" and "symbol l c = Some ''mu_do_colon''" and "loaded (code_at_address l) s P"
    and "aruns P (length rs) (xt + 8, ds, IP s # rs) (ip', ds', rs')" and "length rs' \<le> length rs"
  shows "\<exists>n s'. execute l n s = Ret s' \<and> crep s s' (ip', ds', rs')"
  unfolding execute_def
  using assms code_at_symbol [OF assms(6) named_words(1)] by (intro words.execute_colon) auto

lemma double_runs: "aruns double_thread 0 (0x100108, [21], [0]) (0, [42], [])"
proof -
  have 1: "astep double_thread (0x100108, [21], [0]) = Some (0x100110, [21, 21], [0])"
    and 2: "astep double_thread (0x100110, [21, 21], [0]) = Some (0x100118, [42], [0])"
    and 3: "astep double_thread (0x100118, [42], [0]) = Some (0, [42], [])"
    by (simp_all add: astep_def double_thread_def)
  show ?thesis
    by (rule aruns.more [OF _ 1 aruns.more [OF _ 2 aruns.more [OF _ 3 aruns.here]]]) simp_all
qed

theorem execute_colon_word_witness:
  "\<exists>n s'. execute example_linked n (stacked [0x100100, 21] (example code_mem)) = Ret s' \<and> drep s' [42]"
proof -
  let ?s = "stacked [0x100100, 21] (example code_mem)"
  have "cell_at ?s 0x100100 1" by (rule code_cell) (simp_all add: code_cells_def)
  moreover have "symbol example_linked 1 = Some ''mu_do_colon''" by (simp add: example_linked_def)
  moreover have "aruns double_thread (length ([] :: cell list)) (0x100100 + 8, [21], [IP ?s]) (0, [42], [])"
    using double_runs by simp
  ultimately have "\<exists>n s'. execute example_linked n ?s = Ret s' \<and> crep ?s s' (0, [42], [])"
    using example_stacked(1) [of "[0x100100, 21]" code_mem] example_holds [of "[0x100100, 21]" code_mem]
      loaded_double [of "[0x100100, 21]"]
    by (intro execute_colon_word [where xt = "0x100100" and c = 1 and rs = "[]" and P = double_thread]) simp_all
  then show ?thesis by (auto simp: holds_def)
qed

text \<open>C19: \<open>for ... next\<close> runs its body exactly as often as the number on the stack says, unsigned,
  and not at all for zero. The code in memory is what the compiler lays down, and the body, at the
  count \<open>k\<close>, does \<open>f k\<close> to the data stack and leaves the return stack; then the C functions, run by
  NEXT, lead from before the loop to after it, the counts going down from the number to 1.\<close>

theorem for_next_repeats:
  assumes "holds s0 t ts us" and "holds s0 s (n # ds) rs" and "IP s = a" and "loaded (code_at_address l) s P"
    and "for_next_at P a z" and "\<And>k. body_effect P (length us) (a + 24) z Q (k # rs) (f k)"
    and "\<And>ds. Q ds \<Longrightarrow> length ds < 4064" and "length us < length rs" and "length rs < 4064" and "Q ds"
  shows "\<exists>s'. steps (code_at_address l) (RP t) s s' \<and>
    crep s0 s' (z + 16, fold f (map of_nat (rev [1..<Suc (unat n)])) ds, rs)"
  using steps_refine [OF for_next_runs [OF assms(5-10), of n] _ assms(4,1) refl] assms(2,3) by auto

text \<open>C20: \<open>do ... loop\<close> runs its body once for every index from the start up to the limit, not
  included, wrapping around; if they are equal it runs \<open>2^64\<close> times. The body, at index \<open>i\<close>, does \<open>f i\<close>
  to the data stack.\<close>

theorem do_loop_repeats:
  assumes "holds s0 t ts us" and "holds s0 s (start # limit # ds) rs" and "IP s = a"
    and "loaded (code_at_address l) s P" and "do_loop_at P a z"
    and "\<And>c. body_effect P (length us) (a + 16) z Q (c # limit # (z + 16) # rs) (f (c + limit))"
    and "\<And>ds. Q ds \<Longrightarrow> length ds \<le> 4064" and "length us < length rs" and "length rs + 3 \<le> 4064" and "Q ds"
  shows "\<exists>s'. steps (code_at_address l) (RP t) s s' \<and>
    crep s0 s' (z + 16, fold f (map (\<lambda>j. start + of_nat j) [0..<loop_count start limit]) ds, rs)"
  using steps_refine [OF do_loop_runs [OF assms(5-10), of start] _ assms(4,1) refl] assms(2,3) by auto

section \<open>The loops of the example\<close>

text \<open>The process with \<open>xs\<close> pushed, as it is inside a word: a caller's IP on the return stack.\<close>

definition inside :: "cell list \<Rightarrow> addr \<Rightarrow> mu" where
  "inside xs a = (RPUSH 0 (stacked xs (example code_mem)))\<lparr>IP := a\<rparr>"

lemma inside_holds:
  assumes "length xs \<le> 4064"
  shows "holds (stacked xs (example code_mem)) (stacked xs (example code_mem)) xs []"
    and "holds (stacked xs (example code_mem)) (inside xs a) xs [0]"
    and "loaded code (stacked xs (example code_mem)) P \<Longrightarrow> loaded code (inside xs a) P"
proof -
  let ?s = "stacked xs (example code_mem)"
  show h: "holds ?s ?s xs []"
    using example_stacked(1) [OF assms] example_holds [OF assms] by (intro holds_refl)
  from holds_RPUSH [OF this, of 0] show h2: "holds ?s (inside xs a) xs [0]"
    by (simp add: inside_def)
  then show "loaded code ?s P \<Longrightarrow> loaded code (inside xs a) P"
    using loaded_sframe by (auto simp: holds_def)
qed

definition add_top :: "cell \<Rightarrow> cell list \<Rightarrow> cell list" where
  "add_top k ds = (case ds of [] \<Rightarrow> [] | x # xs \<Rightarrow> (x + k) # xs)"

lemma length_1: "length ds = Suc 0 \<longleftrightarrow> (\<exists>x. ds = [x])"
  by (cases ds) auto

lemma add5_body: "body_effect add5_thread 0 0x100160 0x100178 (\<lambda>ds. length ds = 1) [k, 0] (add_top 5)"
proof -
  have "aruns add5_thread 0 (0x100160, [x], [k, 0]) (0x100178, [x + 5], [k, 0])" for x
  proof -
    have 1: "astep add5_thread (0x100160, [x], [k, 0]) = Some (0x100170, [5, x], [k, 0])"
      and 2: "astep add5_thread (0x100170, [5, x], [k, 0]) = Some (0x100178, [x + 5], [k, 0])"
      by (simp_all add: astep_def add5_thread_def)
    show ?thesis by (rule aruns.more [OF _ 1 aruns.more [OF _ 2 aruns.here]]) simp_all
  qed
  then show ?thesis by (auto simp: body_effect_def add_top_def length_1)
qed

theorem for_next_repeats_witness:
  "\<exists>s'. steps (code_at_address example_linked) (RP (stacked [3, 1] (example code_mem))) (inside [3, 1] 0x100148) s' \<and>
    drep s' [16]"
proof -
  let ?t = "stacked [3, 1] (example code_mem)" and ?s = "inside [3, 1] 0x100148"
  have h: "holds ?t ?t [3, 1] []" "holds ?t ?s [3, 1] [0]" by (rule inside_holds; simp)+
  have P: "loaded (code_at_address example_linked) ?s add5_thread" by (rule inside_holds(3) [OF _ loaded_add5]) simp_all
  have ip: "IP ?s = 0x100148" by (simp add: inside_def)
  have at: "for_next_at add5_thread 0x100148 0x100178" by (simp add: for_next_at_def add5_thread_def)
  have body: "body_effect add5_thread (length ([] :: cell list)) (0x100148 + 24) 0x100178 (\<lambda>ds. length ds = 1)
      [k, 0] ((\<lambda>_. add_top 5) k)" for k
    using add5_body by simp
  have sum: "fold (\<lambda>_. add_top 5) (map of_nat (rev [Suc 0..<4])) [1] = [16]"
    by (simp add: add_top_def upt_rec)
  from for_next_repeats [OF h ip P at body] show ?thesis
    by (auto simp: holds_def sum simp del: upt_Suc)
qed

lemma sum_body: "body_effect sum_thread 0 0x100310 0x100320 (\<lambda>ds. length ds = 1) [c, l, 0x100330, 0] (add_top (c + l))"
proof -
  have "aruns sum_thread 0 (0x100310, [x], [c, l, 0x100330, 0]) (0x100320, [x + (c + l)], [c, l, 0x100330, 0])" for x
  proof -
    have 1: "astep sum_thread (0x100310, [x], [c, l, 0x100330, 0]) = Some (0x100318, [c + l, x], [c, l, 0x100330, 0])"
      and 2: "astep sum_thread (0x100318, [c + l, x], [c, l, 0x100330, 0]) = Some (0x100320, [x + (c + l)], [c, l, 0x100330, 0])"
      by (simp_all add: astep_def sum_thread_def)
    show ?thesis by (rule aruns.more [OF _ 1 aruns.more [OF _ 2 aruns.here]]) simp_all
  qed
  then show ?thesis by (auto simp: body_effect_def add_top_def length_1)
qed

theorem do_loop_repeats_witness:
  "\<exists>s'. steps (code_at_address example_linked) (RP (stacked [2, 5, 0] (example code_mem))) (inside [2, 5, 0] 0x100300) s' \<and>
    drep s' [9]"
proof -
  let ?t = "stacked [2, 5, 0] (example code_mem)" and ?s = "inside [2, 5, 0] 0x100300"
  have h: "holds ?t ?t [2, 5, 0] []" "holds ?t ?s [2, 5, 0] [0]" by (rule inside_holds; simp)+
  have P: "loaded (code_at_address example_linked) ?s sum_thread" by (rule inside_holds(3) [OF _ loaded_sum]) simp_all
  have ip: "IP ?s = 0x100300" by (simp add: inside_def)
  have at: "do_loop_at sum_thread 0x100300 0x100320" by (simp add: do_loop_at_def sum_thread_def)
  have body: "body_effect sum_thread (length ([] :: cell list)) (0x100300 + 16) 0x100320 (\<lambda>ds. length ds = 1)
      [c, 5, 0x100320 + 16, 0] (add_top (c + 5))" for c
    using sum_body [of c 5] by simp
  have sum: "fold add_top (map (\<lambda>j. 2 + of_nat j) [0..<loop_count 2 5]) [0] = [9]"
    by (simp add: add_top_def loop_count_def upt_rec)
  from do_loop_repeats [OF h ip P at body] show ?thesis
    by (auto simp: holds_def sum)
qed

end
