(* ===== verification/MpMath.thy ===== *)
theory MpMath
  imports State
begin

text \<open>
  \<open>mp-math.c\<close>: arithmetic on numbers made of 16-bit digits ("bigits"), least significant first,
  in place in memory. The digit loops are correct for every number of digits; the words at the
  end pass two digits, which is half a cell now that cells have 64 bits.
\<close>

type_synonym bigit = "16 word"
type_synonym two_bigit = "32 word"

definition rd16 :: "memory \<Rightarrow> addr \<Rightarrow> bigit" where
  "rd16 m a = le_word (rd_bytes m a 2)"

definition wr16 :: "memory \<Rightarrow> addr \<Rightarrow> bigit \<Rightarrow> memory" where
  "wr16 m a v = wr_bytes m a (le_bytes 2 v)"

section \<open>The digit loops\<close>

fun mp_add :: "cint \<Rightarrow> addr \<Rightarrow> addr \<Rightarrow> nat \<Rightarrow> 'a vm_scheme \<Rightarrow> (cint \<times> 'a vm_scheme) outcome" where
  "mp_add carry p q 0 s = Ret (carry, s)"
| "mp_add carry p q (Suc n) s =
     (if wacc (segs s) p 2 \<and> racc (segs s) q 2
      then (let accum = ucast (rd16 (mem s) p) + ucast (rd16 (mem s) q) + carry;
                carry = (if drop_bit 16 accum \<noteq> 0 then 1 else 0)
            in mp_add carry (p + 2) (q + 2) n (s\<lparr>mem := wr16 (mem s) p (ucast accum)\<rparr>))
      else Undef)"

fun mp_negate :: "cint \<Rightarrow> addr \<Rightarrow> nat \<Rightarrow> 'a vm_scheme \<Rightarrow> (cint \<times> 'a vm_scheme) outcome" where
  "mp_negate carry p 0 s = Ret (carry, s)"
| "mp_negate carry p (Suc n) s =
     (if wacc (segs s) p 2
      then (let notp = NOT (rd16 (mem s) p);
                accum = ucast notp + carry;
                carry = (if drop_bit 16 accum \<noteq> 0 then 1 else 0)
            in mp_negate carry (p + 2) n (s\<lparr>mem := wr16 (mem s) p (ucast accum)\<rparr>))
      else Undef)"

definition add_bigit :: "addr \<Rightarrow> bigit \<Rightarrow> 'a vm_scheme \<Rightarrow> 'a vm_scheme outcome" where
  "add_bigit a v s = (if wacc (segs s) a 2 then Ret (s\<lparr>mem := wr16 (mem s) a (rd16 (mem s) a + v)\<rparr>) else Undef)"

fun zero_words :: "addr \<Rightarrow> nat \<Rightarrow> 'a vm_scheme \<Rightarrow> 'a vm_scheme outcome" where
  "zero_words z 0 s = Ret s"
| "zero_words z (Suc n) s =
     (if wacc (segs s) z 4 then zero_words (z + 4) n (s\<lparr>mem := wr_bytes (mem s) z [0, 0, 0, 0]\<rparr>) else Undef)"

text \<open>One product of digits. The multiplication is one of \<open>int\<close>s, which wraps.\<close>

definition mult_step :: "addr \<Rightarrow> addr \<Rightarrow> addr \<Rightarrow> nat \<times> nat \<Rightarrow> 'a vm_scheme \<Rightarrow> 'a vm_scheme outcome" where
  "mult_step p q result = (\<lambda>(i, j) s.
     if racc (segs s) (p + of_nat i * 2) 2 \<and> racc (segs s) (q + of_nat j * 2) 2
     then (let accum = ucast (rd16 (mem s) (p + of_nat i * 2)) * ucast (rd16 (mem s) (q + of_nat j * 2)) :: two_bigit
           in bindo (add_bigit (result + of_nat (i + j) * 2) (ucast accum) s)
                (add_bigit (result + of_nat (i + j + 1) * 2) (ucast (drop_bit 16 accum))))
     else Undef)"

fun for_each :: "('i \<Rightarrow> 's \<Rightarrow> 's outcome) \<Rightarrow> 'i list \<Rightarrow> 's \<Rightarrow> 's outcome" where
  "for_each f [] s = Ret s"
| "for_each f (i # is) s = bindo (f i s) (for_each f is)"

definition mp_mult :: "addr \<Rightarrow> addr \<Rightarrow> addr \<Rightarrow> nat \<Rightarrow> 'a vm_scheme \<Rightarrow> 'a vm_scheme outcome" where
  "mp_mult p q result n s =
     bindo (zero_words result n s)
       (for_each (mult_step p q result) (List.product [0..<n] [0..<n]))"

section \<open>The words\<close>

definition st_at :: "nat \<Rightarrow> 'a vm_scheme \<Rightarrow> addr" where
  "st_at i s = SP s + of_nat i * 8"

definition mu_dplus :: "'a vm_scheme \<Rightarrow> 'a vm_scheme outcome" where
  "mu_dplus s =
     bindo (mp_add 0 (st_at 3 s) (st_at 1 s) 2 s) (\<lambda>(carry, s).
     bindo (mp_add carry (st_at 2 s) (st_at 0 s) 2 s) (\<lambda>(_, s). Ret (DROP 2 s)))"

definition mu_dnegate :: "'a vm_scheme \<Rightarrow> 'a vm_scheme outcome" where
  "mu_dnegate s =
     bindo (mp_negate 1 (st_at 1 s) 2 s) (\<lambda>(carry, s).
     bindo (mp_negate carry (st_at 0 s) 2 s) (\<lambda>(_, s). Ret s))"

text \<open>\<open>result\<close> is a local array of two cells, of which \<open>mp_mult\<close> clears one.\<close>

definition mu_um_star :: exec where
  "mu_um_star s =
     (let result = local_at s ''result'' in
      bindo (mp_mult (st_at 1 s) (st_at 0 s) result 2 s) (\<lambda>s.
      bindo (load result s) (\<lambda>lo. bindo (load (result + 8) s) (\<lambda>hi.
      if stk 2 s then Ret (set_ST 0 hi (set_ST 1 lo s)) else Undef))))"

text \<open>The alternatives that work on whole cells.\<close>

definition mu_dnegate2 :: "'a vm_scheme \<Rightarrow> 'a vm_scheme outcome" where
  "mu_dnegate2 s =
     (if stk 2 s
      then (let s = set_ST 1 (- ST 1 s) s; s = set_ST 0 (NOT (ST 0 s)) s
            in Ret (if ST 1 s = 0 then set_ST 0 (ST 0 s + 1) s else s))
      else Undef)"

definition mu_dnegate3 :: "'a vm_scheme \<Rightarrow> 'a vm_scheme outcome" where
  "mu_dnegate3 s =
     (if stk 2 s
      then (let s = set_ST 1 (- ST 1 s) s
            in Ret (set_ST 0 (if ST 1 s = 0 then - ST 0 s else NOT (ST 0 s)) s))
      else Undef)"

section \<open>Numbers of digits\<close>

text \<open>The value of the \<open>n\<close> digits at \<open>a\<close>.\<close>

fun mp_value :: "memory \<Rightarrow> addr \<Rightarrow> nat \<Rightarrow> nat" where
  "mp_value m a 0 = 0"
| "mp_value m a (Suc n) = unat (rd16 m a) + 65536 * mp_value m (a + 2) n"

lemma unat_less_16: "unat (d :: bigit) < 65536"
proof -
  have "unat d < 2 ^ LENGTH(16)" by (rule unsigned_less)
  then show ?thesis by simp
qed

lemma mp_value_bound: "mp_value m a n < 65536 ^ n"
proof (induction n arbitrary: a)
  case (Suc n)
  have "unat (rd16 m a) + 65536 * mp_value m (a + 2) n < 65536 + 65536 * mp_value m (a + 2) n"
    using unat_less_16 by simp
  also have "\<dots> \<le> 65536 * 65536 ^ n" using Suc [of "a + 2"] by simp
  finally show ?case by simp
qed simp

text \<open>One digit of a sum: the low half is the digit, and the high half says whether to carry.\<close>

lemma digit_sum:
  fixes x y :: bigit and c :: cint
  assumes "c = 0 \<or> c = 1"
  defines "accum \<equiv> ucast x + ucast y + c"
  shows "unat x + unat y + unat c = unat (ucast accum :: bigit) + 65536 * unat (if drop_bit 16 accum \<noteq> 0 then 1 else 0 :: cint)"
proof -
  have ux: "unat (ucast d :: two_bigit) = unat d" for d :: bigit
    using unat_less_16 [of d] by (simp add: unsigned_ucast_eq take_bit_nat_eq_self)
  have uc: "unat c \<le> 1" using assms(1) by auto
  have "unat (ucast x + ucast y :: two_bigit) = unat x + unat y"
    using unat_less_16 [of x] unat_less_16 [of y] by (subst unat_add_lem [THEN iffD1]) (simp_all add: ux)
  then have acc: "unat accum = unat x + unat y + unat c"
    unfolding accum_def using unat_less_16 [of x] unat_less_16 [of y] uc
    by (subst unat_add_lem [THEN iffD1]) simp_all
  have lo: "unat (ucast accum :: bigit) = unat accum mod 65536"
    by (simp add: unsigned_ucast_eq take_bit_eq_mod)
  have "drop_bit 16 accum \<noteq> 0 \<longleftrightarrow> unat (drop_bit 16 accum) \<noteq> 0" by (simp add: unat_eq_zero)
  also have "\<dots> \<longleftrightarrow> unat accum div 65536 \<noteq> 0"
    by (simp add: drop_bit_eq_div unat_div)
  finally have hi: "unat (if drop_bit 16 accum \<noteq> 0 then 1 else 0 :: cint) = unat accum div 65536"
    using acc unat_less_16 [of x] unat_less_16 [of y] uc by auto
  show ?thesis unfolding lo hi acc [symmetric] by (metis mod_mult_div_eq)
qed


section \<open>The loops compute on numbers\<close>

lemma rd16_wr16_same: "rd16 (wr16 m a v) a = v"
proof -
  have "rd_bytes (wr_bytes m a (le_bytes 2 v)) a (length (le_bytes 2 v)) = le_bytes 2 v"
    by (rule rd_wr_bytes_same) simp
  then show ?thesis
    by (simp add: rd16_def wr16_def le_word_le_bytes take_bit_length_eq [where 'a = 16, simplified])
qed

lemma mp_value_disj: "disj b (length bs) a (2 * n) \<Longrightarrow> mp_value (wr_bytes m b bs) a n = mp_value m a n"
proof (induction n arbitrary: a)
  case (Suc n)
  show ?case
  proof (cases "bs = []")
    case False
    have 1: "disj b (length bs) a 2" using Suc.prems by (rule disj_mono) simp_all
    have "disj b (length bs) (a + of_nat 2) (2 * n)" if "0 < n"
    proof -
      have "disj (a + of_nat 2) (2 * n) b (length bs)"
        using Suc.prems that False by (intro disj_part [of a "2 * Suc n"]) (simp_all add: disj_sym)
      then show ?thesis by (simp add: disj_sym)
    qed
    then have "mp_value (wr_bytes m b bs) (a + 2) n = mp_value m (a + 2) n"
      using Suc.IH [of "a + 2"] by (cases n) auto
    with 1 show ?thesis by (simp add: rd16_def rd_wr_bytes_disj)
  qed simp
qed simp

text \<open>\<open>only_at p n m m'\<close>: from \<open>m\<close> to \<open>m'\<close> only the \<open>n\<close> digits at \<open>p\<close> changed.\<close>

definition only_at :: "addr \<Rightarrow> nat \<Rightarrow> memory \<Rightarrow> memory \<Rightarrow> bool" where
  "only_at p n m m' \<longleftrightarrow> (\<forall>a. 2 * n \<le> unat (a - p) \<longrightarrow> m' a = m a)"

lemma disj_next: "n < 2 ^ 62 \<Longrightarrow> disj p 2 (p + 2) (2 * n)"
proof -
  assume n: "n < 2 ^ 62"
  have "p - (p + 2) = (- 2 :: addr)" by (simp add: algebra_simps)
  moreover have "unat (- 2 :: addr) = 18446744073709551614" "unat (2 :: addr) = 2" by simp_all
  ultimately show "disj p 2 (p + 2) (2 * n)" using n by (simp add: disj_def)
qed

lemma next_digit:
  fixes a p :: addr
  assumes "Suc n < 2 ^ 62" and "2 * Suc n \<le> unat (a - p)"
  shows "2 * n \<le> unat (a - (p + 2))"
proof -
  have "unat (2 :: addr) \<le> unat (a - p)" using assms(2) by (simp add: unsigned_numeral)
  then have "unat (a - p - 2) = unat (a - p) - 2" using unat_diff_no_wrap [of 2 "a - p"] by simp
  then show ?thesis using assms(2) by (simp add: diff_diff_add)
qed

lemma only_at_Suc:
  assumes "only_at (p + 2) n (wr16 m p v) m'" "Suc n < 2 ^ 62"
  shows "only_at p (Suc n) m m'" and "rd16 m' p = v"
proof -
  have w: "wr16 m p v a = m a" if "2 \<le> unat (a - p)" for a
    using that by (simp add: wr16_def wr_bytes_def)
  show "only_at p (Suc n) m m'"
    unfolding only_at_def
  proof (intro allI impI)
    fix a assume a: "2 * Suc n \<le> unat (a - p)"
    then have "2 * n \<le> unat (a - (p + 2))" "2 \<le> unat (a - p)" using next_digit assms(2) by auto
    then show "m' a = m a" using assms(1) w by (simp add: only_at_def)
  qed
  have d: "disj (p + of_nat 2) (2 * n) p 2"
    using disj_next [of n p] assms(2) by (simp add: disj_sym)
  have "m' (p + of_nat i) = wr16 m p v (p + of_nat i)" if "i < 2" for i
  proof -
    have "2 * n \<le> unat (p - (p + of_nat 2)) + i" using d by (simp add: disj_def)
    then have "2 * n \<le> unat (p + of_nat i - (p + of_nat 2))" using disj_offset [OF d that] by simp
    then show ?thesis using assms(1) by (simp add: only_at_def)
  qed
  then have "rd_bytes m' p 2 = rd_bytes (wr16 m p v) p 2"
    by (simp add: rd_bytes_def)
  then show "rd16 m' p = v" using rd16_wr16_same [of m p v] by (simp add: rd16_def)
qed

lemma value_after_wr16:
  assumes "disj p (2 * Suc n) q (2 * Suc n) \<or> q = p" "Suc n < 2 ^ 62"
  shows "mp_value (wr16 m p v) (q + 2) n = mp_value m (q + 2) n"
proof (cases "n = 0")
  case False
  have "disj p 2 (q + of_nat 2) (2 * n)"
    using assms(1)
  proof
    assume "disj p (2 * Suc n) q (2 * Suc n)"
    then have "disj p 2 q (2 * Suc n)" by (rule disj_mono) simp_all
    then show ?thesis by (rule disj_sub) (use False in simp_all)
  next
    assume "q = p" then show ?thesis using disj_next [of n p] assms(2) by simp
  qed
  then show ?thesis unfolding wr16_def by (intro mp_value_disj) simp
qed simp

lemma mp_add_spec:
  assumes "c = 0 \<or> c = 1" "wacc (segs s) p (2 * n)" "racc (segs s) q (2 * n)" "disj p (2 * n) q (2 * n)" "n < 2 ^ 62"
  shows "\<exists>c' m. mp_add c p q n s = Ret (c', s\<lparr>mem := m\<rparr>) \<and> (c' = 0 \<or> c' = 1) \<and> only_at p n (mem s) m \<and>
    mp_value m p n + 65536 ^ n * unat c' = mp_value (mem s) p n + mp_value (mem s) q n + unat c"
  using assms
proof (induction n arbitrary: c p q s)
  case 0
  then show ?case by (auto simp: only_at_def intro!: exI [of _ "mem s"])
next
  case (Suc n)
  let ?x = "rd16 (mem s) p" and ?y = "rd16 (mem s) q"
  define accum where "accum = (ucast ?x + ucast ?y + c :: two_bigit)"
  define c1 where "c1 = (if drop_bit 16 accum \<noteq> 0 then 1 else 0 :: cint)"
  let ?s = "s\<lparr>mem := wr16 (mem s) p (ucast accum)\<rparr>"
  have c1: "c1 = 0 \<or> c1 = 1" by (simp add: c1_def)
  have digit: "unat ?x + unat ?y + unat c = unat (ucast accum :: bigit) + 65536 * unat c1"
    unfolding accum_def c1_def by (rule digit_sum [OF Suc.prems(1)])
  have acc: "wacc (segs s) p 2" "racc (segs s) q 2" "wacc (segs s) (p + 2) (2 * n)" "racc (segs s) (q + 2) (2 * n)"
    using Suc.prems(2,3) wacc_part [of "segs s" p "2 * Suc n" 2 "2 * n"] racc_part [of "segs s" q "2 * Suc n" 2 "2 * n"]
    by (auto intro: wacc_mono racc_mono)
  have d: "disj (p + 2) (2 * n) (q + 2) (2 * n)"
    using Suc.prems(4) disj_part [of p "2 * Suc n" q "2 * Suc n" 2 "2 * n"]
      disj_sub [of "p + 2" "2 * n" q "2 * Suc n" 2 "2 * n"] by (cases "n = 0") (auto simp: disj_def)
  obtain c' m where IH: "mp_add c1 (p + 2) (q + 2) n ?s = Ret (c', ?s\<lparr>mem := m\<rparr>)" "c' = 0 \<or> c' = 1"
    "only_at (p + 2) n (mem ?s) m"
    "mp_value m (p + 2) n + 65536 ^ n * unat c' = mp_value (mem ?s) (p + 2) n + mp_value (mem ?s) (q + 2) n + unat c1"
    using Suc.IH [of c1 ?s "p + 2" "q + 2", OF c1] acc d Suc.prems(5) by auto
  have run: "mp_add c p q (Suc n) s = Ret (c', s\<lparr>mem := m\<rparr>)"
    using IH(1) acc by (simp add: Let_def accum_def [symmetric] c1_def [symmetric])
  have v1: "rd16 m p = ucast accum" and o: "only_at p (Suc n) (mem s) m"
    using only_at_Suc [of p n "mem s" "ucast accum" m] IH(3) Suc.prems(5) by auto
  have v2: "mp_value (mem ?s) (p + 2) n = mp_value (mem s) (p + 2) n"
    "mp_value (mem ?s) (q + 2) n = mp_value (mem s) (q + 2) n"
    using value_after_wr16 Suc.prems(4,5) by auto
  show ?case
    using run IH(2) o IH(4) digit v1 v2 by (auto intro!: exI [of _ c'] exI [of _ m] simp: algebra_simps)
qed

text \<open>The digits of the complement add up to the complement.\<close>

lemma digit_negate:
  fixes x :: bigit and c :: cint
  assumes "c = 0 \<or> c = 1"
  defines "accum \<equiv> ucast (NOT x) + c"
  shows "unat c + 65535 = unat x + unat (ucast accum :: bigit) + 65536 * unat (if drop_bit 16 accum \<noteq> 0 then 1 else 0 :: cint)"
proof -
  have "NOT x = 65535 - x" by (simp add: not_eq_complement)
  moreover have "unat (65535 - x) = unat (65535 :: bigit) - unat x"
    using unat_less_16 [of x] by (intro unat_sub) (simp add: word_le_nat_alt)
  ultimately have "unat (NOT x) + unat x = 65535" using unat_less_16 [of x] by simp
  then show ?thesis using digit_sum [of c "NOT x" 0] assms(1) unfolding accum_def by simp
qed

lemma mp_negate_spec:
  assumes "c = 0 \<or> c = 1" "wacc (segs s) p (2 * n)" "n < 2 ^ 62"
  shows "\<exists>c' m. mp_negate c p n s = Ret (c', s\<lparr>mem := m\<rparr>) \<and> (c' = 0 \<or> c' = 1) \<and> only_at p n (mem s) m \<and>
    mp_value m p n + 65536 ^ n * unat c' + mp_value (mem s) p n + 1 = 65536 ^ n + unat c"
  using assms
proof (induction n arbitrary: c p s)
  case 0
  then show ?case by (auto simp: only_at_def intro!: exI [of _ "mem s"])
next
  case (Suc n)
  let ?x = "rd16 (mem s) p"
  define accum where "accum = (ucast (NOT ?x) + c :: two_bigit)"
  define c1 where "c1 = (if drop_bit 16 accum \<noteq> 0 then 1 else 0 :: cint)"
  let ?s = "s\<lparr>mem := wr16 (mem s) p (ucast accum)\<rparr>"
  have c1: "c1 = 0 \<or> c1 = 1" by (simp add: c1_def)
  have digit: "unat c + 65535 = unat ?x + unat (ucast accum :: bigit) + 65536 * unat c1"
    unfolding accum_def c1_def by (rule digit_negate [OF Suc.prems(1)])
  have acc: "wacc (segs s) p 2" "wacc (segs s) (p + 2) (2 * n)"
    using Suc.prems(2) wacc_part [of "segs s" p "2 * Suc n" 2 "2 * n"] by (auto intro: wacc_mono)
  obtain c' m where IH: "mp_negate c1 (p + 2) n ?s = Ret (c', ?s\<lparr>mem := m\<rparr>)" "c' = 0 \<or> c' = 1"
    "only_at (p + 2) n (mem ?s) m"
    "mp_value m (p + 2) n + 65536 ^ n * unat c' + mp_value (mem ?s) (p + 2) n + 1 = 65536 ^ n + unat c1"
    using Suc.IH [of c1 ?s "p + 2", OF c1] acc Suc.prems(3) by auto
  have run: "mp_negate c p (Suc n) s = Ret (c', s\<lparr>mem := m\<rparr>)"
    using IH(1) acc by (simp add: Let_def accum_def [symmetric] c1_def [symmetric])
  have v1: "rd16 m p = ucast accum" and o: "only_at p (Suc n) (mem s) m"
    using only_at_Suc [of p n "mem s" "ucast accum" m] IH(3) Suc.prems(3) by auto
  have v2: "mp_value (mem ?s) (p + 2) n = mp_value (mem s) (p + 2) n"
    using value_after_wr16 Suc.prems(3) by auto
  show ?case
    using run IH(2) o IH(4) digit v1 v2 by (auto intro!: exI [of _ c'] exI [of _ m] simp: algebra_simps)
qed

text \<open>Negating and adding gives zero: with the carry that \<open>mu_dnegate\<close> starts with, \<open>mp_negate\<close> is the
  two's complement of a number of any width.\<close>

lemma mp_negate_complement:
  assumes "mp_value m p n + 65536 ^ n * unat (c' :: cint) + v + 1 = 65536 ^ n + unat (1 :: cint)"
  shows "(mp_value m p n + v) mod 65536 ^ n = 0"
proof -
  have "mp_value m p n + v + 65536 ^ n * unat c' = 65536 ^ n" using assms by simp
  then have "(mp_value m p n + v + 65536 ^ n * unat c') mod 65536 ^ n = 0" by simp
  then show ?thesis by (metis mod_mult_self2)
qed

end
