(* ===== verification/AlgoClaims.thy ===== *)
theory AlgoClaims
  imports Crc16 Lfsr MpMath Example
begin

text \<open>The properties of the checksums, the shift registers and the arithmetic on digits.\<close>

section \<open>Checksums\<close>

text \<open>\<open>c-crc16-buf\<close> leaves the same checksum whichever of the two byte functions is selected,
  Thierry Hischier's or the bitwise one of the YMODEM reference, on every buffer and every initial
  value: the fold of the reference over the bytes of the buffer.\<close>

theorem crc16_buf_either:
  fixes s :: mu
  assumes "drep s (n # a # crc # xs)" and "racc (segs s) a (unat n)"
  shows "\<exists>s'. mu_c_crc16_buf s = Ret s' \<and> dframe s s' \<and>
    drep s' (ucast (fold (\<lambda>b c. crc16_byte_xmodem c b) (rd_bytes (mem s) a (unat n)) (ucast crc)) # xs)"
proof -
  have get: "ST 0 s = n" "ST (Suc 0) s = a" "ST 2 s = crc" "stk 3 s"
    using assms(1) by (auto simp: ds.get_rep ds.cells_rep)
  let ?c = "crc16_buf (crc16_byte s) (ucast crc) (rd_bytes (mem s) a (unat n))"
  have c: "?c = fold (\<lambda>b c. crc16_byte_xmodem c b) (rd_bytes (mem s) a (unat n)) (ucast crc)"
    by (cases "crc16_byte s") (simp_all add: crc16_buf_fold thierry_is_xmodem)
  have "drep (set_ST 2 (ucast ?c) s) (n # a # ucast ?c # xs)"
    using ds.put_rep [OF assms(1), of 2] by simp
  from ds.pop_2 [OF this] show ?thesis
    using get assms(2) dframe_trans [OF dframe_set_ST [OF assms(1), of 2] dframe_DROP]
    by (auto simp: mu_c_crc16_buf_def c)
qed

theorem crc16_buf_either_witness:
  "\<exists>s'. mu_c_crc16_buf (stacked [3, 0x500000, 0] (example (\<lambda>_. 0))) = Ret s'"
  using crc16_buf_either [of "stacked [3, 0x500000, 0] (example (\<lambda>_. 0))" 3 "0x500000" 0 "[]"]
    example_stacked(1) [of "[3, 0x500000, 0]"] by auto

text \<open>The two bytes of a checksum, high byte first, appended to the data it was computed from,
  bring the checksum of the whole to 0: this is how a receiver checks it.\<close>

theorem crc16_check:
  "crc16_buf f crc (bs @ [ucast (drop_bit 8 (crc16_buf f crc bs)), ucast (crc16_buf f crc bs)]) = 0"
  by (rule crc16_residue)

lemma xmodem_step_inj: "xmodem_step x = xmodem_step y \<Longrightarrow> x = y"
proof -
  assume e: "xmodem_step x = xmodem_step y"
  have b: "bit (xmodem_step x) k = bit (xmodem_step y) k" for k by (simp add: e)
  show "x = y"
  proof (rule bit_word_eqI)
    fix n assume "n < LENGTH(16)"
    then have "n < 16" by simp
    from less_16 [OF this] show "bit x n = bit y n"
      using b [of 0] b [of 1] b [of 2] b [of 3] b [of 4] b [of 5] b [of 6] b [of 7] b [of 8] b [of 9]
        b [of 10] b [of 11] b [of 12] b [of 13] b [of 14] b [of 15]
      by (elim disjE; simp add: xmodem_step_bits; argo)
  qed
qed

lemma crc16_byte_inj:
  "crc16_byte_xmodem c b = crc16_byte_xmodem c b' \<Longrightarrow> b = b'"
  "crc16_byte_xmodem c b = crc16_byte_xmodem c' b \<Longrightarrow> c = c'"
proof -
  have inj: "(xmodem_step ^^ n) x = (xmodem_step ^^ n) y \<Longrightarrow> x = y" for n x y
    by (induction n) (auto dest: xmodem_step_inj)
  have byte: "b = b'" if "push_bit 8 (ucast b) = (push_bit 8 (ucast b') :: 16 word)" for b b' :: byte
  proof (rule bit_word_eqI)
    fix n assume n: "n < LENGTH(8)"
    have "bit (push_bit 8 (ucast b) :: 16 word) (n + 8) = bit (push_bit 8 (ucast b') :: 16 word) (n + 8)"
      by (simp only: that)
    then show "bit b n = bit b' n" using n by (simp add: bit_simps)
  qed
  have cancel: "x = y" if "c XOR x = c XOR y" for c x y :: "16 word"
  proof -
    have "c XOR (c XOR x) = c XOR (c XOR y)" by (simp only: that)
    then show ?thesis by (simp flip: xor.assoc)
  qed
  show "b = b'" if "crc16_byte_xmodem c b = crc16_byte_xmodem c b'"
    by (rule byte, rule cancel [of c], rule inj [of 8]) (use that in \<open>simp add: crc16_byte_xmodem_def\<close>)
  show "c = c'" if "crc16_byte_xmodem c b = crc16_byte_xmodem c' b"
  proof (rule cancel [of "push_bit 8 (ucast b)"])
    have "c XOR push_bit 8 (ucast b) = c' XOR push_bit 8 (ucast b)"
      by (rule inj [of 8]) (use that in \<open>simp add: crc16_byte_xmodem_def\<close>)
    then show "push_bit 8 (ucast b) XOR c = push_bit 8 (ucast b) XOR c'" by (simp only: xor.commute)
  qed
qed

lemma crc16_buf_inj: "crc16_buf f c bs = crc16_buf f c' bs \<Longrightarrow> c = c'"
  by (induction bs arbitrary: c c'; cases f) (auto simp: thierry_is_xmodem dest!: crc16_byte_inj(2))

text \<open>C34: A corrupted byte is always detected: two messages that differ in one byte have different
  checksums.\<close>

theorem crc16_detects:
  assumes "b \<noteq> b'"
  shows "crc16_buf f crc (as @ b # cs) \<noteq> crc16_buf f crc (as @ b' # cs)"
proof
  assume "crc16_buf f crc (as @ b # cs) = crc16_buf f crc (as @ b' # cs)"
  then have "crc16_call f (crc16_buf f crc as) b = crc16_call f (crc16_buf f crc as) b'"
    by (auto simp: crc16_buf_append dest: crc16_buf_inj)
  then show False using assms by (cases f) (auto simp: thierry_is_xmodem dest: crc16_byte_inj(1))
qed

theorem crc16_detects_witness:
  "crc16_buf Thierry 0 ([1] @ 2 # [3]) \<noteq> crc16_buf Thierry 0 ([1] @ 3 # [3])"
  by (rule crc16_detects) simp

section \<open>Shift registers\<close>

text \<open>The word that runs a register with a step of an invertible register.\<close>

lemma lfsr_word_nonzero:
  assumes "drep s (n # seed # xs)" and "ucast seed \<noteq> (0 :: 'a::len word)"
    and "\<And>k x. x \<noteq> 0 \<Longrightarrow> (step ^^ k) x \<noteq> (0 :: 'a word)"
  shows "\<exists>s' r. lfsr_word step s = Ret s' \<and> drep s' (ucast r # xs) \<and> r = (step ^^ unat n) (ucast seed) \<and> r \<noteq> 0"
proof -
  have get: "ST 0 s = n" "ST (Suc 0) s = seed" "stk 2 s"
    using assms(1) by (auto simp: ds.get_rep ds.cells_rep)
  let ?r = "(step ^^ unat n) (ucast seed)"
  have "drep (set_ST 0 (ucast ?r) (DROP 1 s)) (ucast ?r # xs)"
    using ds.put_0 [OF ds.pop_1 [OF assms(1)]] .
  then show ?thesis using get assms(2,3) by (auto simp: lfsr_word_def lfsr_run_funpow)
qed

text \<open>From a seed that is not zero (in the bits of the register) no shift register ever reaches
  zero, where it would stay: each of the four words leaves the state after the number of steps
  asked for, and it is not zero.\<close>

theorem lfsr_alive:
  assumes "drep s (n # seed # xs)" and "ucast seed \<noteq> (0 :: 32 word)" and "seed \<noteq> 0"
  shows "(\<exists>s' r. mu_lfsr_gal s = Ret s' \<and> drep s' (ucast r # xs) \<and>
        r = (gal_step gal_mask ^^ unat n) (ucast seed) \<and> r \<noteq> 0) \<and>
    (\<exists>s' r. mu_lfsr_fib s = Ret s' \<and> drep s' (ucast r # xs) \<and> r = (fib_step ^^ unat n) (ucast seed) \<and> r \<noteq> 0) \<and>
    (\<exists>s' r. mu_lfsr_gal_two s = Ret s' \<and> drep s' (ucast r # xs) \<and>
        r = (gal_step gal_two_mask ^^ unat n) (ucast seed) \<and> r \<noteq> 0) \<and>
    (\<exists>s' r. mu_lfsr_gal64 s = Ret s' \<and> drep s' (ucast r # xs) \<and>
        r = (gal_step gal64_mask ^^ unat n) (ucast seed) \<and> r \<noteq> (0 :: 64 word))"
  unfolding mu_lfsr_gal_def mu_lfsr_fib_def mu_lfsr_gal_two_def mu_lfsr_gal64_def
  by (intro conjI lfsr_word_nonzero [OF assms(1)])
    (use assms(2,3) gal.never_zero fib.never_zero gal_two.never_zero gal64.never_zero in simp_all)

theorem lfsr_alive_witness:
  "\<exists>s' r. mu_lfsr_gal (stacked [7, 1] (example (\<lambda>_. 0))) = Ret s' \<and> drep s' [ucast r] \<and>
     r = (gal_step gal_mask ^^ unat (7 :: cell)) (ucast (1 :: cell)) \<and> r \<noteq> 0"
  using lfsr_alive [of "stacked [7, 1] (example (\<lambda>_. 0))" 7 1 "[]"] example_stacked(1) [of "[7, 1]"] by simp

lemma length_word_pushes:
  assumes "shift_register step unstep" "drep s xs" "length xs < 4064"
  shows "\<exists>s'. lfsr_length_word (step :: 32 word \<Rightarrow> 32 word) s = Ret s' \<and>
    drep s' (of_nat (orbit_length step (- 1)) # xs)"
  using assms(2,3) ds.push_rep [OF assms(2,3)]
  by (simp add: lfsr_length_word_def shift_register.period_terminates [OF assms(1)] push_def ds.rooms_rep)

definition first_return :: "('w \<Rightarrow> 'w) \<Rightarrow> 'w \<Rightarrow> nat \<Rightarrow> bool" where
  "first_return step x p \<longleftrightarrow> 0 < p \<and> (step ^^ p) x = x \<and> (\<forall>k. 0 < k \<and> k < p \<longrightarrow> (step ^^ k) x \<noteq> x)"

lemma turns:
  assumes "shift_register (step :: 32 word \<Rightarrow> 32 word) unstep"
  shows "first_return step x (orbit_length step x)" "orbit_length step x \<le> 2 ^ 32"
  using shift_register.orbit [OF assms] by (auto simp: first_return_def)

text \<open>C35: The words that measure a period end, and push the period of the register started with
  all ones: the least number of steps, at most \<open>2^32\<close>, after which all ones are back.\<close>

theorem lfsr_length_ends:
  assumes "drep s xs" and "length xs < 4064"
  shows "(\<exists>s' p. mu_lfsr_gal_length s = Ret s' \<and> drep s' (of_nat p # xs) \<and> p \<le> 2 ^ 32 \<and>
        first_return (gal_step gal_mask) (- 1) p) \<and>
    (\<exists>s' p. mu_lfsr_fib_length s = Ret s' \<and> drep s' (of_nat p # xs) \<and> p \<le> 2 ^ 32 \<and> first_return fib_step (- 1) p) \<and>
    (\<exists>s' p. mu_lfsr_gal_two_length s = Ret s' \<and> drep s' (of_nat p # xs) \<and> p \<le> 2 ^ 32 \<and>
        first_return (gal_step gal_two_mask) (- 1) p)"
  unfolding mu_lfsr_gal_length_def mu_lfsr_fib_length_def mu_lfsr_gal_two_length_def
  using length_word_pushes [OF gal.shift_register_axioms assms] length_word_pushes [OF fib.shift_register_axioms assms]
    length_word_pushes [OF gal_two.shift_register_axioms assms]
    turns [OF gal.shift_register_axioms] turns [OF fib.shift_register_axioms] turns [OF gal_two.shift_register_axioms]
  by blast

theorem lfsr_length_ends_witness:
  "\<exists>s' p. mu_lfsr_gal_length (example (\<lambda>_. 0)) = Ret s' \<and> first_return (gal_step gal_mask) (- 1) p"
  using lfsr_length_ends [OF example_drep, of "\<lambda>_. 0"] by auto

section \<open>Numbers of digits\<close>

text \<open>The memory of the examples, one number of two digits at \<open>0x500000\<close> and one at \<open>0x500010\<close>.\<close>

lemma example_digits:
  "wacc (segs (example m)) 0x500000 4" "racc (segs (example m)) 0x500010 4"
  "disj (0x500000 :: addr) 4 0x500010 4"
  by (simp_all add: disj_def)

text \<open>\<open>mp_add\<close> adds numbers of any length, digit by digit: what it leaves at \<open>p\<close>, with the
  carry it returns as the next digit, is the sum of the two numbers and the carry it was given, and
  nothing but the digits at \<open>p\<close> changes.\<close>

theorem mp_add_adds:
  assumes "c = 0 \<or> c = 1" "wacc (segs s) p (2 * n)" "racc (segs s) q (2 * n)" "disj p (2 * n) q (2 * n)" "n < 2 ^ 62"
  shows "\<exists>c' m. mp_add c p q n s = Ret (c', s\<lparr>mem := m\<rparr>) \<and> (c' = 0 \<or> c' = 1) \<and> only_at p n (mem s) m \<and>
    mp_value m p n + 65536 ^ n * unat c' = mp_value (mem s) p n + mp_value (mem s) q n + unat c"
  by (rule mp_add_spec [OF assms])

theorem mp_add_adds_witness:
  "\<exists>c' m'. mp_add 0 0x500000 0x500010 2 (example (\<lambda>_. 0)) = Ret (c', (example (\<lambda>_. 0))\<lparr>mem := m'\<rparr>)"
  using mp_add_adds [of 0 "example (\<lambda>_. 0)" "0x500000" 2 "0x500010"] example_digits by auto

text \<open>\<open>mp_negate\<close>, started with a carry as \<open>dnegate\<close> does, is the two's complement of a
  number of any length: adding the number it replaced gives zero in that many digits.\<close>

theorem mp_negate_negates:
  assumes "wacc (segs s) p (2 * n)" "n < 2 ^ 62"
  shows "\<exists>c' m. mp_negate 1 p n s = Ret (c', s\<lparr>mem := m\<rparr>) \<and> only_at p n (mem s) m \<and>
    (mp_value m p n + mp_value (mem s) p n) mod 65536 ^ n = 0"
proof -
  obtain c' m where *: "mp_negate 1 p n s = Ret (c', s\<lparr>mem := m\<rparr>)" "only_at p n (mem s) m"
    "mp_value m p n + 65536 ^ n * unat c' + mp_value (mem s) p n + 1 = 65536 ^ n + unat (1 :: cint)"
    using mp_negate_spec [of 1 s p n] assms by auto
  show ?thesis by (intro exI [of _ c'] exI [of _ m] conjI *(1,2) mp_negate_complement [OF *(3)])
qed

theorem mp_negate_negates_witness:
  "\<exists>c' m'. mp_negate 1 0x500000 2 (example (\<lambda>_. 0)) = Ret (c', (example (\<lambda>_. 0))\<lparr>mem := m'\<rparr>)"
  using mp_negate_negates [of "example (\<lambda>_. 0)" "0x500000" 2] example_digits by auto

end
