(* ===== verification/FileClaims.thy ===== *)
theory FileClaims
  imports FileSpec Example
begin

text \<open>The properties of \<open>file.c\<close>, each applied to a concrete process.\<close>

text \<open>C32: \<open>concat_paths\<close> never writes beyond the buffer it is given. If the two paths, the separator
  and the null byte do not fit in \<open>destsize\<close> bytes it returns \<open>NULL\<close> and changes nothing; if they
  fit it returns the buffer, which then holds the two joined by a slash and ended, and no other byte
  of memory has changed.\<close>

theorem concat_paths_joins:
  assumes "can_join s dest p1 as p2 bs"
  shows "concat_paths dest destsize p1 p2 s =
    (if length as + length bs + 2 \<le> unat destsize
     then Ret (dest, s\<lparr>mem := wr_bytes (mem s) dest (joined as bs @ [0])\<rparr>) else Ret (0, s))"
  using assms concat_paths_fits [OF assms] concat_paths_short [of s p1 as p2 bs destsize dest]
  by (simp add: can_join_def)

text \<open>A process with \<open>"/"\<close>, \<open>"/mu"\<close> and \<open>"a.mu4"\<close> in memory.\<close>

definition path_mem :: memory where
  "path_mem = wr_bytes (wr_bytes (wr_bytes (\<lambda>_. 0) 0x600000 [47, 0]) 0x500000 [47, 109, 117, 0])
     0x500100 [97, 46, 109, 117, 52, 0]"

lemma path_strings:
  "cstring_at (example path_mem) 0x600000 [47]" "cstring_at (example path_mem) 0x500000 [47, 109, 117]"
  "cstring_at (example path_mem) 0x500100 [97, 46, 109, 117, 52]"
  using rd_wr_bytes_same [of "[47, 0]" "\<lambda>_. 0" "0x600000"] rd_wr_bytes_same [of "[47, 109, 117, 0]" _ "0x500000"]
    rd_wr_bytes_same [of "[97, 46, 109, 117, 52, 0]" _ "0x500100"]
  by (simp_all add: cstring_at_def path_mem_def rd_wr_bytes_disj disj_def)

lemma path_join: "can_join (example path_mem) 0x610000 0x500000 [47, 109, 117] 0x500100 [97, 46, 109, 117, 52]"
  using path_strings by (simp add: can_join_def disj_def)

theorem concat_paths_joins_witness:
  "concat_paths 0x610000 32 0x500000 0x500100 (example path_mem) =
    Ret (0x610000, (example path_mem)\<lparr>mem := wr_bytes path_mem 0x610000 [47, 109, 117, 47, 97, 46, 109, 117, 52, 0]\<rparr>)"
  using concat_paths_joins [OF path_join, of 32] by (simp add: joined_def)

text \<open>Paths that start with a slash are used as they are; paths that start with neither a slash nor
  a dot and a slash are taken under the directory the build was configured with, if they fit.\<close>

theorem abs_path_prefixes:
  assumes "cstring_at s path bs" and "bs = c # cs" and "c \<noteq> 46"
    and "can_join s dest (lit s ''MU_DIR'') dir path bs"
  shows "abs_path dest destsize path s =
    (if c = 47 then Ret (path, s)
     else if length dir + length bs + 2 \<le> unat destsize
     then Ret (dest, s\<lparr>mem := wr_bytes (mem s) dest (joined dir bs @ [0])\<rparr>) else Ret (0, s))"
proof -
  have "mem s path = c" using cstring_at_byte [OF assms(1), of 0] assms(2) by simp
  moreover have "racc (segs s) path 1"
    using assms(1) racc_mono [of "segs s" path "Suc (length bs)" 1] by (simp add: cstring_at_def)
  ultimately have "load_byte path s = Ret c" by (simp add: load_byte_def)
  moreover have "concat_paths dest destsize (lit s ''MU_DIR'') path s =
    (if length dir + length bs + 2 \<le> unat destsize
     then Ret (dest, s\<lparr>mem := wr_bytes (mem s) dest (joined dir bs @ [0])\<rparr>) else Ret (0, s))"
    using concat_paths_fits [OF assms(4)] concat_paths_short [of s "lit s ''MU_DIR''" dir path bs destsize dest] assms(4)
    by (simp add: can_join_def)
  ultimately show ?thesis using assms(3) by (simp add: abs_path_def byte_of_char_def)
qed

definition home_process :: mu where
  "home_process = (example path_mem)\<lparr>lit := (\<lambda>z. if z = ''MU_DIR'' then 0x500000 else 0x600000)\<rparr>"

theorem abs_path_prefixes_witness:
  "abs_path 0x610000 4096 0x500100 home_process =
    Ret (0x610000, home_process\<lparr>mem := wr_bytes path_mem 0x610000 [47, 109, 117, 47, 97, 46, 109, 117, 52, 0]\<rparr>)"
proof -
  have "can_join home_process 0x610000 (lit home_process ''MU_DIR'') [47, 109, 117] 0x500100 [97, 46, 109, 117, 52]"
    "cstring_at home_process 0x500100 [97, 46, 109, 117, 52]"
    using path_join path_strings by (simp_all add: can_join_def cstring_at_def home_process_def)
  from abs_path_prefixes [OF this(2) refl _ this(1), of 4096] show ?thesis
    by (simp add: joined_def home_process_def)
qed

text \<open>C23: \<open>write\<close> delivers everything. Whatever the calls of the system accept at a time, and however
  often they are interrupted or would block, as long as they accept it all in the end, the pieces
  they took, in order, are exactly the bytes of the buffer; the word returns, drops its three
  operands, and has changed no memory.\<close>

theorem write_sends_all:
  assumes "drep s (n # buffer # fd # xs)" and "racc (segs s) buffer (unat n)"
    and "accepts_all (script s) (unat n) = Some rest"
  shows "\<exists>s' cs used. mu_write ex s = Ret s' \<and> drep s' xs \<and> mem s' = mem s \<and> script s = used @ rest \<and>
    script s' = rest \<and> oslog s' = oslog s @ cs \<and> length cs = length used \<and>
    delivered cs used = rd_bytes (mem s) buffer (unat n)"
proof -
  have get: "ST 0 s = n" "ST (Suc 0) s = buffer" "ST 2 s = fd" "stk 3 s"
    using assms(1) by (auto simp: ds.get_rep ds.cells_rep)
  obtain cs e used where w: "write_carefully ex (as_int fd) buffer n (DROP 3 s) =
      Ret ((DROP 3 s)\<lparr>script := rest, oslog := oslog (DROP 3 s) @ cs, errno := e\<rparr>)"
    "script s = used @ rest" "length cs = length used" "delivered cs used = rd_bytes (mem s) buffer (unat n)"
    using write_carefully_sends [of "DROP 3 s" n rest buffer ex "as_int fd"] assms(2,3) by auto
  have "drep (DROP 3 s) xs" using assms(1) by (rule ds.pop_3)
  then have "drep ((DROP 3 s)\<lparr>script := rest, oslog := oslog s @ cs, errno := e\<rparr>) xs" by (simp add: drep_def)
  then show ?thesis using get w by (simp add: mu_write_def)
qed

definition wrote :: "cell \<Rightarrow> answer" where
  "wrote k = \<lparr>ret = k, err = 0, out = [], maps = []\<rparr>"

definition eintr :: answer where
  "eintr = \<lparr>ret = - 1, err = EINTR, out = [], maps = []\<rparr>"

theorem write_sends_all_witness:
  "\<exists>s' cs used. mu_write Ret ((stacked [5, 0x500000, 1] (example path_mem))\<lparr>script := [wrote 2, eintr, wrote 3]\<rparr>) = Ret s' \<and>
    drep s' [] \<and> delivered cs used = rd_bytes path_mem 0x500000 5"
proof -
  let ?s = "(stacked [5, 0x500000, 1] (example path_mem))\<lparr>script := [wrote 2, eintr, wrote 3]\<rparr>"
  have rep: "drep ?s [5, 0x500000, 1]" using example_stacked(1) [of "[5, 0x500000, 1]"] by (simp add: drep_def)
  have acc: "racc (segs ?s) 0x500000 (unat (5 :: cell))" by simp
  have five: "unat (5 :: cell) = Suc (Suc (Suc (Suc (Suc 0))))" by simp
  have ok: "accepts_all (script ?s) (unat (5 :: cell)) = Some []"
    unfolding five by (simp add: wrote_def eintr_def interrupted_def quiet_def)
  have m: "rd_bytes (mem ?s) 0x500000 (unat (5 :: cell)) = rd_bytes path_mem 0x500000 5"
    by (simp add: stacked_rd_bytes)
  show ?thesis using write_sends_all [OF rep acc ok, of Ret] unfolding m by blast
qed

text \<open>\<open>read\<close> waits out interruptions. After any number of answers that say the call was
  interrupted or would block, the first other answer is the result: its count replaces the operands
  on the stack, its data is in the buffer, and the same call was made every time.\<close>

theorem read_waits:
  assumes "drep s (n # buffer # fd # xs)" and "script s = as @ b # rest"
    and "list_all (interrupted [EINTR, EAGAIN]) as" and "ret b \<noteq> - 1" and "out b = [(buffer, bs)]" and "maps b = []"
    and "data_at s buffer (length bs)"
  shows "\<exists>s'. mu_read ex s = Ret s' \<and> drep s' (ret b # xs) \<and> rd_bytes (mem s') buffer (length bs) = bs \<and>
    script s' = rest \<and>
    oslog s' = oslog s @ replicate (Suc (length as)) (Call ''read'' [as_int fd, buffer, n] [])"
proof -
  have get: "ST 0 s = n" "ST (Suc 0) s = buffer" "ST 2 s = fd" "stk 3 s"
    using assms(1) by (auto simp: ds.get_rep ds.cells_rep)
  let ?c = "Call ''read'' [as_int fd, buffer, n] []" and ?s = "DROP 2 s"
  let ?t = "?s\<lparr>script := rest, oslog := oslog s @ replicate (Suc (length as)) ?c, segs := maps b @ segs s,
    mem := put_bytes (out b) (mem s), errno := errno (?s\<lparr>errno := if as = [] then errno s else err (last as)\<rparr>)\<rparr>"
  have run: "retry (\<lambda>_. ?c) [EINTR, EAGAIN] ?s = Ret (ret b, ?t)"
    using retry_interrupted [of ?s as b rest "[EINTR, EAGAIN]" "\<lambda>_. ?c" ?c] assms(2-4) by simp
  have "drep ?s (fd # xs)" using assms(1) by (rule ds.pop_2)
  then have "drep (?s\<lparr>mem := wr_bytes (mem ?s) buffer bs\<rparr>) (fd # xs)"
    by (rule drep_write) (use assms(7) in \<open>simp add: data_at_dframe [OF dframe_DROP]\<close>)
  then have rep: "drep ?t (fd # xs)" by (simp add: drep_def assms(5,6) put_bytes_def)
  have run': "mu_read ex s = Ret (set_ST 0 (ret b) ?t)"
    using get run assms(4) ds.cells_rep [OF rep, of 1] by (simp add: mu_read_def read_carefully_def)
  have "rd_bytes (mem ?t) buffer (length bs) = bs"
    using data_at_size [OF assms(7)] by (simp add: assms(5) put_bytes_def rd_wr_bytes_same)
  moreover have "data_at ?t buffer (length bs)"
    using assms(7) by (subst data_at_cong [of _ s]) (simp_all add: assms(6))
  ultimately have "rd_bytes (mem (set_ST 0 (ret b) ?t)) buffer (length bs) = bs"
    using rd_bytes_dframe [OF dframe_set_ST [OF rep, of 0]] by simp
  then show ?thesis using run' ds.put_0 [OF rep, of "ret b"] by simp
qed

theorem read_waits_witness:
  "\<exists>s'. mu_read Ret ((stacked [8, 0x500000, 0] (example (\<lambda>_. 0)))\<lparr>script := [eintr, \<lparr>ret = 2, err = 0,
      out = [(0x500000, [104, 105])], maps = []\<rparr>]\<rparr>) = Ret s' \<and> drep s' [2] \<and> rd_bytes (mem s') 0x500000 2 = [104, 105]"
proof -
  let ?b = "\<lparr>ret = 2, err = 0, out = [(0x500000, [104, 105])], maps = []\<rparr> :: answer"
  let ?s = "(stacked [8, 0x500000, 0] (example (\<lambda>_. 0)))\<lparr>script := [eintr, ?b]\<rparr>"
  have rep: "drep ?s [8, 0x500000, 0]" using example_stacked(1) [of "[8, 0x500000, 0]"] by (simp add: drep_def)
  have sc: "script ?s = [eintr] @ ?b # []" by simp
  have ints: "list_all (interrupted [EINTR, EAGAIN]) [eintr]" by (simp add: eintr_def interrupted_def quiet_def)
  have "data_at (stacked [8, 0x500000, 0] (example (\<lambda>_. 0))) 0x500000 (length [104, 105 :: byte])"
    by (rule stacked_data_at) simp_all
  then have at: "data_at ?s 0x500000 (length [104, 105 :: byte])"
    by (subst data_at_cong [of _ "stacked [8, 0x500000, 0] (example (\<lambda>_. 0))"]) simp_all
  have "ret ?b \<noteq> - 1" "out ?b = [(0x500000, [104, 105])]" "maps ?b = []" "length [104, 105 :: byte] = 2" by simp_all
  then show ?thesis
    using read_waits [OF rep sc ints _ _ _ at, of Ret] by (metis answer.select_convs(1))
qed

end
