(* ===== verification/Bus.thy ===== *)
theory Bus
  imports Prelude
begin

text \<open>
  The memory-mapped registers of the GD32VF103, the RISC-V microcontroller whose vendor library is
  kept beside the muforth target compiler (\<open>src/mu/target/RISC-V/firmware\<close>). The library reads and
  writes volatile 32-bit and 16-bit words; what the hardware answers and how it changes is not in
  the repository, so it is a parameter: a \<open>bus\<close>, whose reads may change the hardware as its writes
  do, with accesses of 32, 16 and 8 bits. A C function of the library becomes a function of the bus that takes the hardware's state and
  returns it changed, with the function's result, if it has one.
\<close>

type_synonym reg = "32 word"

record 'h bus =
  rd32 :: "32 word \<Rightarrow> 'h \<Rightarrow> reg \<times> 'h"
  wr32 :: "32 word \<Rightarrow> reg \<Rightarrow> 'h \<Rightarrow> 'h"
  rd16 :: "32 word \<Rightarrow> 'h \<Rightarrow> 16 word \<times> 'h"
  wr16 :: "32 word \<Rightarrow> 16 word \<Rightarrow> 'h \<Rightarrow> 'h"
  rd8 :: "32 word \<Rightarrow> 'h \<Rightarrow> 8 word \<times> 'h"
  wr8 :: "32 word \<Rightarrow> 8 word \<Rightarrow> 'h \<Rightarrow> 'h"

section \<open>The macros of \<open>gd32vf103.h\<close>\<close>

definition BIT :: "nat \<Rightarrow> reg" where
  "BIT x = push_bit x 1"

definition BITS :: "nat \<Rightarrow> nat \<Rightarrow> reg" where
  "BITS m n = push_bit m 0xFFFFFFFF AND drop_bit (31 - n) 0xFFFFFFFF"

definition GET_BITS :: "reg \<Rightarrow> nat \<Rightarrow> nat \<Rightarrow> reg" where
  "GET_BITS v m n = drop_bit m (v AND BITS m n)"

text \<open>The buses that the peripherals hang on.\<close>

abbreviation (input) APB1_BUS_BASE :: "reg" where "APB1_BUS_BASE \<equiv> 0x40000000"
abbreviation (input) APB2_BUS_BASE :: "reg" where "APB2_BUS_BASE \<equiv> 0x40010000"
abbreviation (input) AHB1_BUS_BASE :: "reg" where "AHB1_BUS_BASE \<equiv> 0x40018000"

lemma bit_BIT [simp]: "bit (BIT x) n \<longleftrightarrow> n = x \<and> n < 32"
  by (auto simp: BIT_def bit_simps)

lemma bit_BITS [simp]: "n < 32 \<Longrightarrow> bit (BITS m n) i \<longleftrightarrow> m \<le> i \<and> i \<le> n"
proof -
  assume n: "n < 32"
  have ones: "(0xFFFFFFFF :: reg) = - 1" by simp
  show ?thesis
    unfolding BITS_def ones using n
    by (auto simp: bit_simps)
qed

lemma bit_GET_BITS: "n < 32 \<Longrightarrow> bit (GET_BITS v m n) i \<longleftrightarrow> m + i \<le> n \<and> bit v (m + i)"
  by (auto simp: GET_BITS_def bit_drop_bit_eq bit_and_iff)

lemma GET_BITS_take: "n < 32 \<Longrightarrow> GET_BITS v m n = take_bit (Suc n - m) (drop_bit m v)"
  by (rule bit_word_eqI) (auto simp: bit_GET_BITS bit_take_bit_iff bit_drop_bit_eq)

lemma GET_BITS_bound: "n < 32 \<Longrightarrow> unat (GET_BITS v m n) < 2 ^ (Suc n - m)"
  unfolding GET_BITS_take by (simp add: unsigned_take_bit_eq)

text \<open>A shift of a 32-bit word by its width or more is undefined in C, and so is a
  division by 0.\<close>

definition shl :: "reg \<Rightarrow> reg \<Rightarrow> reg outcome" where
  "shl v n = (if n < 32 then Ret (push_bit (unat n) v) else Undef)"

definition udivide :: "reg \<Rightarrow> reg \<Rightarrow> reg outcome" where
  "udivide n d = (if d = 0 then Undef else Ret (n div d))"

section \<open>Read-modify-write\<close>

definition modify :: "'h bus \<Rightarrow> 32 word \<Rightarrow> (reg \<Rightarrow> reg) \<Rightarrow> 'h \<Rightarrow> 'h" where
  "modify B a f h = (let (v, h) = rd32 B a h in wr32 B a (f v) h)"

text \<open>\<open>REG |= x\<close> and \<open>REG &= ~x\<close>.\<close>

definition set_bits :: "'h bus \<Rightarrow> 32 word \<Rightarrow> reg \<Rightarrow> 'h \<Rightarrow> 'h" where
  "set_bits B a x = modify B a (\<lambda>v. v OR x)"

definition clear_bits :: "'h bus \<Rightarrow> 32 word \<Rightarrow> reg \<Rightarrow> 'h \<Rightarrow> 'h" where
  "clear_bits B a x = modify B a (\<lambda>v. v AND NOT x)"

text \<open>\<open>FlagStatus\<close> is \<open>RESET\<close> or \<open>SET\<close>, here false or true: whether some bit of \<open>x\<close> is set in the
  register.\<close>

definition any_set :: "'h bus \<Rightarrow> 32 word \<Rightarrow> reg \<Rightarrow> 'h \<Rightarrow> bool \<times> 'h" where
  "any_set B a x h = (let (v, h) = rd32 B a h in (v AND x \<noteq> 0, h))"

text \<open>The same on registers of 16 bits.\<close>

definition set_bits16 :: "'h bus \<Rightarrow> 32 word \<Rightarrow> 16 word \<Rightarrow> 'h \<Rightarrow> 'h" where
  "set_bits16 B a x h = (let (v, h) = rd16 B a h in wr16 B a (v OR x) h)"

definition clear_bits16 :: "'h bus \<Rightarrow> 32 word \<Rightarrow> 16 word \<Rightarrow> 'h \<Rightarrow> 'h" where
  "clear_bits16 B a x h = (let (v, h) = rd16 B a h in wr16 B a (v AND NOT x) h)"

section \<open>Waiting for the hardware\<close>

text \<open>
  Three loops that wait. \<open>while (P(REG) && 0 != timeout) timeout--;\<close> reads first and looks at the
  count after, and returns the count left; \<open>do v = REG; while (P(v) && --timeout);\<close> returns the last
  value it read, after at most one read more than the number given here; and \<open>while (P(REG));\<close> has no
  bound: it returns if the hardware does what it waits for, and else its value is \<open>None\<close>.
\<close>

fun wait_while :: "'h bus \<Rightarrow> 32 word \<Rightarrow> (reg \<Rightarrow> bool) \<Rightarrow> nat \<Rightarrow> 'h \<Rightarrow> nat \<times> 'h" where
  "wait_while B a P n h =
     (let (v, h) = rd32 B a h
      in if P v then (case n of 0 \<Rightarrow> (0, h) | Suc m \<Rightarrow> wait_while B a P m h) else (n, h))"

declare wait_while.simps [simp del]

fun poll_while :: "'h bus \<Rightarrow> 32 word \<Rightarrow> (reg \<Rightarrow> bool) \<Rightarrow> nat \<Rightarrow> 'h \<Rightarrow> reg \<times> 'h" where
  "poll_while B a P 0 h = rd32 B a h"
| "poll_while B a P (Suc n) h = (let (v, h) = rd32 B a h in if P v then poll_while B a P n h else (v, h))"

partial_function (option) spin_while :: "'h bus \<Rightarrow> 32 word \<Rightarrow> (reg \<Rightarrow> bool) \<Rightarrow> 'h \<Rightarrow> 'h option" where
  "spin_while B a Q h = (let (v, h) = rd32 B a h in if Q v then spin_while B a Q h else Some h)"

text \<open>What a register reads after \<open>n\<close> reads of it, and the hardware then.\<close>

fun after_reads :: "'h bus \<Rightarrow> 32 word \<Rightarrow> nat \<Rightarrow> 'h \<Rightarrow> 'h" where
  "after_reads B a 0 h = h"
| "after_reads B a (Suc n) h = after_reads B a n (snd (rd32 B a h))"

lemma after_reads_Suc: "after_reads B a (Suc n) h = snd (rd32 B a (after_reads B a n h))"
  by (induction n arbitrary: h) auto

definition answer :: "'h bus \<Rightarrow> 32 word \<Rightarrow> nat \<Rightarrow> 'h \<Rightarrow> reg" where
  "answer B a n h = fst (rd32 B a (after_reads B a n h))"

lemma answer_0: "answer B a 0 h = fst (rd32 B a h)"
  and answer_Suc: "answer B a (Suc n) h = answer B a n (snd (rd32 B a h))"
  by (simp_all add: answer_def)

lemma spin_while_returns:
  "\<not> P (answer B a n h) \<Longrightarrow> (\<And>i. i < n \<Longrightarrow> P (answer B a i h)) \<Longrightarrow>
   spin_while B a P h = Some (after_reads B a (Suc n) h)"
proof (induction n arbitrary: h)
  case 0
  then show ?case by (subst spin_while.simps) (simp add: answer_0 split_beta)
next
  case (Suc n)
  have "P (fst (rd32 B a h))" using Suc.prems(2) [of 0] by (simp add: answer_0)
  moreover have "P (answer B a i (snd (rd32 B a h)))" if "i < n" for i
    using Suc.prems(2) [of "Suc i"] that by (simp add: answer_Suc)
  ultimately show ?case
    using Suc.IH [of "snd (rd32 B a h)"] Suc.prems(1)
    by (subst spin_while.simps) (simp add: answer_Suc split_beta)
qed

lemma spin_while_Some:
  assumes "spin_while B a P h = Some h'"
  shows "\<exists>n. h' = after_reads B a (Suc n) h \<and> \<not> P (answer B a n h) \<and> (\<forall>i < n. P (answer B a i h))"
proof (rule spin_while.raw_induct [where P = "\<lambda>B a P h h'.
    \<exists>n. h' = after_reads B a (Suc n) h \<and> \<not> P (answer B a n h) \<and> (\<forall>i < n. P (answer B a i h))", OF _ assms])
  fix sw :: "'a bus \<Rightarrow> 32 word \<Rightarrow> (reg \<Rightarrow> bool) \<Rightarrow> 'a \<Rightarrow> 'a option" and B a P h h'
  assume IH: "\<And>B a P h h'. sw B a P h = Some h' \<Longrightarrow>
      \<exists>n. h' = after_reads B a (Suc n) h \<and> \<not> P (answer B a n h) \<and> (\<forall>i < n. P (answer B a i h))"
    and step: "(let (v, h) = rd32 B a h in if P v then sw B a P h else Some h) = Some h'"
  show "\<exists>n. h' = after_reads B a (Suc n) h \<and> \<not> P (answer B a n h) \<and> (\<forall>i < n. P (answer B a i h))"
  proof (cases "P (fst (rd32 B a h))")
    case True
    then have "sw B a P (snd (rd32 B a h)) = Some h'" using step by (simp add: split_beta)
    then obtain n where n: "h' = after_reads B a (Suc n) (snd (rd32 B a h))"
      "\<not> P (answer B a n (snd (rd32 B a h)))" "\<forall>i < n. P (answer B a i (snd (rd32 B a h)))"
      using IH by blast
    have "\<forall>i < Suc n. P (answer B a i h)"
      using True n(3) by (auto simp: less_Suc_eq_0_disj answer_0 answer_Suc)
    with n show ?thesis by (intro exI [of _ "Suc n"]) (simp add: answer_Suc)
  next
    case False
    then show ?thesis using step by (intro exI [of _ 0]) (simp add: answer_0 split_beta)
  qed
qed

lemma spin_while_iff:
  "spin_while B a P h \<noteq> None \<longleftrightarrow> (\<exists>n. \<not> P (answer B a n h))"
proof
  assume "spin_while B a P h \<noteq> None"
  then show "\<exists>n. \<not> P (answer B a n h)" using spin_while_Some by fastforce
next
  assume ex: "\<exists>n. \<not> P (answer B a n h)"
  define n where "n = (LEAST n. \<not> P (answer B a n h))"
  have "\<not> P (answer B a n h)" unfolding n_def using LeastI_ex [OF ex] .
  moreover have "P (answer B a i h)" if "i < n" for i
    using not_less_Least [of i "\<lambda>n. \<not> P (answer B a n h)"] that unfolding n_def by blast
  ultimately show "spin_while B a P h \<noteq> None" using spin_while_returns [of P B a n h] by simp
qed

text \<open>The bounded loops read at most one time more than their count, and stop early exactly at the
  first answer they wait for.\<close>

lemma wait_while_first:
  "n \<le> m \<Longrightarrow> \<not> P (answer B a n h) \<Longrightarrow> (\<And>i. i < n \<Longrightarrow> P (answer B a i h)) \<Longrightarrow>
   wait_while B a P m h = (m - n, after_reads B a (Suc n) h)"
proof (induction n arbitrary: m h)
  case 0
  then show ?case by (subst wait_while.simps) (simp add: answer_0 split_beta)
next
  case (Suc n)
  then obtain k where k: "m = Suc k" by (metis Suc_le_D)
  have "P (fst (rd32 B a h))" using Suc.prems(3) [of 0] by (simp add: answer_0)
  moreover have "P (answer B a i (snd (rd32 B a h)))" if "i < n" for i
    using Suc.prems(3) [of "Suc i"] that by (simp add: answer_Suc)
  ultimately show ?case
    using Suc.IH [of k "snd (rd32 B a h)"] Suc.prems(1,2)
    by (subst wait_while.simps) (simp add: answer_Suc split_beta k)
qed

lemma wait_while_expires:
  "(\<And>i. i \<le> m \<Longrightarrow> P (answer B a i h)) \<Longrightarrow> wait_while B a P m h = (0, after_reads B a (Suc m) h)"
proof (induction m arbitrary: h)
  case 0
  then show ?case using 0 [of 0] by (subst wait_while.simps) (simp add: answer_0 split_beta)
next
  case (Suc m)
  have "P (fst (rd32 B a h))" using Suc.prems [of 0] by (simp add: answer_0)
  moreover have "P (answer B a i (snd (rd32 B a h)))" if "i \<le> m" for i
    using Suc.prems [of "Suc i"] that by (simp add: answer_Suc)
  ultimately show ?case
    using Suc.IH [of "snd (rd32 B a h)"] by (subst wait_while.simps) (simp add: split_beta)
qed

lemma poll_while_first:
  "n \<le> m \<Longrightarrow> \<not> P (answer B a n h) \<Longrightarrow> (\<And>i. i < n \<Longrightarrow> P (answer B a i h)) \<Longrightarrow>
   poll_while B a P m h = (answer B a n h, after_reads B a (Suc n) h)"
proof (induction n arbitrary: m h)
  case 0
  then show ?case by (cases m) (simp_all add: answer_0 split_beta)
next
  case (Suc n)
  then obtain k where k: "m = Suc k" by (metis Suc_le_D)
  have "P (fst (rd32 B a h))" using Suc.prems(3) [of 0] by (simp add: answer_0)
  moreover have "P (answer B a i (snd (rd32 B a h)))" if "i < n" for i
    using Suc.prems(3) [of "Suc i"] that by (simp add: answer_Suc)
  ultimately show ?case
    using Suc.IH [of k "snd (rd32 B a h)"] Suc.prems(1,2) by (simp add: answer_Suc split_beta k)
qed

lemma poll_while_expires:
  "(\<And>i. i < m \<Longrightarrow> P (answer B a i h)) \<Longrightarrow>
   poll_while B a P m h = (answer B a m h, after_reads B a (Suc m) h)"
proof (induction m arbitrary: h)
  case 0
  then show ?case by (simp add: answer_0 split_beta)
next
  case (Suc m)
  have "P (fst (rd32 B a h))" using Suc.prems [of 0] by (simp add: answer_0)
  moreover have "P (answer B a i (snd (rd32 B a h)))" if "i < m" for i
    using Suc.prems [of "Suc i"] that by (simp add: answer_Suc)
  ultimately show ?case
    using Suc.IH [of "snd (rd32 B a h)"] by (simp add: answer_Suc split_beta)
qed

section \<open>Registers that are storage\<close>

text \<open>What the manual documents of most registers: a read gives what was last written and changes
  nothing, and a write changes no other of these registers. \<open>val h a\<close> is the content of the
  register at \<open>a\<close>, and \<open>A\<close> the registers the statement is about.\<close>

locale registers =
  fixes B :: "'h bus" and val :: "'h \<Rightarrow> 32 word \<Rightarrow> reg" and A :: "32 word set"
  assumes rd_val: "a \<in> A \<Longrightarrow> rd32 B a h = (val h a, h)"
    and wr_val: "a \<in> A \<Longrightarrow> b \<in> A \<Longrightarrow> val (wr32 B a v h) b = (if b = a then v else val h b)"
begin

lemma modify_val: "a \<in> A \<Longrightarrow> b \<in> A \<Longrightarrow> val (modify B a f h) b = (if b = a then f (val h a) else val h b)"
  by (simp add: modify_def rd_val wr_val)

lemma set_bits_val: "a \<in> A \<Longrightarrow> b \<in> A \<Longrightarrow> val (set_bits B a x h) b = (if b = a then val h a OR x else val h b)"
  by (simp add: set_bits_def modify_val)

lemma clear_bits_val:
  "a \<in> A \<Longrightarrow> b \<in> A \<Longrightarrow> val (clear_bits B a x h) b = (if b = a then val h a AND NOT x else val h b)"
  by (simp add: clear_bits_def modify_val)

lemma any_set_val: "a \<in> A \<Longrightarrow> any_set B a x h = (val h a AND x \<noteq> 0, h)"
  by (simp add: any_set_def rd_val)

lemmas access_val = rd_val wr_val modify_val set_bits_val clear_bits_val any_set_val

end

lemma registers_mono: "registers B val A \<Longrightarrow> A' \<subseteq> A \<Longrightarrow> registers B val A'"
  unfolding registers_def by (meson subsetD)

lemma and_BIT: "v AND BIT n \<noteq> 0 \<longleftrightarrow> bit v n \<and> n < 32"
proof
  assume "v AND BIT n \<noteq> 0"
  then obtain i where "bit (v AND BIT n) i" by (metis bit_eqI bit_0_eq bot_apply bot_bool_def)
  then show "bit v n \<and> n < 32" by (auto simp: bit_and_iff)
next
  assume "bit v n \<and> n < 32"
  then have "bit (v AND BIT n) n" by (simp add: bit_and_iff)
  then show "v AND BIT n \<noteq> 0" by (metis bit_0_eq bot_apply bot_bool_def)
qed

section \<open>The documented hardware\<close>

text \<open>
  A model of what the manual documents, as far as the library relies on it, for the concrete
  examples: a file of 32-bit registers in which most addresses are storage, while the bit
  operation registers of the ports act on the output register and read as zero, and the pending
  register of the interrupt lines is cleared by writing ones. Half-words are written into the low
  or the high half of their word.
\<close>

definition GPIO_BASE :: "32 word" where "GPIO_BASE = 0x40010800"
definition EXTI_BASE :: "32 word" where "EXTI_BASE = 0x40010400"

definition is_port :: "32 word \<Rightarrow> bool" where
  "is_port p \<longleftrightarrow> p \<in> {GPIO_BASE, GPIO_BASE + 0x400, GPIO_BASE + 0x800, GPIO_BASE + 0xC00, GPIO_BASE + 0x1000}"

definition special :: "32 word \<Rightarrow> bool" where
  "special a \<longleftrightarrow> is_port (a - 0x10) \<or> is_port (a - 0x14) \<or> a = EXTI_BASE + 0x14"

definition gd32_read :: "32 word \<Rightarrow> (32 word \<Rightarrow> reg) \<Rightarrow> reg \<times> (32 word \<Rightarrow> reg)" where
  "gd32_read a h = (if is_port (a - 0x10) \<or> is_port (a - 0x14) then 0 else h a, h)"

definition gd32_write :: "32 word \<Rightarrow> reg \<Rightarrow> (32 word \<Rightarrow> reg) \<Rightarrow> (32 word \<Rightarrow> reg)" where
  "gd32_write a v h =
     (if is_port (a - 0x10) then h(a - 4 := (h (a - 4) AND NOT (drop_bit 16 v)) OR take_bit 16 v)
      else if is_port (a - 0x14) then h(a - 8 := h (a - 8) AND NOT v)
      else if a = EXTI_BASE + 0x14 then h(a := h a AND NOT v)
      else h(a := v))"

definition gd32_write16 :: "32 word \<Rightarrow> 16 word \<Rightarrow> (32 word \<Rightarrow> reg) \<Rightarrow> (32 word \<Rightarrow> reg)" where
  "gd32_write16 a v h =
     (let w = a AND NOT 3; k = (if bit a 1 then 16 else 0)
      in h(w := (h w AND NOT (push_bit k 0xFFFF)) OR push_bit k (ucast v)))"

definition gd32_read16 :: "32 word \<Rightarrow> (32 word \<Rightarrow> reg) \<Rightarrow> 16 word \<times> (32 word \<Rightarrow> reg)" where
  "gd32_read16 a h = (ucast (drop_bit (if bit a 1 then 16 else 0) (h (a AND NOT 3))), h)"

definition gd32_read8 :: "32 word \<Rightarrow> (32 word \<Rightarrow> reg) \<Rightarrow> 8 word \<times> (32 word \<Rightarrow> reg)" where
  "gd32_read8 a h = (ucast (drop_bit (8 * unat (a AND 3)) (h (a AND NOT 3))), h)"

definition gd32_write8 :: "32 word \<Rightarrow> 8 word \<Rightarrow> (32 word \<Rightarrow> reg) \<Rightarrow> (32 word \<Rightarrow> reg)" where
  "gd32_write8 a v h =
     (let w = a AND NOT 3; k = 8 * unat (a AND 3)
      in h(w := (h w AND NOT (push_bit k 0xFF)) OR push_bit k (ucast v)))"

definition gd32 :: "(32 word \<Rightarrow> reg) bus" where
  "gd32 = \<lparr>rd32 = gd32_read, wr32 = gd32_write, rd16 = gd32_read16, wr16 = gd32_write16,
     rd8 = gd32_read8, wr8 = gd32_write8\<rparr>"

interpretation gd32: registers gd32 "\<lambda>h. h" "{a. \<not> special a}"
  by unfold_locales (auto simp: gd32_def gd32_read_def gd32_write_def special_def)

end
