(* ===== verification/Rcu.thy ===== *)
theory Rcu
  imports Bus
begin

text \<open>
  \<open>gd32vf103_rcu.c\<close> and the tables of \<open>gd32vf103_rcu.h\<close>: the reset and clock unit. A peripheral,
  a reset line, a flag or an oscillator is named by a number that holds the offset of its register
  and the position of its bit; the value of the crystal, which depends on the board, is a parameter.
\<close>

section \<open>Registers and fields\<close>

abbreviation (input) RCU :: "32 word" where "RCU \<equiv> 0x40021000"
abbreviation (input) RCU_CTL :: "32 word" where "RCU_CTL \<equiv> RCU + 0x00"
abbreviation (input) RCU_CFG0 :: "32 word" where "RCU_CFG0 \<equiv> RCU + 0x04"
abbreviation (input) RCU_INT :: "32 word" where "RCU_INT \<equiv> RCU + 0x08"
abbreviation (input) RCU_APB2RST :: "32 word" where "RCU_APB2RST \<equiv> RCU + 0x0C"
abbreviation (input) RCU_APB1RST :: "32 word" where "RCU_APB1RST \<equiv> RCU + 0x10"
abbreviation (input) RCU_AHBEN :: "32 word" where "RCU_AHBEN \<equiv> RCU + 0x14"
abbreviation (input) RCU_APB2EN :: "32 word" where "RCU_APB2EN \<equiv> RCU + 0x18"
abbreviation (input) RCU_APB1EN :: "32 word" where "RCU_APB1EN \<equiv> RCU + 0x1C"
abbreviation (input) RCU_BDCTL :: "32 word" where "RCU_BDCTL \<equiv> RCU + 0x20"
abbreviation (input) RCU_RSTSCK :: "32 word" where "RCU_RSTSCK \<equiv> RCU + 0x24"
abbreviation (input) RCU_AHBRST :: "32 word" where "RCU_AHBRST \<equiv> RCU + 0x28"
abbreviation (input) RCU_CFG1 :: "32 word" where "RCU_CFG1 \<equiv> RCU + 0x2C"
abbreviation (input) RCU_DSV :: "32 word" where "RCU_DSV \<equiv> RCU + 0x34"

abbreviation (input) AHBEN_REG_OFFSET :: reg where "AHBEN_REG_OFFSET \<equiv> 0x14"
abbreviation (input) APB1EN_REG_OFFSET :: reg where "APB1EN_REG_OFFSET \<equiv> 0x1C"
abbreviation (input) APB2EN_REG_OFFSET :: reg where "APB2EN_REG_OFFSET \<equiv> 0x18"
abbreviation (input) AHBRST_REG_OFFSET :: reg where "AHBRST_REG_OFFSET \<equiv> 0x28"
abbreviation (input) APB1RST_REG_OFFSET :: reg where "APB1RST_REG_OFFSET \<equiv> 0x10"
abbreviation (input) APB2RST_REG_OFFSET :: reg where "APB2RST_REG_OFFSET \<equiv> 0x0C"
abbreviation (input) RSTSCK_REG_OFFSET :: reg where "RSTSCK_REG_OFFSET \<equiv> 0x24"
abbreviation (input) CTL_REG_OFFSET :: reg where "CTL_REG_OFFSET \<equiv> 0x00"
abbreviation (input) BDCTL_REG_OFFSET :: reg where "BDCTL_REG_OFFSET \<equiv> 0x20"
abbreviation (input) INT_REG_OFFSET :: reg where "INT_REG_OFFSET \<equiv> 0x08"
abbreviation (input) CFG0_REG_OFFSET :: reg where "CFG0_REG_OFFSET \<equiv> 0x04"
abbreviation (input) CFG1_REG_OFFSET :: reg where "CFG1_REG_OFFSET \<equiv> 0x2C"

definition RCU_REGIDX_BIT :: "reg \<Rightarrow> reg \<Rightarrow> reg" where
  "RCU_REGIDX_BIT regidx bitpos = push_bit 6 regidx OR bitpos"

definition RCU_REG_VAL :: "reg \<Rightarrow> 32 word" where
  "RCU_REG_VAL periph = RCU + drop_bit 6 periph"

definition RCU_BIT_POS :: "reg \<Rightarrow> nat" where
  "RCU_BIT_POS v = unat (v AND 0x1F)"

datatype rcu_periph =
  RCU_DMA0 | RCU_DMA1 | RCU_CRC | RCU_EXMC | RCU_USBFS | RCU_TIMER1 | RCU_TIMER2 | RCU_TIMER3
  | RCU_TIMER4 | RCU_TIMER5 | RCU_TIMER6 | RCU_WWDGT | RCU_SPI1 | RCU_SPI2 | RCU_USART1
  | RCU_USART2 | RCU_UART3 | RCU_UART4 | RCU_I2C0 | RCU_I2C1 | RCU_CAN0 | RCU_CAN1 | RCU_BKPI
  | RCU_PMU | RCU_DAC | RCU_RTC | RCU_AF | RCU_GPIOA | RCU_GPIOB | RCU_GPIOC | RCU_GPIOD
  | RCU_GPIOE | RCU_ADC0 | RCU_ADC1 | RCU_TIMER0 | RCU_SPI0 | RCU_USART0

fun rcu_periph_value :: "rcu_periph \<Rightarrow> reg" where
  "rcu_periph_value RCU_DMA0 = RCU_REGIDX_BIT AHBEN_REG_OFFSET 0"
| "rcu_periph_value RCU_DMA1 = RCU_REGIDX_BIT AHBEN_REG_OFFSET 1"
| "rcu_periph_value RCU_CRC = RCU_REGIDX_BIT AHBEN_REG_OFFSET 6"
| "rcu_periph_value RCU_EXMC = RCU_REGIDX_BIT AHBEN_REG_OFFSET 8"
| "rcu_periph_value RCU_USBFS = RCU_REGIDX_BIT AHBEN_REG_OFFSET 12"
| "rcu_periph_value RCU_TIMER1 = RCU_REGIDX_BIT APB1EN_REG_OFFSET 0"
| "rcu_periph_value RCU_TIMER2 = RCU_REGIDX_BIT APB1EN_REG_OFFSET 1"
| "rcu_periph_value RCU_TIMER3 = RCU_REGIDX_BIT APB1EN_REG_OFFSET 2"
| "rcu_periph_value RCU_TIMER4 = RCU_REGIDX_BIT APB1EN_REG_OFFSET 3"
| "rcu_periph_value RCU_TIMER5 = RCU_REGIDX_BIT APB1EN_REG_OFFSET 4"
| "rcu_periph_value RCU_TIMER6 = RCU_REGIDX_BIT APB1EN_REG_OFFSET 5"
| "rcu_periph_value RCU_WWDGT = RCU_REGIDX_BIT APB1EN_REG_OFFSET 11"
| "rcu_periph_value RCU_SPI1 = RCU_REGIDX_BIT APB1EN_REG_OFFSET 14"
| "rcu_periph_value RCU_SPI2 = RCU_REGIDX_BIT APB1EN_REG_OFFSET 15"
| "rcu_periph_value RCU_USART1 = RCU_REGIDX_BIT APB1EN_REG_OFFSET 17"
| "rcu_periph_value RCU_USART2 = RCU_REGIDX_BIT APB1EN_REG_OFFSET 18"
| "rcu_periph_value RCU_UART3 = RCU_REGIDX_BIT APB1EN_REG_OFFSET 19"
| "rcu_periph_value RCU_UART4 = RCU_REGIDX_BIT APB1EN_REG_OFFSET 20"
| "rcu_periph_value RCU_I2C0 = RCU_REGIDX_BIT APB1EN_REG_OFFSET 21"
| "rcu_periph_value RCU_I2C1 = RCU_REGIDX_BIT APB1EN_REG_OFFSET 22"
| "rcu_periph_value RCU_CAN0 = RCU_REGIDX_BIT APB1EN_REG_OFFSET 25"
| "rcu_periph_value RCU_CAN1 = RCU_REGIDX_BIT APB1EN_REG_OFFSET 26"
| "rcu_periph_value RCU_BKPI = RCU_REGIDX_BIT APB1EN_REG_OFFSET 27"
| "rcu_periph_value RCU_PMU = RCU_REGIDX_BIT APB1EN_REG_OFFSET 28"
| "rcu_periph_value RCU_DAC = RCU_REGIDX_BIT APB1EN_REG_OFFSET 29"
| "rcu_periph_value RCU_RTC = RCU_REGIDX_BIT BDCTL_REG_OFFSET 15"
| "rcu_periph_value RCU_AF = RCU_REGIDX_BIT APB2EN_REG_OFFSET 0"
| "rcu_periph_value RCU_GPIOA = RCU_REGIDX_BIT APB2EN_REG_OFFSET 2"
| "rcu_periph_value RCU_GPIOB = RCU_REGIDX_BIT APB2EN_REG_OFFSET 3"
| "rcu_periph_value RCU_GPIOC = RCU_REGIDX_BIT APB2EN_REG_OFFSET 4"
| "rcu_periph_value RCU_GPIOD = RCU_REGIDX_BIT APB2EN_REG_OFFSET 5"
| "rcu_periph_value RCU_GPIOE = RCU_REGIDX_BIT APB2EN_REG_OFFSET 6"
| "rcu_periph_value RCU_ADC0 = RCU_REGIDX_BIT APB2EN_REG_OFFSET 9"
| "rcu_periph_value RCU_ADC1 = RCU_REGIDX_BIT APB2EN_REG_OFFSET 10"
| "rcu_periph_value RCU_TIMER0 = RCU_REGIDX_BIT APB2EN_REG_OFFSET 11"
| "rcu_periph_value RCU_SPI0 = RCU_REGIDX_BIT APB2EN_REG_OFFSET 12"
| "rcu_periph_value RCU_USART0 = RCU_REGIDX_BIT APB2EN_REG_OFFSET 14"

datatype rcu_periph_sleep =
  RCU_SRAM_SLP | RCU_FMC_SLP

fun rcu_periph_sleep_value :: "rcu_periph_sleep \<Rightarrow> reg" where
  "rcu_periph_sleep_value RCU_SRAM_SLP = RCU_REGIDX_BIT AHBEN_REG_OFFSET 2"
| "rcu_periph_sleep_value RCU_FMC_SLP = RCU_REGIDX_BIT AHBEN_REG_OFFSET 4"

datatype rcu_periph_reset =
  RCU_USBFSRST | RCU_TIMER1RST | RCU_TIMER2RST | RCU_TIMER3RST | RCU_TIMER4RST
  | RCU_TIMER5RST | RCU_TIMER6RST | RCU_WWDGTRST | RCU_SPI1RST | RCU_SPI2RST | RCU_USART1RST
  | RCU_USART2RST | RCU_UART3RST | RCU_UART4RST | RCU_I2C0RST | RCU_I2C1RST | RCU_CAN0RST
  | RCU_CAN1RST | RCU_BKPIRST | RCU_PMURST | RCU_DACRST | RCU_AFRST | RCU_GPIOARST
  | RCU_GPIOBRST | RCU_GPIOCRST | RCU_GPIODRST | RCU_GPIOERST | RCU_ADC0RST | RCU_ADC1RST
  | RCU_TIMER0RST | RCU_SPI0RST | RCU_USART0RST

fun rcu_periph_reset_value :: "rcu_periph_reset \<Rightarrow> reg" where
  "rcu_periph_reset_value RCU_USBFSRST = RCU_REGIDX_BIT AHBRST_REG_OFFSET 12"
| "rcu_periph_reset_value RCU_TIMER1RST = RCU_REGIDX_BIT APB1RST_REG_OFFSET 0"
| "rcu_periph_reset_value RCU_TIMER2RST = RCU_REGIDX_BIT APB1RST_REG_OFFSET 1"
| "rcu_periph_reset_value RCU_TIMER3RST = RCU_REGIDX_BIT APB1RST_REG_OFFSET 2"
| "rcu_periph_reset_value RCU_TIMER4RST = RCU_REGIDX_BIT APB1RST_REG_OFFSET 3"
| "rcu_periph_reset_value RCU_TIMER5RST = RCU_REGIDX_BIT APB1RST_REG_OFFSET 4"
| "rcu_periph_reset_value RCU_TIMER6RST = RCU_REGIDX_BIT APB1RST_REG_OFFSET 5"
| "rcu_periph_reset_value RCU_WWDGTRST = RCU_REGIDX_BIT APB1RST_REG_OFFSET 11"
| "rcu_periph_reset_value RCU_SPI1RST = RCU_REGIDX_BIT APB1RST_REG_OFFSET 14"
| "rcu_periph_reset_value RCU_SPI2RST = RCU_REGIDX_BIT APB1RST_REG_OFFSET 15"
| "rcu_periph_reset_value RCU_USART1RST = RCU_REGIDX_BIT APB1RST_REG_OFFSET 17"
| "rcu_periph_reset_value RCU_USART2RST = RCU_REGIDX_BIT APB1RST_REG_OFFSET 18"
| "rcu_periph_reset_value RCU_UART3RST = RCU_REGIDX_BIT APB1RST_REG_OFFSET 19"
| "rcu_periph_reset_value RCU_UART4RST = RCU_REGIDX_BIT APB1RST_REG_OFFSET 20"
| "rcu_periph_reset_value RCU_I2C0RST = RCU_REGIDX_BIT APB1RST_REG_OFFSET 21"
| "rcu_periph_reset_value RCU_I2C1RST = RCU_REGIDX_BIT APB1RST_REG_OFFSET 22"
| "rcu_periph_reset_value RCU_CAN0RST = RCU_REGIDX_BIT APB1RST_REG_OFFSET 25"
| "rcu_periph_reset_value RCU_CAN1RST = RCU_REGIDX_BIT APB1RST_REG_OFFSET 26"
| "rcu_periph_reset_value RCU_BKPIRST = RCU_REGIDX_BIT APB1RST_REG_OFFSET 27"
| "rcu_periph_reset_value RCU_PMURST = RCU_REGIDX_BIT APB1RST_REG_OFFSET 28"
| "rcu_periph_reset_value RCU_DACRST = RCU_REGIDX_BIT APB1RST_REG_OFFSET 29"
| "rcu_periph_reset_value RCU_AFRST = RCU_REGIDX_BIT APB2RST_REG_OFFSET 0"
| "rcu_periph_reset_value RCU_GPIOARST = RCU_REGIDX_BIT APB2RST_REG_OFFSET 2"
| "rcu_periph_reset_value RCU_GPIOBRST = RCU_REGIDX_BIT APB2RST_REG_OFFSET 3"
| "rcu_periph_reset_value RCU_GPIOCRST = RCU_REGIDX_BIT APB2RST_REG_OFFSET 4"
| "rcu_periph_reset_value RCU_GPIODRST = RCU_REGIDX_BIT APB2RST_REG_OFFSET 5"
| "rcu_periph_reset_value RCU_GPIOERST = RCU_REGIDX_BIT APB2RST_REG_OFFSET 6"
| "rcu_periph_reset_value RCU_ADC0RST = RCU_REGIDX_BIT APB2RST_REG_OFFSET 9"
| "rcu_periph_reset_value RCU_ADC1RST = RCU_REGIDX_BIT APB2RST_REG_OFFSET 10"
| "rcu_periph_reset_value RCU_TIMER0RST = RCU_REGIDX_BIT APB2RST_REG_OFFSET 11"
| "rcu_periph_reset_value RCU_SPI0RST = RCU_REGIDX_BIT APB2RST_REG_OFFSET 12"
| "rcu_periph_reset_value RCU_USART0RST = RCU_REGIDX_BIT APB2RST_REG_OFFSET 14"

datatype rcu_flag =
  RCU_FLAG_IRC8MSTB | RCU_FLAG_HXTALSTB | RCU_FLAG_PLLSTB | RCU_FLAG_PLL1STB
  | RCU_FLAG_PLL2STB | RCU_FLAG_LXTALSTB | RCU_FLAG_IRC40KSTB | RCU_FLAG_EPRST
  | RCU_FLAG_PORRST | RCU_FLAG_SWRST | RCU_FLAG_FWDGTRST | RCU_FLAG_WWDGTRST | RCU_FLAG_LPRST

fun rcu_flag_value :: "rcu_flag \<Rightarrow> reg" where
  "rcu_flag_value RCU_FLAG_IRC8MSTB = RCU_REGIDX_BIT CTL_REG_OFFSET 1"
| "rcu_flag_value RCU_FLAG_HXTALSTB = RCU_REGIDX_BIT CTL_REG_OFFSET 17"
| "rcu_flag_value RCU_FLAG_PLLSTB = RCU_REGIDX_BIT CTL_REG_OFFSET 25"
| "rcu_flag_value RCU_FLAG_PLL1STB = RCU_REGIDX_BIT CTL_REG_OFFSET 27"
| "rcu_flag_value RCU_FLAG_PLL2STB = RCU_REGIDX_BIT CTL_REG_OFFSET 29"
| "rcu_flag_value RCU_FLAG_LXTALSTB = RCU_REGIDX_BIT BDCTL_REG_OFFSET 1"
| "rcu_flag_value RCU_FLAG_IRC40KSTB = RCU_REGIDX_BIT RSTSCK_REG_OFFSET 1"
| "rcu_flag_value RCU_FLAG_EPRST = RCU_REGIDX_BIT RSTSCK_REG_OFFSET 26"
| "rcu_flag_value RCU_FLAG_PORRST = RCU_REGIDX_BIT RSTSCK_REG_OFFSET 27"
| "rcu_flag_value RCU_FLAG_SWRST = RCU_REGIDX_BIT RSTSCK_REG_OFFSET 28"
| "rcu_flag_value RCU_FLAG_FWDGTRST = RCU_REGIDX_BIT RSTSCK_REG_OFFSET 29"
| "rcu_flag_value RCU_FLAG_WWDGTRST = RCU_REGIDX_BIT RSTSCK_REG_OFFSET 30"
| "rcu_flag_value RCU_FLAG_LPRST = RCU_REGIDX_BIT RSTSCK_REG_OFFSET 31"

datatype rcu_int_flag =
  RCU_INT_FLAG_IRC40KSTB | RCU_INT_FLAG_LXTALSTB | RCU_INT_FLAG_IRC8MSTB
  | RCU_INT_FLAG_HXTALSTB | RCU_INT_FLAG_PLLSTB | RCU_INT_FLAG_PLL1STB | RCU_INT_FLAG_PLL2STB
  | RCU_INT_FLAG_CKM

fun rcu_int_flag_value :: "rcu_int_flag \<Rightarrow> reg" where
  "rcu_int_flag_value RCU_INT_FLAG_IRC40KSTB = RCU_REGIDX_BIT INT_REG_OFFSET 0"
| "rcu_int_flag_value RCU_INT_FLAG_LXTALSTB = RCU_REGIDX_BIT INT_REG_OFFSET 1"
| "rcu_int_flag_value RCU_INT_FLAG_IRC8MSTB = RCU_REGIDX_BIT INT_REG_OFFSET 2"
| "rcu_int_flag_value RCU_INT_FLAG_HXTALSTB = RCU_REGIDX_BIT INT_REG_OFFSET 3"
| "rcu_int_flag_value RCU_INT_FLAG_PLLSTB = RCU_REGIDX_BIT INT_REG_OFFSET 4"
| "rcu_int_flag_value RCU_INT_FLAG_PLL1STB = RCU_REGIDX_BIT INT_REG_OFFSET 5"
| "rcu_int_flag_value RCU_INT_FLAG_PLL2STB = RCU_REGIDX_BIT INT_REG_OFFSET 6"
| "rcu_int_flag_value RCU_INT_FLAG_CKM = RCU_REGIDX_BIT INT_REG_OFFSET 7"

datatype rcu_int_flag_clear =
  RCU_INT_FLAG_IRC40KSTB_CLR | RCU_INT_FLAG_LXTALSTB_CLR | RCU_INT_FLAG_IRC8MSTB_CLR
  | RCU_INT_FLAG_HXTALSTB_CLR | RCU_INT_FLAG_PLLSTB_CLR | RCU_INT_FLAG_PLL1STB_CLR
  | RCU_INT_FLAG_PLL2STB_CLR | RCU_INT_FLAG_CKM_CLR

fun rcu_int_flag_clear_value :: "rcu_int_flag_clear \<Rightarrow> reg" where
  "rcu_int_flag_clear_value RCU_INT_FLAG_IRC40KSTB_CLR = RCU_REGIDX_BIT INT_REG_OFFSET 16"
| "rcu_int_flag_clear_value RCU_INT_FLAG_LXTALSTB_CLR = RCU_REGIDX_BIT INT_REG_OFFSET 17"
| "rcu_int_flag_clear_value RCU_INT_FLAG_IRC8MSTB_CLR = RCU_REGIDX_BIT INT_REG_OFFSET 18"
| "rcu_int_flag_clear_value RCU_INT_FLAG_HXTALSTB_CLR = RCU_REGIDX_BIT INT_REG_OFFSET 19"
| "rcu_int_flag_clear_value RCU_INT_FLAG_PLLSTB_CLR = RCU_REGIDX_BIT INT_REG_OFFSET 20"
| "rcu_int_flag_clear_value RCU_INT_FLAG_PLL1STB_CLR = RCU_REGIDX_BIT INT_REG_OFFSET 21"
| "rcu_int_flag_clear_value RCU_INT_FLAG_PLL2STB_CLR = RCU_REGIDX_BIT INT_REG_OFFSET 22"
| "rcu_int_flag_clear_value RCU_INT_FLAG_CKM_CLR = RCU_REGIDX_BIT INT_REG_OFFSET 23"

datatype rcu_int =
  RCU_INT_IRC40KSTB | RCU_INT_LXTALSTB | RCU_INT_IRC8MSTB | RCU_INT_HXTALSTB | RCU_INT_PLLSTB
  | RCU_INT_PLL1STB | RCU_INT_PLL2STB

fun rcu_int_value :: "rcu_int \<Rightarrow> reg" where
  "rcu_int_value RCU_INT_IRC40KSTB = RCU_REGIDX_BIT INT_REG_OFFSET 8"
| "rcu_int_value RCU_INT_LXTALSTB = RCU_REGIDX_BIT INT_REG_OFFSET 9"
| "rcu_int_value RCU_INT_IRC8MSTB = RCU_REGIDX_BIT INT_REG_OFFSET 10"
| "rcu_int_value RCU_INT_HXTALSTB = RCU_REGIDX_BIT INT_REG_OFFSET 11"
| "rcu_int_value RCU_INT_PLLSTB = RCU_REGIDX_BIT INT_REG_OFFSET 12"
| "rcu_int_value RCU_INT_PLL1STB = RCU_REGIDX_BIT INT_REG_OFFSET 13"
| "rcu_int_value RCU_INT_PLL2STB = RCU_REGIDX_BIT INT_REG_OFFSET 14"

datatype rcu_osci_type =
  RCU_HXTAL | RCU_LXTAL | RCU_IRC8M | RCU_IRC40K | RCU_PLL_CK | RCU_PLL1_CK | RCU_PLL2_CK

fun rcu_osci_type_value :: "rcu_osci_type \<Rightarrow> reg" where
  "rcu_osci_type_value RCU_HXTAL = RCU_REGIDX_BIT CTL_REG_OFFSET 16"
| "rcu_osci_type_value RCU_LXTAL = RCU_REGIDX_BIT BDCTL_REG_OFFSET 0"
| "rcu_osci_type_value RCU_IRC8M = RCU_REGIDX_BIT CTL_REG_OFFSET 0"
| "rcu_osci_type_value RCU_IRC40K = RCU_REGIDX_BIT RSTSCK_REG_OFFSET 0"
| "rcu_osci_type_value RCU_PLL_CK = RCU_REGIDX_BIT CTL_REG_OFFSET 24"
| "rcu_osci_type_value RCU_PLL1_CK = RCU_REGIDX_BIT CTL_REG_OFFSET 26"
| "rcu_osci_type_value RCU_PLL2_CK = RCU_REGIDX_BIT CTL_REG_OFFSET 28"

datatype rcu_clock_freq = CK_SYS | CK_AHB | CK_APB1 | CK_APB2

section \<open>Clocks and resets of the peripherals\<close>

text \<open>\<open>RCU_REG_VAL(x) |= BIT(RCU_BIT_POS(x))\<close>, \<open>RCU_REG_VAL(x) &= ~BIT(RCU_BIT_POS(x))\<close> and the
  test of the same bit, which most functions are made of.\<close>

definition bit_on :: "'h bus \<Rightarrow> reg \<Rightarrow> 'h \<Rightarrow> 'h" where
  "bit_on B x = set_bits B (RCU_REG_VAL x) (BIT (RCU_BIT_POS x))"

definition bit_off :: "'h bus \<Rightarrow> reg \<Rightarrow> 'h \<Rightarrow> 'h" where
  "bit_off B x = clear_bits B (RCU_REG_VAL x) (BIT (RCU_BIT_POS x))"

definition bit_is_on :: "'h bus \<Rightarrow> reg \<Rightarrow> 'h \<Rightarrow> bool \<times> 'h" where
  "bit_is_on B x = any_set B (RCU_REG_VAL x) (BIT (RCU_BIT_POS x))"

definition rcu_periph_clock_enable :: "'h bus \<Rightarrow> rcu_periph \<Rightarrow> 'h \<Rightarrow> 'h" where
  "rcu_periph_clock_enable B p = bit_on B (rcu_periph_value p)"

definition rcu_periph_clock_disable :: "'h bus \<Rightarrow> rcu_periph \<Rightarrow> 'h \<Rightarrow> 'h" where
  "rcu_periph_clock_disable B p = bit_off B (rcu_periph_value p)"

definition rcu_periph_clock_sleep_enable :: "'h bus \<Rightarrow> rcu_periph_sleep \<Rightarrow> 'h \<Rightarrow> 'h" where
  "rcu_periph_clock_sleep_enable B p = bit_on B (rcu_periph_sleep_value p)"

definition rcu_periph_clock_sleep_disable :: "'h bus \<Rightarrow> rcu_periph_sleep \<Rightarrow> 'h \<Rightarrow> 'h" where
  "rcu_periph_clock_sleep_disable B p = bit_off B (rcu_periph_sleep_value p)"

definition rcu_periph_reset_enable :: "'h bus \<Rightarrow> rcu_periph_reset \<Rightarrow> 'h \<Rightarrow> 'h" where
  "rcu_periph_reset_enable B p = bit_on B (rcu_periph_reset_value p)"

definition rcu_periph_reset_disable :: "'h bus \<Rightarrow> rcu_periph_reset \<Rightarrow> 'h \<Rightarrow> 'h" where
  "rcu_periph_reset_disable B p = bit_off B (rcu_periph_reset_value p)"

text \<open>The drivers reset a peripheral by switching its reset line on and off.\<close>

definition reset_pulse :: "'h bus \<Rightarrow> rcu_periph_reset \<Rightarrow> 'h \<Rightarrow> 'h" where
  "reset_pulse B r h = rcu_periph_reset_disable B r (rcu_periph_reset_enable B r h)"

definition rcu_bkp_reset_enable :: "'h bus \<Rightarrow> 'h \<Rightarrow> 'h" where
  "rcu_bkp_reset_enable B = set_bits B RCU_BDCTL (BIT 16)"

definition rcu_bkp_reset_disable :: "'h bus \<Rightarrow> 'h \<Rightarrow> 'h" where
  "rcu_bkp_reset_disable B = clear_bits B RCU_BDCTL (BIT 16)"

section \<open>Configuration\<close>

text \<open>The fields of \<open>RCU_CFG0\<close> and \<open>RCU_CFG1\<close>.\<close>

abbreviation (input) RCU_CFG0_SCS :: reg where "RCU_CFG0_SCS \<equiv> BITS 0 1"
abbreviation (input) RCU_CFG0_SCSS :: reg where "RCU_CFG0_SCSS \<equiv> BITS 2 3"
abbreviation (input) RCU_CFG0_AHBPSC :: reg where "RCU_CFG0_AHBPSC \<equiv> BITS 4 7"
abbreviation (input) RCU_CFG0_APB1PSC :: reg where "RCU_CFG0_APB1PSC \<equiv> BITS 8 10"
abbreviation (input) RCU_CFG0_APB2PSC :: reg where "RCU_CFG0_APB2PSC \<equiv> BITS 11 13"
abbreviation (input) RCU_CFG0_ADCPSC :: reg where "RCU_CFG0_ADCPSC \<equiv> BITS 14 15"
abbreviation (input) RCU_CFG0_PLLSEL :: reg where "RCU_CFG0_PLLSEL \<equiv> BIT 16"
abbreviation (input) RCU_CFG0_PREDV0_LSB :: reg where "RCU_CFG0_PREDV0_LSB \<equiv> BIT 17"
abbreviation (input) RCU_CFG0_PLLMF :: reg where "RCU_CFG0_PLLMF \<equiv> BITS 18 21"
abbreviation (input) RCU_CFG0_USBFSPSC :: reg where "RCU_CFG0_USBFSPSC \<equiv> BITS 22 23"
abbreviation (input) RCU_CFG0_CKOUT0SEL :: reg where "RCU_CFG0_CKOUT0SEL \<equiv> BITS 24 27"
abbreviation (input) RCU_CFG0_ADCPSC_2 :: reg where "RCU_CFG0_ADCPSC_2 \<equiv> BIT 28"
abbreviation (input) RCU_CFG0_PLLMF_4 :: reg where "RCU_CFG0_PLLMF_4 \<equiv> BIT 29"
abbreviation (input) RCU_CFG1_PREDV0 :: reg where "RCU_CFG1_PREDV0 \<equiv> BITS 0 3"
abbreviation (input) RCU_CFG1_PREDV1 :: reg where "RCU_CFG1_PREDV1 \<equiv> BITS 4 7"
abbreviation (input) RCU_CFG1_PLL1MF :: reg where "RCU_CFG1_PLL1MF \<equiv> BITS 8 11"
abbreviation (input) RCU_CFG1_PLL2MF :: reg where "RCU_CFG1_PLL2MF \<equiv> BITS 12 15"
abbreviation (input) RCU_CFG1_PREDV0SEL :: reg where "RCU_CFG1_PREDV0SEL \<equiv> BIT 16"
abbreviation (input) RCU_CFG1_I2S1SEL :: reg where "RCU_CFG1_I2S1SEL \<equiv> BIT 17"
abbreviation (input) RCU_CFG1_I2S2SEL :: reg where "RCU_CFG1_I2S2SEL \<equiv> BIT 18"

definition rcu_system_clock_source_config :: "'h bus \<Rightarrow> reg \<Rightarrow> 'h \<Rightarrow> 'h" where
  "rcu_system_clock_source_config B x = modify B RCU_CFG0 (\<lambda>reg. (reg AND NOT RCU_CFG0_SCS) OR x)"

definition rcu_system_clock_source_get :: "'h bus \<Rightarrow> 'h \<Rightarrow> reg \<times> 'h" where
  "rcu_system_clock_source_get B h = (let (v, h) = rd32 B RCU_CFG0 h in (v AND RCU_CFG0_SCSS, h))"

definition rcu_ahb_clock_config :: "'h bus \<Rightarrow> reg \<Rightarrow> 'h \<Rightarrow> 'h" where
  "rcu_ahb_clock_config B x = modify B RCU_CFG0 (\<lambda>reg. (reg AND NOT RCU_CFG0_AHBPSC) OR x)"

definition rcu_apb1_clock_config :: "'h bus \<Rightarrow> reg \<Rightarrow> 'h \<Rightarrow> 'h" where
  "rcu_apb1_clock_config B x = modify B RCU_CFG0 (\<lambda>reg. (reg AND NOT RCU_CFG0_APB1PSC) OR x)"

definition rcu_apb2_clock_config :: "'h bus \<Rightarrow> reg \<Rightarrow> 'h \<Rightarrow> 'h" where
  "rcu_apb2_clock_config B x = modify B RCU_CFG0 (\<lambda>reg. (reg AND NOT RCU_CFG0_APB2PSC) OR x)"

definition rcu_ckout0_config :: "'h bus \<Rightarrow> reg \<Rightarrow> 'h \<Rightarrow> 'h" where
  "rcu_ckout0_config B x = modify B RCU_CFG0 (\<lambda>reg. (reg AND NOT RCU_CFG0_CKOUT0SEL) OR x)"

definition rcu_pll_config :: "'h bus \<Rightarrow> reg \<Rightarrow> reg \<Rightarrow> 'h \<Rightarrow> 'h" where
  "rcu_pll_config B src mul = modify B RCU_CFG0 (\<lambda>reg.
     (reg AND NOT (RCU_CFG0_PLLSEL OR RCU_CFG0_PLLMF OR RCU_CFG0_PLLMF_4)) OR (src OR mul))"

definition rcu_predv0_config :: "'h bus \<Rightarrow> reg \<Rightarrow> reg \<Rightarrow> 'h \<Rightarrow> 'h" where
  "rcu_predv0_config B src div0 = modify B RCU_CFG1 (\<lambda>reg.
     (reg AND NOT (RCU_CFG1_PREDV0SEL OR RCU_CFG1_PREDV0)) OR (src OR div0))"

definition rcu_predv1_config :: "'h bus \<Rightarrow> reg \<Rightarrow> 'h \<Rightarrow> 'h" where
  "rcu_predv1_config B x = modify B RCU_CFG1 (\<lambda>reg. (reg AND NOT RCU_CFG1_PREDV1) OR x)"

definition rcu_pll1_config :: "'h bus \<Rightarrow> reg \<Rightarrow> 'h \<Rightarrow> 'h" where
  "rcu_pll1_config B x h = set_bits B RCU_CFG1 x (clear_bits B RCU_CFG1 RCU_CFG1_PLL1MF h)"

definition rcu_pll2_config :: "'h bus \<Rightarrow> reg \<Rightarrow> 'h \<Rightarrow> 'h" where
  "rcu_pll2_config B x h = set_bits B RCU_CFG1 x (clear_bits B RCU_CFG1 RCU_CFG1_PLL2MF h)"

definition rcu_adc_clock_config :: "'h bus \<Rightarrow> reg \<Rightarrow> 'h \<Rightarrow> 'h" where
  "rcu_adc_clock_config B adc_psc = modify B RCU_CFG0 (\<lambda>reg0.
     let reg0 = reg0 AND NOT (RCU_CFG0_ADCPSC_2 OR RCU_CFG0_ADCPSC) in
     if adc_psc \<in> {0, 1, 2, 3} then reg0 OR push_bit 14 adc_psc
     else if adc_psc \<in> {5, 7} then reg0 OR (push_bit 14 (adc_psc AND NOT (BIT 2)) OR RCU_CFG0_ADCPSC_2)
     else reg0)"

definition rcu_usb_clock_config :: "'h bus \<Rightarrow> reg \<Rightarrow> 'h \<Rightarrow> 'h" where
  "rcu_usb_clock_config B x = modify B RCU_CFG0 (\<lambda>reg. (reg AND NOT RCU_CFG0_USBFSPSC) OR x)"

definition rcu_rtc_clock_config :: "'h bus \<Rightarrow> reg \<Rightarrow> 'h \<Rightarrow> 'h" where
  "rcu_rtc_clock_config B x = modify B RCU_BDCTL (\<lambda>reg. (reg AND NOT (BITS 8 9)) OR x)"

definition rcu_i2s1_clock_config :: "'h bus \<Rightarrow> reg \<Rightarrow> 'h \<Rightarrow> 'h" where
  "rcu_i2s1_clock_config B x = modify B RCU_CFG1 (\<lambda>reg. (reg AND NOT RCU_CFG1_I2S1SEL) OR x)"

definition rcu_i2s2_clock_config :: "'h bus \<Rightarrow> reg \<Rightarrow> 'h \<Rightarrow> 'h" where
  "rcu_i2s2_clock_config B x = modify B RCU_CFG1 (\<lambda>reg. (reg AND NOT RCU_CFG1_I2S2SEL) OR x)"

section \<open>Flags and interrupts\<close>

definition rcu_flag_get :: "'h bus \<Rightarrow> rcu_flag \<Rightarrow> 'h \<Rightarrow> bool \<times> 'h" where
  "rcu_flag_get B f = bit_is_on B (rcu_flag_value f)"

definition rcu_all_reset_flag_clear :: "'h bus \<Rightarrow> 'h \<Rightarrow> 'h" where
  "rcu_all_reset_flag_clear B = set_bits B RCU_RSTSCK (BIT 24)"

definition rcu_interrupt_flag_get :: "'h bus \<Rightarrow> rcu_int_flag \<Rightarrow> 'h \<Rightarrow> bool \<times> 'h" where
  "rcu_interrupt_flag_get B int_flag = bit_is_on B (rcu_int_flag_value int_flag)"

definition rcu_interrupt_flag_clear :: "'h bus \<Rightarrow> rcu_int_flag_clear \<Rightarrow> 'h \<Rightarrow> 'h" where
  "rcu_interrupt_flag_clear B int_flag_clear = bit_on B (rcu_int_flag_clear_value int_flag_clear)"

definition rcu_interrupt_enable :: "'h bus \<Rightarrow> rcu_int \<Rightarrow> 'h \<Rightarrow> 'h" where
  "rcu_interrupt_enable B stab_int = bit_on B (rcu_int_value stab_int)"

definition rcu_interrupt_disable :: "'h bus \<Rightarrow> rcu_int \<Rightarrow> 'h \<Rightarrow> 'h" where
  "rcu_interrupt_disable B stab_int = bit_off B (rcu_int_value stab_int)"

section \<open>Oscillators\<close>

definition HXTAL_STARTUP_TIMEOUT :: reg where "HXTAL_STARTUP_TIMEOUT = 0xFFFF"
definition IRC8M_STARTUP_TIMEOUT :: reg where "IRC8M_STARTUP_TIMEOUT = 0x0500"
definition OSC_STARTUP_TIMEOUT :: reg where "OSC_STARTUP_TIMEOUT = 0xFFFFF"
definition LXTAL_STARTUP_TIMEOUT :: reg where "LXTAL_STARTUP_TIMEOUT = 0x3FFFFFF"

text \<open>\<open>while ((RESET == osci_stat) && (limit != stb_cnt))\<close>: the flag is polled until it is set, or
  the count reaches the limit.\<close>

function stab_loop :: "'h bus \<Rightarrow> rcu_flag \<Rightarrow> reg \<Rightarrow> bool \<Rightarrow> reg \<Rightarrow> 'h \<Rightarrow> 'h" where
  "stab_loop B f limit osci_stat stb_cnt h =
     (if \<not> osci_stat \<and> limit \<noteq> stb_cnt
      then let (osci_stat, h) = rcu_flag_get B f h in stab_loop B f limit osci_stat (stb_cnt + 1) h
      else h)"
  by auto
termination
proof (relation "measure (\<lambda>(B, f, limit, osci_stat, stb_cnt, h). unat (limit - stb_cnt))", goal_cases)
  case (2 B f limit osci_stat stb_cnt h)
  have "limit - stb_cnt \<noteq> 0" using 2(1) by simp
  then have "unat (limit - stb_cnt - 1) < unat (limit - stb_cnt)" by (rule measure_unat)
  then show ?case by (simp add: diff_diff_eq)
qed simp

declare stab_loop.simps [simp del]

text \<open>How long each oscillator is waited for, and its flag.\<close>

fun stab_flag :: "rcu_osci_type \<Rightarrow> rcu_flag" where
  "stab_flag RCU_HXTAL = RCU_FLAG_HXTALSTB"
| "stab_flag RCU_LXTAL = RCU_FLAG_LXTALSTB"
| "stab_flag RCU_IRC8M = RCU_FLAG_IRC8MSTB"
| "stab_flag RCU_IRC40K = RCU_FLAG_IRC40KSTB"
| "stab_flag RCU_PLL_CK = RCU_FLAG_PLLSTB"
| "stab_flag RCU_PLL1_CK = RCU_FLAG_PLL1STB"
| "stab_flag RCU_PLL2_CK = RCU_FLAG_PLL2STB"

fun stab_limit :: "rcu_osci_type \<Rightarrow> reg" where
  "stab_limit RCU_HXTAL = HXTAL_STARTUP_TIMEOUT"
| "stab_limit RCU_LXTAL = LXTAL_STARTUP_TIMEOUT"
| "stab_limit RCU_IRC8M = IRC8M_STARTUP_TIMEOUT"
| "stab_limit RCU_IRC40K = OSC_STARTUP_TIMEOUT"
| "stab_limit RCU_PLL_CK = OSC_STARTUP_TIMEOUT"
| "stab_limit RCU_PLL1_CK = OSC_STARTUP_TIMEOUT"
| "stab_limit RCU_PLL2_CK = OSC_STARTUP_TIMEOUT"

text \<open>\<open>ErrStatus\<close>: true for \<open>SUCCESS\<close>. The flag is read once more after the loop.\<close>

definition rcu_osci_stab_wait :: "'h bus \<Rightarrow> rcu_osci_type \<Rightarrow> 'h \<Rightarrow> bool \<times> 'h" where
  "rcu_osci_stab_wait B osci h =
     rcu_flag_get B (stab_flag osci) (stab_loop B (stab_flag osci) (stab_limit osci) False 0 h)"

definition rcu_osci_on :: "'h bus \<Rightarrow> rcu_osci_type \<Rightarrow> 'h \<Rightarrow> 'h" where
  "rcu_osci_on B osci = bit_on B (rcu_osci_type_value osci)"

definition rcu_osci_off :: "'h bus \<Rightarrow> rcu_osci_type \<Rightarrow> 'h \<Rightarrow> 'h" where
  "rcu_osci_off B osci = bit_off B (rcu_osci_type_value osci)"

definition rcu_osci_bypass_mode_enable :: "'h bus \<Rightarrow> rcu_osci_type \<Rightarrow> 'h \<Rightarrow> 'h" where
  "rcu_osci_bypass_mode_enable B osci h =
     (case osci of
        RCU_HXTAL \<Rightarrow> (let (reg, h) = rd32 B RCU_CTL h; h = clear_bits B RCU_CTL (BIT 16) h
                      in wr32 B RCU_CTL (reg OR BIT 18) h)
      | RCU_LXTAL \<Rightarrow> (let (reg, h) = rd32 B RCU_BDCTL h; h = clear_bits B RCU_BDCTL (BIT 0) h
                      in wr32 B RCU_BDCTL (reg OR BIT 2) h)
      | _ \<Rightarrow> h)"

definition rcu_osci_bypass_mode_disable :: "'h bus \<Rightarrow> rcu_osci_type \<Rightarrow> 'h \<Rightarrow> 'h" where
  "rcu_osci_bypass_mode_disable B osci h =
     (case osci of
        RCU_HXTAL \<Rightarrow> (let (reg, h) = rd32 B RCU_CTL h; h = clear_bits B RCU_CTL (BIT 16) h
                      in wr32 B RCU_CTL (reg AND NOT (BIT 18)) h)
      | RCU_LXTAL \<Rightarrow> (let (reg, h) = rd32 B RCU_BDCTL h; h = clear_bits B RCU_BDCTL (BIT 0) h
                      in wr32 B RCU_BDCTL (reg AND NOT (BIT 2)) h)
      | _ \<Rightarrow> h)"

definition rcu_hxtal_clock_monitor_enable :: "'h bus \<Rightarrow> 'h \<Rightarrow> 'h" where
  "rcu_hxtal_clock_monitor_enable B = set_bits B RCU_CTL (BIT 19)"

definition rcu_hxtal_clock_monitor_disable :: "'h bus \<Rightarrow> 'h \<Rightarrow> 'h" where
  "rcu_hxtal_clock_monitor_disable B = clear_bits B RCU_CTL (BIT 19)"

definition rcu_irc8m_adjust_value_set :: "'h bus \<Rightarrow> reg \<Rightarrow> 'h \<Rightarrow> 'h" where
  "rcu_irc8m_adjust_value_set B irc8m_adjval =
     modify B RCU_CTL (\<lambda>reg. (reg AND NOT (BITS 3 7)) OR push_bit 3 (irc8m_adjval AND 0x1F))"

definition rcu_deepsleep_voltage_set :: "'h bus \<Rightarrow> reg \<Rightarrow> 'h \<Rightarrow> 'h" where
  "rcu_deepsleep_voltage_set B dsvol = wr32 B RCU_DSV (dsvol AND BITS 0 1)"

definition rcu_deinit :: "'h bus \<Rightarrow> 'h \<Rightarrow> 'h" where
  "rcu_deinit B h =
     (let h = set_bits B RCU_CTL (BIT 0) h;
          (ok, h) = rcu_osci_stab_wait B RCU_IRC8M h;
          h = clear_bits B RCU_CTL (BIT 16 OR BIT 19 OR BIT 24) h;
          h = clear_bits B RCU_CTL (BIT 18) h;
          h = clear_bits B RCU_CTL (BIT 26 OR BIT 28) h;
          h = clear_bits B RCU_CFG0 (RCU_CFG0_SCS OR RCU_CFG0_AHBPSC OR RCU_CFG0_APB1PSC OR RCU_CFG0_APB2PSC
                OR RCU_CFG0_ADCPSC OR RCU_CFG0_PLLSEL OR RCU_CFG0_PREDV0_LSB OR RCU_CFG0_PLLMF
                OR RCU_CFG0_USBFSPSC OR RCU_CFG0_CKOUT0SEL OR RCU_CFG0_ADCPSC_2 OR RCU_CFG0_PLLMF_4) h;
          h = wr32 B RCU_INT 0x00ff0000 h
      in clear_bits B RCU_CFG1 (RCU_CFG1_PREDV0 OR RCU_CFG1_PREDV1 OR RCU_CFG1_PLL1MF OR RCU_CFG1_PLL2MF
           OR RCU_CFG1_PREDV0SEL OR RCU_CFG1_I2S1SEL OR RCU_CFG1_I2S2SEL) h)"

section \<open>The frequency of the clocks\<close>

definition IRC8M_VALUE :: reg where "IRC8M_VALUE = 8000000"

text \<open>The input of the main PLL: the crystal, perhaps through PLL1, divided, or half the internal
  oscillator.\<close>

definition pll_source :: "'h bus \<Rightarrow> reg \<Rightarrow> 'h \<Rightarrow> reg \<times> 'h" where
  "pll_source B HXTAL_VALUE h =
     (let (cfg0, h) = rd32 B RCU_CFG0 h in
      if cfg0 AND RCU_CFG0_PLLSEL = RCU_CFG0_PLLSEL
      then let ck_src = HXTAL_VALUE;
               (cfg1, h) = rd32 B RCU_CFG1 h;
               (ck_src, h) =
                 (if cfg1 AND RCU_CFG1_PREDV0SEL = RCU_CFG1_PREDV0SEL
                  then let (v, h) = rd32 B RCU_CFG1 h; predv1 = drop_bit 4 (v AND RCU_CFG1_PREDV1) + 1;
                           (v, h) = rd32 B RCU_CFG1 h; pll1mf = drop_bit 8 (v AND RCU_CFG1_PLL1MF) + 2;
                           pll1mf = (if pll1mf = 17 then 20 else pll1mf)
                       in ((ck_src div predv1) * pll1mf, h)
                  else (ck_src, h));
               (v, h) = rd32 B RCU_CFG1 h
           in (ck_src div ((v AND RCU_CFG1_PREDV0) + 1), h)
      else (IRC8M_VALUE div 2, h))"

text \<open>The factor of the main PLL, where 15 stands for 6.5.\<close>

definition pll_factor :: "'h bus \<Rightarrow> 'h \<Rightarrow> reg \<times> 'h" where
  "pll_factor B h =
     (let (v, h) = rd32 B RCU_CFG0 h; pllmf = GET_BITS v 18 21;
          (v, h) = rd32 B RCU_CFG0 h; pllmf = (if v AND RCU_CFG0_PLLMF_4 \<noteq> 0 then pllmf OR 0x10 else pllmf)
      in (if pllmf < 15 then pllmf + 2 else pllmf + 1, h))"

definition cksys_freq :: "'h bus \<Rightarrow> reg \<Rightarrow> 'h \<Rightarrow> reg \<times> 'h" where
  "cksys_freq B HXTAL_VALUE h =
     (let (v, h) = rd32 B RCU_CFG0 h; sws = GET_BITS v 2 3 in
      if sws = 0 then (IRC8M_VALUE, h)
      else if sws = 1 then (HXTAL_VALUE, h)
      else if sws = 2
      then let (ck_src, h) = pll_source B HXTAL_VALUE h; (pllmf, h) = pll_factor B h
           in (if pllmf = 15 then ck_src * 6 + ck_src div 2 else ck_src * pllmf, h)
      else (IRC8M_VALUE, h))"

definition ahb_exp :: "nat list" where "ahb_exp = [0, 0, 0, 0, 0, 0, 0, 0, 1, 2, 3, 4, 6, 7, 8, 9]"
definition apb1_exp :: "nat list" where "apb1_exp = [0, 0, 0, 0, 1, 2, 3, 4]"
definition apb2_exp :: "nat list" where "apb2_exp = [0, 0, 0, 0, 1, 2, 3, 4]"

definition rcu_clock_freq_get :: "'h bus \<Rightarrow> reg \<Rightarrow> rcu_clock_freq \<Rightarrow> 'h \<Rightarrow> reg \<times> 'h" where
  "rcu_clock_freq_get B HXTAL_VALUE clock h =
     (let (cksys, h) = cksys_freq B HXTAL_VALUE h;
          (v, h) = rd32 B RCU_CFG0 h; ahb = drop_bit (ahb_exp ! unat (GET_BITS v 4 7)) cksys;
          (v, h) = rd32 B RCU_CFG0 h; apb1 = drop_bit (apb1_exp ! unat (GET_BITS v 8 10)) ahb;
          (v, h) = rd32 B RCU_CFG0 h; apb2 = drop_bit (apb2_exp ! unat (GET_BITS v 11 13)) ahb
      in (case clock of CK_SYS \<Rightarrow> cksys | CK_AHB \<Rightarrow> ahb | CK_APB1 \<Rightarrow> apb1 | CK_APB2 \<Rightarrow> apb2, h))"

end
