(* ===== verification/Gpio.thy ===== *)
theory Gpio
  imports Rcu
begin

text \<open>
  \<open>gd32vf103_gpio.c\<close>: the ports, four bits of configuration to each of their sixteen pins, and the
  alternate functions.
\<close>

section \<open>Registers\<close>

abbreviation (input) GPIO_CTL0 :: "32 word \<Rightarrow> 32 word" where "GPIO_CTL0 gpiox \<equiv> gpiox + 0x00"
abbreviation (input) GPIO_CTL1 :: "32 word \<Rightarrow> 32 word" where "GPIO_CTL1 gpiox \<equiv> gpiox + 0x04"
abbreviation (input) GPIO_ISTAT :: "32 word \<Rightarrow> 32 word" where "GPIO_ISTAT gpiox \<equiv> gpiox + 0x08"
abbreviation (input) GPIO_OCTL :: "32 word \<Rightarrow> 32 word" where "GPIO_OCTL gpiox \<equiv> gpiox + 0x0C"
abbreviation (input) GPIO_BOP :: "32 word \<Rightarrow> 32 word" where "GPIO_BOP gpiox \<equiv> gpiox + 0x10"
abbreviation (input) GPIO_BC :: "32 word \<Rightarrow> 32 word" where "GPIO_BC gpiox \<equiv> gpiox + 0x14"
abbreviation (input) GPIO_LOCK :: "32 word \<Rightarrow> 32 word" where "GPIO_LOCK gpiox \<equiv> gpiox + 0x18"

definition GPIOA :: "32 word" where "GPIOA = GPIO_BASE"
definition GPIOB :: "32 word" where "GPIOB = GPIO_BASE + 0x400"
definition GPIOC :: "32 word" where "GPIOC = GPIO_BASE + 0x800"
definition GPIOD :: "32 word" where "GPIOD = GPIO_BASE + 0xC00"
definition GPIOE :: "32 word" where "GPIOE = GPIO_BASE + 0x1000"

abbreviation (input) AFIO :: "32 word" where "AFIO \<equiv> 0x40010000"
abbreviation (input) AFIO_EC :: "32 word" where "AFIO_EC \<equiv> AFIO + 0x00"
abbreviation (input) AFIO_PCF0 :: "32 word" where "AFIO_PCF0 \<equiv> AFIO + 0x04"
abbreviation (input) AFIO_EXTISS0 :: "32 word" where "AFIO_EXTISS0 \<equiv> AFIO + 0x08"
abbreviation (input) AFIO_EXTISS1 :: "32 word" where "AFIO_EXTISS1 \<equiv> AFIO + 0x0C"
abbreviation (input) AFIO_EXTISS2 :: "32 word" where "AFIO_EXTISS2 \<equiv> AFIO + 0x10"
abbreviation (input) AFIO_EXTISS3 :: "32 word" where "AFIO_EXTISS3 \<equiv> AFIO + 0x14"
abbreviation (input) AFIO_PCF1 :: "32 word" where "AFIO_PCF1 \<equiv> AFIO + 0x1C"

section \<open>Reset\<close>

definition gpio_deinit :: "'h bus \<Rightarrow> 32 word \<Rightarrow> 'h \<Rightarrow> 'h" where
  "gpio_deinit B gpio_periph h =
     (if gpio_periph = GPIOA then reset_pulse B RCU_GPIOARST h
      else if gpio_periph = GPIOB then reset_pulse B RCU_GPIOBRST h
      else if gpio_periph = GPIOC then reset_pulse B RCU_GPIOCRST h
      else if gpio_periph = GPIOD then reset_pulse B RCU_GPIODRST h
      else if gpio_periph = GPIOE then reset_pulse B RCU_GPIOERST h
      else h)"

definition gpio_afio_deinit :: "'h bus \<Rightarrow> 'h \<Rightarrow> 'h" where
  "gpio_afio_deinit B = reset_pulse B RCU_AFRST"

section \<open>Pins\<close>

definition GPIO_MODE_IPD :: reg where "GPIO_MODE_IPD = 0x28"
definition GPIO_MODE_IPU :: reg where "GPIO_MODE_IPU = 0x48"

definition GPIO_MODE_SET :: "nat \<Rightarrow> reg \<Rightarrow> reg" where
  "GPIO_MODE_SET n m = push_bit (4 * n) m"

definition GPIO_MODE_MASK :: "nat \<Rightarrow> reg" where
  "GPIO_MODE_MASK n = push_bit (4 * n) 0xF"

text \<open>The four bits that \<open>gpio_init\<close> writes for each pin it configures.\<close>

definition temp_mode :: "reg \<Rightarrow> reg \<Rightarrow> reg" where
  "temp_mode mode speed = (let t = mode AND 0x0F in if mode AND 0x10 \<noteq> 0 then t OR speed else t)"

text \<open>The body of the two loops: pin \<open>i\<close>, whose configuration is field \<open>n\<close> of the register at \<open>ctl\<close>.\<close>

definition init_pin :: "'h bus \<Rightarrow> 32 word \<Rightarrow> reg \<Rightarrow> reg \<Rightarrow> reg \<Rightarrow> 32 word \<Rightarrow> nat \<Rightarrow> nat \<Rightarrow> 'h \<Rightarrow> 'h" where
  "init_pin B gpio_periph mode temp pin ctl n i h =
     (if push_bit i 1 AND pin \<noteq> 0
      then let (reg, h) = rd32 B ctl h;
               reg = reg AND NOT (GPIO_MODE_MASK n);
               reg = reg OR GPIO_MODE_SET n temp;
               h = (if mode = GPIO_MODE_IPD then wr32 B (GPIO_BC gpio_periph) (push_bit i 1 AND pin) h
                    else if mode = GPIO_MODE_IPU then wr32 B (GPIO_BOP gpio_periph) (push_bit i 1 AND pin) h
                    else h)
           in wr32 B ctl reg h
      else h)"

definition gpio_init :: "'h bus \<Rightarrow> 32 word \<Rightarrow> reg \<Rightarrow> reg \<Rightarrow> reg \<Rightarrow> 'h \<Rightarrow> 'h" where
  "gpio_init B gpio_periph mode speed pin h =
     (let temp = temp_mode mode speed;
          h = fold (\<lambda>i. init_pin B gpio_periph mode temp pin (GPIO_CTL0 gpio_periph) i i) [0..<8] h
      in fold (\<lambda>i. init_pin B gpio_periph mode temp pin (GPIO_CTL1 gpio_periph) (i - 8) i) [8..<16] h)"

definition gpio_bit_set :: "'h bus \<Rightarrow> 32 word \<Rightarrow> reg \<Rightarrow> 'h \<Rightarrow> 'h" where
  "gpio_bit_set B gpio_periph pin = wr32 B (GPIO_BOP gpio_periph) pin"

definition gpio_bit_reset :: "'h bus \<Rightarrow> 32 word \<Rightarrow> reg \<Rightarrow> 'h \<Rightarrow> 'h" where
  "gpio_bit_reset B gpio_periph pin = wr32 B (GPIO_BC gpio_periph) pin"

definition gpio_bit_write :: "'h bus \<Rightarrow> 32 word \<Rightarrow> reg \<Rightarrow> bool \<Rightarrow> 'h \<Rightarrow> 'h" where
  "gpio_bit_write B gpio_periph pin bit_value =
     (if bit_value then wr32 B (GPIO_BOP gpio_periph) pin else wr32 B (GPIO_BC gpio_periph) pin)"

definition gpio_port_write :: "'h bus \<Rightarrow> 32 word \<Rightarrow> 16 word \<Rightarrow> 'h \<Rightarrow> 'h" where
  "gpio_port_write B gpio_periph v = wr32 B (GPIO_OCTL gpio_periph) (ucast v)"

definition gpio_input_bit_get :: "'h bus \<Rightarrow> 32 word \<Rightarrow> reg \<Rightarrow> 'h \<Rightarrow> bool \<times> 'h" where
  "gpio_input_bit_get B gpio_periph pin = any_set B (GPIO_ISTAT gpio_periph) pin"

definition gpio_input_port_get :: "'h bus \<Rightarrow> 32 word \<Rightarrow> 'h \<Rightarrow> 16 word \<times> 'h" where
  "gpio_input_port_get B gpio_periph h = (let (v, h) = rd32 B (GPIO_ISTAT gpio_periph) h in (ucast v, h))"

definition gpio_output_bit_get :: "'h bus \<Rightarrow> 32 word \<Rightarrow> reg \<Rightarrow> 'h \<Rightarrow> bool \<times> 'h" where
  "gpio_output_bit_get B gpio_periph pin = any_set B (GPIO_OCTL gpio_periph) pin"

definition gpio_output_port_get :: "'h bus \<Rightarrow> 32 word \<Rightarrow> 'h \<Rightarrow> 16 word \<times> 'h" where
  "gpio_output_port_get B gpio_periph h = (let (v, h) = rd32 B (GPIO_OCTL gpio_periph) h in (ucast v, h))"

section \<open>Alternate functions\<close>

definition AFIO_PCF1_FIELDS :: reg where "AFIO_PCF1_FIELDS = 0x80000000"
definition LSB_16BIT_MASK :: reg where "LSB_16BIT_MASK = 0xFFFF"
definition PCF_POSITION_MASK :: reg where "PCF_POSITION_MASK = 0x000F0000"
definition PCF_SWJCFG_MASK :: reg where "PCF_SWJCFG_MASK = 0xF0FFFFFF"
definition PCF_LOCATION1_MASK :: reg where "PCF_LOCATION1_MASK = 0x00200000"
definition PCF_LOCATION2_MASK :: reg where "PCF_LOCATION2_MASK = 0x00100000"

text \<open>\<open>remap1 << ((remap >> 0x15U) * 0x10U)\<close>\<close>

definition remap_bits :: "reg \<Rightarrow> reg outcome" where
  "remap_bits remap = shl (remap AND LSB_16BIT_MASK) (drop_bit 0x15 remap * 0x10)"

definition gpio_pin_remap_config :: "'h bus \<Rightarrow> reg \<Rightarrow> bool \<Rightarrow> 'h \<Rightarrow> 'h outcome" where
  "gpio_pin_remap_config B remap newvalue h =
     (let pcf = (if remap AND AFIO_PCF1_FIELDS = AFIO_PCF1_FIELDS then AFIO_PCF1 else AFIO_PCF0);
          (temp_reg, h) = rd32 B pcf h;
          temp_mask = drop_bit 0x10 (remap AND PCF_POSITION_MASK);
          both = PCF_LOCATION1_MASK OR PCF_LOCATION2_MASK
      in bindo
           (if remap AND both = both
            then Ret (temp_reg AND PCF_SWJCFG_MASK, modify B AFIO_PCF0 (\<lambda>v. v AND PCF_SWJCFG_MASK) h)
            else if remap AND PCF_LOCATION2_MASK = PCF_LOCATION2_MASK
            then Ret ((temp_reg AND NOT (push_bit (unat temp_mask) 3)) OR NOT PCF_SWJCFG_MASK, h)
            else bindo (remap_bits remap) (\<lambda>r. Ret ((temp_reg AND NOT r) OR NOT PCF_SWJCFG_MASK, h)))
           (\<lambda>(temp_reg, h).
         bindo (if newvalue then bindo (remap_bits remap) (\<lambda>r. Ret (temp_reg OR r)) else Ret temp_reg)
           (\<lambda>temp_reg. Ret (wr32 B pcf temp_reg h))))"

text \<open>The register that selects the port of the interrupt line of a pin, and the field in it.\<close>

definition extiss :: "8 word \<Rightarrow> 32 word" where
  "extiss output_pin =
     (if output_pin < 4 then AFIO_EXTISS0 else if output_pin < 8 then AFIO_EXTISS1
      else if output_pin < 12 then AFIO_EXTISS2 else AFIO_EXTISS3)"

definition gpio_exti_source_select :: "'h bus \<Rightarrow> 8 word \<Rightarrow> 8 word \<Rightarrow> 'h \<Rightarrow> 'h" where
  "gpio_exti_source_select B output_port output_pin h =
     (let sh = 4 * unat (output_pin AND 3); source = push_bit sh 0x0F;
          h = clear_bits B (extiss output_pin) source h
      in set_bits B (extiss output_pin) (push_bit sh (ucast output_port)) h)"

definition gpio_event_output_config :: "'h bus \<Rightarrow> 8 word \<Rightarrow> 8 word \<Rightarrow> 'h \<Rightarrow> 'h" where
  "gpio_event_output_config B output_port output_pin =
     modify B AFIO_EC (\<lambda>reg. ((reg AND NOT (BITS 4 6 OR BITS 0 3)) OR push_bit 4 (ucast output_port)) OR ucast output_pin)"

definition gpio_event_output_enable :: "'h bus \<Rightarrow> 'h \<Rightarrow> 'h" where
  "gpio_event_output_enable B = set_bits B AFIO_EC (BIT 7)"

definition gpio_event_output_disable :: "'h bus \<Rightarrow> 'h \<Rightarrow> 'h" where
  "gpio_event_output_disable B = clear_bits B AFIO_EC (BIT 7)"

definition gpio_pin_lock :: "'h bus \<Rightarrow> 32 word \<Rightarrow> reg \<Rightarrow> 'h \<Rightarrow> 'h" where
  "gpio_pin_lock B gpio_periph pin h =
     (let lock = 0x00010000 OR pin;
          h = wr32 B (GPIO_LOCK gpio_periph) lock h;
          h = wr32 B (GPIO_LOCK gpio_periph) pin h;
          h = wr32 B (GPIO_LOCK gpio_periph) lock h;
          (v, h) = rd32 B (GPIO_LOCK gpio_periph) h;
          (v, h) = rd32 B (GPIO_LOCK gpio_periph) h
      in h)"

end
