(* ===== verification/GpioSpec.thy ===== *)
theory GpioSpec
  imports Gpio
begin

text \<open>
  What the configuration of a port does, pin by pin, on hardware that behaves as the manual says.
\<close>

lemma and_push_bit_1: "i < 32 \<Longrightarrow> push_bit i 1 AND pin \<noteq> 0 \<longleftrightarrow> bit (pin :: reg) i"
  using and_BIT [of pin i] by (simp add: BIT_def and.commute)

lemma and_push_bit_1_same: "i < 32 \<Longrightarrow> bit (pin :: reg) i \<Longrightarrow> push_bit i 1 AND pin = BIT i"
  by (rule bit_word_eqI) (auto simp: BIT_def bit_simps)

text \<open>The level the pull configuration leaves on a configured pin.\<close>

definition level :: "reg \<Rightarrow> bool \<Rightarrow> bool" where
  "level mode old \<longleftrightarrow> mode = GPIO_MODE_IPU \<or> (mode \<noteq> GPIO_MODE_IPD \<and> old)"

text \<open>A port: its two configuration registers and its output register are storage, and the bit
  operation registers set and clear bits of the output register and nothing else.\<close>

locale gpio_port = registers B val "{GPIO_CTL0 p, GPIO_CTL1 p, GPIO_OCTL p}"
  for B :: "'h bus" and val :: "'h \<Rightarrow> 32 word \<Rightarrow> reg" and p :: "32 word" +
  assumes bop: "b \<in> {GPIO_CTL0 p, GPIO_CTL1 p, GPIO_OCTL p} \<Longrightarrow> val (wr32 B (GPIO_BOP p) v h) b =
      (if b = GPIO_OCTL p then (val h b AND NOT (drop_bit 16 v)) OR take_bit 16 v else val h b)"
    and bc: "b \<in> {GPIO_CTL0 p, GPIO_CTL1 p, GPIO_OCTL p} \<Longrightarrow> val (wr32 B (GPIO_BC p) v h) b =
      (if b = GPIO_OCTL p then val h b AND NOT v else val h b)"
begin

lemma init_pin_skips: "i < 16 \<Longrightarrow> \<not> bit pin i \<Longrightarrow> init_pin B p mode temp pin ctl n i h = h"
  using and_push_bit_1 [of i pin] by (simp add: init_pin_def)

lemma init_pin_ctl:
  assumes "i < 16" "bit pin i" "ctl \<in> {GPIO_CTL0 p, GPIO_CTL1 p}" "b \<in> {GPIO_CTL0 p, GPIO_CTL1 p}"
  shows "val (init_pin B p mode temp pin ctl n i h) b =
    (if b = ctl then (val h ctl AND NOT (GPIO_MODE_MASK n)) OR GPIO_MODE_SET n temp else val h b)"
  using assms and_push_bit_1 [of i pin]
  by (auto simp: init_pin_def rd_val wr_val bop bc)

lemma init_pin_octl:
  assumes "i < 16" "bit pin i" "ctl \<in> {GPIO_CTL0 p, GPIO_CTL1 p}"
  shows "bit (val (init_pin B p mode temp pin ctl n i h) (GPIO_OCTL p)) j \<longleftrightarrow>
    (if j = i then level mode (bit (val h (GPIO_OCTL p)) j) else bit (val h (GPIO_OCTL p)) j)"
proof -
  have b: "push_bit i 1 AND pin \<noteq> 0" "push_bit i 1 AND pin = BIT i"
    using assms and_push_bit_1 [of i pin] and_push_bit_1_same [of i pin] by auto
  have parts: "drop_bit 16 (BIT i) = 0" "take_bit 16 (BIT i) = BIT i"
    using assms(1) by (auto intro!: bit_word_eqI simp: bit_simps)
  have "val (init_pin B p mode temp pin ctl n i h) (GPIO_OCTL p) =
      (if mode = GPIO_MODE_IPD then val h (GPIO_OCTL p) AND NOT (BIT i)
       else if mode = GPIO_MODE_IPU then val h (GPIO_OCTL p) OR BIT i else val h (GPIO_OCTL p))"
    using assms b by (auto simp: init_pin_def rd_val wr_val bop bc parts)
  moreover have "GPIO_MODE_IPU \<noteq> GPIO_MODE_IPD" by (simp add: GPIO_MODE_IPU_def GPIO_MODE_IPD_def)
  ultimately show ?thesis using assms(1) by (auto simp: level_def bit_simps dest: bit_imp_le_length)
qed

end

text \<open>A field of four bits replaced.\<close>

lemma bit_small: "(t :: reg) < 16 \<Longrightarrow> bit t k \<Longrightarrow> k < 4"
proof -
  assume t: "t < 16" and b: "bit t k"
  from t have "take_bit 4 t = t"
    by (simp add: word_less_nat_alt word_unat_eq_iff unsigned_take_bit_eq take_bit_nat_eq_self)
  with b have "bit (take_bit 4 t) k" by simp
  then show "k < 4" by (simp add: bit_take_bit_iff)
qed

lemma bit_15: "bit (0xF :: int) k \<longleftrightarrow> k < 4" "bit (0xF :: reg) k \<longleftrightarrow> k < 4"
proof -
  have "(0xF :: int) = mask 4" "(0xF :: reg) = mask 4" by (simp_all add: mask_eq_exp_minus_1)
  then show "bit (0xF :: int) k \<longleftrightarrow> k < 4" "bit (0xF :: reg) k \<longleftrightarrow> k < 4"
    by (simp_all only: bit_mask_iff) auto
qed

lemma bit_field:
  assumes "n < 8" "t < 16"
  shows "bit ((v AND NOT (GPIO_MODE_MASK n)) OR GPIO_MODE_SET n t) j \<longleftrightarrow>
    (if j div 4 = n then bit t (j mod 4) else bit (v :: reg) j)"
proof (cases "j div 4 = n")
  case True
  then have j: "j = 4 * n + j mod 4" by (metis mult_div_mod_eq)
  moreover have "j mod 4 < 4" by simp
  ultimately have "j < 32" using assms(1) by linarith
  moreover have "4 * n \<le> j" "j - 4 * n = j mod 4" using j by linarith+
  ultimately show ?thesis using True less_trans [of "j mod 4" 4 32]
    by (simp add: GPIO_MODE_MASK_def GPIO_MODE_SET_def bit_15 bit_and_iff bit_or_iff bit_not_iff bit_push_bit_iff)
next
  case False
  have "\<not> (4 * n \<le> j \<and> j - 4 * n < 4)" using False by auto
  then show ?thesis using False assms bit_small [of t "j - 4 * n"]
    by (auto simp: GPIO_MODE_MASK_def GPIO_MODE_SET_def bit_15 bit_and_iff bit_or_iff bit_not_iff bit_push_bit_iff
      dest: bit_imp_le_length)
qed

lemma temp_mode_small: "speed < 16 \<Longrightarrow> temp_mode mode speed < 16"
proof -
  have F: "(0x0F :: reg) = mask 4" by (simp add: mask_eq_exp_minus_1)
  assume "speed < 16"
  then have "take_bit 4 (temp_mode mode speed) = temp_mode mode speed"
    by (intro bit_word_eqI) (auto simp: temp_mode_def Let_def F bit_simps dest: bit_small)
  then have "unat (temp_mode mode speed) = take_bit 4 (unat (temp_mode mode speed))"
    by (metis unsigned_take_bit_eq)
  also have "\<dots> < 2 ^ 4" by (rule take_bit_nat_less_exp)
  finally show ?thesis by (simp add: word_less_nat_alt)
qed

context gpio_port
begin

text \<open>The pins from \<open>a\<close> to \<open>k\<close>, whose fields are in the register at \<open>ctl\<close>.\<close>

lemma pins_fold:
  assumes "t < 16" "ctl \<in> {GPIO_CTL0 p, GPIO_CTL1 p}" "b \<in> {GPIO_CTL0 p, GPIO_CTL1 p}"
    and "a \<le> k" "k \<le> a + 8" "k \<le> 16"
  shows "bit (val (fold (\<lambda>i. init_pin B p mode t pin ctl (i - a) i) [a..<k] h) b) j \<longleftrightarrow>
    (if b = ctl \<and> a + j div 4 < k \<and> bit pin (a + j div 4) then bit t (j mod 4) else bit (val h b) j)"
    and "bit (val (fold (\<lambda>i. init_pin B p mode t pin ctl (i - a) i) [a..<k] h) (GPIO_OCTL p)) j \<longleftrightarrow>
    (if a \<le> j \<and> j < k \<and> bit pin j then level mode (bit (val h (GPIO_OCTL p)) j) else bit (val h (GPIO_OCTL p)) j)"
  using assms(4-6)
proof (induction k rule: dec_induct)
  case base
  { case 1 show ?case by simp next case 2 show ?case by auto }
next
  case (step k)
  let ?g = "fold (\<lambda>i. init_pin B p mode t pin ctl (i - a) i) [a..<k] h"
  have run: "fold (\<lambda>i. init_pin B p mode t pin ctl (i - a) i) [a..<Suc k] h = init_pin B p mode t pin ctl (k - a) k ?g"
    using step.hyps by simp
  {
    case 1
    then have IH: "bit (val ?g b) j \<longleftrightarrow>
        (if b = ctl \<and> a + j div 4 < k \<and> bit pin (a + j div 4) then bit t (j mod 4) else bit (val h b) j)"
      using step.IH(1) by simp
    show ?case
    proof (cases "bit pin k")
      case True
      have "bit (val (init_pin B p mode t pin ctl (k - a) k ?g) b) j \<longleftrightarrow>
          (if b = ctl \<and> j div 4 = k - a then bit t (j mod 4) else bit (val ?g b) j)"
        using init_pin_ctl [of k pin ctl b mode t "k - a" ?g] bit_field [of "k - a" t "val ?g ctl" j] True assms(1-3) 1
        by auto
      then show ?thesis unfolding run IH using True step.hyps(1) by (auto simp: less_Suc_eq)
    next
      case False
      then show ?thesis unfolding run using init_pin_skips [of k pin] 1 IH by (auto simp: less_Suc_eq)
    qed
  next
    case 2
    then have IH: "bit (val ?g (GPIO_OCTL p)) j \<longleftrightarrow>
        (if a \<le> j \<and> j < k \<and> bit pin j then level mode (bit (val h (GPIO_OCTL p)) j) else bit (val h (GPIO_OCTL p)) j)"
      using step.IH(2) by simp
    show ?case
    proof (cases "bit pin k")
      case True
      have "bit (val (init_pin B p mode t pin ctl (k - a) k ?g) (GPIO_OCTL p)) j \<longleftrightarrow>
          (if j = k then level mode (bit (val ?g (GPIO_OCTL p)) j) else bit (val ?g (GPIO_OCTL p)) j)"
        using init_pin_octl [of k pin ctl mode t "k - a" ?g j] True assms(2) 2 by simp
      then show ?thesis unfolding run IH using True step.hyps(1) by (auto simp: less_Suc_eq)
    next
      case False
      then show ?thesis unfolding run using init_pin_skips [of k pin] 2 IH by (auto simp: less_Suc_eq)
    qed
  }
qed

text \<open>The whole port: register \<open>j div 8\<close> holds the fields of the pins.\<close>

lemma gpio_init_val:
  assumes "speed < 16"
  shows "j < 32 \<Longrightarrow> bit (val (gpio_init B p mode speed pin h) (GPIO_CTL0 p)) j \<longleftrightarrow>
      (if bit pin (j div 4) then bit (temp_mode mode speed) (j mod 4) else bit (val h (GPIO_CTL0 p)) j)"
    and "j < 32 \<Longrightarrow> bit (val (gpio_init B p mode speed pin h) (GPIO_CTL1 p)) j \<longleftrightarrow>
      (if bit pin (8 + j div 4) then bit (temp_mode mode speed) (j mod 4) else bit (val h (GPIO_CTL1 p)) j)"
    and "bit (val (gpio_init B p mode speed pin h) (GPIO_OCTL p)) j \<longleftrightarrow>
      (if j < 16 \<and> bit pin j then level mode (bit (val h (GPIO_OCTL p)) j) else bit (val h (GPIO_OCTL p)) j)"
proof -
  note t = temp_mode_small [OF assms, of mode]
  have "fold (\<lambda>i. init_pin B p mode t pin (GPIO_CTL0 p) i i) [0..<8] h =
      fold (\<lambda>i. init_pin B p mode t pin (GPIO_CTL0 p) (i - 0) i) [0..<8] h" for t h by simp
  then have run: "gpio_init B p mode speed pin h =
      fold (\<lambda>i. init_pin B p mode (temp_mode mode speed) pin (GPIO_CTL1 p) (i - 8) i) [8..<16]
        (fold (\<lambda>i. init_pin B p mode (temp_mode mode speed) pin (GPIO_CTL0 p) (i - 0) i) [0..<8] h)"
    by (simp only: gpio_init_def Let_def)
  have ne: "GPIO_CTL0 p \<noteq> GPIO_CTL1 p" by simp
  note low = pins_fold [OF t, of "GPIO_CTL0 p" _ 0 8 mode pin h]
  note high = pins_fold [OF t, of "GPIO_CTL1 p" _ 8 16 mode pin]
  show "bit (val (gpio_init B p mode speed pin h) (GPIO_CTL0 p)) j \<longleftrightarrow>
      (if bit pin (j div 4) then bit (temp_mode mode speed) (j mod 4) else bit (val h (GPIO_CTL0 p)) j)" if "j < 32"
    unfolding run using that ne by (subst high(1); (subst low(1))?) auto
  show "bit (val (gpio_init B p mode speed pin h) (GPIO_CTL1 p)) j \<longleftrightarrow>
      (if bit pin (8 + j div 4) then bit (temp_mode mode speed) (j mod 4) else bit (val h (GPIO_CTL1 p)) j)" if "j < 32"
    unfolding run using that ne by (subst high(1); (subst low(1))?) auto
  show "bit (val (gpio_init B p mode speed pin h) (GPIO_OCTL p)) j \<longleftrightarrow>
      (if j < 16 \<and> bit pin j then level mode (bit (val h (GPIO_OCTL p)) j) else bit (val h (GPIO_OCTL p)) j)"
    unfolding run using pins_fold(2) [OF t, of "GPIO_CTL1 p" "GPIO_CTL1 p" 8 16 mode pin _ j]
      pins_fold(2) [OF t, of "GPIO_CTL0 p" "GPIO_CTL0 p" 0 8 mode pin h j]
    by auto
qed

end

text \<open>The ports of the documented hardware.\<close>

lemma port_registers:
  assumes "is_port p"
  shows "\<not> special p" "\<not> special (p + 4)" "\<not> special (p + 0xC)"
    "is_port (p + 0x10 - 0x10)" "\<not> is_port (p + 0x14 - 0x10)" "is_port (p + 0x14 - 0x14)"
  using assms by (auto simp: is_port_def special_def GPIO_BASE_def EXTI_BASE_def)

lemma gd32_port: "is_port p \<Longrightarrow> gpio_port gd32 (\<lambda>h. h) p"
proof -
  assume p: "is_port p"
  have r: "registers gd32 (\<lambda>h. h) {GPIO_CTL0 p, GPIO_CTL1 p, GPIO_OCTL p}"
    by (rule registers_mono [OF gd32.registers_axioms]) (use port_registers [OF p] in auto)
  have w: "p + 0x10 - 4 = p + 0xC" "p + 0x14 - 8 = p + 0xC" by simp_all
  have b: "wr32 gd32 (GPIO_BOP p) v h = h(p + 0xC := (h (p + 0xC) AND NOT (drop_bit 16 v)) OR take_bit 16 v)"
    "wr32 gd32 (GPIO_BC p) v h = h(p + 0xC := h (p + 0xC) AND NOT v)" for v h
    unfolding gd32_def gd32_write_def using port_registers [OF p] w by (simp_all only: bus.select_convs if_True if_False)
  show "gpio_port gd32 (\<lambda>h. h) p"
    using r unfolding gpio_port_def gpio_port_axioms_def by (auto simp only: b fun_upd_apply split: if_splits)
qed

interpretation porta: gpio_port gd32 "\<lambda>h. h" GPIOA
  by (rule gd32_port) (simp add: is_port_def GPIOA_def)

interpretation portb: gpio_port gd32 "\<lambda>h. h" GPIOB
  by (rule gd32_port) (simp add: is_port_def GPIOB_def)

interpretation portc: gpio_port gd32 "\<lambda>h. h" GPIOC
  by (rule gd32_port) (simp add: is_port_def GPIOC_def)

interpretation portd: gpio_port gd32 "\<lambda>h. h" GPIOD
  by (rule gd32_port) (simp add: is_port_def GPIOD_def)

interpretation porte: gpio_port gd32 "\<lambda>h. h" GPIOE
  by (rule gd32_port) (simp add: is_port_def GPIOE_def)

end
