(* ===== verification/RcuSpec.thy ===== *)
theory RcuSpec
  imports Rcu
begin

text \<open>
  What the clock functions mean: the bit of each peripheral, and the frequencies that the
  configuration registers stand for.
\<close>

section \<open>Register and bit of a name\<close>

lemma RCU_REGIDX_BIT_parts:
  assumes "r < 2 ^ 26" "b < 32"
  shows "RCU_REG_VAL (RCU_REGIDX_BIT r b) = RCU + r" "RCU_BIT_POS (RCU_REGIDX_BIT r b) = unat b"
proof -
  have b: "bit b n \<Longrightarrow> n < 5" for n
  proof -
    have "take_bit 5 b = b"
      using assms(2) by (simp add: word_less_nat_alt word_unat_eq_iff unsigned_take_bit_eq take_bit_nat_eq_self)
    then show "bit b n \<Longrightarrow> n < 5" by (metis bit_take_bit_iff)
  qed
  have r: "bit r n \<Longrightarrow> n < 26" for n
  proof -
    have "take_bit 26 r = r"
      using assms(1) by (simp add: word_less_nat_alt word_unat_eq_iff unsigned_take_bit_eq take_bit_nat_eq_self)
    then show "bit r n \<Longrightarrow> n < 26" by (metis bit_take_bit_iff)
  qed
  have "drop_bit 6 (push_bit 6 r OR b) = r"
    by (rule bit_word_eqI) (auto simp: bit_simps dest: b r)
  then show "RCU_REG_VAL (RCU_REGIDX_BIT r b) = RCU + r" by (simp add: RCU_REG_VAL_def RCU_REGIDX_BIT_def)
  have F: "(0x1F :: reg) = mask 5" by (simp add: mask_eq_exp_minus_1)
  have "(push_bit 6 r OR b) AND 0x1F = b"
    unfolding F by (rule bit_word_eqI) (auto simp: bit_simps dest: b)
  then show "RCU_BIT_POS (RCU_REGIDX_BIT r b) = unat b" by (simp add: RCU_BIT_POS_def RCU_REGIDX_BIT_def)
qed

lemma periph_bit: "RCU_BIT_POS (rcu_periph_value p) < 32"
  by (cases p) (simp_all add: RCU_REGIDX_BIT_parts)

lemma periph_reg: "RCU_REG_VAL (rcu_periph_value p) \<in> {RCU_AHBEN, RCU_APB1EN, RCU_APB2EN, RCU_BDCTL}"
  by (cases p) (simp_all add: RCU_REGIDX_BIT_parts)

text \<open>No two peripherals share a clock bit.\<close>

definition periphs :: "rcu_periph list" where
  "periphs = [RCU_DMA0, RCU_DMA1, RCU_CRC, RCU_EXMC, RCU_USBFS, RCU_TIMER1, RCU_TIMER2, RCU_TIMER3, RCU_TIMER4,
     RCU_TIMER5, RCU_TIMER6, RCU_WWDGT, RCU_SPI1, RCU_SPI2, RCU_USART1, RCU_USART2, RCU_UART3, RCU_UART4, RCU_I2C0,
     RCU_I2C1, RCU_CAN0, RCU_CAN1, RCU_BKPI, RCU_PMU, RCU_DAC, RCU_RTC, RCU_AF, RCU_GPIOA, RCU_GPIOB, RCU_GPIOC,
     RCU_GPIOD, RCU_GPIOE, RCU_ADC0, RCU_ADC1, RCU_TIMER0, RCU_SPI0, RCU_USART0]"

definition clock_bit :: "rcu_periph \<Rightarrow> 32 word \<times> nat" where
  "clock_bit p = (RCU_REG_VAL (rcu_periph_value p), RCU_BIT_POS (rcu_periph_value p))"

lemma periphs_all: "p \<in> set periphs"
  by (cases p) (simp_all add: periphs_def)

lemma clock_bits_distinct: "distinct (map clock_bit periphs)"
  by (simp add: periphs_def clock_bit_def RCU_REGIDX_BIT_parts)

lemma clock_bit_inj: "clock_bit p = clock_bit q \<longleftrightarrow> p = q"
  using clock_bits_distinct periphs_all by (auto simp: distinct_map dest: inj_onD)

text \<open>Whether the clock of a peripheral is enabled.\<close>

definition clocked :: "('h \<Rightarrow> 32 word \<Rightarrow> reg) \<Rightarrow> rcu_periph \<Rightarrow> 'h \<Rightarrow> bool" where
  "clocked val p h \<longleftrightarrow> bit (val h (RCU_REG_VAL (rcu_periph_value p))) (RCU_BIT_POS (rcu_periph_value p))"

context registers
begin

lemma clock_enable_clocked:
  assumes "{RCU_AHBEN, RCU_APB1EN, RCU_APB2EN, RCU_BDCTL} \<subseteq> A"
  shows "clocked val q (rcu_periph_clock_enable B p h) \<longleftrightarrow> q = p \<or> clocked val q h"
    and "clocked val q (rcu_periph_clock_disable B p h) \<longleftrightarrow> q \<noteq> p \<and> clocked val q h"
proof -
  have A: "RCU_REG_VAL (rcu_periph_value p) \<in> A" for p using periph_reg [of p] assms by auto
  show "clocked val q (rcu_periph_clock_enable B p h) \<longleftrightarrow> q = p \<or> clocked val q h"
    using clock_bit_inj [of q p] periph_bit
    by (auto simp: clocked_def rcu_periph_clock_enable_def bit_on_def set_bits_val A clock_bit_def bit_or_iff)
  show "clocked val q (rcu_periph_clock_disable B p h) \<longleftrightarrow> q \<noteq> p \<and> clocked val q h"
    using clock_bit_inj [of q p] periph_bit
    by (auto simp: clocked_def rcu_periph_clock_disable_def bit_off_def clear_bits_val A clock_bit_def bit_and_iff bit_not_iff)
qed

end

section \<open>Frequencies\<close>

text \<open>A field of a register, as a number.\<close>

definition field :: "reg \<Rightarrow> nat \<Rightarrow> nat \<Rightarrow> nat" where
  "field v m n = unat (GET_BITS v m n)"

text \<open>The frequencies in Hz that the two configuration registers stand for, after the tables of the
  header. The factor of the main PLL is counted in halves, since one of them is 6.5.\<close>

definition pll_halves :: "reg \<Rightarrow> nat" where
  "pll_halves cfg0 =
     (let f = field cfg0 18 21 + (if bit cfg0 29 then 16 else 0)
      in if f = 13 then 13 else if f < 15 then 2 * (f + 2) else 2 * (f + 1))"

definition source_hz :: "nat \<Rightarrow> reg \<Rightarrow> reg \<Rightarrow> nat" where
  "source_hz xtal cfg0 cfg1 =
     (if bit cfg0 16
      then (if bit cfg1 16
            then xtal div (field cfg1 4 7 + 1) * (if field cfg1 8 11 = 15 then 20 else field cfg1 8 11 + 2)
            else xtal) div (field cfg1 0 3 + 1)
      else 4000000)"

definition sys_hz :: "nat \<Rightarrow> reg \<Rightarrow> reg \<Rightarrow> nat" where
  "sys_hz xtal cfg0 cfg1 =
     (if field cfg0 2 3 = 1 then xtal
      else if field cfg0 2 3 = 2 then source_hz xtal cfg0 cfg1 * pll_halves cfg0 div 2
      else 8000000)"

definition ahb_hz :: "nat \<Rightarrow> reg \<Rightarrow> nat \<Rightarrow> nat" where
  "ahb_hz sys cfg0 f = sys div (if f < 8 then 1 else [2, 4, 8, 16, 64, 128, 256, 512] ! (f - 8))"

definition apb_hz :: "nat \<Rightarrow> nat \<Rightarrow> nat" where
  "apb_hz ahb f = ahb div (if f < 4 then 1 else 2 ^ (f - 3))"

fun clock_hz :: "nat \<Rightarrow> reg \<Rightarrow> reg \<Rightarrow> rcu_clock_freq \<Rightarrow> nat" where
  "clock_hz xtal cfg0 cfg1 CK_SYS = sys_hz xtal cfg0 cfg1"
| "clock_hz xtal cfg0 cfg1 CK_AHB = ahb_hz (sys_hz xtal cfg0 cfg1) cfg0 (field cfg0 4 7)"
| "clock_hz xtal cfg0 cfg1 CK_APB1 =
     apb_hz (ahb_hz (sys_hz xtal cfg0 cfg1) cfg0 (field cfg0 4 7)) (field cfg0 8 10)"
| "clock_hz xtal cfg0 cfg1 CK_APB2 =
     apb_hz (ahb_hz (sys_hz xtal cfg0 cfg1) cfg0 (field cfg0 4 7)) (field cfg0 11 13)"

lemma field_bounds: "field v 18 21 < 16" "field v 4 7 < 16" "field v 8 11 < 16" "field v 0 3 < 16" "field v 2 3 < 4"
    "field v 8 10 < 8" "field v 11 13 < 8"
  unfolding field_def
  using GET_BITS_bound [of 21 v 18] GET_BITS_bound [of 7 v 4] GET_BITS_bound [of 11 v 8] GET_BITS_bound [of 3 v 0]
    GET_BITS_bound [of 3 v 2] GET_BITS_bound [of 10 v 8] GET_BITS_bound [of 13 v 11]
  by simp_all

text \<open>The code masks and shifts some fields by hand.\<close>

lemma masked_fields:
  "unat (v AND BITS 0 3) = field v 0 3" "unat (drop_bit 4 (v AND BITS 4 7)) = field v 4 7"
  "unat (drop_bit 8 (v AND BITS 8 11)) = field v 8 11"
  by (simp_all add: field_def GET_BITS_def)

lemma tested_bit: "n < 32 \<Longrightarrow> v AND BIT n = BIT n \<longleftrightarrow> bit v n" "n < 32 \<Longrightarrow> v AND BIT n = 0 \<longleftrightarrow> \<not> bit v n"
proof -
  show "v AND BIT n = 0 \<longleftrightarrow> \<not> bit v n" if "n < 32" using and_BIT [of v n] that by auto
  show "v AND BIT n = BIT n \<longleftrightarrow> bit v n" if "n < 32"
  proof
    assume "v AND BIT n = BIT n"
    then have "bit (v AND BIT n) n" using that by simp
    then show "bit v n" by (simp add: bit_and_iff)
  qed (auto intro!: bit_word_eqI simp: bit_and_iff)
qed

context registers
begin

lemma pll_factor_val:
  assumes "RCU_CFG0 \<in> A"
  shows "\<exists>w. pll_factor B h = (w, h) \<and>
    unat w = (if pll_halves (val h RCU_CFG0) = 13 then 15 else pll_halves (val h RCU_CFG0) div 2) \<and>
    (w = 15 \<longleftrightarrow> pll_halves (val h RCU_CFG0) = 13) \<and> (pll_halves (val h RCU_CFG0) \<noteq> 13 \<longrightarrow> even (pll_halves (val h RCU_CFG0)))"
proof -
  let ?v = "val h RCU_CFG0"
  let ?f = "if bit ?v 29 then GET_BITS ?v 18 21 OR 0x10 else GET_BITS ?v 18 21"
  have "GET_BITS ?v 18 21 OR 0x10 = GET_BITS ?v 18 21 + 0x10"
  proof -
    have x: "(0x10 :: reg) = BIT 4" by (simp add: BIT_def push_bit_eq_mult)
    have "GET_BITS ?v 18 21 AND 0x10 = 0"
      unfolding x by (rule bit_word_eqI) (auto simp: bit_and_iff bit_GET_BITS)
    then show ?thesis by (simp add: disjunctive_add_eq_or)
  qed
  then have f: "unat ?f = field ?v 18 21 + (if bit ?v 29 then 16 else 0)"
    using field_bounds(1) [of ?v] by (simp add: field_def unat_word_ariths)
  have run: "pll_factor B h = (if ?f < 15 then ?f + 2 else ?f + 1, h)"
    using assms tested_bit(2) [of 29 ?v] by (auto simp: pll_factor_def rd_val Let_def)
  have odd: "2 * n \<noteq> 9" for n :: nat by presburger
  let ?w = "if ?f < 15 then ?f + 2 else ?f + 1"
  have "unat ?w = (if unat ?f < 15 then unat ?f + 2 else unat ?f + 1)"
    using f field_bounds(1) [of ?v] by (auto simp: word_less_nat_alt unat_word_ariths)
  then have "unat ?w = (if pll_halves ?v = 13 then 15 else pll_halves ?v div 2)" "unat ?w = 15 \<longleftrightarrow> pll_halves ?v = 13"
      "pll_halves ?v \<noteq> 13 \<longrightarrow> even (pll_halves ?v)"
    using f field_bounds(1) [of ?v] odd by (auto simp: pll_halves_def Let_def)
  moreover have "unat ?w = 15 \<longleftrightarrow> ?w = 15" by (simp only: word_unat_eq_iff) simp
  ultimately show ?thesis unfolding run by (intro exI [of _ ?w]) auto
qed

lemma pll_source_val:
  assumes "RCU_CFG0 \<in> A" "RCU_CFG1 \<in> A" "unat xtal * 20 < 2 ^ 32"
  shows "\<exists>w. pll_source B xtal h = (w, h) \<and> unat w = source_hz (unat xtal) (val h RCU_CFG0) (val h RCU_CFG1)"
proof -
  let ?v = "val h RCU_CFG0" and ?u = "val h RCU_CFG1"
  let ?p1 = "drop_bit 4 (?u AND RCU_CFG1_PREDV1) + 1" and ?p0 = "(?u AND RCU_CFG1_PREDV0) + 1"
  let ?m = "drop_bit 8 (?u AND RCU_CFG1_PLL1MF) + 2"
  let ?m1 = "if ?m = 17 then 20 else ?m"
  let ?s = "if bit ?u 16 then (xtal div ?p1) * ?m1 else xtal"
  have p: "unat ?p1 = field ?u 4 7 + 1" "unat ?p0 = field ?u 0 3 + 1" "unat ?m = field ?u 8 11 + 2"
    using field_bounds [of ?u] by (simp_all add: unat_word_ariths masked_fields del: drop_bit_and)
  have "?m = 17 \<longleftrightarrow> field ?u 8 11 = 15" using p(3) by (auto simp: word_unat_eq_iff)
  then have m: "unat ?m1 = (if field ?u 8 11 = 15 then 20 else field ?u 8 11 + 2)" using p(3) by simp
  then have "unat ?m1 \<le> 20" using field_bounds(3) [of ?u] by auto
  have d: "unat (xtal div ?p1) = unat xtal div (field ?u 4 7 + 1)" by (simp only: unat_div p(1))
  have "unat (xtal div ?p1) * unat ?m1 \<le> unat xtal * 20"
    unfolding d using \<open>unat ?m1 \<le> 20\<close> by (intro mult_le_mono div_le_dividend)
  then have "unat (xtal div ?p1) * unat ?m1 < 2 ^ LENGTH(32)" using assms(3) by simp
  then have "unat ((xtal div ?p1) * ?m1) = unat xtal div (field ?u 4 7 + 1) * unat ?m1"
    unfolding d [symmetric] by (rule unat_mult_lem [THEN iffD1])
  with d have s: "unat ?s = (if bit ?u 16 then unat xtal div (field ?u 4 7 + 1) * unat ?m1 else unat xtal)" by simp
  have run: "pll_source B xtal h = (if bit ?v 16 then ?s div ?p0 else 4000000, h)"
    using assms(1,2) tested_bit(1) [of 16] by (auto simp: pll_source_def rd_val Let_def IRC8M_VALUE_def)
  show ?thesis
    unfolding run using s p(2) m by (auto simp: source_hz_def unat_div)
qed

lemma cksys_val:
  assumes "RCU_CFG0 \<in> A" "RCU_CFG1 \<in> A" "unat xtal * 20 < 2 ^ 32"
    and "sys_hz (unat xtal) (val h RCU_CFG0) (val h RCU_CFG1) < 2 ^ 32"
  shows "\<exists>w. cksys_freq B xtal h = (w, h) \<and> unat w = sys_hz (unat xtal) (val h RCU_CFG0) (val h RCU_CFG1)"
proof -
  let ?v = "val h RCU_CFG0" and ?u = "val h RCU_CFG1"
  let ?s = "GET_BITS ?v 2 3" and ?H = "pll_halves ?v"
  have s: "?s = 0 \<longleftrightarrow> field ?v 2 3 = 0" "?s = 1 \<longleftrightarrow> field ?v 2 3 = 1" "?s = 2 \<longleftrightarrow> field ?v 2 3 = 2"
    by (simp_all add: field_def word_unat_eq_iff)
  obtain src where src: "pll_source B xtal h = (src, h)" "unat src = source_hz (unat xtal) ?v ?u"
    using pll_source_val [OF assms(1-3)] by blast
  obtain m where m: "pll_factor B h = (m, h)" "unat m = (if ?H = 13 then 15 else ?H div 2)" "m = 15 \<longleftrightarrow> ?H = 13"
      "?H \<noteq> 13 \<longrightarrow> even ?H"
    using pll_factor_val [OF assms(1)] by blast
  have run: "cksys_freq B xtal h = (if ?s = 0 then 8000000 else if ?s = 1 then xtal
      else if ?s = 2 then (if m = 15 then src * 6 + src div 2 else src * m) else 8000000, h)"
    using assms(1) src(1) m(1) by (simp add: cksys_freq_def rd_val IRC8M_VALUE_def)
  have "unat (if m = 15 then src * 6 + src div 2 else src * m) = unat src * ?H div 2" if "field ?v 2 3 = 2"
  proof (cases "m = 15")
    case True
    then have H: "?H = 13" using m(3) by simp
    have "unat src * 13 div 2 = unat src * 6 + unat src div 2" by simp
    moreover have "unat src * 13 div 2 < 2 ^ 32" using assms(4) that H src(2) by (simp add: sys_hz_def)
    ultimately have lt: "unat src * 6 + unat src div 2 < 2 ^ 32" by simp
    then have "unat (src * 6) = unat src * 6"
      using unat_mult_lem [of src 6] by simp
    then have "unat (src * 6 + src div 2) = unat src * 6 + unat src div 2"
      using lt unat_add_lem [of "src * 6" "src div 2"] by (simp add: unat_div)
    then show ?thesis using True H by simp
  next
    case False
    then obtain k where k: "?H = 2 * k" "unat m = k" using m(2-4) by auto
    then have "unat src * k < 2 ^ 32" using assms(4) that src(2) by (simp add: sys_hz_def)
    then have "unat (src * m) = unat src * k" using unat_mult_lem [of src m] k by simp
    then show ?thesis using False k by simp
  qed
  then show ?thesis
    unfolding run using s src(2) by (auto simp: sys_hz_def)
qed

lemma exponents:
  "f < 16 \<Longrightarrow> ahb_hz n v f = n div 2 ^ (ahb_exp ! f)"
  "f < 8 \<Longrightarrow> apb_hz n f = n div 2 ^ (apb1_exp ! f)" "apb2_exp = apb1_exp"
proof -
  have "f \<in> set [0..<16] \<longrightarrow> ahb_hz n v f = n div 2 ^ (ahb_exp ! f)"
    unfolding ahb_hz_def ahb_exp_def by (simp add: upt_rec)
  then show "f < 16 \<Longrightarrow> ahb_hz n v f = n div 2 ^ (ahb_exp ! f)" by simp
  have "f \<in> set [0..<8] \<longrightarrow> apb_hz n f = n div 2 ^ (apb1_exp ! f)"
    unfolding apb_hz_def apb1_exp_def by (simp add: upt_rec)
  then show "f < 8 \<Longrightarrow> apb_hz n f = n div 2 ^ (apb1_exp ! f)" by simp
  show "apb2_exp = apb1_exp" by (simp add: apb1_exp_def apb2_exp_def)
qed

lemma freq_get_val:
  assumes "RCU_CFG0 \<in> A" "RCU_CFG1 \<in> A" "unat xtal * 20 < 2 ^ 32"
    and "sys_hz (unat xtal) (val h RCU_CFG0) (val h RCU_CFG1) < 2 ^ 32"
  shows "\<exists>w. rcu_clock_freq_get B xtal clock h = (w, h) \<and>
    unat w = clock_hz (unat xtal) (val h RCU_CFG0) (val h RCU_CFG1) clock"
proof -
  obtain w where w: "cksys_freq B xtal h = (w, h)" "unat w = sys_hz (unat xtal) (val h RCU_CFG0) (val h RCU_CFG1)"
    using cksys_val [OF assms] by blast
  let ?v = "val h RCU_CFG0"
  have drop: "unat (drop_bit k w') = unat w' div 2 ^ k" for k and w' :: reg
    using take_bit_nat_eq_self [OF unsigned_less [of w']] by (simp add: unsigned_drop_bit_eq) (simp add: drop_bit_eq_div)
  show ?thesis
    using assms(1) w field_bounds(2,6,7) [of ?v]
    by (cases clock) (simp_all add: rcu_clock_freq_get_def rd_val exponents field_def drop
      div_mult2_eq [symmetric] power_add add.commute [of "_ ! _"] del: drop_bit_drop_bit)
qed

end

end
