(* ===== verification/Fmc.thy ===== *)
theory Fmc
  imports Bus
begin

text \<open>
  \<open>gd32vf103_fmc.c\<close>: the controller of the flash memory and of the option bytes. Every operation
  waits for the controller with a bounded number of polls, and gives the state it was left in.
\<close>

section \<open>Registers\<close>

text \<open>The block of the controller is at \<open>0x40022000\<close> and the option bytes are at \<open>0x1FFFF800\<close>.\<close>

abbreviation (input) FMC_WS :: "32 word" where "FMC_WS \<equiv> 0x40022000"
abbreviation (input) FMC_KEY :: "32 word" where "FMC_KEY \<equiv> 0x40022004"
abbreviation (input) FMC_OBKEY :: "32 word" where "FMC_OBKEY \<equiv> 0x40022008"
abbreviation (input) FMC_STAT :: "32 word" where "FMC_STAT \<equiv> 0x4002200C"
abbreviation (input) FMC_CTL :: "32 word" where "FMC_CTL \<equiv> 0x40022010"
abbreviation (input) FMC_ADDR :: "32 word" where "FMC_ADDR \<equiv> 0x40022014"
abbreviation (input) FMC_OBSTAT :: "32 word" where "FMC_OBSTAT \<equiv> 0x4002201C"
abbreviation (input) FMC_WP :: "32 word" where "FMC_WP \<equiv> 0x40022020"

abbreviation (input) OB_SPC :: "32 word" where "OB_SPC \<equiv> 0x1FFFF800"
abbreviation (input) OB_USER :: "32 word" where "OB_USER \<equiv> 0x1FFFF802"
abbreviation (input) OB_WP0 :: "32 word" where "OB_WP0 \<equiv> 0x1FFFF808"
abbreviation (input) OB_WP1 :: "32 word" where "OB_WP1 \<equiv> 0x1FFFF80A"
abbreviation (input) OB_WP2 :: "32 word" where "OB_WP2 \<equiv> 0x1FFFF80C"
abbreviation (input) OB_WP3 :: "32 word" where "OB_WP3 \<equiv> 0x1FFFF80E"

definition FMC_STAT_BUSY :: reg where "FMC_STAT_BUSY = BIT 0"
definition FMC_STAT_PGERR :: reg where "FMC_STAT_PGERR = BIT 2"
definition FMC_STAT_WPERR :: reg where "FMC_STAT_WPERR = BIT 4"

definition FMC_CTL_PG :: reg where "FMC_CTL_PG = BIT 0"
definition FMC_CTL_PER :: reg where "FMC_CTL_PER = BIT 1"
definition FMC_CTL_MER :: reg where "FMC_CTL_MER = BIT 2"
definition FMC_CTL_OBPG :: reg where "FMC_CTL_OBPG = BIT 4"
definition FMC_CTL_OBER :: reg where "FMC_CTL_OBER = BIT 5"
definition FMC_CTL_START :: reg where "FMC_CTL_START = BIT 6"
definition FMC_CTL_LK :: reg where "FMC_CTL_LK = BIT 7"
definition FMC_CTL_OBWEN :: reg where "FMC_CTL_OBWEN = BIT 9"

definition UNLOCK_KEY0 :: reg where "UNLOCK_KEY0 = 0x45670123"
definition UNLOCK_KEY1 :: reg where "UNLOCK_KEY1 = 0xCDEF89AB"
definition FMC_NSPC :: "16 word" where "FMC_NSPC = 0xA5"
definition FMC_USPC :: "16 word" where "FMC_USPC = 0xBB"
definition FMC_TIMEOUT_COUNT :: reg where "FMC_TIMEOUT_COUNT = 0x000F0000"

datatype fmc_state = FMC_READY | FMC_BUSY | FMC_PGERR | FMC_WPERR | FMC_TOERR

section \<open>Waiting\<close>

text \<open>The status register is read once for each flag that is tested.\<close>

definition fmc_state_get :: "'h bus \<Rightarrow> 'h \<Rightarrow> fmc_state \<times> 'h" where
  "fmc_state_get B h =
     (let (busy, h) = any_set B FMC_STAT FMC_STAT_BUSY h in
      if busy then (FMC_BUSY, h)
      else let (wperr, h) = any_set B FMC_STAT FMC_STAT_WPERR h in
           if wperr then (FMC_WPERR, h)
           else let (pgerr, h) = any_set B FMC_STAT FMC_STAT_PGERR h
                in (if pgerr then FMC_PGERR else FMC_READY, h))"

text \<open>\<open>do { ... timeout--; } while (...)\<close>: a count of zero wraps around.\<close>

function ready_loop :: "'h bus \<Rightarrow> reg \<Rightarrow> 'h \<Rightarrow> fmc_state \<times> 'h" where
  "ready_loop B timeout h =
     (let (fmc_state, h) = fmc_state_get B h; timeout = timeout - 1
      in if fmc_state = FMC_BUSY \<and> timeout \<noteq> 0 then ready_loop B timeout h else (fmc_state, h))"
  by auto
termination
proof (relation "measure (\<lambda>(B, timeout, h). unat (timeout - 1))", goal_cases)
  case (2 B timeout h p fmc_state h' timeout')
  then show ?case using measure_unat [of "timeout - 1"] by simp
qed simp

declare ready_loop.simps [simp del]

definition fmc_ready_wait :: "'h bus \<Rightarrow> reg \<Rightarrow> 'h \<Rightarrow> fmc_state \<times> 'h" where
  "fmc_ready_wait B timeout h =
     (let (fmc_state, h) = ready_loop B timeout h
      in (if fmc_state = FMC_BUSY then FMC_TOERR else fmc_state, h))"

definition ready :: "'h bus \<Rightarrow> 'h \<Rightarrow> fmc_state \<times> 'h" where
  "ready B = fmc_ready_wait B FMC_TIMEOUT_COUNT"

section \<open>The flash memory\<close>

definition fmc_wscnt_set :: "'h bus \<Rightarrow> reg \<Rightarrow> 'h \<Rightarrow> 'h" where
  "fmc_wscnt_set B wscnt = modify B FMC_WS (\<lambda>reg. (reg AND NOT (BITS 0 2)) OR wscnt)"

definition fmc_unlock :: "'h bus \<Rightarrow> 'h \<Rightarrow> 'h" where
  "fmc_unlock B h =
     (let (locked, h) = any_set B FMC_CTL FMC_CTL_LK h
      in if locked then wr32 B FMC_KEY UNLOCK_KEY1 (wr32 B FMC_KEY UNLOCK_KEY0 h) else h)"

definition fmc_lock :: "'h bus \<Rightarrow> 'h \<Rightarrow> 'h" where
  "fmc_lock B = set_bits B FMC_CTL FMC_CTL_LK"

definition fmc_page_erase :: "'h bus \<Rightarrow> 32 word \<Rightarrow> 'h \<Rightarrow> fmc_state \<times> 'h" where
  "fmc_page_erase B page_address h =
     (let (fmc_state, h) = ready B h in
      if fmc_state = FMC_READY
      then let h = set_bits B FMC_CTL FMC_CTL_PER h;
               h = wr32 B FMC_ADDR page_address h;
               h = set_bits B FMC_CTL FMC_CTL_START h;
               (fmc_state, h) = ready B h
           in (fmc_state, clear_bits B FMC_CTL FMC_CTL_PER h)
      else (fmc_state, h))"

definition fmc_mass_erase :: "'h bus \<Rightarrow> 'h \<Rightarrow> fmc_state \<times> 'h" where
  "fmc_mass_erase B h =
     (let (fmc_state, h) = ready B h in
      if fmc_state = FMC_READY
      then let h = set_bits B FMC_CTL FMC_CTL_MER h;
               h = set_bits B FMC_CTL FMC_CTL_START h;
               (fmc_state, h) = ready B h
           in (fmc_state, clear_bits B FMC_CTL FMC_CTL_MER h)
      else (fmc_state, h))"

definition fmc_word_program :: "'h bus \<Rightarrow> 32 word \<Rightarrow> reg \<Rightarrow> 'h \<Rightarrow> fmc_state \<times> 'h" where
  "fmc_word_program B address v h =
     (let (fmc_state, h) = ready B h in
      if fmc_state = FMC_READY
      then let h = set_bits B FMC_CTL FMC_CTL_PG h;
               h = wr32 B address v h;
               (fmc_state, h) = ready B h
           in (fmc_state, clear_bits B FMC_CTL FMC_CTL_PG h)
      else (fmc_state, h))"

definition fmc_halfword_program :: "'h bus \<Rightarrow> 32 word \<Rightarrow> 16 word \<Rightarrow> 'h \<Rightarrow> fmc_state \<times> 'h" where
  "fmc_halfword_program B address v h =
     (let (fmc_state, h) = ready B h in
      if fmc_state = FMC_READY
      then let h = set_bits B FMC_CTL FMC_CTL_PG h;
               h = wr16 B address v h;
               (fmc_state, h) = ready B h
           in (fmc_state, clear_bits B FMC_CTL FMC_CTL_PG h)
      else (fmc_state, h))"

section \<open>The option bytes\<close>

text \<open>The loop that waits for the hardware to allow writing has no bound: \<open>None\<close> when it never
  ends.\<close>

partial_function (option) obwen_loop :: "'h bus \<Rightarrow> 'h \<Rightarrow> 'h option" where
  "obwen_loop B h =
     (let (enabled, h) = any_set B FMC_CTL FMC_CTL_OBWEN h
      in if enabled then Some h else obwen_loop B h)"

definition ob_unlock :: "'h bus \<Rightarrow> 'h \<Rightarrow> 'h option" where
  "ob_unlock B h =
     (let (enabled, h) = any_set B FMC_CTL FMC_CTL_OBWEN h;
          h = (if enabled then h else wr32 B FMC_OBKEY UNLOCK_KEY1 (wr32 B FMC_OBKEY UNLOCK_KEY0 h))
      in obwen_loop B h)"

definition ob_lock :: "'h bus \<Rightarrow> 'h \<Rightarrow> 'h" where
  "ob_lock B = clear_bits B FMC_CTL FMC_CTL_OBWEN"

definition ob_spc_get :: "'h bus \<Rightarrow> 'h \<Rightarrow> bool \<times> 'h" where
  "ob_spc_get B = any_set B FMC_OBSTAT (BIT 1)"

text \<open>\<open>if (FMC_TOERR != fmc_state) FMC_CTL &= ~x\<close>, with which the option byte functions end.\<close>

definition unless_timeout :: "'h bus \<Rightarrow> reg \<Rightarrow> fmc_state \<Rightarrow> 'h \<Rightarrow> fmc_state \<times> 'h" where
  "unless_timeout B x fmc_state h = (fmc_state, if fmc_state \<noteq> FMC_TOERR then clear_bits B FMC_CTL x h else h)"

text \<open>After an erasure that failed, \<open>ob_erase\<close> clears \<open>OBPG\<close>, which it has not set, and leaves
  \<open>OBER\<close>.\<close>

definition ob_erase :: "'h bus \<Rightarrow> 'h \<Rightarrow> fmc_state \<times> 'h" where
  "ob_erase B h =
     (let (fmc_state, h) = ready B h;
          (spc, h) = ob_spc_get B h;
          temp_spc = (if spc then FMC_USPC else FMC_NSPC) in
      if fmc_state = FMC_READY
      then let h = set_bits B FMC_CTL FMC_CTL_OBER h;
               h = set_bits B FMC_CTL FMC_CTL_START h;
               (fmc_state, h) = ready B h in
           if fmc_state = FMC_READY
           then let h = clear_bits B FMC_CTL FMC_CTL_OBER h;
                    h = set_bits B FMC_CTL FMC_CTL_OBPG h;
                    h = wr16 B OB_SPC temp_spc h;
                    (fmc_state, h) = ready B h
                in unless_timeout B FMC_CTL_OBPG fmc_state h
           else unless_timeout B FMC_CTL_OBPG fmc_state h
      else (fmc_state, h))"

definition ob_security_protection_config :: "'h bus \<Rightarrow> 8 word \<Rightarrow> 'h \<Rightarrow> fmc_state \<times> 'h" where
  "ob_security_protection_config B ob_spc h =
     (let (fmc_state, h) = ready B h in
      if fmc_state = FMC_READY
      then let h = set_bits B FMC_CTL FMC_CTL_OBER h;
               h = set_bits B FMC_CTL FMC_CTL_START h;
               (fmc_state, h) = ready B h in
           if fmc_state = FMC_READY
           then let h = clear_bits B FMC_CTL FMC_CTL_OBER h;
                    h = set_bits B FMC_CTL FMC_CTL_OBPG h;
                    h = wr16 B OB_SPC (ucast ob_spc) h;
                    (fmc_state, h) = ready B h
                in unless_timeout B FMC_CTL_OBPG fmc_state h
           else unless_timeout B FMC_CTL_OBER fmc_state h
      else (fmc_state, h))"

text \<open>One of the four protection bytes, skipped when it protects nothing.\<close>

definition write_wp :: "'h bus \<Rightarrow> 32 word \<Rightarrow> 16 word \<Rightarrow> fmc_state \<times> 'h \<Rightarrow> fmc_state \<times> 'h" where
  "write_wp B a v = (\<lambda>(fmc_state, h).
     if fmc_state = FMC_READY \<and> v \<noteq> 0xFF then ready B (wr16 B a v h) else (fmc_state, h))"

definition ob_write_protection_enable :: "'h bus \<Rightarrow> reg \<Rightarrow> 'h \<Rightarrow> fmc_state \<times> 'h" where
  "ob_write_protection_enable B ob_wp h =
     (let (fmc_state, h) = ready B h;
          ob_wp = NOT ob_wp;
          temp_wp0 = ucast (ob_wp AND 0xFF);
          temp_wp1 = ucast (drop_bit 8 (ob_wp AND 0xFF00));
          temp_wp2 = ucast (drop_bit 16 (ob_wp AND 0xFF0000));
          temp_wp3 = ucast (drop_bit 24 (ob_wp AND 0xFF000000)) in
      if fmc_state = FMC_READY
      then let h = set_bits B FMC_CTL FMC_CTL_OBPG h;
               (fmc_state, h) = write_wp B OB_WP0 temp_wp0 (fmc_state, h);
               (fmc_state, h) = write_wp B OB_WP1 temp_wp1 (fmc_state, h);
               (fmc_state, h) = write_wp B OB_WP2 temp_wp2 (fmc_state, h);
               (fmc_state, h) = write_wp B OB_WP3 temp_wp3 (fmc_state, h)
           in unless_timeout B FMC_CTL_OBPG fmc_state h
      else (fmc_state, h))"

definition ob_user_write :: "'h bus \<Rightarrow> 8 word \<Rightarrow> 8 word \<Rightarrow> 8 word \<Rightarrow> 8 word \<Rightarrow> 'h \<Rightarrow> fmc_state \<times> 'h" where
  "ob_user_write B ob_fwdgt ob_deepsleep ob_stdby ob_boot h =
     (let (fmc_state, h) = ready B h in
      if fmc_state = FMC_READY
      then let h = set_bits B FMC_CTL FMC_CTL_OBPG h;
               temp = (((ob_boot OR ob_fwdgt) OR ob_deepsleep) OR ob_stdby) OR 0xF0;
               h = wr16 B OB_USER (ucast temp) h;
               (fmc_state, h) = ready B h
           in unless_timeout B FMC_CTL_OBPG fmc_state h
      else (fmc_state, h))"

definition ob_data_program :: "'h bus \<Rightarrow> 32 word \<Rightarrow> 8 word \<Rightarrow> 'h \<Rightarrow> fmc_state \<times> 'h" where
  "ob_data_program B address v h =
     (let (fmc_state, h) = ready B h in
      if fmc_state = FMC_READY
      then let h = set_bits B FMC_CTL FMC_CTL_OBPG h;
               h = wr16 B address (ucast v) h;
               (fmc_state, h) = ready B h
           in unless_timeout B FMC_CTL_OBPG fmc_state h
      else (fmc_state, h))"

definition ob_user_get :: "'h bus \<Rightarrow> 'h \<Rightarrow> 8 word \<times> 'h" where
  "ob_user_get B h = (let (v, h) = rd32 B FMC_OBSTAT h in (ucast (drop_bit 2 v), h))"

definition ob_data_get :: "'h bus \<Rightarrow> 'h \<Rightarrow> 16 word \<times> 'h" where
  "ob_data_get B h = (let (v, h) = rd32 B FMC_OBSTAT h in (ucast (drop_bit 10 v), h))"

definition ob_write_protection_get :: "'h bus \<Rightarrow> 'h \<Rightarrow> reg \<times> 'h" where
  "ob_write_protection_get B = rd32 B FMC_WP"

section \<open>Interrupts and flags\<close>

datatype fmc_int = FMC_INT_END | FMC_INT_ERR

fun fmc_int_value :: "fmc_int \<Rightarrow> reg" where
  "fmc_int_value FMC_INT_END = BIT 12"
| "fmc_int_value FMC_INT_ERR = BIT 10"

datatype fmc_flag = FMC_FLAG_BUSY | FMC_FLAG_PGERR | FMC_FLAG_WPERR | FMC_FLAG_END

fun fmc_flag_value :: "fmc_flag \<Rightarrow> reg" where
  "fmc_flag_value FMC_FLAG_BUSY = FMC_STAT_BUSY"
| "fmc_flag_value FMC_FLAG_PGERR = FMC_STAT_PGERR"
| "fmc_flag_value FMC_FLAG_WPERR = FMC_STAT_WPERR"
| "fmc_flag_value FMC_FLAG_END = BIT 5"

definition fmc_interrupt_enable :: "'h bus \<Rightarrow> fmc_int \<Rightarrow> 'h \<Rightarrow> 'h" where
  "fmc_interrupt_enable B i = set_bits B FMC_CTL (fmc_int_value i)"

definition fmc_interrupt_disable :: "'h bus \<Rightarrow> fmc_int \<Rightarrow> 'h \<Rightarrow> 'h" where
  "fmc_interrupt_disable B i = clear_bits B FMC_CTL (fmc_int_value i)"

definition fmc_flag_get :: "'h bus \<Rightarrow> fmc_flag \<Rightarrow> 'h \<Rightarrow> bool \<times> 'h" where
  "fmc_flag_get B f = any_set B FMC_STAT (fmc_flag_value f)"

definition fmc_flag_clear :: "'h bus \<Rightarrow> fmc_flag \<Rightarrow> 'h \<Rightarrow> 'h" where
  "fmc_flag_clear B f = wr32 B FMC_STAT (fmc_flag_value f)"

text \<open>The interrupt flags are the flags of the same names.\<close>

datatype fmc_interrupt_flag = FMC_INT_FLAG_PGERR | FMC_INT_FLAG_WPERR | FMC_INT_FLAG_END

fun fmc_interrupt_flag_value :: "fmc_interrupt_flag \<Rightarrow> reg" where
  "fmc_interrupt_flag_value FMC_INT_FLAG_PGERR = FMC_STAT_PGERR"
| "fmc_interrupt_flag_value FMC_INT_FLAG_WPERR = FMC_STAT_WPERR"
| "fmc_interrupt_flag_value FMC_INT_FLAG_END = BIT 5"

definition fmc_interrupt_flag_get :: "'h bus \<Rightarrow> fmc_interrupt_flag \<Rightarrow> 'h \<Rightarrow> bool \<times> 'h" where
  "fmc_interrupt_flag_get B f = any_set B FMC_STAT (fmc_interrupt_flag_value f)"

definition fmc_interrupt_flag_clear :: "'h bus \<Rightarrow> fmc_interrupt_flag \<Rightarrow> 'h \<Rightarrow> 'h" where
  "fmc_interrupt_flag_clear B f = wr32 B FMC_STAT (fmc_interrupt_flag_value f)"

end
