(* ===== verification/FmcSpec.thy ===== *)
theory FmcSpec
  imports Fmc
begin

text \<open>
  The waiting loop of the flash controller, and what its operations leave in the control register.
\<close>

section \<open>Waiting\<close>

text \<open>The state of the hardware after a number of polls, and what the next one says.\<close>

definition poll :: "'h bus \<Rightarrow> 'h \<Rightarrow> 'h" where
  "poll B h = snd (fmc_state_get B h)"

definition polled :: "'h bus \<Rightarrow> nat \<Rightarrow> 'h \<Rightarrow> 'h" where
  "polled B k = poll B ^^ k"

definition says :: "'h bus \<Rightarrow> 'h \<Rightarrow> fmc_state" where
  "says B h = fst (fmc_state_get B h)"

lemma fmc_state_get_says: "fmc_state_get B h = (says B h, poll B h)"
  by (simp add: says_def poll_def)

lemma ready_loop_polls:
  assumes "timeout \<noteq> 0"
  shows "\<exists>n < unat timeout. (\<forall>k < n. says B (polled B k h) = FMC_BUSY) \<and>
    ready_loop B timeout h = (says B (polled B n h), polled B (Suc n) h) \<and>
    (says B (polled B n h) = FMC_BUSY \<longrightarrow> Suc n = unat timeout)"
  using assms
proof (induction B timeout h rule: ready_loop.induct)
  case (1 B timeout h)
  have t: "unat timeout = Suc (unat (timeout - 1))"
    using 1(2) by (simp add: unat_minus_one unat_gt_0 Suc_diff_1)
  show ?case
  proof (cases "says B h = FMC_BUSY \<and> timeout - 1 \<noteq> 0")
    case False
    then have "ready_loop B timeout h = (says B h, poll B h)"
      by (subst ready_loop.simps) (auto simp: Let_def fmc_state_get_says)
    then show ?thesis using False t by (intro exI [of _ 0]) (auto simp: polled_def unat_eq_0)
  next
    case True
    then have run: "ready_loop B timeout h = ready_loop B (timeout - 1) (poll B h)"
      by (subst ready_loop.simps) (simp add: Let_def fmc_state_get_says)
    obtain n where n: "n < unat (timeout - 1)" "\<forall>k < n. says B (polled B k (poll B h)) = FMC_BUSY"
      "ready_loop B (timeout - 1) (poll B h) = (says B (polled B n (poll B h)), polled B (Suc n) (poll B h))"
      "says B (polled B n (poll B h)) = FMC_BUSY \<longrightarrow> Suc n = unat (timeout - 1)"
      using 1(1) [OF refl fmc_state_get_says [symmetric] refl] True by blast
    have sh: "polled B k (poll B h) = polled B (Suc k) h" for k
      by (simp add: polled_def funpow_Suc_right del: funpow.simps)
    have "says B (polled B k h) = FMC_BUSY" if "k < Suc n" for k
      using that n(2) True by (cases k) (auto simp: sh polled_def [of B 0])
    then show ?thesis using n t unfolding run sh by (intro exI [of _ "Suc n"]) auto
  qed
qed

lemma ready_wait_polls:
  assumes "timeout \<noteq> 0"
  shows "\<exists>n < unat timeout. (\<forall>k < n. says B (polled B k h) = FMC_BUSY) \<and>
    fmc_ready_wait B timeout h =
      (if says B (polled B n h) = FMC_BUSY then FMC_TOERR else says B (polled B n h), polled B (Suc n) h) \<and>
    (says B (polled B n h) = FMC_BUSY \<longrightarrow> Suc n = unat timeout)"
  using ready_loop_polls [OF assms, of B h] by (auto simp: fmc_ready_wait_def)

lemma ready_polls: "\<exists>n < 0xF0000. snd (ready B h) = polled B (Suc n) h"
  using ready_wait_polls [of FMC_TIMEOUT_COUNT B h] by (auto simp: ready_def FMC_TIMEOUT_COUNT_def)

lemma ready_not_busy: "fst (ready B h) \<noteq> FMC_BUSY"
  by (simp add: ready_def fmc_ready_wait_def Let_def split: prod.splits)

section \<open>The control register\<close>

text \<open>
  What the manual documents of the controller once it is unlocked: the control register holds what
  was written to it, except that the hardware takes back \<open>START\<close> by itself; the other registers and
  the memory do not change it.
\<close>

locale flash =
  fixes B :: "'h bus" and ctl :: "'h \<Rightarrow> reg"
  assumes rd_ctl: "rd32 B FMC_CTL h = (ctl h, h)"
    and wr_ctl: "ctl (wr32 B FMC_CTL v h) = v"
    and rd_other: "a \<noteq> FMC_CTL \<Longrightarrow> ctl (snd (rd32 B a h)) AND NOT FMC_CTL_START = ctl h AND NOT FMC_CTL_START"
    and wr_other: "a \<noteq> FMC_CTL \<Longrightarrow> ctl (wr32 B a v h) = ctl h"
    and wr_half: "a AND NOT 3 \<noteq> FMC_CTL \<Longrightarrow> ctl (wr16 B a w h) = ctl h"
begin

text \<open>The bits the software owns.\<close>

definition own :: "'h \<Rightarrow> reg" where
  "own h = ctl h AND NOT FMC_CTL_START"

lemma own_set: "own (set_bits B FMC_CTL x h) = (own h OR x) AND NOT FMC_CTL_START"
  by (simp add: own_def set_bits_def modify_def rd_ctl wr_ctl) (rule bit_word_eqI, auto simp: bit_simps)

lemma own_clear: "own (clear_bits B FMC_CTL x h) = own h AND NOT x"
  by (simp add: own_def clear_bits_def modify_def rd_ctl wr_ctl) (rule bit_word_eqI, auto simp: bit_simps)

lemma own_any_set: "a \<noteq> FMC_CTL \<Longrightarrow> own (snd (any_set B a x h)) = own h"
  using rd_other [of a h] by (simp add: own_def any_set_def split_beta)

lemma own_wr: "a \<noteq> FMC_CTL \<Longrightarrow> own (wr32 B a v h) = own h" "a AND NOT 3 \<noteq> FMC_CTL \<Longrightarrow> own (wr16 B a w h) = own h"
  by (simp_all add: own_def wr_other wr_half)

lemma own_poll: "own (poll B h) = own h"
  using own_any_set [of FMC_STAT] by (simp add: poll_def fmc_state_get_def Let_def split_beta)

lemma own_polled: "own (polled B k h) = own h"
  by (induction k) (simp_all add: polled_def own_poll)

lemma own_ready: "own (snd (ready B h)) = own h"
  using ready_polls [of B h] own_polled by auto

lemmas own_simps = own_set own_clear own_any_set own_wr own_ready

lemma own_START: "own h AND NOT FMC_CTL_START = own h"
  by (simp add: own_def)

text \<open>A command bit that was clear, set and cleared again, with or without \<open>START\<close>.\<close>

lemma set_then_clear:
  assumes "own h AND x = 0"
  shows "((own h OR x) AND NOT FMC_CTL_START) AND NOT x = own h"
    and "((((own h OR x) AND NOT FMC_CTL_START) OR FMC_CTL_START) AND NOT FMC_CTL_START) AND NOT x = own h"
proof -
  have x: "bit (own h) n \<Longrightarrow> \<not> bit x n" for n
    using assms by (metis bit_and_iff bit_0_eq bot_apply bot_bool_def)
  have s: "bit (own h) n \<Longrightarrow> \<not> bit FMC_CTL_START n" for n
    using own_START [of h] by (metis bit_and_iff bit_not_iff)
  show "((own h OR x) AND NOT FMC_CTL_START) AND NOT x = own h"
    by (rule bit_word_eqI) (auto simp: bit_and_iff bit_or_iff bit_not_iff dest: x s)
  show "((((own h OR x) AND NOT FMC_CTL_START) OR FMC_CTL_START) AND NOT FMC_CTL_START) AND NOT x = own h"
    by (rule bit_word_eqI) (auto simp: bit_and_iff bit_or_iff bit_not_iff dest: x s)
qed

lemma page_erase_restores: "own h AND FMC_CTL_PER = 0 \<Longrightarrow> own (snd (fmc_page_erase B a h)) = own h"
  by (simp add: fmc_page_erase_def Let_def split_beta own_simps set_then_clear)

lemma mass_erase_restores: "own h AND FMC_CTL_MER = 0 \<Longrightarrow> own (snd (fmc_mass_erase B h)) = own h"
  by (simp add: fmc_mass_erase_def Let_def split_beta own_simps set_then_clear)

lemma word_program_restores:
  "own h AND FMC_CTL_PG = 0 \<Longrightarrow> a \<noteq> FMC_CTL \<Longrightarrow> own (snd (fmc_word_program B a v h)) = own h"
  by (simp add: fmc_word_program_def Let_def split_beta own_simps set_then_clear)

lemma halfword_program_restores:
  "own h AND FMC_CTL_PG = 0 \<Longrightarrow> a AND NOT 3 \<noteq> FMC_CTL \<Longrightarrow> own (snd (fmc_halfword_program B a w h)) = own h"
  by (simp add: fmc_halfword_program_def Let_def split_beta own_simps set_then_clear)

text \<open>The option bytes: the same, unless the controller timed out, which leaves the command that was given.\<close>

lemma unless_timeout_own: "own (snd (unless_timeout B x st h)) = (if st \<noteq> FMC_TOERR then own h AND NOT x else own h)"
  by (simp add: unless_timeout_def own_simps)

lemma fst_unless_timeout [simp]: "fst (unless_timeout B x st h) = st"
  by (simp add: unless_timeout_def)

lemma disjoint_bits: "x AND y = 0 \<Longrightarrow> bit x n \<Longrightarrow> \<not> bit y n" for x y :: reg
  by (metis bit_and_iff bit_0_eq bot_apply bot_bool_def)

lemma own_with:
  assumes "x \<in> {FMC_CTL_OBER, FMC_CTL_OBPG}"
  shows "(own h OR x) AND NOT FMC_CTL_START = own h OR x" "((own h OR x) OR FMC_CTL_START) AND NOT FMC_CTL_START = own h OR x"
proof -
  have s: "bit (own h) n \<Longrightarrow> \<not> bit FMC_CTL_START n" for n
    using own_START [of h] by (metis bit_and_iff bit_not_iff)
  have "x AND FMC_CTL_START = 0"
    using assms by (auto simp: FMC_CTL_OBER_def FMC_CTL_OBPG_def FMC_CTL_START_def BIT_def)
  note x = disjoint_bits [OF this]
  show "(own h OR x) AND NOT FMC_CTL_START = own h OR x"
    by (rule bit_word_eqI) (auto simp: bit_and_iff bit_or_iff bit_not_iff dest: s x)
  show "((own h OR x) OR FMC_CTL_START) AND NOT FMC_CTL_START = own h OR x"
    by (rule bit_word_eqI) (auto simp: bit_and_iff bit_or_iff bit_not_iff dest: s x)
qed

lemma own_without: "own h AND x = 0 \<Longrightarrow> (own h OR x) AND NOT x = own h"
  by (rule bit_word_eqI) (auto simp: bit_and_iff bit_or_iff bit_not_iff dest: disjoint_bits)

lemma own_apart: "own h AND FMC_CTL_OBPG = 0 \<Longrightarrow> (own h OR FMC_CTL_OBER) AND NOT FMC_CTL_OBPG = own h OR FMC_CTL_OBER"
proof -
  assume h: "own h AND FMC_CTL_OBPG = 0"
  have "FMC_CTL_OBER AND FMC_CTL_OBPG = 0" by (simp add: FMC_CTL_OBER_def FMC_CTL_OBPG_def BIT_def)
  note bits = disjoint_bits [OF h] disjoint_bits [OF this]
  show ?thesis by (rule bit_word_eqI) (auto simp: bit_and_iff bit_or_iff bit_not_iff dest: bits)
qed

lemmas own_option = own_simps own_with own_without own_apart unless_timeout_own

lemma security_config_leaves:
  "own h AND FMC_CTL_OBER = 0 \<Longrightarrow> own h AND FMC_CTL_OBPG = 0 \<Longrightarrow> r = ob_security_protection_config B v h \<Longrightarrow>
    own (snd r) = own h \<or> fst r = FMC_TOERR \<and> own (snd r) \<in> {own h OR FMC_CTL_OBER, own h OR FMC_CTL_OBPG}"
  by (auto simp: ob_security_protection_config_def Let_def split_beta own_option)

lemma user_write_leaves:
  "own h AND FMC_CTL_OBPG = 0 \<Longrightarrow> r = ob_user_write B a b c d h \<Longrightarrow>
    own (snd r) = own h \<or> fst r = FMC_TOERR \<and> own (snd r) = own h OR FMC_CTL_OBPG"
  by (auto simp: ob_user_write_def Let_def split_beta own_option)

lemma data_program_leaves:
  "own h AND FMC_CTL_OBPG = 0 \<Longrightarrow> a AND NOT 3 \<noteq> FMC_CTL \<Longrightarrow> r = ob_data_program B a v h \<Longrightarrow>
    own (snd r) = own h \<or> fst r = FMC_TOERR \<and> own (snd r) = own h OR FMC_CTL_OBPG"
  by (auto simp: ob_data_program_def Let_def split_beta own_option)

lemma write_wp_own: "a AND NOT 3 \<noteq> FMC_CTL \<Longrightarrow> own (snd (write_wp B a v r)) = own (snd r)"
  by (simp add: write_wp_def split_beta own_simps)

lemma write_protection_leaves:
  "own h AND FMC_CTL_OBPG = 0 \<Longrightarrow> r = ob_write_protection_enable B v h \<Longrightarrow>
    own (snd r) = own h \<or> fst r = FMC_TOERR \<and> own (snd r) = own h OR FMC_CTL_OBPG"
  by (auto simp: ob_write_protection_enable_def Let_def split_beta own_option write_wp_own)

text \<open>\<open>ob_erase\<close> also leaves the erasure behind when it failed.\<close>

lemma ob_erase_leaves:
  assumes "own h AND FMC_CTL_OBER = 0" and "own h AND FMC_CTL_OBPG = 0" and "r = ob_erase B h"
  shows "own (snd r) = own h \<or> fst r = FMC_TOERR \<and> own (snd r) \<in> {own h OR FMC_CTL_OBER, own h OR FMC_CTL_OBPG} \<or>
    fst r \<notin> {FMC_READY, FMC_TOERR} \<and> own (snd r) = own h OR FMC_CTL_OBER"
proof -
  have "own (snd (ob_spc_get B h)) = own h" for h by (simp add: ob_spc_get_def own_any_set)
  then show ?thesis using assms by (auto simp: ob_erase_def Let_def split_beta own_option)
qed

text \<open>What \<open>ob_erase\<close> does after an erasure that failed.\<close>

lemma ob_erase_failed:
  assumes "fst (ready B h) = FMC_READY"
    and "fst (ready B (set_bits B FMC_CTL FMC_CTL_START (set_bits B FMC_CTL FMC_CTL_OBER (snd (ob_spc_get B (snd (ready B h)))))))
      = st" and "st \<in> {FMC_PGERR, FMC_WPERR}"
  shows "fst (ob_erase B h) = st" "own (snd (ob_erase B h)) = (own h OR FMC_CTL_OBER) AND NOT FMC_CTL_OBPG AND NOT FMC_CTL_START"
proof -
  show "fst (ob_erase B h) = st"
    using assms by (auto simp: ob_erase_def Let_def split_beta)
  have spc: "own (snd (ob_spc_get B h)) = own h" for h by (simp add: ob_spc_get_def own_any_set)
  have "own (snd (ob_erase B h)) = ((((own h OR FMC_CTL_OBER) AND NOT FMC_CTL_START) OR FMC_CTL_START) AND NOT FMC_CTL_START)
      AND NOT FMC_CTL_OBPG"
    using assms by (auto simp: ob_erase_def Let_def split_beta own_simps unless_timeout_own spc)
  also have "\<dots> = (own h OR FMC_CTL_OBER) AND NOT FMC_CTL_OBPG AND NOT FMC_CTL_START"
    by (rule bit_word_eqI) (auto simp: bit_and_iff bit_or_iff bit_not_iff)
  finally show "own (snd (ob_erase B h)) = (own h OR FMC_CTL_OBER) AND NOT FMC_CTL_OBPG AND NOT FMC_CTL_START" .
qed

end

section \<open>A flash controller\<close>

text \<open>
  A controller for the examples, after the manual: starting an erasure makes it busy for three
  polls, programming for two; when it is ready it takes back \<open>START\<close>. One that \<open>fails\<close> reports a
  programming error after each command.
\<close>

record flash_hw =
  busy :: nat
  fails :: bool
  freg :: "32 word \<Rightarrow> reg"

definition flash_read :: "32 word \<Rightarrow> flash_hw \<Rightarrow> reg \<times> flash_hw" where
  "flash_read a h =
     (if a = FMC_STAT
      then (if 0 < busy h then (freg h a OR BIT 0, h\<lparr>busy := busy h - 1\<rparr>)
            else (freg h a, h\<lparr>freg := (freg h)(FMC_CTL := freg h FMC_CTL AND NOT FMC_CTL_START)\<rparr>))
      else (freg h a, h))"

definition flash_write :: "32 word \<Rightarrow> reg \<Rightarrow> flash_hw \<Rightarrow> flash_hw" where
  "flash_write a v h =
     (if a = FMC_CTL
      then (if v AND FMC_CTL_START \<noteq> 0
            then h\<lparr>busy := 3, freg := (freg h)(FMC_CTL := v, FMC_STAT := (if fails h then BIT 2 else 0))\<rparr>
            else h\<lparr>freg := (freg h)(FMC_CTL := v)\<rparr>)
      else if a = FMC_STAT then h\<lparr>freg := (freg h)(a := freg h a AND NOT v)\<rparr>
      else h\<lparr>busy := 2, freg := (freg h)(a := v)\<rparr>)"

definition flash_write16 :: "32 word \<Rightarrow> 16 word \<Rightarrow> flash_hw \<Rightarrow> flash_hw" where
  "flash_write16 a v h =
     (let w = a AND NOT 3; k = (if bit a 1 then 16 else 0)
      in h\<lparr>busy := 2, freg := (freg h)(w := (freg h w AND NOT (push_bit k 0xFFFF)) OR push_bit k (ucast v))\<rparr>)"

definition flash_write8 :: "32 word \<Rightarrow> 8 word \<Rightarrow> flash_hw \<Rightarrow> flash_hw" where
  "flash_write8 a v h =
     (let w = a AND NOT 3; k = 8 * unat (a AND 3)
      in h\<lparr>busy := 2, freg := (freg h)(w := (freg h w AND NOT (push_bit k 0xFF)) OR push_bit k (ucast v))\<rparr>)"

definition flash_dev :: "flash_hw bus" where
  "flash_dev = \<lparr>rd32 = flash_read, wr32 = flash_write,
     rd16 = (\<lambda>a h. (ucast (drop_bit (if bit a 1 then 16 else 0) (freg h (a AND NOT 3))), h)),
     wr16 = flash_write16,
     rd8 = (\<lambda>a h. (ucast (drop_bit (8 * unat (a AND 3)) (freg h (a AND NOT 3))), h)),
     wr8 = flash_write8\<rparr>"

interpretation flash_dev: flash flash_dev "\<lambda>h. freg h FMC_CTL"
  by unfold_locales
    (auto simp: flash_dev_def flash_read_def flash_write_def flash_write16_def Let_def and.assoc)

definition idle_flash :: "bool \<Rightarrow> flash_hw" where
  "idle_flash f = \<lparr>busy = 0, fails = f, freg = (\<lambda>_. 0)\<rparr>"

end
