(* ===== verification/Exti.thy ===== *)
theory Exti
  imports Bus
begin

text \<open>
  \<open>gd32vf103_exti.c\<close>: the nineteen interrupt and event lines. A line is the number with its bit set.
\<close>

abbreviation (input) EXTI :: "32 word" where "EXTI \<equiv> EXTI_BASE"
abbreviation (input) EXTI_INTEN :: "32 word" where "EXTI_INTEN \<equiv> EXTI + 0x00"
abbreviation (input) EXTI_EVEN :: "32 word" where "EXTI_EVEN \<equiv> EXTI + 0x04"
abbreviation (input) EXTI_RTEN :: "32 word" where "EXTI_RTEN \<equiv> EXTI + 0x08"
abbreviation (input) EXTI_FTEN :: "32 word" where "EXTI_FTEN \<equiv> EXTI + 0x0C"
abbreviation (input) EXTI_SWIEV :: "32 word" where "EXTI_SWIEV \<equiv> EXTI + 0x10"
abbreviation (input) EXTI_PD :: "32 word" where "EXTI_PD \<equiv> EXTI + 0x14"

datatype exti_mode = EXTI_INTERRUPT | EXTI_EVENT
datatype exti_trig_type = EXTI_TRIG_RISING | EXTI_TRIG_FALLING | EXTI_TRIG_BOTH | EXTI_TRIG_NONE

definition exti_deinit :: "'h bus \<Rightarrow> 'h \<Rightarrow> 'h" where
  "exti_deinit B h =
     (let h = wr32 B EXTI_INTEN 0 h;
          h = wr32 B EXTI_EVEN 0 h;
          h = wr32 B EXTI_RTEN 0 h;
          h = wr32 B EXTI_FTEN 0 h
      in wr32 B EXTI_SWIEV 0 h)"

definition exti_init :: "'h bus \<Rightarrow> reg \<Rightarrow> exti_mode \<Rightarrow> exti_trig_type \<Rightarrow> 'h \<Rightarrow> 'h" where
  "exti_init B linex mode trig_type h =
     (let h = clear_bits B EXTI_INTEN linex h;
          h = clear_bits B EXTI_EVEN linex h;
          h = clear_bits B EXTI_RTEN linex h;
          h = clear_bits B EXTI_FTEN linex h;
          h = (case mode of EXTI_INTERRUPT \<Rightarrow> set_bits B EXTI_INTEN linex h | EXTI_EVENT \<Rightarrow> set_bits B EXTI_EVEN linex h)
      in (case trig_type of
            EXTI_TRIG_RISING \<Rightarrow> clear_bits B EXTI_FTEN linex (set_bits B EXTI_RTEN linex h)
          | EXTI_TRIG_FALLING \<Rightarrow> set_bits B EXTI_FTEN linex (clear_bits B EXTI_RTEN linex h)
          | EXTI_TRIG_BOTH \<Rightarrow> set_bits B EXTI_FTEN linex (set_bits B EXTI_RTEN linex h)
          | EXTI_TRIG_NONE \<Rightarrow> h))"

definition exti_interrupt_enable :: "'h bus \<Rightarrow> reg \<Rightarrow> 'h \<Rightarrow> 'h" where
  "exti_interrupt_enable B linex = set_bits B EXTI_INTEN linex"

definition exti_event_enable :: "'h bus \<Rightarrow> reg \<Rightarrow> 'h \<Rightarrow> 'h" where
  "exti_event_enable B linex = set_bits B EXTI_EVEN linex"

definition exti_interrupt_disable :: "'h bus \<Rightarrow> reg \<Rightarrow> 'h \<Rightarrow> 'h" where
  "exti_interrupt_disable B linex = clear_bits B EXTI_INTEN linex"

definition exti_event_disable :: "'h bus \<Rightarrow> reg \<Rightarrow> 'h \<Rightarrow> 'h" where
  "exti_event_disable B linex = clear_bits B EXTI_EVEN linex"

definition exti_flag_get :: "'h bus \<Rightarrow> reg \<Rightarrow> 'h \<Rightarrow> bool \<times> 'h" where
  "exti_flag_get B linex = any_set B EXTI_PD linex"

definition exti_flag_clear :: "'h bus \<Rightarrow> reg \<Rightarrow> 'h \<Rightarrow> 'h" where
  "exti_flag_clear B linex = wr32 B EXTI_PD linex"

definition exti_interrupt_flag_get :: "'h bus \<Rightarrow> reg \<Rightarrow> 'h \<Rightarrow> bool \<times> 'h" where
  "exti_interrupt_flag_get B linex h =
     (let (l, h) = any_set B EXTI_PD linex h; (r, h) = any_set B EXTI_INTEN linex h in (l \<and> r, h))"

definition exti_interrupt_flag_clear :: "'h bus \<Rightarrow> reg \<Rightarrow> 'h \<Rightarrow> 'h" where
  "exti_interrupt_flag_clear B linex = wr32 B EXTI_PD linex"

definition exti_software_interrupt_enable :: "'h bus \<Rightarrow> reg \<Rightarrow> 'h \<Rightarrow> 'h" where
  "exti_software_interrupt_enable B linex = set_bits B EXTI_SWIEV linex"

definition exti_software_interrupt_disable :: "'h bus \<Rightarrow> reg \<Rightarrow> 'h \<Rightarrow> 'h" where
  "exti_software_interrupt_disable B linex = clear_bits B EXTI_SWIEV linex"

text \<open>The initialisation on registers that are storage: the line is enabled in one mode only, and
  triggers on the edges asked for; other lines keep their settings.\<close>

context registers
begin

lemma exti_init_val:
  assumes "{EXTI_INTEN, EXTI_EVEN, EXTI_RTEN, EXTI_FTEN} \<subseteq> A"
  shows "val (exti_init B linex mode trig h) EXTI_INTEN =
      (if mode = EXTI_INTERRUPT then val h EXTI_INTEN OR linex else val h EXTI_INTEN AND NOT linex)"
    and "val (exti_init B linex mode trig h) EXTI_EVEN =
      (if mode = EXTI_EVENT then val h EXTI_EVEN OR linex else val h EXTI_EVEN AND NOT linex)"
    and "val (exti_init B linex mode trig h) EXTI_RTEN =
      (if trig \<in> {EXTI_TRIG_RISING, EXTI_TRIG_BOTH} then val h EXTI_RTEN OR linex else val h EXTI_RTEN AND NOT linex)"
    and "val (exti_init B linex mode trig h) EXTI_FTEN =
      (if trig \<in> {EXTI_TRIG_FALLING, EXTI_TRIG_BOTH} then val h EXTI_FTEN OR linex else val h EXTI_FTEN AND NOT linex)"
proof -
  have absorb: "(v AND NOT linex) OR linex = v OR linex" "((v AND NOT linex) AND NOT linex) = v AND NOT linex"
    "((v AND NOT linex) OR linex) AND NOT linex = v AND NOT linex" for v :: reg
    by (rule bit_word_eqI; auto simp: bit_simps)+
  note acc = access_val EXTI_BASE_def exti_init_def Let_def absorb
  show "val (exti_init B linex mode trig h) EXTI_INTEN =
      (if mode = EXTI_INTERRUPT then val h EXTI_INTEN OR linex else val h EXTI_INTEN AND NOT linex)"
    using assms by (cases mode; cases trig) (simp_all add: acc)
  show "val (exti_init B linex mode trig h) EXTI_EVEN =
      (if mode = EXTI_EVENT then val h EXTI_EVEN OR linex else val h EXTI_EVEN AND NOT linex)"
    using assms by (cases mode; cases trig) (simp_all add: acc)
  show "val (exti_init B linex mode trig h) EXTI_RTEN =
      (if trig \<in> {EXTI_TRIG_RISING, EXTI_TRIG_BOTH} then val h EXTI_RTEN OR linex else val h EXTI_RTEN AND NOT linex)"
    using assms by (cases mode; cases trig) (simp_all add: acc)
  show "val (exti_init B linex mode trig h) EXTI_FTEN =
      (if trig \<in> {EXTI_TRIG_FALLING, EXTI_TRIG_BOTH} then val h EXTI_FTEN OR linex else val h EXTI_FTEN AND NOT linex)"
    using assms by (cases mode; cases trig) (simp_all add: acc)
qed

end

end
