(* ===== verification/CrcUnit.thy ===== *)
theory CrcUnit
  imports Bus
begin

text \<open>
  \<open>gd32vf103_crc.c\<close>: the checksum unit. What a word written to the data register does to it is the
  hardware's.
\<close>

abbreviation (input) CRC_DATA :: "32 word" where "CRC_DATA \<equiv> 0x40023000"
abbreviation (input) CRC_FDATA :: "32 word" where "CRC_FDATA \<equiv> 0x40023004"
abbreviation (input) CRC_CTL :: "32 word" where "CRC_CTL \<equiv> 0x40023008"

definition CRC_CTL_RST :: reg where "CRC_CTL_RST = BIT 0"

definition crc_deinit :: "'h bus \<Rightarrow> 'h \<Rightarrow> 'h" where
  "crc_deinit B h =
     (let h = wr32 B CRC_DATA 0xFFFFFFFF h; h = wr32 B CRC_FDATA 0 h in wr32 B CRC_CTL CRC_CTL_RST h)"

definition crc_data_register_reset :: "'h bus \<Rightarrow> 'h \<Rightarrow> 'h" where
  "crc_data_register_reset B = set_bits B CRC_CTL CRC_CTL_RST"

definition crc_data_register_read :: "'h bus \<Rightarrow> 'h \<Rightarrow> reg \<times> 'h" where
  "crc_data_register_read B = rd32 B CRC_DATA"

definition crc_free_data_register_read :: "'h bus \<Rightarrow> 'h \<Rightarrow> 8 word \<times> 'h" where
  "crc_free_data_register_read B h = (let (v, h) = rd32 B CRC_FDATA h in (ucast v, h))"

definition crc_free_data_register_write :: "'h bus \<Rightarrow> 8 word \<Rightarrow> 'h \<Rightarrow> 'h" where
  "crc_free_data_register_write B free_data = wr32 B CRC_FDATA (ucast free_data)"

definition crc_single_data_calculate :: "'h bus \<Rightarrow> reg \<Rightarrow> 'h \<Rightarrow> reg \<times> 'h" where
  "crc_single_data_calculate B sdata h = rd32 B CRC_DATA (wr32 B CRC_DATA sdata h)"

text \<open>Reading beyond the end of the array is undefined.\<close>

definition crc_block_data_calculate :: "'h bus \<Rightarrow> reg list \<Rightarrow> reg \<Rightarrow> 'h \<Rightarrow> (reg \<times> 'h) outcome" where
  "crc_block_data_calculate B array n h =
     (if length array < unat n then Undef
      else Ret (rd32 B CRC_DATA (fold (\<lambda>index. wr32 B CRC_DATA (array ! index)) [0..<unat n] h)))"

end
