(* ===== verification/FirmwareClaims.thy ===== *)
theory FirmwareClaims
  imports GpioSpec RcuSpec FmcSpec Exti CrcUnit
begin

text \<open>
  The properties of the microcontroller library. The hardware is a parameter; each property names
  what it needs of it (\<open>registers\<close>, \<open>gpio_port\<close>, \<open>flash\<close>), and is applied to the documented hardware.
\<close>

section \<open>Ports\<close>

text \<open>C31: \<open>gpio_init\<close> configures exactly the pins it is given: the four bits of such a pin become the
  mode and speed asked for, whichever of the two registers they are in; its output bit is set for a
  pull-up and cleared for a pull-down; and the configuration and output of every other pin stay as
  they were.\<close>

theorem gpio_init_configures:
  assumes "gpio_port B val p" and "speed < 16" and "i < 16" and "h' = gpio_init B p mode speed pin h"
  shows "(\<forall>k < 4. bit (val h' (if i < 8 then GPIO_CTL0 p else GPIO_CTL1 p)) (4 * (i mod 8) + k) \<longleftrightarrow>
      (if bit pin i then bit (temp_mode mode speed) k
       else bit (val h (if i < 8 then GPIO_CTL0 p else GPIO_CTL1 p)) (4 * (i mod 8) + k))) \<and>
    (bit (val h' (GPIO_OCTL p)) i \<longleftrightarrow>
      (if bit pin i then level mode (bit (val h (GPIO_OCTL p)) i) else bit (val h (GPIO_OCTL p)) i))"
proof -
  note cfg = gpio_port.gpio_init_val [OF assms(1,2), where mode = mode and pin = pin and h = h, folded assms(4)]
  have "(4 * (i mod 8) + k) div 4 = i mod 8 \<and> (4 * (i mod 8) + k) mod 4 = k \<and> 4 * (i mod 8) + k < 32" if "k < 4" for k
    using that by auto
  moreover have "(if i < 8 then i mod 8 else 8 + i mod 8) = i" using assms(3) by (auto simp: mod_if)
  ultimately show ?thesis using cfg assms(3) by (auto split: if_splits)
qed

theorem gpio_init_configures_witness:
  "bit (gpio_init gd32 GPIOB 0x48 0 0x200 (\<lambda>_. 0) (GPIO_CTL1 GPIOB)) 7 \<and>
    bit (gpio_init gd32 GPIOB 0x48 0 0x200 (\<lambda>_. 0) (GPIO_OCTL GPIOB)) 9"
proof -
  have b: "bit (0x200 :: reg) 9" by simp
  have t: "bit (temp_mode 0x48 0) 3" by (simp add: temp_mode_def)
  have "\<forall>k < 4. bit (gpio_init gd32 GPIOB 0x48 0 0x200 (\<lambda>_. 0) (GPIO_CTL1 GPIOB)) (4 + k) \<longleftrightarrow> bit (temp_mode 0x48 0) k"
    "bit (gpio_init gd32 GPIOB 0x48 0 0x200 (\<lambda>_. 0) (GPIO_OCTL GPIOB)) 9 \<longleftrightarrow> level 0x48 (bit (0 :: reg) 9)"
    using gpio_init_configures [OF portb.gpio_port_axioms, of 0 9 _ "0x48" "0x200" "\<lambda>_. 0", OF _ _ refl] b by simp_all
  from this(1) [rule_format, of 3] this(2) t show ?thesis by (simp add: level_def GPIO_MODE_IPU_def)
qed

text \<open>What \<open>gpio_bit_write\<close> writes to some of the sixteen pins of a port is what
  \<open>gpio_output_bit_get\<close> reads from them, and the output of the others does not change.\<close>

theorem gpio_write_read:
  assumes "gpio_port B val p" and "i < 16" and "j < 16"
  shows "fst (gpio_output_bit_get B p (BIT j) (gpio_bit_write B p (BIT i) v h)) =
    (if j = i then v else fst (gpio_output_bit_get B p (BIT j) h))"
proof -
  have parts: "drop_bit 16 (BIT i) = 0" "take_bit 16 (BIT i) = BIT i"
    using assms(2) by (auto intro!: bit_word_eqI simp: bit_simps)
  have reg: "registers B val {GPIO_CTL0 p, GPIO_CTL1 p, GPIO_OCTL p}"
    using assms(1) by (simp add: gpio_port_def)
  have rd: "fst (gpio_output_bit_get B p (BIT j) h) \<longleftrightarrow> bit (val h (GPIO_OCTL p)) j" for h
    using registers.any_set_val [OF reg, of "GPIO_OCTL p" "BIT j" h] and_BIT [of _ j] assms(3)
    by (simp add: gpio_output_bit_get_def)
  have "val (gpio_bit_write B p (BIT i) v h) (GPIO_OCTL p) =
      (if v then val h (GPIO_OCTL p) OR BIT i else val h (GPIO_OCTL p) AND NOT (BIT i))"
    using gpio_port.bop [OF assms(1), of "GPIO_OCTL p"] gpio_port.bc [OF assms(1), of "GPIO_OCTL p"] parts
    by (simp add: gpio_bit_write_def)
  then show ?thesis
    unfolding rd using assms(2,3) by (auto simp: bit_or_iff bit_and_iff bit_not_iff)
qed

theorem gpio_write_read_witness:
  "fst (gpio_output_bit_get gd32 GPIOA (BIT 5) (gpio_bit_write gd32 GPIOA (BIT 5) True (\<lambda>_. 0)))"
  using gpio_write_read [OF porta.gpio_port_axioms, of 5 5 True "\<lambda>_. 0"] by simp

text \<open>Enabling a remapping in the second configuration register, as the library's own constant
  \<open>GPIO_EXMC_NADV_REMAP\<close> asks for, always shifts a 32-bit word by its width or more, which C leaves
  undefined: the bit that selects the register takes part in the count.\<close>

theorem remap_pcf1_undefined:
  assumes "bit remap 31"
  shows "gpio_pin_remap_config B remap True h = Undef"
proof -
  have f: "unat (drop_bit 21 remap) = drop_bit 21 (unat remap)" for remap :: reg
    using take_bit_nat_eq_self [OF unsigned_less [of remap]] by (simp add: unsigned_drop_bit_eq)
  have "bit (unat remap) 31" using assms by (simp add: bit_unsigned_iff)
  then have "odd (unat remap div 2 ^ 31)" unfolding bit_iff_odd .
  then have "\<not> unat remap < 2 ^ 31" by (metis div_less even_zero)
  then have big: "2 ^ 31 \<le> unat remap" by simp
  have "2 ^ 10 \<le> unat (drop_bit 21 remap)"
    unfolding f unfolding drop_bit_eq_div using div_le_mono [OF big, of "2 ^ 21"] by simp
  moreover have "unat (drop_bit 21 remap) < 2 ^ 11"
    unfolding f unfolding drop_bit_eq_div using unsigned_less [of remap] by (intro less_mult_imp_div_less) simp
  ultimately have "\<not> drop_bit 21 remap * 0x10 < (32 :: reg)"
    by (simp add: word_less_nat_alt unat_word_ariths)
  then have "remap_bits remap = Undef" by (simp add: remap_bits_def shl_def)
  then show ?thesis by (simp add: gpio_pin_remap_config_def Let_def split_beta)
qed

theorem remap_pcf1_undefined_witness: "gpio_pin_remap_config gd32 0x80000400 True (\<lambda>_. 0) = Undef"
  by (rule remap_pcf1_undefined) simp

section \<open>Clocks\<close>

text \<open>Switching the clock of one peripheral on or off switches no other: each of the 37 has a
  register and a bit of its own, and the functions change that bit only.\<close>

theorem clock_enable_only:
  assumes "registers B val {RCU_AHBEN, RCU_APB1EN, RCU_APB2EN, RCU_BDCTL}"
  shows "(clocked val q (rcu_periph_clock_enable B p h) \<longleftrightarrow> q = p \<or> clocked val q h) \<and>
    (clocked val q (rcu_periph_clock_disable B p h) \<longleftrightarrow> q \<noteq> p \<and> clocked val q h)"
  using registers.clock_enable_clocked [OF assms order.refl] by blast

lemma gd32_registers: "\<forall>a \<in> A. \<not> special a \<Longrightarrow> registers gd32 (\<lambda>h. h) A"
  by (rule registers_mono [OF gd32.registers_axioms]) auto

lemma not_special: "a < 0x40010400 \<Longrightarrow> \<not> special a" "0x40020000 \<le> a \<Longrightarrow> \<not> special a"
  by (auto simp: special_def is_port_def GPIO_BASE_def EXTI_BASE_def eq_diff_eq diff_eq_eq)

theorem clock_enable_only_witness:
  "clocked (\<lambda>h. h) RCU_GPIOA (rcu_periph_clock_enable gd32 RCU_GPIOA (\<lambda>_. 0)) \<and>
    \<not> clocked (\<lambda>h. h) RCU_GPIOB (rcu_periph_clock_enable gd32 RCU_GPIOA (\<lambda>_. 0))"
proof -
  have "registers gd32 (\<lambda>h. h) {RCU_AHBEN, RCU_APB1EN, RCU_APB2EN, RCU_BDCTL}"
    by (rule gd32_registers) (simp add: not_special(2))
  from clock_enable_only [OF this, of _ RCU_GPIOA "\<lambda>_. 0"] show ?thesis
    by (simp add: clocked_def del: rcu_periph_value.simps)
qed

text \<open>C27: \<open>rcu_clock_freq_get\<close> gives the frequency that the configuration registers stand for,
  rounded down at each divider, for every clock and every setting, PLL factors of 6.5 and 20
  included, as long as the system clock fits in 32 bits.\<close>

theorem clock_freq_right:
  assumes "registers B val {RCU_CFG0, RCU_CFG1}" and "unat xtal * 20 < 2 ^ 32"
    and "sys_hz (unat xtal) (val h RCU_CFG0) (val h RCU_CFG1) < 2 ^ 32"
  shows "\<exists>w. rcu_clock_freq_get B xtal clock h = (w, h) \<and>
    unat w = clock_hz (unat xtal) (val h RCU_CFG0) (val h RCU_CFG1) clock"
  by (rule registers.freq_get_val [OF assms(1) _ _ assms(2,3)]) simp_all

text \<open>108 MHz from an 8 MHz crystal: the PLL multiplies by 27 (field 10 and the fifth bit) after
  dividing by 2.\<close>

definition cfg108 :: "32 word \<Rightarrow> reg" where
  "cfg108 = (\<lambda>_. 0)(RCU_CFG0 := 0x20290408, RCU_CFG1 := 1)"

theorem clock_freq_right_witness:
  "\<exists>w. rcu_clock_freq_get gd32 8000000 CK_APB1 cfg108 = (w, cfg108) \<and> unat w = 54000000"
proof -
  have "registers gd32 (\<lambda>h. h) {RCU_CFG0, RCU_CFG1}"
    by (rule gd32_registers) (simp add: not_special(2))
  moreover have "sys_hz 8000000 (cfg108 RCU_CFG0) (cfg108 RCU_CFG1) = 108000000"
    "clock_hz 8000000 (cfg108 RCU_CFG0) (cfg108 RCU_CFG1) CK_APB1 = 54000000"
    by (simp_all add: cfg108_def sys_hz_def source_hz_def pll_halves_def field_def GET_BITS_take ahb_hz_def apb_hz_def
      unsigned_take_bit_eq unsigned_drop_bit_eq take_bit_eq_mod drop_bit_eq_div
      flip: numeral_2_eq_2)
  ultimately show ?thesis using clock_freq_right [of gd32 "\<lambda>h. h" 8000000 cfg108 CK_APB1] by simp
qed

section \<open>Interrupt lines\<close>

text \<open>\<open>exti_init\<close> puts a line into one mode, interrupt or event, and makes it trigger on the
  edges asked for and no other; the settings of the other lines stay as they were.\<close>

theorem exti_init_selects:
  assumes "registers B val {EXTI_INTEN, EXTI_EVEN, EXTI_RTEN, EXTI_FTEN}" and "n < 32" and "h' = exti_init B (BIT n) mode trig h"
  shows "(\<forall>i < 32. bit (val h' EXTI_INTEN) i \<longleftrightarrow> (if i = n then mode = EXTI_INTERRUPT else bit (val h EXTI_INTEN) i)) \<and>
    (\<forall>i < 32. bit (val h' EXTI_EVEN) i \<longleftrightarrow> (if i = n then mode = EXTI_EVENT else bit (val h EXTI_EVEN) i)) \<and>
    (\<forall>i < 32. bit (val h' EXTI_RTEN) i \<longleftrightarrow>
      (if i = n then trig \<in> {EXTI_TRIG_RISING, EXTI_TRIG_BOTH} else bit (val h EXTI_RTEN) i)) \<and>
    (\<forall>i < 32. bit (val h' EXTI_FTEN) i \<longleftrightarrow>
      (if i = n then trig \<in> {EXTI_TRIG_FALLING, EXTI_TRIG_BOTH} else bit (val h EXTI_FTEN) i))"
  using registers.exti_init_val [OF assms(1) order.refl, of "BIT n" mode trig h, folded assms(3)] assms(2)
  by (simp add: bit_or_iff bit_and_iff bit_not_iff)

theorem exti_init_selects_witness:
  "bit (exti_init gd32 (BIT 5) EXTI_INTERRUPT EXTI_TRIG_FALLING (\<lambda>_. 0) EXTI_FTEN) 5 \<and>
    \<not> bit (exti_init gd32 (BIT 5) EXTI_INTERRUPT EXTI_TRIG_FALLING (\<lambda>_. 0) EXTI_RTEN) 5"
proof -
  have "registers gd32 (\<lambda>h. h) {EXTI_INTEN, EXTI_EVEN, EXTI_RTEN, EXTI_FTEN}"
    by (rule gd32_registers) (simp add: special_def is_port_def EXTI_BASE_def GPIO_BASE_def)
  from exti_init_selects [OF this _ refl, of 5 EXTI_INTERRUPT EXTI_TRIG_FALLING "\<lambda>_. 0"] show ?thesis by simp
qed

section \<open>The flash memory\<close>

text \<open>C37: Waiting for the flash controller ends. With a count that is not zero, \<open>fmc_ready_wait\<close> polls
  the controller at most that often, stops at the first poll that does not say busy and returns
  what it said, or returns a timeout after exactly that many polls that all said busy.\<close>

theorem ready_wait_bounded:
  assumes "timeout \<noteq> 0"
  shows "\<exists>n < unat timeout. (\<forall>k < n. says B (polled B k h) = FMC_BUSY) \<and>
    fmc_ready_wait B timeout h =
      (if says B (polled B n h) = FMC_BUSY then FMC_TOERR else says B (polled B n h), polled B (Suc n) h) \<and>
    (says B (polled B n h) = FMC_BUSY \<longrightarrow> Suc n = unat timeout)"
  using assms by (rule ready_wait_polls)

theorem ready_wait_bounded_witness:
  "\<exists>n < 4. fmc_ready_wait flash_dev 4 (idle_flash False) =
    (if says flash_dev (polled flash_dev n (idle_flash False)) = FMC_BUSY then FMC_TOERR
     else says flash_dev (polled flash_dev n (idle_flash False)), polled flash_dev (Suc n) (idle_flash False))"
  using ready_wait_bounded [of 4 flash_dev "idle_flash False"] by auto

text \<open>C28: What the operations of the flash leave in the control register (up to \<open>START\<close>, which is the hardware's), if
  none of its command bits is set before and no operation is given its address. After an erasure or a programming of the main memory it is as it was,
  whatever the operation returned. After an operation on the option bytes it is as it was, or the operation returned
  that the controller timed out, and its erase or its program command is still set; or it was \<open>ob_erase\<close>, which
  returned an error, and the erase command is still set.\<close>

theorem flash_ops_restore:
  assumes "flash B ctl"
    and "ctl h AND NOT FMC_CTL_START AND (FMC_CTL_PG OR FMC_CTL_PER OR FMC_CTL_MER OR FMC_CTL_OBPG OR FMC_CTL_OBER) = 0"
    and "a \<noteq> FMC_CTL" and "a AND NOT 3 \<noteq> FMC_CTL"
  defines "kept \<equiv> \<lambda>r :: fmc_state \<times> 'h. ctl (snd r) AND NOT FMC_CTL_START = ctl h AND NOT FMC_CTL_START"
    and "left \<equiv> \<lambda>x (r :: fmc_state \<times> 'h). ctl (snd r) AND NOT FMC_CTL_START = (ctl h AND NOT FMC_CTL_START) OR x"
  shows "(\<forall>r \<in> {fmc_page_erase B page h, fmc_mass_erase B h, fmc_word_program B a w h, fmc_halfword_program B a v h}. kept r) \<and>
    (\<forall>r \<in> {ob_user_write B u1 u2 u3 u4 h, ob_data_program B a d h, ob_write_protection_enable B wp h}.
      kept r \<or> fst r = FMC_TOERR \<and> left FMC_CTL_OBPG r) \<and>
    (let r = ob_security_protection_config B spc h
     in kept r \<or> fst r = FMC_TOERR \<and> (left FMC_CTL_OBER r \<or> left FMC_CTL_OBPG r)) \<and>
    (let r = ob_erase B h
     in kept r \<or> fst r = FMC_TOERR \<and> (left FMC_CTL_OBER r \<or> left FMC_CTL_OBPG r) \<or>
       fst r \<notin> {FMC_READY, FMC_TOERR} \<and> left FMC_CTL_OBER r)"
proof -
  have zero: "x = 0 \<and> y = 0" if "x OR y = 0" for x y :: reg
    using that by (metis or.right_neutral bit.disj_conj_distrib2 or_eq_0_iff)
  have idle: "flash.own ctl h AND x = 0" if "x \<in> {FMC_CTL_PG, FMC_CTL_PER, FMC_CTL_MER, FMC_CTL_OBPG, FMC_CTL_OBER}" for x
    using that assms(2) by (auto simp: flash.own_def [OF assms(1)] bit.conj_disj_distrib and.assoc dest!: zero)
  have own: "kept r \<longleftrightarrow> flash.own ctl (snd r) = flash.own ctl h" "left x r \<longleftrightarrow> flash.own ctl (snd r) = flash.own ctl h OR x" for r x
    by (simp_all add: kept_def left_def flash.own_def [OF assms(1)])
  note restores = flash.page_erase_restores [OF assms(1)] flash.mass_erase_restores [OF assms(1)]
    flash.word_program_restores [OF assms(1) _ assms(3)] flash.halfword_program_restores [OF assms(1) _ assms(4)]
  have "\<forall>r \<in> {fmc_page_erase B page h, fmc_mass_erase B h, fmc_word_program B a w h, fmc_halfword_program B a v h}. kept r"
    by (simp add: own restores idle)
  moreover have "\<forall>r \<in> {ob_user_write B u1 u2 u3 u4 h, ob_data_program B a d h, ob_write_protection_enable B wp h}.
      kept r \<or> fst r = FMC_TOERR \<and> left FMC_CTL_OBPG r"
    using flash.user_write_leaves [OF assms(1) _ refl] flash.data_program_leaves [OF assms(1) _ assms(4) refl]
      flash.write_protection_leaves [OF assms(1) _ refl] idle [of FMC_CTL_OBPG] by (simp add: own)
  moreover have "let r = ob_security_protection_config B spc h
     in kept r \<or> fst r = FMC_TOERR \<and> (left FMC_CTL_OBER r \<or> left FMC_CTL_OBPG r)"
    using flash.security_config_leaves [OF assms(1) _ _ refl, of h spc] idle [of FMC_CTL_OBER] idle [of FMC_CTL_OBPG]
    by (auto simp: own Let_def)
  moreover have "let r = ob_erase B h
     in kept r \<or> fst r = FMC_TOERR \<and> (left FMC_CTL_OBER r \<or> left FMC_CTL_OBPG r) \<or>
       fst r \<notin> {FMC_READY, FMC_TOERR} \<and> left FMC_CTL_OBER r"
    using flash.ob_erase_leaves [OF assms(1) _ _ refl, of h] idle [of FMC_CTL_OBER] idle [of FMC_CTL_OBPG]
    by (auto simp: own Let_def)
  ultimately show ?thesis by (intro conjI)
qed

theorem flash_ops_restore_witness:
  "freg (snd (fmc_page_erase flash_dev 0x8000400 (idle_flash True))) FMC_CTL AND NOT FMC_CTL_START = 0 \<and>
   freg (snd (ob_erase flash_dev (idle_flash True))) FMC_CTL AND NOT FMC_CTL_START \<in> {0, FMC_CTL_OBER, FMC_CTL_OBPG}"
proof -
  let ?h = "idle_flash True"
  have z: "freg ?h FMC_CTL = 0" "0 AND NOT FMC_CTL_START = 0" "0 OR x = x" for x :: reg by (simp_all add: idle_flash_def)
  have "freg ?h FMC_CTL AND NOT FMC_CTL_START AND
      (FMC_CTL_PG OR FMC_CTL_PER OR FMC_CTL_MER OR FMC_CTL_OBPG OR FMC_CTL_OBER) = 0" by (simp add: z)
  from flash_ops_restore [OF flash_dev.flash_axioms this, of 0 "0x8000400" 0 0 0 0 0 0 0 0 0, unfolded z Let_def]
  show ?thesis by auto
qed

text \<open>\<open>ob_erase\<close> is the exception. When the erasure of the option bytes ends with a programming or
  a protection error, it returns that error with the erase command still set in the control
  register: it clears \<open>OBPG\<close>, which it has not set, where \<open>ob_security_protection_config\<close> clears
  \<open>OBER\<close>.\<close>

theorem ob_erase_leaves_OBER:
  assumes "flash B ctl" and "fst (ready B h) = FMC_READY"
    and "fst (ready B (set_bits B FMC_CTL FMC_CTL_START (set_bits B FMC_CTL FMC_CTL_OBER (snd (ob_spc_get B (snd (ready B h)))))))
      \<in> {FMC_PGERR, FMC_WPERR}"
  shows "fst (ob_erase B h) \<in> {FMC_PGERR, FMC_WPERR} \<and> ctl (snd (ob_erase B h)) AND FMC_CTL_OBER \<noteq> 0"
proof -
  note failed = flash.ob_erase_failed [OF assms(1,2) refl assms(3)]
  have "bit (flash.own ctl (snd (ob_erase B h))) 5"
    unfolding failed(2) by (simp add: bit_and_iff bit_or_iff bit_not_iff FMC_CTL_OBER_def FMC_CTL_OBPG_def FMC_CTL_START_def)
  then have "bit (ctl (snd (ob_erase B h))) 5" by (simp add: flash.own_def [OF assms(1)] bit_and_iff)
  then have "ctl (snd (ob_erase B h)) AND FMC_CTL_OBER \<noteq> 0" by (simp add: FMC_CTL_OBER_def and_BIT)
  then show ?thesis using failed(1) assms(3) by simp
qed

lemma ready_loop_step:
  "ready_loop B timeout h =
    (if says B h = FMC_BUSY \<and> timeout - 1 \<noteq> 0 then ready_loop B (timeout - 1) (poll B h) else (says B h, poll B h))"
  by (subst ready_loop.simps) (auto simp: fmc_state_get_says Let_def)

lemmas flash_dev_eval = flash_dev_def flash_read_def flash_write_def any_set_def set_bits_def modify_def
  FMC_STAT_BUSY_def FMC_STAT_PGERR_def FMC_STAT_WPERR_def BIT_def

lemma idle_ready: "ready flash_dev (idle_flash True) = (FMC_READY, idle_flash True)"
proof -
  have s: "fmc_state_get flash_dev (idle_flash True) = (FMC_READY, idle_flash True)"
    by (simp add: fmc_state_get_def idle_flash_def flash_dev_eval fun_upd_idem)
  show ?thesis
    unfolding ready_def fmc_ready_wait_def by (subst ready_loop_step) (simp add: says_def poll_def s)
qed

definition erasing :: "nat \<Rightarrow> flash_hw" where
  "erasing n = \<lparr>busy = n, fails = True, freg = (\<lambda>_. 0)(FMC_CTL := BIT 5 OR BIT 6, FMC_STAT := BIT 2)\<rparr>"

lemma erasing_busy: "0 < n \<Longrightarrow> says flash_dev (erasing n) = FMC_BUSY \<and> poll flash_dev (erasing n) = erasing (n - 1)"
  by (simp add: says_def poll_def fmc_state_get_def erasing_def flash_dev_eval)

lemma erasing_failed: "says flash_dev (erasing 0) = FMC_PGERR"
  by (simp add: says_def fmc_state_get_def erasing_def flash_dev_eval)

lemma erasing_ready: "fst (ready flash_dev (erasing 3)) = FMC_PGERR"
proof -
  have busy: "ready_loop flash_dev t (erasing (Suc n)) = ready_loop flash_dev (t - 1) (erasing n)" if "t \<noteq> 1" for t n
    using that erasing_busy [of "Suc n"] by (subst ready_loop_step) simp
  have "fst (ready_loop flash_dev t (erasing 0)) = FMC_PGERR" for t
    by (subst ready_loop_step) (simp add: erasing_failed)
  then have "fst (ready_loop flash_dev FMC_TIMEOUT_COUNT (erasing 3)) = FMC_PGERR"
    by (simp add: busy numeral_3_eq_3 FMC_TIMEOUT_COUNT_def)
  then show ?thesis by (simp add: ready_def fmc_ready_wait_def Let_def split_beta)
qed

theorem ob_erase_leaves_OBER_witness:
  "fst (ob_erase flash_dev (idle_flash True)) \<in> {FMC_PGERR, FMC_WPERR} \<and>
    freg (snd (ob_erase flash_dev (idle_flash True))) FMC_CTL AND FMC_CTL_OBER \<noteq> 0"
proof (rule ob_erase_leaves_OBER [OF flash_dev.flash_axioms])
  show "fst (ready flash_dev (idle_flash True)) = FMC_READY" by (simp add: idle_ready)
  have "set_bits flash_dev FMC_CTL FMC_CTL_START (set_bits flash_dev FMC_CTL FMC_CTL_OBER
      (snd (ob_spc_get flash_dev (snd (ready flash_dev (idle_flash True)))))) = erasing 3"
    unfolding idle_ready snd_conv
    by (simp add: ob_spc_get_def flash_dev_eval idle_flash_def erasing_def FMC_CTL_START_def FMC_CTL_OBER_def fun_upd_twist)
  then show "fst (ready flash_dev (set_bits flash_dev FMC_CTL FMC_CTL_START (set_bits flash_dev FMC_CTL FMC_CTL_OBER
      (snd (ob_spc_get flash_dev (snd (ready flash_dev (idle_flash True)))))))) \<in> {FMC_PGERR, FMC_WPERR}"
    by (simp add: erasing_ready)
qed

end
