(* ===== verification/UsbSpec.thy ===== *)
theory UsbSpec
  imports UsbLinux FileSpec
begin

text \<open>
  The fuel that the model gives to the two nested loops over directories is enough: every turn takes an answer of
  the system, of which there are as many as the script has, so that \<open>Timeout\<close> is never what the search comes to.
  (When the answers run out the search is \<open>Blocked\<close>; of a directory without an end nothing is said.) And the search
  for a HID compares ids of which one side is signed.
\<close>

section \<open>Computations within their fuel\<close>

lemma bindo_eq_Timeout: "bindo m f = Timeout \<longleftrightarrow> m = Timeout \<or> (\<exists>x. m = Ret x \<and> f x = Timeout)"
  by (cases m) auto

text \<open>\<open>ends k r\<close>: the result \<open>r\<close> is not the lack of fuel, and a process it returns has at most
  \<open>k\<close> answers left.\<close>

definition ends :: "nat \<Rightarrow> ('b \<times> mu) outcome \<Rightarrow> bool" where
  "ends k r \<longleftrightarrow> r \<noteq> Timeout \<and> (\<forall>x s. r = Ret (x, s) \<longrightarrow> length (script s) \<le> k)"

named_theorems ends_intros \<open>computations within their fuel\<close>

lemma ends_Ret [ends_intros]: "length (script s) \<le> k \<Longrightarrow> ends k (Ret (x, s))"
  and ends_Undef [ends_intros]: "ends k Undef"
  by (simp_all add: ends_def)

lemma ends_mono: "ends j r \<Longrightarrow> j \<le> k \<Longrightarrow> ends k r"
  by (auto simp: ends_def intro: order_trans)

lemma ends_read [ends_intros]:
  "m \<noteq> Timeout \<Longrightarrow> (\<And>x. m = Ret x \<Longrightarrow> ends k (f x)) \<Longrightarrow> ends k (bindo m f)"
  by (cases m) (auto simp: ends_def)

lemma ends_bind:
  "ends j m \<Longrightarrow> (\<And>x s. length (script s) \<le> j \<Longrightarrow> ends k (f (x, s))) \<Longrightarrow> ends k (bindo m f)"
  by (cases m) (auto simp: ends_def)

lemma ends_if [ends_intros]: "(c \<Longrightarrow> ends k a) \<Longrightarrow> (\<not> c \<Longrightarrow> ends k b) \<Longrightarrow> ends k (if c then a else b)"
  by simp

text \<open>The steps that call the system, and those that do not.\<close>

lemma ends_syscall: "ends (length (script s) - 1) (syscall c s)"
  by (auto simp: ends_def syscall_def split: list.splits)

lemma no_timeout [simp]:
  "load_bytes a n s \<noteq> Timeout" "load16 a s \<noteq> Timeout" "load32 a s \<noteq> Timeout" "load_byte a s \<noteq> Timeout"
  "memcpy d b c s \<noteq> Timeout" "store_byte a v s \<noteq> Timeout"
  by (auto simp: load_bytes_def load16_def load32_def load_byte_def memcpy_def store_byte_def)

lemma script_kept:
  "memcpy d b c s = Ret t \<Longrightarrow> script t = script s" "store_byte a v s = Ret t \<Longrightarrow> script t = script s"
  by (auto simp: memcpy_def store_byte_def split: if_splits)

lemma ends_void_call:
  "void_call c s \<noteq> Timeout" "void_call c s = Ret t \<Longrightarrow> length (script t) \<le> length (script s)"
  by (auto simp: void_call_def syscall_def split: list.splits)

lemma ends_path_call: "ends (length (script s) - 1) (path_call f p as s)"
  unfolding path_call_def cstring_arg_def
  by (cases "cstr (segs s) (mem s) p") (simp_all add: ends_Undef ends_syscall [simplified])

lemma ends_string_copy: "ends (length (script s)) (string_copy d b s)"
  unfolding string_copy_def Let_def
  by (auto split: option.splits intro!: ends_intros dest!: script_kept)

lemma ends_concat_paths: "ends (length (script s)) (concat_paths d n p q s)"
  unfolding concat_paths_def
  by (auto split: option.splits intro!: ends_intros ends_bind [OF ends_mono [OF ends_string_copy]])

section \<open>The fuel of the search\<close>

lemma ids_match_ends: "ids_match vid pid s \<noteq> Timeout"
  by (simp add: ids_match_def load16_def load_bytes_def Let_def)

lemma call_ends:
  "(\<And>x t. length (script t) \<le> length (script s) - 1 \<Longrightarrow> ends k (f (x, t))) \<Longrightarrow> ends k (bindo (syscall c s) f)"
  "(\<And>x t. length (script t) \<le> length (script s) - 1 \<Longrightarrow> ends k (f (x, t))) \<Longrightarrow> ends k (bindo (path_call g p as s) f)"
  by (rule ends_bind [OF ends_syscall], assumption, rule ends_bind [OF ends_path_call], assumption)

lemma void_ends:
  "(\<And>t. length (script t) \<le> length (script s) \<Longrightarrow> ends k (f t)) \<Longrightarrow> ends k (bindo (void_call c s) f)"
  by (rule ends_read) (auto dest: ends_void_call(2) simp: ends_void_call(1))

lemma match_device_ends: "ends (length (script s)) (match_device dev vid pid s)"
  unfolding match_device_def
  by (auto intro!: call_ends void_ends ends_read ids_match_ends ends_if ends_Ret split: prod.splits)

lemma dirent_loop_ends:
  assumes fn: "\<And>a s. ends (length (script s)) (fn a vid pid s)" and ok: "\<And>pde s. try_path pde s \<noteq> Timeout"
  shows "length (script s) < n \<Longrightarrow> ends (length (script s)) (dirent_loop n pathbuf pdir path try_path fn vid pid s)"
proof (induction n arbitrary: s)
  case (Suc n)
  have IH: "ends (length (script s)) (dirent_loop n pathbuf pdir path try_path fn vid pid t)"
    if "length (script t) < length (script s)" for t
    using ends_mono [OF Suc.IH [of t]] that Suc.prems by simp
  show ?case
  proof (cases "script s")
    case Nil
    then show ?thesis by (simp add: syscall_def ends_def)
  next
    case (Cons a as)
    then have less: "length (script t) \<le> length (script s) - 1 \<Longrightarrow> length (script t) < length (script s)" for t by simp
    show ?thesis
      unfolding dirent_loop.simps
      by (auto intro!: call_ends void_ends ends_read [OF ok] ends_if ends_Ret IH
          ends_bind [OF ends_concat_paths] ends_bind [OF fn] dest!: less)
  qed
qed simp

lemma foreach_dirent_ends:
  assumes "\<And>a s. ends (length (script s)) (fn a vid pid s)" and "\<And>pde s. try_path pde s \<noteq> Timeout"
  shows "ends (length (script s)) (foreach_dirent frame path try_path fn vid pid s)"
proof -
  have loop: "ends (length (script t)) (dirent_loop (Suc (length (script t))) pathbuf pdir path try_path fn vid pid t)"
    for t pathbuf pdir
    by (rule dirent_loop_ends) (use assms in auto)
  show ?thesis
    unfolding foreach_dirent_def by (auto intro!: call_ends ends_if ends_Ret intro: ends_mono [OF loop])
qed

lemma is_bus_or_dev_ends: "is_bus_or_dev pde s \<noteq> Timeout"
  by (simp add: is_bus_or_dev_def load_byte_def)

lemma enumerate_devices_ends: "ends (length (script s)) (enumerate_devices bus vid pid s)"
  unfolding enumerate_devices_def by (rule foreach_dirent_ends [OF match_device_ends is_bus_or_dev_ends])

lemma dir_exists_ends: "ends (length (script s)) (dir_exists path s)"
  unfolding dir_exists_def by (auto intro!: call_ends void_ends ends_if ends_Ret)

lemma push_matched_ends: "\<forall>s. ex s \<noteq> Timeout \<Longrightarrow> push_matched ex m s \<noteq> Timeout"
  by (auto simp: push_matched_def abort_strerror_def abort_zmsg_def mu_abort_def push_def die_def bindo_eq_Timeout
      load_def split: option.splits)

lemma find_device_ends:
  assumes "\<forall>s. ex s \<noteq> Timeout"
  shows "mu_usb_find_device ex s \<noteq> Timeout"
proof (cases "stk 2 s")
  case True
  let ?vid = "int_of_cell (ST 1 s)" and ?pid = "int_of_cell (ST 0 s)"
  have search: "ends (length (script t)) (foreach_dirent ''pathbuf'' root is_bus_or_dev enumerate_devices ?vid ?pid t)" for root t
    by (rule foreach_dirent_ends [OF enumerate_devices_ends is_bus_or_dev_ends])
  have "ends (length (script s)) (bindo (dir_exists (USB_ROOT1 s) s) (\<lambda>(found, s).
      if found then foreach_dirent ''pathbuf'' (USB_ROOT1 s) is_bus_or_dev enumerate_devices ?vid ?pid s
      else bindo (dir_exists (USB_ROOT2 s) s) (\<lambda>(found, s).
        if found then foreach_dirent ''pathbuf'' (USB_ROOT2 s) is_bus_or_dev enumerate_devices ?vid ?pid s
        else Ret (0, s))))"
    by (auto intro!: ends_bind [OF dir_exists_ends] ends_if ends_Ret intro: ends_mono [OF search])
  with True push_matched_ends [OF assms] show ?thesis
    by (auto simp: mu_usb_find_device_def Let_def ends_def bindo_eq_Timeout)
qed (simp add: mu_usb_find_device_def)

section \<open>The ids of a HID\<close>

text \<open>The answers to an \<open>open\<close>, and to the \<open>ioctl\<close> that fetches the ids.\<close>

definition answered :: "cell \<Rightarrow> answer" where
  "answered r = \<lparr>ret = r, err = 0, out = [], maps = []\<rparr>"

definition hid_info :: "addr \<Rightarrow> 16 word \<Rightarrow> 16 word \<Rightarrow> answer" where
  "hid_info hid vendor product =
     \<lparr>ret = 0, err = 0, out = [(hid, le_bytes 4 BUS_USB @ le_bytes 2 vendor @ le_bytes 2 product)], maps = []\<rparr>"

lemma answered_simps [simp]:
  "ret (answered r) = r" "err (answered r) = 0" "out (answered r) = []" "maps (answered r) = []"
  "ret (hid_info hid v p) = 0" "err (hid_info hid v p) = 0" "maps (hid_info hid v p) = []"
  "out (hid_info hid v p) = [(hid, le_bytes 4 BUS_USB @ le_bytes 2 v @ le_bytes 2 p)]"
  by (simp_all add: answered_def hid_info_def)

lemma scast_16: "scast (v :: 16 word) = (ucast v :: cint) \<longleftrightarrow> v < 0x8000"
proof -
  have "scast v = (ucast v :: cint) \<longleftrightarrow> \<not> bit v 15"
  proof
    assume "scast v = (ucast v :: cint)"
    then have "bit (scast v :: cint) 16 = bit (ucast v :: cint) 16" by simp
    then show "\<not> bit v 15" using bit_imp_le_length [of v 16] by (auto simp: bit_simps)
  next
    assume "\<not> bit v 15"
    moreover from this have "\<not> bit v n" if "15 \<le> n" for n
      using that bit_imp_le_length [of v n] by (cases "n = 15") auto
    ultimately show "scast v = (ucast v :: cint)"
      by (intro bit_word_eqI) (auto simp: bit_simps min_def)
  qed
  also have "\<dots> \<longleftrightarrow> v < 2 ^ 15"
  proof
    assume "\<not> bit v 15"
    then have "take_bit 15 v = v"
      by (intro bit_word_eqI) (auto simp: bit_simps less_Suc_eq_le numeral_eq_Suc le_Suc_eq)
    moreover have "unat (take_bit 15 v) < 2 ^ 15"
      unfolding unsigned_take_bit_eq by (rule take_bit_nat_less_exp)
    ultimately show "v < 2 ^ 15" by (simp add: word_less_nat_alt)
  next
    assume "v < 2 ^ 15"
    then have "unat v div 2 ^ 15 = 0" by (simp add: word_less_nat_alt)
    then have "\<not> bit (unat v) 15" unfolding bit_iff_odd by simp
    then show "\<not> bit v 15" by (simp add: bit_unsigned_iff)
  qed
  finally show ?thesis by simp
qed

lemma hid_ids_match_low:
  fixes v p :: "16 word"
  assumes "racc (segs s) (local_at s ''hid'') 8"
    "rd_bytes (mem s) (local_at s ''hid'') 8 = le_bytes 4 BUS_USB @ le_bytes 2 v @ le_bytes 2 p"
  shows "hid_ids_match (ucast v) (ucast p) s = Ret (v < 0x8000 \<and> p < 0x8000)"
proof -
  let ?a = "local_at s ''hid''" and ?bs = "le_bytes 4 BUS_USB @ le_bytes 2 v @ le_bytes 2 p"
  have part: "rd_bytes (mem s) (?a + of_nat i) n = take n (drop i ?bs)" if "i + n \<le> 8" for i n
  proof (rule nth_equalityI)
    fix j assume "j < length (rd_bytes (mem s) (?a + of_nat i) n)"
    then have "j < n" by simp
    with that have "mem s (?a + of_nat (i + j)) = rd_bytes (mem s) ?a 8 ! (i + j)" by (simp only: nth_rd_bytes)
    with \<open>j < n\<close> that show "rd_bytes (mem s) (?a + of_nat i) n ! j = take n (drop i ?bs) ! j"
      unfolding assms(2) by (simp add: add.assoc del: take_append drop_append)
  qed (use that in \<open>simp del: take_append drop_append\<close>)
  have acc: "racc (segs s) (?a + of_nat i) n" if "i + n \<le> 8" for i n
    using racc_part [OF assms(1) that] .
  from part [of 0 4] part [of 4 2] part [of 6 2] acc [of 0 4] acc [of 4 2] acc [of 6 2]
  have "load32 ?a s = Ret BUS_USB" "load16 (?a + 4) s = Ret v" "load16 (?a + 6) s = Ret p"
    by (simp_all add: load32_def load16_def load_bytes_def le_word_le_bytes take_bit_word_eq_self)
  then show ?thesis by (simp add: hid_ids_match_def Let_def scast_16)
qed

text \<open>Trying a HID that has exactly the ids asked for.\<close>

lemma match_hid_low:
  fixes v p :: "16 word"
  assumes sc: "script s = answered fd # hid_info (local_at s ''hid'') v p # answered 0 # answered fd2 # rest"
    and fd: "fd \<noteq> - 1" and path: "cstring_at s dev bs" and d: "disj (local_at s ''hid'') 8 dev (Suc (length bs))"
    and acc: "racc (segs s) (local_at s ''hid'') 8"
  shows "\<exists>t. match_hid dev (ucast v) (ucast p) s = Ret (if v < 0x8000 \<and> p < 0x8000 then int_of_cell fd2 else 0, t) \<and>
    script t = (if v < 0x8000 \<and> p < 0x8000 then rest else answered fd2 # rest)"
proof -
  let ?hid = "local_at s ''hid''" and ?info = "le_bytes 4 BUS_USB @ le_bytes 2 v @ le_bytes 2 p"
  let ?open = "Call ''open'' [dev, O_RDONLY] bs" and ?get = "Call ''ioctl'' [fd, HIDIOCGRAWINFO, ?hid] []"
    and ?close = "Call ''close'' [fd] []" and ?again = "Call ''open'' [dev, O_RDWR] bs"
  let ?m = "wr_bytes (mem s) ?hid ?info"
  let ?t = "s\<lparr>script := answered fd2 # rest, oslog := oslog s @ [?open, ?get, ?close], mem := ?m\<rparr>"
  have cstr: "cstr (segs s) (mem s) dev = Some bs" "cstr (segs s) ?m dev = Some bs"
    using cstr_cstring [OF path] cstr_cstring [OF cstring_at_write [OF path, of ?hid ?info]] d by simp_all
  have "rd_bytes ?m ?hid 8 = ?info" using rd_wr_bytes_same [of ?info "mem s" ?hid] by simp
  then have ids: "hid_ids_match (ucast v) (ucast p) ?t = Ret (v < 0x8000 \<and> p < 0x8000)"
    using acc by (intro hid_ids_match_low) simp_all
  have "match_hid dev (ucast v) (ucast p) s = bindo (hid_ids_match (ucast v) (ucast p) ?t) (\<lambda>same.
      if same then bindo (path_call ''open'' dev [O_RDWR] ?t) (\<lambda>(fd, s). Ret (int_of_cell fd, s)) else Ret (0, ?t))"
    using sc fd cstr
    by (simp add: match_hid_def path_call_def cstring_arg_def syscall_def void_call_def put_bytes_def)
  also have "\<dots> = Ret (if v < 0x8000 \<and> p < 0x8000
      then (int_of_cell fd2, ?t\<lparr>script := rest, oslog := oslog ?t @ [?again], errno := if fd2 = - 1 then 0 else errno s\<rparr>)
      else (0, ?t))"
    using cstr by (simp add: ids path_call_def cstring_arg_def syscall_def)
  finally show ?thesis by auto
qed

end
