(* ===== verification/BootSpec.thy ===== *)
theory BootSpec
  imports Boot Tokens Consumers DictCreate
begin

text \<open>
  The command line: the arguments joined in the dictionary, each followed by a space, so that the
  tokeniser finds in it the words of the arguments in their order.
\<close>

section \<open>Arguments in memory\<close>

definition line_of :: "byte list list \<Rightarrow> byte list" where
  "line_of args = concat (map (\<lambda>a. a @ [32]) args)"

lemma line_of_simps [simp]: "line_of [] = []" "line_of (a # args) = a @ 32 # line_of args"
  by (simp_all add: line_of_def)

text \<open>\<open>args_at s h n argv args\<close>: the array at \<open>argv\<close> points to the strings \<open>args\<close>, and the \<open>n\<close> bytes
  at \<open>h\<close> overlap neither the array nor the strings.\<close>

fun args_at :: "mu \<Rightarrow> addr \<Rightarrow> nat \<Rightarrow> addr \<Rightarrow> byte list list \<Rightarrow> bool" where
  "args_at s h n argv [] \<longleftrightarrow> True"
| "args_at s h n argv (a # args) \<longleftrightarrow>
     data_at s argv 8 \<and> disj h n argv 8 \<and> string_data s (rd64 (mem s) argv) a \<and>
     disj h n (rd64 (mem s) argv) (Suc (length a)) \<and> args_at s h n (argv + 8) args"

lemma args_at_dframe: "dframe s t \<Longrightarrow> args_at s h n argv args \<Longrightarrow> args_at t h n argv args"
  by (induction args arbitrary: argv) (auto simp: data_at_dframe rd64_data_dframe intro: string_data_dframe)

section \<open>Copying them\<close>

lemma copy_args_joins:
  assumes "args_at s h n argv args" "length (pre @ line_of args) \<le> n" "wacc (segs s) h n" "n < 2 ^ 62"
  shows "copy_args (length args) argv (h + of_nat (length pre)) (s\<lparr>mem := wr_bytes (mem s) h pre\<rparr>) =
    Ret (h + of_nat (length (pre @ line_of args)), s\<lparr>mem := wr_bytes (mem s) h (pre @ line_of args)\<rparr>)"
  using assms(1,2)
proof (induction args arbitrary: argv pre)
  case (Cons a args)
  let ?s = "s\<lparr>mem := wr_bytes (mem s) h pre\<rparr>" and ?d = "h + of_nat (length pre)" and ?p = "rd64 (mem s) argv"
  have len: "length pre + Suc (length a) \<le> n" using Cons.prems(2) by simp
  have pre: "disj h (length pre) argv 8" "disj h (length pre) ?p (Suc (length a))"
    using Cons.prems len by (auto intro: disj_mono)
  have arg: "load argv ?s = Ret ?p"
    using Cons.prems(1) pre(1) by (simp add: load_def data_at_racc rd64_wr_bytes)
  have "cstring_at ?s ?p a"
    using Cons.prems(1) pre(2) by (intro cstring_at_write) (simp_all add: string_data_def)
  moreover have room: "wacc (segs ?s) ?d (Suc (length a))"
    using wacc_part [OF assms(3) len] by simp
  moreover have "disj ?d (Suc (length a)) ?p (Suc (length a))"
    by (rule disj_part [of h n]) (use Cons.prems(1) len in simp_all)
  ultimately have copy: "string_copy ?d ?p ?s =
      Ret (?d + of_nat (length a), s\<lparr>mem := wr_bytes (mem s) h (pre @ a @ [0])\<rparr>)"
    using len assms(4) by (simp add: string_copy_copies wr_bytes_append)
  have "wacc (segs s) (?d + of_nat (length a)) 1"
    using wacc_part [OF room, of "length a" 1] by simp
  moreover have "wr_bytes (wr_bytes (mem s) h (pre @ a @ [0])) (?d + of_nat (length a)) [32] =
      wr_bytes (mem s) h (pre @ a @ [32])"
  proof -
    have at: "?d + of_nat (length a) = h + of_nat (length (pre @ a))" by simp
    have b: "wr_bytes (mem s) h ((pre @ a) @ [c]) = wr_bytes (wr_bytes (mem s) h (pre @ a)) (h + of_nat (length (pre @ a))) [c]" for c
      by (rule wr_bytes_append [symmetric]) (use len assms(4) in simp)
    have "wr_bytes (wr_bytes (mem s) h ((pre @ a) @ [0])) (h + of_nat (length (pre @ a))) [32] = wr_bytes (mem s) h ((pre @ a) @ [32])"
      unfolding b by (rule wr_bytes_twice) simp
    then show ?thesis unfolding at by (simp del: of_nat_add length_append)
  qed
  ultimately have space: "store_byte (?d + of_nat (length a)) 32 (s\<lparr>mem := wr_bytes (mem s) h (pre @ a @ [0])\<rparr>) =
      Ret (s\<lparr>mem := wr_bytes (mem s) h (pre @ a @ [32])\<rparr>)"
    by (simp add: store_byte_def)
  have "args_at s h n (argv + 8) args" "length ((pre @ a @ [32]) @ line_of args) \<le> n" using Cons.prems by simp_all
  note IH = Cons.IH [OF this]
  have next_at: "?d + of_nat (length a) + 1 = h + of_nat (length (pre @ a @ [32]))" by simp
  have "copy_args (length (a # args)) argv ?d ?s =
      copy_args (length args) (argv + 8) (?d + of_nat (length a) + 1) (s\<lparr>mem := wr_bytes (mem s) h (pre @ a @ [32])\<rparr>)"
    using arg copy space by simp
  then show ?case unfolding next_at IH by simp
qed simp

section \<open>The words of the line\<close>

lemma words_join: "words (as @ 32 # bs) = words as @ words bs"
proof (induction as rule: words.induct)
  case (1 as)
  let ?r = "dropWhile is_space as"
  have sp: "is_space 32" by (simp add: is_space_def)
  show ?case
  proof (cases "?r = []")
    case True
    then have "words (as @ 32 # bs) = words bs"
      by (induction as) (simp_all add: words_space sp split: if_splits)
    with True show ?thesis by (simp add: words_end)
  next
    case False
    let ?t = "dropWhile (\<lambda>c. \<not> is_space c) ?r"
    have d: "dropWhile is_space (as @ 32 # bs) = ?r @ 32 # bs"
      using False by (auto simp: dropWhile_append)
    have all: "takeWhile (\<lambda>c. \<not> is_space c) ?r = ?r" if "\<forall>c \<in> set ?r. \<not> is_space c"
      using that by (simp add: takeWhile_eq_all_conv)
    have t: "takeWhile (\<lambda>c. \<not> is_space c) (?r @ 32 # bs) = takeWhile (\<lambda>c. \<not> is_space c) ?r"
      "dropWhile (\<lambda>c. \<not> is_space c) (?r @ 32 # bs) = ?t @ 32 # bs"
      unfolding takeWhile_append dropWhile_append
      by (simp_all add: all sp)
    have "words (as @ 32 # bs) = takeWhile (\<lambda>c. \<not> is_space c) ?r # words (?t @ 32 # bs)"
      by (subst words.simps) (use d t in simp)
    also have "words (?t @ 32 # bs) = words ?t @ words bs" by (rule "1.IH" [OF refl False])
    finally show ?thesis using False words.simps [of as] by (simp add: Let_def)
  qed
qed

lemma words_line: "words (line_of args) = concat (map words args)"
  by (induction args) (simp_all add: words_join words_end)

section \<open>\<open>convert_command_line\<close>\<close>

lemma mem_same: "(t :: mu)\<lparr>mem := mem t\<rparr> = t"
  by simp

lemma cstring_set: "(z :: cstring)\<lparr>data := a, len := n\<rparr> = \<lparr>data = a, len = n\<rparr>"
  by (cases z) simp

lemma converts:
  assumes rep: "drep s xs" and room: "length xs + 1 \<le> 4064" and k: "length args < 2 ^ 31"
    and args: "args_at s (hp s) (length (line_of args)) (argv + 8) args"
    and heap: "data_at s (hp s) (length (line_of args))" and len: "length (line_of args) < 2 ^ 62"
  shows "\<exists>t. convert_command_line (of_nat (Suc (length args))) argv s = Ret t \<and> drep t xs \<and>
    cmd_line t = \<lparr>data = hp s, len = of_nat (length (line_of args))\<rparr> \<and>
    rd_bytes (mem t) (hp s) (length (line_of args)) = line_of args \<and>
    hp t = hp s + of_nat (8 * ((length (line_of args) + 7) div 8))"
proof -
  let ?n = "length (line_of args)" and ?h = "hp s"
  let ?s = "DROP 1 ((PUSH ?h s)\<lparr>cmd_line := (cmd_line s)\<lparr>data := ?h\<rparr>\<rparr>)"
  have l: "length xs < 4064" using room by simp
  have keep: "dframe s (DROP 1 (PUSH ?h s))" using dframe_PUSH [OF rep l] by simp
  have same: "mem ?s = mem (DROP 1 (PUSH ?h s))" "segs ?s = segs s" by simp_all
  have at: "args_at ?s ?h ?n p as = args_at (DROP 1 (PUSH ?h s)) ?h ?n p as" for p as
    by (induction as arbitrary: p) (simp_all add: same string_data_def cstring_at_def data_at_def data_seg_def)
  have "copy_args (length args) (argv + 8) (?h + of_nat (length ([] :: byte list))) (?s\<lparr>mem := wr_bytes (mem ?s) ?h []\<rparr>) =
      Ret (?h + of_nat (length ([] @ line_of args)), ?s\<lparr>mem := wr_bytes (mem ?s) ?h ([] @ line_of args)\<rparr>)"
    by (rule copy_args_joins [where pre = "[]" and n = ?n]) (use args_at_dframe [OF keep args] at heap len in \<open>simp_all add: data_at_wacc\<close>)
  then have copy: "copy_args (length args) (argv + 8) ?h ?s =
      Ret (?h + of_nat ?n, ?s\<lparr>mem := wr_bytes (mem ?s) ?h (line_of args)\<rparr>)"
    by (simp only: list.size semiring_1_class.of_nat_simps add_0_right wr_bytes_Nil mem_same append_Nil)
  let ?c = "?s\<lparr>mem := wr_bytes (mem ?s) ?h (line_of args), cmd_line := \<lparr>data = ?h, len = of_nat ?n\<rparr>\<rparr>"
  have "drep (DROP 1 (PUSH ?h s)) xs" using ds.pop_push [OF rep l] .
  then have "drep ?s xs" by (simp add: drep_def)
  moreover have "data_at ?s ?h ?n" using heap data_at_cong [of ?s s] by simp
  ultimately have "drep (?s\<lparr>mem := wr_bytes (mem ?s) ?h (line_of args)\<rparr>) xs" by (rule drep_write)
  then have c: "drep ?c xs" by (simp add: drep_def)
  let ?t = "DROP 1 ((PUSH (of_nat ?n) ?c)\<lparr>hp := ?h + ALIGNED (of_nat ?n) div 8 * 8\<rparr>)"
  have argc: "unat (of_nat (Suc (length args)) - 1 :: cint) = length args" using k by (simp add: unat_of_nat)
  have push1: "stk 1 (PUSH ?h s)" "ST 0 (PUSH ?h s) = ?h"
    using ds.push_rep [OF rep l, of ?h] ds.get_0 ds.cells_rep [of "PUSH ?h s" "?h # xs" 1] by auto
  have push2: "stk 1 (PUSH (of_nat ?n) ?c)" "ST 0 (PUSH (of_nat ?n) ?c) = of_nat ?n"
    using ds.push_rep [OF c l, of "of_nat ?n"] ds.get_0 ds.cells_rep [of "PUSH (of_nat ?n) ?c" "of_nat ?n # xs" 1] by auto
  have run: "convert_command_line (of_nat (Suc (length args))) argv s = Ret ?t"
    using push1 push2 copy argc ds.room_rep [OF rep l] ds.room_rep [OF c l]
    by (simp add: convert_command_line_def mu_here_def push_def Let_def mu_allot_def cstring_set)
  have up: "(of_nat ?n + 8 - 1 :: cell) = of_nat (?n + 7)" by simp
  have "ALIGNED (of_nat ?n) = of_nat (8 * ((?n + 7) div 8))"
    unfolding ALIGNED_def up by (rule and_minus_8) (use len in simp)
  moreover have "(of_nat (8 * ((?n + 7) div 8)) :: cell) div 8 * 8 = of_nat (8 * ((?n + 7) div 8))"
  proof (rule word_unat_eq_iff [THEN iffD2])
    have "unat (of_nat (8 * ((?n + 7) div 8)) :: cell) = 8 * ((?n + 7) div 8)" using len by (subst unat_of_nat_64) simp_all
    then show "unat ((of_nat (8 * ((?n + 7) div 8)) :: cell) div 8 * 8) = unat (of_nat (8 * ((?n + 7) div 8)) :: cell)"
      using len by (simp add: unat_word_ariths unat_div)
  qed
  ultimately have hp: "hp ?t = ?h + of_nat (8 * ((?n + 7) div 8))" by simp
  have pushed: "dframe ?c (DROP 1 (PUSH (of_nat ?n) ?c))" using dframe_PUSH [OF c l] by simp
  have "rd_bytes (mem ?t) ?h ?n = rd_bytes (mem ?c) ?h ?n"
    using rd_bytes_dframe [OF pushed, of ?h ?n] heap data_at_cong [of ?c s ?h ?n] by simp
  also have "\<dots> = line_of args" using len by (simp add: rd_wr_bytes_same)
  finally have bytes: "rd_bytes (mem ?t) ?h ?n = line_of args" .
  have "drep ?t xs" using ds.pop_push [OF c l, of "of_nat ?n"] by (simp add: drep_def)
  with run hp bytes show ?thesis by (intro exI [of _ ?t]) simp
qed

end
