(* ===== verification/IoClaims.thy ===== *)
theory IoClaims
  imports Select UsbSpec BootSpec Example
begin

text \<open>
  The properties of descriptor sets, of the searches for USB devices and HIDs, and of the command
  line, each applied to a concrete process.
\<close>

section \<open>Descriptor sets\<close>

text \<open>The words on descriptor sets are the operations on a set of numbers below 1024: \<open>fd-reset\<close>
  empties it, \<open>fd-set\<close> adds a number, \<open>fd-clr\<close> removes one, and \<open>fd-in-set?\<close> tells whether one is in
  it; each takes its arguments off the stack and leaves what it should there.\<close>

theorem select_words_set:
  assumes "drep s (of_nat fd # p # xs)" and "data_at s p 128" and "fd < FD_SETSIZE"
  shows "(\<exists>t. mu_fd_set s = Ret t \<and> drep t xs \<and> fd_members p (mem t) = insert fd (fd_members p (mem s))) \<and>
    (\<exists>t. mu_fd_clr s = Ret t \<and> drep t xs \<and> fd_members p (mem t) = fd_members p (mem s) - {fd}) \<and>
    (\<exists>t. mu_fd_in_set_q s = Ret t \<and> drep t (flag (fd \<in> fd_members p (mem s)) # xs) \<and>
      fd_members p (mem t) = fd_members p (mem s)) \<and>
    (\<exists>t. mu_fd_reset (DROP 1 s) = Ret t \<and> drep t (sizeof_fd_set # xs) \<and> fd_members p (mem t) = {})"
proof (intro conjI)
  note change = fd_change [OF assms]
  show "\<exists>t. mu_fd_set s = Ret t \<and> drep t xs \<and> fd_members p (mem t) = insert fd (fd_members p (mem s))"
    using change(1,3) fdset.fds_insert [OF assms(3), of p "mem s"] by (simp add: fd_members_fds)
  show "\<exists>t. mu_fd_clr s = Ret t \<and> drep t xs \<and> fd_members p (mem t) = fd_members p (mem s) - {fd}"
    using change(2,4) fdset.fds_remove [OF assms(3), of p "mem s"] by (simp add: fd_members_fds)
  show "\<exists>t. mu_fd_in_set_q s = Ret t \<and> drep t (flag (fd \<in> fd_members p (mem s)) # xs) \<and>
      fd_members p (mem t) = fd_members p (mem s)"
    using fd_query [OF assms] fd_members_dframe [OF _ assms(2)] by blast
  have "data_at (DROP 1 s) p 128" using assms(2) data_at_cong [of "DROP 1 s" s p 128] by simp
  then show "\<exists>t. mu_fd_reset (DROP 1 s) = Ret t \<and> drep t (sizeof_fd_set # xs) \<and> fd_members p (mem t) = {}"
    by (rule fd_reset [OF ds.pop_1 [OF assms(1)]])
qed

theorem select_words_set_witness:
  "\<exists>t. mu_fd_set (stacked [70, 0x500000] (example (\<lambda>_. 0))) = Ret t \<and> drep t [] \<and> 70 \<in> fd_members 0x500000 (mem t)"
proof -
  have "drep (stacked [70, 0x500000] (example (\<lambda>_. 0))) [of_nat 70, 0x500000]"
    using example_stacked(1) [of "[70, 0x500000]"] by simp
  moreover have "data_at (stacked [70, 0x500000] (example (\<lambda>_. 0))) 0x500000 128"
    by (rule stacked_data_at) simp_all
  ultimately show ?thesis using select_words_set [of _ 70 "0x500000" "[]"] by (force simp: FD_SETSIZE_def)
qed

section \<open>Finding devices\<close>

text \<open>C36: A HID on a USB bus that can be opened and has exactly the vendor and product ids asked for is found, and
  opened for reading and writing, only if both ids are below 0x8000: the ids are compared as the signed 16-bit
  fields of \<open>struct hidraw_devinfo\<close> with the numbers asked for, which are not negative. For the others
  \<open>match_hid\<close> returns 0, as it does for a device that does not match.\<close>

theorem hid_high_ids_missed:
  fixes v p :: "16 word"
  assumes "script s = answered fd # hid_info (local_at s ''hid'') v p # answered 0 # answered fd2 # rest"
    and "fd \<noteq> - 1" and "cstring_at s dev bs" and "disj (local_at s ''hid'') 8 dev (Suc (length bs))"
    and "racc (segs s) (local_at s ''hid'') 8"
  shows "\<exists>t. match_hid dev (ucast v) (ucast p) s = Ret (if v < 0x8000 \<and> p < 0x8000 then int_of_cell fd2 else 0, t)"
  using match_hid_low [OF assms] by blast

definition hid_process :: mu where
  "hid_process = (example (wr_bytes (\<lambda>_. 0) 0x500000 [47, 100, 0]))
     \<lparr>script := [answered 5, hid_info 0x610000 0x8086 0x0001, answered 0, answered 6]\<rparr>"

theorem hid_high_ids_missed_witness: "\<exists>t. match_hid 0x500000 0x8086 0x0001 hid_process = Ret (0, t)"
proof -
  have "cstring_at hid_process 0x500000 [47, 100]"
    using rd_wr_bytes_same [of "[47, 100, 0]" "\<lambda>_. 0" "0x500000"] by (simp add: hid_process_def cstring_at_def)
  then show ?thesis
    using hid_high_ids_missed [of hid_process 5 "0x8086" "0x0001" 6 "[]" "0x500000" "[47, 100]"]
    by (simp add: hid_process_def disj_def)
qed

section \<open>The command line\<close>

text \<open>C33: The command line is the arguments after the first, each followed by a space, at the old
  heap pointer; the heap pointer moves past it to the next cell boundary, nothing else is left on the
  stack, and the words the tokeniser finds in it are the words of the arguments, in order.\<close>

theorem command_line_joined:
  assumes "drep s xs" and "length xs + 1 \<le> 4064" and "length args < 2 ^ 31"
    and "args_at s (hp s) (length (line_of args)) (argv + 8) args"
    and "data_at s (hp s) (length (line_of args))" and "length (line_of args) < 2 ^ 62"
  shows "\<exists>t line. convert_command_line (of_nat (Suc (length args))) argv s = Ret t \<and> drep t xs \<and>
    cmd_line t = \<lparr>data = hp s, len = of_nat (length line)\<rparr> \<and> rd_bytes (mem t) (hp s) (length line) = line \<and>
    line = concat (map (\<lambda>a. a @ [32]) args) \<and> words line = concat (map words args) \<and>
    hp t = hp s + of_nat (8 * ((length line + 7) div 8))"
  using converts [OF assms] words_line [of args] unfolding line_of_def by blast

text \<open>\<open>muforth -f a.mu4\<close>\<close>

definition args_mem :: memory where
  "args_mem = wr_bytes (wr_bytes (wr_bytes (wr_bytes (\<lambda>_. 0) 0x500008 [0, 1, 0x50]) 0x500010 [0, 2, 0x50])
     0x500100 [45, 102]) 0x500200 [97, 46, 109, 117, 52]"

lemma args_cells: "rd64 args_mem 0x500008 = 0x500100" "rd64 args_mem 0x500010 = 0x500200"
  "rd_bytes args_mem 0x500100 3 = [45, 102, 0]" "rd_bytes args_mem 0x500200 6 = [97, 46, 109, 117, 52, 0]"
  by (simp_all add: args_mem_def rd64_def rd_bytes_def wr_bytes_def upt_rec unsigned_minus_1_eq_mask mask_eq_exp_minus_1)

theorem command_line_joined_witness:
  "\<exists>t. convert_command_line 3 0x500000 (example args_mem) = Ret t \<and>
    rd_bytes (mem t) 0x100000 9 = [45, 102, 32, 97, 46, 109, 117, 52, 32] \<and> hp t = 0x100010"
proof -
  let ?args = "[[45, 102], [97, 46, 109, 117, 52]] :: byte list list"
  have six: "6 = Suc (Suc (Suc (Suc (Suc (Suc 0)))))" by simp
  have line: "line_of ?args = [45, 102, 32, 97, 46, 109, 117, 52, 32]" by (simp add: line_of_def)
  have "string_data (example args_mem) 0x500100 [45, 102]" "string_data (example args_mem) 0x500200 [97, 46, 109, 117, 52]"
    using args_cells(3,4) by (simp_all add: string_data_def cstring_at_def example_data_at numeral_3_eq_3 six)
  note strings = this
  have "args_at (example args_mem) (hp (example args_mem)) (length (line_of ?args)) (0x500000 + 8) ?args"
    using strings by (simp add: line args_cells(1,2) example_data_at disj_def)
  moreover have "data_at (example args_mem) (hp (example args_mem)) (length (line_of ?args))"
    by (simp add: line example_data_at)
  ultimately obtain t ln where t: "convert_command_line (of_nat (Suc (length ?args))) 0x500000 (example args_mem) = Ret t"
    "rd_bytes (mem t) (hp (example args_mem)) (length ln) = ln" "ln = concat (map (\<lambda>a. a @ [32]) ?args)"
    "hp t = hp (example args_mem) + of_nat (8 * ((length ln + 7) div 8))"
    using command_line_joined [OF example_drep, of ?args args_mem "0x500000"] by (auto simp: line)
  have ln: "length ln = 9" "ln = [45, 102, 32, 97, 46, 109, 117, 52, 32]" using t(3) by simp_all
  show ?thesis using t(1) t(2,4) [unfolded ln(1), unfolded ln(2)] by simp
qed

end
