(* ===== verification/SystemClock.thy ===== *)
theory SystemClock
  imports RcuSpec "HOL-Library.Monad_Syntax"
begin

text \<open>
  \<open>system_gd32vf103.c\<close>: what runs before \<open>main\<close>. \<open>SystemInit\<close> brings the clock unit back to its
  reset state and then configures the clock that a macro of the file selects, here the parameter
  \<open>system_clock\<close>; the value of the crystal is a parameter too. A configuration that waits for
  hardware that never gets ready does not return, and its value is then \<open>None\<close>. Below, the contract
  of the clock unit that the file relies on, and the clock that results.
\<close>

section \<open>Registers and fields\<close>

abbreviation (input) RCU_CTL_IRC8MEN :: reg where "RCU_CTL_IRC8MEN \<equiv> BIT 0"
abbreviation (input) RCU_CTL_IRC8MSTB :: reg where "RCU_CTL_IRC8MSTB \<equiv> BIT 1"
abbreviation (input) RCU_CTL_HXTALEN :: reg where "RCU_CTL_HXTALEN \<equiv> BIT 16"
abbreviation (input) RCU_CTL_HXTALSTB :: reg where "RCU_CTL_HXTALSTB \<equiv> BIT 17"
abbreviation (input) RCU_CTL_HXTALBPS :: reg where "RCU_CTL_HXTALBPS \<equiv> BIT 18"
abbreviation (input) RCU_CTL_CKMEN :: reg where "RCU_CTL_CKMEN \<equiv> BIT 19"
abbreviation (input) RCU_CTL_PLLEN :: reg where "RCU_CTL_PLLEN \<equiv> BIT 24"
abbreviation (input) RCU_CTL_PLLSTB :: reg where "RCU_CTL_PLLSTB \<equiv> BIT 25"
abbreviation (input) RCU_CTL_PLL1EN :: reg where "RCU_CTL_PLL1EN \<equiv> BIT 26"
abbreviation (input) RCU_CTL_PLL1STB :: reg where "RCU_CTL_PLL1STB \<equiv> BIT 27"
abbreviation (input) RCU_CTL_PLL2EN :: reg where "RCU_CTL_PLL2EN \<equiv> BIT 28"
abbreviation (input) RCU_CTL_PLL2STB :: reg where "RCU_CTL_PLL2STB \<equiv> BIT 29"

definition CFG0_SCS :: "reg \<Rightarrow> reg" where "CFG0_SCS v = BITS 0 1 AND v"
definition CFG0_SCSS :: "reg \<Rightarrow> reg" where "CFG0_SCSS v = BITS 2 3 AND push_bit 2 v"
definition CFG0_AHBPSC :: "reg \<Rightarrow> reg" where "CFG0_AHBPSC v = BITS 4 7 AND push_bit 4 v"
definition CFG0_APB1PSC :: "reg \<Rightarrow> reg" where "CFG0_APB1PSC v = BITS 8 10 AND push_bit 8 v"
definition CFG0_APB2PSC :: "reg \<Rightarrow> reg" where "CFG0_APB2PSC v = BITS 11 13 AND push_bit 11 v"
definition CFG0_PLLMF :: "reg \<Rightarrow> reg" where "CFG0_PLLMF v = BITS 18 21 AND push_bit 18 v"
definition CFG1_PREDV0 :: "reg \<Rightarrow> reg" where "CFG1_PREDV0 v = BITS 0 3 AND v"
definition CFG1_PREDV1 :: "reg \<Rightarrow> reg" where "CFG1_PREDV1 v = BITS 4 7 AND push_bit 4 v"
definition CFG1_PLL1MF :: "reg \<Rightarrow> reg" where "CFG1_PLL1MF v = BITS 8 11 AND push_bit 8 v"
definition CFG1_PLL2MF :: "reg \<Rightarrow> reg" where "CFG1_PLL2MF v = BITS 12 15 AND push_bit 12 v"

abbreviation (input) PLLMF_4 :: reg where "PLLMF_4 \<equiv> RCU_CFG0_PLLMF_4"
abbreviation (input) RCU_CKSYSSRC_HXTAL :: reg where "RCU_CKSYSSRC_HXTAL \<equiv> CFG0_SCS 1"
abbreviation (input) RCU_CKSYSSRC_PLL :: reg where "RCU_CKSYSSRC_PLL \<equiv> CFG0_SCS 2"
abbreviation (input) RCU_SCSS_HXTAL :: reg where "RCU_SCSS_HXTAL \<equiv> CFG0_SCSS 1"
abbreviation (input) RCU_SCSS_PLL :: reg where "RCU_SCSS_PLL \<equiv> CFG0_SCSS 2"
abbreviation (input) RCU_AHB_CKSYS_DIV1 :: reg where "RCU_AHB_CKSYS_DIV1 \<equiv> CFG0_AHBPSC 0"
abbreviation (input) RCU_APB1_CKAHB_DIV2 :: reg where "RCU_APB1_CKAHB_DIV2 \<equiv> CFG0_APB1PSC 4"
abbreviation (input) RCU_APB2_CKAHB_DIV1 :: reg where "RCU_APB2_CKAHB_DIV1 \<equiv> CFG0_APB2PSC 0"
abbreviation (input) RCU_PLLSRC_HXTAL :: reg where "RCU_PLLSRC_HXTAL \<equiv> RCU_CFG0_PLLSEL"
abbreviation (input) RCU_PLL_MUL6 :: reg where "RCU_PLL_MUL6 \<equiv> CFG0_PLLMF 4"
abbreviation (input) RCU_PLL_MUL9 :: reg where "RCU_PLL_MUL9 \<equiv> CFG0_PLLMF 7"
abbreviation (input) RCU_PLL_MUL12 :: reg where "RCU_PLL_MUL12 \<equiv> CFG0_PLLMF 10"
abbreviation (input) RCU_PLL_MUL14 :: reg where "RCU_PLL_MUL14 \<equiv> CFG0_PLLMF 12"
abbreviation (input) RCU_PLL_MUL18 :: reg where "RCU_PLL_MUL18 \<equiv> PLLMF_4 OR CFG0_PLLMF 1"
abbreviation (input) RCU_PLL_MUL24 :: reg where "RCU_PLL_MUL24 \<equiv> PLLMF_4 OR CFG0_PLLMF 7"
abbreviation (input) RCU_PLL_MUL27 :: reg where "RCU_PLL_MUL27 \<equiv> PLLMF_4 OR CFG0_PLLMF 10"
abbreviation (input) RCU_PREDV0SRC_HXTAL :: reg where "RCU_PREDV0SRC_HXTAL \<equiv> 0"
abbreviation (input) RCU_PREDV0SRC_CKPLL1 :: reg where "RCU_PREDV0SRC_CKPLL1 \<equiv> RCU_CFG1_PREDV0SEL"
abbreviation (input) RCU_PREDV0_DIV2 :: reg where "RCU_PREDV0_DIV2 \<equiv> CFG1_PREDV0 1"
abbreviation (input) RCU_PREDV0_DIV10 :: reg where "RCU_PREDV0_DIV10 \<equiv> CFG1_PREDV0 9"
abbreviation (input) RCU_PREDV1_DIV2 :: reg where "RCU_PREDV1_DIV2 \<equiv> CFG1_PREDV1 1"
abbreviation (input) RCU_PREDV1_DIV5 :: reg where "RCU_PREDV1_DIV5 \<equiv> CFG1_PREDV1 4"
abbreviation (input) RCU_PLL1_MUL8 :: reg where "RCU_PLL1_MUL8 \<equiv> CFG1_PLL1MF 6"
abbreviation (input) RCU_PLL1_MUL20 :: reg where "RCU_PLL1_MUL20 \<equiv> CFG1_PLL1MF 15"
abbreviation (input) RCU_PLL2_MUL20 :: reg where "RCU_PLL2_MUL20 \<equiv> CFG1_PLL2MF 15"

section \<open>The steps that the configurations share\<close>

text \<open>\<open>while(0U == (REG & x)){}\<close>\<close>

definition wait_set :: "'h bus \<Rightarrow> 32 word \<Rightarrow> reg \<Rightarrow> 'h \<Rightarrow> 'h option" where
  "wait_set B a x = spin_while B a (\<lambda>v. v AND x = 0)"

text \<open>Enable an oscillator, read its flag until it is set or the count is reached, read it once
  more and hang if it is not set.\<close>

definition start_oscillator :: "'h bus \<Rightarrow> reg \<Rightarrow> reg \<Rightarrow> reg \<Rightarrow> 'h \<Rightarrow> 'h option" where
  "start_oscillator B en stb limit h =
     (let h = set_bits B RCU_CTL en h;
          (v, h) = poll_while B RCU_CTL (\<lambda>v. v AND stb = 0) (unat limit - 1) h;
          (v, h) = rd32 B RCU_CTL h
      in if v AND stb = 0 then None else Some h)"

definition start_hxtal :: "'h bus \<Rightarrow> 'h \<Rightarrow> 'h option" where
  "start_hxtal B = start_oscillator B RCU_CTL_HXTALEN RCU_CTL_HXTALSTB HXTAL_STARTUP_TIMEOUT"

definition start_irc8m :: "'h bus \<Rightarrow> 'h \<Rightarrow> 'h option" where
  "start_irc8m B = start_oscillator B RCU_CTL_IRC8MEN RCU_CTL_IRC8MSTB IRC8M_STARTUP_TIMEOUT"

text \<open>AHB = SYSCLK, APB2 = AHB, APB1 = AHB/2\<close>

definition set_prescalers :: "'h bus \<Rightarrow> 'h \<Rightarrow> 'h" where
  "set_prescalers B h =
     (let h = set_bits B RCU_CFG0 RCU_AHB_CKSYS_DIV1 h;
          h = set_bits B RCU_CFG0 RCU_APB2_CKAHB_DIV1 h
      in set_bits B RCU_CFG0 RCU_APB1_CKAHB_DIV2 h)"

definition set_pll :: "'h bus \<Rightarrow> reg \<Rightarrow> 'h \<Rightarrow> 'h" where
  "set_pll B x h = set_bits B RCU_CFG0 x (clear_bits B RCU_CFG0 (RCU_CFG0_PLLMF OR RCU_CFG0_PLLMF_4) h)"

definition set_dividers :: "'h bus \<Rightarrow> reg \<Rightarrow> 'h \<Rightarrow> 'h" where
  "set_dividers B x h = set_bits B RCU_CFG1 x (clear_bits B RCU_CFG1
     (RCU_CFG1_PREDV0SEL OR RCU_CFG1_PLL1MF OR RCU_CFG1_PREDV1 OR RCU_CFG1_PREDV0) h)"

definition start_pll1 :: "'h bus \<Rightarrow> 'h \<Rightarrow> 'h option" where
  "start_pll1 B h = wait_set B RCU_CTL RCU_CTL_PLL1STB (set_bits B RCU_CTL RCU_CTL_PLL1EN h)"

definition start_pll2 :: "'h bus \<Rightarrow> 'h \<Rightarrow> 'h option" where
  "start_pll2 B h = wait_set B RCU_CTL RCU_CTL_PLL2STB (set_bits B RCU_CTL RCU_CTL_PLL2EN h)"

text \<open>The crystal of 25 MHz through PLL1, 25/5*8/10, or that of 8 MHz halved.\<close>

definition crystal_to_4M :: "'h bus \<Rightarrow> reg \<Rightarrow> 'h \<Rightarrow> 'h option" where
  "crystal_to_4M B HXTAL_VALUE h =
     (if HXTAL_VALUE = 25000000
      then start_pll1 B (set_dividers B
             (RCU_PREDV0SRC_CKPLL1 OR RCU_PLL1_MUL8 OR RCU_PREDV1_DIV5 OR RCU_PREDV0_DIV10) h)
      else if HXTAL_VALUE = 8000000
      then Some (set_dividers B (RCU_PREDV0SRC_HXTAL OR RCU_PREDV0_DIV2) h)
      else Some h)"

definition select_clock :: "'h bus \<Rightarrow> reg \<Rightarrow> reg \<Rightarrow> 'h \<Rightarrow> 'h option" where
  "select_clock B src scss h =
     wait_set B RCU_CFG0 scss (set_bits B RCU_CFG0 src (clear_bits B RCU_CFG0 RCU_CFG0_SCS h))"

definition switch_to_pll :: "'h bus \<Rightarrow> 'h \<Rightarrow> 'h option" where
  "switch_to_pll B h = do {
     h \<leftarrow> wait_set B RCU_CTL RCU_CTL_PLLSTB (set_bits B RCU_CTL RCU_CTL_PLLEN h);
     select_clock B RCU_CKSYSSRC_PLL RCU_SCSS_PLL h
   }"

section \<open>The configurations\<close>

definition system_clock_hxtal :: "'h bus \<Rightarrow> 'h \<Rightarrow> 'h option" where
  "system_clock_hxtal B h = do {
     h \<leftarrow> start_hxtal B h;
     select_clock B RCU_CKSYSSRC_HXTAL RCU_SCSS_HXTAL (set_prescalers B h)
   }"

definition system_clock_24m_hxtal :: "'h bus \<Rightarrow> reg \<Rightarrow> 'h \<Rightarrow> 'h option" where
  "system_clock_24m_hxtal B HXTAL_VALUE h = do {
     h \<leftarrow> start_hxtal B h;
     h \<leftarrow> crystal_to_4M B HXTAL_VALUE (set_pll B (RCU_PLLSRC_HXTAL OR RCU_PLL_MUL6) (set_prescalers B h));
     switch_to_pll B h
   }"

definition system_clock_36m_hxtal :: "'h bus \<Rightarrow> reg \<Rightarrow> 'h \<Rightarrow> 'h option" where
  "system_clock_36m_hxtal B HXTAL_VALUE h = do {
     h \<leftarrow> start_hxtal B h;
     h \<leftarrow> crystal_to_4M B HXTAL_VALUE (set_pll B (RCU_PLLSRC_HXTAL OR RCU_PLL_MUL9) (set_prescalers B h));
     switch_to_pll B h
   }"

definition system_clock_48m_hxtal :: "'h bus \<Rightarrow> reg \<Rightarrow> 'h \<Rightarrow> 'h option" where
  "system_clock_48m_hxtal B HXTAL_VALUE h = do {
     h \<leftarrow> start_hxtal B h;
     h \<leftarrow> crystal_to_4M B HXTAL_VALUE (set_pll B (RCU_PLLSRC_HXTAL OR RCU_PLL_MUL12) (set_prescalers B h));
     switch_to_pll B h
   }"

definition system_clock_56m_hxtal :: "'h bus \<Rightarrow> reg \<Rightarrow> 'h \<Rightarrow> 'h option" where
  "system_clock_56m_hxtal B HXTAL_VALUE h = do {
     h \<leftarrow> start_hxtal B h;
     h \<leftarrow> crystal_to_4M B HXTAL_VALUE (set_pll B (RCU_PLLSRC_HXTAL OR RCU_PLL_MUL14) (set_prescalers B h));
     switch_to_pll B h
   }"

definition system_clock_72m_hxtal :: "'h bus \<Rightarrow> reg \<Rightarrow> 'h \<Rightarrow> 'h option" where
  "system_clock_72m_hxtal B HXTAL_VALUE h = do {
     h \<leftarrow> start_hxtal B h;
     h \<leftarrow> crystal_to_4M B HXTAL_VALUE (set_pll B (RCU_PLLSRC_HXTAL OR RCU_PLL_MUL18) (set_prescalers B h));
     switch_to_pll B h
   }"

text \<open>The configuration for 96 MHz sets the factor only for a crystal that it knows.\<close>

definition system_clock_96m_hxtal :: "'h bus \<Rightarrow> reg \<Rightarrow> 'h \<Rightarrow> 'h option" where
  "system_clock_96m_hxtal B HXTAL_VALUE h = do {
     h \<leftarrow> start_hxtal B h;
     let h = set_prescalers B h;
     h \<leftarrow> crystal_to_4M B HXTAL_VALUE
       (if HXTAL_VALUE = 25000000 \<or> HXTAL_VALUE = 8000000
        then set_pll B (RCU_PLLSRC_HXTAL OR RCU_PLL_MUL24) h else h);
     switch_to_pll B h
   }"

text \<open>The one for 108 MHz starts PLL1 and PLL2 whatever the crystal is.\<close>

definition system_clock_108m_hxtal :: "'h bus \<Rightarrow> reg \<Rightarrow> 'h \<Rightarrow> 'h option" where
  "system_clock_108m_hxtal B HXTAL_VALUE h = do {
     h \<leftarrow> start_hxtal B h;
     let h = set_pll B (RCU_PLLSRC_HXTAL OR RCU_PLL_MUL27) (set_prescalers B h);
     h \<leftarrow> (if HXTAL_VALUE = 25000000
           then do {
             h \<leftarrow> start_pll1 B (set_dividers B
               (RCU_PREDV0SRC_CKPLL1 OR RCU_PREDV1_DIV5 OR RCU_PLL1_MUL8 OR RCU_PREDV0_DIV10) h);
             start_pll2 B h
           }
           else if HXTAL_VALUE = 8000000
           then do {
             h \<leftarrow> start_pll1 B (set_dividers B (RCU_PREDV0SRC_HXTAL OR RCU_PREDV0_DIV2 OR RCU_PREDV1_DIV2
               OR RCU_PLL1_MUL20 OR RCU_PLL2_MUL20) h);
             start_pll2 B h
           }
           else Some h);
     switch_to_pll B h
   }"

definition system_clock_48m_irc8m :: "'h bus \<Rightarrow> 'h \<Rightarrow> 'h option" where
  "system_clock_48m_irc8m B h = do {
     h \<leftarrow> start_irc8m B h;
     switch_to_pll B (set_pll B RCU_PLL_MUL12 (set_prescalers B h))
   }"

definition system_clock_72m_irc8m :: "'h bus \<Rightarrow> 'h \<Rightarrow> 'h option" where
  "system_clock_72m_irc8m B h = do {
     h \<leftarrow> start_irc8m B h;
     switch_to_pll B (set_pll B RCU_PLL_MUL18 (set_prescalers B h))
   }"

definition system_clock_108m_irc8m :: "'h bus \<Rightarrow> 'h \<Rightarrow> 'h option" where
  "system_clock_108m_irc8m B h = do {
     h \<leftarrow> start_irc8m B h;
     switch_to_pll B (set_pll B RCU_PLL_MUL27 (set_prescalers B h))
   }"

text \<open>Which of the macros is defined, and the initial value of \<open>SystemCoreClock\<close>.\<close>

datatype system_clock =
  CLOCK_HXTAL | CLOCK_24M_PLL_HXTAL | CLOCK_36M_PLL_HXTAL | CLOCK_48M_PLL_HXTAL | CLOCK_56M_PLL_HXTAL
  | CLOCK_72M_PLL_HXTAL | CLOCK_96M_PLL_HXTAL | CLOCK_108M_PLL_HXTAL | CLOCK_48M_PLL_IRC8M
  | CLOCK_72M_PLL_IRC8M | CLOCK_108M_PLL_IRC8M | CLOCK_NONE

fun SystemCoreClock :: "system_clock \<Rightarrow> reg \<Rightarrow> reg" where
  "SystemCoreClock CLOCK_HXTAL HXTAL_VALUE = HXTAL_VALUE"
| "SystemCoreClock CLOCK_24M_PLL_HXTAL HXTAL_VALUE = 24000000"
| "SystemCoreClock CLOCK_36M_PLL_HXTAL HXTAL_VALUE = 36000000"
| "SystemCoreClock CLOCK_48M_PLL_HXTAL HXTAL_VALUE = 48000000"
| "SystemCoreClock CLOCK_56M_PLL_HXTAL HXTAL_VALUE = 56000000"
| "SystemCoreClock CLOCK_72M_PLL_HXTAL HXTAL_VALUE = 72000000"
| "SystemCoreClock CLOCK_96M_PLL_HXTAL HXTAL_VALUE = 96000000"
| "SystemCoreClock CLOCK_108M_PLL_HXTAL HXTAL_VALUE = 108000000"
| "SystemCoreClock CLOCK_48M_PLL_IRC8M HXTAL_VALUE = 48000000"
| "SystemCoreClock CLOCK_72M_PLL_IRC8M HXTAL_VALUE = 72000000"
| "SystemCoreClock CLOCK_108M_PLL_IRC8M HXTAL_VALUE = 108000000"
| "SystemCoreClock CLOCK_NONE HXTAL_VALUE = IRC8M_VALUE"

fun system_clock_config :: "'h bus \<Rightarrow> system_clock \<Rightarrow> reg \<Rightarrow> 'h \<Rightarrow> 'h option" where
  "system_clock_config B CLOCK_HXTAL HXTAL_VALUE h = system_clock_hxtal B h"
| "system_clock_config B CLOCK_24M_PLL_HXTAL HXTAL_VALUE h = system_clock_24m_hxtal B HXTAL_VALUE h"
| "system_clock_config B CLOCK_36M_PLL_HXTAL HXTAL_VALUE h = system_clock_36m_hxtal B HXTAL_VALUE h"
| "system_clock_config B CLOCK_48M_PLL_HXTAL HXTAL_VALUE h = system_clock_48m_hxtal B HXTAL_VALUE h"
| "system_clock_config B CLOCK_56M_PLL_HXTAL HXTAL_VALUE h = system_clock_56m_hxtal B HXTAL_VALUE h"
| "system_clock_config B CLOCK_72M_PLL_HXTAL HXTAL_VALUE h = system_clock_72m_hxtal B HXTAL_VALUE h"
| "system_clock_config B CLOCK_96M_PLL_HXTAL HXTAL_VALUE h = system_clock_96m_hxtal B HXTAL_VALUE h"
| "system_clock_config B CLOCK_108M_PLL_HXTAL HXTAL_VALUE h = system_clock_108m_hxtal B HXTAL_VALUE h"
| "system_clock_config B CLOCK_48M_PLL_IRC8M HXTAL_VALUE h = system_clock_48m_irc8m B h"
| "system_clock_config B CLOCK_72M_PLL_IRC8M HXTAL_VALUE h = system_clock_72m_irc8m B h"
| "system_clock_config B CLOCK_108M_PLL_IRC8M HXTAL_VALUE h = system_clock_108m_irc8m B h"
| "system_clock_config B CLOCK_NONE HXTAL_VALUE h = Some h"

definition SystemInit :: "'h bus \<Rightarrow> system_clock \<Rightarrow> reg \<Rightarrow> 'h \<Rightarrow> 'h option" where
  "SystemInit B clock HXTAL_VALUE h =
     (let h = set_bits B RCU_CTL RCU_CTL_IRC8MEN h;
          h = clear_bits B RCU_CFG0 (RCU_CFG0_SCS OR RCU_CFG0_AHBPSC OR RCU_CFG0_APB1PSC OR RCU_CFG0_APB2PSC OR
                RCU_CFG0_ADCPSC OR RCU_CFG0_ADCPSC_2 OR RCU_CFG0_CKOUT0SEL) h;
          h = clear_bits B RCU_CTL (RCU_CTL_HXTALEN OR RCU_CTL_CKMEN OR RCU_CTL_PLLEN) h;
          h = clear_bits B RCU_CTL RCU_CTL_HXTALBPS h;
          h = clear_bits B RCU_CFG0 (RCU_CFG0_PLLSEL OR RCU_CFG0_PREDV0_LSB OR RCU_CFG0_PLLMF OR
                RCU_CFG0_USBFSPSC OR RCU_CFG0_PLLMF_4) h;
          h = wr32 B RCU_CFG1 0 h;
          h = clear_bits B RCU_CTL (RCU_CTL_PLLEN OR RCU_CTL_PLL1EN OR RCU_CTL_PLL2EN OR RCU_CTL_CKMEN OR
                RCU_CTL_HXTALEN) h;
          h = wr32 B RCU_INT 0x00FF0000 h
      in system_clock_config B clock HXTAL_VALUE h)"

text \<open>The new value of \<open>SystemCoreClock\<close>.\<close>

definition SystemCoreClockUpdate :: "'h bus \<Rightarrow> reg \<Rightarrow> 'h \<Rightarrow> reg \<times> 'h" where
  "SystemCoreClockUpdate B HXTAL_VALUE h =
     (let (v, h) = rd32 B RCU_CFG0 h; scss = GET_BITS v 2 3 in
      if scss = 0 then (IRC8M_VALUE, h)
      else if scss = 1 then (HXTAL_VALUE, h)
      else if scss = 2
      then let (v, h) = rd32 B RCU_CFG0 h; pllsel = v AND RCU_CFG0_PLLSEL;
               (ck_src, h) =
                 (if pllsel = 0 then (IRC8M_VALUE div 2, h)
                  else let (v, h) = rd32 B RCU_CFG1 h; predv0sel = v AND RCU_CFG1_PREDV0SEL;
                           (ck_src, h) =
                             (if predv0sel = RCU_PREDV0SRC_CKPLL1
                              then let (v, h) = rd32 B RCU_CFG1 h; predv1 = drop_bit 4 (v AND RCU_CFG1_PREDV1) + 1;
                                       (v, h) = rd32 B RCU_CFG1 h; pll1mf = drop_bit 8 (v AND RCU_CFG1_PLL1MF) + 2;
                                       pll1mf = (if pll1mf = 17 then 20 else pll1mf)
                                   in ((HXTAL_VALUE div predv1) * pll1mf, h)
                              else (HXTAL_VALUE, h));
                           (v, h) = rd32 B RCU_CFG1 h; predv0 = (v AND RCU_CFG1_PREDV0) + 1
                       in (ck_src div predv0, h));
               (v, h) = rd32 B RCU_CFG0 h; pllmf = GET_BITS v 18 21;
               (v, h) = rd32 B RCU_CFG0 h;
               pllmf = (if v AND RCU_CFG0_PLLMF_4 \<noteq> 0 then pllmf OR 0x10 else pllmf);
               pllmf = (if pllmf \<ge> 15 then pllmf + 1 else pllmf + 2);
               clk = ck_src * pllmf;
               clk = (if pllmf = 15 then ck_src * 6 + ck_src div 2 else clk)
           in (clk, h)
      else (IRC8M_VALUE, h))"

lemma core_clock_update: "SystemCoreClockUpdate B xtal = cksys_freq B xtal"
proof
  fix h
  have swap: "(if \<not> P then x else y) = (if P then y else x)" for P and x y :: 'a by simp
  have pll: "(if v AND BIT 16 = 0 then x else y) = (if v AND BIT 16 = BIT 16 then y else x)"
    for v :: reg and x y :: "reg \<times> 'a"
    using tested_bit [of 16 v] by simp
  have factor: "(if p \<ge> 15 then p + 1 else p + 2) = (if p < 15 then p + 2 else p + 1)" for p :: reg
    by (simp add: linorder_not_less [symmetric])
  show "SystemCoreClockUpdate B xtal h = cksys_freq B xtal h"
    unfolding SystemCoreClockUpdate_def cksys_freq_def pll_source_def pll_factor_def Let_def split_beta
    by (simp only: pll factor fst_conv snd_conv)
qed

end
