(* ===== verification/SystemClockSpec.thy ===== *)
theory SystemClockSpec
  imports SystemClock
begin

text \<open>
  The contract between \<open>SystemInit\<close> and the clock unit, and the clock that results. The registers
  read as they were written, but for the bits with which the hardware answers: an oscillator that is
  enabled and fed reports that it is stable within the time that the code allows, and the clock in
  use becomes the one that is selected, if that one runs. Nothing is assumed about when.
\<close>

section \<open>The clock unit\<close>

definition runs :: "('h \<Rightarrow> 32 word \<Rightarrow> reg) \<Rightarrow> nat \<Rightarrow> 'h \<Rightarrow> bool" where
  "runs val en h \<longleftrightarrow>
     (let ctl = val h RCU_CTL; cfg0 = val h RCU_CFG0; cfg1 = val h RCU_CFG1 in
      bit ctl en \<and>
      (en = 24 \<longrightarrow> (if bit cfg0 16 then bit ctl 16 \<and> (bit cfg1 16 \<longrightarrow> bit ctl 26) else bit ctl 0)) \<and>
      (en = 26 \<or> en = 28 \<longrightarrow> bit ctl 16))"

definition source_enable :: "reg \<Rightarrow> nat" where
  "source_enable scs = (if scs = 0 then 0 else if scs = 1 then 16 else 24)"

definition settled :: "'h bus \<Rightarrow> ('h \<Rightarrow> 32 word \<Rightarrow> reg) \<Rightarrow> 'h \<Rightarrow> bool" where
  "settled B val h \<longleftrightarrow> GET_BITS (fst (rd32 B RCU_CFG0 h)) 2 3 = val h RCU_CFG0 AND 3"

locale clock_unit =
  fixes B :: "'h bus" and val :: "'h \<Rightarrow> 32 word \<Rightarrow> reg"
  assumes rd_keeps: "a \<in> {RCU_CTL, RCU_CFG0, RCU_CFG1} \<Longrightarrow> val (snd (rd32 B a h)) = val h"
    and rd_ctl: "fst (rd32 B RCU_CTL h) AND 0xD5FDFFFD = val h RCU_CTL AND 0xD5FDFFFD"
    and rd_cfg0: "fst (rd32 B RCU_CFG0 h) AND NOT 0xC = val h RCU_CFG0 AND NOT 0xC"
    and rd_cfg1: "fst (rd32 B RCU_CFG1 h) = val h RCU_CFG1"
    and wr_reg: "a \<in> {RCU_CTL, RCU_CFG0, RCU_CFG1, RCU_INT} \<Longrightarrow> b \<in> {RCU_CTL, RCU_CFG0, RCU_CFG1} \<Longrightarrow>
      val (wr32 B a v h) b = (if b = a then v else val h b)"
    and starts: "en \<in> {0, 16, 24, 26, 28} \<Longrightarrow> runs val en h \<Longrightarrow> \<exists>n < 0x500. bit (answer B RCU_CTL n h) (Suc en)"
    and stays: "en \<in> {0, 16, 24, 26, 28} \<Longrightarrow> bit (fst (rd32 B RCU_CTL h)) (Suc en) \<Longrightarrow>
      bit (fst (rd32 B RCU_CTL (snd (rd32 B RCU_CTL h)))) (Suc en)"
    and switches: "val h RCU_CFG0 AND 3 \<noteq> 3 \<Longrightarrow> runs val (source_enable (val h RCU_CFG0 AND 3)) h \<Longrightarrow>
      \<exists>n. settled B val (after_reads B RCU_CFG0 n h)"
    and no_fourth: "GET_BITS (fst (rd32 B RCU_CFG0 h)) 2 3 \<noteq> 3"
    and stays_settled: "settled B val h \<Longrightarrow> a \<in> {RCU_CFG0, RCU_CFG1} \<Longrightarrow> settled B val (snd (rd32 B a h))"

section \<open>Total correctness of the steps\<close>

definition ensures :: "'h option \<Rightarrow> ('h \<Rightarrow> bool) \<Rightarrow> bool" where
  "ensures m Q \<longleftrightarrow> (\<exists>h. m = Some h \<and> Q h)"

lemma ensures_Some [simp]: "ensures (Some h) Q \<longleftrightarrow> Q h"
  by (simp add: ensures_def)

lemma ensures_bind: "ensures m P \<Longrightarrow> (\<And>h. P h \<Longrightarrow> ensures (f h) Q) \<Longrightarrow> ensures (m \<bind> f) Q"
  by (auto simp: ensures_def)

lemma ensures_mono: "ensures m P \<Longrightarrow> (\<And>h. P h \<Longrightarrow> Q h) \<Longrightarrow> ensures m Q"
  by (auto simp: ensures_def)

text \<open>What the steps keep track of: the oscillators that are enabled, and the fields of the two
  configuration registers that the frequencies depend on.\<close>

definition clock_regs :: "('h \<Rightarrow> 32 word \<Rightarrow> reg) \<Rightarrow> reg \<Rightarrow> reg \<Rightarrow> reg \<Rightarrow> 'h \<Rightarrow> bool" where
  "clock_regs val c c0 c1 h \<longleftrightarrow> val h RCU_CTL AND 0x15010001 = c \<and>
     val h RCU_CFG0 AND 0x203D3FF3 = c0 \<and> val h RCU_CFG1 = c1"

lemma masked_set: "(w OR x) AND m = (w AND m) OR (x AND m)" for w x m :: reg
  by (rule bit_word_eqI) (auto simp: bit_simps)

lemma masked_clear: "(w AND NOT x) AND m = (w AND m) AND NOT x" for w x m :: reg
  by (rule bit_word_eqI) (auto simp: bit_simps)

lemma masked_more: "w AND m = v AND m \<Longrightarrow> m AND m' = m' \<Longrightarrow> w AND m' = v AND m'" for w v m m' :: reg
  by (metis and.assoc)

lemma drop_push_3: "drop_bit 2 (push_bit 2 (v AND 3)) = v AND 3" for v :: reg
proof -
  have "(3 :: reg) = mask 2" by (simp add: mask_eq_exp_minus_1)
  moreover have "drop_bit 2 (push_bit 2 (v AND mask 2)) = v AND mask 2"
    by (rule bit_word_eqI) (auto simp: bit_simps)
  ultimately show ?thesis by simp
qed

lemma source_test:
  assumes "GET_BITS v 2 3 \<noteq> 3" "src = 1 \<and> scss = BIT 2 \<or> src = 2 \<and> scss = BIT 3"
  shows "v AND scss = 0 \<longleftrightarrow> GET_BITS v 2 3 \<noteq> src"
proof -
  have i: "2 + i \<le> 3 \<longleftrightarrow> i = 0 \<or> i = 1" for i :: nat by auto
  have "GET_BITS v 2 3 = (if bit v 2 then 1 else 0) OR (if bit v 3 then 2 else 0)"
  proof (rule bit_word_eqI)
    fix i :: nat
    consider "i = 0" | "i = 1" | "\<not> 2 + i \<le> 3" using i [of i] by blast
    then show "bit (GET_BITS v 2 3) i \<longleftrightarrow> bit ((if bit v 2 then 1 else 0) OR (if bit v 3 then 2 else 0) :: reg) i"
      by cases (auto simp: bit_GET_BITS bit_simps numeral_2_eq_2 numeral_3_eq_3)
  qed
  then show ?thesis using assms by (auto simp: tested_bit(2) split: if_splits)
qed

context clock_unit
begin

lemma read_masked:
  "fst (rd32 B RCU_CTL h) AND 0x15010001 = val h RCU_CTL AND 0x15010001"
  "fst (rd32 B RCU_CFG0 h) AND 0x203D3FF3 = val h RCU_CFG0 AND 0x203D3FF3"
  by (rule masked_more [OF rd_ctl] masked_more [OF rd_cfg0], simp)+

lemma step_cfg0:
  assumes "clock_regs val c c0 c1 h"
  shows "clock_regs val c (c0 OR (x AND 0x203D3FF3)) c1 (set_bits B RCU_CFG0 x h)"
    and "clock_regs val c (c0 AND NOT x) c1 (clear_bits B RCU_CFG0 x h)"
  using assms read_masked rd_keeps
  by (simp_all add: clock_regs_def set_bits_def clear_bits_def modify_def split_beta wr_reg masked_set masked_clear)

lemma step_ctl:
  assumes "clock_regs val c c0 c1 h"
  shows "clock_regs val (c OR (x AND 0x15010001)) c0 c1 (set_bits B RCU_CTL x h)"
    and "clock_regs val (c AND NOT x) c0 c1 (clear_bits B RCU_CTL x h)"
  using assms read_masked rd_keeps
  by (simp_all add: clock_regs_def set_bits_def clear_bits_def modify_def split_beta wr_reg masked_set masked_clear)

lemma step_cfg1:
  assumes "clock_regs val c c0 c1 h"
  shows "clock_regs val c c0 (c1 OR x) (set_bits B RCU_CFG1 x h)"
    and "clock_regs val c c0 (c1 AND NOT x) (clear_bits B RCU_CFG1 x h)"
    and "clock_regs val c c0 x (wr32 B RCU_CFG1 x h)"
    and "clock_regs val c c0 c1 (wr32 B RCU_INT x h)"
  using assms rd_keeps rd_cfg1
  by (simp_all add: clock_regs_def set_bits_def clear_bits_def modify_def split_beta wr_reg)

lemma after_reads_keeps: "a \<in> {RCU_CTL, RCU_CFG0, RCU_CFG1} \<Longrightarrow> val (after_reads B a n h) = val h"
  by (induction n arbitrary: h) (simp_all add: rd_keeps)

lemma clock_regs_after_reads:
  "a \<in> {RCU_CTL, RCU_CFG0, RCU_CFG1} \<Longrightarrow> clock_regs val c c0 c1 (after_reads B a n h) = clock_regs val c c0 c1 h"
  by (simp add: clock_regs_def after_reads_keeps)

lemma bit_masked: "w AND m = c \<Longrightarrow> bit m n \<Longrightarrow> bit w n \<longleftrightarrow> bit c n" for w m c :: reg
  by (auto simp: bit_and_iff)

lemma runs_regs:
  assumes "clock_regs val c c0 c1 h" "en \<in> {0, 16, 24, 26, 28}"
  shows "runs val en h \<longleftrightarrow> bit c en \<and>
    (en = 24 \<longrightarrow> (if bit c0 16 then bit c 16 \<and> (bit c1 16 \<longrightarrow> bit c 26) else bit c 0)) \<and>
    (en = 26 \<or> en = 28 \<longrightarrow> bit c 16)"
proof -
  have "bit (val h RCU_CTL) n \<longleftrightarrow> bit c n" if "n \<in> {0, 16, 24, 26, 28}" for n
    using assms(1) that by (intro bit_masked [where m = "0x15010001"]) (auto simp: clock_regs_def)
  moreover have "bit (val h RCU_CFG0) 16 \<longleftrightarrow> bit c0 16"
    using assms(1) by (intro bit_masked [where m = "0x203D3FF3"]) (auto simp: clock_regs_def)
  moreover have "val h RCU_CFG1 = c1" using assms(1) by (simp add: clock_regs_def)
  ultimately show ?thesis using assms(2) by (auto simp: runs_def Let_def)
qed

lemma wait_stable:
  assumes "clock_regs val c c0 c1 h" "en \<in> {0, 16, 24, 26, 28}" "runs val en h"
  shows "ensures (wait_set B RCU_CTL (BIT (Suc en)) h) (clock_regs val c c0 c1)"
proof -
  obtain n where "bit (answer B RCU_CTL n h) (Suc en)" using starts [OF assms(2,3)] by blast
  then have "answer B RCU_CTL n h AND BIT (Suc en) \<noteq> 0" using assms(2) by (auto simp: and_BIT)
  then obtain h' where h': "wait_set B RCU_CTL (BIT (Suc en)) h = Some h'"
    using spin_while_iff [of B RCU_CTL "\<lambda>v. v AND BIT (Suc en) = 0" h] unfolding wait_set_def by blast
  then obtain k where "h' = after_reads B RCU_CTL (Suc k) h"
    unfolding wait_set_def by (auto dest: spin_while_Some)
  then show ?thesis
    using assms(1) h' clock_regs_after_reads [of RCU_CTL c c0 c1 "Suc k" h] by (simp add: ensures_def)
qed

lemma oscillator_starts:
  assumes "clock_regs val c c0 c1 h" "en \<in> {0, 16}" "0x500 \<le> limit"
  shows "ensures (start_oscillator B (BIT en) (BIT (Suc en)) limit h)
    (clock_regs val (c OR (BIT en AND 0x15010001)) c0 c1)"
proof -
  let ?h = "set_bits B RCU_CTL (BIT en) h" and ?c = "c OR (BIT en AND 0x15010001)"
  have en: "en \<in> {0, 16, 24, 26, 28}" "Suc en < 32" using assms(2) by auto
  have set: "clock_regs val ?c c0 c1 ?h" by (rule step_ctl(1) [OF assms(1)])
  have "bit ?c en" using assms(2) by (auto simp: bit_or_iff bit_and_iff)
  then have "runs val en ?h" using runs_regs [OF set en(1)] assms(2) by auto
  then have ex: "\<exists>n. n < 0x500 \<and> bit (answer B RCU_CTL n ?h) (Suc en)" using starts [OF en(1)] by blast
  define n where "n = (LEAST n. n < 0x500 \<and> bit (answer B RCU_CTL n ?h) (Suc en))"
  have n: "n < 0x500" "bit (answer B RCU_CTL n ?h) (Suc en)" using LeastI_ex [OF ex] unfolding n_def by auto
  have before: "\<not> bit (answer B RCU_CTL i ?h) (Suc en)" if "i < n" for i
    using not_less_Least [of i "\<lambda>n. n < 0x500 \<and> bit (answer B RCU_CTL n ?h) (Suc en)"] that n(1)
    unfolding n_def by linarith
  have "0x500 \<le> unat limit" using assms(3) by (simp add: word_le_nat_alt)
  then have poll: "poll_while B RCU_CTL (\<lambda>v. v AND BIT (Suc en) = 0) (unat limit - 1) ?h =
      (answer B RCU_CTL n ?h, after_reads B RCU_CTL (Suc n) ?h)"
    using n before en(2) by (intro poll_while_first) (auto simp: tested_bit(2))
  have "bit (fst (rd32 B RCU_CTL (after_reads B RCU_CTL (Suc n) ?h))) (Suc en)"
    using stays [OF en(1), of "after_reads B RCU_CTL n ?h"] n(2) by (simp only: after_reads_Suc answer_def)
  then have "\<not> fst (rd32 B RCU_CTL (after_reads B RCU_CTL (Suc n) ?h)) AND BIT (Suc en) = 0"
    using en(2) by (simp only: tested_bit(2)) simp
  then have "start_oscillator B (BIT en) (BIT (Suc en)) limit h =
      Some (snd (rd32 B RCU_CTL (after_reads B RCU_CTL (Suc n) ?h)))"
    unfolding start_oscillator_def Let_def poll split_beta fst_conv snd_conv by (simp only: if_False)
  moreover have "clock_regs val ?c c0 c1 (after_reads B RCU_CTL (Suc (Suc n)) ?h)"
    using set clock_regs_after_reads [of RCU_CTL] by blast
  ultimately show ?thesis by (simp add: ensures_def after_reads_Suc del: after_reads.simps)
qed

text \<open>The source is selected once the clock unit has switched.\<close>

lemma settled_after_reads: "settled B val h \<Longrightarrow> settled B val (after_reads B RCU_CFG0 n h)"
  by (induction n arbitrary: h) (simp_all add: stays_settled)

lemma source_masked: "clock_regs val c c0 c1 h \<Longrightarrow> val h RCU_CFG0 AND 3 = c0 AND 3"
  by (rule masked_more [where m = "0x203D3FF3"]) (auto simp: clock_regs_def and.assoc)

lemma select_switches:
  assumes "clock_regs val c c0 c1 h" "src = 1 \<and> scss = BIT 2 \<or> src = 2 \<and> scss = BIT 3"
    and "runs val (source_enable src) h"
  shows "ensures (select_clock B src scss h)
    (\<lambda>h. clock_regs val c ((c0 AND NOT RCU_CFG0_SCS) OR src) c1 h \<and> settled B val h)"
proof -
  let ?h = "set_bits B RCU_CFG0 src (clear_bits B RCU_CFG0 RCU_CFG0_SCS h)"
  let ?c0 = "(c0 AND NOT RCU_CFG0_SCS) OR src"
  have "src AND 0x203D3FF3 = src" using assms(2) by auto
  then have set: "clock_regs val c ?c0 c1 ?h"
    using step_cfg0(1) [OF step_cfg0(2) [OF assms(1), of RCU_CFG0_SCS], of src] by simp
  have "RCU_CFG0_SCS = 3" by (simp add: BITS_def)
  then have "?c0 AND 3 = src"
    using assms(2) by (auto simp: masked_set masked_clear intro!: bit_word_eqI simp: bit_simps)
  then have src: "val ?h RCU_CFG0 AND 3 = src" using source_masked [OF set] by simp
  have "bit ?c0 16 \<longleftrightarrow> bit c0 16" using assms(2) by (auto simp: bit_simps)
  moreover have "source_enable src \<in> {0, 16, 24, 26, 28}" using assms(2) by (auto simp: source_enable_def)
  ultimately have "runs val (source_enable src) ?h"
    using assms(3) runs_regs [OF set] runs_regs [OF assms(1)] by simp
  then obtain n where n: "settled B val (after_reads B RCU_CFG0 n ?h)"
    using switches [of ?h] src assms(2) by auto
  have ans: "GET_BITS (answer B RCU_CFG0 k ?h) 2 3 = val ?h RCU_CFG0 AND 3 \<longleftrightarrow> settled B val (after_reads B RCU_CFG0 k ?h)" for k
    by (simp add: settled_def answer_def after_reads_keeps)
  have test: "answer B RCU_CFG0 k ?h AND scss = 0 \<longleftrightarrow> \<not> settled B val (after_reads B RCU_CFG0 k ?h)" for k
    using source_test [of "answer B RCU_CFG0 k ?h" src scss] no_fourth assms(2) ans [of k] src by (simp add: answer_def)
  obtain h' where h': "spin_while B RCU_CFG0 (\<lambda>v. v AND scss = 0) ?h = Some h'"
    using spin_while_iff [of B RCU_CFG0 "\<lambda>v. v AND scss = 0" ?h] test n by blast
  from spin_while_Some [OF this] obtain k where k: "h' = after_reads B RCU_CFG0 (Suc k) ?h"
      "settled B val (after_reads B RCU_CFG0 k ?h)"
    using test by blast
  have "settled B val h'" unfolding k(1) after_reads_Suc by (rule stays_settled [OF k(2)]) simp
  moreover have "clock_regs val c ?c0 c1 h'" unfolding k(1) using set clock_regs_after_reads by blast
  ultimately show ?thesis using h' by (simp add: ensures_def select_clock_def wait_set_def)
qed

section \<open>The configurations\<close>

lemma start_hxtal_ok: "clock_regs val 1 0 0 h \<Longrightarrow> ensures (start_hxtal B h) (clock_regs val 0x10001 0 0)"
  using oscillator_starts [of 1 0 0 h 16 HXTAL_STARTUP_TIMEOUT]
  by (simp add: start_hxtal_def HXTAL_STARTUP_TIMEOUT_def) (simp add: BIT_def)

lemma start_irc8m_ok: "clock_regs val 1 0 0 h \<Longrightarrow> ensures (start_irc8m B h) (clock_regs val 1 0 0)"
  using oscillator_starts [of 1 0 0 h 0 IRC8M_STARTUP_TIMEOUT]
  by (simp add: start_irc8m_def IRC8M_STARTUP_TIMEOUT_def) (simp add: BIT_def)

lemma prescalers_ok: "clock_regs val c 0 0 h \<Longrightarrow> clock_regs val c 0x400 0 (set_prescalers B h)"
  using step_cfg0(1) [OF step_cfg0(1) [OF step_cfg0(1)], of c 0 0 h RCU_AHB_CKSYS_DIV1 RCU_APB2_CKAHB_DIV1 RCU_APB1_CKAHB_DIV2]
  by (simp add: set_prescalers_def CFG0_AHBPSC_def CFG0_APB1PSC_def CFG0_APB2PSC_def BITS_def)

lemma set_pll_ok:
  "clock_regs val c 0 0 h \<Longrightarrow>
   clock_regs val c (0x400 OR (x AND 0x203D3FF3)) 0 (set_pll B x (set_prescalers B h))"
  using step_cfg0(1) [OF step_cfg0(2) [OF prescalers_ok, where x = "RCU_CFG0_PLLMF OR RCU_CFG0_PLLMF_4"]]
  unfolding set_pll_def by (simp add: BIT_def BITS_def)

lemma set_dividers_ok: "clock_regs val c c0 0 h \<Longrightarrow> clock_regs val c c0 x (set_dividers B x h)"
  using step_cfg1(1) [OF step_cfg1(2), of c c0 0 h] by (simp add: set_dividers_def)

lemma start_pll1_ok:
  assumes "clock_regs val 0x10001 c0 c1 h"
  shows "ensures (start_pll1 B h) (clock_regs val 0x4010001 c0 c1)"
proof -
  have "clock_regs val 0x4010001 c0 c1 (set_bits B RCU_CTL RCU_CTL_PLL1EN h)"
    using step_ctl(1) [OF assms, of RCU_CTL_PLL1EN] by (simp add: BIT_def)
  then show ?thesis
    using wait_stable [of "0x4010001" c0 c1 _ 26] runs_regs [of "0x4010001" c0 c1 _ 26] by (simp add: start_pll1_def)
qed

lemma start_pll2_ok:
  assumes "clock_regs val 0x4010001 c0 c1 h"
  shows "ensures (start_pll2 B h) (clock_regs val 0x14010001 c0 c1)"
proof -
  have "clock_regs val 0x14010001 c0 c1 (set_bits B RCU_CTL RCU_CTL_PLL2EN h)"
    using step_ctl(1) [OF assms, of RCU_CTL_PLL2EN] by (simp add: BIT_def)
  then show ?thesis
    using wait_stable [of "0x14010001" c0 c1 _ 28] runs_regs [of "0x14010001" c0 c1 _ 28] by (simp add: start_pll2_def)
qed

lemma crystal_ok:
  assumes "clock_regs val 0x10001 c0 0 h"
  shows "ensures (crystal_to_4M B 25000000 h) (clock_regs val 0x4010001 c0 0x10649)"
    and "ensures (crystal_to_4M B 8000000 h) (clock_regs val 0x10001 c0 1)"
proof -
  have x: "RCU_PREDV0SRC_CKPLL1 OR RCU_PLL1_MUL8 OR RCU_PREDV1_DIV5 OR RCU_PREDV0_DIV10 = 0x10649"
      "RCU_PREDV0SRC_HXTAL OR RCU_PREDV0_DIV2 = 1"
    by (simp_all add: CFG1_PLL1MF_def CFG1_PREDV1_def CFG1_PREDV0_def BIT_def BITS_def)
  show "ensures (crystal_to_4M B 25000000 h) (clock_regs val 0x4010001 c0 0x10649)"
    unfolding crystal_to_4M_def x using start_pll1_ok [OF set_dividers_ok [OF assms]] by simp
  show "ensures (crystal_to_4M B 8000000 h) (clock_regs val 0x10001 c0 1)"
    unfolding crystal_to_4M_def x using set_dividers_ok [OF assms] by simp
qed

lemma switch_to_pll_ok:
  assumes "clock_regs val c c0 c1 h" "if bit c0 16 then bit c 16 \<and> (bit c1 16 \<longrightarrow> bit c 26) else bit c 0" "c0 AND 3 = 0"
  shows "ensures (switch_to_pll B h) (\<lambda>h. clock_regs val (c OR 0x1000000) (c0 OR 2) c1 h \<and> settled B val h)"
proof -
  have set: "clock_regs val (c OR 0x1000000) c0 c1 (set_bits B RCU_CTL RCU_CTL_PLLEN h)"
    using step_ctl(1) [OF assms(1), of RCU_CTL_PLLEN] by (simp add: BIT_def)
  have run: "bit (c OR 0x1000000) n \<longleftrightarrow> bit c n \<or> n = 24" for n
  proof -
    have "(0x1000000 :: reg) = BIT 24" by (simp add: BIT_def)
    then show ?thesis by (simp only: bit_or_iff bit_BIT) auto
  qed
  have c0: "(c0 AND NOT RCU_CFG0_SCS) OR RCU_CKSYSSRC_PLL = c0 OR 2"
  proof -
    have "c0 AND NOT RCU_CFG0_SCS = c0"
    proof (rule bit_word_eqI)
      fix n :: nat
      have "bit (c0 AND 3) n \<longleftrightarrow> False" by (simp add: assms(3))
      moreover have "(3 :: reg) = BITS 0 1" by (simp add: BITS_def)
      ultimately have "\<not> (bit c0 n \<and> n \<le> 1)" by (simp add: bit_and_iff)
      then show "bit (c0 AND NOT RCU_CFG0_SCS) n \<longleftrightarrow> bit c0 n"
        by (auto simp: bit_and_iff bit_not_iff dest: bit_imp_le_length)
    qed
    then show ?thesis by (simp add: CFG0_SCS_def BITS_def)
  qed
  have sel: "CFG0_SCS 2 = 2 \<and> CFG0_SCSS 2 = BIT 3" by (simp add: CFG0_SCS_def CFG0_SCSS_def BITS_def BIT_def)
  show ?thesis
    unfolding switch_to_pll_def
  proof (rule ensures_bind)
    have "Suc 24 = 25" by simp
    then show "ensures (wait_set B RCU_CTL RCU_CTL_PLLSTB (set_bits B RCU_CTL RCU_CTL_PLLEN h))
        (clock_regs val (c OR 0x1000000) c0 c1)"
      using wait_stable [OF set, of 24] runs_regs [OF set, of 24] assms(2) run by simp
    fix h assume h: "clock_regs val (c OR 0x1000000) c0 c1 h"
    then have "runs val (source_enable 2) h"
      using runs_regs [OF h, of 24] assms(2) run by (simp add: source_enable_def)
    then show "ensures (select_clock B RCU_CKSYSSRC_PLL RCU_SCSS_PLL h)
        (\<lambda>h. clock_regs val (c OR 0x1000000) (c0 OR 2) c1 h \<and> settled B val h)"
      using select_switches [OF h, of "CFG0_SCS 2" "CFG0_SCSS 2"] sel c0 by simp
  qed
qed

end

section \<open>The frequency that results\<close>

text \<open>All reads of the two registers agree with one register file.\<close>

definition frozen :: "reg \<Rightarrow> reg \<Rightarrow> 32 word \<Rightarrow> reg" where
  "frozen c0 c1 = (\<lambda>_. 0)(RCU_CFG0 := c0 OR push_bit 2 (c0 AND 3), RCU_CFG1 := c1)"

lemma frozen_read:
  "rd32 gd32 0x40021004 (frozen c0 c1) = (c0 OR push_bit 2 (c0 AND 3), frozen c0 c1)"
  "rd32 gd32 0x4002102C (frozen c0 c1) = (c1, frozen c0 c1)"
  by (simp_all add: gd32.rd_val special_def is_port_def GPIO_BASE_def EXTI_BASE_def) (simp_all add: frozen_def)

context clock_unit
begin

lemma frozen_fields:
  assumes "clock_regs val c c0 c1 h" "settled B val h"
  defines "w \<equiv> fst (rd32 B RCU_CFG0 h)" and "f \<equiv> c0 OR push_bit 2 (c0 AND 3)"
  shows "GET_BITS w 2 3 = GET_BITS f 2 3" "w AND BIT 16 = f AND BIT 16" "w AND BIT 29 = f AND BIT 29"
    "GET_BITS w 18 21 = GET_BITS f 18 21" "GET_BITS w 4 7 = GET_BITS f 4 7"
    "GET_BITS w 8 10 = GET_BITS f 8 10" "GET_BITS w 11 13 = GET_BITS f 11 13"
    "fst (rd32 B RCU_CFG1 h) = c1"
proof -
  have c0: "w AND 0x203D3FF3 = c0"
    using assms(1) read_masked(2) by (simp add: clock_regs_def w_def)
  have p: "push_bit 2 (c0 AND 3) = push_bit 2 c0 AND 0xC" by simp
  have m: "w AND m = f AND m" if "0x203D3FF3 AND m = m" "0xC AND m = 0" for m
  proof -
    have "w AND m = c0 AND m" unfolding c0 [symmetric] and.assoc that(1) ..
    then show ?thesis by (simp only: f_def p masked_set and.assoc that(2)) simp
  qed
  show "fst (rd32 B RCU_CFG1 h) = c1" using assms(1) rd_cfg1 by (simp add: clock_regs_def)
  show "w AND BIT 16 = f AND BIT 16" "w AND BIT 29 = f AND BIT 29" by (rule m; simp add: BIT_def)+
  show "GET_BITS w 18 21 = GET_BITS f 18 21" "GET_BITS w 4 7 = GET_BITS f 4 7"
    "GET_BITS w 8 10 = GET_BITS f 8 10" "GET_BITS w 11 13 = GET_BITS f 11 13"
    unfolding GET_BITS_def by (rule arg_cong [where f = "drop_bit _"], rule m; simp add: BITS_def)+
  have "c0 AND 0xC = 0" unfolding c0 [symmetric] and.assoc by simp
  moreover have "BITS 2 3 = 0xC" by (simp add: BITS_def)
  ultimately have "f AND BITS 2 3 = push_bit 2 (c0 AND 3)"
    by (simp only: f_def p masked_set and.assoc) simp
  then have "GET_BITS f 2 3 = c0 AND 3" by (simp only: GET_BITS_def drop_push_3)
  then show "GET_BITS w 2 3 = GET_BITS f 2 3"
    using assms(2) source_masked [OF assms(1)] by (simp add: settled_def w_def)
qed

lemma frozen_reads:
  assumes "clock_regs val c c0 c1 h" "settled B val h"
  shows "clock_regs val c c0 c1 (snd (rd32 B RCU_CFG0 h)) \<and> settled B val (snd (rd32 B RCU_CFG0 h))"
    and "clock_regs val c c0 c1 (snd (rd32 B RCU_CFG1 h)) \<and> settled B val (snd (rd32 B RCU_CFG1 h))"
  using assms rd_keeps [of RCU_CFG0 h] rd_keeps [of RCU_CFG1 h] stays_settled [of h] by (auto simp: clock_regs_def)

lemma freq_frozen:
  assumes "clock_regs val c c0 c1 h" "settled B val h"
  shows "fst (rcu_clock_freq_get B xtal clock h) = fst (rcu_clock_freq_get gd32 xtal clock (frozen c0 c1))"
proof -
  let ?ok = "\<lambda>h. clock_regs val c c0 c1 h \<and> settled B val h" and ?z = "frozen c0 c1"
  have step: "?ok (snd (rd32 B 0x40021004 h))" "?ok (snd (rd32 B 0x4002102C h))" if "?ok h" for h
    using frozen_reads [of c c0 c1 h] that by simp_all
  have fields: "?ok h \<Longrightarrow> GET_BITS (fst (rd32 B 0x40021004 h)) i j = GET_BITS (c0 OR push_bit 2 (c0 AND 3)) i j"
    if "(i, j) \<in> {(2, 3), (18, 21), (4, 7), (8, 10), (11, 13)}" for h i j
    using frozen_fields [of c c0 c1 h] that by auto
  have bits: "?ok h \<Longrightarrow> fst (rd32 B 0x40021004 h) AND BIT i = (c0 OR push_bit 2 (c0 AND 3)) AND BIT i"
    if "i \<in> {16, 29}" for h i
    using frozen_fields [of c c0 c1 h] that by auto
  have cfg1: "?ok h \<Longrightarrow> fst (rd32 B 0x4002102C h) = c1" for h using frozen_fields(8) [of c c0 c1 h] by simp
  have src: "fst (pll_source B xtal h) = fst (pll_source gd32 xtal ?z) \<and> ?ok (snd (pll_source B xtal h))
      \<and> snd (pll_source gd32 xtal ?z) = ?z" if "?ok h" for h
    using that by (simp add: pll_source_def split_beta Let_def frozen_read bits cfg1 step del: bit_and_iff)
  have fac: "fst (pll_factor B h) = fst (pll_factor gd32 ?z) \<and> ?ok (snd (pll_factor B h))
      \<and> snd (pll_factor gd32 ?z) = ?z" if "?ok h" for h
    using that by (simp add: pll_factor_def split_beta Let_def frozen_read bits fields step del: bit_and_iff)
  have sys: "fst (cksys_freq B xtal h) = fst (cksys_freq gd32 xtal ?z) \<and> ?ok (snd (cksys_freq B xtal h))
      \<and> snd (cksys_freq gd32 xtal ?z) = ?z" if "?ok h" for h
    using that by (simp add: cksys_freq_def split_beta Let_def frozen_read fields step src fac)
  show ?thesis
    using assms by (simp add: rcu_clock_freq_get_def split_beta Let_def frozen_read fields step sys split: rcu_clock_freq.split)
qed

lemma freq_hz:
  assumes "clock_regs val c c0 c1 h" "settled B val h" "unat xtal * 20 < 2 ^ 32"
    and "sys_hz (unat xtal) (c0 OR push_bit 2 (c0 AND 3)) c1 < 2 ^ 32"
  shows "unat (fst (rcu_clock_freq_get B xtal clock h)) = clock_hz (unat xtal) (c0 OR push_bit 2 (c0 AND 3)) c1 clock"
proof -
  have a: "RCU_CFG0 \<in> {a. \<not> special a}" "RCU_CFG1 \<in> {a. \<not> special a}"
    by (simp_all add: special_def is_port_def GPIO_BASE_def EXTI_BASE_def)
  have v: "frozen c0 c1 RCU_CFG0 = c0 OR push_bit 2 (c0 AND 3)" "frozen c0 c1 RCU_CFG1 = c1"
    by (simp_all add: frozen_def)
  show ?thesis
    using gd32.freq_get_val [OF a assms(3), of "frozen c0 c1" clock, unfolded v, OF assms(4)]
    unfolding freq_frozen [OF assms(1,2)] by auto
qed

end

text \<open>The clocks run at \<open>f\<close>, the one of the slow bus at half of it.\<close>

definition clocked_at :: "'h bus \<Rightarrow> reg \<Rightarrow> reg \<Rightarrow> 'h \<Rightarrow> bool" where
  "clocked_at B xtal f h \<longleftrightarrow>
     (\<forall>k. unat (fst (rcu_clock_freq_get B xtal k h)) = (if k = CK_APB1 then unat f div 2 else unat f))"

text \<open>Which values of the two registers give a frequency.\<close>

definition gives :: "reg \<Rightarrow> reg \<Rightarrow> reg \<Rightarrow> reg \<Rightarrow> bool" where
  "gives xtal c0 c1 f \<longleftrightarrow>
     unat xtal * 20 < 2 ^ 32 \<and> sys_hz (unat xtal) (c0 OR push_bit 2 (c0 AND 3)) c1 = unat f \<and>
     field (c0 OR push_bit 2 (c0 AND 3)) 4 7 = 0 \<and> field (c0 OR push_bit 2 (c0 AND 3)) 8 10 = 4 \<and>
     field (c0 OR push_bit 2 (c0 AND 3)) 11 13 = 0"

lemmas gives_compute = gives_def sys_hz_def source_hz_def pll_halves_def field_def GET_BITS_def BITS_def

lemmas clock_fields = CFG0_PLLMF_def CFG0_SCS_def CFG0_SCSS_def CFG1_PREDV0_def CFG1_PREDV1_def CFG1_PLL1MF_def
  CFG1_PLL2MF_def BITS_def BIT_def

lemma pll_muls: "CFG0_PLLMF 4 = 0x100000" "CFG0_PLLMF 7 = 0x1C0000" "CFG0_PLLMF 10 = 0x280000" "CFG0_PLLMF 12 = 0x300000"
    "CFG0_PLLMF 1 = 0x40000" "BIT 29 = 0x20000000"
  by (simp_all add: clock_fields)

context clock_unit
begin

lemma gives_clocked:
  assumes "clock_regs val c c0 c1 h" "settled B val h" "gives xtal c0 c1 f"
  shows "clocked_at B xtal f h"
proof -
  let ?v = "c0 OR push_bit 2 (c0 AND 3)"
  have g: "unat xtal * 20 < 2 ^ 32" "sys_hz (unat xtal) ?v c1 = unat f" "field ?v 4 7 = 0" "field ?v 8 10 = 4"
      "field ?v 11 13 = 0"
    using assms(3) by (simp_all only: gives_def)
  have "sys_hz (unat xtal) ?v c1 < 2 ^ 32" unfolding g(2) using unsigned_less [of f] by simp
  from freq_hz [OF assms(1,2) g(1) this]
  have k: "unat (fst (rcu_clock_freq_get B xtal k h)) = clock_hz (unat xtal) ?v c1 k" for k .
  show ?thesis
    unfolding clocked_at_def
  proof
    fix k
    show "unat (fst (rcu_clock_freq_get B xtal k h)) = (if k = CK_APB1 then unat f div 2 else unat f)"
      unfolding k using g by (cases k) (simp_all only: clock_hz.simps ahb_hz_def apb_hz_def, simp_all)
  qed
qed

text \<open>The configurations that bring the crystal to 4 MHz and multiply that.\<close>

lemma set_pll_hxtal:
  assumes "clock_regs val c 0 0 h" "x AND 0x203C0000 = x"
  shows "clock_regs val c (0x10400 OR x) 0 (set_pll B (RCU_PLLSRC_HXTAL OR x) (set_prescalers B h))"
proof -
  have "(x AND 0x203C0000) AND 0x203D3FF3 = x AND 0x203C0000" by (simp only: and.assoc) simp
  then have "x AND 0x203D3FF3 = x" by (simp only: assms(2))
  then have "0x400 OR ((BIT 16 OR x) AND 0x203D3FF3) = 0x10400 OR x"
    by (simp add: masked_set BIT_def or.assoc [symmetric])
  then show ?thesis using set_pll_ok [OF assms(1), of "BIT 16 OR x"] by simp
qed

lemma switch_hxtal_ok:
  assumes "clock_regs val c (0x10400 OR x) c1 h" "x AND 0x203C0000 = x" "bit c 16" "bit c1 16 \<longrightarrow> bit c 26"
    and "gives xtal (0x10402 OR x) c1 f"
  shows "ensures (switch_to_pll B h) (clocked_at B xtal f)"
proof (rule ensures_mono)
  have "(0x10400 OR x) AND 3 = (x AND 0x203C0000) AND 3" unfolding assms(2) by (simp add: masked_set)
  then have "(0x10400 OR x) AND 3 = 0" by (simp add: and.assoc)
  moreover have "bit (0x10400 OR x) 16" by (simp add: bit_or_iff)
  ultimately show "ensures (switch_to_pll B h)
      (\<lambda>h. clock_regs val (c OR 0x1000000) ((0x10400 OR x) OR 2) c1 h \<and> settled B val h)"
    using switch_to_pll_ok [OF assms(1)] assms(3,4) by simp
  have "(0x10400 OR x) OR 2 = 0x10402 OR x" by (simp add: or.commute or.left_commute or.assoc)
  then show "clocked_at B xtal f h"
    if "clock_regs val (c OR 0x1000000) ((0x10400 OR x) OR 2) c1 h \<and> settled B val h" for h
    using gives_clocked [of "c OR 0x1000000" "0x10402 OR x" c1 h xtal f] that assms(5) by simp
qed

lemma crystal_pll_ok:
  assumes "clock_regs val 1 0 0 h" "xtal = 8000000 \<or> xtal = 25000000"
    and "x AND 0x203C0000 = x" and "gives xtal (0x10402 OR x) (if xtal = 25000000 then 0x10649 else 1) f"
  shows "ensures (do {
      h \<leftarrow> start_hxtal B h;
      h \<leftarrow> crystal_to_4M B xtal (set_pll B (RCU_PLLSRC_HXTAL OR x) (set_prescalers B h));
      switch_to_pll B h }) (clocked_at B xtal f)"
proof (rule ensures_bind [OF start_hxtal_ok [OF assms(1)]])
  fix h assume "clock_regs val 0x10001 0 0 h"
  then have set: "clock_regs val 0x10001 (0x10400 OR x) 0 (set_pll B (RCU_PLLSRC_HXTAL OR x) (set_prescalers B h))"
    using set_pll_hxtal assms(3) by blast
  show "ensures (crystal_to_4M B xtal (set_pll B (RCU_PLLSRC_HXTAL OR x) (set_prescalers B h)) \<bind> switch_to_pll B)
      (clocked_at B xtal f)"
    using assms(2)
  proof
    assume "xtal = 8000000"
    then show ?thesis
      using ensures_bind [OF crystal_ok(2) [OF set] switch_hxtal_ok] assms(3,4) by simp
  next
    assume "xtal = 25000000"
    then show ?thesis
      using ensures_bind [OF crystal_ok(1) [OF set] switch_hxtal_ok] assms(3,4) by simp
  qed
qed

lemma hxtal_multiples_ok:
  assumes "clock_regs val 1 0 0 h" "xtal = 8000000 \<or> xtal = 25000000"
  shows "ensures (system_clock_24m_hxtal B xtal h) (clocked_at B xtal 24000000)"
    "ensures (system_clock_36m_hxtal B xtal h) (clocked_at B xtal 36000000)"
    "ensures (system_clock_48m_hxtal B xtal h) (clocked_at B xtal 48000000)"
    "ensures (system_clock_56m_hxtal B xtal h) (clocked_at B xtal 56000000)"
    "ensures (system_clock_72m_hxtal B xtal h) (clocked_at B xtal 72000000)"
    "ensures (system_clock_96m_hxtal B xtal h) (clocked_at B xtal 96000000)"
proof -
  have w: "((xtal = 25000000 \<or> xtal = 8000000) = True)" using assms(2) by auto
  note ok = crystal_pll_ok [OF assms]
  show "ensures (system_clock_24m_hxtal B xtal h) (clocked_at B xtal 24000000)"
    unfolding system_clock_24m_hxtal_def using assms(2)
    by (intro ok) (auto simp: pll_muls gives_compute simp flip: numeral_2_eq_2)
  show "ensures (system_clock_36m_hxtal B xtal h) (clocked_at B xtal 36000000)"
    unfolding system_clock_36m_hxtal_def using assms(2)
    by (intro ok) (auto simp: pll_muls gives_compute simp flip: numeral_2_eq_2)
  show "ensures (system_clock_48m_hxtal B xtal h) (clocked_at B xtal 48000000)"
    unfolding system_clock_48m_hxtal_def using assms(2)
    by (intro ok) (auto simp: pll_muls gives_compute simp flip: numeral_2_eq_2)
  show "ensures (system_clock_56m_hxtal B xtal h) (clocked_at B xtal 56000000)"
    unfolding system_clock_56m_hxtal_def using assms(2)
    by (intro ok) (auto simp: pll_muls gives_compute simp flip: numeral_2_eq_2)
  show "ensures (system_clock_72m_hxtal B xtal h) (clocked_at B xtal 72000000)"
    unfolding system_clock_72m_hxtal_def using assms(2)
    by (intro ok) (auto simp: pll_muls gives_compute simp flip: numeral_2_eq_2)
  show "ensures (system_clock_96m_hxtal B xtal h) (clocked_at B xtal 96000000)"
    unfolding system_clock_96m_hxtal_def w Let_def if_True using assms(2)
    by (intro ok) (auto simp: pll_muls gives_compute simp flip: numeral_2_eq_2)
qed

lemma hxtal_108m_ok:
  assumes "clock_regs val 1 0 0 h" "xtal = 8000000 \<or> xtal = 25000000"
  shows "ensures (system_clock_108m_hxtal B xtal h) (clocked_at B xtal 108000000)"
  unfolding system_clock_108m_hxtal_def Let_def
proof (rule ensures_bind [OF start_hxtal_ok [OF assms(1)]])
  let ?x = "RCU_PLL_MUL27"
  have x: "?x AND 0x203C0000 = ?x" by (simp add: clock_fields)
  fix h assume "clock_regs val 0x10001 0 0 h"
  then have set: "clock_regs val 0x10001 (0x10400 OR ?x) 0 (set_pll B (RCU_PLLSRC_HXTAL OR ?x) (set_prescalers B h))"
    using set_pll_hxtal x by blast
  have both: "ensures (start_pll1 B (set_dividers B y (set_pll B (RCU_PLLSRC_HXTAL OR ?x) (set_prescalers B h)))
      \<bind> start_pll2 B) (clock_regs val 0x14010001 (0x10400 OR ?x) y)" for y
    by (rule ensures_bind [OF start_pll1_ok [OF set_dividers_ok [OF set]] start_pll2_ok])
  have switch: "ensures (switch_to_pll B h') (clocked_at B xtal 108000000)"
    if "clock_regs val 0x14010001 (0x10400 OR ?x) y h'" "gives xtal (0x10402 OR ?x) y 108000000" for y h'
    using switch_hxtal_ok [OF that(1) x _ _ that(2)] by simp
  have go: "ensures ((start_pll1 B (set_dividers B y (set_pll B (RCU_PLLSRC_HXTAL OR ?x) (set_prescalers B h)))
      \<bind> start_pll2 B) \<bind> switch_to_pll B) (clocked_at B xtal 108000000)" if "gives xtal (0x10402 OR ?x) y 108000000" for y
    by (rule ensures_bind [OF both switch [OF _ that]])
  have y: "RCU_PREDV0SRC_CKPLL1 OR RCU_PREDV1_DIV5 OR RCU_PLL1_MUL8 OR RCU_PREDV0_DIV10 = 0x10649"
    "RCU_PREDV0SRC_HXTAL OR RCU_PREDV0_DIV2 OR RCU_PREDV1_DIV2 OR RCU_PLL1_MUL20 OR RCU_PLL2_MUL20 = 0xFF11"
    by (simp_all add: clock_fields)
  have g: "xtal = 25000000 \<Longrightarrow> gives xtal (0x10402 OR ?x) 0x10649 108000000"
    "xtal = 8000000 \<Longrightarrow> gives xtal (0x10402 OR ?x) 0xFF11 108000000"
    by (auto simp: pll_muls gives_compute simp flip: numeral_2_eq_2)
  show "ensures ((if xtal = 25000000 then start_pll1 B (set_dividers B (RCU_PREDV0SRC_CKPLL1 OR RCU_PREDV1_DIV5 OR
        RCU_PLL1_MUL8 OR RCU_PREDV0_DIV10) (set_pll B (RCU_PLLSRC_HXTAL OR ?x) (set_prescalers B h))) \<bind> start_pll2 B
      else if xtal = 8000000 then start_pll1 B (set_dividers B (RCU_PREDV0SRC_HXTAL OR RCU_PREDV0_DIV2 OR
        RCU_PREDV1_DIV2 OR RCU_PLL1_MUL20 OR RCU_PLL2_MUL20) (set_pll B (RCU_PLLSRC_HXTAL OR ?x) (set_prescalers B h)))
        \<bind> start_pll2 B
      else Some (set_pll B (RCU_PLLSRC_HXTAL OR ?x) (set_prescalers B h))) \<bind> switch_to_pll B)
      (clocked_at B xtal 108000000)"
    unfolding y using assms(2) go [OF g(1)] go [OF g(2)] by auto
qed

lemma hxtal_ok:
  assumes "clock_regs val 1 0 0 h" "xtal = 8000000 \<or> xtal = 25000000"
  shows "ensures (system_clock_hxtal B h) (clocked_at B xtal xtal)"
  unfolding system_clock_hxtal_def
proof (rule ensures_bind [OF start_hxtal_ok [OF assms(1)]])
  fix h assume h: "clock_regs val 0x10001 0 0 h"
  have "runs val (source_enable 1) (set_prescalers B h)"
    using runs_regs [OF prescalers_ok [OF h], of 16] by (simp add: source_enable_def)
  moreover have "RCU_CKSYSSRC_HXTAL = 1" "RCU_SCSS_HXTAL = BIT 2" by (simp_all add: clock_fields)
  ultimately have "ensures (select_clock B RCU_CKSYSSRC_HXTAL RCU_SCSS_HXTAL (set_prescalers B h))
      (\<lambda>h. clock_regs val 0x10001 0x401 0 h \<and> settled B val h)"
    using select_switches [OF prescalers_ok [OF h], of 1 "BIT 2"] by (simp add: BITS_def)
  moreover have "gives xtal 0x401 0 xtal"
    using assms(2) by (auto simp: gives_compute)
  ultimately show "ensures (select_clock B RCU_CKSYSSRC_HXTAL RCU_SCSS_HXTAL (set_prescalers B h)) (clocked_at B xtal xtal)"
    using gives_clocked by (auto elim!: ensures_mono)
qed

lemma irc8m_pll_ok:
  assumes "clock_regs val 1 0 0 h" "x AND 0x203C0000 = x" "gives xtal (0x402 OR x) 0 f"
  shows "ensures (do { h \<leftarrow> start_irc8m B h; switch_to_pll B (set_pll B x (set_prescalers B h)) }) (clocked_at B xtal f)"
proof (rule ensures_bind [OF start_irc8m_ok [OF assms(1)]])
  fix h assume h: "clock_regs val 1 0 0 h"
  have m: "x AND m = x AND (0x203C0000 AND m)" for m by (simp only: assms(2) and.assoc [symmetric])
  have "x AND 0x203D3FF3 = x" "x AND 3 = 0" "x AND BIT 16 = 0"
    using m [of "0x203D3FF3"] m [of 3] m [of "BIT 16"] assms(2) by (simp_all add: BIT_def)
  then have x: "clock_regs val 1 (0x400 OR x) 0 (set_pll B x (set_prescalers B h))" "(0x400 OR x) AND 3 = 0"
      "\<not> bit (0x400 OR x) 16"
    using set_pll_ok [OF h, of x] by (simp_all add: masked_set bit_or_iff tested_bit(2))
  then have "ensures (switch_to_pll B (set_pll B x (set_prescalers B h)))
      (\<lambda>h. clock_regs val (1 OR 0x1000000) ((0x400 OR x) OR 2) 0 h \<and> settled B val h)"
    using switch_to_pll_ok [OF x(1)] by simp
  moreover have "(0x400 OR x) OR 2 = 0x402 OR x" by (simp add: or.commute or.left_commute or.assoc)
  ultimately show "ensures (switch_to_pll B (set_pll B x (set_prescalers B h))) (clocked_at B xtal f)"
    using gives_clocked [of _ "0x402 OR x" 0] assms(3) by (auto elim!: ensures_mono)
qed

lemma irc8m_multiples_ok:
  assumes "clock_regs val 1 0 0 h" "xtal = 8000000 \<or> xtal = 25000000"
  shows "ensures (system_clock_48m_irc8m B h) (clocked_at B xtal 48000000)"
    "ensures (system_clock_72m_irc8m B h) (clocked_at B xtal 72000000)"
    "ensures (system_clock_108m_irc8m B h) (clocked_at B xtal 108000000)"
proof -
  note ok = irc8m_pll_ok [OF assms(1)]
  show "ensures (system_clock_48m_irc8m B h) (clocked_at B xtal 48000000)"
    unfolding system_clock_48m_irc8m_def using assms(2) by (intro ok) (auto simp: pll_muls gives_compute)
  show "ensures (system_clock_72m_irc8m B h) (clocked_at B xtal 72000000)"
    unfolding system_clock_72m_irc8m_def using assms(2) by (intro ok) (auto simp: pll_muls gives_compute)
  show "ensures (system_clock_108m_irc8m B h) (clocked_at B xtal 108000000)"
    unfolding system_clock_108m_irc8m_def using assms(2) by (intro ok) (auto simp: pll_muls gives_compute)
qed

lemma config_ok:
  assumes "clock_regs val 1 0 0 h" "xtal = 8000000 \<or> xtal = 25000000" "clock \<noteq> CLOCK_NONE"
  shows "ensures (system_clock_config B clock xtal h) (clocked_at B xtal (SystemCoreClock clock xtal))"
  using assms(3) hxtal_ok [OF assms(1,2)] hxtal_multiples_ok [OF assms(1,2)] hxtal_108m_ok [OF assms(1,2)]
    irc8m_multiples_ok [OF assms(1,2)]
  by (cases clock) simp_all

lemma reset_ok:
  "\<exists>h'. SystemInit B clock xtal h = system_clock_config B clock xtal h' \<and> clock_regs val 1 0 0 h'"
proof -
  have start: "clock_regs val (val h RCU_CTL AND 0x15010001) (val h RCU_CFG0 AND 0x203D3FF3) (val h RCU_CFG1) h"
    by (simp add: clock_regs_def)
  have fields: "RCU_CFG0_SCS OR RCU_CFG0_AHBPSC OR RCU_CFG0_APB1PSC OR RCU_CFG0_APB2PSC OR RCU_CFG0_ADCPSC OR
      RCU_CFG0_ADCPSC_2 OR RCU_CFG0_CKOUT0SEL = 0x1F00FFF3"
    "RCU_CFG0_PLLSEL OR RCU_CFG0_PREDV0_LSB OR RCU_CFG0_PLLMF OR RCU_CFG0_USBFSPSC OR RCU_CFG0_PLLMF_4 = 0x20FF0000"
    "RCU_CTL_HXTALEN OR RCU_CTL_CKMEN OR RCU_CTL_PLLEN = 0x1090000"
    "RCU_CTL_PLLEN OR RCU_CTL_PLL1EN OR RCU_CTL_PLL2EN OR RCU_CTL_CKMEN OR RCU_CTL_HXTALEN = 0x15090000"
    "RCU_CTL_HXTALBPS = 0x40000" "RCU_CTL_IRC8MEN = 1"
    by (simp_all add: BIT_def BITS_def)
  have c: "(((((v AND 0x15010001) OR (1 AND 0x15010001)) AND NOT 0x1090000) AND NOT 0x40000) AND NOT 0x15090000) = 1"
    "((v AND 0x203D3FF3) AND NOT 0x1F00FFF3) AND NOT 0x20FF0000 = 0" for v :: reg
    by (simp_all add: word_ao_dist and.assoc)
  note s1 = step_ctl(1) [OF start, of 1]
  note s2 = step_cfg0(2) [OF s1, of "0x1F00FFF3"]
  note s3 = step_ctl(2) [OF step_ctl(2) [OF s2, of "0x1090000"], of "0x40000"]
  note s4 = step_cfg1(3) [OF step_cfg0(2) [OF s3, of "0x20FF0000"], of 0]
  note s5 = step_cfg1(4) [OF step_ctl(2) [OF s4, of "0x15090000"], of "0x00FF0000"]
  show ?thesis
    unfolding SystemInit_def Let_def fields by (rule exI, rule conjI [OF refl]) (rule s5 [unfolded c])
qed

lemma SystemInit_ok:
  "xtal = 8000000 \<or> xtal = 25000000 \<Longrightarrow> clock \<noteq> CLOCK_NONE \<Longrightarrow>
   ensures (SystemInit B clock xtal h) (clocked_at B xtal (SystemCoreClock clock xtal))"
  using reset_ok [of clock xtal h] config_ok by auto

end

section \<open>A clock unit\<close>

text \<open>One that takes three reads to answer a write: the registers, and the reads since the last
  write.\<close>

definition slow_stable :: "reg \<Rightarrow> nat \<Rightarrow> reg" where
  "slow_stable v t = (v AND 0xD5FDFFFD) OR (if 3 \<le> t then push_bit 1 (v AND 0x15010001) else 0)"

definition slow_source :: "reg \<Rightarrow> nat \<Rightarrow> reg" where
  "slow_source v t = (v AND NOT 0xC) OR (if 3 \<le> t \<and> v AND 3 \<noteq> 3 then push_bit 2 (v AND 3) else 0)"

type_synonym slow_hw = "(32 word \<Rightarrow> reg) \<times> nat"

definition slow_read :: "32 word \<Rightarrow> slow_hw \<Rightarrow> reg \<times> slow_hw" where
  "slow_read a h =
     (if a = RCU_CTL then slow_stable (fst h a) (snd h)
      else if a = RCU_CFG0 then slow_source (fst h a) (snd h) else fst h a, fst h, Suc (snd h))"

definition slow_write :: "32 word \<Rightarrow> reg \<Rightarrow> slow_hw \<Rightarrow> slow_hw" where
  "slow_write a v h = ((fst h)(a := v), 0)"

text \<open>The unit has no narrower accesses of its own; they act on the low part of a word.\<close>

definition slow_clocks :: "slow_hw bus" where
  "slow_clocks = \<lparr>rd32 = slow_read, wr32 = slow_write,
     rd16 = (\<lambda>a h. map_prod ucast id (slow_read a h)), wr16 = (\<lambda>a v. slow_write a (ucast v)),
     rd8 = (\<lambda>a h. map_prod ucast id (slow_read a h)), wr8 = (\<lambda>a v. slow_write a (ucast v))\<rparr>"

lemma slow_access: "rd32 slow_clocks = slow_read" "wr32 slow_clocks = slow_write"
  by (simp_all add: slow_clocks_def)

lemma slow_after_reads: "after_reads slow_clocks a n (r, t) = (r, t + n)"
  by (induction n arbitrary: t) (simp_all add: slow_access slow_read_def)

lemma slow_source_field: "GET_BITS (slow_source v t) 2 3 = (if 3 \<le> t \<and> v AND 3 \<noteq> 3 then v AND 3 else 0)"
proof -
  have "BITS 2 3 = 0xC" by (simp add: BITS_def)
  moreover have "(v AND NOT 0xC) AND 0xC = 0" by (rule bit_word_eqI) (simp add: bit_simps)
  moreover have "push_bit 2 (v AND 3) AND 0xC = push_bit 2 (v AND 3)" by (simp add: and.assoc)
  ultimately have "slow_source v t AND BITS 2 3 = (if 3 \<le> t \<and> v AND 3 \<noteq> 3 then push_bit 2 (v AND 3) else 0)"
    by (cases "3 \<le> t \<and> v AND 3 \<noteq> 3")
      (simp_all only: slow_source_def masked_set if_True if_False zero_and_eq or.left_neutral simp_thms)
  then show ?thesis by (simp only: GET_BITS_def if_distrib [where f = "drop_bit 2"] drop_push_3 drop_bit_of_0)
qed

lemma slow_settled:
  "settled slow_clocks fst h \<longleftrightarrow> (if 3 \<le> snd h \<and> fst h RCU_CFG0 AND 3 \<noteq> 3 then True else fst h RCU_CFG0 AND 3 = 0)"
  by (auto simp: settled_def slow_access slow_read_def slow_source_field simp del: drop_bit_and)

lemma slow_stable_bit:
  assumes "en \<in> {0, 16, 24, 26, 28}"
  shows "bit (slow_stable v t) (Suc en) \<longleftrightarrow> 3 \<le> t \<and> bit v en"
proof -
  have "\<not> bit (0xD5FDFFFD :: reg) (Suc en)" "bit (0x15010001 :: reg) en" using assms by auto
  moreover have "bit (push_bit 1 (v AND 0x15010001)) (Suc en) \<longleftrightarrow> Suc en < 32 \<and> bit (v AND 0x15010001) en"
    by (simp only: bit_push_bit_iff) simp
  moreover have "Suc en < 32" using assms by auto
  ultimately show ?thesis
    by (cases "3 \<le> t") (simp_all only: slow_stable_def bit_or_iff bit_and_iff if_True if_False, simp_all)
qed

lemma slow_stable_masked: "slow_stable v t AND 0xD5FDFFFD = v AND 0xD5FDFFFD"
proof -
  have "push_bit 1 (v AND 0x15010001) AND 0xD5FDFFFD = 0" by (simp add: and.assoc)
  then show ?thesis by (auto simp: slow_stable_def masked_set and.assoc simp del: push_bit_and)
qed

lemma slow_source_masked: "slow_source v t AND NOT 0xC = v AND NOT 0xC"
proof -
  have "push_bit 2 (v AND 3) AND NOT 0xC = 0" by (simp add: and.assoc)
  then show ?thesis by (auto simp: slow_source_def masked_set and.assoc simp del: push_bit_and)
qed

interpretation slow_clocks: clock_unit slow_clocks fst
proof
  fix en and h :: slow_hw
  assume en: "en \<in> {0, 16, 24, 26, 28}" and "runs fst en h"
  then have "bit (answer slow_clocks RCU_CTL 3 h) (Suc en)"
    by (cases h) (simp add: runs_def Let_def answer_def slow_after_reads slow_access slow_read_def slow_stable_bit)
  then show "\<exists>n < 0x500. bit (answer slow_clocks RCU_CTL n h) (Suc en)" by (intro exI [of _ 3]) simp
next
  fix en and h :: slow_hw
  assume "en \<in> {0, 16, 24, 26, 28}" "bit (fst (rd32 slow_clocks RCU_CTL h)) (Suc en)"
  then show "bit (fst (rd32 slow_clocks RCU_CTL (snd (rd32 slow_clocks RCU_CTL h)))) (Suc en)"
    by (simp add: slow_access slow_read_def slow_stable_bit)
next
  fix h :: slow_hw
  assume "fst h RCU_CFG0 AND 3 \<noteq> 3"
  then show "\<exists>n. settled slow_clocks fst (after_reads slow_clocks RCU_CFG0 n h)"
    using slow_after_reads [of RCU_CFG0 3 "fst h" "snd h"] by (intro exI [of _ 3]) (simp add: slow_settled)
next
  fix h :: slow_hw
  have "(0 :: reg) \<noteq> 3" by simp
  then show "GET_BITS (fst (rd32 slow_clocks RCU_CFG0 h)) 2 3 \<noteq> 3"
    by (simp add: slow_access slow_read_def slow_source_field)
next
  fix h :: slow_hw and a :: "32 word"
  assume "settled slow_clocks fst h"
  then show "settled slow_clocks fst (snd (rd32 slow_clocks a h))"
    by (auto simp: slow_settled slow_access slow_read_def split: if_splits)
qed (auto simp: slow_access slow_read_def slow_write_def slow_stable_masked slow_source_masked [simplified])

end
