(* ===== verification/Core.thy ===== *)
theory Core
  imports Bus
begin

text \<open>
  The control and status registers of the processor (\<open>riscv_encoding.h\<close>), which the firmware reaches
  by instructions, and the instruction that waits for an interrupt. The processor is a parameter: a
  \<open>core\<close> whose instructions read and change the hardware's state.
\<close>

record 'h core =
  read_csr :: "reg \<Rightarrow> 'h \<Rightarrow> reg \<times> 'h"
  write_csr :: "reg \<Rightarrow> reg \<Rightarrow> 'h \<Rightarrow> 'h"
  set_csr :: "reg \<Rightarrow> reg \<Rightarrow> 'h \<Rightarrow> 'h"
  clear_csr :: "reg \<Rightarrow> reg \<Rightarrow> 'h \<Rightarrow> 'h"
  wfi :: "'h \<Rightarrow> 'h"

abbreviation (input) CSR_MSTATUS :: reg where "CSR_MSTATUS \<equiv> 0x300"
abbreviation (input) CSR_MTVEC :: reg where "CSR_MTVEC \<equiv> 0x305"
abbreviation (input) CSR_MEPC :: reg where "CSR_MEPC \<equiv> 0x341"
abbreviation (input) CSR_MCYCLE :: reg where "CSR_MCYCLE \<equiv> 0xb00"
abbreviation (input) CSR_MINSTRET :: reg where "CSR_MINSTRET \<equiv> 0xb02"
abbreviation (input) CSR_MCYCLEH :: reg where "CSR_MCYCLEH \<equiv> 0xb80"
abbreviation (input) CSR_MINSTRETH :: reg where "CSR_MINSTRETH \<equiv> 0xb82"
abbreviation (input) CSR_WFE :: reg where "CSR_WFE \<equiv> 0x810"
abbreviation (input) CSR_SLEEPVALUE :: reg where "CSR_SLEEPVALUE \<equiv> 0x811"
abbreviation (input) CSR_TXEVT :: reg where "CSR_TXEVT \<equiv> 0x812"
abbreviation (input) MSTATUS_MIE :: reg where "MSTATUS_MIE \<equiv> 0x00000008"
abbreviation (input) MSTATUS_MPP :: reg where "MSTATUS_MPP \<equiv> 0x00001800"

text \<open>Registers that are storage: the instructions read, write, set and clear bits of one register and
  leave the others.\<close>

locale csrs =
  fixes C :: "'h core" and csr :: "'h \<Rightarrow> reg \<Rightarrow> reg"
  assumes read: "read_csr C c h = (csr h c, h)"
    and "write": "csr (write_csr C c v h) d = (if d = c then v else csr h d)"
    and set: "csr (set_csr C c v h) d = (if d = c then csr h c OR v else csr h d)"
    and clear: "csr (clear_csr C c v h) d = (if d = c then csr h c AND NOT v else csr h d)"
begin

lemma set_clear: "csr (clear_csr C c v (set_csr C c v h)) d = (if d = c then csr h c AND NOT v else csr h d)"
  by (auto simp: set clear bit_and_iff bit_or_iff bit_not_iff intro!: bit_word_eqI)

end

definition csr_file :: "(reg \<Rightarrow> reg) core" where
  "csr_file = \<lparr>read_csr = (\<lambda>c h. (h c, h)), write_csr = (\<lambda>c v h. h(c := v)),
     set_csr = (\<lambda>c v h. h(c := h c OR v)), clear_csr = (\<lambda>c v h. h(c := h c AND NOT v)), wfi = id\<rparr>"

interpretation csr_file: csrs csr_file "\<lambda>h. h"
  by unfold_locales (auto simp: csr_file_def)

end
