(* ===== verification/N200.thy ===== *)
theory N200
  imports Core
begin

text \<open>
  \<open>n200_func.c\<close>: the machine timer, the counters of the processor and its interrupt controller, the
  ECLIC, whose configuration bytes are four to each source: pending, enabled, attributes and control.
  The upper bits of the control byte are the level of the source and the lower ones its priority;
  how many are the level's is \<open>nlbits\<close> of the configuration byte. The two functions in assembly,
  \<open>pmp_open_all_space\<close> and \<open>switch_m2u_mode\<close>, are not modelled.
\<close>

section \<open>Time\<close>

abbreviation (input) TIMER_CTRL_ADDR :: "32 word" where "TIMER_CTRL_ADDR \<equiv> 0xd1000000"
abbreviation (input) TIMER_MTIME :: "32 word" where "TIMER_MTIME \<equiv> 0x0"

definition mtime_lo :: "'h bus \<Rightarrow> 'h \<Rightarrow> reg \<times> 'h" where
  "mtime_lo B = rd32 B (TIMER_CTRL_ADDR + TIMER_MTIME)"

definition mtime_hi :: "'h bus \<Rightarrow> 'h \<Rightarrow> reg \<times> 'h" where
  "mtime_hi B = rd32 B (TIMER_CTRL_ADDR + TIMER_MTIME + 4)"

text \<open>A counter of 64 bits is read by halves until the upper one is the same before and after the lower
  one: the body of three functions, which may never end.\<close>

partial_function (option) read_halves ::
  "('h \<Rightarrow> reg \<times> 'h) \<Rightarrow> ('h \<Rightarrow> reg \<times> 'h) \<Rightarrow> 'h \<Rightarrow> (64 word \<times> 'h) option" where
  "read_halves high low h =
     (let (hi, h) = high h; (lo, h) = low h; (hi', h) = high h
      in if hi = hi' then Some (push_bit 32 (ucast hi) OR ucast lo, h) else read_halves high low h)"

definition get_timer_value :: "'h bus \<Rightarrow> 'h \<Rightarrow> (64 word \<times> 'h) option" where
  "get_timer_value B = read_halves (mtime_hi B) (mtime_lo B)"

definition get_instret_value :: "'h core \<Rightarrow> 'h \<Rightarrow> (64 word \<times> 'h) option" where
  "get_instret_value C = read_halves (read_csr C CSR_MINSTRETH) (read_csr C CSR_MINSTRET)"

definition get_cycle_value :: "'h core \<Rightarrow> 'h \<Rightarrow> (64 word \<times> 'h) option" where
  "get_cycle_value C = read_halves (read_csr C CSR_MCYCLEH) (read_csr C CSR_MCYCLE)"

text \<open>\<open>SystemCoreClock\<close> is a variable of the program, here an argument.\<close>

definition get_timer_freq :: "reg \<Rightarrow> reg" where
  "get_timer_freq SystemCoreClock = SystemCoreClock div 4"

text \<open>\<open>do x = mtime_lo(); while (P(x));\<close>\<close>

partial_function (option) until_time :: "'h bus \<Rightarrow> (reg \<Rightarrow> bool) \<Rightarrow> 'h \<Rightarrow> (reg \<times> 'h) option" where
  "until_time B Q h = (let (x, h) = mtime_lo B h in if Q x then until_time B Q h else Some (x, h))"

text \<open>The frequency of the processor from the cycles counted during \<open>n\<close> ticks; with no tick at all it
  divides by zero.\<close>

definition measure_cpu_freq :: "'h bus \<Rightarrow> 'h core \<Rightarrow> reg \<Rightarrow> reg \<Rightarrow> 'h \<Rightarrow> (reg outcome \<times> 'h) option" where
  "measure_cpu_freq B C SystemCoreClock n h =
     (let mtime_freq = get_timer_freq SystemCoreClock; (tmp, h) = mtime_lo B h
      in case until_time B (\<lambda>x. x = tmp) h of
           None \<Rightarrow> None
         | Some (start_mtime, h) \<Rightarrow>
             (let (start_mcycle, h) = read_csr C CSR_MCYCLE h
              in case until_time B (\<lambda>x. x - start_mtime < n) h of
                   None \<Rightarrow> None
                 | Some (x, h) \<Rightarrow>
                     (let delta_mtime = x - start_mtime; (c, h) = read_csr C CSR_MCYCLE h;
                          delta_mcycle = c - start_mcycle
                      in Some (bindo (udivide delta_mcycle delta_mtime) (\<lambda>q.
                           Ret (q * mtime_freq + ((delta_mcycle mod delta_mtime) * mtime_freq) div delta_mtime)), h))))"

definition get_cpu_freq :: "'h bus \<Rightarrow> 'h core \<Rightarrow> reg \<Rightarrow> 'h \<Rightarrow> (reg outcome \<times> 'h) option" where
  "get_cpu_freq B C SystemCoreClock h =
     (case measure_cpu_freq B C SystemCoreClock 1 h of
        None \<Rightarrow> None
      | Some (r, h) \<Rightarrow>
          (case r of Ret _ \<Rightarrow> measure_cpu_freq B C SystemCoreClock 100 h | _ \<Rightarrow> Some (r, h)))"

section \<open>The interrupt controller\<close>

abbreviation (input) ECLIC_ADDR_BASE :: "32 word" where "ECLIC_ADDR_BASE \<equiv> 0xd2000000"
abbreviation (input) ECLIC_CFG_OFFSET :: "32 word" where "ECLIC_CFG_OFFSET \<equiv> 0x0"
abbreviation (input) ECLIC_MTH_OFFSET :: "32 word" where "ECLIC_MTH_OFFSET \<equiv> 0xB"
abbreviation (input) ECLIC_INT_IP_OFFSET :: "32 word" where "ECLIC_INT_IP_OFFSET \<equiv> 0x1000"
abbreviation (input) ECLIC_INT_IE_OFFSET :: "32 word" where "ECLIC_INT_IE_OFFSET \<equiv> 0x1001"
abbreviation (input) ECLIC_INT_ATTR_OFFSET :: "32 word" where "ECLIC_INT_ATTR_OFFSET \<equiv> 0x1002"
abbreviation (input) ECLIC_INT_CTRL_OFFSET :: "32 word" where "ECLIC_INT_CTRL_OFFSET \<equiv> 0x1003"

definition ECLICINTCTLBITS :: "8 word" where "ECLICINTCTLBITS = 4"
definition ECLIC_CFG_NLBITS_MASK :: "8 word" where "ECLIC_CFG_NLBITS_MASK = 0x1E"
definition ECLIC_CFG_NLBITS_LSB :: nat where "ECLIC_CFG_NLBITS_LSB = 1"

text \<open>The loop over the words of the sources: \<open>ptr\<close> and \<open>upper\<close> point to words, so that \<open>num_irq*4\<close> and
  \<open>ptr+4\<close> count words of four bytes. An end beyond the address space is undefined.\<close>

definition eclic_init :: "'h bus \<Rightarrow> reg \<Rightarrow> 'h \<Rightarrow> 'h outcome" where
  "eclic_init B num_irq h =
     (let h = wr8 B (ECLIC_ADDR_BASE + ECLIC_CFG_OFFSET) 0 h;
          h = wr8 B (ECLIC_ADDR_BASE + ECLIC_MTH_OFFSET) 0 h;
          base = ECLIC_ADDR_BASE + ECLIC_INT_IP_OFFSET;
          words = unat (num_irq * 4)
      in if unat base + 4 * words \<le> 2 ^ 32
         then Ret (fold (\<lambda>k. wr32 B (base + 4 * of_nat (4 * k)) 0) [0..<words div 4] h)
         else Undef)"

definition eclic_enable_interrupt :: "'h bus \<Rightarrow> reg \<Rightarrow> 'h \<Rightarrow> 'h" where
  "eclic_enable_interrupt B source = wr8 B (ECLIC_ADDR_BASE + ECLIC_INT_IE_OFFSET + source * 4) 1"

definition eclic_disable_interrupt :: "'h bus \<Rightarrow> reg \<Rightarrow> 'h \<Rightarrow> 'h" where
  "eclic_disable_interrupt B source = wr8 B (ECLIC_ADDR_BASE + ECLIC_INT_IE_OFFSET + source * 4) 0"

definition eclic_set_pending :: "'h bus \<Rightarrow> reg \<Rightarrow> 'h \<Rightarrow> 'h" where
  "eclic_set_pending B source = wr8 B (ECLIC_ADDR_BASE + ECLIC_INT_IP_OFFSET + source * 4) 1"

definition eclic_clear_pending :: "'h bus \<Rightarrow> reg \<Rightarrow> 'h \<Rightarrow> 'h" where
  "eclic_clear_pending B source = wr8 B (ECLIC_ADDR_BASE + ECLIC_INT_IP_OFFSET + source * 4) 0"

definition eclic_set_intctrl :: "'h bus \<Rightarrow> reg \<Rightarrow> 8 word \<Rightarrow> 'h \<Rightarrow> 'h" where
  "eclic_set_intctrl B source intctrl = wr8 B (ECLIC_ADDR_BASE + ECLIC_INT_CTRL_OFFSET + source * 4) intctrl"

definition eclic_get_intctrl :: "'h bus \<Rightarrow> reg \<Rightarrow> 'h \<Rightarrow> 8 word \<times> 'h" where
  "eclic_get_intctrl B source = rd8 B (ECLIC_ADDR_BASE + ECLIC_INT_CTRL_OFFSET + source * 4)"

definition eclic_set_intattr :: "'h bus \<Rightarrow> reg \<Rightarrow> 8 word \<Rightarrow> 'h \<Rightarrow> 'h" where
  "eclic_set_intattr B source intattr = wr8 B (ECLIC_ADDR_BASE + ECLIC_INT_ATTR_OFFSET + source * 4) intattr"

definition eclic_get_intattr :: "'h bus \<Rightarrow> reg \<Rightarrow> 'h \<Rightarrow> 8 word \<times> 'h" where
  "eclic_get_intattr B source = rd8 B (ECLIC_ADDR_BASE + ECLIC_INT_ATTR_OFFSET + source * 4)"

definition eclic_set_cliccfg :: "'h bus \<Rightarrow> 8 word \<Rightarrow> 'h \<Rightarrow> 'h" where
  "eclic_set_cliccfg B cliccfg = wr8 B (ECLIC_ADDR_BASE + ECLIC_CFG_OFFSET) cliccfg"

definition eclic_get_cliccfg :: "'h bus \<Rightarrow> 'h \<Rightarrow> 8 word \<times> 'h" where
  "eclic_get_cliccfg B = rd8 B (ECLIC_ADDR_BASE + ECLIC_CFG_OFFSET)"

definition eclic_set_mth :: "'h bus \<Rightarrow> 8 word \<Rightarrow> 'h \<Rightarrow> 'h" where
  "eclic_set_mth B mth = wr8 B (ECLIC_ADDR_BASE + ECLIC_MTH_OFFSET) mth"

definition eclic_get_mth :: "'h bus \<Rightarrow> 'h \<Rightarrow> 8 word \<times> 'h" where
  "eclic_get_mth B = rd8 B (ECLIC_ADDR_BASE + ECLIC_MTH_OFFSET)"

definition eclic_set_nlbits :: "'h bus \<Rightarrow> 8 word \<Rightarrow> 'h \<Rightarrow> 'h" where
  "eclic_set_nlbits B nlbits h =
     (let nlbits_shifted = push_bit ECLIC_CFG_NLBITS_LSB nlbits;
          (old_cliccfg, h) = eclic_get_cliccfg B h;
          new_cliccfg = (old_cliccfg AND NOT ECLIC_CFG_NLBITS_MASK) OR (ECLIC_CFG_NLBITS_MASK AND nlbits_shifted)
      in eclic_set_cliccfg B new_cliccfg h)"

definition eclic_get_nlbits :: "'h bus \<Rightarrow> 'h \<Rightarrow> 8 word \<times> 'h" where
  "eclic_get_nlbits B h =
     (let (nlbits, h) = eclic_get_cliccfg B h
      in (drop_bit ECLIC_CFG_NLBITS_LSB (nlbits AND ECLIC_CFG_NLBITS_MASK), h))"

text \<open>The number of level bits, at most the controller's: the beginning of the functions that follow.\<close>

definition level_bits :: "'h bus \<Rightarrow> 'h \<Rightarrow> nat \<times> 'h" where
  "level_bits B h =
     (let (nlbits, h) = eclic_get_nlbits B h
      in (unat (if ECLICINTCTLBITS < nlbits then ECLICINTCTLBITS else nlbits), h))"

text \<open>Replaces the upper \<open>n\<close> bits of a control byte; each shift is cut to eight bits.\<close>

definition with_level :: "nat \<Rightarrow> 8 word \<Rightarrow> 8 word \<Rightarrow> 8 word" where
  "with_level n lvl current_intctrl = drop_bit n (push_bit n current_intctrl) OR lvl"

definition eclic_set_irq_lvl :: "'h bus \<Rightarrow> reg \<Rightarrow> 8 word \<Rightarrow> 'h \<Rightarrow> 'h" where
  "eclic_set_irq_lvl B source lvl h =
     (let (nlbits, h) = level_bits B h;
          lvl = drop_bit (8 - nlbits) lvl;
          lvl = push_bit (8 - nlbits) lvl;
          (current_intctrl, h) = eclic_get_intctrl B source h
      in eclic_set_intctrl B source (with_level nlbits lvl current_intctrl) h)"

definition eclic_get_irq_lvl :: "'h bus \<Rightarrow> reg \<Rightarrow> 'h \<Rightarrow> 8 word \<times> 'h" where
  "eclic_get_irq_lvl B source h =
     (let (nlbits, h) = level_bits B h; (intctrl, h) = eclic_get_intctrl B source h
      in (push_bit (8 - nlbits) (drop_bit (8 - nlbits) intctrl), h))"

definition eclic_set_irq_lvl_abs :: "'h bus \<Rightarrow> reg \<Rightarrow> 8 word \<Rightarrow> 'h \<Rightarrow> 'h" where
  "eclic_set_irq_lvl_abs B source lvl_abs h =
     (let (nlbits, h) = level_bits B h;
          lvl = push_bit (8 - nlbits) lvl_abs;
          (current_intctrl, h) = eclic_get_intctrl B source h
      in eclic_set_intctrl B source (with_level nlbits lvl current_intctrl) h)"

definition eclic_get_irq_lvl_abs :: "'h bus \<Rightarrow> reg \<Rightarrow> 'h \<Rightarrow> 8 word \<times> 'h" where
  "eclic_get_irq_lvl_abs B source h =
     (let (nlbits, h) = level_bits B h; (intctrl, h) = eclic_get_intctrl B source h
      in (drop_bit (8 - nlbits) intctrl, h))"

definition eclic_set_irq_priority :: "'h bus \<Rightarrow> reg \<Rightarrow> 8 word \<Rightarrow> 'h \<Rightarrow> 8 word \<times> 'h" where
  "eclic_set_irq_priority B source priority h =
     (let (nlbits, h) = eclic_get_nlbits B h
      in if ECLICINTCTLBITS \<le> nlbits then (0, h)
         else (let n = unat nlbits;
                   priority = push_bit (8 - unat ECLICINTCTLBITS) priority;
                   (current_intctrl, h) = eclic_get_intctrl B source h;
                   current_intctrl = drop_bit (8 - n) current_intctrl;
                   current_intctrl = push_bit (8 - n) current_intctrl
               in (priority, eclic_set_intctrl B source (current_intctrl OR priority) h)))"

definition eclic_get_irq_priority :: "'h bus \<Rightarrow> reg \<Rightarrow> 'h \<Rightarrow> 8 word \<times> 'h" where
  "eclic_get_irq_priority B source h =
     (let (nlbits, h) = level_bits B h; (intctrl, h) = eclic_get_intctrl B source h;
          intctrl = push_bit nlbits intctrl
      in (drop_bit (nlbits + (8 - unat ECLICINTCTLBITS)) intctrl, h))"

definition eclic_mode_enable :: "'h core \<Rightarrow> 'h \<Rightarrow> 'h" where
  "eclic_mode_enable C h =
     (let (mtvec_value, h) = read_csr C CSR_MTVEC h;
          mtvec_value = mtvec_value AND 0xFFFFFFC0;
          mtvec_value = mtvec_value OR 0x00000003
      in write_csr C CSR_MTVEC mtvec_value h)"

definition eclic_set_vmode :: "'h bus \<Rightarrow> reg \<Rightarrow> 'h \<Rightarrow> 'h" where
  "eclic_set_vmode B source h =
     (let (old_intattr, h) = eclic_get_intattr B source h
      in eclic_set_intattr B source (old_intattr OR 1) h)"

definition eclic_set_nonvmode :: "'h bus \<Rightarrow> reg \<Rightarrow> 'h \<Rightarrow> 'h" where
  "eclic_set_nonvmode B source h =
     (let (old_intattr, h) = eclic_get_intattr B source h
      in eclic_set_intattr B source (old_intattr AND NOT 1) h)"

definition eclic_set_level_trig :: "'h bus \<Rightarrow> reg \<Rightarrow> 'h \<Rightarrow> 'h" where
  "eclic_set_level_trig B source h =
     (let (old_intattr, h) = eclic_get_intattr B source h
      in eclic_set_intattr B source (old_intattr AND NOT 2) h)"

text \<open>The first of the two values computed is overwritten by the second.\<close>

definition eclic_set_posedge_trig :: "'h bus \<Rightarrow> reg \<Rightarrow> 'h \<Rightarrow> 'h" where
  "eclic_set_posedge_trig B source h =
     (let (old_intattr, h) = eclic_get_intattr B source h;
          new_intattr = old_intattr OR 2;
          new_intattr = old_intattr AND NOT 4
      in eclic_set_intattr B source new_intattr h)"

definition eclic_set_negedge_trig :: "'h bus \<Rightarrow> reg \<Rightarrow> 'h \<Rightarrow> 'h" where
  "eclic_set_negedge_trig B source h =
     (let (old_intattr, h) = eclic_get_intattr B source h;
          new_intattr = old_intattr OR 2;
          new_intattr = old_intattr OR 4
      in eclic_set_intattr B source new_intattr h)"

text \<open>
  \<open>gd32vf103_eclic.c\<close>: the library's interface to the interrupt controller of the processor.
\<close>

section \<open>Registers\<close>

abbreviation (input) REG_DBGMCU2EN :: "reg" where "REG_DBGMCU2EN \<equiv> 0xe004200c"
abbreviation (input) REG_DBGMCU2 :: "reg" where "REG_DBGMCU2 \<equiv> 0xe0042008"

section \<open>Operations\<close>

definition eclic_system_reset :: "'h bus \<Rightarrow> 'h \<Rightarrow> 'h" where
  "eclic_system_reset B h =
     (let h = wr32 B REG_DBGMCU2EN 0x4b5a6978 h
      in wr32 B REG_DBGMCU2 1 h)"

definition eclic_global_interrupt_enable :: "'h core \<Rightarrow> 'h \<Rightarrow> 'h" where
  "eclic_global_interrupt_enable C = set_csr C CSR_MSTATUS MSTATUS_MIE"

definition eclic_global_interrupt_disable :: "'h core \<Rightarrow> 'h \<Rightarrow> 'h" where
  "eclic_global_interrupt_disable C = clear_csr C CSR_MSTATUS MSTATUS_MIE"

definition eclic_priority_group_set :: "'h bus \<Rightarrow> 8 word \<Rightarrow> 'h \<Rightarrow> 'h" where
  "eclic_priority_group_set B prigroup = eclic_set_nlbits B prigroup"

definition eclic_irq_enable :: "'h bus \<Rightarrow> reg \<Rightarrow> 8 word \<Rightarrow> 8 word \<Rightarrow> 'h \<Rightarrow> 'h" where
  "eclic_irq_enable B source level priority h =
     (let h = eclic_enable_interrupt B source h;
          h = eclic_set_irq_lvl_abs B source level h
      in snd (eclic_set_irq_priority B source priority h))"

definition eclic_irq_disable :: "'h bus \<Rightarrow> reg \<Rightarrow> 'h \<Rightarrow> 'h" where
  "eclic_irq_disable B source = eclic_disable_interrupt B source"

definition eclic_send_event :: "'h core \<Rightarrow> 'h \<Rightarrow> 'h" where
  "eclic_send_event C = set_csr C CSR_TXEVT 1"

end
