(* ===== verification/N200Spec.thy ===== *)
theory N200Spec
  imports N200
begin

text \<open>
  What the processor library relies on: counters of 64 bits that run on while they are read by halves,
  and the byte registers of the interrupt controller.
\<close>

section \<open>Counters\<close>

text \<open>A counter whose halves are read by two operations: each reads its half of the count of that
  moment, and the count never goes back.\<close>

locale counter =
  fixes high low :: "'h \<Rightarrow> reg \<times> 'h" and count :: "'h \<Rightarrow> 64 word"
  assumes high: "fst (high h) = ucast (drop_bit 32 (count h))" and low: "fst (low h) = ucast (count h)"
    and on: "count h \<le> count (snd (high h))" "count h \<le> count (snd (low h))"
begin

lemma halves_between:
  assumes "drop_bit 32 a = drop_bit 32 (c :: 64 word)" "a \<le> b" "b \<le> c"
  shows "drop_bit 32 b = drop_bit 32 a"
proof -
  have d: "unat (drop_bit 32 x) = unat x div 2 ^ 32" for x :: "64 word"
    by (simp add: drop_bit_eq_div unat_div)
  have "unat a div 2 ^ 32 \<le> unat b div 2 ^ 32" "unat b div 2 ^ 32 \<le> unat c div 2 ^ 32"
    using assms(2,3) by (simp_all add: word_le_nat_alt div_le_mono)
  then have "unat (drop_bit 32 b) = unat (drop_bit 32 a)"
    using arg_cong [OF assms(1), of unat] by (simp only: d)
  then show ?thesis by (simp only: word_unat_eq_iff)
qed

lemma join_halves: "push_bit 32 (ucast (ucast (drop_bit 32 b) :: reg)) OR ucast (ucast b :: reg) = (b :: 64 word)"
  by (rule bit_word_eqI) (auto simp: bit_simps)

lemma half_inj: "(ucast (drop_bit 32 a) :: reg) = ucast (drop_bit 32 c) \<longleftrightarrow> drop_bit 32 a = drop_bit 32 (c :: 64 word)"
proof
  assume e: "(ucast (drop_bit 32 a) :: reg) = ucast (drop_bit 32 c)"
  show "drop_bit 32 a = drop_bit 32 c"
  proof (rule bit_word_eqI)
    fix n assume "n < LENGTH(64)"
    have "bit (ucast (drop_bit 32 a) :: reg) n \<longleftrightarrow> bit (ucast (drop_bit 32 c) :: reg) n" using e by simp
    then show "bit (drop_bit 32 a) n \<longleftrightarrow> bit (drop_bit 32 c) n"
      by (auto simp: bit_simps dest: bit_imp_le_length)
  qed
qed simp

text \<open>One turn of the loop ends it if the upper half did not change, and then the value is the count
  at the moment the lower half was read.\<close>

lemma turn_of:
  fixes rest :: "('h \<Rightarrow> reg \<times> 'h) \<Rightarrow> ('h \<Rightarrow> reg \<times> 'h) \<Rightarrow> 'h \<Rightarrow> (64 word \<times> 'h) option" and h :: 'h
  defines "h2 \<equiv> snd (high h)" and "h3 \<equiv> snd (low (snd (high h)))"
  shows "(let (hi, h) = high h; (lo, h) = low h; (hi', h) = high h
      in if hi = hi' then Some (push_bit 32 (ucast hi) OR ucast lo, h) else rest high low h) =
    (if drop_bit 32 (count h) = drop_bit 32 (count h3) then Some (count h2, snd (high h3))
     else rest high low (snd (high h3)))"
proof (cases "drop_bit 32 (count h) = drop_bit 32 (count h3)")
  case True
  have "drop_bit 32 (count h2) = drop_bit 32 (count h)"
    using halves_between [OF True] on by (simp add: h2_def h3_def)
  then have "push_bit 32 (ucast (fst (high h))) OR ucast (fst (low (snd (high h)))) = count h2"
    using join_halves [of "count h2"] by (simp add: high low h2_def)
  moreover have "fst (high h) = fst (high h3)" using True by (simp add: high)
  ultimately show ?thesis using True by (simp add: split_beta h3_def)
next
  case False
  then have "fst (high h) \<noteq> fst (high h3)" by (simp add: high half_inj)
  then show ?thesis using False by (simp add: split_beta h3_def)
qed

lemmas turn = read_halves.simps [of high low, unfolded turn_of]

lemma value_between:
  assumes "read_halves high low h = Some (v, h')"
  shows "count h \<le> v \<and> v \<le> count h'"
proof -
  let ?P = "\<lambda>f g h r. f = high \<longrightarrow> g = low \<longrightarrow> count h \<le> fst r \<and> fst r \<le> count (snd r)"
  have "?P high low h (v, h')"
  proof (rule read_halves.raw_induct [where P = ?P, OF _ assms], intro impI)
    fix rh and f g :: "'h \<Rightarrow> reg \<times> 'h" and h r
    assume IH: "\<And>f g h r. rh f g h = Some r \<Longrightarrow> ?P f g h r"
      and step: "(let (hi, h) = f h; (lo, h) = g h; (hi', h) = f h
        in if hi = hi' then Some (push_bit 32 (ucast hi) OR ucast lo, h) else rh f g h) = Some r"
      and fg: "f = high" "g = low"
    let ?h2 = "snd (high h)" and ?h3 = "snd (low (snd (high h)))"
    have mono: "count h \<le> count ?h2" "count ?h2 \<le> count ?h3" "count ?h3 \<le> count (snd (high ?h3))"
      by (rule on)+
    have turn: "(if drop_bit 32 (count h) = drop_bit 32 (count ?h3) then Some (count ?h2, snd (high ?h3))
        else rh high low (snd (high ?h3))) = Some r"
      using step unfolding fg turn_of .
    show "count h \<le> fst r \<and> fst r \<le> count (snd r)"
    proof (cases "drop_bit 32 (count h) = drop_bit 32 (count ?h3)")
      case True
      then show ?thesis using turn mono by auto
    next
      case False
      then have "count (snd (high ?h3)) \<le> fst r \<and> fst r \<le> count (snd r)"
        using turn IH [of high low "snd (high ?h3)" r] by simp
      then show ?thesis using mono by auto
    qed
  qed
  then show ?thesis by simp
qed

text \<open>It returns as soon as the upper half stays the same during one turn, and at the latest at the
  second turn if the upper half changes at most once during the two.\<close>

lemma returns_unchanged:
  "drop_bit 32 (count h) = drop_bit 32 (count (snd (low (snd (high h))))) \<Longrightarrow>
   read_halves high low h = Some (count (snd (high h)), snd (high (snd (low (snd (high h))))))"
  by (subst turn) simp

end

section \<open>Byte registers\<close>

locale byte_registers =
  fixes B :: "'h bus" and val :: "'h \<Rightarrow> 32 word \<Rightarrow> 8 word" and A :: "32 word set"
  assumes rd_val: "a \<in> A \<Longrightarrow> rd8 B a h = (val h a, h)"
    and wr_val: "a \<in> A \<Longrightarrow> b \<in> A \<Longrightarrow> val (wr8 B a v h) b = (if b = a then v else val h b)"

lemma low_two_bits: "unat (a AND 3 :: 32 word) < 4"
proof -
  have "a AND 3 = take_bit 2 a" using take_bit_eq_mask [of 2 a] by (simp add: mask_eq_exp_minus_1)
  then show ?thesis by (simp add: unsigned_take_bit_eq take_bit_nat_less_exp [of 2, simplified])
qed

lemma byte_address: "a AND NOT 3 = b AND NOT 3 \<Longrightarrow> a AND 3 = b AND 3 \<Longrightarrow> a = b" for a b :: "32 word"
proof -
  assume "a AND NOT 3 = b AND NOT 3" "a AND 3 = b AND 3"
  then have "(a AND NOT 3) OR (a AND 3) = (b AND NOT 3) OR (b AND 3)" by simp
  moreover have "(x AND NOT 3) OR (x AND 3) = x" for x :: "32 word"
    by (rule bit_word_eqI) (auto simp: bit_simps)
  ultimately show "a = b" by simp
qed

lemma bit_FF: "bit (0xFF :: reg) n \<longleftrightarrow> n < 8" "bit (0xFF :: 8 word) n \<longleftrightarrow> n < 8"
proof -
  have "(0xFF :: reg) = mask 8" "(0xFF :: 8 word) = mask 8" by (simp_all add: mask_eq_exp_minus_1)
  then show "bit (0xFF :: reg) n \<longleftrightarrow> n < 8" "bit (0xFF :: 8 word) n \<longleftrightarrow> n < 8"
    by (simp_all only: bit_mask_iff) auto
qed

lemma byte_written:
  fixes x :: reg and v :: "8 word"
  assumes "i < 4" "j < 4"
  shows "ucast (drop_bit (8 * j) ((x AND NOT (push_bit (8 * i) 0xFF)) OR push_bit (8 * i) (ucast v))) =
    (if j = i then v else ucast (drop_bit (8 * j) x))"
proof (rule bit_word_eqI)
  fix n assume "n < LENGTH(8)"
  then have n: "n < 8" by simp
  have "8 * i \<le> 8 * j + n \<and> 8 * j + n - 8 * i < 8 \<longleftrightarrow> j = i" using n by auto
  moreover have "8 * j + n < 32" using n assms by auto
  moreover have "bit v m \<Longrightarrow> m < 8" for m using bit_imp_le_length [of v m] by simp
  ultimately show "bit (ucast (drop_bit (8 * j) ((x AND NOT (push_bit (8 * i) 0xFF)) OR push_bit (8 * i) (ucast v))) :: 8 word) n
      \<longleftrightarrow> bit (if j = i then v else ucast (drop_bit (8 * j) x)) n"
    using n by (auto simp: bit_simps bit_FF simp del: bit_numeral_word_iff)
qed

lemma gd32_bytes: "fst (gd32_read8 b (gd32_write8 a v h)) = (if b = a then v else fst (gd32_read8 b h))"
proof (cases "b AND NOT 3 = a AND NOT 3")
  case True
  have "unat (b AND 3) = unat (a AND 3) \<longleftrightarrow> b = a" using byte_address [OF True] by (metis word_unat_eq_iff)
  then show ?thesis
    using byte_written [OF low_two_bits low_two_bits, of b "h (a AND NOT 3)" a v] True
    by (simp add: gd32_read8_def gd32_write8_def Let_def)
next
  case False
  then have "b \<noteq> a" by auto
  then show ?thesis using False by (simp add: gd32_read8_def gd32_write8_def Let_def)
qed

interpretation gd32_bytes: byte_registers gd32 "\<lambda>h a. fst (gd32_read8 a h)" UNIV
proof
  show "rd8 gd32 a h = (fst (gd32_read8 a h), h)" for a h by (simp add: gd32_def gd32_read8_def)
  show "fst (gd32_read8 b (wr8 gd32 a v h)) = (if b = a then v else fst (gd32_read8 b h))" for a b v h
    using gd32_bytes by (simp add: gd32_def)
qed

section \<open>Levels and priorities\<close>

text \<open>How many bits of a control byte are the level's, from the configuration byte.\<close>

definition level_count :: "8 word \<Rightarrow> nat" where
  "level_count cfg = min 4 (unat (drop_bit 1 (cfg AND 0x1E)))"

text \<open>The control byte of a source.\<close>

definition ctrl_byte :: "reg \<Rightarrow> 32 word" where
  "ctrl_byte source = ECLIC_ADDR_BASE + ECLIC_INT_CTRL_OFFSET + source * 4"

lemma ctrl_byte_not_cfg: "source < 4096 \<Longrightarrow> ctrl_byte source \<noteq> 0xd2000000"
proof
  assume s: "source < 4096" and "ctrl_byte source = 0xd2000000"
  then have "source * 4 = - 0x1003" by (simp add: ctrl_byte_def algebra_simps eq_neg_iff_add_eq_0)
  then have "unat (source * 4) = unat (- 0x1003 :: reg)" by simp
  moreover have "unat (source * 4) = unat source * 4"
    using s unat_mult_lem [of source 4] by (simp add: word_less_nat_alt)
  ultimately show False using s by (simp add: word_less_nat_alt)
qed

lemma level_replaced:
  assumes "n \<le> 4"
  shows "drop_bit (8 - n) (with_level n (push_bit (8 - n) lvl) x) = take_bit n lvl"
    and "drop_bit (n + 4) (push_bit n (with_level n (push_bit (8 - n) lvl) x)) = drop_bit (n + 4) (push_bit n x)"
proof -
  show "drop_bit (8 - n) (with_level n (push_bit (8 - n) lvl) x) = take_bit n lvl"
    unfolding with_level_def using assms by (intro bit_word_eqI) (auto simp: bit_simps)
  show "drop_bit (n + 4) (push_bit n (with_level n (push_bit (8 - n) lvl) x)) = drop_bit (n + 4) (push_bit n x)"
    unfolding with_level_def using assms by (intro bit_word_eqI) (auto simp: bit_simps)
qed

lemma take_level: "unat lvl < 2 ^ n \<Longrightarrow> take_bit n lvl = lvl" for lvl :: "8 word"
  by (simp add: word_unat_eq_iff unsigned_take_bit_eq take_bit_nat_eq_self)

context byte_registers
begin

lemma level_bits_val: "0xd2000000 \<in> A \<Longrightarrow> level_bits B h = (level_count (val h 0xd2000000), h)"
proof -
  assume "0xd2000000 \<in> A"
  moreover have "unat (if 4 < m then 4 else m) = min 4 (unat m)" for m :: "8 word"
    by (simp add: word_less_nat_alt)
  ultimately show ?thesis
    by (simp add: level_bits_def eclic_get_nlbits_def eclic_get_cliccfg_def rd_val ECLIC_CFG_NLBITS_LSB_def
      ECLIC_CFG_NLBITS_MASK_def ECLICINTCTLBITS_def level_count_def if_distrib [where f = unat] word_less_nat_alt)
qed

lemma set_lvl_abs:
  assumes "0xd2000000 \<in> A" "ctrl_byte source \<in> A"
  shows "eclic_set_irq_lvl_abs B source lvl h = (let n = level_count (val h 0xd2000000) in
    wr8 B (ctrl_byte source) (with_level n (push_bit (8 - n) lvl) (val h (ctrl_byte source))) h)"
  using assms by (simp add: eclic_set_irq_lvl_abs_def level_bits_val eclic_get_intctrl_def eclic_set_intctrl_def
    Let_def rd_val ctrl_byte_def)

lemma get_lvl_abs:
  assumes "0xd2000000 \<in> A" "ctrl_byte source \<in> A"
  shows "eclic_get_irq_lvl_abs B source h =
    (drop_bit (8 - level_count (val h 0xd2000000)) (val h (ctrl_byte source)), h)"
  using assms by (simp add: eclic_get_irq_lvl_abs_def level_bits_val eclic_get_intctrl_def
    Let_def rd_val ctrl_byte_def)

lemma get_priority:
  assumes "0xd2000000 \<in> A" "ctrl_byte source \<in> A"
  shows "eclic_get_irq_priority B source h = (let n = level_count (val h 0xd2000000) in
    (drop_bit (n + 4) (push_bit n (val h (ctrl_byte source))), h))"
  using assms by (simp add: eclic_get_irq_priority_def level_bits_val eclic_get_intctrl_def
    Let_def rd_val ctrl_byte_def ECLICINTCTLBITS_def)

lemma level_set_get:
  assumes "0xd2000000 \<in> A" "ctrl_byte source \<in> A" "source < 4096" "unat lvl < 2 ^ level_count (val h 0xd2000000)"
  shows "fst (eclic_get_irq_lvl_abs B source (eclic_set_irq_lvl_abs B source lvl h)) = lvl"
    and "fst (eclic_get_irq_priority B source (eclic_set_irq_lvl_abs B source lvl h)) =
      fst (eclic_get_irq_priority B source h)"
proof -
  have n: "level_count (val h 0xd2000000) \<le> 4" by (simp add: level_count_def)
  have ne: "0xd2000000 \<noteq> ctrl_byte source" using ctrl_byte_not_cfg [OF assms(3)] by simp
  show "fst (eclic_get_irq_lvl_abs B source (eclic_set_irq_lvl_abs B source lvl h)) = lvl"
    using assms(1,2,4) n ne by (simp add: set_lvl_abs get_lvl_abs Let_def wr_val level_replaced take_level)
  show "fst (eclic_get_irq_priority B source (eclic_set_irq_lvl_abs B source lvl h)) =
      fst (eclic_get_irq_priority B source h)"
    using assms(1,2) n ne by (simp add: set_lvl_abs get_priority Let_def wr_val level_replaced)
qed

end

end
