(* ===== verification/Watchdogs.thy ===== *)
theory Watchdogs
  imports Rcu
begin

text \<open>
  \<open>gd32vf103_fwdgt.c\<close>: the free watchdog, whose registers may be written once the hardware is done
  with the last write.
\<close>

section \<open>Registers\<close>

abbreviation (input) FWDGT_BASE :: "reg" where "FWDGT_BASE \<equiv> APB1_BUS_BASE + 0x3000"
abbreviation (input) FWDGT :: "reg" where "FWDGT \<equiv> FWDGT_BASE"
abbreviation (input) FWDGT_CTL :: "32 word" where "FWDGT_CTL \<equiv> FWDGT + 0"
abbreviation (input) FWDGT_WRITEACCESS_ENABLE :: "reg" where "FWDGT_WRITEACCESS_ENABLE \<equiv> 0x5555"
abbreviation (input) FWDGT_WRITEACCESS_DISABLE :: "reg" where "FWDGT_WRITEACCESS_DISABLE \<equiv> 0"
abbreviation (input) FWDGT_KEY_ENABLE :: "reg" where "FWDGT_KEY_ENABLE \<equiv> 0xcccc"
abbreviation (input) FWDGT_KEY_RELOAD :: "reg" where "FWDGT_KEY_RELOAD \<equiv> 0xaaaa"
abbreviation (input) FWDGT_STAT :: "32 word" where "FWDGT_STAT \<equiv> FWDGT + 0xc"
abbreviation (input) FWDGT_PSC :: "32 word" where "FWDGT_PSC \<equiv> FWDGT + 4"
abbreviation (input) FWDGT_PSC_TIMEOUT :: "reg" where "FWDGT_PSC_TIMEOUT \<equiv> 0xfffff"
abbreviation (input) FWDGT_RLD :: "32 word" where "FWDGT_RLD \<equiv> FWDGT + 8"
abbreviation (input) FWDGT_RLD_TIMEOUT :: "reg" where "FWDGT_RLD_TIMEOUT \<equiv> 0xfffff"
abbreviation (input) FWDGT_STAT_PUD :: "reg" where "FWDGT_STAT_PUD \<equiv> BIT 0"
abbreviation (input) FWDGT_STAT_RUD :: "reg" where "FWDGT_STAT_RUD \<equiv> BIT 1"
abbreviation (input) RLD_RLD :: "reg \<Rightarrow> reg" where "RLD_RLD regval \<equiv> BITS 0 11 AND (push_bit 0 regval)"

section \<open>Operations\<close>

definition fwdgt_write_enable :: "'h bus \<Rightarrow> 'h \<Rightarrow> 'h" where
  "fwdgt_write_enable B h = wr32 B FWDGT_CTL FWDGT_WRITEACCESS_ENABLE h"

definition fwdgt_write_disable :: "'h bus \<Rightarrow> 'h \<Rightarrow> 'h" where
  "fwdgt_write_disable B h = wr32 B FWDGT_CTL FWDGT_WRITEACCESS_DISABLE h"

definition fwdgt_enable :: "'h bus \<Rightarrow> 'h \<Rightarrow> 'h" where
  "fwdgt_enable B h = wr32 B FWDGT_CTL FWDGT_KEY_ENABLE h"

definition fwdgt_counter_reload :: "'h bus \<Rightarrow> 'h \<Rightarrow> 'h" where
  "fwdgt_counter_reload B h = wr32 B FWDGT_CTL FWDGT_KEY_RELOAD h"

definition fwdgt_flag_get :: "'h bus \<Rightarrow> 16 word \<Rightarrow> 'h \<Rightarrow> bool \<times> 'h" where
  "fwdgt_flag_get B flg h = any_set B FWDGT_STAT (ucast flg) h"

definition fwdgt_config :: "'h bus \<Rightarrow> 16 word \<Rightarrow> 8 word \<Rightarrow> 'h \<Rightarrow> bool \<times> 'h" where
  "fwdgt_config B reload_value prescaler_div h =
     (let h = wr32 B FWDGT_CTL FWDGT_WRITEACCESS_ENABLE h;
          (v, h) = poll_while B FWDGT_STAT (\<lambda>v. v AND FWDGT_STAT_PUD \<noteq> 0) (unat FWDGT_PSC_TIMEOUT - 1) h
      in if v AND FWDGT_STAT_PUD \<noteq> 0 then (False, h)
         else (let h = wr32 B FWDGT_PSC (ucast prescaler_div) h;
                   (v, h) = poll_while B FWDGT_STAT (\<lambda>v. v AND FWDGT_STAT_RUD \<noteq> 0) (unat FWDGT_RLD_TIMEOUT - 1) h
               in if v AND FWDGT_STAT_RUD \<noteq> 0 then (False, h)
                  else (let h = wr32 B FWDGT_RLD (RLD_RLD (ucast reload_value)) h
                        in (True, wr32 B FWDGT_CTL FWDGT_KEY_RELOAD h))))"

text \<open>
  \<open>gd32vf103_wwdgt.c\<close>: the window watchdog.
\<close>

section \<open>Registers\<close>

abbreviation (input) WWDGT_BASE :: "reg" where "WWDGT_BASE \<equiv> APB1_BUS_BASE + 0x2c00"
abbreviation (input) WWDGT :: "reg" where "WWDGT \<equiv> WWDGT_BASE"
abbreviation (input) WWDGT_CTL :: "32 word" where "WWDGT_CTL \<equiv> WWDGT + 0"
abbreviation (input) WWDGT_CTL_WDGTEN :: "reg" where "WWDGT_CTL_WDGTEN \<equiv> BIT 7"
abbreviation (input) WWDGT_CTL_CNT :: "reg" where "WWDGT_CTL_CNT \<equiv> BITS 0 6"
abbreviation (input) CTL_CNT :: "reg \<Rightarrow> reg" where "CTL_CNT regval \<equiv> BITS 0 6 AND (push_bit 0 regval)"
abbreviation (input) WWDGT_CFG :: "32 word" where "WWDGT_CFG \<equiv> WWDGT + 4"
abbreviation (input) WWDGT_CFG_WIN :: "reg" where "WWDGT_CFG_WIN \<equiv> BITS 0 6"
abbreviation (input) WWDGT_CFG_PSC :: "reg" where "WWDGT_CFG_PSC \<equiv> BITS 7 8"
abbreviation (input) CFG_WIN :: "reg \<Rightarrow> reg" where "CFG_WIN regval \<equiv> BITS 0 6 AND (push_bit 0 regval)"
abbreviation (input) WWDGT_CFG_EWIE :: "reg" where "WWDGT_CFG_EWIE \<equiv> BIT 9"
abbreviation (input) WWDGT_STAT :: "32 word" where "WWDGT_STAT \<equiv> WWDGT + 8"
abbreviation (input) WWDGT_STAT_EWIF :: "reg" where "WWDGT_STAT_EWIF \<equiv> BIT 0"

section \<open>Operations\<close>

definition wwdgt_deinit :: "'h bus \<Rightarrow> 'h \<Rightarrow> 'h" where
  "wwdgt_deinit B h =
     reset_pulse B RCU_WWDGTRST h"

definition wwdgt_enable :: "'h bus \<Rightarrow> 'h \<Rightarrow> 'h" where
  "wwdgt_enable B h = set_bits B WWDGT_CTL WWDGT_CTL_WDGTEN h"

definition wwdgt_counter_update :: "'h bus \<Rightarrow> 16 word \<Rightarrow> 'h \<Rightarrow> 'h" where
  "wwdgt_counter_update B counter_value h =
     (let (v, h) = rd32 B WWDGT_CTL h;
          reg = v AND NOT WWDGT_CTL_CNT;
          reg = reg OR CTL_CNT (ucast counter_value)
      in wr32 B WWDGT_CTL reg h)"

definition wwdgt_config :: "'h bus \<Rightarrow> 16 word \<Rightarrow> 16 word \<Rightarrow> reg \<Rightarrow> 'h \<Rightarrow> 'h" where
  "wwdgt_config B counter window prescaler h =
     (let (v, h) = rd32 B WWDGT_CFG h;
          reg_cfg = v AND NOT (WWDGT_CFG_WIN OR WWDGT_CFG_PSC);
          (v2, h) = rd32 B WWDGT_CTL h;
          reg_ctl = v2 AND NOT WWDGT_CTL_CNT;
          reg_cfg = reg_cfg OR CFG_WIN (ucast window);
          reg_cfg = reg_cfg OR prescaler;
          reg_ctl = reg_ctl OR CTL_CNT (ucast counter);
          h = wr32 B WWDGT_CTL reg_ctl h
      in wr32 B WWDGT_CFG reg_cfg h)"

definition wwdgt_interrupt_enable :: "'h bus \<Rightarrow> 'h \<Rightarrow> 'h" where
  "wwdgt_interrupt_enable B h = set_bits B WWDGT_CFG WWDGT_CFG_EWIE h"

definition wwdgt_flag_get :: "'h bus \<Rightarrow> 'h \<Rightarrow> bool \<times> 'h" where
  "wwdgt_flag_get B h = any_set B WWDGT_STAT WWDGT_STAT_EWIF h"

definition wwdgt_flag_clear :: "'h bus \<Rightarrow> 'h \<Rightarrow> 'h" where
  "wwdgt_flag_clear B h = clear_bits B WWDGT_STAT WWDGT_STAT_EWIF h"

end
