(* ===== verification/Dac.thy ===== *)
theory Dac
  imports Rcu
begin

text \<open>
  \<open>gd32vf103_dac.c\<close>: the two digital to analog converters, whose bits in the control register are
  sixteen apart.
\<close>

section \<open>Registers\<close>

abbreviation (input) DAC0 :: "reg" where "DAC0 \<equiv> 0"
abbreviation (input) DAC_BASE :: "reg" where "DAC_BASE \<equiv> APB1_BUS_BASE + 0x7400"
abbreviation (input) DAC :: "reg" where "DAC \<equiv> DAC_BASE"
abbreviation (input) DAC_CTL :: "32 word" where "DAC_CTL \<equiv> DAC + 0"
abbreviation (input) DAC_CTL_DEN0 :: "reg" where "DAC_CTL_DEN0 \<equiv> BIT 0"
abbreviation (input) DAC_CTL_DEN1 :: "reg" where "DAC_CTL_DEN1 \<equiv> BIT 16"
abbreviation (input) DAC_CTL_DDMAEN0 :: "reg" where "DAC_CTL_DDMAEN0 \<equiv> BIT 12"
abbreviation (input) DAC_CTL_DDMAEN1 :: "reg" where "DAC_CTL_DDMAEN1 \<equiv> BIT 28"
abbreviation (input) DAC_CTL_DBOFF0 :: "reg" where "DAC_CTL_DBOFF0 \<equiv> BIT 1"
abbreviation (input) DAC_CTL_DBOFF1 :: "reg" where "DAC_CTL_DBOFF1 \<equiv> BIT 17"
abbreviation (input) DAC0_DO :: "32 word" where "DAC0_DO \<equiv> DAC + 0x2c"
abbreviation (input) DAC1_DO :: "32 word" where "DAC1_DO \<equiv> DAC + 0x30"
abbreviation (input) DATA_ALIGN :: "reg \<Rightarrow> reg" where "DATA_ALIGN regval \<equiv> BITS 0 1 AND (push_bit 0 regval)"
abbreviation (input) DAC_ALIGN_12B_R :: "reg" where "DAC_ALIGN_12B_R \<equiv> DATA_ALIGN 0"
abbreviation (input) DAC0_R12DH :: "32 word" where "DAC0_R12DH \<equiv> DAC + 8"
abbreviation (input) DAC_ALIGN_12B_L :: "reg" where "DAC_ALIGN_12B_L \<equiv> DATA_ALIGN 1"
abbreviation (input) DAC0_L12DH :: "32 word" where "DAC0_L12DH \<equiv> DAC + 0xc"
abbreviation (input) DAC_ALIGN_8B_R :: "reg" where "DAC_ALIGN_8B_R \<equiv> DATA_ALIGN 2"
abbreviation (input) DAC0_R8DH :: "32 word" where "DAC0_R8DH \<equiv> DAC + 0x10"
abbreviation (input) DAC1_R12DH :: "32 word" where "DAC1_R12DH \<equiv> DAC + 0x14"
abbreviation (input) DAC1_L12DH :: "32 word" where "DAC1_L12DH \<equiv> DAC + 0x18"
abbreviation (input) DAC1_R8DH :: "32 word" where "DAC1_R8DH \<equiv> DAC + 0x1c"
abbreviation (input) DAC_CTL_DTEN0 :: "reg" where "DAC_CTL_DTEN0 \<equiv> BIT 2"
abbreviation (input) DAC_CTL_DTEN1 :: "reg" where "DAC_CTL_DTEN1 \<equiv> BIT 18"
abbreviation (input) DAC_CTL_DTSEL0 :: "reg" where "DAC_CTL_DTSEL0 \<equiv> BITS 3 5"
abbreviation (input) DAC_CTL_DTSEL1 :: "reg" where "DAC_CTL_DTSEL1 \<equiv> BITS 19 21"
abbreviation (input) DAC1_REG_OFFSET :: "reg" where "DAC1_REG_OFFSET \<equiv> 16"
abbreviation (input) DAC_SWT :: "32 word" where "DAC_SWT \<equiv> DAC + 4"
abbreviation (input) DAC_SWT_SWTR0 :: "reg" where "DAC_SWT_SWTR0 \<equiv> BIT 0"
abbreviation (input) DAC_SWT_SWTR1 :: "reg" where "DAC_SWT_SWTR1 \<equiv> BIT 1"
abbreviation (input) DAC_CTL_DWM0 :: "reg" where "DAC_CTL_DWM0 \<equiv> BITS 6 7"
abbreviation (input) DAC_CTL_DWM1 :: "reg" where "DAC_CTL_DWM1 \<equiv> BITS 22 23"
abbreviation (input) DAC_CTL_DWBW0 :: "reg" where "DAC_CTL_DWBW0 \<equiv> BITS 8 11"
abbreviation (input) DAC_CTL_DWBW1 :: "reg" where "DAC_CTL_DWBW1 \<equiv> BITS 24 27"
abbreviation (input) DH_12BIT_OFFSET :: "reg" where "DH_12BIT_OFFSET \<equiv> 16"
abbreviation (input) DACC_R12DH :: "32 word" where "DACC_R12DH \<equiv> DAC + 0x20"
abbreviation (input) DACC_L12DH :: "32 word" where "DACC_L12DH \<equiv> DAC + 0x24"
abbreviation (input) DH_8BIT_OFFSET :: "reg" where "DH_8BIT_OFFSET \<equiv> 8"
abbreviation (input) DACC_R8DH :: "32 word" where "DACC_R8DH \<equiv> DAC + 0x28"

section \<open>Operations\<close>

definition dac_deinit :: "'h bus \<Rightarrow> 'h \<Rightarrow> 'h" where
  "dac_deinit B h =
     reset_pulse B RCU_DACRST h"

definition dac_enable :: "'h bus \<Rightarrow> reg \<Rightarrow> 'h \<Rightarrow> 'h" where
  "dac_enable B dac_periph h =
     (if dac_periph = DAC0 then set_bits B DAC_CTL DAC_CTL_DEN0 h
      else set_bits B DAC_CTL DAC_CTL_DEN1 h)"

definition dac_disable :: "'h bus \<Rightarrow> reg \<Rightarrow> 'h \<Rightarrow> 'h" where
  "dac_disable B dac_periph h =
     (if dac_periph = DAC0 then clear_bits B DAC_CTL DAC_CTL_DEN0 h
      else clear_bits B DAC_CTL DAC_CTL_DEN1 h)"

definition dac_dma_enable :: "'h bus \<Rightarrow> reg \<Rightarrow> 'h \<Rightarrow> 'h" where
  "dac_dma_enable B dac_periph h =
     (if dac_periph = DAC0 then set_bits B DAC_CTL DAC_CTL_DDMAEN0 h
      else set_bits B DAC_CTL DAC_CTL_DDMAEN1 h)"

definition dac_dma_disable :: "'h bus \<Rightarrow> reg \<Rightarrow> 'h \<Rightarrow> 'h" where
  "dac_dma_disable B dac_periph h =
     (if dac_periph = DAC0 then clear_bits B DAC_CTL DAC_CTL_DDMAEN0 h
      else clear_bits B DAC_CTL DAC_CTL_DDMAEN1 h)"

definition dac_output_buffer_enable :: "'h bus \<Rightarrow> reg \<Rightarrow> 'h \<Rightarrow> 'h" where
  "dac_output_buffer_enable B dac_periph h =
     (if dac_periph = DAC0 then clear_bits B DAC_CTL DAC_CTL_DBOFF0 h
      else clear_bits B DAC_CTL DAC_CTL_DBOFF1 h)"

definition dac_output_buffer_disable :: "'h bus \<Rightarrow> reg \<Rightarrow> 'h \<Rightarrow> 'h" where
  "dac_output_buffer_disable B dac_periph h =
     (if dac_periph = DAC0 then set_bits B DAC_CTL DAC_CTL_DBOFF0 h
      else set_bits B DAC_CTL DAC_CTL_DBOFF1 h)"

definition dac_output_value_get :: "'h bus \<Rightarrow> reg \<Rightarrow> 'h \<Rightarrow> 16 word \<times> 'h" where
  "dac_output_value_get B dac_periph h =
     (let dat = (0 :: 16 word);
          (dat, h) =
            (if dac_periph = DAC0
             then (let (v, h) = rd32 B DAC0_DO h;
                       dat = (ucast v :: 16 word)
                   in (dat, h))
             else (let (v, h) = rd32 B DAC1_DO h;
                       dat = (ucast v :: 16 word)
                   in (dat, h)))
      in (dat, h))"

definition dac_data_set :: "'h bus \<Rightarrow> reg \<Rightarrow> reg \<Rightarrow> 16 word \<Rightarrow> 'h \<Rightarrow> 'h" where
  "dac_data_set B dac_periph dac_align dat h =
     (if dac_periph = DAC0
      then (if dac_align = DAC_ALIGN_12B_R then wr32 B DAC0_R12DH (ucast dat) h
            else if dac_align = DAC_ALIGN_12B_L then wr32 B DAC0_L12DH (ucast dat) h
            else if dac_align = DAC_ALIGN_8B_R then wr32 B DAC0_R8DH (ucast dat) h
            else h)
      else if dac_align = DAC_ALIGN_12B_R then wr32 B DAC1_R12DH (ucast dat) h
      else if dac_align = DAC_ALIGN_12B_L then wr32 B DAC1_L12DH (ucast dat) h
      else if dac_align = DAC_ALIGN_8B_R then wr32 B DAC1_R8DH (ucast dat) h
      else h)"

definition dac_trigger_enable :: "'h bus \<Rightarrow> reg \<Rightarrow> 'h \<Rightarrow> 'h" where
  "dac_trigger_enable B dac_periph h =
     (if dac_periph = DAC0 then set_bits B DAC_CTL DAC_CTL_DTEN0 h
      else set_bits B DAC_CTL DAC_CTL_DTEN1 h)"

definition dac_trigger_disable :: "'h bus \<Rightarrow> reg \<Rightarrow> 'h \<Rightarrow> 'h" where
  "dac_trigger_disable B dac_periph h =
     (if dac_periph = DAC0 then clear_bits B DAC_CTL DAC_CTL_DTEN0 h
      else clear_bits B DAC_CTL DAC_CTL_DTEN1 h)"

definition dac_trigger_source_config :: "'h bus \<Rightarrow> reg \<Rightarrow> reg \<Rightarrow> 'h \<Rightarrow> 'h" where
  "dac_trigger_source_config B dac_periph triggersource h =
     (if dac_periph = DAC0
      then (let h = clear_bits B DAC_CTL DAC_CTL_DTSEL0 h
            in set_bits B DAC_CTL triggersource h)
      else (let h = clear_bits B DAC_CTL DAC_CTL_DTSEL1 h
            in set_bits B DAC_CTL (push_bit (unat DAC1_REG_OFFSET) triggersource) h))"

definition dac_software_trigger_enable :: "'h bus \<Rightarrow> reg \<Rightarrow> 'h \<Rightarrow> 'h" where
  "dac_software_trigger_enable B dac_periph h =
     (if dac_periph = DAC0 then set_bits B DAC_SWT DAC_SWT_SWTR0 h
      else set_bits B DAC_SWT DAC_SWT_SWTR1 h)"

definition dac_software_trigger_disable :: "'h bus \<Rightarrow> reg \<Rightarrow> 'h \<Rightarrow> 'h" where
  "dac_software_trigger_disable B dac_periph h =
     (if dac_periph = DAC0 then clear_bits B DAC_SWT DAC_SWT_SWTR0 h
      else clear_bits B DAC_SWT DAC_SWT_SWTR1 h)"

definition dac_wave_mode_config :: "'h bus \<Rightarrow> reg \<Rightarrow> reg \<Rightarrow> 'h \<Rightarrow> 'h" where
  "dac_wave_mode_config B dac_periph wave_mode h =
     (if dac_periph = DAC0
      then (let h = clear_bits B DAC_CTL DAC_CTL_DWM0 h
            in set_bits B DAC_CTL wave_mode h)
      else (let h = clear_bits B DAC_CTL DAC_CTL_DWM1 h
            in set_bits B DAC_CTL (push_bit (unat DAC1_REG_OFFSET) wave_mode) h))"

definition dac_wave_bit_width_config :: "'h bus \<Rightarrow> reg \<Rightarrow> reg \<Rightarrow> 'h \<Rightarrow> 'h" where
  "dac_wave_bit_width_config B dac_periph bit_width h =
     (if dac_periph = DAC0
      then (let h = clear_bits B DAC_CTL DAC_CTL_DWBW0 h
            in set_bits B DAC_CTL bit_width h)
      else (let h = clear_bits B DAC_CTL DAC_CTL_DWBW1 h
            in set_bits B DAC_CTL (push_bit (unat DAC1_REG_OFFSET) bit_width) h))"

definition dac_lfsr_noise_config :: "'h bus \<Rightarrow> reg \<Rightarrow> reg \<Rightarrow> 'h \<Rightarrow> 'h" where
  "dac_lfsr_noise_config B dac_periph unmask_bits h =
     (if dac_periph = DAC0
      then (let h = clear_bits B DAC_CTL DAC_CTL_DWBW0 h
            in set_bits B DAC_CTL unmask_bits h)
      else (let h = clear_bits B DAC_CTL DAC_CTL_DWBW1 h
            in set_bits B DAC_CTL (push_bit (unat DAC1_REG_OFFSET) unmask_bits) h))"

definition dac_triangle_noise_config :: "'h bus \<Rightarrow> reg \<Rightarrow> reg \<Rightarrow> 'h \<Rightarrow> 'h" where
  "dac_triangle_noise_config B dac_periph amplitude h =
     (if dac_periph = DAC0
      then (let h = clear_bits B DAC_CTL DAC_CTL_DWBW0 h
            in set_bits B DAC_CTL amplitude h)
      else (let h = clear_bits B DAC_CTL DAC_CTL_DWBW1 h
            in set_bits B DAC_CTL (push_bit (unat DAC1_REG_OFFSET) amplitude) h))"

definition dac_concurrent_enable :: "'h bus \<Rightarrow> 'h \<Rightarrow> 'h" where
  "dac_concurrent_enable B h =
     (let ctl = DAC_CTL_DEN0 OR DAC_CTL_DEN1
      in set_bits B DAC_CTL ctl h)"

definition dac_concurrent_disable :: "'h bus \<Rightarrow> 'h \<Rightarrow> 'h" where
  "dac_concurrent_disable B h =
     (let ctl = DAC_CTL_DEN0 OR DAC_CTL_DEN1
      in clear_bits B DAC_CTL ctl h)"

definition dac_concurrent_software_trigger_enable :: "'h bus \<Rightarrow> 'h \<Rightarrow> 'h" where
  "dac_concurrent_software_trigger_enable B h =
     (let swt = DAC_SWT_SWTR0 OR DAC_SWT_SWTR1
      in set_bits B DAC_SWT swt h)"

definition dac_concurrent_software_trigger_disable :: "'h bus \<Rightarrow> 'h \<Rightarrow> 'h" where
  "dac_concurrent_software_trigger_disable B h =
     (let swt = DAC_SWT_SWTR0 OR DAC_SWT_SWTR1
      in clear_bits B DAC_SWT swt h)"

definition dac_concurrent_output_buffer_enable :: "'h bus \<Rightarrow> 'h \<Rightarrow> 'h" where
  "dac_concurrent_output_buffer_enable B h =
     (let ctl = DAC_CTL_DBOFF0 OR DAC_CTL_DBOFF1
      in clear_bits B DAC_CTL ctl h)"

definition dac_concurrent_output_buffer_disable :: "'h bus \<Rightarrow> 'h \<Rightarrow> 'h" where
  "dac_concurrent_output_buffer_disable B h =
     (let ctl = DAC_CTL_DBOFF0 OR DAC_CTL_DBOFF1
      in set_bits B DAC_CTL ctl h)"

definition dac_concurrent_data_set :: "'h bus \<Rightarrow> reg \<Rightarrow> 16 word \<Rightarrow> 16 word \<Rightarrow> 'h \<Rightarrow> 'h" where
  "dac_concurrent_data_set B dac_align data0 data1 h =
     (let dat = (0 :: reg)
      in if dac_align = DAC_ALIGN_12B_R
         then (let dat = (push_bit (unat DH_12BIT_OFFSET) (ucast data1)) OR ucast data0
               in wr32 B DACC_R12DH dat h)
         else if dac_align = DAC_ALIGN_12B_L
         then (let dat = (push_bit (unat DH_12BIT_OFFSET) (ucast data1)) OR ucast data0
               in wr32 B DACC_L12DH dat h)
         else if dac_align = DAC_ALIGN_8B_R
         then (let dat = (push_bit (unat DH_8BIT_OFFSET) (ucast data1)) OR ucast data0
               in wr32 B DACC_R8DH dat h)
         else h)"

end
