(* ===== verification/Dma.thy ===== *)
theory Dma
  imports Rcu
begin

text \<open>
  \<open>gd32vf103_dma.c\<close>: the DMA controllers, DMA0 of seven channels and DMA1 of five. A function given a
  channel that its controller does not have stops in the endless loop of \<open>DMA_WRONG_HANDLE\<close>: its
  value is \<open>None\<close>.
\<close>

section \<open>Registers\<close>

abbreviation (input) DMA_CHCTL :: "reg \<Rightarrow> reg \<Rightarrow> 32 word" where "DMA_CHCTL dma channel \<equiv> dma + 8 + (0x14 * channel)"
abbreviation (input) DMA_CHXCTL_CHEN :: "reg" where "DMA_CHXCTL_CHEN \<equiv> BIT 0"
abbreviation (input) DMA_CHCTL_RESET_VALUE :: "reg" where "DMA_CHCTL_RESET_VALUE \<equiv> 0"
abbreviation (input) DMA_CHCNT :: "reg \<Rightarrow> reg \<Rightarrow> 32 word" where "DMA_CHCNT dma channel \<equiv> dma + 0xc + (0x14 * channel)"
abbreviation (input) DMA_CHCNT_RESET_VALUE :: "reg" where "DMA_CHCNT_RESET_VALUE \<equiv> 0"
abbreviation (input) DMA_CHPADDR :: "reg \<Rightarrow> reg \<Rightarrow> 32 word" where "DMA_CHPADDR dma channel \<equiv> dma + 0x10 + (0x14 * channel)"
abbreviation (input) DMA_CHPADDR_RESET_VALUE :: "reg" where "DMA_CHPADDR_RESET_VALUE \<equiv> 0"
abbreviation (input) DMA_CHMADDR :: "reg \<Rightarrow> reg \<Rightarrow> 32 word" where "DMA_CHMADDR dma channel \<equiv> dma + 0x14 + (0x14 * channel)"
abbreviation (input) DMA_CHMADDR_RESET_VALUE :: "reg" where "DMA_CHMADDR_RESET_VALUE \<equiv> 0"
abbreviation (input) DMA_INTC :: "reg \<Rightarrow> 32 word" where "DMA_INTC dmax \<equiv> dmax + 4"
abbreviation (input) DMA_FLAG_ADD :: "reg \<Rightarrow> reg \<Rightarrow> reg" where "DMA_FLAG_ADD flg shift \<equiv> push_bit (unat (shift * 4)) flg"
abbreviation (input) DMA_INTF_GIF :: "reg" where "DMA_INTF_GIF \<equiv> BIT 0"
abbreviation (input) DMA_INTF_FTFIF :: "reg" where "DMA_INTF_FTFIF \<equiv> BIT 1"
abbreviation (input) DMA_INTF_HTFIF :: "reg" where "DMA_INTF_HTFIF \<equiv> BIT 2"
abbreviation (input) DMA_INTF_ERRIF :: "reg" where "DMA_INTF_ERRIF \<equiv> BIT 3"
abbreviation (input) DMA_CHINTF_RESET_VALUE :: "reg" where "DMA_CHINTF_RESET_VALUE \<equiv> DMA_INTF_GIF OR DMA_INTF_FTFIF OR DMA_INTF_HTFIF OR DMA_INTF_ERRIF"
abbreviation (input) DMA_PERIPH_INCREASE_DISABLE :: "reg" where "DMA_PERIPH_INCREASE_DISABLE \<equiv> 0"
abbreviation (input) DMA_MEMORY_INCREASE_DISABLE :: "reg" where "DMA_MEMORY_INCREASE_DISABLE \<equiv> 0"
abbreviation (input) DMA_PERIPHERAL_TO_MEMORY :: "reg" where "DMA_PERIPHERAL_TO_MEMORY \<equiv> 0"
abbreviation (input) CHCTL_PRIO :: "reg \<Rightarrow> reg" where "CHCTL_PRIO regval \<equiv> BITS 12 13 AND (push_bit 12 regval)"
abbreviation (input) DMA_PRIORITY_LOW :: "reg" where "DMA_PRIORITY_LOW \<equiv> CHCTL_PRIO 0"
abbreviation (input) DMA_CHXCNT_CNT :: "reg" where "DMA_CHXCNT_CNT \<equiv> BITS 0 15"
abbreviation (input) DMA_CHANNEL_CNT_MASK :: "reg" where "DMA_CHANNEL_CNT_MASK \<equiv> DMA_CHXCNT_CNT"
abbreviation (input) DMA_CHXCTL_PWIDTH :: "reg" where "DMA_CHXCTL_PWIDTH \<equiv> BITS 8 9"
abbreviation (input) DMA_CHXCTL_MWIDTH :: "reg" where "DMA_CHXCTL_MWIDTH \<equiv> BITS 10 11"
abbreviation (input) DMA_CHXCTL_PRIO :: "reg" where "DMA_CHXCTL_PRIO \<equiv> BITS 12 13"
abbreviation (input) DMA_PERIPH_INCREASE_ENABLE :: "reg" where "DMA_PERIPH_INCREASE_ENABLE \<equiv> 1"
abbreviation (input) DMA_CHXCTL_PNAGA :: "reg" where "DMA_CHXCTL_PNAGA \<equiv> BIT 6"
abbreviation (input) DMA_MEMORY_INCREASE_ENABLE :: "reg" where "DMA_MEMORY_INCREASE_ENABLE \<equiv> 1"
abbreviation (input) DMA_CHXCTL_MNAGA :: "reg" where "DMA_CHXCTL_MNAGA \<equiv> BIT 7"
abbreviation (input) DMA_CHXCTL_DIR :: "reg" where "DMA_CHXCTL_DIR \<equiv> BIT 4"
abbreviation (input) DMA_CHXCTL_CMEN :: "reg" where "DMA_CHXCTL_CMEN \<equiv> BIT 5"
abbreviation (input) DMA_CHXCTL_M2M :: "reg" where "DMA_CHXCTL_M2M \<equiv> BIT 14"
abbreviation (input) DMA_INTF :: "reg \<Rightarrow> 32 word" where "DMA_INTF dmax \<equiv> dmax + 0"
abbreviation (input) DMA_INT_FLAG_FTF :: "reg" where "DMA_INT_FLAG_FTF \<equiv> DMA_INTF_FTFIF"
abbreviation (input) DMA_CHXCTL_FTFIE :: "reg" where "DMA_CHXCTL_FTFIE \<equiv> BIT 1"
abbreviation (input) DMA_INT_FLAG_HTF :: "reg" where "DMA_INT_FLAG_HTF \<equiv> DMA_INTF_HTFIF"
abbreviation (input) DMA_CHXCTL_HTFIE :: "reg" where "DMA_CHXCTL_HTFIE \<equiv> BIT 2"
abbreviation (input) DMA_INT_FLAG_ERR :: "reg" where "DMA_INT_FLAG_ERR \<equiv> DMA_INTF_ERRIF"
abbreviation (input) DMA_CHXCTL_ERRIE :: "reg" where "DMA_CHXCTL_ERRIE \<equiv> BIT 3"
abbreviation (input) DMA_BASE :: "reg" where "DMA_BASE \<equiv> AHB1_BUS_BASE + 0x8000"
abbreviation (input) DMA1 :: "reg" where "DMA1 \<equiv> DMA_BASE + 0x400"

section \<open>Types\<close>

datatype dma_channel =
  DMA_CH0 | DMA_CH1 | DMA_CH2 | DMA_CH3 | DMA_CH4 | DMA_CH5 | DMA_CH6

fun dma_channel_value :: "dma_channel \<Rightarrow> reg" where
  "dma_channel_value DMA_CH0 = 0"
| "dma_channel_value DMA_CH1 = 1"
| "dma_channel_value DMA_CH2 = 2"
| "dma_channel_value DMA_CH3 = 3"
| "dma_channel_value DMA_CH4 = 4"
| "dma_channel_value DMA_CH5 = 5"
| "dma_channel_value DMA_CH6 = 6"

record dma_parameter =
  dma_periph_addr :: "reg"
  dma_periph_width :: "reg"
  dma_memory_addr :: "reg"
  dma_memory_width :: "reg"
  dma_number :: "reg"
  dma_priority :: "reg"
  dma_periph_inc :: "8 word"
  dma_memory_inc :: "8 word"
  dma_direction :: "8 word"

section \<open>Operations\<close>

definition dma_periph_and_channel_check :: "reg \<Rightarrow> dma_channel \<Rightarrow> bool" where
  "dma_periph_and_channel_check dma_periph channelx =
     (let val = True;
          val = (if dma_periph = DMA1
                 then (if dma_channel_value DMA_CH4 < dma_channel_value channelx then False
                       else val)
                 else val)
      in val)"

definition dma_deinit :: "'h bus \<Rightarrow> reg \<Rightarrow> dma_channel \<Rightarrow> 'h \<Rightarrow> 'h option" where
  "dma_deinit B dma_periph channelx h =
     (if \<not> (dma_periph_and_channel_check dma_periph channelx) then None
      else (let h = clear_bits B (DMA_CHCTL dma_periph (dma_channel_value channelx)) DMA_CHXCTL_CHEN h;
                h = wr32 B (DMA_CHCTL dma_periph (dma_channel_value channelx)) DMA_CHCTL_RESET_VALUE h;
                h = wr32 B (DMA_CHCNT dma_periph (dma_channel_value channelx)) DMA_CHCNT_RESET_VALUE h;
                h = wr32 B (DMA_CHPADDR dma_periph (dma_channel_value channelx)) DMA_CHPADDR_RESET_VALUE h;
                h = wr32 B (DMA_CHMADDR dma_periph (dma_channel_value channelx)) DMA_CHMADDR_RESET_VALUE h;
                h = set_bits B (DMA_INTC dma_periph) (DMA_FLAG_ADD DMA_CHINTF_RESET_VALUE (dma_channel_value channelx)) h
            in Some h))"

definition dma_struct_para_init :: "dma_parameter \<Rightarrow> dma_parameter" where
  "dma_struct_para_init init_struct =
     (let init_struct = init_struct\<lparr>dma_periph_addr := 0\<rparr>;
          init_struct = init_struct\<lparr>dma_periph_width := 0\<rparr>;
          init_struct = init_struct\<lparr>dma_periph_inc := ucast DMA_PERIPH_INCREASE_DISABLE\<rparr>;
          init_struct = init_struct\<lparr>dma_memory_addr := 0\<rparr>;
          init_struct = init_struct\<lparr>dma_memory_width := 0\<rparr>;
          init_struct = init_struct\<lparr>dma_memory_inc := ucast DMA_MEMORY_INCREASE_DISABLE\<rparr>;
          init_struct = init_struct\<lparr>dma_number := 0\<rparr>;
          init_struct = init_struct\<lparr>dma_direction := ucast DMA_PERIPHERAL_TO_MEMORY\<rparr>
      in init_struct\<lparr>dma_priority := DMA_PRIORITY_LOW\<rparr>)"

definition dma_init :: "'h bus \<Rightarrow> reg \<Rightarrow> dma_channel \<Rightarrow> dma_parameter \<Rightarrow> 'h \<Rightarrow> 'h option" where
  "dma_init B dma_periph channelx init_struct h =
     (if \<not> (dma_periph_and_channel_check dma_periph channelx) then None
      else (let h = wr32 B (DMA_CHPADDR dma_periph (dma_channel_value channelx)) (dma_periph_addr init_struct) h;
                h = wr32 B (DMA_CHMADDR dma_periph (dma_channel_value channelx)) (dma_memory_addr init_struct) h;
                h = wr32 B (DMA_CHCNT dma_periph (dma_channel_value channelx)) (dma_number init_struct AND DMA_CHANNEL_CNT_MASK) h;
                (ctl, h) = rd32 B (DMA_CHCTL dma_periph (dma_channel_value channelx)) h;
                ctl = ctl AND NOT (DMA_CHXCTL_PWIDTH OR DMA_CHXCTL_MWIDTH OR DMA_CHXCTL_PRIO);
                ctl = ctl OR dma_periph_width init_struct OR dma_memory_width init_struct OR
                      dma_priority init_struct;
                h = wr32 B (DMA_CHCTL dma_periph (dma_channel_value channelx)) ctl h;
                h = (if ucast (dma_periph_inc init_struct) = DMA_PERIPH_INCREASE_ENABLE
                     then set_bits B (DMA_CHCTL dma_periph (dma_channel_value channelx)) DMA_CHXCTL_PNAGA h
                     else clear_bits B (DMA_CHCTL dma_periph (dma_channel_value channelx)) DMA_CHXCTL_PNAGA h);
                h = (if ucast (dma_memory_inc init_struct) = DMA_MEMORY_INCREASE_ENABLE
                     then set_bits B (DMA_CHCTL dma_periph (dma_channel_value channelx)) DMA_CHXCTL_MNAGA h
                     else clear_bits B (DMA_CHCTL dma_periph (dma_channel_value channelx)) DMA_CHXCTL_MNAGA h);
                h = (if ucast (dma_direction init_struct) = DMA_PERIPHERAL_TO_MEMORY
                     then clear_bits B (DMA_CHCTL dma_periph (dma_channel_value channelx)) DMA_CHXCTL_DIR h
                     else set_bits B (DMA_CHCTL dma_periph (dma_channel_value channelx)) DMA_CHXCTL_DIR h)
            in Some h))"

definition dma_circulation_enable :: "'h bus \<Rightarrow> reg \<Rightarrow> dma_channel \<Rightarrow> 'h \<Rightarrow> 'h option" where
  "dma_circulation_enable B dma_periph channelx h =
     (if \<not> (dma_periph_and_channel_check dma_periph channelx) then None
      else (let h = set_bits B (DMA_CHCTL dma_periph (dma_channel_value channelx)) DMA_CHXCTL_CMEN h
            in Some h))"

definition dma_circulation_disable :: "'h bus \<Rightarrow> reg \<Rightarrow> dma_channel \<Rightarrow> 'h \<Rightarrow> 'h option" where
  "dma_circulation_disable B dma_periph channelx h =
     (if \<not> (dma_periph_and_channel_check dma_periph channelx) then None
      else (let h = clear_bits B (DMA_CHCTL dma_periph (dma_channel_value channelx)) DMA_CHXCTL_CMEN h
            in Some h))"

definition dma_memory_to_memory_enable :: "'h bus \<Rightarrow> reg \<Rightarrow> dma_channel \<Rightarrow> 'h \<Rightarrow> 'h option" where
  "dma_memory_to_memory_enable B dma_periph channelx h =
     (if \<not> (dma_periph_and_channel_check dma_periph channelx) then None
      else (let h = set_bits B (DMA_CHCTL dma_periph (dma_channel_value channelx)) DMA_CHXCTL_M2M h
            in Some h))"

definition dma_memory_to_memory_disable :: "'h bus \<Rightarrow> reg \<Rightarrow> dma_channel \<Rightarrow> 'h \<Rightarrow> 'h option" where
  "dma_memory_to_memory_disable B dma_periph channelx h =
     (if \<not> (dma_periph_and_channel_check dma_periph channelx) then None
      else (let h = clear_bits B (DMA_CHCTL dma_periph (dma_channel_value channelx)) DMA_CHXCTL_M2M h
            in Some h))"

definition dma_channel_enable :: "'h bus \<Rightarrow> reg \<Rightarrow> dma_channel \<Rightarrow> 'h \<Rightarrow> 'h option" where
  "dma_channel_enable B dma_periph channelx h =
     (if \<not> (dma_periph_and_channel_check dma_periph channelx) then None
      else (let h = set_bits B (DMA_CHCTL dma_periph (dma_channel_value channelx)) DMA_CHXCTL_CHEN h
            in Some h))"

definition dma_channel_disable :: "'h bus \<Rightarrow> reg \<Rightarrow> dma_channel \<Rightarrow> 'h \<Rightarrow> 'h option" where
  "dma_channel_disable B dma_periph channelx h =
     (if \<not> (dma_periph_and_channel_check dma_periph channelx) then None
      else (let h = clear_bits B (DMA_CHCTL dma_periph (dma_channel_value channelx)) DMA_CHXCTL_CHEN h
            in Some h))"

definition dma_periph_address_config :: "'h bus \<Rightarrow> reg \<Rightarrow> dma_channel \<Rightarrow> reg \<Rightarrow> 'h \<Rightarrow> 'h option" where
  "dma_periph_address_config B dma_periph channelx address h =
     (if \<not> (dma_periph_and_channel_check dma_periph channelx) then None
      else (let h = wr32 B (DMA_CHPADDR dma_periph (dma_channel_value channelx)) address h
            in Some h))"

definition dma_memory_address_config :: "'h bus \<Rightarrow> reg \<Rightarrow> dma_channel \<Rightarrow> reg \<Rightarrow> 'h \<Rightarrow> 'h option" where
  "dma_memory_address_config B dma_periph channelx address h =
     (if \<not> (dma_periph_and_channel_check dma_periph channelx) then None
      else (let h = wr32 B (DMA_CHMADDR dma_periph (dma_channel_value channelx)) address h
            in Some h))"

definition dma_transfer_number_config :: "'h bus \<Rightarrow> reg \<Rightarrow> dma_channel \<Rightarrow> reg \<Rightarrow> 'h \<Rightarrow> 'h option" where
  "dma_transfer_number_config B dma_periph channelx number h =
     (if \<not> (dma_periph_and_channel_check dma_periph channelx) then None
      else (let h = wr32 B (DMA_CHCNT dma_periph (dma_channel_value channelx)) (number AND DMA_CHANNEL_CNT_MASK) h
            in Some h))"

definition dma_transfer_number_get :: "'h bus \<Rightarrow> reg \<Rightarrow> dma_channel \<Rightarrow> 'h \<Rightarrow> (reg \<times> 'h) option" where
  "dma_transfer_number_get B dma_periph channelx h =
     (if \<not> (dma_periph_and_channel_check dma_periph channelx) then None
      else (let (v, h) = rd32 B (DMA_CHCNT dma_periph (dma_channel_value channelx)) h
            in Some (v, h)))"

definition dma_priority_config :: "'h bus \<Rightarrow> reg \<Rightarrow> dma_channel \<Rightarrow> reg \<Rightarrow> 'h \<Rightarrow> 'h option" where
  "dma_priority_config B dma_periph channelx priority h =
     (if \<not> (dma_periph_and_channel_check dma_periph channelx) then None
      else (let (ctl, h) = rd32 B (DMA_CHCTL dma_periph (dma_channel_value channelx)) h;
                ctl = ctl AND NOT DMA_CHXCTL_PRIO;
                ctl = ctl OR priority;
                h = wr32 B (DMA_CHCTL dma_periph (dma_channel_value channelx)) ctl h
            in Some h))"

definition dma_memory_width_config :: "'h bus \<Rightarrow> reg \<Rightarrow> dma_channel \<Rightarrow> reg \<Rightarrow> 'h \<Rightarrow> 'h option" where
  "dma_memory_width_config B dma_periph channelx mwidth h =
     (if \<not> (dma_periph_and_channel_check dma_periph channelx) then None
      else (let (ctl, h) = rd32 B (DMA_CHCTL dma_periph (dma_channel_value channelx)) h;
                ctl = ctl AND NOT DMA_CHXCTL_MWIDTH;
                ctl = ctl OR mwidth;
                h = wr32 B (DMA_CHCTL dma_periph (dma_channel_value channelx)) ctl h
            in Some h))"

definition dma_periph_width_config :: "'h bus \<Rightarrow> reg \<Rightarrow> dma_channel \<Rightarrow> reg \<Rightarrow> 'h \<Rightarrow> 'h option" where
  "dma_periph_width_config B dma_periph channelx pwidth h =
     (if \<not> (dma_periph_and_channel_check dma_periph channelx) then None
      else (let (ctl, h) = rd32 B (DMA_CHCTL dma_periph (dma_channel_value channelx)) h;
                ctl = ctl AND NOT DMA_CHXCTL_PWIDTH;
                ctl = ctl OR pwidth;
                h = wr32 B (DMA_CHCTL dma_periph (dma_channel_value channelx)) ctl h
            in Some h))"

definition dma_memory_increase_enable :: "'h bus \<Rightarrow> reg \<Rightarrow> dma_channel \<Rightarrow> 'h \<Rightarrow> 'h option" where
  "dma_memory_increase_enable B dma_periph channelx h =
     (if \<not> (dma_periph_and_channel_check dma_periph channelx) then None
      else (let h = set_bits B (DMA_CHCTL dma_periph (dma_channel_value channelx)) DMA_CHXCTL_MNAGA h
            in Some h))"

definition dma_memory_increase_disable :: "'h bus \<Rightarrow> reg \<Rightarrow> dma_channel \<Rightarrow> 'h \<Rightarrow> 'h option" where
  "dma_memory_increase_disable B dma_periph channelx h =
     (if \<not> (dma_periph_and_channel_check dma_periph channelx) then None
      else (let h = clear_bits B (DMA_CHCTL dma_periph (dma_channel_value channelx)) DMA_CHXCTL_MNAGA h
            in Some h))"

definition dma_periph_increase_enable :: "'h bus \<Rightarrow> reg \<Rightarrow> dma_channel \<Rightarrow> 'h \<Rightarrow> 'h option" where
  "dma_periph_increase_enable B dma_periph channelx h =
     (if \<not> (dma_periph_and_channel_check dma_periph channelx) then None
      else (let h = set_bits B (DMA_CHCTL dma_periph (dma_channel_value channelx)) DMA_CHXCTL_PNAGA h
            in Some h))"

definition dma_periph_increase_disable :: "'h bus \<Rightarrow> reg \<Rightarrow> dma_channel \<Rightarrow> 'h \<Rightarrow> 'h option" where
  "dma_periph_increase_disable B dma_periph channelx h =
     (if \<not> (dma_periph_and_channel_check dma_periph channelx) then None
      else (let h = clear_bits B (DMA_CHCTL dma_periph (dma_channel_value channelx)) DMA_CHXCTL_PNAGA h
            in Some h))"

definition dma_transfer_direction_config :: "'h bus \<Rightarrow> reg \<Rightarrow> dma_channel \<Rightarrow> 8 word \<Rightarrow> 'h \<Rightarrow> 'h option" where
  "dma_transfer_direction_config B dma_periph channelx direction h =
     (if \<not> (dma_periph_and_channel_check dma_periph channelx) then None
      else (let h = (if ucast direction = DMA_PERIPHERAL_TO_MEMORY
                     then clear_bits B (DMA_CHCTL dma_periph (dma_channel_value channelx)) DMA_CHXCTL_DIR h
                     else set_bits B (DMA_CHCTL dma_periph (dma_channel_value channelx)) DMA_CHXCTL_DIR h)
            in Some h))"

definition dma_flag_get :: "'h bus \<Rightarrow> reg \<Rightarrow> dma_channel \<Rightarrow> reg \<Rightarrow> 'h \<Rightarrow> bool \<times> 'h" where
  "dma_flag_get B dma_periph channelx flg h =
     (let (v, h) = rd32 B (DMA_INTF dma_periph) h;
          reval =
            (if v AND DMA_FLAG_ADD flg (dma_channel_value channelx) \<noteq> 0 then True
             else False)
      in (reval, h))"

definition dma_flag_clear :: "'h bus \<Rightarrow> reg \<Rightarrow> dma_channel \<Rightarrow> reg \<Rightarrow> 'h \<Rightarrow> 'h" where
  "dma_flag_clear B dma_periph channelx flg h =
     set_bits B (DMA_INTC dma_periph) (DMA_FLAG_ADD flg (dma_channel_value channelx)) h"

definition dma_interrupt_flag_get :: "'h bus \<Rightarrow> reg \<Rightarrow> dma_channel \<Rightarrow> reg \<Rightarrow> 'h \<Rightarrow> (bool \<times> 'h) option" where
  "dma_interrupt_flag_get B dma_periph channelx flg h =
     (let interrupt_enable = (0 :: reg);
          interrupt_flag = (0 :: reg)
      in if flg = DMA_INT_FLAG_FTF
         then (let (v, h) = rd32 B (DMA_INTF dma_periph) h;
                   interrupt_flag = v AND DMA_FLAG_ADD flg (dma_channel_value channelx);
                   (v2, h) = rd32 B (DMA_CHCTL dma_periph (dma_channel_value channelx)) h;
                   interrupt_enable = v2 AND DMA_CHXCTL_FTFIE
               in if interrupt_flag \<noteq> 0 \<and> interrupt_enable \<noteq> 0 then Some (True, h)
                  else Some (False, h))
         else if flg = DMA_INT_FLAG_HTF
         then (let (v, h) = rd32 B (DMA_INTF dma_periph) h;
                   interrupt_flag = v AND DMA_FLAG_ADD flg (dma_channel_value channelx);
                   (v2, h) = rd32 B (DMA_CHCTL dma_periph (dma_channel_value channelx)) h;
                   interrupt_enable = v2 AND DMA_CHXCTL_HTFIE
               in if interrupt_flag \<noteq> 0 \<and> interrupt_enable \<noteq> 0 then Some (True, h)
                  else Some (False, h))
         else if flg = DMA_INT_FLAG_ERR
         then (let (v, h) = rd32 B (DMA_INTF dma_periph) h;
                   interrupt_flag = v AND DMA_FLAG_ADD flg (dma_channel_value channelx);
                   (v2, h) = rd32 B (DMA_CHCTL dma_periph (dma_channel_value channelx)) h;
                   interrupt_enable = v2 AND DMA_CHXCTL_ERRIE
               in if interrupt_flag \<noteq> 0 \<and> interrupt_enable \<noteq> 0 then Some (True, h)
                  else Some (False, h))
         else None)"

definition dma_interrupt_flag_clear :: "'h bus \<Rightarrow> reg \<Rightarrow> dma_channel \<Rightarrow> reg \<Rightarrow> 'h \<Rightarrow> 'h" where
  "dma_interrupt_flag_clear B dma_periph channelx flg h =
     set_bits B (DMA_INTC dma_periph) (DMA_FLAG_ADD flg (dma_channel_value channelx)) h"

definition dma_interrupt_enable :: "'h bus \<Rightarrow> reg \<Rightarrow> dma_channel \<Rightarrow> reg \<Rightarrow> 'h \<Rightarrow> 'h option" where
  "dma_interrupt_enable B dma_periph channelx source h =
     (if \<not> (dma_periph_and_channel_check dma_periph channelx) then None
      else (let h = set_bits B (DMA_CHCTL dma_periph (dma_channel_value channelx)) source h
            in Some h))"

definition dma_interrupt_disable :: "'h bus \<Rightarrow> reg \<Rightarrow> dma_channel \<Rightarrow> reg \<Rightarrow> 'h \<Rightarrow> 'h option" where
  "dma_interrupt_disable B dma_periph channelx source h =
     (if \<not> (dma_periph_and_channel_check dma_periph channelx) then None
      else (let h = clear_bits B (DMA_CHCTL dma_periph (dma_channel_value channelx)) source h
            in Some h))"

text \<open>
  The registers of a DMA channel, and what \<open>dma_init\<close> leaves in them.
\<close>

definition dma_regs :: "reg \<Rightarrow> dma_channel \<Rightarrow> 32 word set" where
  "dma_regs dma c = {DMA_CHCTL dma (dma_channel_value c), DMA_CHCNT dma (dma_channel_value c),
     DMA_CHPADDR dma (dma_channel_value c), DMA_CHMADDR dma (dma_channel_value c)}"

lemma dma_regs_disjoint: "c \<noteq> c' \<Longrightarrow> dma_regs dma c \<inter> dma_regs dma c' = {}"
  by (cases c; cases c') (simp_all add: dma_regs_def)

text \<open>The bits of the control register: an option sets or clears one, and the widths and the priority are
  six in the middle.\<close>

lemma option_bit: "bit (if on then w OR BIT n else w AND NOT (BIT n)) i \<longleftrightarrow> (if i = n \<and> n < 32 then on else bit w i)"
  by (auto simp: bit_or_iff bit_and_iff bit_not_iff dest: bit_imp_le_length)

lemma control_bit:
  assumes "bits AND NOT (BITS 8 13) = 0"
  shows "bit ((w AND NOT (BITS 8 9 OR BITS 10 11 OR BITS 12 13)) OR bits) i \<longleftrightarrow>
    (if 8 \<le> i \<and> i \<le> 13 then bit bits i else bit w i)"
proof -
  have "bit bits i \<Longrightarrow> 8 \<le> i \<and> i \<le> 13"
  proof -
    assume i: "bit bits i"
    have "\<not> bit (bits AND NOT (BITS 8 13)) i" by (simp add: assms)
    then show ?thesis using i by (auto simp: bit_and_iff bit_not_iff dest: bit_imp_le_length)
  qed
  moreover have "bit (BITS 8 9 OR BITS 10 11 OR BITS 12 13) i \<longleftrightarrow> 8 \<le> i \<and> i \<le> 13" by (auto simp: bit_or_iff)
  ultimately show ?thesis using bit_imp_le_length [of w i] by (simp only: bit_or_iff bit_and_iff bit_not_iff) auto
qed

lemma channel_check: "dma_periph_and_channel_check dma c \<longleftrightarrow> \<not> (dma = DMA1 \<and> c \<in> {DMA_CH5, DMA_CH6})"
  by (cases c) (simp_all add: dma_periph_and_channel_check_def)

lemma byte_01: "ucast w = (1 :: reg) \<longleftrightarrow> w = 1" "ucast w = (0 :: reg) \<longleftrightarrow> w = 0" for w :: "8 word"
  by (simp_all add: word_unat_eq_iff unsigned_ucast_eq take_bit_nat_eq_self less_le_trans [OF unsigned_less])

definition dma_option :: "'h bus \<Rightarrow> 32 word \<Rightarrow> bool \<Rightarrow> reg \<Rightarrow> 'h \<Rightarrow> 'h" where
  "dma_option B a on x h = (if on then set_bits B a x h else clear_bits B a x h)"

context registers
begin

lemma dma_option_val:
  "a \<in> A \<Longrightarrow> b \<in> A \<Longrightarrow> val (dma_option B a on x h) b =
    (if b = a then (if on then val h a OR x else val h a AND NOT x) else val h b)"
  by (simp add: dma_option_def access_val)

lemma dma_init_val:
  assumes "\<And>c. dma_regs dma c \<subseteq> A" and "dma_periph_width p OR dma_memory_width p OR dma_priority p = bits"
    and "bits AND NOT (BITS 8 13) = 0" and "\<not> (dma = DMA1 \<and> c \<in> {DMA_CH5, DMA_CH6})"
  defines "n \<equiv> dma_channel_value c"
  shows "\<exists>h'. dma_init B dma c p h = Some h' \<and>
    (\<forall>i. bit (val h' (DMA_CHCTL dma n)) i \<longleftrightarrow>
      (if i = 4 then dma_direction p \<noteq> 0 else if i = 6 then dma_periph_inc p = 1 else if i = 7 then dma_memory_inc p = 1
       else if 8 \<le> i \<and> i \<le> 13 then bit bits i else bit (val h (DMA_CHCTL dma n)) i)) \<and>
    (\<forall>b \<in> A - {DMA_CHCTL dma n}. val h' b = (if b = DMA_CHCNT dma n then dma_number p AND BITS 0 15
      else if b = DMA_CHMADDR dma n then dma_memory_addr p else if b = DMA_CHPADDR dma n then dma_periph_addr p
      else val h b))"
proof -
  define ctl cnt pa ma where regs: "ctl = DMA_CHCTL dma n" "cnt = DMA_CHCNT dma n" "pa = DMA_CHPADDR dma n" "ma = DMA_CHMADDR dma n"
  have A: "ctl \<in> A" "cnt \<in> A" "pa \<in> A" "ma \<in> A" using assms(1) [of c] by (auto simp: dma_regs_def regs n_def)
  have ne: "ctl \<noteq> cnt" "ctl \<noteq> pa" "ctl \<noteq> ma" by (simp_all add: regs)
  define h1 where "h1 = wr32 B cnt (dma_number p AND BITS 0 15) (wr32 B ma (dma_memory_addr p) (wr32 B pa (dma_periph_addr p) h))"
  define h2 where "h2 = wr32 B ctl ((val h ctl AND NOT (BITS 8 9 OR BITS 10 11 OR BITS 12 13)) OR bits) h1"
  define h' where "h' = dma_option B ctl (dma_direction p \<noteq> 0) (BIT 4) (dma_option B ctl (dma_memory_inc p = 1) (BIT 7)
    (dma_option B ctl (dma_periph_inc p = 1) (BIT 6) h2))"
  have h1: "val h1 b = (if b = cnt then dma_number p AND BITS 0 15 else if b = ma then dma_memory_addr p
      else if b = pa then dma_periph_addr p else val h b)" if "b \<in> A" for b
    using that A by (simp add: h1_def access_val)
  have read: "rd32 B ctl h1 = (val h ctl, h1)" using A ne by (simp add: rd_val h1)
  have "dma_init B dma c p h = Some h'"
    using assms(4)
    unfolding dma_init_def channel_check n_def [symmetric] regs [symmetric] Let_def h1_def [symmetric] read
    by (simp add: h'_def h2_def dma_option_def byte_01 or.assoc flip: assms(2))
  moreover have "bit (val h' ctl) i \<longleftrightarrow>
      (if i = 4 then dma_direction p \<noteq> 0 else if i = 6 then dma_periph_inc p = 1 else if i = 7 then dma_memory_inc p = 1
       else if 8 \<le> i \<and> i \<le> 13 then bit bits i else bit (val h ctl) i)" for i
    using A(1) by (simp add: h'_def h2_def dma_option_val wr_val option_bit control_bit [OF assms(3)] del: bit.de_Morgan_disj)
  moreover have "val h' b = (if b = cnt then dma_number p AND BITS 0 15 else if b = ma then dma_memory_addr p
      else if b = pa then dma_periph_addr p else val h b)" if "b \<in> A - {ctl}" for b
    using that A by (simp add: h'_def h2_def dma_option_val wr_val h1)
  ultimately show ?thesis unfolding regs by blast
qed

end

end
