(* ===== verification/Spi.thy ===== *)
theory Spi
  imports Rcu
begin

text \<open>
  \<open>gd32vf103_spi.c\<close>: the serial peripheral interface and its audio mode, I2S, whose prescaler is
  computed from the clock tree and the sample rate.
\<close>

section \<open>Registers\<close>

abbreviation (input) SPI_BASE :: "reg" where "SPI_BASE \<equiv> APB1_BUS_BASE + 0x3800"
abbreviation (input) SPI0 :: "reg" where "SPI0 \<equiv> SPI_BASE + 0xf800"
abbreviation (input) SPI1 :: "reg" where "SPI1 \<equiv> SPI_BASE"
abbreviation (input) SPI2 :: "reg" where "SPI2 \<equiv> SPI_BASE + 0x400"
abbreviation (input) SPI_SLAVE :: "reg" where "SPI_SLAVE \<equiv> 0"
abbreviation (input) SPI_TRANSMODE_FULLDUPLEX :: "reg" where "SPI_TRANSMODE_FULLDUPLEX \<equiv> 0"
abbreviation (input) SPI_FRAMESIZE_8BIT :: "reg" where "SPI_FRAMESIZE_8BIT \<equiv> 0"
abbreviation (input) SPI_NSS_HARD :: "reg" where "SPI_NSS_HARD \<equiv> 0"
abbreviation (input) SPI_CK_PL_LOW_PH_1EDGE :: "reg" where "SPI_CK_PL_LOW_PH_1EDGE \<equiv> 0"
abbreviation (input) CTL0_PSC :: "reg \<Rightarrow> reg" where "CTL0_PSC regval \<equiv> BITS 3 5 AND (push_bit 3 regval)"
abbreviation (input) SPI_PSC_2 :: "reg" where "SPI_PSC_2 \<equiv> CTL0_PSC 0"
abbreviation (input) SPI_CTL0 :: "reg \<Rightarrow> 32 word" where "SPI_CTL0 spix \<equiv> spix + 0"
abbreviation (input) SPI_INIT_MASK :: "reg" where "SPI_INIT_MASK \<equiv> 0x3040"
abbreviation (input) SPI_I2SCTL :: "reg \<Rightarrow> 32 word" where "SPI_I2SCTL spix \<equiv> spix + 0x1c"
abbreviation (input) SPI_I2SCTL_I2SSEL :: "reg" where "SPI_I2SCTL_I2SSEL \<equiv> BIT 11"
abbreviation (input) SPI_CTL0_SPIEN :: "reg" where "SPI_CTL0_SPIEN \<equiv> BIT 6"
abbreviation (input) I2S_INIT_MASK :: "reg" where "I2S_INIT_MASK \<equiv> 0xf047"
abbreviation (input) SPI_I2SCTL_I2SEN :: "reg" where "SPI_I2SCTL_I2SEN \<equiv> BIT 10"
abbreviation (input) SPI_CTL1 :: "reg \<Rightarrow> 32 word" where "SPI_CTL1 spix \<equiv> spix + 4"
abbreviation (input) SPI_CTL1_NSSDRV :: "reg" where "SPI_CTL1_NSSDRV \<equiv> BIT 2"
abbreviation (input) SPI_CTL0_SWNSS :: "reg" where "SPI_CTL0_SWNSS \<equiv> BIT 8"
abbreviation (input) SPI_DMA_TRANSMIT :: "reg" where "SPI_DMA_TRANSMIT \<equiv> 0"
abbreviation (input) SPI_CTL1_DMATEN :: "reg" where "SPI_CTL1_DMATEN \<equiv> BIT 1"
abbreviation (input) SPI_CTL1_DMAREN :: "reg" where "SPI_CTL1_DMAREN \<equiv> BIT 0"
abbreviation (input) SPI_CTL0_FF16 :: "reg" where "SPI_CTL0_FF16 \<equiv> BIT 11"
abbreviation (input) SPI_DATA :: "reg \<Rightarrow> 32 word" where "SPI_DATA spix \<equiv> spix + 0xc"
abbreviation (input) SPI_CTL0_BDOEN :: "reg" where "SPI_CTL0_BDOEN \<equiv> BIT 14"
abbreviation (input) SPI_BIDIRECTIONAL_TRANSMIT :: "reg" where "SPI_BIDIRECTIONAL_TRANSMIT \<equiv> SPI_CTL0_BDOEN"
abbreviation (input) SPI_BIDIRECTIONAL_RECEIVE :: "reg" where "SPI_BIDIRECTIONAL_RECEIVE \<equiv> NOT SPI_CTL0_BDOEN"
abbreviation (input) SPI_CTL0_CRCEN :: "reg" where "SPI_CTL0_CRCEN \<equiv> BIT 13"
abbreviation (input) SPI_CRCPOLY :: "reg \<Rightarrow> 32 word" where "SPI_CRCPOLY spix \<equiv> spix + 0x10"
abbreviation (input) SPI_CTL0_CRCNT :: "reg" where "SPI_CTL0_CRCNT \<equiv> BIT 12"
abbreviation (input) SPI_CRC_TX :: "reg" where "SPI_CRC_TX \<equiv> 0"
abbreviation (input) SPI_TCRC :: "reg \<Rightarrow> 32 word" where "SPI_TCRC spix \<equiv> spix + 0x18"
abbreviation (input) SPI_RCRC :: "reg \<Rightarrow> 32 word" where "SPI_RCRC spix \<equiv> spix + 0x14"
abbreviation (input) SPI_CTL1_TMOD :: "reg" where "SPI_CTL1_TMOD \<equiv> BIT 4"
abbreviation (input) SPI_CTL1_NSSP :: "reg" where "SPI_CTL1_NSSP \<equiv> BIT 3"
abbreviation (input) SPI_I2S_INT_TBE :: "reg" where "SPI_I2S_INT_TBE \<equiv> 0"
abbreviation (input) SPI_CTL1_TBEIE :: "reg" where "SPI_CTL1_TBEIE \<equiv> BIT 7"
abbreviation (input) SPI_I2S_INT_RBNE :: "reg" where "SPI_I2S_INT_RBNE \<equiv> 1"
abbreviation (input) SPI_CTL1_RBNEIE :: "reg" where "SPI_CTL1_RBNEIE \<equiv> BIT 6"
abbreviation (input) SPI_I2S_INT_ERR :: "reg" where "SPI_I2S_INT_ERR \<equiv> 2"
abbreviation (input) SPI_CTL1_ERRIE :: "reg" where "SPI_CTL1_ERRIE \<equiv> BIT 5"
abbreviation (input) SPI_STAT :: "reg \<Rightarrow> 32 word" where "SPI_STAT spix \<equiv> spix + 8"
abbreviation (input) SPI_I2S_INT_FLAG_TBE :: "reg" where "SPI_I2S_INT_FLAG_TBE \<equiv> 0"
abbreviation (input) SPI_STAT_TBE :: "reg" where "SPI_STAT_TBE \<equiv> BIT 1"
abbreviation (input) SPI_I2S_INT_FLAG_RBNE :: "reg" where "SPI_I2S_INT_FLAG_RBNE \<equiv> 1"
abbreviation (input) SPI_STAT_RBNE :: "reg" where "SPI_STAT_RBNE \<equiv> BIT 0"
abbreviation (input) SPI_I2S_INT_FLAG_RXORERR :: "reg" where "SPI_I2S_INT_FLAG_RXORERR \<equiv> 2"
abbreviation (input) SPI_STAT_RXORERR :: "reg" where "SPI_STAT_RXORERR \<equiv> BIT 6"
abbreviation (input) SPI_INT_FLAG_CONFERR :: "reg" where "SPI_INT_FLAG_CONFERR \<equiv> 3"
abbreviation (input) SPI_STAT_CONFERR :: "reg" where "SPI_STAT_CONFERR \<equiv> BIT 5"
abbreviation (input) SPI_INT_FLAG_CRCERR :: "reg" where "SPI_INT_FLAG_CRCERR \<equiv> 4"
abbreviation (input) SPI_STAT_CRCERR :: "reg" where "SPI_STAT_CRCERR \<equiv> BIT 4"
abbreviation (input) I2S_INT_FLAG_TXURERR :: "reg" where "I2S_INT_FLAG_TXURERR \<equiv> 5"
abbreviation (input) SPI_STAT_TXURERR :: "reg" where "SPI_STAT_TXURERR \<equiv> BIT 3"
abbreviation (input) SPI_I2S_INT_FLAG_FERR :: "reg" where "SPI_I2S_INT_FLAG_FERR \<equiv> 6"
abbreviation (input) SPI_STAT_FERR :: "reg" where "SPI_STAT_FERR \<equiv> BIT 8"
abbreviation (input) SPI_FLAG_CRCERR :: "reg" where "SPI_FLAG_CRCERR \<equiv> SPI_STAT_CRCERR"
abbreviation (input) I2S1_CLOCK_SEL :: "reg" where "I2S1_CLOCK_SEL \<equiv> 0x20000"
abbreviation (input) I2S2_CLOCK_SEL :: "reg" where "I2S2_CLOCK_SEL \<equiv> 0x40000"
abbreviation (input) I2S_CLOCK_DIV_MASK :: "reg" where "I2S_CLOCK_DIV_MASK \<equiv> 0xf0"
abbreviation (input) I2S_CLOCK_MUL_MASK :: "reg" where "I2S_CLOCK_MUL_MASK \<equiv> 0xf000"
abbreviation (input) I2SCTL_DTLEN :: "reg \<Rightarrow> reg" where "I2SCTL_DTLEN regval \<equiv> BITS 1 2 AND (push_bit 1 regval)"
abbreviation (input) I2S_FRAMEFORMAT_DT16B_CH16B :: "reg" where "I2S_FRAMEFORMAT_DT16B_CH16B \<equiv> I2SCTL_DTLEN 0"
abbreviation (input) SPI_I2SPSC_MCKOEN :: "reg" where "SPI_I2SPSC_MCKOEN \<equiv> BIT 9"
abbreviation (input) I2S_MCKOUT_ENABLE :: "reg" where "I2S_MCKOUT_ENABLE \<equiv> SPI_I2SPSC_MCKOEN"
abbreviation (input) RCU_CFG1_PLL2MF_OFFSET :: "reg" where "RCU_CFG1_PLL2MF_OFFSET \<equiv> 12"
abbreviation (input) RCU_CFG1_PREDV1_OFFSET :: "reg" where "RCU_CFG1_PREDV1_OFFSET \<equiv> 4"
abbreviation (input) SPI_I2SCTL_CHLEN :: "reg" where "SPI_I2SCTL_CHLEN \<equiv> BIT 0"
abbreviation (input) SPI_I2SCTL_DTLEN :: "reg" where "SPI_I2SCTL_DTLEN \<equiv> BITS 1 2"
abbreviation (input) SPI_I2SPSC :: "reg \<Rightarrow> 32 word" where "SPI_I2SPSC spix \<equiv> spix + 0x20"
abbreviation (input) SPI_I2SPSC_DEFAULT_VALUE :: "reg" where "SPI_I2SPSC_DEFAULT_VALUE \<equiv> 2"

section \<open>Types\<close>

record spi_parameter =
  spi_device_mode :: "reg"
  spi_trans_mode :: "reg"
  spi_frame_size :: "reg"
  spi_nss :: "reg"
  spi_endian :: "reg"
  spi_clock_polarity_phase :: "reg"
  spi_prescale :: "reg"

section \<open>Operations\<close>

definition spi_i2s_deinit :: "'h bus \<Rightarrow> reg \<Rightarrow> 'h \<Rightarrow> 'h" where
  "spi_i2s_deinit B spi_periph h =
     (if spi_periph = SPI0
      then reset_pulse B RCU_SPI0RST h
      else if spi_periph = SPI1
      then reset_pulse B RCU_SPI1RST h
      else if spi_periph = SPI2
      then reset_pulse B RCU_SPI2RST h
      else h)"

definition spi_struct_para_init :: "spi_parameter \<Rightarrow> spi_parameter" where
  "spi_struct_para_init spi_struct =
     (let spi_struct = spi_struct\<lparr>spi_device_mode := SPI_SLAVE\<rparr>;
          spi_struct = spi_struct\<lparr>spi_trans_mode := SPI_TRANSMODE_FULLDUPLEX\<rparr>;
          spi_struct = spi_struct\<lparr>spi_frame_size := SPI_FRAMESIZE_8BIT\<rparr>;
          spi_struct = spi_struct\<lparr>spi_nss := SPI_NSS_HARD\<rparr>;
          spi_struct = spi_struct\<lparr>spi_clock_polarity_phase := SPI_CK_PL_LOW_PH_1EDGE\<rparr>
      in spi_struct\<lparr>spi_prescale := SPI_PSC_2\<rparr>)"

definition spi_init :: "'h bus \<Rightarrow> reg \<Rightarrow> spi_parameter \<Rightarrow> 'h \<Rightarrow> 'h" where
  "spi_init B spi_periph spi_struct h =
     (let (reg, h) = rd32 B (SPI_CTL0 spi_periph) h;
          reg = reg AND SPI_INIT_MASK;
          reg = reg OR spi_device_mode spi_struct;
          reg = reg OR spi_trans_mode spi_struct;
          reg = reg OR spi_frame_size spi_struct;
          reg = reg OR spi_nss spi_struct;
          reg = reg OR spi_endian spi_struct;
          reg = reg OR spi_clock_polarity_phase spi_struct;
          reg = reg OR spi_prescale spi_struct;
          h = wr32 B (SPI_CTL0 spi_periph) reg h
      in clear_bits B (SPI_I2SCTL spi_periph) SPI_I2SCTL_I2SSEL h)"

definition spi_enable :: "'h bus \<Rightarrow> reg \<Rightarrow> 'h \<Rightarrow> 'h" where
  "spi_enable B spi_periph h = set_bits B (SPI_CTL0 spi_periph) SPI_CTL0_SPIEN h"

definition spi_disable :: "'h bus \<Rightarrow> reg \<Rightarrow> 'h \<Rightarrow> 'h" where
  "spi_disable B spi_periph h = clear_bits B (SPI_CTL0 spi_periph) SPI_CTL0_SPIEN h"

definition i2s_init :: "'h bus \<Rightarrow> reg \<Rightarrow> reg \<Rightarrow> reg \<Rightarrow> reg \<Rightarrow> 'h \<Rightarrow> 'h" where
  "i2s_init B spi_periph mode standard ckpl h =
     (let (reg, h) = rd32 B (SPI_I2SCTL spi_periph) h;
          reg = reg AND I2S_INIT_MASK;
          reg = reg OR SPI_I2SCTL_I2SSEL;
          reg = reg OR mode;
          reg = reg OR standard;
          reg = reg OR ckpl
      in wr32 B (SPI_I2SCTL spi_periph) reg h)"

definition i2s_enable :: "'h bus \<Rightarrow> reg \<Rightarrow> 'h \<Rightarrow> 'h" where
  "i2s_enable B spi_periph h = set_bits B (SPI_I2SCTL spi_periph) SPI_I2SCTL_I2SEN h"

definition i2s_disable :: "'h bus \<Rightarrow> reg \<Rightarrow> 'h \<Rightarrow> 'h" where
  "i2s_disable B spi_periph h = clear_bits B (SPI_I2SCTL spi_periph) SPI_I2SCTL_I2SEN h"

definition spi_nss_output_enable :: "'h bus \<Rightarrow> reg \<Rightarrow> 'h \<Rightarrow> 'h" where
  "spi_nss_output_enable B spi_periph h = set_bits B (SPI_CTL1 spi_periph) SPI_CTL1_NSSDRV h"

definition spi_nss_output_disable :: "'h bus \<Rightarrow> reg \<Rightarrow> 'h \<Rightarrow> 'h" where
  "spi_nss_output_disable B spi_periph h = clear_bits B (SPI_CTL1 spi_periph) SPI_CTL1_NSSDRV h"

definition spi_nss_internal_high :: "'h bus \<Rightarrow> reg \<Rightarrow> 'h \<Rightarrow> 'h" where
  "spi_nss_internal_high B spi_periph h = set_bits B (SPI_CTL0 spi_periph) SPI_CTL0_SWNSS h"

definition spi_nss_internal_low :: "'h bus \<Rightarrow> reg \<Rightarrow> 'h \<Rightarrow> 'h" where
  "spi_nss_internal_low B spi_periph h = clear_bits B (SPI_CTL0 spi_periph) SPI_CTL0_SWNSS h"

definition spi_dma_enable :: "'h bus \<Rightarrow> reg \<Rightarrow> 8 word \<Rightarrow> 'h \<Rightarrow> 'h" where
  "spi_dma_enable B spi_periph dma h =
     (if ucast dma = SPI_DMA_TRANSMIT then set_bits B (SPI_CTL1 spi_periph) SPI_CTL1_DMATEN h
      else set_bits B (SPI_CTL1 spi_periph) SPI_CTL1_DMAREN h)"

definition spi_dma_disable :: "'h bus \<Rightarrow> reg \<Rightarrow> 8 word \<Rightarrow> 'h \<Rightarrow> 'h" where
  "spi_dma_disable B spi_periph dma h =
     (if ucast dma = SPI_DMA_TRANSMIT then clear_bits B (SPI_CTL1 spi_periph) SPI_CTL1_DMATEN h
      else clear_bits B (SPI_CTL1 spi_periph) SPI_CTL1_DMAREN h)"

definition spi_i2s_data_frame_format_config :: "'h bus \<Rightarrow> reg \<Rightarrow> 16 word \<Rightarrow> 'h \<Rightarrow> 'h" where
  "spi_i2s_data_frame_format_config B spi_periph frame_format h =
     (let h = clear_bits B (SPI_CTL0 spi_periph) SPI_CTL0_FF16 h
      in set_bits B (SPI_CTL0 spi_periph) (ucast frame_format) h)"

definition spi_i2s_data_transmit :: "'h bus \<Rightarrow> reg \<Rightarrow> 16 word \<Rightarrow> 'h \<Rightarrow> 'h" where
  "spi_i2s_data_transmit B spi_periph dat h = wr32 B (SPI_DATA spi_periph) (ucast dat) h"

definition spi_i2s_data_receive :: "'h bus \<Rightarrow> reg \<Rightarrow> 'h \<Rightarrow> 16 word \<times> 'h" where
  "spi_i2s_data_receive B spi_periph h =
     (let (v, h) = rd32 B (SPI_DATA spi_periph) h
      in (ucast v, h))"

definition spi_bidirectional_transfer_config :: "'h bus \<Rightarrow> reg \<Rightarrow> reg \<Rightarrow> 'h \<Rightarrow> 'h" where
  "spi_bidirectional_transfer_config B spi_periph transfer_direction h =
     (if transfer_direction = SPI_BIDIRECTIONAL_TRANSMIT
      then set_bits B (SPI_CTL0 spi_periph) SPI_BIDIRECTIONAL_TRANSMIT h
      else modify B (SPI_CTL0 spi_periph) (\<lambda>r. r AND SPI_BIDIRECTIONAL_RECEIVE) h)"

definition spi_crc_polynomial_set :: "'h bus \<Rightarrow> reg \<Rightarrow> 16 word \<Rightarrow> 'h \<Rightarrow> 'h" where
  "spi_crc_polynomial_set B spi_periph crc_poly h =
     (let h = set_bits B (SPI_CTL0 spi_periph) SPI_CTL0_CRCEN h
      in wr32 B (SPI_CRCPOLY spi_periph) (ucast crc_poly) h)"

definition spi_crc_polynomial_get :: "'h bus \<Rightarrow> reg \<Rightarrow> 'h \<Rightarrow> 16 word \<times> 'h" where
  "spi_crc_polynomial_get B spi_periph h =
     (let (v, h) = rd32 B (SPI_CRCPOLY spi_periph) h
      in (ucast v, h))"

definition spi_crc_on :: "'h bus \<Rightarrow> reg \<Rightarrow> 'h \<Rightarrow> 'h" where
  "spi_crc_on B spi_periph h = set_bits B (SPI_CTL0 spi_periph) SPI_CTL0_CRCEN h"

definition spi_crc_off :: "'h bus \<Rightarrow> reg \<Rightarrow> 'h \<Rightarrow> 'h" where
  "spi_crc_off B spi_periph h = clear_bits B (SPI_CTL0 spi_periph) SPI_CTL0_CRCEN h"

definition spi_crc_next :: "'h bus \<Rightarrow> reg \<Rightarrow> 'h \<Rightarrow> 'h" where
  "spi_crc_next B spi_periph h = set_bits B (SPI_CTL0 spi_periph) SPI_CTL0_CRCNT h"

definition spi_crc_get :: "'h bus \<Rightarrow> reg \<Rightarrow> 8 word \<Rightarrow> 'h \<Rightarrow> 16 word \<times> 'h" where
  "spi_crc_get B spi_periph crc h =
     (if ucast crc = SPI_CRC_TX
      then (let (v, h) = rd32 B (SPI_TCRC spi_periph) h
            in (ucast v, h))
      else (let (v, h) = rd32 B (SPI_RCRC spi_periph) h
            in (ucast v, h)))"

definition spi_ti_mode_enable :: "'h bus \<Rightarrow> reg \<Rightarrow> 'h \<Rightarrow> 'h" where
  "spi_ti_mode_enable B spi_periph h = set_bits B (SPI_CTL1 spi_periph) SPI_CTL1_TMOD h"

definition spi_ti_mode_disable :: "'h bus \<Rightarrow> reg \<Rightarrow> 'h \<Rightarrow> 'h" where
  "spi_ti_mode_disable B spi_periph h = clear_bits B (SPI_CTL1 spi_periph) SPI_CTL1_TMOD h"

definition spi_nssp_mode_enable :: "'h bus \<Rightarrow> reg \<Rightarrow> 'h \<Rightarrow> 'h" where
  "spi_nssp_mode_enable B spi_periph h = set_bits B (SPI_CTL1 spi_periph) SPI_CTL1_NSSP h"

definition spi_nssp_mode_disable :: "'h bus \<Rightarrow> reg \<Rightarrow> 'h \<Rightarrow> 'h" where
  "spi_nssp_mode_disable B spi_periph h = clear_bits B (SPI_CTL1 spi_periph) SPI_CTL1_NSSP h"

definition spi_i2s_interrupt_enable :: "'h bus \<Rightarrow> reg \<Rightarrow> 8 word \<Rightarrow> 'h \<Rightarrow> 'h" where
  "spi_i2s_interrupt_enable B spi_periph interrupt h =
     (if ucast interrupt = SPI_I2S_INT_TBE then set_bits B (SPI_CTL1 spi_periph) SPI_CTL1_TBEIE h
      else if ucast interrupt = SPI_I2S_INT_RBNE then set_bits B (SPI_CTL1 spi_periph) SPI_CTL1_RBNEIE h
      else if ucast interrupt = SPI_I2S_INT_ERR then set_bits B (SPI_CTL1 spi_periph) SPI_CTL1_ERRIE h
      else h)"

definition spi_i2s_interrupt_disable :: "'h bus \<Rightarrow> reg \<Rightarrow> 8 word \<Rightarrow> 'h \<Rightarrow> 'h" where
  "spi_i2s_interrupt_disable B spi_periph interrupt h =
     (if ucast interrupt = SPI_I2S_INT_TBE then clear_bits B (SPI_CTL1 spi_periph) SPI_CTL1_TBEIE h
      else if ucast interrupt = SPI_I2S_INT_RBNE then clear_bits B (SPI_CTL1 spi_periph) SPI_CTL1_RBNEIE h
      else if ucast interrupt = SPI_I2S_INT_ERR then clear_bits B (SPI_CTL1 spi_periph) SPI_CTL1_ERRIE h
      else h)"

definition spi_i2s_interrupt_flag_get :: "'h bus \<Rightarrow> reg \<Rightarrow> 8 word \<Rightarrow> 'h \<Rightarrow> bool \<times> 'h" where
  "spi_i2s_interrupt_flag_get B spi_periph interrupt h =
     (let (reg1, h) = rd32 B (SPI_STAT spi_periph) h;
          (reg2, h) = rd32 B (SPI_CTL1 spi_periph) h;
          (reg1, reg2) =
            (if ucast interrupt = SPI_I2S_INT_FLAG_TBE
             then (let reg1 = reg1 AND SPI_STAT_TBE;
                       reg2 = reg2 AND SPI_CTL1_TBEIE
                   in (reg1, reg2))
             else if ucast interrupt = SPI_I2S_INT_FLAG_RBNE
             then (let reg1 = reg1 AND SPI_STAT_RBNE;
                       reg2 = reg2 AND SPI_CTL1_RBNEIE
                   in (reg1, reg2))
             else if ucast interrupt = SPI_I2S_INT_FLAG_RXORERR
             then (let reg1 = reg1 AND SPI_STAT_RXORERR;
                       reg2 = reg2 AND SPI_CTL1_ERRIE
                   in (reg1, reg2))
             else if ucast interrupt = SPI_INT_FLAG_CONFERR
             then (let reg1 = reg1 AND SPI_STAT_CONFERR;
                       reg2 = reg2 AND SPI_CTL1_ERRIE
                   in (reg1, reg2))
             else if ucast interrupt = SPI_INT_FLAG_CRCERR
             then (let reg1 = reg1 AND SPI_STAT_CRCERR;
                       reg2 = reg2 AND SPI_CTL1_ERRIE
                   in (reg1, reg2))
             else if ucast interrupt = I2S_INT_FLAG_TXURERR
             then (let reg1 = reg1 AND SPI_STAT_TXURERR;
                       reg2 = reg2 AND SPI_CTL1_ERRIE
                   in (reg1, reg2))
             else if ucast interrupt = SPI_I2S_INT_FLAG_FERR
             then (let reg1 = reg1 AND SPI_STAT_FERR;
                       reg2 = reg2 AND SPI_CTL1_ERRIE
                   in (reg1, reg2))
             else (reg1, reg2))
      in (reg1 \<noteq> 0 \<and> reg2 \<noteq> 0, h))"

definition spi_i2s_flag_get :: "'h bus \<Rightarrow> reg \<Rightarrow> reg \<Rightarrow> 'h \<Rightarrow> bool \<times> 'h" where
  "spi_i2s_flag_get B spi_periph flg h = any_set B (SPI_STAT spi_periph) flg h"

definition spi_crc_error_clear :: "'h bus \<Rightarrow> reg \<Rightarrow> 'h \<Rightarrow> 'h" where
  "spi_crc_error_clear B spi_periph h = clear_bits B (SPI_STAT spi_periph) SPI_FLAG_CRCERR h"

text \<open>The clock of the I2S block: PLL2 divided by PREDV1 and multiplied, or the system clock. Constants
  of the switch over the multiplication factor are the source's.\<close>

definition i2s_clock :: "'h bus \<Rightarrow> reg \<Rightarrow> reg \<Rightarrow> 'h \<Rightarrow> reg \<times> 'h" where
  "i2s_clock B xtal spi_periph h =
     (let clks = (if spi_periph = SPI1 then I2S1_CLOCK_SEL else I2S2_CLOCK_SEL);
          (v, h) = rd32 B RCU_CFG1 h
      in if v AND clks \<noteq> 0
         then (let (v, h) = rd32 B RCU_CFG1 h;
                   clks = drop_bit (unat RCU_CFG1_PLL2MF_OFFSET) (v AND I2S_CLOCK_MUL_MASK);
                   clks = (if 5 < clks \<and> clks < 15 then clks + 2 else if clks = 15 then 20 else clks);
                   (v, h) = rd32 B RCU_CFG1 h;
                   i2sclock = drop_bit (unat RCU_CFG1_PREDV1_OFFSET) (v AND I2S_CLOCK_DIV_MASK) + 1
               in ((xtal div i2sclock) * clks * 2, h))
         else rcu_clock_freq_get B xtal CK_SYS h)"

text \<open>The two fields of the prescaler from the ratio of the clocks, which carries one decimal digit.\<close>

definition i2s_prescaler :: "reg \<Rightarrow> reg \<times> reg" where
  "i2s_prescaler clks =
     (let clks = (clks + 5) div 10;
          i2sof = clks AND 1;
          i2sdiv = (clks - i2sof) div 2;
          i2sof = push_bit 8 i2sof
      in if i2sdiv < 2 \<or> 255 < i2sdiv then (2, 0) else (i2sdiv, i2sof))"

text \<open>The ratio is a division by the sample rate, undefined for 0.\<close>

definition i2s_psc_config :: "'h bus \<Rightarrow> reg \<Rightarrow> reg \<Rightarrow> reg \<Rightarrow> reg \<Rightarrow> reg \<Rightarrow> 'h \<Rightarrow> 'h outcome" where
  "i2s_psc_config B xtal spi_periph audiosample frameformat mckout h =
     (let h = wr32 B (SPI_I2SPSC spi_periph) SPI_I2SPSC_DEFAULT_VALUE h;
          (i2sclock, h) = i2s_clock B xtal spi_periph h;
          parts = (if mckout = I2S_MCKOUT_ENABLE then 256
                   else if frameformat = I2S_FRAMEFORMAT_DT16B_CH16B then 32 else 64)
      in bindo (udivide ((i2sclock div parts) * 10) audiosample) (\<lambda>clks.
         let (i2sdiv, i2sof) = i2s_prescaler clks;
             h = wr32 B (SPI_I2SPSC spi_periph) (i2sdiv OR i2sof OR mckout) h;
             h = clear_bits B (SPI_I2SCTL spi_periph) (SPI_I2SCTL_DTLEN OR SPI_I2SCTL_CHLEN) h
         in Ret (set_bits B (SPI_I2SCTL spi_periph) frameformat h)))"

end
