(* ===== verification/Usart.thy ===== *)
theory Usart
  imports Rcu
begin

text \<open>
  \<open>gd32vf103_usart.c\<close>: the serial ports. A flag or an interrupt is a number that holds the offset
  of its register and the position of its bit, and an interrupt flag holds two of each.
\<close>

section \<open>Registers\<close>

abbreviation (input) USART_BASE :: "reg" where "USART_BASE \<equiv> APB1_BUS_BASE + 0x4400"
abbreviation (input) USART0 :: "reg" where "USART0 \<equiv> USART_BASE + 0xf400"
abbreviation (input) USART1 :: "reg" where "USART1 \<equiv> USART_BASE"
abbreviation (input) USART2 :: "reg" where "USART2 \<equiv> USART_BASE + 0x400"
abbreviation (input) UART3 :: "reg" where "UART3 \<equiv> USART_BASE + 0x800"
abbreviation (input) UART4 :: "reg" where "UART4 \<equiv> USART_BASE + 0xc00"
abbreviation (input) USART_CTL0 :: "reg \<Rightarrow> 32 word" where "USART_CTL0 usartx \<equiv> usartx + 0xc"
abbreviation (input) USART_CTL0_PM :: "reg" where "USART_CTL0_PM \<equiv> BIT 9"
abbreviation (input) USART_CTL0_PCEN :: "reg" where "USART_CTL0_PCEN \<equiv> BIT 10"
abbreviation (input) USART_CTL0_WL :: "reg" where "USART_CTL0_WL \<equiv> BIT 12"
abbreviation (input) USART_CTL1 :: "reg \<Rightarrow> 32 word" where "USART_CTL1 usartx \<equiv> usartx + 0x10"
abbreviation (input) USART_CTL1_STB :: "reg" where "USART_CTL1_STB \<equiv> BITS 12 13"
abbreviation (input) USART_CTL0_UEN :: "reg" where "USART_CTL0_UEN \<equiv> BIT 13"
abbreviation (input) USART_CTL0_TEN :: "reg" where "USART_CTL0_TEN \<equiv> BIT 3"
abbreviation (input) USART_CTL0_REN :: "reg" where "USART_CTL0_REN \<equiv> BIT 2"
abbreviation (input) USART_DATA :: "reg \<Rightarrow> 32 word" where "USART_DATA usartx \<equiv> usartx + 4"
abbreviation (input) USART_DATA_DATA :: "reg" where "USART_DATA_DATA \<equiv> BITS 0 8"
abbreviation (input) USART_CTL1_ADDR :: "reg" where "USART_CTL1_ADDR \<equiv> BITS 0 3"
abbreviation (input) USART_CTL0_RWU :: "reg" where "USART_CTL0_RWU \<equiv> BIT 1"
abbreviation (input) USART_CTL0_WM :: "reg" where "USART_CTL0_WM \<equiv> BIT 11"
abbreviation (input) USART_CTL1_LMEN :: "reg" where "USART_CTL1_LMEN \<equiv> BIT 14"
abbreviation (input) USART_CTL1_LBLEN :: "reg" where "USART_CTL1_LBLEN \<equiv> BIT 5"
abbreviation (input) USART_CTL0_SBKCMD :: "reg" where "USART_CTL0_SBKCMD \<equiv> BIT 0"
abbreviation (input) USART_CTL2 :: "reg \<Rightarrow> 32 word" where "USART_CTL2 usartx \<equiv> usartx + 0x14"
abbreviation (input) USART_CTL2_HDEN :: "reg" where "USART_CTL2_HDEN \<equiv> BIT 3"
abbreviation (input) USART_CTL1_CKEN :: "reg" where "USART_CTL1_CKEN \<equiv> BIT 11"
abbreviation (input) USART_CTL1_CLEN :: "reg" where "USART_CTL1_CLEN \<equiv> BIT 8"
abbreviation (input) USART_CTL1_CPH :: "reg" where "USART_CTL1_CPH \<equiv> BIT 9"
abbreviation (input) USART_CTL1_CPL :: "reg" where "USART_CTL1_CPL \<equiv> BIT 10"
abbreviation (input) USART_GP :: "reg \<Rightarrow> 32 word" where "USART_GP usartx \<equiv> usartx + 0x18"
abbreviation (input) USART_GP_GUAT :: "reg" where "USART_GP_GUAT \<equiv> BITS 8 15"
abbreviation (input) USART_CTL2_SCEN :: "reg" where "USART_CTL2_SCEN \<equiv> BIT 5"
abbreviation (input) USART_CTL2_NKEN :: "reg" where "USART_CTL2_NKEN \<equiv> BIT 4"
abbreviation (input) USART_CTL2_IREN :: "reg" where "USART_CTL2_IREN \<equiv> BIT 1"
abbreviation (input) USART_GP_PSC :: "reg" where "USART_GP_PSC \<equiv> BITS 0 7"
abbreviation (input) USART_CTL2_IRLP :: "reg" where "USART_CTL2_IRLP \<equiv> BIT 2"
abbreviation (input) USART_CTL2_RTSEN :: "reg" where "USART_CTL2_RTSEN \<equiv> BIT 8"
abbreviation (input) USART_CTL2_CTSEN :: "reg" where "USART_CTL2_CTSEN \<equiv> BIT 9"
abbreviation (input) USART_CTL2_DENR :: "reg" where "USART_CTL2_DENR \<equiv> BIT 6"
abbreviation (input) USART_CTL2_DENT :: "reg" where "USART_CTL2_DENT \<equiv> BIT 7"
abbreviation (input) USART_REG_VAL :: "reg \<Rightarrow> reg \<Rightarrow> 32 word" where "USART_REG_VAL usartx offset \<equiv> usartx + (drop_bit 6 (offset AND 0xffff))"
abbreviation (input) USART_BIT_POS :: "reg \<Rightarrow> reg" where "USART_BIT_POS val \<equiv> val AND 0x1f"
abbreviation (input) USART_REGIDX_BIT :: "reg \<Rightarrow> reg \<Rightarrow> reg" where "USART_REGIDX_BIT regidx bitpos \<equiv> (push_bit 6 regidx) OR bitpos"
abbreviation (input) USART_STAT_REG_OFFSET :: "reg" where "USART_STAT_REG_OFFSET \<equiv> 0"
abbreviation (input) USART_REG_VAL2 :: "reg \<Rightarrow> reg \<Rightarrow> 32 word" where "USART_REG_VAL2 usartx offset \<equiv> usartx + (drop_bit 22 offset)"
abbreviation (input) USART_BIT_POS2 :: "reg \<Rightarrow> reg" where "USART_BIT_POS2 val \<equiv> drop_bit 16 (val AND 0x1f0000)"
abbreviation (input) USART_BAUD :: "reg \<Rightarrow> 32 word" where "USART_BAUD usartx \<equiv> usartx + 8"
abbreviation (input) USART_BAUD_FRADIV :: "reg" where "USART_BAUD_FRADIV \<equiv> BITS 0 3"
abbreviation (input) USART_BAUD_INTDIV :: "reg" where "USART_BAUD_INTDIV \<equiv> BITS 4 15"

section \<open>Types\<close>

datatype usart_flag =
  USART_FLAG_CTS | USART_FLAG_LBD | USART_FLAG_TBE | USART_FLAG_TC | USART_FLAG_RBNE
  | USART_FLAG_IDLE | USART_FLAG_ORERR | USART_FLAG_NERR | USART_FLAG_FERR | USART_FLAG_PERR

fun usart_flag_value :: "usart_flag \<Rightarrow> reg" where
  "usart_flag_value USART_FLAG_CTS = USART_REGIDX_BIT USART_STAT_REG_OFFSET 9"
| "usart_flag_value USART_FLAG_LBD = USART_REGIDX_BIT USART_STAT_REG_OFFSET 8"
| "usart_flag_value USART_FLAG_TBE = USART_REGIDX_BIT USART_STAT_REG_OFFSET 7"
| "usart_flag_value USART_FLAG_TC = USART_REGIDX_BIT USART_STAT_REG_OFFSET 6"
| "usart_flag_value USART_FLAG_RBNE = USART_REGIDX_BIT USART_STAT_REG_OFFSET 5"
| "usart_flag_value USART_FLAG_IDLE = USART_REGIDX_BIT USART_STAT_REG_OFFSET 4"
| "usart_flag_value USART_FLAG_ORERR = USART_REGIDX_BIT USART_STAT_REG_OFFSET 3"
| "usart_flag_value USART_FLAG_NERR = USART_REGIDX_BIT USART_STAT_REG_OFFSET 2"
| "usart_flag_value USART_FLAG_FERR = USART_REGIDX_BIT USART_STAT_REG_OFFSET 1"
| "usart_flag_value USART_FLAG_PERR = USART_REGIDX_BIT USART_STAT_REG_OFFSET 0"

section \<open>Operations\<close>

definition usart_deinit :: "'h bus \<Rightarrow> reg \<Rightarrow> 'h \<Rightarrow> 'h" where
  "usart_deinit B usart_periph h =
     (if usart_periph = USART0
      then reset_pulse B RCU_USART0RST h
      else if usart_periph = USART1
      then reset_pulse B RCU_USART1RST h
      else if usart_periph = USART2
      then reset_pulse B RCU_USART2RST h
      else if usart_periph = UART3
      then reset_pulse B RCU_UART3RST h
      else if usart_periph = UART4
      then reset_pulse B RCU_UART4RST h
      else h)"

definition usart_parity_config :: "'h bus \<Rightarrow> reg \<Rightarrow> reg \<Rightarrow> 'h \<Rightarrow> 'h" where
  "usart_parity_config B usart_periph paritycfg h =
     (let h = clear_bits B (USART_CTL0 usart_periph) (USART_CTL0_PM OR USART_CTL0_PCEN) h
      in set_bits B (USART_CTL0 usart_periph) paritycfg h)"

definition usart_word_length_set :: "'h bus \<Rightarrow> reg \<Rightarrow> reg \<Rightarrow> 'h \<Rightarrow> 'h" where
  "usart_word_length_set B usart_periph wlen h =
     (let h = clear_bits B (USART_CTL0 usart_periph) USART_CTL0_WL h
      in set_bits B (USART_CTL0 usart_periph) wlen h)"

definition usart_stop_bit_set :: "'h bus \<Rightarrow> reg \<Rightarrow> reg \<Rightarrow> 'h \<Rightarrow> 'h" where
  "usart_stop_bit_set B usart_periph stblen h =
     (let h = clear_bits B (USART_CTL1 usart_periph) USART_CTL1_STB h
      in set_bits B (USART_CTL1 usart_periph) stblen h)"

definition usart_enable :: "'h bus \<Rightarrow> reg \<Rightarrow> 'h \<Rightarrow> 'h" where
  "usart_enable B usart_periph h = set_bits B (USART_CTL0 usart_periph) USART_CTL0_UEN h"

definition usart_disable :: "'h bus \<Rightarrow> reg \<Rightarrow> 'h \<Rightarrow> 'h" where
  "usart_disable B usart_periph h = clear_bits B (USART_CTL0 usart_periph) USART_CTL0_UEN h"

definition usart_transmit_config :: "'h bus \<Rightarrow> reg \<Rightarrow> reg \<Rightarrow> 'h \<Rightarrow> 'h" where
  "usart_transmit_config B usart_periph txconfig h =
     (let (ctl, h) = rd32 B (USART_CTL0 usart_periph) h;
          ctl = ctl AND NOT USART_CTL0_TEN;
          ctl = ctl OR txconfig
      in wr32 B (USART_CTL0 usart_periph) ctl h)"

definition usart_receive_config :: "'h bus \<Rightarrow> reg \<Rightarrow> reg \<Rightarrow> 'h \<Rightarrow> 'h" where
  "usart_receive_config B usart_periph rxconfig h =
     (let (ctl, h) = rd32 B (USART_CTL0 usart_periph) h;
          ctl = ctl AND NOT USART_CTL0_REN;
          ctl = ctl OR rxconfig
      in wr32 B (USART_CTL0 usart_periph) ctl h)"

definition usart_data_transmit :: "'h bus \<Rightarrow> reg \<Rightarrow> reg \<Rightarrow> 'h \<Rightarrow> 'h" where
  "usart_data_transmit B usart_periph dat h =
     wr32 B (USART_DATA usart_periph) (USART_DATA_DATA AND dat) h"

definition usart_data_receive :: "'h bus \<Rightarrow> reg \<Rightarrow> 'h \<Rightarrow> 16 word \<times> 'h" where
  "usart_data_receive B usart_periph h =
     (let (v, h) = rd32 B (USART_DATA usart_periph) h
      in (ucast (GET_BITS v 0 8), h))"

definition usart_address_config :: "'h bus \<Rightarrow> reg \<Rightarrow> 8 word \<Rightarrow> 'h \<Rightarrow> 'h" where
  "usart_address_config B usart_periph addr h =
     (let h = clear_bits B (USART_CTL1 usart_periph) USART_CTL1_ADDR h
      in set_bits B (USART_CTL1 usart_periph) (USART_CTL1_ADDR AND ucast addr) h)"

definition usart_mute_mode_enable :: "'h bus \<Rightarrow> reg \<Rightarrow> 'h \<Rightarrow> 'h" where
  "usart_mute_mode_enable B usart_periph h = set_bits B (USART_CTL0 usart_periph) USART_CTL0_RWU h"

definition usart_mute_mode_disable :: "'h bus \<Rightarrow> reg \<Rightarrow> 'h \<Rightarrow> 'h" where
  "usart_mute_mode_disable B usart_periph h =
     clear_bits B (USART_CTL0 usart_periph) USART_CTL0_RWU h"

definition usart_mute_mode_wakeup_config :: "'h bus \<Rightarrow> reg \<Rightarrow> reg \<Rightarrow> 'h \<Rightarrow> 'h" where
  "usart_mute_mode_wakeup_config B usart_periph wmethod h =
     (let h = clear_bits B (USART_CTL0 usart_periph) USART_CTL0_WM h
      in set_bits B (USART_CTL0 usart_periph) wmethod h)"

definition usart_lin_mode_enable :: "'h bus \<Rightarrow> reg \<Rightarrow> 'h \<Rightarrow> 'h" where
  "usart_lin_mode_enable B usart_periph h = set_bits B (USART_CTL1 usart_periph) USART_CTL1_LMEN h"

definition usart_lin_mode_disable :: "'h bus \<Rightarrow> reg \<Rightarrow> 'h \<Rightarrow> 'h" where
  "usart_lin_mode_disable B usart_periph h =
     clear_bits B (USART_CTL1 usart_periph) USART_CTL1_LMEN h"

definition usart_lin_break_detection_length_config :: "'h bus \<Rightarrow> reg \<Rightarrow> reg \<Rightarrow> 'h \<Rightarrow> 'h" where
  "usart_lin_break_detection_length_config B usart_periph lblen h =
     (let h = clear_bits B (USART_CTL1 usart_periph) USART_CTL1_LBLEN h
      in set_bits B (USART_CTL1 usart_periph) (USART_CTL1_LBLEN AND lblen) h)"

definition usart_send_break :: "'h bus \<Rightarrow> reg \<Rightarrow> 'h \<Rightarrow> 'h" where
  "usart_send_break B usart_periph h = set_bits B (USART_CTL0 usart_periph) USART_CTL0_SBKCMD h"

definition usart_halfduplex_enable :: "'h bus \<Rightarrow> reg \<Rightarrow> 'h \<Rightarrow> 'h" where
  "usart_halfduplex_enable B usart_periph h =
     set_bits B (USART_CTL2 usart_periph) USART_CTL2_HDEN h"

definition usart_halfduplex_disable :: "'h bus \<Rightarrow> reg \<Rightarrow> 'h \<Rightarrow> 'h" where
  "usart_halfduplex_disable B usart_periph h =
     clear_bits B (USART_CTL2 usart_periph) USART_CTL2_HDEN h"

definition usart_synchronous_clock_enable :: "'h bus \<Rightarrow> reg \<Rightarrow> 'h \<Rightarrow> 'h" where
  "usart_synchronous_clock_enable B usart_periph h =
     set_bits B (USART_CTL1 usart_periph) USART_CTL1_CKEN h"

definition usart_synchronous_clock_disable :: "'h bus \<Rightarrow> reg \<Rightarrow> 'h \<Rightarrow> 'h" where
  "usart_synchronous_clock_disable B usart_periph h =
     clear_bits B (USART_CTL1 usart_periph) USART_CTL1_CKEN h"

definition usart_synchronous_clock_config :: "'h bus \<Rightarrow> reg \<Rightarrow> reg \<Rightarrow> reg \<Rightarrow> reg \<Rightarrow> 'h \<Rightarrow> 'h" where
  "usart_synchronous_clock_config B usart_periph clen cph cpl h =
     (let (ctl, h) = rd32 B (USART_CTL1 usart_periph) h;
          ctl = ctl AND NOT (USART_CTL1_CLEN OR USART_CTL1_CPH OR USART_CTL1_CPL);
          ctl = ctl OR (USART_CTL1_CLEN AND clen) OR (USART_CTL1_CPH AND cph) OR (USART_CTL1_CPL AND cpl)
      in wr32 B (USART_CTL1 usart_periph) ctl h)"

definition usart_guard_time_config :: "'h bus \<Rightarrow> reg \<Rightarrow> reg \<Rightarrow> 'h \<Rightarrow> 'h" where
  "usart_guard_time_config B usart_periph gaut h =
     (let h = clear_bits B (USART_GP usart_periph) USART_GP_GUAT h
      in set_bits B (USART_GP usart_periph) (USART_GP_GUAT AND (push_bit 8 gaut)) h)"

definition usart_smartcard_mode_enable :: "'h bus \<Rightarrow> reg \<Rightarrow> 'h \<Rightarrow> 'h" where
  "usart_smartcard_mode_enable B usart_periph h =
     set_bits B (USART_CTL2 usart_periph) USART_CTL2_SCEN h"

definition usart_smartcard_mode_disable :: "'h bus \<Rightarrow> reg \<Rightarrow> 'h \<Rightarrow> 'h" where
  "usart_smartcard_mode_disable B usart_periph h =
     clear_bits B (USART_CTL2 usart_periph) USART_CTL2_SCEN h"

definition usart_smartcard_mode_nack_enable :: "'h bus \<Rightarrow> reg \<Rightarrow> 'h \<Rightarrow> 'h" where
  "usart_smartcard_mode_nack_enable B usart_periph h =
     set_bits B (USART_CTL2 usart_periph) USART_CTL2_NKEN h"

definition usart_smartcard_mode_nack_disable :: "'h bus \<Rightarrow> reg \<Rightarrow> 'h \<Rightarrow> 'h" where
  "usart_smartcard_mode_nack_disable B usart_periph h =
     clear_bits B (USART_CTL2 usart_periph) USART_CTL2_NKEN h"

definition usart_irda_mode_enable :: "'h bus \<Rightarrow> reg \<Rightarrow> 'h \<Rightarrow> 'h" where
  "usart_irda_mode_enable B usart_periph h =
     set_bits B (USART_CTL2 usart_periph) USART_CTL2_IREN h"

definition usart_irda_mode_disable :: "'h bus \<Rightarrow> reg \<Rightarrow> 'h \<Rightarrow> 'h" where
  "usart_irda_mode_disable B usart_periph h =
     clear_bits B (USART_CTL2 usart_periph) USART_CTL2_IREN h"

definition usart_prescaler_config :: "'h bus \<Rightarrow> reg \<Rightarrow> 8 word \<Rightarrow> 'h \<Rightarrow> 'h" where
  "usart_prescaler_config B usart_periph psc h =
     (let h = clear_bits B (USART_GP usart_periph) USART_GP_PSC h
      in set_bits B (USART_GP usart_periph) (ucast psc) h)"

definition usart_irda_lowpower_config :: "'h bus \<Rightarrow> reg \<Rightarrow> reg \<Rightarrow> 'h \<Rightarrow> 'h" where
  "usart_irda_lowpower_config B usart_periph irlp h =
     (let h = clear_bits B (USART_CTL2 usart_periph) USART_CTL2_IRLP h
      in set_bits B (USART_CTL2 usart_periph) (USART_CTL2_IRLP AND irlp) h)"

definition usart_hardware_flow_rts_config :: "'h bus \<Rightarrow> reg \<Rightarrow> reg \<Rightarrow> 'h \<Rightarrow> 'h" where
  "usart_hardware_flow_rts_config B usart_periph rtsconfig h =
     (let (ctl, h) = rd32 B (USART_CTL2 usart_periph) h;
          ctl = ctl AND NOT USART_CTL2_RTSEN;
          ctl = ctl OR rtsconfig
      in wr32 B (USART_CTL2 usart_periph) ctl h)"

definition usart_hardware_flow_cts_config :: "'h bus \<Rightarrow> reg \<Rightarrow> reg \<Rightarrow> 'h \<Rightarrow> 'h" where
  "usart_hardware_flow_cts_config B usart_periph ctsconfig h =
     (let (ctl, h) = rd32 B (USART_CTL2 usart_periph) h;
          ctl = ctl AND NOT USART_CTL2_CTSEN;
          ctl = ctl OR ctsconfig
      in wr32 B (USART_CTL2 usart_periph) ctl h)"

definition usart_dma_receive_config :: "'h bus \<Rightarrow> reg \<Rightarrow> reg \<Rightarrow> 'h \<Rightarrow> 'h" where
  "usart_dma_receive_config B usart_periph dmacmd h =
     (let (ctl, h) = rd32 B (USART_CTL2 usart_periph) h;
          ctl = ctl AND NOT USART_CTL2_DENR;
          ctl = ctl OR dmacmd
      in wr32 B (USART_CTL2 usart_periph) ctl h)"

definition usart_dma_transmit_config :: "'h bus \<Rightarrow> reg \<Rightarrow> reg \<Rightarrow> 'h \<Rightarrow> 'h" where
  "usart_dma_transmit_config B usart_periph dmacmd h =
     (let (ctl, h) = rd32 B (USART_CTL2 usart_periph) h;
          ctl = ctl AND NOT USART_CTL2_DENT;
          ctl = ctl OR dmacmd
      in wr32 B (USART_CTL2 usart_periph) ctl h)"

definition usart_flag_get :: "'h bus \<Rightarrow> reg \<Rightarrow> usart_flag \<Rightarrow> 'h \<Rightarrow> bool \<times> 'h" where
  "usart_flag_get B usart_periph flg h =
     any_set B (USART_REG_VAL usart_periph (usart_flag_value flg)) (BIT (unat (USART_BIT_POS (usart_flag_value flg)))) h"

definition usart_flag_clear :: "'h bus \<Rightarrow> reg \<Rightarrow> usart_flag \<Rightarrow> 'h \<Rightarrow> 'h" where
  "usart_flag_clear B usart_periph flg h =
     clear_bits B (USART_REG_VAL usart_periph (usart_flag_value flg)) (BIT (unat (USART_BIT_POS (usart_flag_value flg)))) h"

definition usart_interrupt_enable :: "'h bus \<Rightarrow> reg \<Rightarrow> reg \<Rightarrow> 'h \<Rightarrow> 'h" where
  "usart_interrupt_enable B usart_periph interrupt h =
     set_bits B (USART_REG_VAL usart_periph interrupt) (BIT (unat (USART_BIT_POS interrupt))) h"

definition usart_interrupt_disable :: "'h bus \<Rightarrow> reg \<Rightarrow> reg \<Rightarrow> 'h \<Rightarrow> 'h" where
  "usart_interrupt_disable B usart_periph interrupt h =
     clear_bits B (USART_REG_VAL usart_periph interrupt) (BIT (unat (USART_BIT_POS interrupt))) h"

definition usart_interrupt_flag_get :: "'h bus \<Rightarrow> reg \<Rightarrow> reg \<Rightarrow> 'h \<Rightarrow> bool \<times> 'h" where
  "usart_interrupt_flag_get B usart_periph int_flag h =
     (let (v, h) = rd32 B (USART_REG_VAL usart_periph int_flag) h;
          intenable = v AND BIT (unat (USART_BIT_POS int_flag));
          (v2, h) = rd32 B (USART_REG_VAL2 usart_periph int_flag) h;
          flagstatus = v2 AND BIT (unat (USART_BIT_POS2 int_flag))
      in (flagstatus \<noteq> 0 \<and> intenable \<noteq> 0, h))"

definition usart_interrupt_flag_clear :: "'h bus \<Rightarrow> reg \<Rightarrow> reg \<Rightarrow> 'h \<Rightarrow> 'h" where
  "usart_interrupt_flag_clear B usart_periph int_flag h =
     clear_bits B (USART_REG_VAL2 usart_periph int_flag) (BIT (unat (USART_BIT_POS2 int_flag))) h"

text \<open>The clock of the port; an unknown port has frequency 0. The divisor, rounded to the nearest, is
  written in sixteenths; a rate of 0 is a division by zero.\<close>

definition usart_clock :: "'h bus \<Rightarrow> reg \<Rightarrow> reg \<Rightarrow> 'h \<Rightarrow> reg \<times> 'h" where
  "usart_clock B xtal usart_periph h =
     (if usart_periph = USART0 then rcu_clock_freq_get B xtal CK_APB2 h
      else if usart_periph = USART1 \<or> usart_periph = USART2 \<or> usart_periph = UART3 \<or> usart_periph = UART4
      then rcu_clock_freq_get B xtal CK_APB1 h
      else (0, h))"

definition usart_baudrate_set :: "'h bus \<Rightarrow> reg \<Rightarrow> reg \<Rightarrow> reg \<Rightarrow> 'h \<Rightarrow> 'h outcome" where
  "usart_baudrate_set B xtal usart_periph baudval h =
     (let (uclk, h) = usart_clock B xtal usart_periph h
      in bindo (udivide (uclk + baudval div 2) baudval) (\<lambda>udiv.
         let intdiv = udiv AND 0x0000FFF0;
             fradiv = udiv AND 0x0000000F
         in Ret (wr32 B (USART_BAUD usart_periph)
                  ((USART_BAUD_FRADIV OR USART_BAUD_INTDIV) AND (intdiv OR fradiv)) h)))"

end
