(* ===== verification/I2c.thy ===== *)
theory I2c
  imports Rcu
begin

text \<open>
  \<open>gd32vf103_i2c.c\<close>: the two-wire interface, and the clock it derives from the bus for the
  standard, the fast and the fast-plus mode.
\<close>

section \<open>Registers\<close>

abbreviation (input) I2C_BASE :: "reg" where "I2C_BASE \<equiv> APB1_BUS_BASE + 0x5400"
abbreviation (input) I2C0 :: "reg" where "I2C0 \<equiv> I2C_BASE"
abbreviation (input) I2C1 :: "reg" where "I2C1 \<equiv> I2C_BASE + 0x400"
abbreviation (input) I2C_CTL0 :: "reg \<Rightarrow> 32 word" where "I2C_CTL0 i2cx \<equiv> i2cx + 0"
abbreviation (input) I2C_CTL0_SMBEN :: "reg" where "I2C_CTL0_SMBEN \<equiv> BIT 1"
abbreviation (input) I2C_ADDRESS_MASK :: "reg" where "I2C_ADDRESS_MASK \<equiv> 0x3ff"
abbreviation (input) I2C_SADDR0 :: "reg \<Rightarrow> 32 word" where "I2C_SADDR0 i2cx \<equiv> i2cx + 8"
abbreviation (input) I2C_CTL0_SMBSEL :: "reg" where "I2C_CTL0_SMBSEL \<equiv> BIT 3"
abbreviation (input) I2C_SMBUS_HOST :: "reg" where "I2C_SMBUS_HOST \<equiv> I2C_CTL0_SMBSEL"
abbreviation (input) I2C_ACK_ENABLE :: "reg" where "I2C_ACK_ENABLE \<equiv> 1"
abbreviation (input) I2C_CTL0_ACKEN :: "reg" where "I2C_CTL0_ACKEN \<equiv> BIT 10"
abbreviation (input) I2C_ACKPOS_NEXT :: "reg" where "I2C_ACKPOS_NEXT \<equiv> 0"
abbreviation (input) I2C_CTL0_POAP :: "reg" where "I2C_CTL0_POAP \<equiv> BIT 11"
abbreviation (input) I2C_TRANSMITTER :: "reg" where "I2C_TRANSMITTER \<equiv> 0xfffffffe"
abbreviation (input) I2C_RECEIVER :: "reg" where "I2C_RECEIVER \<equiv> 1"
abbreviation (input) I2C_DATA :: "reg \<Rightarrow> 32 word" where "I2C_DATA i2cx \<equiv> i2cx + 0x10"
abbreviation (input) I2C_ADDRESS2_MASK :: "reg" where "I2C_ADDRESS2_MASK \<equiv> 0xfe"
abbreviation (input) I2C_SADDR1 :: "reg \<Rightarrow> 32 word" where "I2C_SADDR1 i2cx \<equiv> i2cx + 0xc"
abbreviation (input) I2C_SADDR1_DUADEN :: "reg" where "I2C_SADDR1_DUADEN \<equiv> BIT 0"
abbreviation (input) I2C_CTL0_I2CEN :: "reg" where "I2C_CTL0_I2CEN \<equiv> BIT 0"
abbreviation (input) I2C_CTL0_START :: "reg" where "I2C_CTL0_START \<equiv> BIT 8"
abbreviation (input) I2C_CTL0_STOP :: "reg" where "I2C_CTL0_STOP \<equiv> BIT 9"
abbreviation (input) DATA_TRANS :: "reg \<Rightarrow> reg" where "DATA_TRANS regval \<equiv> BITS 0 7 AND (push_bit 0 regval)"
abbreviation (input) DATA_RECV :: "reg \<Rightarrow> reg" where "DATA_RECV regval \<equiv> GET_BITS regval 0 7"
abbreviation (input) I2C_CTL1 :: "reg \<Rightarrow> 32 word" where "I2C_CTL1 i2cx \<equiv> i2cx + 4"
abbreviation (input) I2C_CTL1_DMAON :: "reg" where "I2C_CTL1_DMAON \<equiv> BIT 11"
abbreviation (input) I2C_CTL1_DMALST :: "reg" where "I2C_CTL1_DMALST \<equiv> BIT 12"
abbreviation (input) I2C_CTL0_SS :: "reg" where "I2C_CTL0_SS \<equiv> BIT 7"
abbreviation (input) I2C_CTL0_GCEN :: "reg" where "I2C_CTL0_GCEN \<equiv> BIT 6"
abbreviation (input) I2C_CTL0_SRESET :: "reg" where "I2C_CTL0_SRESET \<equiv> BIT 15"
abbreviation (input) I2C_CTL0_PECEN :: "reg" where "I2C_CTL0_PECEN \<equiv> BIT 5"
abbreviation (input) I2C_CTL0_PECTRANS :: "reg" where "I2C_CTL0_PECTRANS \<equiv> BIT 12"
abbreviation (input) I2C_STAT1 :: "reg \<Rightarrow> 32 word" where "I2C_STAT1 i2cx \<equiv> i2cx + 0x18"
abbreviation (input) I2C_STAT1_PECV :: "reg" where "I2C_STAT1_PECV \<equiv> BITS 8 15"
abbreviation (input) STAT1_PECV_OFFSET :: "reg" where "STAT1_PECV_OFFSET \<equiv> 8"
abbreviation (input) I2C_CTL0_SALT :: "reg" where "I2C_CTL0_SALT \<equiv> BIT 13"
abbreviation (input) I2C_CTL0_ARPEN :: "reg" where "I2C_CTL0_ARPEN \<equiv> BIT 4"
abbreviation (input) I2C_REG_VAL :: "reg \<Rightarrow> reg \<Rightarrow> 32 word" where "I2C_REG_VAL i2cx offset \<equiv> i2cx + (drop_bit 6 (offset AND 0xffff))"
abbreviation (input) I2C_BIT_POS :: "reg \<Rightarrow> reg" where "I2C_BIT_POS val \<equiv> val AND 0x1f"
abbreviation (input) I2C_REGIDX_BIT :: "reg \<Rightarrow> reg \<Rightarrow> reg" where "I2C_REGIDX_BIT regidx bitpos \<equiv> (push_bit 6 regidx) OR bitpos"
abbreviation (input) I2C_STAT0_REG_OFFSET :: "reg" where "I2C_STAT0_REG_OFFSET \<equiv> 0x14"
abbreviation (input) I2C_STAT1_REG_OFFSET :: "reg" where "I2C_STAT1_REG_OFFSET \<equiv> 0x18"
abbreviation (input) I2C_CTL1_REG_OFFSET :: "reg" where "I2C_CTL1_REG_OFFSET \<equiv> 4"
abbreviation (input) I2C_CTL1_BUFIE :: "reg" where "I2C_CTL1_BUFIE \<equiv> BIT 10"
abbreviation (input) I2C_REG_VAL2 :: "reg \<Rightarrow> reg \<Rightarrow> 32 word" where "I2C_REG_VAL2 i2cx offset \<equiv> i2cx + (drop_bit 22 offset)"
abbreviation (input) I2C_BIT_POS2 :: "reg \<Rightarrow> reg" where "I2C_BIT_POS2 val \<equiv> drop_bit 16 (val AND 0x1f0000)"
abbreviation (input) I2C_REGIDX_BIT2 :: "reg \<Rightarrow> reg \<Rightarrow> reg \<Rightarrow> reg \<Rightarrow> reg" where "I2C_REGIDX_BIT2 regidx bitpos regidx2 bitpos2 \<equiv> (push_bit 22 regidx2) OR push_bit 16 bitpos2 OR (push_bit 6 regidx) OR bitpos"
abbreviation (input) I2CCLK_MAX :: "reg" where "I2CCLK_MAX \<equiv> 0x36"
abbreviation (input) I2CCLK_MIN :: "reg" where "I2CCLK_MIN \<equiv> 2"
abbreviation (input) I2C_CKCFG :: "reg \<Rightarrow> 32 word" where "I2C_CKCFG i2cx \<equiv> i2cx + 0x1c"
abbreviation (input) I2C_CKCFG_CLKC :: "reg" where "I2C_CKCFG_CLKC \<equiv> BITS 0 11"
abbreviation (input) I2C_CKCFG_DTCY :: "reg" where "I2C_CKCFG_DTCY \<equiv> BIT 14"
abbreviation (input) I2C_CKCFG_FAST :: "reg" where "I2C_CKCFG_FAST \<equiv> BIT 15"
abbreviation (input) I2C_CTL1_I2CCLK :: "reg" where "I2C_CTL1_I2CCLK \<equiv> BITS 0 5"
abbreviation (input) I2C_DTCY_2 :: "reg" where "I2C_DTCY_2 \<equiv> 0"
abbreviation (input) I2C_FMPCFG :: "reg \<Rightarrow> 32 word" where "I2C_FMPCFG i2cx \<equiv> i2cx + 0x90"
abbreviation (input) I2C_FMPCFG_FMPEN :: "reg" where "I2C_FMPCFG_FMPEN \<equiv> BIT 0"
abbreviation (input) I2C_RT :: "reg \<Rightarrow> 32 word" where "I2C_RT i2cx \<equiv> i2cx + 0x20"
abbreviation (input) I2C_STAT0 :: "reg \<Rightarrow> 32 word" where "I2C_STAT0 i2cx \<equiv> i2cx + 0x14"

section \<open>Types\<close>

datatype i2c_flag =
  I2C_FLAG_SBSEND | I2C_FLAG_ADDSEND | I2C_FLAG_BTC | I2C_FLAG_ADD10SEND | I2C_FLAG_STPDET
  | I2C_FLAG_RBNE | I2C_FLAG_TBE | I2C_FLAG_BERR | I2C_FLAG_LOSTARB | I2C_FLAG_AERR | I2C_FLAG_OUERR
  | I2C_FLAG_PECERR | I2C_FLAG_SMBTO | I2C_FLAG_SMBALT | I2C_FLAG_MASTER | I2C_FLAG_I2CBSY
  | I2C_FLAG_TR | I2C_FLAG_RXGC | I2C_FLAG_DEFSMB | I2C_FLAG_HSTSMB | I2C_FLAG_DUMODF

fun i2c_flag_value :: "i2c_flag \<Rightarrow> reg" where
  "i2c_flag_value I2C_FLAG_SBSEND = I2C_REGIDX_BIT I2C_STAT0_REG_OFFSET 0"
| "i2c_flag_value I2C_FLAG_ADDSEND = I2C_REGIDX_BIT I2C_STAT0_REG_OFFSET 1"
| "i2c_flag_value I2C_FLAG_BTC = I2C_REGIDX_BIT I2C_STAT0_REG_OFFSET 2"
| "i2c_flag_value I2C_FLAG_ADD10SEND = I2C_REGIDX_BIT I2C_STAT0_REG_OFFSET 3"
| "i2c_flag_value I2C_FLAG_STPDET = I2C_REGIDX_BIT I2C_STAT0_REG_OFFSET 4"
| "i2c_flag_value I2C_FLAG_RBNE = I2C_REGIDX_BIT I2C_STAT0_REG_OFFSET 6"
| "i2c_flag_value I2C_FLAG_TBE = I2C_REGIDX_BIT I2C_STAT0_REG_OFFSET 7"
| "i2c_flag_value I2C_FLAG_BERR = I2C_REGIDX_BIT I2C_STAT0_REG_OFFSET 8"
| "i2c_flag_value I2C_FLAG_LOSTARB = I2C_REGIDX_BIT I2C_STAT0_REG_OFFSET 9"
| "i2c_flag_value I2C_FLAG_AERR = I2C_REGIDX_BIT I2C_STAT0_REG_OFFSET 10"
| "i2c_flag_value I2C_FLAG_OUERR = I2C_REGIDX_BIT I2C_STAT0_REG_OFFSET 11"
| "i2c_flag_value I2C_FLAG_PECERR = I2C_REGIDX_BIT I2C_STAT0_REG_OFFSET 12"
| "i2c_flag_value I2C_FLAG_SMBTO = I2C_REGIDX_BIT I2C_STAT0_REG_OFFSET 14"
| "i2c_flag_value I2C_FLAG_SMBALT = I2C_REGIDX_BIT I2C_STAT0_REG_OFFSET 15"
| "i2c_flag_value I2C_FLAG_MASTER = I2C_REGIDX_BIT I2C_STAT1_REG_OFFSET 0"
| "i2c_flag_value I2C_FLAG_I2CBSY = I2C_REGIDX_BIT I2C_STAT1_REG_OFFSET 1"
| "i2c_flag_value I2C_FLAG_TR = I2C_REGIDX_BIT I2C_STAT1_REG_OFFSET 2"
| "i2c_flag_value I2C_FLAG_RXGC = I2C_REGIDX_BIT I2C_STAT1_REG_OFFSET 4"
| "i2c_flag_value I2C_FLAG_DEFSMB = I2C_REGIDX_BIT I2C_STAT1_REG_OFFSET 5"
| "i2c_flag_value I2C_FLAG_HSTSMB = I2C_REGIDX_BIT I2C_STAT1_REG_OFFSET 6"
| "i2c_flag_value I2C_FLAG_DUMODF = I2C_REGIDX_BIT I2C_STAT1_REG_OFFSET 7"

datatype i2c_interrupt =
  I2C_INT_ERR | I2C_INT_EV | I2C_INT_BUF

fun i2c_interrupt_value :: "i2c_interrupt \<Rightarrow> reg" where
  "i2c_interrupt_value I2C_INT_ERR = I2C_REGIDX_BIT I2C_CTL1_REG_OFFSET 8"
| "i2c_interrupt_value I2C_INT_EV = I2C_REGIDX_BIT I2C_CTL1_REG_OFFSET 9"
| "i2c_interrupt_value I2C_INT_BUF = I2C_REGIDX_BIT I2C_CTL1_REG_OFFSET 10"

datatype i2c_interrupt_flag =
  I2C_INT_FLAG_SBSEND | I2C_INT_FLAG_ADDSEND | I2C_INT_FLAG_BTC | I2C_INT_FLAG_ADD10SEND
  | I2C_INT_FLAG_STPDET | I2C_INT_FLAG_RBNE | I2C_INT_FLAG_TBE | I2C_INT_FLAG_BERR
  | I2C_INT_FLAG_LOSTARB | I2C_INT_FLAG_AERR | I2C_INT_FLAG_OUERR | I2C_INT_FLAG_PECERR
  | I2C_INT_FLAG_SMBTO | I2C_INT_FLAG_SMBALT

fun i2c_interrupt_flag_value :: "i2c_interrupt_flag \<Rightarrow> reg" where
  "i2c_interrupt_flag_value I2C_INT_FLAG_SBSEND = I2C_REGIDX_BIT2 I2C_CTL1_REG_OFFSET 9 I2C_STAT0_REG_OFFSET 0"
| "i2c_interrupt_flag_value I2C_INT_FLAG_ADDSEND = I2C_REGIDX_BIT2 I2C_CTL1_REG_OFFSET 9 I2C_STAT0_REG_OFFSET 1"
| "i2c_interrupt_flag_value I2C_INT_FLAG_BTC = I2C_REGIDX_BIT2 I2C_CTL1_REG_OFFSET 9 I2C_STAT0_REG_OFFSET 2"
| "i2c_interrupt_flag_value I2C_INT_FLAG_ADD10SEND = I2C_REGIDX_BIT2 I2C_CTL1_REG_OFFSET 9 I2C_STAT0_REG_OFFSET 3"
| "i2c_interrupt_flag_value I2C_INT_FLAG_STPDET = I2C_REGIDX_BIT2 I2C_CTL1_REG_OFFSET 9 I2C_STAT0_REG_OFFSET 4"
| "i2c_interrupt_flag_value I2C_INT_FLAG_RBNE = I2C_REGIDX_BIT2 I2C_CTL1_REG_OFFSET 9 I2C_STAT0_REG_OFFSET 6"
| "i2c_interrupt_flag_value I2C_INT_FLAG_TBE = I2C_REGIDX_BIT2 I2C_CTL1_REG_OFFSET 9 I2C_STAT0_REG_OFFSET 7"
| "i2c_interrupt_flag_value I2C_INT_FLAG_BERR = I2C_REGIDX_BIT2 I2C_CTL1_REG_OFFSET 8 I2C_STAT0_REG_OFFSET 8"
| "i2c_interrupt_flag_value I2C_INT_FLAG_LOSTARB = I2C_REGIDX_BIT2 I2C_CTL1_REG_OFFSET 8 I2C_STAT0_REG_OFFSET 9"
| "i2c_interrupt_flag_value I2C_INT_FLAG_AERR = I2C_REGIDX_BIT2 I2C_CTL1_REG_OFFSET 8 I2C_STAT0_REG_OFFSET 10"
| "i2c_interrupt_flag_value I2C_INT_FLAG_OUERR = I2C_REGIDX_BIT2 I2C_CTL1_REG_OFFSET 8 I2C_STAT0_REG_OFFSET 11"
| "i2c_interrupt_flag_value I2C_INT_FLAG_PECERR = I2C_REGIDX_BIT2 I2C_CTL1_REG_OFFSET 8 I2C_STAT0_REG_OFFSET 12"
| "i2c_interrupt_flag_value I2C_INT_FLAG_SMBTO = I2C_REGIDX_BIT2 I2C_CTL1_REG_OFFSET 8 I2C_STAT0_REG_OFFSET 14"
| "i2c_interrupt_flag_value I2C_INT_FLAG_SMBALT = I2C_REGIDX_BIT2 I2C_CTL1_REG_OFFSET 8 I2C_STAT0_REG_OFFSET 15"

section \<open>Operations\<close>

definition i2c_deinit :: "'h bus \<Rightarrow> reg \<Rightarrow> 'h \<Rightarrow> 'h" where
  "i2c_deinit B i2c_periph h =
     (if i2c_periph = I2C0
      then reset_pulse B RCU_I2C0RST h
      else if i2c_periph = I2C1
      then reset_pulse B RCU_I2C1RST h
      else h)"

definition i2c_mode_addr_config :: "'h bus \<Rightarrow> reg \<Rightarrow> reg \<Rightarrow> reg \<Rightarrow> reg \<Rightarrow> 'h \<Rightarrow> 'h" where
  "i2c_mode_addr_config B i2c_periph mode addformat addr h =
     (let (ctl, h) = rd32 B (I2C_CTL0 i2c_periph) h;
          ctl = ctl AND NOT I2C_CTL0_SMBEN;
          ctl = ctl OR mode;
          h = wr32 B (I2C_CTL0 i2c_periph) ctl h;
          addr = addr AND I2C_ADDRESS_MASK
      in wr32 B (I2C_SADDR0 i2c_periph) (addformat OR addr) h)"

definition i2c_smbus_type_config :: "'h bus \<Rightarrow> reg \<Rightarrow> reg \<Rightarrow> 'h \<Rightarrow> 'h" where
  "i2c_smbus_type_config B i2c_periph type h =
     (if type = I2C_SMBUS_HOST then set_bits B (I2C_CTL0 i2c_periph) I2C_CTL0_SMBSEL h
      else clear_bits B (I2C_CTL0 i2c_periph) I2C_CTL0_SMBSEL h)"

definition i2c_ack_config :: "'h bus \<Rightarrow> reg \<Rightarrow> reg \<Rightarrow> 'h \<Rightarrow> 'h" where
  "i2c_ack_config B i2c_periph ack h =
     (if ack = I2C_ACK_ENABLE then set_bits B (I2C_CTL0 i2c_periph) I2C_CTL0_ACKEN h
      else clear_bits B (I2C_CTL0 i2c_periph) I2C_CTL0_ACKEN h)"

definition i2c_ackpos_config :: "'h bus \<Rightarrow> reg \<Rightarrow> reg \<Rightarrow> 'h \<Rightarrow> 'h" where
  "i2c_ackpos_config B i2c_periph ps h =
     (if ps = I2C_ACKPOS_NEXT then set_bits B (I2C_CTL0 i2c_periph) I2C_CTL0_POAP h
      else clear_bits B (I2C_CTL0 i2c_periph) I2C_CTL0_POAP h)"

definition i2c_master_addressing :: "'h bus \<Rightarrow> reg \<Rightarrow> reg \<Rightarrow> reg \<Rightarrow> 'h \<Rightarrow> 'h" where
  "i2c_master_addressing B i2c_periph addr trandirection h =
     (let addr = (if trandirection = I2C_TRANSMITTER then addr AND I2C_TRANSMITTER
                  else addr OR I2C_RECEIVER)
      in wr32 B (I2C_DATA i2c_periph) addr h)"

definition i2c_dualaddr_enable :: "'h bus \<Rightarrow> reg \<Rightarrow> reg \<Rightarrow> 'h \<Rightarrow> 'h" where
  "i2c_dualaddr_enable B i2c_periph dualaddr h =
     (let dualaddr = dualaddr AND I2C_ADDRESS2_MASK
      in wr32 B (I2C_SADDR1 i2c_periph) (I2C_SADDR1_DUADEN OR dualaddr) h)"

definition i2c_dualaddr_disable :: "'h bus \<Rightarrow> reg \<Rightarrow> 'h \<Rightarrow> 'h" where
  "i2c_dualaddr_disable B i2c_periph h = clear_bits B (I2C_SADDR1 i2c_periph) I2C_SADDR1_DUADEN h"

definition i2c_enable :: "'h bus \<Rightarrow> reg \<Rightarrow> 'h \<Rightarrow> 'h" where
  "i2c_enable B i2c_periph h = set_bits B (I2C_CTL0 i2c_periph) I2C_CTL0_I2CEN h"

definition i2c_disable :: "'h bus \<Rightarrow> reg \<Rightarrow> 'h \<Rightarrow> 'h" where
  "i2c_disable B i2c_periph h = clear_bits B (I2C_CTL0 i2c_periph) I2C_CTL0_I2CEN h"

definition i2c_start_on_bus :: "'h bus \<Rightarrow> reg \<Rightarrow> 'h \<Rightarrow> 'h" where
  "i2c_start_on_bus B i2c_periph h = set_bits B (I2C_CTL0 i2c_periph) I2C_CTL0_START h"

definition i2c_stop_on_bus :: "'h bus \<Rightarrow> reg \<Rightarrow> 'h \<Rightarrow> 'h" where
  "i2c_stop_on_bus B i2c_periph h = set_bits B (I2C_CTL0 i2c_periph) I2C_CTL0_STOP h"

definition i2c_data_transmit :: "'h bus \<Rightarrow> reg \<Rightarrow> 8 word \<Rightarrow> 'h \<Rightarrow> 'h" where
  "i2c_data_transmit B i2c_periph dat h = wr32 B (I2C_DATA i2c_periph) (DATA_TRANS (ucast dat)) h"

definition i2c_data_receive :: "'h bus \<Rightarrow> reg \<Rightarrow> 'h \<Rightarrow> 8 word \<times> 'h" where
  "i2c_data_receive B i2c_periph h =
     (let (v, h) = rd32 B (I2C_DATA i2c_periph) h
      in (ucast (DATA_RECV v), h))"

definition i2c_dma_enable :: "'h bus \<Rightarrow> reg \<Rightarrow> reg \<Rightarrow> 'h \<Rightarrow> 'h" where
  "i2c_dma_enable B i2c_periph dmastate h =
     (let (ctl, h) = rd32 B (I2C_CTL1 i2c_periph) h;
          ctl = ctl AND NOT I2C_CTL1_DMAON;
          ctl = ctl OR dmastate
      in wr32 B (I2C_CTL1 i2c_periph) ctl h)"

definition i2c_dma_last_transfer_config :: "'h bus \<Rightarrow> reg \<Rightarrow> reg \<Rightarrow> 'h \<Rightarrow> 'h" where
  "i2c_dma_last_transfer_config B i2c_periph dmalast h =
     (let (ctl, h) = rd32 B (I2C_CTL1 i2c_periph) h;
          ctl = ctl AND NOT I2C_CTL1_DMALST;
          ctl = ctl OR dmalast
      in wr32 B (I2C_CTL1 i2c_periph) ctl h)"

definition i2c_stretch_scl_low_config :: "'h bus \<Rightarrow> reg \<Rightarrow> reg \<Rightarrow> 'h \<Rightarrow> 'h" where
  "i2c_stretch_scl_low_config B i2c_periph stretchpara h =
     (let (ctl, h) = rd32 B (I2C_CTL0 i2c_periph) h;
          ctl = ctl AND NOT I2C_CTL0_SS;
          ctl = ctl OR stretchpara
      in wr32 B (I2C_CTL0 i2c_periph) ctl h)"

definition i2c_slave_response_to_gcall_config :: "'h bus \<Rightarrow> reg \<Rightarrow> reg \<Rightarrow> 'h \<Rightarrow> 'h" where
  "i2c_slave_response_to_gcall_config B i2c_periph gcallpara h =
     (let (ctl, h) = rd32 B (I2C_CTL0 i2c_periph) h;
          ctl = ctl AND NOT I2C_CTL0_GCEN;
          ctl = ctl OR gcallpara
      in wr32 B (I2C_CTL0 i2c_periph) ctl h)"

definition i2c_software_reset_config :: "'h bus \<Rightarrow> reg \<Rightarrow> reg \<Rightarrow> 'h \<Rightarrow> 'h" where
  "i2c_software_reset_config B i2c_periph sreset h =
     (let (ctl, h) = rd32 B (I2C_CTL0 i2c_periph) h;
          ctl = ctl AND NOT I2C_CTL0_SRESET;
          ctl = ctl OR sreset
      in wr32 B (I2C_CTL0 i2c_periph) ctl h)"

definition i2c_pec_enable :: "'h bus \<Rightarrow> reg \<Rightarrow> reg \<Rightarrow> 'h \<Rightarrow> 'h" where
  "i2c_pec_enable B i2c_periph pecstate h =
     (let (ctl, h) = rd32 B (I2C_CTL0 i2c_periph) h;
          ctl = ctl AND NOT I2C_CTL0_PECEN;
          ctl = ctl OR pecstate
      in wr32 B (I2C_CTL0 i2c_periph) ctl h)"

definition i2c_pec_transfer_enable :: "'h bus \<Rightarrow> reg \<Rightarrow> reg \<Rightarrow> 'h \<Rightarrow> 'h" where
  "i2c_pec_transfer_enable B i2c_periph pecpara h =
     (let (ctl, h) = rd32 B (I2C_CTL0 i2c_periph) h;
          ctl = ctl AND NOT I2C_CTL0_PECTRANS;
          ctl = ctl OR pecpara
      in wr32 B (I2C_CTL0 i2c_periph) ctl h)"

definition i2c_pec_value_get :: "'h bus \<Rightarrow> reg \<Rightarrow> 'h \<Rightarrow> 8 word \<times> 'h" where
  "i2c_pec_value_get B i2c_periph h =
     (let (v, h) = rd32 B (I2C_STAT1 i2c_periph) h
      in (ucast (drop_bit (unat STAT1_PECV_OFFSET) (v AND I2C_STAT1_PECV)), h))"

definition i2c_smbus_issue_alert :: "'h bus \<Rightarrow> reg \<Rightarrow> reg \<Rightarrow> 'h \<Rightarrow> 'h" where
  "i2c_smbus_issue_alert B i2c_periph smbuspara h =
     (let (ctl, h) = rd32 B (I2C_CTL0 i2c_periph) h;
          ctl = ctl AND NOT I2C_CTL0_SALT;
          ctl = ctl OR smbuspara
      in wr32 B (I2C_CTL0 i2c_periph) ctl h)"

definition i2c_smbus_arp_enable :: "'h bus \<Rightarrow> reg \<Rightarrow> reg \<Rightarrow> 'h \<Rightarrow> 'h" where
  "i2c_smbus_arp_enable B i2c_periph arpstate h =
     (let (ctl, h) = rd32 B (I2C_CTL0 i2c_periph) h;
          ctl = ctl AND NOT I2C_CTL0_ARPEN;
          ctl = ctl OR arpstate
      in wr32 B (I2C_CTL0 i2c_periph) ctl h)"

definition i2c_flag_get :: "'h bus \<Rightarrow> reg \<Rightarrow> i2c_flag \<Rightarrow> 'h \<Rightarrow> bool \<times> 'h" where
  "i2c_flag_get B i2c_periph flg h =
     any_set B (I2C_REG_VAL i2c_periph (i2c_flag_value flg)) (BIT (unat (I2C_BIT_POS (i2c_flag_value flg)))) h"

definition i2c_interrupt_enable :: "'h bus \<Rightarrow> reg \<Rightarrow> i2c_interrupt \<Rightarrow> 'h \<Rightarrow> 'h" where
  "i2c_interrupt_enable B i2c_periph interrupt h =
     set_bits B (I2C_REG_VAL i2c_periph (i2c_interrupt_value interrupt)) (BIT (unat (I2C_BIT_POS (i2c_interrupt_value interrupt)))) h"

definition i2c_interrupt_disable :: "'h bus \<Rightarrow> reg \<Rightarrow> i2c_interrupt \<Rightarrow> 'h \<Rightarrow> 'h" where
  "i2c_interrupt_disable B i2c_periph interrupt h =
     clear_bits B (I2C_REG_VAL i2c_periph (i2c_interrupt_value interrupt)) (BIT (unat (I2C_BIT_POS (i2c_interrupt_value interrupt)))) h"

definition i2c_interrupt_flag_get :: "'h bus \<Rightarrow> reg \<Rightarrow> i2c_interrupt_flag \<Rightarrow> 'h \<Rightarrow> bool \<times> 'h" where
  "i2c_interrupt_flag_get B i2c_periph int_flag h =
     (let (v, h) = rd32 B (I2C_CTL1 i2c_periph) h;
          bufie = v AND I2C_CTL1_BUFIE;
          (v2, h) = rd32 B (I2C_REG_VAL i2c_periph (i2c_interrupt_flag_value int_flag)) h;
          intenable = v2 AND BIT (unat (I2C_BIT_POS (i2c_interrupt_flag_value int_flag)));
          (v3, h) = rd32 B (I2C_REG_VAL2 i2c_periph (i2c_interrupt_flag_value int_flag)) h;
          flagstatus = v3 AND BIT (unat (I2C_BIT_POS2 (i2c_interrupt_flag_value int_flag)));
          intenable =
            (if int_flag = I2C_INT_FLAG_RBNE \<or> int_flag = I2C_INT_FLAG_TBE
             then (if intenable \<noteq> 0 \<and> bufie \<noteq> 0 then (1 :: reg)
                   else (0 :: reg))
             else intenable)
      in (flagstatus \<noteq> 0 \<and> intenable \<noteq> 0, h))"

text \<open>The three modes. Products and divisions are on 32 bits; a speed whose product with the factor
  wraps to 0 is a division by zero.\<close>

definition i2c_duty :: "'h bus \<Rightarrow> reg \<Rightarrow> reg \<Rightarrow> reg \<Rightarrow> reg \<Rightarrow> 'h \<Rightarrow> (reg \<times> 'h) outcome" where
  "i2c_duty B i2c_periph pclk1 clkspeed dutycyc h =
     (if dutycyc = I2C_DTCY_2
      then bindo (udivide pclk1 (clkspeed * 3)) (\<lambda>clkc.
             Ret (clkc, clear_bits B (I2C_CKCFG i2c_periph) I2C_CKCFG_DTCY h))
      else bindo (udivide pclk1 (clkspeed * 25)) (\<lambda>clkc.
             Ret (clkc, set_bits B (I2C_CKCFG i2c_periph) I2C_CKCFG_DTCY h)))"

definition i2c_standard :: "'h bus \<Rightarrow> reg \<Rightarrow> reg \<Rightarrow> reg \<Rightarrow> 'h \<Rightarrow> 'h outcome" where
  "i2c_standard B i2c_periph pclk1 clkspeed h =
     (let risetime = pclk1 div 1000000 + 1;
          h = wr32 B (I2C_RT i2c_periph)
                (if I2CCLK_MAX \<le> risetime then I2CCLK_MAX
                 else if risetime \<le> I2CCLK_MIN then I2CCLK_MIN else risetime) h
      in bindo (udivide pclk1 (clkspeed * 2)) (\<lambda>clkc.
         let clkc = (if clkc < 4 then 4 else clkc)
         in Ret (set_bits B (I2C_CKCFG i2c_periph) (I2C_CKCFG_CLKC AND clkc) h)))"

definition i2c_fast :: "'h bus \<Rightarrow> reg \<Rightarrow> reg \<Rightarrow> reg \<Rightarrow> reg \<Rightarrow> reg \<Rightarrow> 'h \<Rightarrow> 'h outcome" where
  "i2c_fast B i2c_periph freq pclk1 clkspeed dutycyc h =
     (let h = wr32 B (I2C_RT i2c_periph) ((freq * 300) div 1000 + 1) h
      in bindo (i2c_duty B i2c_periph pclk1 clkspeed dutycyc h) (\<lambda>(clkc, h).
         let clkc = (if clkc AND I2C_CKCFG_CLKC = 0 then clkc OR 1 else clkc);
             h = set_bits B (I2C_CKCFG i2c_periph) I2C_CKCFG_FAST h
         in Ret (set_bits B (I2C_CKCFG i2c_periph) clkc h)))"

definition i2c_fast_plus :: "'h bus \<Rightarrow> reg \<Rightarrow> reg \<Rightarrow> reg \<Rightarrow> reg \<Rightarrow> reg \<Rightarrow> 'h \<Rightarrow> 'h outcome" where
  "i2c_fast_plus B i2c_periph freq pclk1 clkspeed dutycyc h =
     (let h = wr32 B (I2C_RT i2c_periph) ((freq * 120) div 1000 + 1) h
      in bindo (i2c_duty B i2c_periph pclk1 clkspeed dutycyc h) (\<lambda>(clkc, h).
         let h = set_bits B (I2C_CKCFG i2c_periph) I2C_CKCFG_FAST h;
             h = set_bits B (I2C_CKCFG i2c_periph) clkc h
         in Ret (set_bits B (I2C_FMPCFG i2c_periph) I2C_FMPCFG_FMPEN h)))"

definition i2c_clock_config :: "'h bus \<Rightarrow> reg \<Rightarrow> reg \<Rightarrow> reg \<Rightarrow> reg \<Rightarrow> 'h \<Rightarrow> 'h outcome" where
  "i2c_clock_config B xtal i2c_periph clkspeed dutycyc h =
     (let (pclk1, h) = rcu_clock_freq_get B xtal CK_APB1 h;
          freq = pclk1 div 1000000;
          freq = (if I2CCLK_MAX \<le> freq then I2CCLK_MAX else freq);
          (temp, h) = rd32 B (I2C_CTL1 i2c_periph) h;
          temp = temp AND NOT I2C_CTL1_I2CCLK;
          temp = temp OR freq;
          h = wr32 B (I2C_CTL1 i2c_periph) temp h
      in if clkspeed \<le> 100000 then i2c_standard B i2c_periph pclk1 clkspeed h
         else if clkspeed \<le> 400000 then i2c_fast B i2c_periph freq pclk1 clkspeed dutycyc h
         else i2c_fast_plus B i2c_periph freq pclk1 clkspeed dutycyc h)"

text \<open>A read of both status registers clears \<open>ADDSEND\<close>; the values are dropped.\<close>

definition i2c_flag_clear :: "'h bus \<Rightarrow> reg \<Rightarrow> i2c_flag \<Rightarrow> 'h \<Rightarrow> 'h" where
  "i2c_flag_clear B i2c_periph flg h =
     (if flg = I2C_FLAG_ADDSEND
      then (let (_, h) = rd32 B (I2C_STAT0 i2c_periph) h in snd (rd32 B (I2C_STAT1 i2c_periph) h))
      else clear_bits B (I2C_REG_VAL i2c_periph (i2c_flag_value flg)) (BIT (unat (I2C_BIT_POS (i2c_flag_value flg)))) h)"

definition i2c_interrupt_flag_clear :: "'h bus \<Rightarrow> reg \<Rightarrow> i2c_interrupt_flag \<Rightarrow> 'h \<Rightarrow> 'h" where
  "i2c_interrupt_flag_clear B i2c_periph int_flag h =
     (if int_flag = I2C_INT_FLAG_ADDSEND
      then (let (_, h) = rd32 B (I2C_STAT0 i2c_periph) h in snd (rd32 B (I2C_STAT1 i2c_periph) h))
      else clear_bits B (I2C_REG_VAL2 i2c_periph (i2c_interrupt_flag_value int_flag))
             (BIT (unat (I2C_BIT_POS2 (i2c_interrupt_flag_value int_flag)))) h)"

end
