(* ===== verification/Timer.thy ===== *)
theory Timer
  imports Rcu
begin

text \<open>
  \<open>gd32vf103_timer.c\<close>: the timers, with four channels of capture and compare each.
\<close>

section \<open>Registers\<close>

abbreviation (input) TIMER_BASE :: "reg" where "TIMER_BASE \<equiv> APB1_BUS_BASE + 0"
abbreviation (input) TIMER0 :: "reg" where "TIMER0 \<equiv> TIMER_BASE + 0x12c00"
abbreviation (input) TIMER1 :: "reg" where "TIMER1 \<equiv> TIMER_BASE + 0"
abbreviation (input) TIMER2 :: "reg" where "TIMER2 \<equiv> TIMER_BASE + 0x400"
abbreviation (input) TIMER3 :: "reg" where "TIMER3 \<equiv> TIMER_BASE + 0x800"
abbreviation (input) TIMER4 :: "reg" where "TIMER4 \<equiv> TIMER_BASE + 0xc00"
abbreviation (input) TIMER5 :: "reg" where "TIMER5 \<equiv> TIMER_BASE + 0x1000"
abbreviation (input) TIMER6 :: "reg" where "TIMER6 \<equiv> TIMER_BASE + 0x1400"
abbreviation (input) CTL0_CAM :: "reg \<Rightarrow> reg" where "CTL0_CAM regval \<equiv> take_bit 16 (BITS 5 6 AND (push_bit 5 regval))"
abbreviation (input) TIMER_COUNTER_EDGE :: "reg" where "TIMER_COUNTER_EDGE \<equiv> CTL0_CAM 0"
abbreviation (input) TIMER_COUNTER_UP :: "reg" where "TIMER_COUNTER_UP \<equiv> 0"
abbreviation (input) CTL0_CKDIV :: "reg \<Rightarrow> reg" where "CTL0_CKDIV regval \<equiv> take_bit 16 (BITS 8 9 AND (push_bit 8 regval))"
abbreviation (input) TIMER_CKDIV_DIV1 :: "reg" where "TIMER_CKDIV_DIV1 \<equiv> CTL0_CKDIV 0"
abbreviation (input) TIMER_PSC :: "reg \<Rightarrow> 32 word" where "TIMER_PSC timerx \<equiv> timerx + 0x28"
abbreviation (input) TIMER_CTL0 :: "reg \<Rightarrow> 32 word" where "TIMER_CTL0 timerx \<equiv> timerx + 0"
abbreviation (input) TIMER_CTL0_DIR :: "reg" where "TIMER_CTL0_DIR \<equiv> BIT 4"
abbreviation (input) TIMER_CTL0_CAM :: "reg" where "TIMER_CTL0_CAM \<equiv> BITS 5 6"
abbreviation (input) ALIGNEDMODE_MASK :: "reg" where "ALIGNEDMODE_MASK \<equiv> 0x60"
abbreviation (input) COUNTERDIRECTION_MASK :: "reg" where "COUNTERDIRECTION_MASK \<equiv> 0x10"
abbreviation (input) TIMER_CAR :: "reg \<Rightarrow> 32 word" where "TIMER_CAR timerx \<equiv> timerx + 0x2c"
abbreviation (input) TIMER_CTL0_CKDIV :: "reg" where "TIMER_CTL0_CKDIV \<equiv> BITS 8 9"
abbreviation (input) CLOCKDIVISION_MASK :: "reg" where "CLOCKDIVISION_MASK \<equiv> 0x300"
abbreviation (input) TIMER_CREP :: "reg \<Rightarrow> 32 word" where "TIMER_CREP timerx \<equiv> timerx + 0x30"
abbreviation (input) TIMER_SWEVG :: "reg \<Rightarrow> 32 word" where "TIMER_SWEVG timerx \<equiv> timerx + 0x14"
abbreviation (input) TIMER_SWEVG_UPG :: "reg" where "TIMER_SWEVG_UPG \<equiv> BIT 0"
abbreviation (input) TIMER_CTL0_CEN :: "reg" where "TIMER_CTL0_CEN \<equiv> BIT 0"
abbreviation (input) TIMER_CTL0_ARSE :: "reg" where "TIMER_CTL0_ARSE \<equiv> BIT 7"
abbreviation (input) TIMER_CTL0_UPDIS :: "reg" where "TIMER_CTL0_UPDIS \<equiv> BIT 1"
abbreviation (input) TIMER_PSC_RELOAD_NOW :: "reg" where "TIMER_PSC_RELOAD_NOW \<equiv> TIMER_SWEVG_UPG"
abbreviation (input) TIMER_CNT :: "reg \<Rightarrow> 32 word" where "TIMER_CNT timerx \<equiv> timerx + 0x24"
abbreviation (input) TIMER_CTL0_SPM :: "reg" where "TIMER_CTL0_SPM \<equiv> BIT 3"
abbreviation (input) TIMER_SP_MODE_SINGLE :: "reg" where "TIMER_SP_MODE_SINGLE \<equiv> TIMER_CTL0_SPM"
abbreviation (input) TIMER_SP_MODE_REPETITIVE :: "reg" where "TIMER_SP_MODE_REPETITIVE \<equiv> 0"
abbreviation (input) TIMER_CTL0_UPS :: "reg" where "TIMER_CTL0_UPS \<equiv> BIT 2"
abbreviation (input) TIMER_UPDATE_SRC_REGULAR :: "reg" where "TIMER_UPDATE_SRC_REGULAR \<equiv> TIMER_CTL0_UPS"
abbreviation (input) TIMER_UPDATE_SRC_GLOBAL :: "reg" where "TIMER_UPDATE_SRC_GLOBAL \<equiv> 0"
abbreviation (input) TIMER_DMAINTEN :: "reg \<Rightarrow> 32 word" where "TIMER_DMAINTEN timerx \<equiv> timerx + 0xc"
abbreviation (input) TIMER_CTL1_DMAS :: "reg" where "TIMER_CTL1_DMAS \<equiv> BIT 3"
abbreviation (input) TIMER_DMAREQUEST_UPDATEEVENT :: "reg" where "TIMER_DMAREQUEST_UPDATEEVENT \<equiv> TIMER_CTL1_DMAS"
abbreviation (input) TIMER_CTL1 :: "reg \<Rightarrow> 32 word" where "TIMER_CTL1 timerx \<equiv> timerx + 4"
abbreviation (input) TIMER_DMAREQUEST_CHANNELEVENT :: "reg" where "TIMER_DMAREQUEST_CHANNELEVENT \<equiv> 0"
abbreviation (input) TIMER_DMACFG :: "reg \<Rightarrow> 32 word" where "TIMER_DMACFG timerx \<equiv> timerx + 0x48"
abbreviation (input) TIMER_DMACFG_DMATA :: "reg" where "TIMER_DMACFG_DMATA \<equiv> BITS 0 4"
abbreviation (input) TIMER_DMACFG_DMATC :: "reg" where "TIMER_DMACFG_DMATC \<equiv> BITS 8 12"
abbreviation (input) TIMER_ROS_STATE_DISABLE :: "reg" where "TIMER_ROS_STATE_DISABLE \<equiv> 0"
abbreviation (input) TIMER_IOS_STATE_DISABLE :: "reg" where "TIMER_IOS_STATE_DISABLE \<equiv> 0"
abbreviation (input) TIMER_BREAK_POLARITY_LOW :: "reg" where "TIMER_BREAK_POLARITY_LOW \<equiv> 0"
abbreviation (input) TIMER_OUTAUTO_DISABLE :: "reg" where "TIMER_OUTAUTO_DISABLE \<equiv> 0"
abbreviation (input) CCHP_PROT :: "reg \<Rightarrow> reg" where "CCHP_PROT regval \<equiv> take_bit 16 (BITS 8 9 AND (push_bit 8 regval))"
abbreviation (input) TIMER_CCHP_PROT_OFF :: "reg" where "TIMER_CCHP_PROT_OFF \<equiv> CCHP_PROT 0"
abbreviation (input) TIMER_BREAK_DISABLE :: "reg" where "TIMER_BREAK_DISABLE \<equiv> 0"
abbreviation (input) TIMER_CCHP :: "reg \<Rightarrow> 32 word" where "TIMER_CCHP timerx \<equiv> timerx + 0x44"
abbreviation (input) TIMER_CCHP_BRKEN :: "reg" where "TIMER_CCHP_BRKEN \<equiv> BIT 12"
abbreviation (input) TIMER_CCHP_OAEN :: "reg" where "TIMER_CCHP_OAEN \<equiv> BIT 14"
abbreviation (input) TIMER_CCHP_POEN :: "reg" where "TIMER_CCHP_POEN \<equiv> BIT 15"
abbreviation (input) TIMER_CTL1_CCSE :: "reg" where "TIMER_CTL1_CCSE \<equiv> BIT 0"
abbreviation (input) TIMER_UPDATECTL_CCU :: "reg" where "TIMER_UPDATECTL_CCU \<equiv> 0"
abbreviation (input) TIMER_CTL1_CCUC :: "reg" where "TIMER_CTL1_CCUC \<equiv> BIT 2"
abbreviation (input) TIMER_UPDATECTL_CCUTRI :: "reg" where "TIMER_UPDATECTL_CCUTRI \<equiv> TIMER_CTL1_CCUC"
abbreviation (input) TIMER_CCX_DISABLE :: "reg" where "TIMER_CCX_DISABLE \<equiv> 0"
abbreviation (input) TIMER_CCXN_DISABLE :: "reg" where "TIMER_CCXN_DISABLE \<equiv> 0"
abbreviation (input) TIMER_OC_POLARITY_HIGH :: "reg" where "TIMER_OC_POLARITY_HIGH \<equiv> 0"
abbreviation (input) TIMER_OCN_POLARITY_HIGH :: "reg" where "TIMER_OCN_POLARITY_HIGH \<equiv> 0"
abbreviation (input) TIMER_OC_IDLE_STATE_LOW :: "reg" where "TIMER_OC_IDLE_STATE_LOW \<equiv> 0"
abbreviation (input) TIMER_OCN_IDLE_STATE_LOW :: "reg" where "TIMER_OCN_IDLE_STATE_LOW \<equiv> 0"
abbreviation (input) TIMER_CH_0 :: "reg" where "TIMER_CH_0 \<equiv> 0"
abbreviation (input) TIMER_CHCTL2 :: "reg \<Rightarrow> 32 word" where "TIMER_CHCTL2 timerx \<equiv> timerx + 0x20"
abbreviation (input) TIMER_CHCTL2_CH0EN :: "reg" where "TIMER_CHCTL2_CH0EN \<equiv> BIT 0"
abbreviation (input) TIMER_CHCTL2_CH0P :: "reg" where "TIMER_CHCTL2_CH0P \<equiv> BIT 1"
abbreviation (input) TIMER_CHCTL2_CH0NEN :: "reg" where "TIMER_CHCTL2_CH0NEN \<equiv> BIT 2"
abbreviation (input) TIMER_CHCTL2_CH0NP :: "reg" where "TIMER_CHCTL2_CH0NP \<equiv> BIT 3"
abbreviation (input) TIMER_CTL1_ISO0 :: "reg" where "TIMER_CTL1_ISO0 \<equiv> BIT 8"
abbreviation (input) TIMER_CTL1_ISO0N :: "reg" where "TIMER_CTL1_ISO0N \<equiv> BIT 9"
abbreviation (input) TIMER_CHCTL0 :: "reg \<Rightarrow> 32 word" where "TIMER_CHCTL0 timerx \<equiv> timerx + 0x18"
abbreviation (input) TIMER_CHCTL0_CH0MS :: "reg" where "TIMER_CHCTL0_CH0MS \<equiv> BITS 0 1"
abbreviation (input) TIMER_CH_1 :: "reg" where "TIMER_CH_1 \<equiv> 1"
abbreviation (input) TIMER_CHCTL2_CH1EN :: "reg" where "TIMER_CHCTL2_CH1EN \<equiv> BIT 4"
abbreviation (input) TIMER_CHCTL2_CH1P :: "reg" where "TIMER_CHCTL2_CH1P \<equiv> BIT 5"
abbreviation (input) TIMER_CHCTL2_CH1NEN :: "reg" where "TIMER_CHCTL2_CH1NEN \<equiv> BIT 6"
abbreviation (input) TIMER_CHCTL2_CH1NP :: "reg" where "TIMER_CHCTL2_CH1NP \<equiv> BIT 7"
abbreviation (input) TIMER_CTL1_ISO1 :: "reg" where "TIMER_CTL1_ISO1 \<equiv> BIT 10"
abbreviation (input) TIMER_CTL1_ISO1N :: "reg" where "TIMER_CTL1_ISO1N \<equiv> BIT 11"
abbreviation (input) TIMER_CHCTL0_CH1MS :: "reg" where "TIMER_CHCTL0_CH1MS \<equiv> BITS 8 9"
abbreviation (input) TIMER_CH_2 :: "reg" where "TIMER_CH_2 \<equiv> 2"
abbreviation (input) TIMER_CHCTL2_CH2EN :: "reg" where "TIMER_CHCTL2_CH2EN \<equiv> BIT 8"
abbreviation (input) TIMER_CHCTL2_CH2P :: "reg" where "TIMER_CHCTL2_CH2P \<equiv> BIT 9"
abbreviation (input) TIMER_CHCTL2_CH2NEN :: "reg" where "TIMER_CHCTL2_CH2NEN \<equiv> BIT 10"
abbreviation (input) TIMER_CHCTL2_CH2NP :: "reg" where "TIMER_CHCTL2_CH2NP \<equiv> BIT 11"
abbreviation (input) TIMER_CTL1_ISO2 :: "reg" where "TIMER_CTL1_ISO2 \<equiv> BIT 12"
abbreviation (input) TIMER_CTL1_ISO2N :: "reg" where "TIMER_CTL1_ISO2N \<equiv> BIT 13"
abbreviation (input) TIMER_CHCTL1 :: "reg \<Rightarrow> 32 word" where "TIMER_CHCTL1 timerx \<equiv> timerx + 0x1c"
abbreviation (input) TIMER_CHCTL1_CH2MS :: "reg" where "TIMER_CHCTL1_CH2MS \<equiv> BITS 0 1"
abbreviation (input) TIMER_CH_3 :: "reg" where "TIMER_CH_3 \<equiv> 3"
abbreviation (input) TIMER_CHCTL2_CH3EN :: "reg" where "TIMER_CHCTL2_CH3EN \<equiv> BIT 12"
abbreviation (input) TIMER_CHCTL2_CH3P :: "reg" where "TIMER_CHCTL2_CH3P \<equiv> BIT 13"
abbreviation (input) TIMER_CTL1_ISO3 :: "reg" where "TIMER_CTL1_ISO3 \<equiv> BIT 14"
abbreviation (input) TIMER_CHCTL1_CH3MS :: "reg" where "TIMER_CHCTL1_CH3MS \<equiv> BITS 8 9"
abbreviation (input) TIMER_CHCTL0_CH0COMCTL :: "reg" where "TIMER_CHCTL0_CH0COMCTL \<equiv> BITS 4 6"
abbreviation (input) TIMER_CHCTL0_CH1COMCTL :: "reg" where "TIMER_CHCTL0_CH1COMCTL \<equiv> BITS 12 14"
abbreviation (input) TIMER_CHCTL1_CH2COMCTL :: "reg" where "TIMER_CHCTL1_CH2COMCTL \<equiv> BITS 4 6"
abbreviation (input) TIMER_CHCTL1_CH3COMCTL :: "reg" where "TIMER_CHCTL1_CH3COMCTL \<equiv> BITS 12 14"
abbreviation (input) TIMER_CH0CV :: "reg \<Rightarrow> 32 word" where "TIMER_CH0CV timerx \<equiv> timerx + 0x34"
abbreviation (input) TIMER_CH1CV :: "reg \<Rightarrow> 32 word" where "TIMER_CH1CV timerx \<equiv> timerx + 0x38"
abbreviation (input) TIMER_CH2CV :: "reg \<Rightarrow> 32 word" where "TIMER_CH2CV timerx \<equiv> timerx + 0x3c"
abbreviation (input) TIMER_CH3CV :: "reg \<Rightarrow> 32 word" where "TIMER_CH3CV timerx \<equiv> timerx + 0x40"
abbreviation (input) TIMER_CHCTL0_CH0COMSEN :: "reg" where "TIMER_CHCTL0_CH0COMSEN \<equiv> BIT 3"
abbreviation (input) TIMER_CHCTL0_CH1COMSEN :: "reg" where "TIMER_CHCTL0_CH1COMSEN \<equiv> BIT 11"
abbreviation (input) TIMER_CHCTL1_CH2COMSEN :: "reg" where "TIMER_CHCTL1_CH2COMSEN \<equiv> BIT 3"
abbreviation (input) TIMER_CHCTL1_CH3COMSEN :: "reg" where "TIMER_CHCTL1_CH3COMSEN \<equiv> BIT 11"
abbreviation (input) TIMER_CHCTL0_CH0COMFEN :: "reg" where "TIMER_CHCTL0_CH0COMFEN \<equiv> BIT 2"
abbreviation (input) TIMER_CHCTL0_CH1COMFEN :: "reg" where "TIMER_CHCTL0_CH1COMFEN \<equiv> BIT 10"
abbreviation (input) TIMER_CHCTL1_CH2COMFEN :: "reg" where "TIMER_CHCTL1_CH2COMFEN \<equiv> BIT 2"
abbreviation (input) TIMER_CHCTL1_CH3COMFEN :: "reg" where "TIMER_CHCTL1_CH3COMFEN \<equiv> BIT 10"
abbreviation (input) TIMER_CHCTL0_CH0COMCEN :: "reg" where "TIMER_CHCTL0_CH0COMCEN \<equiv> BIT 7"
abbreviation (input) TIMER_CHCTL0_CH1COMCEN :: "reg" where "TIMER_CHCTL0_CH1COMCEN \<equiv> BIT 15"
abbreviation (input) TIMER_CHCTL1_CH2COMCEN :: "reg" where "TIMER_CHCTL1_CH2COMCEN \<equiv> BIT 7"
abbreviation (input) TIMER_CHCTL1_CH3COMCEN :: "reg" where "TIMER_CHCTL1_CH3COMCEN \<equiv> BIT 15"
abbreviation (input) TIMER_IC_POLARITY_RISING :: "reg" where "TIMER_IC_POLARITY_RISING \<equiv> 0"
abbreviation (input) TIMER_IC_SELECTION_DIRECTTI :: "reg" where "TIMER_IC_SELECTION_DIRECTTI \<equiv> 1"
abbreviation (input) TIMER_IC_PSC_DIV1 :: "reg" where "TIMER_IC_PSC_DIV1 \<equiv> 0"
abbreviation (input) TIMER_CHCTL0_CH0CAPFLT :: "reg" where "TIMER_CHCTL0_CH0CAPFLT \<equiv> BITS 4 7"
abbreviation (input) TIMER_CHCTL0_CH1CAPFLT :: "reg" where "TIMER_CHCTL0_CH1CAPFLT \<equiv> BITS 12 15"
abbreviation (input) TIMER_CHCTL1_CH2CAPFLT :: "reg" where "TIMER_CHCTL1_CH2CAPFLT \<equiv> BITS 4 7"
abbreviation (input) TIMER_CHCTL1_CH3CAPFLT :: "reg" where "TIMER_CHCTL1_CH3CAPFLT \<equiv> BITS 12 15"
abbreviation (input) TIMER_CHCTL0_CH0CAPPSC :: "reg" where "TIMER_CHCTL0_CH0CAPPSC \<equiv> BITS 2 3"
abbreviation (input) TIMER_CHCTL0_CH1CAPPSC :: "reg" where "TIMER_CHCTL0_CH1CAPPSC \<equiv> BITS 10 11"
abbreviation (input) TIMER_CHCTL1_CH2CAPPSC :: "reg" where "TIMER_CHCTL1_CH2CAPPSC \<equiv> BITS 2 3"
abbreviation (input) TIMER_CHCTL1_CH3CAPPSC :: "reg" where "TIMER_CHCTL1_CH3CAPPSC \<equiv> BITS 10 11"
abbreviation (input) TIMER_IC_POLARITY_FALLING :: "reg" where "TIMER_IC_POLARITY_FALLING \<equiv> 2"
abbreviation (input) TIMER_IC_SELECTION_INDIRECTTI :: "reg" where "TIMER_IC_SELECTION_INDIRECTTI \<equiv> 2"
abbreviation (input) TIMER_CTL1_TI0S :: "reg" where "TIMER_CTL1_TI0S \<equiv> BIT 7"
abbreviation (input) TIMER_HALLINTERFACE_ENABLE :: "reg" where "TIMER_HALLINTERFACE_ENABLE \<equiv> TIMER_CTL1_TI0S"
abbreviation (input) TIMER_HALLINTERFACE_DISABLE :: "reg" where "TIMER_HALLINTERFACE_DISABLE \<equiv> 0"
abbreviation (input) TIMER_SMCFG :: "reg \<Rightarrow> 32 word" where "TIMER_SMCFG timerx \<equiv> timerx + 8"
abbreviation (input) TIMER_SMCFG_TRGS :: "reg" where "TIMER_SMCFG_TRGS \<equiv> BITS 4 6"
abbreviation (input) TIMER_CTL1_MMC :: "reg" where "TIMER_CTL1_MMC \<equiv> BITS 4 6"
abbreviation (input) TIMER_SMCFG_SMC :: "reg" where "TIMER_SMCFG_SMC \<equiv> BITS 0 2"
abbreviation (input) TIMER_SMCFG_MSM :: "reg" where "TIMER_SMCFG_MSM \<equiv> BIT 7"
abbreviation (input) TIMER_MASTER_SLAVE_MODE_ENABLE :: "reg" where "TIMER_MASTER_SLAVE_MODE_ENABLE \<equiv> TIMER_SMCFG_MSM"
abbreviation (input) TIMER_MASTER_SLAVE_MODE_DISABLE :: "reg" where "TIMER_MASTER_SLAVE_MODE_DISABLE \<equiv> 0"
abbreviation (input) TIMER_SMCFG_ETP :: "reg" where "TIMER_SMCFG_ETP \<equiv> BIT 15"
abbreviation (input) TIMER_SMCFG_ETPSC :: "reg" where "TIMER_SMCFG_ETPSC \<equiv> BITS 12 13"
abbreviation (input) TIMER_SMCFG_ETFC :: "reg" where "TIMER_SMCFG_ETFC \<equiv> BITS 8 11"
abbreviation (input) SMCFG_SMC :: "reg \<Rightarrow> reg" where "SMCFG_SMC regval \<equiv> BITS 0 2 AND (push_bit 0 regval)"
abbreviation (input) TIMER_SLAVE_MODE_EXTERNAL0 :: "reg" where "TIMER_SLAVE_MODE_EXTERNAL0 \<equiv> SMCFG_SMC 7"
abbreviation (input) SMCFG_TRGSEL :: "reg \<Rightarrow> reg" where "SMCFG_TRGSEL regval \<equiv> BITS 4 6 AND (push_bit 4 regval)"
abbreviation (input) TIMER_SMCFG_TRGSEL_CI1FE1 :: "reg" where "TIMER_SMCFG_TRGSEL_CI1FE1 \<equiv> SMCFG_TRGSEL 6"
abbreviation (input) TIMER_SMCFG_TRGSEL_ETIFP :: "reg" where "TIMER_SMCFG_TRGSEL_ETIFP \<equiv> SMCFG_TRGSEL 7"
abbreviation (input) TIMER_SMCFG_SMC1 :: "reg" where "TIMER_SMCFG_SMC1 \<equiv> BIT 14"
abbreviation (input) TIMER_INTF :: "reg \<Rightarrow> 32 word" where "TIMER_INTF timerx \<equiv> timerx + 0x10"

section \<open>Types\<close>

record timer_parameter =
  timer_prescaler :: "16 word"
  timer_alignedmode :: "16 word"
  timer_counterdirection :: "16 word"
  timer_period :: "reg"
  timer_clockdivision :: "16 word"
  timer_repetitioncounter :: "8 word"

record timer_break_parameter =
  break_runoffstate :: "16 word"
  break_ideloffstate :: "16 word"
  break_deadtime :: "16 word"
  break_breakpolarity :: "16 word"
  break_outputautostate :: "16 word"
  break_protectmode :: "16 word"
  break_breakstate :: "16 word"

record timer_oc_parameter =
  oc_outputstate :: "16 word"
  oc_outputnstate :: "16 word"
  oc_ocpolarity :: "16 word"
  oc_ocnpolarity :: "16 word"
  oc_ocidlestate :: "16 word"
  oc_ocnidlestate :: "16 word"

record timer_ic_parameter =
  ic_icpolarity :: "16 word"
  ic_icselection :: "16 word"
  ic_icprescaler :: "16 word"
  ic_icfilter :: "16 word"

section \<open>Operations\<close>

definition timer_deinit :: "'h bus \<Rightarrow> reg \<Rightarrow> 'h \<Rightarrow> 'h" where
  "timer_deinit B timer_periph h =
     (if timer_periph = TIMER0
      then reset_pulse B RCU_TIMER0RST h
      else if timer_periph = TIMER1
      then reset_pulse B RCU_TIMER1RST h
      else if timer_periph = TIMER2
      then reset_pulse B RCU_TIMER2RST h
      else if timer_periph = TIMER3
      then reset_pulse B RCU_TIMER3RST h
      else if timer_periph = TIMER4
      then reset_pulse B RCU_TIMER4RST h
      else if timer_periph = TIMER5
      then reset_pulse B RCU_TIMER5RST h
      else if timer_periph = TIMER6
      then reset_pulse B RCU_TIMER6RST h
      else h)"

definition timer_struct_para_init :: "timer_parameter \<Rightarrow> timer_parameter" where
  "timer_struct_para_init initpara =
     (let initpara = initpara\<lparr>timer_prescaler := 0\<rparr>;
          initpara = initpara\<lparr>timer_alignedmode := ucast TIMER_COUNTER_EDGE\<rparr>;
          initpara = initpara\<lparr>timer_counterdirection := ucast TIMER_COUNTER_UP\<rparr>;
          initpara = initpara\<lparr>timer_period := 65535\<rparr>;
          initpara = initpara\<lparr>timer_clockdivision := ucast TIMER_CKDIV_DIV1\<rparr>
      in initpara\<lparr>timer_repetitioncounter := 0\<rparr>)"

definition timer_init :: "'h bus \<Rightarrow> reg \<Rightarrow> timer_parameter \<Rightarrow> 'h \<Rightarrow> 'h" where
  "timer_init B timer_periph initpara h =
     (let h = wr32 B (TIMER_PSC timer_periph) (take_bit 16 (ucast (timer_prescaler initpara))) h;
          h = (if timer_periph = TIMER0 \<or> timer_periph = TIMER1 \<or> timer_periph = TIMER2 \<or>
                  timer_periph = TIMER3 \<or> timer_periph = TIMER4
               then (let h = clear_bits B (TIMER_CTL0 timer_periph) (TIMER_CTL0_DIR OR TIMER_CTL0_CAM) h;
                         h = set_bits B (TIMER_CTL0 timer_periph) (ucast (timer_alignedmode initpara) AND ALIGNEDMODE_MASK) h
                     in set_bits B (TIMER_CTL0 timer_periph) (ucast (timer_counterdirection initpara) AND COUNTERDIRECTION_MASK) h)
               else (let h = clear_bits B (TIMER_CTL0 timer_periph) TIMER_CTL0_DIR h
                     in set_bits B (TIMER_CTL0 timer_periph) (ucast (timer_counterdirection initpara) AND COUNTERDIRECTION_MASK) h));
          h = wr32 B (TIMER_CAR timer_periph) (timer_period initpara) h;
          h = (if timer_periph \<noteq> TIMER5 \<and> timer_periph \<noteq> TIMER6
               then (let h = clear_bits B (TIMER_CTL0 timer_periph) TIMER_CTL0_CKDIV h
                     in set_bits B (TIMER_CTL0 timer_periph) (ucast (timer_clockdivision initpara) AND CLOCKDIVISION_MASK) h)
               else h);
          h = (if timer_periph = TIMER0
               then wr32 B (TIMER_CREP timer_periph) (ucast (timer_repetitioncounter initpara)) h
               else h)
      in set_bits B (TIMER_SWEVG timer_periph) TIMER_SWEVG_UPG h)"

definition timer_enable :: "'h bus \<Rightarrow> reg \<Rightarrow> 'h \<Rightarrow> 'h" where
  "timer_enable B timer_periph h = set_bits B (TIMER_CTL0 timer_periph) TIMER_CTL0_CEN h"

definition timer_disable :: "'h bus \<Rightarrow> reg \<Rightarrow> 'h \<Rightarrow> 'h" where
  "timer_disable B timer_periph h = clear_bits B (TIMER_CTL0 timer_periph) TIMER_CTL0_CEN h"

definition timer_auto_reload_shadow_enable :: "'h bus \<Rightarrow> reg \<Rightarrow> 'h \<Rightarrow> 'h" where
  "timer_auto_reload_shadow_enable B timer_periph h =
     set_bits B (TIMER_CTL0 timer_periph) TIMER_CTL0_ARSE h"

definition timer_auto_reload_shadow_disable :: "'h bus \<Rightarrow> reg \<Rightarrow> 'h \<Rightarrow> 'h" where
  "timer_auto_reload_shadow_disable B timer_periph h =
     clear_bits B (TIMER_CTL0 timer_periph) TIMER_CTL0_ARSE h"

definition timer_update_event_enable :: "'h bus \<Rightarrow> reg \<Rightarrow> 'h \<Rightarrow> 'h" where
  "timer_update_event_enable B timer_periph h =
     clear_bits B (TIMER_CTL0 timer_periph) TIMER_CTL0_UPDIS h"

definition timer_update_event_disable :: "'h bus \<Rightarrow> reg \<Rightarrow> 'h \<Rightarrow> 'h" where
  "timer_update_event_disable B timer_periph h =
     set_bits B (TIMER_CTL0 timer_periph) TIMER_CTL0_UPDIS h"

definition timer_counter_alignment :: "'h bus \<Rightarrow> reg \<Rightarrow> 16 word \<Rightarrow> 'h \<Rightarrow> 'h" where
  "timer_counter_alignment B timer_periph aligned h =
     (let h = clear_bits B (TIMER_CTL0 timer_periph) TIMER_CTL0_CAM h
      in set_bits B (TIMER_CTL0 timer_periph) (ucast aligned) h)"

definition timer_counter_up_direction :: "'h bus \<Rightarrow> reg \<Rightarrow> 'h \<Rightarrow> 'h" where
  "timer_counter_up_direction B timer_periph h =
     clear_bits B (TIMER_CTL0 timer_periph) TIMER_CTL0_DIR h"

definition timer_counter_down_direction :: "'h bus \<Rightarrow> reg \<Rightarrow> 'h \<Rightarrow> 'h" where
  "timer_counter_down_direction B timer_periph h =
     set_bits B (TIMER_CTL0 timer_periph) TIMER_CTL0_DIR h"

definition timer_prescaler_config :: "'h bus \<Rightarrow> reg \<Rightarrow> 16 word \<Rightarrow> reg \<Rightarrow> 'h \<Rightarrow> 'h" where
  "timer_prescaler_config B timer_periph prescaler pscreload h =
     (let h = wr32 B (TIMER_PSC timer_periph) (ucast prescaler) h
      in if pscreload = TIMER_PSC_RELOAD_NOW
         then set_bits B (TIMER_SWEVG timer_periph) TIMER_SWEVG_UPG h
         else h)"

definition timer_repetition_value_config :: "'h bus \<Rightarrow> reg \<Rightarrow> 16 word \<Rightarrow> 'h \<Rightarrow> 'h" where
  "timer_repetition_value_config B timer_periph repetition h =
     wr32 B (TIMER_CREP timer_periph) (ucast repetition) h"

definition timer_autoreload_value_config :: "'h bus \<Rightarrow> reg \<Rightarrow> 16 word \<Rightarrow> 'h \<Rightarrow> 'h" where
  "timer_autoreload_value_config B timer_periph autoreload h =
     wr32 B (TIMER_CAR timer_periph) (ucast autoreload) h"

definition timer_counter_value_config :: "'h bus \<Rightarrow> reg \<Rightarrow> 16 word \<Rightarrow> 'h \<Rightarrow> 'h" where
  "timer_counter_value_config B timer_periph counter h =
     wr32 B (TIMER_CNT timer_periph) (ucast counter) h"

definition timer_counter_read :: "'h bus \<Rightarrow> reg \<Rightarrow> 'h \<Rightarrow> reg \<times> 'h" where
  "timer_counter_read B timer_periph h = rd32 B (TIMER_CNT timer_periph) h"

definition timer_prescaler_read :: "'h bus \<Rightarrow> reg \<Rightarrow> 'h \<Rightarrow> 16 word \<times> 'h" where
  "timer_prescaler_read B timer_periph h =
     (let (v, h) = rd32 B (TIMER_PSC timer_periph) h;
          prescaler_value = (ucast v :: 16 word)
      in (prescaler_value, h))"

definition timer_single_pulse_mode_config :: "'h bus \<Rightarrow> reg \<Rightarrow> reg \<Rightarrow> 'h \<Rightarrow> 'h" where
  "timer_single_pulse_mode_config B timer_periph spmode h =
     (if spmode = TIMER_SP_MODE_SINGLE then set_bits B (TIMER_CTL0 timer_periph) TIMER_CTL0_SPM h
      else if spmode = TIMER_SP_MODE_REPETITIVE then clear_bits B (TIMER_CTL0 timer_periph) TIMER_CTL0_SPM h
      else h)"

definition timer_update_source_config :: "'h bus \<Rightarrow> reg \<Rightarrow> reg \<Rightarrow> 'h \<Rightarrow> 'h" where
  "timer_update_source_config B timer_periph update h =
     (if update = TIMER_UPDATE_SRC_REGULAR then set_bits B (TIMER_CTL0 timer_periph) TIMER_CTL0_UPS h
      else if update = TIMER_UPDATE_SRC_GLOBAL then clear_bits B (TIMER_CTL0 timer_periph) TIMER_CTL0_UPS h
      else h)"

definition timer_dma_enable :: "'h bus \<Rightarrow> reg \<Rightarrow> 16 word \<Rightarrow> 'h \<Rightarrow> 'h" where
  "timer_dma_enable B timer_periph dma h = set_bits B (TIMER_DMAINTEN timer_periph) (ucast dma) h"

definition timer_dma_disable :: "'h bus \<Rightarrow> reg \<Rightarrow> 16 word \<Rightarrow> 'h \<Rightarrow> 'h" where
  "timer_dma_disable B timer_periph dma h =
     clear_bits B (TIMER_DMAINTEN timer_periph) (ucast dma) h"

definition timer_channel_dma_request_source_select :: "'h bus \<Rightarrow> reg \<Rightarrow> reg \<Rightarrow> 'h \<Rightarrow> 'h" where
  "timer_channel_dma_request_source_select B timer_periph dma_request h =
     (if dma_request = TIMER_DMAREQUEST_UPDATEEVENT
      then set_bits B (TIMER_CTL1 timer_periph) TIMER_CTL1_DMAS h
      else if dma_request = TIMER_DMAREQUEST_CHANNELEVENT
      then clear_bits B (TIMER_CTL1 timer_periph) TIMER_CTL1_DMAS h
      else h)"

definition timer_dma_transfer_config :: "'h bus \<Rightarrow> reg \<Rightarrow> reg \<Rightarrow> reg \<Rightarrow> 'h \<Rightarrow> 'h" where
  "timer_dma_transfer_config B timer_periph dma_baseaddr dma_lenth h =
     (let h = clear_bits B (TIMER_DMACFG timer_periph) (TIMER_DMACFG_DMATA OR TIMER_DMACFG_DMATC) h
      in set_bits B (TIMER_DMACFG timer_periph) (dma_baseaddr OR dma_lenth) h)"

definition timer_event_software_generate :: "'h bus \<Rightarrow> reg \<Rightarrow> 16 word \<Rightarrow> 'h \<Rightarrow> 'h" where
  "timer_event_software_generate B timer_periph event h =
     set_bits B (TIMER_SWEVG timer_periph) (ucast event) h"

definition timer_break_struct_para_init :: "timer_break_parameter \<Rightarrow> timer_break_parameter" where
  "timer_break_struct_para_init breakpara =
     (let breakpara = breakpara\<lparr>break_runoffstate := ucast TIMER_ROS_STATE_DISABLE\<rparr>;
          breakpara = breakpara\<lparr>break_ideloffstate := ucast TIMER_IOS_STATE_DISABLE\<rparr>;
          breakpara = breakpara\<lparr>break_deadtime := 0\<rparr>;
          breakpara = breakpara\<lparr>break_breakpolarity := ucast TIMER_BREAK_POLARITY_LOW\<rparr>;
          breakpara = breakpara\<lparr>break_outputautostate := ucast TIMER_OUTAUTO_DISABLE\<rparr>;
          breakpara = breakpara\<lparr>break_protectmode := ucast TIMER_CCHP_PROT_OFF\<rparr>
      in breakpara\<lparr>break_breakstate := ucast TIMER_BREAK_DISABLE\<rparr>)"

definition timer_break_config :: "'h bus \<Rightarrow> reg \<Rightarrow> timer_break_parameter \<Rightarrow> 'h \<Rightarrow> 'h" where
  "timer_break_config B timer_periph breakpara h =
     wr32 B (TIMER_CCHP timer_periph) (ucast (break_runoffstate breakpara) OR
       ucast (break_ideloffstate breakpara) OR ucast (break_deadtime breakpara) OR
       ucast (break_breakpolarity breakpara) OR ucast (break_outputautostate breakpara) OR
       ucast (break_protectmode breakpara) OR ucast (break_breakstate breakpara)) h"

definition timer_break_enable :: "'h bus \<Rightarrow> reg \<Rightarrow> 'h \<Rightarrow> 'h" where
  "timer_break_enable B timer_periph h = set_bits B (TIMER_CCHP timer_periph) TIMER_CCHP_BRKEN h"

definition timer_break_disable :: "'h bus \<Rightarrow> reg \<Rightarrow> 'h \<Rightarrow> 'h" where
  "timer_break_disable B timer_periph h =
     clear_bits B (TIMER_CCHP timer_periph) TIMER_CCHP_BRKEN h"

definition timer_automatic_output_enable :: "'h bus \<Rightarrow> reg \<Rightarrow> 'h \<Rightarrow> 'h" where
  "timer_automatic_output_enable B timer_periph h =
     set_bits B (TIMER_CCHP timer_periph) TIMER_CCHP_OAEN h"

definition timer_automatic_output_disable :: "'h bus \<Rightarrow> reg \<Rightarrow> 'h \<Rightarrow> 'h" where
  "timer_automatic_output_disable B timer_periph h =
     clear_bits B (TIMER_CCHP timer_periph) TIMER_CCHP_OAEN h"

definition timer_primary_output_config :: "'h bus \<Rightarrow> reg \<Rightarrow> bool \<Rightarrow> 'h \<Rightarrow> 'h" where
  "timer_primary_output_config B timer_periph newvalue h =
     (if newvalue then set_bits B (TIMER_CCHP timer_periph) TIMER_CCHP_POEN h
      else clear_bits B (TIMER_CCHP timer_periph) TIMER_CCHP_POEN h)"

definition timer_channel_control_shadow_config :: "'h bus \<Rightarrow> reg \<Rightarrow> bool \<Rightarrow> 'h \<Rightarrow> 'h" where
  "timer_channel_control_shadow_config B timer_periph newvalue h =
     (if newvalue then set_bits B (TIMER_CTL1 timer_periph) TIMER_CTL1_CCSE h
      else clear_bits B (TIMER_CTL1 timer_periph) TIMER_CTL1_CCSE h)"

definition timer_channel_control_shadow_update_config :: "'h bus \<Rightarrow> reg \<Rightarrow> reg \<Rightarrow> 'h \<Rightarrow> 'h" where
  "timer_channel_control_shadow_update_config B timer_periph ccuctl h =
     (if ccuctl = TIMER_UPDATECTL_CCU then clear_bits B (TIMER_CTL1 timer_periph) TIMER_CTL1_CCUC h
      else if ccuctl = TIMER_UPDATECTL_CCUTRI then set_bits B (TIMER_CTL1 timer_periph) TIMER_CTL1_CCUC h
      else h)"

definition timer_channel_output_struct_para_init :: "timer_oc_parameter \<Rightarrow> timer_oc_parameter" where
  "timer_channel_output_struct_para_init ocpara =
     (let ocpara = ocpara\<lparr>oc_outputstate := ucast TIMER_CCX_DISABLE\<rparr>;
          ocpara = ocpara\<lparr>oc_outputnstate := ucast TIMER_CCXN_DISABLE\<rparr>;
          ocpara = ocpara\<lparr>oc_ocpolarity := ucast TIMER_OC_POLARITY_HIGH\<rparr>;
          ocpara = ocpara\<lparr>oc_ocnpolarity := ucast TIMER_OCN_POLARITY_HIGH\<rparr>;
          ocpara = ocpara\<lparr>oc_ocidlestate := ucast TIMER_OC_IDLE_STATE_LOW\<rparr>
      in ocpara\<lparr>oc_ocnidlestate := ucast TIMER_OCN_IDLE_STATE_LOW\<rparr>)"

definition timer_channel_output_config :: "'h bus \<Rightarrow> reg \<Rightarrow> 16 word \<Rightarrow> timer_oc_parameter \<Rightarrow> 'h \<Rightarrow> 'h" where
  "timer_channel_output_config B timer_periph channel ocpara h =
     (if ucast channel = TIMER_CH_0
      then (let h = clear_bits B (TIMER_CHCTL2 timer_periph) TIMER_CHCTL2_CH0EN h;
                h = set_bits B (TIMER_CHCTL2 timer_periph) (ucast (oc_outputstate ocpara)) h;
                h = clear_bits B (TIMER_CHCTL2 timer_periph) TIMER_CHCTL2_CH0P h;
                h = set_bits B (TIMER_CHCTL2 timer_periph) (ucast (oc_ocpolarity ocpara)) h;
                h = (if timer_periph = TIMER0
                     then (let h = clear_bits B (TIMER_CHCTL2 timer_periph) TIMER_CHCTL2_CH0NEN h;
                               h = set_bits B (TIMER_CHCTL2 timer_periph) (ucast (oc_outputnstate ocpara)) h;
                               h = clear_bits B (TIMER_CHCTL2 timer_periph) TIMER_CHCTL2_CH0NP h;
                               h = set_bits B (TIMER_CHCTL2 timer_periph) (ucast (oc_ocnpolarity ocpara)) h;
                               h = clear_bits B (TIMER_CTL1 timer_periph) TIMER_CTL1_ISO0 h;
                               h = set_bits B (TIMER_CTL1 timer_periph) (ucast (oc_ocidlestate ocpara)) h;
                               h = clear_bits B (TIMER_CTL1 timer_periph) TIMER_CTL1_ISO0N h
                           in set_bits B (TIMER_CTL1 timer_periph) (ucast (oc_ocnidlestate ocpara)) h)
                     else h)
            in clear_bits B (TIMER_CHCTL0 timer_periph) TIMER_CHCTL0_CH0MS h)
      else if ucast channel = TIMER_CH_1
      then (let h = clear_bits B (TIMER_CHCTL2 timer_periph) TIMER_CHCTL2_CH1EN h;
                h = set_bits B (TIMER_CHCTL2 timer_periph) (push_bit 4 (ucast (oc_outputstate ocpara))) h;
                h = clear_bits B (TIMER_CHCTL2 timer_periph) TIMER_CHCTL2_CH1P h;
                h = set_bits B (TIMER_CHCTL2 timer_periph) (push_bit 4 (ucast (oc_ocpolarity ocpara))) h;
                h = (if timer_periph = TIMER0
                     then (let h = clear_bits B (TIMER_CHCTL2 timer_periph) TIMER_CHCTL2_CH1NEN h;
                               h = set_bits B (TIMER_CHCTL2 timer_periph) (push_bit 4 (ucast (oc_outputnstate ocpara))) h;
                               h = clear_bits B (TIMER_CHCTL2 timer_periph) TIMER_CHCTL2_CH1NP h;
                               h = set_bits B (TIMER_CHCTL2 timer_periph) (push_bit 4 (ucast (oc_ocnpolarity ocpara))) h;
                               h = clear_bits B (TIMER_CTL1 timer_periph) TIMER_CTL1_ISO1 h;
                               h = set_bits B (TIMER_CTL1 timer_periph) (push_bit 2 (ucast (oc_ocidlestate ocpara))) h;
                               h = clear_bits B (TIMER_CTL1 timer_periph) TIMER_CTL1_ISO1N h
                           in set_bits B (TIMER_CTL1 timer_periph) (push_bit 2 (ucast (oc_ocnidlestate ocpara))) h)
                     else h)
            in clear_bits B (TIMER_CHCTL0 timer_periph) TIMER_CHCTL0_CH1MS h)
      else if ucast channel = TIMER_CH_2
      then (let h = clear_bits B (TIMER_CHCTL2 timer_periph) TIMER_CHCTL2_CH2EN h;
                h = set_bits B (TIMER_CHCTL2 timer_periph) (push_bit 8 (ucast (oc_outputstate ocpara))) h;
                h = clear_bits B (TIMER_CHCTL2 timer_periph) TIMER_CHCTL2_CH2P h;
                h = set_bits B (TIMER_CHCTL2 timer_periph) (push_bit 8 (ucast (oc_ocpolarity ocpara))) h;
                h = (if timer_periph = TIMER0
                     then (let h = clear_bits B (TIMER_CHCTL2 timer_periph) TIMER_CHCTL2_CH2NEN h;
                               h = set_bits B (TIMER_CHCTL2 timer_periph) (push_bit 8 (ucast (oc_outputnstate ocpara))) h;
                               h = clear_bits B (TIMER_CHCTL2 timer_periph) TIMER_CHCTL2_CH2NP h;
                               h = set_bits B (TIMER_CHCTL2 timer_periph) (push_bit 8 (ucast (oc_ocnpolarity ocpara))) h;
                               h = clear_bits B (TIMER_CTL1 timer_periph) TIMER_CTL1_ISO2 h;
                               h = set_bits B (TIMER_CTL1 timer_periph) (push_bit 4 (ucast (oc_ocidlestate ocpara))) h;
                               h = clear_bits B (TIMER_CTL1 timer_periph) TIMER_CTL1_ISO2N h
                           in set_bits B (TIMER_CTL1 timer_periph) (push_bit 4 (ucast (oc_ocnidlestate ocpara))) h)
                     else h)
            in clear_bits B (TIMER_CHCTL1 timer_periph) TIMER_CHCTL1_CH2MS h)
      else if ucast channel = TIMER_CH_3
      then (let h = clear_bits B (TIMER_CHCTL2 timer_periph) TIMER_CHCTL2_CH3EN h;
                h = set_bits B (TIMER_CHCTL2 timer_periph) (push_bit 12 (ucast (oc_outputstate ocpara))) h;
                h = clear_bits B (TIMER_CHCTL2 timer_periph) TIMER_CHCTL2_CH3P h;
                h = set_bits B (TIMER_CHCTL2 timer_periph) (push_bit 12 (ucast (oc_ocpolarity ocpara))) h;
                h = (if timer_periph = TIMER0
                     then (let h = clear_bits B (TIMER_CTL1 timer_periph) TIMER_CTL1_ISO3 h
                           in set_bits B (TIMER_CTL1 timer_periph) (push_bit 6 (ucast (oc_ocidlestate ocpara))) h)
                     else h)
            in clear_bits B (TIMER_CHCTL1 timer_periph) TIMER_CHCTL1_CH3MS h)
      else h)"

definition timer_channel_output_mode_config :: "'h bus \<Rightarrow> reg \<Rightarrow> 16 word \<Rightarrow> 16 word \<Rightarrow> 'h \<Rightarrow> 'h" where
  "timer_channel_output_mode_config B timer_periph channel ocmode h =
     (if ucast channel = TIMER_CH_0
      then (let h = clear_bits B (TIMER_CHCTL0 timer_periph) TIMER_CHCTL0_CH0COMCTL h
            in set_bits B (TIMER_CHCTL0 timer_periph) (ucast ocmode) h)
      else if ucast channel = TIMER_CH_1
      then (let h = clear_bits B (TIMER_CHCTL0 timer_periph) TIMER_CHCTL0_CH1COMCTL h
            in set_bits B (TIMER_CHCTL0 timer_periph) (push_bit 8 (ucast ocmode)) h)
      else if ucast channel = TIMER_CH_2
      then (let h = clear_bits B (TIMER_CHCTL1 timer_periph) TIMER_CHCTL1_CH2COMCTL h
            in set_bits B (TIMER_CHCTL1 timer_periph) (ucast ocmode) h)
      else if ucast channel = TIMER_CH_3
      then (let h = clear_bits B (TIMER_CHCTL1 timer_periph) TIMER_CHCTL1_CH3COMCTL h
            in set_bits B (TIMER_CHCTL1 timer_periph) (push_bit 8 (ucast ocmode)) h)
      else h)"

definition timer_channel_output_pulse_value_config :: "'h bus \<Rightarrow> reg \<Rightarrow> 16 word \<Rightarrow> reg \<Rightarrow> 'h \<Rightarrow> 'h" where
  "timer_channel_output_pulse_value_config B timer_periph channel pulse h =
     (if ucast channel = TIMER_CH_0 then wr32 B (TIMER_CH0CV timer_periph) pulse h
      else if ucast channel = TIMER_CH_1 then wr32 B (TIMER_CH1CV timer_periph) pulse h
      else if ucast channel = TIMER_CH_2 then wr32 B (TIMER_CH2CV timer_periph) pulse h
      else if ucast channel = TIMER_CH_3 then wr32 B (TIMER_CH3CV timer_periph) pulse h
      else h)"

definition timer_channel_output_shadow_config :: "'h bus \<Rightarrow> reg \<Rightarrow> 16 word \<Rightarrow> 16 word \<Rightarrow> 'h \<Rightarrow> 'h" where
  "timer_channel_output_shadow_config B timer_periph channel ocshadow h =
     (if ucast channel = TIMER_CH_0
      then (let h = clear_bits B (TIMER_CHCTL0 timer_periph) TIMER_CHCTL0_CH0COMSEN h
            in set_bits B (TIMER_CHCTL0 timer_periph) (ucast ocshadow) h)
      else if ucast channel = TIMER_CH_1
      then (let h = clear_bits B (TIMER_CHCTL0 timer_periph) TIMER_CHCTL0_CH1COMSEN h
            in set_bits B (TIMER_CHCTL0 timer_periph) (push_bit 8 (ucast ocshadow)) h)
      else if ucast channel = TIMER_CH_2
      then (let h = clear_bits B (TIMER_CHCTL1 timer_periph) TIMER_CHCTL1_CH2COMSEN h
            in set_bits B (TIMER_CHCTL1 timer_periph) (ucast ocshadow) h)
      else if ucast channel = TIMER_CH_3
      then (let h = clear_bits B (TIMER_CHCTL1 timer_periph) TIMER_CHCTL1_CH3COMSEN h
            in set_bits B (TIMER_CHCTL1 timer_periph) (push_bit 8 (ucast ocshadow)) h)
      else h)"

definition timer_channel_output_fast_config :: "'h bus \<Rightarrow> reg \<Rightarrow> 16 word \<Rightarrow> 16 word \<Rightarrow> 'h \<Rightarrow> 'h" where
  "timer_channel_output_fast_config B timer_periph channel ocfast h =
     (if ucast channel = TIMER_CH_0
      then (let h = clear_bits B (TIMER_CHCTL0 timer_periph) TIMER_CHCTL0_CH0COMFEN h
            in set_bits B (TIMER_CHCTL0 timer_periph) (ucast ocfast) h)
      else if ucast channel = TIMER_CH_1
      then (let h = clear_bits B (TIMER_CHCTL0 timer_periph) TIMER_CHCTL0_CH1COMFEN h
            in set_bits B (TIMER_CHCTL0 timer_periph) (push_bit 8 (ucast ocfast)) h)
      else if ucast channel = TIMER_CH_2
      then (let h = clear_bits B (TIMER_CHCTL1 timer_periph) TIMER_CHCTL1_CH2COMFEN h
            in set_bits B (TIMER_CHCTL1 timer_periph) (ucast ocfast) h)
      else if ucast channel = TIMER_CH_3
      then (let h = clear_bits B (TIMER_CHCTL1 timer_periph) TIMER_CHCTL1_CH3COMFEN h
            in set_bits B (TIMER_CHCTL1 timer_periph) (push_bit 8 (ucast ocfast)) h)
      else h)"

definition timer_channel_output_clear_config :: "'h bus \<Rightarrow> reg \<Rightarrow> 16 word \<Rightarrow> 16 word \<Rightarrow> 'h \<Rightarrow> 'h" where
  "timer_channel_output_clear_config B timer_periph channel occlear h =
     (if ucast channel = TIMER_CH_0
      then (let h = clear_bits B (TIMER_CHCTL0 timer_periph) TIMER_CHCTL0_CH0COMCEN h
            in set_bits B (TIMER_CHCTL0 timer_periph) (ucast occlear) h)
      else if ucast channel = TIMER_CH_1
      then (let h = clear_bits B (TIMER_CHCTL0 timer_periph) TIMER_CHCTL0_CH1COMCEN h
            in set_bits B (TIMER_CHCTL0 timer_periph) (push_bit 8 (ucast occlear)) h)
      else if ucast channel = TIMER_CH_2
      then (let h = clear_bits B (TIMER_CHCTL1 timer_periph) TIMER_CHCTL1_CH2COMCEN h
            in set_bits B (TIMER_CHCTL1 timer_periph) (ucast occlear) h)
      else if ucast channel = TIMER_CH_3
      then (let h = clear_bits B (TIMER_CHCTL1 timer_periph) TIMER_CHCTL1_CH3COMCEN h
            in set_bits B (TIMER_CHCTL1 timer_periph) (push_bit 8 (ucast occlear)) h)
      else h)"

definition timer_channel_output_polarity_config :: "'h bus \<Rightarrow> reg \<Rightarrow> 16 word \<Rightarrow> 16 word \<Rightarrow> 'h \<Rightarrow> 'h" where
  "timer_channel_output_polarity_config B timer_periph channel ocpolarity h =
     (if ucast channel = TIMER_CH_0
      then (let h = clear_bits B (TIMER_CHCTL2 timer_periph) TIMER_CHCTL2_CH0P h
            in set_bits B (TIMER_CHCTL2 timer_periph) (ucast ocpolarity) h)
      else if ucast channel = TIMER_CH_1
      then (let h = clear_bits B (TIMER_CHCTL2 timer_periph) TIMER_CHCTL2_CH1P h
            in set_bits B (TIMER_CHCTL2 timer_periph) (push_bit 4 (ucast ocpolarity)) h)
      else if ucast channel = TIMER_CH_2
      then (let h = clear_bits B (TIMER_CHCTL2 timer_periph) TIMER_CHCTL2_CH2P h
            in set_bits B (TIMER_CHCTL2 timer_periph) (push_bit 8 (ucast ocpolarity)) h)
      else if ucast channel = TIMER_CH_3
      then (let h = clear_bits B (TIMER_CHCTL2 timer_periph) TIMER_CHCTL2_CH3P h
            in set_bits B (TIMER_CHCTL2 timer_periph) (push_bit 12 (ucast ocpolarity)) h)
      else h)"

definition timer_channel_complementary_output_polarity_config :: "'h bus \<Rightarrow> reg \<Rightarrow> 16 word \<Rightarrow> 16 word \<Rightarrow> 'h \<Rightarrow> 'h" where
  "timer_channel_complementary_output_polarity_config B timer_periph channel ocnpolarity h =
     (if ucast channel = TIMER_CH_0
      then (let h = clear_bits B (TIMER_CHCTL2 timer_periph) TIMER_CHCTL2_CH0NP h
            in set_bits B (TIMER_CHCTL2 timer_periph) (ucast ocnpolarity) h)
      else if ucast channel = TIMER_CH_1
      then (let h = clear_bits B (TIMER_CHCTL2 timer_periph) TIMER_CHCTL2_CH1NP h
            in set_bits B (TIMER_CHCTL2 timer_periph) (push_bit 4 (ucast ocnpolarity)) h)
      else if ucast channel = TIMER_CH_2
      then (let h = clear_bits B (TIMER_CHCTL2 timer_periph) TIMER_CHCTL2_CH2NP h
            in set_bits B (TIMER_CHCTL2 timer_periph) (push_bit 8 (ucast ocnpolarity)) h)
      else h)"

definition timer_channel_output_state_config :: "'h bus \<Rightarrow> reg \<Rightarrow> 16 word \<Rightarrow> reg \<Rightarrow> 'h \<Rightarrow> 'h" where
  "timer_channel_output_state_config B timer_periph channel stat h =
     (if ucast channel = TIMER_CH_0
      then (let h = clear_bits B (TIMER_CHCTL2 timer_periph) TIMER_CHCTL2_CH0EN h
            in set_bits B (TIMER_CHCTL2 timer_periph) stat h)
      else if ucast channel = TIMER_CH_1
      then (let h = clear_bits B (TIMER_CHCTL2 timer_periph) TIMER_CHCTL2_CH1EN h
            in set_bits B (TIMER_CHCTL2 timer_periph) (push_bit 4 stat) h)
      else if ucast channel = TIMER_CH_2
      then (let h = clear_bits B (TIMER_CHCTL2 timer_periph) TIMER_CHCTL2_CH2EN h
            in set_bits B (TIMER_CHCTL2 timer_periph) (push_bit 8 stat) h)
      else if ucast channel = TIMER_CH_3
      then (let h = clear_bits B (TIMER_CHCTL2 timer_periph) TIMER_CHCTL2_CH3EN h
            in set_bits B (TIMER_CHCTL2 timer_periph) (push_bit 12 stat) h)
      else h)"

definition timer_channel_complementary_output_state_config :: "'h bus \<Rightarrow> reg \<Rightarrow> 16 word \<Rightarrow> 16 word \<Rightarrow> 'h \<Rightarrow> 'h" where
  "timer_channel_complementary_output_state_config B timer_periph channel ocnstate h =
     (if ucast channel = TIMER_CH_0
      then (let h = clear_bits B (TIMER_CHCTL2 timer_periph) TIMER_CHCTL2_CH0NEN h
            in set_bits B (TIMER_CHCTL2 timer_periph) (ucast ocnstate) h)
      else if ucast channel = TIMER_CH_1
      then (let h = clear_bits B (TIMER_CHCTL2 timer_periph) TIMER_CHCTL2_CH1NEN h
            in set_bits B (TIMER_CHCTL2 timer_periph) (push_bit 4 (ucast ocnstate)) h)
      else if ucast channel = TIMER_CH_2
      then (let h = clear_bits B (TIMER_CHCTL2 timer_periph) TIMER_CHCTL2_CH2NEN h
            in set_bits B (TIMER_CHCTL2 timer_periph) (push_bit 8 (ucast ocnstate)) h)
      else h)"

definition timer_channel_input_struct_para_init :: "timer_ic_parameter \<Rightarrow> timer_ic_parameter" where
  "timer_channel_input_struct_para_init icpara =
     (let icpara = icpara\<lparr>ic_icpolarity := ucast TIMER_IC_POLARITY_RISING\<rparr>;
          icpara = icpara\<lparr>ic_icselection := ucast TIMER_IC_SELECTION_DIRECTTI\<rparr>;
          icpara = icpara\<lparr>ic_icprescaler := ucast TIMER_IC_PSC_DIV1\<rparr>
      in icpara\<lparr>ic_icfilter := 0\<rparr>)"

definition timer_channel_input_capture_prescaler_config :: "'h bus \<Rightarrow> reg \<Rightarrow> 16 word \<Rightarrow> 16 word \<Rightarrow> 'h \<Rightarrow> 'h" where
  "timer_channel_input_capture_prescaler_config B timer_periph channel prescaler h =
     (if ucast channel = TIMER_CH_0
      then (let h = clear_bits B (TIMER_CHCTL0 timer_periph) TIMER_CHCTL0_CH0CAPPSC h
            in set_bits B (TIMER_CHCTL0 timer_periph) (ucast prescaler) h)
      else if ucast channel = TIMER_CH_1
      then (let h = clear_bits B (TIMER_CHCTL0 timer_periph) TIMER_CHCTL0_CH1CAPPSC h
            in set_bits B (TIMER_CHCTL0 timer_periph) (push_bit 8 (ucast prescaler)) h)
      else if ucast channel = TIMER_CH_2
      then (let h = clear_bits B (TIMER_CHCTL1 timer_periph) TIMER_CHCTL1_CH2CAPPSC h
            in set_bits B (TIMER_CHCTL1 timer_periph) (ucast prescaler) h)
      else if ucast channel = TIMER_CH_3
      then (let h = clear_bits B (TIMER_CHCTL1 timer_periph) TIMER_CHCTL1_CH3CAPPSC h
            in set_bits B (TIMER_CHCTL1 timer_periph) (push_bit 8 (ucast prescaler)) h)
      else h)"

definition timer_input_capture_config :: "'h bus \<Rightarrow> reg \<Rightarrow> 16 word \<Rightarrow> timer_ic_parameter \<Rightarrow> 'h \<Rightarrow> 'h" where
  "timer_input_capture_config B timer_periph channel icpara h =
     (let h = (if ucast channel = TIMER_CH_0
               then (let h = clear_bits B (TIMER_CHCTL2 timer_periph) TIMER_CHCTL2_CH0EN h;
                         h = clear_bits B (TIMER_CHCTL2 timer_periph) (TIMER_CHCTL2_CH0P OR
                               TIMER_CHCTL2_CH0NP) h;
                         h = set_bits B (TIMER_CHCTL2 timer_periph) (ucast (ic_icpolarity icpara)) h;
                         h = clear_bits B (TIMER_CHCTL0 timer_periph) TIMER_CHCTL0_CH0MS h;
                         h = set_bits B (TIMER_CHCTL0 timer_periph) (ucast (ic_icselection icpara)) h;
                         h = clear_bits B (TIMER_CHCTL0 timer_periph) TIMER_CHCTL0_CH0CAPFLT h;
                         h = set_bits B (TIMER_CHCTL0 timer_periph) (push_bit 4 (ucast (ic_icfilter icpara))) h
                     in set_bits B (TIMER_CHCTL2 timer_periph) TIMER_CHCTL2_CH0EN h)
               else if ucast channel = TIMER_CH_1
               then (let h = clear_bits B (TIMER_CHCTL2 timer_periph) TIMER_CHCTL2_CH1EN h;
                         h = clear_bits B (TIMER_CHCTL2 timer_periph) (TIMER_CHCTL2_CH1P OR
                               TIMER_CHCTL2_CH1NP) h;
                         h = set_bits B (TIMER_CHCTL2 timer_periph) (push_bit 4 (ucast (ic_icpolarity icpara))) h;
                         h = clear_bits B (TIMER_CHCTL0 timer_periph) TIMER_CHCTL0_CH1MS h;
                         h = set_bits B (TIMER_CHCTL0 timer_periph) (push_bit 8 (ucast (ic_icselection icpara))) h;
                         h = clear_bits B (TIMER_CHCTL0 timer_periph) TIMER_CHCTL0_CH1CAPFLT h;
                         h = set_bits B (TIMER_CHCTL0 timer_periph) (push_bit 12 (ucast (ic_icfilter icpara))) h
                     in set_bits B (TIMER_CHCTL2 timer_periph) TIMER_CHCTL2_CH1EN h)
               else if ucast channel = TIMER_CH_2
               then (let h = clear_bits B (TIMER_CHCTL2 timer_periph) TIMER_CHCTL2_CH2EN h;
                         h = clear_bits B (TIMER_CHCTL2 timer_periph) (TIMER_CHCTL2_CH2P OR
                               TIMER_CHCTL2_CH2NP) h;
                         h = set_bits B (TIMER_CHCTL2 timer_periph) (push_bit 8 (ucast (ic_icpolarity icpara))) h;
                         h = clear_bits B (TIMER_CHCTL1 timer_periph) TIMER_CHCTL1_CH2MS h;
                         h = set_bits B (TIMER_CHCTL1 timer_periph) (ucast (ic_icselection icpara)) h;
                         h = clear_bits B (TIMER_CHCTL1 timer_periph) TIMER_CHCTL1_CH2CAPFLT h;
                         h = set_bits B (TIMER_CHCTL1 timer_periph) (push_bit 4 (ucast (ic_icfilter icpara))) h
                     in set_bits B (TIMER_CHCTL2 timer_periph) TIMER_CHCTL2_CH2EN h)
               else if ucast channel = TIMER_CH_3
               then (let h = clear_bits B (TIMER_CHCTL2 timer_periph) TIMER_CHCTL2_CH3EN h;
                         h = clear_bits B (TIMER_CHCTL2 timer_periph) TIMER_CHCTL2_CH3P h;
                         h = set_bits B (TIMER_CHCTL2 timer_periph) (push_bit 12 (ucast (ic_icpolarity icpara))) h;
                         h = clear_bits B (TIMER_CHCTL1 timer_periph) TIMER_CHCTL1_CH3MS h;
                         h = set_bits B (TIMER_CHCTL1 timer_periph) (push_bit 8 (ucast (ic_icselection icpara))) h;
                         h = clear_bits B (TIMER_CHCTL1 timer_periph) TIMER_CHCTL1_CH3CAPFLT h;
                         h = set_bits B (TIMER_CHCTL1 timer_periph) (push_bit 12 (ucast (ic_icfilter icpara))) h
                     in set_bits B (TIMER_CHCTL2 timer_periph) TIMER_CHCTL2_CH3EN h)
               else h)
      in timer_channel_input_capture_prescaler_config B timer_periph channel (ic_icprescaler icpara) h)"

definition timer_channel_capture_value_register_read :: "'h bus \<Rightarrow> reg \<Rightarrow> 16 word \<Rightarrow> 'h \<Rightarrow> reg \<times> 'h" where
  "timer_channel_capture_value_register_read B timer_periph channel h =
     (let count_value = (0 :: reg);
          (count_value, h) =
            (if ucast channel = TIMER_CH_0 then rd32 B (TIMER_CH0CV timer_periph) h
             else if ucast channel = TIMER_CH_1 then rd32 B (TIMER_CH1CV timer_periph) h
             else if ucast channel = TIMER_CH_2 then rd32 B (TIMER_CH2CV timer_periph) h
             else if ucast channel = TIMER_CH_3 then rd32 B (TIMER_CH3CV timer_periph) h
             else (count_value, h))
      in (count_value, h))"

definition timer_input_pwm_capture_config :: "'h bus \<Rightarrow> reg \<Rightarrow> 16 word \<Rightarrow> timer_ic_parameter \<Rightarrow> 'h \<Rightarrow> 'h" where
  "timer_input_pwm_capture_config B timer_periph channel icpwm h =
     (let icpolarity = (0 :: 16 word);
          icselection = (0 :: 16 word);
          icpolarity =
            (if ucast (ic_icpolarity icpwm) = TIMER_IC_POLARITY_RISING
             then (ucast TIMER_IC_POLARITY_FALLING :: 16 word)
             else (ucast TIMER_IC_POLARITY_RISING :: 16 word));
          icselection =
            (if ucast (ic_icselection icpwm) = TIMER_IC_SELECTION_DIRECTTI
             then (ucast TIMER_IC_SELECTION_INDIRECTTI :: 16 word)
             else (ucast TIMER_IC_SELECTION_DIRECTTI :: 16 word))
      in if ucast channel = TIMER_CH_0
         then (let h = clear_bits B (TIMER_CHCTL2 timer_periph) TIMER_CHCTL2_CH0EN h;
                   h = clear_bits B (TIMER_CHCTL2 timer_periph) (TIMER_CHCTL2_CH0P OR
                         TIMER_CHCTL2_CH0NP) h;
                   h = set_bits B (TIMER_CHCTL2 timer_periph) (ucast (ic_icpolarity icpwm)) h;
                   h = clear_bits B (TIMER_CHCTL0 timer_periph) TIMER_CHCTL0_CH0MS h;
                   h = set_bits B (TIMER_CHCTL0 timer_periph) (ucast (ic_icselection icpwm)) h;
                   h = clear_bits B (TIMER_CHCTL0 timer_periph) TIMER_CHCTL0_CH0CAPFLT h;
                   h = set_bits B (TIMER_CHCTL0 timer_periph) (push_bit 4 (ucast (ic_icfilter icpwm))) h;
                   h = set_bits B (TIMER_CHCTL2 timer_periph) TIMER_CHCTL2_CH0EN h;
                   h = timer_channel_input_capture_prescaler_config B timer_periph (ucast TIMER_CH_0) (ic_icprescaler icpwm) h;
                   h = clear_bits B (TIMER_CHCTL2 timer_periph) TIMER_CHCTL2_CH1EN h;
                   h = clear_bits B (TIMER_CHCTL2 timer_periph) (TIMER_CHCTL2_CH1P OR
                         TIMER_CHCTL2_CH1NP) h;
                   h = set_bits B (TIMER_CHCTL2 timer_periph) (push_bit 4 (ucast icpolarity)) h;
                   h = clear_bits B (TIMER_CHCTL0 timer_periph) TIMER_CHCTL0_CH1MS h;
                   h = set_bits B (TIMER_CHCTL0 timer_periph) (push_bit 8 (ucast icselection)) h;
                   h = clear_bits B (TIMER_CHCTL0 timer_periph) TIMER_CHCTL0_CH1CAPFLT h;
                   h = set_bits B (TIMER_CHCTL0 timer_periph) (push_bit 12 (ucast (ic_icfilter icpwm))) h;
                   h = set_bits B (TIMER_CHCTL2 timer_periph) TIMER_CHCTL2_CH1EN h
               in timer_channel_input_capture_prescaler_config B timer_periph (ucast TIMER_CH_1) (ic_icprescaler icpwm) h)
         else (let h = clear_bits B (TIMER_CHCTL2 timer_periph) TIMER_CHCTL2_CH1EN h;
                   h = clear_bits B (TIMER_CHCTL2 timer_periph) (TIMER_CHCTL2_CH1P OR
                         TIMER_CHCTL2_CH1NP) h;
                   h = set_bits B (TIMER_CHCTL2 timer_periph) (push_bit 4 (ucast (ic_icpolarity icpwm))) h;
                   h = clear_bits B (TIMER_CHCTL0 timer_periph) TIMER_CHCTL0_CH1MS h;
                   h = set_bits B (TIMER_CHCTL0 timer_periph) (push_bit 8 (ucast (ic_icselection icpwm))) h;
                   h = clear_bits B (TIMER_CHCTL0 timer_periph) TIMER_CHCTL0_CH1CAPFLT h;
                   h = set_bits B (TIMER_CHCTL0 timer_periph) (push_bit 12 (ucast (ic_icfilter icpwm))) h;
                   h = set_bits B (TIMER_CHCTL2 timer_periph) TIMER_CHCTL2_CH1EN h;
                   h = timer_channel_input_capture_prescaler_config B timer_periph (ucast TIMER_CH_1) (ic_icprescaler icpwm) h;
                   h = clear_bits B (TIMER_CHCTL2 timer_periph) TIMER_CHCTL2_CH0EN h;
                   h = clear_bits B (TIMER_CHCTL2 timer_periph) (TIMER_CHCTL2_CH0P OR
                         TIMER_CHCTL2_CH0NP) h;
                   h = set_bits B (TIMER_CHCTL2 timer_periph) (ucast icpolarity) h;
                   h = clear_bits B (TIMER_CHCTL0 timer_periph) TIMER_CHCTL0_CH0MS h;
                   h = set_bits B (TIMER_CHCTL0 timer_periph) (ucast icselection) h;
                   h = clear_bits B (TIMER_CHCTL0 timer_periph) TIMER_CHCTL0_CH0CAPFLT h;
                   h = set_bits B (TIMER_CHCTL0 timer_periph) (push_bit 4 (ucast (ic_icfilter icpwm))) h;
                   h = set_bits B (TIMER_CHCTL2 timer_periph) TIMER_CHCTL2_CH0EN h
               in timer_channel_input_capture_prescaler_config B timer_periph (ucast TIMER_CH_0) (ic_icprescaler icpwm) h))"

definition timer_hall_mode_config :: "'h bus \<Rightarrow> reg \<Rightarrow> reg \<Rightarrow> 'h \<Rightarrow> 'h" where
  "timer_hall_mode_config B timer_periph hallmode h =
     (if hallmode = TIMER_HALLINTERFACE_ENABLE
      then set_bits B (TIMER_CTL1 timer_periph) TIMER_CTL1_TI0S h
      else if hallmode = TIMER_HALLINTERFACE_DISABLE
      then clear_bits B (TIMER_CTL1 timer_periph) TIMER_CTL1_TI0S h
      else h)"

definition timer_input_trigger_source_select :: "'h bus \<Rightarrow> reg \<Rightarrow> reg \<Rightarrow> 'h \<Rightarrow> 'h" where
  "timer_input_trigger_source_select B timer_periph intrigger h =
     (let h = clear_bits B (TIMER_SMCFG timer_periph) TIMER_SMCFG_TRGS h
      in set_bits B (TIMER_SMCFG timer_periph) intrigger h)"

definition timer_master_output_trigger_source_select :: "'h bus \<Rightarrow> reg \<Rightarrow> reg \<Rightarrow> 'h \<Rightarrow> 'h" where
  "timer_master_output_trigger_source_select B timer_periph outrigger h =
     (let h = clear_bits B (TIMER_CTL1 timer_periph) TIMER_CTL1_MMC h
      in set_bits B (TIMER_CTL1 timer_periph) outrigger h)"

definition timer_slave_mode_select :: "'h bus \<Rightarrow> reg \<Rightarrow> reg \<Rightarrow> 'h \<Rightarrow> 'h" where
  "timer_slave_mode_select B timer_periph slavemode h =
     (let h = clear_bits B (TIMER_SMCFG timer_periph) TIMER_SMCFG_SMC h
      in set_bits B (TIMER_SMCFG timer_periph) slavemode h)"

definition timer_master_slave_mode_config :: "'h bus \<Rightarrow> reg \<Rightarrow> reg \<Rightarrow> 'h \<Rightarrow> 'h" where
  "timer_master_slave_mode_config B timer_periph masterslave h =
     (if masterslave = TIMER_MASTER_SLAVE_MODE_ENABLE
      then set_bits B (TIMER_SMCFG timer_periph) TIMER_SMCFG_MSM h
      else if masterslave = TIMER_MASTER_SLAVE_MODE_DISABLE
      then clear_bits B (TIMER_SMCFG timer_periph) TIMER_SMCFG_MSM h
      else h)"

definition timer_external_trigger_config :: "'h bus \<Rightarrow> reg \<Rightarrow> reg \<Rightarrow> reg \<Rightarrow> reg \<Rightarrow> 'h \<Rightarrow> 'h" where
  "timer_external_trigger_config B timer_periph extprescaler extpolarity extfilter h =
     (let h = clear_bits B (TIMER_SMCFG timer_periph) (TIMER_SMCFG_ETP OR TIMER_SMCFG_ETPSC OR
                TIMER_SMCFG_ETFC) h;
          h = set_bits B (TIMER_SMCFG timer_periph) (extprescaler OR extpolarity) h
      in set_bits B (TIMER_SMCFG timer_periph) (push_bit 8 extfilter) h)"

definition timer_quadrature_decoder_mode_config :: "'h bus \<Rightarrow> reg \<Rightarrow> reg \<Rightarrow> 16 word \<Rightarrow> 16 word \<Rightarrow> 'h \<Rightarrow> 'h" where
  "timer_quadrature_decoder_mode_config B timer_periph decomode ic0polarity ic1polarity h =
     (let h = clear_bits B (TIMER_SMCFG timer_periph) TIMER_SMCFG_SMC h;
          h = set_bits B (TIMER_SMCFG timer_periph) decomode h;
          h = modify B (TIMER_CHCTL0 timer_periph) (\<lambda>r. r AND ((NOT TIMER_CHCTL0_CH0MS) AND NOT TIMER_CHCTL0_CH1MS)) h;
          h = set_bits B (TIMER_CHCTL0 timer_periph) (TIMER_IC_SELECTION_DIRECTTI OR
                (push_bit 8 TIMER_IC_SELECTION_DIRECTTI)) h;
          h = clear_bits B (TIMER_CHCTL2 timer_periph) (TIMER_CHCTL2_CH0P OR TIMER_CHCTL2_CH0NP) h;
          h = clear_bits B (TIMER_CHCTL2 timer_periph) (TIMER_CHCTL2_CH1P OR TIMER_CHCTL2_CH1NP) h
      in set_bits B (TIMER_CHCTL2 timer_periph) (ucast ic0polarity OR
           (push_bit 4 (ucast ic1polarity))) h)"

definition timer_internal_clock_config :: "'h bus \<Rightarrow> reg \<Rightarrow> 'h \<Rightarrow> 'h" where
  "timer_internal_clock_config B timer_periph h =
     clear_bits B (TIMER_SMCFG timer_periph) TIMER_SMCFG_SMC h"

definition timer_internal_trigger_as_external_clock_config :: "'h bus \<Rightarrow> reg \<Rightarrow> reg \<Rightarrow> 'h \<Rightarrow> 'h" where
  "timer_internal_trigger_as_external_clock_config B timer_periph intrigger h =
     (let h = timer_input_trigger_source_select B timer_periph intrigger h;
          h = clear_bits B (TIMER_SMCFG timer_periph) TIMER_SMCFG_SMC h
      in set_bits B (TIMER_SMCFG timer_periph) TIMER_SLAVE_MODE_EXTERNAL0 h)"

definition timer_external_trigger_as_external_clock_config :: "'h bus \<Rightarrow> reg \<Rightarrow> reg \<Rightarrow> 16 word \<Rightarrow> reg \<Rightarrow> 'h \<Rightarrow> 'h" where
  "timer_external_trigger_as_external_clock_config B timer_periph extrigger extpolarity extfilter h =
     (let h = (if extrigger = TIMER_SMCFG_TRGSEL_CI1FE1
               then (let h = clear_bits B (TIMER_CHCTL2 timer_periph) TIMER_CHCTL2_CH1EN h;
                         h = clear_bits B (TIMER_CHCTL2 timer_periph) (TIMER_CHCTL2_CH1P OR
                               TIMER_CHCTL2_CH1NP) h;
                         h = set_bits B (TIMER_CHCTL2 timer_periph) (push_bit 4 (ucast extpolarity)) h;
                         h = clear_bits B (TIMER_CHCTL0 timer_periph) TIMER_CHCTL0_CH1MS h;
                         h = set_bits B (TIMER_CHCTL0 timer_periph) (push_bit 8 TIMER_IC_SELECTION_DIRECTTI) h;
                         h = clear_bits B (TIMER_CHCTL0 timer_periph) TIMER_CHCTL0_CH1CAPFLT h;
                         h = set_bits B (TIMER_CHCTL0 timer_periph) (push_bit 12 extfilter) h
                     in set_bits B (TIMER_CHCTL2 timer_periph) TIMER_CHCTL2_CH1EN h)
               else (let h = clear_bits B (TIMER_CHCTL2 timer_periph) TIMER_CHCTL2_CH0EN h;
                         h = clear_bits B (TIMER_CHCTL2 timer_periph) (TIMER_CHCTL2_CH0P OR
                               TIMER_CHCTL2_CH0NP) h;
                         h = set_bits B (TIMER_CHCTL2 timer_periph) (ucast extpolarity) h;
                         h = clear_bits B (TIMER_CHCTL0 timer_periph) TIMER_CHCTL0_CH0MS h;
                         h = set_bits B (TIMER_CHCTL0 timer_periph) TIMER_IC_SELECTION_DIRECTTI h;
                         h = clear_bits B (TIMER_CHCTL0 timer_periph) TIMER_CHCTL0_CH0CAPFLT h;
                         h = set_bits B (TIMER_CHCTL0 timer_periph) (push_bit 4 extfilter) h
                     in set_bits B (TIMER_CHCTL2 timer_periph) TIMER_CHCTL2_CH0EN h));
          h = timer_input_trigger_source_select B timer_periph extrigger h;
          h = clear_bits B (TIMER_SMCFG timer_periph) TIMER_SMCFG_SMC h
      in set_bits B (TIMER_SMCFG timer_periph) TIMER_SLAVE_MODE_EXTERNAL0 h)"

definition timer_external_clock_mode0_config :: "'h bus \<Rightarrow> reg \<Rightarrow> reg \<Rightarrow> reg \<Rightarrow> reg \<Rightarrow> 'h \<Rightarrow> 'h" where
  "timer_external_clock_mode0_config B timer_periph extprescaler extpolarity extfilter h =
     (let h = timer_external_trigger_config B timer_periph extprescaler extpolarity extfilter h;
          h = clear_bits B (TIMER_SMCFG timer_periph) (TIMER_SMCFG_SMC OR TIMER_SMCFG_TRGS) h
      in set_bits B (TIMER_SMCFG timer_periph) (TIMER_SLAVE_MODE_EXTERNAL0 OR
           TIMER_SMCFG_TRGSEL_ETIFP) h)"

definition timer_external_clock_mode1_config :: "'h bus \<Rightarrow> reg \<Rightarrow> reg \<Rightarrow> reg \<Rightarrow> reg \<Rightarrow> 'h \<Rightarrow> 'h" where
  "timer_external_clock_mode1_config B timer_periph extprescaler extpolarity extfilter h =
     (let h = timer_external_trigger_config B timer_periph extprescaler extpolarity extfilter h
      in set_bits B (TIMER_SMCFG timer_periph) TIMER_SMCFG_SMC1 h)"

definition timer_external_clock_mode1_disable :: "'h bus \<Rightarrow> reg \<Rightarrow> 'h \<Rightarrow> 'h" where
  "timer_external_clock_mode1_disable B timer_periph h =
     clear_bits B (TIMER_SMCFG timer_periph) TIMER_SMCFG_SMC1 h"

definition timer_interrupt_enable :: "'h bus \<Rightarrow> reg \<Rightarrow> reg \<Rightarrow> 'h \<Rightarrow> 'h" where
  "timer_interrupt_enable B timer_periph interrupt h =
     set_bits B (TIMER_DMAINTEN timer_periph) interrupt h"

definition timer_interrupt_disable :: "'h bus \<Rightarrow> reg \<Rightarrow> reg \<Rightarrow> 'h \<Rightarrow> 'h" where
  "timer_interrupt_disable B timer_periph interrupt h =
     clear_bits B (TIMER_DMAINTEN timer_periph) interrupt h"

definition timer_interrupt_flag_get :: "'h bus \<Rightarrow> reg \<Rightarrow> reg \<Rightarrow> 'h \<Rightarrow> bool \<times> 'h" where
  "timer_interrupt_flag_get B timer_periph interrupt h =
     (let (v, h) = rd32 B (TIMER_DMAINTEN timer_periph) h;
          val = v AND interrupt;
          (v2, h) = rd32 B (TIMER_INTF timer_periph) h
      in (v2 AND interrupt \<noteq> 0 \<and> val \<noteq> 0, h))"

definition timer_interrupt_flag_clear :: "'h bus \<Rightarrow> reg \<Rightarrow> reg \<Rightarrow> 'h \<Rightarrow> 'h" where
  "timer_interrupt_flag_clear B timer_periph interrupt h =
     wr32 B (TIMER_INTF timer_periph) (NOT interrupt) h"

definition timer_flag_get :: "'h bus \<Rightarrow> reg \<Rightarrow> reg \<Rightarrow> 'h \<Rightarrow> bool \<times> 'h" where
  "timer_flag_get B timer_periph flg h = any_set B (TIMER_INTF timer_periph) flg h"

definition timer_flag_clear :: "'h bus \<Rightarrow> reg \<Rightarrow> reg \<Rightarrow> 'h \<Rightarrow> 'h" where
  "timer_flag_clear B timer_periph flg h = wr32 B (TIMER_INTF timer_periph) (NOT flg) h"

end
