(* ===== verification/Adc.thy ===== *)
theory Adc
  imports Rcu
begin

text \<open>
  \<open>gd32vf103_adc.c\<close>: the analog to digital converters, with a sequence of up to sixteen regular
  channels and of up to four inserted ones.
\<close>

section \<open>Registers\<close>

abbreviation (input) ADC_BASE :: "reg" where "ADC_BASE \<equiv> APB2_BUS_BASE + 0x2400"
abbreviation (input) ADC0 :: "reg" where "ADC0 \<equiv> ADC_BASE"
abbreviation (input) ADC1 :: "reg" where "ADC1 \<equiv> ADC_BASE + 0x400"
abbreviation (input) ADC_CTL0 :: "reg \<Rightarrow> 32 word" where "ADC_CTL0 adcx \<equiv> adcx + 4"
abbreviation (input) ADC_CTL0_SYNCM :: "reg" where "ADC_CTL0_SYNCM \<equiv> BITS 16 19"
abbreviation (input) ADC_CTL0_SM :: "reg" where "ADC_CTL0_SM \<equiv> BIT 8"
abbreviation (input) ADC_SCAN_MODE :: "reg" where "ADC_SCAN_MODE \<equiv> ADC_CTL0_SM"
abbreviation (input) ADC_CTL0_ICA :: "reg" where "ADC_CTL0_ICA \<equiv> BIT 10"
abbreviation (input) ADC_INSERTED_CHANNEL_AUTO :: "reg" where "ADC_INSERTED_CHANNEL_AUTO \<equiv> ADC_CTL0_ICA"
abbreviation (input) ADC_CTL1_CTN :: "reg" where "ADC_CTL1_CTN \<equiv> BIT 1"
abbreviation (input) ADC_CONTINUOUS_MODE :: "reg" where "ADC_CONTINUOUS_MODE \<equiv> ADC_CTL1_CTN"
abbreviation (input) ADC_CTL1 :: "reg \<Rightarrow> 32 word" where "ADC_CTL1 adcx \<equiv> adcx + 8"
abbreviation (input) ADC_DATAALIGN_RIGHT :: "reg" where "ADC_DATAALIGN_RIGHT \<equiv> 0"
abbreviation (input) ADC_CTL1_DAL :: "reg" where "ADC_CTL1_DAL \<equiv> BIT 11"
abbreviation (input) ADC_CTL1_ADCON :: "reg" where "ADC_CTL1_ADCON \<equiv> BIT 0"
abbreviation (input) ADC_CTL1_TSVREN :: "reg" where "ADC_CTL1_TSVREN \<equiv> BIT 23"
abbreviation (input) ADC_CTL1_DMA :: "reg" where "ADC_CTL1_DMA \<equiv> BIT 8"
abbreviation (input) ADC_CTL0_DISRC :: "reg" where "ADC_CTL0_DISRC \<equiv> BIT 11"
abbreviation (input) ADC_CTL0_DISIC :: "reg" where "ADC_CTL0_DISIC \<equiv> BIT 12"
abbreviation (input) ADC_REGULAR_CHANNEL :: "reg" where "ADC_REGULAR_CHANNEL \<equiv> 1"
abbreviation (input) ADC_CTL0_DISNUM :: "reg" where "ADC_CTL0_DISNUM \<equiv> BITS 13 15"
abbreviation (input) CTL0_DISNUM :: "reg \<Rightarrow> reg" where "CTL0_DISNUM regval \<equiv> BITS 13 15 AND (push_bit 13 regval)"
abbreviation (input) ADC_CHANNEL_LENGTH_SUBTRACT_ONE :: "reg" where "ADC_CHANNEL_LENGTH_SUBTRACT_ONE \<equiv> 1"
abbreviation (input) ADC_INSERTED_CHANNEL :: "reg" where "ADC_INSERTED_CHANNEL \<equiv> 2"
abbreviation (input) ADC_RSQ0 :: "reg \<Rightarrow> 32 word" where "ADC_RSQ0 adcx \<equiv> adcx + 0x2c"
abbreviation (input) ADC_RSQ0_RL :: "reg" where "ADC_RSQ0_RL \<equiv> BITS 20 23"
abbreviation (input) RSQ0_RL :: "reg \<Rightarrow> reg" where "RSQ0_RL regval \<equiv> BITS 20 23 AND (push_bit 20 regval)"
abbreviation (input) ADC_ISQ :: "reg \<Rightarrow> 32 word" where "ADC_ISQ adcx \<equiv> adcx + 0x38"
abbreviation (input) ADC_ISQ_IL :: "reg" where "ADC_ISQ_IL \<equiv> BITS 20 21"
abbreviation (input) ISQ_IL :: "reg \<Rightarrow> reg" where "ISQ_IL regval \<equiv> BITS 20 21 AND (push_bit 20 regval)"
abbreviation (input) ADC_REGULAR_CHANNEL_RANK_SIX :: "reg" where "ADC_REGULAR_CHANNEL_RANK_SIX \<equiv> 6"
abbreviation (input) ADC_RSQ2 :: "reg \<Rightarrow> 32 word" where "ADC_RSQ2 adcx \<equiv> adcx + 0x34"
abbreviation (input) ADC_RSQX_RSQN :: "reg" where "ADC_RSQX_RSQN \<equiv> BITS 0 4"
abbreviation (input) ADC_REGULAR_CHANNEL_RANK_LENGTH :: "reg" where "ADC_REGULAR_CHANNEL_RANK_LENGTH \<equiv> 5"
abbreviation (input) ADC_REGULAR_CHANNEL_RANK_TWELVE :: "reg" where "ADC_REGULAR_CHANNEL_RANK_TWELVE \<equiv> 12"
abbreviation (input) ADC_RSQ1 :: "reg \<Rightarrow> 32 word" where "ADC_RSQ1 adcx \<equiv> adcx + 0x30"
abbreviation (input) ADC_REGULAR_CHANNEL_RANK_SIXTEEN :: "reg" where "ADC_REGULAR_CHANNEL_RANK_SIXTEEN \<equiv> 16"
abbreviation (input) ADC_CHANNEL_SAMPLE_TEN :: "reg" where "ADC_CHANNEL_SAMPLE_TEN \<equiv> 10"
abbreviation (input) ADC_SAMPT1 :: "reg \<Rightarrow> 32 word" where "ADC_SAMPT1 adcx \<equiv> adcx + 0x10"
abbreviation (input) ADC_SAMPTX_SPTN :: "reg" where "ADC_SAMPTX_SPTN \<equiv> BITS 0 2"
abbreviation (input) ADC_CHANNEL_SAMPLE_LENGTH :: "reg" where "ADC_CHANNEL_SAMPLE_LENGTH \<equiv> 3"
abbreviation (input) ADC_CHANNEL_SAMPLE_EIGHTEEN :: "reg" where "ADC_CHANNEL_SAMPLE_EIGHTEEN \<equiv> 18"
abbreviation (input) ADC_SAMPT0 :: "reg \<Rightarrow> 32 word" where "ADC_SAMPT0 adcx \<equiv> adcx + 0xc"
abbreviation (input) ADC_OFFSET_LENGTH :: "reg" where "ADC_OFFSET_LENGTH \<equiv> 3"
abbreviation (input) ADC_OFFSET_SHIFT_LENGTH :: "reg" where "ADC_OFFSET_SHIFT_LENGTH \<equiv> 4"
abbreviation (input) IOFFX_IOFF :: "reg \<Rightarrow> reg" where "IOFFX_IOFF regval \<equiv> BITS 0 11 AND (push_bit 0 regval)"
abbreviation (input) ADC_CTL1_ETSRC :: "reg" where "ADC_CTL1_ETSRC \<equiv> BITS 17 19"
abbreviation (input) ADC_CTL1_ETSIC :: "reg" where "ADC_CTL1_ETSIC \<equiv> BITS 12 14"
abbreviation (input) ADC_CTL1_ETERC :: "reg" where "ADC_CTL1_ETERC \<equiv> BIT 20"
abbreviation (input) ADC_CTL1_ETEIC :: "reg" where "ADC_CTL1_ETEIC \<equiv> BIT 15"
abbreviation (input) ADC_CTL1_SWRCST :: "reg" where "ADC_CTL1_SWRCST \<equiv> BIT 22"
abbreviation (input) ADC_CTL1_SWICST :: "reg" where "ADC_CTL1_SWICST \<equiv> BIT 21"
abbreviation (input) ADC_RDATA :: "reg \<Rightarrow> 32 word" where "ADC_RDATA adcx \<equiv> adcx + 0x4c"
abbreviation (input) ADC_INSERTED_CHANNEL_0 :: "reg" where "ADC_INSERTED_CHANNEL_0 \<equiv> 0"
abbreviation (input) ADC_IDATA0 :: "reg \<Rightarrow> 32 word" where "ADC_IDATA0 adcx \<equiv> adcx + 0x3c"
abbreviation (input) ADC_INSERTED_CHANNEL_1 :: "reg" where "ADC_INSERTED_CHANNEL_1 \<equiv> 1"
abbreviation (input) ADC_IDATA1 :: "reg \<Rightarrow> 32 word" where "ADC_IDATA1 adcx \<equiv> adcx + 0x40"
abbreviation (input) ADC_INSERTED_CHANNEL_2 :: "reg" where "ADC_INSERTED_CHANNEL_2 \<equiv> 2"
abbreviation (input) ADC_IDATA2 :: "reg \<Rightarrow> 32 word" where "ADC_IDATA2 adcx \<equiv> adcx + 0x44"
abbreviation (input) ADC_INSERTED_CHANNEL_3 :: "reg" where "ADC_INSERTED_CHANNEL_3 \<equiv> 3"
abbreviation (input) ADC_IDATA3 :: "reg \<Rightarrow> 32 word" where "ADC_IDATA3 adcx \<equiv> adcx + 0x48"
abbreviation (input) ADC_CTL0_RWDEN :: "reg" where "ADC_CTL0_RWDEN \<equiv> BIT 23"
abbreviation (input) ADC_CTL0_IWDEN :: "reg" where "ADC_CTL0_IWDEN \<equiv> BIT 22"
abbreviation (input) ADC_CTL0_WDSC :: "reg" where "ADC_CTL0_WDSC \<equiv> BIT 9"
abbreviation (input) ADC_CTL0_WDCHSEL :: "reg" where "ADC_CTL0_WDCHSEL \<equiv> BITS 0 4"
abbreviation (input) ADC_REGULAR_INSERTED_CHANNEL :: "reg" where "ADC_REGULAR_INSERTED_CHANNEL \<equiv> 3"
abbreviation (input) ADC_WDLT :: "reg \<Rightarrow> 32 word" where "ADC_WDLT adcx \<equiv> adcx + 0x28"
abbreviation (input) WDLT_WDLT :: "reg \<Rightarrow> reg" where "WDLT_WDLT regval \<equiv> BITS 0 11 AND (push_bit 0 regval)"
abbreviation (input) ADC_WDHT :: "reg \<Rightarrow> 32 word" where "ADC_WDHT adcx \<equiv> adcx + 0x24"
abbreviation (input) WDHT_WDHT :: "reg \<Rightarrow> reg" where "WDHT_WDHT regval \<equiv> BITS 0 11 AND (push_bit 0 regval)"
abbreviation (input) ADC_STAT :: "reg \<Rightarrow> 32 word" where "ADC_STAT adcx \<equiv> adcx + 0"
abbreviation (input) ADC_STAT_WDE :: "reg" where "ADC_STAT_WDE \<equiv> BIT 0"
abbreviation (input) ADC_INT_FLAG_WDE :: "reg" where "ADC_INT_FLAG_WDE \<equiv> ADC_STAT_WDE"
abbreviation (input) ADC_CTL0_WDEIE :: "reg" where "ADC_CTL0_WDEIE \<equiv> BIT 6"
abbreviation (input) ADC_STAT_EOC :: "reg" where "ADC_STAT_EOC \<equiv> BIT 1"
abbreviation (input) ADC_INT_FLAG_EOC :: "reg" where "ADC_INT_FLAG_EOC \<equiv> ADC_STAT_EOC"
abbreviation (input) ADC_CTL0_EOCIE :: "reg" where "ADC_CTL0_EOCIE \<equiv> BIT 5"
abbreviation (input) ADC_STAT_EOIC :: "reg" where "ADC_STAT_EOIC \<equiv> BIT 2"
abbreviation (input) ADC_INT_FLAG_EOIC :: "reg" where "ADC_INT_FLAG_EOIC \<equiv> ADC_STAT_EOIC"
abbreviation (input) ADC_CTL0_EOICIE :: "reg" where "ADC_CTL0_EOICIE \<equiv> BIT 7"
abbreviation (input) ADC_INT_WDE :: "reg" where "ADC_INT_WDE \<equiv> ADC_STAT_WDE"
abbreviation (input) ADC_INT_EOC :: "reg" where "ADC_INT_EOC \<equiv> ADC_STAT_EOC"
abbreviation (input) ADC_INT_EOIC :: "reg" where "ADC_INT_EOIC \<equiv> ADC_STAT_EOIC"
abbreviation (input) ADC_OVSCR :: "reg \<Rightarrow> 32 word" where "ADC_OVSCR adcx \<equiv> adcx + 0x80"
abbreviation (input) ADC_OVSCR_DRES :: "reg" where "ADC_OVSCR_DRES \<equiv> BITS 12 13"
abbreviation (input) ADC_OVSCR_TOVS :: "reg" where "ADC_OVSCR_TOVS \<equiv> BIT 9"
abbreviation (input) ADC_OVSCR_OVSR :: "reg" where "ADC_OVSCR_OVSR \<equiv> BITS 2 4"
abbreviation (input) ADC_OVSCR_OVSS :: "reg" where "ADC_OVSCR_OVSS \<equiv> BITS 5 8"
abbreviation (input) ADC_OVSCR_OVSEN :: "reg" where "ADC_OVSCR_OVSEN \<equiv> BIT 0"
abbreviation (input) ADC_CTL1_CLB :: "reg" where "ADC_CTL1_CLB \<equiv> BIT 2"
abbreviation (input) ADC_CTL1_RSTCLB :: "reg" where "ADC_CTL1_RSTCLB \<equiv> BIT 3"
abbreviation (input) ADC_INSERTED_CHANNEL_RANK_LENGTH :: "reg" where "ADC_INSERTED_CHANNEL_RANK_LENGTH \<equiv> 5"
abbreviation (input) ADC_INSERTED_CHANNEL_SHIFT_LENGTH :: "reg" where "ADC_INSERTED_CHANNEL_SHIFT_LENGTH \<equiv> 15"
abbreviation (input) ADC_ISQ_ISQN :: "reg" where "ADC_ISQ_ISQN \<equiv> BITS 0 4"

section \<open>Operations\<close>

definition adc_deinit :: "'h bus \<Rightarrow> reg \<Rightarrow> 'h \<Rightarrow> 'h" where
  "adc_deinit B adc_periph h =
     (if adc_periph = ADC0
      then reset_pulse B RCU_ADC0RST h
      else if adc_periph = ADC1
      then reset_pulse B RCU_ADC1RST h
      else h)"

definition adc_mode_config :: "'h bus \<Rightarrow> reg \<Rightarrow> 'h \<Rightarrow> 'h" where
  "adc_mode_config B mode h =
     (let h = clear_bits B (ADC_CTL0 ADC0) ADC_CTL0_SYNCM h
      in set_bits B (ADC_CTL0 ADC0) mode h)"

definition adc_special_function_config :: "'h bus \<Rightarrow> reg \<Rightarrow> reg \<Rightarrow> bool \<Rightarrow> 'h \<Rightarrow> 'h" where
  "adc_special_function_config B adc_periph func newvalue h =
     (if newvalue
      then (let h = (if func AND ADC_SCAN_MODE \<noteq> 0
                     then set_bits B (ADC_CTL0 adc_periph) ADC_SCAN_MODE h
                     else h);
                h = (if func AND ADC_INSERTED_CHANNEL_AUTO \<noteq> 0
                     then set_bits B (ADC_CTL0 adc_periph) ADC_INSERTED_CHANNEL_AUTO h
                     else h)
            in if func AND ADC_CONTINUOUS_MODE \<noteq> 0
               then set_bits B (ADC_CTL1 adc_periph) ADC_CONTINUOUS_MODE h
               else h)
      else (let h = (if func AND ADC_SCAN_MODE \<noteq> 0
                     then clear_bits B (ADC_CTL0 adc_periph) ADC_SCAN_MODE h
                     else h);
                h = (if func AND ADC_INSERTED_CHANNEL_AUTO \<noteq> 0
                     then clear_bits B (ADC_CTL0 adc_periph) ADC_INSERTED_CHANNEL_AUTO h
                     else h)
            in if func AND ADC_CONTINUOUS_MODE \<noteq> 0
               then clear_bits B (ADC_CTL1 adc_periph) ADC_CONTINUOUS_MODE h
               else h))"

definition adc_data_alignment_config :: "'h bus \<Rightarrow> reg \<Rightarrow> reg \<Rightarrow> 'h \<Rightarrow> 'h" where
  "adc_data_alignment_config B adc_periph data_alignment h =
     (if data_alignment \<noteq> ADC_DATAALIGN_RIGHT
      then set_bits B (ADC_CTL1 adc_periph) ADC_CTL1_DAL h
      else clear_bits B (ADC_CTL1 adc_periph) ADC_CTL1_DAL h)"

definition adc_enable :: "'h bus \<Rightarrow> reg \<Rightarrow> 'h \<Rightarrow> 'h" where
  "adc_enable B adc_periph h =
     (let (v, h) = rd32 B (ADC_CTL1 adc_periph) h
      in if v AND ADC_CTL1_ADCON = 0 then set_bits B (ADC_CTL1 adc_periph) ADC_CTL1_ADCON h
         else h)"

definition adc_disable :: "'h bus \<Rightarrow> reg \<Rightarrow> 'h \<Rightarrow> 'h" where
  "adc_disable B adc_periph h = clear_bits B (ADC_CTL1 adc_periph) ADC_CTL1_ADCON h"

definition adc_tempsensor_vrefint_enable :: "'h bus \<Rightarrow> 'h \<Rightarrow> 'h" where
  "adc_tempsensor_vrefint_enable B h = set_bits B (ADC_CTL1 ADC0) ADC_CTL1_TSVREN h"

definition adc_tempsensor_vrefint_disable :: "'h bus \<Rightarrow> 'h \<Rightarrow> 'h" where
  "adc_tempsensor_vrefint_disable B h = clear_bits B (ADC_CTL1 ADC0) ADC_CTL1_TSVREN h"

definition adc_dma_mode_enable :: "'h bus \<Rightarrow> reg \<Rightarrow> 'h \<Rightarrow> 'h" where
  "adc_dma_mode_enable B adc_periph h = set_bits B (ADC_CTL1 adc_periph) ADC_CTL1_DMA h"

definition adc_dma_mode_disable :: "'h bus \<Rightarrow> reg \<Rightarrow> 'h \<Rightarrow> 'h" where
  "adc_dma_mode_disable B adc_periph h = clear_bits B (ADC_CTL1 adc_periph) ADC_CTL1_DMA h"

definition adc_discontinuous_mode_config :: "'h bus \<Rightarrow> reg \<Rightarrow> 8 word \<Rightarrow> 8 word \<Rightarrow> 'h \<Rightarrow> 'h" where
  "adc_discontinuous_mode_config B adc_periph adc_channel_group len h =
     (let h = clear_bits B (ADC_CTL0 adc_periph) (ADC_CTL0_DISRC OR ADC_CTL0_DISIC) h
      in if ucast adc_channel_group = ADC_REGULAR_CHANNEL
         then (let h = clear_bits B (ADC_CTL0 adc_periph) ADC_CTL0_DISNUM h;
                   h = set_bits B (ADC_CTL0 adc_periph) (CTL0_DISNUM (ucast len - ADC_CHANNEL_LENGTH_SUBTRACT_ONE)) h
               in set_bits B (ADC_CTL0 adc_periph) ADC_CTL0_DISRC h)
         else if ucast adc_channel_group = ADC_INSERTED_CHANNEL
         then set_bits B (ADC_CTL0 adc_periph) ADC_CTL0_DISIC h
         else h)"

definition adc_channel_length_config :: "'h bus \<Rightarrow> reg \<Rightarrow> 8 word \<Rightarrow> reg \<Rightarrow> 'h \<Rightarrow> 'h" where
  "adc_channel_length_config B adc_periph adc_channel_group len h =
     (if ucast adc_channel_group = ADC_REGULAR_CHANNEL
      then (let h = clear_bits B (ADC_RSQ0 adc_periph) ADC_RSQ0_RL h
            in set_bits B (ADC_RSQ0 adc_periph) (RSQ0_RL (len - ADC_CHANNEL_LENGTH_SUBTRACT_ONE)) h)
      else if ucast adc_channel_group = ADC_INSERTED_CHANNEL
      then (let h = clear_bits B (ADC_ISQ adc_periph) ADC_ISQ_IL h
            in set_bits B (ADC_ISQ adc_periph) (ISQ_IL (len - ADC_CHANNEL_LENGTH_SUBTRACT_ONE)) h)
      else h)"

definition adc_regular_channel_config :: "'h bus \<Rightarrow> reg \<Rightarrow> 8 word \<Rightarrow> 8 word \<Rightarrow> reg \<Rightarrow> 'h \<Rightarrow> 'h" where
  "adc_regular_channel_config B adc_periph rank adc_channel sample_time h =
     (let h = (if ucast rank < ADC_REGULAR_CHANNEL_RANK_SIX
               then (let (rsq, h) = rd32 B (ADC_RSQ2 adc_periph) h;
                         rsq = rsq AND NOT (push_bit (unat (ADC_REGULAR_CHANNEL_RANK_LENGTH * ucast rank)) ADC_RSQX_RSQN);
                         rsq = rsq OR
                               (push_bit (unat (ADC_REGULAR_CHANNEL_RANK_LENGTH * ucast rank)) (ucast adc_channel))
                     in wr32 B (ADC_RSQ2 adc_periph) rsq h)
               else if ucast rank < ADC_REGULAR_CHANNEL_RANK_TWELVE
               then (let (rsq, h) = rd32 B (ADC_RSQ1 adc_periph) h;
                         rsq = rsq AND NOT (push_bit (unat (ADC_REGULAR_CHANNEL_RANK_LENGTH * (ucast rank - ADC_REGULAR_CHANNEL_RANK_SIX))) ADC_RSQX_RSQN);
                         rsq = rsq OR
                               (push_bit (unat (ADC_REGULAR_CHANNEL_RANK_LENGTH * (ucast rank - ADC_REGULAR_CHANNEL_RANK_SIX))) (ucast adc_channel))
                     in wr32 B (ADC_RSQ1 adc_periph) rsq h)
               else if ucast rank < ADC_REGULAR_CHANNEL_RANK_SIXTEEN
               then (let (rsq, h) = rd32 B (ADC_RSQ0 adc_periph) h;
                         rsq = rsq AND NOT (push_bit (unat (ADC_REGULAR_CHANNEL_RANK_LENGTH * (ucast rank - ADC_REGULAR_CHANNEL_RANK_TWELVE))) ADC_RSQX_RSQN);
                         rsq = rsq OR
                               (push_bit (unat (ADC_REGULAR_CHANNEL_RANK_LENGTH * (ucast rank - ADC_REGULAR_CHANNEL_RANK_TWELVE))) (ucast adc_channel))
                     in wr32 B (ADC_RSQ0 adc_periph) rsq h)
               else h)
      in if ucast adc_channel < ADC_CHANNEL_SAMPLE_TEN
         then (let (sampt, h) = rd32 B (ADC_SAMPT1 adc_periph) h;
                   sampt = sampt AND NOT (push_bit (unat (ADC_CHANNEL_SAMPLE_LENGTH * ucast adc_channel)) ADC_SAMPTX_SPTN);
                   sampt = sampt OR
                         push_bit (unat (ADC_CHANNEL_SAMPLE_LENGTH * ucast adc_channel)) sample_time
               in wr32 B (ADC_SAMPT1 adc_periph) sampt h)
         else if ucast adc_channel < ADC_CHANNEL_SAMPLE_EIGHTEEN
         then (let (sampt, h) = rd32 B (ADC_SAMPT0 adc_periph) h;
                   sampt = sampt AND NOT (push_bit (unat (ADC_CHANNEL_SAMPLE_LENGTH * (ucast adc_channel - ADC_CHANNEL_SAMPLE_TEN))) ADC_SAMPTX_SPTN);
                   sampt = sampt OR
                         push_bit (unat (ADC_CHANNEL_SAMPLE_LENGTH * (ucast adc_channel - ADC_CHANNEL_SAMPLE_TEN))) sample_time
               in wr32 B (ADC_SAMPT0 adc_periph) sampt h)
         else h)"

definition adc_inserted_channel_offset_config :: "'h bus \<Rightarrow> reg \<Rightarrow> 8 word \<Rightarrow> 16 word \<Rightarrow> 'h \<Rightarrow> 'h" where
  "adc_inserted_channel_offset_config B adc_periph inserted_channel offset h =
     (let (v, h) = rd32 B (ADC_ISQ adc_periph) h;
          inserted_length = (ucast (GET_BITS v 20 21) :: 8 word);
          num = ADC_OFFSET_LENGTH - (ucast inserted_length - ucast inserted_channel)
      in if num \<le> ADC_OFFSET_LENGTH
         then (let num = num * ADC_OFFSET_SHIFT_LENGTH
               in wr32 B (adc_periph + 0x14 + num) (IOFFX_IOFF (ucast offset)) h)
         else h)"

definition adc_external_trigger_source_config :: "'h bus \<Rightarrow> reg \<Rightarrow> 8 word \<Rightarrow> reg \<Rightarrow> 'h \<Rightarrow> 'h" where
  "adc_external_trigger_source_config B adc_periph adc_channel_group external_trigger_source h =
     (if ucast adc_channel_group = ADC_REGULAR_CHANNEL
      then (let h = clear_bits B (ADC_CTL1 adc_periph) ADC_CTL1_ETSRC h
            in set_bits B (ADC_CTL1 adc_periph) external_trigger_source h)
      else if ucast adc_channel_group = ADC_INSERTED_CHANNEL
      then (let h = clear_bits B (ADC_CTL1 adc_periph) ADC_CTL1_ETSIC h
            in set_bits B (ADC_CTL1 adc_periph) external_trigger_source h)
      else h)"

definition adc_external_trigger_config :: "'h bus \<Rightarrow> reg \<Rightarrow> 8 word \<Rightarrow> bool \<Rightarrow> 'h \<Rightarrow> 'h" where
  "adc_external_trigger_config B adc_periph adc_channel_group newvalue h =
     (if newvalue
      then (let h = (if ucast adc_channel_group AND ADC_REGULAR_CHANNEL \<noteq> 0
                     then set_bits B (ADC_CTL1 adc_periph) ADC_CTL1_ETERC h
                     else h)
            in if ucast adc_channel_group AND ADC_INSERTED_CHANNEL \<noteq> 0
               then set_bits B (ADC_CTL1 adc_periph) ADC_CTL1_ETEIC h
               else h)
      else (let h = (if ucast adc_channel_group AND ADC_REGULAR_CHANNEL \<noteq> 0
                     then clear_bits B (ADC_CTL1 adc_periph) ADC_CTL1_ETERC h
                     else h)
            in if ucast adc_channel_group AND ADC_INSERTED_CHANNEL \<noteq> 0
               then clear_bits B (ADC_CTL1 adc_periph) ADC_CTL1_ETEIC h
               else h))"

definition adc_software_trigger_enable :: "'h bus \<Rightarrow> reg \<Rightarrow> 8 word \<Rightarrow> 'h \<Rightarrow> 'h" where
  "adc_software_trigger_enable B adc_periph adc_channel_group h =
     (let h = (if ucast adc_channel_group AND ADC_REGULAR_CHANNEL \<noteq> 0
               then set_bits B (ADC_CTL1 adc_periph) ADC_CTL1_SWRCST h
               else h)
      in if ucast adc_channel_group AND ADC_INSERTED_CHANNEL \<noteq> 0
         then set_bits B (ADC_CTL1 adc_periph) ADC_CTL1_SWICST h
         else h)"

definition adc_regular_data_read :: "'h bus \<Rightarrow> reg \<Rightarrow> 'h \<Rightarrow> 16 word \<times> 'h" where
  "adc_regular_data_read B adc_periph h =
     (let (v, h) = rd32 B (ADC_RDATA adc_periph) h
      in (ucast v, h))"

definition adc_inserted_data_read :: "'h bus \<Rightarrow> reg \<Rightarrow> 8 word \<Rightarrow> 'h \<Rightarrow> 16 word \<times> 'h" where
  "adc_inserted_data_read B adc_periph inserted_channel h =
     (let (idata, h) =
            (if ucast inserted_channel = ADC_INSERTED_CHANNEL_0 then rd32 B (ADC_IDATA0 adc_periph) h
             else if ucast inserted_channel = ADC_INSERTED_CHANNEL_1 then rd32 B (ADC_IDATA1 adc_periph) h
             else if ucast inserted_channel = ADC_INSERTED_CHANNEL_2 then rd32 B (ADC_IDATA2 adc_periph) h
             else if ucast inserted_channel = ADC_INSERTED_CHANNEL_3 then rd32 B (ADC_IDATA3 adc_periph) h
             else (let idata = (0 :: reg)
                   in (idata, h)))
      in (ucast idata, h))"

definition adc_sync_mode_convert_value_read :: "'h bus \<Rightarrow> 'h \<Rightarrow> reg \<times> 'h" where
  "adc_sync_mode_convert_value_read B h = rd32 B (ADC_RDATA ADC0) h"

definition adc_watchdog_single_channel_enable :: "'h bus \<Rightarrow> reg \<Rightarrow> 8 word \<Rightarrow> 'h \<Rightarrow> 'h" where
  "adc_watchdog_single_channel_enable B adc_periph adc_channel h =
     (let h = clear_bits B (ADC_CTL0 adc_periph) (ADC_CTL0_RWDEN OR ADC_CTL0_IWDEN OR ADC_CTL0_WDSC OR
                ADC_CTL0_WDCHSEL) h;
          h = set_bits B (ADC_CTL0 adc_periph) (ucast adc_channel) h
      in set_bits B (ADC_CTL0 adc_periph) (ADC_CTL0_RWDEN OR ADC_CTL0_IWDEN OR ADC_CTL0_WDSC) h)"

definition adc_watchdog_group_channel_enable :: "'h bus \<Rightarrow> reg \<Rightarrow> 8 word \<Rightarrow> 'h \<Rightarrow> 'h" where
  "adc_watchdog_group_channel_enable B adc_periph adc_channel_group h =
     (let h = clear_bits B (ADC_CTL0 adc_periph) (ADC_CTL0_RWDEN OR ADC_CTL0_IWDEN OR ADC_CTL0_WDSC) h
      in if ucast adc_channel_group = ADC_REGULAR_CHANNEL
         then set_bits B (ADC_CTL0 adc_periph) ADC_CTL0_RWDEN h
         else if ucast adc_channel_group = ADC_INSERTED_CHANNEL
         then set_bits B (ADC_CTL0 adc_periph) ADC_CTL0_IWDEN h
         else if ucast adc_channel_group = ADC_REGULAR_INSERTED_CHANNEL
         then set_bits B (ADC_CTL0 adc_periph) (ADC_CTL0_RWDEN OR ADC_CTL0_IWDEN) h
         else h)"

definition adc_watchdog_disable :: "'h bus \<Rightarrow> reg \<Rightarrow> 'h \<Rightarrow> 'h" where
  "adc_watchdog_disable B adc_periph h =
     clear_bits B (ADC_CTL0 adc_periph) (ADC_CTL0_RWDEN OR ADC_CTL0_IWDEN OR ADC_CTL0_WDSC OR
       ADC_CTL0_WDCHSEL) h"

definition adc_watchdog_threshold_config :: "'h bus \<Rightarrow> reg \<Rightarrow> 16 word \<Rightarrow> 16 word \<Rightarrow> 'h \<Rightarrow> 'h" where
  "adc_watchdog_threshold_config B adc_periph low_threshold high_threshold h =
     (let h = wr32 B (ADC_WDLT adc_periph) (WDLT_WDLT (ucast low_threshold)) h
      in wr32 B (ADC_WDHT adc_periph) (WDHT_WDHT (ucast high_threshold)) h)"

definition adc_flag_get :: "'h bus \<Rightarrow> reg \<Rightarrow> reg \<Rightarrow> 'h \<Rightarrow> bool \<times> 'h" where
  "adc_flag_get B adc_periph adc_flag h =
     (let reval = False;
          (v, h) = rd32 B (ADC_STAT adc_periph) h;
          reval =
            (if v AND adc_flag \<noteq> 0 then True
             else reval)
      in (reval, h))"

definition adc_flag_clear :: "'h bus \<Rightarrow> reg \<Rightarrow> reg \<Rightarrow> 'h \<Rightarrow> 'h" where
  "adc_flag_clear B adc_periph adc_flag h = clear_bits B (ADC_STAT adc_periph) adc_flag h"

definition adc_regular_software_startconv_flag_get :: "'h bus \<Rightarrow> reg \<Rightarrow> 'h \<Rightarrow> bool \<times> 'h" where
  "adc_regular_software_startconv_flag_get B adc_periph h =
     (let reval = False;
          (v, h) = rd32 B (ADC_CTL1 adc_periph) h;
          reval =
            (if v AND ADC_CTL1_SWRCST \<noteq> 0 then True
             else reval)
      in (reval, h))"

definition adc_inserted_software_startconv_flag_get :: "'h bus \<Rightarrow> reg \<Rightarrow> 'h \<Rightarrow> bool \<times> 'h" where
  "adc_inserted_software_startconv_flag_get B adc_periph h =
     (let reval = False;
          (v, h) = rd32 B (ADC_CTL1 adc_periph) h;
          reval =
            (if v AND ADC_CTL1_SWICST \<noteq> 0 then True
             else reval)
      in (reval, h))"

definition adc_interrupt_flag_get :: "'h bus \<Rightarrow> reg \<Rightarrow> reg \<Rightarrow> 'h \<Rightarrow> bool \<times> 'h" where
  "adc_interrupt_flag_get B adc_periph adc_interrupt h =
     (let interrupt_flag = False;
          (interrupt_flag, h) =
            (if adc_interrupt = ADC_INT_FLAG_WDE
             then (let (v, h) = rd32 B (ADC_STAT adc_periph) h;
                       stat = v AND ADC_STAT_WDE;
                       (v2, h) = rd32 B (ADC_CTL0 adc_periph) h;
                       interrupt_flag =
                         (if v2 AND ADC_CTL0_WDEIE \<noteq> 0 \<and> stat \<noteq> 0 then True
                          else interrupt_flag)
                   in (interrupt_flag, h))
             else if adc_interrupt = ADC_INT_FLAG_EOC
             then (let (v, h) = rd32 B (ADC_STAT adc_periph) h;
                       stat = v AND ADC_STAT_EOC;
                       (v2, h) = rd32 B (ADC_CTL0 adc_periph) h;
                       interrupt_flag =
                         (if v2 AND ADC_CTL0_EOCIE \<noteq> 0 \<and> stat \<noteq> 0 then True
                          else interrupt_flag)
                   in (interrupt_flag, h))
             else if adc_interrupt = ADC_INT_FLAG_EOIC
             then (let (v, h) = rd32 B (ADC_STAT adc_periph) h;
                       stat = v AND ADC_STAT_EOIC;
                       (v2, h) = rd32 B (ADC_CTL0 adc_periph) h;
                       interrupt_flag =
                         (if v2 AND ADC_CTL0_EOICIE \<noteq> 0 \<and> stat \<noteq> 0 then True
                          else interrupt_flag)
                   in (interrupt_flag, h))
             else (interrupt_flag, h))
      in (interrupt_flag, h))"

definition adc_interrupt_flag_clear :: "'h bus \<Rightarrow> reg \<Rightarrow> reg \<Rightarrow> 'h \<Rightarrow> 'h" where
  "adc_interrupt_flag_clear B adc_periph adc_interrupt h =
     clear_bits B (ADC_STAT adc_periph) adc_interrupt h"

definition adc_interrupt_enable :: "'h bus \<Rightarrow> reg \<Rightarrow> reg \<Rightarrow> 'h \<Rightarrow> 'h" where
  "adc_interrupt_enable B adc_periph adc_interrupt h =
     (let h = (if adc_interrupt AND ADC_INT_WDE \<noteq> 0
               then set_bits B (ADC_CTL0 adc_periph) ADC_CTL0_WDEIE h
               else h);
          h = (if adc_interrupt AND ADC_INT_EOC \<noteq> 0
               then set_bits B (ADC_CTL0 adc_periph) ADC_CTL0_EOCIE h
               else h)
      in if adc_interrupt AND ADC_INT_EOIC \<noteq> 0
         then set_bits B (ADC_CTL0 adc_periph) ADC_CTL0_EOICIE h
         else h)"

definition adc_interrupt_disable :: "'h bus \<Rightarrow> reg \<Rightarrow> reg \<Rightarrow> 'h \<Rightarrow> 'h" where
  "adc_interrupt_disable B adc_periph adc_interrupt h =
     (let h = (if adc_interrupt AND ADC_INT_WDE \<noteq> 0
               then clear_bits B (ADC_CTL0 adc_periph) ADC_CTL0_WDEIE h
               else h);
          h = (if adc_interrupt AND ADC_INT_EOC \<noteq> 0
               then clear_bits B (ADC_CTL0 adc_periph) ADC_CTL0_EOCIE h
               else h)
      in if adc_interrupt AND ADC_INT_EOIC \<noteq> 0
         then clear_bits B (ADC_CTL0 adc_periph) ADC_CTL0_EOICIE h
         else h)"

definition adc_resolution_config :: "'h bus \<Rightarrow> reg \<Rightarrow> reg \<Rightarrow> 'h \<Rightarrow> 'h" where
  "adc_resolution_config B adc_periph resolution h =
     (let h = clear_bits B (ADC_OVSCR adc_periph) ADC_OVSCR_DRES h
      in set_bits B (ADC_OVSCR adc_periph) resolution h)"

definition adc_oversample_mode_config :: "'h bus \<Rightarrow> reg \<Rightarrow> 8 word \<Rightarrow> 16 word \<Rightarrow> 8 word \<Rightarrow> 'h \<Rightarrow> 'h" where
  "adc_oversample_mode_config B adc_periph mode shift ratio h =
     (let h = (if mode \<noteq> 0 then set_bits B (ADC_OVSCR adc_periph) ADC_OVSCR_TOVS h
               else clear_bits B (ADC_OVSCR adc_periph) ADC_OVSCR_TOVS h);
          h = clear_bits B (ADC_OVSCR adc_periph) (ADC_OVSCR_OVSR OR ADC_OVSCR_OVSS) h
      in set_bits B (ADC_OVSCR adc_periph) (ucast shift OR ucast ratio) h)"

definition adc_oversample_mode_enable :: "'h bus \<Rightarrow> reg \<Rightarrow> 'h \<Rightarrow> 'h" where
  "adc_oversample_mode_enable B adc_periph h = set_bits B (ADC_OVSCR adc_periph) ADC_OVSCR_OVSEN h"

definition adc_oversample_mode_disable :: "'h bus \<Rightarrow> reg \<Rightarrow> 'h \<Rightarrow> 'h" where
  "adc_oversample_mode_disable B adc_periph h =
     clear_bits B (ADC_OVSCR adc_periph) ADC_OVSCR_OVSEN h"

definition adc_calibration_enable :: "'h bus \<Rightarrow> reg \<Rightarrow> 'h \<Rightarrow> 'h option" where
  "adc_calibration_enable B adc_periph h =
     (let h = set_bits B (ADC_CTL1 adc_periph) ADC_CTL1_RSTCLB h
      in case spin_while B (ADC_CTL1 adc_periph) (\<lambda>v. v AND ADC_CTL1_RSTCLB \<noteq> 0) h of
           None \<Rightarrow> None
         | Some h \<Rightarrow> (let h = set_bits B (ADC_CTL1 adc_periph) ADC_CTL1_CLB h
                     in spin_while B (ADC_CTL1 adc_periph) (\<lambda>v. v AND ADC_CTL1_CLB \<noteq> 0) h))"

text \<open>The shift of the field of an inserted channel is computed from the length of the sequence and the
  rank; a rank above the length by more than three makes it a shift by the width or more.\<close>

definition inserted_shift :: "8 word \<Rightarrow> 8 word \<Rightarrow> reg" where
  "inserted_shift inserted_length rank =
     ADC_INSERTED_CHANNEL_SHIFT_LENGTH - ((ucast inserted_length - ucast rank) * ADC_INSERTED_CHANNEL_RANK_LENGTH)"

definition adc_inserted_channel_config :: "'h bus \<Rightarrow> reg \<Rightarrow> 8 word \<Rightarrow> 8 word \<Rightarrow> reg \<Rightarrow> 'h \<Rightarrow> 'h outcome" where
  "adc_inserted_channel_config B adc_periph rank adc_channel sample_time h =
     (let (v, h) = rd32 B (ADC_ISQ adc_periph) h;
          inserted_length = (ucast (GET_BITS v 20 21) :: 8 word);
          (isq, h) = rd32 B (ADC_ISQ adc_periph) h;
          sh = inserted_shift inserted_length rank
      in bindo (shl ADC_ISQ_ISQN sh) (\<lambda>msk.
         bindo (shl (ucast adc_channel) sh) (\<lambda>new.
         let isq = isq AND NOT msk;
             isq = isq OR new;
             h = wr32 B (ADC_ISQ adc_periph) isq h
         in Ret (if ucast adc_channel < ADC_CHANNEL_SAMPLE_TEN
                 then (let (sampt, h) = rd32 B (ADC_SAMPT1 adc_periph) h;
                           sh = unat (ADC_CHANNEL_SAMPLE_LENGTH * ucast adc_channel);
                           sampt = sampt AND NOT (push_bit sh ADC_SAMPTX_SPTN);
                           sampt = sampt OR push_bit sh sample_time
                       in wr32 B (ADC_SAMPT1 adc_periph) sampt h)
                 else if ucast adc_channel < ADC_CHANNEL_SAMPLE_EIGHTEEN
                 then (let (sampt, h) = rd32 B (ADC_SAMPT0 adc_periph) h;
                           sh = unat (ADC_CHANNEL_SAMPLE_LENGTH * (ucast adc_channel - ADC_CHANNEL_SAMPLE_TEN));
                           sampt = sampt AND NOT (push_bit sh ADC_SAMPTX_SPTN);
                           sampt = sampt OR push_bit sh sample_time
                       in wr32 B (ADC_SAMPT0 adc_periph) sampt h)
                 else h))))"

end
