(* ===== verification/Bkp.thy ===== *)
theory Bkp
  imports Rcu
begin

text \<open>
  \<open>gd32vf103_rtc.c\<close>: the real-time clock, whose counter, prescaler, alarm and divider are halves in
  two registers each.
\<close>

section \<open>Registers\<close>

abbreviation (input) RTC_BASE :: "reg" where "RTC_BASE \<equiv> APB1_BUS_BASE + 0x2800"
abbreviation (input) RTC :: "reg" where "RTC \<equiv> RTC_BASE"
abbreviation (input) RTC_CTL :: "32 word" where "RTC_CTL \<equiv> RTC + 4"
abbreviation (input) RTC_CTL_CMF :: "reg" where "RTC_CTL_CMF \<equiv> BIT 4"
abbreviation (input) RTC_CNTH :: "32 word" where "RTC_CNTH \<equiv> RTC + 0x18"
abbreviation (input) RTC_HIGH_BITS_OFFSET :: "reg" where "RTC_HIGH_BITS_OFFSET \<equiv> 16"
abbreviation (input) RTC_CNTL :: "32 word" where "RTC_CNTL \<equiv> RTC + 0x1c"
abbreviation (input) RTC_LOW_BITS_MASK :: "reg" where "RTC_LOW_BITS_MASK \<equiv> 0xffff"
abbreviation (input) RTC_PSCH :: "32 word" where "RTC_PSCH \<equiv> RTC + 8"
abbreviation (input) RTC_HIGH_BITS_MASK :: "reg" where "RTC_HIGH_BITS_MASK \<equiv> 0xf0000"
abbreviation (input) RTC_PSCL :: "32 word" where "RTC_PSCL \<equiv> RTC + 0xc"
abbreviation (input) RTC_ALRMH :: "32 word" where "RTC_ALRMH \<equiv> RTC + 0x20"
abbreviation (input) RTC_ALRML :: "32 word" where "RTC_ALRML \<equiv> RTC + 0x24"
abbreviation (input) RTC_DIVH :: "32 word" where "RTC_DIVH \<equiv> RTC + 0x10"
abbreviation (input) RTC_DIVH_DIV :: "reg" where "RTC_DIVH_DIV \<equiv> BITS 0 3"
abbreviation (input) RTC_DIVL :: "32 word" where "RTC_DIVL \<equiv> RTC + 0x14"
abbreviation (input) RTC_INTEN :: "32 word" where "RTC_INTEN \<equiv> RTC + 0"
abbreviation (input) RTC_CTL_LWOFF :: "reg" where "RTC_CTL_LWOFF \<equiv> BIT 5"
abbreviation (input) RTC_CTL_RSYNF :: "reg" where "RTC_CTL_RSYNF \<equiv> BIT 3"

section \<open>Operations\<close>

definition rtc_configuration_mode_enter :: "'h bus \<Rightarrow> 'h \<Rightarrow> 'h" where
  "rtc_configuration_mode_enter B h = set_bits B RTC_CTL RTC_CTL_CMF h"

definition rtc_configuration_mode_exit :: "'h bus \<Rightarrow> 'h \<Rightarrow> 'h" where
  "rtc_configuration_mode_exit B h = clear_bits B RTC_CTL RTC_CTL_CMF h"

definition rtc_counter_set :: "'h bus \<Rightarrow> reg \<Rightarrow> 'h \<Rightarrow> 'h" where
  "rtc_counter_set B cnt h =
     (let h = rtc_configuration_mode_enter B h;
          h = wr32 B RTC_CNTH (drop_bit (unat RTC_HIGH_BITS_OFFSET) cnt) h;
          h = wr32 B RTC_CNTL (cnt AND RTC_LOW_BITS_MASK) h
      in rtc_configuration_mode_exit B h)"

definition rtc_prescaler_set :: "'h bus \<Rightarrow> reg \<Rightarrow> 'h \<Rightarrow> 'h" where
  "rtc_prescaler_set B psc h =
     (let h = rtc_configuration_mode_enter B h;
          h = wr32 B RTC_PSCH (drop_bit (unat RTC_HIGH_BITS_OFFSET) (psc AND RTC_HIGH_BITS_MASK)) h;
          h = wr32 B RTC_PSCL (psc AND RTC_LOW_BITS_MASK) h
      in rtc_configuration_mode_exit B h)"

definition rtc_alarm_config :: "'h bus \<Rightarrow> reg \<Rightarrow> 'h \<Rightarrow> 'h" where
  "rtc_alarm_config B alarm h =
     (let h = rtc_configuration_mode_enter B h;
          h = wr32 B RTC_ALRMH (drop_bit (unat RTC_HIGH_BITS_OFFSET) alarm) h;
          h = wr32 B RTC_ALRML (alarm AND RTC_LOW_BITS_MASK) h
      in rtc_configuration_mode_exit B h)"

definition rtc_counter_get :: "'h bus \<Rightarrow> 'h \<Rightarrow> reg \<times> 'h" where
  "rtc_counter_get B h =
     (let (temp, h) = rd32 B RTC_CNTL h;
          (v2, h) = rd32 B RTC_CNTH h;
          temp = temp OR (push_bit (unat RTC_HIGH_BITS_OFFSET) v2)
      in (temp, h))"

definition rtc_divider_get :: "'h bus \<Rightarrow> 'h \<Rightarrow> reg \<times> 'h" where
  "rtc_divider_get B h =
     (let (v, h) = rd32 B RTC_DIVH h;
          temp = push_bit (unat RTC_HIGH_BITS_OFFSET) (v AND RTC_DIVH_DIV);
          (v2, h) = rd32 B RTC_DIVL h;
          temp = temp OR v2
      in (temp, h))"

definition rtc_flag_get :: "'h bus \<Rightarrow> reg \<Rightarrow> 'h \<Rightarrow> bool \<times> 'h" where
  "rtc_flag_get B flg h = any_set B RTC_CTL flg h"

definition rtc_flag_clear :: "'h bus \<Rightarrow> reg \<Rightarrow> 'h \<Rightarrow> 'h" where
  "rtc_flag_clear B flg h = clear_bits B RTC_CTL flg h"

definition rtc_interrupt_flag_get :: "'h bus \<Rightarrow> reg \<Rightarrow> 'h \<Rightarrow> bool \<times> 'h" where
  "rtc_interrupt_flag_get B flg h = any_set B RTC_CTL flg h"

definition rtc_interrupt_flag_clear :: "'h bus \<Rightarrow> reg \<Rightarrow> 'h \<Rightarrow> 'h" where
  "rtc_interrupt_flag_clear B flg h = clear_bits B RTC_CTL flg h"

definition rtc_interrupt_enable :: "'h bus \<Rightarrow> reg \<Rightarrow> 'h \<Rightarrow> 'h" where
  "rtc_interrupt_enable B interrupt h = set_bits B RTC_INTEN interrupt h"

definition rtc_interrupt_disable :: "'h bus \<Rightarrow> reg \<Rightarrow> 'h \<Rightarrow> 'h" where
  "rtc_interrupt_disable B interrupt h = clear_bits B RTC_INTEN interrupt h"

definition rtc_lwoff_wait :: "'h bus \<Rightarrow> 'h \<Rightarrow> 'h option" where
  "rtc_lwoff_wait B h = spin_while B RTC_CTL (\<lambda>v. v AND RTC_CTL_LWOFF = 0) h"

definition rtc_register_sync_wait :: "'h bus \<Rightarrow> 'h \<Rightarrow> 'h option" where
  "rtc_register_sync_wait B h =
     (let h = clear_bits B RTC_CTL RTC_CTL_RSYNF h
      in spin_while B RTC_CTL (\<lambda>v. v AND RTC_CTL_RSYNF = 0) h)"

text \<open>
  \<open>gd32vf103_bkp.c\<close>: the backup registers, 42 data words of 16 bits and the tamper detection.
\<close>

section \<open>Registers\<close>

abbreviation (input) BKP_BASE :: "reg" where "BKP_BASE \<equiv> APB1_BUS_BASE + 0x6c00"
abbreviation (input) BKP :: "reg" where "BKP \<equiv> BKP_BASE"
abbreviation (input) BKP_DATA10_41 :: "reg \<Rightarrow> 32 word" where "BKP_DATA10_41 number \<equiv> BKP + 0x40 + ((number - 10) * 4)"
abbreviation (input) BKP_DATA0_9 :: "reg \<Rightarrow> 32 word" where "BKP_DATA0_9 number \<equiv> BKP + 4 + (number * 4)"
abbreviation (input) BKP_OCTL :: "32 word" where "BKP_OCTL \<equiv> BKP + 0x2c"
abbreviation (input) BKP_OCTL_COEN :: "reg" where "BKP_OCTL_COEN \<equiv> BIT 7"
abbreviation (input) BKP_OCTL_ASOEN :: "reg" where "BKP_OCTL_ASOEN \<equiv> BIT 8"
abbreviation (input) BKP_OCTL_ROSEL :: "reg" where "BKP_OCTL_ROSEL \<equiv> BIT 9"
abbreviation (input) BKP_OCTL_RCCV :: "reg" where "BKP_OCTL_RCCV \<equiv> BITS 0 6"
abbreviation (input) OCTL_RCCV :: "reg \<Rightarrow> reg" where "OCTL_RCCV regval \<equiv> BITS 0 6 AND (push_bit 0 regval)"
abbreviation (input) BKP_TPCTL :: "32 word" where "BKP_TPCTL \<equiv> BKP + 0x30"
abbreviation (input) BKP_TPCTL_TPEN :: "reg" where "BKP_TPCTL_TPEN \<equiv> BIT 0"
abbreviation (input) BKP_TPCTL_TPAL :: "reg" where "BKP_TPCTL_TPAL \<equiv> BIT 1"
abbreviation (input) BKP_TPCS :: "32 word" where "BKP_TPCS \<equiv> BKP + 0x34"
abbreviation (input) BKP_TPCS_TPIE :: "reg" where "BKP_TPCS_TPIE \<equiv> BIT 2"
abbreviation (input) BKP_TPCS_TEF :: "reg" where "BKP_TPCS_TEF \<equiv> BIT 8"
abbreviation (input) BKP_FLAG_TAMPER :: "reg" where "BKP_FLAG_TAMPER \<equiv> BKP_TPCS_TEF"
abbreviation (input) BKP_TAMPER_BITS_OFFSET :: "reg" where "BKP_TAMPER_BITS_OFFSET \<equiv> 8"
abbreviation (input) BKP_TPCS_TIF :: "reg" where "BKP_TPCS_TIF \<equiv> BIT 9"
abbreviation (input) BKP_INT_FLAG_TAMPER :: "reg" where "BKP_INT_FLAG_TAMPER \<equiv> BKP_TPCS_TIF"

section \<open>Types\<close>

datatype bkp_data_register =
  BKP_DATA_0 | BKP_DATA_1 | BKP_DATA_2 | BKP_DATA_3 | BKP_DATA_4 | BKP_DATA_5 | BKP_DATA_6
  | BKP_DATA_7 | BKP_DATA_8 | BKP_DATA_9 | BKP_DATA_10 | BKP_DATA_11 | BKP_DATA_12 | BKP_DATA_13
  | BKP_DATA_14 | BKP_DATA_15 | BKP_DATA_16 | BKP_DATA_17 | BKP_DATA_18 | BKP_DATA_19 | BKP_DATA_20
  | BKP_DATA_21 | BKP_DATA_22 | BKP_DATA_23 | BKP_DATA_24 | BKP_DATA_25 | BKP_DATA_26 | BKP_DATA_27
  | BKP_DATA_28 | BKP_DATA_29 | BKP_DATA_30 | BKP_DATA_31 | BKP_DATA_32 | BKP_DATA_33 | BKP_DATA_34
  | BKP_DATA_35 | BKP_DATA_36 | BKP_DATA_37 | BKP_DATA_38 | BKP_DATA_39 | BKP_DATA_40 | BKP_DATA_41

fun bkp_data_register_value :: "bkp_data_register \<Rightarrow> reg" where
  "bkp_data_register_value BKP_DATA_0 = 1"
| "bkp_data_register_value BKP_DATA_1 = 2"
| "bkp_data_register_value BKP_DATA_2 = 3"
| "bkp_data_register_value BKP_DATA_3 = 4"
| "bkp_data_register_value BKP_DATA_4 = 5"
| "bkp_data_register_value BKP_DATA_5 = 6"
| "bkp_data_register_value BKP_DATA_6 = 7"
| "bkp_data_register_value BKP_DATA_7 = 8"
| "bkp_data_register_value BKP_DATA_8 = 9"
| "bkp_data_register_value BKP_DATA_9 = 10"
| "bkp_data_register_value BKP_DATA_10 = 11"
| "bkp_data_register_value BKP_DATA_11 = 12"
| "bkp_data_register_value BKP_DATA_12 = 13"
| "bkp_data_register_value BKP_DATA_13 = 14"
| "bkp_data_register_value BKP_DATA_14 = 15"
| "bkp_data_register_value BKP_DATA_15 = 16"
| "bkp_data_register_value BKP_DATA_16 = 17"
| "bkp_data_register_value BKP_DATA_17 = 18"
| "bkp_data_register_value BKP_DATA_18 = 19"
| "bkp_data_register_value BKP_DATA_19 = 20"
| "bkp_data_register_value BKP_DATA_20 = 21"
| "bkp_data_register_value BKP_DATA_21 = 22"
| "bkp_data_register_value BKP_DATA_22 = 23"
| "bkp_data_register_value BKP_DATA_23 = 24"
| "bkp_data_register_value BKP_DATA_24 = 25"
| "bkp_data_register_value BKP_DATA_25 = 26"
| "bkp_data_register_value BKP_DATA_26 = 27"
| "bkp_data_register_value BKP_DATA_27 = 28"
| "bkp_data_register_value BKP_DATA_28 = 29"
| "bkp_data_register_value BKP_DATA_29 = 30"
| "bkp_data_register_value BKP_DATA_30 = 31"
| "bkp_data_register_value BKP_DATA_31 = 32"
| "bkp_data_register_value BKP_DATA_32 = 33"
| "bkp_data_register_value BKP_DATA_33 = 34"
| "bkp_data_register_value BKP_DATA_34 = 35"
| "bkp_data_register_value BKP_DATA_35 = 36"
| "bkp_data_register_value BKP_DATA_36 = 37"
| "bkp_data_register_value BKP_DATA_37 = 38"
| "bkp_data_register_value BKP_DATA_38 = 39"
| "bkp_data_register_value BKP_DATA_39 = 40"
| "bkp_data_register_value BKP_DATA_40 = 41"
| "bkp_data_register_value BKP_DATA_41 = 42"

section \<open>Operations\<close>

definition bkp_deinit :: "'h bus \<Rightarrow> 'h \<Rightarrow> 'h" where
  "bkp_deinit B h =
     (let h = rcu_bkp_reset_enable B h
      in rcu_bkp_reset_disable B h)"

definition bkp_data_write :: "'h bus \<Rightarrow> bkp_data_register \<Rightarrow> 16 word \<Rightarrow> 'h \<Rightarrow> 'h" where
  "bkp_data_write B register_number dat h =
     (if bkp_data_register_value BKP_DATA_10 \<le> bkp_data_register_value register_number \<and>
         bkp_data_register_value register_number \<le> bkp_data_register_value BKP_DATA_41
      then wr16 B (BKP_DATA10_41 (bkp_data_register_value register_number - 1)) dat h
      else if bkp_data_register_value BKP_DATA_0 \<le> bkp_data_register_value register_number \<and>
         bkp_data_register_value register_number \<le> bkp_data_register_value BKP_DATA_9
      then wr16 B (BKP_DATA0_9 (bkp_data_register_value register_number - 1)) dat h
      else h)"

definition bkp_data_read :: "'h bus \<Rightarrow> bkp_data_register \<Rightarrow> 'h \<Rightarrow> 16 word \<times> 'h" where
  "bkp_data_read B register_number h =
     (let dat = (0 :: 16 word);
          (dat, h) =
            (if bkp_data_register_value BKP_DATA_10 \<le> bkp_data_register_value register_number \<and>
                bkp_data_register_value register_number \<le> bkp_data_register_value BKP_DATA_41
             then (let (v, h) = rd16 B (BKP_DATA10_41 (bkp_data_register_value register_number - 1)) h;
                       dat = (ucast v :: 16 word)
                   in (dat, h))
             else if bkp_data_register_value BKP_DATA_0 \<le> bkp_data_register_value register_number \<and>
                bkp_data_register_value register_number \<le> bkp_data_register_value BKP_DATA_9
             then (let (v, h) = rd16 B (BKP_DATA0_9 (bkp_data_register_value register_number - 1)) h;
                       dat = (ucast v :: 16 word)
                   in (dat, h))
             else (dat, h))
      in (dat, h))"

definition bkp_rtc_calibration_output_enable :: "'h bus \<Rightarrow> 'h \<Rightarrow> 'h" where
  "bkp_rtc_calibration_output_enable B h = set_bits16 B BKP_OCTL (ucast BKP_OCTL_COEN) h"

definition bkp_rtc_calibration_output_disable :: "'h bus \<Rightarrow> 'h \<Rightarrow> 'h" where
  "bkp_rtc_calibration_output_disable B h = clear_bits16 B BKP_OCTL (ucast BKP_OCTL_COEN) h"

definition bkp_rtc_signal_output_enable :: "'h bus \<Rightarrow> 'h \<Rightarrow> 'h" where
  "bkp_rtc_signal_output_enable B h = set_bits16 B BKP_OCTL (ucast BKP_OCTL_ASOEN) h"

definition bkp_rtc_signal_output_disable :: "'h bus \<Rightarrow> 'h \<Rightarrow> 'h" where
  "bkp_rtc_signal_output_disable B h = clear_bits16 B BKP_OCTL (ucast BKP_OCTL_ASOEN) h"

definition bkp_rtc_output_select :: "'h bus \<Rightarrow> 16 word \<Rightarrow> 'h \<Rightarrow> 'h" where
  "bkp_rtc_output_select B outputsel h =
     (let (v, h) = rd16 B BKP_OCTL h;
          ctl = (ucast v :: 16 word);
          ctl = (ucast (ucast ctl AND take_bit 16 (NOT BKP_OCTL_ROSEL)) :: 16 word);
          ctl = ctl OR outputsel
      in wr16 B BKP_OCTL ctl h)"

definition bkp_rtc_calibration_value_set :: "'h bus \<Rightarrow> 8 word \<Rightarrow> 'h \<Rightarrow> 'h" where
  "bkp_rtc_calibration_value_set B val h =
     (let (v, h) = rd16 B BKP_OCTL h;
          ctl = (ucast v :: 16 word);
          ctl = (ucast (ucast ctl AND take_bit 16 (NOT BKP_OCTL_RCCV)) :: 16 word);
          ctl = (ucast (ucast ctl OR take_bit 16 (OCTL_RCCV (ucast val))) :: 16 word)
      in wr16 B BKP_OCTL ctl h)"

definition bkp_tamper_detection_enable :: "'h bus \<Rightarrow> 'h \<Rightarrow> 'h" where
  "bkp_tamper_detection_enable B h = set_bits16 B BKP_TPCTL (ucast BKP_TPCTL_TPEN) h"

definition bkp_tamper_detection_disable :: "'h bus \<Rightarrow> 'h \<Rightarrow> 'h" where
  "bkp_tamper_detection_disable B h = clear_bits16 B BKP_TPCTL (ucast BKP_TPCTL_TPEN) h"

definition bkp_tamper_active_level_set :: "'h bus \<Rightarrow> 16 word \<Rightarrow> 'h \<Rightarrow> 'h" where
  "bkp_tamper_active_level_set B level h =
     (let (v, h) = rd16 B BKP_TPCTL h;
          ctl = (ucast v :: 16 word);
          ctl = (ucast (ucast ctl AND take_bit 16 (NOT BKP_TPCTL_TPAL)) :: 16 word);
          ctl = ctl OR level
      in wr16 B BKP_TPCTL ctl h)"

definition bkp_interrupt_enable :: "'h bus \<Rightarrow> 'h \<Rightarrow> 'h" where
  "bkp_interrupt_enable B h = set_bits16 B BKP_TPCS (ucast BKP_TPCS_TPIE) h"

definition bkp_interrupt_disable :: "'h bus \<Rightarrow> 'h \<Rightarrow> 'h" where
  "bkp_interrupt_disable B h = clear_bits16 B BKP_TPCS (ucast BKP_TPCS_TPIE) h"

definition bkp_flag_get :: "'h bus \<Rightarrow> 'h \<Rightarrow> bool \<times> 'h" where
  "bkp_flag_get B h =
     (let (v, h) = rd16 B BKP_TPCS h
      in (ucast v AND BKP_FLAG_TAMPER \<noteq> 0, h))"

definition bkp_flag_clear :: "'h bus \<Rightarrow> 'h \<Rightarrow> 'h" where
  "bkp_flag_clear B h =
     set_bits16 B BKP_TPCS (ucast (drop_bit (unat BKP_TAMPER_BITS_OFFSET) BKP_FLAG_TAMPER)) h"

definition bkp_interrupt_flag_get :: "'h bus \<Rightarrow> 'h \<Rightarrow> bool \<times> 'h" where
  "bkp_interrupt_flag_get B h =
     (let (v, h) = rd16 B BKP_TPCS h
      in (ucast v AND BKP_INT_FLAG_TAMPER \<noteq> 0, h))"

definition bkp_interrupt_flag_clear :: "'h bus \<Rightarrow> 'h \<Rightarrow> 'h" where
  "bkp_interrupt_flag_clear B h =
     set_bits16 B BKP_TPCS (ucast (drop_bit (unat BKP_TAMPER_BITS_OFFSET) BKP_INT_FLAG_TAMPER)) h"

end
