(* ===== verification/Exmc.thy ===== *)
theory Exmc
  imports Rcu
begin

text \<open>
  \<open>gd32vf103_exmc.c\<close>: the external memory controller. The timing parameters hang off the region's by
  a pointer; the record holds them in place.
\<close>

section \<open>Registers\<close>

abbreviation (input) EXMC_BANK0_NORSRAM_REGION0 :: "reg" where "EXMC_BANK0_NORSRAM_REGION0 \<equiv> 0"
abbreviation (input) EXMC_BASE :: "reg" where "EXMC_BASE \<equiv> 0xa0000000"
abbreviation (input) EXMC :: "reg" where "EXMC \<equiv> EXMC_BASE"
abbreviation (input) EXMC_SNCTL :: "reg \<Rightarrow> 32 word" where "EXMC_SNCTL region \<equiv> EXMC + (8 * region)"
abbreviation (input) BANK0_SNCTL0_REGION_RESET :: "reg" where "BANK0_SNCTL0_REGION_RESET \<equiv> 0x30da"
abbreviation (input) EXMC_SNTCFG :: "reg \<Rightarrow> 32 word" where "EXMC_SNTCFG region \<equiv> EXMC + 4 + (8 * region)"
abbreviation (input) BANK0_SNTCFG_RESET :: "reg" where "BANK0_SNTCFG_RESET \<equiv> 0xfffffff"
abbreviation (input) EXMC_SNCTL_NRBKEN :: "reg" where "EXMC_SNCTL_NRBKEN \<equiv> BIT 0"
abbreviation (input) SNCTL_NRTP :: "reg \<Rightarrow> reg" where "SNCTL_NRTP regval \<equiv> BITS 2 3 AND (push_bit 2 regval)"
abbreviation (input) EXMC_MEMORY_TYPE_NOR :: "reg" where "EXMC_MEMORY_TYPE_NOR \<equiv> SNCTL_NRTP 2"
abbreviation (input) EXMC_MEMORY_TYPE_SRAM :: "reg" where "EXMC_MEMORY_TYPE_SRAM \<equiv> SNCTL_NRTP 0"
abbreviation (input) SNCTL_NRW :: "reg \<Rightarrow> reg" where "SNCTL_NRW regval \<equiv> BITS 4 5 AND (push_bit 4 regval)"
abbreviation (input) EXMC_NOR_DATABUS_WIDTH_16B :: "reg" where "EXMC_NOR_DATABUS_WIDTH_16B \<equiv> SNCTL_NRW 1"
abbreviation (input) EXMC_NWAIT_POLARITY_LOW :: "reg" where "EXMC_NWAIT_POLARITY_LOW \<equiv> 0"
abbreviation (input) EXMC_SNCTL_ASYNCWAIT :: "reg" where "EXMC_SNCTL_ASYNCWAIT \<equiv> BIT 15"
abbreviation (input) EXMC_SNCTL_NREN :: "reg" where "EXMC_SNCTL_NREN \<equiv> BIT 6"
abbreviation (input) EXMC_SNCTL_NRMUX :: "reg" where "EXMC_SNCTL_NRMUX \<equiv> BIT 1"
abbreviation (input) EXMC_SNCTL_NRTP :: "reg" where "EXMC_SNCTL_NRTP \<equiv> BITS 2 3"
abbreviation (input) EXMC_SNCTL_NRW :: "reg" where "EXMC_SNCTL_NRW \<equiv> BITS 4 5"
abbreviation (input) EXMC_SNCTL_NRWTEN :: "reg" where "EXMC_SNCTL_NRWTEN \<equiv> BIT 13"
abbreviation (input) EXMC_SNCTL_NRWTPOL :: "reg" where "EXMC_SNCTL_NRWTPOL \<equiv> BIT 9"
abbreviation (input) EXMC_SNCTL_WREN :: "reg" where "EXMC_SNCTL_WREN \<equiv> BIT 12"
abbreviation (input) EXMC_SNTCFG_AHLD :: "reg" where "EXMC_SNTCFG_AHLD \<equiv> BITS 4 7"
abbreviation (input) EXMC_SNTCFG_ASET :: "reg" where "EXMC_SNTCFG_ASET \<equiv> BITS 0 3"
abbreviation (input) EXMC_SNTCFG_BUSLAT :: "reg" where "EXMC_SNTCFG_BUSLAT \<equiv> BITS 16 19"
abbreviation (input) EXMC_SNTCFG_DSET :: "reg" where "EXMC_SNTCFG_DSET \<equiv> BITS 8 15"
abbreviation (input) SNCTL_ASYNCWAIT_OFFSET :: "reg" where "SNCTL_ASYNCWAIT_OFFSET \<equiv> 15"
abbreviation (input) SNCTL_NRMUX_OFFSET :: "reg" where "SNCTL_NRMUX_OFFSET \<equiv> 1"
abbreviation (input) SNCTL_NRWTEN_OFFSET :: "reg" where "SNCTL_NRWTEN_OFFSET \<equiv> 13"
abbreviation (input) SNCTL_WREN_OFFSET :: "reg" where "SNCTL_WREN_OFFSET \<equiv> 12"
abbreviation (input) SNTCFG_AHLD_OFFSET :: "reg" where "SNTCFG_AHLD_OFFSET \<equiv> 4"
abbreviation (input) SNTCFG_BUSLAT_OFFSET :: "reg" where "SNTCFG_BUSLAT_OFFSET \<equiv> 16"
abbreviation (input) SNTCFG_DSET_OFFSET :: "reg" where "SNTCFG_DSET_OFFSET \<equiv> 8"

section \<open>Operations\<close>

definition exmc_norsram_deinit :: "'h bus \<Rightarrow> reg \<Rightarrow> 'h \<Rightarrow> 'h" where
  "exmc_norsram_deinit B norsram_region h =
     (let h = (if norsram_region = EXMC_BANK0_NORSRAM_REGION0
               then wr32 B (EXMC_SNCTL norsram_region) BANK0_SNCTL0_REGION_RESET h
               else h)
      in wr32 B (EXMC_SNTCFG norsram_region) BANK0_SNTCFG_RESET h)"

definition exmc_norsram_enable :: "'h bus \<Rightarrow> reg \<Rightarrow> 'h \<Rightarrow> 'h" where
  "exmc_norsram_enable B norsram_region h =
     set_bits B (EXMC_SNCTL norsram_region) EXMC_SNCTL_NRBKEN h"

definition exmc_norsram_disable :: "'h bus \<Rightarrow> reg \<Rightarrow> 'h \<Rightarrow> 'h" where
  "exmc_norsram_disable B norsram_region h =
     clear_bits B (EXMC_SNCTL norsram_region) EXMC_SNCTL_NRBKEN h"

record exmc_norsram_timing_parameter =
  exmc_bus_latency :: reg
  exmc_asyn_data_setuptime :: reg
  exmc_asyn_address_holdtime :: reg
  exmc_asyn_address_setuptime :: reg

record exmc_norsram_parameter =
  exmc_norsram_region :: reg
  exmc_asyn_wait :: bool
  exmc_nwait_signal :: bool
  exmc_memory_write :: bool
  exmc_nwait_polarity :: reg
  exmc_databus_width :: reg
  exmc_memory_type :: reg
  exmc_address_data_mux :: bool
  exmc_read_write_timing :: exmc_norsram_timing_parameter

definition exmc_norsram_struct_para_init :: "exmc_norsram_parameter \<Rightarrow> exmc_norsram_parameter" where
  "exmc_norsram_struct_para_init p =
     p\<lparr>exmc_norsram_region := EXMC_BANK0_NORSRAM_REGION0, exmc_address_data_mux := True,
       exmc_memory_type := EXMC_MEMORY_TYPE_SRAM, exmc_databus_width := EXMC_NOR_DATABUS_WIDTH_16B,
       exmc_nwait_polarity := EXMC_NWAIT_POLARITY_LOW, exmc_memory_write := True,
       exmc_nwait_signal := True, exmc_asyn_wait := False,
       exmc_read_write_timing :=
         (exmc_read_write_timing p)\<lparr>exmc_asyn_address_setuptime := 0xF, exmc_asyn_address_holdtime := 0xF,
            exmc_asyn_data_setuptime := 0xFF, exmc_bus_latency := 0xF\<rparr>\<rparr>"

definition exmc_norsram_init :: "'h bus \<Rightarrow> exmc_norsram_parameter \<Rightarrow> 'h \<Rightarrow> 'h" where
  "exmc_norsram_init B p h =
     (let (snctl, h) = rd32 B (EXMC_SNCTL (exmc_norsram_region p)) h;
          snctl = snctl AND NOT (EXMC_SNCTL_NREN OR EXMC_SNCTL_NRTP OR EXMC_SNCTL_NRW OR EXMC_SNCTL_NRWTPOL OR
                                 EXMC_SNCTL_WREN OR EXMC_SNCTL_NRWTEN OR EXMC_SNCTL_ASYNCWAIT OR EXMC_SNCTL_NRMUX);
          snctl = snctl OR (push_bit (unat SNCTL_NRMUX_OFFSET) (of_bool (exmc_address_data_mux p)) OR
                            exmc_memory_type p OR exmc_databus_width p OR exmc_nwait_polarity p OR
                            push_bit (unat SNCTL_WREN_OFFSET) (of_bool (exmc_memory_write p)) OR
                            push_bit (unat SNCTL_NRWTEN_OFFSET) (of_bool (exmc_nwait_signal p)) OR
                            push_bit (unat SNCTL_ASYNCWAIT_OFFSET) (of_bool (exmc_asyn_wait p)));
          t = exmc_read_write_timing p;
          sntcfg = ((exmc_asyn_address_setuptime t - 1) AND EXMC_SNTCFG_ASET) OR
                   (push_bit (unat SNTCFG_AHLD_OFFSET) (exmc_asyn_address_holdtime t - 1) AND EXMC_SNTCFG_AHLD) OR
                   (push_bit (unat SNTCFG_DSET_OFFSET) (exmc_asyn_data_setuptime t - 1) AND EXMC_SNTCFG_DSET) OR
                   (push_bit (unat SNTCFG_BUSLAT_OFFSET) (exmc_bus_latency t - 1) AND EXMC_SNTCFG_BUSLAT);
          snctl = (if exmc_memory_type p = EXMC_MEMORY_TYPE_NOR then snctl OR EXMC_SNCTL_NREN else snctl);
          h = wr32 B (EXMC_SNCTL (exmc_norsram_region p)) snctl h
      in wr32 B (EXMC_SNTCFG (exmc_norsram_region p)) sntcfg h)"

end
