(* ===== verification/Dbg.thy ===== *)
theory Dbg
  imports Rcu
begin

text \<open>
  \<open>gd32vf103_dbg.c\<close>: what stops while the processor is halted by a debugger.
\<close>

section \<open>Registers\<close>

abbreviation (input) DBG_BASE :: "reg" where "DBG_BASE \<equiv> 0xe0042000"
abbreviation (input) DBG :: "reg" where "DBG \<equiv> DBG_BASE"
abbreviation (input) DBG_ID :: "32 word" where "DBG_ID \<equiv> DBG + 0"
abbreviation (input) DBG_CTL :: "32 word" where "DBG_CTL \<equiv> DBG + 4"

section \<open>Types\<close>

datatype dbg_periph =
  DBG_FWDGT_HOLD | DBG_WWDGT_HOLD | DBG_TIMER0_HOLD | DBG_TIMER1_HOLD | DBG_TIMER2_HOLD
  | DBG_TIMER3_HOLD | DBG_CAN0_HOLD | DBG_I2C0_HOLD | DBG_I2C1_HOLD | DBG_TIMER4_HOLD
  | DBG_TIMER5_HOLD | DBG_TIMER6_HOLD | DBG_CAN1_HOLD

fun dbg_periph_value :: "dbg_periph \<Rightarrow> reg" where
  "dbg_periph_value DBG_FWDGT_HOLD = BIT 8"
| "dbg_periph_value DBG_WWDGT_HOLD = BIT 9"
| "dbg_periph_value DBG_TIMER0_HOLD = BIT 10"
| "dbg_periph_value DBG_TIMER1_HOLD = BIT 11"
| "dbg_periph_value DBG_TIMER2_HOLD = BIT 12"
| "dbg_periph_value DBG_TIMER3_HOLD = BIT 13"
| "dbg_periph_value DBG_CAN0_HOLD = BIT 14"
| "dbg_periph_value DBG_I2C0_HOLD = BIT 15"
| "dbg_periph_value DBG_I2C1_HOLD = BIT 16"
| "dbg_periph_value DBG_TIMER4_HOLD = BIT 17"
| "dbg_periph_value DBG_TIMER5_HOLD = BIT 18"
| "dbg_periph_value DBG_TIMER6_HOLD = BIT 19"
| "dbg_periph_value DBG_CAN1_HOLD = BIT 21"

section \<open>Operations\<close>

definition dbg_id_get :: "'h bus \<Rightarrow> 'h \<Rightarrow> reg \<times> 'h" where
  "dbg_id_get B h = rd32 B DBG_ID h"

definition dbg_low_power_enable :: "'h bus \<Rightarrow> reg \<Rightarrow> 'h \<Rightarrow> 'h" where
  "dbg_low_power_enable B dbg_low_power h = set_bits B DBG_CTL dbg_low_power h"

definition dbg_low_power_disable :: "'h bus \<Rightarrow> reg \<Rightarrow> 'h \<Rightarrow> 'h" where
  "dbg_low_power_disable B dbg_low_power h = clear_bits B DBG_CTL dbg_low_power h"

definition dbg_periph_enable :: "'h bus \<Rightarrow> dbg_periph \<Rightarrow> 'h \<Rightarrow> 'h" where
  "dbg_periph_enable B dbg_periph h = set_bits B DBG_CTL (dbg_periph_value dbg_periph) h"

definition dbg_periph_disable :: "'h bus \<Rightarrow> dbg_periph \<Rightarrow> 'h \<Rightarrow> 'h" where
  "dbg_periph_disable B dbg_periph h = clear_bits B DBG_CTL (dbg_periph_value dbg_periph) h"

end
