(* ===== verification/Can.thy ===== *)
theory Can
  imports Dbg
begin

text \<open>
  \<open>gd32vf103_can.c\<close>: the CAN controllers, with three mailboxes for messages to send, two FIFOs of
  messages received, and the filters. An array of eight bytes is a list of length 8.
\<close>

section \<open>Registers\<close>

abbreviation (input) CAN_BASE :: "reg" where "CAN_BASE \<equiv> APB1_BUS_BASE + 0x6400"
abbreviation (input) CAN0 :: "reg" where "CAN0 \<equiv> CAN_BASE"
abbreviation (input) CAN_FCTL :: "reg \<Rightarrow> 32 word" where "CAN_FCTL canx \<equiv> canx + 0x200"
abbreviation (input) CAN_FCTL_FLD :: "reg" where "CAN_FCTL_FLD \<equiv> BIT 0"
abbreviation (input) CAN_FCTL_HBC1F :: "reg" where "CAN_FCTL_HBC1F \<equiv> BITS 8 13"
abbreviation (input) FCTL_HBC1F :: "reg \<Rightarrow> reg" where "FCTL_HBC1F regval \<equiv> BITS 8 13 AND (push_bit 8 regval)"
abbreviation (input) CAN_CTL :: "reg \<Rightarrow> 32 word" where "CAN_CTL canx \<equiv> canx + 0"
abbreviation (input) CAN_CTL_DFZ :: "reg" where "CAN_CTL_DFZ \<equiv> BIT 16"
abbreviation (input) CAN_MAILBOX0 :: "reg" where "CAN_MAILBOX0 \<equiv> 0"
abbreviation (input) CAN_TSTAT :: "reg \<Rightarrow> 32 word" where "CAN_TSTAT canx \<equiv> canx + 8"
abbreviation (input) CAN_TSTAT_MTF0 :: "reg" where "CAN_TSTAT_MTF0 \<equiv> BIT 0"
abbreviation (input) CAN_TSTAT_MTFNERR0 :: "reg" where "CAN_TSTAT_MTFNERR0 \<equiv> BIT 1"
abbreviation (input) CAN_TSTAT_TME0 :: "reg" where "CAN_TSTAT_TME0 \<equiv> BIT 26"
abbreviation (input) CAN_MAILBOX1 :: "reg" where "CAN_MAILBOX1 \<equiv> 1"
abbreviation (input) CAN_TSTAT_MTF1 :: "reg" where "CAN_TSTAT_MTF1 \<equiv> BIT 8"
abbreviation (input) CAN_TSTAT_MTFNERR1 :: "reg" where "CAN_TSTAT_MTFNERR1 \<equiv> BIT 9"
abbreviation (input) CAN_TSTAT_TME1 :: "reg" where "CAN_TSTAT_TME1 \<equiv> BIT 27"
abbreviation (input) CAN_MAILBOX2 :: "reg" where "CAN_MAILBOX2 \<equiv> 2"
abbreviation (input) CAN_TSTAT_MTF2 :: "reg" where "CAN_TSTAT_MTF2 \<equiv> BIT 16"
abbreviation (input) CAN_TSTAT_MTFNERR2 :: "reg" where "CAN_TSTAT_MTFNERR2 \<equiv> BIT 17"
abbreviation (input) CAN_TSTAT_TME2 :: "reg" where "CAN_TSTAT_TME2 \<equiv> BIT 28"
abbreviation (input) CAN_STATE_PENDING :: "reg" where "CAN_STATE_PENDING \<equiv> 0"
abbreviation (input) CAN_FIFO0 :: "reg" where "CAN_FIFO0 \<equiv> 0"
abbreviation (input) CAN_RFIFO0 :: "reg \<Rightarrow> 32 word" where "CAN_RFIFO0 canx \<equiv> canx + 0xc"
abbreviation (input) CAN_RFIFO0_RFD0 :: "reg" where "CAN_RFIFO0_RFD0 \<equiv> BIT 5"
abbreviation (input) CAN_FIFO1 :: "reg" where "CAN_FIFO1 \<equiv> 1"
abbreviation (input) CAN_RFIFO1 :: "reg \<Rightarrow> 32 word" where "CAN_RFIFO1 canx \<equiv> canx + 0x10"
abbreviation (input) CAN_RFIFO1_RFD1 :: "reg" where "CAN_RFIFO1_RFD1 \<equiv> BIT 5"
abbreviation (input) CAN_RFIF_RFL_MASK :: "reg" where "CAN_RFIF_RFL_MASK \<equiv> 3"
abbreviation (input) GET_ERR_RECNT :: "reg \<Rightarrow> reg" where "GET_ERR_RECNT regval \<equiv> GET_BITS regval 24 31"
abbreviation (input) CAN_ERR :: "reg \<Rightarrow> 32 word" where "CAN_ERR canx \<equiv> canx + 0x18"
abbreviation (input) GET_ERR_TECNT :: "reg \<Rightarrow> reg" where "GET_ERR_TECNT regval \<equiv> GET_BITS regval 16 23"
abbreviation (input) CAN_INTEN :: "reg \<Rightarrow> 32 word" where "CAN_INTEN canx \<equiv> canx + 0x14"
abbreviation (input) CAN_REG_VAL :: "reg \<Rightarrow> reg \<Rightarrow> 32 word" where "CAN_REG_VAL canx offset \<equiv> canx + (drop_bit 6 offset)"
abbreviation (input) CAN_BIT_POS :: "reg \<Rightarrow> reg" where "CAN_BIT_POS val \<equiv> val AND 0x1f"
abbreviation (input) CAN_REGIDX_BIT :: "reg \<Rightarrow> reg \<Rightarrow> reg" where "CAN_REGIDX_BIT regidx bitpos \<equiv> (push_bit 6 regidx) OR bitpos"
abbreviation (input) STAT_REG_OFFSET :: "reg" where "STAT_REG_OFFSET \<equiv> 4"
abbreviation (input) TSTAT_REG_OFFSET :: "reg" where "TSTAT_REG_OFFSET \<equiv> 8"
abbreviation (input) RFIFO0_REG_OFFSET :: "reg" where "RFIFO0_REG_OFFSET \<equiv> 0xc"
abbreviation (input) RFIFO1_REG_OFFSET :: "reg" where "RFIFO1_REG_OFFSET \<equiv> 0x10"
abbreviation (input) ERR_REG_OFFSET :: "reg" where "ERR_REG_OFFSET \<equiv> 0x18"
abbreviation (input) CAN_REG_VALS :: "reg \<Rightarrow> reg \<Rightarrow> 32 word" where "CAN_REG_VALS canx offset \<equiv> canx + (drop_bit 12 offset)"
abbreviation (input) CAN_BIT_POS0 :: "reg \<Rightarrow> reg" where "CAN_BIT_POS0 val \<equiv> (drop_bit 6 val) AND 0x1f"
abbreviation (input) CAN_REGIDX_BITS :: "reg \<Rightarrow> reg \<Rightarrow> reg \<Rightarrow> reg" where "CAN_REGIDX_BITS regidx bitpos0 bitpos1 \<equiv> (push_bit 12 regidx) OR (push_bit 6 bitpos0) OR bitpos1"
abbreviation (input) BT_BAUDPSC :: "reg \<Rightarrow> reg" where "BT_BAUDPSC regval \<equiv> BITS 0 9 AND (push_bit 0 regval)"
abbreviation (input) BT_BS1 :: "reg \<Rightarrow> reg" where "BT_BS1 regval \<equiv> BITS 16 19 AND (push_bit 16 regval)"
abbreviation (input) BT_BS2 :: "reg \<Rightarrow> reg" where "BT_BS2 regval \<equiv> BITS 20 22 AND (push_bit 20 regval)"
abbreviation (input) BT_MODE :: "reg \<Rightarrow> reg" where "BT_MODE regval \<equiv> BITS 30 31 AND (push_bit 30 regval)"
abbreviation (input) BT_SJW :: "reg \<Rightarrow> reg" where "BT_SJW regval \<equiv> BITS 24 25 AND (push_bit 24 regval)"
abbreviation (input) CAN_BIT_POS1 :: "reg \<Rightarrow> reg" where "CAN_BIT_POS1 val \<equiv> val AND 0x1f"
abbreviation (input) CAN_BT :: "reg \<Rightarrow> 32 word" where "CAN_BT canx \<equiv> canx + 0x1c"
abbreviation (input) CAN_BT_BS1_3TQ :: "reg" where "CAN_BT_BS1_3TQ \<equiv> 2"
abbreviation (input) CAN_BT_BS2_1TQ :: "reg" where "CAN_BT_BS2_1TQ \<equiv> 0"
abbreviation (input) CAN_BT_SJW_1TQ :: "reg" where "CAN_BT_SJW_1TQ \<equiv> 0"
abbreviation (input) CAN_CTL_ABOR :: "reg" where "CAN_CTL_ABOR \<equiv> BIT 6"
abbreviation (input) CAN_CTL_ARD :: "reg" where "CAN_CTL_ARD \<equiv> BIT 4"
abbreviation (input) CAN_CTL_AWU :: "reg" where "CAN_CTL_AWU \<equiv> BIT 5"
abbreviation (input) CAN_CTL_IWMOD :: "reg" where "CAN_CTL_IWMOD \<equiv> BIT 0"
abbreviation (input) CAN_CTL_RFOD :: "reg" where "CAN_CTL_RFOD \<equiv> BIT 3"
abbreviation (input) CAN_CTL_SLPWMOD :: "reg" where "CAN_CTL_SLPWMOD \<equiv> BIT 1"
abbreviation (input) CAN_CTL_TFO :: "reg" where "CAN_CTL_TFO \<equiv> BIT 2"
abbreviation (input) CAN_CTL_TTC :: "reg" where "CAN_CTL_TTC \<equiv> BIT 7"
abbreviation (input) CAN_FAFIFO :: "reg \<Rightarrow> 32 word" where "CAN_FAFIFO canx \<equiv> canx + 0x214"
abbreviation (input) CAN_FDATA0 :: "reg \<Rightarrow> reg \<Rightarrow> 32 word" where "CAN_FDATA0 canx bank \<equiv> canx + 0x240 + (bank * 8) + 0"
abbreviation (input) CAN_FDATA1 :: "reg \<Rightarrow> reg \<Rightarrow> 32 word" where "CAN_FDATA1 canx bank \<equiv> canx + 0x240 + (bank * 8) + 4"
abbreviation (input) CAN_FF_STANDARD :: "reg" where "CAN_FF_STANDARD \<equiv> 0"
abbreviation (input) CAN_FILTERBITS_16BIT :: "reg" where "CAN_FILTERBITS_16BIT \<equiv> 0"
abbreviation (input) CAN_FILTERBITS_32BIT :: "reg" where "CAN_FILTERBITS_32BIT \<equiv> 1"
abbreviation (input) CAN_FILTERMODE_MASK :: "reg" where "CAN_FILTERMODE_MASK \<equiv> 0"
abbreviation (input) CAN_FILTER_MASK_16BITS :: "reg" where "CAN_FILTER_MASK_16BITS \<equiv> 0xffff"
abbreviation (input) CAN_FMCFG :: "reg \<Rightarrow> 32 word" where "CAN_FMCFG canx \<equiv> canx + 0x204"
abbreviation (input) CAN_FSCFG :: "reg \<Rightarrow> 32 word" where "CAN_FSCFG canx \<equiv> canx + 0x20c"
abbreviation (input) CAN_FT_DATA :: "reg" where "CAN_FT_DATA \<equiv> 0"
abbreviation (input) CAN_FW :: "reg \<Rightarrow> 32 word" where "CAN_FW canx \<equiv> canx + 0x21c"
abbreviation (input) CAN_MODE_INITIALIZE :: "reg" where "CAN_MODE_INITIALIZE \<equiv> 1"
abbreviation (input) CAN_MODE_NORMAL :: "reg" where "CAN_MODE_NORMAL \<equiv> 2"
abbreviation (input) CAN_MODE_SLEEP :: "reg" where "CAN_MODE_SLEEP \<equiv> 4"
abbreviation (input) CAN_NOMAILBOX :: "reg" where "CAN_NOMAILBOX \<equiv> 3"
abbreviation (input) CAN_NORMAL_MODE :: "reg" where "CAN_NORMAL_MODE \<equiv> 0"
abbreviation (input) CAN_RFIFOMDATA0 :: "reg \<Rightarrow> reg \<Rightarrow> 32 word" where "CAN_RFIFOMDATA0 canx bank \<equiv> canx + 0x1b8 + (bank * 0x10)"
abbreviation (input) CAN_RFIFOMDATA1 :: "reg \<Rightarrow> reg \<Rightarrow> 32 word" where "CAN_RFIFOMDATA1 canx bank \<equiv> canx + 0x1bc + (bank * 0x10)"
abbreviation (input) CAN_RFIFOMI :: "reg \<Rightarrow> reg \<Rightarrow> 32 word" where "CAN_RFIFOMI canx bank \<equiv> canx + 0x1b0 + (bank * 0x10)"
abbreviation (input) CAN_RFIFOMI_FF :: "reg" where "CAN_RFIFOMI_FF \<equiv> BIT 2"
abbreviation (input) CAN_RFIFOMI_FT :: "reg" where "CAN_RFIFOMI_FT \<equiv> BIT 1"
abbreviation (input) CAN_RFIFOMP :: "reg \<Rightarrow> reg \<Rightarrow> 32 word" where "CAN_RFIFOMP canx bank \<equiv> canx + 0x1b4 + (bank * 0x10)"
abbreviation (input) CAN_STAT :: "reg \<Rightarrow> 32 word" where "CAN_STAT canx \<equiv> canx + 4"
abbreviation (input) CAN_STAT_IWS :: "reg" where "CAN_STAT_IWS \<equiv> BIT 0"
abbreviation (input) CAN_STAT_SLPWS :: "reg" where "CAN_STAT_SLPWS \<equiv> BIT 1"
abbreviation (input) CAN_TIMEOUT :: "reg" where "CAN_TIMEOUT \<equiv> 0xffff"
abbreviation (input) CAN_TMDATA0 :: "reg \<Rightarrow> reg \<Rightarrow> 32 word" where "CAN_TMDATA0 canx bank \<equiv> canx + 0x188 + (bank * 0x10)"
abbreviation (input) CAN_TMDATA1 :: "reg \<Rightarrow> reg \<Rightarrow> 32 word" where "CAN_TMDATA1 canx bank \<equiv> canx + 0x18c + (bank * 0x10)"
abbreviation (input) CAN_TMI :: "reg \<Rightarrow> reg \<Rightarrow> 32 word" where "CAN_TMI canx bank \<equiv> canx + 0x180 + (bank * 0x10)"
abbreviation (input) CAN_TMI_TEN :: "reg" where "CAN_TMI_TEN \<equiv> BIT 0"
abbreviation (input) CAN_TMP :: "reg \<Rightarrow> reg \<Rightarrow> 32 word" where "CAN_TMP canx bank \<equiv> canx + 0x184 + (bank * 0x10)"
abbreviation (input) CAN_TMP_DLENC :: "reg" where "CAN_TMP_DLENC \<equiv> BITS 0 3"
abbreviation (input) CAN_TMP_TSEN :: "reg" where "CAN_TMP_TSEN \<equiv> BIT 8"
abbreviation (input) CAN_TSTAT_MST0 :: "reg" where "CAN_TSTAT_MST0 \<equiv> BIT 7"
abbreviation (input) CAN_TSTAT_MST1 :: "reg" where "CAN_TSTAT_MST1 \<equiv> BIT 15"
abbreviation (input) CAN_TSTAT_MST2 :: "reg" where "CAN_TSTAT_MST2 \<equiv> BIT 23"
abbreviation (input) FDATA_MASK_HIGH :: "reg \<Rightarrow> reg" where "FDATA_MASK_HIGH regval \<equiv> BITS 16 31 AND (push_bit 16 regval)"
abbreviation (input) FDATA_MASK_LOW :: "reg \<Rightarrow> reg" where "FDATA_MASK_LOW regval \<equiv> BITS 0 15 AND (push_bit 0 regval)"
abbreviation (input) GET_ERR_ERRN :: "reg \<Rightarrow> reg" where "GET_ERR_ERRN regval \<equiv> GET_BITS regval 4 6"
abbreviation (input) GET_RFIFOMDATA0_DB0 :: "reg \<Rightarrow> reg" where "GET_RFIFOMDATA0_DB0 regval \<equiv> GET_BITS regval 0 7"
abbreviation (input) GET_RFIFOMDATA0_DB1 :: "reg \<Rightarrow> reg" where "GET_RFIFOMDATA0_DB1 regval \<equiv> GET_BITS regval 8 15"
abbreviation (input) GET_RFIFOMDATA0_DB2 :: "reg \<Rightarrow> reg" where "GET_RFIFOMDATA0_DB2 regval \<equiv> GET_BITS regval 16 23"
abbreviation (input) GET_RFIFOMDATA0_DB3 :: "reg \<Rightarrow> reg" where "GET_RFIFOMDATA0_DB3 regval \<equiv> GET_BITS regval 24 31"
abbreviation (input) GET_RFIFOMDATA1_DB4 :: "reg \<Rightarrow> reg" where "GET_RFIFOMDATA1_DB4 regval \<equiv> GET_BITS regval 0 7"
abbreviation (input) GET_RFIFOMDATA1_DB5 :: "reg \<Rightarrow> reg" where "GET_RFIFOMDATA1_DB5 regval \<equiv> GET_BITS regval 8 15"
abbreviation (input) GET_RFIFOMDATA1_DB6 :: "reg \<Rightarrow> reg" where "GET_RFIFOMDATA1_DB6 regval \<equiv> GET_BITS regval 16 23"
abbreviation (input) GET_RFIFOMDATA1_DB7 :: "reg \<Rightarrow> reg" where "GET_RFIFOMDATA1_DB7 regval \<equiv> GET_BITS regval 24 31"
abbreviation (input) GET_RFIFOMI_EFID :: "reg \<Rightarrow> reg" where "GET_RFIFOMI_EFID regval \<equiv> GET_BITS regval 3 31"
abbreviation (input) GET_RFIFOMI_SFID :: "reg \<Rightarrow> reg" where "GET_RFIFOMI_SFID regval \<equiv> GET_BITS regval 21 31"
abbreviation (input) GET_RFIFOMP_DLENC :: "reg \<Rightarrow> reg" where "GET_RFIFOMP_DLENC regval \<equiv> GET_BITS regval 0 3"
abbreviation (input) GET_RFIFOMP_FI :: "reg \<Rightarrow> reg" where "GET_RFIFOMP_FI regval \<equiv> GET_BITS regval 8 15"
abbreviation (input) TMDATA0_DB0 :: "reg \<Rightarrow> reg" where "TMDATA0_DB0 regval \<equiv> BITS 0 7 AND (push_bit 0 regval)"
abbreviation (input) TMDATA0_DB1 :: "reg \<Rightarrow> reg" where "TMDATA0_DB1 regval \<equiv> BITS 8 15 AND (push_bit 8 regval)"
abbreviation (input) TMDATA0_DB2 :: "reg \<Rightarrow> reg" where "TMDATA0_DB2 regval \<equiv> BITS 16 23 AND (push_bit 16 regval)"
abbreviation (input) TMDATA0_DB3 :: "reg \<Rightarrow> reg" where "TMDATA0_DB3 regval \<equiv> BITS 24 31 AND (push_bit 24 regval)"
abbreviation (input) TMDATA1_DB4 :: "reg \<Rightarrow> reg" where "TMDATA1_DB4 regval \<equiv> BITS 0 7 AND (push_bit 0 regval)"
abbreviation (input) TMDATA1_DB5 :: "reg \<Rightarrow> reg" where "TMDATA1_DB5 regval \<equiv> BITS 8 15 AND (push_bit 8 regval)"
abbreviation (input) TMDATA1_DB6 :: "reg \<Rightarrow> reg" where "TMDATA1_DB6 regval \<equiv> BITS 16 23 AND (push_bit 16 regval)"
abbreviation (input) TMDATA1_DB7 :: "reg \<Rightarrow> reg" where "TMDATA1_DB7 regval \<equiv> BITS 24 31 AND (push_bit 24 regval)"
abbreviation (input) TMI_EFID :: "reg \<Rightarrow> reg" where "TMI_EFID regval \<equiv> BITS 3 31 AND (push_bit 3 regval)"
abbreviation (input) TMI_SFID :: "reg \<Rightarrow> reg" where "TMI_SFID regval \<equiv> BITS 21 31 AND (push_bit 21 regval)"

section \<open>Types\<close>

datatype can_transmit_state =
  CAN_TRANSMIT_FAILED | CAN_TRANSMIT_OK | CAN_TRANSMIT_PENDING | CAN_TRANSMIT_NOMAILBOX

fun can_transmit_state_value :: "can_transmit_state \<Rightarrow> reg" where
  "can_transmit_state_value CAN_TRANSMIT_FAILED = 0"
| "can_transmit_state_value CAN_TRANSMIT_OK = 1"
| "can_transmit_state_value CAN_TRANSMIT_PENDING = 2"
| "can_transmit_state_value CAN_TRANSMIT_NOMAILBOX = 4"

datatype can_flag =
  CAN_FLAG_RXL | CAN_FLAG_LASTRX | CAN_FLAG_RS | CAN_FLAG_TS | CAN_FLAG_SLPIF | CAN_FLAG_WUIF
  | CAN_FLAG_ERRIF | CAN_FLAG_SLPWS | CAN_FLAG_IWS | CAN_FLAG_TMLS2 | CAN_FLAG_TMLS1
  | CAN_FLAG_TMLS0 | CAN_FLAG_TME2 | CAN_FLAG_TME1 | CAN_FLAG_TME0 | CAN_FLAG_MTE2 | CAN_FLAG_MTE1
  | CAN_FLAG_MTE0 | CAN_FLAG_MAL2 | CAN_FLAG_MAL1 | CAN_FLAG_MAL0 | CAN_FLAG_MTFNERR2
  | CAN_FLAG_MTFNERR1 | CAN_FLAG_MTFNERR0 | CAN_FLAG_MTF2 | CAN_FLAG_MTF1 | CAN_FLAG_MTF0
  | CAN_FLAG_RFO0 | CAN_FLAG_RFF0 | CAN_FLAG_RFO1 | CAN_FLAG_RFF1 | CAN_FLAG_BOERR | CAN_FLAG_PERR
  | CAN_FLAG_WERR

fun can_flag_value :: "can_flag \<Rightarrow> reg" where
  "can_flag_value CAN_FLAG_RXL = CAN_REGIDX_BIT STAT_REG_OFFSET 11"
| "can_flag_value CAN_FLAG_LASTRX = CAN_REGIDX_BIT STAT_REG_OFFSET 10"
| "can_flag_value CAN_FLAG_RS = CAN_REGIDX_BIT STAT_REG_OFFSET 9"
| "can_flag_value CAN_FLAG_TS = CAN_REGIDX_BIT STAT_REG_OFFSET 8"
| "can_flag_value CAN_FLAG_SLPIF = CAN_REGIDX_BIT STAT_REG_OFFSET 4"
| "can_flag_value CAN_FLAG_WUIF = CAN_REGIDX_BIT STAT_REG_OFFSET 3"
| "can_flag_value CAN_FLAG_ERRIF = CAN_REGIDX_BIT STAT_REG_OFFSET 2"
| "can_flag_value CAN_FLAG_SLPWS = CAN_REGIDX_BIT STAT_REG_OFFSET 1"
| "can_flag_value CAN_FLAG_IWS = CAN_REGIDX_BIT STAT_REG_OFFSET 0"
| "can_flag_value CAN_FLAG_TMLS2 = CAN_REGIDX_BIT TSTAT_REG_OFFSET 31"
| "can_flag_value CAN_FLAG_TMLS1 = CAN_REGIDX_BIT TSTAT_REG_OFFSET 30"
| "can_flag_value CAN_FLAG_TMLS0 = CAN_REGIDX_BIT TSTAT_REG_OFFSET 29"
| "can_flag_value CAN_FLAG_TME2 = CAN_REGIDX_BIT TSTAT_REG_OFFSET 28"
| "can_flag_value CAN_FLAG_TME1 = CAN_REGIDX_BIT TSTAT_REG_OFFSET 27"
| "can_flag_value CAN_FLAG_TME0 = CAN_REGIDX_BIT TSTAT_REG_OFFSET 26"
| "can_flag_value CAN_FLAG_MTE2 = CAN_REGIDX_BIT TSTAT_REG_OFFSET 19"
| "can_flag_value CAN_FLAG_MTE1 = CAN_REGIDX_BIT TSTAT_REG_OFFSET 11"
| "can_flag_value CAN_FLAG_MTE0 = CAN_REGIDX_BIT TSTAT_REG_OFFSET 3"
| "can_flag_value CAN_FLAG_MAL2 = CAN_REGIDX_BIT TSTAT_REG_OFFSET 18"
| "can_flag_value CAN_FLAG_MAL1 = CAN_REGIDX_BIT TSTAT_REG_OFFSET 10"
| "can_flag_value CAN_FLAG_MAL0 = CAN_REGIDX_BIT TSTAT_REG_OFFSET 2"
| "can_flag_value CAN_FLAG_MTFNERR2 = CAN_REGIDX_BIT TSTAT_REG_OFFSET 17"
| "can_flag_value CAN_FLAG_MTFNERR1 = CAN_REGIDX_BIT TSTAT_REG_OFFSET 9"
| "can_flag_value CAN_FLAG_MTFNERR0 = CAN_REGIDX_BIT TSTAT_REG_OFFSET 1"
| "can_flag_value CAN_FLAG_MTF2 = CAN_REGIDX_BIT TSTAT_REG_OFFSET 16"
| "can_flag_value CAN_FLAG_MTF1 = CAN_REGIDX_BIT TSTAT_REG_OFFSET 8"
| "can_flag_value CAN_FLAG_MTF0 = CAN_REGIDX_BIT TSTAT_REG_OFFSET 0"
| "can_flag_value CAN_FLAG_RFO0 = CAN_REGIDX_BIT RFIFO0_REG_OFFSET 4"
| "can_flag_value CAN_FLAG_RFF0 = CAN_REGIDX_BIT RFIFO0_REG_OFFSET 3"
| "can_flag_value CAN_FLAG_RFO1 = CAN_REGIDX_BIT RFIFO1_REG_OFFSET 4"
| "can_flag_value CAN_FLAG_RFF1 = CAN_REGIDX_BIT RFIFO1_REG_OFFSET 3"
| "can_flag_value CAN_FLAG_BOERR = CAN_REGIDX_BIT ERR_REG_OFFSET 2"
| "can_flag_value CAN_FLAG_PERR = CAN_REGIDX_BIT ERR_REG_OFFSET 1"
| "can_flag_value CAN_FLAG_WERR = CAN_REGIDX_BIT ERR_REG_OFFSET 0"

datatype can_interrupt_flag =
  CAN_INT_FLAG_SLPIF | CAN_INT_FLAG_WUIF | CAN_INT_FLAG_ERRIF | CAN_INT_FLAG_MTF2
  | CAN_INT_FLAG_MTF1 | CAN_INT_FLAG_MTF0 | CAN_INT_FLAG_RFO0 | CAN_INT_FLAG_RFF0
  | CAN_INT_FLAG_RFL0 | CAN_INT_FLAG_RFO1 | CAN_INT_FLAG_RFF1 | CAN_INT_FLAG_RFL1
  | CAN_INT_FLAG_ERRN | CAN_INT_FLAG_BOERR | CAN_INT_FLAG_PERR | CAN_INT_FLAG_WERR

fun can_interrupt_flag_value :: "can_interrupt_flag \<Rightarrow> reg" where
  "can_interrupt_flag_value CAN_INT_FLAG_SLPIF = CAN_REGIDX_BITS STAT_REG_OFFSET 4 17"
| "can_interrupt_flag_value CAN_INT_FLAG_WUIF = CAN_REGIDX_BITS STAT_REG_OFFSET 3 16"
| "can_interrupt_flag_value CAN_INT_FLAG_ERRIF = CAN_REGIDX_BITS STAT_REG_OFFSET 2 15"
| "can_interrupt_flag_value CAN_INT_FLAG_MTF2 = CAN_REGIDX_BITS TSTAT_REG_OFFSET 16 0"
| "can_interrupt_flag_value CAN_INT_FLAG_MTF1 = CAN_REGIDX_BITS TSTAT_REG_OFFSET 8 0"
| "can_interrupt_flag_value CAN_INT_FLAG_MTF0 = CAN_REGIDX_BITS TSTAT_REG_OFFSET 0 0"
| "can_interrupt_flag_value CAN_INT_FLAG_RFO0 = CAN_REGIDX_BITS RFIFO0_REG_OFFSET 4 3"
| "can_interrupt_flag_value CAN_INT_FLAG_RFF0 = CAN_REGIDX_BITS RFIFO0_REG_OFFSET 3 2"
| "can_interrupt_flag_value CAN_INT_FLAG_RFL0 = CAN_REGIDX_BITS RFIFO0_REG_OFFSET 2 1"
| "can_interrupt_flag_value CAN_INT_FLAG_RFO1 = CAN_REGIDX_BITS RFIFO1_REG_OFFSET 4 6"
| "can_interrupt_flag_value CAN_INT_FLAG_RFF1 = CAN_REGIDX_BITS RFIFO1_REG_OFFSET 3 5"
| "can_interrupt_flag_value CAN_INT_FLAG_RFL1 = CAN_REGIDX_BITS RFIFO1_REG_OFFSET 2 4"
| "can_interrupt_flag_value CAN_INT_FLAG_ERRN = CAN_REGIDX_BITS ERR_REG_OFFSET 3 11"
| "can_interrupt_flag_value CAN_INT_FLAG_BOERR = CAN_REGIDX_BITS ERR_REG_OFFSET 2 10"
| "can_interrupt_flag_value CAN_INT_FLAG_PERR = CAN_REGIDX_BITS ERR_REG_OFFSET 1 9"
| "can_interrupt_flag_value CAN_INT_FLAG_WERR = CAN_REGIDX_BITS ERR_REG_OFFSET 0 8"

record can_filter_parameter =
  filter_list_high :: "16 word"
  filter_list_low :: "16 word"
  filter_mask_high :: "16 word"
  filter_mask_low :: "16 word"
  filter_fifo_number :: "16 word"
  filter_number :: "16 word"
  filter_mode :: "16 word"
  filter_bits :: "16 word"
  filter_enable :: "bool"

section \<open>Operations\<close>

definition can_deinit :: "'h bus \<Rightarrow> reg \<Rightarrow> 'h \<Rightarrow> 'h" where
  "can_deinit B can_periph h =
     (if can_periph = CAN0
      then reset_pulse B RCU_CAN0RST h
      else reset_pulse B RCU_CAN1RST h)"

definition can1_filter_start_bank :: "'h bus \<Rightarrow> 8 word \<Rightarrow> 'h \<Rightarrow> 'h" where
  "can1_filter_start_bank B start_bank h =
     (let h = set_bits B (CAN_FCTL CAN0) CAN_FCTL_FLD h;
          h = clear_bits B (CAN_FCTL CAN0) CAN_FCTL_HBC1F h;
          h = set_bits B (CAN_FCTL CAN0) (FCTL_HBC1F (ucast start_bank)) h
      in clear_bits B (CAN_FCTL CAN0) CAN_FCTL_FLD h)"

definition can_debug_freeze_enable :: "'h bus \<Rightarrow> reg \<Rightarrow> 'h \<Rightarrow> 'h" where
  "can_debug_freeze_enable B can_periph h =
     (let h = set_bits B (CAN_CTL can_periph) CAN_CTL_DFZ h
      in if can_periph = CAN0 then dbg_periph_enable B DBG_CAN0_HOLD h
         else dbg_periph_enable B DBG_CAN1_HOLD h)"

definition can_debug_freeze_disable :: "'h bus \<Rightarrow> reg \<Rightarrow> 'h \<Rightarrow> 'h" where
  "can_debug_freeze_disable B can_periph h =
     (let h = clear_bits B (CAN_CTL can_periph) CAN_CTL_DFZ h
      in if can_periph = CAN0 then dbg_periph_disable B DBG_CAN0_HOLD h
         else dbg_periph_disable B DBG_CAN1_HOLD h)"

definition can_transmit_states :: "'h bus \<Rightarrow> reg \<Rightarrow> 8 word \<Rightarrow> 'h \<Rightarrow> can_transmit_state \<times> 'h" where
  "can_transmit_states B can_periph mailbox_number h =
     (let stat = CAN_TRANSMIT_FAILED;
          val = (0 :: reg);
          (val, h) =
            (if ucast mailbox_number = CAN_MAILBOX0
             then (let (v, h) = rd32 B (CAN_TSTAT can_periph) h;
                       val = v AND (CAN_TSTAT_MTF0 OR CAN_TSTAT_MTFNERR0 OR CAN_TSTAT_TME0)
                   in (val, h))
             else if ucast mailbox_number = CAN_MAILBOX1
             then (let (v, h) = rd32 B (CAN_TSTAT can_periph) h;
                       val = v AND (CAN_TSTAT_MTF1 OR CAN_TSTAT_MTFNERR1 OR CAN_TSTAT_TME1)
                   in (val, h))
             else if ucast mailbox_number = CAN_MAILBOX2
             then (let (v, h) = rd32 B (CAN_TSTAT can_periph) h;
                       val = v AND (CAN_TSTAT_MTF2 OR CAN_TSTAT_MTFNERR2 OR CAN_TSTAT_TME2)
                   in (val, h))
             else (let val = can_transmit_state_value CAN_TRANSMIT_FAILED
                   in (val, h)));
          stat = (if val = CAN_STATE_PENDING then CAN_TRANSMIT_PENDING
                  else if val = CAN_TSTAT_MTF0 OR CAN_TSTAT_MTFNERR0 OR CAN_TSTAT_TME0 then CAN_TRANSMIT_OK
                  else if val = CAN_TSTAT_MTF1 OR CAN_TSTAT_MTFNERR1 OR CAN_TSTAT_TME1 then CAN_TRANSMIT_OK
                  else if val = CAN_TSTAT_MTF2 OR CAN_TSTAT_MTFNERR2 OR CAN_TSTAT_TME2 then CAN_TRANSMIT_OK
                  else CAN_TRANSMIT_FAILED)
      in (stat, h))"

definition can_fifo_release :: "'h bus \<Rightarrow> reg \<Rightarrow> 8 word \<Rightarrow> 'h \<Rightarrow> 'h option" where
  "can_fifo_release B can_periph fifo_number h =
     (if ucast fifo_number = CAN_FIFO0
      then (let h = set_bits B (CAN_RFIFO0 can_periph) CAN_RFIFO0_RFD0 h
            in Some h)
      else if ucast fifo_number = CAN_FIFO1
      then (let h = set_bits B (CAN_RFIFO1 can_periph) CAN_RFIFO1_RFD1 h
            in Some h)
      else None)"

definition can_receive_message_length_get :: "'h bus \<Rightarrow> reg \<Rightarrow> 8 word \<Rightarrow> 'h \<Rightarrow> 8 word \<times> 'h" where
  "can_receive_message_length_get B can_periph fifo_number h =
     (let val = (0 :: 8 word);
          (val, h) =
            (if ucast fifo_number = CAN_FIFO0
             then (let (v, h) = rd32 B (CAN_RFIFO0 can_periph) h;
                       val = (ucast (v AND CAN_RFIF_RFL_MASK) :: 8 word)
                   in (val, h))
             else if ucast fifo_number = CAN_FIFO1
             then (let (v, h) = rd32 B (CAN_RFIFO1 can_periph) h;
                       val = (ucast (v AND CAN_RFIF_RFL_MASK) :: 8 word)
                   in (val, h))
             else (val, h))
      in (val, h))"

definition can_receive_error_number_get :: "'h bus \<Rightarrow> reg \<Rightarrow> 'h \<Rightarrow> 8 word \<times> 'h" where
  "can_receive_error_number_get B can_periph h =
     (let (v, h) = rd32 B (CAN_ERR can_periph) h;
          val = (ucast (GET_ERR_RECNT v) :: 8 word)
      in (val, h))"

definition can_transmit_error_number_get :: "'h bus \<Rightarrow> reg \<Rightarrow> 'h \<Rightarrow> 8 word \<times> 'h" where
  "can_transmit_error_number_get B can_periph h =
     (let (v, h) = rd32 B (CAN_ERR can_periph) h;
          val = (ucast (GET_ERR_TECNT v) :: 8 word)
      in (val, h))"

definition can_interrupt_enable :: "'h bus \<Rightarrow> reg \<Rightarrow> reg \<Rightarrow> 'h \<Rightarrow> 'h" where
  "can_interrupt_enable B can_periph interrupt h = set_bits B (CAN_INTEN can_periph) interrupt h"

definition can_interrupt_disable :: "'h bus \<Rightarrow> reg \<Rightarrow> reg \<Rightarrow> 'h \<Rightarrow> 'h" where
  "can_interrupt_disable B can_periph interrupt h =
     clear_bits B (CAN_INTEN can_periph) interrupt h"

definition can_flag_get :: "'h bus \<Rightarrow> reg \<Rightarrow> can_flag \<Rightarrow> 'h \<Rightarrow> bool \<times> 'h" where
  "can_flag_get B can_periph flg h =
     any_set B (CAN_REG_VAL can_periph (can_flag_value flg)) (BIT (unat (CAN_BIT_POS (can_flag_value flg)))) h"

definition can_flag_clear :: "'h bus \<Rightarrow> reg \<Rightarrow> can_flag \<Rightarrow> 'h \<Rightarrow> 'h" where
  "can_flag_clear B can_periph flg h =
     wr32 B (CAN_REG_VAL can_periph (can_flag_value flg)) (BIT (unat (CAN_BIT_POS (can_flag_value flg)))) h"

definition can_interrupt_flag_clear :: "'h bus \<Rightarrow> reg \<Rightarrow> can_interrupt_flag \<Rightarrow> 'h \<Rightarrow> 'h" where
  "can_interrupt_flag_clear B can_periph flg h =
     wr32 B (CAN_REG_VALS can_periph (can_interrupt_flag_value flg)) (BIT (unat (CAN_BIT_POS0 (can_interrupt_flag_value flg)))) h"

record can_parameter =
  can_working_mode :: "8 word"
  can_resync_jump_width :: "8 word"
  can_time_segment_1 :: "8 word"
  can_time_segment_2 :: "8 word"
  can_time_triggered :: bool
  can_auto_bus_off_recovery :: bool
  can_auto_wake_up :: bool
  can_no_auto_retrans :: bool
  can_rec_fifo_overwrite :: bool
  can_trans_fifo_order :: bool
  can_prescaler :: "16 word"

record can_trasnmit_message =
  tx_sfid :: reg
  tx_efid :: reg
  tx_ff :: "8 word"
  tx_ft :: "8 word"
  tx_dlen :: "8 word"
  tx_data :: "8 word list"

record can_receive_message =
  rx_sfid :: reg
  rx_efid :: reg
  rx_ff :: "8 word"
  rx_ft :: "8 word"
  rx_dlen :: "8 word"
  rx_data :: "8 word list"
  rx_fi :: "8 word"

text \<open>The structure that \<open>p_struct\<close> points to: using it as another than the one named by \<open>type\<close> is
  undefined.\<close>

datatype can_struct_type = CAN_INIT_STRUCT | CAN_FILTER_STRUCT | CAN_TX_MESSAGE_STRUCT | CAN_RX_MESSAGE_STRUCT

datatype can_struct =
  Init_struct can_parameter
| Filter_struct can_filter_parameter
| Tx_struct can_trasnmit_message
| Rx_struct can_receive_message

fun can_struct_para_init :: "can_struct_type \<Rightarrow> can_struct \<Rightarrow> can_struct outcome" where
  "can_struct_para_init CAN_INIT_STRUCT (Init_struct p) =
     Ret (Init_struct (p\<lparr>can_auto_bus_off_recovery := False, can_no_auto_retrans := False, can_auto_wake_up := False,
       can_prescaler := 0x03FF, can_rec_fifo_overwrite := False, can_resync_jump_width := ucast CAN_BT_SJW_1TQ,
       can_time_segment_1 := ucast CAN_BT_BS1_3TQ, can_time_segment_2 := ucast CAN_BT_BS2_1TQ,
       can_time_triggered := False, can_trans_fifo_order := False, can_working_mode := ucast CAN_NORMAL_MODE\<rparr>))"
| "can_struct_para_init CAN_FILTER_STRUCT (Filter_struct p) =
     Ret (Filter_struct (p\<lparr>filter_bits := ucast CAN_FILTERBITS_32BIT, filter_enable := False,
       filter_fifo_number := ucast CAN_FIFO0, filter_list_high := 0, filter_list_low := 0, filter_mask_high := 0,
       filter_mask_low := 0, filter_mode := ucast CAN_FILTERMODE_MASK, filter_number := 0\<rparr>))"
| "can_struct_para_init CAN_TX_MESSAGE_STRUCT (Tx_struct p) =
     Ret (Tx_struct (p\<lparr>tx_data := fold (\<lambda>i xs. xs[i := 0]) [0..<8] (tx_data p), tx_dlen := 0, tx_efid := 0,
       tx_ff := ucast CAN_FF_STANDARD, tx_ft := ucast CAN_FT_DATA, tx_sfid := 0\<rparr>))"
| "can_struct_para_init CAN_RX_MESSAGE_STRUCT (Rx_struct p) =
     Ret (Rx_struct (p\<lparr>rx_data := fold (\<lambda>i xs. xs[i := 0]) [0..<8] (rx_data p), rx_dlen := 0, rx_efid := 0,
       rx_ff := ucast CAN_FF_STANDARD, rx_fi := 0, rx_ft := ucast CAN_FT_DATA, rx_sfid := 0\<rparr>))"
| "can_struct_para_init _ _ = Undef"

text \<open>A \<open>ControlStatus\<close> option of the structure sets or clears its bit of the control register.\<close>

definition can_option :: "'h bus \<Rightarrow> reg \<Rightarrow> bool \<Rightarrow> reg \<Rightarrow> 'h \<Rightarrow> 'h" where
  "can_option B can_periph on x h =
     (if on then set_bits B (CAN_CTL can_periph) x h else clear_bits B (CAN_CTL can_periph) x h)"

definition can_init :: "'h bus \<Rightarrow> reg \<Rightarrow> can_parameter \<Rightarrow> 'h \<Rightarrow> bool \<times> 'h" where
  "can_init B can_periph p h =
     (let h = clear_bits B (CAN_CTL can_periph) CAN_CTL_SLPWMOD h;
          h = set_bits B (CAN_CTL can_periph) CAN_CTL_IWMOD h;
          (_, h) = wait_while B (CAN_STAT can_periph) (\<lambda>v. v AND CAN_STAT_IWS \<noteq> CAN_STAT_IWS) (unat CAN_TIMEOUT) h;
          (v, h) = rd32 B (CAN_STAT can_periph) h
      in if v AND CAN_STAT_IWS \<noteq> CAN_STAT_IWS then (False, h)
         else (let h = wr32 B (CAN_BT can_periph)
                         (BT_MODE (ucast (can_working_mode p)) OR BT_SJW (ucast (can_resync_jump_width p)) OR
                          BT_BS1 (ucast (can_time_segment_1 p)) OR BT_BS2 (ucast (can_time_segment_2 p)) OR
                          BT_BAUDPSC (ucast (can_prescaler p) - 1)) h;
                   h = can_option B can_periph (can_time_triggered p) CAN_CTL_TTC h;
                   h = can_option B can_periph (can_auto_bus_off_recovery p) CAN_CTL_ABOR h;
                   h = can_option B can_periph (can_auto_wake_up p) CAN_CTL_AWU h;
                   h = can_option B can_periph (can_no_auto_retrans p) CAN_CTL_ARD h;
                   h = can_option B can_periph (can_rec_fifo_overwrite p) CAN_CTL_RFOD h;
                   h = can_option B can_periph (can_trans_fifo_order p) CAN_CTL_TFO h;
                   h = clear_bits B (CAN_CTL can_periph) CAN_CTL_IWMOD h;
                   (timeout, h) = wait_while B (CAN_STAT can_periph) (\<lambda>v. v AND CAN_STAT_IWS = CAN_STAT_IWS) (unat CAN_TIMEOUT) h
               in (timeout \<noteq> 0, h)))"

text \<open>The number of the filter is the amount of a shift, undefined from 32 on.\<close>

definition can_filter_init :: "'h bus \<Rightarrow> can_filter_parameter \<Rightarrow> 'h \<Rightarrow> 'h outcome" where
  "can_filter_init B p h =
     bindo (shl 1 (ucast (filter_number p))) (\<lambda>val.
       let n = ucast (filter_number p);
           h = set_bits B (CAN_FCTL CAN0) CAN_FCTL_FLD h;
           h = clear_bits B (CAN_FW CAN0) val h;
           h = (if ucast (filter_bits p) = CAN_FILTERBITS_16BIT
                then (let h = clear_bits B (CAN_FSCFG CAN0) val h;
                          h = wr32 B (CAN_FDATA0 CAN0 n)
                                (FDATA_MASK_HIGH (ucast (filter_mask_low p) AND CAN_FILTER_MASK_16BITS) OR
                                 FDATA_MASK_LOW (ucast (filter_list_low p) AND CAN_FILTER_MASK_16BITS)) h
                      in wr32 B (CAN_FDATA1 CAN0 n)
                           (FDATA_MASK_HIGH (ucast (filter_mask_high p) AND CAN_FILTER_MASK_16BITS) OR
                            FDATA_MASK_LOW (ucast (filter_list_high p) AND CAN_FILTER_MASK_16BITS)) h)
                else h);
           h = (if ucast (filter_bits p) = CAN_FILTERBITS_32BIT
                then (let h = set_bits B (CAN_FSCFG CAN0) val h;
                          h = wr32 B (CAN_FDATA0 CAN0 n)
                                (FDATA_MASK_HIGH (ucast (filter_list_high p) AND CAN_FILTER_MASK_16BITS) OR
                                 FDATA_MASK_LOW (ucast (filter_list_low p) AND CAN_FILTER_MASK_16BITS)) h
                      in wr32 B (CAN_FDATA1 CAN0 n)
                           (FDATA_MASK_HIGH (ucast (filter_mask_high p) AND CAN_FILTER_MASK_16BITS) OR
                            FDATA_MASK_LOW (ucast (filter_mask_low p) AND CAN_FILTER_MASK_16BITS)) h)
                else h);
           h = (if ucast (filter_mode p) = CAN_FILTERMODE_MASK then clear_bits B (CAN_FMCFG CAN0) val h
                else set_bits B (CAN_FMCFG CAN0) val h);
           h = (if ucast (filter_fifo_number p) = CAN_FIFO0 then clear_bits B (CAN_FAFIFO CAN0) val h
                else set_bits B (CAN_FAFIFO CAN0) val h);
           h = (if filter_enable p then set_bits B (CAN_FW CAN0) val h else h)
       in Ret (clear_bits B (CAN_FCTL CAN0) CAN_FCTL_FLD h))"

definition can_time_trigger_mode_enable :: "'h bus \<Rightarrow> reg \<Rightarrow> 'h \<Rightarrow> 'h" where
  "can_time_trigger_mode_enable B can_periph h =
     (let h = set_bits B (CAN_CTL can_periph) CAN_CTL_TTC h
      in fold (\<lambda>mailbox_number. set_bits B (CAN_TMP can_periph mailbox_number) CAN_TMP_TSEN) [0, 1, 2] h)"

definition can_time_trigger_mode_disable :: "'h bus \<Rightarrow> reg \<Rightarrow> 'h \<Rightarrow> 'h" where
  "can_time_trigger_mode_disable B can_periph h =
     (let h = clear_bits B (CAN_CTL can_periph) CAN_CTL_TTC h
      in fold (\<lambda>mailbox_number. clear_bits B (CAN_TMP can_periph mailbox_number) CAN_TMP_TSEN) [0, 1, 2] h)"

text \<open>The first empty mailbox: the status register is read for each in turn.\<close>

definition empty_mailbox :: "'h bus \<Rightarrow> reg \<Rightarrow> 'h \<Rightarrow> 8 word \<times> 'h" where
  "empty_mailbox B can_periph h =
     (let (v, h) = rd32 B (CAN_TSTAT can_periph) h
      in if v AND CAN_TSTAT_TME0 = CAN_TSTAT_TME0 then (ucast CAN_MAILBOX0, h)
         else (let (v, h) = rd32 B (CAN_TSTAT can_periph) h
               in if v AND CAN_TSTAT_TME1 = CAN_TSTAT_TME1 then (ucast CAN_MAILBOX1, h)
                  else (let (v, h) = rd32 B (CAN_TSTAT can_periph) h
                        in if v AND CAN_TSTAT_TME2 = CAN_TSTAT_TME2 then (ucast CAN_MAILBOX2, h)
                           else (ucast CAN_NOMAILBOX, h))))"

definition can_message_transmit :: "'h bus \<Rightarrow> reg \<Rightarrow> can_trasnmit_message \<Rightarrow> 'h \<Rightarrow> 8 word \<times> 'h" where
  "can_message_transmit B can_periph m h =
     (let (mailbox_number, h) = empty_mailbox B can_periph h
      in if ucast mailbox_number = CAN_NOMAILBOX then (ucast CAN_NOMAILBOX, h)
         else (let n = ucast mailbox_number;
                   h = modify B (CAN_TMI can_periph n) (\<lambda>r. r AND CAN_TMI_TEN) h;
                   h = (if ucast (tx_ff m) = CAN_FF_STANDARD
                        then set_bits B (CAN_TMI can_periph n) (TMI_SFID (tx_sfid m) OR ucast (tx_ft m)) h
                        else set_bits B (CAN_TMI can_periph n)
                               (TMI_EFID (tx_efid m) OR ucast (tx_ff m) OR ucast (tx_ft m)) h);
                   h = clear_bits B (CAN_TMP can_periph n) CAN_TMP_DLENC h;
                   h = set_bits B (CAN_TMP can_periph n) (ucast (tx_dlen m)) h;
                   h = wr32 B (CAN_TMDATA0 can_periph n)
                         (TMDATA0_DB3 (ucast (tx_data m ! 3)) OR TMDATA0_DB2 (ucast (tx_data m ! 2)) OR
                          TMDATA0_DB1 (ucast (tx_data m ! 1)) OR TMDATA0_DB0 (ucast (tx_data m ! 0))) h;
                   h = wr32 B (CAN_TMDATA1 can_periph n)
                         (TMDATA1_DB7 (ucast (tx_data m ! 7)) OR TMDATA1_DB6 (ucast (tx_data m ! 6)) OR
                          TMDATA1_DB5 (ucast (tx_data m ! 5)) OR TMDATA1_DB4 (ucast (tx_data m ! 4))) h;
                   h = set_bits B (CAN_TMI can_periph n) CAN_TMI_TEN h
               in (mailbox_number, h)))"

definition can_transmission_stop :: "'h bus \<Rightarrow> reg \<Rightarrow> 8 word \<Rightarrow> 'h \<Rightarrow> 'h option" where
  "can_transmission_stop B can_periph mailbox_number h =
     (if ucast mailbox_number = CAN_MAILBOX0
      then (let h = set_bits B (CAN_TSTAT can_periph) CAN_TSTAT_MST0 h
            in spin_while B (CAN_TSTAT can_periph) (\<lambda>v. v AND CAN_TSTAT_MST0 = CAN_TSTAT_MST0) h)
      else if ucast mailbox_number = CAN_MAILBOX1
      then (let h = set_bits B (CAN_TSTAT can_periph) CAN_TSTAT_MST1 h
            in spin_while B (CAN_TSTAT can_periph) (\<lambda>v. v AND CAN_TSTAT_MST1 = CAN_TSTAT_MST1) h)
      else if ucast mailbox_number = CAN_MAILBOX2
      then (let h = set_bits B (CAN_TSTAT can_periph) CAN_TSTAT_MST2 h
            in spin_while B (CAN_TSTAT can_periph) (\<lambda>v. v AND CAN_TSTAT_MST2 = CAN_TSTAT_MST2) h)
      else Some h)"

text \<open>Each field of the message is a read of its register; an array element is stored at its index.\<close>

definition can_message_receive ::
  "'h bus \<Rightarrow> reg \<Rightarrow> 8 word \<Rightarrow> can_receive_message \<Rightarrow> 'h \<Rightarrow> can_receive_message \<times> 'h" where
  "can_message_receive B can_periph fifo_number m h =
     (let n = ucast fifo_number;
          (v, h) = rd32 B (CAN_RFIFOMI can_periph n) h;
          m = m\<lparr>rx_ff := ucast (CAN_RFIFOMI_FF AND v)\<rparr>;
          (v, h) = rd32 B (CAN_RFIFOMI can_periph n) h;
          m = (if ucast (rx_ff m) = CAN_FF_STANDARD then m\<lparr>rx_sfid := GET_RFIFOMI_SFID v\<rparr>
               else m\<lparr>rx_efid := GET_RFIFOMI_EFID v\<rparr>);
          (v, h) = rd32 B (CAN_RFIFOMI can_periph n) h;
          m = m\<lparr>rx_ft := ucast (CAN_RFIFOMI_FT AND v)\<rparr>;
          (v, h) = rd32 B (CAN_RFIFOMP can_periph n) h;
          m = m\<lparr>rx_fi := ucast (GET_RFIFOMP_FI v)\<rparr>;
          (v, h) = rd32 B (CAN_RFIFOMP can_periph n) h;
          m = m\<lparr>rx_dlen := ucast (GET_RFIFOMP_DLENC v)\<rparr>;
          (v, h) = rd32 B (CAN_RFIFOMDATA0 can_periph n) h;
          m = m\<lparr>rx_data := (rx_data m)[0 := ucast (GET_RFIFOMDATA0_DB0 v)]\<rparr>;
          (v, h) = rd32 B (CAN_RFIFOMDATA0 can_periph n) h;
          m = m\<lparr>rx_data := (rx_data m)[1 := ucast (GET_RFIFOMDATA0_DB1 v)]\<rparr>;
          (v, h) = rd32 B (CAN_RFIFOMDATA0 can_periph n) h;
          m = m\<lparr>rx_data := (rx_data m)[2 := ucast (GET_RFIFOMDATA0_DB2 v)]\<rparr>;
          (v, h) = rd32 B (CAN_RFIFOMDATA0 can_periph n) h;
          m = m\<lparr>rx_data := (rx_data m)[3 := ucast (GET_RFIFOMDATA0_DB3 v)]\<rparr>;
          (v, h) = rd32 B (CAN_RFIFOMDATA1 can_periph n) h;
          m = m\<lparr>rx_data := (rx_data m)[4 := ucast (GET_RFIFOMDATA1_DB4 v)]\<rparr>;
          (v, h) = rd32 B (CAN_RFIFOMDATA1 can_periph n) h;
          m = m\<lparr>rx_data := (rx_data m)[5 := ucast (GET_RFIFOMDATA1_DB5 v)]\<rparr>;
          (v, h) = rd32 B (CAN_RFIFOMDATA1 can_periph n) h;
          m = m\<lparr>rx_data := (rx_data m)[6 := ucast (GET_RFIFOMDATA1_DB6 v)]\<rparr>;
          (v, h) = rd32 B (CAN_RFIFOMDATA1 can_periph n) h;
          m = m\<lparr>rx_data := (rx_data m)[7 := ucast (GET_RFIFOMDATA1_DB7 v)]\<rparr>;
          h = (if ucast fifo_number = CAN_FIFO0 then set_bits B (CAN_RFIFO0 can_periph) CAN_RFIFO0_RFD0 h
               else set_bits B (CAN_RFIFO1 can_periph) CAN_RFIFO1_RFD1 h)
      in (m, h))"

text \<open>Each mode waits for its acknowledge and reads the register once more for the result.\<close>

definition mode_ack :: "'h bus \<Rightarrow> reg \<Rightarrow> (reg \<Rightarrow> bool) \<Rightarrow> 'h \<Rightarrow> bool \<times> 'h" where
  "mode_ack B can_periph P h =
     (let (_, h) = wait_while B (CAN_STAT can_periph) P (unat CAN_TIMEOUT) h;
          (v, h) = rd32 B (CAN_STAT can_periph) h
      in (\<not> P v, h))"

definition can_working_mode_set :: "'h bus \<Rightarrow> reg \<Rightarrow> 8 word \<Rightarrow> 'h \<Rightarrow> bool \<times> 'h" where
  "can_working_mode_set B can_periph working_mode h =
     (if ucast working_mode = CAN_MODE_INITIALIZE
      then (let h = clear_bits B (CAN_CTL can_periph) CAN_CTL_SLPWMOD h;
                h = set_bits B (CAN_CTL can_periph) CAN_CTL_IWMOD h
            in mode_ack B can_periph (\<lambda>v. v AND CAN_STAT_IWS \<noteq> CAN_STAT_IWS) h)
      else if ucast working_mode = CAN_MODE_NORMAL
      then (let h = clear_bits B (CAN_CTL can_periph) (CAN_CTL_SLPWMOD OR CAN_CTL_IWMOD) h
            in mode_ack B can_periph (\<lambda>v. v AND (CAN_STAT_IWS OR CAN_STAT_SLPWS) \<noteq> 0) h)
      else if ucast working_mode = CAN_MODE_SLEEP
      then (let h = clear_bits B (CAN_CTL can_periph) CAN_CTL_IWMOD h;
                h = set_bits B (CAN_CTL can_periph) CAN_CTL_SLPWMOD h
            in mode_ack B can_periph (\<lambda>v. v AND CAN_STAT_SLPWS \<noteq> CAN_STAT_SLPWS) h)
      else (False, h))"

definition can_wakeup :: "'h bus \<Rightarrow> reg \<Rightarrow> 'h \<Rightarrow> bool \<times> 'h" where
  "can_wakeup B can_periph h =
     (let h = clear_bits B (CAN_CTL can_periph) CAN_CTL_SLPWMOD h
      in mode_ack B can_periph (\<lambda>v. v AND CAN_STAT_SLPWS \<noteq> 0) h)"

text \<open>The three bits of the error number are the constants of \<open>can_error_enum\<close> in their order.\<close>

datatype can_error =
  CAN_ERROR_NONE | CAN_ERROR_FILL | CAN_ERROR_FORMATE | CAN_ERROR_ACK | CAN_ERROR_BITRECESSIVE
  | CAN_ERROR_BITDOMINANTER | CAN_ERROR_CRC | CAN_ERROR_SOFTWARECFG

definition can_error_of :: "reg \<Rightarrow> can_error" where
  "can_error_of v =
     (if v = 0 then CAN_ERROR_NONE else if v = 1 then CAN_ERROR_FILL else if v = 2 then CAN_ERROR_FORMATE
      else if v = 3 then CAN_ERROR_ACK else if v = 4 then CAN_ERROR_BITRECESSIVE
      else if v = 5 then CAN_ERROR_BITDOMINANTER else if v = 6 then CAN_ERROR_CRC else CAN_ERROR_SOFTWARECFG)"

definition can_error_get :: "'h bus \<Rightarrow> reg \<Rightarrow> 'h \<Rightarrow> can_error \<times> 'h" where
  "can_error_get B can_periph h =
     (let (v, h) = rd32 B (CAN_ERR can_periph) h in (can_error_of (GET_ERR_ERRN v), h))"

text \<open>The state of an interrupt's cause; the error number counts as a cause unless it is \<open>NONE\<close>, which
  is 0.\<close>

definition interrupt_cause :: "'h bus \<Rightarrow> reg \<Rightarrow> can_interrupt_flag \<Rightarrow> 'h \<Rightarrow> bool \<times> 'h" where
  "interrupt_cause B can_periph flg h =
     (if flg = CAN_INT_FLAG_RFL0
      then (let (n, h) = can_receive_message_length_get B can_periph (ucast CAN_FIFO0) h in (n \<noteq> 0, h))
      else if flg = CAN_INT_FLAG_RFL1
      then (let (n, h) = can_receive_message_length_get B can_periph (ucast CAN_FIFO1) h in (n \<noteq> 0, h))
      else if flg = CAN_INT_FLAG_ERRN
      then (let (e, h) = can_error_get B can_periph h in (e \<noteq> CAN_ERROR_NONE, h))
      else any_set B (CAN_REG_VALS can_periph (can_interrupt_flag_value flg))
             (BIT (unat (CAN_BIT_POS0 (can_interrupt_flag_value flg)))) h)"

definition can_interrupt_flag_get :: "'h bus \<Rightarrow> reg \<Rightarrow> can_interrupt_flag \<Rightarrow> 'h \<Rightarrow> bool \<times> 'h" where
  "can_interrupt_flag_get B can_periph flg h =
     (let (cause, h) = interrupt_cause B can_periph flg h;
          (v, h) = rd32 B (CAN_INTEN can_periph) h;
          ret2 = v AND BIT (unat (CAN_BIT_POS1 (can_interrupt_flag_value flg)))
      in (cause \<and> ret2 \<noteq> 0, h))"

text \<open>
  The layout of a message in the registers of the CAN controller: its identifier, its length and its
  eight bytes, as \<open>can_message_transmit\<close> writes them and \<open>can_message_receive\<close> reads them.
\<close>

section \<open>Fields of a register\<close>

lemma bit_can_field: "n < 32 \<Longrightarrow> bit (BITS m n AND push_bit m x) i \<longleftrightarrow> m \<le> i \<and> i \<le> n \<and> bit x (i - m)"
  by (auto simp: bit_and_iff bit_push_bit_iff)

text \<open>Four bytes in a word.\<close>

definition word_of_bytes :: "8 word \<Rightarrow> 8 word \<Rightarrow> 8 word \<Rightarrow> 8 word \<Rightarrow> reg" where
  "word_of_bytes a b c d = (BITS 24 31 AND push_bit 24 (ucast d)) OR (BITS 16 23 AND push_bit 16 (ucast c)) OR
     (BITS 8 15 AND push_bit 8 (ucast b)) OR (BITS 0 7 AND push_bit 0 (ucast a))"

lemma bytes_of_word:
  "ucast (GET_BITS (word_of_bytes a b c d) 0 7) = a" "ucast (GET_BITS (word_of_bytes a b c d) 8 15) = b"
  "ucast (GET_BITS (word_of_bytes a b c d) 16 23) = c" "ucast (GET_BITS (word_of_bytes a b c d) 24 31) = d"
  by (rule bit_word_eqI; simp only: word_of_bytes_def bit_ucast_iff bit_GET_BITS bit_or_iff bit_can_field; simp; arith?)+

text \<open>The identifier, with the bits that say which kind it is, which frame, and in the mailbox the
  request to send.\<close>

definition identifier_word :: "can_trasnmit_message \<Rightarrow> reg" where
  "identifier_word m =
     (if tx_ff m = 0 then TMI_SFID (tx_sfid m) OR ucast (tx_ft m)
      else TMI_EFID (tx_efid m) OR ucast (tx_ff m) OR ucast (tx_ft m))"

text \<open>A message that the code's comments allow.\<close>

definition tx_ok :: "can_trasnmit_message \<Rightarrow> bool" where
  "tx_ok m \<longleftrightarrow> tx_ff m \<in> {0, 4} \<and> tx_ft m \<in> {0, 2} \<and> tx_sfid m < 2 ^ 11 \<and> tx_efid m < 2 ^ 29 \<and>
     tx_dlen m \<le> 8 \<and> length (tx_data m) = 8"

lemma bit_identifier_small: "x < 2 ^ 11 \<Longrightarrow> bit x n \<Longrightarrow> n \<le> 10" "x < 2 ^ 29 \<Longrightarrow> bit x n \<Longrightarrow> n \<le> 28" for x :: reg
proof -
  have "bit x n \<Longrightarrow> n < k" if "unat x < 2 ^ k" for k
  proof -
    have "take_bit k x = x" using that by (simp add: word_unat_eq_iff unsigned_take_bit_eq take_bit_nat_eq_self)
    then show "bit x n \<Longrightarrow> n < k" by (metis bit_take_bit_iff)
  qed
  from this [of 11] this [of 29]
  show "x < 2 ^ 11 \<Longrightarrow> bit x n \<Longrightarrow> n \<le> 10" "x < 2 ^ 29 \<Longrightarrow> bit x n \<Longrightarrow> n \<le> 28"
    by (auto simp: word_less_nat_alt)
qed

lemma bit_of_2_4: "bit (2 :: reg) i \<longleftrightarrow> i = 1" "bit (4 :: reg) i \<longleftrightarrow> i = 2"
proof -
  have "(2 :: reg) = BIT 1" "(4 :: reg) = BIT 2" by (simp_all add: BIT_def)
  then show "bit (2 :: reg) i \<longleftrightarrow> i = 1" "bit (4 :: reg) i \<longleftrightarrow> i = 2" by (simp_all only: bit_BIT) auto
qed

lemma identifier_bits:
  assumes "tx_ok m"
  shows "bit (identifier_word m) i \<longleftrightarrow>
    (if tx_ff m = 0 then 21 \<le> i \<and> i \<le> 31 \<and> bit (tx_sfid m) (i - 21) else 3 \<le> i \<and> i \<le> 31 \<and> bit (tx_efid m) (i - 3)) \<or>
    i = 2 \<and> tx_ff m = 4 \<or> i = 1 \<and> tx_ft m = 2"
proof -
  have k: "bit (ucast (tx_ff m) :: reg) i \<longleftrightarrow> i = 2 \<and> tx_ff m = 4" "bit (ucast (tx_ft m) :: reg) i \<longleftrightarrow> i = 1 \<and> tx_ft m = 2"
    using assms by (auto simp: tx_ok_def bit_of_2_4 simp del: bit_numeral_word_iff)
  show ?thesis
  proof (cases "tx_ff m = 0")
    case True
    then have "identifier_word m = TMI_SFID (tx_sfid m) OR ucast (tx_ft m)" by (simp add: identifier_word_def)
    then show ?thesis using True by (simp only: bit_or_iff bit_can_field k) auto
  next
    case False
    then have "identifier_word m = TMI_EFID (tx_efid m) OR ucast (tx_ff m) OR ucast (tx_ft m)"
      by (simp add: identifier_word_def)
    then show ?thesis using False by (simp only: bit_or_iff bit_can_field k) auto
  qed
qed

lemma identifier_fields:
  assumes "tx_ok m" and "w AND NOT 1 = (((v AND BIT 0) OR identifier_word m) OR BIT 0) AND NOT 1"
  shows "ucast (BIT 2 AND w) = tx_ff m" "ucast (BIT 1 AND w) = tx_ft m"
    "tx_ff m = 0 \<Longrightarrow> GET_BITS w 21 31 = tx_sfid m" "tx_ff m \<noteq> 0 \<Longrightarrow> GET_BITS w 3 31 = tx_efid m"
proof -
  have b: "bit w i \<longleftrightarrow> bit (identifier_word m) i" if "0 < i" for i
  proof -
    have "bit (w AND NOT 1) i \<longleftrightarrow> bit ((((v AND BIT 0) OR identifier_word m) OR BIT 0) AND NOT 1) i"
      by (simp only: assms(2))
    then show ?thesis
      using that by (auto simp: bit_and_iff bit_or_iff bit_not_iff bit_1_iff dest: bit_imp_le_length)
  qed
  show "GET_BITS w 21 31 = tx_sfid m" if "tx_ff m = 0"
    using that identifier_bits [OF assms(1)] assms(1) bit_identifier_small(1) [of "tx_sfid m"]
    by (intro bit_word_eqI) (auto simp: bit_GET_BITS b tx_ok_def)
  show "GET_BITS w 3 31 = tx_efid m" if "tx_ff m \<noteq> 0"
    using that identifier_bits [OF assms(1)] assms(1) bit_identifier_small(2) [of "tx_efid m"]
    by (intro bit_word_eqI) (auto simp: bit_GET_BITS b tx_ok_def)
  have one: "BIT n AND w = (if bit w n then BIT n else 0)" for n
    by (rule bit_word_eqI) (auto simp: bit_and_iff)
  show "ucast (BIT 2 AND w) = tx_ff m" "ucast (BIT 1 AND w) = tx_ft m"
    using assms(1) identifier_bits [OF assms(1), of 2] identifier_bits [OF assms(1), of 1]
    unfolding one by (auto simp: b tx_ok_def BIT_def)
qed

section \<open>Transmitting and receiving\<close>

text \<open>What a mailbox holds of a message: the words of identifier, length and data.\<close>

definition holds_message :: "('h \<Rightarrow> 32 word \<Rightarrow> reg) \<Rightarrow> 32 word \<Rightarrow> can_trasnmit_message \<Rightarrow> 'h \<Rightarrow> bool" where
  "holds_message val a m h \<longleftrightarrow>
     (\<exists>v. val h a = ((v AND BIT 0) OR identifier_word m) OR BIT 0) \<and>
     val h (a + 4) AND BITS 0 3 = ucast (tx_dlen m) \<and>
     val h (a + 8) = word_of_bytes (tx_data m ! 0) (tx_data m ! 1) (tx_data m ! 2) (tx_data m ! 3) \<and>
     val h (a + 12) = word_of_bytes (tx_data m ! 4) (tx_data m ! 5) (tx_data m ! 6) (tx_data m ! 7)"

text \<open>A word of the receive registers agrees with that of a mailbox up to the bit that requests to
  send, which is not part of a message.\<close>

definition delivers :: "('h \<Rightarrow> 32 word \<Rightarrow> reg) \<Rightarrow> 32 word \<Rightarrow> 32 word \<Rightarrow> 'h \<Rightarrow> 'h \<Rightarrow> bool" where
  "delivers val a b h h' \<longleftrightarrow> val h' b AND NOT 1 = val h a AND NOT 1 \<and>
     val h' (b + 4) AND BITS 0 3 = val h (a + 4) AND BITS 0 3 \<and>
     val h' (b + 8) = val h (a + 8) \<and> val h' (b + 12) = val h (a + 12)"

lemma low_length: "x \<le> 8 \<Longrightarrow> ((v AND NOT (BITS 0 3)) OR ucast x) AND BITS 0 3 = ucast x" for x :: "8 word"
proof -
  assume "x \<le> 8"
  then have "unat x < 2 ^ 4" by (simp add: word_le_nat_alt)
  then have "take_bit 4 x = x" by (simp add: word_unat_eq_iff unsigned_take_bit_eq take_bit_nat_eq_self)
  then have "bit x n \<Longrightarrow> n < 4" for n by (metis bit_take_bit_iff)
  then have "bit x n \<Longrightarrow> n \<le> 3" for n by fastforce
  then show ?thesis by (intro bit_word_eqI) (auto simp: bit_and_iff bit_or_iff bit_not_iff bit_ucast_iff)
qed

text \<open>The identifier is written, then the length, the data, and last the request to send.\<close>

lemma transmit_steps:
  assumes "empty_mailbox B cp h = (n, h)" and "n \<noteq> 3"
  defines "a \<equiv> CAN_TMI cp (ucast n)"
  shows "can_message_transmit B cp m h = (n, set_bits B a (BIT 0)
    (wr32 B (a + 12) (word_of_bytes (tx_data m ! 4) (tx_data m ! 5) (tx_data m ! 6) (tx_data m ! 7))
    (wr32 B (a + 8) (word_of_bytes (tx_data m ! 0) (tx_data m ! 1) (tx_data m ! 2) (tx_data m ! 3))
    (set_bits B (a + 4) (ucast (tx_dlen m)) (clear_bits B (a + 4) (BITS 0 3)
    (set_bits B a (identifier_word m) (modify B a (\<lambda>r. r AND BIT 0) h)))))))"
proof -
  have "ucast n \<noteq> (3 :: reg)" using assms(2) by (simp add: word_unat_eq_iff unsigned_ucast_eq take_bit_nat_eq_self less_le_trans [OF unsigned_less])
  moreover have "ucast (tx_ff m) = (0 :: reg) \<longleftrightarrow> tx_ff m = 0"
    by (simp add: word_unat_eq_iff unsigned_ucast_eq take_bit_nat_eq_self less_le_trans [OF unsigned_less])
  ultimately show ?thesis
    unfolding can_message_transmit_def assms(1) a_def
    by (simp add: Let_def identifier_word_def word_of_bytes_def add.assoc if_distrib [of "\<lambda>x. set_bits B _ x _"])
qed

context registers
begin

lemma transmit_holds:
  assumes "empty_mailbox B cp h = (n, h)" and "n \<noteq> 3" and "tx_ok m"
    and "{CAN_TMI cp (ucast n), CAN_TMP cp (ucast n), CAN_TMDATA0 cp (ucast n), CAN_TMDATA1 cp (ucast n)} \<subseteq> A"
  shows "fst (can_message_transmit B cp m h) = n"
    and "holds_message val (CAN_TMI cp (ucast n)) m (snd (can_message_transmit B cp m h))"
proof -
  define a where "a = CAN_TMI cp (ucast n)"
  have A: "a \<in> A" "a + 4 \<in> A" "a + 8 \<in> A" "a + 12 \<in> A" using assms(4) by (simp_all add: a_def ac_simps)
  note steps = transmit_steps [OF assms(1,2), of m, folded a_def]
  show "fst (can_message_transmit B cp m h) = n" by (simp add: steps)
  have "tx_dlen m \<le> 8" using assms(3) by (simp add: tx_ok_def)
  then show "holds_message val (CAN_TMI cp (ucast n)) m (snd (can_message_transmit B cp m h))"
    using A unfolding a_def [symmetric] holds_message_def steps
    by (auto simp: access_val low_length)
qed

text \<open>The message read from four words.\<close>

lemma receive_val:
  assumes "{CAN_RFIFOMI cp (ucast n), CAN_RFIFOMP cp (ucast n), CAN_RFIFOMDATA0 cp (ucast n), CAN_RFIFOMDATA1 cp (ucast n)} \<subseteq> A"
    and "length (rx_data r) = 8"
  defines "b \<equiv> CAN_RFIFOMI cp (ucast n)"
  shows "fst (can_message_receive B cp n r h) =
    (let m = (if BIT 2 AND val h b = 0 then r\<lparr>rx_sfid := GET_BITS (val h b) 21 31\<rparr> else r\<lparr>rx_efid := GET_BITS (val h b) 3 31\<rparr>)
     in m\<lparr>rx_ff := ucast (BIT 2 AND val h b), rx_ft := ucast (BIT 1 AND val h b), rx_dlen := ucast (GET_BITS (val h (b + 4)) 0 3),
       rx_data := [ucast (GET_BITS (val h (b + 8)) 0 7), ucast (GET_BITS (val h (b + 8)) 8 15),
         ucast (GET_BITS (val h (b + 8)) 16 23), ucast (GET_BITS (val h (b + 8)) 24 31),
         ucast (GET_BITS (val h (b + 12)) 0 7), ucast (GET_BITS (val h (b + 12)) 8 15),
         ucast (GET_BITS (val h (b + 12)) 16 23), ucast (GET_BITS (val h (b + 12)) 24 31)],
       rx_fi := ucast (GET_BITS (val h (b + 4)) 8 15)\<rparr>)"
proof -
  have A: "b \<in> A" "b + 4 \<in> A" "b + 8 \<in> A" "b + 12 \<in> A" using assms(1) by (simp_all add: b_def ac_simps)
  have rd: "rd32 B (cp + 432 + ucast n * 16) h = (val h b, h)" "rd32 B (cp + 436 + ucast n * 16) h = (val h (b + 4), h)"
    "rd32 B (cp + 440 + ucast n * 16) h = (val h (b + 8), h)" "rd32 B (cp + 444 + ucast n * 16) h = (val h (b + 12), h)"
    using A [THEN rd_val] by (simp_all add: b_def ac_simps)
  obtain x0 x1 x2 x3 x4 x5 x6 x7 where data: "rx_data r = [x0, x1, x2, x3, x4, x5, x6, x7]"
    using assms(2) by (auto simp: length_Suc_conv eval_nat_numeral)
  have ff: "ucast (ucast (BIT 2 AND w) :: 8 word) = (0 :: reg) \<longleftrightarrow> BIT 2 AND w = 0" for w :: reg
  proof -
    have "BIT 2 AND w = (if bit w 2 then BIT 2 else 0)" by (rule bit_word_eqI) (auto simp: bit_and_iff)
    then show ?thesis by (simp add: BIT_def)
  qed
  show ?thesis
    by (simp add: can_message_receive_def rd ff data)
qed

end

text \<open>A received message is well-formed as the comment of \<open>can_message_receive\<close> has it: kind and
  type are of the two values each has, the identifiers fit 11 and 29 bits, the data are eight bytes, of which at
  most eight count, and the index of the filter is at most 27.\<close>

definition rx_ok :: "can_receive_message \<Rightarrow> bool" where
  "rx_ok r \<longleftrightarrow> rx_ff r \<in> {0, 4} \<and> rx_ft r \<in> {0, 2} \<and> rx_sfid r < 2 ^ 11 \<and> rx_efid r < 2 ^ 29 \<and>
     rx_dlen r \<le> 8 \<and> length (rx_data r) = 8 \<and> rx_fi r \<le> 27"

lemma one_bit: "BIT n AND w \<in> {0, BIT n}"
proof -
  have "BIT n AND w = (if bit w n then BIT n else 0)" by (rule bit_word_eqI) (auto simp: bit_and_iff)
  then show ?thesis by auto
qed

lemma byte_back: "ucast (ucast x :: reg) = x" for x :: "8 word"
  by (rule bit_word_eqI) (simp add: bit_ucast_iff)

lemma field_small: "GET_BITS w 21 31 < 2 ^ 11" "GET_BITS w 3 31 < 2 ^ 29"
  "ucast (GET_BITS w 0 3) \<le> (8 :: 8 word) \<longleftrightarrow> GET_BITS w 0 3 \<le> 8" "ucast (GET_BITS w 8 15) \<le> (27 :: 8 word) \<longleftrightarrow> GET_BITS w 8 15 \<le> 27"
proof -
  have "GET_BITS w 0 3 < 16" "GET_BITS w 8 15 < 256" "GET_BITS w 21 31 < 2 ^ 11" "GET_BITS w 3 31 < 2 ^ 29"
    using GET_BITS_bound [of 3 w 0] GET_BITS_bound [of 15 w 8] GET_BITS_bound [of 31 w 21] GET_BITS_bound [of 31 w 3]
    by (simp_all add: word_less_nat_alt)
  then show "GET_BITS w 21 31 < 2 ^ 11" "GET_BITS w 3 31 < 2 ^ 29" "ucast (GET_BITS w 0 3) \<le> (8 :: 8 word) \<longleftrightarrow> GET_BITS w 0 3 \<le> 8"
    "ucast (GET_BITS w 8 15) \<le> (27 :: 8 word) \<longleftrightarrow> GET_BITS w 8 15 \<le> 27"
    by (simp_all add: word_less_nat_alt word_le_nat_alt unsigned_ucast_eq take_bit_nat_eq_self)
qed

end
