(* ===== verification/Pmu.thy ===== *)
theory Pmu
  imports Rcu Core
begin

text \<open>
  \<open>gd32vf103_pmu.c\<close>: the power modes. The three functions that go to sleep end with the same choice
  between waiting for an interrupt and waiting for an event.
\<close>

section \<open>Registers\<close>

abbreviation (input) PMU_BASE :: "reg" where "PMU_BASE \<equiv> APB1_BUS_BASE + 0x7000"
abbreviation (input) PMU :: "reg" where "PMU \<equiv> PMU_BASE"
abbreviation (input) PMU_CTL :: "32 word" where "PMU_CTL \<equiv> PMU + 0"
abbreviation (input) PMU_CTL_LVDEN :: "reg" where "PMU_CTL_LVDEN \<equiv> BIT 4"
abbreviation (input) PMU_CTL_LVDT :: "reg" where "PMU_CTL_LVDT \<equiv> BITS 5 7"
abbreviation (input) PMU_CS :: "32 word" where "PMU_CS \<equiv> PMU + 4"
abbreviation (input) PMU_CS_WUPEN :: "reg" where "PMU_CS_WUPEN \<equiv> BIT 8"
abbreviation (input) PMU_CTL_BKPWEN :: "reg" where "PMU_CTL_BKPWEN \<equiv> BIT 8"
abbreviation (input) PMU_FLAG_RESET_WAKEUP :: "reg" where "PMU_FLAG_RESET_WAKEUP \<equiv> 0"
abbreviation (input) PMU_CTL_WURST :: "reg" where "PMU_CTL_WURST \<equiv> BIT 2"
abbreviation (input) PMU_FLAG_RESET_STANDBY :: "reg" where "PMU_FLAG_RESET_STANDBY \<equiv> 1"
abbreviation (input) PMU_CTL_STBRST :: "reg" where "PMU_CTL_STBRST \<equiv> BIT 3"
abbreviation (input) PMU_CTL_LDOLP :: "reg" where "PMU_CTL_LDOLP \<equiv> BIT 0"
abbreviation (input) PMU_CTL_STBMOD :: "reg" where "PMU_CTL_STBMOD \<equiv> BIT 1"
abbreviation (input) WFI_CMD :: "reg" where "WFI_CMD \<equiv> 0"

section \<open>Operations\<close>

definition pmu_deinit :: "'h bus \<Rightarrow> 'h \<Rightarrow> 'h" where
  "pmu_deinit B h =
     reset_pulse B RCU_PMURST h"

definition pmu_lvd_select :: "'h bus \<Rightarrow> reg \<Rightarrow> 'h \<Rightarrow> 'h" where
  "pmu_lvd_select B lvdt_n h =
     (let h = clear_bits B PMU_CTL PMU_CTL_LVDEN h;
          h = clear_bits B PMU_CTL PMU_CTL_LVDT h;
          h = set_bits B PMU_CTL lvdt_n h
      in set_bits B PMU_CTL PMU_CTL_LVDEN h)"

definition pmu_lvd_disable :: "'h bus \<Rightarrow> 'h \<Rightarrow> 'h" where
  "pmu_lvd_disable B h = clear_bits B PMU_CTL PMU_CTL_LVDEN h"

definition pmu_wakeup_pin_enable :: "'h bus \<Rightarrow> 'h \<Rightarrow> 'h" where
  "pmu_wakeup_pin_enable B h = set_bits B PMU_CS PMU_CS_WUPEN h"

definition pmu_wakeup_pin_disable :: "'h bus \<Rightarrow> 'h \<Rightarrow> 'h" where
  "pmu_wakeup_pin_disable B h = clear_bits B PMU_CS PMU_CS_WUPEN h"

definition pmu_backup_write_enable :: "'h bus \<Rightarrow> 'h \<Rightarrow> 'h" where
  "pmu_backup_write_enable B h = set_bits B PMU_CTL PMU_CTL_BKPWEN h"

definition pmu_backup_write_disable :: "'h bus \<Rightarrow> 'h \<Rightarrow> 'h" where
  "pmu_backup_write_disable B h = clear_bits B PMU_CTL PMU_CTL_BKPWEN h"

definition pmu_flag_get :: "'h bus \<Rightarrow> reg \<Rightarrow> 'h \<Rightarrow> bool \<times> 'h" where
  "pmu_flag_get B flg h = any_set B PMU_CS flg h"

definition pmu_flag_clear :: "'h bus \<Rightarrow> reg \<Rightarrow> 'h \<Rightarrow> 'h" where
  "pmu_flag_clear B flag_reset h =
     (if flag_reset = PMU_FLAG_RESET_WAKEUP then set_bits B PMU_CTL PMU_CTL_WURST h
      else if flag_reset = PMU_FLAG_RESET_STANDBY then set_bits B PMU_CTL PMU_CTL_STBRST h
      else h)"

definition wait_cmd :: "'h core \<Rightarrow> 8 word \<Rightarrow> 'h \<Rightarrow> 'h" where
  "wait_cmd C cmd h =
     (if ucast cmd = WFI_CMD then wfi C h
      else (let h = clear_csr C CSR_MSTATUS MSTATUS_MIE h;
                h = set_csr C CSR_WFE 1 h;
                h = wfi C h;
                h = clear_csr C CSR_WFE 1 h
            in set_csr C CSR_MSTATUS MSTATUS_MIE h))"

definition pmu_to_sleepmode :: "'h core \<Rightarrow> 8 word \<Rightarrow> 'h \<Rightarrow> 'h" where
  "pmu_to_sleepmode C sleepmodecmd h =
     (let h = clear_csr C CSR_SLEEPVALUE 1 h in wait_cmd C sleepmodecmd h)"

definition pmu_to_deepsleepmode :: "'h bus \<Rightarrow> 'h core \<Rightarrow> reg \<Rightarrow> 8 word \<Rightarrow> 'h \<Rightarrow> 'h" where
  "pmu_to_deepsleepmode B C ldo deepsleepmodecmd h =
     (let h = clear_bits B PMU_CTL (PMU_CTL_STBMOD OR PMU_CTL_LDOLP) h;
          h = set_bits B PMU_CTL ldo h;
          h = set_csr C CSR_SLEEPVALUE 1 h;
          h = wait_cmd C deepsleepmodecmd h
      in clear_csr C CSR_SLEEPVALUE 1 h)"

definition pmu_to_standbymode :: "'h bus \<Rightarrow> 'h core \<Rightarrow> 8 word \<Rightarrow> 'h \<Rightarrow> 'h" where
  "pmu_to_standbymode B C standbymodecmd h =
     (let h = set_csr C CSR_SLEEPVALUE 1 h;
          h = set_bits B PMU_CTL PMU_CTL_STBMOD h;
          h = set_bits B PMU_CTL PMU_CTL_WURST h;
          h = wait_cmd C standbymodecmd h
      in clear_csr C CSR_SLEEPVALUE 1 h)"

end
