(* ===== verification/DriverClaims.thy ===== *)
theory DriverClaims
  imports SystemClockSpec N200Spec Watchdogs Dac Dma Spi Usart I2c Timer Adc Bkp Exmc Can Pmu N200
begin

text \<open>
  The properties of the start-up code and of the drivers of the peripherals. What a property needs of
  the hardware is a named contract (\<open>registers\<close>, \<open>clock_unit\<close>, \<open>counter\<close>, \<open>byte_registers\<close>), and its
  example is the documented hardware that satisfies it.
\<close>

section \<open>Start-up\<close>

text \<open>C6: Whichever clock is configured and whichever of the two crystals is fitted, \<open>SystemInit\<close>
  returns, and then the clocks have the frequency that \<open>SystemCoreClock\<close> promises, the slow bus half
  of it; \<open>SystemCoreClockUpdate\<close> computes that value.\<close>

theorem system_init_clocks:
  assumes "clock_unit B val" and "xtal = 8000000 \<or> xtal = 25000000" and "clock \<noteq> CLOCK_NONE"
  shows "\<exists>h'. SystemInit B clock xtal h = Some h' \<and>
    (\<forall>k. unat (fst (rcu_clock_freq_get B xtal k h')) =
      (if k = CK_APB1 then unat (SystemCoreClock clock xtal) div 2 else unat (SystemCoreClock clock xtal))) \<and>
    fst (SystemCoreClockUpdate B xtal h') = SystemCoreClock clock xtal"
proof -
  obtain h' where h': "SystemInit B clock xtal h = Some h'" "clocked_at B xtal (SystemCoreClock clock xtal) h'"
    using clock_unit.SystemInit_ok [OF assms, of h] by (auto simp: ensures_def)
  have "fst (SystemCoreClockUpdate B xtal h') = fst (rcu_clock_freq_get B xtal CK_SYS h')"
    by (simp add: core_clock_update rcu_clock_freq_get_def split_beta Let_def)
  also have "\<dots> = SystemCoreClock clock xtal"
    using h'(2) by (simp add: clocked_at_def word_unat_eq_iff)
  finally show ?thesis using h' by (auto simp: clocked_at_def)
qed

theorem system_init_clocks_witness:
  "\<exists>h'. SystemInit slow_clocks CLOCK_108M_PLL_HXTAL 8000000 (\<lambda>_. 0, 0) = Some h' \<and>
    unat (fst (rcu_clock_freq_get slow_clocks 8000000 CK_APB1 h')) = 54000000"
proof -
  obtain h' where "SystemInit slow_clocks CLOCK_108M_PLL_HXTAL 8000000 (\<lambda>_. 0, 0) = Some h'"
    "\<forall>k. unat (fst (rcu_clock_freq_get slow_clocks 8000000 k h')) =
      (if k = CK_APB1 then unat (108000000 :: reg) div 2 else unat (108000000 :: reg))"
    using system_init_clocks [OF slow_clocks.clock_unit_axioms, of 8000000 CLOCK_108M_PLL_HXTAL "(\<lambda>_. 0, 0)"] by auto
  then show ?thesis by auto
qed

text \<open>\<open>SystemCoreClockUpdate\<close> computes the frequency that \<open>rcu_clock_freq_get\<close> reports for the
  system clock, by the same reads of the same registers, on any hardware.\<close>

theorem core_clock_agrees:
  "fst (SystemCoreClockUpdate B xtal h) = fst (rcu_clock_freq_get B xtal CK_SYS h)"
  by (simp add: core_clock_update rcu_clock_freq_get_def split_beta Let_def)

section \<open>Counters of 64 bits\<close>

text \<open>C24: The value that \<open>get_timer_value\<close> puts together from two halves of a running timer is a
  count that the timer really had while it was read.\<close>

theorem timer_value_real:
  assumes "counter (mtime_hi B) (mtime_lo B) count" and "get_timer_value B h = Some (v, h')"
  shows "count h \<le> v \<and> v \<le> count h'"
  using counter.value_between [OF assms(1)] assms(2) by (simp add: get_timer_value_def)

text \<open>A timer that advances by one at each read, and the real-time clock beside it.\<close>

definition ticking :: "(32 word \<Rightarrow> 64 word \<Rightarrow> reg) \<Rightarrow> 64 word bus" where
  "ticking f = \<lparr>rd32 = (\<lambda>a t. (f a t, if t = - 1 then t else t + 1)), wr32 = (\<lambda>a v t. t),
     rd16 = (\<lambda>a t. (ucast (f a t), t)), wr16 = (\<lambda>a v t. t), rd8 = (\<lambda>a t. (ucast (f a t), t)), wr8 = (\<lambda>a v t. t)\<rparr>"

definition mtime_reg :: "32 word \<Rightarrow> 64 word \<Rightarrow> reg" where
  "mtime_reg a t = (if a = 0xd1000000 then ucast t else if a = 0xd1000004 then ucast (drop_bit 32 t) else 0)"

lemma ticks_on: "t \<le> (if t = - 1 then t else t + 1)" for t :: "64 word"
proof (cases "t = - 1")
  case False
  have "unat t < 2 ^ 64" using unsigned_less [of t, where ?'a = nat] by simp
  moreover have "unat (- 1 :: 64 word) = 2 ^ 64 - 1" by (simp add: unsigned_minus_1_eq_mask mask_eq_exp_minus_1)
  then have "unat t \<noteq> 2 ^ 64 - 1" using False by (metis word_unat_eq_iff)
  ultimately have "unat t + 1 < 2 ^ 64" by linarith
  then have "unat (t + 1) = unat t + 1" by (simp add: unat_word_ariths)
  then show ?thesis using False by (simp add: word_le_nat_alt)
qed simp

interpretation mtime: counter "mtime_hi (ticking mtime_reg)" "mtime_lo (ticking mtime_reg)" "\<lambda>t. t"
  by unfold_locales (simp_all add: mtime_hi_def mtime_lo_def ticking_def mtime_reg_def ticks_on)

theorem timer_value_real_witness:
  "get_timer_value (ticking mtime_reg) 0x200000001 = Some (0x200000002, 0x200000004) \<and>
    (0x200000001 :: 64 word) \<le> 0x200000002 \<and> (0x200000002 :: 64 word) \<le> 0x200000004"
proof -
  have "get_timer_value (ticking mtime_reg) 0x200000001 = Some (0x200000002, 0x200000004)"
    unfolding get_timer_value_def
    by (subst mtime.turn) (simp add: mtime_hi_def mtime_lo_def ticking_def)
  with timer_value_real [OF mtime.counter_axioms this] show ?thesis by simp
qed

text \<open>C40: \<open>rtc_counter_get\<close> does not guard against the carry: if the counter passes a multiple of 65536
  between its two reads, the value is 65536 too large.\<close>

theorem rtc_counter_torn:
  assumes "\<And>h. fst (rd32 B RTC_CNTL h) = count h AND 0xFFFF" and "\<And>h. fst (rd32 B RTC_CNTH h) = drop_bit 16 (count h)"
    and "count h AND 0xFFFF = 0xFFFF" and "count h \<noteq> - 1" and "count (snd (rd32 B RTC_CNTL h)) = count h + 1"
  shows "fst (rtc_counter_get B h) = count h + 0x10000"
proof -
  let ?c = "count h"
  have "?c AND 0xFFFF = take_bit 16 ?c" using take_bit_eq_mask [of 16 ?c] by (simp add: mask_eq_exp_minus_1)
  then have low: "unat ?c mod 65536 = 0xFFFF"
    using arg_cong [OF assms(3), of unat] by (simp add: take_bit_eq_mod unat_mod)
  have "unat ?c < 2 ^ 32" using unsigned_less [of ?c, where ?'a = nat] by simp
  moreover have "unat (- 1 :: reg) = 2 ^ 32 - 1" by (simp add: unsigned_minus_1_eq_mask mask_eq_exp_minus_1)
  then have "unat ?c \<noteq> 2 ^ 32 - 1" using assms(4) by (metis word_unat_eq_iff)
  ultimately have lt: "unat ?c + 1 < 2 ^ 32" by linarith
  then have "unat (?c + 1) = unat ?c + 1" by (simp add: unat_word_ariths)
  moreover define k where "k = unat ?c div 65536"
  have c: "unat ?c = 65536 * k + 0xFFFF" using mult_div_mod_eq [of 65536 "unat ?c"] low by (simp add: k_def)
  ultimately have "unat (?c + 1) = 65536 * (k + 1)" by simp
  then have q: "unat (drop_bit 16 (?c + 1)) = k + 1" by (simp add: drop_bit_eq_div unat_div)
  have top: "(k + 1) * 65536 + 0xFFFF = unat ?c + 0x10000" using c by simp
  have "k < 0xFFFF" using c lt by simp
  then have bound: "(k + 1) * 65536 + 0xFFFF < 2 ^ 32" by simp
  have "unat (push_bit 16 (drop_bit 16 (?c + 1))) = (k + 1) * 65536"
    using bound by (simp add: push_bit_eq_mult unat_word_ariths q)
  moreover have "0xFFFF AND push_bit 16 (drop_bit 16 (?c + 1)) = 0"
  proof -
    have "mask 16 AND push_bit 16 w = 0" for w :: reg by (rule bit_word_eqI) (auto simp: bit_simps)
    moreover have "mask 16 = (0xFFFF :: reg)" by (simp add: mask_eq_exp_minus_1)
    ultimately show ?thesis by (simp only:)
  qed
  then have "0xFFFF OR push_bit 16 (drop_bit 16 (?c + 1)) = 0xFFFF + push_bit 16 (drop_bit 16 (?c + 1))"
    by (simp only: disjunctive_add_eq_or)
  ultimately have "unat (0xFFFF OR push_bit 16 (drop_bit 16 (?c + 1))) = unat ?c + 0x10000"
    using top bound by (simp add: unat_word_ariths)
  moreover have "unat (?c + 0x10000) = unat ?c + 0x10000" using top bound by (simp add: unat_word_ariths)
  ultimately have "0xFFFF OR push_bit 16 (drop_bit 16 (?c + 1)) = ?c + 0x10000" by (simp only: word_unat_eq_iff)
  moreover have "fst (rd32 B 0x4000281C h) = 0xFFFF"
      "fst (rd32 B 0x40002818 (snd (rd32 B 0x4000281C h))) = drop_bit 16 (?c + 1)"
    using assms(1) [of h] assms(2) [of "snd (rd32 B RTC_CNTL h)"] assms(3,5) by simp_all
  ultimately show ?thesis by (simp add: rtc_counter_get_def split_beta)
qed

definition rtc_reg :: "32 word \<Rightarrow> 64 word \<Rightarrow> reg" where
  "rtc_reg a t = (if a = 0x4000281C then ucast t AND 0xFFFF else if a = 0x40002818 then drop_bit 16 (ucast t) else 0)"

theorem rtc_counter_torn_witness: "fst (rtc_counter_get (ticking rtc_reg) 0xFFFF) = 0x1FFFF"
proof -
  have "fst (rtc_counter_get (ticking rtc_reg) 0xFFFF) = ucast (0xFFFF :: 64 word) + 0x10000"
    by (rule rtc_counter_torn) (simp_all add: ticking_def rtc_reg_def)
  then show ?thesis by simp
qed

section \<open>The interrupt controller\<close>

text \<open>C30: The level set for an interrupt source is the level read back, if it fits the bits that the
  configuration gives to levels, and the priority of the source, in the other bits of the same byte,
  stays what it was.\<close>

theorem eclic_level_kept:
  assumes "byte_registers B val A" and "{0xd2000000, ctrl_byte source} \<subseteq> A" and "source < 4096"
    and "unat lvl < 2 ^ level_count (val h 0xd2000000)"
  shows "fst (eclic_get_irq_lvl_abs B source (eclic_set_irq_lvl_abs B source lvl h)) = lvl \<and>
    fst (eclic_get_irq_priority B source (eclic_set_irq_lvl_abs B source lvl h)) =
    fst (eclic_get_irq_priority B source h)"
  using byte_registers.level_set_get [OF assms(1)] assms(2-4) by simp

theorem eclic_level_kept_witness:
  "fst (eclic_get_irq_lvl_abs gd32 19 (eclic_set_irq_lvl_abs gd32 19 5 ((\<lambda>_. 0)(0xd2000000 := 6)))) = 5"
proof -
  have "level_count (fst (gd32_read8 0xd2000000 ((\<lambda>_. 0)(0xd2000000 := 6)))) = 3"
    by (simp add: level_count_def gd32_read8_def)
  then show ?thesis
    using eclic_level_kept [OF gd32_bytes.byte_registers_axioms, of 19 5 "(\<lambda>_. 0)(0xd2000000 := 6)"] by simp
qed

text \<open>\<open>eclic_set_posedge_trig\<close> and \<open>eclic_set_negedge_trig\<close> do not make a source edge-triggered: the
  bit that says so keeps its old value, since the value computed first is overwritten.\<close>

theorem edge_trigger_lost:
  assumes "byte_registers B val A" and "a = 0xd2001002 + source * 4" and "a \<in> A"
  shows "bit (val (eclic_set_posedge_trig B source h) a) 1 = bit (val h a) 1 \<and>
    bit (val (eclic_set_negedge_trig B source h) a) 1 = bit (val h a) 1"
proof -
  have "bit (NOT 4 :: 8 word) 1" "\<not> bit (4 :: 8 word) 1" by simp_all
  then show ?thesis
    using assms(3) byte_registers.rd_val [OF assms(1)] byte_registers.wr_val [OF assms(1)]
    by (simp add: eclic_set_posedge_trig_def eclic_set_negedge_trig_def eclic_get_intattr_def eclic_set_intattr_def
      assms(2) bit_and_iff bit_or_iff)
qed

theorem edge_trigger_lost_witness:
  "\<not> bit (fst (gd32_read8 0xd200104E (eclic_set_posedge_trig gd32 19 (\<lambda>_. 0)))) 1"
  using edge_trigger_lost [OF gd32_bytes.byte_registers_axioms, of "0xd200104E" 19 "\<lambda>_. 0"]
  by (simp add: gd32_read8_def)

section \<open>Serial ports\<close>

lemma nearest: "x \<le> u + h \<Longrightarrow> u + h < x + b \<Longrightarrow> 2 * h \<le> b \<Longrightarrow> b \<le> 2 * h + 1 \<Longrightarrow> 2 * \<bar>u - x\<bar> \<le> b"
  for u x h b :: int
  by arith

text \<open>C26: The divisor that \<open>usart_baudrate_set\<close> writes is the clock of the port divided by the rate and rounded, with
  two losses: the sum that rounds is taken in 32 bits, and of the quotient only the lower 16 bits are written, so
  that a rate which is too low for the clock gives another one. Where neither loses anything the divisor is
  the nearest one: the rate that it stands for, times the divisor, differs from the clock by at most half the rate.
  A rate of 0 is undefined.\<close>

theorem usart_divisor_written:
  fixes baud :: reg
  assumes "usart_clock B xtal p h = (uclk, h1)"
  defines "n \<equiv> unat uclk + unat baud div 2"
  shows "if baud = 0 then usart_baudrate_set B xtal p baud h = Undef
    else \<exists>d. usart_baudrate_set B xtal p baud h = Ret (wr32 B (USART_BAUD p) d h1) \<and>
      unat d = n mod 2 ^ 32 div unat baud mod 2 ^ 16 \<and>
      (n < 2 ^ 32 \<and> n div unat baud < 2 ^ 16 \<longrightarrow>
        2 * \<bar>int (unat uclk) - int (unat baud) * int (unat d)\<bar> \<le> int (unat baud))"
proof (cases "baud = 0")
  case True
  then show ?thesis using assms(1) by (simp add: usart_baudrate_set_def udivide_def)
next
  case False
  let ?b = "unat baud" and ?q = "(uclk + baud div 2) div baud"
  let ?d = "take_bit 16 ?q"
  have b: "0 < ?b" using False by (simp add: unat_gt_0)
  have q: "unat ?q = n mod 2 ^ 32 div ?b" by (simp add: unat_div unat_word_ariths n_def)
  have d: "unat ?d = n mod 2 ^ 32 div ?b mod 2 ^ 16"
    unfolding unsigned_take_bit_eq q by (simp add: take_bit_eq_mod)
  have mask: "?q AND 0xFFFF = ?d" using take_bit_eq_mask [of 16 ?q] by (simp add: mask_eq_exp_minus_1)
  have "BITS 0 3 OR BITS 4 15 = 0xFFFF" by (simp add: BITS_def)
  moreover have "(?q AND 0xFFF0) OR (?q AND 0xF) = ?q AND 0xFFFF"
    by (simp flip: bit.conj_disj_distrib)
  ultimately have w: "(BITS 0 3 OR BITS 4 15) AND ((?q AND 0xFFF0) OR (?q AND 0xF)) = ?d"
    by (simp add: and.assoc and.left_commute flip: mask)
  have "2 * \<bar>int (unat uclk) - int ?b * int (unat ?d)\<bar> \<le> int ?b" if small: "n < 2 ^ 32" "n div ?b < 2 ^ 16"
  proof -
    have e: "unat ?d = n div ?b" using small unfolding d by simp
    have "?b * (n div ?b) \<le> n" "n < ?b * (n div ?b) + ?b"
      using b mult_div_mod_eq [of ?b n] mod_less_divisor [OF b, of n] by linarith+
    then have "int (?b * (n div ?b)) \<le> int n" "int n < int (?b * (n div ?b)) + int ?b" by linarith+
    moreover have "int n = int (unat uclk) + int (?b div 2)" by (simp add: n_def)
    moreover have "2 * int (?b div 2) \<le> int ?b" "int ?b \<le> 2 * int (?b div 2) + 1" by linarith+
    ultimately have "2 * \<bar>int (unat uclk) - int (?b * (n div ?b))\<bar> \<le> int ?b"
      using nearest [of "int (?b * (n div ?b))" "int (unat uclk)" "int (?b div 2)" "int ?b"] by (simp only:)
    then show ?thesis by (simp only: e of_nat_mult)
  qed
  moreover have "usart_baudrate_set B xtal p baud h = Ret (wr32 B (USART_BAUD p) ?d h1)"
    using False assms(1) w by (simp add: usart_baudrate_set_def udivide_def Let_def)
  ultimately show ?thesis using False d by (intro iffD2 [OF if_not_P]) blast+
qed

text \<open>At 8 MHz, 115200 baud are met as nearly as can be; 100 baud would need a divisor of 80000, and 14464 is written.\<close>

theorem usart_divisor_written_witness:
  "\<exists>d e. usart_baudrate_set gd32 8000000 USART0 115200 (\<lambda>_. 0) = Ret (wr32 gd32 (USART_BAUD USART0) d (\<lambda>_. 0)) \<and>
    2 * \<bar>8000000 - 115200 * int (unat d)\<bar> \<le> 115200 \<and>
    usart_baudrate_set gd32 8000000 USART0 100 (\<lambda>_. 0) = Ret (wr32 gd32 (USART_BAUD USART0) e (\<lambda>_. 0)) \<and> unat e = 14464"
proof -
  have A: "RCU_CFG0 \<in> {a. \<not> special a}" "RCU_CFG1 \<in> {a. \<not> special a}"
    by (simp_all add: special_def is_port_def GPIO_BASE_def EXTI_BASE_def)
  obtain w where "rcu_clock_freq_get gd32 8000000 CK_APB2 (\<lambda>_. 0) = (w, \<lambda>_. 0)" "unat w = 8000000"
    using gd32.freq_get_val [OF A, of 8000000 "\<lambda>_. 0" CK_APB2]
    by (auto simp: sys_hz_def ahb_hz_def apb_hz_def field_def GET_BITS_def)
  then have "usart_clock gd32 8000000 USART0 (\<lambda>_. 0) = (w, \<lambda>_. 0)" "unat w = 8000000"
    by (simp_all add: usart_clock_def)
  from usart_divisor_written [OF this(1), of 115200] usart_divisor_written [OF this(1), of 100] this(2) show ?thesis by auto
qed

section \<open>DMA\<close>

text \<open>C10: \<open>dma_init\<close> hangs exactly on a channel that the second controller does not have. Else it sets the
  two addresses, the count (its lower 16 bits), and in the control register the widths, the priority,
  the increments and the direction that it is told; every other bit of that register and every
  register of another channel keeps its value.\<close>

theorem dma_init_configures:
  assumes "registers B val A" and "\<And>c. dma_regs dma c \<subseteq> A" and "dma_periph_width p OR dma_memory_width p OR dma_priority p = bits"
    and "bits AND NOT (BITS 8 13) = 0"
  shows "if dma = DMA1 \<and> c \<in> {DMA_CH5, DMA_CH6} then dma_init B dma c p h = None
    else \<exists>h'. dma_init B dma c p h = Some h' \<and>
      val h' (DMA_CHPADDR dma (dma_channel_value c)) = dma_periph_addr p \<and>
      val h' (DMA_CHMADDR dma (dma_channel_value c)) = dma_memory_addr p \<and>
      val h' (DMA_CHCNT dma (dma_channel_value c)) = dma_number p AND BITS 0 15 \<and>
      (\<forall>i. bit (val h' (DMA_CHCTL dma (dma_channel_value c))) i \<longleftrightarrow>
        (if i = 4 then dma_direction p \<noteq> 0 else if i = 6 then dma_periph_inc p = 1 else if i = 7 then dma_memory_inc p = 1
         else if 8 \<le> i \<and> i \<le> 13 then bit bits i else bit (val h (DMA_CHCTL dma (dma_channel_value c))) i)) \<and>
      (\<forall>c'. c' \<noteq> c \<longrightarrow> (\<forall>a \<in> dma_regs dma c'. val h' a = val h a))"
proof (cases "dma = DMA1 \<and> c \<in> {DMA_CH5, DMA_CH6}")
  case True
  then show ?thesis by (simp add: dma_init_def channel_check)
next
  case False
  let ?n = "dma_channel_value c"
  obtain h' where h': "dma_init B dma c p h = Some h'"
    "\<forall>i. bit (val h' (DMA_CHCTL dma ?n)) i \<longleftrightarrow>
      (if i = 4 then dma_direction p \<noteq> 0 else if i = 6 then dma_periph_inc p = 1 else if i = 7 then dma_memory_inc p = 1
       else if 8 \<le> i \<and> i \<le> 13 then bit bits i else bit (val h (DMA_CHCTL dma ?n)) i)"
    "\<forall>b \<in> A - {DMA_CHCTL dma ?n}. val h' b = (if b = DMA_CHCNT dma ?n then dma_number p AND BITS 0 15
      else if b = DMA_CHMADDR dma ?n then dma_memory_addr p else if b = DMA_CHPADDR dma ?n then dma_periph_addr p
      else val h b)"
    using registers.dma_init_val [OF assms False] by blast
  have own: "DMA_CHPADDR dma ?n \<in> A" "DMA_CHMADDR dma ?n \<in> A" "DMA_CHCNT dma ?n \<in> A"
    using assms(2) [of c] by (simp_all add: dma_regs_def)
  have "val h' a = val h a" if "c' \<noteq> c" "a \<in> dma_regs dma c'" for c' a
  proof -
    have "a \<in> A" "a \<notin> dma_regs dma c" using that assms(2) [of c'] dma_regs_disjoint [of c' c dma] by auto
    then show ?thesis using h'(3) by (simp add: dma_regs_def)
  qed
  then show ?thesis unfolding if_not_P [OF False] using h' own by simp
qed

theorem dma_init_configures_witness:
  "\<exists>h'. dma_init gd32 0x40020000 DMA_CH2 \<lparr>dma_periph_addr = 0x40013804, dma_periph_width = 0, dma_memory_addr = 0x20000000,
      dma_memory_width = 0, dma_number = 64, dma_priority = 0x3000, dma_periph_inc = 0, dma_memory_inc = 1,
      dma_direction = 0\<rparr> (\<lambda>_. 0) = Some h' \<and> h' 0x40020038 = 0x40013804 \<and> bit (h' 0x40020030) 7 \<and> \<not> bit (h' 0x40020030) 6"
proof -
  have "dma_regs 0x40020000 c \<subseteq> {a. \<not> special a}" for c
    by (cases c) (simp_all add: dma_regs_def special_def is_port_def GPIO_BASE_def EXTI_BASE_def)
  from dma_init_configures [OF gd32.registers_axioms this, where c = DMA_CH2 and bits = "0x3000" and h = "\<lambda>_. 0"
    and p = "\<lparr>dma_periph_addr = 0x40013804, dma_periph_width = 0, dma_memory_addr = 0x20000000,
      dma_memory_width = 0, dma_number = 64, dma_priority = 0x3000, dma_periph_inc = 0, dma_memory_inc = 1,
      dma_direction = 0\<rparr>"]
  show ?thesis by (auto simp: BITS_def)
qed

section \<open>CAN\<close>

text \<open>C9: What \<open>can_message_transmit\<close> puts into an empty mailbox is what \<open>can_message_receive\<close> reads
  in a controller that the frame is delivered to: kind, type, identifier, length and the eight bytes
  of the message.\<close>

theorem can_round_trip:
  assumes "registers B val A" and "empty_mailbox B cp h = (n, h)" and "n \<noteq> 3" and "tx_ok m" and "length (rx_data r) = 8"
    and "{CAN_TMI cp (ucast n), CAN_TMP cp (ucast n), CAN_TMDATA0 cp (ucast n), CAN_TMDATA1 cp (ucast n)} \<subseteq> A"
    and "{CAN_RFIFOMI rp (ucast f), CAN_RFIFOMP rp (ucast f), CAN_RFIFOMDATA0 rp (ucast f), CAN_RFIFOMDATA1 rp (ucast f)} \<subseteq> A"
    and "delivers val (CAN_TMI cp (ucast n)) (CAN_RFIFOMI rp (ucast f)) (snd (can_message_transmit B cp m h)) h'"
    and "r' = fst (can_message_receive B rp f r h')"
  shows "rx_ff r' = tx_ff m \<and> rx_ft r' = tx_ft m \<and> rx_dlen r' = tx_dlen m \<and> rx_data r' = tx_data m \<and>
    (if tx_ff m = 0 then rx_sfid r' = tx_sfid m else rx_efid r' = tx_efid m)"
proof -
  let ?a = "CAN_TMI cp (ucast n)" and ?b = "CAN_RFIFOMI rp (ucast f)" and ?h = "snd (can_message_transmit B cp m h)"
  have held: "holds_message val ?a m ?h" by (rule registers.transmit_holds(2) [OF assms(1-4,6)])
  then obtain v where "val ?h ?a = ((v AND BIT 0) OR identifier_word m) OR BIT 0" by (auto simp: holds_message_def)
  then have "val h' ?b AND NOT 1 = (((v AND BIT 0) OR identifier_word m) OR BIT 0) AND NOT 1"
    using assms(8) by (simp only: delivers_def)
  note fields = identifier_fields [OF assms(4) this]
  have ff: "BIT 2 AND val h' ?b = 0 \<longleftrightarrow> tx_ff m = 0"
    using one_bit [of 2 "val h' ?b"] fields(1) by (auto simp: BIT_def)
  have words: "val h' (?b + 8) = word_of_bytes (tx_data m ! 0) (tx_data m ! 1) (tx_data m ! 2) (tx_data m ! 3)"
    "val h' (?b + 12) = word_of_bytes (tx_data m ! 4) (tx_data m ! 5) (tx_data m ! 6) (tx_data m ! 7)"
    "val h' (?b + 4) AND BITS 0 3 = ucast (tx_dlen m)"
    using assms(8) held by (simp_all only: delivers_def holds_message_def)
  then have len: "ucast (GET_BITS (val h' (?b + 4)) 0 3) = tx_dlen m"
    by (simp add: GET_BITS_def words byte_back)
  obtain x0 x1 x2 x3 x4 x5 x6 x7 where "tx_data m = [x0, x1, x2, x3, x4, x5, x6, x7]"
    using assms(4) by (auto simp: tx_ok_def length_Suc_conv eval_nat_numeral)
  then show ?thesis
    unfolding assms(9) registers.receive_val [OF assms(1,7,5)] words bytes_of_word len fields(1,2) ff
    using fields(3,4) by (simp add: Let_def)
qed

text \<open>A controller that receives its own frame: the mailbox is copied to the FIFO.\<close>

definition looped_back :: "(32 word \<Rightarrow> reg) \<Rightarrow> (32 word \<Rightarrow> reg)" where
  "looped_back h = h(0x400065B0 := h 0x40006580, 0x400065B4 := h 0x40006584, 0x400065B8 := h 0x40006588,
     0x400065BC := h 0x4000658C)"

theorem can_round_trip_witness:
  "let m = \<lparr>tx_sfid = 0x123, tx_efid = 0, tx_ff = 0, tx_ft = 0, tx_dlen = 8, tx_data = [1, 2, 3, 4, 5, 6, 7, 8]\<rparr>;
     r = \<lparr>rx_sfid = 0, rx_efid = 0, rx_ff = 0, rx_ft = 0, rx_dlen = 0, rx_data = replicate 8 0, rx_fi = 0\<rparr>;
     h' = looped_back (snd (can_message_transmit gd32 0x40006400 m ((\<lambda>_. 0)(0x40006408 := 0x04000000))));
     r' = fst (can_message_receive gd32 0x40006400 0 r h')
   in rx_sfid r' = 0x123 \<and> rx_data r' = [1, 2, 3, 4, 5, 6, 7, 8]"
proof -
  let ?m = "\<lparr>tx_sfid = 0x123, tx_efid = 0, tx_ff = 0, tx_ft = 0, tx_dlen = 8, tx_data = [1, 2, 3, 4, 5, 6, 7, 8]\<rparr>"
  let ?h = "(\<lambda>_. 0)(0x40006408 := 0x04000000)"
  have e: "empty_mailbox gd32 0x40006400 ?h = (0, ?h)"
    by (simp add: empty_mailbox_def gd32_def gd32_read_def is_port_def GPIO_BASE_def BIT_def)
  have m: "tx_ok ?m" by (simp add: tx_ok_def)
  have d: "delivers (\<lambda>h. h) 0x40006580 0x400065B0 h (looped_back h)" for h
    by (simp add: delivers_def looped_back_def)
  show ?thesis
    using can_round_trip [OF gd32.registers_axioms e _ m, where f = 0 and rp = "0x40006400" and h' = "looped_back (snd (can_message_transmit gd32 0x40006400 ?m ?h))"
        and r = "\<lparr>rx_sfid = 0, rx_efid = 0, rx_ff = 0, rx_ft = 0, rx_dlen = 0, rx_data = replicate 8 0, rx_fi = 0\<rparr>"]
    by (simp add: d Let_def special_def is_port_def GPIO_BASE_def EXTI_BASE_def)
qed

text \<open>C29: On hardware that keeps the registers of the FIFO as they are while they are read, \<open>can_message_receive\<close> fills the
  structure with a well-formed message (if the identifier that it leaves alone was in range) exactly when the two
  fields that it takes over unchecked are in the range that the driver documents: a length of at most eight and
  a filter's index of at most 27.\<close>

theorem can_receive_type:
  fixes h :: 'h and n :: "8 word"
  assumes "registers B val A" and "length (rx_data r) = 8" and "rx_sfid r < 2 ^ 11" and "rx_efid r < 2 ^ 29"
    and "{CAN_RFIFOMI cp (ucast n), CAN_RFIFOMP cp (ucast n), CAN_RFIFOMDATA0 cp (ucast n), CAN_RFIFOMDATA1 cp (ucast n)} \<subseteq> A"
  defines "w \<equiv> val h (CAN_RFIFOMP cp (ucast n))"
  shows "rx_ok (fst (can_message_receive B cp n r h)) \<longleftrightarrow> GET_BITS w 0 3 \<le> 8 \<and> GET_BITS w 8 15 \<le> 27"
proof -
  have "ucast (BIT 2 AND w) \<in> {0, 4 :: 8 word}" "ucast (BIT 1 AND w) \<in> {0, 2 :: 8 word}" for w
    using one_bit [of 2 w] one_bit [of 1 w] by (auto simp: BIT_def)
  moreover have "CAN_RFIFOMI cp (ucast n) + 4 = CAN_RFIFOMP cp (ucast n)" by simp
  ultimately show ?thesis
    unfolding registers.receive_val [OF assms(1,5,2)] w_def
    using assms(3,4) by (simp add: Let_def rx_ok_def field_small field_small [simplified] add.assoc add.commute add.left_commute)
qed

text \<open>A frame of eight bytes that the third filter let through, and one whose length field is nine.\<close>

theorem can_receive_type_witness:
  "let r = \<lparr>rx_sfid = 0, rx_efid = 0, rx_ff = 0, rx_ft = 0, rx_dlen = 0, rx_data = replicate 8 0, rx_fi = 0\<rparr>
   in rx_ok (fst (can_message_receive gd32 0x40006400 0 r ((\<lambda>_. 0)(0x400065B4 := 0x0308)))) \<and>
     \<not> rx_ok (fst (can_message_receive gd32 0x40006400 0 r ((\<lambda>_. 0)(0x400065B4 := 0x0309))))"
proof -
  let ?r = "\<lparr>rx_sfid = 0, rx_efid = 0, rx_ff = 0, rx_ft = 0, rx_dlen = 0, rx_data = replicate 8 0, rx_fi = 0\<rparr>"
  have "rx_ok (fst (can_message_receive gd32 0x40006400 0 ?r h)) \<longleftrightarrow> GET_BITS (h 0x400065B4) 0 3 \<le> 8 \<and> GET_BITS (h 0x400065B4) 8 15 \<le> 27"
    for h
    using can_receive_type [OF gd32.registers_axioms, of ?r "0x40006400" 0 h]
    by (simp add: special_def is_port_def GPIO_BASE_def EXTI_BASE_def)
  then show ?thesis by (simp add: Let_def GET_BITS_def BITS_def word_le_nat_alt)
qed

end
