(* ===== verification/UsbDev.thy ===== *)
theory UsbDev
  imports Pmu
begin

text \<open>
  \<open>drv_usb_core.c\<close>: the USB core of the GD32VF103, as device and host use it, its registers
  (\<open>drv_usb_regs.h\<close>) and FIFOs. Memory and registers are in one address space, so buffers are read and
  written by the bus too. What \<open>usb_conf.h\<close> and \<open>usbd_conf.h\<close> set and the delays of \<open>drv_usb_hw.h\<close> belong
  to the application, which is not in the repository: they are parameters, fields of \<open>usb_sys\<close>. \<open>USE_OTG_MODE\<close> is not set: with it
  \<open>usb_core_init\<close> uses an interrupt bit that the library does not define.
\<close>

section \<open>Configuration and registers\<close>

record 'h usb_sys =
  bus :: "'h bus"
  cpu :: "'h core"
  usb_udelay :: "reg \<Rightarrow> 'h \<Rightarrow> 'h"
  usb_mdelay :: "reg \<Rightarrow> 'h \<Rightarrow> 'h"
  USB_FS_CORE :: bool
  VBUS_SENSING_ENABLED :: bool
  USBHS_EXTERNAL_VBUS_ENABLED :: bool
  USB_SOF_OUTPUT :: "8 word"
  USB_LOW_POWER :: "8 word"
  RX_FIFO_FS_SIZE :: "16 word"
  USBFS_TX_FIFO_SIZE :: "16 word list"
  USBD_CFG_MAX_NUM :: "8 word"
  USBD_ITF_MAX_NUM :: "8 word"

text \<open>Pointers to the registers. A pointer that is not set is NULL, which is 0.\<close>

record usb_core_regs =
  gr :: "32 word"
  dr :: "32 word"
  hr :: "32 word"
  er_in :: "nat \<Rightarrow> 32 word"
  er_out :: "nat \<Rightarrow> 32 word"
  pr :: "nat \<Rightarrow> 32 word"
  HPCS :: "32 word"
  DFIFO :: "nat \<Rightarrow> 32 word"
  PWRCLKCTL :: "32 word"

text \<open>Using element \<open>i\<close> of an array of \<open>n\<close> pointers is undefined outside the array and where it is NULL.\<close>

definition pointer :: "nat \<Rightarrow> (nat \<Rightarrow> 32 word) \<Rightarrow> nat \<Rightarrow> 32 word outcome" where
  "pointer n p i = (if i < n \<and> p i \<noteq> 0 then Ret (p i) else Undef)"

abbreviation (input) GAHBCS :: "usb_core_regs \<Rightarrow> 32 word" where "GAHBCS r \<equiv> gr r + 0x8"
abbreviation (input) GUSBCS :: "usb_core_regs \<Rightarrow> 32 word" where "GUSBCS r \<equiv> gr r + 0xc"
abbreviation (input) GRSTCTL :: "usb_core_regs \<Rightarrow> 32 word" where "GRSTCTL r \<equiv> gr r + 0x10"
abbreviation (input) GINTF :: "usb_core_regs \<Rightarrow> 32 word" where "GINTF r \<equiv> gr r + 0x14"
abbreviation (input) GINTEN :: "usb_core_regs \<Rightarrow> 32 word" where "GINTEN r \<equiv> gr r + 0x18"
abbreviation (input) GRFLEN :: "usb_core_regs \<Rightarrow> 32 word" where "GRFLEN r \<equiv> gr r + 0x24"
abbreviation (input) DIEP0TFLEN_HNPTFLEN :: "usb_core_regs \<Rightarrow> 32 word" where "DIEP0TFLEN_HNPTFLEN r \<equiv> gr r + 0x28"
abbreviation (input) GCCFG :: "usb_core_regs \<Rightarrow> 32 word" where "GCCFG r \<equiv> gr r + 0x38"
abbreviation (input) DIEPTFLEN :: "usb_core_regs \<Rightarrow> reg \<Rightarrow> 32 word" where "DIEPTFLEN r i \<equiv> gr r + 0x104 + 4 * i"

abbreviation (input) GAHBCS_DMAEN :: reg where "GAHBCS_DMAEN \<equiv> BIT 5"
abbreviation (input) GAHBCS_BURST :: reg where "GAHBCS_BURST \<equiv> BITS 1 4"
abbreviation (input) GAHBCS_GINTEN :: reg where "GAHBCS_GINTEN \<equiv> BIT 0"
abbreviation (input) GUSBCS_FDM :: reg where "GUSBCS_FDM \<equiv> BIT 30"
abbreviation (input) GUSBCS_FHM :: reg where "GUSBCS_FHM \<equiv> BIT 29"
abbreviation (input) GUSBCS_ULPIEOI :: reg where "GUSBCS_ULPIEOI \<equiv> BIT 21"
abbreviation (input) GUSBCS_ULPIEVD :: reg where "GUSBCS_ULPIEVD \<equiv> BIT 20"
abbreviation (input) GUSBCS_EMBPHY :: reg where "GUSBCS_EMBPHY \<equiv> BIT 6"
abbreviation (input) GRSTCTL_TXFF :: reg where "GRSTCTL_TXFF \<equiv> BIT 5"
abbreviation (input) GRSTCTL_RXFF :: reg where "GRSTCTL_RXFF \<equiv> BIT 4"
abbreviation (input) GRSTCTL_CSRST :: reg where "GRSTCTL_CSRST \<equiv> BIT 0"
abbreviation (input) GCCFG_VBUSIG :: reg where "GCCFG_VBUSIG \<equiv> BIT 21"
abbreviation (input) GCCFG_SOFOEN :: reg where "GCCFG_SOFOEN \<equiv> BIT 20"
abbreviation (input) GCCFG_VBUSBCEN :: reg where "GCCFG_VBUSBCEN \<equiv> BIT 19"
abbreviation (input) GCCFG_VBUSACEN :: reg where "GCCFG_VBUSACEN \<equiv> BIT 18"
abbreviation (input) GCCFG_PWRON :: reg where "GCCFG_PWRON \<equiv> BIT 16"

abbreviation (input) USBFS_REG_BASE :: "32 word" where "USBFS_REG_BASE \<equiv> 0x50000000"
abbreviation (input) USB_REG_OFFSET_CORE :: reg where "USB_REG_OFFSET_CORE \<equiv> 0x0000"
abbreviation (input) USB_REG_OFFSET_DEV :: reg where "USB_REG_OFFSET_DEV \<equiv> 0x0800"
abbreviation (input) USB_REG_OFFSET_EP :: reg where "USB_REG_OFFSET_EP \<equiv> 0x0020"
abbreviation (input) USB_REG_OFFSET_EP_IN :: reg where "USB_REG_OFFSET_EP_IN \<equiv> 0x0900"
abbreviation (input) USB_REG_OFFSET_EP_OUT :: reg where "USB_REG_OFFSET_EP_OUT \<equiv> 0x0B00"
abbreviation (input) USB_REG_OFFSET_HOST :: reg where "USB_REG_OFFSET_HOST \<equiv> 0x0400"
abbreviation (input) USB_REG_OFFSET_CH :: reg where "USB_REG_OFFSET_CH \<equiv> 0x0020"
abbreviation (input) USB_REG_OFFSET_PORT :: reg where "USB_REG_OFFSET_PORT \<equiv> 0x0440"
abbreviation (input) USB_REG_OFFSET_CH_INOUT :: reg where "USB_REG_OFFSET_CH_INOUT \<equiv> 0x0500"
abbreviation (input) USB_REG_OFFSET_PWRCLKCTL :: reg where "USB_REG_OFFSET_PWRCLKCTL \<equiv> 0x0E00"
abbreviation (input) USB_DATA_FIFO_OFFSET :: reg where "USB_DATA_FIFO_OFFSET \<equiv> 0x1000"
abbreviation (input) USB_DATA_FIFO_SIZE :: reg where "USB_DATA_FIFO_SIZE \<equiv> 0x1000"
abbreviation (input) USBFS_MAX_CHANNEL_COUNT :: "8 word" where "USBFS_MAX_CHANNEL_COUNT \<equiv> 8"
abbreviation (input) USBFS_MAX_EP_COUNT :: "8 word" where "USBFS_MAX_EP_COUNT \<equiv> 4"
abbreviation (input) USBFS_MAX_TX_FIFOS :: nat where "USBFS_MAX_TX_FIFOS \<equiv> 15"
abbreviation (input) USB_ULPI_PHY :: "8 word" where "USB_ULPI_PHY \<equiv> 1"
abbreviation (input) USB_EMBEDDED_PHY :: "8 word" where "USB_EMBEDDED_PHY \<equiv> 2"
abbreviation (input) USB_SPEED_LOW :: "8 word" where "USB_SPEED_LOW \<equiv> 1"
abbreviation (input) USB_SPEED_FULL :: "8 word" where "USB_SPEED_FULL \<equiv> 2"
abbreviation (input) USB_SPEED_HIGH :: "8 word" where "USB_SPEED_HIGH \<equiv> 3"
abbreviation (input) DEVICE_MODE :: reg where "DEVICE_MODE \<equiv> 0"
abbreviation (input) HOST_MODE :: reg where "HOST_MODE \<equiv> 1"
abbreviation (input) USB_USE_FIFO :: "8 word" where "USB_USE_FIFO \<equiv> 0"
abbreviation (input) USB_USE_DMA :: "8 word" where "USB_USE_DMA \<equiv> 1"
abbreviation (input) GAHBCS_DMAINCR :: "reg \<Rightarrow> reg" where "GAHBCS_DMAINCR regval \<equiv> GAHBCS_BURST AND push_bit 1 regval"
abbreviation (input) DMA_INCR8 :: reg where "DMA_INCR8 \<equiv> GAHBCS_DMAINCR 5"

datatype usb_core_enum = USB_CORE_ENUM_HS | USB_CORE_ENUM_FS
datatype usb_status = USB_OK | USB_FAIL

record usb_core_basic =
  core_enum :: usb_core_enum
  core_speed :: "8 word"
  num_pipe :: "8 word"
  num_ep :: "8 word"
  transfer_mode :: "8 word"
  phy_itf :: "8 word"
  sof_enable :: "8 word"
  low_power :: "8 word"
  base_reg :: "32 word"

section \<open>Memory\<close>

text \<open>A packed word of four bytes at any address, the lowest first.\<close>

definition rd_packed :: "'h bus \<Rightarrow> 32 word \<Rightarrow> 'h \<Rightarrow> reg \<times> 'h" where
  "rd_packed B a h =
     (let (b0, h) = rd8 B a h; (b1, h) = rd8 B (a + 1) h; (b2, h) = rd8 B (a + 2) h; (b3, h) = rd8 B (a + 3) h
      in (le_word [b0, b1, b2, b3], h))"

definition wr_packed :: "'h bus \<Rightarrow> 32 word \<Rightarrow> reg \<Rightarrow> 'h \<Rightarrow> 'h" where
  "wr_packed B a v h = fold (\<lambda>i. wr8 B (a + of_nat i) (le_bytes 4 v ! i)) [0, 1, 2, 3] h"

text \<open>A wait without bound is unfinished if it never ends.\<close>

definition spin :: "'h option \<Rightarrow> 'h outcome" where
  "spin r = (case r of None \<Rightarrow> Timeout | Some h \<Rightarrow> Ret h)"

section \<open>Operations\<close>

text \<open>The registers of each endpoint and each pipe.\<close>

definition assign_regs :: "usb_core_basic \<Rightarrow> usb_core_regs" where
  "assign_regs b =
     \<lparr>gr = base_reg b + USB_REG_OFFSET_CORE, dr = base_reg b + USB_REG_OFFSET_DEV, hr = base_reg b + USB_REG_OFFSET_HOST,
       er_in = (\<lambda>i. if i < unat (num_ep b) then base_reg b + USB_REG_OFFSET_EP_IN + of_nat i * USB_REG_OFFSET_EP else 0),
       er_out = (\<lambda>i. if i < unat (num_ep b) then base_reg b + USB_REG_OFFSET_EP_OUT + of_nat i * USB_REG_OFFSET_EP else 0),
       pr = (\<lambda>i. if i < unat (num_pipe b) then base_reg b + USB_REG_OFFSET_CH_INOUT + of_nat i * USB_REG_OFFSET_CH else 0),
       HPCS = base_reg b + USB_REG_OFFSET_PORT,
       DFIFO = (\<lambda>i. if i < unat (num_pipe b) then base_reg b + USB_DATA_FIFO_OFFSET + of_nat i * USB_DATA_FIFO_SIZE else 0),
       PWRCLKCTL = base_reg b + USB_REG_OFFSET_PWRCLKCTL\<rparr>"

definition usb_basic_init ::
  "'h usb_sys \<Rightarrow> usb_core_basic \<Rightarrow> usb_core_regs \<Rightarrow> usb_core_enum \<Rightarrow> usb_status \<times> usb_core_basic \<times> usb_core_regs" where
  "usb_basic_init S b r core =
     (let b = b\<lparr>core_enum := core, core_speed := USB_SPEED_FULL, transfer_mode := USB_USE_FIFO\<rparr>
      in case core of
           USB_CORE_ENUM_FS \<Rightarrow>
             let b = b\<lparr>num_pipe := USBFS_MAX_CHANNEL_COUNT, num_ep := USBFS_MAX_EP_COUNT, phy_itf := USB_EMBEDDED_PHY,
                       sof_enable := USB_SOF_OUTPUT S, low_power := USB_LOW_POWER S, base_reg := USBFS_REG_BASE\<rparr>
             in (USB_OK, b, assign_regs b)
         | _ \<Rightarrow> (USB_FAIL, b, r))"

definition usb_core_reset :: "'h usb_sys \<Rightarrow> usb_core_regs \<Rightarrow> 'h \<Rightarrow> 'h outcome" where
  "usb_core_reset S r h =
     (let h = set_bits (bus S) (GRSTCTL r) GRSTCTL_CSRST h
      in bindo (spin (spin_while (bus S) (GRSTCTL r) (\<lambda>v. v AND GRSTCTL_CSRST \<noteq> 0) h)) (\<lambda>h.
         Ret (usb_udelay S 3 h)))"

definition usb_core_init :: "'h usb_sys \<Rightarrow> usb_core_basic \<Rightarrow> usb_core_regs \<Rightarrow> 'h \<Rightarrow> 'h outcome" where
  "usb_core_init S b r h =
     (let B = bus S
      in bindo
        (if phy_itf b = USB_ULPI_PHY
         then (let h = clear_bits B (GCCFG r) GCCFG_PWRON h;
                   h = (if sof_enable b \<noteq> 0 then set_bits B (GCCFG r) GCCFG_SOFOEN h else h);
                   h = clear_bits B (GUSBCS r) (GUSBCS_EMBPHY OR GUSBCS_ULPIEOI) h;
                   h = (if USBHS_EXTERNAL_VBUS_ENABLED S then set_bits B (GUSBCS r) GUSBCS_ULPIEVD h
                        else clear_bits B (GUSBCS r) GUSBCS_ULPIEVD h)
               in usb_core_reset S r h)
         else bindo (usb_core_reset S r (set_bits B (GUSBCS r) GUSBCS_EMBPHY h)) (\<lambda>h.
                let h = set_bits B (GCCFG r) (GCCFG_PWRON OR GCCFG_VBUSACEN OR GCCFG_VBUSBCEN) h;
                    h = (if VBUS_SENSING_ENABLED S then h else set_bits B (GCCFG r) GCCFG_VBUSIG h);
                    h = (if sof_enable b \<noteq> 0 then set_bits B (GCCFG r) GCCFG_SOFOEN h else h)
                in Ret (usb_mdelay S 20 h)))
        (\<lambda>h.
         let h = (if transfer_mode b = USB_USE_DMA
                  then set_bits B (GAHBCS r) (DMA_INCR8 OR GAHBCS_DMAEN) (clear_bits B (GAHBCS r) GAHBCS_BURST h)
                  else h)
         in Ret h))"

text \<open>The FIFOs take and give words; a packet of bytes is filled up to a word.\<close>

fun write_words :: "'h bus \<Rightarrow> 32 word \<Rightarrow> nat \<Rightarrow> 32 word \<Rightarrow> 'h \<Rightarrow> 'h" where
  "write_words B fifo 0 src h = h"
| "write_words B fifo (Suc n) src h =
     (let (v, h) = rd_packed B src h; h = wr32 B fifo v h in write_words B fifo n (src + 4) h)"

fun read_words :: "'h bus \<Rightarrow> 32 word \<Rightarrow> nat \<Rightarrow> 32 word \<Rightarrow> 'h \<Rightarrow> 'h" where
  "read_words B fifo 0 dest h = h"
| "read_words B fifo (Suc n) dest h =
     (let (v, h) = rd32 B fifo h; h = wr_packed B dest v h in read_words B fifo n (dest + 4) h)"

definition usb_txfifo_write :: "'h bus \<Rightarrow> usb_core_regs \<Rightarrow> 32 word \<Rightarrow> nat \<Rightarrow> 16 word \<Rightarrow> 'h \<Rightarrow> 'h outcome" where
  "usb_txfifo_write B r src_buf fifo_num byte_count h =
     (let word_count = (ucast byte_count + 3 :: reg) div 4
      in bindo (pointer USBFS_MAX_TX_FIFOS (DFIFO r) fifo_num) (\<lambda>fifo.
         Ret (write_words B fifo (unat word_count) src_buf h)))"

definition usb_rxfifo_read :: "'h bus \<Rightarrow> usb_core_regs \<Rightarrow> 32 word \<Rightarrow> 16 word \<Rightarrow> 'h \<Rightarrow> 'h outcome" where
  "usb_rxfifo_read B r dest_buf byte_count h =
     (let word_count = (ucast byte_count + 3 :: reg) div 4
      in bindo (pointer USBFS_MAX_TX_FIFOS (DFIFO r) 0) (\<lambda>fifo.
         Ret (read_words B fifo (unat word_count) dest_buf h)))"

definition usb_txfifo_flush :: "'h usb_sys \<Rightarrow> usb_core_regs \<Rightarrow> 8 word \<Rightarrow> 'h \<Rightarrow> 'h outcome" where
  "usb_txfifo_flush S r fifo_num h =
     (let h = wr32 (bus S) (GRSTCTL r) (push_bit 6 (ucast fifo_num) OR GRSTCTL_TXFF) h
      in bindo (spin (spin_while (bus S) (GRSTCTL r) (\<lambda>v. v AND GRSTCTL_TXFF \<noteq> 0) h)) (\<lambda>h.
         Ret (usb_udelay S 3 h)))"

definition usb_rxfifo_flush :: "'h usb_sys \<Rightarrow> usb_core_regs \<Rightarrow> 'h \<Rightarrow> 'h outcome" where
  "usb_rxfifo_flush S r h =
     (let h = wr32 (bus S) (GRSTCTL r) GRSTCTL_RXFF h
      in bindo (spin (spin_while (bus S) (GRSTCTL r) (\<lambda>v. v AND GRSTCTL_RXFF \<noteq> 0) h)) (\<lambda>h.
         Ret (usb_udelay S 3 h)))"

text \<open>The FIFO of an endpoint is placed behind those of the endpoints before it, whose sizes are in the
  upper halves of their registers. An endpoint has one of 15 registers.\<close>

definition usb_set_txfifo :: "'h bus \<Rightarrow> usb_core_regs \<Rightarrow> 8 word \<Rightarrow> 16 word \<Rightarrow> 'h \<Rightarrow> 'h outcome" where
  "usb_set_txfifo B r fifo sz h =
     (let (tx_offset, h) = rd32 B (GRFLEN r) h
      in if fifo = 0 then Ret (wr32 B (DIEP0TFLEN_HNPTFLEN r) (push_bit 16 (ucast sz) OR tx_offset) h)
         else if 15 < fifo then Undef
         else (let (v, h) = rd32 B (DIEP0TFLEN_HNPTFLEN r) h;
                   tx_offset = tx_offset + drop_bit 16 v;
                   (tx_offset, h) = fold (\<lambda>i (tx_offset, h). let (v, h) = rd32 B (DIEPTFLEN r (of_nat i)) h
                                                             in (tx_offset + drop_bit 16 v, h))
                                      [0..<unat (fifo - 1)] (tx_offset, h)
               in Ret (wr32 B (DIEPTFLEN r (ucast (fifo - 1))) (push_bit 16 (ucast sz) OR tx_offset) h)))"

definition usb_curmode_set :: "'h bus \<Rightarrow> usb_core_regs \<Rightarrow> reg \<Rightarrow> 'h \<Rightarrow> 'h" where
  "usb_curmode_set B r mode h =
     (let h = clear_bits B (GUSBCS r) (GUSBCS_FDM OR GUSBCS_FHM) h
      in if mode = DEVICE_MODE then set_bits B (GUSBCS r) GUSBCS_FDM h
         else if mode = HOST_MODE then set_bits B (GUSBCS r) GUSBCS_FHM h
         else h)"

text \<open>The inline functions of \<open>drv_usb_core.h\<close>.\<close>

definition usb_coreintr_get :: "'h bus \<Rightarrow> usb_core_regs \<Rightarrow> 'h \<Rightarrow> reg \<times> 'h" where
  "usb_coreintr_get B r h = (let (en, h) = rd32 B (GINTEN r) h; (f, h) = rd32 B (GINTF r) h in (en AND f, h))"

definition usb_set_rxfifo :: "'h bus \<Rightarrow> usb_core_regs \<Rightarrow> 16 word \<Rightarrow> 'h \<Rightarrow> 'h" where
  "usb_set_rxfifo B r sz = wr32 B (GRFLEN r) (ucast sz)"

definition usb_globalint_enable :: "'h bus \<Rightarrow> usb_core_regs \<Rightarrow> 'h \<Rightarrow> 'h" where
  "usb_globalint_enable B r = set_bits B (GAHBCS r) GAHBCS_GINTEN"

definition usb_globalint_disable :: "'h bus \<Rightarrow> usb_core_regs \<Rightarrow> 'h \<Rightarrow> 'h" where
  "usb_globalint_disable B r = clear_bits B (GAHBCS r) GAHBCS_GINTEN"

text \<open>
  \<open>drv_usb_dev.c\<close> and \<open>drv_usb_dev.h\<close>: the USB core as a device, and the state of the device driver. A
  transaction is the state of an endpoint in one direction; a pointer to one is a direction and an
  index. The configuration number, the alternate setting and the status that the device answers with
  are variables whose address is taken, and are in memory, at addresses that \<open>usb_place\<close> names. The
  other variables of the driver are fields of \<open>udev\<close>, with the hardware and the data of the class.
\<close>

section \<open>State\<close>

record usb_req =
  bmRequestType :: "8 word"
  bRequest :: "8 word"
  wValue :: "16 word"
  wIndex :: "16 word"
  wLength :: "16 word"

record usb_transc =
  ep_num :: "8 word"
  ep_dir :: bool
  ep_type :: "8 word"
  ep_stall :: "8 word"
  frame_num :: "8 word"
  max_len :: "16 word"
  xfer_buf :: "32 word"
  xfer_len :: reg
  xfer_count :: reg
  remain_len :: reg
  dma_addr :: reg

record usb_desc =
  dev_desc :: "32 word"
  config_desc :: "32 word"
  bos_desc :: "32 word"
  strings :: "32 word"

record usb_place =
  config_at :: "32 word"
  alter_set_at :: "32 word"
  status_at :: "32 word"
  req_at :: "32 word"

record ('h, 'c) udev =
  bp :: usb_core_basic
  regs :: usb_core_regs
  dev_addr :: "8 word"
  cur_status :: "8 word"
  backup_status :: "8 word"
  transc_in :: "nat \<Rightarrow> usb_transc"
  transc_out :: "nat \<Rightarrow> usb_transc"
  power_mode :: "8 word"
  dev_remote_wakeup :: "8 word"
  req :: usb_req
  ctl_state :: "8 word"
  ctl_zlp :: "8 word"
  desc :: usb_desc
  class_data :: 'c
  hw :: 'h

text \<open>The class driver: handlers, some of which may be missing.\<close>

record ('h, 'c) usb_class_core =
  init_proc :: "('h, 'c) udev \<Rightarrow> 8 word \<Rightarrow> (8 word \<times> ('h, 'c) udev) outcome"
  deinit_proc :: "('h, 'c) udev \<Rightarrow> 8 word \<Rightarrow> (8 word \<times> ('h, 'c) udev) outcome"
  req_proc :: "('h, 'c) udev \<Rightarrow> usb_req \<Rightarrow> (8 word \<times> ('h, 'c) udev) outcome"
  set_intf :: "(('h, 'c) udev \<Rightarrow> usb_req \<Rightarrow> (8 word \<times> ('h, 'c) udev) outcome) option"
  ctlx_in :: "(('h, 'c) udev \<Rightarrow> (8 word \<times> ('h, 'c) udev) outcome) option"
  ctlx_out :: "(('h, 'c) udev \<Rightarrow> (8 word \<times> ('h, 'c) udev) outcome) option"
  data_in :: "(('h, 'c) udev \<Rightarrow> 8 word \<Rightarrow> (8 word \<times> ('h, 'c) udev) outcome) option"
  data_out :: "(('h, 'c) udev \<Rightarrow> 8 word \<Rightarrow> (8 word \<times> ('h, 'c) udev) outcome) option"
  SOF :: "(('h, 'c) udev \<Rightarrow> (8 word \<times> ('h, 'c) udev) outcome) option"
  incomplete_isoc_in :: "(('h, 'c) udev \<Rightarrow> (8 word \<times> ('h, 'c) udev) outcome) option"
  incomplete_isoc_out :: "(('h, 'c) udev \<Rightarrow> (8 word \<times> ('h, 'c) udev) outcome) option"

text \<open>A step of the hardware, and a transaction of the device.\<close>

definition hw_do :: "('h \<Rightarrow> 'h) \<Rightarrow> ('h, 'c) udev \<Rightarrow> ('h, 'c) udev" where
  "hw_do f u = u\<lparr>hw := f (hw u)\<rparr>"

definition hw_get :: "('h \<Rightarrow> 'v \<times> 'h) \<Rightarrow> ('h, 'c) udev \<Rightarrow> 'v \<times> ('h, 'c) udev" where
  "hw_get f u = (let (v, h) = f (hw u) in (v, u\<lparr>hw := h\<rparr>))"

definition hw_try :: "('h \<Rightarrow> 'h outcome) \<Rightarrow> ('h, 'c) udev \<Rightarrow> ('h, 'c) udev outcome" where
  "hw_try f u = bindo (f (hw u)) (\<lambda>h. Ret (u\<lparr>hw := h\<rparr>))"

definition transc :: "bool \<Rightarrow> nat \<Rightarrow> ('h, 'c) udev \<Rightarrow> usb_transc" where
  "transc d n u = (if d then transc_in u n else transc_out u n)"

definition upd_transc :: "bool \<Rightarrow> nat \<Rightarrow> (usb_transc \<Rightarrow> usb_transc) \<Rightarrow> ('h, 'c) udev \<Rightarrow> ('h, 'c) udev" where
  "upd_transc d n f u =
     (if d then u\<lparr>transc_in := (transc_in u)(n := f (transc_in u n))\<rparr>
      else u\<lparr>transc_out := (transc_out u)(n := f (transc_out u n))\<rparr>)"

abbreviation (input) er_in_at :: "('h, 'c) udev \<Rightarrow> nat \<Rightarrow> 32 word outcome" where
  "er_in_at u n \<equiv> pointer 6 (er_in (regs u)) n"

abbreviation (input) er_out_at :: "('h, 'c) udev \<Rightarrow> nat \<Rightarrow> 32 word outcome" where
  "er_out_at u n \<equiv> pointer 6 (er_out (regs u)) n"

section \<open>Registers\<close>

abbreviation (input) GOTGINTF :: "usb_core_regs \<Rightarrow> 32 word" where "GOTGINTF r \<equiv> gr r + 0x4"
abbreviation (input) DCFG :: "usb_core_regs \<Rightarrow> 32 word" where "DCFG r \<equiv> dr r + 0x0"
abbreviation (input) DCTL :: "usb_core_regs \<Rightarrow> 32 word" where "DCTL r \<equiv> dr r + 0x4"
abbreviation (input) DSTAT :: "usb_core_regs \<Rightarrow> 32 word" where "DSTAT r \<equiv> dr r + 0x8"
abbreviation (input) DIEPINTEN :: "usb_core_regs \<Rightarrow> 32 word" where "DIEPINTEN r \<equiv> dr r + 0x10"
abbreviation (input) DOEPINTEN :: "usb_core_regs \<Rightarrow> 32 word" where "DOEPINTEN r \<equiv> dr r + 0x14"
abbreviation (input) DAEPINT :: "usb_core_regs \<Rightarrow> 32 word" where "DAEPINT r \<equiv> dr r + 0x18"
abbreviation (input) DAEPINTEN :: "usb_core_regs \<Rightarrow> 32 word" where "DAEPINTEN r \<equiv> dr r + 0x1c"
abbreviation (input) DIEPFEINTEN :: "usb_core_regs \<Rightarrow> 32 word" where "DIEPFEINTEN r \<equiv> dr r + 0x34"
abbreviation (input) DIEPCTL :: "32 word \<Rightarrow> 32 word" where "DIEPCTL p \<equiv> p + 0x0"
abbreviation (input) DIEPINTF :: "32 word \<Rightarrow> 32 word" where "DIEPINTF p \<equiv> p + 0x8"
abbreviation (input) DIEPLEN :: "32 word \<Rightarrow> 32 word" where "DIEPLEN p \<equiv> p + 0x10"
abbreviation (input) DIEPDMAADDR :: "32 word \<Rightarrow> 32 word" where "DIEPDMAADDR p \<equiv> p + 0x14"
abbreviation (input) DOEPCTL :: "32 word \<Rightarrow> 32 word" where "DOEPCTL p \<equiv> p + 0x0"
abbreviation (input) DOEPINTF :: "32 word \<Rightarrow> 32 word" where "DOEPINTF p \<equiv> p + 0x8"
abbreviation (input) DOEPLEN :: "32 word \<Rightarrow> 32 word" where "DOEPLEN p \<equiv> p + 0x10"
abbreviation (input) DOEPDMAADDR :: "32 word \<Rightarrow> 32 word" where "DOEPDMAADDR p \<equiv> p + 0x14"

abbreviation (input) GINTEN_WKUPIE :: reg where "GINTEN_WKUPIE \<equiv> BIT 31"
abbreviation (input) GINTEN_SESIE :: reg where "GINTEN_SESIE \<equiv> BIT 30"
abbreviation (input) GINTEN_ISOONCIE :: reg where "GINTEN_ISOONCIE \<equiv> BIT 21"
abbreviation (input) GINTEN_ISOINCIE :: reg where "GINTEN_ISOINCIE \<equiv> BIT 20"
abbreviation (input) GINTEN_OEPIE :: reg where "GINTEN_OEPIE \<equiv> BIT 19"
abbreviation (input) GINTEN_IEPIE :: reg where "GINTEN_IEPIE \<equiv> BIT 18"
abbreviation (input) GINTEN_ENUMFIE :: reg where "GINTEN_ENUMFIE \<equiv> BIT 13"
abbreviation (input) GINTEN_RSTIE :: reg where "GINTEN_RSTIE \<equiv> BIT 12"
abbreviation (input) GINTEN_SPIE :: reg where "GINTEN_SPIE \<equiv> BIT 11"
abbreviation (input) GINTEN_RXFNEIE :: reg where "GINTEN_RXFNEIE \<equiv> BIT 4"
abbreviation (input) GINTEN_SOFIE :: reg where "GINTEN_SOFIE \<equiv> BIT 3"
abbreviation (input) GINTEN_OTGIE :: reg where "GINTEN_OTGIE \<equiv> BIT 2"
abbreviation (input) DCFG_EOPFT :: reg where "DCFG_EOPFT \<equiv> BITS 11 12"
abbreviation (input) DCFG_DAR :: reg where "DCFG_DAR \<equiv> BITS 4 10"
abbreviation (input) DCFG_DS :: reg where "DCFG_DS \<equiv> BITS 0 1"
abbreviation (input) DCTL_SD :: reg where "DCTL_SD \<equiv> BIT 1"
abbreviation (input) DCTL_RWKUP :: reg where "DCTL_RWKUP \<equiv> BIT 0"
abbreviation (input) DSTAT_FNRSOF :: reg where "DSTAT_FNRSOF \<equiv> BITS 8 21"
abbreviation (input) DSTAT_ES :: reg where "DSTAT_ES \<equiv> BITS 1 2"
abbreviation (input) DSTAT_SPST :: reg where "DSTAT_SPST \<equiv> BIT 0"
abbreviation (input) DIEPINTEN_EPTXFUDEN :: reg where "DIEPINTEN_EPTXFUDEN \<equiv> BIT 4"
abbreviation (input) DAEPINT_OEPITB :: reg where "DAEPINT_OEPITB \<equiv> BITS 16 21"
abbreviation (input) DAEPINT_IEPITB :: reg where "DAEPINT_IEPITB \<equiv> BITS 0 5"
abbreviation (input) DEP0CTL_MPL :: reg where "DEP0CTL_MPL \<equiv> BITS 0 1"
abbreviation (input) DEPCTL_EPEN :: reg where "DEPCTL_EPEN \<equiv> BIT 31"
abbreviation (input) DEPCTL_EPD :: reg where "DEPCTL_EPD \<equiv> BIT 30"
abbreviation (input) DEPCTL_SODDFRM :: reg where "DEPCTL_SODDFRM \<equiv> BIT 29"
abbreviation (input) DEPCTL_SD1PID :: reg where "DEPCTL_SD1PID \<equiv> BIT 29"
abbreviation (input) DEPCTL_SEVNFRM :: reg where "DEPCTL_SEVNFRM \<equiv> BIT 28"
abbreviation (input) DEPCTL_SD0PID :: reg where "DEPCTL_SD0PID \<equiv> BIT 28"
abbreviation (input) DEPCTL_SNAK :: reg where "DEPCTL_SNAK \<equiv> BIT 27"
abbreviation (input) DEPCTL_CNAK :: reg where "DEPCTL_CNAK \<equiv> BIT 26"
abbreviation (input) DIEPCTL_TXFNUM :: reg where "DIEPCTL_TXFNUM \<equiv> BITS 22 25"
abbreviation (input) DEPCTL_STALL :: reg where "DEPCTL_STALL \<equiv> BIT 21"
abbreviation (input) DEPCTL_EPTYPE :: reg where "DEPCTL_EPTYPE \<equiv> BITS 18 19"
abbreviation (input) DEPCTL_EPACT :: reg where "DEPCTL_EPACT \<equiv> BIT 15"
abbreviation (input) DEPCTL_MPL :: reg where "DEPCTL_MPL \<equiv> BITS 0 10"
abbreviation (input) DOEP0LEN_STPCNT :: reg where "DOEP0LEN_STPCNT \<equiv> BITS 29 30"
abbreviation (input) DOEP0LEN_PCNT :: reg where "DOEP0LEN_PCNT \<equiv> BIT 19"
abbreviation (input) DOEP0LEN_TLEN :: reg where "DOEP0LEN_TLEN \<equiv> BITS 0 6"
abbreviation (input) DIEPLEN_MCNT :: reg where "DIEPLEN_MCNT \<equiv> BITS 29 30"
abbreviation (input) DEPLEN_PCNT :: reg where "DEPLEN_PCNT \<equiv> BITS 19 28"
abbreviation (input) DEPLEN_TLEN :: reg where "DEPLEN_TLEN \<equiv> BITS 0 18"
abbreviation (input) PWRCLKCTL_SHCLK :: reg where "PWRCLKCTL_SHCLK \<equiv> BIT 1"
abbreviation (input) PWRCLKCTL_SUCLK :: reg where "PWRCLKCTL_SUCLK \<equiv> BIT 0"

abbreviation (input) USB_EPTYPE_CTRL :: "8 word" where "USB_EPTYPE_CTRL \<equiv> 0"
abbreviation (input) USB_EPTYPE_ISOC :: "8 word" where "USB_EPTYPE_ISOC \<equiv> 1"
abbreviation (input) USB_EPTYPE_BULK :: "8 word" where "USB_EPTYPE_BULK \<equiv> 2"
abbreviation (input) USB_EPTYPE_INTR :: "8 word" where "USB_EPTYPE_INTR \<equiv> 3"
abbreviation (input) FRAME_INTERVAL_80 :: reg where "FRAME_INTERVAL_80 \<equiv> DCFG_EOPFT AND push_bit 11 0"
abbreviation (input) USB_SPEED_INP_FULL :: reg where "USB_SPEED_INP_FULL \<equiv> DCFG_DS AND push_bit 0 3"
abbreviation (input) EP0MPL_64 :: reg where "EP0MPL_64 \<equiv> DEP0CTL_MPL AND push_bit 0 0"
abbreviation (input) EP0MPL_8 :: reg where "EP0MPL_8 \<equiv> DEP0CTL_MPL AND push_bit 0 3"
abbreviation (input) DOEP0_TLEN :: "reg \<Rightarrow> reg" where "DOEP0_TLEN regval \<equiv> DOEP0LEN_TLEN AND push_bit 0 regval"
abbreviation (input) DOEP0_PCNT :: "reg \<Rightarrow> reg" where "DOEP0_PCNT regval \<equiv> DOEP0LEN_PCNT AND push_bit 19 regval"
abbreviation (input) DOEP0_STPCNT :: "reg \<Rightarrow> reg" where "DOEP0_STPCNT regval \<equiv> DOEP0LEN_STPCNT AND push_bit 29 regval"
abbreviation (input) PMU_LDO_LOWPOWER :: reg where "PMU_LDO_LOWPOWER \<equiv> PMU_CTL_LDOLP"

text \<open>The array that a speed selects the packet length from, with four elements: \<open>DSTAT & DSTAT_ES\<close> is not
  shifted, so the index is even and may be 6.\<close>

definition EP0_MAXLEN :: "reg \<Rightarrow> reg outcome" where
  "EP0_MAXLEN i = (if i = 0 \<or> i = 1 \<or> i = 3 then Ret EP0MPL_64 else if i = 2 then Ret EP0MPL_8 else Undef)"

section \<open>The inline functions of \<open>drv_usb_dev.h\<close>\<close>

definition usb_dev_disconnect :: "'h usb_sys \<Rightarrow> ('h, 'c) udev \<Rightarrow> ('h, 'c) udev" where
  "usb_dev_disconnect S u = hw_do (set_bits (bus S) (DCTL (regs u)) DCTL_SD) u"

definition usb_dev_connect :: "'h usb_sys \<Rightarrow> ('h, 'c) udev \<Rightarrow> ('h, 'c) udev" where
  "usb_dev_connect S u = hw_do (clear_bits (bus S) (DCTL (regs u)) DCTL_SD) u"

definition usb_devaddr_set :: "'h usb_sys \<Rightarrow> 8 word \<Rightarrow> ('h, 'c) udev \<Rightarrow> ('h, 'c) udev" where
  "usb_devaddr_set S a u =
     (let u = hw_do (clear_bits (bus S) (DCFG (regs u)) DCFG_DAR) u
      in hw_do (set_bits (bus S) (DCFG (regs u)) (push_bit 4 (ucast a))) u)"

definition usb_oepintnum_read :: "'h usb_sys \<Rightarrow> ('h, 'c) udev \<Rightarrow> reg \<times> ('h, 'c) udev" where
  "usb_oepintnum_read S u =
     (let (v, u) = hw_get (rd32 (bus S) (DAEPINT (regs u))) u;
          (en, u) = hw_get (rd32 (bus S) (DAEPINTEN (regs u))) u
      in (drop_bit 16 (v AND en AND DAEPINT_OEPITB), u))"

definition usb_oepintr_read :: "'h usb_sys \<Rightarrow> nat \<Rightarrow> ('h, 'c) udev \<Rightarrow> (reg \<times> ('h, 'c) udev) outcome" where
  "usb_oepintr_read S n u =
     bindo (er_out_at u n) (\<lambda>p.
       let (v, u) = hw_get (rd32 (bus S) (DOEPINTF p)) u;
           (en, u) = hw_get (rd32 (bus S) (DOEPINTEN (regs u))) u
       in Ret (v AND en, u))"

definition usb_iepintnum_read :: "'h usb_sys \<Rightarrow> ('h, 'c) udev \<Rightarrow> reg \<times> ('h, 'c) udev" where
  "usb_iepintnum_read S u =
     (let (v, u) = hw_get (rd32 (bus S) (DAEPINT (regs u))) u;
          (en, u) = hw_get (rd32 (bus S) (DAEPINTEN (regs u))) u
      in (v AND en AND DAEPINT_IEPITB, u))"

definition usb_rwkup_set :: "'h usb_sys \<Rightarrow> ('h, 'c) udev \<Rightarrow> ('h, 'c) udev" where
  "usb_rwkup_set S u = (if dev_remote_wakeup u \<noteq> 0 then hw_do (set_bits (bus S) (DCTL (regs u)) DCTL_RWKUP) u else u)"

definition usb_rwkup_reset :: "'h usb_sys \<Rightarrow> ('h, 'c) udev \<Rightarrow> ('h, 'c) udev" where
  "usb_rwkup_reset S u = (if dev_remote_wakeup u \<noteq> 0 then hw_do (clear_bits (bus S) (DCTL (regs u)) DCTL_RWKUP) u else u)"

section \<open>Operations\<close>

definition usb_devint_enable :: "'h usb_sys \<Rightarrow> ('h, 'c) udev \<Rightarrow> ('h, 'c) udev" where
  "usb_devint_enable S u =
     (let B = bus S;
          u = hw_do (wr32 B (GOTGINTF (regs u)) 0xFFFFFFFF) u;
          u = hw_do (wr32 B (GINTF (regs u)) 0xBFFFFFFF) u;
          u = hw_do (wr32 B (GINTEN (regs u)) (GINTEN_WKUPIE OR GINTEN_SPIE)) u;
          u = (if transfer_mode (bp u) = USB_USE_FIFO then hw_do (set_bits B (GINTEN (regs u)) GINTEN_RXFNEIE) u else u);
          u = hw_do (set_bits B (GINTEN (regs u)) (GINTEN_RSTIE OR GINTEN_ENUMFIE OR GINTEN_IEPIE OR
                GINTEN_OEPIE OR GINTEN_SOFIE OR GINTEN_ISOONCIE OR GINTEN_ISOINCIE)) u
      in if VBUS_SENSING_ENABLED S then hw_do (set_bits B (GINTEN (regs u)) (GINTEN_SESIE OR GINTEN_OTGIE)) u else u)"

text \<open>What \<open>usb_devcore_init\<close> does with each endpoint, and with each FIFO.\<close>

definition quiet_endpoint :: "'h bus \<Rightarrow> 32 word \<Rightarrow> 32 word \<Rightarrow> ('h, 'c) udev \<Rightarrow> ('h, 'c) udev" where
  "quiet_endpoint B p q u =
     (let (v, u) = hw_get (rd32 B (DIEPCTL p)) u;
          u = (if v AND DEPCTL_EPEN \<noteq> 0 then hw_do (set_bits B (DIEPCTL p) (DEPCTL_EPD OR DEPCTL_SNAK)) u
               else hw_do (wr32 B (DIEPCTL p) 0) u);
          u = hw_do (wr32 B (DIEPLEN p) 0) u;
          u = hw_do (wr32 B (DIEPINTF p) 0xFF) u;
          (v, u) = hw_get (rd32 B (DOEPCTL q)) u;
          u = (if v AND DEPCTL_EPEN \<noteq> 0 then hw_do (set_bits B (DOEPCTL q) (DEPCTL_EPD OR DEPCTL_SNAK)) u
               else hw_do (wr32 B (DOEPCTL q) 0) u);
          u = hw_do (wr32 B (DOEPLEN q) 0) u
      in hw_do (wr32 B (DOEPINTF q) 0xFF) u)"

fun each_endpoint ::
  "(32 word \<Rightarrow> 32 word \<Rightarrow> ('h, 'c) udev \<Rightarrow> ('h, 'c) udev) \<Rightarrow> nat list \<Rightarrow> ('h, 'c) udev \<Rightarrow> ('h, 'c) udev outcome" where
  "each_endpoint f [] u = Ret u"
| "each_endpoint f (i # is) u =
     bindo (er_in_at u i) (\<lambda>p. bindo (er_out_at u i) (\<lambda>q. each_endpoint f is (f p q u)))"

fun set_txfifos :: "'h usb_sys \<Rightarrow> nat list \<Rightarrow> ('h, 'c) udev \<Rightarrow> ('h, 'c) udev outcome" where
  "set_txfifos S [] u = Ret u"
| "set_txfifos S (i # is) u =
     bindo (hw_try (usb_set_txfifo (bus S) (regs u) (of_nat i) (USBFS_TX_FIFO_SIZE S ! i)) u) (set_txfifos S is)"

definition usb_devcore_init :: "'h usb_sys \<Rightarrow> ('h, 'c) udev \<Rightarrow> ('h, 'c) udev outcome" where
  "usb_devcore_init S u =
     (let B = bus S;
          u = hw_do (wr32 B (PWRCLKCTL (regs u)) 0) u;
          u = hw_do (clear_bits B (DCFG (regs u)) DCFG_EOPFT) u;
          u = hw_do (set_bits B (DCFG (regs u)) FRAME_INTERVAL_80) u;
          u = hw_do (clear_bits B (DCFG (regs u)) DCFG_DS) u
      in bindo
        (if USB_FS_CORE S \<and> core_enum (bp u) = USB_CORE_ENUM_FS
         then (let u = hw_do (set_bits B (DCFG (regs u)) USB_SPEED_INP_FULL) u;
                   u = hw_do (usb_set_rxfifo B (regs u) (RX_FIFO_FS_SIZE S)) u
               in set_txfifos S [0..<unat USBFS_MAX_EP_COUNT] u)
         else Ret u) (\<lambda>u.
        bindo (hw_try (usb_txfifo_flush S (regs u) 0x10) u) (\<lambda>u.
        bindo (hw_try (usb_rxfifo_flush S (regs u)) u) (\<lambda>u.
        let u = hw_do (wr32 B (DIEPINTEN (regs u)) 0) u;
            u = hw_do (wr32 B (DOEPINTEN (regs u)) 0) u;
            u = hw_do (wr32 B (DAEPINT (regs u)) 0xFFFFFFFF) u;
            u = hw_do (wr32 B (DAEPINTEN (regs u)) 0) u
        in bindo (each_endpoint (quiet_endpoint B) [0..<unat (num_ep (bp u))] u) (\<lambda>u.
           let u = hw_do (set_bits B (DIEPINTEN (regs u)) DIEPINTEN_EPTXFUDEN) u
           in Ret (usb_devint_enable S u))))))"

text \<open>Activating an endpoint: the registers that the packet length depends on are read before the control
  register is changed.\<close>

definition activate :: "'h bus \<Rightarrow> 32 word \<Rightarrow> usb_transc \<Rightarrow> reg outcome \<Rightarrow> ('h, 'c) udev \<Rightarrow> ('h, 'c) udev outcome" where
  "activate B p t len u =
     bindo len (\<lambda>l.
       let u = hw_do (set_bits B p l) u
       in Ret (hw_do (set_bits B p (push_bit 18 (ucast (ep_type t)) OR push_bit 22 (ucast (ep_num t)) OR
            DEPCTL_SD0PID OR DEPCTL_EPACT)) u))"

definition usb_transc0_active ::
  "'h usb_sys \<Rightarrow> bool \<Rightarrow> nat \<Rightarrow> ('h, 'c) udev \<Rightarrow> (usb_status \<times> ('h, 'c) udev) outcome" where
  "usb_transc0_active S d n u =
     (let t = transc d n u; B = bus S
      in if ep_num t \<noteq> 0 then Ret (USB_FAIL, u)
         else bindo (if ep_dir t then er_in_at u 0 else er_out_at u 0) (\<lambda>p.
              let u = hw_do (clear_bits B (DIEPCTL p) (DEPCTL_MPL OR DEPCTL_EPTYPE OR DIEPCTL_TXFNUM)) u;
                  (v, u) = hw_get (rd32 B (DSTAT (regs u))) u
              in bindo (activate B (DIEPCTL p) t (EP0_MAXLEN (v AND DSTAT_ES)) u) (\<lambda>u. Ret (USB_OK, u))))"

definition usb_transc_active :: "'h usb_sys \<Rightarrow> bool \<Rightarrow> nat \<Rightarrow> ('h, 'c) udev \<Rightarrow> ('h, 'c) udev outcome" where
  "usb_transc_active S d n u =
     (let t = transc d n u; B = bus S; ep = unat (ep_num t);
          epinten = push_bit (if ep_dir t then ep else 16 + ep) 1
      in bindo (if ep_dir t then er_in_at u ep else er_out_at u ep) (\<lambda>p.
         let (v, u) = hw_get (rd32 B (DIEPCTL p)) u
         in bindo
           (if v AND DEPCTL_EPACT = 0
            then (let u = hw_do (clear_bits B (DIEPCTL p) (DEPCTL_MPL OR DEPCTL_EPTYPE OR DIEPCTL_TXFNUM)) u
                  in if ep = 0
                     then (let (v, u) = hw_get (rd32 B (DSTAT (regs u))) u
                           in activate B (DIEPCTL p) t (EP0_MAXLEN (v AND DSTAT_ES)) u)
                     else activate B (DIEPCTL p) t (Ret (ucast (max_len t))) u)
            else Ret u)
           (\<lambda>u. Ret (hw_do (set_bits B (DAEPINTEN (regs u)) epinten) u))))"

definition usb_transc_deactivate :: "'h usb_sys \<Rightarrow> bool \<Rightarrow> nat \<Rightarrow> ('h, 'c) udev \<Rightarrow> ('h, 'c) udev outcome" where
  "usb_transc_deactivate S d n u =
     (let t = transc d n u; B = bus S; ep = unat (ep_num t);
          epinten = push_bit (if ep_dir t then ep else ep + 16) 1
      in bindo (if ep_dir t then er_in_at u ep else er_out_at u ep) (\<lambda>p.
         let u = hw_do (clear_bits B (DIEPCTL p) DEPCTL_EPACT) u
         in Ret (hw_do (clear_bits B (DAEPINTEN (regs u)) epinten) u)))"

text \<open>The length register of an IN transfer: the packets and the bytes. Endpoint 0 sends one packet. A packet
  length of 0 would be a division by 0.\<close>

definition in_length :: "usb_transc \<Rightarrow> reg \<Rightarrow> (reg \<times> usb_transc) outcome" where
  "in_length t eplen =
     (let eplen = eplen AND NOT (DEPLEN_TLEN OR DEPLEN_PCNT)
      in if xfer_len t = 0 then Ret (eplen OR push_bit 19 1, t)
         else bindo
           (if ep_num t = 0
            then (let t = t\<lparr>xfer_len := (if xfer_len t < ucast (max_len t) then xfer_len t else ucast (max_len t))\<rparr>
                  in Ret (eplen OR push_bit 19 1, t))
            else bindo (udivide ((xfer_len t - 1) + ucast (max_len t)) (ucast (max_len t))) (\<lambda>k.
                 Ret (eplen OR push_bit 19 k, t)))
           (\<lambda>(eplen, t).
            let eplen = eplen OR xfer_len t;
                eplen = (if ep_type t = USB_EPTYPE_ISOC then eplen OR (DIEPLEN_MCNT AND push_bit 29 1) else eplen)
            in Ret (eplen, t)))"

definition usb_transc_inxfer :: "'h usb_sys \<Rightarrow> bool \<Rightarrow> nat \<Rightarrow> ('h, 'c) udev \<Rightarrow> ('h, 'c) udev outcome" where
  "usb_transc_inxfer S d n u =
     (let t = transc d n u; B = bus S; ep = unat (ep_num t)
      in bindo (er_in_at u ep) (\<lambda>p.
         let (epctl, u) = hw_get (rd32 B (DIEPCTL p)) u;
             (eplen, u) = hw_get (rd32 B (DIEPLEN p)) u
         in bindo (in_length t eplen) (\<lambda>(eplen, t).
            let u = upd_transc d n (\<lambda>_. t) u;
                u = hw_do (wr32 B (DIEPLEN p) eplen) u;
                (epctl, u) = (if ep_type t = USB_EPTYPE_ISOC
                              then (let (v, u) = hw_get (rd32 B (DSTAT (regs u))) u
                                    in if drop_bit 8 (v AND DSTAT_FNRSOF) AND 0x01 \<noteq> 0
                                       then (epctl OR DEPCTL_SEVNFRM, u) else (epctl OR DEPCTL_SODDFRM, u))
                              else (epctl, u));
                u = (if transfer_mode (bp u) = USB_USE_DMA then hw_do (wr32 B (DIEPDMAADDR p) (dma_addr t)) u else u);
                epctl = epctl OR DEPCTL_CNAK OR DEPCTL_EPEN;
                u = hw_do (wr32 B (DIEPCTL p) epctl) u
            in if transfer_mode (bp u) = USB_USE_FIFO
               then (let u = hw_do (wr32 B (DIEPCTL p) epctl) u
                     in if ep_type t \<noteq> USB_EPTYPE_ISOC
                        then (if 0 < xfer_len t then Ret (hw_do (set_bits B (DIEPFEINTEN (regs u)) (push_bit ep 1)) u) else Ret u)
                        else hw_try (usb_txfifo_write B (regs u) (xfer_buf t) ep (ucast (xfer_len t))) u)
               else Ret u)))"

definition out_length :: "usb_transc \<Rightarrow> reg \<Rightarrow> reg outcome" where
  "out_length t eplen =
     (let eplen = eplen AND NOT (DEPLEN_TLEN OR DEPLEN_PCNT)
      in if xfer_len t = 0 \<or> ep_num t = 0 then Ret (eplen OR ucast (max_len t) OR push_bit 19 1)
         else bindo (udivide (xfer_len t + ucast (max_len t) - 1) (ucast (max_len t))) (\<lambda>packet_count.
              Ret (eplen OR push_bit 19 packet_count OR (packet_count * ucast (max_len t)))))"

definition usb_transc_outxfer :: "'h usb_sys \<Rightarrow> bool \<Rightarrow> nat \<Rightarrow> ('h, 'c) udev \<Rightarrow> ('h, 'c) udev outcome" where
  "usb_transc_outxfer S d n u =
     (let t = transc d n u; B = bus S; ep = unat (ep_num t)
      in bindo (er_out_at u ep) (\<lambda>p.
         let (epctl, u) = hw_get (rd32 B (DOEPCTL p)) u;
             (eplen, u) = hw_get (rd32 B (DOEPLEN p)) u
         in bindo (out_length t eplen) (\<lambda>eplen.
            let u = hw_do (wr32 B (DOEPLEN p) eplen) u;
                u = (if transfer_mode (bp u) = USB_USE_DMA then hw_do (wr32 B (DOEPDMAADDR p) (dma_addr t)) u else u);
                epctl = (if ep_type t = USB_EPTYPE_ISOC
                         then (if frame_num t \<noteq> 0 then epctl OR DEPCTL_SD1PID else epctl OR DEPCTL_SD0PID) else epctl);
                epctl = epctl OR DEPCTL_EPEN OR DEPCTL_CNAK
            in Ret (hw_do (wr32 B (DOEPCTL p) epctl) u))))"

definition usb_transc_stall :: "'h usb_sys \<Rightarrow> bool \<Rightarrow> nat \<Rightarrow> ('h, 'c) udev \<Rightarrow> ('h, 'c) udev outcome" where
  "usb_transc_stall S d n u =
     (let t = transc d n u; B = bus S; ep = unat (ep_num t)
      in if ep_dir t
         then bindo (er_in_at u ep) (\<lambda>p.
              let (v, u) = hw_get (rd32 B (DIEPCTL p)) u;
                  u = (if v AND DEPCTL_EPEN \<noteq> 0 then hw_do (set_bits B (DIEPCTL p) DEPCTL_EPD) u else u)
              in Ret (hw_do (set_bits B (DIEPCTL p) DEPCTL_STALL) u))
         else bindo (er_out_at u ep) (\<lambda>p. Ret (hw_do (set_bits B (DOEPCTL p) DEPCTL_STALL) u)))"

definition usb_transc_clrstall :: "'h usb_sys \<Rightarrow> bool \<Rightarrow> nat \<Rightarrow> ('h, 'c) udev \<Rightarrow> ('h, 'c) udev outcome" where
  "usb_transc_clrstall S d n u =
     (let t = transc d n u; B = bus S; ep = unat (ep_num t)
      in bindo (if ep_dir t then er_in_at u ep else er_out_at u ep) (\<lambda>p.
         let u = hw_do (clear_bits B (DIEPCTL p) DEPCTL_STALL) u
         in if ep_type t = USB_EPTYPE_INTR \<or> ep_type t = USB_EPTYPE_BULK
            then Ret (hw_do (set_bits B (DIEPCTL p) DEPCTL_SD0PID) u) else Ret u))"

definition usb_iepintr_read :: "'h usb_sys \<Rightarrow> nat \<Rightarrow> ('h, 'c) udev \<Rightarrow> (reg \<times> ('h, 'c) udev) outcome" where
  "usb_iepintr_read S n u =
     (let B = bus S;
          (commonintmask, u) = hw_get (rd32 B (DIEPINTEN (regs u))) u;
          (fifoemptymask, u) = hw_get (rd32 B (DIEPFEINTEN (regs u))) u;
          commonintmask = commonintmask OR push_bit 7 (drop_bit n fifoemptymask AND 0x1)
      in bindo (er_in_at u n) (\<lambda>p.
         let (v, u) = hw_get (rd32 B (DIEPINTF p)) u in Ret (v AND commonintmask, u)))"

definition usb_ctlep_startout :: "'h usb_sys \<Rightarrow> usb_place \<Rightarrow> ('h, 'c) udev \<Rightarrow> ('h, 'c) udev outcome" where
  "usb_ctlep_startout S L u =
     bindo (er_out_at u 0) (\<lambda>p.
       let B = bus S;
           u = hw_do (wr32 B (DOEPLEN p) (DOEP0_TLEN (8 * 3) OR DOEP0_PCNT 1 OR DOEP0_STPCNT 3)) u
       in if transfer_mode (bp u) = USB_USE_DMA
          then (let u = hw_do (wr32 B (DOEPDMAADDR p) (req_at L)) u
                in Ret (hw_do (set_bits B (DOEPCTL p) (DEPCTL_EPACT OR DEPCTL_EPEN)) u))
          else Ret u)"

definition usb_rwkup_active :: "'h usb_sys \<Rightarrow> ('h, 'c) udev \<Rightarrow> ('h, 'c) udev" where
  "usb_rwkup_active S u =
     (let B = bus S
      in if dev_remote_wakeup u \<noteq> 0
         then (let (v, u) = hw_get (rd32 B (DSTAT (regs u))) u
               in if v AND DSTAT_SPST \<noteq> 0
                  then (let u = (if low_power (bp u) \<noteq> 0
                                 then hw_do (clear_bits B (PWRCLKCTL (regs u)) (PWRCLKCTL_SHCLK OR PWRCLKCTL_SUCLK)) u else u);
                            u = hw_do (set_bits B (DCTL (regs u)) DCTL_RWKUP) u;
                            u = hw_do (usb_mdelay S 5) u
                        in hw_do (clear_bits B (DCTL (regs u)) DCTL_RWKUP) u)
                  else u)
         else u)"

definition usb_clock_active :: "'h usb_sys \<Rightarrow> ('h, 'c) udev \<Rightarrow> ('h, 'c) udev" where
  "usb_clock_active S u =
     (let B = bus S
      in if low_power (bp u) \<noteq> 0
         then (let (v, u) = hw_get (rd32 B (DSTAT (regs u))) u
               in if v AND DSTAT_SPST \<noteq> 0
                  then hw_do (clear_bits B (PWRCLKCTL (regs u)) (PWRCLKCTL_SHCLK OR PWRCLKCTL_SUCLK)) u else u)
         else u)"

definition usb_dev_suspend :: "'h usb_sys \<Rightarrow> ('h, 'c) udev \<Rightarrow> ('h, 'c) udev" where
  "usb_dev_suspend S u =
     (let B = bus S;
          (devstat, u) = hw_get (rd32 B (DSTAT (regs u))) u
      in if low_power (bp u) \<noteq> 0 \<and> devstat AND DSTAT_SPST \<noteq> 0
         then (let u = hw_do (set_bits B (PWRCLKCTL (regs u)) PWRCLKCTL_SHCLK) u
               in hw_do (pmu_to_deepsleepmode B (cpu S) PMU_LDO_LOWPOWER (ucast WFI_CMD)) u)
         else u)"

text \<open>All the interrupt flags of an endpoint are cleared.\<close>

definition clear_ep_flags :: "'h bus \<Rightarrow> 32 word \<Rightarrow> 32 word \<Rightarrow> ('h, 'c) udev \<Rightarrow> ('h, 'c) udev" where
  "clear_ep_flags B p q u = hw_do (wr32 B (DOEPINTF q) 0xFF) (hw_do (wr32 B (DIEPINTF p) 0xFF) u)"

definition usb_dev_stop :: "'h usb_sys \<Rightarrow> ('h, 'c) udev \<Rightarrow> ('h, 'c) udev outcome" where
  "usb_dev_stop S u =
     (let B = bus S;
          u = u\<lparr>cur_status := 1\<rparr>
      in bindo (each_endpoint (clear_ep_flags B) [0..<unat (num_ep (bp u))] u) (\<lambda>u.
         let u = hw_do (wr32 B (DIEPINTEN (regs u)) 0) u;
             u = hw_do (wr32 B (DOEPINTEN (regs u)) 0) u;
             u = hw_do (wr32 B (DAEPINTEN (regs u)) 0) u;
             u = hw_do (wr32 B (DAEPINT (regs u)) 0xFFFFFFFF) u
         in bindo (hw_try (usb_rxfifo_flush S (regs u)) u) (\<lambda>u.
            hw_try (usb_txfifo_flush S (regs u) 0x10) u)))"

end
