(* ===== verification/UsbdCore.thy ===== *)
theory UsbdCore
  imports UsbDev
begin

text \<open>
  \<open>usbd_core.c\<close>, \<open>usbd_enum.c\<close> and \<open>usbd_transc.c\<close>: the endpoints of the device, the standard requests of
  the host, and the stages of a control transfer. The class driver is a parameter \<open>K\<close>, and \<open>L\<close> says where
  the variables in memory are.
\<close>

section \<open>Constants\<close>

abbreviation (input) USBD_OK :: "8 word" where "USBD_OK \<equiv> 0"
abbreviation (input) USBD_FAIL :: "8 word" where "USBD_FAIL \<equiv> 2"
abbreviation (input) USBD_DEFAULT :: "8 word" where "USBD_DEFAULT \<equiv> 1"
abbreviation (input) USBD_ADDRESSED :: "8 word" where "USBD_ADDRESSED \<equiv> 2"
abbreviation (input) USBD_CONFIGURED :: "8 word" where "USBD_CONFIGURED \<equiv> 3"
abbreviation (input) USBD_SUSPENDED :: "8 word" where "USBD_SUSPENDED \<equiv> 4"
abbreviation (input) USB_CTL_IDLE :: "8 word" where "USB_CTL_IDLE \<equiv> 0"
abbreviation (input) USB_CTL_DATA_IN :: "8 word" where "USB_CTL_DATA_IN \<equiv> 1"
abbreviation (input) USB_CTL_LAST_DATA_IN :: "8 word" where "USB_CTL_LAST_DATA_IN \<equiv> 2"
abbreviation (input) USB_CTL_DATA_OUT :: "8 word" where "USB_CTL_DATA_OUT \<equiv> 3"
abbreviation (input) USB_CTL_LAST_DATA_OUT :: "8 word" where "USB_CTL_LAST_DATA_OUT \<equiv> 4"
abbreviation (input) USB_CTL_STATUS_IN :: "8 word" where "USB_CTL_STATUS_IN \<equiv> 5"
abbreviation (input) USB_CTL_STATUS_OUT :: "8 word" where "USB_CTL_STATUS_OUT \<equiv> 6"
abbreviation (input) REQ_SUPP :: "8 word" where "REQ_SUPP \<equiv> 0"
abbreviation (input) REQ_NOTSUPP :: "8 word" where "REQ_NOTSUPP \<equiv> 1"
abbreviation (input) USB_RECPTYPE_DEV :: "8 word" where "USB_RECPTYPE_DEV \<equiv> 0"
abbreviation (input) USB_RECPTYPE_ITF :: "8 word" where "USB_RECPTYPE_ITF \<equiv> 1"
abbreviation (input) USB_RECPTYPE_EP :: "8 word" where "USB_RECPTYPE_EP \<equiv> 2"
abbreviation (input) USB_RECPTYPE_MASK :: "8 word" where "USB_RECPTYPE_MASK \<equiv> 3"
abbreviation (input) USB_REQTYPE_STRD :: "8 word" where "USB_REQTYPE_STRD \<equiv> 0x00"
abbreviation (input) USB_REQTYPE_CLASS :: "8 word" where "USB_REQTYPE_CLASS \<equiv> 0x20"
abbreviation (input) USB_REQTYPE_VENDOR :: "8 word" where "USB_REQTYPE_VENDOR \<equiv> 0x40"
abbreviation (input) USB_REQTYPE_MASK :: "8 word" where "USB_REQTYPE_MASK \<equiv> 0x60"
abbreviation (input) USB_STATUS_REMOTE_WAKEUP :: "8 word" where "USB_STATUS_REMOTE_WAKEUP \<equiv> 2"
abbreviation (input) USB_STATUS_SELF_POWERED :: "8 word" where "USB_STATUS_SELF_POWERED \<equiv> 1"
abbreviation (input) USB_FEATURE_EP_HALT :: "16 word" where "USB_FEATURE_EP_HALT \<equiv> 0"
abbreviation (input) USB_FEATURE_REMOTE_WAKEUP :: "16 word" where "USB_FEATURE_REMOTE_WAKEUP \<equiv> 1"
abbreviation (input) USB_DESCTYPE_DEV :: "8 word" where "USB_DESCTYPE_DEV \<equiv> 1"
abbreviation (input) USB_DESCTYPE_CONFIG :: "8 word" where "USB_DESCTYPE_CONFIG \<equiv> 2"
abbreviation (input) USB_DESCTYPE_STR :: "8 word" where "USB_DESCTYPE_STR \<equiv> 3"
abbreviation (input) USB_DESCTYPE_BOS :: "8 word" where "USB_DESCTYPE_BOS \<equiv> 0xF"
abbreviation (input) STR_IDX_SERIAL :: "8 word" where "STR_IDX_SERIAL \<equiv> 3"
abbreviation (input) STR_IDX_MAX :: "8 word" where "STR_IDX_MAX \<equiv> 6"
abbreviation (input) USB_DEFAULT_CONFIG :: "8 word" where "USB_DEFAULT_CONFIG \<equiv> 0"
abbreviation (input) DEVICE_ID1 :: "32 word" where "DEVICE_ID1 \<equiv> 0x1FFFF7E8"
abbreviation (input) DEVICE_ID2 :: "32 word" where "DEVICE_ID2 \<equiv> 0x1FFFF7EC"
abbreviation (input) DEVICE_ID3 :: "32 word" where "DEVICE_ID3 \<equiv> 0x1FFFF7F0"
abbreviation (input) DEVICE_ID :: "32 word" where "DEVICE_ID \<equiv> 0x40022100"
abbreviation (input) BYTE_LOW :: "16 word \<Rightarrow> 8 word" where "BYTE_LOW x \<equiv> ucast (x AND 0x00FF)"
abbreviation (input) BYTE_HIGH :: "16 word \<Rightarrow> 8 word" where "BYTE_HIGH x \<equiv> ucast (drop_bit 8 (x AND 0xFF00))"
abbreviation (input) EP_ID :: "8 word \<Rightarrow> 8 word" where "EP_ID x \<equiv> x AND 0x7F"
abbreviation (input) EP_DIR :: "8 word \<Rightarrow> bool" where "EP_DIR x \<equiv> drop_bit 7 x \<noteq> 0"
abbreviation (input) CTL_EP :: "8 word \<Rightarrow> bool" where "CTL_EP ep \<equiv> ep = 0x00 \<or> ep = 0x80"

text \<open>Memory that the driver writes: \<open>memset\<close> with 0, and single values.\<close>

definition zero_bytes :: "'h bus \<Rightarrow> 32 word \<Rightarrow> nat \<Rightarrow> 'h \<Rightarrow> 'h" where
  "zero_bytes B p n h = fold (\<lambda>i. wr8 B (p + of_nat i) 0) [0..<n] h"

abbreviation put8 :: "'h usb_sys \<Rightarrow> 32 word \<Rightarrow> 8 word \<Rightarrow> ('h, 'c) udev \<Rightarrow> ('h, 'c) udev" where
  "put8 S a v u \<equiv> hw_do (wr8 (bus S) a v) u"
abbreviation put16 :: "'h usb_sys \<Rightarrow> 32 word \<Rightarrow> 16 word \<Rightarrow> ('h, 'c) udev \<Rightarrow> ('h, 'c) udev" where
  "put16 S a v u \<equiv> hw_do (wr16 (bus S) a v) u"
abbreviation put32 :: "'h usb_sys \<Rightarrow> 32 word \<Rightarrow> reg \<Rightarrow> ('h, 'c) udev \<Rightarrow> ('h, 'c) udev" where
  "put32 S a v u \<equiv> hw_do (wr32 (bus S) a v) u"

section \<open>Endpoints\<close>

text \<open>The transaction of an endpoint address: an index beyond the arrays is undefined.\<close>

definition with_transc :: "8 word \<Rightarrow> (bool \<Rightarrow> nat \<Rightarrow> 'a outcome) \<Rightarrow> 'a outcome" where
  "with_transc ep_addr k =
     (let d = EP_DIR ep_addr; n = unat (if d then EP_ID ep_addr else ep_addr)
      in if n < USBFS_MAX_TX_FIFOS then k d n else Undef)"

record usb_desc_ep =
  bEndpointAddress :: "8 word"
  bmAttributes :: "8 word"
  wMaxPacketSize :: "16 word"

definition usbd_ep_setup :: "'h usb_sys \<Rightarrow> usb_desc_ep \<Rightarrow> ('h, 'c) udev \<Rightarrow> ('h, 'c) udev outcome" where
  "usbd_ep_setup S ep_desc u =
     (let ep_addr = bEndpointAddress ep_desc
      in with_transc ep_addr (\<lambda>d n.
         usb_transc_active S d n (upd_transc d n (\<lambda>t. t\<lparr>ep_dir := d, ep_num := EP_ID ep_addr AND 0xF,
           max_len := wMaxPacketSize ep_desc, ep_type := bmAttributes ep_desc AND 3\<rparr>) u)))"

definition usbd_ep_clear :: "'h usb_sys \<Rightarrow> 8 word \<Rightarrow> ('h, 'c) udev \<Rightarrow> ('h, 'c) udev outcome" where
  "usbd_ep_clear S ep_addr u = with_transc ep_addr (\<lambda>d n. usb_transc_deactivate S d n u)"

definition usbd_ep_recev :: "'h usb_sys \<Rightarrow> 8 word \<Rightarrow> 32 word \<Rightarrow> reg \<Rightarrow> ('h, 'c) udev \<Rightarrow> ('h, 'c) udev outcome" where
  "usbd_ep_recev S ep_addr pbuf len u =
     (let n = unat (EP_ID ep_addr)
      in if n < USBFS_MAX_TX_FIFOS
         then (let u = upd_transc False n (\<lambda>t. t\<lparr>xfer_buf := pbuf, xfer_len := len, xfer_count := 0\<rparr>) u;
                   u = (if transfer_mode (bp u) = USB_USE_DMA then upd_transc False n (\<lambda>t. t\<lparr>dma_addr := pbuf\<rparr>) u else u)
               in usb_transc_outxfer S False n u)
         else Undef)"

definition usbd_ep_send :: "'h usb_sys \<Rightarrow> 8 word \<Rightarrow> 32 word \<Rightarrow> reg \<Rightarrow> ('h, 'c) udev \<Rightarrow> ('h, 'c) udev outcome" where
  "usbd_ep_send S ep_addr pbuf len u =
     (let n = unat (EP_ID ep_addr)
      in if n < USBFS_MAX_TX_FIFOS
         then (let u = upd_transc True n (\<lambda>t. t\<lparr>xfer_buf := pbuf, xfer_len := len, xfer_count := 0\<rparr>) u;
                   u = (if transfer_mode (bp u) = USB_USE_DMA then upd_transc True n (\<lambda>t. t\<lparr>dma_addr := pbuf\<rparr>) u else u)
               in usb_transc_inxfer S True n u)
         else Undef)"

definition usbd_ep_stall :: "'h usb_sys \<Rightarrow> 8 word \<Rightarrow> ('h, 'c) udev \<Rightarrow> ('h, 'c) udev outcome" where
  "usbd_ep_stall S ep_addr u =
     with_transc ep_addr (\<lambda>d n. usb_transc_stall S d n (upd_transc d n (\<lambda>t. t\<lparr>ep_stall := 1\<rparr>) u))"

definition usbd_ep_stall_clear :: "'h usb_sys \<Rightarrow> 8 word \<Rightarrow> ('h, 'c) udev \<Rightarrow> ('h, 'c) udev outcome" where
  "usbd_ep_stall_clear S ep_addr u =
     with_transc ep_addr (\<lambda>d n. usb_transc_clrstall S d n (upd_transc d n (\<lambda>t. t\<lparr>ep_stall := 0\<rparr>) u))"

definition usbd_fifo_flush :: "'h usb_sys \<Rightarrow> 8 word \<Rightarrow> ('h, 'c) udev \<Rightarrow> ('h, 'c) udev outcome" where
  "usbd_fifo_flush S ep_addr u =
     (if EP_DIR ep_addr then hw_try (usb_txfifo_flush S (regs u) (EP_ID ep_addr)) u
      else hw_try (usb_rxfifo_flush S (regs u)) u)"

definition usbd_connect :: "'h usb_sys \<Rightarrow> ('h, 'c) udev \<Rightarrow> ('h, 'c) udev" where
  "usbd_connect S u = hw_do (usb_mdelay S 3) (usb_dev_connect S u)"

definition usbd_disconnect :: "'h usb_sys \<Rightarrow> ('h, 'c) udev \<Rightarrow> ('h, 'c) udev" where
  "usbd_disconnect S u = hw_do (usb_mdelay S 3) (usb_dev_disconnect S u)"

definition usbd_addr_set :: "'h usb_sys \<Rightarrow> 8 word \<Rightarrow> ('h, 'c) udev \<Rightarrow> ('h, 'c) udev" where
  "usbd_addr_set S a u = usb_devaddr_set S a u"

definition usbd_rxcount_get :: "nat \<Rightarrow> ('h, 'c) udev \<Rightarrow> 16 word" where
  "usbd_rxcount_get n u = ucast (xfer_count (transc_out u n))"

section \<open>The serial number\<close>

definition hex_digit :: "reg \<Rightarrow> 8 word" where
  "hex_digit v = (if v < 0x0A then ucast (v + 48) else ucast (v + 65 - 10))"

fun unicode_digits :: "'h bus \<Rightarrow> nat \<Rightarrow> reg \<Rightarrow> 32 word \<Rightarrow> 'h \<Rightarrow> 'h" where
  "unicode_digits B 0 v p h = h"
| "unicode_digits B (Suc n) v p h =
     unicode_digits B n (push_bit 4 v) (p + 2) (wr8 B (p + 1) 0 (wr8 B p (hex_digit (drop_bit 28 v)) h))"

definition int_to_unicode :: "'h bus \<Rightarrow> reg \<Rightarrow> 32 word \<Rightarrow> 8 word \<Rightarrow> 'h \<Rightarrow> 'h" where
  "int_to_unicode B v pbuf len h = unicode_digits B (unat len) v pbuf h"

definition serial_string_get :: "'h bus \<Rightarrow> 32 word \<Rightarrow> 'h \<Rightarrow> 'h" where
  "serial_string_get B unicode_str h =
     (let (l, h) = rd16 B unicode_str h
      in if l AND 0x00FF \<noteq> 6
         then (let (DeviceSerial0, h) = rd32 B DEVICE_ID1 h;
                   (DeviceSerial1, h) = rd32 B DEVICE_ID2 h;
                   (DeviceSerial2, h) = rd32 B DEVICE_ID3 h;
                   DeviceSerial0 = DeviceSerial0 + DeviceSerial2
               in if DeviceSerial0 \<noteq> 0
                  then (let h = int_to_unicode B DeviceSerial0 (unicode_str + 2) 8 h
                        in int_to_unicode B DeviceSerial1 (unicode_str + 18) 4 h)
                  else h)
         else (let (device_serial, h) = rd32 B DEVICE_ID h
               in if device_serial \<noteq> 0
                  then (let h = wr16 B (unicode_str + 2) (ucast (device_serial AND 0x0000FFFF)) h
                        in wr16 B (unicode_str + 4) (ucast (drop_bit 16 (device_serial AND 0xFFFF0000))) h)
                  else h))"

definition string_at :: "'h usb_sys \<Rightarrow> usb_desc \<Rightarrow> 8 word \<Rightarrow> 'h \<Rightarrow> 32 word \<times> 'h" where
  "string_at S d i = rd32 (bus S) (strings d + 4 * ucast i)"

section \<open>Initialisation\<close>

definition usbd_init :: "'h usb_sys \<Rightarrow> usb_core_enum \<Rightarrow> usb_desc \<Rightarrow> ('h, 'c) udev \<Rightarrow> ('h, 'c) udev outcome" where
  "usbd_init S core d u =
     (let B = bus S;
          u = u\<lparr>desc := d\<rparr>;
          (s, u) = hw_get (string_at S d STR_IDX_SERIAL) u;
          u = hw_do (serial_string_get B s) u;
          (_, b, r) = usb_basic_init S (bp u) (regs u) core;
          u = u\<lparr>bp := b, regs := r\<rparr>;
          u = hw_do (usb_globalint_disable B r) u
      in bindo (hw_try (usb_core_init S b r) u) (\<lambda>u.
         let u = usbd_disconnect S u;
             u = hw_do (usb_curmode_set B (regs u) DEVICE_MODE) u
         in bindo (usb_devcore_init S u) (\<lambda>u.
            let u = hw_do (usb_globalint_enable B (regs u)) u;
                u = usbd_connect S u
            in Ret (u\<lparr>cur_status := USBD_DEFAULT\<rparr>))))"

section \<open>Standard requests\<close>

text \<open>A descriptor's length is stored as 16 bits, in the lower half of \<open>remain_len\<close>.\<close>

definition answer_from :: "32 word \<Rightarrow> 16 word \<Rightarrow> ('h, 'c) udev \<Rightarrow> ('h, 'c) udev" where
  "answer_from p len u =
     upd_transc True 0 (\<lambda>t. t\<lparr>xfer_buf := p, remain_len := (remain_len t AND 0xFFFF0000) OR ucast len\<rparr>) u"

definition usb_dev_desc_get :: "'h usb_sys \<Rightarrow> ('h, 'c) udev \<Rightarrow> ('h, 'c) udev" where
  "usb_dev_desc_get S u =
     (let p = dev_desc (desc u); (len, u) = hw_get (rd8 (bus S) p) u in answer_from p (ucast len) u)"

definition usb_config_desc_get :: "'h usb_sys \<Rightarrow> ('h, 'c) udev \<Rightarrow> ('h, 'c) udev" where
  "usb_config_desc_get S u =
     (let p = config_desc (desc u); (len, u) = hw_get (rd8 (bus S) (p + 2)) u in answer_from p (ucast len) u)"

definition usb_bos_desc_get :: "'h usb_sys \<Rightarrow> ('h, 'c) udev \<Rightarrow> ('h, 'c) udev" where
  "usb_bos_desc_get S u =
     (let p = bos_desc (desc u); (len, u) = hw_get (rd8 (bus S) (p + 2)) u in answer_from p (ucast len) u)"

definition usb_str_desc_get :: "'h usb_sys \<Rightarrow> 8 word \<Rightarrow> ('h, 'c) udev \<Rightarrow> ('h, 'c) udev" where
  "usb_str_desc_get S index u =
     (let (p, u) = hw_get (string_at S (desc u) index) u;
          (len, u) = hw_get (rd8 (bus S) p) u
      in answer_from p (ucast len) u)"

type_synonym ('h, 'c) request = "usb_req \<Rightarrow> ('h, 'c) udev \<Rightarrow> (8 word \<times> ('h, 'c) udev) outcome"

definition usb_std_reserved :: "('h, 'c) request" where
  "usb_std_reserved r u = Ret (REQ_NOTSUPP, u)"

definition usb_std_getstatus :: "'h usb_sys \<Rightarrow> usb_place \<Rightarrow> ('h, 'c) request" where
  "usb_std_getstatus S L r u =
     (let B = bus S;
          recp = BYTE_LOW (wIndex r);
          recipient = bmRequestType r AND USB_RECPTYPE_MASK
      in bindo
        (if recipient = USB_RECPTYPE_DEV
         then (if cur_status u = USBD_ADDRESSED \<or> cur_status u = USBD_CONFIGURED
               then (let u = hw_do (wr8 B (status_at L) (if power_mode u \<noteq> 0 then USB_STATUS_SELF_POWERED else 0)) u;
                         u = (if dev_remote_wakeup u \<noteq> 0
                              then (let (v, u) = hw_get (rd8 B (status_at L)) u
                                    in hw_do (wr8 B (status_at L) (v OR USB_STATUS_REMOTE_WAKEUP)) u)
                              else hw_do (wr8 B (status_at L) 0) u)
                     in Ret (REQ_SUPP, u))
               else Ret (REQ_NOTSUPP, u))
         else if recipient = USB_RECPTYPE_ITF
         then (if cur_status u = USBD_CONFIGURED \<and> recp \<le> USBD_ITF_MAX_NUM S then Ret (REQ_SUPP, u)
               else Ret (REQ_NOTSUPP, u))
         else if recipient = USB_RECPTYPE_EP
         then (if cur_status u = USBD_CONFIGURED
               then with_transc recp (\<lambda>d n. Ret (REQ_SUPP, hw_do (wr8 B (status_at L) (ep_stall (transc d n u))) u))
               else Ret (REQ_NOTSUPP, u))
         else Ret (REQ_NOTSUPP, u))
        (\<lambda>(req_status, u).
         Ret (req_status,
           if req_status = REQ_SUPP then upd_transc True 0 (\<lambda>t. t\<lparr>xfer_buf := status_at L, remain_len := 2\<rparr>) u else u)))"

definition usb_std_clearfeature :: "'h usb_sys \<Rightarrow> ('h, 'c) usb_class_core \<Rightarrow> ('h, 'c) request" where
  "usb_std_clearfeature S K r u =
     (let recipient = bmRequestType r AND USB_RECPTYPE_MASK
      in if recipient = USB_RECPTYPE_DEV
         then (if (cur_status u = USBD_ADDRESSED \<or> cur_status u = USBD_CONFIGURED) \<and> wValue r = USB_FEATURE_REMOTE_WAKEUP
               then Ret (REQ_SUPP, u\<lparr>dev_remote_wakeup := 0\<rparr>)
               else Ret (REQ_NOTSUPP, u))
         else if recipient = USB_RECPTYPE_EP
         then (let ep = BYTE_LOW (wIndex r)
               in if cur_status u = USBD_CONFIGURED
                  then bindo
                    (if wValue r = USB_FEATURE_EP_HALT \<and> \<not> CTL_EP ep
                     then bindo (usbd_ep_stall_clear S ep u) (\<lambda>u. bindo (req_proc K u r) (\<lambda>(_, u). Ret u))
                     else Ret u)
                    (\<lambda>u. Ret (REQ_SUPP, u))
                  else Ret (REQ_NOTSUPP, u))
         else Ret (REQ_NOTSUPP, u))"

definition usb_std_setfeature :: "'h usb_sys \<Rightarrow> ('h, 'c) request" where
  "usb_std_setfeature S r u =
     (let recipient = bmRequestType r AND USB_RECPTYPE_MASK
      in if recipient = USB_RECPTYPE_DEV
         then (if cur_status u = USBD_ADDRESSED \<or> cur_status u = USBD_CONFIGURED
               then Ret (REQ_SUPP, if wValue r = USB_FEATURE_REMOTE_WAKEUP then u\<lparr>dev_remote_wakeup := 1\<rparr> else u)
               else Ret (REQ_NOTSUPP, u))
         else if recipient = USB_RECPTYPE_EP
         then (let ep = BYTE_LOW (wIndex r)
               in if cur_status u = USBD_CONFIGURED
                  then bindo (if wValue r = USB_FEATURE_EP_HALT \<and> \<not> CTL_EP ep then usbd_ep_stall S ep u else Ret u)
                         (\<lambda>u. Ret (REQ_SUPP, u))
                  else Ret (REQ_NOTSUPP, u))
         else Ret (REQ_NOTSUPP, u))"

definition usb_std_setaddress :: "'h usb_sys \<Rightarrow> ('h, 'c) request" where
  "usb_std_setaddress S r u =
     (if wIndex r = 0 \<and> wLength r = 0
      then (let u = u\<lparr>dev_addr := ucast (wValue r) AND 0x7F\<rparr>
            in if cur_status u \<noteq> USBD_CONFIGURED
               then (let u = usbd_addr_set S (dev_addr u) u
                     in Ret (REQ_SUPP, u\<lparr>cur_status := (if dev_addr u \<noteq> 0 then USBD_ADDRESSED else USBD_DEFAULT)\<rparr>))
               else Ret (REQ_NOTSUPP, u))
      else Ret (REQ_NOTSUPP, u))"

text \<open>The end of \<open>_usb_std_getdescriptor\<close>: no more than the host asked for, and a packet without data if the
  host asked for more and the last packet is full.\<close>

definition limit_answer :: "('h, 'c) request" where
  "limit_answer r u =
     (let t = transc_in u 0
      in if remain_len t < ucast (wLength r)
         then (if ucast (max_len t) \<le> remain_len t
               then (if max_len t = 0 then Undef
                     else Ret (REQ_SUPP, if remain_len t mod ucast (max_len t) = 0 then u\<lparr>ctl_zlp := 1\<rparr> else u))
               else Ret (REQ_SUPP, u))
         else Ret (REQ_SUPP, upd_transc True 0 (\<lambda>t. t\<lparr>remain_len := ucast (wLength r)\<rparr>) u))"

definition usb_std_getdescriptor :: "'h usb_sys \<Rightarrow> ('h, 'c) usb_class_core \<Rightarrow> ('h, 'c) request" where
  "usb_std_getdescriptor S K r u =
     (let recipient = bmRequestType r AND USB_RECPTYPE_MASK;
          desc_type = BYTE_HIGH (wValue r);
          desc_index = BYTE_LOW (wValue r)
      in bindo
        (if recipient = USB_RECPTYPE_DEV
         then Ret (REQ_NOTSUPP,
           if desc_type = USB_DESCTYPE_DEV
           then (let u = usb_dev_desc_get S u
                 in if wLength r = 64 then upd_transc True 0 (\<lambda>t. t\<lparr>remain_len := 8\<rparr>) u else u)
           else if desc_type = USB_DESCTYPE_CONFIG then usb_config_desc_get S u
           else if desc_type = USB_DESCTYPE_STR
           then (if desc_index < STR_IDX_MAX then usb_str_desc_get S desc_index u else u)
           else if desc_type = USB_DESCTYPE_BOS then usb_bos_desc_get S u
           else u)
         else if recipient = USB_RECPTYPE_ITF then req_proc K u r
         else Ret (REQ_NOTSUPP, u))
        (\<lambda>(status, u).
         if remain_len (transc_in u 0) \<noteq> 0 \<and> wLength r \<noteq> 0 then limit_answer r u else Ret (status, u)))"

definition usb_std_setdescriptor :: "('h, 'c) request" where
  "usb_std_setdescriptor r u = Ret (REQ_SUPP, u)"

definition usb_std_getconfiguration :: "'h usb_sys \<Rightarrow> usb_place \<Rightarrow> ('h, 'c) request" where
  "usb_std_getconfiguration S L r u =
     (let (req_status, u) =
        (if cur_status u = USBD_ADDRESSED
         then (let (config, u) = hw_get (rd8 (bus S) (config_at L)) u
               in (if config = USB_DEFAULT_CONFIG then REQ_SUPP else REQ_NOTSUPP, u))
         else if cur_status u = USBD_CONFIGURED
         then (let (config, u) = hw_get (rd8 (bus S) (config_at L)) u
               in (if config \<noteq> USB_DEFAULT_CONFIG then REQ_SUPP else REQ_NOTSUPP, u))
         else (REQ_NOTSUPP, u))
      in Ret (req_status,
        if req_status = REQ_SUPP then upd_transc True 0 (\<lambda>t. t\<lparr>xfer_buf := config_at L, remain_len := 1\<rparr>) u else u))"

definition usb_std_setconfiguration :: "'h usb_sys \<Rightarrow> usb_place \<Rightarrow> ('h, 'c) usb_class_core \<Rightarrow> ('h, 'c) request" where
  "usb_std_setconfiguration S L K r u =
     (let config = (ucast (wValue r) :: 8 word)
      in if config \<le> USBD_CFG_MAX_NUM S
         then if cur_status u = USBD_ADDRESSED
              then bindo
                (if config \<noteq> 0
                 then bindo (init_proc K u config) (\<lambda>(_, u).
                      Ret ((hw_do (wr8 (bus S) (config_at L) config) u)\<lparr>cur_status := USBD_CONFIGURED\<rparr>))
                 else Ret u)
                (\<lambda>u. Ret (REQ_SUPP, u))
              else if cur_status u = USBD_CONFIGURED
              then bindo
                (if config = USB_DEFAULT_CONFIG
                 then bindo (deinit_proc K u config) (\<lambda>(_, u).
                      Ret ((hw_do (wr8 (bus S) (config_at L) config) u)\<lparr>cur_status := USBD_ADDRESSED\<rparr>))
                 else (let (old, u) = hw_get (rd8 (bus S) (config_at L)) u
                       in if config \<noteq> old
                          then bindo (deinit_proc K u config) (\<lambda>(_, u).
                               bindo (init_proc K (hw_do (wr8 (bus S) (config_at L) config) u) config) (\<lambda>(_, u). Ret u))
                          else Ret u))
                (\<lambda>u. Ret (REQ_SUPP, u))
              else Ret (REQ_NOTSUPP, u)
         else Ret (REQ_NOTSUPP, u))"

definition usb_std_getinterface :: "'h usb_sys \<Rightarrow> usb_place \<Rightarrow> ('h, 'c) request" where
  "usb_std_getinterface S L r u =
     (if cur_status u = USBD_CONFIGURED \<and> BYTE_LOW (wIndex r) \<le> USBD_ITF_MAX_NUM S
      then Ret (REQ_SUPP, upd_transc True 0 (\<lambda>t. t\<lparr>xfer_buf := alter_set_at L, remain_len := 1\<rparr>) u)
      else Ret (REQ_NOTSUPP, u))"

definition usb_std_setinterface :: "'h usb_sys \<Rightarrow> ('h, 'c) usb_class_core \<Rightarrow> ('h, 'c) request" where
  "usb_std_setinterface S K r u =
     (if cur_status u = USBD_CONFIGURED \<and> BYTE_LOW (wIndex r) \<le> USBD_ITF_MAX_NUM S
      then bindo (case set_intf K of None \<Rightarrow> Ret u | Some f \<Rightarrow> bindo (f u r) (\<lambda>(_, u). Ret u)) (\<lambda>u. Ret (REQ_SUPP, u))
      else Ret (REQ_NOTSUPP, u))"

definition usb_std_synchframe :: "('h, 'c) request" where
  "usb_std_synchframe r u = Ret (REQ_SUPP, u)"

text \<open>The table \<open>_std_dev_req\<close> has thirteen entries; the request number is not checked, and calling beyond
  the table is undefined.\<close>

definition usbd_standard_request :: "'h usb_sys \<Rightarrow> usb_place \<Rightarrow> ('h, 'c) usb_class_core \<Rightarrow> ('h, 'c) request" where
  "usbd_standard_request S L K r u =
     (if bRequest r = 0x0 then usb_std_getstatus S L r u
      else if bRequest r = 0x1 then usb_std_clearfeature S K r u
      else if bRequest r = 0x2 then usb_std_reserved r u
      else if bRequest r = 0x3 then usb_std_setfeature S r u
      else if bRequest r = 0x4 then usb_std_reserved r u
      else if bRequest r = 0x5 then usb_std_setaddress S r u
      else if bRequest r = 0x6 then usb_std_getdescriptor S K r u
      else if bRequest r = 0x7 then usb_std_setdescriptor r u
      else if bRequest r = 0x8 then usb_std_getconfiguration S L r u
      else if bRequest r = 0x9 then usb_std_setconfiguration S L K r u
      else if bRequest r = 0xA then usb_std_getinterface S L r u
      else if bRequest r = 0xB then usb_std_setinterface S K r u
      else if bRequest r = 0xC then usb_std_synchframe r u
      else Undef)"

definition usbd_class_request :: "'h usb_sys \<Rightarrow> ('h, 'c) usb_class_core \<Rightarrow> ('h, 'c) request" where
  "usbd_class_request S K r u =
     (if cur_status u = USBD_CONFIGURED \<and> BYTE_LOW (wIndex r) \<le> USBD_ITF_MAX_NUM S then req_proc K u r
      else Ret (REQ_NOTSUPP, u))"

definition usbd_vendor_request :: "('h, 'c) request" where
  "usbd_vendor_request r u = Ret (REQ_SUPP, u)"

definition usbd_enum_error :: "'h usb_sys \<Rightarrow> usb_place \<Rightarrow> ('h, 'c) udev \<Rightarrow> ('h, 'c) udev outcome" where
  "usbd_enum_error S L u =
     bindo (usbd_ep_stall S 0x80 u) (\<lambda>u. bindo (usbd_ep_stall S 0x00 u) (usb_ctlep_startout S L))"

section \<open>Control transfers\<close>

definition usbd_ctl_send :: "'h usb_sys \<Rightarrow> ('h, 'c) udev \<Rightarrow> ('h, 'c) udev outcome" where
  "usbd_ctl_send S u =
     bindo (usbd_ep_send S 0 (xfer_buf (transc_in u 0)) (remain_len (transc_in u 0)) u) (\<lambda>u.
       let t = transc_in u 0
       in Ret (u\<lparr>ctl_state := (if ucast (max_len t) < remain_len t then USB_CTL_DATA_IN else USB_CTL_LAST_DATA_IN)\<rparr>))"

definition usbd_ctl_recev :: "'h usb_sys \<Rightarrow> ('h, 'c) udev \<Rightarrow> ('h, 'c) udev outcome" where
  "usbd_ctl_recev S u =
     bindo (usbd_ep_recev S 0 (xfer_buf (transc_out u 0)) (remain_len (transc_out u 0)) u) (\<lambda>u.
       let t = transc_out u 0
       in Ret (u\<lparr>ctl_state := (if ucast (max_len t) < remain_len t then USB_CTL_DATA_OUT else USB_CTL_LAST_DATA_OUT)\<rparr>))"

definition usbd_ctl_status_send :: "'h usb_sys \<Rightarrow> usb_place \<Rightarrow> ('h, 'c) udev \<Rightarrow> ('h, 'c) udev outcome" where
  "usbd_ctl_status_send S L u =
     bindo (usbd_ep_send S 0 0 0 (u\<lparr>ctl_state := USB_CTL_STATUS_IN\<rparr>)) (usb_ctlep_startout S L)"

definition usbd_ctl_status_recev :: "'h usb_sys \<Rightarrow> usb_place \<Rightarrow> ('h, 'c) udev \<Rightarrow> ('h, 'c) udev outcome" where
  "usbd_ctl_status_recev S L u =
     bindo (usbd_ep_recev S 0 0 0 (u\<lparr>ctl_state := USB_CTL_STATUS_OUT\<rparr>)) (usb_ctlep_startout S L)"

definition usbd_setup_transc :: "'h usb_sys \<Rightarrow> usb_place \<Rightarrow> ('h, 'c) usb_class_core \<Rightarrow> ('h, 'c) udev \<Rightarrow> ('h, 'c) udev outcome" where
  "usbd_setup_transc S L K u =
     (let r = req u;
          reqtype = bmRequestType r AND USB_REQTYPE_MASK
      in bindo
        (if reqtype = USB_REQTYPE_STRD then usbd_standard_request S L K r u
         else if reqtype = USB_REQTYPE_CLASS then usbd_class_request S K r u
         else if reqtype = USB_REQTYPE_VENDOR then usbd_vendor_request r u
         else Ret (REQ_NOTSUPP, u))
        (\<lambda>(reqstat, u).
         if reqstat = REQ_SUPP
         then (if wLength r = 0 then usbd_ctl_status_send S L u
               else if bmRequestType r AND 0x80 \<noteq> 0 then usbd_ctl_send S u
               else usbd_ctl_recev S u)
         else usbd_enum_error S L u))"

text \<open>A handler that is there is called.\<close>

definition call :: "(('h, 'c) udev \<Rightarrow> (8 word \<times> ('h, 'c) udev) outcome) option \<Rightarrow> ('h, 'c) udev \<Rightarrow> ('h, 'c) udev outcome" where
  "call f u = (case f of None \<Rightarrow> Ret u | Some g \<Rightarrow> bindo (g u) (\<lambda>(_, u). Ret u))"

definition usbd_out_transc ::
  "'h usb_sys \<Rightarrow> usb_place \<Rightarrow> ('h, 'c) usb_class_core \<Rightarrow> 8 word \<Rightarrow> ('h, 'c) udev \<Rightarrow> ('h, 'c) udev outcome" where
  "usbd_out_transc S L K n u =
     (if n = 0
      then if ctl_state u = USB_CTL_DATA_OUT
           then (let u = upd_transc False 0 (\<lambda>t. t\<lparr>remain_len := remain_len t - ucast (max_len t)\<rparr>) u;
                     u = (if transfer_mode (bp u) = USB_USE_DMA
                          then upd_transc False 0 (\<lambda>t. t\<lparr>xfer_buf := xfer_buf t + ucast (max_len t)\<rparr>) u else u)
                 in usbd_ctl_recev S u)
           else if ctl_state u = USB_CTL_LAST_DATA_OUT
           then bindo (if cur_status u = USBD_CONFIGURED then call (ctlx_out K) u else Ret u) (\<lambda>u.
                usbd_ctl_status_send S L (upd_transc False 0 (\<lambda>t. t\<lparr>remain_len := 0\<rparr>) u))
           else Ret u
      else if cur_status u = USBD_CONFIGURED then call (map_option (\<lambda>f u. f u n) (data_out K)) u
      else Ret u)"

definition usbd_in_transc ::
  "'h usb_sys \<Rightarrow> usb_place \<Rightarrow> ('h, 'c) usb_class_core \<Rightarrow> 8 word \<Rightarrow> ('h, 'c) udev \<Rightarrow> ('h, 'c) udev outcome" where
  "usbd_in_transc S L K n u =
     (if n = 0
      then if ctl_state u = USB_CTL_DATA_IN
           then (let u = upd_transc True 0 (\<lambda>t. t\<lparr>remain_len := remain_len t - ucast (max_len t)\<rparr>) u;
                     u = (if transfer_mode (bp u) = USB_USE_DMA
                          then upd_transc True 0 (\<lambda>t. t\<lparr>xfer_buf := xfer_buf t + ucast (max_len t)\<rparr>) u else u)
                 in usbd_ctl_send S u)
           else if ctl_state u = USB_CTL_LAST_DATA_IN
           then if ctl_zlp u \<noteq> 0
                then bindo (usbd_ep_send S 0 0 0 u) (\<lambda>u. Ret (u\<lparr>ctl_zlp := 0\<rparr>))
                else bindo (if cur_status u = USBD_CONFIGURED then call (ctlx_in K) u else Ret u) (\<lambda>u.
                     usbd_ctl_status_recev S L (upd_transc True 0 (\<lambda>t. t\<lparr>remain_len := 0\<rparr>) u))
           else Ret u
      else if cur_status u = USBD_CONFIGURED then call (map_option (\<lambda>f u. f u n) (data_in K)) u
      else Ret u)"

text \<open>
  \<open>drv_usbd_int.c\<close>: the interrupts of the USB device. \<open>usbd_isr\<close> is the whole handler: the driver's state
  changes by nothing else once it is initialised, but the calls of the class driver and the
  application.
\<close>

section \<open>Constants\<close>

abbreviation (input) GRSTATP :: "usb_core_regs \<Rightarrow> 32 word" where "GRSTATP r \<equiv> gr r + 0x20"
abbreviation (input) DIEPTFSTAT :: "32 word \<Rightarrow> 32 word" where "DIEPTFSTAT p \<equiv> p + 0x18"

abbreviation (input) GUSBCS_UTT :: reg where "GUSBCS_UTT \<equiv> BITS 10 13"
abbreviation (input) GINTF_WKUPIF :: reg where "GINTF_WKUPIF \<equiv> BIT 31"
abbreviation (input) GINTF_SESIF :: reg where "GINTF_SESIF \<equiv> BIT 30"
abbreviation (input) GINTF_ISOONCIF :: reg where "GINTF_ISOONCIF \<equiv> BIT 21"
abbreviation (input) GINTF_ISOINCIF :: reg where "GINTF_ISOINCIF \<equiv> BIT 20"
abbreviation (input) GINTF_OEPIF :: reg where "GINTF_OEPIF \<equiv> BIT 19"
abbreviation (input) GINTF_IEPIF :: reg where "GINTF_IEPIF \<equiv> BIT 18"
abbreviation (input) GINTF_ENUMFIF :: reg where "GINTF_ENUMFIF \<equiv> BIT 13"
abbreviation (input) GINTF_RST :: reg where "GINTF_RST \<equiv> BIT 12"
abbreviation (input) GINTF_SP :: reg where "GINTF_SP \<equiv> BIT 11"
abbreviation (input) GINTF_RXFNEIF :: reg where "GINTF_RXFNEIF \<equiv> BIT 4"
abbreviation (input) GINTF_SOF :: reg where "GINTF_SOF \<equiv> BIT 3"
abbreviation (input) GINTF_OTGIF :: reg where "GINTF_OTGIF \<equiv> BIT 2"
abbreviation (input) GINTF_COPM :: reg where "GINTF_COPM \<equiv> BIT 0"
abbreviation (input) GRSTATRP_RPCKST :: reg where "GRSTATRP_RPCKST \<equiv> BITS 17 20"
abbreviation (input) GRSTATRP_DPID :: reg where "GRSTATRP_DPID \<equiv> BITS 15 16"
abbreviation (input) GRSTATRP_BCOUNT :: reg where "GRSTATRP_BCOUNT \<equiv> BITS 4 14"
abbreviation (input) GRSTATRP_EPNUM :: reg where "GRSTATRP_EPNUM \<equiv> BITS 0 3"
abbreviation (input) DCTL_CGINAK :: reg where "DCTL_CGINAK \<equiv> BIT 8"
abbreviation (input) DIEPINTEN_TFEN :: reg where "DIEPINTEN_TFEN \<equiv> BIT 0"
abbreviation (input) DOEPINTEN_STPFEN :: reg where "DOEPINTEN_STPFEN \<equiv> BIT 3"
abbreviation (input) DOEPINTEN_TFEN :: reg where "DOEPINTEN_TFEN \<equiv> BIT 0"
abbreviation (input) DIEPINTF_TXFE :: reg where "DIEPINTF_TXFE \<equiv> BIT 7"
abbreviation (input) DIEPINTF_TF :: reg where "DIEPINTF_TF \<equiv> BIT 0"
abbreviation (input) DOEPINTF_STPF :: reg where "DOEPINTF_STPF \<equiv> BIT 3"
abbreviation (input) DOEPINTF_TF :: reg where "DOEPINTF_TF \<equiv> BIT 0"
abbreviation (input) DIEPTFSTAT_IEPTFS :: reg where "DIEPTFSTAT_IEPTFS \<equiv> BITS 0 15"

abbreviation (input) RSTAT_DATA_UPDT :: reg where "RSTAT_DATA_UPDT \<equiv> 2"
abbreviation (input) RSTAT_SETUP_UPDT :: reg where "RSTAT_SETUP_UPDT \<equiv> 6"
abbreviation (input) DPID_DATA0 :: "8 word" where "DPID_DATA0 \<equiv> 0"
abbreviation (input) USB_FS_EP0_MAX_LEN :: "16 word" where "USB_FS_EP0_MAX_LEN \<equiv> 64"

definition USB_SPEED :: "8 word \<Rightarrow> 8 word" where
  "USB_SPEED enum_speed = (if enum_speed = 0 then USB_SPEED_HIGH else if enum_speed = 2 then USB_SPEED_LOW else USB_SPEED_FULL)"

section \<open>FIFOs\<close>

text \<open>The part of a transfer that the next packet holds.\<close>

definition next_len :: "usb_transc \<Rightarrow> reg" where
  "next_len t = (let len = xfer_len t - xfer_count t in if ucast (max_len t) < len then ucast (max_len t) else len)"

text \<open>The loop fills the FIFO as long as there is room for a packet, as many words as the last one had; it
  may go on for ever if packets have no length.\<close>

partial_function (option) fill_txfifo ::
  "'h usb_sys \<Rightarrow> nat \<Rightarrow> 32 word \<Rightarrow> reg \<Rightarrow> ('h, 'c) udev \<Rightarrow> ('h, 'c) udev outcome option" where
  "fill_txfifo S n p word_count u =
     (let B = bus S;
          (room, u) = hw_get (rd32 B (DIEPTFSTAT p)) u;
          t = transc_in u n
      in if word_count \<le> room AND DIEPTFSTAT_IEPTFS \<and> xfer_count t < xfer_len t
         then (let len = next_len t;
                   word_count = (len + 3) div 4
               in case hw_try (usb_txfifo_write B (regs u) (xfer_buf t) n (ucast len)) u of
                    Ret u \<Rightarrow>
                      (let u = upd_transc True n (\<lambda>t. t\<lparr>xfer_buf := xfer_buf t + len, xfer_count := xfer_count t + len\<rparr>) u;
                           t = transc_in u n;
                           u = (if xfer_count t = xfer_len t
                                then hw_do (clear_bits B (DIEPFEINTEN (regs u)) (push_bit n 0x01)) u else u)
                       in fill_txfifo S n p word_count u)
                  | r \<Rightarrow> Some r)
         else Some (Ret u))"

definition usbd_emptytxfifo_write :: "'h usb_sys \<Rightarrow> nat \<Rightarrow> ('h, 'c) udev \<Rightarrow> ('h, 'c) udev outcome" where
  "usbd_emptytxfifo_write S n u =
     bindo (er_in_at u n) (\<lambda>p.
       case fill_txfifo S n p ((next_len (transc_in u n) + 3) div 4) u of None \<Rightarrow> Timeout | Some r \<Rightarrow> r)"

text \<open>A setup packet is read into the request, which is not in the model's memory: two words, the lowest
  byte first.\<close>

definition setup_of :: "reg \<Rightarrow> reg \<Rightarrow> usb_req" where
  "setup_of v w = \<lparr>bmRequestType = ucast v, bRequest = ucast (drop_bit 8 v), wValue = ucast (drop_bit 16 v),
     wIndex = ucast w, wLength = ucast (drop_bit 16 w)\<rparr>"

definition read_setup :: "'h bus \<Rightarrow> ('h, 'c) udev \<Rightarrow> ('h, 'c) udev outcome" where
  "read_setup B u =
     bindo (pointer USBFS_MAX_TX_FIFOS (DFIFO (regs u)) 0) (\<lambda>fifo.
       let (v, u) = hw_get (rd32 B fifo) u; (w, u) = hw_get (rd32 B fifo) u in Ret (u\<lparr>req := setup_of v w\<rparr>))"

definition usbd_int_rxfifo :: "'h usb_sys \<Rightarrow> ('h, 'c) udev \<Rightarrow> ('h, 'c) udev outcome" where
  "usbd_int_rxfifo S u =
     (let B = bus S;
          u = hw_do (clear_bits B (GINTEN (regs u)) GINTEN_RXFNEIE) u;
          (devrxstat, u) = hw_get (rd32 B (GRSTATP (regs u))) u;
          n = unat (devrxstat AND GRSTATRP_EPNUM);
          bcount = drop_bit 4 (devrxstat AND GRSTATRP_BCOUNT);
          data_PID = (ucast (drop_bit 15 (devrxstat AND GRSTATRP_DPID)) :: 8 word);
          kind = drop_bit 17 (devrxstat AND GRSTATRP_RPCKST)
      in if n < USBFS_MAX_TX_FIFOS
         then bindo
           (if kind = RSTAT_DATA_UPDT
            then (if 0 < bcount
                  then bindo (hw_try (usb_rxfifo_read B (regs u) (xfer_buf (transc_out u n)) (ucast bcount)) u) (\<lambda>u.
                       Ret (upd_transc False n (\<lambda>t. t\<lparr>xfer_buf := xfer_buf t + bcount, xfer_count := xfer_count t + bcount\<rparr>) u))
                  else Ret u)
            else if kind = RSTAT_SETUP_UPDT
            then (if UsbDev.ep_num (transc_out u n) = 0 \<and> bcount = 8 \<and> data_PID = DPID_DATA0
                  then bindo (read_setup B u) (\<lambda>u. Ret (upd_transc False n (\<lambda>t. t\<lparr>xfer_count := xfer_count t + bcount\<rparr>) u))
                  else Ret u)
            else Ret u)
           (\<lambda>u. Ret (hw_do (set_bits B (GINTEN (regs u)) GINTEN_RXFNEIE) u))
         else Undef)"

section \<open>Endpoints\<close>

definition ep_out_event ::
  "'h usb_sys \<Rightarrow> usb_place \<Rightarrow> ('h, 'c) usb_class_core \<Rightarrow> nat \<Rightarrow> ('h, 'c) udev \<Rightarrow> ('h, 'c) udev outcome" where
  "ep_out_event S L K n u =
     (let B = bus S
      in bindo (usb_oepintr_read S n u) (\<lambda>(oepintr, u). bindo (er_out_at u n) (\<lambda>p.
         bindo
           (if oepintr AND DOEPINTF_TF \<noteq> 0
            then (let u = hw_do (wr32 B (DOEPINTF p) DOEPINTF_TF) u;
                      u = (if transfer_mode (bp u) = USB_USE_DMA
                           then (let (eplen, u) = hw_get (rd32 B (DOEPLEN p)) u
                                 in upd_transc False n (\<lambda>t. t\<lparr>xfer_count := ucast (max_len t) - (eplen AND DEPLEN_TLEN)\<rparr>) u)
                           else u)
                  in bindo (usbd_out_transc S L K (of_nat n) u) (\<lambda>u.
                     if transfer_mode (bp u) = USB_USE_DMA \<and> n = 0 \<and> ctl_state u = USB_CTL_STATUS_OUT
                     then usb_ctlep_startout S L u else Ret u))
            else Ret u)
           (\<lambda>u. if oepintr AND DOEPINTF_STPF \<noteq> 0
                then bindo (usbd_setup_transc S L K u) (\<lambda>u. Ret (hw_do (wr32 B (DOEPINTF p) DOEPINTF_STPF) u))
                else Ret u))))"

definition ep_in_event ::
  "'h usb_sys \<Rightarrow> usb_place \<Rightarrow> ('h, 'c) usb_class_core \<Rightarrow> nat \<Rightarrow> ('h, 'c) udev \<Rightarrow> ('h, 'c) udev outcome" where
  "ep_in_event S L K n u =
     (let B = bus S
      in bindo (usb_iepintr_read S n u) (\<lambda>(iepintr, u). bindo (er_in_at u n) (\<lambda>p.
         bindo
           (if iepintr AND DIEPINTF_TF \<noteq> 0
            then bindo (usbd_in_transc S L K (of_nat n) (hw_do (wr32 B (DIEPINTF p) DIEPINTF_TF) u)) (\<lambda>u.
                 if transfer_mode (bp u) = USB_USE_DMA \<and> n = 0 \<and> ctl_state u = USB_CTL_STATUS_IN
                 then usb_ctlep_startout S L u else Ret u)
            else Ret u)
           (\<lambda>u. if iepintr AND DIEPINTF_TXFE \<noteq> 0
                then bindo (usbd_emptytxfifo_write S n u) (\<lambda>u. Ret (hw_do (wr32 B (DIEPINTF p) DIEPINTF_TXFE) u))
                else Ret u))))"

text \<open>The endpoints whose bits are set, in their order.\<close>

fun each_event :: "(nat \<Rightarrow> ('h, 'c) udev \<Rightarrow> ('h, 'c) udev outcome) \<Rightarrow> reg \<Rightarrow> nat list \<Rightarrow> ('h, 'c) udev \<Rightarrow> ('h, 'c) udev outcome" where
  "each_event f epintnum [] u = Ret u"
| "each_event f epintnum (n # ns) u =
     bindo (if bit epintnum n then f n u else Ret u) (each_event f epintnum ns)"

definition usbd_int_epout ::
  "'h usb_sys \<Rightarrow> usb_place \<Rightarrow> ('h, 'c) usb_class_core \<Rightarrow> ('h, 'c) udev \<Rightarrow> ('h, 'c) udev outcome" where
  "usbd_int_epout S L K u =
     (let (epintnum, u) = usb_oepintnum_read S u in each_event (ep_out_event S L K) epintnum [0..<32] u)"

definition usbd_int_epin ::
  "'h usb_sys \<Rightarrow> usb_place \<Rightarrow> ('h, 'c) usb_class_core \<Rightarrow> ('h, 'c) udev \<Rightarrow> ('h, 'c) udev outcome" where
  "usbd_int_epin S L K u =
     (let (epintnum, u) = usb_iepintnum_read S u in each_event (ep_in_event S L K) epintnum [0..<32] u)"

section \<open>The bus\<close>

definition usbd_int_reset :: "'h usb_sys \<Rightarrow> usb_place \<Rightarrow> ('h, 'c) udev \<Rightarrow> ('h, 'c) udev outcome" where
  "usbd_int_reset S L u =
     (let B = bus S;
          u = hw_do (clear_bits B (DCTL (regs u)) DCTL_RWKUP) u
      in bindo (hw_try (usb_txfifo_flush S (regs u) 0) u) (\<lambda>u.
         bindo (each_endpoint (clear_ep_flags B) [0..<unat (num_ep (bp u))] u) (\<lambda>u.
         let u = hw_do (wr32 B (DAEPINT (regs u)) 0xFFFFFFFF) u;
             u = hw_do (wr32 B (DAEPINTEN (regs u)) (1 OR push_bit 16 1)) u;
             u = hw_do (wr32 B (DOEPINTEN (regs u)) (DOEPINTEN_STPFEN OR DOEPINTEN_TFEN)) u;
             u = hw_do (wr32 B (DIEPINTEN (regs u)) DIEPINTEN_TFEN) u;
             u = hw_do (clear_bits B (DCFG (regs u)) DCFG_DAR) u
         in bindo (usb_ctlep_startout S L u) (\<lambda>u.
            let u = hw_do (wr32 B (GINTF (regs u)) GINTF_RST) u;
                u = upd_transc False 0 (\<lambda>t. t\<lparr>ep_type := USB_EPTYPE_CTRL, max_len := USB_FS_EP0_MAX_LEN\<rparr>) u
            in bindo (usb_transc_active S False 0 u) (\<lambda>u.
               let u = upd_transc True 0 (\<lambda>t. t\<lparr>ep_dir := True, ep_type := USB_EPTYPE_CTRL, max_len := USB_FS_EP0_MAX_LEN\<rparr>) u
               in bindo (usb_transc_active S True 0 u) (\<lambda>u.
                  Ret (u\<lparr>cur_status := USBD_DEFAULT\<rparr>)))))))"

definition usbd_int_enumfinish :: "'h usb_sys \<Rightarrow> ('h, 'c) udev \<Rightarrow> ('h, 'c) udev" where
  "usbd_int_enumfinish S u =
     (let B = bus S;
          (v, u) = hw_get (rd32 B (DSTAT (regs u))) u;
          enum_speed = (ucast (drop_bit 1 (v AND DSTAT_ES)) :: 8 word);
          u = hw_do (clear_bits B (DCTL (regs u)) DCTL_CGINAK) u;
          u = hw_do (set_bits B (DCTL (regs u)) DCTL_CGINAK) u;
          u = hw_do (clear_bits B (GUSBCS (regs u)) GUSBCS_UTT) u;
          u = (if USB_SPEED enum_speed = USB_SPEED_HIGH
               then hw_do (set_bits B (GUSBCS (regs u)) (push_bit 10 0x09)) (u\<lparr>bp := (bp u)\<lparr>core_speed := USB_SPEED_HIGH\<rparr>\<rparr>)
               else hw_do (set_bits B (GUSBCS (regs u)) (push_bit 10 0x05)) (u\<lparr>bp := (bp u)\<lparr>core_speed := USB_SPEED_FULL\<rparr>\<rparr>))
      in hw_do (wr32 B (GINTF (regs u)) GINTF_ENUMFIF) u)"

definition usbd_int_suspend :: "'h usb_sys \<Rightarrow> ('h, 'c) udev \<Rightarrow> ('h, 'c) udev" where
  "usbd_int_suspend S u =
     (let B = bus S;
          (v, u) = hw_get (rd32 B (DSTAT (regs u))) u;
          suspend = (ucast (v AND DSTAT_SPST) :: 8 word);
          is_configured = (cur_status u = USBD_CONFIGURED);
          u = u\<lparr>backup_status := cur_status u, cur_status := USBD_SUSPENDED\<rparr>;
          u = (if low_power (bp u) \<noteq> 0 \<and> suspend \<noteq> 0 \<and> is_configured
               then hw_do (pmu_to_deepsleepmode B (cpu S) PMU_LDO_LOWPOWER (ucast WFI_CMD))
                      (hw_do (set_bits B (PWRCLKCTL (regs u)) (PWRCLKCTL_SUCLK OR PWRCLKCTL_SHCLK)) u)
               else u)
      in hw_do (wr32 B (GINTF (regs u)) GINTF_SP) u)"

section \<open>The handler\<close>

text \<open>One of its branches.\<close>

definition on_bits :: "reg \<Rightarrow> reg \<Rightarrow> (('h, 'c) udev \<Rightarrow> ('h, 'c) udev outcome) \<Rightarrow> ('h, 'c) udev \<Rightarrow> ('h, 'c) udev outcome" where
  "on_bits intr x f u = (if intr AND x \<noteq> 0 then f u else Ret u)"

definition clear_intr :: "'h bus \<Rightarrow> reg \<Rightarrow> ('h, 'c) udev \<Rightarrow> ('h, 'c) udev outcome" where
  "clear_intr B x u = Ret (hw_do (wr32 B (GINTF (regs u)) x) u)"

definition usbd_isr ::
  "'h usb_sys \<Rightarrow> usb_place \<Rightarrow> ('h, 'c) usb_class_core \<Rightarrow> ('h, 'c) udev \<Rightarrow> ('h, 'c) udev outcome" where
  "usbd_isr S L K u =
     (let B = bus S;
          (v, u) = hw_get (rd32 B (GINTF (regs u))) u
      in if v AND GINTF_COPM = HOST_MODE then Ret u
         else (let (v, u) = hw_get (rd32 B (GINTF (regs u))) u;
                   (en, u) = hw_get (rd32 B (GINTEN (regs u))) u;
                   intr = v AND en
               in if intr = 0 then Ret u
                  else bindo (on_bits intr GINTF_OEPIF (usbd_int_epout S L K) u) (\<lambda>u.
                       bindo (on_bits intr GINTF_IEPIF (usbd_int_epin S L K) u) (\<lambda>u.
                       bindo (on_bits intr GINTF_SP (\<lambda>u. Ret (usbd_int_suspend S u)) u) (\<lambda>u.
                       bindo (on_bits intr GINTF_WKUPIF (\<lambda>u. clear_intr B GINTF_WKUPIF (u\<lparr>cur_status := USBD_CONFIGURED\<rparr>)) u) (\<lambda>u.
                       bindo (on_bits intr GINTF_SOF (\<lambda>u. bindo (call (SOF K) u) (clear_intr B GINTF_SOF)) u) (\<lambda>u.
                       bindo (on_bits intr GINTF_RXFNEIF (usbd_int_rxfifo S) u) (\<lambda>u.
                       bindo (on_bits intr GINTF_RST (usbd_int_reset S L) u) (\<lambda>u.
                       bindo (on_bits intr GINTF_ENUMFIF (\<lambda>u. Ret (usbd_int_enumfinish S u)) u) (\<lambda>u.
                       bindo (on_bits intr GINTF_ISOINCIF
                         (\<lambda>u. bindo (call (incomplete_isoc_in K) u) (clear_intr B GINTF_ISOINCIF)) u) (\<lambda>u.
                       bindo (on_bits intr GINTF_ISOONCIF
                         (\<lambda>u. bindo (call (incomplete_isoc_out K) u) (clear_intr B GINTF_ISOONCIF)) u) (\<lambda>u.
                       if VBUS_SENSING_ENABLED S
                       then bindo (on_bits intr GINTF_SESIF (clear_intr B GINTF_SESIF) u) (\<lambda>u.
                            on_bits intr GINTF_OTGIF (\<lambda>u. let (_, u) = hw_get (rd32 B (GOTGINTF (regs u))) u
                                                         in clear_intr B GINTF_OTGIF u) u)
                       else Ret u))))))))))))"

end
