(* ===== verification/UsbdSpec.thy ===== *)
theory UsbdSpec
  imports UsbdCore N200Spec
begin

text \<open>
  The USB device as the standard describes it: the visible states (Default, Address, Configured) and how
  the standard requests change them; and what the handling of a setup packet needs of the hardware
  and of the class driver to follow it.
\<close>

section \<open>The standard's device\<close>

datatype ch9_state = Default | Address "8 word" | Configured "8 word" "8 word"

definition set_address_to :: "usb_req \<Rightarrow> 8 word" where
  "set_address_to r = ucast (wValue r) AND 0x7F"

text \<open>Set_Address outside the state Configured, and Set_Configuration outside Default for a configuration that the
  device has, each as the standard encodes it: from the host, to the device (\<open>bmRequestType\<close> 0). Every other
  request, one that the standard has refused too, leaves the state; where the standard leaves the effect of a
  request open (a Set_Address with an index or a length, or in the state Configured), so does it here.\<close>

fun ch9_next :: "8 word \<Rightarrow> usb_req \<Rightarrow> ch9_state \<Rightarrow> ch9_state" where
  "ch9_next cmax r s =
     (if bmRequestType r = 0 \<and> bRequest r = 5 \<and> wIndex r = 0 \<and> wLength r = 0
      then (case s of Configured a c \<Rightarrow> s
            | _ \<Rightarrow> if set_address_to r = 0 then Default else Address (set_address_to r))
      else if bmRequestType r = 0 \<and> bRequest r = 9 \<and> ucast (wValue r) \<le> cmax
      then (case s of Default \<Rightarrow> Default
            | Address a \<Rightarrow> if ucast (wValue r) = (0 :: 8 word) then Address a else Configured a (ucast (wValue r))
            | Configured a c \<Rightarrow> if ucast (wValue r) = (0 :: 8 word) then Address a else Configured a (ucast (wValue r)))
      else s)"

text \<open>What the driver does with a standard request: it does not look at the direction and the recipient.\<close>

definition is_standard :: "usb_req \<Rightarrow> bool" where
  "is_standard r \<longleftrightarrow> bmRequestType r AND 0x60 = 0"

fun driver_next :: "8 word \<Rightarrow> usb_req \<Rightarrow> ch9_state \<Rightarrow> ch9_state" where
  "driver_next cmax r s =
     (if is_standard r \<and> bRequest r = 5 \<and> wIndex r = 0 \<and> wLength r = 0
      then (case s of Configured a c \<Rightarrow> s
            | _ \<Rightarrow> if set_address_to r = 0 then Default else Address (set_address_to r))
      else if is_standard r \<and> bRequest r = 9 \<and> ucast (wValue r) \<le> cmax
      then (case s of Default \<Rightarrow> Default
            | Address a \<Rightarrow> if ucast (wValue r) = (0 :: 8 word) then Address a else Configured a (ucast (wValue r))
            | Configured a c \<Rightarrow> if ucast (wValue r) = (0 :: 8 word) then Address a else Configured a (ucast (wValue r)))
      else s)"

section \<open>The hardware\<close>

text \<open>The address register keeps what is written, the variable with the configuration number too, and no
  other access of the driver changes them.\<close>

locale usb_device_hw =
  fixes S :: "'h usb_sys" and L :: usb_place and dcfg :: "'h \<Rightarrow> reg" and cfg :: "'h \<Rightarrow> 8 word"
  assumes rd_dcfg: "fst (rd32 (bus S) 0x50000800 h) = dcfg h"
    and wr_dcfg: "dcfg (wr32 (bus S) 0x50000800 v h) = v"
    and rd_cfg: "fst (rd8 (bus S) (config_at L) h) = cfg h"
    and wr_cfg: "cfg (wr8 (bus S) (config_at L) w h) = w"
    and rd32_keeps: "dcfg (snd (rd32 (bus S) x h)) = dcfg h" "cfg (snd (rd32 (bus S) x h)) = cfg h"
    and rd8_keeps: "dcfg (snd (rd8 (bus S) x h)) = dcfg h" "cfg (snd (rd8 (bus S) x h)) = cfg h"
    and wr32_dcfg: "0x50000000 \<le> x \<Longrightarrow> x \<noteq> 0x50000800 \<Longrightarrow> dcfg (wr32 (bus S) x v h) = dcfg h"
    and wr32_cfg: "0x50000000 \<le> x \<Longrightarrow> cfg (wr32 (bus S) x v h) = cfg h"
    and wr8_dcfg: "a \<in> {config_at L, status_at L} \<Longrightarrow> dcfg (wr8 (bus S) a w h) = dcfg h"
    and wr8_cfg: "cfg (wr8 (bus S) (status_at L) w h) = cfg h"

text \<open>The state that the host sees, and what the driver relies on: the pointers to the registers of the four
  endpoints, their numbers, and endpoint 0 for control transfers.\<close>

definition fs_basic :: "usb_core_basic \<Rightarrow> bool" where
  "fs_basic b \<longleftrightarrow> base_reg b = 0x50000000 \<and> num_ep b = 4 \<and> num_pipe b = 8 \<and> transfer_mode b = 0"

definition ready :: "('h, 'c) udev \<Rightarrow> bool" where
  "ready u \<longleftrightarrow> fs_basic (bp u) \<and> regs u = assign_regs (bp u) \<and> (\<forall>d n. ep_num (transc d n u) < 4) \<and>
     (\<forall>d. ep_num (transc d 0 u) = 0 \<and> ep_type (transc d 0 u) = 0 \<and> max_len (transc d 0 u) \<noteq> 0)"

definition seen :: "('h \<Rightarrow> reg) \<Rightarrow> ('h \<Rightarrow> 8 word) \<Rightarrow> ('h, 'c) udev \<Rightarrow> 8 word \<times> reg \<times> 8 word" where
  "seen dcfg cfg u = (cur_status u, GET_BITS (dcfg (hw u)) 4 10, cfg (hw u))"

fun is_state :: "8 word \<times> reg \<times> 8 word \<Rightarrow> ch9_state \<Rightarrow> bool" where
  "is_state (st, a, c) Default \<longleftrightarrow> st = 1 \<and> a = 0"
| "is_state (st, a, c) (Address a') \<longleftrightarrow> st = 2 \<and> a = ucast a' \<and> a' \<noteq> 0"
| "is_state (st, a, c) (Configured a' c') \<longleftrightarrow> st = 3 \<and> a = ucast a' \<and> a' \<noteq> 0 \<and> c = c' \<and> c' \<noteq> 0"

text \<open>An operation that returns and leaves the visible state.\<close>

definition quiet :: "('h \<Rightarrow> reg) \<Rightarrow> ('h \<Rightarrow> 8 word) \<Rightarrow> (('h, 'c) udev \<Rightarrow> ('h, 'c) udev outcome) \<Rightarrow> bool" where
  "quiet dcfg cfg f \<longleftrightarrow> (\<forall>u. ready u \<longrightarrow> (\<exists>u'. f u = Ret u' \<and> ready u' \<and> seen dcfg cfg u' = seen dcfg cfg u))"

definition quiet_handler :: "('h \<Rightarrow> reg) \<Rightarrow> ('h \<Rightarrow> 8 word) \<Rightarrow> (('h, 'c) udev \<Rightarrow> (8 word \<times> ('h, 'c) udev) outcome) \<Rightarrow> bool" where
  "quiet_handler dcfg cfg f \<longleftrightarrow>
     (\<forall>u. ready u \<longrightarrow> (\<exists>x u'. f u = Ret (x, u') \<and> ready u' \<and> seen dcfg cfg u' = seen dcfg cfg u))"

definition class_ok :: "('h \<Rightarrow> reg) \<Rightarrow> ('h \<Rightarrow> 8 word) \<Rightarrow> ('h, 'c) usb_class_core \<Rightarrow> bool" where
  "class_ok dcfg cfg K \<longleftrightarrow> (\<forall>c. quiet_handler dcfg cfg (\<lambda>u. init_proc K u c)) \<and>
     (\<forall>c. quiet_handler dcfg cfg (\<lambda>u. deinit_proc K u c)) \<and> (\<forall>r. quiet_handler dcfg cfg (\<lambda>u. req_proc K u r)) \<and>
     (\<forall>f r. set_intf K = Some f \<longrightarrow> quiet_handler dcfg cfg (\<lambda>u. f u r))"

text \<open>A request that the handlers can take: a standard one that the table has, for an endpoint that the arrays
  have; and which they take as the standard does: a Set_Address and a Set_Configuration that are for the
  device.\<close>

definition addressed :: "usb_req \<Rightarrow> bool" where
  "addressed r \<longleftrightarrow> (is_standard r \<longrightarrow> bRequest r \<le> 12) \<and> BYTE_LOW (wIndex r) AND 0x7F < 15 \<and>
     (is_standard r \<and> bRequest r \<in> {5, 9} \<longrightarrow> bmRequestType r = 0)"

lemma driver_next_standard: "addressed r \<Longrightarrow> driver_next cmax r s = ch9_next cmax r s"
  by (auto simp: addressed_def is_standard_def)

text \<open>Setup packets, one after the other.\<close>

fun setups :: "'h usb_sys \<Rightarrow> usb_place \<Rightarrow> ('h, 'c) usb_class_core \<Rightarrow> usb_req list \<Rightarrow> ('h, 'c) udev \<Rightarrow> ('h, 'c) udev outcome" where
  "setups S L K [] u = Ret u"
| "setups S L K (r # rs) u = bindo (usbd_setup_transc S L K (u\<lparr>req := r\<rparr>)) (setups S L K rs)"

section \<open>Selectors\<close>

lemma hw_do_simps [simp]:
  "hw (hw_do f u) = f (hw u)" "regs (hw_do f u) = regs u" "bp (hw_do f u) = bp u" "cur_status (hw_do f u) = cur_status u"
  "dev_addr (hw_do f u) = dev_addr u" "transc_in (hw_do f u) = transc_in u" "transc_out (hw_do f u) = transc_out u"
  "ctl_state (hw_do f u) = ctl_state u" "ctl_zlp (hw_do f u) = ctl_zlp u" "desc (hw_do f u) = desc u"
  "power_mode (hw_do f u) = power_mode u" "dev_remote_wakeup (hw_do f u) = dev_remote_wakeup u" "req (hw_do f u) = req u"
  by (simp_all add: hw_do_def)

lemma hw_get_simps:
  "hw_get f u = (fst (f (hw u)), hw_do (snd \<circ> f) u)"
  by (simp add: hw_get_def hw_do_def split_beta Let_def)

lemma upd_transc_simps [simp]:
  "hw (upd_transc d n f u) = hw u" "regs (upd_transc d n f u) = regs u" "bp (upd_transc d n f u) = bp u"
  "cur_status (upd_transc d n f u) = cur_status u" "ctl_state (upd_transc d n f u) = ctl_state u"
  "ctl_zlp (upd_transc d n f u) = ctl_zlp u" "req (upd_transc d n f u) = req u" "desc (upd_transc d n f u) = desc u"
  "dev_addr (upd_transc d n f u) = dev_addr u"
  "transc_in (upd_transc True n f u) = (transc_in u)(n := f (transc_in u n))"
  "transc_out (upd_transc True n f u) = transc_out u"
  "transc_in (upd_transc False n f u) = transc_in u"
  "transc_out (upd_transc False n f u) = (transc_out u)(n := f (transc_out u n))"
  by (simp_all add: upd_transc_def)

lemma transc_hw_do [simp]: "transc d n (hw_do f u) = transc d n u"
  by (simp add: transc_def)

lemma transc_upd: "transc d n (upd_transc e m f u) = (if e = d \<and> m = n then f (transc d n u) else transc d n u)"
  by (simp add: transc_def upd_transc_def)

lemma ready_hw_do [simp]: "ready (hw_do f u) \<longleftrightarrow> ready u"
  by (simp add: ready_def)

lemma ready_upd:
  "ready u \<Longrightarrow> ep_num (f (transc d n u)) = ep_num (transc d n u) \<Longrightarrow> max_len (f (transc d n u)) = max_len (transc d n u) \<Longrightarrow>
   ep_type (f (transc d n u)) = ep_type (transc d n u) \<Longrightarrow> ready (upd_transc d n f u)"
  unfolding ready_def by (auto simp: transc_upd)

lemma seen_upd [simp]: "seen dcfg cfg (upd_transc d n f u) = seen dcfg cfg u"
  by (simp add: seen_def)

lemma ready_fields [simp]:
  "ready (u\<lparr>dev_remote_wakeup := w\<rparr>) = ready u" "ready (u\<lparr>dev_addr := a\<rparr>) = ready u" "ready (u\<lparr>cur_status := s\<rparr>) = ready u"
  "ready (u\<lparr>ctl_state := c\<rparr>) = ready u" "ready (u\<lparr>ctl_zlp := z\<rparr>) = ready u" "ready (u\<lparr>req := r\<rparr>) = ready u"
  by (simp_all add: ready_def transc_def)

lemma seen_fields [simp]:
  "seen dcfg cfg (u\<lparr>dev_remote_wakeup := w\<rparr>) = seen dcfg cfg u" "seen dcfg cfg (u\<lparr>dev_addr := a\<rparr>) = seen dcfg cfg u"
  "seen dcfg cfg (u\<lparr>ctl_state := c\<rparr>) = seen dcfg cfg u" "seen dcfg cfg (u\<lparr>ctl_zlp := z\<rparr>) = seen dcfg cfg u"
  "seen dcfg cfg (u\<lparr>req := r\<rparr>) = seen dcfg cfg u"
  by (simp_all add: seen_def)

lemma class_data_simps [simp]:
  "class_data (hw_do f u) = class_data u" "class_data (upd_transc d n g u) = class_data u" "class_data (u\<lparr>hw := h\<rparr>) = class_data u"
  by (simp_all add: hw_do_def upd_transc_def)

lemma ready_class_data [simp]: "ready (u\<lparr>class_data := p\<rparr>) = ready u" for u :: "('h, 'c) udev"
  unfolding ready_def transc_def by simp

text \<open>The registers of the endpoints.\<close>

definition endpoint_regs :: "32 word set" where
  "endpoint_regs = {0x50000900, 0x50000920, 0x50000940, 0x50000960, 0x50000B00, 0x50000B20, 0x50000B40, 0x50000B60}"

lemma ready_pointers:
  assumes "ready u" and "n < 4"
  obtains p q where "pointer 6 (er_in (regs u)) n = Ret p" "pointer 6 (er_out (regs u)) n = Ret q"
    "p \<in> endpoint_regs" "q \<in> endpoint_regs"
proof -
  have n: "n = 0 \<or> n = 1 \<or> n = 2 \<or> n = 3" using assms(2) by auto
  have "regs u = assign_regs (bp u)" "base_reg (bp u) = 0x50000000" "num_ep (bp u) = 4"
    using assms(1) by (auto simp: ready_def fs_basic_def)
  then have "pointer 6 (er_in (regs u)) n = Ret (0x50000900 + of_nat n * 0x20)"
    "pointer 6 (er_out (regs u)) n = Ret (0x50000B00 + of_nat n * 0x20)"
    "0x50000900 + of_nat n * 0x20 \<in> endpoint_regs" "0x50000B00 + of_nat n * 0x20 \<in> endpoint_regs"
    using n by (auto simp: pointer_def assign_regs_def endpoint_regs_def)
  then show ?thesis by (rule that)
qed

lemma endpoint_reg:
  "p \<in> endpoint_regs \<Longrightarrow> c \<in> {0, 8, 16, 20, 24} \<Longrightarrow> 0x50000000 \<le> p + c \<and> p + c \<noteq> 0x50000800"
  by (auto simp: endpoint_regs_def)

lemma ready_regs [simp]:
  "ready u \<Longrightarrow> gr (regs u) = 0x50000000" "ready u \<Longrightarrow> dr (regs u) = 0x50000800"
  "ready u \<Longrightarrow> transfer_mode (bp u) = 0"
  by (simp_all add: ready_def assign_regs_def fs_basic_def)

lemma ready_ep: "ready u \<Longrightarrow> unat (ep_num (transc d n u)) < 4"
  by (auto simp: ready_def word_less_nat_alt)

text \<open>Steps of the hardware that leave the address and the configuration.\<close>

definition keeps :: "('h \<Rightarrow> reg) \<Rightarrow> ('h \<Rightarrow> 8 word) \<Rightarrow> ('h \<Rightarrow> 'h) \<Rightarrow> bool" where
  "keeps dcfg cfg f \<longleftrightarrow> (\<forall>h. dcfg (f h) = dcfg h \<and> cfg (f h) = cfg h)"

lemma seen_hw_do: "keeps dcfg cfg f \<Longrightarrow> seen dcfg cfg (hw_do f u) = seen dcfg cfg u"
  by (simp add: keeps_def seen_def)

lemma quietD: "quiet dcfg cfg f \<Longrightarrow> ready u \<Longrightarrow> \<exists>u'. f u = Ret u' \<and> ready u' \<and> seen dcfg cfg u' = seen dcfg cfg u"
  by (simp add: quiet_def)

lemma quiet_step:
  assumes "quiet dcfg cfg f" and "\<And>u. ready u \<Longrightarrow> ready (g u) \<and> seen dcfg cfg (g u) = seen dcfg cfg u \<and> F u = f (g u)"
  shows "quiet dcfg cfg F"
  using assms unfolding quiet_def by metis

lemma quiet_bindo:
  assumes "quiet dcfg cfg f" and "quiet dcfg cfg g"
  shows "quiet dcfg cfg (\<lambda>u. bindo (f u) g)"
  using assms unfolding quiet_def by (metis bindo.simps(1))

lemma quiet_Ret: "(\<And>u. ready u \<Longrightarrow> ready (g u) \<and> seen dcfg cfg (g u) = seen dcfg cfg u) \<Longrightarrow> quiet dcfg cfg (\<lambda>u. Ret (g u))"
  by (simp add: quiet_def)

lemma handler_Ret:
  "(\<And>u. ready u \<Longrightarrow> ready (g u) \<and> seen dcfg cfg (g u) = seen dcfg cfg u) \<Longrightarrow> quiet_handler dcfg cfg (\<lambda>u. Ret (x u, g u))"
  by (simp add: quiet_handler_def)

lemma handler_quiet:
  assumes "quiet dcfg cfg f" and "quiet_handler dcfg cfg g"
  shows "quiet_handler dcfg cfg (\<lambda>u. bindo (f u) g)"
  using assms unfolding quiet_def quiet_handler_def by (metis bindo.simps(1))

lemma handler_bindo:
  assumes "quiet_handler dcfg cfg f" and "\<And>x. quiet_handler dcfg cfg (g x)"
  shows "quiet_handler dcfg cfg (\<lambda>u. bindo (f u) (\<lambda>(x, u). g x u))"
  using assms unfolding quiet_handler_def by (metis (no_types, lifting) bindo.simps(1) case_prod_conv)

lemma quiet_handler_bindo:
  assumes "quiet_handler dcfg cfg f" and "\<And>x. quiet dcfg cfg (g x)"
  shows "quiet dcfg cfg (\<lambda>u. bindo (f u) (\<lambda>(x, u). g x u))"
  using assms unfolding quiet_def quiet_handler_def by (metis (no_types, lifting) bindo.simps(1) case_prod_conv)

lemma handler_if:
  "quiet_handler dcfg cfg f \<Longrightarrow> quiet_handler dcfg cfg g \<Longrightarrow> quiet_handler dcfg cfg (\<lambda>u. if c u then f u else g u)"
  by (auto simp: quiet_handler_def)

lemma quiet_if: "quiet dcfg cfg f \<Longrightarrow> quiet dcfg cfg g \<Longrightarrow> quiet dcfg cfg (\<lambda>u. if c u then f u else g u)"
  by (auto simp: quiet_def)

context usb_device_hw
begin

lemma keeps_access:
  "keeps dcfg cfg (snd \<circ> rd32 (bus S) x)" "keeps dcfg cfg (snd \<circ> rd8 (bus S) x)"
  "0x50000000 \<le> x \<Longrightarrow> x \<noteq> 0x50000800 \<Longrightarrow> keeps dcfg cfg (wr32 (bus S) x v)"
  "0x50000000 \<le> x \<Longrightarrow> x \<noteq> 0x50000800 \<Longrightarrow> keeps dcfg cfg (set_bits (bus S) x v)"
  "0x50000000 \<le> x \<Longrightarrow> x \<noteq> 0x50000800 \<Longrightarrow> keeps dcfg cfg (clear_bits (bus S) x v)"
  "keeps dcfg cfg (wr8 (bus S) (status_at L) w)"
  by (simp_all add: keeps_def rd32_keeps rd8_keeps wr32_dcfg wr32_cfg wr8_dcfg wr8_cfg set_bits_def clear_bits_def
    modify_def split_beta)

lemma keeps_endpoint:
  assumes "p \<in> endpoint_regs" and "c \<in> {0, 8, 16, 20, 24}"
  shows "keeps dcfg cfg (wr32 (bus S) (p + c) v)" "keeps dcfg cfg (set_bits (bus S) (p + c) v)"
    "keeps dcfg cfg (clear_bits (bus S) (p + c) v)"
  using endpoint_reg [OF assms] by (auto intro: keeps_access)

lemma seen_endpoint:
  assumes "p \<in> endpoint_regs"
  shows "seen dcfg cfg (hw_do (wr32 (bus S) p v) u) = seen dcfg cfg u" "seen dcfg cfg (hw_do (set_bits (bus S) p v) u) = seen dcfg cfg u"
    "seen dcfg cfg (hw_do (clear_bits (bus S) p v) u) = seen dcfg cfg u"
    "seen dcfg cfg (hw_do (wr32 (bus S) (p + 16) v) u) = seen dcfg cfg u"
    "seen dcfg cfg (hw_do (wr32 (bus S) (p + 20) v) u) = seen dcfg cfg u"
    "seen dcfg cfg (hw_do (wr32 (bus S) (p + 8) v) u) = seen dcfg cfg u"
  using keeps_endpoint [OF assms, of 0] keeps_endpoint [OF assms, of 16] keeps_endpoint [OF assms, of 20]
    keeps_endpoint [OF assms, of 8]
  by (simp_all add: seen_hw_do)

lemmas seen_access = keeps_access [THEN seen_hw_do] seen_endpoint

lemma quiet_transc_stall: "quiet dcfg cfg (usb_transc_stall S d n)"
  unfolding quiet_def
proof (intro allI impI)
  fix u :: "('h, 'c) udev"
  assume u: "ready u"
  obtain p q where "pointer 6 (er_in (regs u)) (unat (ep_num (transc d n u))) = Ret p"
    "pointer 6 (er_out (regs u)) (unat (ep_num (transc d n u))) = Ret q" "p \<in> endpoint_regs" "q \<in> endpoint_regs"
    using ready_pointers [OF u ready_ep [OF u]] .
  then show "\<exists>u'. usb_transc_stall S d n u = Ret u' \<and> ready u' \<and> seen dcfg cfg u' = seen dcfg cfg u"
    using u by (simp add: usb_transc_stall_def Let_def hw_get_simps seen_access)
qed

lemma quiet_transc_clrstall: "quiet dcfg cfg (usb_transc_clrstall S d n)"
  unfolding quiet_def
proof (intro allI impI)
  fix u :: "('h, 'c) udev"
  assume u: "ready u"
  obtain p q where "pointer 6 (er_in (regs u)) (unat (ep_num (transc d n u))) = Ret p"
    "pointer 6 (er_out (regs u)) (unat (ep_num (transc d n u))) = Ret q" "p \<in> endpoint_regs" "q \<in> endpoint_regs"
    using ready_pointers [OF u ready_ep [OF u]] .
  then show "\<exists>u'. usb_transc_clrstall S d n u = Ret u' \<and> ready u' \<and> seen dcfg cfg u' = seen dcfg cfg u"
    using u by (simp add: usb_transc_clrstall_def Let_def hw_get_simps seen_access)
qed

lemma seen_FE: "ready u \<Longrightarrow> seen dcfg cfg (hw_do (set_bits (bus S) 0x50000834 v) u) = seen dcfg cfg u"
  by (rule seen_hw_do) (rule keeps_access; simp)

lemma quiet_inxfer: "quiet dcfg cfg (usb_transc_inxfer S True 0)"
  unfolding quiet_def
proof (intro allI impI)
  fix u :: "('h, 'c) udev"
  assume u: "ready u"
  have t: "ep_num (transc True 0 u) = 0" "ep_type (transc True 0 u) = 0" using u by (simp_all add: ready_def)
  obtain p q where p: "pointer 6 (er_in (regs u)) 0 = Ret p" "p \<in> endpoint_regs"
    using ready_pointers [OF u, of 0] by auto
  show "\<exists>u'. usb_transc_inxfer S True 0 u = Ret u' \<and> ready u' \<and> seen dcfg cfg u' = seen dcfg cfg u"
    using u p t by (auto simp: usb_transc_inxfer_def in_length_def Let_def hw_get_simps seen_access seen_FE ready_upd split_beta)
qed

lemma quiet_outxfer: "quiet dcfg cfg (usb_transc_outxfer S False 0)"
  unfolding quiet_def
proof (intro allI impI)
  fix u :: "('h, 'c) udev"
  assume u: "ready u"
  have t: "ep_num (transc False 0 u) = 0" "ep_type (transc False 0 u) = 0" using u by (simp_all add: ready_def)
  obtain p q where p: "pointer 6 (er_out (regs u)) 0 = Ret p" "p \<in> endpoint_regs"
    using ready_pointers [OF u, of 0] by auto
  show "\<exists>u'. usb_transc_outxfer S False 0 u = Ret u' \<and> ready u' \<and> seen dcfg cfg u' = seen dcfg cfg u"
    using u p t by (auto simp: usb_transc_outxfer_def out_length_def Let_def hw_get_simps seen_access split_beta)
qed

lemma quiet_startout: "quiet dcfg cfg (usb_ctlep_startout S L)"
  unfolding quiet_def
proof (intro allI impI)
  fix u :: "('h, 'c) udev"
  assume u: "ready u"
  obtain p where p: "pointer 6 (er_out (regs u)) 0 = Ret p" "p \<in> endpoint_regs"
    using ready_pointers [OF u, of 0] by auto
  show "\<exists>u'. usb_ctlep_startout S L u = Ret u' \<and> ready u' \<and> seen dcfg cfg u' = seen dcfg cfg u"
    using u p by (simp add: usb_ctlep_startout_def Let_def seen_access)
qed

text \<open>The operations on endpoint 0 that the stages of a control transfer are made of.\<close>

lemma quiet_send: "quiet dcfg cfg (usbd_ep_send S 0 p l)"
  by (rule quiet_step [OF quiet_inxfer, where g = "upd_transc True 0 (\<lambda>t. t\<lparr>xfer_buf := p, xfer_len := l, xfer_count := 0\<rparr>)"])
    (simp add: ready_upd usbd_ep_send_def Let_def)

lemma quiet_recev: "quiet dcfg cfg (usbd_ep_recev S 0 p l)"
  by (rule quiet_step [OF quiet_outxfer, where g = "upd_transc False 0 (\<lambda>t. t\<lparr>xfer_buf := p, xfer_len := l, xfer_count := 0\<rparr>)"])
    (simp add: ready_upd usbd_ep_recev_def Let_def)

lemma with_transc_below: "ep AND 0x7F < 15 \<Longrightarrow> \<exists>d n. \<forall>k. with_transc ep k = k d n"
proof -
  assume ep: "ep AND 0x7F < 15"
  have "ep AND 0x7F = ep" if "\<not> EP_DIR ep"
  proof (rule bit_word_eqI)
    fix i assume "i < LENGTH(8)"
    have "\<not> bit ep 7"
    proof
      assume "bit ep 7"
      then have "bit (drop_bit 7 ep) 0" by (simp add: bit_drop_bit_eq)
      with that show False by simp
    qed
    then have "bit ep i \<Longrightarrow> i < 7" using \<open>i < LENGTH(8)\<close> by (cases "i = 7") auto
    moreover have "bit (0x7F :: 8 word) i \<longleftrightarrow> i < 7"
    proof -
      have "(0x7F :: 8 word) = mask 7" by (simp add: mask_eq_exp_minus_1)
      then show ?thesis by (simp only: bit_mask_iff) auto
    qed
    ultimately show "bit (ep AND 0x7F) i = bit ep i" by (auto simp: bit_and_iff)
  qed
  then show ?thesis using ep by (cases "EP_DIR ep") (auto simp: with_transc_def Let_def word_less_nat_alt)
qed

lemma quiet_ep_stall:
  assumes "ep AND 0x7F < 15"
  shows "quiet dcfg cfg (usbd_ep_stall S ep :: ('h, 'c) udev \<Rightarrow> _)"
proof -
  obtain d n where k: "\<And>k. with_transc ep k = (k d n :: ('h, 'c) udev outcome)" using with_transc_below [OF assms] by blast
  show ?thesis
    by (rule quiet_step [OF quiet_transc_stall [of d n], where g = "upd_transc d n (\<lambda>t. t\<lparr>ep_stall := 1\<rparr>)"])
      (simp add: ready_upd usbd_ep_stall_def k)
qed

lemma quiet_ep_stall_clear:
  assumes "ep AND 0x7F < 15"
  shows "quiet dcfg cfg (usbd_ep_stall_clear S ep :: ('h, 'c) udev \<Rightarrow> _)"
proof -
  obtain d n where k: "\<And>k. with_transc ep k = (k d n :: ('h, 'c) udev outcome)" using with_transc_below [OF assms] by blast
  show ?thesis
    by (rule quiet_step [OF quiet_transc_clrstall [of d n], where g = "upd_transc d n (\<lambda>t. t\<lparr>ep_stall := 0\<rparr>)"])
      (simp add: ready_upd usbd_ep_stall_clear_def k)
qed

lemma quiet_enum_error: "quiet dcfg cfg (usbd_enum_error S L)"
  unfolding usbd_enum_error_def
  by (intro quiet_bindo quiet_ep_stall quiet_startout) simp_all

lemma quiet_status: "quiet dcfg cfg (usbd_ctl_status_send S L)" "quiet dcfg cfg (usbd_ctl_status_recev S L)"
proof -
  have "quiet dcfg cfg (\<lambda>u. usbd_ep_send S 0 0 0 (u\<lparr>ctl_state := USB_CTL_STATUS_IN\<rparr>))"
    by (rule quiet_step [OF quiet_send, where g = "\<lambda>u. u\<lparr>ctl_state := USB_CTL_STATUS_IN\<rparr>"]) simp
  moreover have "quiet dcfg cfg (\<lambda>u. usbd_ep_recev S 0 0 0 (u\<lparr>ctl_state := USB_CTL_STATUS_OUT\<rparr>))"
    by (rule quiet_step [OF quiet_recev, where g = "\<lambda>u. u\<lparr>ctl_state := USB_CTL_STATUS_OUT\<rparr>"]) simp
  ultimately show "quiet dcfg cfg (usbd_ctl_status_send S L)" "quiet dcfg cfg (usbd_ctl_status_recev S L)"
    unfolding usbd_ctl_status_send_def usbd_ctl_status_recev_def by (auto intro!: quiet_bindo quiet_startout)
qed

lemma quiet_ctl: "quiet dcfg cfg (usbd_ctl_send S)" "quiet dcfg cfg (usbd_ctl_recev S)"
proof -
  have f: "quiet dcfg cfg (\<lambda>u. Ret (u\<lparr>ctl_state := g u\<rparr>))" for g :: "('h, 'c) udev \<Rightarrow> 8 word" by (simp add: quiet_def)
  have "quiet dcfg cfg (\<lambda>u. usbd_ep_send S 0 (xfer_buf (transc_in u 0)) (remain_len (transc_in u 0)) u)"
    "quiet dcfg cfg (\<lambda>u. usbd_ep_recev S 0 (xfer_buf (transc_out u 0)) (remain_len (transc_out u 0)) u)"
    using quiet_send quiet_recev unfolding quiet_def by blast+
  then show "quiet dcfg cfg (usbd_ctl_send S)" "quiet dcfg cfg (usbd_ctl_recev S)"
    unfolding usbd_ctl_send_def usbd_ctl_recev_def Let_def by (auto intro!: quiet_bindo f)
qed

text \<open>The requests that leave the visible state.\<close>

lemma quiet_limit: "quiet_handler dcfg cfg (limit_answer r)"
  unfolding quiet_handler_def
proof (intro allI impI)
  fix u :: "('h, 'c) udev"
  assume u: "ready u"
  have "max_len (transc True 0 u) \<noteq> 0" using u unfolding ready_def by blast
  then have m: "max_len (transc_in u 0) \<noteq> 0" by (simp add: transc_def)
  define z where "z = u\<lparr>ctl_zlp := 1\<rparr>"
  define l where "l = upd_transc True 0 (\<lambda>t. t\<lparr>remain_len := ucast (wLength r)\<rparr>) u"
  have "limit_answer r u \<in> {Ret (REQ_SUPP, u), Ret (REQ_SUPP, z), Ret (REQ_SUPP, l)}"
    using m by (simp add: limit_answer_def Let_def z_def l_def)
  moreover have "ready z \<and> seen dcfg cfg z = seen dcfg cfg u" "ready l \<and> seen dcfg cfg l = seen dcfg cfg u"
    using u by (simp_all add: z_def l_def ready_upd)
  ultimately show "\<exists>x u'. limit_answer r u = Ret (x, u') \<and> ready u' \<and> seen dcfg cfg u' = seen dcfg cfg u"
    using u by blast
qed

lemma quiet_get:
  "ready (snd (hw_get f u)) = ready u" "keeps dcfg cfg (snd \<circ> f) \<Longrightarrow> seen dcfg cfg (snd (hw_get f u)) = seen dcfg cfg u"
  by (simp_all add: hw_get_simps seen_hw_do)

lemma ready_answer [simp]: "ready u \<Longrightarrow> ready (answer_from p len u)" "seen dcfg cfg (answer_from p len u) = seen dcfg cfg u"
  by (simp_all add: answer_from_def ready_upd)

lemma quiet_descriptors:
  assumes "ready u"
  shows "ready (usb_dev_desc_get S u) \<and> seen dcfg cfg (usb_dev_desc_get S u) = seen dcfg cfg u"
    "ready (usb_config_desc_get S u) \<and> seen dcfg cfg (usb_config_desc_get S u) = seen dcfg cfg u"
    "ready (usb_bos_desc_get S u) \<and> seen dcfg cfg (usb_bos_desc_get S u) = seen dcfg cfg u"
    "ready (usb_str_desc_get S i u) \<and> seen dcfg cfg (usb_str_desc_get S i u) = seen dcfg cfg u"
  using assms
  by (simp_all add: usb_dev_desc_get_def usb_config_desc_get_def usb_bos_desc_get_def usb_str_desc_get_def Let_def
    split_beta hw_get_simps seen_access string_at_def)

lemma quiet_getdescriptor:
  assumes "class_ok dcfg cfg K"
  shows "quiet_handler dcfg cfg (usb_std_getdescriptor S K r)"
proof -
  have "quiet_handler dcfg cfg (\<lambda>u. req_proc K u r)" using assms by (simp add: class_ok_def)
  then show ?thesis
    unfolding usb_std_getdescriptor_def Let_def
    by (intro handler_bindo handler_if handler_Ret quiet_limit) (auto simp: quiet_descriptors ready_upd)
qed

lemma quiet_getstatus:
  assumes "BYTE_LOW (wIndex r) AND 0x7F < 15"
  shows "quiet_handler dcfg cfg (usb_std_getstatus S L r :: ('h, 'c) udev \<Rightarrow> _)"
proof -
  obtain d n where k: "\<And>k. with_transc (BYTE_LOW (wIndex r)) k = (k d n :: (8 word \<times> ('h, 'c) udev) outcome)"
    using with_transc_below [OF assms] by blast
  show ?thesis
    unfolding usb_std_getstatus_def Let_def k
    by (intro handler_bindo handler_if handler_Ret) (auto simp: hw_get_simps seen_access ready_upd split_beta)
qed

lemma quiet_clearfeature:
  assumes "class_ok dcfg cfg K" and "BYTE_LOW (wIndex r) AND 0x7F < 15"
  shows "quiet_handler dcfg cfg (usb_std_clearfeature S K r)"
proof -
  have "quiet_handler dcfg cfg (\<lambda>u. req_proc K u r)" using assms by (simp add: class_ok_def)
  then show ?thesis
    unfolding usb_std_clearfeature_def Let_def
    by (intro handler_quiet handler_if handler_Ret quiet_if quiet_bindo quiet_handler_bindo quiet_Ret
      quiet_ep_stall_clear [OF assms(2)]) auto
qed

lemma quiet_setfeature:
  assumes "BYTE_LOW (wIndex r) AND 0x7F < 15"
  shows "quiet_handler dcfg cfg (usb_std_setfeature S r)"
  unfolding usb_std_setfeature_def Let_def
  by (intro handler_quiet handler_if handler_Ret quiet_if quiet_Ret quiet_ep_stall [OF assms]) auto

lemma quiet_interface:
  assumes "class_ok dcfg cfg K"
  shows "quiet_handler dcfg cfg (usb_std_getinterface S L r)" "quiet_handler dcfg cfg (usb_std_setinterface S K r)"
proof -
  show "quiet_handler dcfg cfg (usb_std_getinterface S L r)"
    unfolding usb_std_getinterface_def by (intro handler_if handler_Ret) (auto simp: ready_upd)
  have "quiet dcfg cfg (\<lambda>u. case set_intf K of None \<Rightarrow> Ret u | Some f \<Rightarrow> bindo (f u r) (\<lambda>(_, u). Ret u))"
  proof (cases "set_intf K")
    case (Some f)
    then have "quiet_handler dcfg cfg (\<lambda>u. f u r)" using assms by (simp add: class_ok_def)
    then show ?thesis unfolding Some option.case by (intro quiet_handler_bindo quiet_Ret) auto
  qed (simp add: quiet_def)
  then show "quiet_handler dcfg cfg (usb_std_setinterface S K r)"
    unfolding usb_std_setinterface_def by (intro handler_if handler_quiet handler_Ret) auto
qed

lemma quiet_getconfiguration: "quiet_handler dcfg cfg (usb_std_getconfiguration S L r)"
  by (auto simp: quiet_handler_def usb_std_getconfiguration_def Let_def hw_get_simps seen_access ready_upd)

text \<open>The two requests that change it.\<close>

lemma address_field: "GET_BITS ((v AND NOT (BITS 4 10)) OR push_bit 4 (ucast (a AND 0x7F))) 4 10 = ucast (a AND 0x7F)"
  for a :: "8 word"
proof (rule bit_word_eqI)
  fix i
  have "(0x7F :: 8 word) = mask 7" by (simp add: mask_eq_exp_minus_1)
  then have "bit (0x7F :: 8 word) i \<longleftrightarrow> i < 7" by (simp only: bit_mask_iff) auto
  then show "bit (GET_BITS ((v AND NOT (BITS 4 10)) OR push_bit 4 (ucast (a AND 0x7F))) 4 10) i = bit (ucast (a AND 0x7F) :: reg) i"
    by (auto simp: bit_GET_BITS bit_and_iff bit_or_iff bit_not_iff bit_push_bit_iff bit_ucast_iff
        simp del: bit_numeral_word_iff)
qed

lemma seen_address:
  assumes "ready u"
  shows "seen dcfg cfg (usbd_addr_set S (a AND 0x7F) u) = (cur_status u, ucast (a AND 0x7F), cfg (hw u))"
proof -
  have "dcfg (hw (usbd_addr_set S (a AND 0x7F) u)) = (dcfg (hw u) AND NOT (BITS 4 10)) OR push_bit 4 (ucast (a AND 0x7F))"
    using assms by (simp add: usbd_addr_set_def usb_devaddr_set_def Let_def set_bits_def clear_bits_def modify_def split_beta
      rd_dcfg wr_dcfg)
  moreover have "cfg (hw (usbd_addr_set S (a AND 0x7F) u)) = cfg (hw u)"
    using assms by (simp add: usbd_addr_set_def usb_devaddr_set_def Let_def set_bits_def clear_bits_def modify_def split_beta
      wr32_cfg rd32_keeps)
  ultimately show ?thesis by (simp only: seen_def address_field) (simp add: usbd_addr_set_def usb_devaddr_set_def Let_def)
qed

lemma set_address_state:
  assumes "ready u" and "is_state (seen dcfg cfg u) s" and "is_standard r" and "bRequest r = 5"
  shows "\<exists>x u'. usb_std_setaddress S r u = Ret (x, u') \<and> ready u' \<and> is_state (seen dcfg cfg u') (driver_next cmax r s)"
proof (cases "wIndex r = 0 \<and> wLength r = 0 \<and> cur_status u \<noteq> 3")
  case True
  let ?a = "set_address_to r"
  define u1 where "u1 = usbd_addr_set S ?a (u\<lparr>dev_addr := ?a\<rparr>)"
  define u' where "u' = u1\<lparr>cur_status := (if ?a \<noteq> 0 then 2 else 1)\<rparr>"
  have "dev_addr u1 = ?a" by (simp add: u1_def usbd_addr_set_def usb_devaddr_set_def Let_def)
  then have "usb_std_setaddress S r u = Ret (REQ_SUPP, u')"
    using True by (simp add: usb_std_setaddress_def Let_def u'_def u1_def set_address_to_def usbd_addr_set_def usb_devaddr_set_def)
  moreover have "ready u'"
    using assms(1) by (simp add: u'_def u1_def usbd_addr_set_def usb_devaddr_set_def Let_def)
  moreover have "seen dcfg cfg u1 = (cur_status u, ucast ?a, cfg (hw u))"
    using seen_address [of "u\<lparr>dev_addr := ?a\<rparr>" "ucast (wValue r)"] assms(1) by (simp add: u1_def set_address_to_def)
  then have "seen dcfg cfg u' = (if ?a \<noteq> 0 then 2 else 1, ucast ?a, cfg (hw u))" by (simp add: u'_def seen_def)
  moreover have "(case s of Configured a c \<Rightarrow> s | _ \<Rightarrow> if ?a = 0 then Default else Address ?a) = (if ?a = 0 then Default else Address ?a)"
    using True assms(2) by (cases s) (auto simp: seen_def)
  ultimately show ?thesis using True assms(3,4) by (auto simp: set_address_to_def)
next
  case False
  then have "driver_next cmax r s = s" using assms by (cases s) (auto simp: seen_def)
  then show ?thesis using False assms(1,2) by (auto simp: usb_std_setaddress_def Let_def)
qed

lemma seen_config: "seen dcfg cfg (hw_do (wr8 (bus S) (config_at L) c) u) = (cur_status u, GET_BITS (dcfg (hw u)) 4 10, c)"
  by (simp add: seen_def wr8_dcfg wr_cfg)

lemma set_configuration_state:
  assumes "ready u" and "is_state (seen dcfg cfg u) s" and "is_standard r" and "bRequest r = 9" and "class_ok dcfg cfg K"
  shows "\<exists>x u'. usb_std_setconfiguration S L K r u = Ret (x, u') \<and> ready u' \<and>
    is_state (seen dcfg cfg u') (driver_next (USBD_CFG_MAX_NUM S) r s)"
proof -
  let ?c = "ucast (wValue r) :: 8 word"
  have seen: "seen dcfg cfg u = (cur_status u, GET_BITS (dcfg (hw u)) 4 10, cfg (hw u))" by (simp add: seen_def)
  obtain x1 u1 where i: "init_proc K u ?c = Ret (x1, u1)" "ready u1" "seen dcfg cfg u1 = seen dcfg cfg u"
    using assms(1,5) unfolding class_ok_def quiet_handler_def by metis
  obtain x2 u2 where d: "deinit_proc K u ?c = Ret (x2, u2)" "ready u2" "seen dcfg cfg u2 = seen dcfg cfg u"
    using assms(1,5) unfolding class_ok_def quiet_handler_def by metis
  define ur where "ur = hw_do (snd \<circ> rd8 (bus S) (config_at L)) u"
  have ur: "ready ur" "seen dcfg cfg ur = seen dcfg cfg u" using assms(1) by (simp_all add: ur_def seen_access)
  obtain x3 u3 where d': "deinit_proc K ur ?c = Ret (x3, u3)" "ready u3" "seen dcfg cfg u3 = seen dcfg cfg u"
    using ur assms(5) unfolding class_ok_def quiet_handler_def by metis
  define u4 where "u4 = hw_do (wr8 (bus S) (config_at L) ?c) u3"
  have u4: "ready u4" "seen dcfg cfg u4 = (cur_status u, GET_BITS (dcfg (hw u)) 4 10, ?c)"
    using d'(2,3) by (simp_all add: u4_def seen_config) (simp add: seen_def)
  obtain x5 u5 where i': "init_proc K u4 ?c = Ret (x5, u5)" "ready u5" "seen dcfg cfg u5 = seen dcfg cfg u4"
    using u4 assms(5) unfolding class_ok_def quiet_handler_def by metis
  have next_state: "driver_next (USBD_CFG_MAX_NUM S) r s =
    (if ?c \<le> USBD_CFG_MAX_NUM S
     then (case s of Default \<Rightarrow> Default | Address a \<Rightarrow> if ?c = 0 then Address a else Configured a ?c
           | Configured a c \<Rightarrow> if ?c = 0 then Address a else Configured a ?c) else s)"
    using assms(3,4) by simp
  have old: "fst (rd8 (bus S) (config_at L) (hw u)) = cfg (hw u)" by (rule rd_cfg)
  consider "\<not> ?c \<le> USBD_CFG_MAX_NUM S \<or> s = Default" | a where "?c \<le> USBD_CFG_MAX_NUM S" "s = Address a"
    | a c where "?c \<le> USBD_CFG_MAX_NUM S" "s = Configured a c" by (cases s) auto
  then show ?thesis
  proof cases
    case 1
    then have "driver_next (USBD_CFG_MAX_NUM S) r s = s" unfolding next_state by auto
    moreover have "usb_std_setconfiguration S L K r u = Ret (REQ_NOTSUPP, u)"
      using 1 assms(2) by (auto simp: usb_std_setconfiguration_def Let_def seen)
    ultimately show ?thesis using assms(1,2) by (auto simp del: driver_next.simps)
  next
    case 2
    then have st: "cur_status u = 2" using assms(2) by (simp add: seen)
    show ?thesis
    proof (cases "?c = 0")
      case True
      then have "usb_std_setconfiguration S L K r u = Ret (REQ_SUPP, u)"
        using 2 st by (simp add: usb_std_setconfiguration_def Let_def)
      then show ?thesis using True 2 assms(1,2) unfolding next_state by simp
    next
      case False
      let ?u = "(hw_do (wr8 (bus S) (config_at L) ?c) u1)\<lparr>cur_status := 3\<rparr>"
      have "usb_std_setconfiguration S L K r u = Ret (REQ_SUPP, ?u)"
        using False 2 st i(1) by (simp add: usb_std_setconfiguration_def Let_def)
      moreover have "seen dcfg cfg ?u = (3, GET_BITS (dcfg (hw u)) 4 10, ?c)"
        using i(3) by (simp add: seen_def wr8_dcfg wr_cfg)
      ultimately show ?thesis using False 2 i(2) assms(2) unfolding next_state by (simp add: seen)
    qed
  next
    case 3
    then have st: "cur_status u = 3" using assms(2) by (simp add: seen)
    consider "?c = 0" | "?c \<noteq> 0" "?c = cfg (hw u)" | "?c \<noteq> 0" "?c \<noteq> cfg (hw u)" by blast
    then show ?thesis
    proof cases
      case zero: 1
      let ?u = "(hw_do (wr8 (bus S) (config_at L) ?c) u2)\<lparr>cur_status := 2\<rparr>"
      have "usb_std_setconfiguration S L K r u = Ret (REQ_SUPP, ?u)"
        using zero 3 st d(1) by (simp add: usb_std_setconfiguration_def Let_def)
      moreover have "seen dcfg cfg ?u = (2, GET_BITS (dcfg (hw u)) 4 10, ?c)"
        using d(3) by (simp add: seen_def wr8_dcfg wr_cfg)
      ultimately show ?thesis using zero 3 d(2) assms(2) unfolding next_state by (simp add: seen)
    next
      case same: 2
      then have "usb_std_setconfiguration S L K r u = Ret (REQ_SUPP, ur)"
        using 3 st old by (simp add: usb_std_setconfiguration_def Let_def hw_get_simps ur_def)
      then show ?thesis using same 3 ur assms(2) unfolding next_state by (simp add: seen)
    next
      case other: 3
      then have "usb_std_setconfiguration S L K r u = Ret (REQ_SUPP, u5)"
        using 3 st old d'(1) i'(1) by (simp add: usb_std_setconfiguration_def Let_def hw_get_simps ur_def u4_def)
      then show ?thesis using other 3 i'(2,3) u4(2) assms(2) unfolding next_state by (simp add: seen)
    qed
  qed
qed

text \<open>Every request returns and changes the visible state as the standard says.\<close>

lemma handlerD:
  assumes "quiet_handler dcfg cfg f" and "ready u" and "is_state (seen dcfg cfg u) s"
  shows "\<exists>x u'. f u = Ret (x, u') \<and> ready u' \<and> is_state (seen dcfg cfg u') s"
  using assms unfolding quiet_handler_def by metis

lemma standard_request_state:
  assumes "ready u" and "is_state (seen dcfg cfg u) s" and "is_standard r" and "addressed r" and "class_ok dcfg cfg K"
  shows "\<exists>x u'. usbd_standard_request S L K r u = Ret (x, u') \<and> ready u' \<and>
    is_state (seen dcfg cfg u') (driver_next (USBD_CFG_MAX_NUM S) r s)"
proof -
  have ep: "BYTE_LOW (wIndex r) AND 0x7F < 15" using assms(4) by (simp add: addressed_def)
  have "bRequest r \<le> 12" using assms(3,4) by (simp add: addressed_def)
  then have "unat (bRequest r) \<le> 12" by (simp add: word_le_nat_alt)
  moreover have "k \<le> 12 \<Longrightarrow> k \<in> {0, 1, 2, 3, 4, 5, 6, 7, 8, 9, 10, 11, 12}" for k :: nat by simp presburger
  ultimately have "unat (bRequest r) \<in> {0, 1, 2, 3, 4, 5, 6, 7, 8, 9, 10, 11, 12}" by blast
  then consider "bRequest r = 5" | "bRequest r = 9"
    | "bRequest r \<in> {0, 1, 2, 3, 4, 6, 7, 8, 10, 11, 12}"
    by (auto simp: word_unat_eq_iff)
  then show ?thesis
  proof cases
    case 1
    then show ?thesis
      using set_address_state [OF assms(1-3) 1, of "USBD_CFG_MAX_NUM S"] by (simp add: usbd_standard_request_def)
  next
    case 2
    then show ?thesis
      using set_configuration_state [OF assms(1-3) 2 assms(5)] by (simp add: usbd_standard_request_def)
  next
    case 3
    have n: "driver_next (USBD_CFG_MAX_NUM S) r s = s" using 3 by auto
    have "quiet_handler dcfg cfg (usb_std_reserved r)" "quiet_handler dcfg cfg (usb_std_setdescriptor r)"
      "quiet_handler dcfg cfg (usb_std_synchframe r)"
      by (simp_all add: quiet_handler_def usb_std_reserved_def usb_std_setdescriptor_def usb_std_synchframe_def)
    note q = this quiet_getstatus [OF ep] quiet_clearfeature [OF assms(5) ep] quiet_setfeature [OF ep]
      quiet_getdescriptor [OF assms(5)] quiet_getconfiguration quiet_interface [OF assms(5)]
    show ?thesis unfolding n
      using 3 q [THEN handlerD, OF assms(1,2)] by (auto simp: usbd_standard_request_def)
  qed
qed

lemma setup_state:
  fixes u :: "('h, 'c) udev"
  assumes "ready u" and "is_state (seen dcfg cfg u) s" and "addressed (req u)" and "class_ok dcfg cfg K"
  shows "\<exists>u'. usbd_setup_transc S L K u = Ret u' \<and> ready u' \<and>
    is_state (seen dcfg cfg u') (driver_next (USBD_CFG_MAX_NUM S) (req u) s)"
proof -
  let ?r = "req u" and ?s' = "driver_next (USBD_CFG_MAX_NUM S) (req u) s"
  have cls: "quiet_handler dcfg cfg (usbd_class_request S K ?r)"
    using assms(4) unfolding usbd_class_request_def class_ok_def by (intro handler_if handler_Ret) auto
  have vendor: "quiet_handler dcfg cfg (usbd_vendor_request ?r)" by (simp add: quiet_handler_def usbd_vendor_request_def)
  have none: "quiet_handler dcfg cfg (\<lambda>u. Ret (REQ_NOTSUPP, u))" by (simp add: quiet_handler_def)
  define handler where "handler =
    (if bmRequestType ?r AND 0x60 = 0 then usbd_standard_request S L K ?r
     else if bmRequestType ?r AND 0x60 = 0x20 then usbd_class_request S K ?r
     else if bmRequestType ?r AND 0x60 = 0x40 then usbd_vendor_request ?r else (\<lambda>u. Ret (REQ_NOTSUPP, u)))"
  have "\<exists>x u'. handler u = Ret (x, u') \<and> ready u' \<and> is_state (seen dcfg cfg u') ?s'"
  proof (cases "is_standard ?r")
    case True
    then show ?thesis
      using standard_request_state [OF assms(1,2) True assms(3,4)] by (simp add: handler_def is_standard_def)
  next
    case False
    then have n: "?s' = s" by simp
    show ?thesis unfolding n handler_def
      using False cls vendor none [THEN handlerD, OF assms(1,2)] handlerD [OF cls assms(1,2)] handlerD [OF vendor assms(1,2)]
      by (simp add: is_standard_def)
  qed
  then obtain x u1 where u1: "handler u = Ret (x, u1)" "ready u1" "is_state (seen dcfg cfg u1) ?s'" by blast
  define reply :: "('h, 'c) udev \<Rightarrow> ('h, 'c) udev outcome" where "reply =
    (if x = REQ_SUPP
     then (if wLength ?r = 0 then usbd_ctl_status_send S L else if bmRequestType ?r AND 0x80 \<noteq> 0 then usbd_ctl_send S
           else usbd_ctl_recev S)
     else usbd_enum_error S L)"
  have "quiet dcfg cfg reply" by (simp add: reply_def quiet_status quiet_ctl quiet_enum_error)
  then obtain u2 where "reply u1 = Ret u2" "ready u2" "seen dcfg cfg u2 = seen dcfg cfg u1"
    using u1(2) by (auto dest: quietD)
  moreover have "usbd_setup_transc S L K u = bindo (handler u) (\<lambda>(x, u'). if x = REQ_SUPP
      then (if wLength ?r = 0 then usbd_ctl_status_send S L u' else if bmRequestType ?r AND 0x80 \<noteq> 0 then usbd_ctl_send S u'
            else usbd_ctl_recev S u')
      else usbd_enum_error S L u')"
    by (simp add: usbd_setup_transc_def Let_def handler_def)
  then have "usbd_setup_transc S L K u = reply u1" by (simp add: u1(1) reply_def)
  ultimately show ?thesis using u1(3) by (simp del: driver_next.simps)
qed

lemma setups_state:
  assumes "ready u" and "is_state (seen dcfg cfg u) s" and "\<forall>r \<in> set rs. addressed r" and "class_ok dcfg cfg K"
  shows "\<exists>u'. setups S L K rs u = Ret u' \<and> ready u' \<and>
    is_state (seen dcfg cfg u') (foldl (\<lambda>s r. ch9_next (USBD_CFG_MAX_NUM S) r s) s rs)"
  using assms(1-3)
proof (induction rs arbitrary: u s)
  case (Cons r rs)
  have "ready (u\<lparr>req := r\<rparr>)" "is_state (seen dcfg cfg (u\<lparr>req := r\<rparr>)) s" "addressed (req (u\<lparr>req := r\<rparr>))"
    using Cons.prems by simp_all
  from setup_state [OF this assms(4)]
  obtain u1 where u1: "usbd_setup_transc S L K (u\<lparr>req := r\<rparr>) = Ret u1" "ready u1"
    "is_state (seen dcfg cfg u1) (ch9_next (USBD_CFG_MAX_NUM S) r s)"
    using driver_next_standard [of r] Cons.prems(3) by (auto simp del: driver_next.simps ch9_next.simps)
  then show ?case using Cons.IH [OF u1(2,3)] Cons.prems(3) by (simp del: ch9_next.simps)
qed simp

end

section \<open>The documented hardware\<close>

text \<open>An application: the full-speed core, one configuration and one interface, and the variables somewhere in
  the RAM.\<close>

definition gd32_usb :: "(32 word \<Rightarrow> reg) usb_sys" where
  "gd32_usb = \<lparr>bus = gd32, cpu = csr_file, usb_udelay = (\<lambda>_ h. h), usb_mdelay = (\<lambda>_ h. h), USB_FS_CORE = True,
     VBUS_SENSING_ENABLED = False, USBHS_EXTERNAL_VBUS_ENABLED = False, USB_SOF_OUTPUT = 0, USB_LOW_POWER = 0,
     RX_FIFO_FS_SIZE = 128, USBFS_TX_FIFO_SIZE = [64, 64, 64, 0], USBD_CFG_MAX_NUM = 1, USBD_ITF_MAX_NUM = 1\<rparr>"

definition gd32_place :: usb_place where
  "gd32_place = \<lparr>config_at = 0x20000100, alter_set_at = 0x20000104, status_at = 0x20000108, req_at = 0x2000010C\<rparr>"

lemma not_port_usb: "0x50000000 \<le> x \<Longrightarrow> \<not> is_port (x - 0x10) \<and> \<not> is_port (x - 0x14) \<and> x \<noteq> EXTI_BASE + 0x14"
  by (auto simp: is_port_def GPIO_BASE_def EXTI_BASE_def diff_eq_eq)

interpretation gd32_usb: usb_device_hw gd32_usb gd32_place "\<lambda>h. h 0x50000800" "\<lambda>h. ucast (h 0x20000100)"
proof unfold_locales
  fix h :: "32 word \<Rightarrow> reg" and x v :: "32 word" and a :: "32 word" and w :: "8 word"
  have rd: "snd (rd32 gd32 x h) = h" "snd (rd8 gd32 x h) = h" for x
    by (simp_all add: gd32_def gd32_read_def gd32_read8_def)
  have "(255 :: reg) = mask 8" by (simp add: mask_eq_exp_minus_1)
  then have ff: "bit (255 :: reg) n \<longleftrightarrow> n < 8" for n by (simp only: bit_mask_iff) auto
  show "fst (rd32 (bus gd32_usb) 0x50000800 h) = h 0x50000800" "(wr32 (bus gd32_usb) 0x50000800 v h) 0x50000800 = v"
    using not_port_usb [of "0x50000800"] by (simp_all add: gd32_usb_def gd32_def gd32_read_def gd32_write_def)
  show "fst (rd8 (bus gd32_usb) (config_at gd32_place) h) = ucast (h 0x20000100)"
    "ucast ((wr8 (bus gd32_usb) (config_at gd32_place) w h) 0x20000100) = w"
    "ucast ((wr8 (bus gd32_usb) (status_at gd32_place) w h) 0x20000100) = (ucast (h 0x20000100) :: 8 word)"
    by (simp_all add: gd32_usb_def gd32_def gd32_read8_def gd32_write8_def gd32_place_def Let_def)
      (rule bit_word_eqI, simp add: bit_simps ff del: bit_numeral_word_iff)
  show "(snd (rd32 (bus gd32_usb) x h)) 0x50000800 = h 0x50000800"
    "ucast ((snd (rd32 (bus gd32_usb) x h)) 0x20000100) = (ucast (h 0x20000100) :: 8 word)"
    "(snd (rd8 (bus gd32_usb) x h)) 0x50000800 = h 0x50000800"
    "ucast ((snd (rd8 (bus gd32_usb) x h)) 0x20000100) = (ucast (h 0x20000100) :: 8 word)"
    by (simp_all add: gd32_usb_def rd)
  show "(wr32 (bus gd32_usb) x v h) 0x50000800 = h 0x50000800" if "0x50000000 \<le> x" "x \<noteq> 0x50000800"
    using not_port_usb [OF that(1)] that(2) by (simp add: gd32_usb_def gd32_def gd32_write_def)
  show "ucast ((wr32 (bus gd32_usb) x v h) 0x20000100) = (ucast (h 0x20000100) :: 8 word)" if "0x50000000 \<le> x"
    using not_port_usb [OF that] that by (auto simp: gd32_usb_def gd32_def gd32_write_def)
  show "(wr8 (bus gd32_usb) a w h) 0x50000800 = h 0x50000800" if "a \<in> {config_at gd32_place, status_at gd32_place}"
    using that by (auto simp: gd32_usb_def gd32_def gd32_write8_def gd32_place_def Let_def)
qed

text \<open>The same hardware with a record of what has been done to a memory beside it.\<close>

type_synonym 'l logged = "(32 word \<Rightarrow> reg) \<times> 'l list"

definition gd32_logged :: "'l logged bus" where
  "gd32_logged =
     \<lparr>rd32 = (\<lambda>a (h, l). (fst (gd32_read a h), h, l)), wr32 = (\<lambda>a v (h, l). (gd32_write a v h, l)),
      rd16 = (\<lambda>a (h, l). (fst (gd32_read16 a h), h, l)), wr16 = (\<lambda>a v (h, l). (gd32_write16 a v h, l)),
      rd8 = (\<lambda>a (h, l). (fst (gd32_read8 a h), h, l)), wr8 = (\<lambda>a v (h, l). (gd32_write8 a v h, l))\<rparr>"

definition gd32_logged_usb :: "'l logged usb_sys" where
  "gd32_logged_usb = \<lparr>bus = gd32_logged, cpu = \<lparr>read_csr = (\<lambda>c (h, l). (h c, h, l)),
     write_csr = (\<lambda>c v (h, l). (h(c := v), l)), set_csr = (\<lambda>c v (h, l). (h(c := h c OR v), l)),
     clear_csr = (\<lambda>c v (h, l). (h(c := h c AND NOT v), l)), wfi = id\<rparr>, usb_udelay = (\<lambda>_ h. h), usb_mdelay = (\<lambda>_ h. h),
     USB_FS_CORE = True, VBUS_SENSING_ENABLED = False, USBHS_EXTERNAL_VBUS_ENABLED = False, USB_SOF_OUTPUT = 0,
     USB_LOW_POWER = 0, RX_FIFO_FS_SIZE = 128, USBFS_TX_FIFO_SIZE = [64, 64, 64, 0], USBD_CFG_MAX_NUM = 1, USBD_ITF_MAX_NUM = 1\<rparr>"

lemma gd32_apart:
  "a AND NOT 3 \<noteq> w \<Longrightarrow> gd32_write8 a v h w = h w"
  "b AND NOT 3 \<noteq> w \<Longrightarrow> fst (gd32_read8 b (h(w := x))) = fst (gd32_read8 b h)"
  by (simp_all add: gd32_write8_def gd32_read8_def Let_def)

lemma usb_words: "0x50000000 \<le> x \<Longrightarrow> gd32_write x v h = h(x := v)"
  using not_port_usb [of x] by (simp add: gd32_write_def)

end
