(* ===== verification/UsbdTransfer.thy ===== *)
theory UsbdTransfer
  imports UsbdSpec
begin

text \<open>
  The data stage of a control transfer to the host: what the interrupts of endpoint 0 tell its FIFO,
  from the answer to the setup packet to the status stage.
\<close>

section \<open>The hardware\<close>

text \<open>What endpoint 0 is told: that a packet of so many bytes follows, and its words.\<close>

datatype in_event = Packet_len reg | Fifo_word reg

text \<open>Memory is read by bytes, at the addresses \<open>M\<close>; the endpoint takes the lengths and the words written to it,
  and has room for a packet whenever it is asked; and an access to another register changes neither.\<close>

locale usb_in_hw =
  fixes S :: "'h usb_sys" and mem :: "'h \<Rightarrow> 32 word \<Rightarrow> 8 word" and sent :: "'h \<Rightarrow> in_event list" and M :: "32 word set"
  assumes rd8: "a \<in> M \<Longrightarrow> rd8 (bus S) a h = (mem h a, h)"
    and fifo: "sent (wr32 (bus S) 0x50001000 v h) = sent h @ [Fifo_word v]" "mem (wr32 (bus S) 0x50001000 v h) = mem h"
    and len: "sent (wr32 (bus S) 0x50000910 v h) = sent h @ [Packet_len (v AND BITS 0 18)]"
    and wr32: "0x50000800 \<le> x \<Longrightarrow> x < 0x50001000 \<Longrightarrow> x \<noteq> 0x50000910 \<Longrightarrow> sent (wr32 (bus S) x v h) = sent h"
      "0x50000800 \<le> x \<Longrightarrow> x < 0x50001000 \<Longrightarrow> mem (wr32 (bus S) x v h) = mem h"
    and rd32: "0x50000800 \<le> x \<Longrightarrow> x < 0x50001000 \<Longrightarrow> sent (snd (rd32 (bus S) x h)) = sent h"
      "0x50000800 \<le> x \<Longrightarrow> x < 0x50001000 \<Longrightarrow> mem (snd (rd32 (bus S) x h)) = mem h"
    and room: "16 \<le> fst (rd32 (bus S) 0x50000918 h) AND BITS 0 15"

text \<open>The words of a packet of \<open>n\<close> bytes at \<open>p\<close>, the last filled up with the bytes behind it.\<close>

definition word_at :: "(32 word \<Rightarrow> 8 word) \<Rightarrow> 32 word \<Rightarrow> reg" where
  "word_at m a = le_word [m a, m (a + 1), m (a + 2), m (a + 3)]"

definition packet_words :: "(32 word \<Rightarrow> 8 word) \<Rightarrow> 32 word \<Rightarrow> nat \<Rightarrow> in_event list" where
  "packet_words m p n = map (\<lambda>i. Fifo_word (word_at m (p + 4 * of_nat i))) [0..<(n + 3) div 4]"

text \<open>A buffer of \<open>n\<close> bytes: packets of 64 and the rest.\<close>

fun packets :: "(32 word \<Rightarrow> 8 word) \<Rightarrow> 32 word \<Rightarrow> nat \<Rightarrow> in_event list" where
  "packets m p n =
     (if n \<le> 64 then Packet_len (of_nat n) # packet_words m p n
      else Packet_len 64 # packet_words m p 64 @ packets m (p + 64) (n - 64))"

declare packets.simps [simp del]

definition packet_count :: "nat \<Rightarrow> nat" where
  "packet_count n = (n - 1) div 64 + 1"

text \<open>One packet: the FIFO is empty, and then the host has taken what was written.\<close>

fun data_stage :: "'h usb_sys \<Rightarrow> usb_place \<Rightarrow> ('h, 'c) usb_class_core \<Rightarrow> nat \<Rightarrow> ('h, 'c) udev \<Rightarrow> ('h, 'c) udev outcome" where
  "data_stage S L K 0 u = Ret u"
| "data_stage S L K (Suc k) u =
     bindo (usbd_emptytxfifo_write S 0 u) (\<lambda>u. bindo (usbd_in_transc S L K 0 u) (data_stage S L K k))"

text \<open>Endpoint 0 in the middle of an answer: \<open>n\<close> bytes at \<open>p\<close> are left.\<close>

definition sending :: "('h, 'c) udev \<Rightarrow> 32 word \<Rightarrow> nat \<Rightarrow> bool" where
  "sending u p n \<longleftrightarrow> ready u \<and> n < 2 ^ 16 \<and> ctl_state u = (if 64 < n then USB_CTL_DATA_IN else USB_CTL_LAST_DATA_IN) \<and>
     xfer_buf (transc_in u 0) = p \<and> xfer_count (transc_in u 0) = 0 \<and> xfer_len (transc_in u 0) = of_nat (min n 64) \<and>
     remain_len (transc_in u 0) = of_nat n \<and> max_len (transc_in u 0) = 64"

text \<open>The two registers blocks of endpoint 0, and its FIFO.\<close>

lemma ready_ep0:
  assumes "ready u"
  shows "pointer 6 (er_in (regs u)) 0 = Ret 0x50000900" "pointer 6 (er_out (regs u)) 0 = Ret 0x50000B00"
    "pointer 15 (DFIFO (regs u)) 0 = Ret 0x50001000"
proof -
  have "regs u = assign_regs (bp u)" "base_reg (bp u) = 0x50000000" "num_ep (bp u) = 4" "num_pipe (bp u) = 8"
    using assms unfolding ready_def fs_basic_def by blast+
  then show "pointer 6 (er_in (regs u)) 0 = Ret 0x50000900" "pointer 6 (er_out (regs u)) 0 = Ret 0x50000B00"
    "pointer 15 (DFIFO (regs u)) 0 = Ret 0x50001000"
    by (simp_all add: pointer_def assign_regs_def)
qed

lemma ready_transc0:
  assumes "ready u"
  shows "ep_num (transc_in u 0) = 0" "ep_type (transc_in u 0) = 0" "ep_num (transc_out u 0) = 0" "ep_type (transc_out u 0) = 0"
proof -
  have "\<forall>d. ep_num (transc d 0 u) = 0 \<and> ep_type (transc d 0 u) = 0" using assms unfolding ready_def by blast
  from spec [OF this, of True] spec [OF this, of False] show
    "ep_num (transc_in u 0) = 0" "ep_type (transc_in u 0) = 0" "ep_num (transc_out u 0) = 0" "ep_type (transc_out u 0) = 0"
    by (simp_all add: transc_def)
qed

lemma ready_hw [simp]: "ready (u\<lparr>hw := h\<rparr>) = ready u"
  using ready_hw_do [of "\<lambda>_. h" u] by (simp add: hw_do_def)

lemma fill_stops:
  assumes "\<not> xfer_count (transc_in u n) < xfer_len (transc_in u n)"
  shows "fill_txfifo S n p w u = Some (Ret (snd (hw_get (rd32 (bus S) (p + 0x18)) u)))"
  using assms by (subst fill_txfifo.simps) (simp add: hw_get_simps)

lemma fill_step:
  fixes u :: "('h, 'c) udev"
  assumes "w \<le> fst (rd32 (bus S) (p + 0x18) (hw u)) AND BITS 0 15" and "xfer_count (transc_in u n) < xfer_len (transc_in u n)"
    and "len = next_len (transc_in u n)"
    and "hw_try (usb_txfifo_write (bus S) (regs u) (xfer_buf (transc_in u n)) n (ucast len))
      (hw_do (snd \<circ> rd32 (bus S) (p + 0x18)) u) = Ret u1"
    and "u2 = upd_transc True n (\<lambda>t. t\<lparr>xfer_buf := xfer_buf t + len, xfer_count := xfer_count t + len\<rparr>) u1"
    and "xfer_count (transc_in u2 n) = xfer_len (transc_in u2 n)"
  shows "fill_txfifo S n p w u =
    fill_txfifo S n p ((len + 3) div 4) (hw_do (clear_bits (bus S) (dr (regs u2) + 0x34) (push_bit n 0x01)) u2)"
  using assms(1,2,4,6) by (subst fill_txfifo.simps) (simp add: hw_get_simps Let_def assms(3) [symmetric] assms(5) [symmetric])

lemma eplen_length:
  fixes l :: reg
  assumes "l \<le> 64"
  shows "((v AND NOT (BITS 0 18 OR BITS 19 28)) OR 524288 OR l) AND BITS 0 18 = l" "take_bit 19 l = l"
proof -
  have "unat l < 2 ^ 7" using assms by (simp add: word_le_nat_alt)
  then have "take_bit 7 l = l" by (simp add: word_unat_eq_iff unsigned_take_bit_eq take_bit_nat_eq_self)
  then have small: "bit l i \<Longrightarrow> i < 7" for i using bit_take_bit_iff [of 7 l i] by simp
  have "(524288 :: reg) = push_bit 19 1" by simp
  then have one: "bit (524288 :: reg) i \<longleftrightarrow> i = 19" for i
    by (simp only: bit_push_bit_iff bit_1_iff) (auto simp del: bit_numeral_word_iff)
  show "((v AND NOT (BITS 0 18 OR BITS 19 28)) OR 524288 OR l) AND BITS 0 18 = l"
    by (rule bit_word_eqI) (use small in \<open>auto simp: bit_simps one simp del: bit_numeral_word_iff\<close>, fastforce)
  show "take_bit 19 l = l"
    by (rule bit_word_eqI) (use small in \<open>fastforce simp: bit_simps\<close>)
qed

context usb_in_hw
begin

lemma rd_packed: "{a, a + 1, a + 2, a + 3} \<subseteq> M \<Longrightarrow> rd_packed (bus S) a h = (word_at (mem h) a, h)"
  by (simp add: rd_packed_def word_at_def rd8)

lemma write_words:
  "(\<And>i. i < 4 * k \<Longrightarrow> a + of_nat i \<in> M) \<Longrightarrow>
   sent (write_words (bus S) 0x50001000 k a h) =
     sent h @ map (\<lambda>i. Fifo_word (word_at (mem h) (a + 4 * of_nat i))) [0..<k] \<and>
   mem (write_words (bus S) 0x50001000 k a h) = mem h"
proof (induction k arbitrary: a h)
  case (Suc k)
  have M: "{a, a + 1, a + 2, a + 3} \<subseteq> M"
    using Suc.prems [of 0] Suc.prems [of 1] Suc.prems [of 2] Suc.prems [of 3] by simp
  have "a + 4 + of_nat i \<in> M" if "i < 4 * k" for i
    using Suc.prems [of "4 + i"] that by (simp add: add.assoc)
  from Suc.IH [OF this] show ?case
    by (simp add: rd_packed [OF M] fifo map_upt_Suc add.assoc ring_distribs del: upt_Suc)
qed simp

text \<open>What the endpoint was told and what is in memory.\<close>

lemma obs_access:
  assumes "0x50000800 \<le> x" and "x < 0x50001000" and "x \<noteq> 0x50000910"
  shows "sent (set_bits (bus S) x v h) = sent h" "mem (set_bits (bus S) x v h) = mem h"
    "sent (clear_bits (bus S) x v h) = sent h" "mem (clear_bits (bus S) x v h) = mem h"
  using assms by (simp_all add: set_bits_def clear_bits_def modify_def split_beta wr32 rd32)

lemma inxfer_result:
  fixes u :: "('h, 'c) udev"
  assumes "ready u" and "max_len (transc_in u 0) = 64"
  shows "\<exists>u'. usb_transc_inxfer S True 0 u = Ret u' \<and> ready u' \<and> mem (hw u') = mem (hw u) \<and>
    sent (hw u') = sent (hw u) @ [Packet_len (min (xfer_len (transc_in u 0)) 64)] \<and>
    transc_in u' 0 = (transc_in u 0)\<lparr>xfer_len := min (xfer_len (transc_in u 0)) 64\<rparr> \<and>
    ctl_state u' = ctl_state u \<and> ctl_zlp u' = ctl_zlp u \<and> cur_status u' = cur_status u"
proof -
  note t = ready_transc0 [OF assms(1)] and p = ready_ep0 [OF assms(1)]
  have same: "transc True 0 u = transc_in u 0" by (simp add: transc_def)
  show ?thesis
  proof (cases "xfer_len (transc_in u 0) = 0")
    case True
    then show ?thesis
      using assms t p eplen_length(1) [of 0]
      by (simp add: usb_transc_inxfer_def in_length_def Let_def hw_get_simps ready_upd same len wr32 rd32)
  next
    case False
    show ?thesis
    proof (cases "xfer_len (transc_in u 0) < 64")
      case less: True
      then have le: "xfer_len (transc_in u 0) \<le> 64" by simp
      show ?thesis
        using assms t p False less le eplen_length [OF le]
        by (simp add: usb_transc_inxfer_def in_length_def Let_def hw_get_simps ready_upd same len wr32 rd32 obs_access or.assoc
          min_def)
    next
      case more: False
      then show ?thesis
        using assms t p False eplen_length [of 64]
        by (simp add: usb_transc_inxfer_def in_length_def Let_def hw_get_simps ready_upd same len wr32 rd32 obs_access or.assoc
          min_def)
    qed
  qed
qed

lemma send_result:
  fixes u :: "('h, 'c) udev"
  assumes "ready u" and "max_len (transc_in u 0) = 64"
  shows "\<exists>u'. usbd_ep_send S 0 p l u = Ret u' \<and> ready u' \<and> mem (hw u') = mem (hw u) \<and>
    sent (hw u') = sent (hw u) @ [Packet_len (min l 64)] \<and>
    transc_in u' 0 = (transc_in u 0)\<lparr>xfer_buf := p, xfer_count := 0, xfer_len := min l 64\<rparr> \<and>
    ctl_state u' = ctl_state u \<and> ctl_zlp u' = ctl_zlp u \<and> cur_status u' = cur_status u"
proof -
  let ?u = "upd_transc True 0 (\<lambda>t. t\<lparr>xfer_buf := p, xfer_len := l, xfer_count := 0\<rparr>) u"
  have "ready ?u" "max_len (transc_in ?u 0) = 64" using assms by (simp_all add: ready_upd)
  from inxfer_result [OF this] show ?thesis using assms(1) by (simp add: usbd_ep_send_def Let_def)
qed

lemma ctl_send_result:
  fixes u :: "('h, 'c) udev"
  assumes "ready u" and "max_len (transc_in u 0) = 64" and "remain_len (transc_in u 0) = of_nat n" and "n < 2 ^ 16"
  shows "\<exists>u'. usbd_ctl_send S u = Ret u' \<and> sending u' (xfer_buf (transc_in u 0)) n \<and> mem (hw u') = mem (hw u) \<and>
    sent (hw u') = sent (hw u) @ [Packet_len (of_nat (min n 64))] \<and> ctl_zlp u' = ctl_zlp u"
proof -
  have n: "unat (of_nat n :: reg) = n" using assms(4) by (simp add: unsigned_of_nat take_bit_nat_eq_self)
  have "min (of_nat n :: reg) 64 = of_nat (min n 64)" "(64 :: reg) < of_nat n \<longleftrightarrow> 64 < n"
    by (auto simp: min_def word_le_nat_alt word_less_nat_alt n)
  then show ?thesis
    using send_result [OF assms(1,2), of "xfer_buf (transc_in u 0)" "of_nat n"] assms
    by (auto simp: usbd_ctl_send_def sending_def)
qed

lemma txfifo_result:
  fixes u :: "('h, 'c) udev"
  assumes "sending u p n" and "\<And>i. i < n + 3 \<Longrightarrow> p + of_nat i \<in> M"
  defines "l \<equiv> min n 64"
  shows "\<exists>u'. usbd_emptytxfifo_write S 0 u = Ret u' \<and> ready u' \<and> mem (hw u') = mem (hw u) \<and>
    sent (hw u') = sent (hw u) @ packet_words (mem (hw u)) p l \<and>
    transc_in u' 0 = (transc_in u 0)\<lparr>xfer_buf := p + of_nat l, xfer_count := of_nat l\<rparr> \<and>
    ctl_state u' = ctl_state u \<and> ctl_zlp u' = ctl_zlp u"
proof -
  let ?l = "of_nat l :: reg" and ?t = "transc_in u 0"
  have r: "ready u" and t: "xfer_buf ?t = p" "xfer_count ?t = 0" "xfer_len ?t = ?l" "max_len ?t = 64"
    using assms(1) by (simp_all add: sending_def l_def)
  note p = ready_ep0 [OF r]
  have ul: "unat ?l = l" by (simp add: unsigned_of_nat take_bit_nat_eq_self l_def)
  have words: "unat ((?l + 3) div 4) = (l + 3) div 4"
    using ul by (simp add: unat_div unat_word_ariths) (simp add: l_def)
  have nl: "next_len ?t = ?l"
    using t ul by (auto simp: next_len_def word_less_nat_alt l_def)
  define u1 where "u1 = hw_do (snd \<circ> rd32 (bus S) 0x50000918) u"
  have u1: "transc_in u1 = transc_in u" "regs u1 = regs u" "ready u1" "ctl_state u1 = ctl_state u" "ctl_zlp u1 = ctl_zlp u"
    "sent (hw u1) = sent (hw u)" "mem (hw u1) = mem (hw u)"
    using r by (simp_all add: u1_def rd32)
  show ?thesis
  proof (cases "l = 0")
    case True
    then have "usbd_emptytxfifo_write S 0 u = Ret u1"
      using t by (simp add: usbd_emptytxfifo_write_def p fill_stops hw_get_simps u1_def)
    moreover have "?t\<lparr>xfer_buf := p, xfer_count := 0\<rparr> = ?t" using t(1,2) by simp
    ultimately show ?thesis using u1 True by (simp add: packet_words_def)
  next
    case False
    have "unat ((?l + 3) div 4) \<le> unat (16 :: reg)" unfolding words by (simp add: l_def)
    then have "(?l + 3) div 4 \<le> (16 :: reg)" by (simp only: word_le_nat_alt)
    then have fits: "(?l + 3) div 4 \<le> fst (rd32 (bus S) 0x50000918 (hw u)) AND BITS 0 15"
      using room by (rule order_trans)
    define u2 where "u2 = u1\<lparr>hw := write_words (bus S) 0x50001000 ((l + 3) div 4) p (hw u1)\<rparr>"
    define u3 where "u3 = upd_transc True 0 (\<lambda>t. t\<lparr>xfer_buf := xfer_buf t + ?l, xfer_count := xfer_count t + ?l\<rparr>) u2"
    define u4 where "u4 = hw_do (clear_bits (bus S) (dr (regs u3) + 0x34) (push_bit 0 0x01)) u3"
    have "p + of_nat i \<in> M" if "i < 4 * ((l + 3) div 4)" for i
      using assms(2) [of i] that by (simp add: l_def)
    note w = write_words [OF this, where h = "hw u1"]
    have u2: "transc_in u2 = transc_in u" "regs u2 = regs u" "ready u2" "ctl_state u2 = ctl_state u" "ctl_zlp u2 = ctl_zlp u"
      unfolding u2_def using u1(1-5) by simp_all
    have u3: "transc_in u3 0 = ?t\<lparr>xfer_buf := p + ?l, xfer_count := ?l\<rparr>" "ready u3" "regs u3 = regs u"
      "ctl_state u3 = ctl_state u" "ctl_zlp u3 = ctl_zlp u"
      using u2 t by (simp_all add: u3_def ready_upd)
    have "(ucast (ucast ?l :: 16 word) :: reg) = ?l"
      by (simp add: word_unat_eq_iff unsigned_ucast_eq unsigned_take_bit_eq ul) (simp add: take_bit_nat_eq_self l_def)
    then have written: "hw_try (usb_txfifo_write (bus S) (regs u) p 0 (ucast ?l)) u1 = Ret u2"
      by (simp add: hw_try_def usb_txfifo_write_def p words u2_def)
    have stop: "fill_txfifo S 0 0x50000900 w u4 = Some (Ret (hw_do (snd \<circ> rd32 (bus S) 0x50000918) u4))" for w
      using u3(1) t(3) by (simp add: fill_stops hw_get_simps u4_def)
    have "fill_txfifo S 0 0x50000900 ((?l + 3) div 4) u = fill_txfifo S 0 0x50000900 ((?l + 3) div 4) u4"
      unfolding u4_def
    proof (rule fill_step [OF _ _ nl [symmetric] _ u3_def])
      show "xfer_count ?t < xfer_len ?t" using t False ul by (simp add: word_less_nat_alt)
    qed (use fits written u3(1) t in \<open>simp_all add: u1_def\<close>)
    then have "fill_txfifo S 0 0x50000900 ((?l + 3) div 4) u = Some (Ret (hw_do (snd \<circ> rd32 (bus S) 0x50000918) u4))"
      by (simp add: stop)
    then have "usbd_emptytxfifo_write S 0 u = Ret (hw_do (snd \<circ> rd32 (bus S) 0x50000918) u4)"
      using nl by (simp add: usbd_emptytxfifo_write_def p)
    then show ?thesis
      using w u1(6,7) u3 r by (simp add: u4_def u3_def u2_def rd32 obs_access packet_words_def)
  qed
qed

lemma status_recev_result:
  fixes u :: "('h, 'c) udev"
  assumes "ready u"
  shows "\<exists>u'. usbd_ctl_status_recev S L u = Ret u' \<and> ready u' \<and> mem (hw u') = mem (hw u) \<and> sent (hw u') = sent (hw u) \<and>
    transc_in u' = transc_in u \<and> ctl_state u' = USB_CTL_STATUS_OUT \<and> ctl_zlp u' = ctl_zlp u"
proof -
  note t = ready_transc0 [OF assms] and p = ready_ep0 [OF assms]
  let ?u = "upd_transc False 0 (\<lambda>t. t\<lparr>xfer_buf := 0, xfer_len := 0, xfer_count := 0\<rparr>) (u\<lparr>ctl_state := USB_CTL_STATUS_OUT\<rparr>)"
  have r: "ready ?u" using assms by (simp add: ready_upd)
  then have m: "transfer_mode (bp u) = 0" using assms by simp
  show ?thesis
    using assms r t p m
    by (simp add: usbd_ctl_status_recev_def usbd_ep_recev_def usb_transc_outxfer_def out_length_def usb_ctlep_startout_def
      Let_def hw_get_simps transc_def wr32 rd32)
qed

text \<open>The host has taken a packet: the next one, or the status stage.\<close>

lemma in_transc_next:
  fixes u :: "('h, 'c) udev"
  assumes "ready u" and "ctl_state u = USB_CTL_DATA_IN" and "max_len (transc_in u 0) = 64"
    and "remain_len (transc_in u 0) = of_nat n" and "64 < n" and "n < 2 ^ 16"
  shows "\<exists>u'. usbd_in_transc S L K 0 u = Ret u' \<and> sending u' (xfer_buf (transc_in u 0)) (n - 64) \<and> mem (hw u') = mem (hw u) \<and>
    sent (hw u') = sent (hw u) @ [Packet_len (of_nat (min (n - 64) 64))] \<and> ctl_zlp u' = ctl_zlp u"
proof -
  let ?u = "upd_transc True 0 (\<lambda>t. t\<lparr>remain_len := remain_len t - ucast (max_len t)\<rparr>) u"
  have "ready ?u" "max_len (transc_in ?u 0) = 64" "remain_len (transc_in ?u 0) = of_nat (n - 64)"
    using assms by (simp_all add: ready_upd of_nat_diff)
  from ctl_send_result [OF this] show ?thesis
    using assms by (simp add: usbd_in_transc_def)
qed

lemma in_transc_last:
  fixes u :: "('h, 'c) udev"
  assumes "ready u" and "ctl_state u = USB_CTL_LAST_DATA_IN" and "max_len (transc_in u 0) = 64" and "ctlx_in K = None"
  shows "ctl_zlp u = 0 \<Longrightarrow> \<exists>u'. usbd_in_transc S L K 0 u = Ret u' \<and> mem (hw u') = mem (hw u) \<and> sent (hw u') = sent (hw u) \<and>
      ctl_state u' = USB_CTL_STATUS_OUT \<and> ctl_zlp u' = 0 \<and> remain_len (transc_in u' 0) = 0"
    and "ctl_zlp u \<noteq> 0 \<Longrightarrow> \<exists>u'. usbd_in_transc S L K 0 u = Ret u' \<and> ready u' \<and> mem (hw u') = mem (hw u) \<and>
      sent (hw u') = sent (hw u) @ [Packet_len 0] \<and> ctl_state u' = USB_CTL_LAST_DATA_IN \<and> ctl_zlp u' = 0 \<and>
      transc_in u' 0 = (transc_in u 0)\<lparr>xfer_buf := 0, xfer_count := 0, xfer_len := 0\<rparr>"
proof -
  let ?u = "upd_transc True 0 (\<lambda>t. t\<lparr>remain_len := 0\<rparr>) u"
  have "ready ?u" using assms(1) by (simp add: ready_upd)
  from status_recev_result [OF this, of L]
  show "\<exists>u'. usbd_in_transc S L K 0 u = Ret u' \<and> mem (hw u') = mem (hw u) \<and> sent (hw u') = sent (hw u) \<and>
      ctl_state u' = USB_CTL_STATUS_OUT \<and> ctl_zlp u' = 0 \<and> remain_len (transc_in u' 0) = 0" if "ctl_zlp u = 0"
    using assms(2,4) that by (auto simp: usbd_in_transc_def call_def)
  show "\<exists>u'. usbd_in_transc S L K 0 u = Ret u' \<and> ready u' \<and> mem (hw u') = mem (hw u) \<and>
      sent (hw u') = sent (hw u) @ [Packet_len 0] \<and> ctl_state u' = USB_CTL_LAST_DATA_IN \<and> ctl_zlp u' = 0 \<and>
      transc_in u' 0 = (transc_in u 0)\<lparr>xfer_buf := 0, xfer_count := 0, xfer_len := 0\<rparr>" if "ctl_zlp u \<noteq> 0"
    using send_result [OF assms(1,3), of 0 0] assms(2) that by (auto simp: usbd_in_transc_def)
qed

lemma nothing_to_write:
  fixes u :: "('h, 'c) udev"
  assumes "ready u" and "xfer_len (transc_in u 0) = 0"
  shows "usbd_emptytxfifo_write S 0 u = Ret (hw_do (snd \<circ> rd32 (bus S) 0x50000918) u)"
  using assms(2) ready_ep0 [OF assms(1)] by (simp add: usbd_emptytxfifo_write_def fill_stops hw_get_simps)

lemma zlp_stage:
  fixes u :: "('h, 'c) udev"
  assumes "ready u" and "ctl_state u = USB_CTL_LAST_DATA_IN" and "max_len (transc_in u 0) = 64" and "ctlx_in K = None"
    and "ctl_zlp u = 0" and "xfer_len (transc_in u 0) = 0"
  shows "\<exists>u'. data_stage S L K 1 u = Ret u' \<and> mem (hw u') = mem (hw u) \<and> sent (hw u') = sent (hw u) \<and>
    ctl_state u' = USB_CTL_STATUS_OUT \<and> ctl_zlp u' = 0 \<and> remain_len (transc_in u' 0) = 0"
  using in_transc_last(1) [of "hw_do (snd \<circ> rd32 (bus S) 0x50000918) u" K L] assms
  by (auto simp: nothing_to_write rd32)

lemma data_stage_result:
  fixes u :: "('h, 'c) udev"
  assumes "ctlx_in K = None"
  shows "sending u p n \<Longrightarrow> (\<And>i. i < n + 3 \<Longrightarrow> p + of_nat i \<in> M) \<Longrightarrow>
    \<exists>u'. data_stage S L K (packet_count n + (if ctl_zlp u = 0 then 0 else 1)) u = Ret u' \<and> mem (hw u') = mem (hw u) \<and>
      sent (hw u') = sent (hw u) @ tl (packets (mem (hw u)) p n) @ (if ctl_zlp u = 0 then [] else [Packet_len 0]) \<and>
      ctl_state u' = USB_CTL_STATUS_OUT \<and> ctl_zlp u' = 0 \<and> remain_len (transc_in u' 0) = 0"
proof (induction n arbitrary: u p rule: less_induct)
  case (less n)
  obtain u1 where u1: "usbd_emptytxfifo_write S 0 u = Ret u1" "ready u1" "mem (hw u1) = mem (hw u)"
    "sent (hw u1) = sent (hw u) @ packet_words (mem (hw u)) p (min n 64)"
    "transc_in u1 0 = (transc_in u 0)\<lparr>xfer_buf := p + of_nat (min n 64), xfer_count := of_nat (min n 64)\<rparr>"
    "ctl_state u1 = ctl_state u" "ctl_zlp u1 = ctl_zlp u"
    using txfifo_result [OF less.prems] by blast
  have t1: "max_len (transc_in u1 0) = 64" "remain_len (transc_in u1 0) = of_nat n" and n: "n < 2 ^ 16"
    and st: "ctl_state u1 = (if 64 < n then USB_CTL_DATA_IN else USB_CTL_LAST_DATA_IN)"
    using less.prems(1) u1 by (simp_all add: sending_def)
  show ?case
  proof (cases "64 < n")
    case True
    obtain u2 where u2: "usbd_in_transc S L K 0 u1 = Ret u2" "sending u2 (p + 64) (n - 64)" "mem (hw u2) = mem (hw u)"
      "sent (hw u2) = sent (hw u1) @ [Packet_len (of_nat (min (n - 64) 64))]" "ctl_zlp u2 = ctl_zlp u"
      using in_transc_next [OF u1(2) _ t1 True n, of L K] st True u1 by auto
    have "p + 64 + of_nat i \<in> M" if "i < n - 64 + 3" for i
      using less.prems(2) [of "64 + i"] that True by (simp add: add.assoc)
    from less.IH [OF _ u2(2) this] obtain u3 where u3:
      "data_stage S L K (packet_count (n - 64) + (if ctl_zlp u2 = 0 then 0 else 1)) u2 = Ret u3" "mem (hw u3) = mem (hw u2)"
      "sent (hw u3) = sent (hw u2) @ tl (packets (mem (hw u2)) (p + 64) (n - 64)) @ (if ctl_zlp u2 = 0 then [] else [Packet_len 0])"
      "ctl_state u3 = USB_CTL_STATUS_OUT" "ctl_zlp u3 = 0" "remain_len (transc_in u3 0) = 0"
      using True by auto
    have "packet_count n = Suc (packet_count (n - 64))" using True by (simp add: packet_count_def)
    moreover have "packets (mem (hw u)) (p + 64) (n - 64) =
      Packet_len (of_nat (min (n - 64) 64)) # tl (packets (mem (hw u)) (p + 64) (n - 64))"
      by (subst (1 2) packets.simps) (auto simp: min_def)
    ultimately show ?thesis
      using u1 u2 u3 True by (subst packets.simps) simp
  next
    case False
    then have st: "ctl_state u1 = USB_CTL_LAST_DATA_IN" and count: "packet_count n = 1"
      using st by (simp_all add: packet_count_def)
    have tl: "tl (packets (mem (hw u)) p n) = packet_words (mem (hw u)) p n"
      using False by (subst packets.simps) simp
    show ?thesis
    proof (cases "ctl_zlp u = 0")
      case True
      then show ?thesis
        using in_transc_last(1) [OF u1(2) st t1(1) assms, of L] u1 False by (auto simp: count tl)
    next
      case zlp: False
      then obtain u2 where u2: "usbd_in_transc S L K 0 u1 = Ret u2" "ready u2" "mem (hw u2) = mem (hw u1)"
        "sent (hw u2) = sent (hw u1) @ [Packet_len 0]" "ctl_state u2 = USB_CTL_LAST_DATA_IN" "ctl_zlp u2 = 0"
        "transc_in u2 0 = (transc_in u1 0)\<lparr>xfer_buf := 0, xfer_count := 0, xfer_len := 0\<rparr>"
        using in_transc_last(2) [OF u1(2) st t1(1) assms, of L] u1(7) by auto
      then show ?thesis
        using zlp_stage [OF u2(2) u2(5) _ assms u2(6), of L] u1 t1(1) False zlp by (auto simp: count tl)
    qed
  qed
qed

end

section \<open>The documented hardware\<close>

text \<open>The file of registers, with a record of what endpoint 0 was told; its FIFO always has room for 64 words,
  as if the host had taken all of it.\<close>

type_synonym recorded = "(32 word \<Rightarrow> reg) \<times> in_event list"

definition recorded_write :: "32 word \<Rightarrow> reg \<Rightarrow> in_event list \<Rightarrow> in_event list" where
  "recorded_write a v l =
     (if a = 0x50000910 then l @ [Packet_len (v AND BITS 0 18)] else if a = 0x50001000 then l @ [Fifo_word v] else l)"

definition gd32_fifo :: "recorded bus" where
  "gd32_fifo =
     \<lparr>rd32 = (\<lambda>a (h, l). (if a = 0x50000918 then 64 else fst (gd32_read a h), h, l)),
      wr32 = (\<lambda>a v (h, l). (gd32_write a v h, recorded_write a v l)),
      rd16 = (\<lambda>a (h, l). (fst (gd32_read16 a h), h, l)), wr16 = (\<lambda>a v (h, l). (gd32_write16 a v h, l)),
      rd8 = (\<lambda>a (h, l). (fst (gd32_read8 a h), h, l)), wr8 = (\<lambda>a v (h, l). (gd32_write8 a v h, l))\<rparr>"

definition gd32_in :: "recorded usb_sys" where
  "gd32_in = \<lparr>bus = gd32_fifo, cpu = \<lparr>read_csr = (\<lambda>c (h, l). (h c, h, l)),
     write_csr = (\<lambda>c v (h, l). (h(c := v), l)), set_csr = (\<lambda>c v (h, l). (h(c := h c OR v), l)),
     clear_csr = (\<lambda>c v (h, l). (h(c := h c AND NOT v), l)), wfi = id\<rparr>, usb_udelay = (\<lambda>_ h. h), usb_mdelay = (\<lambda>_ h. h),
     USB_FS_CORE = True, VBUS_SENSING_ENABLED = False, USBHS_EXTERNAL_VBUS_ENABLED = False, USB_SOF_OUTPUT = 0,
     USB_LOW_POWER = 0, RX_FIFO_FS_SIZE = 128, USBFS_TX_FIFO_SIZE = [64, 64, 64, 0], USBD_CFG_MAX_NUM = 1, USBD_ITF_MAX_NUM = 1\<rparr>"

text \<open>Its RAM.\<close>

definition ram :: "32 word set" where
  "ram = {0x20000000..<0x20008000}"

definition ram_byte :: "(32 word \<Rightarrow> reg) \<Rightarrow> 32 word \<Rightarrow> 8 word" where
  "ram_byte h a = (if a \<in> ram then fst (gd32_read8 a h) else 0)"

lemma ram_write:
  assumes "0x50000000 \<le> x"
  shows "ram_byte (gd32_write x v h) = ram_byte h"
proof
  fix a :: "32 word"
  have le: "a AND NOT 3 \<le> a" by (simp add: word_le_def unsigned_and_eq AND_upper1)
  have "a < 0x50000000" if "a \<in> ram"
    using that less_trans [of a "0x20008000" "0x50000000"] by (simp add: ram_def)
  then have "a AND NOT 3 < x" if "a \<in> ram"
    using le_less_trans [OF le less_le_trans [OF _ assms]] that by blast
  then have "a AND NOT 3 \<noteq> x" if "a \<in> ram"
    using that less_irrefl by blast
  then show "ram_byte (gd32_write x v h) a = ram_byte h a"
    using not_port_usb [OF assms] by (simp add: ram_byte_def gd32_read8_def gd32_write_def)
qed

interpretation gd32_in: usb_in_hw gd32_in "\<lambda>(h, l). ram_byte h" snd ram
proof unfold_locales
  fix x :: "32 word" and h :: recorded and v :: reg and a :: "32 word"
  have big: "0x50000000 \<le> x" if "0x50000800 \<le> x" using that by (rule order_trans [rotated]) simp
  show "rd8 (bus gd32_in) a h = ((case h of (h, l) \<Rightarrow> ram_byte h) a, h)" if "a \<in> ram"
    using that by (simp add: gd32_in_def gd32_fifo_def ram_byte_def split_beta)
  show "snd (wr32 (bus gd32_in) 0x50001000 v h) = snd h @ [Fifo_word v]"
    "snd (wr32 (bus gd32_in) 0x50000910 v h) = snd h @ [Packet_len (v AND BITS 0 18)]"
    by (simp_all add: gd32_in_def gd32_fifo_def recorded_write_def split_beta)
  show "(case wr32 (bus gd32_in) 0x50001000 v h of (h, l) \<Rightarrow> ram_byte h) = (case h of (h, l) \<Rightarrow> ram_byte h)"
    by (simp add: gd32_in_def gd32_fifo_def split_beta ram_write)
  show "snd (wr32 (bus gd32_in) x v h) = snd h" if "x < 0x50001000" "x \<noteq> 0x50000910"
    using that by (auto simp: gd32_in_def gd32_fifo_def recorded_write_def split_beta)
  show "(case wr32 (bus gd32_in) x v h of (h, l) \<Rightarrow> ram_byte h) = (case h of (h, l) \<Rightarrow> ram_byte h)" if "0x50000800 \<le> x"
    using ram_write [OF big [OF that]] by (simp add: gd32_in_def gd32_fifo_def split_beta)
  show "snd (snd (rd32 (bus gd32_in) x h)) = snd h"
    "(case snd (rd32 (bus gd32_in) x h) of (h, l) \<Rightarrow> ram_byte h) = (case h of (h, l) \<Rightarrow> ram_byte h)"
    by (simp_all add: gd32_in_def gd32_fifo_def split_beta)
  have "BITS 0 15 = 0xFFFF" by (simp add: BITS_def)
  then show "16 \<le> fst (rd32 (bus gd32_in) 0x50000918 h) AND BITS 0 15"
    by (simp add: gd32_in_def gd32_fifo_def split_beta)
qed

end
