(* ===== verification/UsbdClaims.thy ===== *)
theory UsbdClaims
  imports UsbdTransfer
begin

text \<open>
  What the USB device does for its host: the states of the standard, the answers to its requests, the
  packets of an answer; and where it fails.
\<close>

section \<open>A device\<close>

text \<open>An application without a class, on the full-speed core, after the first reset.\<close>

definition no_class :: "('h, unit) usb_class_core" where
  "no_class = \<lparr>init_proc = (\<lambda>u _. Ret (0, u)), deinit_proc = (\<lambda>u _. Ret (0, u)), req_proc = (\<lambda>u _. Ret (REQ_NOTSUPP, u)),
     set_intf = None, ctlx_in = None, ctlx_out = None, data_in = None, data_out = None, SOF = None,
     incomplete_isoc_in = None, incomplete_isoc_out = None\<rparr>"

definition fs_core :: usb_core_basic where
  "fs_core = \<lparr>core_enum = USB_CORE_ENUM_FS, core_speed = 2, num_pipe = 8, num_ep = 4, transfer_mode = 0, phy_itf = 2,
     sof_enable = 0, low_power = 0, base_reg = 0x50000000\<rparr>"

definition endpoint0 :: "32 word \<Rightarrow> reg \<Rightarrow> usb_transc" where
  "endpoint0 p n = \<lparr>ep_num = 0, ep_dir = False, ep_type = 0, ep_stall = 0, frame_num = 0, max_len = 64, xfer_buf = p,
     xfer_len = 0, xfer_count = 0, remain_len = n, dma_addr = 0\<rparr>"

definition reset_device :: "32 word \<Rightarrow> reg \<Rightarrow> usb_req \<Rightarrow> 'h \<Rightarrow> ('h, unit) udev" where
  "reset_device p n r h = \<lparr>bp = fs_core, regs = assign_regs fs_core, dev_addr = 0, cur_status = 1, backup_status = 0,
     transc_in = (\<lambda>_. endpoint0 p n), transc_out = (\<lambda>_. endpoint0 0 0), power_mode = 1, dev_remote_wakeup = 0, req = r,
     ctl_state = 0, ctl_zlp = 0,
     desc = \<lparr>dev_desc = 0x08001000, config_desc = 0x08001020, bos_desc = 0x08001080, strings = 0x08001090\<rparr>,
     class_data = (), hw = h\<rparr>"

lemma reset_device_simps [simp]:
  "regs (reset_device p n r h) = assign_regs fs_core" "hw (reset_device p n r h) = h" "req (reset_device p n r h) = r"
  "transc_in (reset_device p n r h) = (\<lambda>_. endpoint0 p n)" "ctl_zlp (reset_device p n r h) = 0"
  "cur_status (reset_device p n r h) = 1" "gr (assign_regs fs_core) = 0x50000000"
  "xfer_buf (endpoint0 p n) = p" "remain_len (endpoint0 p n) = n" "max_len (endpoint0 p n) = 64"
  by (simp_all add: reset_device_def assign_regs_def fs_core_def endpoint0_def)

lemma ready_reset_device: "ready (reset_device p n r h)"
  by (simp add: ready_def transc_def reset_device_def fs_core_def fs_basic_def endpoint0_def)

definition request :: "8 word \<Rightarrow> 8 word \<Rightarrow> 16 word \<Rightarrow> 16 word \<Rightarrow> usb_req" where
  "request t b v l = \<lparr>bmRequestType = t, bRequest = b, wValue = v, wIndex = 0, wLength = l\<rparr>"

section \<open>The states of the standard\<close>

text \<open>C3: The state that the host can see (the status, the address in the hardware and the configuration) follows the
  state machine of the standard through setup packets of any number and kind, each of which returns, as long as
  the table of standard requests and the arrays of endpoints have what they name, and a Set_Address or
  Set_Configuration has the direction and the recipient of the standard (and as long as the handlers of the class
  return and leave that state, \<open>class_ok\<close>): only these two requests change the
  state, and as the standard says. (The driver looks neither at the direction nor at the recipient of these two, and
  a request beyond the table has no defined effect, \<open>unknown_request_undefined\<close>.)\<close>

theorem device_follows_standard:
  fixes u :: "('h, 'c) udev"
  assumes "usb_device_hw S L dcfg cfg" and "class_ok dcfg cfg K" and "ready u" and "is_state (seen dcfg cfg u) s"
    and "\<forall>r \<in> set rs. addressed r"
  shows "\<exists>u'. setups S L K rs u = Ret u' \<and> ready u' \<and>
    is_state (seen dcfg cfg u') (foldl (\<lambda>s r. ch9_next (USBD_CFG_MAX_NUM S) r s) s rs)"
  by (rule usb_device_hw.setups_state [OF assms(1,3,4,5,2)])

theorem device_follows_standard_witness:
  "\<exists>u'. setups gd32_usb gd32_place no_class [request 0 5 7 0, request 0 9 1 0, request 0x80 6 0x0100 18]
      (reset_device 0 0 (request 0 0 0 0) (\<lambda>_. 0)) = Ret u' \<and> cur_status u' = 3"
proof -
  let ?rs = "[request 0 5 7 0, request 0 9 1 0, request 0x80 6 0x0100 18]"
  let ?u = "reset_device 0 0 (request 0 0 0 0) (\<lambda>_. 0 :: reg)"
  have c: "class_ok dcfg cfg no_class" for dcfg cfg by (simp add: class_ok_def quiet_handler_def no_class_def)
  have s: "is_state (seen (\<lambda>h. h 0x50000800) (\<lambda>h. ucast (h 0x20000100)) ?u) Default"
    by (simp add: seen_def reset_device_def GET_BITS_def)
  have a: "\<forall>r \<in> set ?rs. addressed r" by (simp add: addressed_def request_def is_standard_def)
  have "foldl (\<lambda>s r. ch9_next (USBD_CFG_MAX_NUM gd32_usb) r s) Default ?rs = Configured 7 1"
    by (simp add: is_standard_def request_def set_address_to_def gd32_usb_def)
  then show ?thesis
    using device_follows_standard [OF gd32_usb.usb_device_hw_axioms c ready_reset_device s a] by (auto simp: seen_def)
qed

text \<open>A standard request whose number is beyond the table of thirteen handlers is not refused: the handler
  calls what lies behind the table, which is undefined, in every state of the device.\<close>

theorem unknown_request_undefined:
  assumes "bmRequestType (req u) AND 0x60 = 0" and "12 < bRequest (req u)"
  shows "usbd_setup_transc S L K u = Undef"
proof -
  have "bRequest (req u) \<notin> {0, 1, 2, 3, 4, 5, 6, 7, 8, 9, 10, 11, 12}" using assms(2) by auto
  then show ?thesis using assms(1) by (simp add: usbd_setup_transc_def usbd_standard_request_def Let_def)
qed

theorem unknown_request_undefined_witness:
  "usbd_setup_transc gd32_usb gd32_place no_class (reset_device 0 0 (request 0x80 13 0 2) (\<lambda>_. 0)) = Undef"
  using unknown_request_undefined [of "reset_device 0 0 (request 0x80 13 0 2) (\<lambda>_. 0 :: reg)"]
  by (simp add: reset_device_def request_def)

section \<open>Answers\<close>

lemma descriptor_fields:
  "ctl_zlp (answer_from p l u) = ctl_zlp u" "max_len (transc_in (answer_from p l u) 0) = max_len (transc_in u 0)"
  "ctl_zlp (usb_dev_desc_get S u) = ctl_zlp u" "max_len (transc_in (usb_dev_desc_get S u) 0) = max_len (transc_in u 0)"
  "ctl_zlp (usb_config_desc_get S u) = ctl_zlp u" "max_len (transc_in (usb_config_desc_get S u) 0) = max_len (transc_in u 0)"
  "ctl_zlp (usb_bos_desc_get S u) = ctl_zlp u" "max_len (transc_in (usb_bos_desc_get S u) 0) = max_len (transc_in u 0)"
  "ctl_zlp (usb_str_desc_get S i u) = ctl_zlp u" "max_len (transc_in (usb_str_desc_get S i u) 0) = max_len (transc_in u 0)"
  by (simp_all add: answer_from_def usb_dev_desc_get_def usb_config_desc_get_def usb_bos_desc_get_def usb_str_desc_get_def
    hw_get_simps Let_def)

text \<open>What \<open>_usb_std_getdescriptor\<close> looks up for the device, before the length is limited.\<close>

lemma descriptor_found:
  assumes "bmRequestType r AND 3 = 0"
  shows "\<exists>u1. usb_std_getdescriptor S K r u =
      (if remain_len (transc_in u1 0) \<noteq> 0 \<and> wLength r \<noteq> 0 then limit_answer r u1 else Ret (REQ_NOTSUPP, u1)) \<and>
    ctl_zlp u1 = ctl_zlp u \<and> max_len (transc_in u1 0) = max_len (transc_in u 0) \<and>
    (BYTE_HIGH (wValue r) \<notin> {1, 2, 3, 0xF} \<longrightarrow> u1 = u)"
proof -
  define t i where "t = BYTE_HIGH (wValue r)" and "i = BYTE_LOW (wValue r)"
  define u1 where "u1 =
    (if t = USB_DESCTYPE_DEV
     then (let u = usb_dev_desc_get S u in if wLength r = 64 then upd_transc True 0 (\<lambda>t. t\<lparr>remain_len := 8\<rparr>) u else u)
     else if t = USB_DESCTYPE_CONFIG then usb_config_desc_get S u
     else if t = USB_DESCTYPE_STR then (if i < STR_IDX_MAX then usb_str_desc_get S i u else u)
     else if t = USB_DESCTYPE_BOS then usb_bos_desc_get S u
     else u)"
  have "usb_std_getdescriptor S K r u =
      (if remain_len (transc_in u1 0) \<noteq> 0 \<and> wLength r \<noteq> 0 then limit_answer r u1 else Ret (REQ_NOTSUPP, u1))"
    using assms by (simp add: usb_std_getdescriptor_def Let_def u1_def t_def i_def)
  moreover have "ctl_zlp u1 = ctl_zlp u" "max_len (transc_in u1 0) = max_len (transc_in u 0)"
    by (simp_all add: u1_def Let_def descriptor_fields)
  moreover have "u1 = u" if "t \<notin> {1, 2, 3, 0xF}" using that by (simp add: u1_def)
  ultimately show ?thesis unfolding t_def by blast
qed

text \<open>For every recipient: for the interface, the class looks it up, and is taken to leave the flag and the size of
  the packets.\<close>

lemma answer_found:
  fixes u :: "('h, 'c) udev"
  assumes "\<forall>y v. bmRequestType r AND 3 = 1 \<and> req_proc K u r = Ret (y, v) \<longrightarrow>
      ctl_zlp v = ctl_zlp u \<and> max_len (transc_in v 0) = max_len (transc_in u 0)"
    and "usb_std_getdescriptor S K r u = Ret (x, u')" and "wLength r \<noteq> 0"
  shows "\<exists>v. (if remain_len (transc_in v 0) \<noteq> 0 then limit_answer r v = Ret (x, u') else u' = v) \<and>
    ctl_zlp v = ctl_zlp u \<and> max_len (transc_in v 0) = max_len (transc_in u 0)"
proof -
  consider "bmRequestType r AND 3 = 0" | "bmRequestType r AND 3 = 1" | "bmRequestType r AND 3 \<notin> {0, 1}" by blast
  then show ?thesis
  proof cases
    case 1
    from descriptor_found [OF this, of S K u] assms(2,3) show ?thesis by (auto split: if_splits)
  next
    case 2
    then obtain y v where v: "req_proc K u r = Ret (y, v)"
      using assms(2) by (cases "req_proc K u r") (auto simp: usb_std_getdescriptor_def Let_def)
    then show ?thesis
      using assms(1) [rule_format, OF conjI, OF 2 v] assms(2,3) 2 by (intro exI [of _ v]) (auto simp: usb_std_getdescriptor_def Let_def split: if_splits)
  next
    case 3
    then show ?thesis using assms(2,3) by (intro exI [of _ u]) (auto simp: usb_std_getdescriptor_def Let_def split: if_splits)
  qed
qed

lemma limit_answer_cases:
  fixes u :: "('h, 'c) udev"
  assumes "max_len (transc_in u 0) \<noteq> 0" and "limit_answer r u = Ret (x, u')"
  defines "n \<equiv> remain_len (transc_in u' 0)" and "m \<equiv> (ucast (max_len (transc_in u 0)) :: reg)"
  shows "x = REQ_SUPP \<and> max_len (transc_in u' 0) = max_len (transc_in u 0) \<and> n = min (remain_len (transc_in u 0)) (ucast (wLength r)) \<and>
    ctl_zlp u' = (if m \<le> n \<and> n < ucast (wLength r) \<and> n mod m = 0 then 1 else ctl_zlp u)"
  using assms(1,2) unfolding n_def m_def
  by (auto simp: limit_answer_def Let_def min_def split: if_splits del: mod_0_imp_dvd)

text \<open>C25: An answer to Get_Descriptor, for whichever recipient, is never longer than the host asked for; and if it is
  shorter than that and fills its last packet, the flag is set that makes an empty packet follow it, so that the
  host knows its end. In every other case the flag stays as it was: an empty packet that is still owed from an
  earlier answer, which the host did not read to its end, then follows this one. (Of the class, when the
  interface is asked, it is taken that it leaves the flag and the size of the packets.)\<close>

theorem answer_within_request:
  fixes u :: "('h, 'c) udev"
  assumes "\<forall>y v. bmRequestType r AND 3 = 1 \<and> req_proc K u r = Ret (y, v) \<longrightarrow>
      ctl_zlp v = ctl_zlp u \<and> max_len (transc_in v 0) = max_len (transc_in u 0)"
    and "max_len (transc_in u 0) \<noteq> 0" and "wLength r \<noteq> 0" and "usb_std_getdescriptor S K r u = Ret (x, u')"
  defines "n \<equiv> remain_len (transc_in u' 0)" and "m \<equiv> ucast (max_len (transc_in u' 0))"
  shows "n \<le> ucast (wLength r) \<and> ctl_zlp u' = (if n \<noteq> 0 \<and> n < ucast (wLength r) \<and> n mod m = 0 then 1 else ctl_zlp u)"
proof -
  obtain v where r: "if remain_len (transc_in v 0) \<noteq> 0 then limit_answer r v = Ret (x, u') else u' = v"
    and v: "ctl_zlp v = ctl_zlp u" "max_len (transc_in v 0) = max_len (transc_in u 0)"
    using answer_found [OF assms(1,4,3)] by blast
  have low: "m \<le> n" if "n \<noteq> 0" "n mod m = 0"
    using that by (metis mod_word_less not_le)
  show ?thesis
  proof (cases "remain_len (transc_in v 0) = 0")
    case True
    then show ?thesis using r v by (simp add: n_def)
  next
    case False
    then have "limit_answer r v = Ret (x, u')" using r by simp
    from limit_answer_cases [OF _ this] show ?thesis
      using v assms(2,3) low False by (auto simp: n_def m_def min_def)
  qed
qed

text \<open>A request for a descriptor of a kind that the device does not have is refused only if nothing is left
  of an earlier answer: after an answer that the host did not read to its end, the device answers with
  the rest of that one.\<close>

theorem unknown_descriptor_stale:
  assumes "bmRequestType r AND 3 = 0" and "BYTE_HIGH (wValue r) \<notin> {1, 2, 3, 0xF}" and "max_len (transc_in u 0) \<noteq> 0"
  shows "\<exists>u'. usb_std_getdescriptor S K r u =
      Ret (if remain_len (transc_in u 0) = 0 \<or> wLength r = 0 then REQ_NOTSUPP else REQ_SUPP, u') \<and>
    xfer_buf (transc_in u' 0) = xfer_buf (transc_in u 0)"
proof -
  obtain u1 where r: "usb_std_getdescriptor S K r u =
      (if remain_len (transc_in u1 0) \<noteq> 0 \<and> wLength r \<noteq> 0 then limit_answer r u1 else Ret (REQ_NOTSUPP, u1))" and "u1 = u"
    using descriptor_found [OF assms(1)] assms(2) by blast
  then show ?thesis using assms(3) by (auto simp: limit_answer_def Let_def)
qed

theorem unknown_descriptor_stale_witness:
  "\<exists>u'. usb_std_getdescriptor gd32_usb no_class (request 0x80 6 0x7700 18) (reset_device 0x20000000 40 (request 0 0 0 0) (\<lambda>_. 0)) =
    Ret (REQ_SUPP, u')"
  using unknown_descriptor_stale [of "request 0x80 6 0x7700 18" "reset_device 0x20000000 40 (request 0 0 0 0) (\<lambda>_. 0 :: reg)"
    gd32_usb no_class]
  by (auto simp: request_def reset_device_def endpoint0_def)

text \<open>A descriptor of 18 bytes, of which 8 are asked for, and one of 64 bytes, for which 255 are asked.\<close>

theorem answer_within_request_witness:
  "\<exists>x u' y v'. usb_std_getdescriptor gd32_usb no_class (request 0x80 6 0x0100 8) (reset_device 0 0 (request 0 0 0 0) (\<lambda>_. 0x02000112)) =
      Ret (x, u') \<and> remain_len (transc_in u' 0) \<le> 8 \<and>
    usb_std_getdescriptor gd32_usb no_class (request 0x81 6 0x2200 255) (reset_device 0 64 (request 0 0 0 0) (\<lambda>_. 0)) =
      Ret (y, v') \<and> ctl_zlp v' = 1"
proof -
  let ?r = "request 0x80 6 0x0100 8" and ?u = "reset_device 0 0 (request 0 0 0 0) (\<lambda>_. 0x02000112 :: reg)"
  let ?s = "request 0x81 6 0x2200 255" and ?v = "reset_device 0 64 (request 0 0 0 0) (\<lambda>_. 0 :: reg)"
  have len: "max_len (transc_in ?u 0) \<noteq> 0" "max_len (transc_in ?v 0) \<noteq> 0" "wLength ?r \<noteq> 0" "wLength ?s \<noteq> 0"
    by (simp_all add: reset_device_def endpoint0_def request_def)
  obtain x u' where r: "usb_std_getdescriptor gd32_usb no_class ?r ?u = Ret (x, u')"
    by (auto simp: usb_std_getdescriptor_def request_def limit_answer_def usb_dev_desc_get_def answer_from_def hw_get_simps
      reset_device_def endpoint0_def gd32_usb_def gd32_def gd32_read8_def Let_def)
  obtain y v' where s: "usb_std_getdescriptor gd32_usb no_class ?s ?v = Ret (y, v')" "remain_len (transc_in v' 0) = 64"
      "max_len (transc_in v' 0) = 64"
    by (auto simp: usb_std_getdescriptor_def request_def limit_answer_def reset_device_def endpoint0_def no_class_def Let_def)
  have "remain_len (transc_in u' 0) \<le> ucast (wLength ?r)"
    using answer_within_request [OF _ len(1,3) r] by (auto simp: no_class_def)
  moreover have "ctl_zlp v' = 1"
    using answer_within_request [OF _ len(2,4) s(1)] s(2,3) by (auto simp: no_class_def request_def)
  ultimately show ?thesis using r s(1) by (auto simp: request_def)
qed

section \<open>The packets of an answer\<close>

text \<open>C11: A control transfer to the host, from the answer to its status stage: with one interrupt for each
  packet, the endpoint is told the packets of the buffer, in order, each with its length and its words,
  64 bytes in each but the last; then the empty packet, if there is one; and the device goes on to the
  status stage.\<close>

theorem control_read_sent:
  assumes "usb_in_hw S mem sent M" and "ctlx_in K = None" and "ready u" and "max_len (transc_in u 0) = 64"
    and "remain_len (transc_in u 0) = of_nat n" and "n < 2 ^ 16" and "\<And>i. i < n + 3 \<Longrightarrow> xfer_buf (transc_in u 0) + of_nat i \<in> M"
  shows "\<exists>u1 u2. usbd_ctl_send S u = Ret u1 \<and>
    data_stage S L K (packet_count n + (if ctl_zlp u = 0 then 0 else 1)) u1 = Ret u2 \<and>
    sent (hw u2) = sent (hw u) @ packets (mem (hw u)) (xfer_buf (transc_in u 0)) n @
      (if ctl_zlp u = 0 then [] else [Packet_len 0]) \<and>
    ctl_state u2 = USB_CTL_STATUS_OUT \<and> ctl_zlp u2 = 0 \<and> remain_len (transc_in u2 0) = 0"
proof -
  let ?p = "xfer_buf (transc_in u 0)"
  obtain u1 where u1: "usbd_ctl_send S u = Ret u1" "sending u1 ?p n" "mem (hw u1) = mem (hw u)"
    "sent (hw u1) = sent (hw u) @ [Packet_len (of_nat (min n 64))]" "ctl_zlp u1 = ctl_zlp u"
    using usb_in_hw.ctl_send_result [OF assms(1,3-6)] by blast
  moreover have "packets (mem (hw u)) ?p n = Packet_len (of_nat (min n 64)) # tl (packets (mem (hw u)) ?p n)"
    by (subst (1 2) packets.simps) (auto simp: min_def)
  ultimately show ?thesis
    using usb_in_hw.data_stage_result [OF assms(1,2) u1(2) assms(7), of L] by fastforce
qed

theorem control_read_sent_witness:
  "\<exists>u1 u2. usbd_ctl_send gd32_in (reset_device 0x20000000 5 (request 0 0 0 0) ((\<lambda>_. 5)(0x20000000 := 0x04030201), [])) = Ret u1 \<and>
    data_stage gd32_in gd32_place no_class 1 u1 = Ret u2 \<and> snd (hw u2) = [Packet_len 5, Fifo_word 0x04030201, Fifo_word 5]"
proof -
  let ?h = "((\<lambda>_. 5)(0x20000000 := 0x04030201), []) :: recorded"
  let ?u = "reset_device 0x20000000 5 (request 0 0 0 0) ?h"
  have f: "xfer_buf (transc_in ?u 0) = 0x20000000" "remain_len (transc_in ?u 0) = of_nat 5" "max_len (transc_in ?u 0) = 64"
    "ctl_zlp ?u = 0" "hw ?u = ?h"
    by (simp_all add: reset_device_def endpoint0_def)
  have "i = 0 \<or> i = 1 \<or> i = 2 \<or> i = 3 \<or> i = 4 \<or> i = 5 \<or> i = 6 \<or> i = 7" if "i < 5 + 3" for i :: nat using that by auto
  then have M: "xfer_buf (transc_in ?u 0) + of_nat i \<in> ram" if "i < 5 + 3" for i
    using that unfolding f ram_def by fastforce
  have "packets (ram_byte (fst ?h)) 0x20000000 5 = [Packet_len 5, Fifo_word 0x04030201, Fifo_word 5]"
    by (simp add: packets.simps packet_words_def word_at_def upt_rec ram_byte_def ram_def gd32_read8_def)
  moreover have "ctlx_in no_class = None" by (simp add: no_class_def)
  ultimately show ?thesis
    using control_read_sent [OF gd32_in.usb_in_hw_axioms _ ready_reset_device f(3) f(2) _ M, of no_class gd32_place]
    by (auto simp: f packet_count_def)
qed

section \<open>Suspend and resume\<close>

text \<open>When the host resumes the device, the interrupt handler takes it for configured, whatever state it
  was suspended in; the state saved for that is not looked at.\<close>

theorem resume_configures:
  fixes u :: "('h, 'c) udev"
  assumes "registers (bus S) val A" and "{gr (regs u) + 0x14, gr (regs u) + 0x18} \<subseteq> A"
    and "\<not> bit (val (hw u) (gr (regs u) + 0x14)) 0"
    and "val (hw u) (gr (regs u) + 0x14) AND val (hw u) (gr (regs u) + 0x18) = BIT 31"
  shows "\<exists>u'. usbd_isr S L K u = Ret u' \<and> cur_status u' = USBD_CONFIGURED \<and> backup_status u' = backup_status u"
proof -
  have rd: "rd32 (bus S) (gr (regs u) + 0x14) (hw u) = (val (hw u) (gr (regs u) + 0x14), hw u)"
    "rd32 (bus S) (gr (regs u) + 0x18) (hw u) = (val (hw u) (gr (regs u) + 0x18), hw u)"
    using registers.rd_val [OF assms(1)] assms(2) by auto
  have "val (hw u) (gr (regs u) + 0x14) AND BIT 0 = 0" using assms(3) and_BIT by blast
  then have dev: "val (hw u) (gr (regs u) + 0x14) AND BIT 0 \<noteq> 1" by simp
  have same: "u\<lparr>hw := hw u\<rparr> = u" by simp
  have only: "BIT 31 AND BIT k \<noteq> 0 \<longleftrightarrow> k = 31" for k by (simp add: and_BIT) auto
  then have off: "on_bits (BIT 31) (BIT k) f v = (if k = 31 then f v else Ret v)" for k v and f :: "('h, 'c) udev \<Rightarrow> _"
    by (simp add: on_bits_def)
  have "BIT 31 \<noteq> 0" using only [of 31] by auto
  then show ?thesis
    using dev same by (simp add: usbd_isr_def hw_get_def rd assms(4) off clear_intr_def hw_do_def Let_def)
qed

theorem resume_configures_witness:
  "\<exists>u'. usbd_isr gd32_usb gd32_place no_class ((reset_device 0 0 (request 0 0 0 0)
      ((\<lambda>_. 0)(0x50000014 := 0x80000000, 0x50000018 := 0x80000000)))\<lparr>cur_status := 4, backup_status := 1\<rparr>) = Ret u' \<and>
    cur_status u' = 3 \<and> backup_status u' = 1"
proof -
  let ?u = "(reset_device 0 0 (request 0 0 0 0)
      ((\<lambda>_. 0 :: reg)(0x50000014 := 0x80000000, 0x50000018 := 0x80000000)))\<lparr>cur_status := 4, backup_status := 1\<rparr>"
  have b: "bus gd32_usb = gd32" by (simp add: gd32_usb_def)
  have s: "{0x50000014, 0x50000018} \<subseteq> {a. \<not> special a}"
    using not_port_usb [of "0x50000014"] not_port_usb [of "0x50000018"] by (simp add: special_def)
  have "registers (bus gd32_usb) (\<lambda>h. h) {a. \<not> special a}" unfolding b by (rule gd32.registers_axioms)
  from resume_configures [OF this, of ?u] show ?thesis
    using s by (simp add: BIT_def reset_device_def [THEN arg_cong [where f = backup_status]])
qed

section \<open>The serial number\<close>

lemma hex_digit_ascii: "d < 16 \<Longrightarrow> hex_digit (of_nat d) = of_char (''0123456789ABCDEF'' ! d)"
proof -
  have "\<forall>d \<in> set [0..<16]. hex_digit (of_nat d) = of_char (''0123456789ABCDEF'' ! d)" by code_simp
  then show "d < 16 \<Longrightarrow> hex_digit (of_nat d) = of_char (''0123456789ABCDEF'' ! d)" by simp
qed

lemma digits_outside:
  assumes "byte_registers B val A"
  shows "(\<And>j. j < 2 * n \<Longrightarrow> p + of_nat j \<in> A) \<Longrightarrow> b \<in> A \<Longrightarrow> (\<And>j. j < 2 * n \<Longrightarrow> b \<noteq> p + of_nat j) \<Longrightarrow>
    val (unicode_digits B n v p h) b = val h b"
proof (induction n arbitrary: v p h)
  case (Suc n)
  have A: "p \<in> A" "p + 1 \<in> A" "b \<noteq> p" "b \<noteq> p + 1"
    using Suc.prems(1,3) [of 0] Suc.prems(1,3) [of 1] by simp_all
  have "p + 2 + of_nat j \<in> A" "b \<noteq> p + 2 + of_nat j" if "j < 2 * n" for j
    using Suc.prems(1,3) [of "j + 2"] that by (simp_all add: add.assoc add.commute [of 2])
  from Suc.IH [OF this(1) Suc.prems(2) this(2)] show ?case
    using A Suc.prems(2) byte_registers.wr_val [OF assms] by simp
qed simp

lemma small_address: "m < 2 ^ 16 \<Longrightarrow> unat (of_nat m :: 32 word) = m"
  by (simp add: unsigned_of_nat take_bit_nat_eq_self)

lemma digits_inside:
  assumes "byte_registers B val A"
  shows "n \<le> 8 \<Longrightarrow> (\<And>j. j < 2 * n \<Longrightarrow> p + of_nat j \<in> A) \<Longrightarrow> i < n \<Longrightarrow>
    val (unicode_digits B n v p h) (p + of_nat (2 * i)) = hex_digit (drop_bit 28 (push_bit (4 * i) v)) \<and>
    val (unicode_digits B n v p h) (p + of_nat (2 * i + 1)) = 0"
proof (induction n arbitrary: v p h i)
  case (Suc n)
  have A: "p \<in> A" "p + 1 \<in> A" using Suc.prems(2) [of 0] Suc.prems(2) [of 1] by simp_all
  have A2: "p + 2 + of_nat j \<in> A" if "j < 2 * n" for j
    using Suc.prems(2) [of "j + 2"] that by (simp add: add.assoc add.commute [of 2])
  note wr = byte_registers.wr_val [OF assms]
  show ?case
  proof (cases i)
    case 0
    have "p + k \<noteq> p + 2 + of_nat j" if "j < 2 * n" "k \<in> {0, 1}" for j k
    proof
      assume "p + k = p + 2 + of_nat j"
      then have "k = of_nat (2 + j)" by (simp add: add.assoc)
      then have "unat k = unat (of_nat (2 + j) :: 32 word)" by simp
      moreover have "unat (of_nat (2 + j) :: 32 word) = 2 + j"
        by (rule small_address) (use that(1) Suc.prems(1) in simp)
      ultimately show False using that(2) by auto
    qed
    from this [of _ 0] this [of _ 1] have ne: "j < 2 * n \<Longrightarrow> p \<noteq> p + 2 + of_nat j" "j < 2 * n \<Longrightarrow> p + 1 \<noteq> p + 2 + of_nat j" for j
      unfolding add_0_right by blast+
    show ?thesis
      using digits_outside [OF assms A2 A(1) ne(1)] digits_outside [OF assms A2 A(2) ne(2)] A wr 0 by simp
  next
    case (Suc k)
    have "p + 2 + of_nat (2 * k) = p + of_nat (2 * i)" "p + 2 + of_nat (2 * k + 1) = p + of_nat (2 * i + 1)"
      by (simp_all add: Suc)
    moreover have "push_bit (4 * k) (push_bit 4 v) = push_bit (4 * i) v" by (simp add: Suc push_bit_push_bit add.commute)
    moreover have "k < n" "n \<le> 8" using Suc.prems(1,3) Suc by simp_all
    ultimately show ?thesis
      using Suc.IH [OF \<open>n \<le> 8\<close> A2 \<open>k < n\<close>, where v = "push_bit 4 v"] by (simp only: unicode_digits.simps)
  qed
qed simp

lemma top_digit: "i < 8 \<Longrightarrow> drop_bit 28 (push_bit (4 * i) v) = (of_nat (unat v div 16 ^ (7 - i) mod 16) :: reg)"
proof -
  assume "i < 8"
  then have "drop_bit 28 (push_bit (4 * i) v) = take_bit 4 (drop_bit (4 * (7 - i)) v)"
    by (intro bit_word_eqI) (auto simp: bit_simps algebra_simps)
  also have "\<dots> = of_nat (unat (take_bit 4 (drop_bit (4 * (7 - i)) v)))" by simp
  also have "unat (take_bit 4 (drop_bit (4 * (7 - i)) v)) = unat v div 16 ^ (7 - i) mod 16"
    by (simp only: unsigned_take_bit_eq unsigned_drop_bit_eq take_bit_eq_mod [where 'a = nat] drop_bit_eq_div [where 'a = nat] power_mult)
      (use unsigned_less [of v, where 'a = nat] in simp)
  finally show ?thesis .
qed

text \<open>The serial number is written as the string that the host reads: the upper digits of the number, in
  hexadecimal, the highest first, each a character of 16 bits; and nothing beside them is written.\<close>

theorem serial_in_hex:
  fixes B :: "'h bus" and h :: 'h and v :: reg
  assumes "byte_registers B val A" and "n \<le> 8" and "\<And>j. j < 2 * n \<Longrightarrow> p + of_nat j \<in> A"
  defines "h' \<equiv> int_to_unicode B v p (of_nat n) h"
  shows "(\<forall>i < n. val h' (p + of_nat (2 * i)) = of_char (''0123456789ABCDEF'' ! (unat v div 16 ^ (7 - i) mod 16)) \<and>
      val h' (p + of_nat (2 * i + 1)) = 0) \<and>
    (\<forall>b \<in> A. (\<forall>j < 2 * n. b \<noteq> p + of_nat j) \<longrightarrow> val h' b = val h b)"
proof -
  have "unat (of_nat n :: 8 word) = n" using assms(2) by (simp add: unsigned_of_nat take_bit_nat_eq_self)
  then have h': "h' = unicode_digits B n v p h" by (simp add: h'_def int_to_unicode_def)
  have "hex_digit (drop_bit 28 (push_bit (4 * i) v)) = of_char (''0123456789ABCDEF'' ! (unat v div 16 ^ (7 - i) mod 16))" if "i < n" for i
    using that assms(2) by (simp only: top_digit hex_digit_ascii)
  then show ?thesis
    unfolding h' using digits_inside [OF assms(1-3)] digits_outside [OF assms(1,3)] by metis
qed

theorem serial_in_hex_witness:
  "map (\<lambda>j. fst (gd32_read8 (0x20000002 + of_nat j) (int_to_unicode gd32 0x2F0A1B3C 0x20000002 4 (\<lambda>_. 0)))) [0, 2, 4, 6] =
   map of_char ''2F0A''"
proof -
  let ?h = "int_to_unicode gd32 0x2F0A1B3C 0x20000002 (of_nat 4) (\<lambda>_. 0 :: reg)"
  have "\<forall>i < 4. fst (gd32_read8 (0x20000002 + of_nat (2 * i)) ?h) =
      of_char (''0123456789ABCDEF'' ! (unat (0x2F0A1B3C :: reg) div 16 ^ (7 - i) mod 16))"
    using serial_in_hex [OF gd32_bytes.byte_registers_axioms, of 4 "0x20000002" "0x2F0A1B3C" "\<lambda>_. 0"] by simp
  from this [rule_format, of 0] this [rule_format, of 1] this [rule_format, of 2] this [rule_format, of 3]
  show ?thesis by (simp add: of_char_def)
qed

end
