(* ===== verification/Dfu.thy ===== *)
theory Dfu
  imports UsbdCore N200
begin

text \<open>
  The class of devices that take new firmware over USB: \<open>dfu_core.c\<close>, \<open>dfu_core.h\<close>, and the layer that chooses
  the memory, \<open>dfu_mal.c\<close>. The handler's state is the structure \<open>usbd_dfu_handler\<close> in memory, whose buffer
  the endpoint writes to; the data of the class is the pointer to it, NULL before \<open>dfu_init\<close>. The memory
  driver \<open>DFU_Flash_cb\<close> and the settings of \<open>usbd_conf.h\<close> belong to the application: they are fields of
  \<open>dfu_conf\<close>. The descriptors are constants; of them only \<open>bmAttributes\<close> and \<open>wDetachTimeOut\<close> decide anything.
\<close>

section \<open>Configuration\<close>

text \<open>A driver of a memory. Every function but the last may be missing.\<close>

record 'h dfu_mal_prop =
  mal_init :: "('h \<Rightarrow> 8 word \<times> 'h) option"
  mal_deinit :: "('h \<Rightarrow> 8 word \<times> 'h) option"
  mal_erase :: "(reg \<Rightarrow> 'h \<Rightarrow> 8 word \<times> 'h) option"
  mal_write :: "(32 word \<Rightarrow> reg \<Rightarrow> reg \<Rightarrow> 'h \<Rightarrow> 8 word \<times> 'h) option"
  mal_read :: "(32 word \<Rightarrow> reg \<Rightarrow> reg \<Rightarrow> 'h \<Rightarrow> 32 word \<times> 'h) option"
  mal_checkaddr :: "reg \<Rightarrow> 'h \<Rightarrow> 8 word \<times> 'h"
  erase_timeout :: reg
  write_timeout :: reg

record 'h dfu_conf =
  DFU_Flash_cb :: "'h dfu_mal_prop"
  MAX_USED_MEMORY_MEDIA :: nat
  IS_PROTECTED_AREA :: "reg \<Rightarrow> bool"
  OB_RDPT :: reg
  APP_LOADED_ADDR :: reg
  TRANSFER_SIZE :: reg
  dfu_handler_at :: "32 word"

abbreviation (input) MANIFEST_COMPLETE :: "8 word" where "MANIFEST_COMPLETE \<equiv> 0"
abbreviation (input) MANIFEST_IN_PROGRESS :: "8 word" where "MANIFEST_IN_PROGRESS \<equiv> 1"
abbreviation (input) USB_DFU_CAN_DOWNLOAD :: "8 word" where "USB_DFU_CAN_DOWNLOAD \<equiv> 0x01"
abbreviation (input) USB_DFU_CAN_UPLOAD :: "8 word" where "USB_DFU_CAN_UPLOAD \<equiv> 0x02"
abbreviation (input) USB_DFU_WILL_DETACH :: "8 word" where "USB_DFU_WILL_DETACH \<equiv> 0x08"
abbreviation (input) GET_COMMANDS :: "8 word" where "GET_COMMANDS \<equiv> 0x00"
abbreviation (input) SET_ADDRESS_POINTER :: "8 word" where "SET_ADDRESS_POINTER \<equiv> 0x21"
abbreviation (input) ERASE :: "8 word" where "ERASE \<equiv> 0x41"
abbreviation (input) CMD_ERASE :: "8 word" where "CMD_ERASE \<equiv> 0"
abbreviation (input) CMD_WRITE :: "8 word" where "CMD_WRITE \<equiv> 1"
abbreviation (input) DFU_DETACH_MASK :: "8 word" where "DFU_DETACH_MASK \<equiv> 0x10"
abbreviation (input) MAL_OK :: "8 word" where "MAL_OK \<equiv> 0"
abbreviation (input) MAL_FAIL :: "8 word" where "MAL_FAIL \<equiv> 1"
abbreviation (input) STATE_DFU_IDLE :: "8 word" where "STATE_DFU_IDLE \<equiv> 2"
abbreviation (input) STATE_DFU_DNLOAD_SYNC :: "8 word" where "STATE_DFU_DNLOAD_SYNC \<equiv> 3"
abbreviation (input) STATE_DFU_DNBUSY :: "8 word" where "STATE_DFU_DNBUSY \<equiv> 4"
abbreviation (input) STATE_DFU_DNLOAD_IDLE :: "8 word" where "STATE_DFU_DNLOAD_IDLE \<equiv> 5"
abbreviation (input) STATE_DFU_MANIFEST_SYNC :: "8 word" where "STATE_DFU_MANIFEST_SYNC \<equiv> 6"
abbreviation (input) STATE_DFU_MANIFEST :: "8 word" where "STATE_DFU_MANIFEST \<equiv> 7"
abbreviation (input) STATE_DFU_MANIFEST_WAIT_RESET :: "8 word" where "STATE_DFU_MANIFEST_WAIT_RESET \<equiv> 8"
abbreviation (input) STATE_DFU_UPLOAD_IDLE :: "8 word" where "STATE_DFU_UPLOAD_IDLE \<equiv> 9"
abbreviation (input) STATE_DFU_ERROR :: "8 word" where "STATE_DFU_ERROR \<equiv> 10"
abbreviation (input) STATUS_OK :: "8 word" where "STATUS_OK \<equiv> 0"
abbreviation (input) STATUS_ERR_UNKNOWN :: "8 word" where "STATUS_ERR_UNKNOWN \<equiv> 14"
abbreviation (input) STATUS_ERR_STALLEDPKT :: "8 word" where "STATUS_ERR_STALLEDPKT \<equiv> 15"

text \<open>The fields of the functional descriptor.\<close>

definition dfu_bmAttributes :: "8 word" where
  "dfu_bmAttributes = USB_DFU_CAN_DOWNLOAD OR USB_DFU_CAN_UPLOAD OR USB_DFU_WILL_DETACH"

definition dfu_wDetachTimeOut :: "16 word" where
  "dfu_wDetachTimeOut = 0x00FF"

text \<open>The structure of the handler, as the processor's ABI lays it out: bytes, a word, a half-word, a word and the
  buffer.\<close>

abbreviation (input) bStatus_at :: "32 word \<Rightarrow> 32 word" where "bStatus_at p \<equiv> p + 0"
abbreviation (input) bwPollTimeout0_at :: "32 word \<Rightarrow> 32 word" where "bwPollTimeout0_at p \<equiv> p + 1"
abbreviation (input) bState_at :: "32 word \<Rightarrow> 32 word" where "bState_at p \<equiv> p + 4"
abbreviation (input) iString_at :: "32 word \<Rightarrow> 32 word" where "iString_at p \<equiv> p + 5"
abbreviation (input) manifest_state_at :: "32 word \<Rightarrow> 32 word" where "manifest_state_at p \<equiv> p + 6"
abbreviation (input) data_len_at :: "32 word \<Rightarrow> 32 word" where "data_len_at p \<equiv> p + 8"
abbreviation (input) block_num_at :: "32 word \<Rightarrow> 32 word" where "block_num_at p \<equiv> p + 12"
abbreviation (input) base_addr_at :: "32 word \<Rightarrow> 32 word" where "base_addr_at p \<equiv> p + 16"
abbreviation (input) buf_at :: "32 word \<Rightarrow> 32 word" where "buf_at p \<equiv> p + 20"

definition handler_size :: "'h dfu_conf \<Rightarrow> nat" where
  "handler_size D = 4 * ((20 + unat (TRANSFER_SIZE D) + 3) div 4)"

section \<open>The memories\<close>

text \<open>The table has one driver: another index is a NULL pointer, if the table has it at all.\<close>

definition tMALTab :: "'h dfu_conf \<Rightarrow> nat \<Rightarrow> 'h dfu_mal_prop outcome" where
  "tMALTab D i = (if i = 0 \<and> 0 < MAX_USED_MEMORY_MEDIA D then Ret (DFU_Flash_cb D) else Undef)"

fun for_media :: "'h dfu_conf \<Rightarrow> ('h dfu_mal_prop \<Rightarrow> 'h \<Rightarrow> 'h) \<Rightarrow> nat list \<Rightarrow> 'h \<Rightarrow> 'h outcome" where
  "for_media D f [] h = Ret h"
| "for_media D f (i # is) h = bindo (tMALTab D i) (\<lambda>m. for_media D f is (f m h))"

definition dfu_mal_init :: "'h dfu_conf \<Rightarrow> 'h \<Rightarrow> 'h outcome" where
  "dfu_mal_init D h =
     for_media D (\<lambda>m h. case mal_init m of None \<Rightarrow> h | Some f \<Rightarrow> snd (f h)) [0..<MAX_USED_MEMORY_MEDIA D] h"

definition dfu_mal_deinit :: "'h dfu_conf \<Rightarrow> 'h \<Rightarrow> 'h outcome" where
  "dfu_mal_deinit D h =
     for_media D (\<lambda>m h. case mal_deinit m of None \<Rightarrow> h | Some f \<Rightarrow> snd (f h)) [0..<MAX_USED_MEMORY_MEDIA D] h"

fun checkaddr_from :: "'h dfu_conf \<Rightarrow> reg \<Rightarrow> nat list \<Rightarrow> 'h \<Rightarrow> (nat \<times> 'h) outcome" where
  "checkaddr_from D addr [] h = Ret (MAX_USED_MEMORY_MEDIA D, h)"
| "checkaddr_from D addr (i # is) h =
     bindo (tMALTab D i) (\<lambda>m. let (r, h) = mal_checkaddr m addr h
       in if r = MAL_OK then Ret (i, h) else checkaddr_from D addr is h)"

definition dfu_mal_checkaddr :: "'h dfu_conf \<Rightarrow> reg \<Rightarrow> 'h \<Rightarrow> (nat \<times> 'h) outcome" where
  "dfu_mal_checkaddr D addr h = checkaddr_from D addr [0..<MAX_USED_MEMORY_MEDIA D] h"

definition dfu_mal_erase :: "'h dfu_conf \<Rightarrow> reg \<Rightarrow> 'h \<Rightarrow> (8 word \<times> 'h) outcome" where
  "dfu_mal_erase D addr h =
     bindo (dfu_mal_checkaddr D addr h) (\<lambda>(mem_index, h).
       if IS_PROTECTED_AREA D addr then Ret (MAL_FAIL, h)
       else if mem_index < MAX_USED_MEMORY_MEDIA D
       then bindo (tMALTab D mem_index) (\<lambda>m. case mal_erase m of Some f \<Rightarrow> Ret (f addr h) | None \<Rightarrow> Ret (MAL_FAIL, h))
       else Ret (MAL_FAIL, h))"

definition dfu_mal_write :: "'h dfu_conf \<Rightarrow> 32 word \<Rightarrow> reg \<Rightarrow> reg \<Rightarrow> 'h \<Rightarrow> (8 word \<times> 'h) outcome" where
  "dfu_mal_write D buf addr len h =
     bindo (dfu_mal_checkaddr D addr h) (\<lambda>(mem_index, h).
       if IS_PROTECTED_AREA D addr then Ret (MAL_FAIL, h)
       else if mem_index < MAX_USED_MEMORY_MEDIA D
       then bindo (tMALTab D mem_index) (\<lambda>m. case mal_write m of Some f \<Rightarrow> Ret (f buf addr len h) | None \<Rightarrow> Ret (MAL_FAIL, h))
       else Ret (MAL_FAIL, h))"

definition dfu_mal_read :: "'h dfu_conf \<Rightarrow> 32 word \<Rightarrow> reg \<Rightarrow> reg \<Rightarrow> 'h \<Rightarrow> (32 word \<times> 'h) outcome" where
  "dfu_mal_read D buf addr len h =
     bindo (if addr \<noteq> OB_RDPT D then dfu_mal_checkaddr D addr h else Ret (0, h)) (\<lambda>(mem_index, h).
       if mem_index < MAX_USED_MEMORY_MEDIA D
       then bindo (tMALTab D mem_index) (\<lambda>m. case mal_read m of Some f \<Rightarrow> Ret (f buf addr len h) | None \<Rightarrow> Ret (buf, h))
       else Ret (buf, h))"

definition SET_POLLING_TIMEOUT :: "'h bus \<Rightarrow> 32 word \<Rightarrow> reg \<Rightarrow> 'h \<Rightarrow> 'h" where
  "SET_POLLING_TIMEOUT B buffer x h =
     (let h = wr8 B buffer (ucast (x AND 0xFF)) h;
          h = wr8 B (buffer + 1) (ucast (drop_bit 8 (x AND 0xFF00))) h
      in wr8 B (buffer + 2) (ucast (drop_bit 16 (x AND 0xFF0000))) h)"

definition dfu_mal_getstatus :: "'h bus \<Rightarrow> 'h dfu_conf \<Rightarrow> reg \<Rightarrow> 8 word \<Rightarrow> 32 word \<Rightarrow> 'h \<Rightarrow> (8 word \<times> 'h) outcome" where
  "dfu_mal_getstatus B D addr cmd buffer h =
     bindo (dfu_mal_checkaddr D addr h) (\<lambda>(mem_index, h).
       if mem_index < MAX_USED_MEMORY_MEDIA D
       then bindo (tMALTab D mem_index) (\<lambda>m.
            Ret (MAL_OK, SET_POLLING_TIMEOUT B buffer (if cmd AND 0x01 \<noteq> 0 then write_timeout m else erase_timeout m) h))
       else Ret (MAL_FAIL, h))"

section \<open>The class\<close>

type_synonym 'h dfu_dev = "('h, 32 word) udev"

text \<open>The handler behind the pointer.\<close>

definition with_dfu :: "'h dfu_dev \<Rightarrow> (32 word \<Rightarrow> 'a outcome) \<Rightarrow> 'a outcome" where
  "with_dfu u k = (if class_data u = 0 then Undef else k (class_data u))"

text \<open>A call of the memory layer whose result is ignored.\<close>

definition mal_do :: "('h \<Rightarrow> ('v \<times> 'h) outcome) \<Rightarrow> 'h dfu_dev \<Rightarrow> 'h dfu_dev outcome" where
  "mal_do f u = hw_try (\<lambda>h. bindo (f h) (\<lambda>(_, h). Ret h)) u"

definition dfu_init :: "'h usb_sys \<Rightarrow> 'h dfu_conf \<Rightarrow> 8 word \<Rightarrow> 'h dfu_dev \<Rightarrow> (8 word \<times> 'h dfu_dev) outcome" where
  "dfu_init S D config_index u =
     bindo (hw_try (dfu_mal_init D) u) (\<lambda>u.
       let p = dfu_handler_at D;
           u = hw_do (zero_bytes (bus S) p (handler_size D)) u;
           u = put32 S (base_addr_at p) (APP_LOADED_ADDR D) u;
           u = put8 S (manifest_state_at p) MANIFEST_COMPLETE u;
           u = put8 S (bState_at p) STATE_DFU_IDLE u;
           u = put8 S (bStatus_at p) STATUS_OK u
       in Ret (USBD_OK, u\<lparr>class_data := p\<rparr>))"

definition dfu_deinit :: "'h usb_sys \<Rightarrow> 'h dfu_conf \<Rightarrow> 8 word \<Rightarrow> 'h dfu_dev \<Rightarrow> (8 word \<times> 'h dfu_dev) outcome" where
  "dfu_deinit S D config_index u =
     with_dfu u (\<lambda>p.
       let u = hw_do (zero_bytes (bus S) p (handler_size D)) u;
           u = put8 S (bState_at p) STATE_DFU_IDLE u;
           u = put8 S (bStatus_at p) STATUS_OK u
       in bindo (hw_try (dfu_mal_deinit D) u) (\<lambda>u. Ret (USBD_OK, u)))"

definition dfu_mode_leave :: "'h usb_sys \<Rightarrow> 'h dfu_conf \<Rightarrow> 'h dfu_dev \<Rightarrow> 'h dfu_dev outcome" where
  "dfu_mode_leave S D u =
     with_dfu u (\<lambda>p.
       let u = put8 S (manifest_state_at p) MANIFEST_COMPLETE u
       in if dfu_bmAttributes AND 0x04 \<noteq> 0
          then Ret (put8 S (bState_at p) STATE_DFU_MANIFEST_SYNC u)
          else bindo (hw_try (dfu_mal_deinit D) (put8 S (bState_at p) STATE_DFU_MANIFEST_WAIT_RESET u)) (\<lambda>u.
               Ret (hw_do (eclic_system_reset (bus S)) u)))"

text \<open>What a download asks for is done when the host has read the status.\<close>

definition dfu_command :: "'h usb_sys \<Rightarrow> 'h dfu_conf \<Rightarrow> 32 word \<Rightarrow> 'h dfu_dev \<Rightarrow> 'h dfu_dev outcome" where
  "dfu_command S D p u =
     (let B = bus S;
          (block_num, u) = hw_get (rd16 B (block_num_at p)) u
      in if block_num = 0
         then (let (data_len, u) = hw_get (rd32 B (data_len_at p)) u
               in if data_len = 1 then Ret (snd (hw_get (rd8 B (buf_at p)) u))
                  else if data_len = 5
                  then (let (c, u) = hw_get (rd8 B (buf_at p)) u
                        in if c = SET_ADDRESS_POINTER
                           then (let (a, u) = hw_get (rd_packed B (buf_at p + 1)) u in Ret (put32 S (base_addr_at p) a u))
                           else if c = ERASE
                           then (let (a, u) = hw_get (rd_packed B (buf_at p + 1)) u;
                                     u = put32 S (base_addr_at p) a u;
                                     (a, u) = hw_get (rd32 B (base_addr_at p)) u
                                 in mal_do (dfu_mal_erase D a) u)
                           else Ret u)
                  else Ret u)
         else if 1 < block_num
         then (let (base, u) = hw_get (rd32 B (base_addr_at p)) u;
                   addr = (ucast block_num - 2) * TRANSFER_SIZE D + base;
                   (data_len, u) = hw_get (rd32 B (data_len_at p)) u
               in bindo (mal_do (dfu_mal_write D (buf_at p) addr data_len) u) (\<lambda>u. Ret (put16 S (block_num_at p) 0 u)))
         else Ret u)"

definition dfu_getstatus_complete :: "'h usb_sys \<Rightarrow> 'h dfu_conf \<Rightarrow> 'h dfu_dev \<Rightarrow> 'h dfu_dev outcome" where
  "dfu_getstatus_complete S D u =
     with_dfu u (\<lambda>p.
       let (state, u) = hw_get (rd8 (bus S) (bState_at p)) u
       in if state = STATE_DFU_DNBUSY
          then bindo (dfu_command S D p u) (\<lambda>u.
               let u = put32 S (data_len_at p) 0 u in Ret (put8 S (bState_at p) STATE_DFU_DNLOAD_SYNC u))
          else if state = STATE_DFU_MANIFEST then dfu_mode_leave S D u
          else Ret u)"

definition dfu_ctlx_in :: "'h usb_sys \<Rightarrow> 'h dfu_conf \<Rightarrow> 'h dfu_dev \<Rightarrow> (8 word \<times> 'h dfu_dev) outcome" where
  "dfu_ctlx_in S D u = bindo (dfu_getstatus_complete S D u) (\<lambda>u. Ret (USBD_OK, u))"

section \<open>Requests\<close>

text \<open>Back to idle, from the states that a transfer may be given up in.\<close>

definition to_idle :: "'h usb_sys \<Rightarrow> 32 word \<Rightarrow> 'h dfu_dev \<Rightarrow> 'h dfu_dev" where
  "to_idle S p u =
     (let (state, u) = hw_get (rd8 (bus S) (bState_at p)) u
      in if state = STATE_DFU_IDLE \<or> state = STATE_DFU_DNLOAD_SYNC \<or> state = STATE_DFU_DNLOAD_IDLE \<or>
            state = STATE_DFU_MANIFEST_SYNC \<or> state = STATE_DFU_UPLOAD_IDLE
         then (let u = put8 S (bStatus_at p) STATUS_OK u;
                   u = put8 S (bState_at p) STATE_DFU_IDLE u;
                   u = put8 S (iString_at p) 0 u;
                   u = put16 S (block_num_at p) 0 u
               in put32 S (data_len_at p) 0 u)
         else u)"

definition dfu_detach :: "'h usb_sys \<Rightarrow> usb_req \<Rightarrow> 'h dfu_dev \<Rightarrow> 'h dfu_dev outcome" where
  "dfu_detach S r u =
     with_dfu u (\<lambda>p.
       let u = to_idle S p u
       in Ret (if dfu_wDetachTimeOut AND ucast DFU_DETACH_MASK \<noteq> 0 then usbd_connect S (usbd_disconnect S u)
               else hw_do (usb_mdelay S 4) u))"

definition dfu_dnload :: "'h usb_sys \<Rightarrow> usb_req \<Rightarrow> 'h dfu_dev \<Rightarrow> 'h dfu_dev outcome" where
  "dfu_dnload S r u =
     with_dfu u (\<lambda>p.
       let B = bus S;
           (state, u) = hw_get (rd8 B (bState_at p)) u
       in Ret (if state = STATE_DFU_IDLE \<or> state = STATE_DFU_DNLOAD_IDLE
               then if 0 < wLength r
                    then (let u = put16 S (block_num_at p) (wValue r) u;
                              u = put32 S (data_len_at p) (ucast (wLength r)) u;
                              u = put8 S (bState_at p) STATE_DFU_DNLOAD_SYNC u;
                              (data_len, u) = hw_get (rd32 B (data_len_at p)) u
                          in upd_transc False 0 (\<lambda>t. t\<lparr>remain_len := data_len, xfer_buf := buf_at p\<rparr>) u)
                    else put8 S (bState_at p) STATE_DFU_MANIFEST_SYNC (put8 S (manifest_state_at p) MANIFEST_IN_PROGRESS u)
               else u))"

definition dfu_upload :: "'h usb_sys \<Rightarrow> 'h dfu_conf \<Rightarrow> usb_req \<Rightarrow> 'h dfu_dev \<Rightarrow> 'h dfu_dev outcome" where
  "dfu_upload S D r u =
     with_dfu u (\<lambda>p.
       let B = bus S
       in if wLength r = 0 then Ret (put8 S (bState_at p) STATE_DFU_IDLE u)
          else (let (state, u) = hw_get (rd8 B (bState_at p)) u
                in if state = STATE_DFU_IDLE \<or> state = STATE_DFU_UPLOAD_IDLE
                   then (let u = put16 S (block_num_at p) (wValue r) u;
                             u = put32 S (data_len_at p) (ucast (wLength r)) u;
                             (block_num, u) = hw_get (rd16 B (block_num_at p)) u
                         in if block_num = 0
                            then (let (data_len, u) = hw_get (rd32 B (data_len_at p)) u;
                                      u = put8 S (bState_at p) (if 3 < data_len then STATE_DFU_IDLE else STATE_DFU_UPLOAD_IDLE) u;
                                      u = put8 S (buf_at p) GET_COMMANDS u;
                                      u = put8 S (buf_at p + 1) SET_ADDRESS_POINTER u;
                                      u = put8 S (buf_at p + 2) ERASE u
                                  in Ret (upd_transc True 0 (\<lambda>t. t\<lparr>xfer_buf := buf_at p, remain_len := 3\<rparr>) u))
                            else if 1 < block_num
                            then (let u = put8 S (bState_at p) STATE_DFU_UPLOAD_IDLE u;
                                      (base, u) = hw_get (rd32 B (base_addr_at p)) u;
                                      addr = (ucast block_num - 2) * TRANSFER_SIZE D + base;
                                      (data_len, u) = hw_get (rd32 B (data_len_at p)) u
                                  in bindo (dfu_mal_read D (buf_at p) addr data_len (hw u)) (\<lambda>(phy_addr, h).
                                     let u = u\<lparr>hw := h\<rparr>;
                                         (data_len, u) = hw_get (rd32 B (data_len_at p)) u
                                     in Ret (upd_transc True 0 (\<lambda>t. t\<lparr>xfer_buf := phy_addr, remain_len := data_len\<rparr>) u)))
                            else Ret (put8 S (bState_at p) STATUS_ERR_STALLEDPKT u))
                   else Ret (put16 S (block_num_at p) 0 (put32 S (data_len_at p) 0 u))))"

definition dfu_getstatus :: "'h usb_sys \<Rightarrow> 'h dfu_conf \<Rightarrow> usb_req \<Rightarrow> 'h dfu_dev \<Rightarrow> 'h dfu_dev outcome" where
  "dfu_getstatus S D r u =
     with_dfu u (\<lambda>p.
       let B = bus S;
           (state, u) = hw_get (rd8 B (bState_at p)) u
       in bindo
         (if state = STATE_DFU_DNLOAD_SYNC
          then (let (data_len, u) = hw_get (rd32 B (data_len_at p)) u
                in if data_len \<noteq> 0
                   then (let u = put8 S (bState_at p) STATE_DFU_DNBUSY u;
                             (block_num, u) = hw_get (rd16 B (block_num_at p)) u
                         in if block_num = 0
                            then (let (c, u) = hw_get (rd8 B (buf_at p)) u;
                                      (base, u) = hw_get (rd32 B (base_addr_at p)) u
                                  in mal_do (dfu_mal_getstatus B D base (if c = ERASE then CMD_ERASE else CMD_WRITE)
                                       (bwPollTimeout0_at p)) u)
                            else Ret u)
                   else Ret (put8 S (bState_at p) STATE_DFU_DNLOAD_IDLE u))
          else if state = STATE_DFU_MANIFEST_SYNC
          then (let (manifest, u) = hw_get (rd8 B (manifest_state_at p)) u
                in if manifest = MANIFEST_IN_PROGRESS
                   then Ret (put8 S (bwPollTimeout0_at p) 1 (put8 S (bState_at p) STATE_DFU_MANIFEST u))
                   else (let (manifest, u) = hw_get (rd8 B (manifest_state_at p)) u
                         in if manifest = MANIFEST_COMPLETE \<and> dfu_bmAttributes AND 0x04 \<noteq> 0
                            then Ret (put8 S (bwPollTimeout0_at p) 0 (put8 S (bState_at p) STATE_DFU_IDLE u))
                            else Ret u))
          else Ret u)
         (\<lambda>u. Ret (upd_transc True 0 (\<lambda>t. t\<lparr>xfer_buf := bStatus_at p, remain_len := 6\<rparr>) u)))"

definition dfu_clrstatus :: "'h usb_sys \<Rightarrow> usb_req \<Rightarrow> 'h dfu_dev \<Rightarrow> 'h dfu_dev outcome" where
  "dfu_clrstatus S r u =
     with_dfu u (\<lambda>p.
       let (state, u) = hw_get (rd8 (bus S) (bState_at p)) u;
           u = (if state = STATE_DFU_ERROR
                then put8 S (bState_at p) STATE_DFU_IDLE (put8 S (bStatus_at p) STATUS_OK u)
                else put8 S (bState_at p) STATE_DFU_ERROR (put8 S (bStatus_at p) STATUS_ERR_UNKNOWN u))
       in Ret (put8 S (iString_at p) 0 u))"

definition dfu_getstate :: "'h usb_sys \<Rightarrow> usb_req \<Rightarrow> 'h dfu_dev \<Rightarrow> 'h dfu_dev outcome" where
  "dfu_getstate S r u =
     with_dfu u (\<lambda>p. Ret (upd_transc True 0 (\<lambda>t. t\<lparr>xfer_buf := bState_at p, remain_len := 1\<rparr>) u))"

definition dfu_abort :: "'h usb_sys \<Rightarrow> usb_req \<Rightarrow> 'h dfu_dev \<Rightarrow> 'h dfu_dev outcome" where
  "dfu_abort S r u = with_dfu u (\<lambda>p. Ret (to_idle S p u))"

text \<open>The table \<open>dfu_request_process\<close>, with its check.\<close>

definition dfu_req_handler ::
  "'h usb_sys \<Rightarrow> 'h dfu_conf \<Rightarrow> usb_req \<Rightarrow> 'h dfu_dev \<Rightarrow> (8 word \<times> 'h dfu_dev) outcome" where
  "dfu_req_handler S D r u =
     (if bRequest r < 7
      then bindo
        (if bRequest r = 0 then dfu_detach S r u
         else if bRequest r = 1 then dfu_dnload S r u
         else if bRequest r = 2 then dfu_upload S D r u
         else if bRequest r = 3 then dfu_getstatus S D r u
         else if bRequest r = 4 then dfu_clrstatus S r u
         else if bRequest r = 5 then dfu_getstate S r u
         else dfu_abort S r u)
        (\<lambda>u. Ret (USBD_OK, u))
      else Ret (USBD_FAIL, u))"

definition dfu_class :: "'h usb_sys \<Rightarrow> 'h dfu_conf \<Rightarrow> ('h, 32 word) usb_class_core" where
  "dfu_class S D = \<lparr>init_proc = (\<lambda>u c. dfu_init S D c u), deinit_proc = (\<lambda>u c. dfu_deinit S D c u),
     req_proc = (\<lambda>u r. dfu_req_handler S D r u), set_intf = None, ctlx_in = Some (dfu_ctlx_in S D), ctlx_out = None,
     data_in = None, data_out = None, SOF = None, incomplete_isoc_in = None, incomplete_isoc_out = None\<rparr>"

end
