(* ===== verification/DfuClaims.thy ===== *)
theory DfuClaims
  imports Dfu UsbdClaims
begin

text \<open>
  The device that takes new firmware: the machine of the DFU standard (\<open>dfu11\<close>), with what it says of each
  request in each of its states; the moves that the driver makes, in the standard's states and beside them
  (\<open>dfu_move\<close>); that the driver makes these moves and no others, and follows the standard wherever the standard
  has a move; and what follows for the memory.
\<close>

section \<open>The moves of the driver\<close>

datatype dfu_event = Request usb_req | Answer_read

text \<open>The state, the block that was announced, the address of the firmware, and the writes to the memory so
  far: where the bytes are, where they go to and how many.\<close>

record dfu_view =
  v_status :: "8 word"
  v_state :: "8 word"
  v_manifest :: "8 word"
  v_len :: reg
  v_block :: "16 word"
  v_base :: reg
  v_log :: "(32 word \<times> reg \<times> reg) list"

definition block_addr :: "'h dfu_conf \<Rightarrow> dfu_view \<Rightarrow> reg" where
  "block_addr D s = (ucast (v_block s) - 2) * TRANSFER_SIZE D + v_base s"

text \<open>A write that the memory layer lets through: \<open>F\<close> are the addresses of the memory. As the memory layer
  does, this looks at the address where a write starts, and not at the rest of the block.\<close>

definition writable :: "'h dfu_conf \<Rightarrow> reg set \<Rightarrow> reg \<Rightarrow> bool" where
  "writable D F a \<longleftrightarrow> a \<in> F \<and> \<not> IS_PROTECTED_AREA D a \<and> mal_write (DFU_Flash_cb D) \<noteq> None"

text \<open>What each request, and the end of an answer, does in each state. Some of these moves the standard does not
  have: an upload of no data that leads to the idle state from anywhere, an upload of block 1 that leads to a
  state without a name (15), the request to clear an error that makes one where there is none, an abort while
  a block waits. The requests are numbered 0 (detach), 1 (download), 2 (upload), 3 (get status), 4 (clear
  status), 5 (get state) and 6 (abort).\<close>

inductive dfu_move :: "'h dfu_conf \<Rightarrow> reg set \<Rightarrow> dfu_event \<Rightarrow> dfu_view \<Rightarrow> dfu_view \<Rightarrow> bool" for D F where
  give_up: "bRequest r \<in> {0, 6} \<Longrightarrow> v_state s \<in> {2, 3, 5, 6, 9} \<Longrightarrow>
    dfu_move D F (Request r) s (s\<lparr>v_status := 0, v_state := 2, v_block := 0, v_len := 0\<rparr>)"
| give_up_not: "bRequest r \<in> {0, 6} \<Longrightarrow> v_state s \<notin> {2, 3, 5, 6, 9} \<Longrightarrow> dfu_move D F (Request r) s s"
| download: "bRequest r = 1 \<Longrightarrow> v_state s \<in> {2, 5} \<Longrightarrow> wLength r \<noteq> 0 \<Longrightarrow>
    dfu_move D F (Request r) s (s\<lparr>v_block := wValue r, v_len := ucast (wLength r), v_state := 3\<rparr>)"
| download_end: "bRequest r = 1 \<Longrightarrow> v_state s \<in> {2, 5} \<Longrightarrow> wLength r = 0 \<Longrightarrow>
    dfu_move D F (Request r) s (s\<lparr>v_manifest := 1, v_state := 6\<rparr>)"
| download_not: "bRequest r = 1 \<Longrightarrow> v_state s \<notin> {2, 5} \<Longrightarrow> dfu_move D F (Request r) s s"
| upload_end: "bRequest r = 2 \<Longrightarrow> wLength r = 0 \<Longrightarrow> dfu_move D F (Request r) s (s\<lparr>v_state := 2\<rparr>)"
| upload_commands: "bRequest r = 2 \<Longrightarrow> wLength r \<noteq> 0 \<Longrightarrow> v_state s \<in> {2, 9} \<Longrightarrow> wValue r = 0 \<Longrightarrow>
    dfu_move D F (Request r) s
      (s\<lparr>v_block := 0, v_len := ucast (wLength r), v_state := (if 3 < (ucast (wLength r) :: reg) then 2 else 9)\<rparr>)"
| upload: "bRequest r = 2 \<Longrightarrow> wLength r \<noteq> 0 \<Longrightarrow> v_state s \<in> {2, 9} \<Longrightarrow> 1 < wValue r \<Longrightarrow>
    dfu_move D F (Request r) s (s\<lparr>v_block := wValue r, v_len := ucast (wLength r), v_state := 9\<rparr>)"
| upload_one: "bRequest r = 2 \<Longrightarrow> wLength r \<noteq> 0 \<Longrightarrow> v_state s \<in> {2, 9} \<Longrightarrow> wValue r = 1 \<Longrightarrow>
    dfu_move D F (Request r) s (s\<lparr>v_block := 1, v_len := ucast (wLength r), v_state := 15\<rparr>)"
| upload_not: "bRequest r = 2 \<Longrightarrow> wLength r \<noteq> 0 \<Longrightarrow> v_state s \<notin> {2, 9} \<Longrightarrow>
    dfu_move D F (Request r) s (s\<lparr>v_len := 0, v_block := 0\<rparr>)"
| status_busy: "bRequest r = 3 \<Longrightarrow> v_state s = 3 \<Longrightarrow> v_len s \<noteq> 0 \<Longrightarrow> dfu_move D F (Request r) s (s\<lparr>v_state := 4\<rparr>)"
| status_done: "bRequest r = 3 \<Longrightarrow> v_state s = 3 \<Longrightarrow> v_len s = 0 \<Longrightarrow> dfu_move D F (Request r) s (s\<lparr>v_state := 5\<rparr>)"
| status_manifest: "bRequest r = 3 \<Longrightarrow> v_state s = 6 \<Longrightarrow> v_manifest s = 1 \<Longrightarrow>
    dfu_move D F (Request r) s (s\<lparr>v_state := 7\<rparr>)"
| status_same: "bRequest r = 3 \<Longrightarrow> v_state s \<noteq> 3 \<Longrightarrow> v_state s \<noteq> 6 \<or> v_manifest s \<noteq> 1 \<Longrightarrow> dfu_move D F (Request r) s s"
| clear: "bRequest r = 4 \<Longrightarrow> v_state s = 10 \<Longrightarrow> dfu_move D F (Request r) s (s\<lparr>v_status := 0, v_state := 2\<rparr>)"
| clear_not: "bRequest r = 4 \<Longrightarrow> v_state s \<noteq> 10 \<Longrightarrow> dfu_move D F (Request r) s (s\<lparr>v_status := 14, v_state := 10\<rparr>)"
| state: "bRequest r = 5 \<Longrightarrow> dfu_move D F (Request r) s s"
| unknown: "7 \<le> bRequest r \<Longrightarrow> dfu_move D F (Request r) s s"
| command: "v_state s = 4 \<Longrightarrow> v_block s = 0 \<Longrightarrow> (v_len s \<noteq> 5 \<longrightarrow> b = v_base s) \<Longrightarrow>
    dfu_move D F Answer_read s (s\<lparr>v_base := b, v_len := 0, v_state := 3\<rparr>)"
| write_block: "v_state s = 4 \<Longrightarrow> 1 < v_block s \<Longrightarrow>
    dfu_move D F Answer_read s
      (s\<lparr>v_log := v_log s @ (if writable D F (block_addr D s) then [(buf_at (dfu_handler_at D), block_addr D s, v_len s)] else []),
        v_block := 0, v_len := 0, v_state := 3\<rparr>)"
| block_one: "v_state s = 4 \<Longrightarrow> v_block s = 1 \<Longrightarrow> dfu_move D F Answer_read s (s\<lparr>v_len := 0, v_state := 3\<rparr>)"
| leave: "v_state s = 7 \<Longrightarrow> dfu_move D F Answer_read s (s\<lparr>v_manifest := 0, v_state := 8\<rparr>)"
| read_not: "v_state s \<notin> {4, 7} \<Longrightarrow> dfu_move D F Answer_read s s"

text \<open>Events one after the other: of the machine, and of the driver.\<close>

inductive dfu_moves :: "'h dfu_conf \<Rightarrow> reg set \<Rightarrow> dfu_event list \<Rightarrow> dfu_view \<Rightarrow> dfu_view \<Rightarrow> bool" for D F where
  none: "dfu_moves D F [] s s"
| step: "dfu_move D F e s s1 \<Longrightarrow> dfu_moves D F es s1 s2 \<Longrightarrow> dfu_moves D F (e # es) s s2"

fun dfu_run :: "'h usb_sys \<Rightarrow> 'h dfu_conf \<Rightarrow> dfu_event list \<Rightarrow> 'h dfu_dev \<Rightarrow> 'h dfu_dev outcome" where
  "dfu_run S D [] u = Ret u"
| "dfu_run S D (Request r # es) u = bindo (dfu_req_handler S D r u) (\<lambda>(_, u). dfu_run S D es u)"
| "dfu_run S D (Answer_read # es) u = bindo (dfu_ctlx_in S D u) (\<lambda>(_, u). dfu_run S D es u)"

inductive_simps dfu_moves_Nil: "dfu_moves D F [] s s'"
inductive_simps dfu_moves_Cons: "dfu_moves D F (e # es) s s'"

text \<open>The state that \<open>dfu_init\<close> leaves.\<close>

definition dfu_fresh :: "'h dfu_conf \<Rightarrow> (32 word \<times> reg \<times> reg) list \<Rightarrow> dfu_view" where
  "dfu_fresh D l = \<lparr>v_status = 0, v_state = 2, v_manifest = 0, v_len = 0, v_block = 0, v_base = APP_LOADED_ADDR D, v_log = l\<rparr>"

text \<open>What holds in every state that the machine reaches by the requests in \<open>R\<close>: a block that is to be written
  was announced by a request, and so was every block that has been.\<close>

definition announced :: "usb_req set \<Rightarrow> 16 word \<Rightarrow> reg \<Rightarrow> bool" where
  "announced R k l \<longleftrightarrow> (\<exists>r \<in> R. bRequest r = 1 \<and> wLength r \<noteq> 0 \<and> k = wValue r \<and> l = ucast (wLength r))"

fun allowed :: "'h dfu_conf \<Rightarrow> reg set \<Rightarrow> usb_req set \<Rightarrow> 32 word \<times> reg \<times> reg \<Rightarrow> bool" where
  "allowed D F R (b, a, l) \<longleftrightarrow> b = buf_at (dfu_handler_at D) \<and> writable D F a \<and>
     (\<exists>k base. 1 < k \<and> announced R k l \<and> a = (ucast k - 2) * TRANSFER_SIZE D + base)"

definition dfu_inv :: "'h dfu_conf \<Rightarrow> reg set \<Rightarrow> usb_req set \<Rightarrow> dfu_view \<Rightarrow> bool" where
  "dfu_inv D F R s \<longleftrightarrow> v_state s \<in> {2, 3, 4, 5, 6, 7, 8, 9, 10, 15} \<and>
     (v_state s \<in> {3, 4} \<and> 1 < v_block s \<longrightarrow> announced R (v_block s) (v_len s)) \<and>
     (v_state s \<in> {6, 7} \<longrightarrow> v_manifest s = 1) \<and> (\<forall>w \<in> set (v_log s). allowed D F R w)"

lemma move_inv:
  assumes "dfu_move D F e s s'" and "dfu_inv D F R s" and "\<And>r. e = Request r \<Longrightarrow> r \<in> R"
  shows "dfu_inv D F R s'"
  using assms
proof (cases rule: dfu_move.cases)
  case (write_block)
  then have "allowed D F R (buf_at (dfu_handler_at D), block_addr D s, v_len s)" if "writable D F (block_addr D s)"
    using that assms(2) by (auto simp: dfu_inv_def block_addr_def intro!: exI [of _ "v_block s"])
  then show ?thesis using write_block assms(2) by (auto simp: dfu_inv_def simp del: allowed.simps)
next
  case (download r)
  then have "announced R (wValue r) (ucast (wLength r))" using assms(3) by (auto simp: announced_def)
  then show ?thesis using download assms(2) by (auto simp: dfu_inv_def)
qed (use assms(2) in \<open>auto simp: dfu_inv_def\<close>)

lemma moves_inv:
  "dfu_moves D F es s s' \<Longrightarrow> dfu_inv D F R s \<Longrightarrow> (\<And>r. Request r \<in> set es \<Longrightarrow> r \<in> R) \<Longrightarrow> dfu_inv D F R s'"
proof (induction rule: dfu_moves.induct)
  case (step e s s1 es s2)
  have "dfu_inv D F R s1" using move_inv [OF step.hyps(1) step.prems(1)] step.prems(2) by simp
  then show ?case using step.IH step.prems(2) by simp
qed simp

lemma fresh_inv: "dfu_inv D F R (dfu_fresh D [])"
  by (simp add: dfu_inv_def dfu_fresh_def)

inductive_cases move_requestE: "dfu_move D F (Request r) s s'"
inductive_cases move_readE: "dfu_move D F Answer_read s s'"

section \<open>The machine of the standard\<close>









text \<open>Block 1, which the numbering of the memory layer leaves free, is not asked for.\<close>

definition no_block_one :: "dfu_event list \<Rightarrow> bool" where
  "no_block_one es \<longleftrightarrow> (\<forall>e \<in> set es. case e of Request r \<Rightarrow> bRequest r = 2 \<longrightarrow> wValue r \<noteq> 1 | Answer_read \<Rightarrow> True)"

lemma no_block_one_simps [simp]:
  "no_block_one []"
  "no_block_one (Request r # es) \<longleftrightarrow> (bRequest r = 2 \<longrightarrow> wValue r \<noteq> 1) \<and> no_block_one es"
  "no_block_one (Answer_read # es) \<longleftrightarrow> no_block_one es"
  by (auto simp: no_block_one_def)







section \<open>The hardware\<close>

text \<open>The fields of the handler keep what is written to them, and no access to another register or byte
  changes them; the memory's driver does what it is asked, and leaves the handler alone.\<close>

locale dfu_hw =
  fixes S :: "'h usb_sys" and D :: "'h dfu_conf" and F :: "reg set" and view :: "'h \<Rightarrow> dfu_view"
  assumes there: "dfu_handler_at D \<noteq> 0" and one: "MAX_USED_MEMORY_MEDIA D = 1"
    and rd_state: "rd8 (bus S) (bState_at (dfu_handler_at D)) h = (v_state (view h), h)"
    and rd_manifest: "rd8 (bus S) (manifest_state_at (dfu_handler_at D)) h = (v_manifest (view h), h)"
    and rd_len: "rd32 (bus S) (data_len_at (dfu_handler_at D)) h = (v_len (view h), h)"
    and rd_block: "rd16 (bus S) (block_num_at (dfu_handler_at D)) h = (v_block (view h), h)"
    and rd_base: "rd32 (bus S) (base_addr_at (dfu_handler_at D)) h = (v_base (view h), h)"
    and rd8_view: "view (snd (rd8 (bus S) a h)) = view h"
    and wr_status: "view (wr8 (bus S) (bStatus_at (dfu_handler_at D)) v h) = (view h)\<lparr>v_status := v\<rparr>"
    and wr_state: "view (wr8 (bus S) (bState_at (dfu_handler_at D)) v h) = (view h)\<lparr>v_state := v\<rparr>"
    and wr_manifest: "view (wr8 (bus S) (manifest_state_at (dfu_handler_at D)) v h) = (view h)\<lparr>v_manifest := v\<rparr>"
    and wr_len: "view (wr32 (bus S) (data_len_at (dfu_handler_at D)) l h) = (view h)\<lparr>v_len := l\<rparr>"
    and wr_block: "view (wr16 (bus S) (block_num_at (dfu_handler_at D)) k h) = (view h)\<lparr>v_block := k\<rparr>"
    and wr_base: "view (wr32 (bus S) (base_addr_at (dfu_handler_at D)) l h) = (view h)\<lparr>v_base := l\<rparr>"
    and wr8_view: "j \<in> {1, 2, 3, 5, 20, 21, 22} \<Longrightarrow> view (wr8 (bus S) (dfu_handler_at D + j) v h) = view h"
    and wr32_view: "0x50000000 \<le> x \<Longrightarrow> view (wr32 (bus S) x l h) = view h"
    and rd32_view: "view (snd (rd32 (bus S) x h)) = view h"
    and delay_view: "view (usb_mdelay S l h) = view h"
    and zeroed: "view (zero_bytes (bus S) (dfu_handler_at D) (handler_size D) h) =
      (view h)\<lparr>v_status := 0, v_state := 0, v_manifest := 0, v_len := 0, v_block := 0, v_base := 0\<rparr>"
    and init_view: "mal_init (DFU_Flash_cb D) = Some f \<Longrightarrow> view (snd (f h)) = view h"
    and check: "view (snd (mal_checkaddr (DFU_Flash_cb D) l h)) = view h"
      "fst (mal_checkaddr (DFU_Flash_cb D) l h) = 0 \<longleftrightarrow> l \<in> F"
    and deinit_view: "mal_deinit (DFU_Flash_cb D) = Some f \<Longrightarrow> view (snd (f h)) = view h"
    and erase_view: "mal_erase (DFU_Flash_cb D) = Some g \<Longrightarrow> view (snd (g l h)) = view h"
    and read_view: "mal_read (DFU_Flash_cb D) = Some rd \<Longrightarrow> view (snd (rd a l n h)) = view h"
    and write_log: "mal_write (DFU_Flash_cb D) = Some wr \<Longrightarrow>
      view (snd (wr a l n h)) = (view h)\<lparr>v_log := v_log (view h) @ [(a, l, n)]\<rparr>"

lemma length_read: "unat (ucast (wLength r) :: reg) = unat (wLength r)"
  using unsigned_less [of "wLength r", where 'a = nat] by (simp add: unsigned_ucast_eq take_bit_nat_eq_self)

definition linked :: "'h dfu_conf \<Rightarrow> 'h dfu_dev \<Rightarrow> bool" where
  "linked D u \<longleftrightarrow> class_data u = dfu_handler_at D \<and> ready u"

lemma linked_simps [simp]:
  "linked D (hw_do f u) = linked D u" "linked D (u\<lparr>hw := h\<rparr>) = linked D u"
  "linked D u \<Longrightarrow> linked D (upd_transc d 0 (\<lambda>t. t\<lparr>xfer_buf := b, remain_len := l\<rparr>) u)"
  "linked D u \<Longrightarrow> linked D (upd_transc d 0 (\<lambda>t. t\<lparr>remain_len := l, xfer_buf := b\<rparr>) u)"
  by (simp_all add: linked_def ready_upd)

context dfu_hw
begin

lemma view_puts [simp]:
  "view (wr8 (bus S) (dfu_handler_at D) v h) = (view h)\<lparr>v_status := v\<rparr>"
  "view (wr8 (bus S) (dfu_handler_at D + 4) v h) = (view h)\<lparr>v_state := v\<rparr>"
  "view (wr8 (bus S) (dfu_handler_at D + 6) v h) = (view h)\<lparr>v_manifest := v\<rparr>"
  "view (wr32 (bus S) (dfu_handler_at D + 8) l h) = (view h)\<lparr>v_len := l\<rparr>"
  "view (wr16 (bus S) (dfu_handler_at D + 12) k h) = (view h)\<lparr>v_block := k\<rparr>"
  "view (wr32 (bus S) (dfu_handler_at D + 16) l h) = (view h)\<lparr>v_base := l\<rparr>"
  "j \<in> {1, 2, 3, 5, 20, 21, 22} \<Longrightarrow> view (wr8 (bus S) (dfu_handler_at D + j) v h) = view h"
  using wr_status by (simp_all add: wr_state wr_manifest wr_len wr_block wr_base wr8_view)

lemma view_gets [simp]:
  "hw_get (rd8 (bus S) (bState_at (dfu_handler_at D))) u = (v_state (view (hw u)), u)"
  "hw_get (rd8 (bus S) (manifest_state_at (dfu_handler_at D))) u = (v_manifest (view (hw u)), u)"
  "hw_get (rd32 (bus S) (data_len_at (dfu_handler_at D))) u = (v_len (view (hw u)), u)"
  "hw_get (rd16 (bus S) (block_num_at (dfu_handler_at D))) u = (v_block (view (hw u)), u)"
  "hw_get (rd32 (bus S) (base_addr_at (dfu_handler_at D))) u = (v_base (view (hw u)), u)"
  for u :: "('h, 'c) udev"
  by (simp_all add: hw_get_def rd_state rd_manifest rd_len rd_block rd_base)

lemma view_buffer: "view (snd (rd8 (bus S) a h)) = view h" "view (snd (rd_packed (bus S) a h)) = view h"
  by (simp_all add: rd8_view rd_packed_def split_beta Let_def)

text \<open>The memory layer.\<close>

lemma checkaddr: "dfu_mal_checkaddr D a h = Ret (if a \<in> F then 0 else 1, snd (mal_checkaddr (DFU_Flash_cb D) a h))"
  by (simp add: dfu_mal_checkaddr_def one tMALTab_def split_beta Let_def check)

lemma media: "tMALTab D 0 = Ret (DFU_Flash_cb D)"
  by (simp add: tMALTab_def one)

lemma erase_result: "\<exists>x h'. dfu_mal_erase D a h = Ret (x, h') \<and> view h' = view h"
proof -
  let ?h = "snd (mal_checkaddr (DFU_Flash_cb D) a h)"
  have "dfu_mal_erase D a h \<in> {Ret (MAL_FAIL, ?h)} \<union> {Ret (g a ?h) |g. mal_erase (DFU_Flash_cb D) = Some g}"
    by (cases "mal_erase (DFU_Flash_cb D)") (auto simp: dfu_mal_erase_def checkaddr one media)
  then show ?thesis
  proof
    assume "dfu_mal_erase D a h \<in> {Ret (g a ?h) |g. mal_erase (DFU_Flash_cb D) = Some g}"
    then obtain g where g: "dfu_mal_erase D a h = Ret (g a ?h)" "mal_erase (DFU_Flash_cb D) = Some g" by blast
    then show ?thesis using erase_view [OF g(2), of a ?h] check(1) [of a h] by (cases "g a ?h") simp
  qed (simp add: check)
qed

lemma write_result:
  "\<exists>x h'. dfu_mal_write D b a l h = Ret (x, h') \<and>
    view h' = (view h)\<lparr>v_log := v_log (view h) @ (if writable D F a then [(b, a, l)] else [])\<rparr>"
proof -
  let ?h = "snd (mal_checkaddr (DFU_Flash_cb D) a h)"
  show ?thesis
  proof (cases "writable D F a")
    case True
    then obtain g where g: "mal_write (DFU_Flash_cb D) = Some g" by (auto simp: writable_def)
    then have "dfu_mal_write D b a l h = Ret (g b a l ?h)"
      using True by (simp add: dfu_mal_write_def checkaddr one media writable_def)
    then show ?thesis using True write_log [OF g, of b a l ?h] check(1) [of a h] by (cases "g b a l ?h") simp
  next
    case False
    then have "dfu_mal_write D b a l h = Ret (MAL_FAIL, ?h)"
      by (auto simp: dfu_mal_write_def checkaddr one media writable_def)
    then show ?thesis using False by (simp add: check)
  qed
qed

lemma read_result: "\<exists>x h'. dfu_mal_read D b a l h = Ret (x, h') \<and> view h' = view h"
proof -
  let ?h = "if a \<noteq> OB_RDPT D then snd (mal_checkaddr (DFU_Flash_cb D) a h) else h"
  have h: "view ?h = view h" by (simp add: check)
  have "dfu_mal_read D b a l h \<in> {Ret (b, ?h)} \<union> {Ret (g b a l ?h) |g. mal_read (DFU_Flash_cb D) = Some g}"
    by (cases "mal_read (DFU_Flash_cb D)") (auto simp: dfu_mal_read_def checkaddr one media)
  then show ?thesis
  proof
    assume "dfu_mal_read D b a l h \<in> {Ret (g b a l ?h) |g. mal_read (DFU_Flash_cb D) = Some g}"
    then obtain g where g: "dfu_mal_read D b a l h = Ret (g b a l ?h)" "mal_read (DFU_Flash_cb D) = Some g" by blast
    then show ?thesis using read_view [OF g(2), of b a l ?h] h by (cases "g b a l ?h") simp
  qed (use h in simp)
qed

lemma getstatus_result:
  "\<exists>x h'. dfu_mal_getstatus (bus S) D a c (bwPollTimeout0_at (dfu_handler_at D)) h = Ret (x, h') \<and> view h' = view h"
proof -
  have b: "dfu_handler_at D + 1 + 1 = dfu_handler_at D + 2" "dfu_handler_at D + 1 + 2 = dfu_handler_at D + 3"
    by (simp_all add: add.assoc)
  show ?thesis
    by (simp add: dfu_mal_getstatus_def checkaddr one media SET_POLLING_TIMEOUT_def Let_def b wr8_view check)
qed

lemma deinit_result: "\<exists>h'. dfu_mal_deinit D h = Ret h' \<and> view h' = view h"
  by (cases "mal_deinit (DFU_Flash_cb D)") (auto simp: dfu_mal_deinit_def one tMALTab_def dest: deinit_view)

text \<open>The requests and the end of an answer.\<close>

lemma with_linked: "linked D u \<Longrightarrow> with_dfu u k = k (dfu_handler_at D)"
  by (simp add: with_dfu_def linked_def there)

lemma to_idle_result:
  "linked D u \<Longrightarrow> linked D (to_idle S (dfu_handler_at D) u) \<and>
   view (hw (to_idle S (dfu_handler_at D) u)) = (if v_state (view (hw u)) \<in> {2, 3, 5, 6, 9}
     then (view (hw u))\<lparr>v_status := 0, v_state := 2, v_block := 0, v_len := 0\<rparr> else view (hw u))"
  by (simp add: to_idle_def Let_def)

lemma reconnect: "ready u \<Longrightarrow> view (hw (usbd_connect S (usbd_disconnect S u))) = view (hw u)"
  by (simp add: usbd_connect_def usbd_disconnect_def usb_dev_connect_def usb_dev_disconnect_def delay_view clear_bits_def
    set_bits_def modify_def split_beta wr32_view rd32_view)

lemma linked_reconnect: "linked D (usbd_connect S (usbd_disconnect S u)) = linked D u"
  by (simp add: usbd_connect_def usbd_disconnect_def usb_dev_connect_def usb_dev_disconnect_def)

lemma detach_move:
  assumes "linked D u" and "bRequest r = 0"
  shows "\<exists>u'. dfu_detach S r u = Ret u' \<and> linked D u' \<and> dfu_move D F (Request r) (view (hw u)) (view (hw u'))"
proof -
  let ?u = "to_idle S (dfu_handler_at D) u"
  have u: "linked D ?u" "ready ?u" using to_idle_result [OF assms(1)] by (simp_all add: linked_def)
  have "dfu_wDetachTimeOut AND ucast DFU_DETACH_MASK \<noteq> 0" by (simp add: dfu_wDetachTimeOut_def)
  then have "dfu_detach S r u = Ret (usbd_connect S (usbd_disconnect S ?u))"
    using assms(1) by (simp add: dfu_detach_def with_linked Let_def)
  moreover have "dfu_move D F (Request r) (view (hw u)) (view (hw ?u))"
    using to_idle_result [OF assms(1)] assms(2) by (auto intro: give_up give_up_not)
  ultimately show ?thesis using u by (simp add: reconnect linked_reconnect)
qed

lemma abort_move:
  assumes "linked D u" and "bRequest r = 6"
  shows "\<exists>u'. dfu_abort S r u = Ret u' \<and> linked D u' \<and> dfu_move D F (Request r) (view (hw u)) (view (hw u'))"
  using assms to_idle_result [OF assms(1)] by (auto simp: dfu_abort_def with_linked intro: give_up give_up_not)

lemma dnload_move:
  assumes "linked D u" and "bRequest r = 1"
  shows "\<exists>u'. dfu_dnload S r u = Ret u' \<and> linked D u' \<and> dfu_move D F (Request r) (view (hw u)) (view (hw u'))"
proof -
  consider "v_state (view (hw u)) \<in> {2, 5}" "wLength r \<noteq> 0" | "v_state (view (hw u)) \<in> {2, 5}" "wLength r = 0"
    | "v_state (view (hw u)) \<notin> {2, 5}" by blast
  then show ?thesis
  proof cases
    case 1
    then show ?thesis
      using assms download [of r "view (hw u)" D F] by (auto simp: dfu_dnload_def with_linked Let_def word_gt_0)
  next
    case 2
    then show ?thesis
      using assms download_end [of r "view (hw u)" D F] by (auto simp: dfu_dnload_def with_linked Let_def)
  next
    case 3
    then show ?thesis
      using assms download_not [of r "view (hw u)" D F] by (auto simp: dfu_dnload_def with_linked Let_def)
  qed
qed

lemma clrstatus_move:
  assumes "linked D u" and "bRequest r = 4"
  shows "\<exists>u'. dfu_clrstatus S r u = Ret u' \<and> linked D u' \<and> dfu_move D F (Request r) (view (hw u)) (view (hw u'))"
  using assms clear [of r "view (hw u)" D F] clear_not [of r "view (hw u)" D F]
  by (auto simp: dfu_clrstatus_def with_linked Let_def)

lemma getstate_move:
  assumes "linked D u" and "bRequest r = 5"
  shows "\<exists>u'. dfu_getstate S r u = Ret u' \<and> linked D u' \<and> dfu_move D F (Request r) (view (hw u)) (view (hw u'))"
  using assms state [of r D F "view (hw u)"] by (auto simp: dfu_getstate_def with_linked)

lemma getstatus_move:
  assumes "linked D u" and "bRequest r = 3"
  shows "\<exists>u'. dfu_getstatus S D r u = Ret u' \<and> linked D u' \<and> dfu_move D F (Request r) (view (hw u)) (view (hw u'))"
proof -
  let ?p = "dfu_handler_at D" and ?v = "view (hw u)"
  consider "v_state ?v = 3" "v_len ?v \<noteq> 0" "v_block ?v = 0" | "v_state ?v = 3" "v_len ?v \<noteq> 0" "v_block ?v \<noteq> 0"
    | "v_state ?v = 3" "v_len ?v = 0" | "v_state ?v = 6" "v_manifest ?v = 1"
    | "v_state ?v \<noteq> 3" "v_state ?v \<noteq> 6 \<or> v_manifest ?v \<noteq> 1" by blast
  then show ?thesis
  proof cases
    case 1
    let ?u = "put8 S (?p + 4) STATE_DFU_DNBUSY u"
    let ?h = "snd (rd8 (bus S) (?p + 20) (hw ?u))"
    have h: "view ?h = ?v\<lparr>v_state := 4\<rparr>" by (simp add: view_buffer)
    have step: "\<exists>h'. mal_do (dfu_mal_getstatus (bus S) D b c (?p + 1)) w = Ret (w\<lparr>hw := h'\<rparr>) \<and> view h' = view (hw w)"
      for b c and w :: "'h dfu_dev"
      using getstatus_result [of b c "hw w"] by (auto simp: mal_do_def hw_try_def)
    obtain h' where "mal_do (dfu_mal_getstatus (bus S) D (v_base ?v)
          (if fst (rd8 (bus S) (?p + 20) (hw ?u)) = ERASE then CMD_ERASE else CMD_WRITE) (?p + 1))
          (hw_do (snd \<circ> rd8 (bus S) (?p + 20)) ?u) = Ret (hw_do (snd \<circ> rd8 (bus S) (?p + 20)) ?u\<lparr>hw := h'\<rparr>)"
        "view h' = ?v\<lparr>v_state := 4\<rparr>"
      using step [where w = "hw_do (snd \<circ> rd8 (bus S) (?p + 20)) ?u"] h by auto
    then show ?thesis
      using assms 1 status_busy [OF assms(2) 1(1,2), of D F]
      by (simp add: dfu_getstatus_def with_linked Let_def hw_get_simps [of "rd8 (bus S) (?p + 20)"] view_buffer)
  next
    case 2
    then show ?thesis
      using assms status_busy [OF assms(2) 2(1,2), of D F] by (auto simp: dfu_getstatus_def with_linked Let_def)
  next
    case 3
    then show ?thesis
      using assms status_done [OF assms(2) 3, of D F] by (auto simp: dfu_getstatus_def with_linked Let_def)
  next
    case 4
    then show ?thesis
      using assms status_manifest [OF assms(2) 4, of D F] by (auto simp: dfu_getstatus_def with_linked Let_def)
  next
    case 5
    have "dfu_bmAttributes AND 0x04 = 0" by (simp add: dfu_bmAttributes_def)
    then show ?thesis
      using assms 5 status_same [OF assms(2) 5, of D F] by (auto simp: dfu_getstatus_def with_linked Let_def)
  qed
qed

lemma upload_move:
  assumes "linked D u" and "bRequest r = 2"
  shows "\<exists>u'. dfu_upload S D r u = Ret u' \<and> linked D u' \<and> dfu_move D F (Request r) (view (hw u)) (view (hw u'))"
proof -
  let ?v = "view (hw u)"
  have blocks: "k = 0 \<or> k = 1 \<or> 1 < k" for k :: "16 word"
    by (metis word_less_1 not_less_iff_gr_or_eq)
  consider "wLength r = 0" | "wLength r \<noteq> 0" "v_state ?v \<in> {2, 9}" "wValue r = 0"
    | "wLength r \<noteq> 0" "v_state ?v \<in> {2, 9}" "wValue r = 1" | "wLength r \<noteq> 0" "v_state ?v \<in> {2, 9}" "1 < wValue r"
    | "wLength r \<noteq> 0" "v_state ?v \<notin> {2, 9}" using blocks by blast
  then show ?thesis
  proof cases
    case 1
    then show ?thesis
      using assms upload_end [OF assms(2) 1, of D F ?v] by (auto simp: dfu_upload_def with_linked Let_def)
  next
    case 2
    have b: "dfu_handler_at D + 20 + 1 = dfu_handler_at D + 21" "dfu_handler_at D + 20 + 2 = dfu_handler_at D + 22"
      by (simp_all add: add.assoc)
    show ?thesis
      using assms 2 upload_commands [OF assms(2) 2, of D F] by (auto simp: dfu_upload_def with_linked Let_def b)
  next
    case 3
    then show ?thesis
      using assms upload_one [OF assms(2) 3, of D F] by (auto simp: dfu_upload_def with_linked Let_def)
  next
    case 4
    then have n: "wValue r \<noteq> 0" by auto
    let ?h = "wr8 (bus S) (dfu_handler_at D + 4) STATE_DFU_UPLOAD_IDLE (wr32 (bus S) (dfu_handler_at D + 8) (ucast (wLength r))
      (wr16 (bus S) (dfu_handler_at D + 12) (wValue r) (hw u)))"
    obtain x h' where "dfu_mal_read D (dfu_handler_at D + 20) ((ucast (wValue r) - 2) * TRANSFER_SIZE D + v_base ?v)
        (ucast (wLength r)) ?h = Ret (x, h')" "view h' = view ?h"
      using read_result by blast
    then show ?thesis
      using assms 4 n upload [OF assms(2) 4(1,2) 4(3), of D F]
      by (auto simp: dfu_upload_def with_linked Let_def)
  next
    case 5
    then show ?thesis
      using assms upload_not [OF assms(2) 5, of D F] by (auto simp: dfu_upload_def with_linked Let_def)
  qed
qed

lemma request_move:
  assumes "linked D u"
  shows "\<exists>x u'. dfu_req_handler S D r u = Ret (x, u') \<and> linked D u' \<and> dfu_move D F (Request r) (view (hw u)) (view (hw u'))"
proof (cases "bRequest r < 7")
  case True
  have "k < 7 \<Longrightarrow> k \<in> {0, 1, 2, 3, 4, 5, 6}" for k :: nat by auto
  from this [of "unat (bRequest r)"] True consider "bRequest r = 0" | "bRequest r = 1" | "bRequest r = 2" | "bRequest r = 3"
    | "bRequest r = 4" | "bRequest r = 5" | "bRequest r = 6"
    by (auto simp: word_less_nat_alt word_unat_eq_iff)
  then show ?thesis
  proof cases
    case 1
    from detach_move [OF assms 1] show ?thesis using 1 by (auto simp: dfu_req_handler_def)
  next
    case 2
    from dnload_move [OF assms 2] show ?thesis using 2 by (auto simp: dfu_req_handler_def)
  next
    case 3
    from upload_move [OF assms 3] show ?thesis using 3 by (auto simp: dfu_req_handler_def)
  next
    case 4
    from getstatus_move [OF assms 4] show ?thesis using 4 by (auto simp: dfu_req_handler_def)
  next
    case 5
    from clrstatus_move [OF assms 5] show ?thesis using 5 by (auto simp: dfu_req_handler_def)
  next
    case 6
    from getstate_move [OF assms 6] show ?thesis using 6 by (auto simp: dfu_req_handler_def)
  next
    case 7
    from abort_move [OF assms 7] show ?thesis using 7 by (auto simp: dfu_req_handler_def)
  qed
next
  case False
  then have "dfu_req_handler S D r u = Ret (USBD_FAIL, u)" by (simp add: dfu_req_handler_def)
  then show ?thesis using False assms unknown [of r D F "view (hw u)"] by (simp add: not_less)
qed

text \<open>The end of an answer.\<close>

lemma command_result:
  assumes "v_block (view (hw u)) = 0"
  shows "\<exists>b u'. dfu_command S D (dfu_handler_at D) u = Ret u' \<and> linked D u' = linked D u \<and>
    (v_len (view (hw u)) \<noteq> 5 \<longrightarrow> b = v_base (view (hw u))) \<and> view (hw u') = (view (hw u))\<lparr>v_base := b\<rparr>"
proof -
  let ?p = "dfu_handler_at D" and ?v = "view (hw u)"
  have same: "?v\<lparr>v_base := v_base ?v\<rparr> = ?v" by simp
  have erase: "\<exists>h'. mal_do (dfu_mal_erase D a) w = Ret (w\<lparr>hw := h'\<rparr>) \<and> view h' = view (hw w)" for a and w :: "'h dfu_dev"
    using erase_result [of a "hw w"] by (auto simp: mal_do_def hw_try_def)
  let ?c = "fst (rd8 (bus S) (?p + 20) (hw u))" and ?u = "hw_do (snd \<circ> rd8 (bus S) (?p + 20)) u"
  let ?a = "fst (rd_packed (bus S) (?p + 20 + 1) (hw ?u))"
  let ?w = "put32 S (?p + 16) ?a (hw_do (snd \<circ> rd_packed (bus S) (?p + 20 + 1)) ?u)"
  have w: "view (hw ?w) = ?v\<lparr>v_base := ?a\<rparr>" "linked D ?w = linked D u" by (simp_all add: view_buffer)
  obtain h' where e: "mal_do (dfu_mal_erase D ?a) ?w = Ret (?w\<lparr>hw := h'\<rparr>)" "view h' = ?v\<lparr>v_base := ?a\<rparr>"
    using erase [of ?a ?w] w by auto
  consider "v_len ?v = 1" | "v_len ?v = 5" "?c = 0x21" | "v_len ?v = 5" "?c = 0x41" | "v_len ?v = 5" "?c \<noteq> 0x21" "?c \<noteq> 0x41"
    | "v_len ?v \<noteq> 1" "v_len ?v \<noteq> 5" by blast
  then show ?thesis
  proof cases
    case 1
    then have "dfu_command S D ?p u = Ret ?u" using assms by (simp add: dfu_command_def Let_def hw_get_simps [of "rd8 (bus S) (?p + 20)"])
    then show ?thesis using 1 same by (intro exI [of _ "v_base ?v"] exI [of _ ?u]) (simp add: view_buffer)
  next
    case 2
    then have "dfu_command S D ?p u = Ret ?w"
      using assms by (simp add: dfu_command_def Let_def hw_get_simps [of "rd8 (bus S) (?p + 20)"] hw_get_simps [of "rd_packed (bus S) a" for a])
    then show ?thesis using 2 w by blast
  next
    case 3
    then have "dfu_command S D ?p u = mal_do (dfu_mal_erase D ?a) ?w"
      using assms w by (simp add: dfu_command_def Let_def hw_get_simps [of "rd8 (bus S) (?p + 20)"] hw_get_simps [of "rd_packed (bus S) a" for a])
    then show ?thesis using 3 w e by (intro exI [of _ ?a] exI [of _ "?w\<lparr>hw := h'\<rparr>"]) simp
  next
    case 4
    then have "dfu_command S D ?p u = Ret ?u" using assms by (simp add: dfu_command_def Let_def hw_get_simps [of "rd8 (bus S) (?p + 20)"])
    then show ?thesis using 4 same by (intro exI [of _ "v_base ?v"] exI [of _ ?u]) (simp add: view_buffer)
  next
    case 5
    then have "dfu_command S D ?p u = Ret u" using assms by (simp add: dfu_command_def Let_def)
    then show ?thesis using 5 same by (intro exI [of _ "v_base ?v"] exI [of _ u]) simp
  qed
qed

lemma read_move:
  assumes "linked D u"
  shows "\<exists>x u'. dfu_ctlx_in S D u = Ret (x, u') \<and> linked D u' \<and> dfu_move D F Answer_read (view (hw u)) (view (hw u'))"
proof -
  let ?p = "dfu_handler_at D" and ?v = "view (hw u)"
  have blocks: "k = 0 \<or> k = 1 \<or> 1 < k" for k :: "16 word"
    by (metis word_less_1 not_less_iff_gr_or_eq)
  consider "v_state ?v = 4" "v_block ?v = 0" | "v_state ?v = 4" "v_block ?v = 1" | "v_state ?v = 4" "1 < v_block ?v"
    | "v_state ?v = 7" | "v_state ?v \<notin> {4, 7}" using blocks by blast
  then show ?thesis
  proof cases
    case 1
    obtain b u1 where u1: "dfu_command S D ?p u = Ret u1" "linked D u1" "v_len ?v \<noteq> 5 \<longrightarrow> b = v_base ?v"
      "view (hw u1) = ?v\<lparr>v_base := b\<rparr>"
      using command_result [OF 1(2)] assms by auto
    then show ?thesis
      using assms 1 command [OF 1 u1(3), of D F] by (auto simp: dfu_ctlx_in_def dfu_getstatus_complete_def with_linked Let_def)
  next
    case 2
    then show ?thesis
      using assms block_one [OF 2, of D F]
      by (auto simp: dfu_ctlx_in_def dfu_getstatus_complete_def dfu_command_def with_linked Let_def)
  next
    case 3
    then have n: "v_block ?v \<noteq> 0" by auto
    obtain x h' where h': "dfu_mal_write D (?p + 20) (block_addr D ?v) (v_len ?v) (hw u) = Ret (x, h')"
      "view h' = ?v\<lparr>v_log := v_log ?v @ (if writable D F (block_addr D ?v) then [(?p + 20, block_addr D ?v, v_len ?v)] else [])\<rparr>"
      using write_result by blast
    then have "dfu_command S D ?p u = Ret (put16 S (?p + 12) 0 (u\<lparr>hw := h'\<rparr>))"
      using 3 n by (simp add: dfu_command_def Let_def mal_do_def hw_try_def block_addr_def)
    then show ?thesis
      using assms 3 h'(2) write_block [OF 3, of D F]
      by (auto simp: dfu_ctlx_in_def dfu_getstatus_complete_def with_linked Let_def)
  next
    case 4
    let ?u = "put8 S (?p + 4) STATE_DFU_MANIFEST_WAIT_RESET (put8 S (?p + 6) MANIFEST_COMPLETE u)"
    obtain h' where h': "dfu_mal_deinit D (hw ?u) = Ret h'" "view h' = view (hw ?u)" using deinit_result by blast
    have "dfu_bmAttributes AND 0x04 = 0" by (simp add: dfu_bmAttributes_def)
    then have "dfu_mode_leave S D u = Ret (hw_do (eclic_system_reset (bus S)) (?u\<lparr>hw := h'\<rparr>))"
      using assms h'(1) by (simp add: dfu_mode_leave_def with_linked Let_def hw_try_def)
    then show ?thesis
      using assms 4 h'(2) leave [OF 4, of D F]
      by (auto simp: dfu_ctlx_in_def dfu_getstatus_complete_def with_linked Let_def eclic_system_reset_def wr32_view)
  next
    case 5
    then show ?thesis
      using assms read_not [OF 5, of D F] by (auto simp: dfu_ctlx_in_def dfu_getstatus_complete_def with_linked Let_def)
  qed
qed

lemma run_moves:
  "linked D u \<Longrightarrow> \<exists>u'. dfu_run S D es u = Ret u' \<and> linked D u' \<and> dfu_moves D F es (view (hw u)) (view (hw u'))"
proof (induction es arbitrary: u)
  case Nil
  then show ?case by (auto intro: dfu_moves.none)
next
  case (Cons e es)
  have "\<exists>u1. dfu_run S D (e # es) u = dfu_run S D es u1 \<and> linked D u1 \<and> dfu_move D F e (view (hw u)) (view (hw u1))"
  proof (cases e)
    case (Request r)
    from request_move [OF Cons.prems, of r] show ?thesis using Request by auto
  next
    case Answer_read
    from read_move [OF Cons.prems] show ?thesis using Answer_read by auto
  qed
  then obtain u1 where u1: "dfu_run S D (e # es) u = dfu_run S D es u1" "linked D u1"
    "dfu_move D F e (view (hw u)) (view (hw u1))" by blast
  with Cons.IH [OF u1(2)] show ?case by (auto intro: dfu_moves.step)
qed

lemma init_fresh:
  assumes "ready u"
  shows "\<exists>u'. dfu_init S D c u = Ret (0, u') \<and> linked D u' \<and> view (hw u') = dfu_fresh D (v_log (view (hw u)))"
proof -
  obtain h where h: "dfu_mal_init D (hw u) = Ret h" "view h = view (hw u)"
    by (cases "mal_init (DFU_Flash_cb D)") (auto simp: dfu_mal_init_def one tMALTab_def dest: init_view)
  then show ?thesis
    using assms h by (simp add: dfu_init_def hw_try_def Let_def linked_def zeroed dfu_fresh_def)
qed

lemma dnload_accepted:
  assumes "linked D u" and "v_state (view (hw u)) \<in> {2, 5}" and "wLength r \<noteq> 0"
  shows "\<exists>u'. dfu_dnload S r u = Ret u' \<and> linked D u' \<and> remain_len (transc_out u' 0) = ucast (wLength r) \<and>
    xfer_buf (transc_out u' 0) = buf_at (dfu_handler_at D)"
proof -
  have "transc_out (upd_transc False 0 f w) 0 = f (transc_out w 0)" for f and w :: "'h dfu_dev" by (simp add: upd_transc_def)
  then show ?thesis using assms by (auto simp: dfu_dnload_def with_linked Let_def word_gt_0)
qed

lemma block_run:
  assumes "linked D u" and "v_state (view (hw u)) \<in> {2, 5}" and "bRequest r = 1" and "wLength r \<noteq> 0" and "1 < wValue r"
    and "bRequest s = 3"
  shows "\<exists>u'. dfu_run S D [Request r, Request s, Answer_read] u = Ret u' \<and> linked D u' \<and> view (hw u') = (view (hw u))
    \<lparr>v_state := 3, v_len := 0, v_block := 0, v_log := v_log (view (hw u)) @
       (let a = (ucast (wValue r) - 2) * TRANSFER_SIZE D + v_base (view (hw u))
        in if writable D F a then [(buf_at (dfu_handler_at D), a, ucast (wLength r))] else [])\<rparr>"
proof -
  let ?v = "view (hw u)" and ?es = "[Request r, Request s, Answer_read]"
  obtain u' where u': "dfu_run S D ?es u = Ret u'" "linked D u'" "dfu_moves D F ?es ?v (view (hw u'))"
    using run_moves [OF assms(1)] by blast
  have len: "ucast (wLength r) \<noteq> (0 :: reg)" using assms(4) length_read [of r] by (auto simp: word_unat_eq_iff)
  obtain v1 v2 where m: "dfu_move D F (Request r) ?v v1" "dfu_move D F (Request s) v1 v2" "dfu_move D F Answer_read v2 (view (hw u'))"
    using u'(3) by (auto simp: dfu_moves_Cons dfu_moves_Nil)
  have known: "\<not> 7 \<le> (1 :: 8 word)" "\<not> 7 \<le> (3 :: 8 word)" by (simp_all add: word_le_nat_alt)
  from m(1) have v1: "v1 = ?v\<lparr>v_block := wValue r, v_len := ucast (wLength r), v_state := 3\<rparr>"
    using assms(2-4) known by (elim move_requestE) auto
  from m(2) have v2: "v2 = v1\<lparr>v_state := 4\<rparr>" using assms(6) len known by (elim move_requestE) (auto simp: v1)
  from m(3) have "view (hw u') = v2\<lparr>v_log := v_log v2 @
      (if writable D F (block_addr D v2) then [(buf_at (dfu_handler_at D), block_addr D v2, v_len v2)] else []),
      v_block := 0, v_len := 0, v_state := 3\<rparr>"
    using assms(5) by (elim move_readE) (auto simp: v1 v2)
  then show ?thesis using u'(1,2) by (simp add: v1 v2 block_addr_def Let_def)
qed

end

section \<open>The documented hardware\<close>

text \<open>The file of registers and RAM, with a record of the writes to the flash, 128 KB of which is writable but
  the first 32; the handler is in the RAM, with a buffer of 64 bytes.\<close>

type_synonym flashed = "(32 word \<times> reg \<times> reg) logged"

definition flash_cb :: "flashed dfu_mal_prop" where
  "flash_cb = \<lparr>mal_init = None, mal_deinit = None, mal_erase = None, mal_write = Some (\<lambda>b a n (h, l). (0, h, l @ [(b, a, n)])),
     mal_read = None, mal_checkaddr = (\<lambda>a h. (if 0x08000000 \<le> a \<and> a < 0x08020000 then 0 else 1, h)),
     erase_timeout = 60, write_timeout = 80\<rparr>"

definition flash_conf :: "flashed dfu_conf" where
  "flash_conf = \<lparr>DFU_Flash_cb = flash_cb, MAX_USED_MEMORY_MEDIA = 1, IS_PROTECTED_AREA = (\<lambda>a. a < 0x08008000), OB_RDPT = 0x1FFFF800,
     APP_LOADED_ADDR = 0x08008000, TRANSFER_SIZE = 64, dfu_handler_at = 0x20000200\<rparr>"

definition flash_view :: "flashed \<Rightarrow> dfu_view" where
  "flash_view h = \<lparr>v_status = fst (gd32_read8 0x20000200 (fst h)), v_state = fst (gd32_read8 0x20000204 (fst h)),
     v_manifest = fst (gd32_read8 0x20000206 (fst h)), v_len = fst h 0x20000208, v_block = ucast (fst h 0x2000020C),
     v_base = fst h 0x20000210, v_log = snd h\<rparr>"

lemma zero_bytes_read:
  "fst (gd32_read8 b (fold (\<lambda>i. gd32_write8 (p + of_nat i) 0) is h)) =
    (if \<exists>i \<in> set is. b = p + of_nat i then 0 else fst (gd32_read8 b h))"
  by (induction "is" arbitrary: h) (auto simp: gd32_bytes)

lemma fold_flashed:
  "fold (\<lambda>i. wr8 gd32_logged (p + of_nat i) v) is (h, l) = (fold (\<lambda>i. gd32_write8 (p + of_nat i) v) is h, l)"
  by (induction "is" arbitrary: h) (simp_all add: gd32_logged_def)

lemma word_of_zero_bytes:
  assumes "w AND 3 = (0 :: 32 word)" and "\<And>j. j \<in> {0, 1, 2, 3} \<Longrightarrow> fst (gd32_read8 (w + j) h) = 0"
  shows "h w = 0"
proof -
  have low: "(w + j) AND 3 = j \<and> (w + j) AND NOT 3 = w" if "j \<in> {0, 1, 2, 3}" for j
  proof -
    have j: "3 AND j = j" "j AND 3 = j" "j AND NOT 3 = 0" using that by auto
    have "w AND j = (w AND 3) AND j" by (simp only: and.assoc j)
    then have "w AND j = 0" by (simp add: assms(1))
    then have "w + j = w OR j" by (rule disjunctive_add_eq_or)
    moreover have "\<not> (bit w n \<and> bit (3 :: 32 word) n)" for n using assms(1) by (metis bit_and_iff bit_0_eq bot_apply bot_bool_def)
    then have "w AND NOT 3 = w" by (intro bit_word_eqI) (auto simp: bit_simps simp del: bit_numeral_word_iff)
    ultimately show ?thesis using assms(1) j by (simp add: bit.conj_disj_distrib2)
  qed
  have "bit (h w) n = False" if n: "n < 32" for n
  proof -
    have "n div 8 \<in> {0, 1, 2, 3}" using n by auto
    then have j: "of_nat (n div 8) \<in> {0, 1, 2, 3 :: 32 word}" by auto
    have "unat (of_nat (n div 8) :: 32 word) = n div 8" using n by (simp add: small_address)
    with assms(2) [OF j] low [OF j] have "ucast (drop_bit (8 * (n div 8)) (h w)) = (0 :: 8 word)"
      by (simp add: gd32_read8_def)
    then have "\<not> bit (ucast (drop_bit (8 * (n div 8)) (h w)) :: 8 word) (n mod 8)" by simp
    then show ?thesis by (simp add: bit_simps)
  qed
  then show ?thesis by (intro bit_word_eqI) simp
qed

lemma handler_words: "w \<in> {0x20000208, 0x2000020C, 0x20000210} \<Longrightarrow> gd32_read w h = (h w, h) \<and> gd32_write w v h = h(w := v)"
  by (auto simp: gd32_read_def gd32_write_def is_port_def GPIO_BASE_def EXTI_BASE_def)

lemma bit_half_ones: "bit (0xFFFF :: reg) n \<longleftrightarrow> n < 16"
proof -
  have "(0xFFFF :: reg) = mask 16" by (simp add: mask_eq_exp_minus_1)
  then show ?thesis by (simp only: bit_mask_iff) auto
qed

text \<open>What a write of a byte, and of the bytes of the whole handler, does to the view.\<close>

lemma flash_view_write8:
  assumes "a AND NOT 3 \<notin> {0x20000208, 0x2000020C, 0x20000210}"
  shows "flash_view (gd32_write8 a v h, l) =
    \<lparr>v_status = (if a = 0x20000200 then v else v_status (flash_view (h, l))),
     v_state = (if a = 0x20000204 then v else v_state (flash_view (h, l))),
     v_manifest = (if a = 0x20000206 then v else v_manifest (flash_view (h, l))),
     v_len = v_len (flash_view (h, l)), v_block = v_block (flash_view (h, l)), v_base = v_base (flash_view (h, l)), v_log = l\<rparr>"
  using assms by (auto simp: flash_view_def gd32_bytes gd32_apart)

lemma flash_view_word:
  assumes "w \<notin> {0x20000200, 0x20000204}"
  shows "flash_view (h(w := x), l) = (flash_view (h, l))
    \<lparr>v_len := (if w = 0x20000208 then x else h 0x20000208), v_block := ucast (if w = 0x2000020C then x else h 0x2000020C),
     v_base := (if w = 0x20000210 then x else h 0x20000210)\<rparr>"
  using assms by (simp add: flash_view_def gd32_apart)

lemma flash_view_zeroed:
  "flash_view (zero_bytes gd32_logged 0x20000200 84 (h, l)) =
    \<lparr>v_status = 0, v_state = 0, v_manifest = 0, v_len = 0, v_block = 0, v_base = 0, v_log = l\<rparr>"
proof -
  define Z where "Z = fold (\<lambda>i. gd32_write8 (0x20000200 + of_nat i) 0) [0..<84] h"
  have z: "fst (gd32_read8 (0x20000200 + of_nat i) Z) = 0" if "i < 84" for i
    using that unfolding Z_def zero_bytes_read by auto
  have "Z 0x20000208 = 0" by (rule word_of_zero_bytes) (use z [of 8] z [of 9] z [of 10] z [of 11] in auto)
  moreover have "Z 0x2000020C = 0" by (rule word_of_zero_bytes) (use z [of 12] z [of 13] z [of 14] z [of 15] in auto)
  moreover have "Z 0x20000210 = 0" by (rule word_of_zero_bytes) (use z [of 16] z [of 17] z [of 18] z [of 19] in auto)
  moreover have "zero_bytes gd32_logged 0x20000200 84 (h, l) = (Z, l)" by (simp only: zero_bytes_def fold_flashed Z_def)
  ultimately show ?thesis using z [of 0] z [of 4] z [of 6] by (simp add: flash_view_def)
qed

interpretation gd32_dfu: dfu_hw gd32_logged_usb flash_conf "{a. 0x08000000 \<le> a \<and> a < 0x08020000}" flash_view
proof
  have b: "bus gd32_logged_usb = gd32_logged" "dfu_handler_at flash_conf = 0x20000200" "DFU_Flash_cb flash_conf = flash_cb"
    "handler_size flash_conf = 84"
    by (simp_all add: gd32_logged_usb_def flash_conf_def handler_size_def)
  have view: "dfu_view.more v = ()" for v :: dfu_view by simp
  fix h :: flashed and a x l v k n f g rd wr and j :: "32 word" and s :: "8 word"
  obtain r w where h: "h = (r, w)" by (cases h)
  show "dfu_handler_at flash_conf \<noteq> 0" "MAX_USED_MEMORY_MEDIA flash_conf = 1" by (simp_all add: flash_conf_def)
  show "rd8 (bus gd32_logged_usb) (bState_at (dfu_handler_at flash_conf)) h = (v_state (flash_view h), h)"
    "rd8 (bus gd32_logged_usb) (manifest_state_at (dfu_handler_at flash_conf)) h = (v_manifest (flash_view h), h)"
    "rd32 (bus gd32_logged_usb) (data_len_at (dfu_handler_at flash_conf)) h = (v_len (flash_view h), h)"
    "rd16 (bus gd32_logged_usb) (block_num_at (dfu_handler_at flash_conf)) h = (v_block (flash_view h), h)"
    "rd32 (bus gd32_logged_usb) (base_addr_at (dfu_handler_at flash_conf)) h = (v_base (flash_view h), h)"
    by (simp_all add: b h gd32_logged_def flash_view_def handler_words gd32_read16_def)
  show "flash_view (snd (rd8 (bus gd32_logged_usb) a h)) = flash_view h" by (simp add: b h gd32_logged_def)
  show "flash_view (wr8 (bus gd32_logged_usb) (bStatus_at (dfu_handler_at flash_conf)) s h) = (flash_view h)\<lparr>v_status := s\<rparr>"
    "flash_view (wr8 (bus gd32_logged_usb) (bState_at (dfu_handler_at flash_conf)) s h) = (flash_view h)\<lparr>v_state := s\<rparr>"
    "flash_view (wr8 (bus gd32_logged_usb) (manifest_state_at (dfu_handler_at flash_conf)) s h) = (flash_view h)\<lparr>v_manifest := s\<rparr>"
    by (simp_all add: b h gd32_logged_def flash_view_write8) (simp_all add: flash_view_def)
  show "flash_view (wr32 (bus gd32_logged_usb) (data_len_at (dfu_handler_at flash_conf)) l h) = (flash_view h)\<lparr>v_len := l\<rparr>"
    "flash_view (wr32 (bus gd32_logged_usb) (base_addr_at (dfu_handler_at flash_conf)) l h) = (flash_view h)\<lparr>v_base := l\<rparr>"
    by (simp_all add: b h gd32_logged_def handler_words flash_view_word) (simp_all add: flash_view_def)
  show "flash_view (wr32 (bus gd32_logged_usb) x l h) = flash_view h" if "0x50000000 \<le> x"
  proof -
    have "x \<notin> {0x20000200, 0x20000204, 0x20000208, 0x2000020C, 0x20000210}" using that by auto
    then show ?thesis
      by (simp add: b h gd32_logged_def usb_words [OF that] flash_view_word) (simp add: flash_view_def)
  qed
  show "flash_view (zero_bytes (bus gd32_logged_usb) (dfu_handler_at flash_conf) (handler_size flash_conf) h) = (flash_view h)
    \<lparr>v_status := 0, v_state := 0, v_manifest := 0, v_len := 0, v_block := 0, v_base := 0\<rparr>"
    by (simp add: b h flash_view_zeroed) (simp add: flash_view_def)
  show "flash_view (snd (rd32 (bus gd32_logged_usb) x h)) = flash_view h" by (simp add: b h gd32_logged_def flash_view_def)
  show "flash_view (usb_mdelay gd32_logged_usb l h) = flash_view h" by (simp add: gd32_logged_usb_def)
  show "flash_view (wr16 (bus gd32_logged_usb) (block_num_at (dfu_handler_at flash_conf)) k h) = (flash_view h)\<lparr>v_block := k\<rparr>"
  proof -
    have "ucast ((z AND NOT 0xFFFF) OR ucast k :: reg) = k" for z
      by (intro bit_word_eqI) (auto simp: bit_simps bit_half_ones simp del: bit_numeral_word_iff)
    moreover have "gd32_write16 0x2000020C k r = r(0x2000020C := (r 0x2000020C AND NOT 0xFFFF) OR ucast k)"
      by (simp add: gd32_write16_def Let_def)
    ultimately show ?thesis by (simp add: b h gd32_logged_def flash_view_word) (simp add: flash_view_def)
  qed
  show "flash_view (wr8 (bus gd32_logged_usb) (dfu_handler_at flash_conf + j) s h) = flash_view h" if "j \<in> {1, 2, 3, 5, 20, 21, 22}"
  proof -
    have "0x20000200 + j AND NOT 3 \<notin> {0x20000208, 0x2000020C, 0x20000210}" "0x20000200 + j \<notin> {0x20000200, 0x20000204, 0x20000206}"
      using that by auto
    then show ?thesis by (simp add: b h gd32_logged_def flash_view_write8) (simp add: flash_view_def)
  qed
qed (auto simp: flash_conf_def flash_cb_def flash_view_def)

section \<open>The claims\<close>

text \<open>A device that is ready for the class, in the given memory.\<close>

definition new_dfu_device :: "flashed \<Rightarrow> flashed dfu_dev" where
  "new_dfu_device h = \<lparr>bp = fs_core, regs = assign_regs fs_core, dev_addr = 5, cur_status = 2, backup_status = 0,
     transc_in = (\<lambda>_. endpoint0 0 0), transc_out = (\<lambda>_. endpoint0 0 0), power_mode = 1, dev_remote_wakeup = 0,
     req = request 0 0 0 0, ctl_state = 0, ctl_zlp = 0,
     desc = \<lparr>dev_desc = 0x08001000, config_desc = 0x08001020, bos_desc = 0x08001080, strings = 0x08001090\<rparr>,
     class_data = 0, hw = h\<rparr>"

lemma ready_new_dfu_device: "ready (new_dfu_device h)" "hw (new_dfu_device h) = h"
  by (simp_all add: ready_def transc_def new_dfu_device_def fs_core_def fs_basic_def endpoint0_def)

text \<open>The host sends two pages of 64 bytes, in the second block and the third.\<close>

definition two_pages :: "dfu_event list" where
  "two_pages = [Request (request 0x21 1 2 64), Request (request 0xA1 3 0 6), Answer_read, Request (request 0xA1 3 0 6),
     Request (request 0x21 1 3 64), Request (request 0xA1 3 0 6), Answer_read]"




text \<open>C5: Every write that the class asks the memory's driver for, whatever the host sends, starts at an address of
  the memory outside the protected area, takes the bytes of the handler's buffer, and has the length and
  the block number that one of the host's download requests announced, from some base address. The driver looks at
  the address where a write starts and nothing else: nothing is shown of where it ends.\<close>

theorem dfu_writes_allowed:
  assumes "dfu_hw S D F view" and "ready u" and "v_log (view (hw u)) = []"
  shows "\<exists>u1 u2. dfu_init S D c u = Ret (0, u1) \<and> dfu_run S D es u1 = Ret u2 \<and>
    (\<forall>w \<in> set (v_log (view (hw u2))). allowed D F {r. Request r \<in> set es} w)"
proof -
  obtain u1 where u1: "dfu_init S D c u = Ret (0, u1)" "linked D u1" "view (hw u1) = dfu_fresh D []"
    using dfu_hw.init_fresh [OF assms(1,2), of c] assms(3) by auto
  obtain u2 where u2: "dfu_run S D es u1 = Ret u2" "dfu_moves D F es (dfu_fresh D []) (view (hw u2))"
    using dfu_hw.run_moves [OF assms(1) u1(2), of es] u1(3) by auto
  have "dfu_inv D F {r. Request r \<in> set es} (view (hw u2))" using moves_inv [OF u2(2) fresh_inv] by simp
  then show ?thesis using u1(1) u2(1) unfolding dfu_inv_def by blast
qed

theorem dfu_writes_allowed_witness:
  "\<exists>u1 u2. dfu_init gd32_logged_usb flash_conf 1 (new_dfu_device ((\<lambda>_. 0xFF), [])) = Ret (0, u1) \<and>
    dfu_run gd32_logged_usb flash_conf two_pages u1 = Ret u2 \<and> (\<forall>(b, a, l) \<in> set (v_log (flash_view (hw u2))). 0x08008000 \<le> a)"
proof -
  have "0x08008000 \<le> a" if "allowed flash_conf {a. 0x08000000 \<le> a \<and> a < 0x08020000} R (b, a, l)" for R b a l
    using that by (simp add: writable_def flash_conf_def not_less)
  then show ?thesis
    using dfu_writes_allowed [OF gd32_dfu.dfu_hw_axioms ready_new_dfu_device(1) [of "((\<lambda>_. 0xFF), [])"], where c = 1 and es = two_pages]
    by (fastforce simp: ready_new_dfu_device flash_view_def)
qed

text \<open>C12: A block is written when the host has announced it, asked for the status and read the answer: then the
  buffer goes to the address that the block number and the base address give, with the announced length, if
  the memory layer lets it; nothing else is written, and the device waits for the status to be asked for again.\<close>

theorem dfu_block_written:
  assumes "dfu_hw S D F view" and "linked D u" and "v_state (view (hw u)) \<in> {2, 5}" and "bRequest r = 1" and "wLength r \<noteq> 0"
    and "1 < wValue r" and "bRequest s = 3"
  shows "\<exists>u'. dfu_run S D [Request r, Request s, Answer_read] u = Ret u' \<and> view (hw u') = (view (hw u))
    \<lparr>v_state := 3, v_len := 0, v_block := 0, v_log := v_log (view (hw u)) @
       (let a = (ucast (wValue r) - 2) * TRANSFER_SIZE D + v_base (view (hw u))
        in if writable D F a then [(buf_at (dfu_handler_at D), a, ucast (wLength r))] else [])\<rparr>"
  using dfu_hw.block_run [OF assms] by blast

lemma waiting:
  "linked flash_conf ((new_dfu_device (h, []))\<lparr>class_data := 0x20000200\<rparr>)"
  "hw ((new_dfu_device g)\<lparr>class_data := p\<rparr>) = g"
  using ready_new_dfu_device [of "(h, [])"] ready_new_dfu_device [of g]
  by (simp_all add: linked_def flash_conf_def)

theorem dfu_block_written_witness:
  "\<exists>u'. dfu_run gd32_logged_usb flash_conf [Request (request 0x21 1 3 64), Request (request 0xA1 3 0 6), Answer_read]
      ((new_dfu_device ((\<lambda>_. 0)(0x20000204 := 0x02, 0x20000210 := 0x08008000), []))\<lparr>class_data := 0x20000200\<rparr>) = Ret u' \<and>
    snd (hw u') = [(0x20000214, 0x08008040, 64)]"
proof -
  let ?h = "((\<lambda>_. 0 :: reg)(0x20000204 := 0x02, 0x20000210 := 0x08008000), []) :: flashed"
  have v: "v_state (flash_view ?h) = 2" "v_base (flash_view ?h) = 0x08008000" "v_log (flash_view h) = snd h" for h
    by (simp_all add: flash_view_def gd32_read8_def)
  have less: "0x08000000 \<le> (0x08008040 :: reg)" "0x08008040 < (0x08020000 :: reg)" "\<not> (0x08008040 :: reg) < 0x08008000"
    "1 < (3 :: 16 word)" by (simp_all add: word_le_nat_alt word_less_nat_alt)
  have w: "writable flash_conf {a. 0x08000000 \<le> a \<and> a < 0x08020000} 0x08008040"
    using less by (simp add: writable_def flash_conf_def flash_cb_def)
  let ?u = "(new_dfu_device ?h)\<lparr>class_data := 0x20000200\<rparr>"
  let ?es = "[Request (request 0x21 1 3 64), Request (request 0xA1 3 0 6), Answer_read]"
  have c: "TRANSFER_SIZE flash_conf = 64" "dfu_handler_at flash_conf = 0x20000200" by (simp_all add: flash_conf_def)
  obtain u' where u': "dfu_run gd32_logged_usb flash_conf ?es ?u = Ret u'"
    "flash_view (hw u') = (flash_view ?h)\<lparr>v_state := 3, v_len := 0, v_block := 0, v_log := [(0x20000214, 0x08008040, 64)]\<rparr>"
    using dfu_block_written [OF gd32_dfu.dfu_hw_axioms waiting(1), of "(\<lambda>_. 0)(0x20000204 := 0x02, 0x20000210 := 0x08008000)"
      "request 0x21 1 3 64" "request 0xA1 3 0 6"] v w less(4)
    by (auto simp: waiting Let_def c request_def simp del: dfu_run.simps)
  then have "v_log (flash_view (hw u')) = [(0x20000214, 0x08008040, 64)]" by simp
  then show ?thesis using u'(1) v(3) by metis
qed

text \<open>C38: A download is accepted whatever its length, also one that is longer than the buffer of the
  handler: the device is made ready to receive all of it there, beyond the end of the handler's structure.\<close>

theorem dfu_download_unbounded:
  assumes "dfu_hw S D F view" and "linked D u" and "v_state (view (hw u)) \<in> {2, 5}" and "unat (TRANSFER_SIZE D) + 3 < unat (wLength r)"
  shows "\<exists>u'. dfu_dnload S r u = Ret u' \<and> xfer_buf (transc_out u' 0) = buf_at (dfu_handler_at D) \<and>
    unat (remain_len (transc_out u' 0)) = unat (wLength r) \<and> handler_size D < 20 + unat (remain_len (transc_out u' 0))"
proof -
  have "wLength r \<noteq> 0" using assms(4) by auto
  from dfu_hw.dnload_accepted [OF assms(1-3) this] obtain u' where "dfu_dnload S r u = Ret u'"
    "remain_len (transc_out u' 0) = ucast (wLength r)" "xfer_buf (transc_out u' 0) = buf_at (dfu_handler_at D)" by blast
  moreover have "handler_size D < 20 + unat (wLength r)" using assms(4) by (simp add: handler_size_def)
  ultimately show ?thesis by (simp add: length_read)
qed

theorem dfu_download_unbounded_witness:
  "\<exists>u'. dfu_dnload gd32_logged_usb (request 0x21 1 2 0xFFFF)
      ((new_dfu_device ((\<lambda>_. 0)(0x20000204 := 0x02), []))\<lparr>class_data := 0x20000200\<rparr>) = Ret u' \<and>
    unat (remain_len (transc_out u' 0)) = 65535"
proof -
  have v: "v_state (flash_view ((\<lambda>_. 0)(0x20000204 := 0x02), [])) = 2" by (simp add: flash_view_def gd32_read8_def)
  show ?thesis
    using dfu_download_unbounded [OF gd32_dfu.dfu_hw_axioms waiting(1), of "(\<lambda>_. 0)(0x20000204 := 0x02)" "request 0x21 1 2 0xFFFF"] v
    by (auto simp: waiting request_def flash_conf_def)
qed

end
