(* ===== verification/Msc.thy ===== *)
theory Msc
  imports UsbdCore
begin

text \<open>
  The class of mass storage devices: \<open>usbd_msc_core.c\<close>, the bulk-only transport \<open>usbd_msc_bbb.c\<close>, the SCSI commands
  \<open>usbd_msc_scsi.c\<close> and their constant answers \<open>usbd_msc_data.c\<close>. The parts of the handler whose address the endpoints
  are given (the command wrapper, the status wrapper, the data) are in memory, at addresses of \<open>msc_conf\<close>; the
  others are a record, so that an access beyond the data is undefined. The data of the class is that record,
  None before \<open>msc_core_init\<close> has set the pointer. The medium, \<open>usbd_mem_fops\<close>, is the application's.
\<close>

section \<open>Configuration and state\<close>

record 'h usbd_mem_cb =
  mem_init :: "8 word \<Rightarrow> 'h \<Rightarrow> 8 word \<times> 'h"
  mem_ready :: "8 word \<Rightarrow> 'h \<Rightarrow> 8 word \<times> 'h"
  mem_protected :: "8 word \<Rightarrow> 'h \<Rightarrow> 8 word \<times> 'h"
  mem_read :: "8 word \<Rightarrow> 32 word \<Rightarrow> reg \<Rightarrow> 16 word \<Rightarrow> 'h \<Rightarrow> 8 word \<times> 'h"
  mem_write :: "8 word \<Rightarrow> 32 word \<Rightarrow> reg \<Rightarrow> 16 word \<Rightarrow> 'h \<Rightarrow> 8 word \<times> 'h"
  mem_maxlun :: "'h \<Rightarrow> 8 word \<times> 'h"
  mem_toc_data :: "32 word"
  mem_inquiry_data :: "32 word list"
  mem_block_size :: "reg list"
  mem_block_len :: "reg list"

record 'h msc_conf =
  usbd_mem_fops :: "'h usbd_mem_cb"
  MEM_LUN_NUM :: nat
  MSC_MEDIA_PACKET_SIZE :: reg
  MSC_DATA_PACKET_SIZE :: "16 word"
  MSC_IN_EP :: "8 word"
  MSC_OUT_EP :: "8 word"
  bbb_data_at :: "32 word"
  bbb_cbw_at :: "32 word"
  bbb_csw_at :: "32 word"
  usbd_msc_maxlun_at :: "32 word"

record msc_scsi_sense =
  SenseKey :: "8 word"
  Information :: reg
  ASC :: "8 word"
  ASCQ :: "8 word"

record usbd_msc_handler =
  max_lun :: "8 word"
  bbb_state :: "8 word"
  bbb_status :: "8 word"
  bbb_datalen :: reg
  scsi_sense_head :: "8 word"
  scsi_sense_tail :: "8 word"
  scsi_blk_size :: "reg list"
  scsi_blk_nbr :: "reg list"
  scsi_blk_addr :: reg
  scsi_blk_len :: reg
  scsi_disk_pop :: reg
  scsi_sense :: "msc_scsi_sense list"

abbreviation (input) SENSE_LIST_DEEPTH :: nat where "SENSE_LIST_DEEPTH \<equiv> 4"
abbreviation (input) BBB_IDLE :: "8 word" where "BBB_IDLE \<equiv> 0"
abbreviation (input) BBB_DATA_OUT :: "8 word" where "BBB_DATA_OUT \<equiv> 1"
abbreviation (input) BBB_DATA_IN :: "8 word" where "BBB_DATA_IN \<equiv> 2"
abbreviation (input) BBB_LAST_DATA_IN :: "8 word" where "BBB_LAST_DATA_IN \<equiv> 3"
abbreviation (input) BBB_SEND_DATA :: "8 word" where "BBB_SEND_DATA \<equiv> 4"
abbreviation (input) BBB_STATUS_NORMAL :: "8 word" where "BBB_STATUS_NORMAL \<equiv> 0"
abbreviation (input) BBB_STATUS_RECOVERY :: "8 word" where "BBB_STATUS_RECOVERY \<equiv> 1"
abbreviation (input) BBB_STATUS_ERROR :: "8 word" where "BBB_STATUS_ERROR \<equiv> 2"
abbreviation (input) BBB_CBW_SIGNATURE :: reg where "BBB_CBW_SIGNATURE \<equiv> 0x43425355"
abbreviation (input) BBB_CSW_SIGNATURE :: reg where "BBB_CSW_SIGNATURE \<equiv> 0x53425355"
abbreviation (input) BBB_CBW_LENGTH :: nat where "BBB_CBW_LENGTH \<equiv> 31"
abbreviation (input) BBB_CSW_LENGTH :: nat where "BBB_CSW_LENGTH \<equiv> 13"
abbreviation (input) CSW_CMD_PASSED :: "8 word" where "CSW_CMD_PASSED \<equiv> 0"
abbreviation (input) CSW_CMD_FAILED :: "8 word" where "CSW_CMD_FAILED \<equiv> 1"
abbreviation (input) BBB_GET_MAX_LUN :: "8 word" where "BBB_GET_MAX_LUN \<equiv> 0xFE"
abbreviation (input) BBB_RESET :: "8 word" where "BBB_RESET \<equiv> 0xFF"
abbreviation (input) USB_CLEAR_FEATURE :: "8 word" where "USB_CLEAR_FEATURE \<equiv> 0x1"
abbreviation (input) USB_EP_ATTR_BULK :: "8 word" where "USB_EP_ATTR_BULK \<equiv> 0x2"
abbreviation (input) SCSI_TEST_UNIT_READY :: "8 word" where "SCSI_TEST_UNIT_READY \<equiv> 0x00"
abbreviation (input) SCSI_REQUEST_SENSE :: "8 word" where "SCSI_REQUEST_SENSE \<equiv> 0x03"
abbreviation (input) SCSI_FORMAT_UNIT :: "8 word" where "SCSI_FORMAT_UNIT \<equiv> 0x04"
abbreviation (input) SCSI_INQUIRY :: "8 word" where "SCSI_INQUIRY \<equiv> 0x12"
abbreviation (input) SCSI_MODE_SENSE6 :: "8 word" where "SCSI_MODE_SENSE6 \<equiv> 0x1A"
abbreviation (input) SCSI_START_STOP_UNIT :: "8 word" where "SCSI_START_STOP_UNIT \<equiv> 0x1B"
abbreviation (input) SCSI_ALLOW_MEDIUM_REMOVAL :: "8 word" where "SCSI_ALLOW_MEDIUM_REMOVAL \<equiv> 0x1E"
abbreviation (input) SCSI_READ_FORMAT_CAPACITIES :: "8 word" where "SCSI_READ_FORMAT_CAPACITIES \<equiv> 0x23"
abbreviation (input) SCSI_READ_CAPACITY10 :: "8 word" where "SCSI_READ_CAPACITY10 \<equiv> 0x25"
abbreviation (input) SCSI_READ10 :: "8 word" where "SCSI_READ10 \<equiv> 0x28"
abbreviation (input) SCSI_WRITE10 :: "8 word" where "SCSI_WRITE10 \<equiv> 0x2A"
abbreviation (input) SCSI_VERIFY10 :: "8 word" where "SCSI_VERIFY10 \<equiv> 0x2F"
abbreviation (input) SCSI_READ_TOC_DATA :: "8 word" where "SCSI_READ_TOC_DATA \<equiv> 0x43"
abbreviation (input) SCSI_MODE_SENSE10 :: "8 word" where "SCSI_MODE_SENSE10 \<equiv> 0x5A"
abbreviation (input) INVALID_CDB :: "8 word" where "INVALID_CDB \<equiv> 0x20"
abbreviation (input) INVALID_FIELED_IN_COMMAND :: "8 word" where "INVALID_FIELED_IN_COMMAND \<equiv> 0x24"
abbreviation (input) ADDRESS_OUT_OF_RANGE :: "8 word" where "ADDRESS_OUT_OF_RANGE \<equiv> 0x21"
abbreviation (input) MEDIUM_NOT_PRESENT :: "8 word" where "MEDIUM_NOT_PRESENT \<equiv> 0x3A"
abbreviation (input) WRITE_PROTECTED :: "8 word" where "WRITE_PROTECTED \<equiv> 0x27"
abbreviation (input) UNRECOVERED_READ_ERROR :: "8 word" where "UNRECOVERED_READ_ERROR \<equiv> 0x11"
abbreviation (input) WRITE_FAULT :: "8 word" where "WRITE_FAULT \<equiv> 0x03"
abbreviation (input) NOT_READY :: "8 word" where "NOT_READY \<equiv> 2"
abbreviation (input) HARDWARE_ERROR :: "8 word" where "HARDWARE_ERROR \<equiv> 4"
abbreviation (input) ILLEGAL_REQUEST :: "8 word" where "ILLEGAL_REQUEST \<equiv> 5"
abbreviation (input) READ_TOC_CMD_LEN :: reg where "READ_TOC_CMD_LEN \<equiv> 0x14"
abbreviation (input) REQUEST_SENSE_DATA_LEN :: nat where "REQUEST_SENSE_DATA_LEN \<equiv> 0x12"
abbreviation (input) INQUIRY_PAGE00_LENGTH :: "16 word" where "INQUIRY_PAGE00_LENGTH \<equiv> 96"

definition USB_MIN :: "reg \<Rightarrow> reg \<Rightarrow> reg" where
  "USB_MIN a b = (if a < b then a else b)"

definition msc_page00_inquiry_data :: "8 word list" where
  "msc_page00_inquiry_data = [0x00, 0x00, 0x00, 0x00, ucast (INQUIRY_PAGE00_LENGTH - 4), 0x80, 0x83]"

definition msc_mode_sense6_data :: "8 word list" where
  "msc_mode_sense6_data = [0, 0, 0, 0, 0, 0, 0, 0]"

definition msc_mode_sense10_data :: "8 word list" where
  "msc_mode_sense10_data = [0, 6, 0, 0, 0, 0, 0, 0]"

text \<open>The wrappers in memory: fields without gaps, as the packets have them.\<close>

abbreviation (input) dCBWSignature_at :: "'h msc_conf \<Rightarrow> 32 word" where "dCBWSignature_at C \<equiv> bbb_cbw_at C + 0"
abbreviation (input) dCBWTag_at :: "'h msc_conf \<Rightarrow> 32 word" where "dCBWTag_at C \<equiv> bbb_cbw_at C + 4"
abbreviation (input) dCBWDataTransferLength_at :: "'h msc_conf \<Rightarrow> 32 word" where "dCBWDataTransferLength_at C \<equiv> bbb_cbw_at C + 8"
abbreviation (input) bmCBWFlags_at :: "'h msc_conf \<Rightarrow> 32 word" where "bmCBWFlags_at C \<equiv> bbb_cbw_at C + 12"
abbreviation (input) bCBWLUN_at :: "'h msc_conf \<Rightarrow> 32 word" where "bCBWLUN_at C \<equiv> bbb_cbw_at C + 13"
abbreviation (input) bCBWCBLength_at :: "'h msc_conf \<Rightarrow> 32 word" where "bCBWCBLength_at C \<equiv> bbb_cbw_at C + 14"
abbreviation (input) CBWCB_at :: "'h msc_conf \<Rightarrow> 32 word" where "CBWCB_at C \<equiv> bbb_cbw_at C + 15"
abbreviation (input) dCSWSignature_at :: "'h msc_conf \<Rightarrow> 32 word" where "dCSWSignature_at C \<equiv> bbb_csw_at C + 0"
abbreviation (input) dCSWTag_at :: "'h msc_conf \<Rightarrow> 32 word" where "dCSWTag_at C \<equiv> bbb_csw_at C + 4"
abbreviation (input) dCSWDataResidue_at :: "'h msc_conf \<Rightarrow> 32 word" where "dCSWDataResidue_at C \<equiv> bbb_csw_at C + 8"
abbreviation (input) bCSWStatus_at :: "'h msc_conf \<Rightarrow> 32 word" where "bCSWStatus_at C \<equiv> bbb_csw_at C + 12"

type_synonym 'h msc_dev = "('h, usbd_msc_handler option) udev"

text \<open>A command returns 0, or -1 for an error.\<close>

type_synonym 'h scsi_result = "(int \<times> 'h msc_dev) outcome"

definition with_msc :: "'h msc_dev \<Rightarrow> (usbd_msc_handler \<Rightarrow> 'a outcome) \<Rightarrow> 'a outcome" where
  "with_msc u k = (case class_data u of None \<Rightarrow> Undef | Some m \<Rightarrow> k m)"

definition set_msc :: "(usbd_msc_handler \<Rightarrow> usbd_msc_handler) \<Rightarrow> 'h msc_dev \<Rightarrow> 'h msc_dev" where
  "set_msc f u = u\<lparr>class_data := map_option f (class_data u)\<rparr>"

abbreviation get8 :: "'h usb_sys \<Rightarrow> 32 word \<Rightarrow> 'h msc_dev \<Rightarrow> 8 word \<times> 'h msc_dev" where
  "get8 S a u \<equiv> hw_get (rd8 (bus S) a) u"
abbreviation get32 :: "'h usb_sys \<Rightarrow> 32 word \<Rightarrow> 'h msc_dev \<Rightarrow> reg \<times> 'h msc_dev" where
  "get32 S a u \<equiv> hw_get (rd32 (bus S) a) u"

text \<open>An element of an array with one for each logical unit.\<close>

definition lun_at :: "'a list \<Rightarrow> 8 word \<Rightarrow> ('a \<Rightarrow> 'b outcome) \<Rightarrow> 'b outcome" where
  "lun_at xs lun k = (if unat lun < length xs then k (xs ! unat lun) else Undef)"

text \<open>Bytes of the data: one, several in a row, and a page copied from its end to its start.\<close>

definition put_data :: "'h usb_sys \<Rightarrow> 'h msc_conf \<Rightarrow> nat \<Rightarrow> 8 word \<Rightarrow> 'h msc_dev \<Rightarrow> 'h msc_dev outcome" where
  "put_data S C i v u = (if i < unat (MSC_MEDIA_PACKET_SIZE C) then Ret (put8 S (bbb_data_at C + of_nat i) v u) else Undef)"

fun put_bytes :: "'h usb_sys \<Rightarrow> 'h msc_conf \<Rightarrow> nat \<Rightarrow> 8 word list \<Rightarrow> 'h msc_dev \<Rightarrow> 'h msc_dev outcome" where
  "put_bytes S C i [] u = Ret u"
| "put_bytes S C i (v # vs) u = bindo (put_data S C i v u) (put_bytes S C (Suc i) vs)"

fun copy_down :: "'h usb_sys \<Rightarrow> 'h msc_conf \<Rightarrow> (nat \<Rightarrow> 'h msc_dev \<Rightarrow> (8 word \<times> 'h msc_dev) outcome) \<Rightarrow> nat \<Rightarrow> 'h msc_dev \<Rightarrow> 'h msc_dev outcome" where
  "copy_down S C page 0 u = Ret u"
| "copy_down S C page (Suc len) u =
     bindo (page len u) (\<lambda>(v, u). bindo (put_data S C len v u) (copy_down S C page len))"

definition array_byte :: "8 word list \<Rightarrow> nat \<Rightarrow> 'h msc_dev \<Rightarrow> (8 word \<times> 'h msc_dev) outcome" where
  "array_byte xs i u = (if i < length xs then Ret (xs ! i, u) else Undef)"

definition memory_byte :: "'h usb_sys \<Rightarrow> 32 word \<Rightarrow> nat \<Rightarrow> 'h msc_dev \<Rightarrow> (8 word \<times> 'h msc_dev) outcome" where
  "memory_byte S p i u = Ret (get8 S (p + of_nat i) u)"

definition be_bytes :: "reg \<Rightarrow> 8 word list" where
  "be_bytes v = [ucast (drop_bit 24 v), ucast (drop_bit 16 v), ucast (drop_bit 8 v), ucast v]"

section \<open>Sense data\<close>

definition scsi_sense_code :: "8 word \<Rightarrow> 8 word \<Rightarrow> 8 word \<Rightarrow> 'h msc_dev \<Rightarrow> 'h msc_dev outcome" where
  "scsi_sense_code lun skey asc u =
     with_msc u (\<lambda>m. let i = unat (scsi_sense_tail m) in
       if i < length (scsi_sense m)
       then Ret (set_msc (\<lambda>m. m\<lparr>scsi_sense := (scsi_sense m)[i := (scsi_sense m ! i)
                \<lparr>SenseKey := skey, ASC := ucast (push_bit 8 (ucast asc :: reg))\<rparr>],
              scsi_sense_tail := (if scsi_sense_tail m + 1 = of_nat SENSE_LIST_DEEPTH then 0 else scsi_sense_tail m + 1)\<rparr>) u)
       else Undef)"

definition refuse :: "8 word \<Rightarrow> 8 word \<Rightarrow> 8 word \<Rightarrow> 'h msc_dev \<Rightarrow> 'h scsi_result" where
  "refuse lun skey asc u = bindo (scsi_sense_code lun skey asc u) (\<lambda>u. Ret (- 1, u))"

text \<open>An illegal request, on the unit that the command wrapper names.\<close>

definition refuse_cbw :: "'h usb_sys \<Rightarrow> 'h msc_conf \<Rightarrow> 'h msc_dev \<Rightarrow> 'h scsi_result" where
  "refuse_cbw S C u = (let (l, u) = get8 S (bCBWLUN_at C) u in refuse l ILLEGAL_REQUEST INVALID_CDB u)"

definition scsi_request_sense :: "'h usb_sys \<Rightarrow> 'h msc_conf \<Rightarrow> 8 word \<Rightarrow> 32 word \<Rightarrow> 'h msc_dev \<Rightarrow> 'h scsi_result" where
  "scsi_request_sense S C lun params u =
     bindo (put_bytes S C 0 (replicate REQUEST_SENSE_DATA_LEN 0) u) (\<lambda>u.
     bindo (put_data S C 0 0x70 u) (\<lambda>u.
     bindo (put_data S C 7 (of_nat REQUEST_SENSE_DATA_LEN - 6) u) (\<lambda>u.
     bindo (with_msc u (\<lambda>m.
       if scsi_sense_head m \<noteq> scsi_sense_tail m
       then (let i = unat (scsi_sense_head m); e = scsi_sense m ! i
             in if i < length (scsi_sense m)
                then bindo (put_data S C 2 (SenseKey e) u) (\<lambda>u.
                     bindo (put_data S C 12 (ASCQ e) u) (\<lambda>u.
                     bindo (put_data S C 13 (ASC e) u) (\<lambda>u.
                     Ret (set_msc (\<lambda>m. m\<lparr>scsi_sense_head :=
                       (if scsi_sense_head m + 1 = of_nat SENSE_LIST_DEEPTH then 0 else scsi_sense_head m + 1)\<rparr>) u))))
                else Undef)
       else Ret u)) (\<lambda>u.
     let (p4, u) = get8 S (params + 4) u
     in Ret (0, set_msc (\<lambda>m. m\<lparr>bbb_datalen := USB_MIN (of_nat REQUEST_SENSE_DATA_LEN) (ucast p4)\<rparr>) u)))))"

section \<open>Commands that answer at once\<close>

definition scsi_test_unit_ready :: "'h usb_sys \<Rightarrow> 'h msc_conf \<Rightarrow> 8 word \<Rightarrow> 32 word \<Rightarrow> 'h msc_dev \<Rightarrow> 'h scsi_result" where
  "scsi_test_unit_ready S C lun params u =
     (let (len, u) = get32 S (dCBWDataTransferLength_at C) u
      in if len \<noteq> 0 then refuse_cbw S C u
         else (let (r, u) = hw_get (mem_ready (usbd_mem_fops C) lun) u
               in if r \<noteq> 0 then refuse lun NOT_READY MEDIUM_NOT_PRESENT u
                  else with_msc u (\<lambda>m.
                    let u = (if scsi_disk_pop m = 1 then usbd_disconnect S u else u)
                    in Ret (0, set_msc (\<lambda>m. m\<lparr>bbb_datalen := 0\<rparr>) u))))"

definition scsi_inquiry :: "'h usb_sys \<Rightarrow> 'h msc_conf \<Rightarrow> 8 word \<Rightarrow> 32 word \<Rightarrow> 'h msc_dev \<Rightarrow> 'h scsi_result" where
  "scsi_inquiry S C lun params u =
     (let (p1, u) = get8 S (params + 1) u
      in bindo
        (if p1 AND 0x01 \<noteq> 0 then Ret (array_byte msc_page00_inquiry_data, INQUIRY_PAGE00_LENGTH, u)
         else lun_at (mem_inquiry_data (usbd_mem_fops C)) lun (\<lambda>page.
           let (n, u) = get8 S (page + 4) u;
               len = (ucast (ucast n + 5 :: reg) :: 16 word);
               (p4, u) = get8 S (params + 4) u;
               (len, u) = (if ucast p4 \<le> len then (let (p4, u) = get8 S (params + 4) u in (ucast p4, u)) else (len, u))
           in Ret (memory_byte S page, len, u)))
        (\<lambda>(page, len, u).
         let u = set_msc (\<lambda>m. m\<lparr>bbb_datalen := ucast len\<rparr>) u
         in bindo (copy_down S C page (unat len) u) (\<lambda>u. Ret (0, u))))"

definition scsi_read_capacity10 :: "'h usb_sys \<Rightarrow> 'h msc_conf \<Rightarrow> 8 word \<Rightarrow> 32 word \<Rightarrow> 'h msc_dev \<Rightarrow> 'h scsi_result" where
  "scsi_read_capacity10 S C lun params u =
     lun_at (mem_block_len (usbd_mem_fops C)) lun (\<lambda>blk_len.
     lun_at (mem_block_size (usbd_mem_fops C)) lun (\<lambda>blk_size.
     with_msc u (\<lambda>m.
     lun_at (scsi_blk_nbr m) lun (\<lambda>_. lun_at (scsi_blk_size m) lun (\<lambda>_.
       let u = set_msc (\<lambda>m. m\<lparr>scsi_blk_size := (scsi_blk_size m)[unat lun := blk_size],
             scsi_blk_nbr := (scsi_blk_nbr m)[unat lun := blk_len]\<rparr>) u
       in bindo (put_bytes S C 0 (be_bytes (blk_len - 1) @ be_bytes blk_size) u) (\<lambda>u.
          Ret (0, set_msc (\<lambda>m. m\<lparr>bbb_datalen := 8\<rparr>) u)))))))"

definition scsi_read_format_capacity :: "'h usb_sys \<Rightarrow> 'h msc_conf \<Rightarrow> 8 word \<Rightarrow> 32 word \<Rightarrow> 'h msc_dev \<Rightarrow> 'h scsi_result" where
  "scsi_read_format_capacity S C lun params u =
     lun_at (mem_block_size (usbd_mem_fops C)) lun (\<lambda>blk_size.
     lun_at (mem_block_len (usbd_mem_fops C)) lun (\<lambda>blk_num.
     bindo (put_bytes S C 0 (replicate 12 0) u) (\<lambda>u.
     bindo (put_bytes S C 3 ([0x08] @ be_bytes (blk_num - 1) @ [0x02] @ tl (be_bytes blk_size)) u) (\<lambda>u.
     with_msc u (\<lambda>_. Ret (0, set_msc (\<lambda>m. m\<lparr>bbb_datalen := 12\<rparr>) u))))))"

definition scsi_mode_sense6 :: "'h usb_sys \<Rightarrow> 'h msc_conf \<Rightarrow> 8 word \<Rightarrow> 32 word \<Rightarrow> 'h msc_dev \<Rightarrow> 'h scsi_result" where
  "scsi_mode_sense6 S C lun params u =
     with_msc u (\<lambda>_. bindo (copy_down S C (array_byte msc_mode_sense6_data) 8 (set_msc (\<lambda>m. m\<lparr>bbb_datalen := 8\<rparr>) u)) (\<lambda>u. Ret (0, u)))"

definition scsi_mode_sense10 :: "'h usb_sys \<Rightarrow> 'h msc_conf \<Rightarrow> 8 word \<Rightarrow> 32 word \<Rightarrow> 'h msc_dev \<Rightarrow> 'h scsi_result" where
  "scsi_mode_sense10 S C lun params u =
     with_msc u (\<lambda>_. bindo (copy_down S C (array_byte msc_mode_sense10_data) 8 (set_msc (\<lambda>m. m\<lparr>bbb_datalen := 8\<rparr>) u)) (\<lambda>u. Ret (0, u)))"

definition scsi_start_stop_unit :: "8 word \<Rightarrow> 32 word \<Rightarrow> 'h msc_dev \<Rightarrow> 'h scsi_result" where
  "scsi_start_stop_unit lun params u =
     with_msc u (\<lambda>_. Ret (0, set_msc (\<lambda>m. m\<lparr>bbb_datalen := 0, scsi_disk_pop := 1\<rparr>) u))"

definition scsi_allow_medium_removal :: "8 word \<Rightarrow> 32 word \<Rightarrow> 'h msc_dev \<Rightarrow> 'h scsi_result" where
  "scsi_allow_medium_removal lun params u = with_msc u (\<lambda>_. Ret (0, set_msc (\<lambda>m. m\<lparr>bbb_datalen := 0\<rparr>) u))"

definition scsi_format_cmd :: "8 word \<Rightarrow> 'h msc_dev \<Rightarrow> 'h scsi_result" where
  "scsi_format_cmd lun u = Ret (0, u)"

definition scsi_toc_cmd_read :: "'h usb_sys \<Rightarrow> 'h msc_conf \<Rightarrow> 8 word \<Rightarrow> 32 word \<Rightarrow> 'h msc_dev \<Rightarrow> 'h scsi_result" where
  "scsi_toc_cmd_read S C lun params u =
     (let pPage = mem_toc_data (usbd_mem_fops C) + ucast lun * READ_TOC_CMD_LEN;
          (n, u) = get8 S (pPage + 1) u;
          len = (ucast n + 2 :: 16 word)
      in with_msc u (\<lambda>_.
         bindo (copy_down S C (memory_byte S pPage) (unat len) (set_msc (\<lambda>m. m\<lparr>bbb_datalen := ucast len\<rparr>) u)) (\<lambda>u. Ret (0, u))))"

section \<open>Reading and writing\<close>

definition scsi_check_address_range :: "8 word \<Rightarrow> reg \<Rightarrow> 16 word \<Rightarrow> 'h msc_dev \<Rightarrow> 'h scsi_result" where
  "scsi_check_address_range lun blk_offset blk_nbr u =
     with_msc u (\<lambda>m. lun_at (scsi_blk_nbr m) lun (\<lambda>n.
       if n < blk_offset + ucast blk_nbr then refuse lun ILLEGAL_REQUEST ADDRESS_OUT_OF_RANGE u else Ret (0, u)))"

text \<open>The status wrapper of a command, and the next command is awaited.\<close>

definition msc_bbb_csw_send :: "'h usb_sys \<Rightarrow> 'h msc_conf \<Rightarrow> 8 word \<Rightarrow> 'h msc_dev \<Rightarrow> 'h msc_dev outcome" where
  "msc_bbb_csw_send S C csw_status u =
     with_msc u (\<lambda>_.
       let u = put32 S (dCSWSignature_at C) BBB_CSW_SIGNATURE u;
           u = put8 S (bCSWStatus_at C) csw_status u;
           u = set_msc (\<lambda>m. m\<lparr>bbb_state := BBB_IDLE\<rparr>) u
       in bindo (usbd_ep_send S (MSC_IN_EP C) (bbb_csw_at C) (of_nat BBB_CSW_LENGTH) u) (\<lambda>u.
          usbd_ep_recev S (MSC_OUT_EP C) (bbb_cbw_at C) (of_nat BBB_CBW_LENGTH) u))"

definition residue_less :: "'h usb_sys \<Rightarrow> 'h msc_conf \<Rightarrow> reg \<Rightarrow> 'h msc_dev \<Rightarrow> 'h msc_dev" where
  "residue_less S C len u =
     (let (r, u) = get32 S (dCSWDataResidue_at C) u in put32 S (dCSWDataResidue_at C) (r - len) u)"

definition scsi_process_read :: "'h usb_sys \<Rightarrow> 'h msc_conf \<Rightarrow> 8 word \<Rightarrow> 'h msc_dev \<Rightarrow> 'h scsi_result" where
  "scsi_process_read S C lun u =
     with_msc u (\<lambda>m. let len = USB_MIN (scsi_blk_len m) (MSC_MEDIA_PACKET_SIZE C) in
       lun_at (scsi_blk_size m) lun (\<lambda>size. bindo (udivide len size) (\<lambda>n.
       let (r, u) = hw_get (mem_read (usbd_mem_fops C) lun (bbb_data_at C) (scsi_blk_addr m) (ucast n)) u
       in if sint r < 0 then refuse lun HARDWARE_ERROR UNRECOVERED_READ_ERROR u
          else bindo (usbd_ep_send S (MSC_IN_EP C) (bbb_data_at C) len u) (\<lambda>u.
            let u = set_msc (\<lambda>m. m\<lparr>scsi_blk_addr := scsi_blk_addr m + len, scsi_blk_len := scsi_blk_len m - len\<rparr>) u;
                u = residue_less S C len u
            in with_msc u (\<lambda>m.
               Ret (0, if scsi_blk_len m = 0 then set_msc (\<lambda>m. m\<lparr>bbb_state := BBB_LAST_DATA_IN\<rparr>) u else u))))))"

definition scsi_process_write :: "'h usb_sys \<Rightarrow> 'h msc_conf \<Rightarrow> 8 word \<Rightarrow> 'h msc_dev \<Rightarrow> 'h scsi_result" where
  "scsi_process_write S C lun u =
     with_msc u (\<lambda>m. let len = USB_MIN (scsi_blk_len m) (MSC_MEDIA_PACKET_SIZE C) in
       lun_at (scsi_blk_size m) lun (\<lambda>size. bindo (udivide len size) (\<lambda>n.
       let (r, u) = hw_get (mem_write (usbd_mem_fops C) lun (bbb_data_at C) (scsi_blk_addr m) (ucast n)) u
       in if sint r < 0 then refuse lun HARDWARE_ERROR WRITE_FAULT u
          else (let u = set_msc (\<lambda>m. m\<lparr>scsi_blk_addr := scsi_blk_addr m + len, scsi_blk_len := scsi_blk_len m - len\<rparr>) u;
                    u = residue_less S C len u
                in with_msc u (\<lambda>m.
                   if scsi_blk_len m = 0
                   then bindo (msc_bbb_csw_send S C CSW_CMD_PASSED u) (\<lambda>u. Ret (0, u))
                   else bindo (usbd_ep_recev S (MSC_OUT_EP C) (bbb_data_at C)
                          (USB_MIN (scsi_blk_len m) (MSC_MEDIA_PACKET_SIZE C)) u) (\<lambda>u. Ret (0, u)))))))"

text \<open>The address and the number of blocks in a command. (C leaves the shift of a byte from 128 on into the sign
  of an int undefined; it is taken to give the bits.)\<close>

definition block_range :: "'h usb_sys \<Rightarrow> 32 word \<Rightarrow> 'h msc_dev \<Rightarrow> 'h msc_dev" where
  "block_range S params u =
     (let (p2, u) = get8 S (params + 2) u; (p3, u) = get8 S (params + 3) u; (p4, u) = get8 S (params + 4) u;
          (p5, u) = get8 S (params + 5) u;
          u = set_msc (\<lambda>m. m\<lparr>scsi_blk_addr := push_bit 24 (ucast p2) OR push_bit 16 (ucast p3) OR push_bit 8 (ucast p4) OR ucast p5\<rparr>) u;
          (p7, u) = get8 S (params + 7) u; (p8, u) = get8 S (params + 8) u
      in set_msc (\<lambda>m. m\<lparr>scsi_blk_len := push_bit 8 (ucast p7) OR ucast p8\<rparr>) u)"

definition to_bytes :: "8 word \<Rightarrow> 'h msc_dev \<Rightarrow> 'h msc_dev outcome" where
  "to_bytes lun u =
     with_msc u (\<lambda>m. lun_at (scsi_blk_size m) lun (\<lambda>size.
       Ret (set_msc (\<lambda>m. m\<lparr>scsi_blk_addr := scsi_blk_addr m * size, scsi_blk_len := scsi_blk_len m * size\<rparr>) u)))"

definition scsi_read10 :: "'h usb_sys \<Rightarrow> 'h msc_conf \<Rightarrow> 8 word \<Rightarrow> 32 word \<Rightarrow> 'h msc_dev \<Rightarrow> 'h scsi_result" where
  "scsi_read10 S C lun params u =
     (let go = (\<lambda>u. with_msc u (\<lambda>_.
          scsi_process_read S C lun (set_msc (\<lambda>m. m\<lparr>bbb_datalen := MSC_MEDIA_PACKET_SIZE C\<rparr>) u)))
      in with_msc u (\<lambda>m.
       if bbb_state m = BBB_IDLE
       then (let (flags, u) = get8 S (bmCBWFlags_at C) u
             in if 0x80 \<noteq> flags AND 0x80 then refuse_cbw S C u
                else (let (r, u) = hw_get (mem_ready (usbd_mem_fops C) lun) u
                      in if r \<noteq> 0 then refuse lun NOT_READY MEDIUM_NOT_PRESENT u
                         else (let u = block_range S params u
                               in with_msc u (\<lambda>m.
                                  bindo (scsi_check_address_range lun (scsi_blk_addr m) (ucast (scsi_blk_len m)) u) (\<lambda>(r, u).
                                  if r < 0 then Ret (- 1, u)
                                  else bindo (to_bytes lun (set_msc (\<lambda>m. m\<lparr>bbb_state := BBB_DATA_IN\<rparr>) u)) (\<lambda>u.
                                    let (n, u) = get32 S (dCBWDataTransferLength_at C) u
                                    in with_msc u (\<lambda>m. if n \<noteq> scsi_blk_len m then refuse_cbw S C u else go u)))))))
       else go u))"

definition scsi_write10 :: "'h usb_sys \<Rightarrow> 'h msc_conf \<Rightarrow> 8 word \<Rightarrow> 32 word \<Rightarrow> 'h msc_dev \<Rightarrow> 'h scsi_result" where
  "scsi_write10 S C lun params u =
     with_msc u (\<lambda>m.
       if bbb_state m = BBB_IDLE
       then (let (flags, u) = get8 S (bmCBWFlags_at C) u
             in if 0x80 = flags AND 0x80 then refuse_cbw S C u
                else (let (r, u) = hw_get (mem_ready (usbd_mem_fops C) lun) u
                      in if r \<noteq> 0 then refuse lun NOT_READY MEDIUM_NOT_PRESENT u
                         else (let (r, u) = hw_get (mem_protected (usbd_mem_fops C) lun) u
                               in if r \<noteq> 0 then refuse lun NOT_READY WRITE_PROTECTED u
                                  else (let u = block_range S params u
                                        in with_msc u (\<lambda>m.
                                           bindo (scsi_check_address_range lun (scsi_blk_addr m) (ucast (scsi_blk_len m)) u) (\<lambda>(r, u).
                                           if r < 0 then Ret (- 1, u)
                                           else bindo (to_bytes lun u) (\<lambda>u.
                                             let (n, u) = get32 S (dCBWDataTransferLength_at C) u
                                             in with_msc u (\<lambda>m.
                                                if n \<noteq> scsi_blk_len m then refuse_cbw S C u
                                                else (let u = set_msc (\<lambda>m. m\<lparr>bbb_state := BBB_DATA_OUT\<rparr>) u
                                                      in bindo (usbd_ep_recev S (MSC_OUT_EP C) (bbb_data_at C)
                                                           (USB_MIN (scsi_blk_len m) (MSC_MEDIA_PACKET_SIZE C)) u) (\<lambda>u.
                                                         Ret (0, u)))))))))))
       else scsi_process_write S C lun u)"

definition scsi_verify10 :: "'h usb_sys \<Rightarrow> 8 word \<Rightarrow> 32 word \<Rightarrow> 'h msc_dev \<Rightarrow> 'h scsi_result" where
  "scsi_verify10 S lun params u =
     (let (p1, u) = get8 S (params + 1) u
      in if 0x02 = p1 AND 0x02 then refuse lun ILLEGAL_REQUEST INVALID_FIELED_IN_COMMAND u
         else with_msc u (\<lambda>m. bindo (scsi_check_address_range lun (scsi_blk_addr m) (ucast (scsi_blk_len m)) u) (\<lambda>(r, u).
              if r < 0 then Ret (- 1, u) else Ret (0, set_msc (\<lambda>m. m\<lparr>bbb_datalen := 0\<rparr>) u))))"

definition scsi_process_cmd :: "'h usb_sys \<Rightarrow> 'h msc_conf \<Rightarrow> 8 word \<Rightarrow> 32 word \<Rightarrow> 'h msc_dev \<Rightarrow> 'h scsi_result" where
  "scsi_process_cmd S C lun params u =
     (let (op, u) = get8 S params u
      in if op = SCSI_TEST_UNIT_READY then scsi_test_unit_ready S C lun params u
         else if op = SCSI_REQUEST_SENSE then scsi_request_sense S C lun params u
         else if op = SCSI_INQUIRY then scsi_inquiry S C lun params u
         else if op = SCSI_START_STOP_UNIT then scsi_start_stop_unit lun params u
         else if op = SCSI_ALLOW_MEDIUM_REMOVAL then scsi_allow_medium_removal lun params u
         else if op = SCSI_MODE_SENSE6 then scsi_mode_sense6 S C lun params u
         else if op = SCSI_MODE_SENSE10 then scsi_mode_sense10 S C lun params u
         else if op = SCSI_READ_FORMAT_CAPACITIES then scsi_read_format_capacity S C lun params u
         else if op = SCSI_READ_CAPACITY10 then scsi_read_capacity10 S C lun params u
         else if op = SCSI_READ10 then scsi_read10 S C lun params u
         else if op = SCSI_WRITE10 then scsi_write10 S C lun params u
         else if op = SCSI_VERIFY10 then scsi_verify10 S lun params u
         else if op = SCSI_FORMAT_UNIT then scsi_format_cmd lun u
         else if op = SCSI_READ_TOC_DATA then scsi_toc_cmd_read S C lun params u
         else refuse lun ILLEGAL_REQUEST INVALID_CDB u)"

section \<open>The bulk-only transport\<close>

definition msc_bbb_init :: "'h usb_sys \<Rightarrow> 'h msc_conf \<Rightarrow> 'h msc_dev \<Rightarrow> 'h msc_dev outcome" where
  "msc_bbb_init S C u =
     with_msc u (\<lambda>_.
       let u = set_msc (\<lambda>m. m\<lparr>bbb_state := BBB_IDLE, bbb_status := BBB_STATUS_NORMAL\<rparr>) u;
           u = fold (\<lambda>lun_num. hw_do (\<lambda>h. snd (mem_init (usbd_mem_fops C) (of_nat lun_num) h))) [0..<MEM_LUN_NUM C] u
       in bindo (usbd_fifo_flush S (MSC_OUT_EP C) u) (\<lambda>u. bindo (usbd_fifo_flush S (MSC_IN_EP C) u) (\<lambda>u.
          usbd_ep_recev S (MSC_OUT_EP C) (bbb_cbw_at C) (of_nat BBB_CBW_LENGTH) u)))"

definition msc_bbb_reset :: "'h usb_sys \<Rightarrow> 'h msc_conf \<Rightarrow> 'h msc_dev \<Rightarrow> 'h msc_dev outcome" where
  "msc_bbb_reset S C u =
     with_msc u (\<lambda>_. usbd_ep_recev S (MSC_OUT_EP C) (bbb_cbw_at C) (of_nat BBB_CBW_LENGTH)
       (set_msc (\<lambda>m. m\<lparr>bbb_state := BBB_IDLE, bbb_status := BBB_STATUS_RECOVERY\<rparr>) u))"

definition msc_bbb_deinit :: "'h msc_dev \<Rightarrow> 'h msc_dev outcome" where
  "msc_bbb_deinit u = with_msc u (\<lambda>_. Ret (set_msc (\<lambda>m. m\<lparr>bbb_state := BBB_IDLE\<rparr>) u))"

text \<open>The command of the wrapper, on its unit.\<close>

definition cbw_command :: "'h usb_sys \<Rightarrow> 'h msc_conf \<Rightarrow> 'h msc_dev \<Rightarrow> 'h scsi_result" where
  "cbw_command S C u = (let (l, u) = get8 S (bCBWLUN_at C) u in scsi_process_cmd S C l (CBWCB_at C) u)"

definition continue_command :: "'h usb_sys \<Rightarrow> 'h msc_conf \<Rightarrow> 'h msc_dev \<Rightarrow> 'h msc_dev outcome" where
  "continue_command S C u =
     bindo (cbw_command S C u) (\<lambda>(r, u). if r < 0 then msc_bbb_csw_send S C CSW_CMD_FAILED u else Ret u)"

definition msc_bbb_data_in :: "'h usb_sys \<Rightarrow> 'h msc_conf \<Rightarrow> 8 word \<Rightarrow> 'h msc_dev \<Rightarrow> 'h msc_dev outcome" where
  "msc_bbb_data_in S C ep u =
     with_msc u (\<lambda>m.
       if bbb_state m = BBB_DATA_IN then continue_command S C u
       else if bbb_state m = BBB_SEND_DATA \<or> bbb_state m = BBB_LAST_DATA_IN then msc_bbb_csw_send S C CSW_CMD_PASSED u
       else Ret u)"

definition msc_bbb_data_send :: "'h usb_sys \<Rightarrow> 'h msc_conf \<Rightarrow> 32 word \<Rightarrow> reg \<Rightarrow> 'h msc_dev \<Rightarrow> 'h msc_dev outcome" where
  "msc_bbb_data_send S C buf len u =
     with_msc u (\<lambda>_.
       let (n, u) = get32 S (dCBWDataTransferLength_at C) u;
           len = USB_MIN n len;
           u = residue_less S C len u;
           u = put8 S (bCSWStatus_at C) CSW_CMD_PASSED u;
           u = set_msc (\<lambda>m. m\<lparr>bbb_state := BBB_SEND_DATA\<rparr>) u
       in usbd_ep_send S (MSC_IN_EP C) buf len u)"

definition msc_bbb_abort :: "'h usb_sys \<Rightarrow> 'h msc_conf \<Rightarrow> 'h msc_dev \<Rightarrow> 'h msc_dev outcome" where
  "msc_bbb_abort S C u =
     with_msc u (\<lambda>m.
       let (flags, u) = get8 S (bmCBWFlags_at C) u;
           (len, u) = (if flags = 0 then get32 S (dCBWDataTransferLength_at C) u else (0, u))
       in bindo (if flags = 0 \<and> len \<noteq> 0 \<and> bbb_status m = BBB_STATUS_NORMAL then usbd_ep_stall S (MSC_OUT_EP C) u else Ret u) (\<lambda>u.
          bindo (usbd_ep_stall S (MSC_IN_EP C) u) (\<lambda>u.
          if bbb_status m = BBB_STATUS_ERROR
          then usbd_ep_recev S (MSC_OUT_EP C) (bbb_cbw_at C) (of_nat BBB_CBW_LENGTH) u else Ret u)))"

text \<open>The wrapper is looked at from left to right, as far as the disjunction in the code goes.\<close>

definition cbw_invalid :: "'h usb_sys \<Rightarrow> 'h msc_conf \<Rightarrow> 'h msc_dev \<Rightarrow> (bool \<times> 'h msc_dev) outcome" where
  "cbw_invalid S C u =
     (if unat (MSC_OUT_EP C) < USBFS_MAX_TX_FIFOS
      then if BBB_CBW_LENGTH \<noteq> unat (usbd_rxcount_get (unat (MSC_OUT_EP C)) u) then Ret (True, u)
           else (let (sig, u) = get32 S (dCBWSignature_at C) u
                 in if BBB_CBW_SIGNATURE \<noteq> sig then Ret (True, u)
                    else (let (l, u) = get8 S (bCBWLUN_at C) u
                          in if 1 < l then Ret (True, u)
                             else (let (n, u) = get8 S (bCBWCBLength_at C) u
                                   in if n < 1 then Ret (True, u)
                                      else (let (n, u) = get8 S (bCBWCBLength_at C) u in Ret (16 < n, u)))))
      else Undef)"

definition msc_bbb_cbw_decode :: "'h usb_sys \<Rightarrow> 'h msc_conf \<Rightarrow> 'h msc_dev \<Rightarrow> 'h msc_dev outcome" where
  "msc_bbb_cbw_decode S C u =
     with_msc u (\<lambda>_.
       let (tag, u) = get32 S (dCBWTag_at C) u;
           u = put32 S (dCSWTag_at C) tag u;
           (n, u) = get32 S (dCBWDataTransferLength_at C) u;
           u = put32 S (dCSWDataResidue_at C) n u
       in bindo (cbw_invalid S C u) (\<lambda>(bad, u).
          if bad
          then (let (l, u) = get8 S (bCBWLUN_at C) u
                in bindo (scsi_sense_code l ILLEGAL_REQUEST INVALID_CDB u) (\<lambda>u.
                   msc_bbb_abort S C (set_msc (\<lambda>m. m\<lparr>bbb_status := BBB_STATUS_ERROR\<rparr>) u)))
          else bindo (cbw_command S C u) (\<lambda>(r, u).
               if r < 0 then msc_bbb_abort S C u
               else with_msc u (\<lambda>m.
                 if bbb_state m \<noteq> BBB_DATA_IN \<and> bbb_state m \<noteq> BBB_DATA_OUT \<and> bbb_state m \<noteq> BBB_LAST_DATA_IN
                 then if 0 < bbb_datalen m then msc_bbb_data_send S C (bbb_data_at C) (bbb_datalen m) u
                      else msc_bbb_csw_send S C CSW_CMD_PASSED u
                 else Ret u))))"

definition msc_bbb_data_out :: "'h usb_sys \<Rightarrow> 'h msc_conf \<Rightarrow> 8 word \<Rightarrow> 'h msc_dev \<Rightarrow> 'h msc_dev outcome" where
  "msc_bbb_data_out S C ep u =
     with_msc u (\<lambda>m.
       if bbb_state m = BBB_IDLE then msc_bbb_cbw_decode S C u
       else if bbb_state m = BBB_DATA_OUT then continue_command S C u
       else Ret u)"

definition msc_bbb_clrfeature :: "'h usb_sys \<Rightarrow> 'h msc_conf \<Rightarrow> 8 word \<Rightarrow> 'h msc_dev \<Rightarrow> 'h msc_dev outcome" where
  "msc_bbb_clrfeature S C ep u =
     with_msc u (\<lambda>m.
       if bbb_status m = BBB_STATUS_ERROR
       then bindo (usbd_ep_stall S (MSC_IN_EP C) u) (\<lambda>u. Ret (set_msc (\<lambda>m. m\<lparr>bbb_status := BBB_STATUS_NORMAL\<rparr>) u))
       else if ep AND 0x80 = 0x80 \<and> bbb_status m \<noteq> BBB_STATUS_RECOVERY then msc_bbb_csw_send S C CSW_CMD_FAILED u
       else Ret u)"

section \<open>The class\<close>

definition zero_handler :: "'h msc_conf \<Rightarrow> usbd_msc_handler" where
  "zero_handler C = \<lparr>max_lun = 0, bbb_state = 0, bbb_status = 0, bbb_datalen = 0, scsi_sense_head = 0, scsi_sense_tail = 0,
     scsi_blk_size = replicate (MEM_LUN_NUM C) 0, scsi_blk_nbr = replicate (MEM_LUN_NUM C) 0, scsi_blk_addr = 0, scsi_blk_len = 0,
     scsi_disk_pop = 0, scsi_sense = replicate SENSE_LIST_DEEPTH \<lparr>SenseKey = 0, Information = 0, ASC = 0, ASCQ = 0\<rparr>\<rparr>"

definition msc_epin :: "'h msc_conf \<Rightarrow> usb_desc_ep" where
  "msc_epin C = \<lparr>bEndpointAddress = MSC_IN_EP C, bmAttributes = USB_EP_ATTR_BULK, wMaxPacketSize = MSC_DATA_PACKET_SIZE C\<rparr>"

definition msc_epout :: "'h msc_conf \<Rightarrow> usb_desc_ep" where
  "msc_epout C = \<lparr>bEndpointAddress = MSC_OUT_EP C, bmAttributes = USB_EP_ATTR_BULK, wMaxPacketSize = MSC_DATA_PACKET_SIZE C\<rparr>"

definition msc_core_init :: "'h usb_sys \<Rightarrow> 'h msc_conf \<Rightarrow> 8 word \<Rightarrow> 'h msc_dev \<Rightarrow> (8 word \<times> 'h msc_dev) outcome" where
  "msc_core_init S C config_index u =
     (let u = hw_do (zero_bytes (bus S) (bbb_data_at C) (unat (MSC_MEDIA_PACKET_SIZE C))) u;
          u = hw_do (zero_bytes (bus S) (bbb_cbw_at C) BBB_CBW_LENGTH) u;
          u = hw_do (zero_bytes (bus S) (bbb_csw_at C) BBB_CSW_LENGTH) u;
          u = u\<lparr>class_data := Some (zero_handler C)\<rparr>
      in bindo (usbd_ep_setup S (msc_epin C) u) (\<lambda>u. bindo (usbd_ep_setup S (msc_epout C) u) (\<lambda>u.
         bindo (msc_bbb_init S C u) (\<lambda>u. Ret (USBD_OK, u)))))"

definition msc_core_deinit :: "'h usb_sys \<Rightarrow> 'h msc_conf \<Rightarrow> 8 word \<Rightarrow> 'h msc_dev \<Rightarrow> (8 word \<times> 'h msc_dev) outcome" where
  "msc_core_deinit S C config_index u =
     bindo (usbd_ep_clear S (MSC_IN_EP C) u) (\<lambda>u. bindo (usbd_ep_clear S (MSC_OUT_EP C) u) (\<lambda>u.
     bindo (msc_bbb_deinit u) (\<lambda>u. Ret (USBD_OK, u))))"

definition msc_core_req :: "'h usb_sys \<Rightarrow> 'h msc_conf \<Rightarrow> usb_req \<Rightarrow> 'h msc_dev \<Rightarrow> (8 word \<times> 'h msc_dev) outcome" where
  "msc_core_req S C r u =
     (if bRequest r = BBB_GET_MAX_LUN
      then if wValue r = 0 \<and> wLength r = 1 \<and> 0x80 = bmRequestType r AND 0x80
           then (let (n, u) = hw_get (mem_maxlun (usbd_mem_fops C)) u;
                     u = put8 S (usbd_msc_maxlun_at C) n u
                 in Ret (USBD_OK, upd_transc True 0 (\<lambda>t. t\<lparr>xfer_buf := usbd_msc_maxlun_at C, remain_len := 1\<rparr>) u))
           else Ret (USBD_FAIL, u)
      else if bRequest r = BBB_RESET
      then if wValue r = 0 \<and> wLength r = 0 \<and> 0x80 \<noteq> bmRequestType r AND 0x80
           then bindo (msc_bbb_reset S C u) (\<lambda>u. Ret (USBD_OK, u))
           else Ret (USBD_FAIL, u)
      else if bRequest r = USB_CLEAR_FEATURE
      then bindo (msc_bbb_clrfeature S C (ucast (wIndex r)) u) (\<lambda>u. Ret (USBD_OK, u))
      else Ret (USBD_FAIL, u))"

definition msc_core_in :: "'h usb_sys \<Rightarrow> 'h msc_conf \<Rightarrow> 8 word \<Rightarrow> 'h msc_dev \<Rightarrow> (8 word \<times> 'h msc_dev) outcome" where
  "msc_core_in S C ep u = bindo (msc_bbb_data_in S C ep u) (\<lambda>u. Ret (USBD_OK, u))"

definition msc_core_out :: "'h usb_sys \<Rightarrow> 'h msc_conf \<Rightarrow> 8 word \<Rightarrow> 'h msc_dev \<Rightarrow> (8 word \<times> 'h msc_dev) outcome" where
  "msc_core_out S C ep u = bindo (msc_bbb_data_out S C ep u) (\<lambda>u. Ret (USBD_OK, u))"

definition msc_class :: "'h usb_sys \<Rightarrow> 'h msc_conf \<Rightarrow> ('h, usbd_msc_handler option) usb_class_core" where
  "msc_class S C = \<lparr>init_proc = (\<lambda>u c. msc_core_init S C c u), deinit_proc = (\<lambda>u c. msc_core_deinit S C c u),
     req_proc = (\<lambda>u r. msc_core_req S C r u), set_intf = None, ctlx_in = None, ctlx_out = None,
     data_in = Some (\<lambda>u ep. msc_core_in S C ep u), data_out = Some (\<lambda>u ep. msc_core_out S C ep u), SOF = None,
     incomplete_isoc_in = None, incomplete_isoc_out = None\<rparr>"

end
