(* ===== verification/MscClaims.thy ===== *)
theory MscClaims
  imports Msc UsbdClaims
begin

text \<open>
  The mass storage device: what a read and a write of blocks move, packet by packet, between the medium and the
  host; the range check; and the errors that are remembered for the host to ask for.
\<close>

section \<open>What is seen\<close>

text \<open>What happens, in order: a block operation of the medium (the unit, the address of the buffer, the address on
  the medium and the number of blocks), and the setting up of a transfer from or to the host on one of the two
  bulk endpoints. The view: the command wrapper, the status wrapper, and what has happened so far.\<close>

datatype medium_op = Medium_read "8 word" "32 word" reg "16 word" | Medium_write "8 word" "32 word" reg "16 word"
  | Set_up_in | Set_up_out

record msc_view =
  cbw_sig :: reg
  cbw_tag :: reg
  cbw_len :: reg
  cbw_flags :: "8 word"
  cbw_lun :: "8 word"
  cbw_cblen :: "8 word"
  cbw_cb :: "nat \<Rightarrow> 8 word"
  csw_sig :: reg
  csw_tag :: reg
  csw_residue :: reg
  csw_status :: "8 word"
  moved :: "medium_op list"

text \<open>A piece read is read from the medium and then given to the endpoint; a piece written is first waited for, and
  written to the medium when it is there.\<close>

definition read_piece :: "8 word \<Rightarrow> 'h msc_conf \<Rightarrow> nat \<Rightarrow> nat \<times> nat \<Rightarrow> medium_op list" where
  "read_piece lun C sz = (\<lambda>(a, l). [Medium_read lun (bbb_data_at C) (of_nat a) (of_nat (l div sz)), Set_up_in])"

definition write_piece :: "8 word \<Rightarrow> 'h msc_conf \<Rightarrow> nat \<Rightarrow> nat \<times> nat \<Rightarrow> medium_op list" where
  "write_piece lun C sz = (\<lambda>(a, l). [Set_up_out, Medium_write lun (bbb_data_at C) (of_nat a) (of_nat (l div sz))])"

lemma pieces_simps [simp]:
  "read_piece lun C sz (a, l) = [Medium_read lun (bbb_data_at C) (of_nat a) (of_nat (l div sz)), Set_up_in]"
  "write_piece lun C sz (a, l) = [Set_up_out, Medium_write lun (bbb_data_at C) (of_nat a) (of_nat (l div sz))]"
  by (simp_all add: read_piece_def write_piece_def)

text \<open>The transfers that the endpoints are ready for: the buffer and the length.\<close>

definition in_ep :: "'h msc_conf \<Rightarrow> nat" where "in_ep C = unat (EP_ID (MSC_IN_EP C))"
definition out_ep :: "'h msc_conf \<Rightarrow> nat" where "out_ep C = unat (MSC_OUT_EP C)"

text \<open>The registers for the length of a transfer on the two endpoints, which are written once for each transfer.\<close>

definition in_len :: "'h msc_conf \<Rightarrow> 32 word" where "in_len C = 0x50000900 + of_nat (in_ep C) * 0x20 + 16"
definition out_len :: "'h msc_conf \<Rightarrow> 32 word" where "out_len C = 0x50000B00 + of_nat (out_ep C) * 0x20 + 16"

definition sends :: "'h msc_conf \<Rightarrow> 'h msc_dev \<Rightarrow> 32 word \<times> reg" where
  "sends C u = (xfer_buf (transc_in u (in_ep C)), xfer_len (transc_in u (in_ep C)))"

definition takes :: "'h msc_conf \<Rightarrow> 'h msc_dev \<Rightarrow> 32 word \<times> reg" where
  "takes C u = (xfer_buf (transc_out u (out_ep C)), xfer_len (transc_out u (out_ep C)))"

definition bulk_ready :: "'h msc_conf \<Rightarrow> 'h msc_dev \<Rightarrow> bool" where
  "bulk_ready C u \<longleftrightarrow> ready u \<and> ep_num (transc_in u (in_ep C)) = of_nat (in_ep C) \<and> ep_type (transc_in u (in_ep C)) = 2 \<and>
     max_len (transc_in u (in_ep C)) \<noteq> 0 \<and> ep_num (transc_out u (out_ep C)) = of_nat (out_ep C) \<and>
     ep_type (transc_out u (out_ep C)) = 2 \<and> max_len (transc_out u (out_ep C)) \<noteq> 0"

text \<open>The host takes what the device sends, and the interrupt follows; the host sends what the device waits for,
  and the interrupt follows. The transfers are collected.\<close>

fun bulk_in :: "'h usb_sys \<Rightarrow> 'h msc_conf \<Rightarrow> nat \<Rightarrow> 'h msc_dev \<Rightarrow> ((32 word \<times> reg) list \<times> 'h msc_dev) outcome" where
  "bulk_in S C 0 u = Ret ([], u)"
| "bulk_in S C (Suc k) u =
     bindo (msc_core_in S C (of_nat (in_ep C)) u) (\<lambda>(_, u').
     bindo (bulk_in S C k u') (\<lambda>(ts, u''). Ret (sends C u # ts, u'')))"

fun bulk_out :: "'h usb_sys \<Rightarrow> 'h msc_conf \<Rightarrow> nat \<Rightarrow> 'h msc_dev \<Rightarrow> ((32 word \<times> reg) list \<times> 'h msc_dev) outcome" where
  "bulk_out S C 0 u = Ret ([], u)"
| "bulk_out S C (Suc k) u =
     bindo (msc_core_out S C (of_nat (out_ep C)) u) (\<lambda>(_, u').
     bindo (bulk_out S C k u') (\<lambda>(ts, u''). Ret (takes C u # ts, u'')))"

text \<open>A range of bytes cut into pieces of at most \<open>P\<close>.\<close>

function chunks :: "nat \<Rightarrow> nat \<Rightarrow> nat \<Rightarrow> (nat \<times> nat) list" where
  "chunks P a n = (if n = 0 \<or> P = 0 then [] else (a, min P n) # chunks P (a + min P n) (n - min P n))"
  by auto
termination by (relation "measure (\<lambda>(P, a, n). n)") auto

declare chunks.simps [simp del]

lemma chunks_cover: "P \<noteq> 0 \<Longrightarrow> sum_list (map snd (chunks P a n)) = n"
  by (induction P a n rule: chunks.induct) (subst chunks.simps, auto)

section \<open>The hardware\<close>

text \<open>The wrappers keep what is written to them; the registers, the data and the medium are apart from them. The
  endpoints have numbers that the core has. A write to the register of a transfer's length is seen as the setting
  up of the transfer.\<close>

locale msc_hw =
  fixes S :: "'h usb_sys" and C :: "'h msc_conf" and view :: "'h \<Rightarrow> msc_view"
  assumes in_ep: "MSC_IN_EP C \<in> {0x81, 0x82, 0x83}" and out_ep: "MSC_OUT_EP C \<in> {1, 2, 3}"
    and rd_cbw32: "rd32 (bus S) (dCBWSignature_at C) h = (cbw_sig (view h), h)"
      "rd32 (bus S) (dCBWTag_at C) h = (cbw_tag (view h), h)"
      "rd32 (bus S) (dCBWDataTransferLength_at C) h = (cbw_len (view h), h)"
    and rd_cbw8: "rd8 (bus S) (bmCBWFlags_at C) h = (cbw_flags (view h), h)"
      "rd8 (bus S) (bCBWLUN_at C) h = (cbw_lun (view h), h)" "rd8 (bus S) (bCBWCBLength_at C) h = (cbw_cblen (view h), h)"
    and rd_cb: "i < 16 \<Longrightarrow> rd8 (bus S) (CBWCB_at C + of_nat i) h = (cbw_cb (view h) i, h)"
    and rd_residue: "rd32 (bus S) (dCSWDataResidue_at C) h = (csw_residue (view h), h)"
    and wr_csw: "view (wr32 (bus S) (dCSWSignature_at C) v h) = (view h)\<lparr>csw_sig := v\<rparr>"
      "view (wr32 (bus S) (dCSWTag_at C) v h) = (view h)\<lparr>csw_tag := v\<rparr>"
      "view (wr32 (bus S) (dCSWDataResidue_at C) v h) = (view h)\<lparr>csw_residue := v\<rparr>"
      "view (wr8 (bus S) (bCSWStatus_at C) w h) = (view h)\<lparr>csw_status := w\<rparr>"
    and wr32_view: "0x50000000 \<le> x \<Longrightarrow> x \<noteq> in_len C \<Longrightarrow> x \<noteq> out_len C \<Longrightarrow> view (wr32 (bus S) x v h) = view h"
    and wr_in: "view (wr32 (bus S) (in_len C) v h) = (view h)\<lparr>moved := moved (view h) @ [Set_up_in]\<rparr>"
    and wr_out: "view (wr32 (bus S) (out_len C) v h) = (view h)\<lparr>moved := moved (view h) @ [Set_up_out]\<rparr>"
    and rd32_view: "view (snd (rd32 (bus S) x h)) = view h"
    and ready_view: "view (snd (mem_ready (usbd_mem_fops C) l h)) = view h"
    and protected_view: "view (snd (mem_protected (usbd_mem_fops C) l h)) = view h"
    and read_log: "view (snd (mem_read (usbd_mem_fops C) l a b n h)) = (view h)\<lparr>moved := moved (view h) @ [Medium_read l a b n]\<rparr>"
    and write_log: "view (snd (mem_write (usbd_mem_fops C) l a b n h)) = (view h)\<lparr>moved := moved (view h) @ [Medium_write l a b n]\<rparr>"

lemma set_msc_simps [simp]:
  "class_data (set_msc f u) = map_option f (class_data u)" "hw (set_msc f u) = hw u" "transc_in (set_msc f u) = transc_in u"
  "transc_out (set_msc f u) = transc_out u" "ready (set_msc f u) = ready u"
  by (simp_all add: set_msc_def)

lemma observed [simp]:
  "sends C (set_msc f u) = sends C u" "takes C (set_msc f u) = takes C u" "bulk_ready C (set_msc f u) = bulk_ready C u"
  "sends C (hw_do g u) = sends C u" "takes C (hw_do g u) = takes C u" "bulk_ready C (hw_do g u) = bulk_ready C u"
  by (simp_all add: sends_def takes_def bulk_ready_def)

lemma with_msc_Some: "class_data u = Some m \<Longrightarrow> with_msc u k = k m"
  by (simp add: with_msc_def)

lemma widened: "unat (ucast x :: reg) = unat x" for x :: "16 word"
  using unsigned_less [of x, where 'a = nat] by (simp add: unsigned_ucast_eq take_bit_nat_eq_self)

lemma widened_0: "ucast x = (0 :: reg) \<longleftrightarrow> x = 0" for x :: "16 word"
  using widened [of x] by (metis unsigned_0 unsigned_word_eqI)

lemma in_length_bulk:
  "ep_num t \<noteq> 0 \<Longrightarrow> ep_type t \<noteq> 1 \<Longrightarrow> max_len t \<noteq> 0 \<Longrightarrow> \<exists>x. in_length t e = Ret (x, t)"
  by (simp add: in_length_def udivide_def widened_0 Let_def)

lemma out_length_bulk: "max_len t \<noteq> 0 \<Longrightarrow> \<exists>x. out_length t e = Ret x"
  by (simp add: out_length_def udivide_def widened_0 Let_def)

lemma transc_own [simp]:
  "transc d n (upd_transc d n f u) = f (transc d n u)" "transc True n u = transc_in u n" "transc False n u = transc_out u n"
  by (simp_all add: transc_upd) (simp_all add: transc_def)

lemma armed [simp]:
  "sends C (upd_transc True (in_ep C) f u) = (xfer_buf (f (transc_in u (in_ep C))), xfer_len (f (transc_in u (in_ep C))))"
  "takes C (upd_transc True n f u) = takes C u" "sends C (upd_transc False n f u) = sends C u"
  "takes C (upd_transc False (out_ep C) f u) = (xfer_buf (f (transc_out u (out_ep C))), xfer_len (f (transc_out u (out_ep C))))"
  by (simp_all add: sends_def takes_def)

lemma bulk_ready_upd:
  "bulk_ready C u \<Longrightarrow> ep_num (f (transc d n u)) = ep_num (transc d n u) \<Longrightarrow> max_len (f (transc d n u)) = max_len (transc d n u) \<Longrightarrow>
   ep_type (f (transc d n u)) = ep_type (transc d n u) \<Longrightarrow> bulk_ready C (upd_transc d n f u)"
  by (cases d) (auto simp: bulk_ready_def ready_upd)

text \<open>A read that goes on: \<open>n\<close> bytes are still to be read, from \<open>a\<close>.\<close>

definition reading :: "msc_view \<Rightarrow> usbd_msc_handler \<Rightarrow> reg \<Rightarrow> nat \<Rightarrow> nat \<Rightarrow> bool" where
  "reading v m sz a n \<longleftrightarrow> cbw_cb v 0 = 0x28 \<and> unat (cbw_lun v) < length (scsi_blk_size m) \<and>
     scsi_blk_size m ! unat (cbw_lun v) = sz \<and> sz \<noteq> 0 \<and> scsi_blk_addr m = of_nat a \<and> scsi_blk_len m = of_nat n \<and>
     csw_residue v = of_nat n \<and> bbb_state m = (if n = 0 then 3 else 2)"

definition writing :: "msc_view \<Rightarrow> usbd_msc_handler \<Rightarrow> reg \<Rightarrow> nat \<Rightarrow> nat \<Rightarrow> bool" where
  "writing v m sz a n \<longleftrightarrow> cbw_cb v 0 = 0x2A \<and> unat (cbw_lun v) < length (scsi_blk_size m) \<and>
     scsi_blk_size m ! unat (cbw_lun v) = sz \<and> sz \<noteq> 0 \<and> scsi_blk_addr m = of_nat a \<and> scsi_blk_len m = of_nat n \<and>
     csw_residue v = of_nat n \<and> bbb_state m = 1"

lemma small_nat: "n < 2 ^ 32 \<Longrightarrow> unat (of_nat n :: reg) = n"
  by (simp add: unsigned_of_nat take_bit_nat_eq_self)

lemma nat_zero: "n < 2 ^ 32 \<Longrightarrow> (of_nat n = (0 :: reg)) = (n = 0)"
  by (auto simp: word_of_nat_eq_0_iff dest: dvd_imp_le)

lemma min_piece: "n < 2 ^ 32 \<Longrightarrow> USB_MIN (of_nat n) P = of_nat (min (unat P) n)"
  by (simp add: USB_MIN_def word_less_nat_alt small_nat min_def)

lemma rest_of: "k \<le> n \<Longrightarrow> (of_nat n - of_nat k :: reg) = of_nat (n - k)"
  by (simp add: of_nat_diff)

lemma blocks_of: "n < 2 ^ 32 \<Longrightarrow> (ucast (of_nat n div sz :: reg) :: 16 word) = of_nat (n div unat sz)"
proof -
  assume n: "n < 2 ^ 32"
  then have d: "n div unat sz < 2 ^ 32" using div_le_dividend le_less_trans by blast
  then have "of_nat n div sz = (of_nat (n div unat sz) :: reg)"
    by (simp only: word_unat_eq_iff unat_div_distrib small_nat n)
  then show ?thesis using d by (simp add: unsigned_of_nat take_bit_nat_eq_self)
qed

text \<open>A command that the device takes: the wrapper is complete and valid. Its address and number of blocks.\<close>

definition valid_cbw :: "'h msc_conf \<Rightarrow> msc_view \<Rightarrow> 'h msc_dev \<Rightarrow> bool" where
  "valid_cbw C v u \<longleftrightarrow> xfer_count (transc_out u (out_ep C)) = 31 \<and> cbw_sig v = BBB_CBW_SIGNATURE \<and> cbw_lun v \<le> 1 \<and>
     1 \<le> cbw_cblen v \<and> cbw_cblen v \<le> 16"

definition cdb_address :: "msc_view \<Rightarrow> reg" where
  "cdb_address v = push_bit 24 (ucast (cbw_cb v 2)) OR push_bit 16 (ucast (cbw_cb v 3)) OR push_bit 8 (ucast (cbw_cb v 4)) OR ucast (cbw_cb v 5)"

definition cdb_blocks :: "msc_view \<Rightarrow> reg" where
  "cdb_blocks v = push_bit 8 (ucast (cbw_cb v 7)) OR ucast (cbw_cb v 8)"

text \<open>A command to move blocks in the range that the device accepts, of a medium that works; the host asks for as many
  bytes. The end of the range is computed in 32 bits, as the device does.\<close>

definition healthy :: "'h msc_conf \<Rightarrow> bool" where
  "healthy C \<longleftrightarrow> (\<forall>l h. fst (mem_ready (usbd_mem_fops C) l h) = 0 \<and> fst (mem_protected (usbd_mem_fops C) l h) = 0) \<and>
     (\<forall>l b a n h. 0 \<le> sint (fst (mem_read (usbd_mem_fops C) l b a n h)) \<and> 0 \<le> sint (fst (mem_write (usbd_mem_fops C) l b a n h)))"

definition block_command :: "'h msc_conf \<Rightarrow> msc_view \<Rightarrow> usbd_msc_handler \<Rightarrow> 'h msc_dev \<Rightarrow> bool" where
  "block_command C v m u \<longleftrightarrow> bbb_state m = 0 \<and> valid_cbw C v u \<and>
     unat (cbw_lun v) < length (scsi_blk_size m) \<and> unat (cbw_lun v) < length (scsi_blk_nbr m) \<and>
     (let sz = scsi_blk_size m ! unat (cbw_lun v)
      in sz \<noteq> 0 \<and> cdb_blocks v \<noteq> 0 \<and> unat (cdb_blocks v) * unat sz < 2 ^ 32 \<and> cbw_len v = cdb_blocks v * sz \<and>
         cdb_address v + cdb_blocks v \<le> scsi_blk_nbr m ! unat (cbw_lun v))"

lemma few_blocks: "ucast (ucast (cdb_blocks v) :: 16 word) = cdb_blocks v"
  by (intro bit_word_eqI) (auto simp: cdb_blocks_def bit_simps dest: bit_imp_le_length)

lemma block_commandD:
  assumes "block_command C v m u"
  shows "bbb_state m = 0" "valid_cbw C v u" "unat (cbw_lun v) < length (scsi_blk_size m)" "unat (cbw_lun v) < length (scsi_blk_nbr m)"
    "scsi_blk_size m ! unat (cbw_lun v) \<noteq> 0" "unat (cdb_blocks v) * unat (scsi_blk_size m ! unat (cbw_lun v)) < 2 ^ 32"
    "unat (cdb_blocks v) * unat (scsi_blk_size m ! unat (cbw_lun v)) \<noteq> 0"
    "cbw_len v = cdb_blocks v * scsi_blk_size m ! unat (cbw_lun v)"
    "\<not> scsi_blk_nbr m ! unat (cbw_lun v) < cdb_address v + ucast (ucast (cdb_blocks v) :: 16 word)"
  using assms by (auto simp: block_command_def Let_def few_blocks not_less unat_eq_zero)

context msc_hw
begin

lemma endpoints: "in_ep C \<in> {1, 2, 3}" "out_ep C \<in> {1, 2, 3}" "unat (EP_ID (MSC_OUT_EP C)) = out_ep C"
  "unat (EP_ID (MSC_IN_EP C)) = in_ep C" "unat (MSC_OUT_EP C) = out_ep C"
  using in_ep out_ep by (auto simp: in_ep_def out_ep_def)

lemma small_ep: "n \<in> {1, 2, 3} \<Longrightarrow> unat (of_nat n :: 8 word) = n" "n \<in> {1, 2, 3} \<Longrightarrow> of_nat n \<noteq> (0 :: 8 word)"
  by auto

lemma lengths: "in_len C \<in> {0x50000930, 0x50000950, 0x50000970}" "out_len C \<in> {0x50000B30, 0x50000B50, 0x50000B70}"
  using endpoints(1,2) by (auto simp: in_len_def out_len_def)

lemma view_access [simp]:
  "view (snd (rd32 (bus S) x h)) = view h"
  "p \<in> endpoint_regs \<Longrightarrow> view (wr32 (bus S) p v h) = view h"
  "view (set_bits (bus S) 0x50000834 v h) = view h"
proof -
  show "view (snd (rd32 (bus S) x h)) = view h" by (rule rd32_view)
  show "view (wr32 (bus S) p v h) = view h" if "p \<in> endpoint_regs"
    using that lengths by (intro wr32_view) (auto simp: endpoint_regs_def)
  have "view (wr32 (bus S) 0x50000834 w g) = view g" for w g
    using lengths by (intro wr32_view) auto
  then show "view (set_bits (bus S) 0x50000834 v h) = view h" by (simp add: set_bits_def modify_def split_beta rd32_view)
qed

lemma ready_endpoints:
  assumes "ready u"
  shows "\<exists>a \<in> endpoint_regs. pointer 6 (er_in (regs u)) (in_ep C) = Ret a \<and> a + 16 = in_len C"
    and "\<exists>a \<in> endpoint_regs. pointer 6 (er_out (regs u)) (out_ep C) = Ret a \<and> a + 16 = out_len C"
proof -
  have r: "regs u = assign_regs (bp u)" "base_reg (bp u) = 0x50000000" "num_ep (bp u) = 4"
    using assms unfolding ready_def fs_basic_def by blast+
  have p: "pointer 6 (er_in (regs u)) n = Ret (0x50000900 + of_nat n * 0x20)"
    "pointer 6 (er_out (regs u)) n = Ret (0x50000B00 + of_nat n * 0x20)"
    "0x50000900 + of_nat n * 0x20 \<in> endpoint_regs" "0x50000B00 + of_nat n * 0x20 \<in> endpoint_regs" if "n \<in> {1, 2, 3}" for n
    using that by (auto simp: pointer_def assign_regs_def endpoint_regs_def r)
  show "\<exists>a \<in> endpoint_regs. pointer 6 (er_in (regs u)) (in_ep C) = Ret a \<and> a + 16 = in_len C"
    using p(1,3) [OF endpoints(1)] by (simp add: in_len_def)
  show "\<exists>a \<in> endpoint_regs. pointer 6 (er_out (regs u)) (out_ep C) = Ret a \<and> a + 16 = out_len C"
    using p(2,4) [OF endpoints(2)] by (simp add: out_len_def)
qed

lemma send_result:
  assumes "bulk_ready C u"
  shows "\<exists>u'. usbd_ep_send S (MSC_IN_EP C) p l u = Ret u' \<and> bulk_ready C u' \<and> class_data u' = class_data u \<and>
    view (hw u') = (view (hw u))\<lparr>moved := moved (view (hw u)) @ [Set_up_in]\<rparr> \<and> sends C u' = (p, l) \<and> takes C u' = takes C u"
proof -
  let ?n = "in_ep C"
  let ?T = "(transc_in u ?n)\<lparr>xfer_buf := p, xfer_len := l, xfer_count := 0\<rparr>"
  have n: "?n < 4" "unat (of_nat ?n :: 8 word) = ?n" "of_nat ?n \<noteq> (0 :: 8 word)" using small_ep [OF endpoints(1)] endpoints(1) by auto
  have u: "ready u" "ep_num ?T = of_nat ?n" "ep_type ?T = 2" "max_len ?T \<noteq> 0"
    using assms by (simp_all add: bulk_ready_def)
  have T: "ep_num ?T \<noteq> 0" "ep_type ?T \<noteq> 1" using u(2,3) n(3) by simp_all
  obtain a where a: "pointer 6 (er_in (regs u)) ?n = Ret a" "a \<in> endpoint_regs" "a + 16 = in_len C"
    using ready_endpoints(1) [OF u(1)] by blast
  obtain x where x: "in_length ?T (fst (rd32 (bus S) (a + 16) (snd (rd32 (bus S) a (hw u))))) = Ret (x, ?T)"
    using in_length_bulk [OF T u(4)] by blast
  show ?thesis
    using n a u x assms
    by (simp add: bulk_ready_upd usbd_ep_send_def endpoints Let_def usb_transc_inxfer_def hw_get_simps split_beta wr_in)
qed

lemma recev_result:
  assumes "bulk_ready C u"
  shows "\<exists>u'. usbd_ep_recev S (MSC_OUT_EP C) p l u = Ret u' \<and> bulk_ready C u' \<and> class_data u' = class_data u \<and>
    view (hw u') = (view (hw u))\<lparr>moved := moved (view (hw u)) @ [Set_up_out]\<rparr> \<and> sends C u' = sends C u \<and> takes C u' = (p, l)"
proof -
  let ?n = "out_ep C"
  let ?T = "(transc_out u ?n)\<lparr>xfer_buf := p, xfer_len := l, xfer_count := 0\<rparr>"
  have n: "?n < 4" "unat (of_nat ?n :: 8 word) = ?n" using small_ep [OF endpoints(2)] endpoints(2) by auto
  have u: "ready u" "ep_num ?T = of_nat ?n" "ep_type ?T = 2" "max_len ?T \<noteq> 0"
    using assms by (simp_all add: bulk_ready_def)
  obtain a where a: "pointer 6 (er_out (regs u)) ?n = Ret a" "a \<in> endpoint_regs" "a + 16 = out_len C"
    using ready_endpoints(2) [OF u(1)] by blast
  obtain x where x: "out_length ?T (fst (rd32 (bus S) (a + 16) (snd (rd32 (bus S) a (hw u))))) = Ret x"
    using out_length_bulk [OF u(4)] by blast
  show ?thesis
    using n a u x assms
    by (simp add: bulk_ready_upd usbd_ep_recev_def endpoints Let_def usb_transc_outxfer_def hw_get_simps split_beta wr_out)
qed

lemma csw_send_result:
  assumes "bulk_ready C u" and "class_data u = Some m"
  shows "\<exists>u'. msc_bbb_csw_send S C st u = Ret u' \<and> bulk_ready C u' \<and> class_data u' = Some (m\<lparr>bbb_state := 0\<rparr>) \<and>
    view (hw u') = (view (hw u))\<lparr>csw_sig := BBB_CSW_SIGNATURE, csw_status := st,
      moved := moved (view (hw u)) @ [Set_up_in, Set_up_out]\<rparr> \<and> sends C u' = (bbb_csw_at C, 13) \<and>
    takes C u' = (bbb_cbw_at C, 31)"
proof -
  let ?u = "set_msc (\<lambda>m. m\<lparr>bbb_state := 0\<rparr>) (put8 S (bCSWStatus_at C) st (put32 S (dCSWSignature_at C) BBB_CSW_SIGNATURE u))"
  have "bulk_ready C ?u" using assms(1) by simp
  from send_result [OF this, of "bbb_csw_at C" 13] obtain u1 where u1: "usbd_ep_send S (MSC_IN_EP C) (bbb_csw_at C) 13 ?u = Ret u1"
    "bulk_ready C u1" "class_data u1 = Some (m\<lparr>bbb_state := 0\<rparr>)"
    "view (hw u1) = (view (hw u))\<lparr>csw_sig := BBB_CSW_SIGNATURE, csw_status := st, moved := moved (view (hw u)) @ [Set_up_in]\<rparr>" "sends C u1 = (bbb_csw_at C, 13)"
    using assms(2) wr_csw(1,4) by auto
  from recev_result [OF u1(2), of "bbb_cbw_at C" 31] u1 show ?thesis
    using assms(2) by (auto simp: msc_bbb_csw_send_def with_msc_Some)
qed

lemma residue_view [simp]:
  "view (hw (residue_less S C l u)) = (view (hw u))\<lparr>csw_residue := csw_residue (view (hw u)) - l\<rparr>"
  "class_data (residue_less S C l u) = class_data u" "bulk_ready C (residue_less S C l u) = bulk_ready C u"
  "sends C (residue_less S C l u) = sends C u" "takes C (residue_less S C l u) = takes C u"
  by (simp_all add: residue_less_def hw_get_simps rd_residue wr_csw)

lemma process_read_result:
  assumes "bulk_ready C u" and "class_data u = Some m" and "unat lun < length (scsi_blk_size m)"
    and "scsi_blk_size m ! unat lun \<noteq> 0" and "\<And>l b a n h. 0 \<le> sint (fst (mem_read (usbd_mem_fops C) l b a n h))"
  defines "l \<equiv> USB_MIN (scsi_blk_len m) (MSC_MEDIA_PACKET_SIZE C)"
  shows "\<exists>u'. scsi_process_read S C lun u = Ret (0, u') \<and> bulk_ready C u' \<and>
    class_data u' = Some (m\<lparr>scsi_blk_addr := scsi_blk_addr m + l, scsi_blk_len := scsi_blk_len m - l,
      bbb_state := (if scsi_blk_len m - l = 0 then 3 else bbb_state m)\<rparr>) \<and>
    view (hw u') = (view (hw u))\<lparr>csw_residue := csw_residue (view (hw u)) - l, moved := moved (view (hw u)) @
      [Medium_read lun (bbb_data_at C) (scsi_blk_addr m) (ucast (l div scsi_blk_size m ! unat lun)), Set_up_in]\<rparr> \<and>
    sends C u' = (bbb_data_at C, l) \<and> takes C u' = takes C u"
proof -
  let ?n = "ucast (l div scsi_blk_size m ! unat lun) :: 16 word"
  let ?r = "mem_read (usbd_mem_fops C) lun (bbb_data_at C) (scsi_blk_addr m) ?n"
  have "bulk_ready C (hw_do (snd \<circ> ?r) u)" using assms(1) by simp
  from send_result [OF this, of "bbb_data_at C" l] obtain u1 where u1:
    "usbd_ep_send S (MSC_IN_EP C) (bbb_data_at C) l (hw_do (snd \<circ> ?r) u) = Ret u1" "bulk_ready C u1" "class_data u1 = Some m"
    "view (hw u1) = (view (hw u))\<lparr>moved := moved (view (hw u)) @ [Medium_read lun (bbb_data_at C) (scsi_blk_addr m) ?n, Set_up_in]\<rparr>"
    "sends C u1 = (bbb_data_at C, l)" "takes C u1 = takes C u"
    using assms(2) by (auto simp: read_log)
  have "\<not> sint (fst (?r (hw u))) < 0" using assms(5) by (simp add: not_less)
  moreover have "m\<lparr>scsi_blk_addr := a, scsi_blk_len := b, bbb_state := bbb_state m\<rparr> = m\<lparr>scsi_blk_addr := a, scsi_blk_len := b\<rparr>" for a b
    by simp
  ultimately show ?thesis
    using u1 assms(2-4)
    by (simp add: scsi_process_read_def with_msc_Some Let_def lun_at_def udivide_def l_def [symmetric] hw_get_simps)
qed

lemma read_step:
  assumes "bulk_ready C u" and "class_data u = Some m" and "reading (view (hw u)) m sz a n" and "n < 2 ^ 32" and "n \<noteq> 0"
    and "\<And>l b a n h. 0 \<le> sint (fst (mem_read (usbd_mem_fops C) l b a n h))"
  defines "k \<equiv> min (unat (MSC_MEDIA_PACKET_SIZE C)) n"
  shows "\<exists>u' m'. msc_core_in S C ep u = Ret (0, u') \<and> bulk_ready C u' \<and> class_data u' = Some m' \<and>
    reading (view (hw u')) m' sz (a + k) (n - k) \<and>
    view (hw u') = (view (hw u))\<lparr>csw_residue := of_nat (n - k), moved := moved (view (hw u)) @
      [Medium_read (cbw_lun (view (hw u))) (bbb_data_at C) (of_nat a) (of_nat (k div unat sz)), Set_up_in]\<rparr> \<and>
    sends C u' = (bbb_data_at C, of_nat k)"
proof -
  let ?v = "view (hw u)"
  let ?m = "m\<lparr>bbb_datalen := MSC_MEDIA_PACKET_SIZE C\<rparr>" and ?u = "set_msc (\<lambda>m. m\<lparr>bbb_datalen := MSC_MEDIA_PACKET_SIZE C\<rparr>) u"
  have k: "USB_MIN (scsi_blk_len ?m) (MSC_MEDIA_PACKET_SIZE C) = of_nat k" "k \<le> n" "k < 2 ^ 32"
    using assms(3,4) by (simp_all add: reading_def k_def min_piece)
  have u: "bulk_ready C ?u" "class_data ?u = Some ?m" "unat (cbw_lun ?v) < length (scsi_blk_size ?m)"
    "scsi_blk_size ?m ! unat (cbw_lun ?v) \<noteq> 0" "hw ?u = hw u"
    using assms(1-3) by (auto simp: reading_def)
  have s: "bbb_state m = 2" "scsi_blk_addr m = of_nat a" "scsi_blk_len m = of_nat n" "csw_residue ?v = of_nat n" "cbw_cb ?v 0 = 0x28"
    "scsi_blk_size m ! unat (cbw_lun ?v) = sz"
    using assms(3,5) by (auto simp: reading_def)
  have zero: "(of_nat (n - k) = (0 :: reg)) = (n - k = 0)" using assms(4) by (intro nat_zero) simp
  obtain u' where raw: "scsi_process_read S C (cbw_lun ?v) ?u = Ret (0, u')" "bulk_ready C u'"
    "class_data u' = Some (?m\<lparr>scsi_blk_addr := scsi_blk_addr ?m + of_nat k, scsi_blk_len := scsi_blk_len ?m - of_nat k,
      bbb_state := (if scsi_blk_len ?m - of_nat k = 0 then 3 else bbb_state ?m)\<rparr>)"
    "view (hw u') = ?v\<lparr>csw_residue := csw_residue ?v - of_nat k, moved := moved ?v @
      [Medium_read (cbw_lun ?v) (bbb_data_at C) (scsi_blk_addr ?m) (ucast (of_nat k div scsi_blk_size ?m ! unat (cbw_lun ?v))), Set_up_in]\<rparr>"
    "sends C u' = (bbb_data_at C, of_nat k)"
    using process_read_result [OF u(1-4) assms(6)] unfolding k(1) u(5) by blast
  have u': "class_data u' = Some (?m\<lparr>scsi_blk_addr := of_nat (a + k), scsi_blk_len := of_nat (n - k),
      bbb_state := (if n - k = 0 then 3 else 2)\<rparr>)"
    "view (hw u') = ?v\<lparr>csw_residue := of_nat (n - k), moved := moved ?v @
      [Medium_read (cbw_lun ?v) (bbb_data_at C) (of_nat a) (of_nat (k div unat sz)), Set_up_in]\<rparr>"
    using raw(3,4) s rest_of [OF k(2)] zero blocks_of [OF k(3), of sz] by simp_all
  have "msc_core_in S C ep u = Ret (0, u')"
    using raw(1) s(1,5) assms(2) rd_cb [of 0]
    by (simp add: msc_core_in_def msc_bbb_data_in_def continue_command_def cbw_command_def scsi_process_cmd_def scsi_read10_def
      with_msc_Some hw_get_def rd_cbw8 Let_def)
  moreover have "reading (view (hw u')) (?m\<lparr>scsi_blk_addr := of_nat (a + k), scsi_blk_len := of_nat (n - k),
      bbb_state := (if n - k = 0 then 3 else 2)\<rparr>) sz (a + k) (n - k)"
    using assms(3) unfolding u'(2) by (simp add: reading_def)
  ultimately show ?thesis using u' raw(2,5) by blast
qed

lemma read_end:
  assumes "bulk_ready C u" and "class_data u = Some m" and "bbb_state m = 3"
  shows "\<exists>u'. msc_core_in S C ep u = Ret (0, u') \<and> bulk_ready C u' \<and> class_data u' = Some (m\<lparr>bbb_state := 0\<rparr>) \<and>
    view (hw u') = (view (hw u))\<lparr>csw_sig := BBB_CSW_SIGNATURE, csw_status := 0,
      moved := moved (view (hw u)) @ [Set_up_in, Set_up_out]\<rparr> \<and> sends C u' = (bbb_csw_at C, 13) \<and>
    takes C u' = (bbb_cbw_at C, 31)"
  using csw_send_result [OF assms(1,2), of 0] assms(2,3)
  by (auto simp: msc_core_in_def msc_bbb_data_in_def with_msc_Some)

lemma read_rest:
  assumes "\<And>l b a n h. 0 \<le> sint (fst (mem_read (usbd_mem_fops C) l b a n h))" and "MSC_MEDIA_PACKET_SIZE C \<noteq> 0"
  defines "pieces \<equiv> chunks (unat (MSC_MEDIA_PACKET_SIZE C))"
  shows "n < 2 ^ 32 \<Longrightarrow> bulk_ready C u \<Longrightarrow> class_data u = Some m \<Longrightarrow> reading (view (hw u)) m sz a n \<Longrightarrow>
    \<exists>u' m'. bulk_in S C (Suc (length (pieces a n))) u =
        Ret (sends C u # map (\<lambda>(a, l). (bbb_data_at C, of_nat l)) (pieces a n), u') \<and>
      bulk_ready C u' \<and> class_data u' = Some m' \<and> bbb_state m' = 0 \<and> sends C u' = (bbb_csw_at C, 13) \<and> takes C u' = (bbb_cbw_at C, 31) \<and>
      view (hw u') = (view (hw u))\<lparr>csw_sig := BBB_CSW_SIGNATURE, csw_status := 0, csw_residue := 0, moved := moved (view (hw u)) @
        concat (map (read_piece (cbw_lun (view (hw u))) C (unat sz)) (pieces a n)) @ [Set_up_in, Set_up_out]\<rparr>"
proof (induction n arbitrary: a u m rule: less_induct)
  case (less n)
  let ?P = "unat (MSC_MEDIA_PACKET_SIZE C)" and ?v = "view (hw u)"
  have P: "?P \<noteq> 0" using assms(2) by (simp add: unat_eq_zero)
  show ?case
  proof (cases "n = 0")
    case True
    then have "bbb_state m = 3" "csw_residue ?v = 0" "pieces a n = []"
      using less.prems(4) by (simp_all add: reading_def pieces_def chunks.simps)
    moreover from this read_end [OF less.prems(2,3), of "of_nat (in_ep C)"] obtain u' where
      "msc_core_in S C (of_nat (in_ep C)) u = Ret (0, u')" "bulk_ready C u'" "class_data u' = Some (m\<lparr>bbb_state := 0\<rparr>)"
      "view (hw u') = ?v\<lparr>csw_sig := BBB_CSW_SIGNATURE, csw_status := 0, moved := moved ?v @ [Set_up_in, Set_up_out]\<rparr>" "sends C u' = (bbb_csw_at C, 13)"
      "takes C u' = (bbb_cbw_at C, 31)" by blast
    ultimately show ?thesis using True by (auto intro!: msc_view.equality)
  next
    case False
    let ?k = "min ?P n"
    have p: "pieces a n = (a, ?k) # pieces (a + ?k) (n - ?k)"
      unfolding pieces_def by (subst chunks.simps) (use False P in simp)
    obtain u1 m1 where u1: "msc_core_in S C (of_nat (in_ep C)) u = Ret (0, u1)" "bulk_ready C u1" "class_data u1 = Some m1"
      "reading (view (hw u1)) m1 sz (a + ?k) (n - ?k)" "sends C u1 = (bbb_data_at C, of_nat ?k)"
      "view (hw u1) = ?v\<lparr>csw_residue := of_nat (n - ?k), moved := moved ?v @
        [Medium_read (cbw_lun ?v) (bbb_data_at C) (of_nat a) (of_nat (?k div unat sz)), Set_up_in]\<rparr>"
      using read_step [OF less.prems(2,3,4,1) False assms(1)] by metis
    have "n - ?k < n" "n - ?k < 2 ^ 32" using False P less.prems(1) by simp_all
    from less.IH [OF this u1(2-4)] show ?thesis using u1(1,5,6) by (auto simp: p)
  qed
qed

lemma gets [simp]:
  "hw_get (rd32 (bus S) (bbb_cbw_at C)) u = (cbw_sig (view (hw u)), u)"
  "hw_get (rd32 (bus S) (dCBWTag_at C)) u = (cbw_tag (view (hw u)), u)"
  "hw_get (rd32 (bus S) (dCBWDataTransferLength_at C)) u = (cbw_len (view (hw u)), u)"
  "hw_get (rd8 (bus S) (bmCBWFlags_at C)) u = (cbw_flags (view (hw u)), u)"
  "hw_get (rd8 (bus S) (bCBWLUN_at C)) u = (cbw_lun (view (hw u)), u)"
  "hw_get (rd8 (bus S) (bCBWCBLength_at C)) u = (cbw_cblen (view (hw u)), u)"
  for u :: "'h msc_dev"
  using rd_cbw32 rd_cbw8 by (simp_all add: hw_get_def)

lemma get_cb:
  "i < 16 \<Longrightarrow> hw_get (rd8 (bus S) (CBWCB_at C + of_nat i)) u = (cbw_cb (view (hw u)) i, u)" for u :: "'h msc_dev"
  by (simp add: hw_get_def rd_cb)

lemma get_cbs [simp]:
  "hw_get (rd8 (bus S) (bbb_cbw_at C + 15)) u = (cbw_cb (view (hw u)) 0, u)"
  "hw_get (rd8 (bus S) (bbb_cbw_at C + 17)) u = (cbw_cb (view (hw u)) 2, u)"
  "hw_get (rd8 (bus S) (bbb_cbw_at C + 18)) u = (cbw_cb (view (hw u)) 3, u)"
  "hw_get (rd8 (bus S) (bbb_cbw_at C + 19)) u = (cbw_cb (view (hw u)) 4, u)"
  "hw_get (rd8 (bus S) (bbb_cbw_at C + 20)) u = (cbw_cb (view (hw u)) 5, u)"
  "hw_get (rd8 (bus S) (bbb_cbw_at C + 22)) u = (cbw_cb (view (hw u)) 7, u)"
  "hw_get (rd8 (bus S) (bbb_cbw_at C + 23)) u = (cbw_cb (view (hw u)) 8, u)"
  for u :: "'h msc_dev"
  using get_cb [of 0 u] get_cb [of 2 u] get_cb [of 3 u] get_cb [of 4 u] get_cb [of 5 u] get_cb [of 7 u] get_cb [of 8 u]
  by (simp_all add: ac_simps)

lemma block_range_result:
  "block_range S (CBWCB_at C) u = set_msc (\<lambda>m. m\<lparr>scsi_blk_len := cdb_blocks (view (hw u))\<rparr>)
     (set_msc (\<lambda>m. m\<lparr>scsi_blk_addr := cdb_address (view (hw u))\<rparr>) u)"
  by (simp add: block_range_def cdb_blocks_def cdb_address_def Let_def add.assoc)

text \<open>The wrapper is taken over into the status wrapper.\<close>

lemma decode_command:
  assumes "class_data u = Some m" and "bbb_state m = 0" and "valid_cbw C (view (hw u)) u"
  shows "\<exists>u'. msc_core_out S C ep u = bindo (bindo (cbw_command S C u') (\<lambda>(r, u).
          if r < 0 then msc_bbb_abort S C u
          else with_msc u (\<lambda>m.
            if bbb_state m \<noteq> BBB_DATA_IN \<and> bbb_state m \<noteq> BBB_DATA_OUT \<and> bbb_state m \<noteq> BBB_LAST_DATA_IN
            then if 0 < bbb_datalen m then msc_bbb_data_send S C (bbb_data_at C) (bbb_datalen m) u
                 else msc_bbb_csw_send S C CSW_CMD_PASSED u
            else Ret u))) (\<lambda>u. Ret (0, u)) \<and>
    (bulk_ready C u' \<longleftrightarrow> bulk_ready C u) \<and> class_data u' = class_data u \<and> sends C u' = sends C u \<and>
    view (hw u') = (view (hw u))\<lparr>csw_tag := cbw_tag (view (hw u)), csw_residue := cbw_len (view (hw u))\<rparr>"
proof -
  let ?v = "view (hw u)"
  let ?u = "put32 S (dCSWDataResidue_at C) (cbw_len ?v) (put32 S (dCSWTag_at C) (cbw_tag ?v) u)"
  have v: "view (hw ?u) = ?v\<lparr>csw_tag := cbw_tag ?v, csw_residue := cbw_len ?v\<rparr>" by (simp add: wr_csw)
  have "out_ep C < 4" using endpoints(2) by auto
  moreover have "\<not> 1 < cbw_lun ?v" "\<not> cbw_cblen ?v < 1" "\<not> 16 < cbw_cblen ?v" "xfer_count (transc_out u (out_ep C)) = 31"
    "cbw_sig ?v = BBB_CBW_SIGNATURE"
    using assms(3) by (auto simp: valid_cbw_def not_less)
  ultimately have "cbw_invalid S C ?u = Ret (False, ?u)"
    by (simp add: cbw_invalid_def endpoints usbd_rxcount_get_def wr_csw Let_def)
  then have "msc_core_out S C ep u = bindo (bindo (cbw_command S C ?u) (\<lambda>(r, u).
          if r < 0 then msc_bbb_abort S C u
          else with_msc u (\<lambda>m.
            if bbb_state m \<noteq> BBB_DATA_IN \<and> bbb_state m \<noteq> BBB_DATA_OUT \<and> bbb_state m \<noteq> BBB_LAST_DATA_IN
            then if 0 < bbb_datalen m then msc_bbb_data_send S C (bbb_data_at C) (bbb_datalen m) u
                 else msc_bbb_csw_send S C CSW_CMD_PASSED u
            else Ret u))) (\<lambda>u. Ret (0, u))"
    using assms(1,2) by (simp add: msc_core_out_def msc_bbb_data_out_def msc_bbb_cbw_decode_def with_msc_Some wr_csw Let_def)
  then show ?thesis using v by (intro exI [of _ ?u]) simp
qed

lemma in_range:
  assumes "class_data u = Some m" and "unat lun < length (scsi_blk_nbr m)" and "\<not> scsi_blk_nbr m ! unat lun < a + ucast k"
  shows "scsi_check_address_range lun a k u = Ret (0, u)"
  using assms by (simp add: scsi_check_address_range_def with_msc_Some lun_at_def)

text \<open>A valid read of blocks begins with the first piece.\<close>

lemma read10_begins:
  fixes u :: "'h msc_dev"
  assumes "class_data u = Some m" and "bbb_state m = 0" and "cbw_flags (view (hw u)) AND 0x80 = 0x80"
    and "\<And>l h. fst (mem_ready (usbd_mem_fops C) l h) = 0"
    and "unat lun < length (scsi_blk_nbr m)" and "unat lun < length (scsi_blk_size m)"
    and "\<not> scsi_blk_nbr m ! unat lun < cdb_address (view (hw u)) + ucast (ucast (cdb_blocks (view (hw u))) :: 16 word)"
    and "cbw_len (view (hw u)) = cdb_blocks (view (hw u)) * scsi_blk_size m ! unat lun"
  shows "\<exists>u'. scsi_read10 S C lun (CBWCB_at C) u = scsi_process_read S C lun u' \<and> view (hw u') = view (hw u) \<and>
    bulk_ready C u' = bulk_ready C u \<and> class_data u' = Some (m\<lparr>scsi_blk_addr := cdb_address (view (hw u)) * scsi_blk_size m ! unat lun,
      scsi_blk_len := cdb_blocks (view (hw u)) * scsi_blk_size m ! unat lun, bbb_state := 2, bbb_datalen := MSC_MEDIA_PACKET_SIZE C\<rparr>)"
proof -
  let ?v = "view (hw u)"
  let ?m = "m\<lparr>scsi_blk_addr := cdb_address ?v, scsi_blk_len := cdb_blocks ?v\<rparr>"
  define u2 where "u2 = set_msc (\<lambda>m. m\<lparr>scsi_blk_len := cdb_blocks ?v\<rparr>)
     (set_msc (\<lambda>m. m\<lparr>scsi_blk_addr := cdb_address ?v\<rparr>) (hw_do (snd \<circ> mem_ready (usbd_mem_fops C) lun) u))"
  have u2: "class_data u2 = Some ?m" "view (hw u2) = ?v" "bulk_ready C u2 = bulk_ready C u"
    using assms(1) by (simp_all add: u2_def ready_view)
  have "block_range S (CBWCB_at C) (hw_do (snd \<circ> mem_ready (usbd_mem_fops C) lun) u) = u2"
    by (simp add: block_range_result u2_def ready_view)
  moreover have "scsi_check_address_range lun (cdb_address ?v) (ucast (cdb_blocks ?v)) u2 = Ret (0, u2)"
    by (rule in_range [OF u2(1)]) (use assms(5,7) in simp_all)
  moreover define u4 where "u4 = set_msc (\<lambda>m. m\<lparr>bbb_datalen := MSC_MEDIA_PACKET_SIZE C\<rparr>)
      (set_msc (\<lambda>m. m\<lparr>scsi_blk_addr := scsi_blk_addr m * scsi_blk_size ?m ! unat lun, scsi_blk_len := scsi_blk_len m * scsi_blk_size ?m ! unat lun\<rparr>)
        (set_msc (\<lambda>m. m\<lparr>bbb_state := 2\<rparr>) u2))"
  ultimately have "scsi_read10 S C lun (CBWCB_at C) u = scsi_process_read S C lun u4"
    using assms(1-4,6,8) u2 by (simp add: scsi_read10_def with_msc_Some hw_get_simps [of "mem_ready M l" for M l] to_bytes_def lun_at_def Let_def)
  then show ?thesis using u2 by (intro exI [of _ u4]) (simp add: u4_def)
qed

lemma read_begins:
  assumes "bulk_ready C u" and "class_data u = Some m" and "block_command C (view (hw u)) m u" and "healthy C"
    and "cbw_cb (view (hw u)) 0 = 0x28" and "cbw_flags (view (hw u)) AND 0x80 = 0x80"
  defines "sz \<equiv> scsi_blk_size m ! unat (cbw_lun (view (hw u)))"
  defines "n \<equiv> unat (cdb_blocks (view (hw u))) * unat sz" and "a \<equiv> unat (cdb_address (view (hw u))) * unat sz"
  defines "k \<equiv> min (unat (MSC_MEDIA_PACKET_SIZE C)) n"
  shows "\<exists>u' m'. msc_core_out S C ep u = Ret (0, u') \<and> bulk_ready C u' \<and> class_data u' = Some m' \<and>
    reading (view (hw u')) m' sz (a + k) (n - k) \<and> sends C u' = (bbb_data_at C, of_nat k) \<and>
    view (hw u') = (view (hw u))\<lparr>csw_tag := cbw_tag (view (hw u)), csw_residue := of_nat (n - k), moved := moved (view (hw u)) @
      [Medium_read (cbw_lun (view (hw u))) (bbb_data_at C) (of_nat a) (of_nat (k div unat sz)), Set_up_in]\<rparr>"
proof -
  let ?v = "view (hw u)"
  let ?w = "?v\<lparr>csw_tag := cbw_tag ?v, csw_residue := cbw_len ?v\<rparr>"
  let ?l = "cbw_lun ?v"
  let ?m = "m\<lparr>scsi_blk_addr := of_nat a, scsi_blk_len := of_nat n, bbb_state := 2, bbb_datalen := MSC_MEDIA_PACKET_SIZE C\<rparr>"
  note c = block_commandD [OF assms(3)]
  have n: "n < 2 ^ 32" "cbw_len ?v = of_nat n" "cdb_blocks ?v * sz = of_nat n" "cdb_address ?v * sz = of_nat a"
    using c(6,8) by (simp_all add: n_def sz_def a_def)
  have w: "cdb_address ?w = cdb_address ?v" "cdb_blocks ?w = cdb_blocks ?v" by (simp_all add: cdb_address_def cdb_blocks_def)
  have reads: "0 \<le> sint (fst (mem_read (usbd_mem_fops C) l b a n h))" and ok: "fst (mem_ready (usbd_mem_fops C) l h) = 0" for l b a n h
    using assms(4) by (simp_all add: healthy_def)
  have k: "USB_MIN (of_nat n) (MSC_MEDIA_PACKET_SIZE C) = of_nat k" "k \<le> n" "k < 2 ^ 32"
    using n(1) by (simp_all add: k_def min_piece)
  have zero: "(of_nat (n - k) = (0 :: reg)) = (n - k = 0)" using n(1) by (intro nat_zero) simp
  obtain u1 where u1: "msc_core_out S C ep u = bindo (bindo (cbw_command S C u1) (\<lambda>(r, u).
          if r < 0 then msc_bbb_abort S C u
          else with_msc u (\<lambda>m.
            if bbb_state m \<noteq> BBB_DATA_IN \<and> bbb_state m \<noteq> BBB_DATA_OUT \<and> bbb_state m \<noteq> BBB_LAST_DATA_IN
            then if 0 < bbb_datalen m then msc_bbb_data_send S C (bbb_data_at C) (bbb_datalen m) u
                 else msc_bbb_csw_send S C CSW_CMD_PASSED u
            else Ret u))) (\<lambda>u. Ret (0, u))"
    "bulk_ready C u1 \<longleftrightarrow> bulk_ready C u" "class_data u1 = class_data u" "view (hw u1) = ?w"
    using decode_command [OF assms(2) c(1,2)] by blast
  have p: "class_data u1 = Some m" "cbw_flags (view (hw u1)) AND 0x80 = 0x80"
    "\<not> scsi_blk_nbr m ! unat ?l < cdb_address (view (hw u1)) + ucast (ucast (cdb_blocks (view (hw u1))) :: 16 word)"
    "cbw_len (view (hw u1)) = cdb_blocks (view (hw u1)) * scsi_blk_size m ! unat ?l"
    using assms(2,6) u1(3) c(8,9) unfolding u1(4) w by simp_all
  obtain u2 where u2: "scsi_read10 S C ?l (CBWCB_at C) u1 = scsi_process_read S C ?l u2" "view (hw u2) = view (hw u1)"
    "bulk_ready C u2 = bulk_ready C u1" "class_data u2 = Some (m\<lparr>scsi_blk_addr := cdb_address (view (hw u1)) * scsi_blk_size m ! unat ?l,
      scsi_blk_len := cdb_blocks (view (hw u1)) * scsi_blk_size m ! unat ?l, bbb_state := 2, bbb_datalen := MSC_MEDIA_PACKET_SIZE C\<rparr>)"
    using read10_begins [OF p(1) c(1) p(2) ok c(4,3) p(3,4)] by blast
  have r: "bulk_ready C u2" "class_data u2 = Some ?m" "unat ?l < length (scsi_blk_size ?m)" "scsi_blk_size ?m ! unat ?l \<noteq> 0"
    using u2(3,4) u1(2) assms(1) n(3,4) c(3,5) unfolding u1(4) w sz_def by simp_all
  obtain u3 where raw: "scsi_process_read S C ?l u2 = Ret (0, u3)" "bulk_ready C u3"
    "class_data u3 = Some (?m\<lparr>scsi_blk_addr := scsi_blk_addr ?m + of_nat k, scsi_blk_len := scsi_blk_len ?m - of_nat k,
      bbb_state := (if scsi_blk_len ?m - of_nat k = 0 then 3 else bbb_state ?m)\<rparr>)"
    "view (hw u3) = ?w\<lparr>csw_residue := csw_residue ?w - of_nat k, moved := moved ?w @
      [Medium_read ?l (bbb_data_at C) (scsi_blk_addr ?m) (ucast (of_nat k div scsi_blk_size ?m ! unat ?l)), Set_up_in]\<rparr>"
    "sends C u3 = (bbb_data_at C, USB_MIN (scsi_blk_len ?m) (MSC_MEDIA_PACKET_SIZE C))"
    using process_read_result [OF r reads] k(1) unfolding u2(2) u1(4) by auto
  have u3: "class_data u3 = Some (?m\<lparr>scsi_blk_addr := of_nat (a + k), scsi_blk_len := of_nat (n - k),
      bbb_state := (if n - k = 0 then 3 else 2)\<rparr>)"
    "view (hw u3) = ?v\<lparr>csw_tag := cbw_tag ?v, csw_residue := of_nat (n - k), moved := moved ?v @
      [Medium_read ?l (bbb_data_at C) (of_nat a) (of_nat (k div unat sz)), Set_up_in]\<rparr>"
    "sends C u3 = (bbb_data_at C, of_nat k)"
    using raw(3-5) n(2) rest_of [OF k(2)] zero blocks_of [OF k(3), of sz] k(1) by (simp_all add: sz_def)
  have "cbw_command S C u1 = Ret (0, u3)"
    using u2(1) raw(1) assms(5) by (simp add: cbw_command_def scsi_process_cmd_def u1(4) Let_def)
  then have "msc_core_out S C ep u = Ret (0, u3)" using u1(1) u3(1) by (simp add: with_msc_Some)
  moreover have "reading (view (hw u3)) (?m\<lparr>scsi_blk_addr := of_nat (a + k), scsi_blk_len := of_nat (n - k),
      bbb_state := (if n - k = 0 then 3 else 2)\<rparr>) sz (a + k) (n - k)"
    using c(3,5) assms(5) unfolding u3(2) reading_def by (simp add: sz_def)
  ultimately show ?thesis using u3 raw(2) by blast
qed

text \<open>A valid read of blocks, as a whole.\<close>

lemma read_streams:
  assumes "bulk_ready C u" and "class_data u = Some m" and "block_command C (view (hw u)) m u" and "healthy C"
    and "cbw_cb (view (hw u)) 0 = 0x28" and "cbw_flags (view (hw u)) AND 0x80 = 0x80" and "MSC_MEDIA_PACKET_SIZE C \<noteq> 0"
  defines "sz \<equiv> unat (scsi_blk_size m ! unat (cbw_lun (view (hw u))))"
  defines "pieces \<equiv> chunks (unat (MSC_MEDIA_PACKET_SIZE C)) (unat (cdb_address (view (hw u))) * sz)
    (unat (cdb_blocks (view (hw u))) * sz)"
  shows "\<exists>u' u'' m'. msc_core_out S C (of_nat (out_ep C)) u = Ret (0, u') \<and>
    bulk_in S C (length pieces) u' = Ret (map (\<lambda>(a, l). (bbb_data_at C, of_nat l)) pieces, u'') \<and>
    bulk_ready C u'' \<and> class_data u'' = Some m' \<and> bbb_state m' = 0 \<and> sends C u'' = (bbb_csw_at C, 13) \<and>
    takes C u'' = (bbb_cbw_at C, 31) \<and>
    view (hw u'') = (view (hw u))\<lparr>csw_sig := BBB_CSW_SIGNATURE, csw_tag := cbw_tag (view (hw u)), csw_residue := 0, csw_status := 0,
      moved := moved (view (hw u)) @ concat (map (read_piece (cbw_lun (view (hw u))) C sz) pieces) @ [Set_up_in, Set_up_out]\<rparr>"
proof -
  let ?v = "view (hw u)" and ?P = "unat (MSC_MEDIA_PACKET_SIZE C)"
  let ?a = "unat (cdb_address ?v) * sz" and ?n = "unat (cdb_blocks ?v) * sz"
  note c = block_commandD [OF assms(3), folded sz_def]
  have P: "?P \<noteq> 0" using assms(7) by (simp add: unat_eq_zero)
  have reads: "0 \<le> sint (fst (mem_read (usbd_mem_fops C) l b a n h))" for l b a n h using assms(4) by (simp add: healthy_def)
  obtain u1 m1 where u1: "msc_core_out S C (of_nat (out_ep C)) u = Ret (0, u1)" "bulk_ready C u1" "class_data u1 = Some m1"
    "reading (view (hw u1)) m1 (scsi_blk_size m ! unat (cbw_lun ?v)) (?a + min ?P ?n) (?n - min ?P ?n)"
    "sends C u1 = (bbb_data_at C, of_nat (min ?P ?n))"
    "view (hw u1) = ?v\<lparr>csw_tag := cbw_tag ?v, csw_residue := of_nat (?n - min ?P ?n), moved := moved ?v @
      [Medium_read (cbw_lun ?v) (bbb_data_at C) (of_nat ?a) (of_nat (min ?P ?n div sz)), Set_up_in]\<rparr>"
    using read_begins [OF assms(1-6), folded sz_def] by blast
  have p: "pieces = (?a, min ?P ?n) # chunks ?P (?a + min ?P ?n) (?n - min ?P ?n)"
    unfolding pieces_def by (subst chunks.simps) (use c(7) P in simp)
  have l: "?n - min ?P ?n < 2 ^ 32" using c(6) by linarith
  have t: "cbw_lun (view (hw u1)) = cbw_lun ?v" unfolding u1(6) by simp
  obtain u2 m2 where u2: "bulk_in S C (length pieces) u1 = Ret (sends C u1 # map (\<lambda>(a, l). (bbb_data_at C, of_nat l))
      (chunks ?P (?a + min ?P ?n) (?n - min ?P ?n)), u2)"
    "bulk_ready C u2" "class_data u2 = Some m2" "bbb_state m2 = 0" "sends C u2 = (bbb_csw_at C, 13)" "takes C u2 = (bbb_cbw_at C, 31)"
    "view (hw u2) = (view (hw u1))\<lparr>csw_sig := BBB_CSW_SIGNATURE, csw_status := 0, csw_residue := 0, moved := moved (view (hw u1)) @
      concat (map (read_piece (cbw_lun ?v) C sz) (chunks ?P (?a + min ?P ?n) (?n - min ?P ?n))) @ [Set_up_in, Set_up_out]\<rparr>"
    using read_rest [OF reads assms(7) l u1(2-4), folded sz_def] unfolding t p list.size(4) by auto
  have "bulk_in S C (length pieces) u1 = Ret (map (\<lambda>(a, l). (bbb_data_at C, of_nat l)) pieces, u2)"
    unfolding u2(1) u1(5) by (simp only: p list.map prod.case)
  moreover have "view (hw u2) = ?v\<lparr>csw_sig := BBB_CSW_SIGNATURE, csw_tag := cbw_tag ?v, csw_residue := 0, csw_status := 0,
      moved := moved ?v @ concat (map (read_piece (cbw_lun ?v) C sz) pieces) @ [Set_up_in, Set_up_out]\<rparr>"
    unfolding u2(7) u1(6) p by simp
  ultimately show ?thesis using u1(1) u2(2-6) by blast
qed

text \<open>A write: each piece arrives before it is written, and the last one completes the command.\<close>

lemma process_write_result:
  assumes "bulk_ready C u" and "class_data u = Some m" and "unat lun < length (scsi_blk_size m)"
    and "scsi_blk_size m ! unat lun \<noteq> 0" and "\<And>l b a n h. 0 \<le> sint (fst (mem_write (usbd_mem_fops C) l b a n h))"
  defines "l \<equiv> USB_MIN (scsi_blk_len m) (MSC_MEDIA_PACKET_SIZE C)"
  defines "v \<equiv> (view (hw u))\<lparr>csw_residue := csw_residue (view (hw u)) - l, moved := moved (view (hw u)) @
      [Medium_write lun (bbb_data_at C) (scsi_blk_addr m) (ucast (l div scsi_blk_size m ! unat lun))]\<rparr>"
  shows "scsi_blk_len m - l = 0 \<Longrightarrow> \<exists>u'. scsi_process_write S C lun u = Ret (0, u') \<and> bulk_ready C u' \<and>
      class_data u' = Some (m\<lparr>scsi_blk_addr := scsi_blk_addr m + l, scsi_blk_len := scsi_blk_len m - l, bbb_state := 0\<rparr>) \<and>
      view (hw u') = v\<lparr>csw_sig := BBB_CSW_SIGNATURE, csw_status := 0, moved := moved v @ [Set_up_in, Set_up_out]\<rparr> \<and>
      sends C u' = (bbb_csw_at C, 13) \<and> takes C u' = (bbb_cbw_at C, 31)"
    and "scsi_blk_len m - l \<noteq> 0 \<Longrightarrow> \<exists>u'. scsi_process_write S C lun u = Ret (0, u') \<and> bulk_ready C u' \<and>
      class_data u' = Some (m\<lparr>scsi_blk_addr := scsi_blk_addr m + l, scsi_blk_len := scsi_blk_len m - l\<rparr>) \<and>
      view (hw u') = v\<lparr>moved := moved v @ [Set_up_out]\<rparr> \<and> sends C u' = sends C u \<and>
      takes C u' = (bbb_data_at C, USB_MIN (scsi_blk_len m - l) (MSC_MEDIA_PACKET_SIZE C))"
proof -
  let ?n = "ucast (l div scsi_blk_size m ! unat lun) :: 16 word"
  let ?r = "mem_write (usbd_mem_fops C) lun (bbb_data_at C) (scsi_blk_addr m) ?n"
  let ?m = "m\<lparr>scsi_blk_addr := scsi_blk_addr m + l, scsi_blk_len := scsi_blk_len m - l\<rparr>"
  define w where "w = residue_less S C l (set_msc (\<lambda>m. m\<lparr>scsi_blk_addr := scsi_blk_addr m + l, scsi_blk_len := scsi_blk_len m - l\<rparr>)
    (hw_do (snd \<circ> ?r) u))"
  have w: "bulk_ready C w" "class_data w = Some ?m" "view (hw w) = v" "sends C w = sends C u"
    using assms(1,2) by (simp_all add: w_def v_def write_log)
  have "\<not> sint (fst (?r (hw u))) < 0" using assms(5) by (simp add: not_less)
  then have run: "scsi_process_write S C lun u = (if scsi_blk_len m - l = 0
      then bindo (msc_bbb_csw_send S C CSW_CMD_PASSED w) (\<lambda>u. Ret (0, u))
      else bindo (usbd_ep_recev S (MSC_OUT_EP C) (bbb_data_at C) (USB_MIN (scsi_blk_len m - l) (MSC_MEDIA_PACKET_SIZE C)) w) (\<lambda>u. Ret (0, u)))"
    using assms(2-4) w(2) by (simp add: scsi_process_write_def with_msc_Some Let_def lun_at_def udivide_def l_def [symmetric] hw_get_simps w_def)
  {
    assume "scsi_blk_len m - l = 0"
    then show "\<exists>u'. scsi_process_write S C lun u = Ret (0, u') \<and> bulk_ready C u' \<and>
      class_data u' = Some (m\<lparr>scsi_blk_addr := scsi_blk_addr m + l, scsi_blk_len := scsi_blk_len m - l, bbb_state := 0\<rparr>) \<and>
      view (hw u') = v\<lparr>csw_sig := BBB_CSW_SIGNATURE, csw_status := 0, moved := moved v @ [Set_up_in, Set_up_out]\<rparr> \<and>
      sends C u' = (bbb_csw_at C, 13) \<and> takes C u' = (bbb_cbw_at C, 31)"
      using csw_send_result [OF w(1,2), of 0] run w(3) by auto
  next
    assume "scsi_blk_len m - l \<noteq> 0"
    then show "\<exists>u'. scsi_process_write S C lun u = Ret (0, u') \<and> bulk_ready C u' \<and> class_data u' = Some ?m \<and>
      view (hw u') = v\<lparr>moved := moved v @ [Set_up_out]\<rparr> \<and> sends C u' = sends C u \<and>
      takes C u' = (bbb_data_at C, USB_MIN (scsi_blk_len m - l) (MSC_MEDIA_PACKET_SIZE C))"
      using recev_result [OF w(1), of "bbb_data_at C" "USB_MIN (scsi_blk_len m - l) (MSC_MEDIA_PACKET_SIZE C)"] run w(2-4) by auto
  }
qed

text \<open>The device waits for the next piece of a write.\<close>

lemma write_step:
  assumes "bulk_ready C u" and "class_data u = Some m" and "writing (view (hw u)) m sz a n" and "n < 2 ^ 32"
    and "\<And>l b a n h. 0 \<le> sint (fst (mem_write (usbd_mem_fops C) l b a n h))"
  defines "k \<equiv> min (unat (MSC_MEDIA_PACKET_SIZE C)) n"
  defines "v \<equiv> (view (hw u))\<lparr>csw_residue := of_nat (n - k), moved := moved (view (hw u)) @
      [Medium_write (cbw_lun (view (hw u))) (bbb_data_at C) (of_nat a) (of_nat (k div unat sz))]\<rparr>"
  shows "n - k = 0 \<Longrightarrow> \<exists>u' m'. msc_core_out S C ep u = Ret (0, u') \<and> bulk_ready C u' \<and> class_data u' = Some m' \<and> bbb_state m' = 0 \<and>
      view (hw u') = v\<lparr>csw_sig := BBB_CSW_SIGNATURE, csw_status := 0, moved := moved v @ [Set_up_in, Set_up_out]\<rparr> \<and> sends C u' = (bbb_csw_at C, 13) \<and> takes C u' = (bbb_cbw_at C, 31)"
    and "n - k \<noteq> 0 \<Longrightarrow> \<exists>u' m'. msc_core_out S C ep u = Ret (0, u') \<and> bulk_ready C u' \<and> class_data u' = Some m' \<and>
      writing (view (hw u')) m' sz (a + k) (n - k) \<and> view (hw u') = v\<lparr>moved := moved v @ [Set_up_out]\<rparr> \<and>
      takes C u' = (bbb_data_at C, of_nat (min (unat (MSC_MEDIA_PACKET_SIZE C)) (n - k)))"
proof -
  let ?v = "view (hw u)"
  have k: "USB_MIN (scsi_blk_len m) (MSC_MEDIA_PACKET_SIZE C) = of_nat k" "k \<le> n" "k < 2 ^ 32"
    using assms(3,4) by (simp_all add: writing_def k_def min_piece)
  have s: "bbb_state m = 1" "scsi_blk_addr m = of_nat a" "scsi_blk_len m = of_nat n" "csw_residue ?v = of_nat n" "cbw_cb ?v 0 = 0x2A"
    "scsi_blk_size m ! unat (cbw_lun ?v) = sz" "unat (cbw_lun ?v) < length (scsi_blk_size m)" "scsi_blk_size m ! unat (cbw_lun ?v) \<noteq> 0"
    using assms(3) by (auto simp: writing_def)
  have rest: "n - k < 2 ^ 32" using assms(4) by simp
  have zero: "scsi_blk_len m - of_nat k = 0 \<longleftrightarrow> n - k = 0" unfolding s(3) rest_of [OF k(2)] by (rule nat_zero [OF rest])
  have v: "?v\<lparr>csw_residue := csw_residue ?v - of_nat k, moved := moved ?v @ [Medium_write (cbw_lun ?v) (bbb_data_at C) (scsi_blk_addr m)
      (ucast (of_nat k div scsi_blk_size m ! unat (cbw_lun ?v)))]\<rparr> = v"
    unfolding v_def s(2,4,6) rest_of [OF k(2)] blocks_of [OF k(3)] ..
  note step = process_write_result [OF assms(1,2) s(7,8) assms(5), unfolded k(1) v zero]
  have run: "msc_core_out S C ep u = Ret (0, u')" if "scsi_process_write S C (cbw_lun ?v) u = Ret (0, u')" for u'
    using that s(1,5) assms(2) rd_cb [of 0]
    by (simp add: msc_core_out_def msc_bbb_data_out_def continue_command_def cbw_command_def scsi_process_cmd_def scsi_write10_def
      with_msc_Some hw_get_def rd_cbw8 Let_def)
  show "n - k = 0 \<Longrightarrow> \<exists>u' m'. msc_core_out S C ep u = Ret (0, u') \<and> bulk_ready C u' \<and> class_data u' = Some m' \<and> bbb_state m' = 0 \<and>
      view (hw u') = v\<lparr>csw_sig := BBB_CSW_SIGNATURE, csw_status := 0, moved := moved v @ [Set_up_in, Set_up_out]\<rparr> \<and> sends C u' = (bbb_csw_at C, 13) \<and> takes C u' = (bbb_cbw_at C, 31)"
    using step(1) run by force
  assume left: "n - k \<noteq> 0"
  obtain u' where u': "scsi_process_write S C (cbw_lun ?v) u = Ret (0, u')" "bulk_ready C u'"
    "class_data u' = Some (m\<lparr>scsi_blk_addr := scsi_blk_addr m + of_nat k, scsi_blk_len := scsi_blk_len m - of_nat k\<rparr>)"
    "view (hw u') = v\<lparr>moved := moved v @ [Set_up_out]\<rparr>" "takes C u' = (bbb_data_at C, USB_MIN (scsi_blk_len m - of_nat k) (MSC_MEDIA_PACKET_SIZE C))"
    using step(2) [OF left] by blast
  moreover have "writing (v\<lparr>moved := moved v @ [Set_up_out]\<rparr>) (m\<lparr>scsi_blk_addr := scsi_blk_addr m + of_nat k, scsi_blk_len := scsi_blk_len m - of_nat k\<rparr>) sz (a + k) (n - k)"
    using assms(3) s(2,3) rest_of [OF k(2)] by (simp add: writing_def v_def)
  moreover have "USB_MIN (scsi_blk_len m - of_nat k) (MSC_MEDIA_PACKET_SIZE C) = of_nat (min (unat (MSC_MEDIA_PACKET_SIZE C)) (n - k))"
    unfolding s(3) rest_of [OF k(2)] by (rule min_piece [OF rest])
  ultimately show "\<exists>u' m'. msc_core_out S C ep u = Ret (0, u') \<and> bulk_ready C u' \<and> class_data u' = Some m' \<and>
      writing (view (hw u')) m' sz (a + k) (n - k) \<and> view (hw u') = v\<lparr>moved := moved v @ [Set_up_out]\<rparr> \<and>
      takes C u' = (bbb_data_at C, of_nat (min (unat (MSC_MEDIA_PACKET_SIZE C)) (n - k)))"
    using run by auto
qed

lemma write_rest:
  assumes "\<And>l b a n h. 0 \<le> sint (fst (mem_write (usbd_mem_fops C) l b a n h))" and "MSC_MEDIA_PACKET_SIZE C \<noteq> 0"
  defines "P \<equiv> unat (MSC_MEDIA_PACKET_SIZE C)"
  shows "n < 2 ^ 32 \<Longrightarrow> n \<noteq> 0 \<Longrightarrow> bulk_ready C u \<Longrightarrow> class_data u = Some m \<Longrightarrow> writing (view (hw u)) m sz a n \<Longrightarrow>
    takes C u = (bbb_data_at C, of_nat (min P n)) \<Longrightarrow> moved (view (hw u)) = before @ [Set_up_out] \<Longrightarrow>
    \<exists>u' m'. bulk_out S C (length (chunks P a n)) u = Ret (map (\<lambda>(a, l). (bbb_data_at C, of_nat l)) (chunks P a n), u') \<and>
      bulk_ready C u' \<and> class_data u' = Some m' \<and> bbb_state m' = 0 \<and> sends C u' = (bbb_csw_at C, 13) \<and> takes C u' = (bbb_cbw_at C, 31) \<and>
      view (hw u') = (view (hw u))\<lparr>csw_sig := BBB_CSW_SIGNATURE, csw_status := 0, csw_residue := 0, moved := before @
        concat (map (write_piece (cbw_lun (view (hw u))) C (unat sz)) (chunks P a n)) @ [Set_up_in, Set_up_out]\<rparr>"
proof (induction n arbitrary: a u m before rule: less_induct)
  case (less n)
  let ?v = "view (hw u)" and ?k = "min P n"
  have P: "P \<noteq> 0" using assms(2) by (simp add: P_def unat_eq_zero)
  have p: "chunks P a n = (a, ?k) # chunks P (a + ?k) (n - ?k)" by (subst chunks.simps) (use less.prems(2) P in simp)
  note step = write_step [OF less.prems(3,4,5,1) assms(1), of "of_nat (out_ep C)", folded P_def]
  show ?case
  proof (cases "n - ?k = 0")
    case True
    then have "chunks P a n = [(a, ?k)]" using p by (simp add: chunks.simps)
    with step(1) [OF True] less.prems(6,7) True show ?thesis by auto
  next
    case False
    obtain u1 m1 where u1: "msc_core_out S C (of_nat (out_ep C)) u = Ret (0, u1)" "bulk_ready C u1" "class_data u1 = Some m1"
      "writing (view (hw u1)) m1 sz (a + ?k) (n - ?k)" "takes C u1 = (bbb_data_at C, of_nat (min P (n - ?k)))"
      "view (hw u1) = ?v\<lparr>csw_residue := of_nat (n - ?k), moved := moved ?v @
        [Medium_write (cbw_lun ?v) (bbb_data_at C) (of_nat a) (of_nat (?k div unat sz)), Set_up_out]\<rparr>"
      using step(2) [OF False] by auto
    have "n - ?k < n" "n - ?k < 2 ^ 32" using less.prems(1,2) P by (simp_all add: less_imp_diff_less)
    have "moved (view (hw u1)) = (moved ?v @ [Medium_write (cbw_lun ?v) (bbb_data_at C) (of_nat a) (of_nat (?k div unat sz))]) @ [Set_up_out]"
      unfolding u1(6) by simp
    from less.IH [OF \<open>n - ?k < n\<close> \<open>n - ?k < 2 ^ 32\<close> False u1(2-5) this] show ?thesis
      using u1(1,6) less.prems(6,7) by (auto simp: p)
  qed
qed

lemma write10_begins:
  fixes u :: "'h msc_dev"
  assumes "bulk_ready C u" and "class_data u = Some m" and "bbb_state m = 0" and "cbw_flags (view (hw u)) AND 0x80 \<noteq> 0x80"
    and "healthy C" and "unat lun < length (scsi_blk_nbr m)" and "unat lun < length (scsi_blk_size m)"
    and "\<not> scsi_blk_nbr m ! unat lun < cdb_address (view (hw u)) + ucast (ucast (cdb_blocks (view (hw u))) :: 16 word)"
    and "cbw_len (view (hw u)) = cdb_blocks (view (hw u)) * scsi_blk_size m ! unat lun"
  defines "l \<equiv> cdb_blocks (view (hw u)) * scsi_blk_size m ! unat lun"
  shows "\<exists>u'. scsi_write10 S C lun (CBWCB_at C) u = Ret (0, u') \<and>
    view (hw u') = (view (hw u))\<lparr>moved := moved (view (hw u)) @ [Set_up_out]\<rparr> \<and> bulk_ready C u' \<and>
    takes C u' = (bbb_data_at C, USB_MIN l (MSC_MEDIA_PACKET_SIZE C)) \<and>
    class_data u' = Some (m\<lparr>scsi_blk_addr := cdb_address (view (hw u)) * scsi_blk_size m ! unat lun, scsi_blk_len := l, bbb_state := 1\<rparr>)"
proof -
  let ?v = "view (hw u)"
  let ?m = "m\<lparr>scsi_blk_addr := cdb_address ?v, scsi_blk_len := cdb_blocks ?v\<rparr>"
  let ?u = "hw_do (snd \<circ> mem_protected (usbd_mem_fops C) lun) (hw_do (snd \<circ> mem_ready (usbd_mem_fops C) lun) u)"
  have ok: "fst (mem_ready (usbd_mem_fops C) l h) = 0" "fst (mem_protected (usbd_mem_fops C) l h) = 0" for l h
    using assms(5) by (simp_all add: healthy_def)
  define u2 where "u2 = set_msc (\<lambda>m. m\<lparr>scsi_blk_len := cdb_blocks ?v\<rparr>) (set_msc (\<lambda>m. m\<lparr>scsi_blk_addr := cdb_address ?v\<rparr>) ?u)"
  have u2: "class_data u2 = Some ?m" "view (hw u2) = ?v" "bulk_ready C u2" "block_range S (CBWCB_at C) ?u = u2"
    using assms(1,2) by (simp_all add: u2_def ready_view protected_view block_range_result)
  have range: "scsi_check_address_range lun (cdb_address ?v) (ucast (cdb_blocks ?v)) u2 = Ret (0, u2)"
    by (rule in_range [OF u2(1)]) (use assms(6,8) in simp_all)
  define u3 where "u3 = set_msc (\<lambda>m. m\<lparr>bbb_state := 1\<rparr>) (set_msc (\<lambda>m. m\<lparr>scsi_blk_addr := scsi_blk_addr m * scsi_blk_size ?m ! unat lun,
      scsi_blk_len := scsi_blk_len m * scsi_blk_size ?m ! unat lun\<rparr>) u2)"
  have u3: "class_data u3 = Some (m\<lparr>scsi_blk_addr := cdb_address ?v * scsi_blk_size m ! unat lun, scsi_blk_len := l, bbb_state := 1\<rparr>)"
    "view (hw u3) = ?v" "bulk_ready C u3"
    using u2 by (simp_all add: u3_def l_def)
  have "scsi_write10 S C lun (CBWCB_at C) u =
      bindo (usbd_ep_recev S (MSC_OUT_EP C) (bbb_data_at C) (USB_MIN l (MSC_MEDIA_PACKET_SIZE C)) u3) (\<lambda>u. Ret (0, u))"
    using assms(2-4,7,9) ok u2 range
    by (simp add: scsi_write10_def with_msc_Some hw_get_simps [of "mem_ready M l" for M l] hw_get_simps [of "mem_protected M l" for M l]
      to_bytes_def lun_at_def Let_def u3_def l_def)
  with recev_result [OF u3(3), of "bbb_data_at C" "USB_MIN l (MSC_MEDIA_PACKET_SIZE C)"] u3(1,2) show ?thesis by auto
qed

text \<open>A valid write of blocks, as a whole.\<close>

lemma write_streams:
  assumes "bulk_ready C u" and "class_data u = Some m" and "block_command C (view (hw u)) m u" and "healthy C"
    and "cbw_cb (view (hw u)) 0 = 0x2A" and "cbw_flags (view (hw u)) AND 0x80 \<noteq> 0x80" and "MSC_MEDIA_PACKET_SIZE C \<noteq> 0"
  defines "sz \<equiv> unat (scsi_blk_size m ! unat (cbw_lun (view (hw u))))"
  defines "pieces \<equiv> chunks (unat (MSC_MEDIA_PACKET_SIZE C)) (unat (cdb_address (view (hw u))) * sz)
    (unat (cdb_blocks (view (hw u))) * sz)"
  shows "\<exists>u' u'' m'. msc_core_out S C (of_nat (out_ep C)) u = Ret (0, u') \<and>
    bulk_out S C (length pieces) u' = Ret (map (\<lambda>(a, l). (bbb_data_at C, of_nat l)) pieces, u'') \<and>
    bulk_ready C u'' \<and> class_data u'' = Some m' \<and> bbb_state m' = 0 \<and> sends C u'' = (bbb_csw_at C, 13) \<and>
    takes C u'' = (bbb_cbw_at C, 31) \<and>
    view (hw u'') = (view (hw u))\<lparr>csw_sig := BBB_CSW_SIGNATURE, csw_tag := cbw_tag (view (hw u)), csw_residue := 0, csw_status := 0,
      moved := moved (view (hw u)) @ concat (map (write_piece (cbw_lun (view (hw u))) C sz) pieces) @ [Set_up_in, Set_up_out]\<rparr>"
proof -
  let ?v = "view (hw u)" and ?P = "unat (MSC_MEDIA_PACKET_SIZE C)"
  let ?w = "?v\<lparr>csw_tag := cbw_tag ?v, csw_residue := cbw_len ?v\<rparr>" and ?l = "cbw_lun ?v"
  let ?z = "scsi_blk_size m ! unat ?l"
  let ?a = "unat (cdb_address ?v) * sz" and ?n = "unat (cdb_blocks ?v) * sz"
  note c = block_commandD [OF assms(3), folded sz_def]
  have n: "cdb_blocks ?v * ?z = of_nat ?n" "cdb_address ?v * ?z = of_nat ?a" by (simp_all add: sz_def)
  have w: "cdb_address ?w = cdb_address ?v" "cdb_blocks ?w = cdb_blocks ?v" by (simp_all add: cdb_address_def cdb_blocks_def)
  have writes: "0 \<le> sint (fst (mem_write (usbd_mem_fops C) l b a n h))" for l b a n h using assms(4) by (simp add: healthy_def)
  obtain u1 where u1: "msc_core_out S C (of_nat (out_ep C)) u = bindo (bindo (cbw_command S C u1) (\<lambda>(r, u).
          if r < 0 then msc_bbb_abort S C u
          else with_msc u (\<lambda>m.
            if bbb_state m \<noteq> BBB_DATA_IN \<and> bbb_state m \<noteq> BBB_DATA_OUT \<and> bbb_state m \<noteq> BBB_LAST_DATA_IN
            then if 0 < bbb_datalen m then msc_bbb_data_send S C (bbb_data_at C) (bbb_datalen m) u
                 else msc_bbb_csw_send S C CSW_CMD_PASSED u
            else Ret u))) (\<lambda>u. Ret (0, u))"
    "bulk_ready C u1 \<longleftrightarrow> bulk_ready C u" "class_data u1 = class_data u" "view (hw u1) = ?w"
    using decode_command [OF assms(2) c(1,2)] by blast
  have p: "bulk_ready C u1" "class_data u1 = Some m" "cbw_flags (view (hw u1)) AND 0x80 \<noteq> 0x80"
    "\<not> scsi_blk_nbr m ! unat ?l < cdb_address (view (hw u1)) + ucast (ucast (cdb_blocks (view (hw u1))) :: 16 word)"
    "cbw_len (view (hw u1)) = cdb_blocks (view (hw u1)) * scsi_blk_size m ! unat ?l"
    using assms(1,2,6) u1(2,3) c(8,9) unfolding u1(4) w by simp_all
  obtain u2 where u2: "scsi_write10 S C ?l (CBWCB_at C) u1 = Ret (0, u2)" "view (hw u2) = ?w\<lparr>moved := moved ?w @ [Set_up_out]\<rparr>" "bulk_ready C u2"
    "takes C u2 = (bbb_data_at C, USB_MIN (of_nat ?n) (MSC_MEDIA_PACKET_SIZE C))"
    "class_data u2 = Some (m\<lparr>scsi_blk_addr := of_nat ?a, scsi_blk_len := of_nat ?n, bbb_state := 1\<rparr>)"
    using write10_begins [OF p(1,2) c(1) p(3) assms(4) c(4,3) p(4,5)] unfolding u1(4) w n by blast
  have "cbw_command S C u1 = Ret (0, u2)"
    using u2(1) assms(5) by (simp add: cbw_command_def scsi_process_cmd_def u1(4) Let_def)
  then have start: "msc_core_out S C (of_nat (out_ep C)) u = Ret (0, u2)" using u1(1) u2(5) by (simp add: with_msc_Some)
  have "writing (view (hw u2)) (m\<lparr>scsi_blk_addr := of_nat ?a, scsi_blk_len := of_nat ?n, bbb_state := 1\<rparr>) ?z ?a ?n"
    using c(3,5,8) assms(5) n(1) unfolding u2(2) writing_def by simp
  moreover have "moved (view (hw u2)) = moved ?v @ [Set_up_out]" unfolding u2(2) by simp
  moreover have "takes C u2 = (bbb_data_at C, of_nat (min ?P ?n))" using u2(4) unfolding min_piece [OF c(6)] .
  moreover have "cbw_lun (view (hw u2)) = ?l" "unat ?z = sz" unfolding u2(2) sz_def by simp_all
  ultimately obtain u3 m3 where u3: "bulk_out S C (length pieces) u2 = Ret (map (\<lambda>(a, l). (bbb_data_at C, of_nat l)) pieces, u3)"
    "bulk_ready C u3" "class_data u3 = Some m3" "bbb_state m3 = 0" "sends C u3 = (bbb_csw_at C, 13)" "takes C u3 = (bbb_cbw_at C, 31)"
    "view (hw u3) = (view (hw u2))\<lparr>csw_sig := BBB_CSW_SIGNATURE, csw_status := 0, csw_residue := 0, moved := moved ?v @
      concat (map (write_piece ?l C sz) pieces) @ [Set_up_in, Set_up_out]\<rparr>"
    using write_rest [OF writes assms(7) c(6,7) u2(3,5)] unfolding pieces_def by metis
  have "view (hw u3) = ?v\<lparr>csw_sig := BBB_CSW_SIGNATURE, csw_tag := cbw_tag ?v, csw_residue := 0, csw_status := 0,
      moved := moved ?v @ concat (map (write_piece ?l C sz) pieces) @ [Set_up_in, Set_up_out]\<rparr>"
    unfolding u3(7) u2(2) by simp
  then show ?thesis using start u3(1-6) by blast
qed

end

section \<open>The documented hardware\<close>

text \<open>The file of registers and RAM, with a record of the operations of a medium of 512-byte blocks; the wrappers
  and 1024 bytes of data are in the RAM.\<close>

definition recorded_medium :: "medium_op logged usbd_mem_cb" where
  "recorded_medium = \<lparr>mem_init = (\<lambda>_ h. (0, h)), mem_ready = (\<lambda>_ h. (0, h)), mem_protected = (\<lambda>_ h. (0, h)),
     mem_read = (\<lambda>l a b n (h, ops). (0, h, ops @ [Medium_read l a b n])),
     mem_write = (\<lambda>l a b n (h, ops). (0, h, ops @ [Medium_write l a b n])), mem_maxlun = (\<lambda>h. (0, h)),
     mem_toc_data = 0x08002000, mem_inquiry_data = [0x08002100], mem_block_size = [512], mem_block_len = [100]\<rparr>"

definition disk_conf :: "medium_op logged msc_conf" where
  "disk_conf = \<lparr>usbd_mem_fops = recorded_medium, MEM_LUN_NUM = 1, MSC_MEDIA_PACKET_SIZE = 1024, MSC_DATA_PACKET_SIZE = 64,
     MSC_IN_EP = 0x81, MSC_OUT_EP = 0x01, bbb_data_at = 0x20000400, bbb_cbw_at = 0x20000300, bbb_csw_at = 0x20000320,
     usbd_msc_maxlun_at = 0x20000340\<rparr>"

definition command_byte :: "nat \<Rightarrow> (32 word \<Rightarrow> reg) \<Rightarrow> 8 word" where
  "command_byte i h = (if i < 16 then fst (gd32_read8 (0x2000030F + of_nat i) h) else 0)"

definition disk_view :: "medium_op logged \<Rightarrow> msc_view" where
  "disk_view h = \<lparr>cbw_sig = fst h 0x20000300, cbw_tag = fst h 0x20000304, cbw_len = fst h 0x20000308,
     cbw_flags = fst (gd32_read8 0x2000030C (fst h)), cbw_lun = fst (gd32_read8 0x2000030D (fst h)),
     cbw_cblen = fst (gd32_read8 0x2000030E (fst h)),
     cbw_cb = (\<lambda>i. command_byte i (fst h)),
     csw_sig = fst h 0x20000320, csw_tag = fst h 0x20000324, csw_residue = fst h 0x20000328,
     csw_status = fst (gd32_read8 0x2000032C (fst h)), moved = snd h\<rparr>"

lemma wrapper_words: "w \<in> {0x20000300, 0x20000304, 0x20000308, 0x20000320, 0x20000324, 0x20000328} \<Longrightarrow>
  gd32_read w h = (h w, h) \<and> gd32_write w v h = h(w := v)"
  by (auto simp: gd32_read_def gd32_write_def is_port_def GPIO_BASE_def EXTI_BASE_def)

lemma command_bytes:
  assumes "i < 16"
  shows "(0x2000030F + of_nat i :: 32 word) AND NOT 3 \<in> {0x2000030C, 0x20000310, 0x20000314, 0x20000318, 0x2000031C}"
    and "0x2000030F + of_nat i \<noteq> (0x2000032C :: 32 word)"
proof -
  have "\<forall>i \<in> set [0..<16]. (0x2000030F + of_nat i :: 32 word) AND NOT 3 \<in> {0x2000030C, 0x20000310, 0x20000314, 0x20000318, 0x2000031C} \<and>
      0x2000030F + of_nat i \<noteq> (0x2000032C :: 32 word)"
    by (simp add: upt_rec)
  then show "(0x2000030F + of_nat i :: 32 word) AND NOT 3 \<in> {0x2000030C, 0x20000310, 0x20000314, 0x20000318, 0x2000031C}"
    "0x2000030F + of_nat i \<noteq> (0x2000032C :: 32 word)" using assms by simp_all
qed

lemma command_byte_kept:
  "w \<notin> {0x2000030C, 0x20000310, 0x20000314, 0x20000318, 0x2000031C} \<Longrightarrow> command_byte i (h(w := x)) = command_byte i h"
  "command_byte i (gd32_write8 0x2000032C v h) = command_byte i h"
proof -
  show "command_byte i (h(w := x)) = command_byte i h" if "w \<notin> {0x2000030C, 0x20000310, 0x20000314, 0x20000318, 0x2000031C}"
    using command_bytes(1) [of i] that gd32_apart(2) [of "0x2000030F + of_nat i" w h x] by (auto simp: command_byte_def)
  show "command_byte i (gd32_write8 0x2000032C v h) = command_byte i h"
    using command_bytes(2) [of i] by (simp add: command_byte_def gd32_bytes)
qed

lemma disk_view_word:
  assumes "w \<notin> {0x20000300, 0x20000304, 0x20000308, 0x2000030C, 0x20000310, 0x20000314, 0x20000318, 0x2000031C, 0x2000032C}"
  shows "disk_view (h(w := x), l) = (disk_view (h, l))\<lparr>csw_sig := (if w = 0x20000320 then x else h 0x20000320),
      csw_tag := (if w = 0x20000324 then x else h 0x20000324), csw_residue := (if w = 0x20000328 then x else h 0x20000328)\<rparr>"
  using assms by (simp add: disk_view_def gd32_apart command_byte_kept)

lemma disk_view_status: "disk_view (gd32_write8 0x2000032C v h, l) = (disk_view (h, l))\<lparr>csw_status := v\<rparr>"
  by (simp add: disk_view_def gd32_bytes gd32_apart command_byte_kept)

text \<open>The bus also records the setting up of a transfer, on the endpoints numbered 1.\<close>

definition disk_bus :: "medium_op logged bus" where
  "disk_bus = gd32_logged\<lparr>wr32 := (\<lambda>a v (h, ops). (gd32_write a v h,
     ops @ (if a = in_len disk_conf then [Set_up_in] else if a = out_len disk_conf then [Set_up_out] else [])))\<rparr>"

definition disk_usb :: "medium_op logged usb_sys" where
  "disk_usb = gd32_logged_usb\<lparr>bus := disk_bus\<rparr>"

lemma disk_lengths: "in_len disk_conf = 0x50000930" "out_len disk_conf = 0x50000B30"
  by (simp_all add: in_len_def out_len_def in_ep_def out_ep_def disk_conf_def)

lemma disk_accesses:
  "rd32 disk_bus a (h, ops) = (fst (gd32_read a h), h, ops)" "rd8 disk_bus a (h, ops) = (fst (gd32_read8 a h), h, ops)"
  "wr8 disk_bus a s (h, ops) = (gd32_write8 a s h, ops)"
  "wr32 disk_bus a v (h, ops) = (gd32_write a v h,
     ops @ (if a = 0x50000930 then [Set_up_in] else if a = 0x50000B30 then [Set_up_out] else []))"
  by (simp_all add: disk_bus_def disk_lengths) (simp_all add: gd32_logged_def)

interpretation gd32_msc: msc_hw disk_usb disk_conf disk_view
proof
  have b: "bus disk_usb = disk_bus" "usbd_mem_fops disk_conf = recorded_medium" "bbb_cbw_at disk_conf = 0x20000300"
    "bbb_csw_at disk_conf = 0x20000320"
    by (simp_all add: disk_usb_def disk_conf_def)
  fix h :: "medium_op logged" and a x l v and n :: "16 word" and i :: nat and s t :: "8 word"
  obtain r ops where h: "h = (r, ops)" by (cases h)
  show "MSC_IN_EP disk_conf \<in> {0x81, 0x82, 0x83}" "MSC_OUT_EP disk_conf \<in> {1, 2, 3}" by (simp_all add: disk_conf_def)
  show "rd32 (bus disk_usb) (dCBWSignature_at disk_conf) h = (cbw_sig (disk_view h), h)"
    "rd32 (bus disk_usb) (dCBWTag_at disk_conf) h = (cbw_tag (disk_view h), h)"
    "rd32 (bus disk_usb) (dCBWDataTransferLength_at disk_conf) h = (cbw_len (disk_view h), h)"
    "rd8 (bus disk_usb) (bmCBWFlags_at disk_conf) h = (cbw_flags (disk_view h), h)"
    "rd8 (bus disk_usb) (bCBWLUN_at disk_conf) h = (cbw_lun (disk_view h), h)"
    "rd8 (bus disk_usb) (bCBWCBLength_at disk_conf) h = (cbw_cblen (disk_view h), h)"
    "rd32 (bus disk_usb) (dCSWDataResidue_at disk_conf) h = (csw_residue (disk_view h), h)"
    by (simp_all add: b h disk_accesses disk_view_def wrapper_words)
  show "i < 16 \<Longrightarrow> rd8 (bus disk_usb) (CBWCB_at disk_conf + of_nat i) h = (cbw_cb (disk_view h) i, h)"
    by (simp add: b h disk_accesses disk_view_def command_byte_def)
  show "disk_view (wr32 (bus disk_usb) (dCSWSignature_at disk_conf) v h) = (disk_view h)\<lparr>csw_sig := v\<rparr>"
    "disk_view (wr32 (bus disk_usb) (dCSWTag_at disk_conf) v h) = (disk_view h)\<lparr>csw_tag := v\<rparr>"
    "disk_view (wr32 (bus disk_usb) (dCSWDataResidue_at disk_conf) v h) = (disk_view h)\<lparr>csw_residue := v\<rparr>"
    by (simp_all add: b h disk_accesses wrapper_words disk_view_word) (simp_all add: disk_view_def)
  show "disk_view (wr8 (bus disk_usb) (bCSWStatus_at disk_conf) s h) = (disk_view h)\<lparr>csw_status := s\<rparr>"
    by (simp add: b h disk_accesses disk_view_status)
  have words: "disk_view (gd32_write y v r, w) = disk_view (r, w)" if "0x50000000 \<le> y" for y w
  proof -
    have "y \<notin> {0x20000300, 0x20000304, 0x20000308, 0x2000030C, 0x20000310, 0x20000314, 0x20000318, 0x2000031C, 0x2000032C}"
      "y \<notin> {0x20000320, 0x20000324, 0x20000328}" using that by auto
    then show ?thesis by (simp add: usb_words [OF that] disk_view_word) (simp add: disk_view_def)
  qed
  show "disk_view (wr32 (bus disk_usb) x v h) = disk_view h" if "0x50000000 \<le> x" "x \<noteq> in_len disk_conf" "x \<noteq> out_len disk_conf"
    using that(2,3) words [OF that(1)] by (simp add: b h disk_accesses disk_lengths)
  have log: "disk_view (r, w) = (disk_view h)\<lparr>moved := w\<rparr>" "moved (disk_view h) = ops" for w by (simp_all add: h disk_view_def)
  have w: "disk_view (gd32_write 0x50000930 v r, w) = (disk_view h)\<lparr>moved := w\<rparr>"
    "disk_view (gd32_write 0x50000B30 v r, w) = (disk_view h)\<lparr>moved := w\<rparr>" for w
    using words [of "0x50000930" w] words [of "0x50000B30" w] log(1) by simp_all
  show "disk_view (wr32 (bus disk_usb) (in_len disk_conf) v h) = (disk_view h)\<lparr>moved := moved (disk_view h) @ [Set_up_in]\<rparr>"
    "disk_view (wr32 (bus disk_usb) (out_len disk_conf) v h) = (disk_view h)\<lparr>moved := moved (disk_view h) @ [Set_up_out]\<rparr>"
    unfolding b disk_lengths h disk_accesses using w [unfolded h] log(2) [unfolded h] by simp_all
  show "disk_view (snd (rd32 (bus disk_usb) x h)) = disk_view h" by (simp add: b h disk_accesses)
qed (simp_all add: disk_conf_def recorded_medium_def disk_view_def split_beta)

text \<open>A device whose class has been started, with the capacity of the medium known, when a command has arrived.\<close>

definition disk_handler :: usbd_msc_handler where
  "disk_handler = (zero_handler disk_conf)\<lparr>scsi_blk_size := [512], scsi_blk_nbr := [100]\<rparr>"

definition bulk_endpoint :: "8 word \<Rightarrow> usb_transc" where
  "bulk_endpoint n = (endpoint0 0x20000300 0)\<lparr>ep_num := n, ep_type := 2, xfer_count := 31\<rparr>"

definition disk_device :: "medium_op logged \<Rightarrow> medium_op logged msc_dev" where
  "disk_device h = \<lparr>bp = fs_core, regs = assign_regs fs_core, dev_addr = 5, cur_status = 3, backup_status = 0,
     transc_in = (\<lambda>n. if n = 1 then bulk_endpoint 1 else endpoint0 0 0),
     transc_out = (\<lambda>n. if n = 1 then bulk_endpoint 1 else endpoint0 0 0), power_mode = 1, dev_remote_wakeup = 0,
     req = request 0 0 0 0, ctl_state = 0, ctl_zlp = 0,
     desc = \<lparr>dev_desc = 0x08001000, config_desc = 0x08001020, bos_desc = 0x08001080, strings = 0x08001090\<rparr>,
     class_data = Some disk_handler, hw = h\<rparr>"

lemma disk_device_simps [simp]:
  "hw (disk_device h) = h" "class_data (disk_device h) = Some disk_handler" "bulk_ready disk_conf (disk_device h)" "healthy disk_conf"
  "out_ep disk_conf = 1" "MSC_MEDIA_PACKET_SIZE disk_conf = 1024" "scsi_blk_size disk_handler = [512]" "scsi_blk_nbr disk_handler = [100]"
  "bbb_state disk_handler = 0" "xfer_count (transc_out (disk_device h) (Suc 0)) = 31" "bbb_data_at disk_conf = 0x20000400"
  by (simp_all add: disk_device_def bulk_ready_def ready_def transc_def fs_core_def fs_basic_def endpoint0_def bulk_endpoint_def
    in_ep_def out_ep_def disk_conf_def healthy_def recorded_medium_def split_beta disk_handler_def zero_handler_def)

section \<open>Moving blocks\<close>

text \<open>A command of three blocks from the fifth on, in the wrapper; the operation and the flags are given.\<close>

definition three_blocks :: "8 word \<Rightarrow> 8 word \<Rightarrow> 32 word \<Rightarrow> reg" where
  "three_blocks flags opcode = (\<lambda>_. 0)(0x20000300 := 0x43425355, 0x20000304 := 0x1234, 0x20000308 := 1536,
     0x2000030C := ucast flags OR 0x000A0000 OR push_bit 24 (ucast opcode), 0x20000314 := 0x03000005)"

lemma three_blocks_view:
  assumes "(flags, opcode) \<in> {(0x80, 0x28), (0, 0x2A)}"
  defines "v \<equiv> disk_view (three_blocks flags opcode, [])"
  shows "cbw_sig v = 0x43425355" "cbw_lun v = 0" "cbw_cblen v = 10" "cbw_len v = 1536" "cbw_cb v 0 = opcode" "cbw_flags v = flags"
    "cdb_address v = 5" "cdb_blocks v = 3" "moved v = []"
  using assms(1) by (auto simp: v_def disk_view_def three_blocks_def cdb_address_def cdb_blocks_def command_byte_def gd32_read8_def)

lemma three_blocks_command:
  assumes "(flags, opcode) \<in> {(0x80, 0x28), (0, 0x2A)}"
  shows "block_command disk_conf (disk_view (three_blocks flags opcode, [])) disk_handler (disk_device (three_blocks flags opcode, []))"
proof -
  have "(8 :: reg) \<le> 100" "(1 :: 8 word) \<le> 10" "(10 :: 8 word) \<le> 16" by (simp_all add: word_le_nat_alt)
  then show ?thesis using three_blocks_view [OF assms] by (simp add: block_command_def valid_cbw_def)
qed

lemma three_blocks_pieces: "chunks 1024 2560 1536 = [(2560, 1024), (3584, 512)]"
  by (simp add: chunks.simps)

text \<open>C13: A valid command to read blocks is carried out to the end, whatever the number of blocks and the size of the
  buffer: the bytes asked for are cut into pieces, each piece is read from its place on the medium into the
  buffer and only then handed to the endpoint, as the host has taken the one before, and after the last the
  status wrapper is sent, with the command's tag, nothing left over and success; then the next command is awaited.
  (A place is given to the medium as its byte address in 32 bits; the range is within the medium by the device's
  own check.)\<close>

theorem msc_read_streams:
  assumes "msc_hw S C view" and "bulk_ready C u" and "class_data u = Some m" and "block_command C (view (hw u)) m u" and "healthy C"
    and "cbw_cb (view (hw u)) 0 = 0x28" and "cbw_flags (view (hw u)) AND 0x80 = 0x80" and "MSC_MEDIA_PACKET_SIZE C \<noteq> 0"
  defines "sz \<equiv> unat (scsi_blk_size m ! unat (cbw_lun (view (hw u))))"
  defines "pieces \<equiv> chunks (unat (MSC_MEDIA_PACKET_SIZE C)) (unat (cdb_address (view (hw u))) * sz)
    (unat (cdb_blocks (view (hw u))) * sz)"
  shows "\<exists>u' u'' m'. msc_core_out S C (of_nat (out_ep C)) u = Ret (0, u') \<and>
    bulk_in S C (length pieces) u' = Ret (map (\<lambda>(a, l). (bbb_data_at C, of_nat l)) pieces, u'') \<and>
    bulk_ready C u'' \<and> class_data u'' = Some m' \<and> bbb_state m' = 0 \<and> sends C u'' = (bbb_csw_at C, 13) \<and>
    takes C u'' = (bbb_cbw_at C, 31) \<and>
    view (hw u'') = (view (hw u))\<lparr>csw_sig := BBB_CSW_SIGNATURE, csw_tag := cbw_tag (view (hw u)), csw_residue := 0, csw_status := 0,
      moved := moved (view (hw u)) @ concat (map (read_piece (cbw_lun (view (hw u))) C sz) pieces) @ [Set_up_in, Set_up_out]\<rparr>"
  unfolding sz_def pieces_def by (rule msc_hw.read_streams [OF assms(1-8)])

theorem msc_read_streams_witness:
  "\<exists>u' u''. msc_core_out disk_usb disk_conf 1 (disk_device (three_blocks 0x80 0x28, [])) = Ret (0, u') \<and>
    bulk_in disk_usb disk_conf 2 u' = Ret ([(0x20000400, 1024), (0x20000400, 512)], u'') \<and>
    snd (hw u'') = [Medium_read 0 0x20000400 2560 2, Set_up_in, Medium_read 0 0x20000400 3584 1, Set_up_in,
      Set_up_in, Set_up_out]"
proof -
  let ?u = "disk_device (three_blocks 0x80 0x28, [])" and ?v = "disk_view (three_blocks 0x80 0x28, [])"
  let ?sz = "unat (scsi_blk_size disk_handler ! unat (cbw_lun (disk_view (hw ?u))))"
  let ?ps = "chunks (unat (MSC_MEDIA_PACKET_SIZE disk_conf)) (unat (cdb_address (disk_view (hw ?u))) * ?sz)
    (unat (cdb_blocks (disk_view (hw ?u))) * ?sz)"
  have c: "((0x80 :: 8 word), (0x28 :: 8 word)) \<in> {(0x80, 0x28), (0, 0x2A)}" by simp
  note v = three_blocks_view [OF c]
  have h: "bulk_ready disk_conf ?u" "class_data ?u = Some disk_handler" "block_command disk_conf (disk_view (hw ?u)) disk_handler ?u"
    "healthy disk_conf" "cbw_cb (disk_view (hw ?u)) 0 = 0x28" "cbw_flags (disk_view (hw ?u)) AND 0x80 = 0x80"
    "MSC_MEDIA_PACKET_SIZE disk_conf \<noteq> 0"
    using three_blocks_command [OF c] v by simp_all
  have ps: "?ps = [(2560, 1024), (3584, 512)]" "?sz = 512" using v by (simp_all add: three_blocks_pieces)
  obtain u' u'' where u: "msc_core_out disk_usb disk_conf (of_nat (out_ep disk_conf)) ?u = Ret (0, u')"
    "bulk_in disk_usb disk_conf (length ?ps) u' = Ret (map (\<lambda>(a, l). (bbb_data_at disk_conf, of_nat l)) ?ps, u'')"
    "disk_view (hw u'') = (disk_view (hw ?u))\<lparr>csw_sig := BBB_CSW_SIGNATURE, csw_tag := cbw_tag (disk_view (hw ?u)), csw_residue := 0,
      csw_status := 0, moved := moved (disk_view (hw ?u)) @
        concat (map (read_piece (cbw_lun (disk_view (hw ?u))) disk_conf ?sz) ?ps) @ [Set_up_in, Set_up_out]\<rparr>"
    using msc_read_streams [OF gd32_msc.msc_hw_axioms h] by blast
  have "moved (disk_view (hw u'')) = [Medium_read 0 0x20000400 2560 2, Set_up_in, Medium_read 0 0x20000400 3584 1, Set_up_in,
      Set_up_in, Set_up_out]"
    unfolding u(3) ps using v by (simp add: three_blocks_pieces)
  moreover have "moved (disk_view h) = snd h" for h by (simp add: disk_view_def)
  ultimately show ?thesis using u(1,2) unfolding ps(1) by (auto simp: numeral_2_eq_2 simp del: bulk_in.simps bulk_out.simps)
qed

text \<open>C14: A valid command to write blocks is carried out to the end: the transfer of each piece into the buffer is
  set up, the piece that has arrived is written from the buffer to its place on the medium, and only after that the
  transfer of the next piece into the same buffer is set up; after the last piece the status wrapper is sent,
  with the command's tag, nothing left over and success, and the next command is awaited. (Places and ranges are as
  for a read.)\<close>

theorem msc_write_streams:
  assumes "msc_hw S C view" and "bulk_ready C u" and "class_data u = Some m" and "block_command C (view (hw u)) m u" and "healthy C"
    and "cbw_cb (view (hw u)) 0 = 0x2A" and "cbw_flags (view (hw u)) AND 0x80 \<noteq> 0x80" and "MSC_MEDIA_PACKET_SIZE C \<noteq> 0"
  defines "sz \<equiv> unat (scsi_blk_size m ! unat (cbw_lun (view (hw u))))"
  defines "pieces \<equiv> chunks (unat (MSC_MEDIA_PACKET_SIZE C)) (unat (cdb_address (view (hw u))) * sz)
    (unat (cdb_blocks (view (hw u))) * sz)"
  shows "\<exists>u' u'' m'. msc_core_out S C (of_nat (out_ep C)) u = Ret (0, u') \<and>
    bulk_out S C (length pieces) u' = Ret (map (\<lambda>(a, l). (bbb_data_at C, of_nat l)) pieces, u'') \<and>
    bulk_ready C u'' \<and> class_data u'' = Some m' \<and> bbb_state m' = 0 \<and> sends C u'' = (bbb_csw_at C, 13) \<and>
    takes C u'' = (bbb_cbw_at C, 31) \<and>
    view (hw u'') = (view (hw u))\<lparr>csw_sig := BBB_CSW_SIGNATURE, csw_tag := cbw_tag (view (hw u)), csw_residue := 0, csw_status := 0,
      moved := moved (view (hw u)) @ concat (map (write_piece (cbw_lun (view (hw u))) C sz) pieces) @ [Set_up_in, Set_up_out]\<rparr>"
  unfolding sz_def pieces_def by (rule msc_hw.write_streams [OF assms(1-8)])

theorem msc_write_streams_witness:
  "\<exists>u' u''. msc_core_out disk_usb disk_conf 1 (disk_device (three_blocks 0 0x2A, [])) = Ret (0, u') \<and>
    bulk_out disk_usb disk_conf 2 u' = Ret ([(0x20000400, 1024), (0x20000400, 512)], u'') \<and>
    snd (hw u'') = [Set_up_out, Medium_write 0 0x20000400 2560 2, Set_up_out, Medium_write 0 0x20000400 3584 1,
      Set_up_in, Set_up_out]"
proof -
  let ?u = "disk_device (three_blocks 0 0x2A, [])" and ?v = "disk_view (three_blocks 0 0x2A, [])"
  let ?sz = "unat (scsi_blk_size disk_handler ! unat (cbw_lun (disk_view (hw ?u))))"
  let ?ps = "chunks (unat (MSC_MEDIA_PACKET_SIZE disk_conf)) (unat (cdb_address (disk_view (hw ?u))) * ?sz)
    (unat (cdb_blocks (disk_view (hw ?u))) * ?sz)"
  have c: "((0 :: 8 word), (0x2A :: 8 word)) \<in> {(0x80, 0x28), (0, 0x2A)}" by simp
  note v = three_blocks_view [OF c]
  have h: "bulk_ready disk_conf ?u" "class_data ?u = Some disk_handler" "block_command disk_conf (disk_view (hw ?u)) disk_handler ?u"
    "healthy disk_conf" "cbw_cb (disk_view (hw ?u)) 0 = 0x2A" "cbw_flags (disk_view (hw ?u)) AND 0x80 \<noteq> 0x80"
    "MSC_MEDIA_PACKET_SIZE disk_conf \<noteq> 0"
    using three_blocks_command [OF c] v by simp_all
  have ps: "?ps = [(2560, 1024), (3584, 512)]" "?sz = 512" using v by (simp_all add: three_blocks_pieces)
  obtain u' u'' where u: "msc_core_out disk_usb disk_conf (of_nat (out_ep disk_conf)) ?u = Ret (0, u')"
    "bulk_out disk_usb disk_conf (length ?ps) u' = Ret (map (\<lambda>(a, l). (bbb_data_at disk_conf, of_nat l)) ?ps, u'')"
    "disk_view (hw u'') = (disk_view (hw ?u))\<lparr>csw_sig := BBB_CSW_SIGNATURE, csw_tag := cbw_tag (disk_view (hw ?u)), csw_residue := 0,
      csw_status := 0, moved := moved (disk_view (hw ?u)) @
        concat (map (write_piece (cbw_lun (disk_view (hw ?u))) disk_conf ?sz) ?ps) @ [Set_up_in, Set_up_out]\<rparr>"
    using msc_write_streams [OF gd32_msc.msc_hw_axioms h] by blast
  have "moved (disk_view (hw u'')) = [Set_up_out, Medium_write 0 0x20000400 2560 2, Set_up_out, Medium_write 0 0x20000400 3584 1,
      Set_up_in, Set_up_out]"
    unfolding u(3) ps using v by (simp add: three_blocks_pieces)
  moreover have "moved (disk_view h) = snd h" for h by (simp add: disk_view_def)
  ultimately show ?thesis using u(1,2) unfolding ps(1) by (auto simp: numeral_2_eq_2 simp del: bulk_in.simps bulk_out.simps)
qed

section \<open>The range of a command\<close>

text \<open>C39: The check of a command's range adds the address and the number of blocks in 32 bits: it lets through the
  ranges within the medium, and also those whose sum wraps around to a small number, which lie beyond any medium.\<close>

theorem range_check_wraps:
  fixes a :: reg and k :: "16 word"
  assumes "class_data u = Some m" and "unat lun < length (scsi_blk_nbr m)"
  defines "n \<equiv> unat (scsi_blk_nbr m ! unat lun)" and "top_sum \<equiv> unat a + unat k"
  shows "scsi_check_address_range lun a k u = Ret (0, u) \<longleftrightarrow> top_sum \<le> n \<or> 2 ^ 32 \<le> top_sum \<and> top_sum - 2 ^ 32 \<le> n"
proof -
  have k: "unat (ucast k :: reg) = unat k" by (rule widened)
  have small: "unat a < 2 ^ 32" "unat k < 2 ^ 16" "n < 2 ^ 32"
    using unsigned_less [of a, where 'a = nat] unsigned_less [of k, where 'a = nat]
      unsigned_less [of "scsi_blk_nbr m ! unat lun", where 'a = nat] by (simp_all add: n_def)
  have "unat (a + ucast k) = top_sum mod 2 ^ 32" by (simp add: unat_word_ariths top_sum_def k)
  moreover have "top_sum mod 2 ^ 32 = (if top_sum < 2 ^ 32 then top_sum else top_sum - 2 ^ 32)"
    using small(1,2) by (auto simp: top_sum_def mod_if)
  ultimately have "scsi_blk_nbr m ! unat lun < a + ucast k \<longleftrightarrow> n < (if top_sum < 2 ^ 32 then top_sum else top_sum - 2 ^ 32)"
    by (simp add: word_less_nat_alt n_def)
  moreover have "refuse lun x y u \<noteq> Ret (0, w)" for x y w
    by (cases "scsi_sense_code lun x y u") (auto simp: refuse_def)
  ultimately show ?thesis
    using assms(1,2) small(3) by (auto simp: scsi_check_address_range_def with_msc_Some lun_at_def)
qed

theorem range_check_wraps_witness:
  "scsi_check_address_range 0 0xFFFFFFFF 1 (disk_device ((\<lambda>_. 0), [])) = Ret (0, disk_device ((\<lambda>_. 0), []))"
  using range_check_wraps [of "disk_device ((\<lambda>_. 0), [])" disk_handler 0 "0xFFFFFFFF" 1] by simp

section \<open>Errors remembered\<close>

text \<open>The errors that the host has not asked for yet, oldest first: the sense keys from the head of the ring to its
  tail. Nothing sets the qualifiers, and the additional codes are shifted out of their bytes.\<close>

definition pending :: "usbd_msc_handler \<Rightarrow> 8 word list" where
  "pending m = map (\<lambda>i. SenseKey (scsi_sense m ! ((unat (scsi_sense_head m) + i) mod 4)))
     [0..<(unat (scsi_sense_tail m) + 4 - unat (scsi_sense_head m)) mod 4]"

definition sense_ok :: "usbd_msc_handler \<Rightarrow> bool" where
  "sense_ok m \<longleftrightarrow> length (scsi_sense m) = 4 \<and> scsi_sense_head m < 4 \<and> scsi_sense_tail m < 4 \<and>
     (\<forall>e \<in> set (scsi_sense m). ASC e = 0 \<and> ASCQ e = 0)"

lemma ring_index: "i < 4 \<longleftrightarrow> i \<in> {0, 1, 2, 3}" for i :: "8 word"
proof
  assume "i < 4"
  then have "unat i \<in> {0, 1, 2, 3}" by (auto simp: word_less_nat_alt)
  then show "i \<in> {0, 1, 2, 3}" by (auto simp: word_unat_eq_iff)
qed (auto simp: word_less_nat_alt)

definition remember :: "8 word \<Rightarrow> usbd_msc_handler \<Rightarrow> usbd_msc_handler" where
  "remember k m = m\<lparr>scsi_sense := (scsi_sense m)[unat (scsi_sense_tail m) := (scsi_sense m ! unat (scsi_sense_tail m))\<lparr>SenseKey := k, ASC := 0\<rparr>],
     scsi_sense_tail := (if scsi_sense_tail m + 1 = 4 then 0 else scsi_sense_tail m + 1)\<rparr>"

definition forget :: "usbd_msc_handler \<Rightarrow> usbd_msc_handler" where
  "forget m = m\<lparr>scsi_sense_head := (if scsi_sense_head m + 1 = 4 then 0 else scsi_sense_head m + 1)\<rparr>"

lemma sense_code_result:
  "class_data u = Some m \<Longrightarrow> sense_ok m \<Longrightarrow> scsi_sense_code lun k a u = Ret (set_msc (remember k) u)"
proof -
  assume m: "class_data u = Some m" "sense_ok m"
  have "unat (scsi_sense_tail m) < length (scsi_sense m)" using m(2) by (auto simp: sense_ok_def word_less_nat_alt)
  moreover have "ucast (push_bit 8 (ucast a :: reg)) = (0 :: 8 word)" by (intro bit_word_eqI) (auto simp: bit_simps)
  ultimately show ?thesis using m by (simp add: scsi_sense_code_def with_msc_Some set_msc_def remember_def Let_def)
qed

lemma four_entries: "length xs = 4 \<Longrightarrow> \<exists>a b c d. xs = [a, b, c, d]"
  by (auto simp: eval_nat_numeral length_Suc_conv)

lemma remember_pending:
  assumes "sense_ok m"
  shows "sense_ok (remember k m)" "pending (remember k m) = (if length (pending m) = 3 then [] else pending m @ [k])"
proof -
  have "length (scsi_sense m) = 4" using assms by (simp add: sense_ok_def)
  then obtain a b c d where s: "scsi_sense m = [a, b, c, d]" using four_entries by blast
  have i: "scsi_sense_head m \<in> {0, 1, 2, 3}" "scsi_sense_tail m \<in> {0, 1, 2, 3}"
    using assms by (auto simp: sense_ok_def ring_index)
  show "sense_ok (remember k m)" using assms i s by (auto simp: sense_ok_def remember_def ring_index)
  show "pending (remember k m) = (if length (pending m) = 3 then [] else pending m @ [k])"
    using i s by (elim insertE) (simp_all add: pending_def remember_def upt_rec)
qed

lemma forget_pending:
  assumes "sense_ok m" and "pending m \<noteq> []"
  shows "sense_ok (forget m)" "pending (forget m) = tl (pending m)" "scsi_sense_head m \<noteq> scsi_sense_tail m"
    "SenseKey (scsi_sense m ! unat (scsi_sense_head m)) = hd (pending m)"
proof -
  have "length (scsi_sense m) = 4" using assms by (simp add: sense_ok_def)
  then obtain a b c d where s: "scsi_sense m = [a, b, c, d]" using four_entries by blast
  have i: "scsi_sense_head m \<in> {0, 1, 2, 3}" "scsi_sense_tail m \<in> {0, 1, 2, 3}"
    using assms by (auto simp: sense_ok_def ring_index)
  show "sense_ok (forget m)" using assms i s by (auto simp: sense_ok_def forget_def ring_index)
  show "pending (forget m) = tl (pending m)" "SenseKey (scsi_sense m ! unat (scsi_sense_head m)) = hd (pending m)"
    using i s assms(2) by (elim insertE; simp add: pending_def forget_def upt_rec)+
  show "scsi_sense_head m \<noteq> scsi_sense_tail m" using assms(2) by (auto simp: pending_def)
qed

text \<open>The answer that the host reads: the eighteen bytes of sense data at the start of the data.\<close>

definition answer_bytes :: "('h \<Rightarrow> 32 word \<Rightarrow> 8 word) \<Rightarrow> 'h msc_conf \<Rightarrow> 'h msc_dev \<Rightarrow> 8 word list" where
  "answer_bytes val C u = map (\<lambda>i. val (hw u) (bbb_data_at C + of_nat i)) [0..<18]"

context byte_registers
begin

lemma put_data_answer:
  assumes "bus S = B" and "\<And>i. i < 18 \<Longrightarrow> bbb_data_at C + of_nat i \<in> A" and "18 \<le> unat (MSC_MEDIA_PACKET_SIZE C)" and "i < 18"
  shows "\<exists>u'. put_data S C i v u = Ret u' \<and> class_data u' = class_data u \<and> answer_bytes val C u' = (answer_bytes val C u)[i := v]"
proof -
  have "(of_nat j :: 32 word) = of_nat i \<longleftrightarrow> j = i" if "j < 18" for j
    using that assms(4) by (simp add: word_unat_eq_iff small_nat)
  then have "map (\<lambda>j. val (wr8 B (bbb_data_at C + of_nat i) v (hw u)) (bbb_data_at C + of_nat j)) [0..<18] =
      (map (\<lambda>j. val (hw u) (bbb_data_at C + of_nat j)) [0..<18])[i := v]"
    using assms(2,4) by (intro nth_equalityI) (auto simp: nth_list_update wr_val)
  then show ?thesis using assms(1,3,4) by (simp add: put_data_def answer_bytes_def)
qed

lemma put_bytes_answer:
  assumes "bus S = B" and "\<And>i. i < 18 \<Longrightarrow> bbb_data_at C + of_nat i \<in> A" and "18 \<le> unat (MSC_MEDIA_PACKET_SIZE C)"
  shows "i + length vs \<le> 18 \<Longrightarrow> \<exists>u'. put_bytes S C i vs u = Ret u' \<and> class_data u' = class_data u \<and>
    answer_bytes val C u' = take i (answer_bytes val C u) @ vs @ drop (i + length vs) (answer_bytes val C u)"
proof (induction vs arbitrary: i u)
  case Nil
  then show ?case by simp
next
  case (Cons v vs)
  from Cons.prems have i: "i < 18" "i < length (answer_bytes val C u)" by (simp_all add: answer_bytes_def)
  obtain u1 where u1: "put_data S C i v u = Ret u1" "class_data u1 = class_data u" "answer_bytes val C u1 = (answer_bytes val C u)[i := v]"
    using put_data_answer [OF assms i(1)] by blast
  have "Suc i + length vs \<le> 18" using Cons.prems by simp
  from Cons.IH [OF this, of u1] obtain u2 where "put_bytes S C (Suc i) vs u1 = Ret u2" "class_data u2 = class_data u1"
    "answer_bytes val C u2 = take (Suc i) (answer_bytes val C u1) @ vs @ drop (Suc i + length vs) (answer_bytes val C u1)" by blast
  moreover have "take (Suc i) ((answer_bytes val C u)[i := v]) = take i (answer_bytes val C u) @ [v]"
    using i(2) by (simp add: take_Suc_conv_app_nth take_update_cancel)
  ultimately show ?case using u1 by (simp add: drop_update_cancel)
qed

lemma request_sense_result:
  assumes "bus S = B" and "\<And>i. i < 18 \<Longrightarrow> bbb_data_at C + of_nat i \<in> A" and "18 \<le> unat (MSC_MEDIA_PACKET_SIZE C)"
    and "params + 4 \<in> A" and "class_data u = Some m" and "sense_ok m"
  shows "\<exists>u' n. scsi_request_sense S C lun params u = Ret (0, u') \<and>
    class_data u' = Some ((if pending m = [] then m else forget m)\<lparr>bbb_datalen := n\<rparr>) \<and> n \<le> 18 \<and>
    answer_bytes val C u' = (replicate 18 0)[0 := 0x70, 2 := (if pending m = [] then 0 else hd (pending m)), 7 := 12]"
proof -
  note put = put_data_answer [OF assms(1-3)]
  have len: "length (answer_bytes val C u) = 18" by (simp add: answer_bytes_def)
  obtain u1 where u1: "put_bytes S C 0 (replicate 18 0) u = Ret u1" "class_data u1 = Some m" "answer_bytes val C u1 = replicate 18 0"
    using put_bytes_answer [OF assms(1-3), of 0 "replicate 18 0" u] assms(5) len by auto
  obtain u2 where u2: "put_data S C 0 0x70 u1 = Ret u2" "class_data u2 = Some m" "answer_bytes val C u2 = (replicate 18 0)[0 := 0x70]"
    using put [of 0 "0x70" u1] u1(2,3) by auto
  obtain u3 where u3: "put_data S C 7 12 u2 = Ret u3" "class_data u3 = Some m" "answer_bytes val C u3 = (replicate 18 0)[0 := 0x70, 7 := 12]"
    using put [of 7 12 u2] u2(2,3) by auto
  let ?e = "scsi_sense m ! unat (scsi_sense_head m)"
  have i: "unat (scsi_sense_head m) < length (scsi_sense m)" using assms(6) by (auto simp: sense_ok_def word_less_nat_alt)
  then have e: "ASC ?e = 0" "ASCQ ?e = 0" using assms(6) by (auto simp: sense_ok_def)
  obtain u4 where u4: "put_data S C 2 (SenseKey ?e) u3 = Ret u4" "class_data u4 = Some m"
    "answer_bytes val C u4 = (replicate 18 0)[0 := 0x70, 7 := 12, 2 := SenseKey ?e]"
    using put [of 2 "SenseKey ?e" u3] u3(2,3) by auto
  obtain u5 where u5: "put_data S C 12 0 u4 = Ret u5" "class_data u5 = Some m"
    "answer_bytes val C u5 = (replicate 18 0)[0 := 0x70, 7 := 12, 2 := SenseKey ?e]"
    using put [of 12 0 u4] u4(2,3) by (auto simp: eval_nat_numeral)
  obtain u6 where u6: "put_data S C 13 0 u5 = Ret u6" "class_data u6 = Some m"
    "answer_bytes val C u6 = (replicate 18 0)[0 := 0x70, 7 := 12, 2 := SenseKey ?e]"
    using put [of 13 0 u5] u5(2,3) by (auto simp: eval_nat_numeral)
  have get: "get8 S (params + 4) w = (val (hw w) (params + 4), w)" for w :: "'h msc_dev"
    using assms(1,4) by (simp add: hw_get_def rd_val)
  let ?n = "\<lambda>w :: 'h msc_dev. USB_MIN 18 (ucast (val (hw w) (params + 4)))"
  have n: "?n w \<le> 18" for w by (simp add: USB_MIN_def not_less)
  have answer: "answer_bytes val C (set_msc f w) = answer_bytes val C w" for f and w :: "'h msc_dev" by (simp add: answer_bytes_def)
  have none: "(replicate 18 (0 :: 8 word))[0 := 0x70, 2 := 0, 7 := 12] = (replicate 18 0)[0 := 0x70, 7 := 12]"
    by (simp add: eval_nat_numeral)
  show ?thesis
  proof (cases "pending m = []")
    case True
    then have "scsi_sense_head m = scsi_sense_tail m"
      using assms(6) by (auto simp: pending_def sense_ok_def ring_index)
    then have "scsi_request_sense S C lun params u = Ret (0, set_msc (\<lambda>m. m\<lparr>bbb_datalen := ?n u3\<rparr>) u3)"
      using u1(1) u2(1) u3(1,2) by (simp add: scsi_request_sense_def with_msc_Some get)
    then show ?thesis using True u3(2,3) n [of u3] answer by (auto simp: none)
  next
    case False
    note f = forget_pending [OF assms(6) False]
    have "scsi_request_sense S C lun params u = Ret (0, set_msc (\<lambda>m. m\<lparr>bbb_datalen := ?n u6\<rparr>) (set_msc forget u6))"
      using u1(1) u2(1) u3(1,2) u4(1) u5(1) u6(1) i e f(3) by (simp add: scsi_request_sense_def with_msc_Some get Let_def forget_def [abs_def])
    then show ?thesis using False u6(2,3) n [of u6] answer f(4) by (auto simp: list_update_swap)
  qed
qed

end

interpretation gd32_logged_bytes: byte_registers gd32_logged "\<lambda>h a. fst (gd32_read8 a (fst h))" UNIV
  by unfold_locales (auto simp: gd32_logged_def gd32_bytes)

text \<open>C15: The errors that the device remembers are a queue of at most three: one more is put behind them, but if three
  wait already, it empties the queue. A request for sense data takes the oldest away and names its sense
  key in the answer; what went wrong in detail, the additional sense code, is never in it, and when nothing
  is remembered the answer says so.\<close>

theorem sense_errors_ring:
  assumes "byte_registers (bus S) val A" and "\<And>i. i < 18 \<Longrightarrow> bbb_data_at C + of_nat i \<in> A" and "params + 4 \<in> A"
    and "18 \<le> unat (MSC_MEDIA_PACKET_SIZE C)" and "class_data u = Some m" and "sense_ok m"
  shows "(\<exists>u' m'. scsi_sense_code lun k a u = Ret u' \<and> class_data u' = Some m' \<and> sense_ok m' \<and>
      pending m' = (if length (pending m) = 3 then [] else pending m @ [k])) \<and>
    (\<exists>u' m'. scsi_request_sense S C lun params u = Ret (0, u') \<and> class_data u' = Some m' \<and> sense_ok m' \<and>
      pending m' = tl (pending m) \<and>
      answer_bytes val C u' = (replicate 18 0)[0 := 0x70, 2 := (if pending m = [] then 0 else hd (pending m)), 7 := 12])"
proof -
  have data: "sense_ok (x\<lparr>bbb_datalen := n\<rparr>) = sense_ok x" "pending (x\<lparr>bbb_datalen := n\<rparr>) = pending x" for x n
    by (simp_all add: sense_ok_def pending_def)
  from byte_registers.request_sense_result [OF assms(1) refl assms(2,4,3,5,6), of lun]
  show ?thesis
    using sense_code_result [OF assms(5,6), of lun k a] remember_pending [OF assms(6), of k] forget_pending(1,2) [OF assms(6)] assms(5,6)
    by (cases "pending m = []") (force simp: data)+
qed

text \<open>Three errors wait.\<close>

definition failing :: usbd_msc_handler where
  "failing = remember 5 (remember 2 (remember 4 disk_handler))"

lemma failing_pending: "sense_ok failing" "pending failing = [4, 2, 5]"
proof -
  have ok: "sense_ok disk_handler" "pending disk_handler = []"
    by (simp_all add: sense_ok_def pending_def disk_handler_def zero_handler_def word_less_nat_alt)
  from remember_pending [OF ok(1), of 4] ok(2) have one: "sense_ok (remember 4 disk_handler)" "pending (remember 4 disk_handler) = [4]" by simp_all
  from remember_pending [OF one(1), of 2] one(2) have two: "sense_ok (remember 2 (remember 4 disk_handler))"
    "pending (remember 2 (remember 4 disk_handler)) = [4, 2]" by simp_all
  from remember_pending [OF two(1), of 5] two(2) show "sense_ok failing" "pending failing = [4, 2, 5]" by (simp_all add: failing_def)
qed

theorem sense_errors_ring_witness:
  "(\<exists>u' m'. scsi_sense_code 0 3 0x11 ((disk_device ((\<lambda>_. 0), []))\<lparr>class_data := Some failing\<rparr>) = Ret u' \<and>
      class_data u' = Some m' \<and> pending m' = []) \<and>
    (\<exists>u' m'. scsi_request_sense gd32_logged_usb disk_conf 0 0x2000030F ((disk_device ((\<lambda>_. 0), []))\<lparr>class_data := Some failing\<rparr>) =
        Ret (0, u') \<and> class_data u' = Some m' \<and> pending m' = [2, 5] \<and>
      answer_bytes (\<lambda>h a. fst (gd32_read8 a (fst h))) disk_conf u' = [0x70, 0, 4, 0, 0, 0, 0, 12, 0, 0, 0, 0, 0, 0, 0, 0, 0, 0])"
proof -
  have bytes: "byte_registers (bus gd32_logged_usb) (\<lambda>(h :: medium_op logged) a. fst (gd32_read8 a (fst h))) UNIV"
    using gd32_logged_bytes.byte_registers_axioms by (simp add: gd32_logged_usb_def)
  have list: "(replicate 18 (0 :: 8 word))[0 := 0x70, 2 := 4, 7 := 12] = [0x70, 0, 4, 0, 0, 0, 0, 12, 0, 0, 0, 0, 0, 0, 0, 0, 0, 0]"
    by (simp add: eval_nat_numeral)
  show ?thesis
    using sense_errors_ring [OF bytes, of disk_conf "0x2000030F" "(disk_device ((\<lambda>_. 0), []))\<lparr>class_data := Some failing\<rparr>" failing 0 3 "0x11"]
      failing_pending by (auto simp: list)
qed

end
