(* ===== verification/UsbBsd.thy ===== *)
theory UsbBsd
  imports UsbLinux
begin

text \<open>
  \<open>usb-freebsd.c\<close> and \<open>usb-netbsd.c\<close>: the same words on the BSDs. \<open>hdr\<close> gives the values of the
  constants of the system headers and the offsets of the fields of their structures. The words
  have the names they have in \<open>usb-linux.c\<close>, with the system as suffix.
\<close>

section \<open>FreeBSD\<close>

definition d_name_freebsd :: "(string \<Rightarrow> cell) \<Rightarrow> addr \<Rightarrow> addr" where
  "d_name_freebsd hdr dev = dev + hdr ''offsetof d_name''"

text \<open>Opening the device that matched, and setting its two timeouts.\<close>

definition set_timeout :: "cell \<Rightarrow> cell \<Rightarrow> mu \<Rightarrow> (cell \<times> mu) outcome" where
  "set_timeout fd request s = struct_call ''ioctl'' [fd, request, local_at s ''timeout''] (local_at s ''timeout'') 4 s"

definition open_matched_freebsd :: "(string \<Rightarrow> cell) \<Rightarrow> addr \<Rightarrow> mu \<Rightarrow> (cint \<times> mu) outcome" where
  "open_matched_freebsd hdr path s =
     bindo (store32 (local_at s ''timeout'') 5000 s) (\<lambda>s.
     bindo (path_call ''open'' path [O_RDWR] s) (\<lambda>(fd, s).
     if fd = - 1 then Ret (- 1, s)
     else bindo (set_timeout fd (hdr ''USB_SET_RX_TIMEOUT'') s) (\<lambda>(r, s).
       if r = - 1 then Ret (- 1, s)
       else bindo (set_timeout fd (hdr ''USB_SET_TX_TIMEOUT'') s) (\<lambda>(r, s).
         if r = - 1 then Ret (- 1, s) else Ret (int_of_cell fd, s)))))"

text \<open>Trying one path: nothing is a \<open>continue\<close>.\<close>

definition try_descriptor ::
    "cell \<Rightarrow> (addr \<Rightarrow> mu \<Rightarrow> (cint \<times> mu) outcome) \<Rightarrow> addr \<Rightarrow> cint \<Rightarrow> cint \<Rightarrow> mu \<Rightarrow> (cint option \<times> mu) outcome" where
  "try_descriptor request open_matched path vid pid s =
     bindo (path_call ''open'' path [O_RDONLY] s) (\<lambda>(fd, s).
     if fd = - 1 then Ret (None, s)
     else bindo (syscall (Call ''ioctl'' [fd, request, local_at s ''dev_desc''] []) s) (\<lambda>(res, s).
       bindo (void_call (Call ''close'' [fd] []) s) (\<lambda>s.
       if res = - 1 then Ret (None, s)
       else bindo (ids_match vid pid s) (\<lambda>same.
         if same then bindo (open_matched path s) (\<lambda>(fd, s). Ret (Some fd, s)) else Ret (None, s)))))"

definition is_endpoint0 :: "(string \<Rightarrow> cell) \<Rightarrow> addr \<Rightarrow> mu \<Rightarrow> bool outcome" where
  "is_endpoint0 hdr dev s =
     bindo (load_byte (d_name_freebsd hdr dev) s) (\<lambda>c.
     if c = byte_of_char CHR ''.'' then Ret False
     else bindo (load16 (dev + hdr ''offsetof d_namlen'') s) (\<lambda>n.
       bindo (load_byte (d_name_freebsd hdr dev + cell_of_int (ucast n) - 1) s) (\<lambda>c.
         Ret (c = byte_of_char CHR ''0''))))"

fun usbdir_loop :: "(string \<Rightarrow> cell) \<Rightarrow> nat \<Rightarrow> addr \<Rightarrow> cint \<Rightarrow> cint \<Rightarrow> mu \<Rightarrow> (cint \<times> mu) outcome" where
  "usbdir_loop hdr 0 usbdir vid pid s = Timeout"
| "usbdir_loop hdr (Suc n) usbdir vid pid s =
     bindo (syscall (Call ''readdir'' [usbdir] []) s) (\<lambda>(dev, s).
     if dev = 0 then Ret (0, s)
     else bindo (is_endpoint0 hdr dev s) (\<lambda>ok.
       if \<not> ok then usbdir_loop hdr n usbdir vid pid s
       else let path = local_at s ''path'' in
         bindo (concat_paths path 32 (lit s ''/dev/usb'') (d_name_freebsd hdr dev) s) (\<lambda>(_, s).
         bindo (try_descriptor (hdr ''USB_GET_DEVICE_DESC'') (open_matched_freebsd hdr) path vid pid s) (\<lambda>(r, s).
         case r of Some matched \<Rightarrow> Ret (matched, s) | None \<Rightarrow> usbdir_loop hdr n usbdir vid pid s))))"

definition enumerate_devices_freebsd :: "(string \<Rightarrow> cell) \<Rightarrow> cint \<Rightarrow> cint \<Rightarrow> mu \<Rightarrow> (cint \<times> mu) outcome" where
  "enumerate_devices_freebsd hdr idVendor idProduct s =
     bindo (path_call ''opendir'' (lit s ''/dev/usb'') [] s) (\<lambda>(usbdir, s).
     if usbdir = 0 then Ret (0, s)
     else usbdir_loop hdr (Suc (length (script s))) usbdir idVendor idProduct s)"

definition mu_usb_find_device_freebsd :: "(string \<Rightarrow> cell) \<Rightarrow> exec \<Rightarrow> exec" where
  "mu_usb_find_device_freebsd hdr ex s =
     (if \<not> stk 2 s then Undef
      else bindo (enumerate_devices_freebsd hdr (int_of_cell (ST 1 s)) (int_of_cell (ST 0 s)) s)
        (\<lambda>(matched, s). push_matched ex matched s))"

definition mu_usb_close_freebsd :: "exec \<Rightarrow> exec" where
  "mu_usb_close_freebsd ex s = mu_close_file ex s"

text \<open>The fields of the \<open>usb_ctl_request\<close>.\<close>

definition ctl_request_fields :: "(string \<Rightarrow> cell) \<Rightarrow> cell \<Rightarrow> mu \<Rightarrow> (addr \<times> byte list) list" where
  "ctl_request_fields hdr short_ok s =
     (let req = hdr ''offsetof ucr_request''; bmRequestType = ucast (ST 6 s) :: byte in
      [(req, [bmRequestType]), (req + 1, le_bytes 1 (ST 5 s)), (req + 2, le_bytes 2 (ST 4 s)),
       (req + 4, le_bytes 2 (ST 3 s)), (req + 6, le_bytes 2 (ST 2 s)),
       (hdr ''offsetof ucr_data'', le_bytes 8 (ST 1 s)), (hdr ''offsetof ucr_addr'', le_bytes (unat (hdr ''sizeof ucr_addr'')) (0 :: cell)),
       (hdr ''offsetof ucr_flags'',
         le_bytes (unat (hdr ''sizeof ucr_flags'')) (if bmRequestType = ucast (hdr ''UT_READ_DEVICE'') then short_ok else 0))])"

definition mu_usb_request_freebsd :: "(string \<Rightarrow> cell) \<Rightarrow> exec \<Rightarrow> exec" where
  "mu_usb_request_freebsd hdr ex s =
     (if \<not> stk 7 s then Undef
      else let ucr = local_at s ''ucr''; fd = as_int (ST 0 s) in
        bindo (store_fields ucr (ctl_request_fields hdr (hdr ''USB_SHORT_XFER_OK'') s) s) (\<lambda>s.
        bindo (struct_call ''ioctl'' [fd, hdr ''USB_DO_REQUEST'', ucr] ucr (unat (hdr ''sizeof ucr'')) (DROP 7 s)) (\<lambda>(r, s).
        if r = - 1 then abort_strerror ex s else Ret s)))"

section \<open>NetBSD, OpenBSD, DragonFly and older FreeBSD\<close>

definition UGEN_DEVNUM :: addr where "UGEN_DEVNUM = 9"

definition open_matched_netbsd :: "(string \<Rightarrow> cell) \<Rightarrow> addr \<Rightarrow> mu \<Rightarrow> (cint \<times> mu) outcome" where
  "open_matched_netbsd hdr path s =
     bindo (store32 (local_at s ''timeout'') 5000 s) (\<lambda>s.
     bindo (path_call ''open'' path [O_RDWR] s) (\<lambda>(fd, s).
     if fd = - 1 then Ret (- 1, s)
     else bindo (set_timeout fd (hdr ''USB_SET_TIMEOUT'') s) (\<lambda>(r, s).
       if r = - 1 then Ret (- 1, s) else Ret (int_of_cell fd, s))))"

fun ugen_loop :: "(string \<Rightarrow> cell) \<Rightarrow> addr \<Rightarrow> byte list \<Rightarrow> cint \<Rightarrow> cint \<Rightarrow> mu \<Rightarrow> (cint \<times> mu) outcome" where
  "ugen_loop hdr dev_ep0 [] vid pid s = Ret (0, s)"
| "ugen_loop hdr dev_ep0 (devnum # ds) vid pid s =
     bindo (store_byte (dev_ep0 + UGEN_DEVNUM) devnum s) (\<lambda>s.
     bindo (try_descriptor (hdr ''USB_GET_DEVICE_DESC'') (open_matched_netbsd hdr) dev_ep0 vid pid s) (\<lambda>(r, s).
     case r of Some matched \<Rightarrow> Ret (matched, s) | None \<Rightarrow> ugen_loop hdr dev_ep0 ds vid pid s))"

text \<open>\<open>UGEN_EP0\<close> is the string \<open>ugen_ep0\<close>, one of two.\<close>

definition enumerate_devices_netbsd :: "(string \<Rightarrow> cell) \<Rightarrow> string \<Rightarrow> cint \<Rightarrow> cint \<Rightarrow> mu \<Rightarrow> (cint \<times> mu) outcome" where
  "enumerate_devices_netbsd hdr ugen_ep0 idVendor idProduct s =
     (let dev_ep0 = local_at s ''dev_ep0'' in
      bindo (store_bytes dev_ep0 (bytes_of ugen_ep0 @ [0]) s) (\<lambda>s.
      ugen_loop hdr dev_ep0 [48, 49, 50, 51] idVendor idProduct s))"

definition mu_usb_find_device_netbsd :: "(string \<Rightarrow> cell) \<Rightarrow> string \<Rightarrow> exec \<Rightarrow> exec" where
  "mu_usb_find_device_netbsd hdr ugen_ep0 ex s =
     (if \<not> stk 2 s then Undef
      else bindo (enumerate_devices_netbsd hdr ugen_ep0 (int_of_cell (ST 1 s)) (int_of_cell (ST 0 s)) s)
        (\<lambda>(matched, s). push_matched ex matched s))"

definition mu_usb_close_netbsd :: "exec \<Rightarrow> exec" where
  "mu_usb_close_netbsd ex s = mu_close_file ex s"

definition mu_usb_read_netbsd :: "(string \<Rightarrow> cell) \<Rightarrow> exec \<Rightarrow> exec" where
  "mu_usb_read_netbsd hdr ex s =
     (if \<not> stk 3 s then Undef
      else let buf = ST 2 s; n = ST 1 s; fd = as_int (ST 0 s); dummy = local_at s ''dummy'' in
        bindo (store32 dummy 1 s) (\<lambda>s.
        bindo (struct_call ''ioctl'' [fd, hdr ''USB_SET_SHORT_XFER'', dummy] dummy 4 (DROP 2 s)) (\<lambda>(_, s).
        bindo (read_carefully ex fd buf n s) (\<lambda>(count, s).
        if stk 1 s then Ret (set_ST 0 count s) else Undef))))"

definition mu_usb_write_netbsd :: "exec \<Rightarrow> exec" where
  "mu_usb_write_netbsd ex s =
     (if \<not> stk 3 s then Undef
      else let buf = ST 2 s; n = ST 1 s; fd = as_int (ST 0 s) in
        write_carefully ex fd buf n (DROP 3 s))"

definition mu_usb_control_netbsd :: "(string \<Rightarrow> cell) \<Rightarrow> exec \<Rightarrow> exec" where
  "mu_usb_control_netbsd hdr ex s =
     (if \<not> stk 7 s then Undef
      else let ucr = local_at s ''ucr''; fd = as_int (ST 0 s) in
        bindo (store_fields ucr (ctl_request_fields hdr (hdr ''USBD_SHORT_XFER_OK'') s) s) (\<lambda>s.
        bindo (struct_call ''ioctl'' [fd, hdr ''USB_DO_REQUEST'', ucr] ucr (unat (hdr ''sizeof ucr'')) (DROP 6 s)) (\<lambda>(r, s).
        if \<not> stk 1 s then Undef
        else if r = - 1 then abort_strerror ex (set_ST 0 0 s)
        else bindo (load32 (ucr + hdr ''offsetof ucr_actlen'') s) (\<lambda>n. Ret (set_ST 0 (cell_of_int n) s)))))"

end
