(* ===== verification/UsbDarwin.thy ===== *)
theory UsbDarwin
  imports UsbLinux
begin

text \<open>
  \<open>usb-darwin.c\<close>: the same words on OSX, over the objects of CoreFoundation and IOKit. Every
  function and method of those frameworks is a call of the system; a constant, a class name or a
  UUID of theirs is the address or value \<open>hdr\<close> gives it. The words have the names they have in
  \<open>usb-linux.c\<close>, with \<open>_osx\<close> added.
\<close>

section \<open>Matching dictionaries\<close>

definition kIOReturnSuccess :: cell where "kIOReturnSuccess = 0"
definition kCFNumberSInt32Type :: cell where "kCFNumberSInt32Type = 3"

definition number_create :: "cint \<Rightarrow> mu \<Rightarrow> (cell \<times> mu) outcome" where
  "number_create value s =
     bindo (store32 (local_at s ''value'') value s) (\<lambda>s.
     struct_call ''CFNumberCreate'' [0, kCFNumberSInt32Type, local_at s ''value''] (local_at s ''value'') 4 s)"

definition add_number_match :: "cell \<Rightarrow> cell \<Rightarrow> cint \<Rightarrow> exec" where
  "add_number_match matching keyRef value s =
     bindo (number_create value s) (\<lambda>(numRef, s).
     bindo (void_call (Call ''CFDictionarySetValue'' [matching, keyRef, numRef] []) s) (\<lambda>s.
     void_call (Call ''CFRelease'' [numRef] []) s))"

text \<open>Adding several pairs, in order.\<close>

fun add_matches :: "cell \<Rightarrow> (cell \<times> cint) list \<Rightarrow> exec" where
  "add_matches matching [] s = Ret s"
| "add_matches matching ((k, v) # kvs) s = bindo (add_number_match matching k v s) (add_matches matching kvs)"

section \<open>Finding a service and its interface\<close>

text \<open>\<open>IOCreatePlugInInterfaceForService\<close>, \<open>QueryInterface\<close> and \<open>Release\<close>, with their error
  messages; the interface goes to \<open>continue\<close>.\<close>

definition with_interface ::
    "(string \<Rightarrow> cell) \<Rightarrow> string \<Rightarrow> string \<Rightarrow> string \<Rightarrow> exec \<Rightarrow> (addr \<Rightarrow> exec) \<Rightarrow> cell \<Rightarrow> exec" where
  "with_interface hdr client uuid var ex continue ioService s =
     bindo (syscall (Call ''IOCreatePlugInInterfaceForService''
         [ioService, hdr client, hdr ''kIOCFPlugInInterfaceID'', local_at s ''pluginInterface'', local_at s ''score''] []) s)
       (\<lambda>(ior, s).
     if ior \<noteq> kIOReturnSuccess then abort_zmsg ex (lit s ''IOCreatePlugInInterfaceForService failed'') s
     else bindo (load (local_at s ''pluginInterface'') s) (\<lambda>plugin.
     if plugin = 0 then abort_zmsg ex (lit s ''IOCreatePlugInInterfaceForService failed'') s
     else bindo (syscall (Call ''QueryInterface'' [plugin, hdr uuid, local_at s var] []) s) (\<lambda>(ior, s).
     bindo (void_call (Call ''Release'' [plugin] []) s) (\<lambda>s.
     if ior \<noteq> kIOReturnSuccess then abort_zmsg ex (lit s ''QueryInterface failed'') s
     else bindo (load (local_at s var) s) (\<lambda>interface.
     if interface = 0 then abort_zmsg ex (lit s ''QueryInterface failed'') s
     else continue interface s)))))"

text \<open>Matching a class with ids, and looking up the service; none is "not found".\<close>

definition with_service ::
    "(string \<Rightarrow> cell) \<Rightarrow> string \<Rightarrow> (mu \<Rightarrow> (cell \<times> cint) list) \<Rightarrow> exec \<Rightarrow> (cell \<Rightarrow> exec) \<Rightarrow> exec" where
  "with_service hdr class_name pairs ex continue s =
     bindo (syscall (Call ''IOServiceMatching'' [hdr class_name] []) s) (\<lambda>(matching, s).
     if matching = 0 then abort_zmsg ex (lit s ''IOServiceMatching returned NULL'') s
     else bindo (add_matches matching (pairs s) s) (\<lambda>s.
     bindo (syscall (Call ''IOServiceGetMatchingService'' [hdr ''kIOMasterPortDefault'', matching] []) s) (\<lambda>(ioService, s).
     if \<not> stk 2 s then Undef
     else if ioService = 0 then Ret (set_ST 0 0 (DROP 1 s))
     else continue ioService s)))"

definition push_found :: "addr \<Rightarrow> exec" where
  "push_found handle s = (if stk 2 s then Ret (set_ST 0 (- 1) (set_ST 1 handle s)) else Undef)"

text \<open>The words of \<open>WITH_USB_DEVICE\<close>.\<close>

definition mu_usb_find_device_class_osx :: "(string \<Rightarrow> cell) \<Rightarrow> exec \<Rightarrow> exec" where
  "mu_usb_find_device_class_osx hdr ex s =
     (if \<not> stk 2 s then Undef
      else with_service hdr ''kIOUSBDeviceClassName''
        (\<lambda>s. [(hdr ''kUSBVendorID'', int_of_cell (ST 1 s)), (hdr ''kUSBProductID'', int_of_cell (ST 0 s))]) ex
        (with_interface hdr ''kIOUSBDeviceUserClientTypeID'' ''kIOUSBDeviceInterfaceID'' ''deviceInterface'' ex
          push_found) s)"

definition mu_usb_close_device_osx :: exec where
  "mu_usb_close_device_osx s =
     (if \<not> stk 1 s then Undef
      else bindo (void_call (Call ''Release'' [ST 0 s] []) s) (\<lambda>s. Ret (DROP 1 s)))"

text \<open>The fields common to \<open>IOUSBDevRequest\<close> and \<open>IOUSBDevRequestTO\<close>.\<close>

definition dev_request_fields :: "mu \<Rightarrow> (addr \<times> byte list) list" where
  "dev_request_fields s =
     [(0, le_bytes 1 (ST 6 s)), (1, le_bytes 1 (ST 5 s)), (2, le_bytes 2 (ST 4 s)), (4, le_bytes 2 (ST 3 s)),
      (6, le_bytes 2 (ST 2 s)), (8, le_bytes 8 (ST 1 s))]"

definition mu_usb_device_request_osx :: "exec \<Rightarrow> exec" where
  "mu_usb_device_request_osx ex s =
     (if \<not> stk 7 s then Undef
      else let dev = ST 0 s; tr = local_at s ''tr'' in
        bindo (store_fields tr (dev_request_fields s) s) (\<lambda>s.
        bindo (struct_call ''DeviceRequest'' [dev, tr] tr 24 (DROP 7 s)) (\<lambda>(ior, s).
        if ior \<noteq> kIOReturnSuccess then abort_zmsg ex (lit s ''DeviceRequest failed'') s else Ret s)))"

section \<open>Interfaces and pipes\<close>

definition open_interface :: "exec \<Rightarrow> addr \<Rightarrow> exec" where
  "open_interface ex intf s =
     bindo (syscall (Call ''USBInterfaceOpen'' [intf] []) s) (\<lambda>(ior, s).
     if ior \<noteq> kIOReturnSuccess then abort_zmsg ex (lit s ''USBInterfaceOpen failed'') s
     else push_found intf s)"

definition mu_usb_find_device_osx :: "(string \<Rightarrow> cell) \<Rightarrow> exec \<Rightarrow> exec" where
  "mu_usb_find_device_osx hdr ex s =
     (if \<not> stk 2 s then Undef
      else with_service hdr ''kIOUSBInterfaceClassName''
        (\<lambda>s. [(hdr ''kUSBVendorID'', int_of_cell (ST 1 s)), (hdr ''kUSBProductID'', int_of_cell (ST 0 s)),
              (hdr ''kUSBInterfaceNumber'', 0), (hdr ''kUSBConfigurationValue'', 1)]) ex
        (with_interface hdr ''kIOUSBInterfaceUserClientTypeID'' ''kIOUSBInterfaceInterfaceID190'' ''intfInterface'' ex
          (open_interface ex)) s)"

definition mu_usb_close_osx :: "exec \<Rightarrow> exec" where
  "mu_usb_close_osx ex s =
     (if \<not> stk 1 s then Undef
      else let intf = ST 0 s in
        bindo (syscall (Call ''USBInterfaceClose'' [intf] []) s) (\<lambda>(ior, s).
        if ior \<noteq> kIOReturnSuccess then abort_zmsg ex (lit s ''USBInterfaceClose failed'') s
        else bindo (void_call (Call ''Release'' [intf] []) s) (\<lambda>s. Ret (DROP 1 s))))"

definition mu_usb_control_osx :: "exec \<Rightarrow> exec" where
  "mu_usb_control_osx ex s =
     (if \<not> stk 7 s then Undef
      else let intf = ST 0 s; tr = local_at s ''tr'' in
        bindo (store_fields tr (dev_request_fields s @ [(20, le_bytes 4 (1000 :: cell)), (24, le_bytes 4 (4000 :: cell))]) s) (\<lambda>s.
        bindo (struct_call ''ControlRequestTO'' [intf, 0, tr] tr 32 (DROP 6 s)) (\<lambda>(ior, s).
        if \<not> stk 1 s then Undef
        else if ior \<noteq> kIOReturnSuccess then abort_zmsg ex (lit s ''ControlRequest failed'') (set_ST 0 0 s)
        else bindo (load32 (tr + 16) s) (\<lambda>wLenDone. Ret (set_ST 0 (ucast wLenDone) s)))))"

text \<open>The word of \<open>WITH_USB_EXTRAS\<close>.\<close>

definition mu_usb_get_pipe_properties_osx :: "exec \<Rightarrow> exec" where
  "mu_usb_get_pipe_properties_osx ex s =
     (if \<not> (stk 2 s \<and> room 3 s) then Undef
      else let intf = ST 0 s in
        bindo (syscall (Call ''GetPipeProperties'' [intf, ST 1 s, local_at s ''direction'', local_at s ''number'',
           local_at s ''transfer_type'', local_at s ''max_packet_size'', local_at s ''interval''] []) s) (\<lambda>(ior, s).
        if ior \<noteq> kIOReturnSuccess then abort_zmsg ex (lit s ''GetPipeProperties failed'') s
        else let s = DROP (- 3) s in
          bindo (load_byte (local_at s ''direction'') s) (\<lambda>v. let s = set_ST 4 (ucast v) s in
          bindo (load_byte (local_at s ''number'') s) (\<lambda>v. let s = set_ST 3 (ucast v) s in
          bindo (load_byte (local_at s ''transfer_type'') s) (\<lambda>v. let s = set_ST 2 (ucast v) s in
          bindo (load16 (local_at s ''max_packet_size'') s) (\<lambda>v. let s = set_ST 1 (ucast v) s in
          bindo (load_byte (local_at s ''interval'') s) (\<lambda>v. Ret (set_ST 0 (ucast v) s))))))))"

definition mu_usb_read_pipe_osx :: "exec \<Rightarrow> exec" where
  "mu_usb_read_pipe_osx ex s =
     (if \<not> stk 4 s then Undef
      else let intf = ST 0 s; size_at = local_at s ''size''; pipe = ucast (ucast (ST 1 s) :: byte) in
        bindo (store32 size_at (int_of_cell (ST 2 s)) s) (\<lambda>s.
        bindo (struct_call ''ReadPipeTO'' [intf, pipe, ST 3 s, size_at, 100, 400] size_at 4 s) (\<lambda>(ior, s).
        if ior \<noteq> kIOReturnSuccess then abort_zmsg ex (lit s ''ReadPipe failed'') s
        else bindo (load32 size_at s) (\<lambda>n. Ret (set_ST 0 (ucast n) (DROP 3 s))))))"

definition mu_usb_write_pipe_osx :: "exec \<Rightarrow> exec" where
  "mu_usb_write_pipe_osx ex s =
     (if \<not> stk 4 s then Undef
      else let intf = ST 0 s; pipe = ucast (ucast (ST 1 s) :: byte);
               n = ucast (ucast (ST 2 s) :: 32 word) :: cell in
        bindo (struct_call ''WritePipeTO'' [intf, pipe, ST 3 s, n, 100, 400] (ST 3 s) (unat n) s) (\<lambda>(ior, s).
        if ior \<noteq> kIOReturnSuccess then abort_zmsg ex (lit s ''WritePipe failed'') s
        else Ret (DROP 4 s)))"

section \<open>HIDs\<close>

definition open_hid :: "exec \<Rightarrow> exec" where
  "open_hid ex s =
     bindo (load (local_at s ''dev'') s) (\<lambda>dev.
     bindo (syscall (Call ''IOHIDDeviceOpen'' [dev, 0] []) s) (\<lambda>(ior, s).
     if ior \<noteq> kIOReturnSuccess then abort_zmsg ex (lit s ''IOHIDDeviceOpen failed'') s
     else push_found dev s))"

definition mu_hid_find_device_osx :: "(string \<Rightarrow> cell) \<Rightarrow> exec \<Rightarrow> exec" where
  "mu_hid_find_device_osx hdr ex s =
     (if \<not> stk 2 s then Undef
      else bindo (syscall (Call ''IOHIDManagerCreate'' [0, 0] []) s) (\<lambda>(hidmgr, s).
        bindo (syscall (Call ''CFDictionaryCreateMutable''
          [0, 0, hdr ''&kCFTypeDictionaryKeyCallBacks'', hdr ''&kCFTypeDictionaryValueCallBacks''] []) s) (\<lambda>(matching, s).
        bindo (add_matches matching
          [(hdr ''kIOHIDVendorIDKey'', int_of_cell (ST 1 s)), (hdr ''kIOHIDProductIDKey'', int_of_cell (ST 0 s))] s) (\<lambda>s.
        bindo (void_call (Call ''IOHIDManagerSetDeviceMatching'' [hidmgr, matching] []) s) (\<lambda>s.
        bindo (syscall (Call ''IOHIDManagerOpen'' [hidmgr, 0] []) s) (\<lambda>(ior, s).
        if ior \<noteq> kIOReturnSuccess then abort_zmsg ex (lit s ''IOHIDManagerOpen failed'') s
        else bindo (syscall (Call ''IOHIDManagerCopyDevices'' [hidmgr] []) s) (\<lambda>(devset, s).
        if \<not> stk 2 s then Undef
        else if devset = 0 then Ret (set_ST 0 0 (DROP 1 s))
        else bindo (syscall (Call ''CFSetGetCount'' [devset] []) s) (\<lambda>(devcnt, s).
        if 1 <s devcnt then abort_zmsg ex (lit s ''matched too many devices'') s
        else bindo (void_call (Call ''CFSetGetValues'' [devset, local_at s ''dev''] []) s) (open_hid ex)))))))))"

definition mu_hid_read_osx :: "exec \<Rightarrow> exec" where
  "mu_hid_read_osx ex s =
     (if \<not> stk 3 s then Undef
      else let size_at = local_at s ''size'' in
        bindo (store size_at (ST 1 s) s) (\<lambda>s.
        bindo (struct_call ''IOHIDDeviceGetReport'' [ST 0 s, 0, 0, ST 2 s, size_at] size_at 8 s) (\<lambda>(ior, s).
        if ior \<noteq> kIOReturnSuccess then abort_zmsg ex (lit s ''GetReport failed'') s
        else bindo (load size_at s) (\<lambda>n. Ret (set_ST 0 n (DROP 2 s))))))"

definition mu_hid_write_osx :: "exec \<Rightarrow> exec" where
  "mu_hid_write_osx ex s =
     (if \<not> stk 3 s then Undef
      else bindo (struct_call ''IOHIDDeviceSetReport'' [ST 0 s, 1, 0, ST 2 s, ST 1 s] (ST 2 s) (unat (ST 1 s)) s) (\<lambda>(ior, s).
        if ior \<noteq> kIOReturnSuccess then abort_zmsg ex (lit s ''SetReport failed'') s
        else Ret (DROP 3 s)))"

end
